(* ===== verification/Js_Base.thy ===== *)
theory Js_Base
  imports Main
begin

section \<open>Shared base: results, effects, collections of facts\<close>

text \<open>
  The vocabulary every component uses. A TypeScript function that can throw is a function into
  \<open>'e + 'a\<close> (\<open>Inl\<close> the thrown value); an \<open>async\<close> method that reads and writes stored state
  is an action \<open>'s \<Rightarrow> ('e + 'a) \<times> 's\<close>, whose state survives the throw, as a database row
  written before an exception does. The combinators below are the sequencing, \<open>throw\<close> and
  \<open>try/catch\<close> of the source; the lemmas turn a run of them into its branches.
\<close>

named_theorems result_simps \<open>case analysis of the result combinators\<close>
named_theorems guard_simps \<open>success of a guarded result\<close>
named_theorems act_simps \<open>evaluation of the action combinators\<close>
named_theorems table_simps \<open>lookups in stored tables after a statement\<close>
named_theorems text_simps \<open>evaluation of the string helpers\<close>

subsection \<open>Throwing functions\<close>

definition bindR :: "'e + 'a \<Rightarrow> ('a \<Rightarrow> 'e + 'b) \<Rightarrow> 'e + 'b" where
  "bindR m f = (case m of Inl e \<Rightarrow> Inl e | Inr x \<Rightarrow> f x)"

definition throwUnless :: "bool \<Rightarrow> 'e \<Rightarrow> 'e + 'a \<Rightarrow> 'e + 'a" where
  "throwUnless c e k = (if c then k else Inl e)"

definition tryR :: "'e + 'a \<Rightarrow> ('e \<Rightarrow> 'f + 'a) \<Rightarrow> 'f + 'a" where
  "tryR m h = (case m of Inl e \<Rightarrow> h e | Inr x \<Rightarrow> Inr x)"

text \<open>A \<open>.map\<close> whose callback may throw: it stops at the first throw.\<close>

fun mapR :: "('a \<Rightarrow> 'e + 'b) \<Rightarrow> 'a list \<Rightarrow> 'e + 'b list" where
  "mapR f [] = Inr []"
| "mapR f (x # xs) = bindR (f x) (\<lambda>y. bindR (mapR f xs) (\<lambda>ys. Inr (y # ys)))"

lemma bindR_simps [simp]:
  "bindR (Inl e) f = Inl e"
  "bindR (Inr x) f = f x"
  by (simp_all add: bindR_def)

lemma bindR_Inr_iff [result_simps]:
  "bindR m f = Inr y \<longleftrightarrow> (\<exists>x. m = Inr x \<and> f x = Inr y)"
  by (cases m) simp_all

lemma bindR_Inl_iff [result_simps]:
  "bindR m f = Inl e \<longleftrightarrow> m = Inl e \<or> (\<exists>x. m = Inr x \<and> f x = Inl e)"
  by (cases m) simp_all

lemma bindR_assoc: "bindR (bindR m f) g = bindR m (\<lambda>x. bindR (f x) g)"
  by (cases m) simp_all

lemma bindR_cong [fundef_cong]:
  "m = m' \<Longrightarrow> (\<And>x. m' = Inr x \<Longrightarrow> f x = g x) \<Longrightarrow> bindR m f = bindR m' g"
  by (cases m') simp_all

lemma throwUnless_simps [simp]:
  "throwUnless True e k = k"
  "throwUnless False e k = Inl e"
  by (simp_all add: throwUnless_def)

lemma throwUnless_Inr_iff [result_simps]:
  "throwUnless c e k = Inr y \<longleftrightarrow> c \<and> k = Inr y"
  by (simp add: throwUnless_def)

lemma throwUnless_cong [fundef_cong]:
  "c = c' \<Longrightarrow> e = e' \<Longrightarrow> (c' \<Longrightarrow> k = k') \<Longrightarrow> throwUnless c e k = throwUnless c' e' k'"
  by (simp add: throwUnless_def)

lemma tryR_simps [simp]:
  "tryR (Inl e) h = h e"
  "tryR (Inr x) h = Inr x"
  by (simp_all add: tryR_def)

lemma guard_if_Inr [guard_simps]: "(if c then Inl e else m) = Inr y \<longleftrightarrow> \<not> c \<and> m = Inr y"
  by simp

lemma guard_option_Inr [guard_simps]:
  "(case opt of None \<Rightarrow> Inl e | Some x \<Rightarrow> f x) = Inr y \<longleftrightarrow> (\<exists>x. opt = Some x \<and> f x = Inr y)"
  by (cases opt) simp_all

lemma guard_tryR_Inr [guard_simps]: "tryR m (\<lambda>_. Inl e) = Inr y \<longleftrightarrow> m = Inr y"
  by (cases m) simp_all

declare bindR_Inr_iff [guard_simps] throwUnless_Inr_iff [guard_simps]

lemma mapR_Inr_length: "mapR f xs = Inr ys \<Longrightarrow> length ys = length xs"
  by (induction xs arbitrary: ys) (auto simp: result_simps)

lemma mapR_Inr_all: "mapR f xs = Inr ys \<Longrightarrow> list_all2 (\<lambda>x y. f x = Inr y) xs ys"
  by (induction xs arbitrary: ys) (auto simp: result_simps)

subsection \<open>Actions on stored state\<close>

type_synonym ('s, 'e, 'a) act = "'s \<Rightarrow> ('e + 'a) \<times> 's"

definition retA :: "'a \<Rightarrow> ('s, 'e, 'a) act" where
  "retA x = (\<lambda>s. (Inr x, s))"

definition throwA :: "'e \<Rightarrow> ('s, 'e, 'a) act" where
  "throwA e = (\<lambda>s. (Inl e, s))"

definition liftR :: "'e + 'a \<Rightarrow> ('s, 'e, 'a) act" where
  "liftR r = (\<lambda>s. (r, s))"

definition bindA :: "('s, 'e, 'a) act \<Rightarrow> ('a \<Rightarrow> ('s, 'e, 'b) act) \<Rightarrow> ('s, 'e, 'b) act" where
  "bindA m f = (\<lambda>s. case m s of (r, s') \<Rightarrow>
     (case r of Inl e \<Rightarrow> (Inl e, s') | Inr x \<Rightarrow> f x s'))"

definition catchA :: "('s, 'e, 'a) act \<Rightarrow> ('e \<Rightarrow> ('s, 'f, 'a) act) \<Rightarrow> ('s, 'f, 'a) act" where
  "catchA m h = (\<lambda>s. case m s of (r, s') \<Rightarrow>
     (case r of Inl e \<Rightarrow> h e s' | Inr x \<Rightarrow> (Inr x, s')))"

text \<open>\<open>try\<close> with the exception as a value.\<close>

definition attemptA :: "('s, 'e, 'a) act \<Rightarrow> ('s, 'f, 'e + 'a) act" where
  "attemptA m = (\<lambda>s. case m s of (r, s') \<Rightarrow> (Inr r, s'))"

text \<open>An action for each element of a list, in order.\<close>

fun mapA :: "('a \<Rightarrow> ('s, 'e, 'b) act) \<Rightarrow> 'a list \<Rightarrow> ('s, 'e, 'b list) act" where
  "mapA f [] = retA []"
| "mapA f (x # xs) = bindA (f x) (\<lambda>y. bindA (mapA f xs) (\<lambda>ys. retA (y # ys)))"

lemma act_basic [simp]:
  "retA x s = (Inr x, s)"
  "throwA e s = (Inl e, s)"
  "liftR r s = (r, s)"
  by (simp_all add: retA_def throwA_def liftR_def)

lemma bindA_eq [act_simps]:
  "bindA m f s = (case fst (m s) of Inl e \<Rightarrow> (Inl e, snd (m s)) | Inr x \<Rightarrow> f x (snd (m s)))"
  by (cases "m s") (simp add: bindA_def split: sum.split)

lemma catchA_eq [act_simps]:
  "catchA m h s = (case fst (m s) of Inl e \<Rightarrow> h e (snd (m s)) | Inr x \<Rightarrow> (Inr x, snd (m s)))"
  by (cases "m s") (simp add: catchA_def split: sum.split)

lemma bindA_step:
  "m s = (Inr x, s') \<Longrightarrow> bindA m f s = f x s'"
  "m s = (Inl e, s') \<Longrightarrow> bindA m f s = (Inl e, s')"
  by (simp_all add: bindA_def)

lemma bindA_arg: "m s = m' s' \<Longrightarrow> bindA m f s = bindA m' f s'"
  by (simp add: bindA_def)

lemma bindA_basic [simp]:
  "bindA (liftR (Inl e)) f = throwA e"
  "bindA (liftR (Inr x)) f = f x"
  "bindA (retA x) f = f x"
  "bindA (throwA e) f = throwA e"
  by (auto simp: bindA_def)

lemma catchA_step:
  "m s = (Inr x, s') \<Longrightarrow> catchA m h s = (Inr x, s')"
  "m s = (Inl e, s') \<Longrightarrow> catchA m h s = h e s'"
  by (simp_all add: catchA_def)

lemma attemptA_eq: "attemptA m w = (Inr (fst (m w)), snd (m w))"
  by (simp add: attemptA_def split_def)

lemma bindA_attemptA: "bindA (attemptA m) f w = f (fst (m w)) (snd (m w))"
  by (simp add: attemptA_eq bindA_def)

lemma bindA_Inr_E:
  assumes "bindA m f s = (Inr y, t)"
  obtains x u where "m s = (Inr x, u)" and "f x u = (Inr y, t)"
  using assms by (auto simp: bindA_def split: prod.splits sum.splits)

lemma catchA_Inr_E:
  assumes "catchA m k s = (Inr y, t)"
  obtains (plain) "m s = (Inr y, t)" | (caught) e u where "m s = (Inl e, u)" and "k e u = (Inr y, t)"
  using assms by (auto simp: catchA_def split: prod.splits sum.splits)

lemma bindA_cases:
  obtains (fail) e t where "m s = (Inl e, t)" and "bindA m f s = (Inl e, t)"
  | (ok) x t where "m s = (Inr x, t)" and "bindA m f s = f x t"
  by (cases "m s"; cases "fst (m s)") (auto simp: bindA_step)

lemma mapA_length: "mapA f xs s = (Inr ys, t) \<Longrightarrow> length ys = length xs"
  by (induction xs arbitrary: s ys t) (auto elim!: bindA_Inr_E)

text \<open>
  A property of the state that every action keeps, whatever it returns, is kept by their
  composition: the rule the invariant proofs of the stateful components are made of.
\<close>

definition keepsA :: "('s \<Rightarrow> bool) \<Rightarrow> ('s, 'e, 'a) act \<Rightarrow> bool" where
  "keepsA P m \<longleftrightarrow> (\<forall>s. P s \<longrightarrow> P (snd (m s)))"

lemma keepsA_I: "(\<And>s. P s \<Longrightarrow> P (snd (m s))) \<Longrightarrow> keepsA P m"
  by (simp add: keepsA_def)

lemma keepsA_D: "keepsA P m \<Longrightarrow> P s \<Longrightarrow> P (snd (m s))"
  by (simp add: keepsA_def)

lemma keepsA_basic [intro, simp]:
  "keepsA P (retA x)" "keepsA P (throwA e)" "keepsA P (liftR r)"
  by (simp_all add: keepsA_def)

lemma keepsA_bindA [intro]:
  "keepsA P m \<Longrightarrow> (\<And>x. keepsA P (f x)) \<Longrightarrow> keepsA P (bindA m f)"
  by (auto simp: keepsA_def act_simps split: sum.splits)

lemma keepsA_catchA [intro]:
  "keepsA P m \<Longrightarrow> (\<And>e. keepsA P (h e)) \<Longrightarrow> keepsA P (catchA m h)"
  by (auto simp: keepsA_def act_simps split: sum.splits)

lemma keepsA_if [intro]: "keepsA P m \<Longrightarrow> keepsA P n \<Longrightarrow> keepsA P (if c then m else n)"
  by simp

lemma keepsA_option [intro]:
  "keepsA P m \<Longrightarrow> (\<And>x. keepsA P (f x)) \<Longrightarrow> keepsA P (case opt of None \<Rightarrow> m | Some x \<Rightarrow> f x)"
  by (cases opt) simp_all

subsection \<open>Lists\<close>

text \<open>\<open>Array.prototype.find\<close>, and \<open>slice(from, to)\<close> for non-negative bounds.\<close>

definition sliceL :: "nat \<Rightarrow> nat \<Rightarrow> 'a list \<Rightarrow> 'a list" where
  "sliceL i j xs = take (j - i) (drop i xs)"

lemma find_Some_D: "find P xs = Some x \<Longrightarrow> x \<in> set xs \<and> P x"
  by (auto simp: find_Some_iff)

lemma find_append:
  "find P (xs @ ys) = (case find P xs of None \<Rightarrow> find P ys | Some x \<Rightarrow> Some x)"
  by (induction xs) auto

lemma find_None_all: "find P xs = None \<longleftrightarrow> (\<forall>x \<in> set xs. \<not> P x)"
  by (auto simp: find_None_iff)

lemma length_sliceL [simp]: "length (sliceL i j xs) = min (j - i) (length xs - i)"
  by (simp add: sliceL_def min_def)

lemma sliceL_mid:
  "xs = a @ b @ c \<Longrightarrow> i = length a \<Longrightarrow> j = length a + length b \<Longrightarrow> sliceL i j xs = b"
  by (simp add: sliceL_def)

subsection \<open>Actions and their effect on the state\<close>

text \<open>
  A relation between the states before and after an action, whatever it returns. When the relation is
  reflexive and transitive it is enough to look at each call of a handler.
\<close>

definition movesA :: "('s \<Rightarrow> 's \<Rightarrow> bool) \<Rightarrow> ('s, 'e, 'a) act \<Rightarrow> bool" where
  "movesA R m \<longleftrightarrow> (\<forall>s. R s (snd (m s)))"

lemma movesA_I: "(\<And>s. R s (snd (m s))) \<Longrightarrow> movesA R m"
  by (simp add: movesA_def)

lemma movesA_D: "movesA R m \<Longrightarrow> m s = (r, t) \<Longrightarrow> R s t"
  unfolding movesA_def by (metis snd_conv)

lemma moves_attemptA: "movesA R m \<Longrightarrow> movesA R (attemptA m)"
  by (simp add: movesA_def attemptA_def split_def)

locale preorder_moves =
  fixes R :: "'s \<Rightarrow> 's \<Rightarrow> bool"
  assumes R_refl: "R s s"
    and R_trans: "R s t \<Longrightarrow> R t u \<Longrightarrow> R s u"
begin

lemma moves_basic: "movesA R (retA x)" "movesA R (throwA e)" "movesA R (liftR r)"
  by (simp_all add: movesA_def R_refl)

lemma moves_bindA:
  assumes "movesA R m" and "\<And>x. movesA R (f x)"
  shows "movesA R (bindA m f)"
proof (rule movesA_I)
  fix s
  have "R s (snd (m s))" using assms(1) by (simp add: movesA_def)
  moreover have "R (snd (m s)) (snd (f x (snd (m s))))" for x using assms(2) by (simp add: movesA_def)
  ultimately show "R s (snd (bindA m f s))" by (auto simp: act_simps split: sum.split intro: R_trans)
qed

lemma moves_bindA_dep:
  assumes "movesA R m" and "\<And>s x t. m s = (Inr x, t) \<Longrightarrow> movesA R (f x)"
  shows "movesA R (bindA m f)"
proof (rule movesA_I)
  fix s
  obtain r t where m: "m s = (r, t)" by (cases "m s")
  then have "R s t" using assms(1) by (rule movesA_D [rotated])
  with m assms(2) show "R s (snd (bindA m f s))"
    by (cases r) (auto simp: bindA_step movesA_def intro: R_trans)
qed

lemma moves_catchA:
  assumes "movesA R m" and "\<And>e. movesA R (k e)"
  shows "movesA R (catchA m k)"
proof (rule movesA_I)
  fix s
  have "R s (snd (m s))" using assms(1) by (simp add: movesA_def)
  moreover have "R (snd (m s)) (snd (k e (snd (m s))))" for e using assms(2) by (simp add: movesA_def)
  ultimately show "R s (snd (catchA m k s))" by (auto simp: act_simps split: sum.split intro: R_trans)
qed

lemma moves_if: "movesA R m \<Longrightarrow> movesA R n \<Longrightarrow> movesA R (if c then m else n)"
  by simp

lemma moves_option:
  "movesA R m \<Longrightarrow> (\<And>x. movesA R (f x)) \<Longrightarrow> movesA R (case opt of None \<Rightarrow> m | Some x \<Rightarrow> f x)"
  by (cases opt) simp_all

lemma moves_sum:
  "(\<And>x. movesA R (f x)) \<Longrightarrow> (\<And>y. movesA R (g y)) \<Longrightarrow> movesA R (case c of Inl x \<Rightarrow> f x | Inr y \<Rightarrow> g y)"
  by (cases c) simp_all

lemma moves_mapA: "(\<And>x. movesA R (f x)) \<Longrightarrow> movesA R (mapA f xs)"
proof (induction xs)
  case (Cons x xs)
  have "movesA R (mapA f xs)" by (rule Cons.IH) (rule Cons.prems)
  then show ?case unfolding mapA.simps by (intro moves_bindA moves_basic Cons.prems)
qed (simp only: mapA.simps moves_basic)

lemmas moves = moves_basic moves_bindA moves_catchA moves_if moves_option moves_sum

end

text \<open>Actions that always return a value.\<close>

definition answersA :: "('s, 'e, 'a) act \<Rightarrow> bool" where
  "answersA m \<longleftrightarrow> (\<forall>s. \<exists>x t. m s = (Inr x, t))"

lemma answersA_retA [simp]: "answersA (retA x)"
  by (simp add: answersA_def)

lemma answersA_bindA: "answersA m \<Longrightarrow> (\<And>x. answersA (f x)) \<Longrightarrow> answersA (bindA m f)"
  unfolding answersA_def by (metis bindA_step(1))

lemma answersA_catchA: "(\<And>e. answersA (k e)) \<Longrightarrow> answersA (catchA m k)"
  unfolding answersA_def by (metis catchA_step obj_sumE surj_pair)

lemma answersA_if: "answersA m \<Longrightarrow> answersA n \<Longrightarrow> answersA (if c then m else n)"
  by simp

lemma answersA_option:
  "answersA m \<Longrightarrow> (\<And>x. answersA (f x)) \<Longrightarrow> answersA (case opt of None \<Rightarrow> m | Some x \<Rightarrow> f x)"
  by (cases opt) simp_all

lemmas answersA_intros = answersA_retA answersA_bindA answersA_catchA answersA_if answersA_option

end
