(* ===== verification/Js_String.thy ===== *)
theory Js_String
  imports Js_Base
begin

section \<open>The string library the sources use\<close>

text \<open>
  A HOL \<open>string\<close> stands for a JavaScript string all of whose UTF-16 code units are below 256,
  one \<open>char\<close> per code unit: \<open>length\<close> is \<open>.length\<close>, \<open>!\<close> is \<open>charAt\<close>, \<open>of_char\<close> is
  \<open>charCodeAt\<close>. On that domain the definitions below are the standard's: \<open>trim\<close> removes
  exactly the white space and line terminators of the range (tab, LF, VT, FF, CR, space,
  no-break space), \<open>toLowerCase\<close> maps exactly its upper-case letters. Strings with other code
  units are outside the model.
\<close>

abbreviation charCode :: "char \<Rightarrow> nat" where
  "charCode c \<equiv> of_char c"

subsection \<open>White space, prefixes, case\<close>

definition isJsSpace :: "char \<Rightarrow> bool" where
  "isJsSpace c \<longleftrightarrow> charCode c \<in> {9, 10, 11, 12, 13, 32, 160}"

definition trimStart :: "string \<Rightarrow> string" where
  "trimStart s = dropWhile isJsSpace s"

definition trimEnd :: "string \<Rightarrow> string" where
  "trimEnd s = rev (dropWhile isJsSpace (rev s))"

definition trim :: "string \<Rightarrow> string" where
  "trim s = trimEnd (trimStart s)"

definition startsWith :: "string \<Rightarrow> string \<Rightarrow> bool" where
  "startsWith s p \<longleftrightarrow> take (length p) s = p"

definition endsWith :: "string \<Rightarrow> string \<Rightarrow> bool" where
  "endsWith s p \<longleftrightarrow> startsWith (rev s) (rev p)"

definition toLowerChar :: "char \<Rightarrow> char" where
  "toLowerChar c =
     (let n = charCode c in
      if 65 \<le> n \<and> n \<le> 90 \<or> 192 \<le> n \<and> n \<le> 222 \<and> n \<noteq> 215 then char_of (n + 32) else c)"

definition toLowerCase :: "string \<Rightarrow> string" where
  "toLowerCase s = map toLowerChar s"

text \<open>\<open>String.prototype.includes\<close>.\<close>

fun includesText :: "string \<Rightarrow> string \<Rightarrow> bool" where
  "includesText [] p \<longleftrightarrow> p = []"
| "includesText (c # s) p \<longleftrightarrow> startsWith (c # s) p \<or> includesText s p"

text \<open>\<open>replaceAll(c, t)\<close> for a one-character pattern.\<close>

definition replaceAllChar :: "char \<Rightarrow> string \<Rightarrow> string \<Rightarrow> string" where
  "replaceAllChar c t s = concat (map (\<lambda>x. if x = c then t else [x]) s)"

lemma dropWhile_idem: "dropWhile P (dropWhile P xs) = dropWhile P xs"
  by (induction xs) auto

text \<open>\<open>replace(/c+$/, "")\<close>, \<open>replaceAll\<close> of one character by another, and \<open>padEnd\<close>/\<open>padStart\<close>.\<close>

definition stripTrailing :: "char \<Rightarrow> string \<Rightarrow> string" where
  "stripTrailing c s = rev (dropWhile (\<lambda>x. x = c) (rev s))"

definition replaceChar :: "char \<Rightarrow> char \<Rightarrow> string \<Rightarrow> string" where
  "replaceChar a b s = map (\<lambda>c. if c = a then b else c) s"

definition padEnd :: "nat \<Rightarrow> char \<Rightarrow> string \<Rightarrow> string" where
  "padEnd n c s = s @ replicate (n - length s) c"

definition padStart :: "nat \<Rightarrow> char \<Rightarrow> string \<Rightarrow> string" where
  "padStart n c s = replicate (n - length s) c @ s"

lemma replaceChar_id: "a \<notin> set s \<Longrightarrow> replaceChar a b s = s"
  by (auto simp: replaceChar_def intro: map_idI)

lemma stripTrailing_id: "c \<notin> set s \<Longrightarrow> stripTrailing c s = s"
  by (cases s rule: rev_cases) (auto simp: stripTrailing_def)

lemma stripTrailing_idem [simp]: "stripTrailing c (stripTrailing c s) = stripTrailing c s"
  by (simp add: stripTrailing_def dropWhile_idem)

lemma stripTrailing_prefix: "\<exists>n. s = stripTrailing c s @ replicate n c"
proof -
  have "takeWhile (\<lambda>x. x = c) (rev s) = replicate (length (takeWhile (\<lambda>x. x = c) (rev s))) c"
    by (rule replicate_eqI [OF refl]) (auto dest: set_takeWhileD)
  then have "s = stripTrailing c s @ replicate (length (takeWhile (\<lambda>x. x = c) (rev s))) c"
    unfolding stripTrailing_def
    by (metis rev_append rev_replicate rev_rev_ident takeWhile_dropWhile_id)
  then show ?thesis by blast
qed

lemma trimEnd_Cons_nonspace:
  "\<not> isJsSpace c \<Longrightarrow> trimEnd (c # s) = c # trimEnd s"
  by (simp add: trimEnd_def dropWhile_append)

lemma trimStart_trimEnd_trimStart: "trimStart (trimEnd (trimStart s)) = trimEnd (trimStart s)"
proof (cases "trimStart s")
  case Nil
  then show ?thesis unfolding Nil by (simp add: trimEnd_def trimStart_def)
next
  case (Cons c t)
  then have "\<not> isJsSpace c"
    using hd_dropWhile [of isJsSpace s] by (simp add: trimStart_def)
  then show ?thesis
    unfolding Cons by (simp add: trimEnd_Cons_nonspace) (simp add: trimStart_def)
qed

lemma trimEnd_idem: "trimEnd (trimEnd s) = trimEnd s"
  by (simp add: trimEnd_def dropWhile_idem)

lemma trim_idem [simp]: "trim (trim s) = trim s"
  by (simp add: trim_def trimStart_trimEnd_trimStart trimEnd_idem)

lemma trim_no_space: "list_all (\<lambda>c. \<not> isJsSpace c) s \<Longrightarrow> trim s = s"
proof -
  assume a: "list_all (\<lambda>c. \<not> isJsSpace c) s"
  then have "trimStart s = s"
    by (cases s) (simp_all add: trimStart_def)
  moreover have "trimEnd s = s"
    using a by (cases s rule: rev_cases) (simp_all add: trimEnd_def)
  ultimately show ?thesis by (simp add: trim_def)
qed

lemma trim_last:
  assumes "trim s = s" and "s \<noteq> []"
  shows "\<not> isJsSpace (last s)"
proof -
  have "dropWhile isJsSpace (rev (trimStart s)) = rev s"
    using assms(1) by (simp add: trim_def trimEnd_def rev_swap)
  then show ?thesis
    using hd_dropWhile [of isJsSpace "rev (trimStart s)"] assms(2) by (simp add: hd_rev)
qed

lemma startsWith_append [simp]: "startsWith (p @ s) p"
  by (simp add: startsWith_def)

lemma startsWith_iff: "startsWith s p \<longleftrightarrow> (\<exists>t. s = p @ t)"
  by (metis append_take_drop_id startsWith_append startsWith_def)

lemma startsWith_Cons [text_simps]:
  "startsWith s []"
  "startsWith [] (p # ps) = False"
  "startsWith (c # s) (p # ps) = (c = p \<and> startsWith s ps)"
  by (auto simp: startsWith_def)

lemma toLowerChar_idem: "toLowerChar (toLowerChar c) = toLowerChar c"
proof -
  have lt: "charCode c < 256" using nat_of_char_less_256 [of c] by simp
  show ?thesis
    using lt by (auto simp: toLowerChar_def Let_def)
qed

lemma toLowerCase_idem [simp]: "toLowerCase (toLowerCase s) = toLowerCase s"
  by (simp add: toLowerCase_def toLowerChar_idem)

lemma length_toLowerCase [simp]: "length (toLowerCase s) = length s"
  by (simp add: toLowerCase_def)

subsection \<open>Splitting and joining\<close>

fun splitOn :: "char \<Rightarrow> string \<Rightarrow> string list" where
  "splitOn c [] = [[]]"
| "splitOn c (x # xs) =
     (if x = c then [] # splitOn c xs
      else (case splitOn c xs of [] \<Rightarrow> [[x]] | p # ps \<Rightarrow> (x # p) # ps))"

fun joinWith :: "string \<Rightarrow> string list \<Rightarrow> string" where
  "joinWith sep [] = []"
| "joinWith sep [p] = p"
| "joinWith sep (p # q # ps) = p @ sep @ joinWith sep (q # ps)"

lemma splitOn_not_Nil [simp]: "splitOn c s \<noteq> []"
  by (cases s) (auto split: list.splits)

lemma splitOn_no_sep: "c \<notin> set s \<Longrightarrow> splitOn c s = [s]"
  by (induction s) auto

lemma splitOn_append: "c \<notin> set p \<Longrightarrow> splitOn c (p @ c # s) = p # splitOn c s"
  by (induction p) auto

lemma splitOn_parts: "p \<in> set (splitOn c s) \<Longrightarrow> c \<notin> set p"
proof (induction s arbitrary: p)
  case Nil
  then show ?case by simp
next
  case (Cons x s)
  then show ?case
    by (auto split: if_splits list.splits)
qed

lemma joinWith_splitOn: "joinWith [c] (splitOn c s) = s"
proof (induction s)
  case Nil
  then show ?case by simp
next
  case (Cons x s)
  obtain p ps where ps: "splitOn c s = p # ps"
    using splitOn_not_Nil [of c s] by (cases "splitOn c s") auto
  with Cons show ?case by (cases ps) auto
qed

lemma splitOn_joinWith:
  "ps \<noteq> [] \<Longrightarrow> list_all (\<lambda>p. c \<notin> set p) ps \<Longrightarrow> splitOn c (joinWith [c] ps) = ps"
  by (induction "[c]" ps rule: joinWith.induct) (auto simp: splitOn_no_sep splitOn_append)

text \<open>
  \<open>split(/\s+/)\<close>: the text between runs of white space; a run at either end leaves an empty part there.
\<close>

function splitSpaces :: "string \<Rightarrow> string list" where
  "splitSpaces s =
     (let rest = dropWhile (\<lambda>c. \<not> isJsSpace c) s in
      if rest = [] then [s]
      else takeWhile (\<lambda>c. \<not> isJsSpace c) s # splitSpaces (dropWhile isJsSpace rest))"
  by pat_completeness auto
termination
proof (relation "measure length", simp)
  fix s rest
  assume r: "rest = dropWhile (\<lambda>c. \<not> isJsSpace c) s" and ne: "rest \<noteq> []"
  then have "isJsSpace (hd rest)" using hd_dropWhile [of "\<lambda>c. \<not> isJsSpace c" s] by simp
  with ne have "length (dropWhile isJsSpace rest) < length rest"
    by (cases rest) (simp_all add: le_imp_less_Suc length_dropWhile_le)
  also have "length rest \<le> length s" unfolding r by (rule length_dropWhile_le)
  finally show "(dropWhile isJsSpace rest, s) \<in> measure length" by simp
qed

declare splitSpaces.simps [simp del]

lemma splitSpaces_word: "list_all (\<lambda>c. \<not> isJsSpace c) w \<Longrightarrow> splitSpaces w = [w]"
  by (subst splitSpaces.simps) (simp add: dropWhile_eq_Nil_conv list_all_iff)

lemma splitSpaces_words:
  assumes "list_all (\<lambda>c. \<not> isJsSpace c) w" and "v \<noteq> []" and "\<not> isJsSpace (hd v)"
  shows "splitSpaces (w @ CHR '' '' # v) = w # splitSpaces v"
proof -
  have sp: "isJsSpace (CHR '' '')" by (simp add: isJsSpace_def)
  have d: "dropWhile (\<lambda>c. \<not> isJsSpace c) (w @ CHR '' '' # v) = CHR '' '' # v"
    and t: "takeWhile (\<lambda>c. \<not> isJsSpace c) (w @ CHR '' '' # v) = w"
    using assms(1) sp by (simp_all add: dropWhile_append1 dropWhile_append2 takeWhile_append2 list_all_iff)
  have "dropWhile isJsSpace v = v" using assms(2,3) by (cases v) simp_all
  then show ?thesis
    by (subst splitSpaces.simps) (simp add: d t sp Let_def)
qed

lemma joinWith_hd: "p \<noteq> [] \<Longrightarrow> joinWith sep (p # ps) \<noteq> [] \<and> hd (joinWith sep (p # ps)) = hd p"
  by (cases ps) simp_all

lemma splitSpaces_joinWith:
  "ws \<noteq> [] \<Longrightarrow> list_all (\<lambda>w. w \<noteq> [] \<and> list_all (\<lambda>c. \<not> isJsSpace c) w) ws \<Longrightarrow>
     splitSpaces (joinWith '' '' ws) = ws"
proof (induction "'' ''" ws rule: joinWith.induct)
  case (3 p q ps)
  then have "\<not> isJsSpace (hd q)" and "q \<noteq> []" by (cases q; simp)+
  with 3 joinWith_hd [of q "'' ''" ps] show ?case by (simp add: splitSpaces_words)
qed (simp_all add: splitSpaces_word)

lemma splitSpaces_no_space: "w \<in> set (splitSpaces s) \<Longrightarrow> list_all (\<lambda>c. \<not> isJsSpace c) w"
proof (induction s rule: splitSpaces.induct)
  case (1 s)
  show ?case
  proof (cases "dropWhile (\<lambda>c. \<not> isJsSpace c) s = []")
    case True
    with "1.prems" show ?thesis
      by (subst (asm) splitSpaces.simps) (auto simp: dropWhile_eq_Nil_conv list_all_iff)
  next
    case False
    with "1.prems" have "w = takeWhile (\<lambda>c. \<not> isJsSpace c) s \<or>
        w \<in> set (splitSpaces (dropWhile isJsSpace (dropWhile (\<lambda>c. \<not> isJsSpace c) s)))"
      by (subst (asm) splitSpaces.simps) (auto simp: Let_def split: if_splits)
    then show ?thesis
    proof
      assume "w = takeWhile (\<lambda>c. \<not> isJsSpace c) s"
      then show ?thesis by (auto simp: list_all_iff dest: set_takeWhileD)
    qed (rule "1.IH" [OF refl False])
  qed
qed

subsection \<open>Decimal numerals\<close>

definition isDigit :: "char \<Rightarrow> bool" where
  "isDigit c \<longleftrightarrow> 48 \<le> charCode c \<and> charCode c \<le> 57"

definition digitChar :: "nat \<Rightarrow> char" where
  "digitChar n = char_of (48 + n)"

definition digitValue :: "char \<Rightarrow> nat" where
  "digitValue c = charCode c - 48"

text \<open>\<open>String(n)\<close> of a non-negative integer, and the value \<open>BigInt\<close> gives a digit string.\<close>

lemma digitChar_eval [text_simps]:
  "digitChar 0 = CHR ''0''" "digitChar (Suc 0) = CHR ''1''" "digitChar 1 = CHR ''1''" "digitChar 2 = CHR ''2''"
  "digitChar 3 = CHR ''3''" "digitChar 4 = CHR ''4''" "digitChar 5 = CHR ''5''" "digitChar 6 = CHR ''6''"
  "digitChar 7 = CHR ''7''" "digitChar 8 = CHR ''8''" "digitChar 9 = CHR ''9''"
  by code_simp+

fun natToDec :: "nat \<Rightarrow> string" where
  "natToDec n = (if n < 10 then [digitChar n] else natToDec (n div 10) @ [digitChar (n mod 10)])"

declare natToDec.simps [simp del]

definition decToNat :: "string \<Rightarrow> nat" where
  "decToNat s = foldl (\<lambda>acc c. acc * 10 + digitValue c) 0 s"

text \<open>The pattern \<^verbatim>\<open>/^[1-9][0-9]*$/u\<close>.\<close>

definition positiveDecimal :: "string \<Rightarrow> bool" where
  "positiveDecimal s = (case s of [] \<Rightarrow> False
     | c # cs \<Rightarrow> 49 \<le> charCode c \<and> charCode c \<le> 57 \<and> list_all isDigit cs)"

lemma digitChar_facts:
  assumes "n < 10"
  shows "isDigit (digitChar n)" and "digitValue (digitChar n) = n"
  using assms by (simp_all add: isDigit_def digitChar_def digitValue_def)

lemma digitChar_digitValue: "isDigit c \<Longrightarrow> digitChar (digitValue c) = c"
  by (simp add: isDigit_def digitChar_def digitValue_def)

lemma digitValue_less: "isDigit c \<Longrightarrow> digitValue c < 10"
  unfolding isDigit_def digitValue_def by linarith

lemma decToNat_snoc [simp]: "decToNat (s @ [c]) = decToNat s * 10 + digitValue c"
  by (simp add: decToNat_def)

lemma decToNat_natToDec [simp]: "decToNat (natToDec n) = n"
proof (induction n rule: natToDec.induct)
  case (1 n)
  show ?case
  proof (cases "n < 10")
    case True
    then show ?thesis
      by (simp add: natToDec.simps [of n] decToNat_def digitChar_facts)
  next
    case False
    with 1 have "decToNat (natToDec (n div 10)) = n div 10" by simp
    with False show ?thesis
      by (simp add: natToDec.simps [of n] digitChar_facts)
  qed
qed

lemma natToDec_inject [simp]: "natToDec m = natToDec n \<longleftrightarrow> m = n"
  by (metis decToNat_natToDec)

lemma natToDec_digits: "list_all isDigit (natToDec n)"
proof (induction n rule: natToDec.induct)
  case (1 n)
  then show ?case
    by (cases "n < 10") (simp_all add: natToDec.simps [of n] digitChar_facts)
qed

lemma positiveDecimal_append_digit:
  "positiveDecimal s \<Longrightarrow> isDigit c \<Longrightarrow> positiveDecimal (s @ [c])"
  by (cases s) (simp_all add: positiveDecimal_def)

lemma positiveDecimal_natToDec: "0 < n \<Longrightarrow> positiveDecimal (natToDec n)"
proof (induction n rule: natToDec.induct)
  case (1 n)
  show ?case
  proof (cases "n < 10")
    case True
    with "1.prems" show ?thesis
      by (simp add: natToDec.simps [of n] positiveDecimal_def digitChar_def)
  next
    case False
    with "1.IH" have "positiveDecimal (natToDec (n div 10))" by simp
    with False show ?thesis
      by (simp add: natToDec.simps [of n] positiveDecimal_append_digit digitChar_facts)
  qed
qed

lemma decToNat_positive: "positiveDecimal s \<Longrightarrow> 0 < decToNat s"
proof (induction s rule: rev_induct)
  case Nil
  then show ?case by (simp add: positiveDecimal_def)
next
  case (snoc c s)
  show ?case
  proof (cases s)
    case Nil
    with snoc.prems show ?thesis
      by (simp add: positiveDecimal_def decToNat_def digitValue_def)
  next
    case (Cons d t)
    with snoc.prems have "positiveDecimal s" by (simp add: positiveDecimal_def)
    with snoc.IH show ?thesis by simp
  qed
qed

text \<open>A numeral without a leading zero is the numeral of its value.\<close>

lemma natToDec_decToNat: "positiveDecimal s \<Longrightarrow> natToDec (decToNat s) = s"
proof (induction s rule: rev_induct)
  case Nil
  then show ?case by (simp add: positiveDecimal_def)
next
  case (snoc c s)
  show ?case
  proof (cases s)
    case Nil
    with snoc.prems have "isDigit c" by (simp add: positiveDecimal_def isDigit_def)
    with Nil show ?thesis
      by (simp add: decToNat_def natToDec.simps digitValue_less digitChar_digitValue)
  next
    case (Cons d t)
    with snoc.prems have s: "positiveDecimal s" and c: "isDigit c"
      by (simp_all add: positiveDecimal_def)
    have "0 < decToNat s" using s by (rule decToNat_positive)
    then have "10 \<le> decToNat s * 10 + digitValue c" by simp
    with snoc.IH [OF s] c show ?thesis
      by (simp add: natToDec.simps [of "decToNat s * 10 + digitValue c"] digitValue_less
          digitChar_digitValue)
  qed
qed

subsection \<open>Identifier patterns\<close>

definition isLowerHex :: "char \<Rightarrow> bool" where
  "isLowerHex c \<longleftrightarrow> isDigit c \<or> 97 \<le> charCode c \<and> charCode c \<le> 102"

definition isHexAnyCase :: "char \<Rightarrow> bool" where
  "isHexAnyCase c \<longleftrightarrow> isLowerHex c \<or> 65 \<le> charCode c \<and> charCode c \<le> 70"

text \<open>
  The pattern \<^verbatim>\<open>/^[0-9a-f]{8}-[0-9a-f]{4}-[1-5][0-9a-f]{3}-[89ab][0-9a-f]{3}-[0-9a-f]{12}$/iu\<close>,
  one test per character.
\<close>

definition uuidPattern :: "(char \<Rightarrow> bool) list" where
  "uuidPattern =
     replicate 8 isHexAnyCase @ [\<lambda>c. c = CHR ''-''] @
     replicate 4 isHexAnyCase @ [\<lambda>c. c = CHR ''-''] @
     [\<lambda>c. 49 \<le> charCode c \<and> charCode c \<le> 53] @ replicate 3 isHexAnyCase @ [\<lambda>c. c = CHR ''-''] @
     [\<lambda>c. c \<in> set ''89abAB''] @ replicate 3 isHexAnyCase @ [\<lambda>c. c = CHR ''-''] @
     replicate 12 isHexAnyCase"

definition isUuidText :: "string \<Rightarrow> bool" where
  "isUuidText s = list_all2 (\<lambda>p c. p c) uuidPattern s"

lemma isUuidText_length: "isUuidText s \<Longrightarrow> length s = 36"
  unfolding isUuidText_def by (drule list_all2_lengthD) (simp add: uuidPattern_def)

text \<open>The pattern \<^verbatim>\<open>/^[a-z0-9-]+$/u\<close>.\<close>

definition isPrincipalText :: "string \<Rightarrow> bool" where
  "isPrincipalText s \<longleftrightarrow> s \<noteq> [] \<and>
     list_all (\<lambda>c. 97 \<le> charCode c \<and> charCode c \<le> 122 \<or> isDigit c \<or> c = CHR ''-'') s"

text \<open>The pattern \<^verbatim>\<open>/^[A-Za-z0-9_-]+$/u\<close>.\<close>

definition isUrlSafeText :: "string \<Rightarrow> bool" where
  "isUrlSafeText s \<longleftrightarrow> s \<noteq> [] \<and>
     list_all (\<lambda>c. 97 \<le> charCode c \<and> charCode c \<le> 122 \<or> 65 \<le> charCode c \<and> charCode c \<le> 90 \<or>
       isDigit c \<or> c = CHR ''_'' \<or> c = CHR ''-'') s"

lemma isUrlSafeText_no_dot: "isUrlSafeText s \<Longrightarrow> CHR ''.'' \<notin> set s"
  by (auto simp: isUrlSafeText_def isDigit_def list_all_iff)

end
