(* ===== verification/Js_Json.thy ===== *)
theory Js_Json
  imports Js_String
begin

section \<open>JSON values, JSON.stringify and JSON.parse\<close>

text \<open>
  The values \<open>JSON.parse\<close> returns and the components inspect with \<open>typeof\<close>,
  \<open>Array.isArray\<close> and property reads. A number keeps the lexeme it was written with; what
  \<open>String(value)\<close> prints for it is \<open>numberText\<close>, exact for a canonical integer of at most 15
  digits and an argument (\<open>otherText\<close>, the IEEE-754 formatter) for every other lexeme. An object
  is the association list of its own properties in insertion order, without duplicate keys; a
  repeated key of the text overwrites the earlier value in place.
\<close>

datatype json =
    JNull
  | JBool bool
  | JNum string
  | JStr string
  | JArr "json list"
  | JObj "(string \<times> json) list"

text \<open>A property read: \<open>None\<close> is \<open>undefined\<close>.\<close>

definition jget :: "(string \<times> json) list \<Rightarrow> string \<Rightarrow> json option" where
  "jget ps k = map_of ps k"

text \<open>
  \<open>!value || typeof value !== "object" || Array.isArray(value)\<close> is the guard the sources put in
  front of property reads: it lets exactly the objects pass.
\<close>

definition asObject :: "json \<Rightarrow> (string \<times> json) list option" where
  "asObject v = (case v of JObj ps \<Rightarrow> Some ps | _ \<Rightarrow> None)"

lemma asObject_Some [simp]: "asObject v = Some ps \<longleftrightarrow> v = JObj ps"
  by (cases v) (auto simp: asObject_def)

lemma asObject_JObj [simp]: "asObject (JObj ps) = Some ps"
  by simp

text \<open>A property read of a value that passed no guard; primitives and arrays have none of the names the sources read.\<close>

definition jfield :: "json \<Rightarrow> string \<Rightarrow> json option" where
  "jfield v k = (case v of JObj ps \<Rightarrow> jget ps k | _ \<Rightarrow> None)"

definition putProp :: "string \<Rightarrow> json \<Rightarrow> (string \<times> json) list \<Rightarrow> (string \<times> json) list" where
  "putProp k v ps =
     (if k \<in> fst ` set ps then map (\<lambda>p. if fst p = k then (k, v) else p) ps else ps @ [(k, v)])"

subsection \<open>Numbers\<close>

definition fracExpTail :: "string \<Rightarrow> bool" where
  "fracExpTail s =
     (let expOk = (\<lambda>r. case r of [] \<Rightarrow> True
          | e # t \<Rightarrow> (e = CHR ''e'' \<or> e = CHR ''E'') \<and>
              (let d = (case t of [] \<Rightarrow> [] | c # u \<Rightarrow> if c = CHR ''+'' \<or> c = CHR ''-'' then u else t)
               in d \<noteq> [] \<and> list_all isDigit d))
      in case s of [] \<Rightarrow> True
         | c # t \<Rightarrow> if c = CHR ''.'' then takeWhile isDigit t \<noteq> [] \<and> expOk (dropWhile isDigit t)
                   else expOk s)"

definition isJsonNumber :: "string \<Rightarrow> bool" where
  "isJsonNumber s =
     (let u = (case s of [] \<Rightarrow> [] | c # t \<Rightarrow> if c = CHR ''-'' then t else s);
          ip = takeWhile isDigit u
      in (ip = ''0'' \<or> positiveDecimal ip) \<and> fracExpTail (dropWhile isDigit u))"

definition isNumberChar :: "char \<Rightarrow> bool" where
  "isNumberChar c \<longleftrightarrow> isDigit c \<or> c \<in> set ''+-.eE''"

definition numberText :: "(string \<Rightarrow> string) \<Rightarrow> string \<Rightarrow> string" where
  "numberText otherText lexeme =
     (if (lexeme = ''0'' \<or> positiveDecimal lexeme) \<and> length lexeme \<le> 15 then lexeme
      else otherText lexeme)"

subsection \<open>JSON.stringify\<close>

definition hexDigit :: "nat \<Rightarrow> char" where
  "hexDigit n = (if n < 10 then char_of (48 + n) else char_of (87 + n))"

definition escapeJsonChar :: "char \<Rightarrow> string" where
  "escapeJsonChar c =
     (let n = charCode c in
      if n = 34 then [CHR 0x5C, c] else if n = 92 then [c, c]
      else if n = 8 then [CHR 0x5C, CHR ''b''] else if n = 9 then [CHR 0x5C, CHR ''t'']
      else if n = 10 then [CHR 0x5C, CHR ''n''] else if n = 12 then [CHR 0x5C, CHR ''f'']
      else if n = 13 then [CHR 0x5C, CHR ''r'']
      else if n < 32 then [CHR 0x5C, CHR ''u'', CHR ''0'', CHR ''0'', hexDigit (n div 16), hexDigit (n mod 16)]
      else [c])"

definition quoteJson :: "string \<Rightarrow> string" where
  "quoteJson s = CHR 0x22 # concat (map escapeJsonChar s) @ [CHR 0x22]"

fun stringify :: "json \<Rightarrow> string" where
  "stringify JNull = ''null''"
| "stringify (JBool b) = (if b then ''true'' else ''false'')"
| "stringify (JNum l) = l"
| "stringify (JStr s) = quoteJson s"
| "stringify (JArr vs) = ''['' @ joinWith '','' (map stringify vs) @ '']''"
| "stringify (JObj ps) =
     ''{'' @ joinWith '','' (map (\<lambda>p. quoteJson (fst p) @ '':'' @ stringify (snd p)) ps) @ ''}''"

subsection \<open>JSON.parse\<close>

definition isJsonSpace :: "char \<Rightarrow> bool" where
  "isJsonSpace c \<longleftrightarrow> charCode c \<in> {9, 10, 13, 32}"

definition skipWs :: "string \<Rightarrow> string" where
  "skipWs s = dropWhile isJsonSpace s"

definition hexValue :: "char \<Rightarrow> nat option" where
  "hexValue c =
     (let n = charCode c in
      if 48 \<le> n \<and> n \<le> 57 then Some (n - 48)
      else if 97 \<le> n \<and> n \<le> 102 then Some (n - 87)
      else if 65 \<le> n \<and> n \<le> 70 then Some (n - 55) else None)"

text \<open>The code unit of four hexadecimal digits; above 255 it is outside the model.\<close>

definition hexUnit :: "char \<Rightarrow> char \<Rightarrow> char \<Rightarrow> char \<Rightarrow> char option" where
  "hexUnit a b c d =
     (case (hexValue a, hexValue b, hexValue c, hexValue d) of
        (Some w, Some x, Some y, Some z) \<Rightarrow>
          if w = 0 \<and> x = 0 then Some (char_of (y * 16 + z)) else None
      | _ \<Rightarrow> None)"

definition unescape :: "char \<Rightarrow> char option" where
  "unescape e =
     (if charCode e = 34 \<or> charCode e = 92 \<or> e = CHR ''/'' then Some e
      else if e = CHR ''b'' then Some (CHR 0x08) else if e = CHR ''t'' then Some (CHR 0x09)
      else if e = CHR ''n'' then Some (CHR 0x0A) else if e = CHR ''f'' then Some (CHR 0x0C)
      else if e = CHR ''r'' then Some (CHR 0x0D) else None)"

text \<open>The rest of a string literal after its opening quote: its value and what follows.\<close>

fun parseStr :: "string \<Rightarrow> (string \<times> string) option" where
  "parseStr [] = None"
| "parseStr (c # s) =
     (if charCode c = 34 then Some ([], s)
      else if charCode c = 92 then
        (case s of
           [] \<Rightarrow> None
         | e # t \<Rightarrow>
             if e = CHR ''u'' then
               (case t of
                  h1 # h2 # h3 # h4 # t' \<Rightarrow>
                    (case hexUnit h1 h2 h3 h4 of None \<Rightarrow> None
                     | Some x \<Rightarrow> map_option (\<lambda>(y, r). (x # y, r)) (parseStr t'))
                | _ \<Rightarrow> None)
             else
               (case unescape e of None \<Rightarrow> None
                | Some x \<Rightarrow> map_option (\<lambda>(y, r). (x # y, r)) (parseStr t)))
      else if charCode c < 32 then None
      else map_option (\<lambda>(y, r). (c # y, r)) (parseStr s))"

definition parseLiteral :: "string \<Rightarrow> (json \<times> string) option" where
  "parseLiteral s =
     (if startsWith s ''null'' then Some (JNull, drop 4 s)
      else if startsWith s ''true'' then Some (JBool True, drop 4 s)
      else if startsWith s ''false'' then Some (JBool False, drop 5 s)
      else let l = takeWhile isNumberChar s in
        if isJsonNumber l then Some (JNum l, dropWhile isNumberChar s) else None)"

lemma skipWs_shorter: "skipWs s = c # t \<Longrightarrow> length t < length s"
  using length_dropWhile_le [of isJsonSpace s] by (simp add: skipWs_def)

text \<open>
  Recursive descent. The tests \<open>length r < length s\<close> always hold (\<open>parse_length\<close> below): they
  only let the definition see that the text gets shorter.
\<close>

function (sequential) parseValue :: "string \<Rightarrow> (json \<times> string) option"
  and parseElems :: "string \<Rightarrow> (json list \<times> string) option"
  and parseMembers :: "(string \<times> json) list \<Rightarrow> string \<Rightarrow> ((string \<times> json) list \<times> string) option" where
  "parseValue s =
     (case skipWs s of [] \<Rightarrow> None
      | c # t \<Rightarrow>
          if charCode c = 34 then map_option (\<lambda>(x, r). (JStr x, r)) (parseStr t)
          else if c = CHR ''['' then
            (if skipWs t \<noteq> [] \<and> hd (skipWs t) = CHR '']'' then Some (JArr [], tl (skipWs t))
             else map_option (\<lambda>(xs, r). (JArr xs, r)) (parseElems t))
          else if c = CHR ''{'' then
            (if skipWs t \<noteq> [] \<and> hd (skipWs t) = CHR ''}'' then Some (JObj [], tl (skipWs t))
             else map_option (\<lambda>(ps, r). (JObj ps, r)) (parseMembers [] t))
          else parseLiteral (c # t))"
| "parseElems s =
     (case parseValue s of None \<Rightarrow> None
      | Some (v, r) \<Rightarrow>
          if \<not> length r < length s then None else
          (case skipWs r of [] \<Rightarrow> None
           | c # r' \<Rightarrow>
               if c = CHR '','' then map_option (\<lambda>(vs, q). (v # vs, q)) (parseElems r')
               else if c = CHR '']'' then Some ([v], r') else None))"
| "parseMembers acc s =
     (case skipWs s of [] \<Rightarrow> None
      | q # t \<Rightarrow>
          if charCode q \<noteq> 34 then None else
          (case parseStr t of None \<Rightarrow> None
           | Some (k, r) \<Rightarrow>
               if \<not> length r < length t then None else
               (case skipWs r of [] \<Rightarrow> None
                | c # r2 \<Rightarrow>
                    if c \<noteq> CHR '':'' then None else
                    (case parseValue r2 of None \<Rightarrow> None
                     | Some (v, r3) \<Rightarrow>
                         if \<not> length r3 < length r2 then None else
                         (case skipWs r3 of [] \<Rightarrow> None
                          | d # r4 \<Rightarrow>
                              if d = CHR '','' then parseMembers (putProp k v acc) r4
                              else if d = CHR ''}'' then Some (putProp k v acc, r4) else None)))))"
  by pat_completeness auto

termination
  by (relation "measure (\<lambda>x. case x of Inl s \<Rightarrow> 2 * length s
        | Inr (Inl s) \<Rightarrow> 2 * length s + 1 | Inr (Inr (acc, s)) \<Rightarrow> 2 * length s + 1)")
    (auto dest!: skipWs_shorter)

declare parseValue.simps [simp del] parseElems.simps [simp del] parseMembers.simps [simp del]

definition JSON_parse :: "string \<Rightarrow> json option" where
  "JSON_parse s = (case parseValue s of Some (v, r) \<Rightarrow> if skipWs r = [] then Some v else None | None \<Rightarrow> None)"


subsection \<open>Parsing consumes text\<close>

lemma parseStr_length: "parseStr s = Some (x, r) \<Longrightarrow> length r < length s"
proof (induction s arbitrary: x r rule: parseStr.induct)
  case 1
  then show ?case by simp
next
  case (2 c s)
  then show ?case
    by (fastforce split: if_splits list.splits option.splits)
qed

lemma parseLiteral_length: "parseLiteral s = Some (v, r) \<Longrightarrow> length r < length s"
proof -
  assume p: "parseLiteral s = Some (v, r)"
  have "length (dropWhile isNumberChar s) < length s" if "isJsonNumber (takeWhile isNumberChar s)"
  proof -
    have "takeWhile isNumberChar s \<noteq> []"
      using that by (auto simp: isJsonNumber_def positiveDecimal_def)
    then show ?thesis
      by (metis add_diff_cancel_left' length_append length_greater_0_conv takeWhile_dropWhile_id
          trans_less_add2 zero_less_diff diff_less length_0_conv add_gr_0 less_add_same_cancel2)
  qed
  with p show ?thesis
    by (auto simp: parseLiteral_def startsWith_iff Let_def split: if_splits)
qed

lemma skipWs_tail: "length t < n \<Longrightarrow> length (skipWs t) - Suc 0 < n"
  using length_dropWhile_le [of isJsonSpace t] by (simp add: skipWs_def)

lemma parse_length:
  "parseValue s = Some (v, r) \<Longrightarrow> length r < length s"
  "parseElems s = Some (vs, r) \<Longrightarrow> length r < length s"
  "parseMembers acc s = Some (ps, r) \<Longrightarrow> length r < length s"
proof (induction s and s and acc s arbitrary: v r and vs r and ps r
    rule: parseValue_parseElems_parseMembers.induct)
  case (1 s)
  from "1.prems" obtain c t where ct: "skipWs s = c # t"
    by (auto simp: parseValue.simps [of s] split: list.splits)
  have lt: "length t < length s" using ct by (rule skipWs_shorter)
  consider (str) "charCode c = 34" | (arr) "c = CHR ''[''" "charCode c \<noteq> 34"
    | (obj) "c = CHR ''{''" "charCode c \<noteq> 34"
    | (lit) "charCode c \<noteq> 34" "c \<noteq> CHR ''[''" "c \<noteq> CHR ''{''" by blast
  then show ?case
  proof cases
    case str
    with "1.prems" ct lt show ?thesis
      by (auto simp: parseValue.simps [of s] dest!: parseStr_length)
  next
    case arr
    show ?thesis
    proof (cases "skipWs t \<noteq> [] \<and> hd (skipWs t) = CHR '']''")
      case True
      with arr "1.prems" ct skipWs_tail [OF lt] show ?thesis
        by (auto simp: parseValue.simps [of s])
    next
      case False
      with arr "1.prems" ct obtain vs where "parseElems t = Some (vs, r)"
        by (auto simp: parseValue.simps [of s])
      then have "length r < length t"
        using arr False by (intro "1.IH"(1) [OF ct]) simp_all
      with lt show ?thesis by linarith
    qed
  next
    case obj
    show ?thesis
    proof (cases "skipWs t \<noteq> [] \<and> hd (skipWs t) = CHR ''}''")
      case True
      with obj "1.prems" ct skipWs_tail [OF lt] show ?thesis
        by (auto simp: parseValue.simps [of s])
    next
      case False
      with obj "1.prems" ct obtain ps where "parseMembers [] t = Some (ps, r)"
        by (auto simp: parseValue.simps [of s])
      then have "length r < length t"
        using obj False by (intro "1.IH"(2) [OF ct]) simp_all
      with lt show ?thesis by linarith
    qed
  next
    case lit
    with "1.prems" ct lt show ?thesis
      by (auto simp: parseValue.simps [of s] dest!: parseLiteral_length)
  qed
next
  case (2 s)
  from "2.prems" obtain v1 r1 where p1: "parseValue s = Some (v1, r1)"
    by (auto simp: parseElems.simps [of s] split: option.splits)
  have lt: "length r1 < length s" using p1 by (rule "2.IH"(1))
  from "2.prems" p1 lt obtain c r2 where c: "skipWs r1 = c # r2"
    by (auto simp: parseElems.simps [of s] split: list.splits)
  have lt2: "length r2 < length r1" using c by (rule skipWs_shorter)
  show ?case
  proof (cases "c = CHR '',''")
    case True
    with "2.prems" p1 lt c obtain ws where "parseElems r2 = Some (ws, r)"
      by (auto simp: parseElems.simps [of s])
    then have "length r < length r2"
      using lt by (intro "2.IH"(2) [OF p1 refl _ c True]) simp_all
    with lt lt2 show ?thesis by linarith
  next
    case False
    with "2.prems" p1 lt lt2 c show ?thesis
      by (auto simp: parseElems.simps [of s] split: if_splits)
  qed
next
  case (3 acc s)
  from "3.prems" obtain q t where q: "skipWs s = q # t" "charCode q = 34"
    by (auto simp: parseMembers.simps [of acc s] split: list.splits if_splits)
  with "3.prems" obtain k r1 where k: "parseStr t = Some (k, r1)"
    by (auto simp: parseMembers.simps [of acc s] split: option.splits)
  have l1: "length t < length s" "length r1 < length t"
    using skipWs_shorter [OF q(1)] parseStr_length [OF k] .
  from "3.prems" q k l1 obtain r2 where r2: "skipWs r1 = CHR '':'' # r2"
    by (auto simp: parseMembers.simps [of acc s] split: list.splits if_splits)
  with "3.prems" q k l1 obtain v r3 where v: "parseValue r2 = Some (v, r3)"
    by (auto simp: parseMembers.simps [of acc s] split: option.splits)
  have l2: "length r2 < length r1" using r2 by (rule skipWs_shorter)
  have l3: "length r3 < length r2" using "3.IH"(1) [OF q(1) _ k refl _ r2 _ v] q(2) l1 by simp
  from "3.prems" q k l1 r2 v l3 obtain d r4 where d: "skipWs r3 = d # r4"
    by (auto simp: parseMembers.simps [of acc s] split: list.splits)
  have l4: "length r4 < length r3" using d by (rule skipWs_shorter)
  show ?case
  proof (cases "d = CHR '',''")
    case True
    with "3.prems" q k l1 r2 v l3 d have "parseMembers (putProp k v acc) r4 = Some (ps, r)"
      by (simp add: parseMembers.simps [of acc s])
    then have "length r < length r4"
      using "3.IH"(2) [OF q(1) _ k refl _ r2 _ v refl _ d True] q(2) l1 l3 by simp
    with l1 l2 l3 l4 show ?thesis by linarith
  next
    case False
    with "3.prems" q k l1 r2 v l3 d l2 l4 show ?thesis
      by (auto simp: parseMembers.simps [of acc s] split: if_splits)
  qed
qed


subsection \<open>Parsing what stringify printed\<close>

fun wfJson :: "json \<Rightarrow> bool" where
  "wfJson (JNum l) \<longleftrightarrow> isJsonNumber l \<and> list_all isNumberChar l"
| "wfJson (JArr vs) \<longleftrightarrow> list_all wfJson vs"
| "wfJson (JObj ps) \<longleftrightarrow> distinct (map fst ps) \<and> list_all (\<lambda>p. wfJson (snd p)) ps"
| "wfJson _ \<longleftrightarrow> True"

definition endsNumber :: "string \<Rightarrow> bool" where
  "endsNumber r \<longleftrightarrow> r = [] \<or> \<not> isNumberChar (hd r)"

lemma hexValue_hexDigit: "n < 16 \<Longrightarrow> hexValue (hexDigit n) = Some n"
  by (auto simp: hexValue_def hexDigit_def Let_def)

lemma json_chars:
  "char_of (34::nat) = CHR 0x22" "char_of (92::nat) = CHR 0x5C" "char_of (8::nat) = CHR 0x08"
  "char_of (9::nat) = CHR 0x09" "char_of (10::nat) = CHR 0x0A" "char_of (12::nat) = CHR 0x0C"
  "char_of (13::nat) = CHR 0x0D"
  by (simp_all add: char_of_def bit_Suc_0_iff)

lemma parseStr_escape:
  "parseStr (escapeJsonChar c @ t) = map_option (\<lambda>(y, r). (c # y, r)) (parseStr t)"
proof -
  define n where "n = charCode c"
  have c: "c = char_of n" "n < 256" by (simp_all add: n_def)
  consider "n = 34" | "n = 92" | "n = 8" | "n = 9" | "n = 10" | "n = 12" | "n = 13"
    | (ctl) "n < 32" "n \<notin> {8, 9, 10, 12, 13}" | (plain) "32 \<le> n" "n \<noteq> 34" "n \<noteq> 92"
    by force
  then show ?thesis
  proof cases
    case ctl
    have "n div 16 * 16 + n mod 16 = n" by simp
    moreover have "n div 16 < 16" "n mod 16 < 16" using ctl(1) by auto
    ultimately have "hexUnit (CHR ''0'') (CHR ''0'') (hexDigit (n div 16)) (hexDigit (n mod 16)) = Some c"
      using c(1) by (simp add: hexUnit_def hexValue_hexDigit) (simp add: hexValue_def)
    with ctl show ?thesis by (simp add: escapeJsonChar_def flip: n_def)
  next
    case plain
    then show ?thesis by (simp add: escapeJsonChar_def flip: n_def)
  qed (simp_all add: escapeJsonChar_def c unescape_def json_chars)
qed

lemma parseStr_quoted:
  "parseStr (concat (map escapeJsonChar s) @ CHR 0x22 # r) = Some (s, r)"
  by (induction s) (simp_all add: parseStr_escape)

lemma number_head:
  assumes "isJsonNumber l"
  shows "\<exists>c t. l = c # t \<and> (isDigit c \<or> c = CHR ''-'')"
proof (cases l)
  case Nil
  with assms show ?thesis by (simp add: isJsonNumber_def positiveDecimal_def)
next
  case (Cons c t)
  have "isDigit c" if "c \<noteq> CHR ''-''"
  proof (rule ccontr)
    assume "\<not> isDigit c"
    with that Cons assms show False by (simp add: isJsonNumber_def positiveDecimal_def)
  qed
  with Cons show ?thesis by blast
qed

text \<open>The first character of a printed value opens no other production.\<close>

lemma stringify_head:
  assumes "wfJson v"
  shows "\<exists>c t. stringify v = c # t \<and> \<not> isJsonSpace c \<and> c \<noteq> CHR '']'' \<and> c \<noteq> CHR ''}''"
proof (cases v)
  case (JNum l)
  with assms have "isJsonNumber l" by simp
  then obtain c t where l: "l = c # t" and c: "isDigit c \<or> c = CHR ''-''"
    using number_head by blast
  have "\<not> isJsonSpace c" "c \<noteq> CHR '']''" "c \<noteq> CHR ''}''"
    using c by (auto simp: isJsonSpace_def isDigit_def)
  with JNum l show ?thesis by simp
qed (simp_all add: isJsonSpace_def quoteJson_def)

lemma skipWs_stringify: "wfJson v \<Longrightarrow> skipWs (stringify v @ r) = stringify v @ r"
  using stringify_head [of v] by (auto simp: skipWs_def)

lemma parseValue_number:
  assumes "isJsonNumber l" "list_all isNumberChar l" "endsNumber r"
  shows "parseValue (l @ r) = Some (JNum l, r)"
proof -
  obtain c t where l: "l = c # t" and c: "isDigit c \<or> c = CHR ''-''"
    using number_head [OF assms(1)] by blast
  have all: "\<And>x. x \<in> set l \<Longrightarrow> isNumberChar x"
    using assms(2) by (simp add: list_all_iff)
  have tw: "takeWhile isNumberChar (l @ r) = l" "dropWhile isNumberChar (l @ r) = r"
    using all assms(3) by (cases r; simp add: endsNumber_def)+
  have "skipWs (l @ r) = l @ r"
    using c by (auto simp: l skipWs_def isJsonSpace_def isDigit_def)
  moreover have "parseLiteral (l @ r) = Some (JNum l, r)"
    using c assms(1) tw by (auto simp: parseLiteral_def l startsWith_def isDigit_def)
  ultimately show ?thesis
    using c by (subst parseValue.simps) (auto simp: l isDigit_def)
qed

lemma parseElems_print:
  assumes "vs \<noteq> []" and "\<And>v r. v \<in> set vs \<Longrightarrow> endsNumber r \<Longrightarrow> parseValue (stringify v @ r) = Some (v, r)"
  shows "parseElems (joinWith '','' (map stringify vs) @ CHR '']'' # r) = Some (vs, r)"
  using assms
proof (induction vs)
  case Nil
  then show ?case by simp
next
  case (Cons v vs)
  show ?case
  proof (cases vs)
    case Nil
    have p: "parseValue (stringify v @ CHR '']'' # r) = Some (v, CHR '']'' # r)"
      using Cons.prems(2) by (simp add: endsNumber_def isNumberChar_def isDigit_def)
    show ?thesis
      using parse_length(1) [OF p] p
      by (subst parseElems.simps) (simp add: Nil skipWs_def isJsonSpace_def)
  next
    case (Cons w ws)
    let ?t = "CHR '','' # joinWith '','' (map stringify vs) @ CHR '']'' # r"
    have p: "parseValue (stringify v @ ?t) = Some (v, ?t)"
      using Cons.prems(2) by (simp add: endsNumber_def isNumberChar_def isDigit_def)
    have "parseElems (joinWith '','' (map stringify vs) @ CHR '']'' # r) = Some (vs, r)"
      using Cons.IH Cons Cons.prems(2) by simp
    then have "parseElems (stringify v @ ?t) = Some (v # vs, r)"
      using parse_length(1) [OF p] p
      by (subst parseElems.simps) (simp add: skipWs_def isJsonSpace_def)
    then show ?thesis by (simp add: Cons)
  qed
qed

lemma parseMembers_print:
  assumes "ps \<noteq> []" and "distinct (map fst (acc @ ps))"
    and "\<And>p r. p \<in> set ps \<Longrightarrow> endsNumber r \<Longrightarrow> parseValue (stringify (snd p) @ r) = Some (snd p, r)"
  shows "parseMembers acc (joinWith '','' (map (\<lambda>p. quoteJson (fst p) @ '':'' @ stringify (snd p)) ps)
      @ CHR ''}'' # r) = Some (acc @ ps, r)"
  using assms
proof (induction ps arbitrary: acc)
  case Nil
  then show ?case by simp
next
  case (Cons p ps)
  obtain k v where kv: "p = (k, v)" by (cases p)
  have put: "putProp k v acc = acc @ [(k, v)]"
    using Cons.prems(2) kv by (auto simp: putProp_def)
  let ?pr = "\<lambda>p. quoteJson (fst p) @ '':'' @ stringify (snd p)"
  define u where "u = (if ps = [] then CHR ''}'' # r
    else CHR '','' # joinWith '','' (map ?pr ps) @ CHR ''}'' # r)"
  have printed: "joinWith '','' (map ?pr (p # ps)) @ CHR ''}'' # r =
      CHR 0x22 # concat (map escapeJsonChar k) @ CHR 0x22 # CHR '':'' # stringify v @ u"
    by (cases ps) (simp_all add: kv u_def quoteJson_def)
  have ends: "endsNumber u"
    by (simp add: u_def endsNumber_def isNumberChar_def isDigit_def)
  have pv: "parseValue (stringify v @ u) = Some (v, u)"
    using Cons.prems(3) [of p u] ends kv by simp
  have ks: "parseStr (concat (map escapeJsonChar k) @ CHR 0x22 # CHR '':'' # stringify v @ u) =
      Some (k, CHR '':'' # stringify v @ u)"
    by (rule parseStr_quoted)
  have step: "parseMembers acc (CHR 0x22 # concat (map escapeJsonChar k) @ CHR 0x22 #
        CHR '':'' # stringify v @ u) =
      (case skipWs u of [] \<Rightarrow> None | d # r4 \<Rightarrow>
        if d = CHR '','' then parseMembers (putProp k v acc) r4
        else if d = CHR ''}'' then Some (putProp k v acc, r4) else None)"
    using parse_length(1) [OF pv] parseStr_length [OF ks] pv ks
    by (subst parseMembers.simps) (simp add: skipWs_def isJsonSpace_def)
  show ?case
  proof (cases "ps = []")
    case True
    then show ?thesis
      unfolding printed step put by (simp add: u_def skipWs_def isJsonSpace_def kv)
  next
    case False
    have "parseMembers (acc @ [(k, v)]) (joinWith '','' (map ?pr ps) @ CHR ''}'' # r) =
        Some ((acc @ [(k, v)]) @ ps, r)"
      using Cons.IH [of "acc @ [(k, v)]"] False Cons.prems kv by simp
    then show ?thesis
      unfolding printed step put using False by (simp add: u_def skipWs_def isJsonSpace_def kv)
  qed
qed

lemma parseValue_stringify:
  "wfJson v \<Longrightarrow> endsNumber r \<Longrightarrow> parseValue (stringify v @ r) = Some (v, r)"
proof (induction v arbitrary: r)
  case (JNum l)
  then show ?case by (simp add: parseValue_number)
next
  case (JStr s)
  show ?case
    by (subst parseValue.simps) (simp add: quoteJson_def skipWs_def isJsonSpace_def parseStr_quoted)
next
  case (JArr vs)
  show ?case
  proof (cases vs)
    case Nil
    then show ?thesis
      by (subst parseValue.simps) (simp add: skipWs_def isJsonSpace_def)
  next
    case (Cons w ws)
    let ?t = "joinWith '','' (map stringify vs) @ CHR '']'' # r"
    have "wfJson w" using JArr.prems Cons by simp
    from stringify_head [OF this] obtain c u where "?t = c # u" "\<not> isJsonSpace c" "c \<noteq> CHR '']''"
      using Cons by (cases ws) auto
    moreover have "parseElems ?t = Some (vs, r)"
      using JArr by (intro parseElems_print) (auto simp: Cons list_all_iff)
    ultimately show ?thesis
      by (subst parseValue.simps) (simp add: skipWs_def isJsonSpace_def)
  qed
next
  case (JObj ps)
  show ?case
  proof (cases ps)
    case Nil
    then show ?thesis
      by (subst parseValue.simps) (simp add: skipWs_def isJsonSpace_def)
  next
    case (Cons w ws)
    let ?t = "joinWith '','' (map (\<lambda>p. quoteJson (fst p) @ '':'' @ stringify (snd p)) ps) @ CHR ''}'' # r"
    obtain u where "?t = CHR 0x22 # u"
      using Cons by (cases ws) (auto simp: quoteJson_def)
    moreover have "parseMembers [] ?t = Some ([] @ ps, r)"
      using JObj by (intro parseMembers_print) (fastforce simp: Cons list_all_iff)+
    ultimately show ?thesis
      by (subst parseValue.simps) (simp add: skipWs_def isJsonSpace_def)
  qed
qed (simp_all add: parseValue.simps skipWs_def isJsonSpace_def parseLiteral_def startsWith_def)

theorem JSON_parse_stringify: "wfJson v \<Longrightarrow> JSON_parse (stringify v) = Some v"
  using parseValue_stringify [of v "[]"] by (simp add: JSON_parse_def endsNumber_def skipWs_def)

end
