(* ===== verification/Payment_Env.thy ===== *)
theory Payment_Env
  imports Js_Json
begin

section \<open>Payment worker: configuration and product catalogue\<close>

text \<open>
  \<^verbatim>\<open>workers/payment/src/env.ts\<close> and \<^verbatim>\<open>workers/payment/src/product-catalog.ts\<close>: the bindings the
  worker runs with, the App Store environments it accepts, the sandbox policy and the server-owned
  catalogue of products. A thrown value is a \<open>js_error\<close>: an \<open>Error\<close> with its message, the
  worker's own \<open>ActivationError\<close>, or a host exception (\<open>JSON.parse\<close>, \<open>atob\<close>, \<open>D1\<close>, \<dots>)
  whose text is engine-defined and here names its origin.
\<close>

datatype js_error =
    JsError string
  | ActivationError string nat bool
  | HostError string

text \<open>\<open>errorMessage\<close> of \<^verbatim>\<open>index.ts\<close>.\<close>

fun errorMessage :: "js_error \<Rightarrow> string" where
  "errorMessage (JsError m) = m"
| "errorMessage (ActivationError m st retryable) = m"
| "errorMessage (HostError m) = m"

datatype AppStoreEnvironment = Production | Sandbox

fun environmentText :: "AppStoreEnvironment \<Rightarrow> string" where
  "environmentText Production = ''Production''"
| "environmentText Sandbox = ''Sandbox''"

lemma environmentText_inject [simp]: "environmentText a = environmentText b \<longleftrightarrow> a = b"
  by (cases a; cases b) simp_all

text \<open>The string-valued bindings of \<open>RuntimeEnv\<close>.\<close>

record RuntimeEnv =
  KINIC_WIKI_CANISTER_ID :: string
  KINIC_WIKI_IC_HOST :: "string option"
  KINIC_IAP_AUTHORITY_ID :: string
  KINIC_IAP_AUTHORITY_IDENTITY_PEM :: string
  APP_STORE_ALLOWED_ENVIRONMENTS :: string
  APP_STORE_SANDBOX_FULFILLMENT_ENABLED :: string
  APP_STORE_SANDBOX_GRANT_LIMIT :: string
  APP_STORE_BUNDLE_ID :: string
  APP_STORE_ISSUER_ID :: string
  APP_STORE_KEY_ID :: string
  APP_STORE_PRIVATE_KEY_PEM :: string
  APP_STORE_NOTIFICATION_ROOT_SHA256S :: string
  IAP_PRODUCT_CATALOG_JSON :: string

record SandboxFulfillmentPolicy =
  enabled :: bool
  grantLimit :: nat

subsection \<open>Allowed environments\<close>

definition environmentOf :: "string \<Rightarrow> AppStoreEnvironment option" where
  "environmentOf s =
     (if s = ''Production'' then Some Production else if s = ''Sandbox'' then Some Sandbox else None)"

text \<open>The \<open>ReadonlySet\<close> is the duplicate-free list of its elements.\<close>

definition allowedAppStoreEnvironments :: "RuntimeEnv \<Rightarrow> js_error + AppStoreEnvironment list" where
  "allowedAppStoreEnvironments env =
     (let values = filter (\<lambda>v. v \<noteq> []) (map trim (splitOn (CHR '','') (APP_STORE_ALLOWED_ENVIRONMENTS env)))
      in case those (map environmentOf values) of
           None \<Rightarrow> Inl (JsError ''APP_STORE_ALLOWED_ENVIRONMENTS must contain only Production or Sandbox'')
         | Some environments \<Rightarrow>
             if values = []
             then Inl (JsError ''APP_STORE_ALLOWED_ENVIRONMENTS must contain only Production or Sandbox'')
             else if length (remdups environments) \<noteq> length values
             then Inl (JsError ''APP_STORE_ALLOWED_ENVIRONMENTS must not contain duplicates'')
             else Inr environments)"

lemma those_length: "those os = Some xs \<Longrightarrow> length xs = length os"
  by (induction os arbitrary: xs) (auto split: option.splits)

lemma allowedAppStoreEnvironments_sound:
  assumes "allowedAppStoreEnvironments env = Inr es"
  shows "es \<noteq> []" and "distinct es"
proof -
  let ?vs = "filter (\<lambda>v. v \<noteq> []) (map trim (splitOn (CHR '','') (APP_STORE_ALLOWED_ENVIRONMENTS env)))"
  from assms have t: "those (map environmentOf ?vs) = Some es" and "?vs \<noteq> []"
    and c: "length (remdups es) = length ?vs"
    by (auto simp: allowedAppStoreEnvironments_def Let_def split: option.splits if_splits)
  have l: "length es = length ?vs" using those_length [OF t] by simp
  with \<open>?vs \<noteq> []\<close> show "es \<noteq> []" by (metis length_0_conv)
  show "distinct es" using c l by (metis length_remdups_eq remdups_id_iff_distinct)
qed

subsection \<open>Sandbox policy\<close>

text \<open>\<open>Number.MAX_SAFE_INTEGER\<close>; a decimal numeral converts exactly up to it, and above it to a
  number that is not a safe integer.\<close>

definition maxSafeInteger :: nat where
  "maxSafeInteger = 9007199254740991"

definition sandboxFulfillmentPolicy :: "RuntimeEnv \<Rightarrow> js_error + SandboxFulfillmentPolicy" where
  "sandboxFulfillmentPolicy env =
     (let enabledValue = APP_STORE_SANDBOX_FULFILLMENT_ENABLED env in
      if enabledValue \<noteq> ''true'' \<and> enabledValue \<noteq> ''false''
      then Inl (JsError ''APP_STORE_SANDBOX_FULFILLMENT_ENABLED must be true or false'')
      else if \<not> positiveDecimal (APP_STORE_SANDBOX_GRANT_LIMIT env)
      then Inl (JsError ''APP_STORE_SANDBOX_GRANT_LIMIT must be a positive integer'')
      else let grantLimit = decToNat (APP_STORE_SANDBOX_GRANT_LIMIT env) in
        if \<not> grantLimit \<le> maxSafeInteger
        then Inl (JsError ''APP_STORE_SANDBOX_GRANT_LIMIT exceeds the safe integer range'')
        else Inr \<lparr>enabled = (enabledValue = ''true''), grantLimit = grantLimit\<rparr>)"

lemma sandboxFulfillmentPolicy_limit:
  "sandboxFulfillmentPolicy env = Inr p \<Longrightarrow> 0 < grantLimit p \<and> grantLimit p \<le> maxSafeInteger"
  by (auto simp: sandboxFulfillmentPolicy_def Let_def decToNat_positive split: if_splits)

subsection \<open>Product catalogue\<close>

text \<open>
  The catalogue \<open>Map<string, bigint>\<close> is the association list of its entries in insertion order;
  \<open>Object.entries\<close> of a parsed object has no repeated key.
\<close>

type_synonym ProductCatalog = "(string \<times> nat) list"

definition maxCycles :: nat where
  "maxCycles = 9223372036854775807"

definition parseCycles :: "(string \<Rightarrow> string) \<Rightarrow> json \<Rightarrow> string \<Rightarrow> js_error + nat" where
  "parseCycles otherText v productId =
     bindR
       (case v of
          JStr s \<Rightarrow> Inr s
        | JNum l \<Rightarrow> Inr (numberText otherText l)
        | _ \<Rightarrow> Inl (JsError (''IAP product '' @ productId @ '' cycles must be a string or number'')))
       (\<lambda>s.
          if \<not> positiveDecimal s
          then Inl (JsError (''IAP product '' @ productId @ '' cycles must be a positive integer''))
          else if decToNat s > maxCycles
          then Inl (JsError (''IAP product '' @ productId @ '' cycles exceed canister limit''))
          else Inr (decToNat s))"

fun parseEntries :: "(string \<Rightarrow> string) \<Rightarrow> (string \<times> json) list \<Rightarrow> js_error + ProductCatalog" where
  "parseEntries otherText [] = Inr []"
| "parseEntries otherText ((productId, cyclesValue) # es) =
     (if trim productId = [] \<or> productId \<noteq> trim productId
      then Inl (JsError ''IAP product id must be non-empty and trimmed'')
      else bindR (parseCycles otherText cyclesValue productId) (\<lambda>cycles.
           bindR (parseEntries otherText es) (\<lambda>catalog. Inr ((productId, cycles) # catalog))))"

definition parseProductCatalog :: "(string \<Rightarrow> string) \<Rightarrow> string \<Rightarrow> js_error + ProductCatalog" where
  "parseProductCatalog otherText raw =
     (case JSON_parse raw of
        None \<Rightarrow> Inl (JsError ''IAP_PRODUCT_CATALOG_JSON must be valid JSON'')
      | Some parsed \<Rightarrow>
          (case asObject parsed of
             None \<Rightarrow> Inl (JsError ''IAP_PRODUCT_CATALOG_JSON must be an object'')
           | Some entries \<Rightarrow>
               bindR (parseEntries otherText entries) (\<lambda>catalog.
                 if catalog = [] then Inl (JsError ''IAP product catalog must not be empty'')
                 else Inr catalog)))"

definition catalogEntryOk :: "string \<times> nat \<Rightarrow> bool" where
  "catalogEntryOk e \<longleftrightarrow> fst e \<noteq> [] \<and> trim (fst e) = fst e \<and> 0 < snd e \<and> snd e \<le> maxCycles"

lemma parseCycles_bounds:
  "parseCycles otherText v p = Inr n \<Longrightarrow> 0 < n \<and> n \<le> maxCycles"
  by (auto simp: parseCycles_def result_simps decToNat_positive split: json.splits if_splits)

lemma parseEntries_ok:
  "parseEntries otherText es = Inr catalog \<Longrightarrow>
     map fst catalog = map fst es \<and> list_all catalogEntryOk catalog"
proof (induction otherText es arbitrary: catalog rule: parseEntries.induct)
  case (1 otherText)
  then show ?case by simp
next
  case (2 otherText p v es)
  from "2.prems" obtain n rest where p: "trim p \<noteq> []" "p = trim p"
    and n: "parseCycles otherText v p = Inr n" and rest: "parseEntries otherText es = Inr rest"
    and c: "catalog = (p, n) # rest"
    by (auto simp: result_simps split: if_splits)
  have "map fst rest = map fst es \<and> list_all catalogEntryOk rest"
    using "2.IH" [OF _ n rest] p by auto
  moreover have "catalogEntryOk (p, n)"
    using p parseCycles_bounds [OF n] by (auto simp: catalogEntryOk_def)
  ultimately show ?case by (simp add: c)
qed

lemma parseEntries_decimal:
  "list_all catalogEntryOk es \<Longrightarrow>
     parseEntries otherText (map (\<lambda>e. (fst e, JStr (natToDec (snd e)))) es) = Inr es"
  by (induction es) (auto simp: catalogEntryOk_def parseCycles_def positiveDecimal_natToDec)

end
