(* ===== verification/Js_Bytes.thy ===== *)
theory Js_Bytes
  imports Js_String "HOL-Library.Word"
begin

section \<open>Byte arrays, base64 and UTF-8\<close>

text \<open>
  A \<open>Uint8Array\<close> is a list of \<open>8 word\<close>. \<open>btoa\<close> and \<open>atob\<close> work on binary strings, which
  are byte lists here; \<open>atob\<close> is the standard's forgiving decoder (white space dropped, at most
  two padding characters dropped, a length of 1 modulo 4 or a foreign character refused).
  \<open>TextEncoder\<close> and \<open>TextDecoder\<close> are UTF-8 on the strings of the model; the decoder gives
  \<open>None\<close> on bytes that do not spell such a string.
\<close>

type_synonym byte = "8 word"

lemma unat_byte_less: "unat (b :: byte) < 256"
  using unsigned_less [of b] by simp

lemma unat_byte_of_nat: "n < 256 \<Longrightarrow> unat (word_of_nat n :: byte) = n"
  by (simp add: unat_of_nat)

lemma word_of_unat_byte [simp]: "word_of_nat (unat (b :: byte)) = b"
  by simp

subsection \<open>The alphabet\<close>

definition b64Char :: "nat \<Rightarrow> char" where
  "b64Char n =
     (if n < 26 then char_of (65 + n)
      else if n < 52 then char_of (71 + n)
      else if n < 62 then char_of (n - 4)
      else if n = 62 then CHR ''+'' else CHR ''/'')"

definition b64Value :: "char \<Rightarrow> nat option" where
  "b64Value c =
     (let k = charCode c in
      if 65 \<le> k \<and> k \<le> 90 then Some (k - 65)
      else if 97 \<le> k \<and> k \<le> 122 then Some (k - 71)
      else if 48 \<le> k \<and> k \<le> 57 then Some (k + 4)
      else if c = CHR ''+'' then Some 62
      else if c = CHR ''/'' then Some 63 else None)"

lemma b64Value_b64Char: "n < 64 \<Longrightarrow> b64Value (b64Char n) = Some n"
  by (auto simp: b64Value_def b64Char_def Let_def)

lemma b64Value_Some_plain:
  "b64Value c = Some n \<Longrightarrow> c \<noteq> CHR ''='' \<and> charCode c \<notin> {9, 10, 12, 13, 32}
     \<and> c \<noteq> CHR ''-'' \<and> c \<noteq> CHR ''_'' \<and> c \<noteq> CHR ''.''"
  by (auto simp: b64Value_def Let_def split: if_splits)

subsection \<open>Groups of six bits\<close>

fun sextets :: "byte list \<Rightarrow> nat list" where
  "sextets [] = []"
| "sextets [a] = (let n = unat a * 16 in [n div 64, n mod 64])"
| "sextets [a, b] = (let n = (unat a * 256 + unat b) * 4 in [n div 4096, n div 64 mod 64, n mod 64])"
| "sextets (a # b # c # bs) =
     (let n = (unat a * 256 + unat b) * 256 + unat c
      in n div 262144 # n div 4096 mod 64 # n div 64 mod 64 # n mod 64 # sextets bs)"

fun sextetsToBytes :: "nat list \<Rightarrow> byte list" where
  "sextetsToBytes (a # b # c # d # ns) =
     (let n = ((a * 64 + b) * 64 + c) * 64 + d
      in word_of_nat (n div 65536) # word_of_nat (n div 256 mod 256) # word_of_nat (n mod 256)
         # sextetsToBytes ns)"
| "sextetsToBytes [a, b, c] =
     (let n = ((a * 64 + b) * 64 + c) div 4 in [word_of_nat (n div 256), word_of_nat (n mod 256)])"
| "sextetsToBytes [a, b] = [word_of_nat ((a * 64 + b) div 16)]"
| "sextetsToBytes _ = []"

lemma sextets_less: "n \<in> set (sextets bs) \<Longrightarrow> n < 64"
proof (induction bs rule: sextets.induct)
  case (2 a)
  then show ?case using unat_byte_less [of a] by (auto simp: Let_def)
next
  case (3 a b)
  then show ?case using unat_byte_less [of a] unat_byte_less [of b] by (auto simp: Let_def)
next
  case (4 a b c bs)
  then show ?case
    using unat_byte_less [of a] unat_byte_less [of b] unat_byte_less [of c] by (auto simp: Let_def)
qed simp

lemma regroup_digits:
  "m div (k * 64) * 64 + m div k mod 64 = m div (k :: nat)"
  by (simp add: div_mult2_eq)

lemma regroup_three:
  assumes "a < 256" "b < 256" "c < (256::nat)" and n: "n = (a * 256 + b) * 256 + c"
  shows "((n div 262144 * 64 + n div 4096 mod 64) * 64 + n div 64 mod 64) * 64 + n mod 64 = n"
    and "n div 65536 = a" and "n div 256 mod 256 = b" and "n mod 256 = c"
proof -
  show "((n div 262144 * 64 + n div 4096 mod 64) * 64 + n div 64 mod 64) * 64 + n mod 64 = n"
    using regroup_digits [of n 4096] regroup_digits [of n 64] regroup_digits [of n 1] by simp
  show "n div 65536 = a"
    using assms by (intro div_nat_eqI) simp_all
  have "n div 256 = a * 256 + b"
    using assms by (intro div_nat_eqI) simp_all
  then show "n div 256 mod 256 = b" using assms(2) by simp
  show "n mod 256 = c" unfolding n using assms(3) by (simp only: mod_mult_self3 mod_less)
qed

lemma regroup_two:
  assumes "a < 256" "b < (256::nat)" and n: "n = (a * 256 + b) * 4"
  shows "((n div 4096 * 64 + n div 64 mod 64) * 64 + n mod 64) div 4 div 256 = a"
    and "((n div 4096 * 64 + n div 64 mod 64) * 64 + n mod 64) div 4 mod 256 = b"
proof -
  have e: "(n div 4096 * 64 + n div 64 mod 64) * 64 + n mod 64 = n"
    using regroup_digits [of n 64] regroup_digits [of n 1] by simp
  show "((n div 4096 * 64 + n div 64 mod 64) * 64 + n mod 64) div 4 div 256 = a"
    unfolding e using assms by (simp add: div_nat_eqI)
  show "((n div 4096 * 64 + n div 64 mod 64) * 64 + n mod 64) div 4 mod 256 = b"
    unfolding e using assms by simp
qed

lemma sextetsToBytes_sextets [simp]: "sextetsToBytes (sextets bs) = bs"
proof (induction bs rule: sextets.induct)
  case (2 a)
  have "(unat a * 16 div 64 * 64 + unat a * 16 mod 64) div 16 = unat a"
    unfolding div_mult_mod_eq by simp
  then show ?case by (simp only: sextets.simps sextetsToBytes.simps Let_def word_of_unat_byte)
next
  case (3 a b)
  note r = regroup_two [OF unat_byte_less [of a] unat_byte_less [of b] refl]
  show ?case by (simp only: sextets.simps sextetsToBytes.simps Let_def r word_of_unat_byte)
next
  case (4 a b c bs)
  note r = regroup_three [OF unat_byte_less [of a] unat_byte_less [of b] unat_byte_less [of c] refl]
  show ?case
    by (simp only: sextets.simps sextetsToBytes.simps Let_def r 4 word_of_unat_byte)
qed simp

lemma length_sextets_mod:
  "length (sextets bs) mod 4 = (if length bs mod 3 = 0 then 0 else Suc (length bs mod 3))"
proof (induction bs rule: sextets.induct)
  case (4 a b c bs)
  have "length (a # b # c # bs) mod 3 = length bs mod 3" by (simp add: mod_Suc_eq)
  moreover have "length (sextets (a # b # c # bs)) mod 4 = length (sextets bs) mod 4"
    by (simp add: Let_def)
  ultimately show ?case using 4 by (simp only:)
qed (simp_all add: Let_def)

subsection \<open>btoa and atob\<close>

definition padLength :: "nat \<Rightarrow> nat" where
  "padLength n = (if n mod 3 = 0 then 0 else 3 - n mod 3)"

definition btoa :: "byte list \<Rightarrow> string" where
  "btoa bs = map b64Char (sextets bs) @ replicate (padLength (length bs)) (CHR ''='')"

definition dropPad :: "string \<Rightarrow> string" where
  "dropPad s =
     (case rev s of
        a # b # r \<Rightarrow> if a = CHR ''='' then if b = CHR ''='' then rev r else rev (b # r) else s
      | [a] \<Rightarrow> if a = CHR ''='' then [] else s
      | [] \<Rightarrow> [])"

definition atob :: "string \<Rightarrow> byte list option" where
  "atob s =
     (let s1 = filter (\<lambda>c. charCode c \<notin> {9, 10, 12, 13, 32}) s;
          s2 = (if length s1 mod 4 = 0 then dropPad s1 else s1)
      in if length s2 mod 4 = 1 then None
         else map_option sextetsToBytes (those (map b64Value s2)))"

lemma those_map_Some: "(\<And>x. x \<in> set xs \<Longrightarrow> f x = Some (g x)) \<Longrightarrow> those (map f xs) = Some (map g xs)"
  by (induction xs) auto

lemma dropPad_append:
  assumes "n \<le> 2" and "CHR ''='' \<notin> set s"
  shows "dropPad (s @ replicate n (CHR ''='')) = s"
proof -
  consider "n = 0" | "n = 1" | "n = 2" using assms(1) by linarith
  then show ?thesis
  proof cases
    case 1
    have "hd (rev s) \<noteq> CHR ''=''" if "s \<noteq> []"
      using that assms(2) by (metis hd_in_set rev_is_Nil_conv set_rev)
    then show ?thesis
      using 1 by (auto simp: dropPad_def split: list.splits)
  next
    case 2
    have "hd (rev s) \<noteq> CHR ''=''" if "s \<noteq> []"
      using that assms(2) by (metis hd_in_set rev_is_Nil_conv set_rev)
    then show ?thesis
      using 2 by (cases "rev s") (auto simp: dropPad_def rev_swap)
  next
    case 3
    then show ?thesis by (simp add: dropPad_def numeral_2_eq_2)
  qed
qed

text \<open>What \<open>atob\<close> gives for the unpadded digits of a byte list, padded to a multiple of four.\<close>

lemma atob_sextets:
  assumes "length bs mod 3 = 0 \<longrightarrow> k = 0" and "length bs mod 3 = 1 \<longrightarrow> k = 2"
    and "length bs mod 3 = 2 \<longrightarrow> k = 1"
  shows "atob (map b64Char (sextets bs) @ replicate k (CHR ''='')) = Some bs"
proof -
  let ?s = "map b64Char (sextets bs)"
  have val: "\<And>n. n \<in> set (sextets bs) \<Longrightarrow> b64Value (b64Char n) = Some n"
    by (simp add: b64Value_b64Char sextets_less)
  have plain: "c \<noteq> CHR ''='' \<and> charCode c \<notin> {9, 10, 12, 13, 32}" if "c \<in> set ?s" for c
  proof -
    from that obtain n where "n \<in> set (sextets bs)" "c = b64Char n" by auto
    with b64Value_Some_plain [OF val [of n]] show ?thesis by simp
  qed
  have f: "filter (\<lambda>c. charCode c \<notin> {9, 10, 12, 13, 32}) (?s @ replicate k (CHR ''='')) =
      ?s @ replicate k (CHR ''='')"
    using plain by (intro filter_True) auto
  have m3: "length bs mod 3 = 0 \<or> length bs mod 3 = 1 \<or> length bs mod 3 = 2" by presburger
  have k2: "k \<le> 2" using m3 assms by auto
  have len: "(length (sextets bs) + k) mod 4 = 0"
    using m3
  proof (elim disjE)
    assume "length bs mod 3 = 0"
    with assms length_sextets_mod [of bs] show ?thesis by simp
  next
    assume "length bs mod 3 = 1"
    with assms length_sextets_mod [of bs] have "length (sextets bs) mod 4 = 2" "k = 2" by simp_all
    then show ?thesis by presburger
  next
    assume "length bs mod 3 = 2"
    with assms length_sextets_mod [of bs] have "length (sextets bs) mod 4 = 3" "k = 1" by simp_all
    then show ?thesis by presburger
  qed
  have not1: "length (sextets bs) mod 4 \<noteq> 1"
    using m3 length_sextets_mod [of bs] by auto
  have dp: "dropPad (?s @ replicate k (CHR ''='')) = ?s"
    using k2 plain by (intro dropPad_append) auto
  have "those (map b64Value ?s) = Some (sextets bs)"
    using those_map_Some [of "sextets bs" "b64Value \<circ> b64Char" id] val by simp
  then show ?thesis
    unfolding atob_def Let_def f using len not1 dp by simp
qed

lemma atob_btoa [simp]: "atob (btoa bs) = Some bs"
  unfolding btoa_def by (rule atob_sextets) (simp_all add: padLength_def)

subsection \<open>UTF-8\<close>

definition utf8Char :: "char \<Rightarrow> byte list" where
  "utf8Char c =
     (let n = charCode c in
      if n < 128 then [word_of_nat n] else [word_of_nat (192 + n div 64), word_of_nat (128 + n mod 64)])"

definition utf8Encode :: "string \<Rightarrow> byte list" where
  "utf8Encode s = concat (map utf8Char s)"

fun utf8Decode :: "byte list \<Rightarrow> string option" where
  "utf8Decode [] = Some []"
| "utf8Decode (b # bs) =
     (let n = unat b in
      if n < 128 then map_option (\<lambda>s. char_of n # s) (utf8Decode bs)
      else if n = 194 \<or> n = 195 then
        (case bs of [] \<Rightarrow> None
         | b2 # bs2 \<Rightarrow>
             if 128 \<le> unat b2 \<and> unat b2 < 192
             then map_option (\<lambda>s. char_of ((n - 192) * 64 + (unat b2 - 128)) # s) (utf8Decode bs2)
             else None)
      else None)"

lemma utf8Decode_utf8Char:
  "utf8Decode (utf8Char c @ bs) = map_option (\<lambda>s. c # s) (utf8Decode bs)"
proof -
  define n where "n = charCode c"
  have n: "n < 256" "char_of n = c" by (simp_all add: n_def)
  show ?thesis
  proof (cases "n < 128")
    case True
    then show ?thesis
      using n by (simp add: utf8Char_def Let_def flip: n_def) (simp add: unat_of_nat)
  next
    case False
    have "n div 64 < 4" using n(1) by (simp add: less_mult_imp_div_less)
    moreover have "2 \<le> n div 64" using False div_le_mono [of 128 n 64] by simp
    ultimately have hi: "192 + n div 64 = 194 \<or> 192 + n div 64 = 195" by linarith
    have lo: "128 + n mod 64 < 192" "128 \<le> 128 + n mod 64" by simp_all
    have u1: "unat (word_of_nat (192 + n div 64) :: byte) = 192 + n div 64"
      using hi by (intro unat_byte_of_nat) linarith
    have u2: "unat (word_of_nat (128 + n mod 64) :: byte) = 128 + n mod 64"
      using lo by (intro unat_byte_of_nat) linarith
    have "(192 + n div 64 - 192) * 64 + (128 + n mod 64 - 128) = n" by simp
    then show ?thesis
      using False hi lo u1 u2 n(2) by (auto simp: utf8Char_def Let_def simp flip: n_def)
  qed
qed

lemma utf8Decode_utf8Encode [simp]: "utf8Decode (utf8Encode s) = Some s"
  by (induction s) (simp_all add: utf8Encode_def utf8Decode_utf8Char)

subsection \<open>URI components\<close>

definition isUriUnreserved :: "char \<Rightarrow> bool" where
  "isUriUnreserved c \<longleftrightarrow>
     97 \<le> charCode c \<and> charCode c \<le> 122 \<or> 65 \<le> charCode c \<and> charCode c \<le> 90 \<or> isDigit c \<or>
     c \<in> set ''-_.!~*()'' \<or> c = CHR 0x27"

definition upperHexDigit :: "nat \<Rightarrow> char" where
  "upperHexDigit n = (if n < 10 then char_of (48 + n) else char_of (55 + n))"

definition encodeURIComponent :: "string \<Rightarrow> string" where
  "encodeURIComponent s =
     concat (map (\<lambda>c. if isUriUnreserved c then [c]
       else concat (map (\<lambda>b. [CHR ''%'', upperHexDigit (unat b div 16), upperHexDigit (unat b mod 16)])
              (utf8Char c))) s)"

end
