(* ===== verification/Js_Base64Url.thy ===== *)
theory Js_Base64Url
  imports Js_Bytes
begin

section \<open>base64url without padding\<close>

text \<open>
  The encoding the components share: \<open>btoa\<close> with the URL-safe alphabet and the padding stripped, and
  its inverse through \<open>atob\<close> on the re-padded text. Each component's own encoder and decoder is
  stated where the source has it and shown to be one of these.
\<close>

definition url64 :: "byte list \<Rightarrow> string" where
  "url64 bytes =
     stripTrailing (CHR ''='')
       (replaceChar (CHR ''/'') (CHR ''_'') (replaceChar (CHR ''+'') (CHR ''-'') (btoa bytes)))"

definition unurl64 :: "string \<Rightarrow> byte list option" where
  "unurl64 v =
     atob (padEnd ((length v + 3) div 4 * 4) (CHR ''='')
       (replaceChar (CHR ''_'') (CHR ''/'') (replaceChar (CHR ''-'') (CHR ''+'') v)))"

definition urlDigit :: "nat \<Rightarrow> char" where
  "urlDigit n = (if b64Char n = CHR ''+'' then CHR ''-'' else if b64Char n = CHR ''/'' then CHR ''_'' else b64Char n)"

lemma urlDigit_back:
  assumes "n < 64"
  shows "urlDigit n \<noteq> CHR ''=''" and "urlDigit n \<noteq> CHR ''.''"
    and "(if (if urlDigit n = CHR ''-'' then CHR ''+'' else urlDigit n) = CHR ''_'' then CHR ''/''
          else if urlDigit n = CHR ''-'' then CHR ''+'' else urlDigit n) = b64Char n"
  using b64Value_Some_plain [OF b64Value_b64Char [OF assms]] by (auto simp: urlDigit_def)

lemma dropWhile_replicate_append: "P x \<Longrightarrow> dropWhile P (replicate n x @ xs) = dropWhile P xs"
  by (induction n) simp_all

lemma url64_digits: "url64 bs = map urlDigit (sextets bs)"
proof -
  let ?u = "\<lambda>c. if (if c = CHR ''+'' then CHR ''-'' else c) = CHR ''/'' then CHR ''_''
      else if c = CHR ''+'' then CHR ''-'' else c"
  have u: "?u (b64Char n) = urlDigit n" for n by (simp add: urlDigit_def)
  have "url64 bs = stripTrailing (CHR ''='')
      (map urlDigit (sextets bs) @ replicate (padLength (length bs)) (CHR ''=''))"
    by (simp add: url64_def btoa_def replaceChar_def comp_def u map_replicate)
  also have "\<dots> = rev (dropWhile (\<lambda>x. x = CHR ''='') (rev (map urlDigit (sextets bs))))"
    by (simp add: stripTrailing_def dropWhile_replicate_append)
  also have "dropWhile (\<lambda>x. x = CHR ''='') (rev (map urlDigit (sextets bs))) = rev (map urlDigit (sextets bs))"
    by (rule dropWhile_eq_self_iff [THEN iffD2])
      (metis hd_in_set image_iff list.set_map sextets_less set_rev urlDigit_back(1))
  finally show ?thesis by simp
qed

lemma unurl64_url64 [simp]: "unurl64 (url64 bs) = Some bs"
proof -
  let ?s = "sextets bs"
  let ?k = "(length ?s + 3) div 4 * 4 - length ?s"
  have plain: "map (\<lambda>c. if (if c = CHR ''-'' then CHR ''+'' else c) = CHR ''_'' then CHR ''/''
        else if c = CHR ''-'' then CHR ''+'' else c) (map urlDigit ?s) = map b64Char ?s"
    by (simp add: urlDigit_back(3) sextets_less)
  have pad: "padEnd ((length (url64 bs) + 3) div 4 * 4) (CHR ''='')
      (replaceChar (CHR ''_'') (CHR ''/'') (replaceChar (CHR ''-'') (CHR ''+'') (url64 bs))) =
      map b64Char ?s @ replicate ?k (CHR ''='')"
    using plain by (simp add: url64_digits replaceChar_def comp_def padEnd_def)
  have m: "length bs mod 3 = 0 \<or> length bs mod 3 = 1 \<or> length bs mod 3 = 2" by presburger
  have "atob (map b64Char ?s @ replicate ?k (CHR ''='')) = Some bs"
  proof (rule atob_sextets)
    note l = length_sextets_mod [of bs]
    show "length bs mod 3 = 0 \<longrightarrow> ?k = 0"
    proof
      assume "length bs mod 3 = 0"
      with l have "length ?s mod 4 = 0" by simp
      then show "?k = 0" by presburger
    qed
    show "length bs mod 3 = 1 \<longrightarrow> ?k = 2"
    proof
      assume "length bs mod 3 = 1"
      with l have "length ?s mod 4 = 2" by simp
      then show "?k = 2" by presburger
    qed
    show "length bs mod 3 = 2 \<longrightarrow> ?k = 1"
    proof
      assume "length bs mod 3 = 2"
      with l have "length ?s mod 4 = 3" by simp
      then show "?k = 1" by presburger
    qed
  qed
  then show ?thesis
    unfolding unurl64_def pad by simp
qed

lemma url64_no_dot: "CHR ''.'' \<notin> set (url64 bs)"
  using urlDigit_back(2) sextets_less by (fastforce simp: url64_digits)

lemma url64_eq_Nil [simp]: "url64 bs = [] \<longleftrightarrow> bs = []"
  by (cases bs rule: sextets.cases) (simp_all add: url64_digits Let_def)

definition urlSafeChar :: "char \<Rightarrow> bool" where
  "urlSafeChar c \<longleftrightarrow> 97 \<le> charCode c \<and> charCode c \<le> 122 \<or> 65 \<le> charCode c \<and> charCode c \<le> 90 \<or>
     isDigit c \<or> c = CHR ''_'' \<or> c = CHR ''-''"

lemma urlDigit_safe:
  assumes "n < 64"
  shows "urlSafeChar (urlDigit n)"
proof (cases "n < 62")
  case True
  have "urlSafeChar (b64Char n)"
    using True by (simp add: urlSafeChar_def b64Char_def isDigit_def) linarith
  moreover have "b64Char n \<noteq> CHR ''+'' \<and> b64Char n \<noteq> CHR ''/''"
    using calculation by (auto simp: urlSafeChar_def isDigit_def)
  ultimately show ?thesis by (simp add: urlDigit_def)
next
  case False
  with assms consider "n = 62" | "n = 63" by linarith
  then show ?thesis by cases (simp_all add: urlDigit_def b64Char_def urlSafeChar_def)
qed

lemma url64_safe: "list_all (\<lambda>c. 97 \<le> charCode c \<and> charCode c \<le> 122 \<or> 65 \<le> charCode c \<and> charCode c \<le> 90 \<or>
       isDigit c \<or> c = CHR ''_'' \<or> c = CHR ''-'') (url64 bs)"
  using urlDigit_safe sextets_less unfolding url64_digits list_all_iff set_map urlSafeChar_def by blast

lemma url64_inject [simp]: "url64 a = url64 b \<longleftrightarrow> a = b"
  by (metis option.inject unurl64_url64)

end
