(* ===== verification/Payment_Jws.thy ===== *)
theory Payment_Jws
  imports Payment_Env Js_Base64Url
begin

section \<open>Payment worker: compact JWS and base64url\<close>

text \<open>
  \<^verbatim>\<open>workers/payment/src/jws.ts\<close>. A compact JWS is three non-empty base64url parts separated by
  dots; the helpers encode bytes and JSON values and decode the header and payload parts. The three
  functions that split a JWS repeat the same guard, which is \<open>jwsParts\<close> here. Strings of the
  model hold Latin-1 characters: bytes that decode to any other text (the engine's \<open>TextDecoder\<close>
  accepts them, with replacement characters) are reported as a host error.
\<close>

definition base64Url :: "byte list \<Rightarrow> string" where
  "base64Url bytes =
     stripTrailing (CHR ''='')
       (replaceChar (CHR ''/'') (CHR ''_'') (replaceChar (CHR ''+'') (CHR ''-'') (btoa bytes)))"

definition base64UrlJson :: "json \<Rightarrow> string" where
  "base64UrlJson v = base64Url (utf8Encode (stringify v))"

definition bytesFromBase64Url :: "string \<Rightarrow> js_error + byte list" where
  "bytesFromBase64Url v =
     (let padded = padEnd ((length v + 3) div 4 * 4) (CHR ''='')
            (replaceChar (CHR ''_'') (CHR ''/'') (replaceChar (CHR ''-'') (CHR ''+'') v))
      in case atob padded of None \<Rightarrow> Inl (HostError ''atob'') | Some bytes \<Rightarrow> Inr bytes)"

definition textFromBase64Url :: "string \<Rightarrow> js_error + string" where
  "textFromBase64Url v =
     bindR (bytesFromBase64Url v) (\<lambda>bytes.
       case utf8Decode bytes of None \<Rightarrow> Inl (HostError ''TextDecoder: outside Latin-1'') | Some t \<Rightarrow> Inr t)"

definition jwsParts :: "string \<Rightarrow> js_error + string list" where
  "jwsParts jws =
     (let parts = splitOn (CHR ''.'') jws in
      if length parts \<noteq> 3 \<or> list_ex (\<lambda>part. length part = 0) parts
      then Inl (JsError ''invalid JWS compact serialization'') else Inr parts)"

definition decodeJwsPart :: "string \<Rightarrow> nat \<Rightarrow> js_error + json" where
  "decodeJwsPart jws index =
     bindR (jwsParts jws) (\<lambda>parts.
     bindR (textFromBase64Url (parts ! index)) (\<lambda>t.
       case JSON_parse t of None \<Rightarrow> Inl (HostError ''JSON.parse'') | Some v \<Rightarrow> Inr v))"

definition decodeJwsPayload :: "string \<Rightarrow> js_error + json" where
  "decodeJwsPayload jws = decodeJwsPart jws 1"

definition decodeJwsHeader :: "string \<Rightarrow> js_error + json" where
  "decodeJwsHeader jws = decodeJwsPart jws 0"

definition jwsSigningInput :: "string \<Rightarrow> js_error + byte list" where
  "jwsSigningInput jws =
     bindR (jwsParts jws) (\<lambda>parts. Inr (utf8Encode (parts ! 0 @ ''.'' @ parts ! 1)))"

definition jwsSignature :: "string \<Rightarrow> js_error + byte list" where
  "jwsSignature jws = bindR (jwsParts jws) (\<lambda>parts. bytesFromBase64Url (parts ! 2))"

subsection \<open>Decoding what was encoded\<close>

lemma base64Url_url64: "base64Url bs = url64 bs"
  by (simp add: base64Url_def url64_def)

lemma bytesFromBase64Url_base64Url [simp]: "bytesFromBase64Url (base64Url bs) = Inr bs"
  using unurl64_url64 [of bs] by (simp add: bytesFromBase64Url_def unurl64_def base64Url_url64)

lemma textFromBase64Url_utf8 [simp]: "textFromBase64Url (base64Url (utf8Encode t)) = Inr t"
  by (simp add: textFromBase64Url_def)

lemma base64Url_no_dot: "CHR ''.'' \<notin> set (base64Url bs)"
  by (simp add: base64Url_url64 url64_no_dot)

lemma base64Url_eq_Nil [simp]: "base64Url bs = [] \<longleftrightarrow> bs = []"
  by (simp add: base64Url_url64)

lemma jwsParts_three:
  assumes "CHR ''.'' \<notin> set a" "CHR ''.'' \<notin> set b" "CHR ''.'' \<notin> set c"
    and "a \<noteq> []" "b \<noteq> []" "c \<noteq> []"
  shows "jwsParts (a @ ''.'' @ b @ ''.'' @ c) = Inr [a, b, c]"
  using assms by (simp add: jwsParts_def splitOn_append splitOn_no_sep)

lemma stringify_not_Nil: "wfJson v \<Longrightarrow> stringify v \<noteq> []"
  using stringify_head [of v] by auto

lemma utf8Encode_eq_Nil [simp]: "utf8Encode s = [] \<longleftrightarrow> s = []"
  by (cases s) (simp_all add: utf8Encode_def utf8Char_def Let_def)

text \<open>An accepted JWS is its three parts joined by dots.\<close>

lemma jwsParts_sound:
  assumes "jwsParts jws = Inr parts"
  shows "jws = joinWith ''.'' parts" and "length parts = 3" and "\<forall>p \<in> set parts. p \<noteq> [] \<and> CHR ''.'' \<notin> set p"
proof -
  have p: "parts = splitOn (CHR ''.'') jws" "length parts = 3" "\<forall>q \<in> set parts. q \<noteq> []"
    using assms by (auto simp: jwsParts_def Let_def list_ex_iff split: if_splits)
  show "jws = joinWith ''.'' parts" using p joinWith_splitOn by metis
  show "length parts = 3" using p by simp
  show "\<forall>q \<in> set parts. q \<noteq> [] \<and> CHR ''.'' \<notin> set q" using p splitOn_parts by metis
qed

subsection \<open>The round trip\<close>

definition compactJws :: "json \<Rightarrow> json \<Rightarrow> byte list \<Rightarrow> string" where
  "compactJws header payload sig = base64UrlJson header @ ''.'' @ base64UrlJson payload @ ''.'' @ base64Url sig"

lemma jwsParts_compactJws:
  "wfJson header \<Longrightarrow> wfJson payload \<Longrightarrow> sig \<noteq> [] \<Longrightarrow>
   jwsParts (compactJws header payload sig) = Inr [base64UrlJson header, base64UrlJson payload, base64Url sig]"
  unfolding compactJws_def
  by (rule jwsParts_three) (simp_all add: base64UrlJson_def base64Url_no_dot stringify_not_Nil)

lemma decode_compactJws:
  assumes "wfJson header" and "wfJson payload" and "sig \<noteq> []"
  shows "decodeJwsHeader (compactJws header payload sig) = Inr header"
    and "decodeJwsPayload (compactJws header payload sig) = Inr payload"
    and "jwsSigningInput (compactJws header payload sig) =
      Inr (utf8Encode (base64UrlJson header @ ''.'' @ base64UrlJson payload))"
    and "jwsSignature (compactJws header payload sig) = Inr sig"
  using assms by (simp_all add: decodeJwsHeader_def decodeJwsPayload_def decodeJwsPart_def jwsSigningInput_def
      jwsSignature_def jwsParts_compactJws base64UrlJson_def JSON_parse_stringify)

text \<open>
  A compact JWS put together the way the worker's own token is (base64url of the serialised
  header, of the serialised payload and of the signature bytes, joined by dots) is taken apart
  exactly: the header and payload decode to the original JSON values, the signing input is the text
  before the second dot, and the signature decodes to the original bytes.
\<close>

theorem jws_roundtrip:
  assumes "wfJson header" and "wfJson payload" and "sig \<noteq> []"
    and "jws = base64UrlJson header @ ''.'' @ base64UrlJson payload @ ''.'' @ base64Url sig"
  shows "decodeJwsHeader jws = Inr header \<and> decodeJwsPayload jws = Inr payload \<and>
    jwsSigningInput jws = Inr (utf8Encode (base64UrlJson header @ ''.'' @ base64UrlJson payload)) \<and>
    jwsSignature jws = Inr sig"
  using decode_compactJws [OF assms(1-3)] assms(4) by (simp add: compactJws_def)

lemma jws_roundtrip_witness:
  "decodeJwsPayload (base64UrlJson (JObj [(''alg'', JStr ''ES256'')]) @ ''.'' @
     base64UrlJson (JObj [(''iat'', JNum ''1700000000'')]) @ ''.'' @ base64Url [1, 2, 255]) =
   Inr (JObj [(''iat'', JNum ''1700000000'')])"
proof -
  have "wfJson (JObj [(''alg'', JStr ''ES256'')])" and "wfJson (JObj [(''iat'', JNum ''1700000000'')])"
    by code_simp+
  from jws_roundtrip [OF this _ refl, of "[1, 2, 255]"] show ?thesis by simp
qed

end
