(* ===== verification/Payment_Der.thy ===== *)
theory Payment_Der
  imports Payment_Env Js_Bytes
begin

unbundle bit_operations_syntax

section \<open>Payment worker: the two DER readers\<close>

text \<open>
  The DER code of \<^verbatim>\<open>workers/payment/src/app-store-notification.ts\<close> (elements, object identifiers
  and the search for a certificate extension) and of \<^verbatim>\<open>workers/payment/src/identity-pem.ts\<close> (the
  PKCS#8 private key of the worker's identity). The first accumulates a length as a number
  (\<open>length * 256 + byte\<close>); the second with 32-bit shifts, so its lengths are \<open>32 word\<close>s read as
  signed integers, offsets are integers and an access out of range gives \<open>undefined\<close>. Reference
  encoders state what the readers have to read back.
\<close>

subsection \<open>Elements of a certificate\<close>

record DerElement =
  elTag :: byte
  contentStart :: nat
  elEnd :: nat

definition derError :: "string \<Rightarrow> js_error" where
  "derError what = JsError (''App Store notification certificate '' @ what)"

text \<open>Offsets are natural numbers, so the guard \<open>offset < 0\<close> of the source never fires.\<close>

definition readDerElement :: "byte list \<Rightarrow> nat \<Rightarrow> js_error + DerElement" where
  "readDerElement der offset =
     (if offset + 2 > length der then Inl (derError ''DER is truncated'')
      else
        let tag = der ! offset; firstLength = der ! (offset + 1); start = offset + 2 in
        bindR
          (if firstLength AND 0x80 \<noteq> 0 then
             let lengthBytes = unat (firstLength AND 0x7f) in
             if lengthBytes = 0 \<or> lengthBytes > 4 \<or> start + lengthBytes > length der
             then Inl (derError ''DER length is invalid'')
             else Inr (start + lengthBytes,
                       fold (\<lambda>index len. len * 256 + unat (der ! (start + index))) [0..<lengthBytes] 0)
           else Inr (start, unat firstLength))
          (\<lambda>(start, len).
             let end = start + len in
             if \<not> end \<le> maxSafeInteger \<or> end > length der then Inl (derError ''DER is truncated'')
             else Inr \<lparr>elTag = tag, contentStart = start, elEnd = end\<rparr>))"

text \<open>Every element read lies inside the buffer and is at least two bytes long.\<close>

lemma readDerElement_bounds:
  assumes "readDerElement der offset = Inr e"
  shows "offset + 2 \<le> contentStart e" "contentStart e \<le> elEnd e" "elEnd e \<le> length der"
    "elTag e = der ! offset"
  using assms
  by (auto simp: readDerElement_def Let_def result_simps split: if_splits)

lemma readDerElement_progress:
  "readDerElement der offset = Inr e \<Longrightarrow> offset < n \<Longrightarrow> n - elEnd e < n - offset"
  using readDerElement_bounds [of der offset e] by linarith

text \<open>The loop of \<open>decodeDerOid\<close> over the bytes after the first: the arcs pushed so far, the value
  being accumulated and the continuation flag of the last byte.\<close>

definition oidStep :: "byte \<Rightarrow> nat list \<times> nat \<times> bool \<Rightarrow> nat list \<times> nat \<times> bool" where
  "oidStep byte st =
     (case st of (arcs, value, _) \<Rightarrow>
        let value = push_bit 7 value OR unat (byte AND 0x7f);
            continuation = byte AND 0x80 \<noteq> 0
        in if \<not> continuation then (arcs @ [value], 0, continuation) else (arcs, value, continuation))"

definition decodeDerOid :: "byte list \<Rightarrow> js_error + string" where
  "decodeDerOid bytes =
     (case bytes of
        [] \<Rightarrow> Inl (derError ''OID is empty'')
      | firstByte # rest \<Rightarrow>
          let first = unat firstByte;
              firstArc = (if first < 40 then 0 else if first < 80 then 1 else 2);
              (arcs, value, continuation) = fold oidStep rest ([firstArc, first - firstArc * 40], 0, False)
          in if continuation then Inl (derError ''OID is truncated'')
             else Inr (joinWith ''.'' (map natToDec arcs)))"

subsection \<open>Searching an extension\<close>

function extensionLoop :: "byte list \<Rightarrow> string \<Rightarrow> nat \<Rightarrow> nat \<Rightarrow> js_error + bool" where
  "extensionLoop der expectedOid endOffset offset =
     (if \<not> offset < endOffset then Inr False
      else bindR (readDerElement der offset) (\<lambda>extension.
        if elTag extension \<noteq> 0x30 then Inl (derError ''extension is invalid'')
        else bindR (readDerElement der (contentStart extension)) (\<lambda>identifier.
          if elTag identifier \<noteq> 0x06 then Inl (derError ''extension identifier is invalid'')
          else bindR (decodeDerOid (sliceL (contentStart identifier) (elEnd identifier) der)) (\<lambda>oid.
            if oid = expectedOid then Inr True
            else extensionLoop der expectedOid endOffset (elEnd extension)))))"
  by pat_completeness auto

termination
  by (relation "measure (\<lambda>(der, oid, endOffset, offset). endOffset - offset)")
    (auto intro: readDerElement_progress)

declare extensionLoop.simps [simp del]

definition extensionSequenceContainsOid :: "byte list \<Rightarrow> DerElement \<Rightarrow> string \<Rightarrow> js_error + bool" where
  "extensionSequenceContainsOid der wrapper expectedOid =
     bindR (readDerElement der (contentStart wrapper)) (\<lambda>extensions.
       if elTag extensions \<noteq> 0x30 \<or> elEnd extensions \<noteq> elEnd wrapper
       then Inl (derError ''extensions are invalid'')
       else extensionLoop der expectedOid (elEnd extensions) (contentStart extensions))"

function tbsLoop :: "byte list \<Rightarrow> string \<Rightarrow> nat \<Rightarrow> nat \<Rightarrow> js_error + bool" where
  "tbsLoop raw oid endOffset offset =
     (if \<not> offset < endOffset then Inr False
      else bindR (readDerElement raw offset) (\<lambda>element.
        if elTag element = 0xa3 then extensionSequenceContainsOid raw element oid
        else tbsLoop raw oid endOffset (elEnd element)))"
  by pat_completeness auto

termination
  by (relation "measure (\<lambda>(raw, oid, endOffset, offset). endOffset - offset)")
    (auto intro: readDerElement_progress)

declare tbsLoop.simps [simp del]

text \<open>The certificate is its \<open>raw\<close> DER bytes.\<close>

definition hasCertificateExtension :: "byte list \<Rightarrow> string \<Rightarrow> js_error + bool" where
  "hasCertificateExtension raw oid =
     bindR (readDerElement raw 0) (\<lambda>certificateSequence.
       if elTag certificateSequence \<noteq> 0x30 \<or> elEnd certificateSequence \<noteq> length raw
       then Inl (derError ''DER is invalid'')
       else bindR (readDerElement raw (contentStart certificateSequence)) (\<lambda>tbsCertificate.
         if elTag tbsCertificate \<noteq> 0x30
         then Inl (JsError ''App Store notification TBSCertificate is invalid'')
         else tbsLoop raw oid (elEnd tbsCertificate) (contentStart tbsCertificate)))"

subsection \<open>Reference encoding\<close>

text \<open>
  A tag-length-value element with \<open>k\<close> length bytes: \<open>k = 0\<close> is the short form, otherwise the
  length is written in base 256, most significant byte first, after a byte \<open>0x80 + k\<close>.
\<close>

primrec bytesBE :: "nat \<Rightarrow> nat \<Rightarrow> byte list" where
  "bytesBE 0 n = []"
| "bytesBE (Suc k) n = bytesBE k (n div 256) @ [word_of_nat n]"

definition derLength :: "nat \<Rightarrow> nat \<Rightarrow> byte list" where
  "derLength k n = (if k = 0 then [word_of_nat n] else word_of_nat (128 + k) # bytesBE k n)"

definition derTlv :: "nat \<Rightarrow> byte \<Rightarrow> byte list \<Rightarrow> byte list" where
  "derTlv k tag content = tag # derLength k (length content) @ content"

definition derFits :: "nat \<Rightarrow> nat \<Rightarrow> bool" where
  "derFits k n \<longleftrightarrow> (if k = 0 then n < 128 else k \<le> 4 \<and> n < 256 ^ k)"

lemma length_bytesBE [simp]: "length (bytesBE k n) = k"
  by (induction k arbitrary: n) simp_all

lemma foldl_bytesBE: "foldl (\<lambda>len b. len * 256 + unat b) 0 (bytesBE k n) = n mod 256 ^ k"
proof (induction k arbitrary: n)
  case (Suc k)
  have "unat (word_of_nat n :: byte) = n mod 256" by (simp add: unat_of_nat)
  with Suc show ?case by (simp add: mod_mult2_eq)
qed simp

lemma length_derLength [simp]: "length (derLength k n) = Suc k"
  by (simp add: derLength_def)

lemma length_derTlv [simp]: "length (derTlv k tag c) = 2 + k + length c"
  by (simp add: derTlv_def)

lemma fold_index_foldl:
  assumes "s + k \<le> length xs"
  shows "fold (\<lambda>i acc. f acc (xs ! (s + i))) [0..<k] a = foldl f a (take k (drop s xs))"
  using assms
proof (induction k)
  case (Suc k)
  then have "take (Suc k) (drop s xs) = take k (drop s xs) @ [xs ! (s + k)]"
    by (simp add: take_Suc_conv_app_nth)
  with Suc show ?case by simp
qed simp

lemma longForm_bits:
  assumes "0 < k" "k \<le> 4"
  shows "(word_of_nat (128 + k) :: byte) AND 0x80 \<noteq> 0" "unat ((word_of_nat (128 + k) :: byte) AND 0x7f) = k"
proof -
  have "k = 1 \<or> k = 2 \<or> k = 3 \<or> k = 4" using assms by linarith
  then show "(word_of_nat (128 + k) :: byte) AND 0x80 \<noteq> 0"
    and "unat ((word_of_nat (128 + k) :: byte) AND 0x7f) = k" by auto
qed

lemma shortForm_bits:
  assumes "n < 128"
  shows "(word_of_nat n :: byte) AND 0x80 = 0"
proof -
  have "\<forall>n < 128. (word_of_nat n :: byte) AND 0x80 = 0" by code_simp
  with assms show ?thesis by blast
qed

lemma readDerElement_tlv:
  assumes "derFits k (length c)" and "length (pre @ derTlv k tag c @ post) \<le> maxSafeInteger"
  shows "readDerElement (pre @ derTlv k tag c @ post) (length pre) =
    Inr \<lparr>elTag = tag, contentStart = length pre + 2 + k, elEnd = length pre + 2 + k + length c\<rparr>"
proof (cases k)
  case 0
  with assms show ?thesis
    by (simp add: readDerElement_def derTlv_def derLength_def derFits_def nth_append shortForm_bits unat_of_nat)
next
  case (Suc j)
  let ?der = "pre @ derTlv k tag c @ post"
  have k: "0 < k" "k \<le> 4" and n: "length c < 256 ^ k" using assms Suc by (auto simp: derFits_def)
  have "take k (drop (length pre + 2) ?der) = bytesBE k (length c)"
    using k by (simp add: derTlv_def derLength_def)
  then have len: "fold (\<lambda>index len. len * 256 + unat (?der ! (length pre + 2 + index))) [0..<k] 0 = length c"
    using fold_index_foldl [of "length pre + 2" k ?der "\<lambda>len b. len * 256 + unat b" 0] n
    by (simp add: foldl_bytesBE)
  have hd: "?der ! (length pre + 1) = word_of_nat (128 + k)" "?der ! length pre = tag"
    using k by (simp_all add: derTlv_def derLength_def nth_append)
  show ?thesis
    unfolding readDerElement_def Let_def hd longForm_bits(2) [OF k] len
    using longForm_bits(1) [OF k] k assms(2) by simp
qed

subsection \<open>Object identifiers\<close>

text \<open>Base-128 arcs, continuation bit on all bytes but the last.\<close>

function arcHigh :: "nat \<Rightarrow> byte list" where
  "arcHigh n = (if n = 0 then [] else arcHigh (n div 128) @ [word_of_nat (128 + n mod 128)])"
  by pat_completeness auto

termination
  by (relation "measure id") auto

declare arcHigh.simps [simp del]

definition arcBytes :: "nat \<Rightarrow> byte list" where
  "arcBytes n = arcHigh (n div 128) @ [word_of_nat (n mod 128)]"

definition encodeOid :: "nat \<Rightarrow> nat \<Rightarrow> nat list \<Rightarrow> byte list" where
  "encodeOid a b arcs = word_of_nat (40 * a + b) # concat (map arcBytes arcs)"

lemma push_bit_or_add:
  assumes "r < (128 :: nat)"
  shows "push_bit 7 v OR r = v * 128 + r"
proof -
  have r: "r = take_bit 7 r" using assms by (simp add: take_bit_nat_eq_self)
  have "push_bit 7 v AND r = 0"
    by (subst r) (rule bit_eqI, auto simp: bit_simps)
  from disjunctive_add_eq_or [OF this] show ?thesis by (simp add: push_bit_eq_mult)
qed

lemma oid_byte_bits:
  assumes "r < 128"
  shows "(word_of_nat (128 + r) :: byte) AND 0x80 \<noteq> 0" "unat ((word_of_nat (128 + r) :: byte) AND 0x7f) = r"
    and "(word_of_nat r :: byte) AND 0x80 = 0" "unat ((word_of_nat r :: byte) AND 0x7f) = r"
proof -
  have "\<forall>r < 128. (word_of_nat (128 + r) :: byte) AND 0x80 \<noteq> 0 \<and> unat ((word_of_nat (128 + r) :: byte) AND 0x7f) = r
      \<and> (word_of_nat r :: byte) AND 0x80 = 0 \<and> unat ((word_of_nat r :: byte) AND 0x7f) = r"
    by code_simp
  with assms show "(word_of_nat (128 + r) :: byte) AND 0x80 \<noteq> 0"
    "unat ((word_of_nat (128 + r) :: byte) AND 0x7f) = r"
    "(word_of_nat r :: byte) AND 0x80 = 0" "unat ((word_of_nat r :: byte) AND 0x7f) = r" by blast+
qed

lemma oidStep_high:
  "r < 128 \<Longrightarrow> oidStep (word_of_nat (128 + r)) (arcs, v, c) = (arcs, v * 128 + r, True)"
  by (simp add: oidStep_def Let_def oid_byte_bits push_bit_or_add del: of_nat_add)

lemma oidStep_low:
  "r < 128 \<Longrightarrow> oidStep (word_of_nat r) (arcs, v, c) = (arcs @ [v * 128 + r], 0, False)"
  by (simp add: oidStep_def Let_def oid_byte_bits push_bit_or_add)

lemma fold_arcHigh: "fold oidStep (arcHigh m) (arcs, 0, c) = (arcs, m, m \<noteq> 0 \<or> c)"
proof (induction m arbitrary: c rule: arcHigh.induct)
  case (1 m)
  show ?case
  proof (cases "m = 0")
    case True
    then show ?thesis by (simp add: arcHigh.simps)
  next
    case False
    then show ?thesis
      by (subst arcHigh.simps) (simp add: 1 oidStep_high del: of_nat_add)
  qed
qed

lemma fold_arcs:
  "fold oidStep (concat (map arcBytes ns)) (arcs, 0, False) = (arcs @ ns, 0, False)"
proof (induction ns arbitrary: arcs)
  case (Cons n ns)
  have "fold oidStep (arcBytes n) (arcs, 0, False) = (arcs @ [n], 0, False)"
    by (simp add: arcBytes_def fold_arcHigh oidStep_low)
  with Cons show ?case by simp
qed simp

lemma decodeDerOid_encodeOid:
  assumes "a < 2 \<and> b < 40 \<or> a = 2 \<and> b < 176"
  shows "decodeDerOid (encodeOid a b arcs) = Inr (joinWith ''.'' (map natToDec (a # b # arcs)))"
proof -
  have u: "unat (word_of_nat (40 * a + b) :: byte) = 40 * a + b"
    using assms by (intro unat_byte_of_nat) auto
  have "(if 40 * a + b < 40 then 0 else if 40 * a + b < 80 then 1 else 2) = a"
    using assms by auto
  with u show ?thesis
    by (simp add: decodeDerOid_def encodeOid_def Let_def fold_arcs del: of_nat_add of_nat_mult)
qed

subsection \<open>Searching a certificate\<close>

text \<open>The parts of a certificate the search goes through: an extension is a sequence that starts
  with its object identifier.\<close>

record Extension =
  x_len :: nat
  x_idLen :: nat
  x_oid :: "byte list"
  x_value :: "byte list"

definition extensionBytes :: "Extension \<Rightarrow> byte list" where
  "extensionBytes x = derTlv (x_len x) 0x30 (derTlv (x_idLen x) 0x06 (x_oid x) @ x_value x)"

definition extensionFits :: "Extension \<Rightarrow> bool" where
  "extensionFits x \<longleftrightarrow> derFits (x_idLen x) (length (x_oid x)) \<and>
     derFits (x_len x) (2 + x_idLen x + length (x_oid x) + length (x_value x))"

lemma readDerElement_at:
  assumes "der = pre @ derTlv k tag c @ post" "derFits k (length c)" "length der \<le> maxSafeInteger"
    "offset = length pre"
  shows "readDerElement der offset =
    Inr \<lparr>elTag = tag, contentStart = offset + 2 + k, elEnd = offset + 2 + k + length c\<rparr>"
  using readDerElement_tlv [of k c pre tag post] assms by simp

lemma extensionLoop_search:
  assumes "der = pre @ concat (map extensionBytes xs) @ post" "length der \<le> maxSafeInteger"
    "\<forall>x \<in> set xs. extensionFits x \<and> decodeDerOid (x_oid x) = Inr (name x)"
  shows "extensionLoop der oid (length pre + length (concat (map extensionBytes xs))) (length pre) =
    Inr (\<exists>x \<in> set xs. name x = oid)"
  using assms
proof (induction xs arbitrary: pre)
  case Nil
  then show ?case by (simp add: extensionLoop.simps)
next
  case (Cons x xs)
  let ?rest = "concat (map extensionBytes xs) @ post"
  let ?id = "derTlv (x_idLen x) 0x06 (x_oid x)"
  define o1 where "o1 = length pre + 2 + x_len x"
  define o2 where "o2 = o1 + 2 + x_idLen x"
  define o3 where "o3 = o2 + length (x_oid x)"
  define nx where "nx = length pre + length (extensionBytes x)"
  have fits: "extensionFits x" and nm: "decodeDerOid (x_oid x) = Inr (name x)" using Cons.prems by auto
  have r1: "readDerElement der (length pre) = Inr \<lparr>elTag = 0x30, contentStart = o1, elEnd = nx\<rparr>"
    using fits Cons.prems(1,2)
    by (subst readDerElement_at [of der pre "x_len x" "0x30" "?id @ x_value x" ?rest])
      (simp_all add: extensionBytes_def [of x] extensionFits_def o1_def nx_def)
  have split: "der = (pre @ 0x30 # derLength (x_len x) (length (?id @ x_value x))) @ ?id @ (x_value x @ ?rest)"
    using Cons.prems(1) by (simp add: extensionBytes_def [of x] derTlv_def)
  have r2: "readDerElement der o1 = Inr \<lparr>elTag = 0x06, contentStart = o2, elEnd = o3\<rparr>"
    unfolding o2_def o3_def using fits Cons.prems(2)
    by (intro readDerElement_at [OF split]) (simp_all add: extensionFits_def o1_def)
  have oid: "sliceL o2 o3 der = x_oid x"
    using split
    by (intro sliceL_mid [of der "pre @ 0x30 # derLength (x_len x) (length (?id @ x_value x)) @
          0x06 # derLength (x_idLen x) (length (x_oid x))" "x_oid x" "x_value x @ ?rest"])
      (simp_all add: derTlv_def o1_def o2_def o3_def)
  have "extensionLoop der oid (length (pre @ extensionBytes x) + length (concat (map extensionBytes xs)))
      (length (pre @ extensionBytes x)) = Inr (\<exists>x \<in> set xs. name x = oid)"
    using Cons.prems by (intro Cons.IH) simp_all
  then have IH: "extensionLoop der oid (length pre + length (concat (map extensionBytes (x # xs)))) nx =
      Inr (\<exists>x \<in> set xs. name x = oid)" by (simp add: nx_def add.assoc)
  have "length pre < length pre + length (concat (map extensionBytes (x # xs)))"
    by (simp add: extensionBytes_def [of x])
  with IH show ?case
    by (subst extensionLoop.simps) (simp add: r1 r2 oid nm del: list.map concat.simps)
qed

definition fieldBytes :: "(nat \<times> byte \<times> byte list) list \<Rightarrow> byte list" where
  "fieldBytes fs = concat (map (\<lambda>(k, tag, c). derTlv k tag c) fs)"

lemma tbsLoop_fields:
  assumes "der = pre @ fieldBytes fs @ post" "length der \<le> maxSafeInteger"
    "\<forall>(k, tag, c) \<in> set fs. derFits k (length c) \<and> tag \<noteq> 0xa3"
    "length pre + length (fieldBytes fs) \<le> endOffset"
  shows "tbsLoop der oid endOffset (length pre) = tbsLoop der oid endOffset (length pre + length (fieldBytes fs))"
  using assms
proof (induction fs arbitrary: pre)
  case (Cons f fs)
  obtain k tag c where f: "f = (k, tag, c)" by (cases f)
  have r: "readDerElement der (length pre) = Inr \<lparr>elTag = tag, contentStart = length pre + 2 + k,
      elEnd = length (pre @ derTlv k tag c)\<rparr>"
    using Cons.prems f
    by (subst readDerElement_at [of der pre k tag c "fieldBytes fs @ post"]) (simp_all add: fieldBytes_def)
  have IH: "tbsLoop der oid endOffset (length (pre @ derTlv k tag c)) =
      tbsLoop der oid endOffset (length (pre @ derTlv k tag c) + length (fieldBytes fs))"
    using Cons.prems f by (intro Cons.IH) (simp_all add: fieldBytes_def)
  show ?case
    using IH r Cons.prems(3,4) f
    by (subst tbsLoop.simps) (simp add: fieldBytes_def add.assoc)
qed (simp add: fieldBytes_def)

text \<open>
  A certificate: the sequence of the to-be-signed part (some fields, none with the tag \<open>0xa3\<close>, then
  the extensions in their \<open>0xa3\<close> wrapper) and of what follows it (algorithm and signature).
\<close>

record Certificate =
  c_len :: nat
  c_tbsLen :: nat
  c_fields :: "(nat \<times> byte \<times> byte list) list"
  c_wrapLen :: nat
  c_seqLen :: nat
  c_extensions :: "Extension list"
  c_rest :: "byte list"

definition extensionsPart :: "Certificate \<Rightarrow> byte list" where
  "extensionsPart c = derTlv (c_seqLen c) 0x30 (concat (map extensionBytes (c_extensions c)))"

definition tbsContent :: "Certificate \<Rightarrow> byte list" where
  "tbsContent c = fieldBytes (c_fields c) @ derTlv (c_wrapLen c) 0xa3 (extensionsPart c)"

definition certificateContent :: "Certificate \<Rightarrow> byte list" where
  "certificateContent c = derTlv (c_tbsLen c) 0x30 (tbsContent c) @ c_rest c"

definition certificateBytes :: "Certificate \<Rightarrow> byte list" where
  "certificateBytes c = derTlv (c_len c) 0x30 (certificateContent c)"

definition certificateFits :: "Certificate \<Rightarrow> bool" where
  "certificateFits c \<longleftrightarrow>
     derFits (c_len c) (length (certificateContent c)) \<and>
     derFits (c_tbsLen c) (length (tbsContent c)) \<and>
     list_all (\<lambda>(k, tag, v). derFits k (length v) \<and> tag \<noteq> 0xa3) (c_fields c) \<and>
     derFits (c_wrapLen c) (length (extensionsPart c)) \<and>
     derFits (c_seqLen c) (length (concat (map extensionBytes (c_extensions c)))) \<and>
     list_all extensionFits (c_extensions c) \<and>
     length (certificateBytes c) \<le> maxSafeInteger"

lemma extensionSequenceContainsOid_search:
  assumes "der = pre @ derTlv k 0x30 (concat (map extensionBytes xs)) @ post" "length der \<le> maxSafeInteger"
    "derFits k (length (concat (map extensionBytes xs)))"
    "\<forall>x \<in> set xs. extensionFits x \<and> decodeDerOid (x_oid x) = Inr (name x)"
    "contentStart w = length pre" "elEnd w = length pre + 2 + k + length (concat (map extensionBytes xs))"
  shows "extensionSequenceContainsOid der w oid = Inr (\<exists>x \<in> set xs. name x = oid)"
proof -
  let ?es = "concat (map extensionBytes xs)"
  let ?pre = "pre @ 0x30 # derLength k (length ?es)"
  have "der = ?pre @ ?es @ post" using assms(1) by (simp add: derTlv_def)
  from extensionLoop_search [OF this assms(2,4), of oid]
  have "extensionLoop der oid (length pre + 2 + k + length ?es) (length pre + 2 + k) =
      Inr (\<exists>x \<in> set xs. name x = oid)" by simp
  then show ?thesis
    by (simp add: extensionSequenceContainsOid_def assms(5,6) readDerElement_at [OF assms(1,3,2) refl])
qed

lemma hasCertificateExtension_search:
  assumes "certificateFits c"
    and "\<forall>x \<in> set (c_extensions c). decodeDerOid (x_oid x) = Inr (name x)"
  shows "hasCertificateExtension (certificateBytes c) oid = Inr (\<exists>x \<in> set (c_extensions c). name x = oid)"
proof -
  let ?raw = "certificateBytes c"
  let ?p1 = "0x30 # derLength (c_len c) (length (certificateContent c))"
  let ?p2 = "?p1 @ 0x30 # derLength (c_tbsLen c) (length (tbsContent c))"
  let ?w = "derTlv (c_wrapLen c) 0xa3 (extensionsPart c)"
  let ?p3 = "?p2 @ fieldBytes (c_fields c)"
  let ?p4 = "?p3 @ 0xa3 # derLength (c_wrapLen c) (length (extensionsPart c))"
  note fits = assms(1) [unfolded certificateFits_def list_all_iff]
  have len: "length ?raw \<le> maxSafeInteger" using fits by simp
  have e0: "?raw = [] @ derTlv (c_len c) 0x30 (certificateContent c) @ []" by (simp add: certificateBytes_def)
  have e1: "?raw = ?p1 @ derTlv (c_tbsLen c) 0x30 (tbsContent c) @ c_rest c"
    by (simp add: certificateBytes_def certificateContent_def derTlv_def)
  have e2: "?raw = ?p2 @ fieldBytes (c_fields c) @ ?w @ c_rest c"
    using e1 by (simp add: derTlv_def tbsContent_def)
  have e4: "?raw = ?p4 @ derTlv (c_seqLen c) 0x30 (concat (map extensionBytes (c_extensions c))) @ c_rest c"
    using e2 by (simp add: derTlv_def extensionsPart_def)
  define tbsStart where "tbsStart = length ?p2"
  define tbsEnd where "tbsEnd = tbsStart + length (tbsContent c)"
  define w0 where "w0 = length ?p3"
  have r0: "readDerElement ?raw 0 =
      Inr \<lparr>elTag = 0x30, contentStart = length ?p1, elEnd = length ?raw\<rparr>"
    using fits len by (subst readDerElement_at [OF e0]) (simp_all add: certificateBytes_def)
  have r1: "readDerElement ?raw (length ?p1) = Inr \<lparr>elTag = 0x30, contentStart = tbsStart, elEnd = tbsEnd\<rparr>"
    using fits len by (subst readDerElement_at [OF e1]) (simp_all add: tbsStart_def tbsEnd_def)
  have wl: "w0 = length ?p2 + length (fieldBytes (c_fields c))" "w0 < tbsEnd"
    by (simp_all add: w0_def tbsEnd_def tbsStart_def tbsContent_def)
  have skip: "tbsLoop ?raw oid tbsEnd tbsStart = tbsLoop ?raw oid tbsEnd w0"
    unfolding wl tbsStart_def using fits len wl
    by (intro tbsLoop_fields [OF e2]) auto
  have e3: "?raw = ?p3 @ ?w @ c_rest c" using e2 by simp
  have rw: "readDerElement ?raw w0 = Inr \<lparr>elTag = 0xa3, contentStart = length ?p4,
      elEnd = length ?p4 + length (extensionsPart c)\<rparr>"
    using fits len by (subst readDerElement_at [OF e3]) (simp_all add: w0_def)
  have "extensionSequenceContainsOid ?raw \<lparr>elTag = 0xa3, contentStart = length ?p4,
      elEnd = length ?p4 + length (extensionsPart c)\<rparr> oid = Inr (\<exists>x \<in> set (c_extensions c). name x = oid)"
    using fits len assms(2)
    by (intro extensionSequenceContainsOid_search [OF e4]) (simp_all add: extensionsPart_def)
  then have "tbsLoop ?raw oid tbsEnd w0 = Inr (\<exists>x \<in> set (c_extensions c). name x = oid)"
    using wl(2) rw by (subst tbsLoop.simps) simp
  then show ?thesis
    unfolding hasCertificateExtension_def using r0 r1 skip by simp
qed

text \<open>
  On every well-formed certificate the search for an extension terminates with the right answer:
  it returns true exactly when one of the certificate's extensions carries the wanted object
  identifier, whatever the fields before the extensions, the width of each length and the bytes
  after the to-be-signed part are.
\<close>

theorem hasCertificateExtension_correct:
  assumes "certificateFits c"
    and "\<forall>x \<in> set (c_extensions c). decodeDerOid (x_oid x) = Inr (name x)"
  shows "hasCertificateExtension (certificateBytes c) oid = Inr (\<exists>x \<in> set (c_extensions c). name x = oid)"
  using assms by (rule hasCertificateExtension_search)

text \<open>A certificate with the purpose extension \<open>1.2.840.113635.100.6.\<close>\<open>marker\<close>\<open>.1\<close>.\<close>

definition sampleCertificate :: "nat \<Rightarrow> Certificate" where
  "sampleCertificate marker =
     \<lparr>c_len = 1, c_tbsLen = 0, c_fields = [(0, 0x02, [7]), (1, 0x30, [1, 2, 3])], c_wrapLen = 0, c_seqLen = 2,
      c_extensions =
        [\<lparr>x_len = 0, x_idLen = 0, x_oid = encodeOid 2 5 [29, 15], x_value = [4, 1, 9]\<rparr>,
         \<lparr>x_len = 0, x_idLen = 0, x_oid = encodeOid 1 2 [840, 113635, 100, 6, marker, 1], x_value = [5, 0]\<rparr>],
      c_rest = [3, 1, 0]\<rparr>"

definition sampleName :: "Extension \<Rightarrow> nat \<Rightarrow> string" where
  "sampleName x marker =
     (if x_value x = [5, 0] then ''1.2.840.113635.100.6.'' @ natToDec marker @ ''.1'' else ''2.5.29.15'')"

lemma sampleCertificate_ok:
  assumes "marker < 128"
  shows "certificateFits (sampleCertificate marker)"
    and "\<forall>x \<in> set (c_extensions (sampleCertificate marker)). decodeDerOid (x_oid x) = Inr (sampleName x marker)"
    and "\<exists>x \<in> set (c_extensions (sampleCertificate marker)).
      sampleName x marker = ''1.2.840.113635.100.6.'' @ natToDec marker @ ''.1''"
proof -
  show "certificateFits (sampleCertificate marker)"
    using assms by (simp add: certificateFits_def sampleCertificate_def certificateBytes_def certificateContent_def
        tbsContent_def fieldBytes_def extensionsPart_def extensionBytes_def extensionFits_def derFits_def
        encodeOid_def arcBytes_def arcHigh.simps maxSafeInteger_def)
qed (simp_all add: sampleCertificate_def sampleName_def decodeDerOid_encodeOid natToDec.simps text_simps)

lemma sampleCertificate_marked:
  "marker < 128 \<Longrightarrow> hasCertificateExtension (certificateBytes (sampleCertificate marker))
     (''1.2.840.113635.100.6.'' @ natToDec marker @ ''.1'') = Inr True"
  using sampleCertificate_ok [of marker] hasCertificateExtension_search by fastforce

lemma hasCertificateExtension_correct_witness:
  "hasCertificateExtension (certificateBytes (sampleCertificate 11)) ''1.2.840.113635.100.6.11.1'' = Inr True"
  using hasCertificateExtension_correct [OF sampleCertificate_ok(1,2), of 11 "''1.2.840.113635.100.6.11.1''"]
    sampleCertificate_ok(3) [of 11] by (simp add: natToDec.simps text_simps)

end
