(* ===== verification/Payment_Notification.thy ===== *)
theory Payment_Notification
  imports Payment_AppStore
begin

section \<open>Payment worker: App Store notifications\<close>

text \<open>
  \<^verbatim>\<open>workers/payment/src/app-store-notification.ts\<close>, the verification of a server notification: the
  certificate chain of the JWS header is checked against the pinned roots, validity dates, issuers
  and Apple's purpose extensions (read by the DER code of \<^theory_text>\<open>Payment_Der\<close>), then the
  signature, then the identity of the app. The current time is the argument \<open>now\<close>, the same for a
  notification and the transaction inside it. The X.509 and signature primitives of \<open>node:crypto\<close> are a
  record of parameters.
\<close>

text \<open>A parsed certificate; a date is what \<open>Date.parse\<close> gives, \<open>None\<close> for NaN, whose comparisons are
  all false.\<close>

record X509Certificate =
  validFrom :: "int option"
  validTo :: "int option"
  raw :: "byte list"
  ca :: bool
  fingerprint256 :: string
  publicKey :: "byte list"

record NodeCrypto =
  newX509 :: "byte list \<Rightarrow> js_error + X509Certificate"
  checkIssued :: "X509Certificate \<Rightarrow> X509Certificate \<Rightarrow> bool"
  certVerify :: "X509Certificate \<Rightarrow> byte list \<Rightarrow> bool"
  verifySignature :: "byte list \<Rightarrow> byte list \<Rightarrow> byte list \<Rightarrow> js_error + bool"

record VerifiedAppStoreNotification =
  notificationUUID :: string
  notificationType :: string
  subtype :: "string option"
  nTransactionId :: "string option"
  signedPayload :: string

definition APP_STORE_NOTIFICATION_LEAF_OID :: string where
  "APP_STORE_NOTIFICATION_LEAF_OID = ''1.2.840.113635.100.6.11.1''"

definition APPLE_WORLDWIDE_DEVELOPER_RELATIONS_CA_OID :: string where
  "APPLE_WORLDWIDE_DEVELOPER_RELATIONS_CA_OID = ''1.2.840.113635.100.6.2.1''"

definition noteError :: "string \<Rightarrow> js_error" where
  "noteError what = JsError (''App Store notification '' @ what)"

text \<open>\<open>Buffer.from(text, "base64")\<close>: both alphabets, other characters skipped, stops at padding.\<close>

definition bufferSextet :: "char \<Rightarrow> nat option" where
  "bufferSextet c = (if c = CHR ''-'' then Some 62 else if c = CHR ''_'' then Some 63 else b64Value c)"

definition bufferFromBase64 :: "string \<Rightarrow> byte list" where
  "bufferFromBase64 s = sextetsToBytes (List.map_filter bufferSextet (takeWhile (\<lambda>c. c \<noteq> CHR ''='') s))"

fun stringItems :: "json list \<Rightarrow> string list option" where
  "stringItems [] = Some []"
| "stringItems (JStr s # vs) = map_option (\<lambda>ss. s # ss) (stringItems vs)"
| "stringItems (v # vs) = None"

text \<open>The guard on \<open>x5c\<close>: an array of exactly three strings.\<close>

definition chainTexts :: "json option \<Rightarrow> string list option" where
  "chainTexts v =
     (case v of
        Some (JArr items) \<Rightarrow>
          if length items \<noteq> 3 then None else stringItems items
      | _ \<Rightarrow> None)"

definition certificatesFromHeader :: "NodeCrypto \<Rightarrow> string \<Rightarrow> js_error + X509Certificate list" where
  "certificatesFromHeader crypto jws =
     bindR (decodeJwsHeader jws) (\<lambda>header.
       case asObject header of
         None \<Rightarrow> Inl (noteError ''JWS header must be an object'')
       | Some typed \<Rightarrow>
           if jget typed ''alg'' \<noteq> Some (JStr ''ES256'') then Inl (noteError ''JWS alg must be ES256'')
           else case chainTexts (jget typed ''x5c'') of
             None \<Rightarrow> Inl (noteError ''JWS x5c chain is required'')
           | Some texts \<Rightarrow> mapR (\<lambda>t. newX509 crypto (bufferFromBase64 t)) texts)"

text \<open>The pinned fingerprints (a \<open>Set\<close>, here the list of its elements).\<close>

definition expectedRoots :: "RuntimeEnv \<Rightarrow> string list" where
  "expectedRoots env =
     filter (\<lambda>f. f \<noteq> [])
       (map (\<lambda>f. toLowerCase (trim (replaceAllChar (CHR '':'') [] f)))
          (splitOn (CHR '','') (APP_STORE_NOTIFICATION_ROOT_SHA256S env)))"

definition isSha256Hex :: "string \<Rightarrow> bool" where
  "isSha256Hex f \<longleftrightarrow> length f = 64 \<and> list_all isLowerHex f"

definition expiredOrEarly :: "int \<Rightarrow> X509Certificate \<Rightarrow> bool" where
  "expiredOrEarly now c \<longleftrightarrow>
     (case validFrom c of Some f \<Rightarrow> f > now | None \<Rightarrow> False) \<or>
     (case validTo c of Some t \<Rightarrow> t < now | None \<Rightarrow> False)"

fun chainLinked :: "NodeCrypto \<Rightarrow> X509Certificate list \<Rightarrow> bool" where
  "chainLinked crypto (certificate # issuer # cs) \<longleftrightarrow>
     checkIssued crypto certificate issuer \<and> certVerify crypto certificate (publicKey issuer) \<and>
     chainLinked crypto (issuer # cs)"
| "chainLinked crypto _ \<longleftrightarrow> True"

definition validateCertificateChain ::
    "NodeCrypto \<Rightarrow> RuntimeEnv \<Rightarrow> int \<Rightarrow> X509Certificate list \<Rightarrow> js_error + unit" where
  "validateCertificateChain crypto env now certificates =
     (let roots = expectedRoots env in
      if roots = [] \<or> list_ex (\<lambda>f. \<not> isSha256Hex f) roots
      then Inl (JsError ''APP_STORE_NOTIFICATION_ROOT_SHA256S is invalid'')
      else if list_ex (expiredOrEarly now) certificates
      then Inl (noteError ''certificate is expired or not yet valid'')
      else if \<not> chainLinked crypto certificates
      then Inl (noteError ''certificate chain is invalid'')
      else
        let leaf = certificates ! 0; intermediate = certificates ! 1 in
        if \<not> ca intermediate then Inl (noteError ''intermediate certificate must be a CA'')
        else bindR (hasCertificateExtension (raw leaf) APP_STORE_NOTIFICATION_LEAF_OID) (\<lambda>leafOk.
          if \<not> leafOk then Inl (noteError ''leaf certificate purpose is invalid'')
          else bindR (hasCertificateExtension (raw intermediate) APPLE_WORLDWIDE_DEVELOPER_RELATIONS_CA_OID) (\<lambda>caOk.
            if \<not> caOk then Inl (noteError ''intermediate certificate purpose is invalid'')
            else
              let rootFingerprint = toLowerCase (replaceAllChar (CHR '':'') [] (fingerprint256 (last certificates)))
              in if rootFingerprint \<notin> set roots
                 then Inl (noteError ''root certificate fingerprint mismatch'') else Inr ())))"

definition verifyAppleSignedJws :: "NodeCrypto \<Rightarrow> RuntimeEnv \<Rightarrow> int \<Rightarrow> string \<Rightarrow> js_error + json" where
  "verifyAppleSignedJws crypto env now jws =
     bindR (certificatesFromHeader crypto jws) (\<lambda>certificates.
     bindR (validateCertificateChain crypto env now certificates) (\<lambda>_.
     bindR (jwsSigningInput jws) (\<lambda>input.
     bindR (jwsSignature jws) (\<lambda>signature.
     bindR (verifySignature crypto (publicKey (certificates ! 0)) input signature) (\<lambda>signatureOk.
       if \<not> signatureOk then Inl (noteError ''signature is invalid'') else decodeJwsPayload jws)))))"

definition validateAppStoreIdentity ::
    "RuntimeEnv \<Rightarrow> (string \<times> json) list \<Rightarrow> string \<Rightarrow> js_error + AppStoreEnvironment" where
  "validateAppStoreIdentity env v label =
     bindR (requiredText (jget v ''bundleId'') (label @ '' bundleId'')) (\<lambda>bundle.
     bindR (requiredText (jget v ''environment'') (label @ '' environment'')) (\<lambda>e.
       if bundle \<noteq> APP_STORE_BUNDLE_ID env then Inl (JsError (label @ '' bundle id mismatch''))
       else case environmentOf e of
         None \<Rightarrow> Inl (JsError (label @ '' environment is invalid''))
       | Some store \<Rightarrow>
           bindR (allowedAppStoreEnvironments env) (\<lambda>allowed.
             if store \<notin> set allowed then Inl (JsError (label @ '' environment is not allowed''))
             else Inr store)))"

definition notificationData :: "(string \<times> json) list \<Rightarrow> js_error + (string \<times> json) list" where
  "notificationData payload =
     (case jget payload ''data'' of
        Some (JObj ps) \<Rightarrow> Inr ps
      | _ \<Rightarrow> Inl (JsError ''notification data must be an object''))"

definition textOrNull :: "json option \<Rightarrow> string option" where
  "textOrNull v = (case v of Some (JStr s) \<Rightarrow> Some s | _ \<Rightarrow> None)"

definition notificationTransactionId ::
    "NodeCrypto \<Rightarrow> RuntimeEnv \<Rightarrow> int \<Rightarrow> (string \<times> json) list \<Rightarrow> AppStoreEnvironment \<Rightarrow> js_error + string option" where
  "notificationTransactionId crypto env now dat notificationEnvironment =
     (case textOrNull (jget dat ''signedTransactionInfo'') of
        None \<Rightarrow> Inr None
      | Some info \<Rightarrow>
          bindR (verifyAppleSignedJws crypto env now info) (\<lambda>transaction.
            case asObject transaction of
              None \<Rightarrow> Inr None
            | Some ps \<Rightarrow>
                bindR (validateAppStoreIdentity env ps ''transaction'') (\<lambda>transactionEnvironment.
                  if transactionEnvironment \<noteq> notificationEnvironment
                  then Inl (JsError ''transaction environment does not match notification environment'')
                  else Inr (textOrNull (jget ps ''transactionId'')))))"

definition verifyAppStoreNotification ::
    "NodeCrypto \<Rightarrow> RuntimeEnv \<Rightarrow> int \<Rightarrow> string \<Rightarrow> js_error + VerifiedAppStoreNotification" where
  "verifyAppStoreNotification crypto env now signedText =
     bindR (verifyAppleSignedJws crypto env now signedText) (\<lambda>payload.
       case asObject payload of
         None \<Rightarrow> Inl (JsError ''notification payload must be an object'')
       | Some notification \<Rightarrow>
           bindR (notificationData notification) (\<lambda>dat.
           bindR (validateAppStoreIdentity env dat ''notification'') (\<lambda>e.
           bindR (requiredText (jget notification ''notificationUUID'') ''notificationUUID'') (\<lambda>uuid.
           bindR (requiredText (jget notification ''notificationType'') ''notificationType'') (\<lambda>type.
           bindR (notificationTransactionId crypto env now dat e) (\<lambda>txId.
             Inr \<lparr>notificationUUID = uuid, notificationType = type,
                  subtype = textOrNull (jget notification ''subtype''), nTransactionId = txId,
                  signedPayload = signedText\<rparr>))))))"

subsection \<open>Which documents are trusted\<close>

lemma stringItems_length: "stringItems vs = Some ss \<Longrightarrow> length ss = length vs"
  by (induction vs arbitrary: ss rule: stringItems.induct) auto

lemma chainTexts_length: "chainTexts v = Some texts \<Longrightarrow> length texts = 3"
  by (auto simp: chainTexts_def stringItems_length split: option.splits json.splits if_splits)

lemma certificatesFromHeader_three:
  assumes "certificatesFromHeader crypto jws = Inr cs"
  obtains leaf mid root where "cs = [leaf, mid, root]"
proof -
  from assms obtain header where "decodeJwsHeader jws = Inr header"
    by (auto simp: certificatesFromHeader_def bindR_Inr_iff)
  with assms obtain v texts where t: "chainTexts v = Some texts"
    and "mapR (\<lambda>t. newX509 crypto (bufferFromBase64 t)) texts = Inr cs"
    by (auto simp: certificatesFromHeader_def split: option.splits if_splits)
  with mapR_Inr_length chainTexts_length have "length cs = 3" by metis
  then show thesis using that by (auto simp: numeral_3_eq_3 length_Suc_conv)
qed

text \<open>
  The specification of a trusted document: a chain of three certificates, each within its validity
  and issued by the next, Apple's marker extensions on the two lower ones, a pinned root, and a
  signature by the leaf over header and payload.
\<close>

definition rootsConfigured :: "RuntimeEnv \<Rightarrow> bool" where
  "rootsConfigured env \<longleftrightarrow> expectedRoots env \<noteq> [] \<and> list_all isSha256Hex (expectedRoots env)"

definition chainTrusted :: "NodeCrypto \<Rightarrow> RuntimeEnv \<Rightarrow> int \<Rightarrow> X509Certificate \<Rightarrow> X509Certificate \<Rightarrow> X509Certificate \<Rightarrow> bool" where
  "chainTrusted crypto env now leaf mid root \<longleftrightarrow>
     rootsConfigured env \<and> (\<forall>c \<in> {leaf, mid, root}. \<not> expiredOrEarly now c) \<and>
     checkIssued crypto leaf mid \<and> certVerify crypto leaf (publicKey mid) \<and>
     checkIssued crypto mid root \<and> certVerify crypto mid (publicKey root) \<and> ca mid \<and>
     hasCertificateExtension (raw leaf) APP_STORE_NOTIFICATION_LEAF_OID = Inr True \<and>
     hasCertificateExtension (raw mid) APPLE_WORLDWIDE_DEVELOPER_RELATIONS_CA_OID = Inr True \<and>
     toLowerCase (replaceAllChar (CHR '':'') [] (fingerprint256 root)) \<in> set (expectedRoots env)"

definition appleSigned :: "NodeCrypto \<Rightarrow> RuntimeEnv \<Rightarrow> int \<Rightarrow> string \<Rightarrow> json \<Rightarrow> bool" where
  "appleSigned crypto env now jws payload \<longleftrightarrow>
     (\<exists>leaf mid root input signature.
        certificatesFromHeader crypto jws = Inr [leaf, mid, root] \<and> chainTrusted crypto env now leaf mid root \<and>
        jwsSigningInput jws = Inr input \<and> jwsSignature jws = Inr signature \<and>
        verifySignature crypto (publicKey leaf) input signature = Inr True \<and> decodeJwsPayload jws = Inr payload)"

lemma validateCertificateChain_iff:
  "validateCertificateChain crypto env now [leaf, mid, root] = Inr u \<longleftrightarrow> chainTrusted crypto env now leaf mid root"
  unfolding validateCertificateChain_def chainTrusted_def rootsConfigured_def Let_def
  by (auto simp: result_simps list_ex_iff list_all_iff split: if_splits)

lemma verifyAppleSignedJws_iff:
  "verifyAppleSignedJws crypto env now jws = Inr payload \<longleftrightarrow> appleSigned crypto env now jws payload"
proof
  assume "verifyAppleSignedJws crypto env now jws = Inr payload"
  then obtain cs input signature where cs: "certificatesFromHeader crypto jws = Inr cs"
    and v: "validateCertificateChain crypto env now cs = Inr ()"
    and i: "jwsSigningInput jws = Inr input" "jwsSignature jws = Inr signature"
      "verifySignature crypto (publicKey (cs ! 0)) input signature = Inr True" "decodeJwsPayload jws = Inr payload"
    by (auto simp: verifyAppleSignedJws_def result_simps split: if_splits)
  obtain leaf mid root where "cs = [leaf, mid, root]" using certificatesFromHeader_three [OF cs] .
  with cs v i show "appleSigned crypto env now jws payload"
    unfolding appleSigned_def by (fastforce simp: validateCertificateChain_iff)
next
  assume "appleSigned crypto env now jws payload"
  then show "verifyAppleSignedJws crypto env now jws = Inr payload"
    unfolding appleSigned_def verifyAppleSignedJws_def
    by (auto simp: validateCertificateChain_iff [symmetric, where u = "()"])
qed

lemma validateAppStoreIdentity_Inr:
  assumes "validateAppStoreIdentity env v label = Inr e"
  shows "jget v ''bundleId'' = Some (JStr (APP_STORE_BUNDLE_ID env))"
    and "jget v ''environment'' = Some (JStr (environmentText e))"
    and "\<exists>allowed. allowedAppStoreEnvironments env = Inr allowed \<and> e \<in> set allowed"
  using assms by (auto simp: validateAppStoreIdentity_def result_simps split: if_splits option.splits)

lemma notificationData_Inr [result_simps]:
  "notificationData payload = Inr ps \<longleftrightarrow> jget payload ''data'' = Some (JObj ps)"
  by (cases "jget payload ''data''"; cases "the (jget payload ''data'')") (auto simp: notificationData_def)

lemma notificationTransactionId_Some:
  assumes "notificationTransactionId crypto env now dat e = Inr (Some txId)"
  obtains info ps where "jget dat ''signedTransactionInfo'' = Some (JStr info)"
    and "appleSigned crypto env now info (JObj ps)" and "jget ps ''transactionId'' = Some (JStr txId)"
    and "jget ps ''bundleId'' = Some (JStr (APP_STORE_BUNDLE_ID env))"
    and "jget ps ''environment'' = Some (JStr (environmentText e))"
proof -
  have t: "textOrNull v = Some s \<longleftrightarrow> v = Some (JStr s)" for v s
    by (cases v; cases "the v") (auto simp: textOrNull_def)
  from assms obtain info transaction ps where info: "jget dat ''signedTransactionInfo'' = Some (JStr info)"
    and "verifyAppleSignedJws crypto env now info = Inr (JObj ps)"
    and "validateAppStoreIdentity env ps ''transaction'' = Inr e"
    and "textOrNull (jget ps ''transactionId'') = Some txId"
    by (auto simp: notificationTransactionId_def result_simps t split: option.splits if_splits)
  then show thesis
    using validateAppStoreIdentity_Inr [of env ps "''transaction''" e] verifyAppleSignedJws_iff that t by blast
qed

text \<open>
  C8. A notification is recorded only when Apple signed it for this app: an accepted payload is the
  payload of a trusted JWS (\<open>appleSigned\<close>: pinned root, valid dates, issuer links, purpose
  extensions, leaf signature) whose data names the configured bundle and an allowed environment;
  and a transaction identifier is reported only out of a second trusted JWS inside it, for the same
  bundle and the same environment.
\<close>

theorem verifyAppStoreNotification_sound:
  assumes "verifyAppStoreNotification crypto env now signedText = Inr n"
  shows "\<exists>payload dat e allowed. appleSigned crypto env now signedText (JObj payload) \<and>
    jget payload ''notificationUUID'' = Some (JStr (notificationUUID n)) \<and>
    jget payload ''notificationType'' = Some (JStr (notificationType n)) \<and>
    jget payload ''data'' = Some (JObj dat) \<and>
    jget dat ''bundleId'' = Some (JStr (APP_STORE_BUNDLE_ID env)) \<and>
    jget dat ''environment'' = Some (JStr (environmentText e)) \<and>
    allowedAppStoreEnvironments env = Inr allowed \<and> e \<in> set allowed \<and>
    signedPayload n = signedText \<and>
    (\<forall>txId. nTransactionId n = Some txId \<longrightarrow>
      (\<exists>info ps. jget dat ''signedTransactionInfo'' = Some (JStr info) \<and>
        appleSigned crypto env now info (JObj ps) \<and>
        jget ps ''transactionId'' = Some (JStr txId) \<and>
        jget ps ''bundleId'' = Some (JStr (APP_STORE_BUNDLE_ID env)) \<and>
        jget ps ''environment'' = Some (JStr (environmentText e))))"
proof -
  from assms obtain v where v: "verifyAppleSignedJws crypto env now signedText = Inr v"
    by (auto simp: verifyAppStoreNotification_def bindR_Inr_iff)
  with assms obtain payload where p: "v = JObj payload"
    by (auto simp: verifyAppStoreNotification_def split: option.splits)
  from assms v p obtain dat e where d: "jget payload ''data'' = Some (JObj dat)"
    and i: "validateAppStoreIdentity env dat ''notification'' = Inr e"
    and u: "jget payload ''notificationUUID'' = Some (JStr (notificationUUID n))"
      "jget payload ''notificationType'' = Some (JStr (notificationType n))" "signedPayload n = signedText"
    and t: "notificationTransactionId crypto env now dat e = Inr (nTransactionId n)"
    by (auto simp: verifyAppStoreNotification_def result_simps)
  from validateAppStoreIdentity_Inr [OF i] obtain allowed where
    "allowedAppStoreEnvironments env = Inr allowed" "e \<in> set allowed" by blast
  moreover have "\<exists>info ps. jget dat ''signedTransactionInfo'' = Some (JStr info) \<and>
        appleSigned crypto env now info (JObj ps) \<and> jget ps ''transactionId'' = Some (JStr txId) \<and>
        jget ps ''bundleId'' = Some (JStr (APP_STORE_BUNDLE_ID env)) \<and>
        jget ps ''environment'' = Some (JStr (environmentText e))" if "nTransactionId n = Some txId" for txId
    using notificationTransactionId_Some [OF t [unfolded that]] by metis
  ultimately show ?thesis
    using v p d u validateAppStoreIdentity_Inr(1,2) [OF i]
    unfolding verifyAppleSignedJws_iff by blast
qed

definition sampleX509 :: "nat \<Rightarrow> X509Certificate" where
  "sampleX509 marker =
     \<lparr>validFrom = Some 0, validTo = Some 100, raw = certificateBytes (sampleCertificate marker), ca = True,
      fingerprint256 = replicate 64 (CHR ''A''), publicKey = [1]\<rparr>"

definition sampleCrypto :: NodeCrypto where
  "sampleCrypto =
     \<lparr>newX509 = (\<lambda>der. Inr (sampleX509 (if der = [1] then 11 else 2))),
      checkIssued = (\<lambda>c i. True), certVerify = (\<lambda>c k. k = [1]),
      verifySignature = (\<lambda>key input signature. Inr (signature = [7]))\<rparr>"

definition sampleNoteEnv :: RuntimeEnv where
  "sampleNoteEnv = sampleEnv \<lparr>APP_STORE_NOTIFICATION_ROOT_SHA256S := replicate 64 (CHR ''a'')\<rparr>"

definition sampleNotePayload :: "(string \<times> json) list" where
  "sampleNotePayload =
     [(''notificationUUID'', JStr ''n-1''), (''notificationType'', JStr ''REFUND''),
      (''data'', JObj [(''bundleId'', JStr ''xyz.kinic''), (''environment'', JStr ''Sandbox'')])]"

definition sampleNote :: string where
  "sampleNote =
     compactJws (JObj [(''alg'', JStr ''ES256''), (''x5c'', JArr [JStr ''AQ=='', JStr ''Ag=='', JStr ''Aw=='']) ])
       (JObj sampleNotePayload) [7]"

lemma sample_appleSigned: "verifyAppleSignedJws sampleCrypto sampleNoteEnv 5 sampleNote = Inr (JObj sampleNotePayload)"
proof -
  note dec = decode_compactJws [of "JObj [(''alg'', JStr ''ES256''), (''x5c'', JArr [JStr ''AQ=='', JStr ''Ag=='', JStr ''Aw==''])]"
      "JObj sampleNotePayload" "[7]", folded sampleNote_def]
  have wf: "wfJson (JObj sampleNotePayload)" by (simp add: sampleNotePayload_def)
  have b: "bufferFromBase64 ''AQ=='' = [1]" "bufferFromBase64 ''Ag=='' = [2]" "bufferFromBase64 ''Aw=='' = [3]"
    by (simp_all add: bufferFromBase64_def map_filter_simps bufferSextet_def b64Value_def)
  have c: "concat (replicate n [x]) = replicate n x" for n and x :: char by (induction n) simp_all
  have l: "toLowerChar (CHR ''A'') = CHR ''a''" "toLowerChar (CHR ''a'') = CHR ''a''" by code_simp+
  have "trim (replicate 64 (CHR ''a'')) = replicate 64 (CHR ''a'')"
    by (rule trim_no_space) (simp add: list_all_iff isJsSpace_def)
  then have r: "expectedRoots sampleNoteEnv = [replicate 64 (CHR ''a'')]"
    by (simp add: expectedRoots_def sampleNoteEnv_def splitOn_no_sep replaceAllChar_def toLowerCase_def c l)
  have f: "toLowerCase (replaceAllChar (CHR '':'') [] (replicate 64 (CHR ''A''))) = replicate 64 (CHR ''a'')"
    by (simp add: replaceAllChar_def toLowerCase_def c l)
  have "certificatesFromHeader sampleCrypto sampleNote = Inr [sampleX509 11, sampleX509 2, sampleX509 2]"
    unfolding certificatesFromHeader_def using wf
    by (subst dec(1)) (simp_all add: jget_def chainTexts_def b sampleCrypto_def)
  moreover have "chainTrusted sampleCrypto sampleNoteEnv 5 (sampleX509 11) (sampleX509 2) (sampleX509 2)"
    using sampleCertificate_marked [of 11] sampleCertificate_marked [of 2]
    by (simp add: chainTrusted_def rootsConfigured_def r f isSha256Hex_def list_all_iff isLowerHex_def
        expiredOrEarly_def sampleX509_def sampleCrypto_def APP_STORE_NOTIFICATION_LEAF_OID_def
        APPLE_WORLDWIDE_DEVELOPER_RELATIONS_CA_OID_def natToDec.simps text_simps)
  ultimately show ?thesis
    unfolding verifyAppleSignedJws_iff appleSigned_def using dec(2-4) wf
    by (simp add: sampleCrypto_def sampleX509_def)
qed

lemma verifyAppStoreNotification_sound_witness:
  "\<exists>n payload. verifyAppStoreNotification sampleCrypto sampleNoteEnv 5 sampleNote = Inr n \<and>
     notificationType n = ''REFUND'' \<and> appleSigned sampleCrypto sampleNoteEnv 5 sampleNote (JObj payload)"
proof -
  have e: "allowedAppStoreEnvironments sampleNoteEnv = Inr [Production, Sandbox]"
    using sample_allowed by (simp add: allowedAppStoreEnvironments_def sampleNoteEnv_def)
  have "verifyAppStoreNotification sampleCrypto sampleNoteEnv 5 sampleNote =
      Inr \<lparr>notificationUUID = ''n-1'', notificationType = ''REFUND'', subtype = None, nTransactionId = None,
           signedPayload = sampleNote\<rparr>"
    unfolding verifyAppStoreNotification_def sample_appleSigned
    by (simp add: sampleNotePayload_def notificationData_def jget_def validateAppStoreIdentity_def requiredText_def
        trim_no_space isJsSpace_def e environmentOf_def notificationTransactionId_def textOrNull_def)
      (simp add: sampleNoteEnv_def sampleEnv_def)
  from verifyAppStoreNotification_sound [OF this] this show ?thesis by auto
qed

end
