(* ===== verification/Sql_Table.thy ===== *)
theory Sql_Table
  imports Js_Base
begin

section \<open>SQL tables\<close>

text \<open>
  A table is the list of its rows. The statements the workers send (D1 and the SQLite storage of a
  durable object) are: the first row a \<open>WHERE\<close> clause matches, an update of every matching row with
  the number of changes, an insert that fails or is skipped on a key conflict, and a delete. A
  primary key is a function that is injective on the rows.
\<close>

definition selectFirst :: "('r \<Rightarrow> bool) \<Rightarrow> 'r list \<Rightarrow> 'r option" where
  "selectFirst P t = find P t"

definition updateWhere :: "('r \<Rightarrow> bool) \<Rightarrow> ('r \<Rightarrow> 'r) \<Rightarrow> 'r list \<Rightarrow> 'r list" where
  "updateWhere P f t = map (\<lambda>r. if P r then f r else r) t"

definition changesWhere :: "('r \<Rightarrow> bool) \<Rightarrow> 'r list \<Rightarrow> nat" where
  "changesWhere P t = length (filter P t)"

definition deleteWhere :: "('r \<Rightarrow> bool) \<Rightarrow> 'r list \<Rightarrow> 'r list" where
  "deleteWhere P t = filter (\<lambda>r. \<not> P r) t"

definition hasKey :: "('r \<Rightarrow> 'k) \<Rightarrow> 'k \<Rightarrow> 'r list \<Rightarrow> bool" where
  "hasKey key k t = list_ex (\<lambda>r. key r = k) t"

definition insertOrIgnore :: "('r \<Rightarrow> 'k) \<Rightarrow> 'r \<Rightarrow> 'r list \<Rightarrow> 'r list" where
  "insertOrIgnore key r t = (if hasKey key (key r) t then t else t @ [r])"

definition byKey :: "('r \<Rightarrow> 'k) \<Rightarrow> 'k \<Rightarrow> 'r list \<Rightarrow> 'r option" where
  "byKey key k t = selectFirst (\<lambda>r. key r = k) t"

definition keyed :: "('r \<Rightarrow> 'k) \<Rightarrow> 'r list \<Rightarrow> bool" where
  "keyed key t = distinct (map key t)"

subsection \<open>Look-ups\<close>

lemma byKey_Nil [simp]: "byKey key k [] = None"
  by (simp add: byKey_def selectFirst_def)

lemma byKey_Cons [simp]: "byKey key k (r # t) = (if key r = k then Some r else byKey key k t)"
  by (simp add: byKey_def selectFirst_def)

lemma byKey_Some_D: "byKey key k t = Some r \<Longrightarrow> r \<in> set t \<and> key r = k"
  by (auto simp: byKey_def selectFirst_def find_Some_iff)

lemma byKey_None_iff: "byKey key k t = None \<longleftrightarrow> k \<notin> key ` set t"
  by (auto simp: byKey_def selectFirst_def find_None_iff)

lemma byKey_keyed: "keyed key t \<Longrightarrow> r \<in> set t \<Longrightarrow> byKey key (key r) t = Some r"
  by (induction t) (auto simp: keyed_def)

lemma byKey_keyed_iff: "keyed key t \<Longrightarrow> byKey key k t = Some r \<longleftrightarrow> r \<in> set t \<and> key r = k"
  using byKey_Some_D byKey_keyed by metis

lemma hasKey_iff: "hasKey key k t \<longleftrightarrow> k \<in> key ` set t"
  by (auto simp: hasKey_def list_ex_iff)

subsection \<open>Inserts and deletes\<close>

lemma keyed_Nil [simp]: "keyed key []"
  by (simp add: keyed_def)

lemma keyed_append_one: "keyed key t \<Longrightarrow> key r \<notin> key ` set t \<Longrightarrow> keyed key (t @ [r])"
  by (simp add: keyed_def)

lemma keyed_insertOrIgnore: "keyed key t \<Longrightarrow> keyed key (insertOrIgnore key r t)"
  by (simp add: insertOrIgnore_def hasKey_iff keyed_append_one)

lemma byKey_append_one:
  "byKey key k (t @ [r]) = (case byKey key k t of None \<Rightarrow> if key r = k then Some r else None | Some x \<Rightarrow> Some x)"
  by (simp add: byKey_def selectFirst_def find_append split: option.split)

lemma byKey_insertOrIgnore [table_simps]:
  "byKey key k (insertOrIgnore key r t) =
     (case byKey key k t of None \<Rightarrow> if key r = k then Some r else None | Some x \<Rightarrow> Some x)"
proof (cases "hasKey key (key r) t")
  case True
  then have "byKey key k t = None \<Longrightarrow> key r \<noteq> k" by (auto simp: hasKey_iff byKey_None_iff)
  with True show ?thesis by (auto simp: insertOrIgnore_def split: option.split)
next
  case False
  then show ?thesis by (simp add: insertOrIgnore_def byKey_append_one)
qed

lemma keyed_filter: "keyed key t \<Longrightarrow> keyed key (filter P t)"
  by (simp add: keyed_def distinct_map_filter)

lemma keyed_deleteWhere: "keyed key t \<Longrightarrow> keyed key (deleteWhere P t)"
  by (simp add: deleteWhere_def keyed_filter)

lemma byKey_deleteWhere [table_simps]:
  "keyed key t \<Longrightarrow>
   byKey key k (deleteWhere P t) = (case byKey key k t of None \<Rightarrow> None | Some r \<Rightarrow> if P r then None else Some r)"
proof (induction t)
  case (Cons x t)
  then have "keyed key t" and n: "key x \<notin> key ` set t" by (auto simp: keyed_def)
  moreover have "byKey key k (deleteWhere P t) = None" if "key x = k"
    using n that by (auto simp: byKey_None_iff deleteWhere_def)
  ultimately show ?case using Cons.IH by (auto simp: deleteWhere_def)
qed (simp add: deleteWhere_def)

subsection \<open>Updates\<close>

text \<open>
  The interface every \<open>UPDATE\<close> of the workers meets: it sets columns other than the key. A table
  keeps its key, a look-up afterwards is the updated look-up, and on a keyed table a statement whose
  \<open>WHERE\<close> clause fixes the key changes at most one row, namely the one that look-up finds.
\<close>

locale row_update =
  fixes key :: "'r \<Rightarrow> 'k" and setRow :: "'r \<Rightarrow> 'r"
  assumes keeps_key: "key (setRow r) = key r"
begin

lemma map_key: "map key (updateWhere P setRow t) = map key t"
  by (simp add: updateWhere_def comp_def keeps_key if_distrib [of key] cong: if_cong)

lemma keyed_update: "keyed key (updateWhere P setRow t) = keyed key t"
  by (simp add: keyed_def map_key)

lemma byKey_update:
  "byKey key k (updateWhere P setRow t) = map_option (\<lambda>r. if P r then setRow r else r) (byKey key k t)"
  by (induction t) (auto simp: updateWhere_def keeps_key)

lemma hasKey_update: "hasKey key k (updateWhere P setRow t) = hasKey key k t"
  using map_key [of P t] by (metis hasKey_iff list.set_map)

end

lemma changesWhere_keyed:
  assumes "keyed key t" and "\<And>r. P r \<Longrightarrow> key r = k"
  shows "changesWhere P t = (case byKey key k t of None \<Rightarrow> 0 | Some r \<Rightarrow> if P r then 1 else 0)"
  using assms(1)
proof (induction t)
  case Nil
  then show ?case by (simp add: changesWhere_def)
next
  case (Cons x t)
  then have "keyed key t" and n: "key x \<notin> key ` set t" by (auto simp: keyed_def)
  note IH = Cons.IH [OF this(1)]
  show ?case
  proof (cases "key x = k")
    case True
    have "\<forall>r \<in> set t. \<not> P r" using True n assms(2) by (metis image_eqI)
    then have "filter P t = []" by simp
    with True show ?thesis by (simp add: changesWhere_def)
  next
    case False
    then have "\<not> P x" using assms(2) by blast
    with False IH show ?thesis by (simp add: changesWhere_def)
  qed
qed

lemma changesWhere_one:
  assumes "keyed key t" and "changesWhere P t = 1" and "\<And>r. P r \<Longrightarrow> key r = k"
  obtains r where "byKey key k t = Some r" and "P r"
  using assms(2) changesWhere_keyed [OF assms(1,3)] by (auto split: option.splits if_splits)

lemma updateWhere_id: "(\<And>r. r \<in> set t \<Longrightarrow> \<not> P r) \<Longrightarrow> updateWhere P f t = t"
  by (simp add: updateWhere_def map_idI)

lemma changesWhere_0: "changesWhere P t = 0 \<Longrightarrow> updateWhere P f t = t"
  by (rule updateWhere_id) (auto simp: changesWhere_def filter_empty_conv)

lemma length_filter_update:
  assumes "\<And>r. r \<in> set t \<Longrightarrow> P r \<Longrightarrow> Q (f r) \<longleftrightarrow> Q r"
  shows "length (filter Q (updateWhere P f t)) = length (filter Q t)"
  using assms by (induction t) (auto simp: updateWhere_def)

end
