(* ===== verification/State_System.thy ===== *)
theory State_System
  imports Js_Base
begin

section \<open>Shared state under concurrent steps\<close>

text \<open>
  The contract of a store that several requests step: an invariant every step keeps, and a relation
  saying what later requests may rely on (which rows stay, which columns no longer change). The
  clients of the contract reason about arbitrary interleavings through the two run lemmas.
\<close>

locale guarded_system =
  fixes step :: "'s \<Rightarrow> 's \<Rightarrow> bool" and inv :: "'s \<Rightarrow> bool" and adv :: "'s \<Rightarrow> 's \<Rightarrow> bool"
  assumes inv_step: "inv s \<Longrightarrow> step s t \<Longrightarrow> inv t"
    and adv_refl: "adv s s"
    and adv_trans: "adv s t \<Longrightarrow> adv t u \<Longrightarrow> adv s u"
    and adv_step: "inv s \<Longrightarrow> step s t \<Longrightarrow> adv s t"
begin

lemma inv_run: "step\<^sup>*\<^sup>* s t \<Longrightarrow> inv s \<Longrightarrow> inv t"
  by (induction rule: rtranclp_induct) (auto intro: inv_step)

lemma adv_run: "step\<^sup>*\<^sup>* s t \<Longrightarrow> inv s \<Longrightarrow> adv s t"
proof (induction rule: rtranclp_induct)
  case base
  show ?case by (rule adv_refl)
next
  case (step t u)
  then show ?case using inv_run adv_step adv_trans by blast
qed

end

end
