(* ===== verification/Payment_Fulfillment.thy ===== *)
theory Payment_Fulfillment
  imports Payment_Env Sql_Table State_System
begin

section \<open>Payment worker: the fulfilment tables\<close>

text \<open>
  The D1 database of the payment worker (\<^verbatim>\<open>workers/payment/migrations\<close>) and each SQL statement of
  \<^verbatim>\<open>workers/payment/src/index.ts\<close> as a function on it. A fulfilment goes from \<open>received\<close> to
  \<open>granting\<close> under an attempt identifier, and from there to \<open>fulfilled\<close> or \<open>failed\<close>; a failed one,
  and one whose attempt is older than the lease, can be claimed again. Times are milliseconds.
\<close>

subsection \<open>Rows\<close>

record FulfillmentRow =
  f_transaction_id :: string
  f_database_id :: string
  f_purchaser_principal :: string
  f_app_account_token :: "string option"
  f_product_id :: string
  f_environment :: string
  f_bundle_id :: string
  f_cycles :: string
  f_status :: string
  f_grant_attempt_id :: "string option"
  f_error_message :: "string option"
  f_created_at_ms :: nat
  f_updated_at_ms :: nat

record PurchaseIntentRow =
  i_app_account_token :: string
  i_database_id :: string
  i_purchaser_principal :: string
  i_product_id :: string
  i_amount_cycles :: "string option"
  i_status :: string
  i_transaction_id :: "string option"
  i_created_at_ms :: nat
  i_updated_at_ms :: nat

record NotificationRow =
  n_notification_uuid :: string
  n_notification_type :: string
  n_subtype :: "string option"
  n_transaction_id :: "string option"
  n_signed_payload :: string
  n_received_at_ms :: nat

record Tables =
  iap_fulfillments :: "FulfillmentRow list"
  iap_purchase_intents :: "PurchaseIntentRow list"
  app_store_notifications :: "NotificationRow list"

definition FULFILLMENT_GRANT_LEASE_MS :: nat where
  "FULFILLMENT_GRANT_LEASE_MS = 5 * 60 * 1000"

subsection \<open>Statements\<close>

text \<open>\<open>INSERT INTO iap_purchase_intents\<close>: \<open>None\<close> when the primary key is taken.\<close>

definition insertIntent ::
    "string \<Rightarrow> string \<Rightarrow> string \<Rightarrow> string \<Rightarrow> string \<Rightarrow> nat \<Rightarrow> Tables \<Rightarrow> Tables option" where
  "insertIntent token databaseId purchaser product amountCycles now t =
     (if hasKey i_app_account_token token (iap_purchase_intents t) then None
      else Some (t \<lparr>iap_purchase_intents := iap_purchase_intents t @
        [\<lparr>i_app_account_token = token, i_database_id = databaseId, i_purchaser_principal = purchaser,
          i_product_id = product, i_amount_cycles = Some amountCycles, i_status = ''created'',
          i_transaction_id = None, i_created_at_ms = now, i_updated_at_ms = now\<rparr>]\<rparr>))"

definition insertNotification ::
    "string \<Rightarrow> string \<Rightarrow> string option \<Rightarrow> string option \<Rightarrow> string \<Rightarrow> nat \<Rightarrow> Tables \<Rightarrow> Tables" where
  "insertNotification uuid type subtype txId payload now t =
     t \<lparr>app_store_notifications := insertOrIgnore n_notification_uuid
       \<lparr>n_notification_uuid = uuid, n_notification_type = type, n_subtype = subtype,
        n_transaction_id = txId, n_signed_payload = payload, n_received_at_ms = now\<rparr>
       (app_store_notifications t)\<rparr>"

definition fulfillmentByTransaction :: "string \<Rightarrow> Tables \<Rightarrow> FulfillmentRow option" where
  "fulfillmentByTransaction txId t = selectFirst (\<lambda>r. f_transaction_id r = txId) (iap_fulfillments t)"

definition purchaseIntentByToken :: "string \<Rightarrow> Tables \<Rightarrow> PurchaseIntentRow option" where
  "purchaseIntentByToken token t = selectFirst (\<lambda>r. i_app_account_token r = token) (iap_purchase_intents t)"

text \<open>\<open>INSERT INTO iap_fulfillments \<dots> SELECT \<dots> WHERE ?4 <> 'Sandbox' OR (SELECT COUNT(*) \<dots>) < ?7
  ON CONFLICT DO NOTHING\<close>.\<close>

definition sandboxCount :: "FulfillmentRow list \<Rightarrow> nat" where
  "sandboxCount fs = length (filter (\<lambda>r. f_environment r = ''Sandbox'') fs)"

definition receivedRow :: "string \<Rightarrow> string \<Rightarrow> string \<Rightarrow> string \<Rightarrow> string \<Rightarrow> nat \<Rightarrow> FulfillmentRow" where
  "receivedRow txId databaseId purchaser env bundle now =
     \<lparr>f_transaction_id = txId, f_database_id = databaseId, f_purchaser_principal = purchaser,
      f_app_account_token = None, f_product_id = ''unknown'', f_environment = env, f_bundle_id = bundle,
      f_cycles = ''0'', f_status = ''received'', f_grant_attempt_id = None, f_error_message = None,
      f_created_at_ms = now, f_updated_at_ms = now\<rparr>"

definition insertReceived ::
    "string \<Rightarrow> string \<Rightarrow> string \<Rightarrow> string \<Rightarrow> string \<Rightarrow> nat \<Rightarrow> nat \<Rightarrow> Tables \<Rightarrow> Tables" where
  "insertReceived txId databaseId purchaser env bundle now limit t =
     (if env \<noteq> ''Sandbox'' \<or> sandboxCount (iap_fulfillments t) < limit
      then t \<lparr>iap_fulfillments := insertOrIgnore f_transaction_id
             (receivedRow txId databaseId purchaser env bundle now) (iap_fulfillments t)\<rparr>
      else t)"

text \<open>The claim: \<open>UPDATE \<dots> SET status = 'granting' \<dots> WHERE \<dots> (status IN ('received', 'failed') OR
  (status = 'granting' AND updated_at_ms <= now - lease))\<close>.\<close>

record GrantingInput =
  g_transactionId :: string
  g_databaseId :: string
  g_purchaserPrincipal :: string
  g_appAccountToken :: string
  g_productId :: string
  g_environment :: string
  g_bundleId :: string
  g_cycles :: string

definition grantingWhere :: "GrantingInput \<Rightarrow> nat \<Rightarrow> FulfillmentRow \<Rightarrow> bool" where
  "grantingWhere inp now r \<longleftrightarrow>
     f_transaction_id r = g_transactionId inp \<and> f_database_id r = g_databaseId inp \<and>
     f_purchaser_principal r = g_purchaserPrincipal inp \<and>
     (f_status r \<in> {''received'', ''failed''} \<or>
      f_status r = ''granting'' \<and> f_updated_at_ms r + FULFILLMENT_GRANT_LEASE_MS \<le> now)"

definition grantingSet :: "GrantingInput \<Rightarrow> string \<Rightarrow> nat \<Rightarrow> FulfillmentRow \<Rightarrow> FulfillmentRow" where
  "grantingSet inp attemptId now r =
     r \<lparr>f_app_account_token := Some (g_appAccountToken inp), f_product_id := g_productId inp,
        f_environment := g_environment inp, f_bundle_id := g_bundleId inp, f_cycles := g_cycles inp,
        f_status := ''granting'', f_grant_attempt_id := Some attemptId, f_error_message := None,
        f_updated_at_ms := now\<rparr>"

definition updateGranting :: "GrantingInput \<Rightarrow> string \<Rightarrow> nat \<Rightarrow> Tables \<Rightarrow> nat \<times> Tables" where
  "updateGranting inp attemptId now t =
     (changesWhere (grantingWhere inp now) (iap_fulfillments t),
      t \<lparr>iap_fulfillments := updateWhere (grantingWhere inp now) (grantingSet inp attemptId now) (iap_fulfillments t)\<rparr>)"

text \<open>The batch of \<open>finalizeFulfillment\<close>: two updates in one transaction, with their changes.\<close>

record FinalizeInput =
  z_transactionId :: string
  z_databaseId :: string
  z_purchaserPrincipal :: string
  z_appAccountToken :: string
  z_productId :: string
  z_attemptId :: string

definition finalWhere :: "FinalizeInput \<Rightarrow> FulfillmentRow \<Rightarrow> bool" where
  "finalWhere inp r \<longleftrightarrow>
     f_transaction_id r = z_transactionId inp \<and> f_database_id r = z_databaseId inp \<and>
     f_purchaser_principal r = z_purchaserPrincipal inp \<and>
     f_app_account_token r = Some (z_appAccountToken inp) \<and> f_status r = ''granting'' \<and>
     f_grant_attempt_id r = Some (z_attemptId inp)"

definition finalSet :: "nat \<Rightarrow> FulfillmentRow \<Rightarrow> FulfillmentRow" where
  "finalSet now r =
     r \<lparr>f_status := ''fulfilled'', f_grant_attempt_id := None, f_error_message := None, f_updated_at_ms := now\<rparr>"

definition intentWhere :: "FinalizeInput \<Rightarrow> PurchaseIntentRow \<Rightarrow> bool" where
  "intentWhere inp r \<longleftrightarrow>
     i_app_account_token r = z_appAccountToken inp \<and> i_database_id r = z_databaseId inp \<and>
     i_purchaser_principal r = z_purchaserPrincipal inp \<and> i_product_id r = z_productId inp \<and>
     (i_status r = ''created'' \<or> i_status r = ''fulfilled'' \<and> i_transaction_id r = Some (z_transactionId inp))"

definition intentSet :: "FinalizeInput \<Rightarrow> nat \<Rightarrow> PurchaseIntentRow \<Rightarrow> PurchaseIntentRow" where
  "intentSet inp now r =
     r \<lparr>i_status := ''fulfilled'', i_transaction_id := Some (z_transactionId inp), i_updated_at_ms := now\<rparr>"

definition finalizeBatch :: "FinalizeInput \<Rightarrow> nat \<Rightarrow> Tables \<Rightarrow> nat list \<times> Tables" where
  "finalizeBatch inp now t =
     ([changesWhere (finalWhere inp) (iap_fulfillments t), changesWhere (intentWhere inp) (iap_purchase_intents t)],
      t \<lparr>iap_fulfillments := updateWhere (finalWhere inp) (finalSet now) (iap_fulfillments t),
         iap_purchase_intents := updateWhere (intentWhere inp) (intentSet inp now) (iap_purchase_intents t)\<rparr>)"

definition failedWhere :: "string \<Rightarrow> string \<Rightarrow> FulfillmentRow \<Rightarrow> bool" where
  "failedWhere txId attemptId r \<longleftrightarrow>
     f_transaction_id r = txId \<and> f_status r = ''granting'' \<and> f_grant_attempt_id r = Some attemptId"

definition failedSet :: "string \<Rightarrow> nat \<Rightarrow> FulfillmentRow \<Rightarrow> FulfillmentRow" where
  "failedSet message now r =
     r \<lparr>f_status := ''failed'', f_grant_attempt_id := None, f_error_message := Some message, f_updated_at_ms := now\<rparr>"

definition updateFailed :: "string \<Rightarrow> string \<Rightarrow> string \<Rightarrow> nat \<Rightarrow> Tables \<Rightarrow> Tables" where
  "updateFailed txId attemptId message now t =
     t \<lparr>iap_fulfillments := updateWhere (failedWhere txId attemptId) (failedSet message now) (iap_fulfillments t)\<rparr>"

subsection \<open>The updates keep the primary keys\<close>

interpretation granting: row_update f_transaction_id "grantingSet inp attemptId now" for inp attemptId now
  by unfold_locales (simp add: grantingSet_def)

interpretation final: row_update f_transaction_id "finalSet now" for now
  by unfold_locales (simp add: finalSet_def)

interpretation failed: row_update f_transaction_id "failedSet message now" for message now
  by unfold_locales (simp add: failedSet_def)

interpretation intent: row_update i_app_account_token "intentSet inp now" for inp now
  by unfold_locales (simp add: intentSet_def)

subsection \<open>The system of statements\<close>

text \<open>
  One statement of some request, with the data the code can put into it. \<open>limit\<close> bounds the sandbox
  grants, \<open>envOf\<close> is the App Store environment of a transaction (a transaction identifier belongs to
  one environment), and \<open>actor\<close> tells which attempt identifiers may be used at which times: the
  statements of everybody are \<open>actor = (\<lambda>a now. True)\<close>, those of the other requests exclude the
  identifiers this one has drawn.
\<close>

inductive dbStep ::
    "nat \<Rightarrow> (string \<Rightarrow> AppStoreEnvironment) \<Rightarrow> (string \<Rightarrow> nat \<Rightarrow> bool) \<Rightarrow> Tables \<Rightarrow> Tables \<Rightarrow> bool"
  for limit envOf actor where
  step_intent:
    "insertIntent token db purchaser product (natToDec amount) now t = Some t' \<Longrightarrow> 0 < amount \<Longrightarrow> amount \<le> maxCycles \<Longrightarrow>
     dbStep limit envOf actor t t'"
| step_notification:
    "dbStep limit envOf actor t (insertNotification uuid type sub tx payload now t)"
| step_received:
    "l \<le> limit \<Longrightarrow>
     dbStep limit envOf actor t (insertReceived tx db purchaser (environmentText (envOf tx)) bundle now l t)"
| step_claim:
    "g_environment inp = environmentText (envOf (g_transactionId inp)) \<Longrightarrow> actor attempt now \<Longrightarrow>
     dbStep limit envOf actor t (snd (updateGranting inp attempt now t))"
| step_finalize:
    "actor (z_attemptId inp) now \<Longrightarrow> dbStep limit envOf actor t (snd (finalizeBatch inp now t))"
| step_failed:
    "actor attempt now \<Longrightarrow> dbStep limit envOf actor t (updateFailed tx attempt message now t)"

inductive_cases dbStepE: "dbStep limit envOf actor t t'"

lemma dbStep_mono: "dbStep limit envOf actor t t' \<Longrightarrow> dbStep limit envOf (\<lambda>a now. True) t t'"
  by (induction rule: dbStep.induct) (auto intro: dbStep.intros)

lemma dbSteps_mono: "(dbStep limit envOf actor)\<^sup>*\<^sup>* t t' \<Longrightarrow> (dbStep limit envOf (\<lambda>a now. True))\<^sup>*\<^sup>* t t'"
  by (induction rule: rtranclp_induct) (auto intro: rtranclp.rtrancl_into_rtrancl dbStep_mono)

subsection \<open>The invariant\<close>

definition fulfillmentOk :: "(string \<Rightarrow> AppStoreEnvironment) \<Rightarrow> FulfillmentRow \<Rightarrow> bool" where
  "fulfillmentOk envOf r \<longleftrightarrow>
     f_status r \<in> {''received'', ''granting'', ''fulfilled'', ''failed''} \<and>
     (f_status r = ''granting'' \<longleftrightarrow> f_grant_attempt_id r \<noteq> None) \<and>
     (f_status r \<noteq> ''received'' \<longrightarrow> f_app_account_token r \<noteq> None) \<and>
     f_environment r = environmentText (envOf (f_transaction_id r))"

definition intentOk :: "PurchaseIntentRow \<Rightarrow> bool" where
  "intentOk i \<longleftrightarrow>
     (i_status i = ''created'' \<and> i_transaction_id i = None \<or> i_status i = ''fulfilled'' \<and> i_transaction_id i \<noteq> None) \<and>
     (\<exists>amount. i_amount_cycles i = Some (natToDec amount) \<and> 0 < amount \<and> amount \<le> maxCycles)"

definition tablesInv :: "nat \<Rightarrow> (string \<Rightarrow> AppStoreEnvironment) \<Rightarrow> Tables \<Rightarrow> bool" where
  "tablesInv limit envOf t \<longleftrightarrow>
     keyed f_transaction_id (iap_fulfillments t) \<and> keyed i_app_account_token (iap_purchase_intents t) \<and>
     keyed n_notification_uuid (app_store_notifications t) \<and>
     (\<forall>r \<in> set (iap_fulfillments t). fulfillmentOk envOf r) \<and> (\<forall>i \<in> set (iap_purchase_intents t). intentOk i) \<and>
     sandboxCount (iap_fulfillments t) \<le> limit"

lemma set_updateWhere: "r \<in> set (updateWhere P f t) \<Longrightarrow> (\<exists>x \<in> set t. r = (if P x then f x else x))"
  by (auto simp: updateWhere_def)

lemma set_insertOrIgnore: "r \<in> set (insertOrIgnore key x t) \<Longrightarrow> r \<in> set t \<or> r = x"
  by (auto simp: insertOrIgnore_def split: if_splits)

lemma sandboxCount_update:
  assumes "\<forall>r \<in> set t. fulfillmentOk envOf r" and "\<And>r. f_transaction_id (f r) = f_transaction_id r"
    and "\<And>r. r \<in> set t \<Longrightarrow> P r \<Longrightarrow> f_environment (f r) = environmentText (envOf (f_transaction_id r))"
  shows "sandboxCount (updateWhere P f t) = sandboxCount t"
  unfolding sandboxCount_def using assms by (intro length_filter_update) (simp add: fulfillmentOk_def)

lemma tablesInv_received:
  assumes "tablesInv limit envOf t" "l \<le> limit"
  shows "tablesInv limit envOf (insertReceived tx db purchaser (environmentText (envOf tx)) bundle now l t)"
proof (cases "environmentText (envOf tx) \<noteq> ''Sandbox'' \<or> sandboxCount (iap_fulfillments t) < l")
  case True
  let ?r = "receivedRow tx db purchaser (environmentText (envOf tx)) bundle now"
  have "fulfillmentOk envOf ?r" by (simp add: fulfillmentOk_def receivedRow_def)
  moreover have "sandboxCount (insertOrIgnore f_transaction_id ?r (iap_fulfillments t)) \<le> limit"
    using True assms by (auto simp: insertOrIgnore_def sandboxCount_def tablesInv_def receivedRow_def)
  ultimately show ?thesis
    using True assms(1) by (auto simp: insertReceived_def tablesInv_def keyed_insertOrIgnore dest!: set_insertOrIgnore)
next
  case False
  with assms(1) show ?thesis by (auto simp: insertReceived_def)
qed

lemma tablesInv_claim:
  assumes "tablesInv limit envOf t" "g_environment inp = environmentText (envOf (g_transactionId inp))"
  shows "tablesInv limit envOf (snd (updateGranting inp attempt now t))"
proof -
  have "fulfillmentOk envOf (grantingSet inp attempt now r)" if "grantingWhere inp now r" for r
    using that assms(2) by (simp add: fulfillmentOk_def grantingSet_def grantingWhere_def)
  moreover have "sandboxCount (updateWhere (grantingWhere inp now) (grantingSet inp attempt now) (iap_fulfillments t)) =
      sandboxCount (iap_fulfillments t)"
    using assms by (intro sandboxCount_update [of _ envOf])
      (auto simp: tablesInv_def grantingSet_def grantingWhere_def)
  ultimately show ?thesis
    using assms(1) by (auto simp: updateGranting_def tablesInv_def granting.keyed_update dest!: set_updateWhere)
qed

lemma tablesInv_finalize:
  assumes "tablesInv limit envOf t"
  shows "tablesInv limit envOf (snd (finalizeBatch inp now t))"
proof -
  have "fulfillmentOk envOf (finalSet now r)" if "fulfillmentOk envOf r" "finalWhere inp r" for r
    using that by (simp add: fulfillmentOk_def finalSet_def finalWhere_def)
  moreover have "intentOk (intentSet inp now i)" if "intentOk i" for i
    using that by (simp add: intentOk_def intentSet_def)
  moreover have "sandboxCount (updateWhere (finalWhere inp) (finalSet now) (iap_fulfillments t)) =
      sandboxCount (iap_fulfillments t)"
    using assms by (intro sandboxCount_update [of _ envOf]) (auto simp: tablesInv_def finalSet_def fulfillmentOk_def)
  ultimately show ?thesis
    using assms by (auto simp: finalizeBatch_def tablesInv_def final.keyed_update intent.keyed_update
        dest!: set_updateWhere split: if_splits)
qed

lemma tablesInv_failed:
  assumes "tablesInv limit envOf t"
  shows "tablesInv limit envOf (updateFailed tx attempt message now t)"
proof -
  have "fulfillmentOk envOf (failedSet message now r)" if "fulfillmentOk envOf r" "failedWhere tx attempt r" for r
    using that by (simp add: fulfillmentOk_def failedSet_def failedWhere_def)
  moreover have "sandboxCount (updateWhere (failedWhere tx attempt) (failedSet message now) (iap_fulfillments t)) =
      sandboxCount (iap_fulfillments t)"
    using assms by (intro sandboxCount_update [of _ envOf]) (auto simp: tablesInv_def failedSet_def fulfillmentOk_def)
  ultimately show ?thesis
    using assms by (auto simp: updateFailed_def tablesInv_def failed.keyed_update dest!: set_updateWhere split: if_splits)
qed

lemma tablesInv_step: "tablesInv limit envOf t \<Longrightarrow> dbStep limit envOf actor t t' \<Longrightarrow> tablesInv limit envOf t'"
proof (erule dbStepE)
  fix token db purchaser product amount now
  assume "tablesInv limit envOf t" "insertIntent token db purchaser product (natToDec amount) now t = Some t'"
    "0 < amount" "amount \<le> maxCycles"
  then show ?thesis
    by (auto simp: insertIntent_def tablesInv_def keyed_append_one hasKey_iff intentOk_def split: if_splits)
qed (auto simp: tablesInv_claim tablesInv_received tablesInv_finalize tablesInv_failed,
     auto simp: insertNotification_def tablesInv_def keyed_insertOrIgnore)

subsection \<open>What later requests can rely on\<close>

definition fulfillmentKept :: "FulfillmentRow \<Rightarrow> FulfillmentRow \<Rightarrow> bool" where
  "fulfillmentKept r r' \<longleftrightarrow>
     f_database_id r' = f_database_id r \<and> f_purchaser_principal r' = f_purchaser_principal r \<and>
     (f_status r = ''fulfilled'' \<longrightarrow> r' = r)"

definition intentKept :: "PurchaseIntentRow \<Rightarrow> PurchaseIntentRow \<Rightarrow> bool" where
  "intentKept i i' \<longleftrightarrow>
     i_database_id i' = i_database_id i \<and> i_purchaser_principal i' = i_purchaser_principal i \<and>
     i_product_id i' = i_product_id i \<and> i_amount_cycles i' = i_amount_cycles i \<and>
     (i_status i = ''fulfilled'' \<longrightarrow> i_status i' = ''fulfilled'' \<and> i_transaction_id i' = i_transaction_id i)"

definition keepsRows :: "('r \<Rightarrow> 'k) \<Rightarrow> ('r \<Rightarrow> 'r \<Rightarrow> bool) \<Rightarrow> 'r list \<Rightarrow> 'r list \<Rightarrow> bool" where
  "keepsRows key kept t t' \<longleftrightarrow> (\<forall>k r. byKey key k t = Some r \<longrightarrow> (\<exists>r'. byKey key k t' = Some r' \<and> kept r r'))"

definition advances :: "Tables \<Rightarrow> Tables \<Rightarrow> bool" where
  "advances t t' \<longleftrightarrow>
     keepsRows f_transaction_id fulfillmentKept (iap_fulfillments t) (iap_fulfillments t') \<and>
     keepsRows i_app_account_token intentKept (iap_purchase_intents t) (iap_purchase_intents t')"

lemma keepsRows_refl: "(\<And>r. kept r r) \<Longrightarrow> keepsRows key kept t t"
  by (simp add: keepsRows_def)

lemma keepsRows_trans:
  "(\<And>r s u. kept r s \<Longrightarrow> kept s u \<Longrightarrow> kept r u) \<Longrightarrow> keepsRows key kept t t' \<Longrightarrow> keepsRows key kept t' t'' \<Longrightarrow>
   keepsRows key kept t t''"
  unfolding keepsRows_def by metis

lemma keepsRows_insert: "(\<And>r. kept r r) \<Longrightarrow> keepsRows key kept t (insertOrIgnore key x t)"
  by (simp add: keepsRows_def byKey_insertOrIgnore)

lemma keepsRows_append: "(\<And>r. kept r r) \<Longrightarrow> keepsRows key kept t (t @ [x])"
  by (simp add: keepsRows_def byKey_append_one)

context row_update
begin

lemma keepsRows_update:
  assumes "\<And>r. kept r r" and "\<And>r. r \<in> set t \<Longrightarrow> P r \<Longrightarrow> kept r (setRow r)"
  shows "keepsRows key kept t (updateWhere P setRow t)"
  using assms byKey_Some_D unfolding keepsRows_def byKey_update by fastforce

end

lemma kept_refl [simp]: "fulfillmentKept r r" "intentKept i i"
  by (simp_all add: fulfillmentKept_def intentKept_def)

lemma kept_trans:
  "fulfillmentKept r s \<Longrightarrow> fulfillmentKept s u \<Longrightarrow> fulfillmentKept r u"
  "intentKept i j \<Longrightarrow> intentKept j k \<Longrightarrow> intentKept i k"
  by (auto simp: fulfillmentKept_def intentKept_def)

lemma advances_refl: "advances t t"
  by (simp add: advances_def keepsRows_refl)

lemma advances_trans:
  assumes "advances t t'" and "advances t' t''"
  shows "advances t t''"
  unfolding advances_def
proof
  show "keepsRows f_transaction_id fulfillmentKept (iap_fulfillments t) (iap_fulfillments t'')"
    by (rule keepsRows_trans [where t' = "iap_fulfillments t'"])
      (use assms kept_trans in \<open>auto simp: advances_def\<close>)
  show "keepsRows i_app_account_token intentKept (iap_purchase_intents t) (iap_purchase_intents t'')"
    by (rule keepsRows_trans [where t' = "iap_purchase_intents t'"])
      (use assms kept_trans in \<open>auto simp: advances_def\<close>)
qed

lemma advances_claim: "advances t (snd (updateGranting inp attempt now t))"
  by (auto simp: advances_def updateGranting_def keepsRows_refl fulfillmentKept_def grantingSet_def grantingWhere_def
      intro!: granting.keepsRows_update)

lemma advances_finalize: "advances t (snd (finalizeBatch inp now t))"
  by (auto simp: advances_def finalizeBatch_def fulfillmentKept_def finalSet_def finalWhere_def
      intentKept_def intentSet_def intentWhere_def
      intro!: final.keepsRows_update intent.keepsRows_update)

lemma advances_failed: "advances t (updateFailed tx attempt message now t)"
  by (auto simp: advances_def updateFailed_def keepsRows_refl fulfillmentKept_def failedSet_def failedWhere_def
      intro!: failed.keepsRows_update)

lemma advances_insert:
  "insertIntent token db purchaser product amount now t = Some t' \<Longrightarrow> advances t t'"
  "advances t (insertReceived tx db purchaser env bundle now l t)"
  "advances t (insertNotification uuid type sub txId payload now t)"
  by (auto simp: advances_def insertIntent_def insertReceived_def insertNotification_def keepsRows_refl
       keepsRows_insert keepsRows_append split: if_splits)

lemma advances_step: "dbStep limit envOf actor t t' \<Longrightarrow> advances t t'"
  by (induction rule: dbStep.induct)
    (simp_all add: advances_claim advances_finalize advances_failed advances_insert)

interpretation payment: guarded_system "dbStep limit envOf actor" "tablesInv limit envOf" advances for limit envOf actor
proof unfold_locales
  fix t t'
  show "tablesInv limit envOf t \<Longrightarrow> dbStep limit envOf actor t t' \<Longrightarrow> tablesInv limit envOf t'"
    by (rule tablesInv_step)
  show "tablesInv limit envOf t \<Longrightarrow> dbStep limit envOf actor t t' \<Longrightarrow> advances t t'"
    by (rule advances_step)
qed (auto intro: advances_refl advances_trans)

subsection \<open>Leases and fencing\<close>

text \<open>A row claimed by an attempt that the actors of a run do not use, and whose lease they do not
  outlive, does not change; one that still carries the attempt is the row the attempt wrote.\<close>

lemma attempt_step:
  assumes "dbStep limit envOf actor t t'" and "\<And>now. \<not> actor attempt now"
    and "byKey f_transaction_id tx (iap_fulfillments t) = Some r"
    and "byKey f_transaction_id tx (iap_fulfillments t') = Some r'" and "f_grant_attempt_id r' = Some attempt"
  shows "r' = r"
  using assms(1)
proof (cases rule: dbStep.cases)
  case step_intent
  then show ?thesis using assms(3,4) by (auto simp: insertIntent_def split: if_splits)
next
  case step_notification
  then show ?thesis using assms(3,4) by (simp add: insertNotification_def)
next
  case step_received
  then show ?thesis using assms(3,4)
    by (auto simp: insertReceived_def byKey_insertOrIgnore split: if_splits)
next
  case (step_claim inp a now)
  then show ?thesis using assms(2-5)
    by (auto simp: updateGranting_def granting.byKey_update grantingSet_def split: if_splits)
next
  case (step_finalize inp now)
  then show ?thesis using assms(3-5)
    by (auto simp: finalizeBatch_def final.byKey_update finalSet_def split: if_splits)
next
  case (step_failed a now)
  then show ?thesis using assms(3-5)
    by (auto simp: updateFailed_def failed.byKey_update failedSet_def split: if_splits)
qed

lemma attempt_run:
  assumes "(dbStep limit envOf actor)\<^sup>*\<^sup>* t t'" and "\<And>now. \<not> actor attempt now"
    and "byKey f_transaction_id tx (iap_fulfillments t) = Some r"
    and "byKey f_transaction_id tx (iap_fulfillments t') = Some r'" and "f_grant_attempt_id r' = Some attempt"
  shows "r' = r"
  using assms(1,4,5)
proof (induction arbitrary: r' rule: rtranclp_induct)
  case base
  then show ?case using assms(3) by simp
next
  case (step u v)
  from step.hyps(1) have "advances t u"
    by (induction rule: rtranclp_induct) (auto intro: advances_refl advances_trans advances_step)
  with assms(3) obtain s where s: "byKey f_transaction_id tx (iap_fulfillments u) = Some s"
    unfolding advances_def keepsRows_def by blast
  from attempt_step [OF step.hyps(2) assms(2) s step.prems] have "r' = s" .
  with step.IH [OF s] step.prems(2) show ?case by simp
qed

lemma leased_step:
  assumes "dbStep limit envOf actor t t'"
    and "\<And>a now. actor a now \<Longrightarrow> a \<noteq> attempt \<and> now < f_updated_at_ms r + FULFILLMENT_GRANT_LEASE_MS"
    and "byKey f_transaction_id tx (iap_fulfillments t) = Some r"
    and "f_status r = ''granting''" "f_grant_attempt_id r = Some attempt"
  shows "byKey f_transaction_id tx (iap_fulfillments t') = Some r"
  using assms(1)
proof (cases rule: dbStep.cases)
  case step_intent
  then show ?thesis using assms(3) by (auto simp: insertIntent_def split: if_splits)
next
  case step_notification
  then show ?thesis using assms(3) by (simp add: insertNotification_def)
next
  case step_received
  then show ?thesis using assms(3) by (auto simp: insertReceived_def byKey_insertOrIgnore split: if_splits)
next
  case (step_claim inp a now)
  then have "\<not> grantingWhere inp now r" using assms(2) [of a now] assms(4) by (simp add: grantingWhere_def)
  with step_claim show ?thesis using assms(3) by (simp add: updateGranting_def granting.byKey_update)
next
  case (step_finalize inp now)
  then have "\<not> finalWhere inp r" using assms(2) [of "z_attemptId inp" now] assms(5) by (auto simp: finalWhere_def)
  with step_finalize show ?thesis using assms(3) by (simp add: finalizeBatch_def final.byKey_update)
next
  case (step_failed a now)
  then have "\<not> failedWhere x a r" for x using assms(2) [of a now] assms(5) by (auto simp: failedWhere_def)
  with step_failed show ?thesis using assms(3) by (simp add: updateFailed_def failed.byKey_update)
qed

end
