(* ===== verification/Payment_Worker.thy ===== *)
theory Payment_Worker
  imports Payment_Notification Payment_Fulfillment
begin

section \<open>Payment worker: the HTTP handlers\<close>

text \<open>
  \<^verbatim>\<open>workers/payment/src/index.ts\<close> and \<^verbatim>\<open>workers/payment/src/vfs.ts\<close>. A handler is an action on
  the world of the worker: the tables, the number of calls made to the host so far and the log of
  the grant requests sent to the canister. What the host does is a record of parameters, indexed by
  the number of the call, so that two calls may answer differently: the clock, the random UUIDs, the
  App Store server, the rate limiters, the canister, and D1 itself, which may fail at any statement,
  before or after applying it. Other requests are served concurrently; \<open>h_others\<close> is what
  their statements have done to the tables when the \<open>k\<close>-th call of this one runs.
\<close>

subsection \<open>Host and world\<close>

record IapGrantRequest =
  r_databaseId :: string
  r_amountCycles :: nat
  r_externalPaymentId :: string
  r_provider :: string
  r_productId :: string
  r_purchaserPrincipal :: string

record Host =
  h_now :: "nat \<Rightarrow> nat"
  h_uuid :: "nat \<Rightarrow> string"
  h_dbFault :: "nat \<Rightarrow> (bool \<times> string) option"
  h_others :: "nat \<Rightarrow> Tables \<Rightarrow> Tables"
  h_fetch :: "nat \<Rightarrow> http_fetch"
  h_sign :: "nat \<Rightarrow> byte list \<Rightarrow> byte list \<Rightarrow> js_error + byte list"
  h_grant :: "nat \<Rightarrow> IapGrantRequest \<Rightarrow> js_error + unit"
  h_limit :: "nat \<Rightarrow> string \<Rightarrow> js_error + bool"
  h_crypto :: NodeCrypto
  h_numberText :: "string \<Rightarrow> string"

record World =
  tables :: Tables
  calls :: nat
  grants :: "IapGrantRequest list"

type_synonym 'a handler = "(World, js_error, 'a) act"

definition tick :: "(nat \<Rightarrow> 'a) \<Rightarrow> 'a handler" where
  "tick f = (\<lambda>w. (Inr (f (calls w)), w \<lparr>calls := Suc (calls w)\<rparr>))"

definition dateNow :: "Host \<Rightarrow> nat handler" where
  "dateNow h = tick (h_now h)"

definition randomUUID :: "Host \<Rightarrow> string handler" where
  "randomUUID h = tick (h_uuid h)"

text \<open>One D1 statement (or batch), executed atomically.\<close>

definition d1 :: "Host \<Rightarrow> (Tables \<Rightarrow> (js_error + 'a) \<times> Tables) \<Rightarrow> 'a handler" where
  "d1 h stmt = (\<lambda>w.
     let k = calls w; t = h_others h k (tables w) in
     case h_dbFault h k of
       None \<Rightarrow> (fst (stmt t), w \<lparr>calls := Suc k, tables := snd (stmt t)\<rparr>)
     | Some (applied, message) \<Rightarrow>
         (Inl (HostError message), w \<lparr>calls := Suc k, tables := if applied then snd (stmt t) else t\<rparr>))"

definition sendGrant :: "Host \<Rightarrow> IapGrantRequest \<Rightarrow> unit handler" where
  "sendGrant h request = (\<lambda>w.
     (h_grant h (calls w) request, w \<lparr>calls := Suc (calls w), grants := grants w @ [request]\<rparr>))"

subsection \<open>The canister client\<close>

text \<open>
  \<open>grantDatabaseCyclesFromIap\<close>: the identity has to be the configured authority, then the canister is
  called. \<open>toPrincipal\<close> gives an identity's principal, \<open>call\<close> is the actor's method: a rejected call,
  or the canister's \<open>Err\<close> or \<open>Ok\<close>. \<open>None\<close> is an identity that is never read (see
  \<open>identityFromPem\<close>).
\<close>

definition grantDatabaseCyclesFromIap ::
    "(string \<Rightarrow> js_error + 'id) \<Rightarrow> (byte list \<Rightarrow> js_error + 'id) \<Rightarrow> ('id \<Rightarrow> string)
     \<Rightarrow> (string \<Rightarrow> string \<Rightarrow> 'id \<Rightarrow> IapGrantRequest \<Rightarrow> js_error + (string + nat \<times> nat \<times> nat))
     \<Rightarrow> nat \<Rightarrow> RuntimeEnv \<Rightarrow> IapGrantRequest \<Rightarrow> (js_error + unit) option" where
  "grantDatabaseCyclesFromIap fromPem fromSecretKey toPrincipal call fuel env request =
     bindF (identityFromPem fromPem fromSecretKey fuel (KINIC_IAP_AUTHORITY_IDENTITY_PEM env)) (\<lambda>identity.
       if toPrincipal identity \<noteq> KINIC_IAP_AUTHORITY_ID env
       then Some (Inl (JsError ''IAP authority identity does not match KINIC_IAP_AUTHORITY_ID''))
       else
         let host = (case KINIC_WIKI_IC_HOST env of None \<Rightarrow> ''https://icp0.io'' | Some x \<Rightarrow> x) in
         bindF (Some (call host (KINIC_WIKI_CANISTER_ID env) identity request)) (\<lambda>result.
           case result of Inl err \<Rightarrow> Some (Inl (JsError err)) | Inr ok \<Rightarrow> Some (Inr ())))"

subsection \<open>Reading inputs\<close>

record PurchaseIntentInput =
  q_databaseId :: string
  q_purchaserPrincipal :: string
  q_productId :: string

definition requiredPrincipalText :: "json option \<Rightarrow> string \<Rightarrow> js_error + string" where
  "requiredPrincipalText v field =
     bindR (requiredText v field) (\<lambda>s.
       if \<not> isPrincipalText s then Inl (JsError (field @ '' is invalid'')) else Inr s)"

definition optionalUuidText :: "json option \<Rightarrow> string \<Rightarrow> js_error + string option" where
  "optionalUuidText v field =
     (if v = None \<or> v = Some JNull then Inr None
      else bindR (requiredText v field) (\<lambda>s.
        if \<not> isUuidText s then Inl (JsError (field @ '' is invalid'')) else Inr (Some (toLowerCase s))))"

definition parseActivateDatabaseInput :: "json \<Rightarrow> js_error + string" where
  "parseActivateDatabaseInput body =
     (case asObject body of
        None \<Rightarrow> Inl (JsError ''request body must be an object'')
      | Some ps \<Rightarrow> requiredText (jget ps ''transactionJWS'') ''transactionJWS'')"

definition parsePurchaseIntentInput :: "json \<Rightarrow> js_error + PurchaseIntentInput" where
  "parsePurchaseIntentInput body =
     (case asObject body of
        None \<Rightarrow> Inl (JsError ''request body must be an object'')
      | Some ps \<Rightarrow>
          bindR (requiredText (jget ps ''databaseId'') ''databaseId'') (\<lambda>databaseId.
          bindR (requiredPrincipalText (jget ps ''purchaserPrincipal'') ''purchaserPrincipal'') (\<lambda>purchaser.
          bindR (requiredText (jget ps ''productId'') ''productId'') (\<lambda>product.
            Inr \<lparr>q_databaseId = databaseId, q_purchaserPrincipal = purchaser, q_productId = product\<rparr>))))"

definition parseNotificationInput :: "NodeCrypto \<Rightarrow> RuntimeEnv \<Rightarrow> int \<Rightarrow> json \<Rightarrow> js_error + VerifiedAppStoreNotification" where
  "parseNotificationInput crypto env now body =
     (case asObject body of
        None \<Rightarrow> Inl (JsError ''notification body must be an object'')
      | Some ps \<Rightarrow>
          bindR (requiredText (jget ps ''signedPayload'') ''signedPayload'') (\<lambda>text.
            verifyAppStoreNotification crypto env now text))"

definition parseAmountCyclesSnapshot :: "string option \<Rightarrow> js_error + nat" where
  "parseAmountCyclesSnapshot v =
     (case v of
        None \<Rightarrow> Inl (JsError ''purchase intent is missing a valid cycles snapshot'')
      | Some s \<Rightarrow>
          if \<not> positiveDecimal s then Inl (JsError ''purchase intent is missing a valid cycles snapshot'')
          else if decToNat s > maxCycles then Inl (JsError ''purchase intent cycles snapshot exceeds canister limit'')
          else Inr (decToNat s))"

subsection \<open>Intents and notifications\<close>

definition createPurchaseIntent :: "Host \<Rightarrow> RuntimeEnv \<Rightarrow> PurchaseIntentInput \<Rightarrow> string handler" where
  "createPurchaseIntent h env inp =
     bindA (liftR (parseProductCatalog (h_numberText h) (IAP_PRODUCT_CATALOG_JSON env))) (\<lambda>catalog.
       case map_of catalog (q_productId inp) of
         None \<Rightarrow> throwA (JsError (''unknown IAP product: '' @ q_productId inp))
       | Some amountCycles \<Rightarrow>
           bindA (dateNow h) (\<lambda>now.
           bindA (randomUUID h) (\<lambda>uuid.
             let token = toLowerCase uuid in
             bindA (d1 h (\<lambda>t.
               case insertIntent token (q_databaseId inp) (q_purchaserPrincipal inp) (q_productId inp)
                      (natToDec amountCycles) now t of
                 None \<Rightarrow> (Inl (HostError ''UNIQUE constraint failed''), t)
               | Some t' \<Rightarrow> (Inr (), t'))) (\<lambda>_.
             retA token))))"

definition recordAppStoreNotification :: "Host \<Rightarrow> VerifiedAppStoreNotification \<Rightarrow> unit handler" where
  "recordAppStoreNotification h n =
     bindA (dateNow h) (\<lambda>now.
       d1 h (\<lambda>t. (Inr (), insertNotification (notificationUUID n) (notificationType n) (subtype n)
                            (nTransactionId n) (signedPayload n) now t)))"

subsection \<open>Activation\<close>

definition selectFulfillment :: "Host \<Rightarrow> string \<Rightarrow> FulfillmentRow option handler" where
  "selectFulfillment h txId = d1 h (\<lambda>t. (Inr (fulfillmentByTransaction txId t), t))"

definition selectIntent :: "Host \<Rightarrow> string \<Rightarrow> PurchaseIntentRow option handler" where
  "selectIntent h token = d1 h (\<lambda>t. (Inr (purchaseIntentByToken token t), t))"

definition validatePurchaseIntent :: "Host \<Rightarrow> string \<Rightarrow> string \<Rightarrow> string \<Rightarrow> PurchaseIntentRow handler" where
  "validatePurchaseIntent h token product txId =
     bindA (selectIntent h token) (\<lambda>found.
       case found of
         None \<Rightarrow> throwA (JsError ''purchase intent not found'')
       | Some intent \<Rightarrow>
           if i_product_id intent \<noteq> product then throwA (JsError ''purchase intent product mismatch'')
           else if i_status intent = ''fulfilled'' \<and> i_transaction_id intent = Some txId then retA intent
           else if i_status intent \<noteq> ''created'' then throwA (JsError ''purchase intent is not active'')
           else bindA (liftR (parseAmountCyclesSnapshot (i_amount_cycles intent))) (\<lambda>_. retA intent))"

definition assertFulfillmentOwner :: "FulfillmentRow \<Rightarrow> string \<Rightarrow> string \<Rightarrow> string \<Rightarrow> js_error + unit" where
  "assertFulfillmentOwner fulfillment databaseId purchaser stateLabel =
     (if f_database_id fulfillment \<noteq> databaseId
      then Inl (JsError (''transaction already '' @ stateLabel @ '' for another database''))
      else if f_purchaser_principal fulfillment \<noteq> purchaser
      then Inl (JsError (''transaction already '' @ stateLabel @ '' for another purchaser''))
      else Inr ())"

definition ensureFulfillmentReceived ::
    "Host \<Rightarrow> RuntimeEnv \<Rightarrow> string \<Rightarrow> string \<Rightarrow> string \<Rightarrow> AppStoreEnvironment \<Rightarrow> nat \<Rightarrow> FulfillmentRow handler" where
  "ensureFulfillmentReceived h env txId databaseId purchaser e sandboxGrantLimit =
     bindA (dateNow h) (\<lambda>now.
     bindA (d1 h (\<lambda>t. (Inr (), insertReceived txId databaseId purchaser (environmentText e)
                               (APP_STORE_BUNDLE_ID env) now sandboxGrantLimit t))) (\<lambda>_.
     bindA (selectFulfillment h txId) (\<lambda>found.
       case found of
         None \<Rightarrow>
           if e = Sandbox then throwA (ActivationError ''Sandbox fulfillment grant limit reached'' 403 False)
           else throwA (JsError ''fulfillment row was not created'')
       | Some fulfillment \<Rightarrow>
           bindA (liftR (assertFulfillmentOwner fulfillment databaseId purchaser ''received'')) (\<lambda>_.
             retA fulfillment))))"

text \<open>The result of a claim: \<open>Inl\<close> the attempt identifier, or \<open>Inr\<close> the row someone else fulfilled.\<close>

definition markFulfillmentGranting :: "Host \<Rightarrow> GrantingInput \<Rightarrow> (string + FulfillmentRow) handler" where
  "markFulfillmentGranting h inp =
     bindA (dateNow h) (\<lambda>now.
     bindA (randomUUID h) (\<lambda>attemptId.
     bindA (d1 h (\<lambda>t. case updateGranting inp attemptId now t of (changes, t') \<Rightarrow> (Inr changes, t'))) (\<lambda>changes.
       if changes \<noteq> 1 then
         bindA (selectFulfillment h (g_transactionId inp)) (\<lambda>found.
           case found of
             Some fulfillment \<Rightarrow>
               if f_status fulfillment = ''fulfilled'' then retA (Inr fulfillment)
               else if f_status fulfillment = ''granting''
               then throwA (ActivationError ''fulfillment grant is already in progress'' 409 True)
               else throwA (ActivationError ''fulfillment state changed before granting'' 409 True)
           | None \<Rightarrow> throwA (ActivationError ''fulfillment state changed before granting'' 409 True))
       else retA (Inl attemptId))))"

definition finalizeFulfillment :: "Host \<Rightarrow> FinalizeInput \<Rightarrow> unit handler" where
  "finalizeFulfillment h inp =
     bindA (dateNow h) (\<lambda>now.
       catchA
         (bindA (d1 h (\<lambda>t. case finalizeBatch inp now t of (results, t') \<Rightarrow> (Inr results, t'))) (\<lambda>results.
            if list_ex (\<lambda>changes. changes \<noteq> 1) results then throwA (JsError ''state mismatch'') else retA ()))
         (\<lambda>error. throwA (ActivationError (''D1 finalization failed: '' @ errorMessage error) 502 True)))"

definition markFulfillmentFailed :: "Host \<Rightarrow> string \<Rightarrow> string \<Rightarrow> string \<Rightarrow> unit handler" where
  "markFulfillmentFailed h txId attemptId message =
     bindA (dateNow h) (\<lambda>now. d1 h (\<lambda>t. (Inr (), updateFailed txId attemptId message now t)))"

text \<open>The response to an activation, as the JSON object it becomes.\<close>

record ActivationResponse =
  a_transactionId :: string
  a_databaseId :: string
  a_purchaserPrincipal :: string
  a_productId :: string
  a_cycles :: string

definition activationJson :: "ActivationResponse \<Rightarrow> json" where
  "activationJson a =
     JObj [(''fulfilled'', JBool True), (''transactionId'', JStr (a_transactionId a)),
           (''databaseId'', JStr (a_databaseId a)), (''purchaserPrincipal'', JStr (a_purchaserPrincipal a)),
           (''productId'', JStr (a_productId a)), (''cycles'', JStr (a_cycles a))]"

definition fulfilledActivationResponse :: "FulfillmentRow \<Rightarrow> string option \<Rightarrow> js_error + ActivationResponse" where
  "fulfilledActivationResponse fulfillment deviceAppAccountToken =
     (if deviceAppAccountToken = None \<or> deviceAppAccountToken = Some [] \<or>
         f_app_account_token fulfillment = None \<or> f_app_account_token fulfillment = Some [] \<or>
         deviceAppAccountToken \<noteq> f_app_account_token fulfillment
      then Inl (JsError ''transaction already fulfilled for another purchase intent'')
      else Inr \<lparr>a_transactionId = f_transaction_id fulfillment, a_databaseId = f_database_id fulfillment,
                a_purchaserPrincipal = f_purchaser_principal fulfillment, a_productId = f_product_id fulfillment,
                a_cycles = f_cycles fulfillment\<rparr>)"

text \<open>The part of \<open>activateDatabase\<close> after the claim: the grant, then the finalisation; a failure of
  either is recorded on the row, ignoring a failure to record.\<close>

definition grantAndFinalize ::
    "Host \<Rightarrow> string \<Rightarrow> VerifiedTransaction \<Rightarrow> PurchaseIntentRow \<Rightarrow> nat \<Rightarrow> string \<Rightarrow> ActivationResponse handler" where
  "grantAndFinalize h txId verified intent amountCycles attemptId =
     (bindA
        (catchA
          (sendGrant h
            \<lparr>r_databaseId = i_database_id intent, r_amountCycles = amountCycles, r_externalPaymentId = txId,
             r_provider = ''apple_iap'', r_productId = productId verified,
             r_purchaserPrincipal = i_purchaser_principal intent\<rparr>)
          (\<lambda>error.
             bindA (catchA (markFulfillmentFailed h txId attemptId (errorMessage error)) (\<lambda>_. retA ())) (\<lambda>_.
             throwA (ActivationError (''VFS grant failed: '' @ errorMessage error) 502 True)))) (\<lambda>_.
      bindA
        (catchA
          (finalizeFulfillment h
            \<lparr>z_transactionId = txId, z_databaseId = i_database_id intent,
             z_purchaserPrincipal = i_purchaser_principal intent, z_appAccountToken = appAccountToken verified,
             z_productId = productId verified, z_attemptId = attemptId\<rparr>)
          (\<lambda>error.
             bindA (catchA (markFulfillmentFailed h txId attemptId (errorMessage error)) (\<lambda>_. retA ())) (\<lambda>_.
             throwA error))) (\<lambda>_.
      retA \<lparr>a_transactionId = txId, a_databaseId = i_database_id intent,
            a_purchaserPrincipal = i_purchaser_principal intent, a_productId = productId verified,
            a_cycles = natToDec amountCycles\<rparr>)))"

definition grantingInput :: "string \<Rightarrow> VerifiedTransaction \<Rightarrow> PurchaseIntentRow \<Rightarrow> nat \<Rightarrow> GrantingInput" where
  "grantingInput txId verified intent amountCycles =
     \<lparr>g_transactionId = txId, g_databaseId = i_database_id intent,
      g_purchaserPrincipal = i_purchaser_principal intent, g_appAccountToken = appAccountToken verified,
      g_productId = productId verified, g_environment = environmentText (environment verified),
      g_bundleId = bundleId verified, g_cycles = natToDec amountCycles\<rparr>"

text \<open>The part of \<open>activateDatabase\<close> after the transaction is verified.\<close>

definition fulfillVerified :: "Host \<Rightarrow> RuntimeEnv \<Rightarrow> string \<Rightarrow> VerifiedTransaction \<Rightarrow> ActivationResponse handler" where
  "fulfillVerified h env txId verified =
     bindA (liftR (sandboxFulfillmentPolicy env)) (\<lambda>sandboxPolicy.
       if environment verified = Sandbox \<and> \<not> enabled sandboxPolicy
       then throwA (ActivationError ''Sandbox fulfillment is disabled'' 403 False)
       else
       bindA (validatePurchaseIntent h (appAccountToken verified) (productId verified) txId) (\<lambda>intent.
       bindA (ensureFulfillmentReceived h env txId (i_database_id intent)
                (i_purchaser_principal intent) (environment verified) (grantLimit sandboxPolicy)) (\<lambda>fulfillment.
         if f_status fulfillment = ''fulfilled''
         then liftR (fulfilledActivationResponse fulfillment (Some (appAccountToken verified)))
         else
         bindA (liftR (parseAmountCyclesSnapshot (i_amount_cycles intent))) (\<lambda>amountCycles.
         bindA (markFulfillmentGranting h (grantingInput txId verified intent amountCycles)) (\<lambda>claim.
           case claim of
             Inr fulfillment' \<Rightarrow> liftR (fulfilledActivationResponse fulfillment' (Some (appAccountToken verified)))
           | Inl attemptId \<Rightarrow> grantAndFinalize h txId verified intent amountCycles attemptId)))))"

definition verifyTransaction :: "Host \<Rightarrow> RuntimeEnv \<Rightarrow> string \<Rightarrow> VerifiedTransaction handler" where
  "verifyTransaction h env transactionJWS =
     bindA (dateNow h) (\<lambda>now.
     bindA (tick (\<lambda>k. verifyStoreKitTransaction (h_sign h k) (h_fetch h k) now env transactionJWS)) liftR)"

definition activateDatabase :: "Host \<Rightarrow> RuntimeEnv \<Rightarrow> string \<Rightarrow> ActivationResponse handler" where
  "activateDatabase h env transactionJWS =
     bindA (liftR (transactionPayload transactionJWS)) (\<lambda>devicePayload.
     bindA (liftR (requiredText (jget devicePayload ''transactionId'') ''transactionId'')) (\<lambda>txId.
     bindA (liftR (optionalUuidText (jget devicePayload ''appAccountToken'') ''appAccountToken'')) (\<lambda>deviceToken.
     bindA (selectFulfillment h txId) (\<lambda>existing.
       case existing of
         Some fulfillment \<Rightarrow>
           if f_status fulfillment = ''fulfilled''
           then liftR (fulfilledActivationResponse fulfillment deviceToken)
           else bindA (verifyTransaction h env transactionJWS) (fulfillVerified h env txId)
       | None \<Rightarrow> bindA (verifyTransaction h env transactionJWS) (fulfillVerified h env txId)))))"

subsection \<open>The router\<close>

record Request =
  req_method :: string
  req_pathname :: string
  req_body :: string

record Response =
  res_status :: nat
  res_body :: json

definition jsonResponse :: "json \<Rightarrow> nat \<Rightarrow> Response" where
  "jsonResponse body status = \<lparr>res_status = status, res_body = body\<rparr>"

definition PURCHASE_INTENT_ENDPOINT :: string where
  "PURCHASE_INTENT_ENDPOINT = ''iap:purchase-intents''"

definition ACTIVATE_DATABASE_ENDPOINT :: string where
  "ACTIVATE_DATABASE_ENDPOINT = ''iap:activate-database''"

text \<open>\<open>None\<close> lets the request through. An empty purchaser counts as no purchaser.\<close>

definition rateLimitErrorResponse :: "Host \<Rightarrow> string \<Rightarrow> string option \<Rightarrow> Response option handler" where
  "rateLimitErrorResponse h endpoint purchaser =
     catchA
       (bindA (tick (\<lambda>k. h_limit h k
          (case purchaser of
             Some p \<Rightarrow> if p = [] then endpoint else endpoint @ '':'' @ p
           | None \<Rightarrow> endpoint))) (\<lambda>outcome.
        bindA (liftR outcome) (\<lambda>success.
          retA (if \<not> success
                then Some (jsonResponse (JObj [(''error'', JStr ''rate limit exceeded''), (''retryable'', JBool True)]) 429)
                else None))))
       (\<lambda>_. retA (Some (jsonResponse (JObj [(''error'', JStr ''rate limiter unavailable''), (''retryable'', JBool True)]) 503)))"

definition activationRateLimitKey :: "Host \<Rightarrow> string \<Rightarrow> string handler" where
  "activationRateLimitKey h transactionJWS =
     bindA (liftR (transactionPayload transactionJWS)) (\<lambda>payload.
     bindA (liftR (optionalUuidText (jget payload ''appAccountToken'') ''appAccountToken'')) (\<lambda>token.
       case token of
         None \<Rightarrow> throwA (JsError ''transaction appAccountToken is required'')
       | Some appToken \<Rightarrow>
           bindA (selectIntent h appToken) (\<lambda>intent.
             retA (case intent of Some i \<Rightarrow> i_purchaser_principal i | None \<Rightarrow> appToken))))"

definition errorBody :: "string \<Rightarrow> json" where
  "errorBody message = JObj [(''error'', JStr message)]"

definition retryBody :: "string \<Rightarrow> bool \<Rightarrow> json" where
  "retryBody message retryable = JObj [(''error'', JStr message), (''retryable'', JBool retryable)]"

definition unlessLimited :: "Host \<Rightarrow> string \<Rightarrow> string option \<Rightarrow> Response handler \<Rightarrow> Response handler" where
  "unlessLimited h endpoint purchaser k =
     bindA (rateLimitErrorResponse h endpoint purchaser) (\<lambda>limited.
       case limited of Some r \<Rightarrow> retA r | None \<Rightarrow> k)"

definition withJsonBody :: "Request \<Rightarrow> (json \<Rightarrow> Response handler) \<Rightarrow> Response handler" where
  "withJsonBody request k =
     (case JSON_parse (req_body request) of
        None \<Rightarrow> retA (jsonResponse (errorBody ''invalid JSON body'') 400)
      | Some body \<Rightarrow> k body)"

definition purchaseIntentRoute :: "Host \<Rightarrow> RuntimeEnv \<Rightarrow> Request \<Rightarrow> Response handler" where
  "purchaseIntentRoute h env request =
     unlessLimited h PURCHASE_INTENT_ENDPOINT None (withJsonBody request (\<lambda>body.
       catchA
         (bindA (liftR (parsePurchaseIntentInput body)) (\<lambda>inp.
          unlessLimited h PURCHASE_INTENT_ENDPOINT (Some (q_purchaserPrincipal inp))
            (bindA (createPurchaseIntent h env inp) (\<lambda>token.
             retA (jsonResponse (JObj [(''appAccountToken'', JStr token)]) 200)))))
         (\<lambda>error. retA (jsonResponse (errorBody (errorMessage error)) 400))))"

definition activationErrorResponse :: "js_error \<Rightarrow> Response" where
  "activationErrorResponse error =
     (case error of
        ActivationError message status retryable \<Rightarrow> jsonResponse (retryBody message retryable) status
      | _ \<Rightarrow> jsonResponse (retryBody (errorMessage error) False) 400)"

definition activateRoute :: "Host \<Rightarrow> RuntimeEnv \<Rightarrow> Request \<Rightarrow> Response handler" where
  "activateRoute h env request =
     unlessLimited h ACTIVATE_DATABASE_ENDPOINT None (withJsonBody request (\<lambda>body.
       catchA
         (bindA (liftR (parseActivateDatabaseInput body)) (\<lambda>transactionJWS.
          bindA (activationRateLimitKey h transactionJWS) (\<lambda>principalLimitKey.
          unlessLimited h ACTIVATE_DATABASE_ENDPOINT (Some principalLimitKey)
            (bindA (activateDatabase h env transactionJWS) (\<lambda>response.
             retA (jsonResponse (activationJson response) 200))))))
         (\<lambda>error. retA (activationErrorResponse error))))"

definition notificationRoute :: "Host \<Rightarrow> RuntimeEnv \<Rightarrow> Request \<Rightarrow> Response handler" where
  "notificationRoute h env request =
     withJsonBody request (\<lambda>body.
       catchA
         (bindA (dateNow h) (\<lambda>now.
          bindA (liftR (parseNotificationInput (h_crypto h) env (int now) body)) (\<lambda>n.
          bindA (recordAppStoreNotification h n) (\<lambda>_.
          retA (jsonResponse (JObj [(''accepted'', JBool True)]) 200)))))
         (\<lambda>error. retA (jsonResponse (errorBody (errorMessage error)) 400)))"

definition workerFetch :: "Host \<Rightarrow> RuntimeEnv \<Rightarrow> Request \<Rightarrow> Response handler" where
  "workerFetch h env request =
     (if req_method request = ''POST'' \<and> req_pathname request = ''/iap/purchase-intents''
      then purchaseIntentRoute h env request
      else if req_method request = ''POST'' \<and> req_pathname request = ''/iap/activate-database''
      then activateRoute h env request
      else if req_method request = ''POST'' \<and> req_pathname request = ''/iap/app-store-notifications''
      then notificationRoute h env request
      else retA (jsonResponse (errorBody ''not found'') 404))"

end
