(* ===== verification/Payment_System.thy ===== *)
theory Payment_System
  imports Payment_Worker
begin

section \<open>Payment worker: correctness of the handlers under interleaving\<close>

text \<open>
  The handlers of \<^theory_text>\<open>Payment_Worker\<close> only ever move the database by the statements of the
  system \<open>dbStep\<close>, so its invariant and what it promises to later requests hold for every request,
  with any interference by other requests and any failing D1 call. On top of that: what a successful
  activation has recorded, what it has asked of the canister, and that a fulfilled transaction is
  never granted again.
\<close>

subsection \<open>What is assumed of the host\<close>

text \<open>
  Other requests run the same code, with other random UUIDs; a transaction identifier of the App
  Store belongs to one environment; \<open>limit\<close> is at least the configured sandbox limit.
\<close>

definition hostOk :: "nat \<Rightarrow> (string \<Rightarrow> AppStoreEnvironment) \<Rightarrow> Host \<Rightarrow> RuntimeEnv \<Rightarrow> bool" where
  "hostOk limit envOf h env \<longleftrightarrow>
     (\<forall>k t. (dbStep limit envOf (\<lambda>a now. a \<notin> range (h_uuid h)))\<^sup>*\<^sup>* t (h_others h k t)) \<and>
     (\<forall>k now jws v. verifyStoreKitTransaction (h_sign h k) (h_fetch h k) now env jws = Inr v \<longrightarrow>
        environment v = envOf (transactionId v)) \<and>
     (\<forall>p. sandboxFulfillmentPolicy env = Inr p \<longrightarrow> grantLimit p \<le> limit)"

abbreviation anyStep :: "nat \<Rightarrow> (string \<Rightarrow> AppStoreEnvironment) \<Rightarrow> Tables \<Rightarrow> Tables \<Rightarrow> bool" where
  "anyStep limit envOf \<equiv> dbStep limit envOf (\<lambda>a now. True)"

definition stepsTo :: "nat \<Rightarrow> (string \<Rightarrow> AppStoreEnvironment) \<Rightarrow> World \<Rightarrow> World \<Rightarrow> bool" where
  "stepsTo limit envOf w w' \<longleftrightarrow> (anyStep limit envOf)\<^sup>*\<^sup>* (tables w) (tables w')"

interpretation db: preorder_moves "stepsTo limit envOf" for limit envOf
  by unfold_locales (auto simp: stepsTo_def)

lemma hostOk_others: "hostOk limit envOf h env \<Longrightarrow> (anyStep limit envOf)\<^sup>*\<^sup>* t (h_others h k t)"
  using dbSteps_mono unfolding hostOk_def by blast

lemma moves_tick [simp]: "movesA (stepsTo limit envOf) (tick f)"
  by (simp add: movesA_def tick_def stepsTo_def)

lemma moves_now [simp]: "movesA (stepsTo limit envOf) (dateNow h)" "movesA (stepsTo limit envOf) (randomUUID h)"
  by (simp_all add: dateNow_def randomUUID_def)

lemma moves_grant [simp]: "movesA (stepsTo limit envOf) (sendGrant h request)"
  by (simp add: movesA_def sendGrant_def stepsTo_def)

lemma moves_d1:
  assumes "hostOk limit envOf h env" and "\<And>t. (anyStep limit envOf)\<^sup>*\<^sup>* t (snd (stmt t))"
  shows "movesA (stepsTo limit envOf) (d1 h stmt)"
proof (rule movesA_I)
  fix w :: World
  let ?t = "h_others h (calls w) (tables w)"
  have "(anyStep limit envOf)\<^sup>*\<^sup>* (tables w) ?t" using hostOk_others [OF assms(1)] .
  moreover have "(anyStep limit envOf)\<^sup>*\<^sup>* ?t (snd (stmt ?t))" using assms(2) .
  ultimately show "stepsTo limit envOf w (snd (d1 h stmt w))"
    by (auto simp: d1_def stepsTo_def Let_def split: option.split)
qed

lemmas moves_intros = db.moves_basic db.moves_bindA db.moves_catchA db.moves_if db.moves_option db.moves_sum

lemma moves_select:
  assumes "hostOk limit envOf h env"
  shows "movesA (stepsTo limit envOf) (selectFulfillment h tx)" "movesA (stepsTo limit envOf) (selectIntent h token)"
  using assms by (simp_all add: selectFulfillment_def selectIntent_def moves_d1)

subsection \<open>Every handler stays within the system\<close>

lemma moves_createPurchaseIntent:
  assumes "hostOk limit envOf h env"
  shows "movesA (stepsTo limit envOf) (createPurchaseIntent h env inp)"
proof -
  have stmt: "(anyStep limit envOf)\<^sup>*\<^sup>* t (snd (case insertIntent token db pu pr (natToDec amount) now t of
      None \<Rightarrow> (Inl e, t) | Some t' \<Rightarrow> (Inr (), t')))"
    if "0 < amount" "amount \<le> maxCycles" for t token db pu pr amount now and e :: js_error
    using that by (auto intro: step_intent split: option.split)
  have "0 < n \<and> n \<le> maxCycles"
    if "parseProductCatalog num raw = Inr catalog" "map_of catalog p = Some n" for num raw catalog p n
  proof -
    from that(1) obtain entries where "parseEntries num entries = Inr catalog"
      by (auto simp: parseProductCatalog_def result_simps split: option.splits if_splits)
    then have "list_all catalogEntryOk catalog" using parseEntries_ok by blast
    with map_of_SomeD [OF that(2)] show ?thesis by (auto simp: list_all_iff catalogEntryOk_def)
  qed
  note amount = this
  show ?thesis
    unfolding createPurchaseIntent_def Let_def
    by (rule db.moves_bindA_dep, rule db.moves_basic)
      (auto split: option.split intro!: moves_intros moves_d1 [OF assms] stmt dest: amount)
qed

lemma moves_recordAppStoreNotification:
  "hostOk limit envOf h env \<Longrightarrow> movesA (stepsTo limit envOf) (recordAppStoreNotification h n)"
  unfolding recordAppStoreNotification_def
  by (auto intro!: moves_intros moves_d1 step_notification)

lemma moves_validatePurchaseIntent:
  "hostOk limit envOf h env \<Longrightarrow> movesA (stepsTo limit envOf) (validatePurchaseIntent h token product tx)"
  unfolding validatePurchaseIntent_def by (intro moves_intros moves_select)

lemma moves_ensureFulfillmentReceived:
  assumes "hostOk limit envOf h env" "e = envOf tx" "l \<le> limit"
  shows "movesA (stepsTo limit envOf) (ensureFulfillmentReceived h env tx db pu e l)"
  unfolding ensureFulfillmentReceived_def assms(2)
  by (intro moves_intros moves_select [OF assms(1)] moves_d1 [OF assms(1)] moves_now)
    (auto intro: step_received [OF assms(3)])

lemma moves_markFulfillmentGranting:
  assumes "hostOk limit envOf h env" "g_environment inp = environmentText (envOf (g_transactionId inp))"
  shows "movesA (stepsTo limit envOf) (markFulfillmentGranting h inp)"
proof -
  have "(anyStep limit envOf)\<^sup>*\<^sup>* t (snd (case updateGranting inp a now t of (c, t') \<Rightarrow> (Inr c, t')))" for a now t
    using step_claim [where inp = inp and actor = "\<lambda>a now. True" and attempt = a and now = now and t = t and limit = limit] assms(2)
    by (auto simp: case_prod_beta)
  then show ?thesis
    unfolding markFulfillmentGranting_def
    by (intro moves_intros moves_select [OF assms(1)] moves_d1 [OF assms(1)] moves_now)
qed

lemma moves_finalizeFulfillment:
  assumes "hostOk limit envOf h env"
  shows "movesA (stepsTo limit envOf) (finalizeFulfillment h inp)"
proof -
  have "(anyStep limit envOf)\<^sup>*\<^sup>* t (snd (case finalizeBatch inp now t of (c, t') \<Rightarrow> (Inr c, t')))" for now t
    using step_finalize [where inp = inp and actor = "\<lambda>a now. True" and now = now and t = t and limit = limit and envOf = envOf]
    by (auto simp: case_prod_beta)
  then show ?thesis
    unfolding finalizeFulfillment_def
    by (intro moves_intros moves_d1 [OF assms] moves_now)
qed

lemma moves_markFulfillmentFailed:
  "hostOk limit envOf h env \<Longrightarrow> movesA (stepsTo limit envOf) (markFulfillmentFailed h tx attempt message)"
  unfolding markFulfillmentFailed_def by (auto intro!: moves_intros moves_d1 step_failed)

lemma moves_grantAndFinalize:
  "hostOk limit envOf h env \<Longrightarrow> movesA (stepsTo limit envOf) (grantAndFinalize h tx v intent amount attempt)"
  unfolding grantAndFinalize_def
  by (intro moves_intros moves_markFulfillmentFailed moves_finalizeFulfillment moves_grant)

lemma moves_fulfillVerified:
  assumes "hostOk limit envOf h env" "environment v = envOf tx"
  shows "movesA (stepsTo limit envOf) (fulfillVerified h env tx v)"
  unfolding fulfillVerified_def
proof (rule db.moves_bindA_dep [OF db.moves_basic(3)])
  fix s p t
  assume "(liftR (sandboxFulfillmentPolicy env) :: SandboxFulfillmentPolicy handler) s = (Inr p, t)"
  then have l: "grantLimit p \<le> limit" using assms(1) by (simp add: hostOk_def)
  show "movesA (stepsTo limit envOf) (if environment v = Sandbox \<and> \<not> enabled p
      then throwA (ActivationError ''Sandbox fulfillment is disabled'' 403 False)
      else bindA (validatePurchaseIntent h (appAccountToken v) (productId v) tx) (\<lambda>intent.
       bindA (ensureFulfillmentReceived h env tx (i_database_id intent)
                (i_purchaser_principal intent) (environment v) (grantLimit p)) (\<lambda>fulfillment.
         if f_status fulfillment = ''fulfilled''
         then liftR (fulfilledActivationResponse fulfillment (Some (appAccountToken v)))
         else
         bindA (liftR (parseAmountCyclesSnapshot (i_amount_cycles intent))) (\<lambda>amountCycles.
         bindA (markFulfillmentGranting h (grantingInput tx v intent amountCycles)) (\<lambda>claim.
           case claim of
             Inr fulfillment' \<Rightarrow> liftR (fulfilledActivationResponse fulfillment' (Some (appAccountToken v)))
           | Inl attemptId \<Rightarrow> grantAndFinalize h tx v intent amountCycles attemptId)))))"
    by (intro moves_intros moves_validatePurchaseIntent [OF assms(1)] moves_grantAndFinalize [OF assms(1)]
        moves_ensureFulfillmentReceived [OF assms l] moves_markFulfillmentGranting [OF assms(1)])
      (simp_all add: grantingInput_def assms(2))
qed

lemma verifyTransaction_result:
  assumes "verifyTransaction h env jws s = (Inr v, t)"
  obtains k now where "verifyStoreKitTransaction (h_sign h k) (h_fetch h k) now env jws = Inr v"
  using assms by (auto simp: verifyTransaction_def dateNow_def tick_def act_simps)

lemma verified_transactionId:
  assumes "verifyStoreKitTransaction sg fetcher now env jws = Inr v" "transactionPayload jws = Inr payload"
    "requiredText (jget payload ''transactionId'') field = Inr tx"
  shows "transactionId v = tx"
proof -
  from assms(1) obtain dp where "transactionPayload jws = Inr dp"
    "jget dp ''transactionId'' = Some (JStr (transactionId v))"
    by (rule verifyStoreKitTransaction_E)
  with assms(2,3) show ?thesis by (simp add: result_simps)
qed

lemma moves_verifyTransaction: "movesA (stepsTo limit envOf) (verifyTransaction h env jws)"
  unfolding verifyTransaction_def by (intro moves_intros moves_now moves_tick)

lemma moves_activateDatabase:
  assumes "hostOk limit envOf h env"
  shows "movesA (stepsTo limit envOf) (activateDatabase h env jws)"
proof -
  have v: "movesA (stepsTo limit envOf) (bindA (verifyTransaction h env jws) (fulfillVerified h env tx))"
    if p: "transactionPayload jws = Inr payload" "requiredText (jget payload ''transactionId'') f = Inr tx" for payload f tx
  proof (rule db.moves_bindA_dep [OF moves_verifyTransaction])
    fix s v t
    assume "verifyTransaction h env jws s = (Inr v, t)"
    then obtain k now where k: "verifyStoreKitTransaction (h_sign h k) (h_fetch h k) now env jws = Inr v"
      by (rule verifyTransaction_result)
    have "environment v = envOf (transactionId v)" using assms k by (auto simp: hostOk_def)
    then show "movesA (stepsTo limit envOf) (fulfillVerified h env tx v)"
      using verified_transactionId [OF k p] by (intro moves_fulfillVerified [OF assms]) simp
  qed
  show ?thesis
    unfolding activateDatabase_def
    by (rule db.moves_bindA_dep, rule db.moves_basic, rule db.moves_bindA_dep, rule db.moves_basic)
      (auto intro!: db.moves_bindA [OF db.moves_basic(3)] db.moves_bindA [OF moves_select(1) [OF assms]]
        db.moves_option db.moves_if db.moves_basic intro: v)
qed

lemma moves_rateLimit: "movesA (stepsTo limit envOf) (rateLimitErrorResponse h endpoint p)"
  unfolding rateLimitErrorResponse_def by (intro moves_intros moves_tick)

lemma moves_unlessLimited:
  "movesA (stepsTo limit envOf) k \<Longrightarrow> movesA (stepsTo limit envOf) (unlessLimited h endpoint p k)"
  unfolding unlessLimited_def by (intro moves_intros moves_rateLimit)

lemma moves_withJsonBody:
  "(\<And>b. movesA (stepsTo limit envOf) (k b)) \<Longrightarrow> movesA (stepsTo limit envOf) (withJsonBody request k)"
  unfolding withJsonBody_def by (intro moves_intros)

lemma moves_workerFetch:
  assumes "hostOk limit envOf h env"
  shows "movesA (stepsTo limit envOf) (workerFetch h env request)"
proof -
  have "movesA (stepsTo limit envOf) (purchaseIntentRoute h env request)"
    unfolding purchaseIntentRoute_def
    by (intro moves_intros moves_unlessLimited moves_withJsonBody moves_createPurchaseIntent [OF assms])
  moreover have "movesA (stepsTo limit envOf) (activationRateLimitKey h jws)" for jws
    unfolding activationRateLimitKey_def by (intro moves_intros moves_select [OF assms])
  then have "movesA (stepsTo limit envOf) (activateRoute h env request)"
    unfolding activateRoute_def
    by (intro moves_intros moves_unlessLimited moves_withJsonBody moves_activateDatabase [OF assms])
  moreover have "movesA (stepsTo limit envOf) (notificationRoute h env request)"
    unfolding notificationRoute_def
    by (intro moves_intros moves_withJsonBody moves_recordAppStoreNotification [OF assms] moves_now)
  ultimately show ?thesis unfolding workerFetch_def by (intro moves_intros)
qed

text \<open>
  C4. Whatever request the worker serves, whatever other requests do in between and whichever D1 calls
  fail, before or after they take effect, the database keeps its invariant: primary keys are unique;
  a fulfilment is received, granting, fulfilled or failed, and carries an attempt exactly while
  granting and an account token from the first claim on; an intent is created or fulfilled by a
  transaction, and holds a decimal amount between 1 and 9223372036854775807; and the number of sandbox
  fulfilments never exceeds the limit.
\<close>

theorem worker_keeps_invariant:
  assumes "hostOk limit envOf h env" and "tablesInv limit envOf (tables w)"
  shows "tablesInv limit envOf (tables (snd (workerFetch h env request w)))"
proof -
  have "(anyStep limit envOf)\<^sup>*\<^sup>* (tables w) (tables (snd (workerFetch h env request w)))"
    using moves_workerFetch [OF assms(1)] by (simp add: movesA_def stepsTo_def)
  then show ?thesis using assms(2) by (rule payment.inv_run)
qed

subsection \<open>A host to try the handlers on\<close>

definition sampleHost :: Host where
  "sampleHost =
     \<lparr>h_now = (\<lambda>k. 1000 + k), h_uuid = (\<lambda>k. sampleToken), h_dbFault = (\<lambda>k. None), h_others = (\<lambda>k t. t),
      h_fetch = (\<lambda>k. sampleFetch), h_sign = (\<lambda>k der data. Inr [9]), h_grant = (\<lambda>k r. Inr ()),
      h_limit = (\<lambda>k key. Inr True), h_crypto = sampleCrypto, h_numberText = (\<lambda>l. l)\<rparr>"

definition emptyTables :: Tables where
  "emptyTables = \<lparr>iap_fulfillments = [], iap_purchase_intents = [], app_store_notifications = []\<rparr>"

definition emptyWorld :: World where
  "emptyWorld = \<lparr>tables = emptyTables, calls = 0, grants = []\<rparr>"

lemma sample_policy: "sandboxFulfillmentPolicy sampleEnv = Inr \<lparr>enabled = True, grantLimit = 10\<rparr>"
proof -
  have "positiveDecimal ''10''" "decToNat ''10'' = 10" by code_simp+
  then show ?thesis by (simp add: sandboxFulfillmentPolicy_def sampleEnv_def maxSafeInteger_def)
qed

lemma sampleFetch_environment:
  assumes "verifyStoreKitTransaction sg sampleFetch now env jws = Inr v"
  shows "environment v = Production"
proof -
  from assms obtain status body info payload allowed jwt where
    f: "sampleFetch (transactionUrl (environment v) (transactionId v)) (''Bearer '' @ jwt) = Inr (status, body)"
      "bodyProperty body ''signedTransactionInfo'' = Inr (Some (JStr info))" "transactionPayload info = Inr payload"
    and c: "checkServerPayload env allowed (environment v) (transactionId v) payload = Inr v"
    by (rule verifyStoreKitTransaction_E) blast
  have "bodyProperty (stringify (JObj [(''signedTransactionInfo'', JStr (sampleJws ''77''))])) ''signedTransactionInfo''
      = Inr (Some (JStr (sampleJws ''77'')))"
    unfolding bodyProperty_def by (subst JSON_parse_stringify) (simp_all add: jget_def)
  with f have "payload = samplePayload ''77''"
    by (simp add: sampleFetch_def sample_transactionPayload del: stringify.simps)
  with checkServerPayload_Inr(8) [OF c] have "environmentText (environment v) = environmentText Production"
    by (simp add: samplePayload_def jget_def)
  then show ?thesis by (simp only: environmentText_inject)
qed

lemma sampleHost_ok: "hostOk 10 (\<lambda>tx. Production) sampleHost sampleEnv"
  unfolding hostOk_def using sampleFetch_environment sample_policy by (auto simp: sampleHost_def)

lemma emptyWorld_ok: "tablesInv limit envOf (tables emptyWorld)"
  by (simp add: tablesInv_def emptyWorld_def emptyTables_def sandboxCount_def)

lemma worker_keeps_invariant_witness:
  "tablesInv 10 (\<lambda>tx. Production) (tables (snd (workerFetch sampleHost sampleEnv
     \<lparr>req_method = ''POST'', req_pathname = ''/iap/activate-database'', req_body = ''{}''\<rparr> emptyWorld)))"
  using worker_keeps_invariant [OF sampleHost_ok emptyWorld_ok] .

subsection \<open>Fulfilled stays fulfilled\<close>

lemma fulfillmentByTransaction_byKey:
  "fulfillmentByTransaction tx t = byKey f_transaction_id tx (iap_fulfillments t)"
  by (simp add: fulfillmentByTransaction_def byKey_def)

lemma purchaseIntentByToken_byKey:
  "purchaseIntentByToken token t = byKey i_app_account_token token (iap_purchase_intents t)"
  by (simp add: purchaseIntentByToken_def byKey_def)

lemma advances_fulfilled:
  assumes "advances t t'" "fulfillmentByTransaction tx t = Some r" "f_status r = ''fulfilled''"
  shows "fulfillmentByTransaction tx t' = Some r"
  using assms unfolding fulfillmentByTransaction_byKey advances_def keepsRows_def fulfillmentKept_def by fastforce

lemma advances_intent:
  assumes "advances t t'" "purchaseIntentByToken token t = Some i"
  obtains i' where "purchaseIntentByToken token t' = Some i'" "intentKept i i'"
  using assms unfolding purchaseIntentByToken_byKey advances_def keepsRows_def by blast

lemma others_advance:
  "hostOk limit envOf h env \<Longrightarrow> tablesInv limit envOf t \<Longrightarrow> advances t (h_others h k t) \<and> tablesInv limit envOf (h_others h k t)"
  using hostOk_others payment.adv_run payment.inv_run by metis

text \<open>
  A fulfilled transaction is final: whatever request is served afterwards (retries of the same
  transaction, other purchases, notifications), with any interference and any D1 failure, the row
  of a fulfilled transaction stays exactly as it is, and a purchase intent keeps its database,
  purchaser, product and amount for ever.
\<close>

theorem fulfilled_is_final:
  assumes "hostOk limit envOf h env" and "tablesInv limit envOf (tables w)"
  shows "(\<forall>tx r. fulfillmentByTransaction tx (tables w) = Some r \<and> f_status r = ''fulfilled'' \<longrightarrow>
      fulfillmentByTransaction tx (tables (snd (workerFetch h env request w))) = Some r) \<and>
    (\<forall>token i. purchaseIntentByToken token (tables w) = Some i \<longrightarrow>
      (\<exists>i'. purchaseIntentByToken token (tables (snd (workerFetch h env request w))) = Some i' \<and>
        i_database_id i' = i_database_id i \<and> i_purchaser_principal i' = i_purchaser_principal i \<and>
        i_product_id i' = i_product_id i \<and> i_amount_cycles i' = i_amount_cycles i))"
proof -
  have "(anyStep limit envOf)\<^sup>*\<^sup>* (tables w) (tables (snd (workerFetch h env request w)))"
    using moves_workerFetch [OF assms(1)] by (simp add: movesA_def stepsTo_def)
  then have a: "advances (tables w) (tables (snd (workerFetch h env request w)))"
    using assms(2) by (rule payment.adv_run)
  show ?thesis
    using advances_fulfilled [OF a] advances_intent [OF a] unfolding intentKept_def by metis
qed

definition fulfilledRow :: FulfillmentRow where
  "fulfilledRow =
     \<lparr>f_transaction_id = ''77'', f_database_id = ''db'', f_purchaser_principal = ''aaaaa-aa'',
      f_app_account_token = Some sampleToken, f_product_id = ''credits'', f_environment = ''Production'',
      f_bundle_id = ''xyz.kinic'', f_cycles = ''5'', f_status = ''fulfilled'', f_grant_attempt_id = None,
      f_error_message = None, f_created_at_ms = 1, f_updated_at_ms = 2\<rparr>"

definition fulfilledWorld :: World where
  "fulfilledWorld = emptyWorld \<lparr>tables := emptyTables \<lparr>iap_fulfillments := [fulfilledRow]\<rparr>\<rparr>"

lemma fulfilledWorld_ok: "tablesInv 10 (\<lambda>tx. Production) (tables fulfilledWorld)"
  by (simp add: tablesInv_def fulfilledWorld_def emptyTables_def sandboxCount_def keyed_def fulfillmentOk_def fulfilledRow_def)

lemma fulfilledWorld_row: "fulfillmentByTransaction ''77'' (tables fulfilledWorld) = Some fulfilledRow"
  by (simp add: fulfillmentByTransaction_byKey fulfilledWorld_def fulfilledRow_def)

lemma fulfilled_is_final_witness:
  "fulfillmentByTransaction ''77'' (tables (snd (workerFetch sampleHost sampleEnv
     \<lparr>req_method = ''POST'', req_pathname = ''/iap/activate-database'', req_body = ''{}''\<rparr> fulfilledWorld)))
   = Some fulfilledRow"
  using fulfilled_is_final [OF sampleHost_ok fulfilledWorld_ok] fulfilledWorld_row by (simp add: fulfilledRow_def)

subsection \<open>No second grant\<close>

lemma d1_cases:
  obtains (ok) t where "t = h_others h (calls w) (tables w)"
      "d1 h stmt w = (fst (stmt t), w \<lparr>calls := Suc (calls w), tables := snd (stmt t)\<rparr>)"
  | (fault) t applied message where "t = h_others h (calls w) (tables w)"
      "d1 h stmt w = (Inl (HostError message), w \<lparr>calls := Suc (calls w), tables := if applied then snd (stmt t) else t\<rparr>)"
  by (cases "h_dbFault h (calls w)") (auto simp: d1_def Let_def)

text \<open>
  C3. A transaction is granted at most once it is fulfilled: activating a transaction whose row is
  already fulfilled sends no request to the canister and changes nothing of the row, whatever the
  device's payload, the other requests and D1 do; and if it answers, it answers with the recorded
  database, purchaser, product and amount, to a payload that carries the recorded account token.
\<close>

theorem no_second_grant:
  assumes "hostOk limit envOf h env" and "tablesInv limit envOf (tables w)"
    and "fulfillmentByTransaction tx (tables w) = Some r" and "f_status r = ''fulfilled''"
    and "transactionPayload jws = Inr payload" and "jget payload ''transactionId'' = Some (JStr tx)"
    and "activateDatabase h env jws w = (res, w')"
  shows "grants w' = grants w \<and> fulfillmentByTransaction tx (tables w') = Some r \<and>
    (\<forall>a. res = Inr a \<longrightarrow>
      a_databaseId a = f_database_id r \<and> a_purchaserPrincipal a = f_purchaser_principal r \<and>
      a_productId a = f_product_id r \<and> a_cycles a = f_cycles r \<and>
      optionalUuidText (jget payload ''appAccountToken'') ''appAccountToken'' = Inr (f_app_account_token r))"
proof (cases "trim tx = [] \<or> (\<exists>e. optionalUuidText (jget payload ''appAccountToken'') ''appAccountToken'' = Inl e)")
  case True
  then obtain e where "res = Inl e" "w' = w"
    using assms(5-7) by (cases "trim tx = []") (auto simp: activateDatabase_def requiredText_def)
  then show ?thesis using assms(3) by simp
next
  case False
  then obtain token where token: "optionalUuidText (jget payload ''appAccountToken'') ''appAccountToken'' = Inr token"
    by (cases "optionalUuidText (jget payload ''appAccountToken'') ''appAccountToken''") auto
  let ?k = "\<lambda>existing. case existing of
      None \<Rightarrow> bindA (verifyTransaction h env jws) (fulfillVerified h env tx)
    | Some f \<Rightarrow> if f_status f = ''fulfilled'' then liftR (fulfilledActivationResponse f token)
        else bindA (verifyTransaction h env jws) (fulfillVerified h env tx)"
  have run: "activateDatabase h env jws w = bindA (selectFulfillment h tx) ?k w"
    using False token assms(5,6) by (simp add: activateDatabase_def bindA_step(1) requiredText_def)
  define t where "t = h_others h (calls w) (tables w)"
  have row: "fulfillmentByTransaction tx t = Some r"
    unfolding t_def using others_advance [OF assms(1,2)] advances_fulfilled [OF _ assms(3,4)] by blast
  show ?thesis
  proof (cases rule: d1_cases [of h w "\<lambda>t. (Inr (fulfillmentByTransaction tx t), t)"])
    case ok
    then have "selectFulfillment h tx w = (Inr (Some r), w \<lparr>calls := Suc (calls w), tables := t\<rparr>)"
      using row by (simp add: selectFulfillment_def t_def)
    then have "res = fulfilledActivationResponse r token" "w' = w \<lparr>calls := Suc (calls w), tables := t\<rparr>"
      using run assms(4,7) by (simp_all add: bindA_step(1))
    then show ?thesis
      using row token by (auto simp: fulfilledActivationResponse_def split: if_splits)
  next
    case (fault t' applied message)
    then have "res = Inl (HostError message)" "tables w' = t" "grants w' = grants w"
      using run assms(7) by (simp_all add: selectFulfillment_def t_def bindA_step(2))
    then show ?thesis using row by simp
  qed
qed

lemma no_second_grant_witness:
  "grants (snd (activateDatabase sampleHost sampleEnv (sampleJws ''77'') fulfilledWorld)) = []"
proof -
  obtain res w' where r: "activateDatabase sampleHost sampleEnv (sampleJws ''77'') fulfilledWorld = (res, w')"
    by (cases "activateDatabase sampleHost sampleEnv (sampleJws ''77'') fulfilledWorld")
  have "f_status fulfilledRow = ''fulfilled''" "jget (samplePayload ''77'') ''transactionId'' = Some (JStr ''77'')"
    "grants fulfilledWorld = []"
    by (simp_all add: fulfilledRow_def samplePayload_def jget_def fulfilledWorld_def emptyWorld_def)
  with no_second_grant [OF sampleHost_ok fulfilledWorld_ok fulfilledWorld_row _ sample_transactionPayload _ r] r
  show ?thesis by simp
qed

subsection \<open>What a successful activation has recorded\<close>

lemma d1_Inr:
  assumes "d1 h stmt w = (Inr x, w')"
  obtains t where "t = h_others h (calls w) (tables w)" "stmt t = (Inr x, tables w')" "grants w' = grants w"
  using assms by (cases rule: d1_cases [of h w stmt]) (auto simp: prod_eq_iff)

lemma tick_Inr: "tick f w = (Inr x, w') \<Longrightarrow> x = f (calls w) \<and> tables w' = tables w \<and> grants w' = grants w"
  by (auto simp: tick_def)

lemma dateNow_Inr: "dateNow h w = (Inr x, w') \<Longrightarrow> tables w' = tables w \<and> grants w' = grants w"
  unfolding dateNow_def by (drule tick_Inr) simp

lemma randomUUID_Inr:
  "randomUUID h w = (Inr x, w') \<Longrightarrow> x \<in> range (h_uuid h) \<and> tables w' = tables w \<and> grants w' = grants w"
  unfolding randomUUID_def by (drule tick_Inr) simp

lemma select_Inr:
  "selectFulfillment h tx w = (Inr f, w') \<Longrightarrow> f = fulfillmentByTransaction tx (tables w') \<and> grants w' = grants w"
  "selectIntent h token w = (Inr i, w') \<Longrightarrow> i = purchaseIntentByToken token (tables w') \<and> grants w' = grants w"
  unfolding selectFulfillment_def selectIntent_def by (erule d1_Inr, auto)+

lemma markGranting_Inr:
  assumes "markFulfillmentGranting h inp w = (Inr claim, w')"
  obtains (claimed) attempt now t where "claim = Inl attempt" "attempt \<in> range (h_uuid h)"
      "fst (updateGranting inp attempt now t) = 1" "tables w' = snd (updateGranting inp attempt now t)"
      "grants w' = grants w" "\<exists>k. t = h_others h k (tables w)"
  | (taken) r where "claim = Inr r" "fulfillmentByTransaction (g_transactionId inp) (tables w') = Some r"
      "f_status r = ''fulfilled''" "grants w' = grants w"
proof -
  from assms obtain now u1 attempt u2 changes u3 where
    n: "dateNow h w = (Inr now, u1)" "randomUUID h u1 = (Inr attempt, u2)"
      "d1 h (\<lambda>t. case updateGranting inp attempt now t of (c, t') \<Rightarrow> (Inr c, t')) u2 = (Inr changes, u3)"
    and k: "(if changes \<noteq> 1 then
         bindA (selectFulfillment h (g_transactionId inp)) (\<lambda>found.
           case found of
             None \<Rightarrow> throwA (ActivationError ''fulfillment state changed before granting'' 409 True)
           | Some fulfillment \<Rightarrow>
               if f_status fulfillment = ''fulfilled'' then retA (Inr fulfillment)
               else if f_status fulfillment = ''granting''
               then throwA (ActivationError ''fulfillment grant is already in progress'' 409 True)
               else throwA (ActivationError ''fulfillment state changed before granting'' 409 True))
       else retA (Inl attempt)) u3 = (Inr claim, w')"
    unfolding markFulfillmentGranting_def by (auto elim!: bindA_Inr_E)
  from n(3) obtain t where t: "t = h_others h (calls u2) (tables u2)"
    "updateGranting inp attempt now t = (changes, tables u3)" "grants u3 = grants u2"
    by (rule d1_Inr) (auto simp: case_prod_beta prod_eq_iff)
  note w = dateNow_Inr [OF n(1)] randomUUID_Inr [OF n(2)]
  show thesis
  proof (cases "changes = 1")
    case True
    then show ?thesis using k w t by (intro claimed [of attempt now t]) auto
  next
    case False
    with k obtain found where s: "selectFulfillment h (g_transactionId inp) u3 = (Inr found, w')"
      "\<exists>r. found = Some r \<and> f_status r = ''fulfilled'' \<and> claim = Inr r"
      by (auto elim!: bindA_Inr_E split: option.splits if_splits)
    then show ?thesis using select_Inr(1) [OF s(1)] w t taken by auto
  qed
qed

lemma finalize_Inr:
  assumes "finalizeFulfillment h inp w = (Inr u, w')"
  obtains now k t where "t = h_others h k (tables w)" "finalizeBatch inp now t = ([1, 1], tables w')"
    "grants w' = grants w"
proof -
  from assms obtain now u1 results u2 where n: "dateNow h w = (Inr now, u1)"
    and d: "d1 h (\<lambda>t. case finalizeBatch inp now t of (rs, t') \<Rightarrow> (Inr rs, t')) u1 = (Inr results, u2)"
    and r: "\<not> list_ex (\<lambda>changes. changes \<noteq> 1) results" "w' = u2"
    unfolding finalizeFulfillment_def
    by (auto elim!: bindA_Inr_E catchA_Inr_E split: if_splits)
  from d obtain t where t: "t = h_others h (calls u1) (tables u1)" "finalizeBatch inp now t = (results, tables u2)"
    "grants u2 = grants u1" by (rule d1_Inr) (auto simp: case_prod_beta prod_eq_iff)
  then have "results = [1, 1]" using r(1) by (auto simp: finalizeBatch_def)
  then show thesis using that t r(2) dateNow_Inr [OF n] by metis
qed

lemma claimed_row:
  assumes "tablesInv limit envOf t" "fst (updateGranting inp attempt now t) = 1"
  obtains r where "grantingWhere inp now r"
    "fulfillmentByTransaction (g_transactionId inp) (snd (updateGranting inp attempt now t)) =
       Some (grantingSet inp attempt now r)"
proof -
  have "keyed f_transaction_id (iap_fulfillments t)" using assms(1) by (simp add: tablesInv_def)
  moreover have "changesWhere (grantingWhere inp now) (iap_fulfillments t) = 1"
    using assms(2) by (simp add: updateGranting_def)
  ultimately obtain r where
    "byKey f_transaction_id (g_transactionId inp) (iap_fulfillments t) = Some r" "grantingWhere inp now r"
    by (rule changesWhere_one) (simp add: grantingWhere_def)
  then show thesis
    by (intro that [of r]) (simp_all add: fulfillmentByTransaction_byKey updateGranting_def granting.byKey_update)
qed

lemma finalized_row:
  assumes "tablesInv limit envOf t" "finalizeBatch inp now t = ([1, 1], t')"
  obtains r where "finalWhere inp r" "fulfillmentByTransaction (z_transactionId inp) t = Some r"
    "fulfillmentByTransaction (z_transactionId inp) t' = Some (finalSet now r)"
proof -
  have "keyed f_transaction_id (iap_fulfillments t)" using assms(1) by (simp add: tablesInv_def)
  moreover have "changesWhere (finalWhere inp) (iap_fulfillments t) = 1"
    using assms(2) by (simp add: finalizeBatch_def)
  ultimately obtain r where
    "byKey f_transaction_id (z_transactionId inp) (iap_fulfillments t) = Some r" "finalWhere inp r"
    by (rule changesWhere_one) (simp add: finalWhere_def)
  then show thesis
    using assms(2) by (intro that [of r]) (auto simp: fulfillmentByTransaction_byKey finalizeBatch_def final.byKey_update)
qed

definition grantRequest :: "string \<Rightarrow> VerifiedTransaction \<Rightarrow> PurchaseIntentRow \<Rightarrow> nat \<Rightarrow> IapGrantRequest" where
  "grantRequest tx v intent amount =
     \<lparr>r_databaseId = i_database_id intent, r_amountCycles = amount, r_externalPaymentId = tx,
      r_provider = ''apple_iap'', r_productId = productId v, r_purchaserPrincipal = i_purchaser_principal intent\<rparr>"

definition rowResponse :: "FulfillmentRow \<Rightarrow> ActivationResponse" where
  "rowResponse r =
     \<lparr>a_transactionId = f_transaction_id r, a_databaseId = f_database_id r,
      a_purchaserPrincipal = f_purchaser_principal r, a_productId = f_product_id r, a_cycles = f_cycles r\<rparr>"

definition recorded :: "ActivationResponse \<Rightarrow> World \<Rightarrow> bool" where
  "recorded a w \<longleftrightarrow> (\<exists>r. fulfillmentByTransaction (a_transactionId a) (tables w) = Some r \<and>
     f_status r = ''fulfilled'' \<and> a = rowResponse r)"

lemma fulfilledActivationResponse_recorded:
  assumes "fulfilledActivationResponse r token = Inr a" "fulfillmentByTransaction tx (tables w) = Some r"
    "f_status r = ''fulfilled''"
  shows "recorded a w"
proof -
  have "a = rowResponse r" using assms(1) by (auto simp: fulfilledActivationResponse_def rowResponse_def split: if_splits)
  moreover have "f_transaction_id r = tx" using byKey_Some_D assms(2) unfolding fulfillmentByTransaction_byKey by metis
  ultimately show ?thesis using assms(2,3) by (auto simp: recorded_def rowResponse_def)
qed

lemma grantAndFinalize_recorded:
  assumes ok: "hostOk limit envOf h env" and inv: "tablesInv limit envOf (tables w)"
    and row: "fulfillmentByTransaction tx (tables w) = Some (grantingSet (grantingInput tx v intent amount) attempt now r)"
    and wh: "grantingWhere (grantingInput tx v intent amount) now r" and mine: "attempt \<in> range (h_uuid h)"
    and run: "grantAndFinalize h tx v intent amount attempt w = (Inr a, w')"
  shows "recorded a w'"
proof -
  let ?z = "\<lparr>z_transactionId = tx, z_databaseId = i_database_id intent, z_purchaserPrincipal = i_purchaser_principal intent,
      z_appAccountToken = appAccountToken v, z_productId = productId v, z_attemptId = attempt\<rparr>"
  let ?r1 = "grantingSet (grantingInput tx v intent amount) attempt now r"
  from run obtain u1 where g: "sendGrant h (grantRequest tx v intent amount) w = (Inr (), u1)"
    and f: "finalizeFulfillment h ?z u1 = (Inr (), w')"
    and a: "a = \<lparr>a_transactionId = tx, a_databaseId = i_database_id intent,
      a_purchaserPrincipal = i_purchaser_principal intent, a_productId = productId v, a_cycles = natToDec amount\<rparr>"
    unfolding grantAndFinalize_def grantRequest_def by (auto elim!: bindA_Inr_E catchA_Inr_E)
  have tw: "tables u1 = tables w" using g by (auto simp: sendGrant_def)
  from f obtain now' k t where t: "t = h_others h k (tables w)" "finalizeBatch ?z now' t = ([1, 1], tables w')"
    by (rule finalize_Inr) (simp add: tw)
  have "tablesInv limit envOf t" using others_advance [OF ok inv] t(1) by simp
  from finalized_row [OF this t(2)] obtain r2 where r2: "finalWhere ?z r2" "fulfillmentByTransaction tx t = Some r2"
    "fulfillmentByTransaction tx (tables w') = Some (finalSet now' r2)" by auto
  have steps: "(dbStep limit envOf (\<lambda>a now. a \<notin> range (h_uuid h)))\<^sup>*\<^sup>* (tables w) t"
    using ok t(1) by (simp add: hostOk_def)
  have "r2 = ?r1"
    by (rule attempt_run [OF steps, of attempt tx])
      (use mine row r2 in \<open>auto simp: fulfillmentByTransaction_byKey finalWhere_def\<close>)
  moreover have "f_transaction_id r = tx" "f_database_id r = i_database_id intent"
    "f_purchaser_principal r = i_purchaser_principal intent"
    using wh by (simp_all add: grantingWhere_def grantingInput_def)
  ultimately show ?thesis
    using r2(3) by (simp add: recorded_def a rowResponse_def finalSet_def grantingSet_def grantingInput_def)
qed

lemma moves_inv:
  "movesA (stepsTo limit envOf) m \<Longrightarrow> tablesInv limit envOf (tables w) \<Longrightarrow> m w = (x, w') \<Longrightarrow>
   tablesInv limit envOf (tables w') \<and> advances (tables w) (tables w')"
  using movesA_D payment.inv_run payment.adv_run unfolding stepsTo_def by metis

lemma ensureFulfillment_Inr:
  assumes "ensureFulfillmentReceived h env tx db pu e l w = (Inr f, w')"
  shows "fulfillmentByTransaction tx (tables w') = Some f"
  using assms unfolding ensureFulfillmentReceived_def
  by (auto elim!: bindA_Inr_E dest!: select_Inr split: option.splits if_splits)

lemma fulfillVerified_recorded:
  assumes ok: "hostOk limit envOf h env" and inv: "tablesInv limit envOf (tables w)"
    and e: "environment v = envOf tx" and run: "fulfillVerified h env tx v w = (Inr a, w')"
  shows "recorded a w'"
proof -
  from run obtain p where p: "sandboxFulfillmentPolicy env = Inr p"
    by (cases "sandboxFulfillmentPolicy env") (auto simp: fulfillVerified_def)
  with ok have l: "grantLimit p \<le> limit" by (simp add: hostOk_def)
  from run p obtain intent u1 f u2 where
    r1: "validatePurchaseIntent h (appAccountToken v) (productId v) tx w = (Inr intent, u1)"
    and r2: "ensureFulfillmentReceived h env tx (i_database_id intent) (i_purchaser_principal intent)
        (environment v) (grantLimit p) u1 = (Inr f, u2)"
    and r3: "(if f_status f = ''fulfilled'' then liftR (fulfilledActivationResponse f (Some (appAccountToken v)))
         else bindA (liftR (parseAmountCyclesSnapshot (i_amount_cycles intent))) (\<lambda>amountCycles.
           bindA (markFulfillmentGranting h (grantingInput tx v intent amountCycles)) (\<lambda>claim.
           case claim of Inl attemptId \<Rightarrow> grantAndFinalize h tx v intent amountCycles attemptId
           | Inr f' \<Rightarrow> liftR (fulfilledActivationResponse f' (Some (appAccountToken v)))))) u2 = (Inr a, w')"
    unfolding fulfillVerified_def by (auto elim!: bindA_Inr_E split: if_splits)
  have i1: "tablesInv limit envOf (tables u1)"
    using moves_inv [OF moves_validatePurchaseIntent [OF ok] inv r1] by simp
  have i2: "tablesInv limit envOf (tables u2)"
    using moves_inv [OF moves_ensureFulfillmentReceived [OF ok e l] i1 r2] by simp
  show ?thesis
  proof (cases "f_status f = ''fulfilled''")
    case True
    with r3 have "fulfilledActivationResponse f (Some (appAccountToken v)) = Inr a" "w' = u2" by simp_all
    then show ?thesis using fulfilledActivationResponse_recorded ensureFulfillment_Inr [OF r2] True by metis
  next
    case False
    with r3 obtain amount claim u3 where
      m: "markFulfillmentGranting h (grantingInput tx v intent amount) u2 = (Inr claim, u3)"
      and c: "(case claim of Inl attemptId \<Rightarrow> grantAndFinalize h tx v intent amount attemptId
           | Inr f' \<Rightarrow> liftR (fulfilledActivationResponse f' (Some (appAccountToken v)))) u3 = (Inr a, w')"
      by (auto elim!: bindA_Inr_E)
    have gi: "g_transactionId (grantingInput tx v intent amount) = tx"
      "g_environment (grantingInput tx v intent amount) = environmentText (envOf tx)"
      by (simp_all add: grantingInput_def e)
    from m show ?thesis
    proof (cases rule: markGranting_Inr)
      case (claimed attempt now t)
      then have "tablesInv limit envOf t" using others_advance [OF ok i2] by blast
      from claimed_row [OF this claimed(3)] obtain r where
        "grantingWhere (grantingInput tx v intent amount) now r"
        "fulfillmentByTransaction tx (tables u3) = Some (grantingSet (grantingInput tx v intent amount) attempt now r)"
        unfolding gi claimed(4) by blast
      moreover have "tablesInv limit envOf (tables u3)"
        using moves_inv [OF moves_markFulfillmentGranting [OF ok] i2 m] gi by simp
      ultimately show ?thesis using grantAndFinalize_recorded [OF ok] claimed(1,2) c by auto
    next
      case (taken r)
      then show ?thesis using c gi fulfilledActivationResponse_recorded by (metis act_basic(3) prod.inject sum.simps(6))
    qed
  qed
qed

text \<open>
  C2. A successful activation is on record: when \<open>activateDatabase\<close> answers success, the database it
  leaves, in the presence of any interference, holds a fulfilled row for the transaction with exactly
  the database, purchaser, product and amount of the answer.
\<close>

theorem activation_recorded:
  assumes "hostOk limit envOf h env" and "tablesInv limit envOf (tables w)"
    and "activateDatabase h env jws w = (Inr a, w')"
  shows "\<exists>r. fulfillmentByTransaction (a_transactionId a) (tables w') = Some r \<and> f_status r = ''fulfilled'' \<and>
    a_databaseId a = f_database_id r \<and> a_purchaserPrincipal a = f_purchaser_principal r \<and>
    a_productId a = f_product_id r \<and> a_cycles a = f_cycles r"
proof -
  from assms(3) obtain payload tx token found u where
    p: "transactionPayload jws = Inr payload" "requiredText (jget payload ''transactionId'') ''transactionId'' = Inr tx"
    and s: "selectFulfillment h tx w = (Inr found, u)"
    and k: "(case found of
         Some f \<Rightarrow> if f_status f = ''fulfilled'' then liftR (fulfilledActivationResponse f token)
           else bindA (verifyTransaction h env jws) (fulfillVerified h env tx)
       | None \<Rightarrow> bindA (verifyTransaction h env jws) (fulfillVerified h env tx)) u = (Inr a, w')"
    unfolding activateDatabase_def by (auto elim!: bindA_Inr_E)
  have i: "tablesInv limit envOf (tables u)" using moves_inv [OF moves_select(1) [OF assms(1)] assms(2) s] by simp
  have "recorded a w'"
  proof (cases "\<exists>f. found = Some f \<and> f_status f = ''fulfilled''")
    case True
    then obtain f where f: "found = Some f" "f_status f = ''fulfilled''" by blast
    with k have "fulfilledActivationResponse f token = Inr a" "w' = u" by simp_all
    then show ?thesis using fulfilledActivationResponse_recorded select_Inr(1) [OF s] f by metis
  next
    case False
    with k have "bindA (verifyTransaction h env jws) (fulfillVerified h env tx) u = (Inr a, w')"
      by (auto split: option.splits)
    then obtain v u2 where v: "verifyTransaction h env jws u = (Inr v, u2)" "fulfillVerified h env tx v u2 = (Inr a, w')"
      by (rule bindA_Inr_E)
    from v(1) obtain n now where n: "verifyStoreKitTransaction (h_sign h n) (h_fetch h n) now env jws = Inr v"
      by (rule verifyTransaction_result)
    have "environment v = envOf tx"
      using verified_transactionId [OF n p] n assms(1) by (auto simp: hostOk_def)
    moreover have "tablesInv limit envOf (tables u2)" using moves_inv [OF moves_verifyTransaction i v(1)] by simp
    ultimately show ?thesis using fulfillVerified_recorded [OF assms(1)] v(2) by blast
  qed
  then show ?thesis by (auto simp: recorded_def rowResponse_def)
qed

subsection \<open>A run that is not disturbed\<close>

text \<open>No other request interferes, D1 does not fail and the canister accepts: the run completes.\<close>

definition quiet :: "Host \<Rightarrow> bool" where
  "quiet h \<longleftrightarrow> (\<forall>k. h_dbFault h k = None) \<and> (\<forall>k t. h_others h k t = t)"

definition sameTables :: "World \<Rightarrow> World \<Rightarrow> bool" where
  "sameTables w u \<longleftrightarrow> tables u = tables w \<and> grants u = grants w"

lemma sameTables_refl [simp]: "sameTables w w"
  by (simp add: sameTables_def)

lemma sameTables_trans: "sameTables w u \<Longrightarrow> sameTables u v \<Longrightarrow> sameTables w v"
  by (simp add: sameTables_def)

lemma dateNow_quiet: "\<exists>u k. dateNow h w = (Inr (h_now h k), u) \<and> sameTables w u"
  by (auto simp: dateNow_def tick_def sameTables_def)

lemma randomUUID_quiet: "\<exists>x u. randomUUID h w = (Inr x, u) \<and> sameTables w u"
  by (auto simp: randomUUID_def tick_def sameTables_def)

lemma d1_quiet:
  "quiet h \<Longrightarrow> d1 h stmt w =
     (fst (stmt (tables w)), w \<lparr>calls := Suc (calls w), tables := snd (stmt (tables w))\<rparr>)"
  by (simp add: quiet_def d1_def Let_def)

lemma select_quiet:
  assumes "quiet h"
  shows "\<exists>u. selectFulfillment h tx w = (Inr (fulfillmentByTransaction tx (tables w)), u) \<and> sameTables w u"
    and "\<exists>u. selectIntent h token w = (Inr (purchaseIntentByToken token (tables w)), u) \<and> sameTables w u"
  using assms by (simp_all add: selectFulfillment_def selectIntent_def d1_quiet sameTables_def)

lemma snapshot_ok:
  assumes "0 < n" "n \<le> maxCycles"
  shows "parseAmountCyclesSnapshot (Some (natToDec n)) = Inr n"
  using assms by (simp add: parseAmountCyclesSnapshot_def positiveDecimal_natToDec)

lemma validate_quiet:
  assumes "quiet h" "purchaseIntentByToken token (tables w) = Some i" "i_status i = ''created''" "i_product_id i = product"
    "parseAmountCyclesSnapshot (i_amount_cycles i) = Inr amount"
  shows "\<exists>u. validatePurchaseIntent h token product tx w = (Inr i, u) \<and> sameTables w u"
proof -
  obtain u where "selectIntent h token w = (Inr (Some i), u)" "sameTables w u" using select_quiet(2) [OF assms(1)] assms(2) by metis
  with assms show ?thesis by (auto simp: validatePurchaseIntent_def bindA_step(1))
qed

definition claimable :: "Host \<Rightarrow> PurchaseIntentRow \<Rightarrow> FulfillmentRow \<Rightarrow> bool" where
  "claimable h i r \<longleftrightarrow>
     f_database_id r = i_database_id i \<and> f_purchaser_principal r = i_purchaser_principal i \<and>
     (f_status r \<in> {''received'', ''failed''} \<or>
      f_status r = ''granting'' \<and> (\<forall>k. f_updated_at_ms r + FULFILLMENT_GRANT_LEASE_MS \<le> h_now h k))"

lemma ensure_quiet:
  assumes "quiet h" "\<And>r. fulfillmentByTransaction tx (tables w) = Some r \<Longrightarrow> claimable h i r"
    and "fulfillmentByTransaction tx (tables w) \<noteq> None \<or> e \<noteq> Sandbox \<or> sandboxCount (iap_fulfillments (tables w)) < l"
  shows "\<exists>f u. ensureFulfillmentReceived h env tx (i_database_id i) (i_purchaser_principal i) e l w = (Inr f, u) \<and>
    claimable h i f \<and> fulfillmentByTransaction tx (tables u) = Some f \<and>
    iap_purchase_intents (tables u) = iap_purchase_intents (tables w) \<and> grants u = grants w"
proof -
  obtain u1 k where u1: "dateNow h w = (Inr (h_now h k), u1)" "sameTables w u1" using dateNow_quiet by blast
  let ?t = "insertReceived tx (i_database_id i) (i_purchaser_principal i) (environmentText e) (APP_STORE_BUNDLE_ID env)
      (h_now h k) l (tables w)"
  let ?u2 = "u1 \<lparr>calls := Suc (calls u1), tables := ?t\<rparr>"
  have d: "d1 h (\<lambda>t. (Inr (), insertReceived tx (i_database_id i) (i_purchaser_principal i) (environmentText e)
      (APP_STORE_BUNDLE_ID env) (h_now h k) l t)) u1 = (Inr (), ?u2)"
    using u1(2) by (simp add: d1_quiet [OF assms(1)] sameTables_def)
  obtain u3 where u3: "selectFulfillment h tx ?u2 = (Inr (fulfillmentByTransaction tx ?t), u3)" "sameTables ?u2 u3"
    using select_quiet(1) [OF assms(1), of tx ?u2] by auto
  have sb: "environmentText e = ''Sandbox'' \<longleftrightarrow> e = Sandbox" by (cases e) simp_all
  obtain f where f: "fulfillmentByTransaction tx ?t = Some f" "claimable h i f"
  proof (cases "fulfillmentByTransaction tx (tables w)")
    case None
    then show ?thesis
      using assms(3) by (intro that [of "receivedRow tx (i_database_id i) (i_purchaser_principal i) (environmentText e)
          (APP_STORE_BUNDLE_ID env) (h_now h k)"])
        (auto simp: insertReceived_def fulfillmentByTransaction_byKey byKey_insertOrIgnore receivedRow_def claimable_def sb)
  next
    case (Some r)
    then have "fulfillmentByTransaction tx ?t = Some r"
      by (simp add: insertReceived_def fulfillmentByTransaction_byKey byKey_insertOrIgnore)
    then show ?thesis using that assms(2) [OF Some] by blast
  qed
  have "assertFulfillmentOwner f (i_database_id i) (i_purchaser_principal i) ''received'' = Inr ()"
    using f(2) by (simp add: claimable_def assertFulfillmentOwner_def)
  with u1 d u3 f have "ensureFulfillmentReceived h env tx (i_database_id i) (i_purchaser_principal i) e l w = (Inr f, u3)"
    by (simp add: ensureFulfillmentReceived_def bindA_step(1))
  moreover have "iap_purchase_intents ?t = iap_purchase_intents (tables w)" by (simp add: insertReceived_def)
  ultimately show ?thesis using f u1(2) u3(2) by (auto simp: sameTables_def)
qed

lemma granting_quiet:
  assumes "quiet h" "tablesInv limit envOf (tables w)" "fulfillmentByTransaction tx (tables w) = Some f" "claimable h i f"
  shows "\<exists>attempt now u. markFulfillmentGranting h (grantingInput tx v i amount) w = (Inr (Inl attempt), u) \<and>
    tables u = snd (updateGranting (grantingInput tx v i amount) attempt now (tables w)) \<and>
    fulfillmentByTransaction tx (tables u) = Some (grantingSet (grantingInput tx v i amount) attempt now f) \<and>
    grants u = grants w"
proof -
  let ?inp = "grantingInput tx v i amount"
  obtain u1 k where u1: "dateNow h w = (Inr (h_now h k), u1)" "sameTables w u1" using dateNow_quiet by blast
  obtain attempt u2 where u2: "randomUUID h u1 = (Inr attempt, u2)" "sameTables u1 u2" using randomUUID_quiet by blast
  have wh: "grantingWhere ?inp (h_now h k) f"
    using assms(3,4) byKey_Some_D unfolding fulfillmentByTransaction_byKey
    by (fastforce simp: grantingWhere_def grantingInput_def claimable_def)
  have "changesWhere (grantingWhere ?inp (h_now h k)) (iap_fulfillments (tables w)) = 1"
    using wh assms(2,3) changesWhere_keyed [of f_transaction_id "iap_fulfillments (tables w)" "grantingWhere ?inp (h_now h k)" tx]
    by (simp add: tablesInv_def fulfillmentByTransaction_byKey grantingWhere_def grantingInput_def)
  then have c: "updateGranting ?inp attempt (h_now h k) (tables u2) = (1, snd (updateGranting ?inp attempt (h_now h k) (tables w)))"
    using u1(2) u2(2) by (simp add: updateGranting_def sameTables_def)
  have "fulfillmentByTransaction tx (snd (updateGranting ?inp attempt (h_now h k) (tables w))) =
      Some (grantingSet ?inp attempt (h_now h k) f)"
    using assms(3) wh by (simp add: fulfillmentByTransaction_byKey updateGranting_def granting.byKey_update)
  moreover have "markFulfillmentGranting h ?inp w = (Inr (Inl attempt), u2 \<lparr>calls := Suc (calls u2),
      tables := snd (updateGranting ?inp attempt (h_now h k) (tables w))\<rparr>)"
    using u1(1) u2(1) by (simp add: markFulfillmentGranting_def bindA_step(1) d1_quiet [OF assms(1)] c)
  ultimately show ?thesis using u1(2) u2(2) by (auto simp: sameTables_def)
qed

definition finalizeInput :: "string \<Rightarrow> VerifiedTransaction \<Rightarrow> PurchaseIntentRow \<Rightarrow> string \<Rightarrow> FinalizeInput" where
  "finalizeInput tx v i attempt =
     \<lparr>z_transactionId = tx, z_databaseId = i_database_id i, z_purchaserPrincipal = i_purchaser_principal i,
      z_appAccountToken = appAccountToken v, z_productId = productId v, z_attemptId = attempt\<rparr>"

lemma finalize_quiet:
  assumes "quiet h" "tablesInv limit envOf (tables w)"
    and "fulfillmentByTransaction tx (tables w) = Some r" "finalWhere (finalizeInput tx v i attempt) r"
    and "purchaseIntentByToken (appAccountToken v) (tables w) = Some i" "i_status i = ''created''" "i_product_id i = productId v"
  shows "\<exists>now u. finalizeFulfillment h (finalizeInput tx v i attempt) w = (Inr (), u) \<and>
    fulfillmentByTransaction tx (tables u) = Some (finalSet now r) \<and>
    purchaseIntentByToken (appAccountToken v) (tables u) = Some (intentSet (finalizeInput tx v i attempt) now i) \<and>
    grants u = grants w"
proof -
  let ?z = "finalizeInput tx v i attempt"
  obtain u1 k where u1: "dateNow h w = (Inr (h_now h k), u1)" "sameTables w u1" using dateNow_quiet by blast
  have key: "i_app_account_token i = appAccountToken v"
    using assms(5) byKey_Some_D unfolding purchaseIntentByToken_byKey by metis
  have iw: "intentWhere ?z i" using assms(6,7) key by (simp add: intentWhere_def finalizeInput_def)
  have "changesWhere (finalWhere ?z) (iap_fulfillments (tables w)) = 1"
    using assms(2,3,4) changesWhere_keyed [of f_transaction_id "iap_fulfillments (tables w)" "finalWhere ?z" tx]
    by (simp add: tablesInv_def fulfillmentByTransaction_byKey finalWhere_def finalizeInput_def)
  moreover have "changesWhere (intentWhere ?z) (iap_purchase_intents (tables w)) = 1"
    using assms(2,5) iw changesWhere_keyed [of i_app_account_token "iap_purchase_intents (tables w)" "intentWhere ?z" "appAccountToken v"]
    by (simp add: tablesInv_def purchaseIntentByToken_byKey intentWhere_def finalizeInput_def)
  ultimately have b: "finalizeBatch ?z now (tables u1) = ([1, 1], snd (finalizeBatch ?z now (tables w)))" for now
    using u1(2) by (simp add: finalizeBatch_def sameTables_def)
  have "fulfillmentByTransaction tx (snd (finalizeBatch ?z now (tables w))) = Some (finalSet now r)"
    "purchaseIntentByToken (appAccountToken v) (snd (finalizeBatch ?z now (tables w))) = Some (intentSet ?z now i)" for now
    using assms(3-5) iw by (simp_all add: fulfillmentByTransaction_byKey purchaseIntentByToken_byKey finalizeBatch_def
        final.byKey_update intent.byKey_update)
  moreover have "finalizeFulfillment h ?z w = (Inr (), u1 \<lparr>calls := Suc (calls u1),
      tables := snd (finalizeBatch ?z (h_now h k) (tables w))\<rparr>)"
    using u1(1) by (simp add: finalizeFulfillment_def bindA_step(1) catchA_def d1_quiet [OF assms(1)] b)
  ultimately show ?thesis using u1(2) by (auto simp: sameTables_def)
qed

lemma grantAndFinalize_quiet:
  assumes "quiet h" "\<And>k req. h_grant h k req = Inr ()" "tablesInv limit envOf (tables w)"
    and "fulfillmentByTransaction tx (tables w) = Some r" "finalWhere (finalizeInput tx v i attempt) r"
    and "purchaseIntentByToken (appAccountToken v) (tables w) = Some i" "i_status i = ''created''" "i_product_id i = productId v"
  shows "\<exists>a u r' i'. grantAndFinalize h tx v i amount attempt w = (Inr a, u) \<and> a_cycles a = natToDec amount \<and>
    fulfillmentByTransaction tx (tables u) = Some r' \<and> f_status r' = ''fulfilled'' \<and>
    purchaseIntentByToken (appAccountToken v) (tables u) = Some i' \<and> i_status i' = ''fulfilled'' \<and>
    i_transaction_id i' = Some tx \<and> grants u = grants w @ [grantRequest tx v i amount]"
proof -
  let ?u1 = "w \<lparr>calls := Suc (calls w), grants := grants w @ [grantRequest tx v i amount]\<rparr>"
  have g: "sendGrant h (grantRequest tx v i amount) w = (Inr (), ?u1)" using assms(2) by (simp add: sendGrant_def)
  obtain now u where f: "finalizeFulfillment h (finalizeInput tx v i attempt) ?u1 = (Inr (), u)"
    "fulfillmentByTransaction tx (tables u) = Some (finalSet now r)"
    "purchaseIntentByToken (appAccountToken v) (tables u) = Some (intentSet (finalizeInput tx v i attempt) now i)"
    "grants u = grants ?u1"
    using finalize_quiet [OF assms(1), of limit envOf ?u1 tx r v i attempt] assms(3-8) by auto
  have "grantAndFinalize h tx v i amount attempt w = (Inr \<lparr>a_transactionId = tx, a_databaseId = i_database_id i,
      a_purchaserPrincipal = i_purchaser_principal i, a_productId = productId v, a_cycles = natToDec amount\<rparr>, u)"
    using g f(1) by (simp add: grantAndFinalize_def bindA_step(1) catchA_step grantRequest_def finalizeInput_def)
  then show ?thesis using f by (auto simp: finalSet_def intentSet_def finalizeInput_def)
qed

text \<open>The activation of a verified transaction for a created intent.\<close>

definition readyIntent :: "World \<Rightarrow> VerifiedTransaction \<Rightarrow> PurchaseIntentRow \<Rightarrow> bool" where
  "readyIntent w v i \<longleftrightarrow> purchaseIntentByToken (appAccountToken v) (tables w) = Some i \<and>
     i_status i = ''created'' \<and> i_product_id i = productId v"

definition sandboxOpen :: "RuntimeEnv \<Rightarrow> World \<Rightarrow> VerifiedTransaction \<Rightarrow> bool" where
  "sandboxOpen env w v \<longleftrightarrow> (\<exists>p. sandboxFulfillmentPolicy env = Inr p \<and>
     (environment v = Sandbox \<longrightarrow> enabled p \<and> sandboxCount (iap_fulfillments (tables w)) < grantLimit p))"

lemma fulfillVerified_quiet:
  assumes ok: "hostOk limit envOf h env" and q: "quiet h" and g: "\<And>k req. h_grant h k req = Inr ()"
    and inv: "tablesInv limit envOf (tables w)" and e: "environment v = envOf tx"
    and ready: "readyIntent w v i" and sb: "sandboxOpen env w v"
    and cl: "\<And>r. fulfillmentByTransaction tx (tables w) = Some r \<Longrightarrow> claimable h i r"
  shows "\<exists>a u r' i' amount. fulfillVerified h env tx v w = (Inr a, u) \<and> a_cycles a = natToDec amount \<and>
    i_amount_cycles i = Some (natToDec amount) \<and>
    fulfillmentByTransaction tx (tables u) = Some r' \<and> f_status r' = ''fulfilled'' \<and>
    purchaseIntentByToken (appAccountToken v) (tables u) = Some i' \<and> i_status i' = ''fulfilled'' \<and>
    i_transaction_id i' = Some tx \<and> grants u = grants w @ [grantRequest tx v i amount]"
proof -
  note i = ready [unfolded readyIntent_def]
  from sb obtain p where p: "sandboxFulfillmentPolicy env = Inr p"
    "environment v = Sandbox \<Longrightarrow> enabled p \<and> sandboxCount (iap_fulfillments (tables w)) < grantLimit p"
    by (auto simp: sandboxOpen_def)
  with ok have l: "grantLimit p \<le> limit" by (simp add: hostOk_def)
  have "intentOk i" using i inv byKey_Some_D unfolding purchaseIntentByToken_byKey tablesInv_def by metis
  then obtain amount where am: "i_amount_cycles i = Some (natToDec amount)" "0 < amount" "amount \<le> maxCycles"
    by (auto simp: intentOk_def)
  have snap: "parseAmountCyclesSnapshot (i_amount_cycles i) = Inr amount" using am snapshot_ok by simp
  obtain u1 where u1: "validatePurchaseIntent h (appAccountToken v) (productId v) tx w = (Inr i, u1)" "sameTables w u1"
    using validate_quiet [OF q, of "appAccountToken v" w i "productId v" amount tx] i snap by auto
  obtain f u2 where u2: "ensureFulfillmentReceived h env tx (i_database_id i) (i_purchaser_principal i) (environment v)
      (grantLimit p) u1 = (Inr f, u2)" "claimable h i f" "fulfillmentByTransaction tx (tables u2) = Some f"
    "iap_purchase_intents (tables u2) = iap_purchase_intents (tables u1)" "grants u2 = grants u1"
    using ensure_quiet [OF q, of tx u1 i "environment v" "grantLimit p" env] cl p(2) u1(2) by (auto simp: sameTables_def)
  have inv1: "tablesInv limit envOf (tables u1)" using inv u1(2) by (simp add: sameTables_def)
  have inv2: "tablesInv limit envOf (tables u2)"
    using moves_inv [OF moves_ensureFulfillmentReceived [OF ok e l] inv1 u2(1)] by simp
  obtain attempt now u3 where u3:
    "markFulfillmentGranting h (grantingInput tx v i amount) u2 = (Inr (Inl attempt), u3)"
    "tables u3 = snd (updateGranting (grantingInput tx v i amount) attempt now (tables u2))"
    "fulfillmentByTransaction tx (tables u3) = Some (grantingSet (grantingInput tx v i amount) attempt now f)"
    "grants u3 = grants u2"
    using granting_quiet [OF q inv2 u2(3,2)] by blast
  have moves_ok: "g_environment (grantingInput tx v i amount) = environmentText (envOf (g_transactionId (grantingInput tx v i amount)))"
    by (simp add: grantingInput_def e)
  have inv3: "tablesInv limit envOf (tables u3)"
    using moves_inv [OF moves_markFulfillmentGranting [OF ok moves_ok] inv2 u3(1)] by simp
  have "f_transaction_id f = tx" using u2(3) byKey_Some_D unfolding fulfillmentByTransaction_byKey by metis
  then have fw: "finalWhere (finalizeInput tx v i attempt) (grantingSet (grantingInput tx v i amount) attempt now f)"
    using u2(2) by (simp add: finalWhere_def finalizeInput_def grantingSet_def grantingInput_def claimable_def)
  have i3: "purchaseIntentByToken (appAccountToken v) (tables u3) = Some i"
    using i u2(4) u1(2) by (simp add: u3(2) purchaseIntentByToken_def updateGranting_def sameTables_def)
  have nf: "f_status f \<noteq> ''fulfilled''" using u2(2) by (auto simp: claimable_def)
  have np: "(environment v = Sandbox \<and> \<not> enabled p) = False" using p(2) by blast
  have run: "fulfillVerified h env tx v w = grantAndFinalize h tx v i amount attempt u3"
    using p(1) u1(1) u2(1) u3(1) nf by (simp add: fulfillVerified_def bindA_step(1) snap np)
  show ?thesis
    using grantAndFinalize_quiet [OF q g inv3 u3(3) fw i3, of amount] i am(1) u3(4) u2(5) u1(2)
    unfolding run sameTables_def by metis
qed

lemma activateDatabase_quiet:
  assumes "hostOk limit envOf h env" and "quiet h" and "\<And>k req. h_grant h k req = Inr ()"
    and "tablesInv limit envOf (tables w)"
    and "transactionPayload jws = Inr payload" and "jget payload ''transactionId'' = Some (JStr tx)" and "trim tx \<noteq> []"
    and "optionalUuidText (jget payload ''appAccountToken'') ''appAccountToken'' = Inr token"
    and "\<And>k now. verifyStoreKitTransaction (h_sign h k) (h_fetch h k) now env jws = Inr v"
    and "readyIntent w v i" and "sandboxOpen env w v"
    and "\<And>r. fulfillmentByTransaction tx (tables w) = Some r \<Longrightarrow> claimable h i r"
  shows "\<exists>a w' r' i' amount. activateDatabase h env jws w = (Inr a, w') \<and> a_cycles a = natToDec amount \<and>
    i_amount_cycles i = Some (natToDec amount) \<and>
    fulfillmentByTransaction tx (tables w') = Some r' \<and> f_status r' = ''fulfilled'' \<and>
    purchaseIntentByToken (appAccountToken v) (tables w') = Some i' \<and> i_status i' = ''fulfilled'' \<and>
    i_transaction_id i' = Some tx \<and> grants w' = grants w @ [grantRequest tx v i amount]"
proof -
  have r: "requiredText (jget payload ''transactionId'') ''transactionId'' = Inr tx" using assms(6,7) by (simp add: result_simps)
  have "environment v = envOf (transactionId v)" using assms(1,9) unfolding hostOk_def by blast
  then have e: "environment v = envOf tx" using verified_transactionId [OF assms(9) assms(5) r] by simp
  obtain u1 where u1: "selectFulfillment h tx w = (Inr (fulfillmentByTransaction tx (tables w)), u1)" "sameTables w u1"
    using select_quiet(1) [OF assms(2)] by blast
  have nf: "f_status r \<noteq> ''fulfilled''" if "fulfillmentByTransaction tx (tables w) = Some r" for r
    using assms(12) [OF that] by (auto simp: claimable_def)
  have v: "verifyTransaction h env jws u1 = (Inr v, u1 \<lparr>calls := Suc (Suc (calls u1))\<rparr>)"
    using assms(9) by (simp add: verifyTransaction_def dateNow_def tick_def bindA_def)
  let ?u2 = "u1 \<lparr>calls := Suc (Suc (calls u1))\<rparr>"
  have t: "tables ?u2 = tables w" "grants ?u2 = grants w" using u1(2) by (simp_all add: sameTables_def)
  have run: "activateDatabase h env jws w = fulfillVerified h env tx v ?u2"
    using u1(1) v nf assms(5,8) r
    by (cases "fulfillmentByTransaction tx (tables w)") (simp_all add: activateDatabase_def bindA_step(1))
  show ?thesis
    using fulfillVerified_quiet [OF assms(1,2,3), of ?u2 v tx i] assms(4,10,11,12) e t
    unfolding run readyIntent_def sandboxOpen_def by simp
qed

text \<open>
  C6. Activation makes progress: when the App Store confirms the transaction, its purchase intent is
  still open, the sandbox policy admits it, and the transaction is new, or was received, failed, or
  abandoned for longer than the lease by an earlier attempt for the same owner, then an undisturbed
  run (no D1 failure, no concurrent request, the canister accepting) succeeds: exactly one grant is
  sent, for the amount the intent was created with and the owner it names, and transaction and
  intent end up fulfilled by each other.
\<close>

theorem activation_completes:
  assumes "hostOk limit envOf h env" and "quiet h" and "\<And>k req. h_grant h k req = Inr ()"
    and "tablesInv limit envOf (tables w)"
    and "transactionPayload jws = Inr payload" and "jget payload ''transactionId'' = Some (JStr tx)" and "trim tx \<noteq> []"
    and "optionalUuidText (jget payload ''appAccountToken'') ''appAccountToken'' = Inr token"
    and "\<And>k now. verifyStoreKitTransaction (h_sign h k) (h_fetch h k) now env jws = Inr v"
    and "readyIntent w v i" and "sandboxOpen env w v"
    and "\<And>r. fulfillmentByTransaction tx (tables w) = Some r \<Longrightarrow> claimable h i r"
  shows "\<exists>a w' r' i' amount. activateDatabase h env jws w = (Inr a, w') \<and> a_cycles a = natToDec amount \<and>
    i_amount_cycles i = Some (natToDec amount) \<and>
    fulfillmentByTransaction tx (tables w') = Some r' \<and> f_status r' = ''fulfilled'' \<and>
    purchaseIntentByToken (appAccountToken v) (tables w') = Some i' \<and> i_status i' = ''fulfilled'' \<and>
    i_transaction_id i' = Some tx \<and> grants w' = grants w @ [grantRequest tx v i amount]"
  using assms by (rule activateDatabase_quiet)

definition sampleIntent :: PurchaseIntentRow where
  "sampleIntent =
     \<lparr>i_app_account_token = sampleToken, i_database_id = ''db'', i_purchaser_principal = ''aaaaa-aa'',
      i_product_id = ''credits'', i_amount_cycles = Some (natToDec 5), i_status = ''created'', i_transaction_id = None,
      i_created_at_ms = 1, i_updated_at_ms = 1\<rparr>"

definition intentWorld :: World where
  "intentWorld = emptyWorld \<lparr>tables := emptyTables \<lparr>iap_purchase_intents := [sampleIntent]\<rparr>\<rparr>"

definition sampleVerified :: VerifiedTransaction where
  "sampleVerified =
     \<lparr>transactionId = ''77'', productId = ''credits'', bundleId = ''xyz.kinic'', environment = Production,
      appAccountToken = sampleToken\<rparr>"

lemma intentWorld_ok: "tablesInv 10 (\<lambda>tx. Production) (tables intentWorld)"
  by (auto simp: tablesInv_def intentWorld_def emptyTables_def sandboxCount_def keyed_def intentOk_def sampleIntent_def
      maxCycles_def intro!: exI [of _ 5])

lemma sampleHost_quiet: "quiet sampleHost" "h_grant sampleHost k req = Inr ()"
  by (simp_all add: quiet_def sampleHost_def)

lemma sampleHost_verifies:
  "verifyStoreKitTransaction (h_sign sampleHost k) (h_fetch sampleHost k) now sampleEnv (sampleJws ''77'') = Inr sampleVerified"
  using sample_verified by (simp add: sampleHost_def sampleVerified_def)

lemma intentWorld_ready:
  "readyIntent intentWorld sampleVerified sampleIntent" "sandboxOpen sampleEnv intentWorld sampleVerified"
  "fulfillmentByTransaction tx (tables intentWorld) = None"
  by (simp_all add: readyIntent_def sandboxOpen_def sample_policy sampleVerified_def intentWorld_def emptyTables_def
      sampleIntent_def purchaseIntentByToken_byKey fulfillmentByTransaction_byKey)

lemma sample_device:
  "jget (samplePayload ''77'') ''transactionId'' = Some (JStr ''77'')" "trim ''77'' \<noteq> []"
  "optionalUuidText (jget (samplePayload ''77'') ''appAccountToken'') ''appAccountToken'' = Inr (Some sampleToken)"
  by (simp_all add: samplePayload_def jget_def trim_no_space isJsSpace_def optionalUuidText_def requiredText_def sampleToken_ok)

lemma activation_completes_witness:
  "\<exists>a w'. activateDatabase sampleHost sampleEnv (sampleJws ''77'') intentWorld = (Inr a, w') \<and>
     a_cycles a = natToDec 5 \<and> map r_amountCycles (grants w') = [5]"
  using activation_completes [OF sampleHost_ok sampleHost_quiet intentWorld_ok sample_transactionPayload sample_device
      sampleHost_verifies intentWorld_ready(1,2)] intentWorld_ready(3)
  by (auto simp: sampleIntent_def grantRequest_def intentWorld_def emptyWorld_def)

lemma activation_recorded_witness:
  "\<exists>a w' r. activateDatabase sampleHost sampleEnv (sampleJws ''77'') intentWorld = (Inr a, w') \<and>
     fulfillmentByTransaction (a_transactionId a) (tables w') = Some r \<and> a_cycles a = f_cycles r"
proof -
  obtain a w' where "activateDatabase sampleHost sampleEnv (sampleJws ''77'') intentWorld = (Inr a, w')"
    using activateDatabase_quiet [OF sampleHost_ok sampleHost_quiet intentWorld_ok sample_transactionPayload sample_device
      sampleHost_verifies intentWorld_ready(1,2)] intentWorld_ready(3) by auto
  from activation_recorded [OF sampleHost_ok intentWorld_ok this] this show ?thesis by blast
qed

subsection \<open>What is asked of the canister\<close>

definition sameLog :: "World \<Rightarrow> World \<Rightarrow> bool" where
  "sameLog w u \<longleftrightarrow> grants u = grants w"

interpretation log: preorder_moves sameLog
  by unfold_locales (auto simp: sameLog_def)

lemma log_d1: "movesA sameLog (d1 h stmt)"
  by (auto simp: movesA_def sameLog_def d1_def Let_def split: option.split)

lemma log_calls [intro]:
  "movesA sameLog (tick f)" "movesA sameLog (dateNow h)" "movesA sameLog (randomUUID h)"
  "movesA sameLog (selectFulfillment h tx)" "movesA sameLog (selectIntent h token)"
  by (simp_all add: dateNow_def randomUUID_def selectFulfillment_def selectIntent_def log_d1)
    (simp_all add: movesA_def sameLog_def tick_def)

lemmas log_intros = log.moves_basic log.moves_bindA log.moves_catchA log.moves_if log.moves_option log.moves_sum log_d1 log_calls

lemma log_steps:
  "movesA sameLog (validatePurchaseIntent h token product tx)"
  "movesA sameLog (ensureFulfillmentReceived h env tx db pu e l)"
  "movesA sameLog (markFulfillmentGranting h inp)"
  "movesA sameLog (finalizeFulfillment h z)"
  "movesA sameLog (markFulfillmentFailed h tx attempt message)"
  "movesA sameLog (verifyTransaction h env jws)"
  unfolding validatePurchaseIntent_def ensureFulfillmentReceived_def markFulfillmentGranting_def
    finalizeFulfillment_def markFulfillmentFailed_def verifyTransaction_def
  by (intro log_intros)+

lemma grantAndFinalize_log:
  assumes "grantAndFinalize h tx v i amount attempt w = (res, w')"
  shows "grants w' = grants w @ [grantRequest tx v i amount]"
proof -
  let ?rest = "\<lambda>_::unit. bindA (catchA (finalizeFulfillment h (finalizeInput tx v i attempt))
          (\<lambda>error. bindA (catchA (markFulfillmentFailed h tx attempt (errorMessage error)) (\<lambda>_. retA ())) (\<lambda>_. throwA error)))
        (\<lambda>_. retA \<lparr>a_transactionId = tx, a_databaseId = i_database_id i, a_purchaserPrincipal = i_purchaser_principal i,
            a_productId = productId v, a_cycles = natToDec amount\<rparr>)"
  let ?fail = "\<lambda>error. bindA (catchA (markFulfillmentFailed h tx attempt (errorMessage error)) (\<lambda>_. retA ()))
        (\<lambda>_. throwA (ActivationError (''VFS grant failed: '' @ errorMessage error) 502 True)) :: unit handler"
  let ?u = "w \<lparr>calls := Suc (calls w), grants := grants w @ [grantRequest tx v i amount]\<rparr>"
  have g: "sendGrant h (grantRequest tx v i amount) w = (h_grant h (calls w) (grantRequest tx v i amount), ?u)"
    by (simp add: sendGrant_def)
  have m: "movesA sameLog (?rest x)" "movesA sameLog (?fail e)" for x e by (intro log_intros log_steps)+
  have run: "grantAndFinalize h tx v i amount attempt w = bindA (catchA (sendGrant h (grantRequest tx v i amount)) ?fail) ?rest w"
    by (simp add: grantAndFinalize_def grantRequest_def finalizeInput_def)
  have "movesA sameLog (bindA (?fail e) ?rest)" for e by (intro log_intros log_steps)
  note mf = this
  show ?thesis
  proof (cases "h_grant h (calls w) (grantRequest tx v i amount)")
    case (Inl e)
    then have "grantAndFinalize h tx v i amount attempt w = bindA (?fail e) ?rest ?u"
      unfolding run by (intro bindA_arg) (rule catchA_step(2), simp add: g)
    from movesA_D [OF mf this [symmetric, unfolded assms]] show ?thesis by (simp add: sameLog_def)
  next
    case (Inr x)
    then have "grantAndFinalize h tx v i amount attempt w = ?rest x ?u"
      unfolding run by (intro bindA_step(1) catchA_step(1)) (simp add: g)
    from movesA_D [OF m(1) this [symmetric, unfolded assms]] show ?thesis by (simp add: sameLog_def)
  qed
qed

lemma validate_Inr:
  assumes "validatePurchaseIntent h token product tx w = (Inr i, u)"
  shows "purchaseIntentByToken token (tables u) = Some i \<and> i_product_id i = product"
  using assms unfolding validatePurchaseIntent_def
  by (auto elim!: bindA_Inr_E dest!: select_Inr split: option.splits if_splits)

definition grantedFrom :: "string \<Rightarrow> VerifiedTransaction \<Rightarrow> World \<Rightarrow> World \<Rightarrow> bool" where
  "grantedFrom tx v w w' \<longleftrightarrow> (\<exists>i amount. purchaseIntentByToken (appAccountToken v) (tables w') = Some i \<and>
     i_product_id i = productId v \<and> parseAmountCyclesSnapshot (i_amount_cycles i) = Inr amount \<and>
     grants w' = grants w @ [grantRequest tx v i amount])"

lemma claim_log:
  assumes ok: "hostOk limit envOf h env" and inv: "tablesInv limit envOf (tables w)" and e: "environment v = envOf tx"
    and i: "purchaseIntentByToken (appAccountToken v) (tables w) = Some i" "i_product_id i = productId v"
    and run: "bindA (liftR (parseAmountCyclesSnapshot (i_amount_cycles i))) (\<lambda>amountCycles.
           bindA (markFulfillmentGranting h (grantingInput tx v i amountCycles)) (\<lambda>claim.
           case claim of Inl attemptId \<Rightarrow> grantAndFinalize h tx v i amountCycles attemptId
           | Inr f' \<Rightarrow> liftR (fulfilledActivationResponse f' (Some (appAccountToken v))))) w = (res, w')"
  shows "grants w' = grants w \<or> grantedFrom tx v w w'"
proof (cases "parseAmountCyclesSnapshot (i_amount_cycles i)")
  case (Inl e)
  with run show ?thesis by simp
next
  case (Inr amount)
  let ?k = "\<lambda>claim. case claim of Inl attemptId \<Rightarrow> grantAndFinalize h tx v i amount attemptId
           | Inr f' \<Rightarrow> liftR (fulfilledActivationResponse f' (Some (appAccountToken v)))"
  have run': "bindA (markFulfillmentGranting h (grantingInput tx v i amount)) ?k w = (res, w')"
    using run Inr by simp
  have gi: "g_environment (grantingInput tx v i amount) = environmentText (envOf (g_transactionId (grantingInput tx v i amount)))"
    by (simp add: grantingInput_def e)
  show ?thesis
  proof (cases rule: bindA_cases [of "markFulfillmentGranting h (grantingInput tx v i amount)" w ?k])
    case (fail e t)
    then show ?thesis using run' movesA_D [OF log_steps(3) fail(1)] by (simp add: sameLog_def)
  next
    case (ok claim t)
    have lt: "grants t = grants w" using movesA_D [OF log_steps(3) ok(1)] by (simp add: sameLog_def)
    have it: "tablesInv limit envOf (tables t)" "advances (tables w) (tables t)"
      using moves_inv [OF moves_markFulfillmentGranting [OF assms(1) gi] inv ok(1)] by simp_all
    show ?thesis
    proof (cases claim)
      case (Inl attempt)
      then have g: "grantAndFinalize h tx v i amount attempt t = (res, w')" using run' ok(2) by simp
      have "advances (tables w) (tables w')"
        using moves_inv [OF moves_grantAndFinalize [OF assms(1)] it(1) g] it(2) advances_trans by blast
      from advances_intent [OF this i(1)] obtain i' where
        "purchaseIntentByToken (appAccountToken v) (tables w') = Some i'" "intentKept i i'" .
      then show ?thesis
        using grantAndFinalize_log [OF g] i(2) Inr lt Inl \<open>parseAmountCyclesSnapshot (i_amount_cycles i) = Inr amount\<close>
        by (auto simp: grantedFrom_def intentKept_def grantRequest_def)
    next
      case (Inr f')
      then show ?thesis using run' ok(2) lt by simp
    qed
  qed
qed

lemma fulfillVerified_log:
  assumes ok: "hostOk limit envOf h env" and inv: "tablesInv limit envOf (tables w)" and e: "environment v = envOf tx"
    and run: "fulfillVerified h env tx v w = (res, w')"
  shows "grants w' = grants w \<or> grantedFrom tx v w w'"
proof (cases "\<exists>p. sandboxFulfillmentPolicy env = Inr p \<and> \<not> (environment v = Sandbox \<and> \<not> enabled p)")
  case False
  with run have "grants w' = grants w"
    by (cases "sandboxFulfillmentPolicy env") (auto simp: fulfillVerified_def)
  then show ?thesis by simp
next
  case True
  then obtain p where p: "sandboxFulfillmentPolicy env = Inr p" "(environment v = Sandbox \<and> \<not> enabled p) = False" by blast
  then have l: "grantLimit p \<le> limit" using ok by (simp add: hostOk_def)
  let ?claim = "\<lambda>intent. bindA (liftR (parseAmountCyclesSnapshot (i_amount_cycles intent))) (\<lambda>amountCycles.
           bindA (markFulfillmentGranting h (grantingInput tx v intent amountCycles)) (\<lambda>claim.
           case claim of Inl attemptId \<Rightarrow> grantAndFinalize h tx v intent amountCycles attemptId
           | Inr f' \<Rightarrow> liftR (fulfilledActivationResponse f' (Some (appAccountToken v)))))"
  let ?k2 = "\<lambda>intent f. if f_status f = ''fulfilled'' then liftR (fulfilledActivationResponse f (Some (appAccountToken v)))
      else ?claim intent"
  let ?ens = "\<lambda>intent. ensureFulfillmentReceived h env tx (i_database_id intent) (i_purchaser_principal intent)
      (environment v) (grantLimit p)"
  let ?k1 = "\<lambda>intent. bindA (?ens intent) (?k2 intent)"
  have run1: "bindA (validatePurchaseIntent h (appAccountToken v) (productId v) tx) ?k1 w = (res, w')"
    using run p by (simp add: fulfillVerified_def)
  show ?thesis
  proof (cases rule: bindA_cases [of "validatePurchaseIntent h (appAccountToken v) (productId v) tx" w ?k1])
    case (fail e t)
    then show ?thesis using run1 movesA_D [OF log_steps(1) fail(1)] by (simp add: sameLog_def)
  next
    case ok1: (ok i t)
    have lt: "grants t = grants w" using movesA_D [OF log_steps(1) ok1(1)] by (simp add: sameLog_def)
    have it: "tablesInv limit envOf (tables t)"
      using moves_inv [OF moves_validatePurchaseIntent [OF ok] inv ok1(1)] by simp
    show ?thesis
    proof (cases rule: bindA_cases [of "?ens i" t "?k2 i"])
      case (fail e u)
      then show ?thesis using run1 ok1 lt movesA_D [OF log_steps(2) fail(1)] by (simp add: sameLog_def)
    next
      case ok2: (ok f u)
      have lu: "grants u = grants w" using movesA_D [OF log_steps(2) ok2(1)] lt by (simp add: sameLog_def)
      have iu: "tablesInv limit envOf (tables u)" "advances (tables t) (tables u)"
        using moves_inv [OF moves_ensureFulfillmentReceived [OF ok e l] it ok2(1)] by simp_all
      have run2: "?k2 i f u = (res, w')" using run1 ok1 ok2 by simp
      show ?thesis
      proof (cases "f_status f = ''fulfilled''")
        case True
        then show ?thesis using run2 lu by simp
      next
        case False
        from validate_Inr [OF ok1(1)] obtain i' where i': "purchaseIntentByToken (appAccountToken v) (tables u) = Some i'"
          "intentKept i i'" "i_product_id i = productId v" using advances_intent [OF iu(2)] by metis
        have eqs: "grantingInput tx v i = grantingInput tx v i'" "grantAndFinalize h tx v i = grantAndFinalize h tx v i'"
          "i_amount_cycles i = i_amount_cycles i'"
          using i'(2) by (simp_all add: fun_eq_iff intentKept_def grantingInput_def grantAndFinalize_def)
        have "?claim i u = (res, w')" using run2 False by simp
        then have "?claim i' u = (res, w')" unfolding eqs .
        moreover have "i_product_id i' = productId v" using i'(2,3) by (simp add: intentKept_def)
        ultimately have "grants w' = grants u \<or> grantedFrom tx v u w'"
          using claim_log [OF ok iu(1) e i'(1)] by blast
        then show ?thesis using lu by (simp add: grantedFrom_def)
      qed
    qed
  qed
qed

text \<open>
  C1. The canister is asked for what was paid for: an activation, whether it succeeds or fails at any
  point, sends at most one grant request, and only for a transaction the App Store has confirmed;
  the request names that transaction as external payment, the database and purchaser of the
  purchase intent with the transaction's account token, and the amount recorded in that intent.
\<close>

theorem grant_matches_intent:
  assumes "hostOk limit envOf h env" and "tablesInv limit envOf (tables w)"
    and "activateDatabase h env jws w = (res, w')" and "grants w' \<noteq> grants w"
  shows "\<exists>k now v i amount. verifyStoreKitTransaction (h_sign h k) (h_fetch h k) now env jws = Inr v \<and>
    purchaseIntentByToken (appAccountToken v) (tables w') = Some i \<and> i_product_id i = productId v \<and>
    i_amount_cycles i = Some (natToDec amount) \<and> 0 < amount \<and> amount \<le> maxCycles \<and>
    grants w' = grants w @ [\<lparr>r_databaseId = i_database_id i, r_amountCycles = amount,
      r_externalPaymentId = transactionId v, r_provider = ''apple_iap'', r_productId = productId v,
      r_purchaserPrincipal = i_purchaser_principal i\<rparr>]"
proof -
  have inv': "tablesInv limit envOf (tables w')"
    using moves_inv [OF moves_activateDatabase [OF assms(1)] assms(2,3)] by simp
  let ?verify = "\<lambda>tx. bindA (verifyTransaction h env jws) (fulfillVerified h env tx)"
  from assms(3,4) obtain payload tx token where
    p: "transactionPayload jws = Inr payload" "requiredText (jget payload ''transactionId'') ''transactionId'' = Inr tx"
      "optionalUuidText (jget payload ''appAccountToken'') ''appAccountToken'' = Inr token"
    by (cases "transactionPayload jws";
        cases "requiredText (jget (projr (transactionPayload jws)) ''transactionId'') ''transactionId''";
        cases "optionalUuidText (jget (projr (transactionPayload jws)) ''appAccountToken'') ''appAccountToken''")
      (auto simp: activateDatabase_def)
  let ?k = "\<lambda>found. case found of
      None \<Rightarrow> ?verify tx
    | Some f \<Rightarrow> if f_status f = ''fulfilled'' then liftR (fulfilledActivationResponse f token) else ?verify tx"
  have run: "bindA (selectFulfillment h tx) ?k w = (res, w')" using assms(3) p by (simp add: activateDatabase_def)
  obtain found u where s: "selectFulfillment h tx w = (Inr found, u)" "?k found u = (res, w')"
  proof (cases rule: bindA_cases [of "selectFulfillment h tx" w ?k])
    case (fail e t)
    with run movesA_D [OF log_calls(4) fail(1)] assms(4) show ?thesis by (simp add: sameLog_def)
  next
    case (ok found u)
    with run that show ?thesis by simp
  qed
  have lu: "grants u = grants w" using movesA_D [OF log_calls(4) s(1)] by (simp add: sameLog_def)
  have iu: "tablesInv limit envOf (tables u)" using moves_inv [OF moves_select(1) [OF assms(1)] assms(2) s(1)] by simp
  have ver: "?verify tx u = (res, w')"
    using s(2) lu assms(4) by (auto split: option.splits if_splits)
  obtain v u2 where v: "verifyTransaction h env jws u = (Inr v, u2)" "fulfillVerified h env tx v u2 = (res, w')"
  proof (cases rule: bindA_cases [of "verifyTransaction h env jws" u "fulfillVerified h env tx"])
    case (fail e t)
    with ver movesA_D [OF log_steps(6) fail(1)] assms(4) lu show ?thesis by (simp add: sameLog_def)
  next
    case (ok v u2)
    with ver that show ?thesis by simp
  qed
  have l2: "grants u2 = grants w" using movesA_D [OF log_steps(6) v(1)] lu by (simp add: sameLog_def)
  have i2: "tablesInv limit envOf (tables u2)" using moves_inv [OF moves_verifyTransaction iu v(1)] by simp
  from v(1) obtain k now where k: "verifyStoreKitTransaction (h_sign h k) (h_fetch h k) now env jws = Inr v"
    by (rule verifyTransaction_result)
  have tx: "transactionId v = tx" using verified_transactionId [OF k p(1,2)] .
  have "environment v = envOf tx" using k assms(1) tx unfolding hostOk_def by blast
  from fulfillVerified_log [OF assms(1) i2 this v(2)] assms(4) l2 have "grantedFrom tx v u2 w'" by simp
  then obtain i amount where g: "purchaseIntentByToken (appAccountToken v) (tables w') = Some i"
    "i_product_id i = productId v" "parseAmountCyclesSnapshot (i_amount_cycles i) = Inr amount"
    "grants w' = grants w @ [grantRequest tx v i amount]" by (auto simp: grantedFrom_def l2)
  have "intentOk i" using g(1) inv' byKey_Some_D unfolding purchaseIntentByToken_byKey tablesInv_def by metis
  then obtain n where n: "i_amount_cycles i = Some (natToDec n)" "0 < n" "n \<le> maxCycles" by (auto simp: intentOk_def)
  then have "n = amount" using g(3) snapshot_ok by simp
  with k g n tx show ?thesis unfolding grantRequest_def by blast
qed

lemma grant_matches_intent_witness:
  "\<exists>i. purchaseIntentByToken sampleToken
         (tables (snd (activateDatabase sampleHost sampleEnv (sampleJws ''77'') intentWorld))) = Some i \<and>
     i_amount_cycles i = Some (natToDec 5)"
proof -
  obtain a w' where r: "activateDatabase sampleHost sampleEnv (sampleJws ''77'') intentWorld = (Inr a, w')"
    and g: "grants w' = [grantRequest ''77'' sampleVerified sampleIntent 5]"
    using activateDatabase_quiet [OF sampleHost_ok sampleHost_quiet intentWorld_ok sample_transactionPayload sample_device
      sampleHost_verifies intentWorld_ready(1,2)] intentWorld_ready(3)
    by (auto simp: sampleIntent_def grantRequest_def intentWorld_def emptyWorld_def)
  have "grants w' \<noteq> grants intentWorld" using g by (simp add: intentWorld_def emptyWorld_def)
  from grant_matches_intent [OF sampleHost_ok intentWorld_ok r this] obtain k now v i amount where
    "verifyStoreKitTransaction (h_sign sampleHost k) (h_fetch sampleHost k) now sampleEnv (sampleJws ''77'') = Inr v"
    "purchaseIntentByToken (appAccountToken v) (tables w') = Some i" "i_amount_cycles i = Some (natToDec amount)"
    "map r_amountCycles (grants w') = map r_amountCycles (grants intentWorld) @ [amount]" by auto
  then show ?thesis
    using r g by (auto simp: sampleHost_verifies sampleVerified_def grantRequest_def intentWorld_def emptyWorld_def)
qed

subsection \<open>Exclusion while an attempt is running\<close>

text \<open>
  C5. One attempt at a time: once an attempt has claimed a transaction, then for as long as the lease
  runs no sequence of statements of other requests (other attempt identifiers, at times before the
  lease ends) changes the row at all; so another claim within the lease changes nothing and reports
  that nothing changed, and the attempt's own finalisation still finds its row.
\<close>

theorem lease_excludes:
  assumes "tablesInv limit envOf t" and "updateGranting inp attempt now t = (1, t1)"
    and "(dbStep limit envOf (\<lambda>a later. a \<noteq> attempt \<and> later < now + FULFILLMENT_GRANT_LEASE_MS))\<^sup>*\<^sup>* t1 t2"
  shows "fulfillmentByTransaction (g_transactionId inp) t2 = fulfillmentByTransaction (g_transactionId inp) t1 \<and>
    (\<exists>r. fulfillmentByTransaction (g_transactionId inp) t2 = Some r \<and> f_status r = ''granting'' \<and>
       f_grant_attempt_id r = Some attempt \<and> f_cycles r = g_cycles inp) \<and>
    (\<forall>inp' attempt' later. g_transactionId inp' = g_transactionId inp \<and> later < now + FULFILLMENT_GRANT_LEASE_MS \<and>
       tablesInv limit envOf t2 \<longrightarrow> updateGranting inp' attempt' later t2 = (0, t2))"
proof -
  have snd1: "t1 = snd (updateGranting inp attempt now t)" "fst (updateGranting inp attempt now t) = 1" using assms(2) by simp_all
  from claimed_row [OF assms(1) snd1(2)] obtain r0 where
    r1: "fulfillmentByTransaction (g_transactionId inp) t1 = Some (grantingSet inp attempt now r0)" unfolding snd1(1) .
  let ?r = "grantingSet inp attempt now r0"
  have f: "f_status ?r = ''granting''" "f_grant_attempt_id ?r = Some attempt" "f_updated_at_ms ?r = now" "f_cycles ?r = g_cycles inp"
    by (simp_all add: grantingSet_def)
  from assms(3) have r2: "byKey f_transaction_id (g_transactionId inp) (iap_fulfillments t2) = Some ?r"
  proof (induction rule: rtranclp_induct)
    case base
    then show ?case using r1 by (simp add: fulfillmentByTransaction_byKey)
  next
    case (step t2 t3)
    show ?case by (rule leased_step [OF step.hyps(2) _ step.IH]) (use f in auto)
  qed
  have "updateGranting inp' attempt' later t2 = (0, t2)"
    if "g_transactionId inp' = g_transactionId inp" "later < now + FULFILLMENT_GRANT_LEASE_MS" "tablesInv limit envOf t2"
    for inp' attempt' later
  proof -
    have "\<not> grantingWhere inp' later ?r" using that(2) f by (simp add: grantingWhere_def)
    then have "changesWhere (grantingWhere inp' later) (iap_fulfillments t2) = 0"
      using that(1,3) r2 changesWhere_keyed [of f_transaction_id "iap_fulfillments t2" "grantingWhere inp' later" "g_transactionId inp"]
      by (simp add: tablesInv_def grantingWhere_def)
    then show ?thesis by (simp add: updateGranting_def changesWhere_0)
  qed
  then show ?thesis using r1 r2 f by (auto simp: fulfillmentByTransaction_byKey)
qed

definition receivedTables :: Tables where
  "receivedTables = insertReceived ''77'' ''db'' ''aaaaa-aa'' ''Production'' ''xyz.kinic'' 10 5 emptyTables"

lemma lease_excludes_witness:
  "updateGranting (grantingInput ''77'' sampleVerified sampleIntent 5) ''second'' 200000
     (snd (updateGranting (grantingInput ''77'' sampleVerified sampleIntent 5) ''first'' 20 receivedTables)) =
   (0, snd (updateGranting (grantingInput ''77'' sampleVerified sampleIntent 5) ''first'' 20 receivedTables))"
proof -
  let ?inp = "grantingInput ''77'' sampleVerified sampleIntent 5"
  have i: "tablesInv 10 (\<lambda>tx. Production) receivedTables"
    using tablesInv_received [of 10 "\<lambda>tx. Production" emptyTables 5] emptyWorld_ok
    by (simp add: receivedTables_def emptyWorld_def)
  have "updateGranting ?inp ''first'' 20 receivedTables = (1, snd (updateGranting ?inp ''first'' 20 receivedTables))"
    by (simp add: updateGranting_def receivedTables_def insertReceived_def emptyTables_def insertOrIgnore_def hasKey_def
        changesWhere_def grantingWhere_def receivedRow_def grantingInput_def sampleIntent_def)
  moreover have "tablesInv 10 (\<lambda>tx. Production) (snd (updateGranting ?inp ''first'' 20 receivedTables))"
    using tablesInv_claim [OF i] by (simp add: grantingInput_def sampleVerified_def)
  ultimately show ?thesis
    using lease_excludes [OF i _ rtranclp.rtrancl_refl, of ?inp "''first''" 20] by (simp add: FULFILLMENT_GRANT_LEASE_MS_def)
qed

subsection \<open>The router\<close>

lemma answers_unlessLimited: "answersA k \<Longrightarrow> answersA (unlessLimited h endpoint p k)"
  unfolding unlessLimited_def rateLimitErrorResponse_def by (intro answersA_intros)

lemma answers_withJsonBody: "(\<And>b. answersA (k b)) \<Longrightarrow> answersA (withJsonBody request k)"
  unfolding withJsonBody_def by (intro answersA_intros)

definition limitedEndpoint :: "Request \<Rightarrow> string option" where
  "limitedEndpoint request =
     (if req_method request \<noteq> ''POST'' then None
      else if req_pathname request = ''/iap/purchase-intents'' then Some PURCHASE_INTENT_ENDPOINT
      else if req_pathname request = ''/iap/activate-database'' then Some ACTIVATE_DATABASE_ENDPOINT
      else None)"

text \<open>
  The worker answers every request, whatever the host does: no exception of D1, of the rate
  limiters, of the App Store call or of the canister escapes the router. A request to no known route
  gets 404 without touching anything, and a request the global limiter turns down gets 429 (503 when
  the limiter itself fails), with the tables and the grant log left as they are.
\<close>

theorem worker_answers:
  "(\<exists>r w'. workerFetch h env request w = (Inr r, w')) \<and>
   (req_method request \<noteq> ''POST'' \<or>
      req_pathname request \<notin> {''/iap/purchase-intents'', ''/iap/activate-database'', ''/iap/app-store-notifications''} \<longrightarrow>
      workerFetch h env request w = (Inr (jsonResponse (errorBody ''not found'') 404), w)) \<and>
   (\<forall>endpoint. limitedEndpoint request = Some endpoint \<and> h_limit h (calls w) endpoint \<noteq> Inr True \<longrightarrow>
      (\<exists>r w'. workerFetch h env request w = (Inr r, w') \<and> tables w' = tables w \<and> grants w' = grants w \<and>
         res_status r = (if h_limit h (calls w) endpoint = Inr False then 429 else 503)))"
proof (intro conjI)
  have "answersA (workerFetch h env request)"
    unfolding workerFetch_def purchaseIntentRoute_def activateRoute_def notificationRoute_def
    by (intro answersA_intros answers_unlessLimited answers_withJsonBody)
  then show "\<exists>r w'. workerFetch h env request w = (Inr r, w')" by (simp add: answersA_def)
  show "req_method request \<noteq> ''POST'' \<or>
      req_pathname request \<notin> {''/iap/purchase-intents'', ''/iap/activate-database'', ''/iap/app-store-notifications''} \<longrightarrow>
      workerFetch h env request w = (Inr (jsonResponse (errorBody ''not found'') 404), w)"
    by (auto simp: workerFetch_def)
  have limit: "\<exists>r w'. unlessLimited h endpoint None k w = (Inr r, w') \<and> tables w' = tables w \<and> grants w' = grants w \<and>
         res_status r = (if h_limit h (calls w) endpoint = Inr False then 429 else 503)"
    if "h_limit h (calls w) endpoint \<noteq> Inr True" for endpoint k
    using that by (cases "h_limit h (calls w) endpoint")
      (auto simp: unlessLimited_def rateLimitErrorResponse_def tick_def bindA_def catchA_def jsonResponse_def)
  show "\<forall>endpoint. limitedEndpoint request = Some endpoint \<and> h_limit h (calls w) endpoint \<noteq> Inr True \<longrightarrow>
      (\<exists>r w'. workerFetch h env request w = (Inr r, w') \<and> tables w' = tables w \<and> grants w' = grants w \<and>
         res_status r = (if h_limit h (calls w) endpoint = Inr False then 429 else 503))"
    using limit by (auto simp: limitedEndpoint_def workerFetch_def purchaseIntentRoute_def activateRoute_def split: if_splits)
qed

lemma worker_answers_witness:
  "workerFetch sampleHost sampleEnv \<lparr>req_method = ''GET'', req_pathname = ''/'', req_body = ''{}''\<rparr> emptyWorld =
   (Inr (jsonResponse (errorBody ''not found'') 404), emptyWorld)"
  using worker_answers [of sampleHost sampleEnv "\<lparr>req_method = ''GET'', req_pathname = ''/'', req_body = ''{}''\<rparr>" emptyWorld]
  by simp

lemma insertIntent_row:
  assumes "insertIntent token db purchaser product amount now t = Some t'"
  shows "purchaseIntentByToken token t = None"
    and "\<exists>i. purchaseIntentByToken token t' = Some i \<and> i_database_id i = db \<and> i_purchaser_principal i = purchaser \<and>
      i_product_id i = product \<and> i_status i = ''created'' \<and> i_amount_cycles i = Some amount"
proof -
  show n: "purchaseIntentByToken token t = None"
    using assms by (auto simp: insertIntent_def purchaseIntentByToken_byKey byKey_None_iff hasKey_iff split: if_splits)
  show "\<exists>i. purchaseIntentByToken token t' = Some i \<and> i_database_id i = db \<and> i_purchaser_principal i = purchaser \<and>
      i_product_id i = product \<and> i_status i = ''created'' \<and> i_amount_cycles i = Some amount"
    using assms n by (auto simp: insertIntent_def purchaseIntentByToken_byKey byKey_append_one split: if_splits)
qed

text \<open>
  An intent pins the price: creating a purchase intent succeeds only for a product of the
  server's catalogue, and stores under the returned token, which no earlier intent had, the requested
  database, purchaser and product, in state \<open>created\<close>, with exactly the catalogue's amount; reading that amount
  back at activation gives the catalogue's number.
\<close>

theorem intent_pins_price:
  assumes "hostOk limit envOf h env" and "tablesInv limit envOf (tables w)"
    and "createPurchaseIntent h env inp w = (Inr token, w')"
  shows "\<exists>catalog amount i. parseProductCatalog (h_numberText h) (IAP_PRODUCT_CATALOG_JSON env) = Inr catalog \<and>
    map_of catalog (q_productId inp) = Some amount \<and> purchaseIntentByToken token (tables w) = None \<and>
    purchaseIntentByToken token (tables w') = Some i \<and> i_database_id i = q_databaseId inp \<and>
    i_purchaser_principal i = q_purchaserPrincipal inp \<and> i_product_id i = q_productId inp \<and> i_status i = ''created'' \<and>
    parseAmountCyclesSnapshot (i_amount_cycles i) = Inr amount"
proof -
  from assms(3) obtain catalog amount where c: "parseProductCatalog (h_numberText h) (IAP_PRODUCT_CATALOG_JSON env) = Inr catalog"
    and m: "map_of catalog (q_productId inp) = Some amount"
    by (cases "parseProductCatalog (h_numberText h) (IAP_PRODUCT_CATALOG_JSON env)";
        cases "map_of (projr (parseProductCatalog (h_numberText h) (IAP_PRODUCT_CATALOG_JSON env))) (q_productId inp)")
      (auto simp: createPurchaseIntent_def)
  from assms(3) c m obtain now u1 uuid u2 where n: "dateNow h w = (Inr now, u1)" "randomUUID h u1 = (Inr uuid, u2)"
    and t: "token = toLowerCase uuid"
    and d: "d1 h (\<lambda>t. case insertIntent token (q_databaseId inp) (q_purchaserPrincipal inp) (q_productId inp)
          (natToDec amount) now t of None \<Rightarrow> (Inl (HostError ''UNIQUE constraint failed''), t) | Some t' \<Rightarrow> (Inr (), t')) u2
        = (Inr (), w')"
    by (auto simp: createPurchaseIntent_def Let_def elim!: bindA_Inr_E)
  have "tables u2 = tables w" using dateNow_Inr [OF n(1)] randomUUID_Inr [OF n(2)] by simp
  with d obtain k where ins: "insertIntent token (q_databaseId inp) (q_purchaserPrincipal inp) (q_productId inp)
      (natToDec amount) now (h_others h k (tables w)) = Some (tables w')"
    by (auto elim!: d1_Inr split: option.splits)
  have "purchaseIntentByToken token (tables w) = None"
    using insertIntent_row(1) [OF ins] others_advance [OF assms(1,2)] advances_intent by (metis not_Some_eq)
  moreover obtain entries where "parseEntries (h_numberText h) entries = Inr catalog"
    using c by (auto simp: parseProductCatalog_def result_simps split: option.splits if_splits)
  then have "catalogEntryOk (q_productId inp, amount)"
    using parseEntries_ok map_of_SomeD [OF m] by (metis list_all_iff)
  then have "parseAmountCyclesSnapshot (Some (natToDec amount)) = Inr amount"
    using snapshot_ok by (simp add: catalogEntryOk_def)
  ultimately show ?thesis using c m insertIntent_row(2) [OF ins] by fastforce
qed

definition catalogEnv :: RuntimeEnv where
  "catalogEnv = sampleEnv \<lparr>IAP_PRODUCT_CATALOG_JSON := stringify (JObj [(''credits'', JStr (natToDec 5))])\<rparr>"

lemma catalogEnv_ok: "hostOk 10 (\<lambda>tx. Production) sampleHost catalogEnv"
proof -
  have "sandboxFulfillmentPolicy catalogEnv = Inr \<lparr>enabled = True, grantLimit = 10\<rparr>"
    unfolding sample_policy [symmetric] sandboxFulfillmentPolicy_def Let_def catalogEnv_def by simp
  then show ?thesis unfolding hostOk_def using sampleFetch_environment by (auto simp: sampleHost_def)
qed

lemma intent_pins_price_witness:
  "\<exists>w' i. createPurchaseIntent sampleHost catalogEnv
     \<lparr>q_databaseId = ''db'', q_purchaserPrincipal = ''aaaaa-aa'', q_productId = ''credits''\<rparr> emptyWorld = (Inr sampleToken, w') \<and>
     purchaseIntentByToken sampleToken (tables w') = Some i \<and> i_database_id i = ''db''"
proof -
  let ?inp = "\<lparr>q_databaseId = ''db'', q_purchaserPrincipal = ''aaaaa-aa'', q_productId = ''credits''\<rparr>"
  have "parseProductCatalog num (stringify (JObj [(''credits'', JStr (natToDec 5))])) = Inr [(''credits'', 5)]" for num
    unfolding parseProductCatalog_def
    by (subst JSON_parse_stringify)
      (simp_all add: trim_no_space isJsSpace_def parseCycles_def positiveDecimal_natToDec maxCycles_def)
  then have c: "parseProductCatalog num (IAP_PRODUCT_CATALOG_JSON catalogEnv) = Inr [(''credits'', 5)]" for num
    by (simp add: catalogEnv_def)
  obtain w' where r: "createPurchaseIntent sampleHost catalogEnv ?inp emptyWorld = (Inr sampleToken, w')"
    by (simp add: createPurchaseIntent_def c dateNow_def randomUUID_def tick_def bindA_def d1_def Let_def sampleHost_def
        emptyWorld_def emptyTables_def insertIntent_def hasKey_def sampleToken_ok)
  from intent_pins_price [OF catalogEnv_ok emptyWorld_ok r] r show ?thesis by auto
qed

end
