(* ===== verification/Ii_Crypto.thy ===== *)
theory Ii_Crypto
  imports Js_Base64Url Js_Json
begin

section \<open>Shared server package: opaque secrets, hashes and encrypted values\<close>

text \<open>
  \<^verbatim>\<open>packages/ii-server/crypto.ts\<close>, used by the MCP and assistant workers: hashes of secrets, a
  comparison that does not stop at the first difference, and JSON values encrypted with AES-GCM under
  a context. WebCrypto is a record of parameters: the digest, the random bytes (by number of the call)
  and the AEAD, whose decryption fails with \<open>None\<close>.
\<close>

subsection \<open>Errors and parameters\<close>

datatype IiDelegationStage =
    origin_configuration | accounts_call | accounts_result | prepare_call | prepare_result
  | delegation_call | delegation_result | delegation_not_ready | identity_assembly

datatype IiRegistrationErrorCode = invalid_delegation | registration_rejected | temporarily_unavailable

datatype IiRegistrationStage = delegation_restore | actor_create | registration_call | registration_result

datatype ii_error =
    IiError string
  | IiSessionEndedError
  | IiDelegationError IiDelegationStage
  | IiRegistrationError IiRegistrationErrorCode IiRegistrationStage
  | IiHostError string

record WebCrypto =
  wc_digest :: "byte list \<Rightarrow> byte list"
  wc_random :: "nat \<Rightarrow> nat \<Rightarrow> byte list"
  wc_encrypt :: "byte list \<Rightarrow> byte list \<Rightarrow> byte list \<Rightarrow> byte list \<Rightarrow> byte list"
  wc_decrypt :: "byte list \<Rightarrow> byte list \<Rightarrow> byte list \<Rightarrow> byte list \<Rightarrow> byte list option"

record EncryptedValueV1 =
  ev_version :: nat
  ev_algorithm :: string
  ev_iv :: string
  ev_ciphertext :: string

subsection \<open>base64url\<close>

definition base64UrlEncode :: "byte list \<Rightarrow> string" where
  "base64UrlEncode bytes =
     stripTrailing (CHR ''='')
       (replaceChar (CHR ''/'') (CHR ''_'') (replaceChar (CHR ''+'') (CHR ''-'') (btoa bytes)))"

definition base64UrlDecode :: "string \<Rightarrow> ii_error + byte list" where
  "base64UrlDecode v =
     (if v \<noteq> [] \<and> \<not> isUrlSafeText v then Inl (IiError ''invalid base64url'')
      else
        let padded = padEnd ((length v + 3) div 4 * 4) (CHR ''='')
              (replaceChar (CHR ''_'') (CHR ''/'') (replaceChar (CHR ''-'') (CHR ''+'') v))
        in case atob padded of None \<Rightarrow> Inl (IiHostError ''atob'') | Some bytes \<Rightarrow> Inr bytes)"

subsection \<open>Secrets\<close>

definition randomOpaque :: "WebCrypto \<Rightarrow> nat \<Rightarrow> nat \<Rightarrow> string" where
  "randomOpaque wc k bytes = base64UrlEncode (wc_random wc k bytes)"

definition sha256 :: "WebCrypto \<Rightarrow> string \<Rightarrow> string" where
  "sha256 wc v = base64UrlEncode (wc_digest wc (utf8Encode v))"

text \<open>
  The accumulation loop of the comparisons: all code units are looked at, and the differences are
  collected with a bitwise OR of exclusive ORs on 32-bit integers.
\<close>

fun differenceLoop :: "nat list \<Rightarrow> nat list \<Rightarrow> 32 word \<Rightarrow> 32 word" where
  "differenceLoop (x # xs) (y # ys) difference =
     differenceLoop xs ys (or difference (xor (word_of_nat x) (word_of_nat y)))"
| "differenceLoop _ _ difference = difference"

definition secretEquals :: "WebCrypto \<Rightarrow> string \<Rightarrow> string \<Rightarrow> bool" where
  "secretEquals wc expectedHash candidate =
     (let actual = sha256 wc candidate;
          expectedBytes = utf8Encode expectedHash;
          actualBytes = utf8Encode actual
      in if length expectedBytes \<noteq> length actualBytes then False
         else differenceLoop (map unat expectedBytes) (map unat actualBytes) 0 = 0)"

subsection \<open>Encrypted values\<close>

definition decodeEncryptionKey :: "string \<Rightarrow> ii_error + byte list" where
  "decodeEncryptionKey v =
     (let trimmed = trim v in
      if trimmed = [] then Inl (IiError ''MCP_KEY_ENCRYPTION_KEY is required'')
      else
        bindR (tryR (base64UrlDecode (stripTrailing (CHR ''='')
                 (replaceChar (CHR ''/'') (CHR ''_'') (replaceChar (CHR ''+'') (CHR ''-'') trimmed))))
               (\<lambda>_. Inl (IiError ''MCP_KEY_ENCRYPTION_KEY must be base64 or base64url''))) (\<lambda>decoded.
          if length decoded \<noteq> 32 then Inl (IiError ''MCP_KEY_ENCRYPTION_KEY must decode to 32 bytes'')
          else Inr decoded))"

definition importEncryptionKey :: "string \<Rightarrow> ii_error + byte list" where
  "importEncryptionKey v = decodeEncryptionKey v"

definition encryptJson :: "WebCrypto \<Rightarrow> nat \<Rightarrow> json \<Rightarrow> string \<Rightarrow> string \<Rightarrow> ii_error + EncryptedValueV1" where
  "encryptJson wc k v keyText context =
     bindR (importEncryptionKey keyText) (\<lambda>key.
       let iv = wc_random wc k 12;
           ciphertext = wc_encrypt wc key iv (utf8Encode context) (utf8Encode (stringify v))
       in Inr \<lparr>ev_version = 1, ev_algorithm = ''AES-GCM'',
               ev_iv = base64UrlEncode iv, ev_ciphertext = base64UrlEncode ciphertext\<rparr>)"

definition decryptJson :: "WebCrypto \<Rightarrow> EncryptedValueV1 \<Rightarrow> string \<Rightarrow> string \<Rightarrow> ii_error + json" where
  "decryptJson wc v keyText context =
     (if ev_version v \<noteq> 1 \<or> ev_algorithm v \<noteq> ''AES-GCM'' then Inl (IiError ''unsupported encrypted value'')
      else
        bindR (importEncryptionKey keyText) (\<lambda>key.
        bindR (base64UrlDecode (ev_iv v)) (\<lambda>iv.
        bindR (base64UrlDecode (ev_ciphertext v)) (\<lambda>ciphertext.
          case wc_decrypt wc key iv (utf8Encode context) ciphertext of
            None \<Rightarrow> Inl (IiHostError ''decrypt'')
          | Some plaintext \<Rightarrow>
              (case utf8Decode plaintext of
                 None \<Rightarrow> Inl (IiHostError ''TextDecoder: outside Latin-1'')
               | Some t \<Rightarrow>
                   (case JSON_parse t of None \<Rightarrow> Inl (IiHostError ''JSON.parse'') | Some x \<Rightarrow> Inr x))))))"

subsection \<open>The comparison loop decides equality\<close>

lemma or_eq_0_word: "or (a :: 32 word) b = 0 \<longleftrightarrow> a = 0 \<and> b = 0"
  by (auto simp: bit_eq_iff bit_or_iff)

lemma xor_eq_0_word: "xor (a :: 32 word) b = 0 \<longleftrightarrow> a = b"
  by (auto simp: bit_eq_iff bit_xor_iff)

lemma differenceLoop_eq_0:
  assumes "length xs = length ys"
    and "list_all (\<lambda>n. n < 4294967296) xs" and "list_all (\<lambda>n. n < 4294967296) ys"
  shows "differenceLoop xs ys d = 0 \<longleftrightarrow> d = 0 \<and> xs = ys"
  using assms
proof (induction xs ys arbitrary: d rule: list_induct2)
  case Nil
  then show ?case by simp
next
  case (Cons x xs y ys)
  have "word_of_nat x = (word_of_nat y :: 32 word) \<longleftrightarrow> x = y"
    using Cons.prems by (auto simp: word_of_nat_eq_iff take_bit_nat_eq_self)
  with Cons show ?case by (auto simp: or_eq_0_word xor_eq_0_word)
qed

lemma utf8Encode_inject [simp]: "utf8Encode a = utf8Encode b \<longleftrightarrow> a = b"
  by (metis option.inject utf8Decode_utf8Encode)

lemma secretEquals_iff: "secretEquals wc h c \<longleftrightarrow> h = sha256 wc c"
proof -
  have small: "list_all (\<lambda>n. n < 4294967296) (map unat (bs :: byte list))" for bs
    by (auto simp: list_all_iff intro: less_trans [OF unat_byte_less])
  have "map unat xs = map unat ys \<longleftrightarrow> xs = (ys :: byte list)" for xs ys
    by (rule inj_map_eq_map) (simp add: inj_def word_unat_eq_iff)
  then show ?thesis
    by (auto simp: secretEquals_def Let_def differenceLoop_eq_0 small)
qed

subsection \<open>Round trips\<close>

lemma base64UrlEncode_url64: "base64UrlEncode bs = url64 bs"
  by (simp add: base64UrlEncode_def url64_def)

lemma base64UrlDecode_encode [simp]: "base64UrlDecode (base64UrlEncode bs) = Inr bs"
  using unurl64_url64 [of bs] url64_safe [of bs]
  by (auto simp: base64UrlDecode_def base64UrlEncode_url64 unurl64_def isUrlSafeText_def Let_def split: option.splits)

lemma sha256_safe: "sha256 wc v \<noteq> [] \<Longrightarrow> isUrlSafeText (sha256 wc v)"
  using url64_safe by (simp add: sha256_def base64UrlEncode_url64 isUrlSafeText_def)

lemma decodeEncryptionKey_encode:
  assumes "length bs = 32"
  shows "decodeEncryptionKey (base64UrlEncode bs) = Inr bs"
proof -
  let ?t = "base64UrlEncode bs"
  have safe: "97 \<le> charCode c \<and> charCode c \<le> 122 \<or> 65 \<le> charCode c \<and> charCode c \<le> 90 \<or>
      isDigit c \<or> c = CHR ''_'' \<or> c = CHR ''-''" if "c \<in> set ?t" for c
    using url64_safe [of bs] that by (simp add: base64UrlEncode_url64 list_all_iff)
  have "\<not> isJsSpace c" if "c \<in> set ?t" for c
    using safe [OF that] by (auto simp: isJsSpace_def isDigit_def)
  then have "trim ?t = ?t" by (intro trim_no_space) (simp add: list_all_iff)
  moreover have "CHR ''+'' \<notin> set ?t" "CHR ''/'' \<notin> set ?t" "CHR ''='' \<notin> set ?t"
    using safe [of "CHR ''+''"] safe [of "CHR ''/''"] safe [of "CHR ''=''"] by (auto simp: isDigit_def)
  moreover have "?t \<noteq> []" using assms by (auto simp: base64UrlEncode_url64)
  ultimately show ?thesis
    using assms by (simp add: decodeEncryptionKey_def Let_def replaceChar_id stripTrailing_id)
qed

text \<open>
  The contract of an authenticated cipher, as far as the package relies on it: what was encrypted
  under a key, nonce and associated data decrypts to itself under the same three.
\<close>

definition aeadOk :: "WebCrypto \<Rightarrow> bool" where
  "aeadOk wc \<longleftrightarrow> (\<forall>key iv aad p. wc_decrypt wc key iv aad (wc_encrypt wc key iv aad p) = Some p)"

lemma decrypt_encrypt:
  assumes "encryptJson wc k v keyText context = Inr e" and "wfJson v" and aead: "aeadOk wc"
  shows "decryptJson wc e keyText context = Inr v"
proof -
  from assms(1) obtain key where key: "importEncryptionKey keyText = Inr key"
    and e: "e = \<lparr>ev_version = 1, ev_algorithm = ''AES-GCM'', ev_iv = base64UrlEncode (wc_random wc k 12),
      ev_ciphertext = base64UrlEncode (wc_encrypt wc key (wc_random wc k 12) (utf8Encode context) (utf8Encode (stringify v)))\<rparr>"
    by (auto simp: encryptJson_def Let_def result_simps)
  show ?thesis
    using aead key assms(2)
    by (simp add: e decryptJson_def aeadOk_def JSON_parse_stringify)
qed

end
