(* ===== verification/Ii_Identity.thy ===== *)
theory Ii_Identity
  imports Ii_Crypto
begin

section \<open>Shared server package: Internet Identity delegations\<close>

text \<open>
  \<^verbatim>\<open>packages/ii-server/internet-identity.ts\<close>: redeeming an MCP registration, minting a per-app
  delegation and restoring one from its cached material. The SDK is a record of parameters over its
  own types of keys, delegation chains and identities; the canister is a record of the answers of the
  calls one operation makes (\<open>None\<close> a call that threw, \<open>Inl\<close> the canister's \<open>Err\<close>), the calls
  of \<open>mcp_get_delegation\<close> numbered by attempt.
\<close>

subsection \<open>Data\<close>

datatype IiPermission = queries | all_actions

datatype AccountDelegationError = InternalCanisterError string | Unauthorized string | NoSuchDelegation

record PreparedDelegation =
  pd_user_key :: "byte list"
  pd_expiration :: nat
  pd_account_number :: "nat option"

record RawSignedDelegation =
  sd_pubkey :: "byte list"
  sd_expiration :: nat
  sd_targets :: "string list option"
  sd_permissions :: "string option"
  sd_signature :: "byte list"

record Registration =
  reg_expiration :: nat
  reg_permissions :: IiPermission

record InternetIdentityActor =
  mcp_register_v2 :: "byte list \<Rightarrow> (string + Registration) option"
  mcp_get_accounts :: "string \<Rightarrow> (AccountDelegationError + nat option list) option"
  mcp_prepare_delegation :: "string \<Rightarrow> byte list \<Rightarrow> nat \<Rightarrow> (AccountDelegationError + PreparedDelegation) option"
  mcp_get_delegation :: "nat \<Rightarrow> string \<Rightarrow> nat option \<Rightarrow> byte list \<Rightarrow> nat \<Rightarrow>
    (AccountDelegationError + RawSignedDelegation) option"

record ('key, 'chain, 'ident) IiSdk =
  sdk_generate :: "nat \<Rightarrow> 'key"
  sdk_keyJson :: "'key \<Rightarrow> json"
  sdk_keyOf :: "json \<Rightarrow> ii_error + 'key"
  sdk_publicDer :: "'key \<Rightarrow> byte list"
  sdk_chain :: "RawSignedDelegation \<Rightarrow> byte list \<Rightarrow> ii_error + 'chain"
  sdk_chainJson :: "'chain \<Rightarrow> json"
  sdk_chainOf :: "json \<Rightarrow> ii_error + 'chain"
  sdk_chainOfText :: "string \<Rightarrow> ii_error + 'chain"
  sdk_chainValid :: "int \<Rightarrow> 'chain \<Rightarrow> bool"
  sdk_expirations :: "'chain \<Rightarrow> nat list"
  sdk_identity :: "'key \<Rightarrow> 'chain \<Rightarrow> ii_error + 'ident"
  sdk_keyActor :: "'key \<Rightarrow> ii_error + InternetIdentityActor"
  sdk_identityActor :: "'ident \<Rightarrow> ii_error + InternetIdentityActor"

record KinicDelegationMaterialV1 =
  dm_version :: nat
  dm_targetOrigin :: string
  dm_expiresAt :: nat
  dm_appKey :: json
  dm_delegation :: json

definition MAX_SAFE_INTEGER :: nat where
  "MAX_SAFE_INTEGER = 9007199254740991"

definition PER_APP_DELEGATION_TTL_NS :: nat where
  "PER_APP_DELEGATION_TTL_NS = 5 * 60 * 1000000000"

text \<open>
  The JSON form of the material, as \<open>JSON.stringify\<close> writes it and \<open>JSON.parse\<close> returns it; a
  value of another shape is \<open>None\<close>.
\<close>

definition materialJson :: "KinicDelegationMaterialV1 \<Rightarrow> json" where
  "materialJson m = JObj [
     (''version'', JNum (natToDec (dm_version m))),
     (''targetOrigin'', JStr (dm_targetOrigin m)),
     (''expiresAt'', JNum (natToDec (dm_expiresAt m))),
     (''appKey'', dm_appKey m),
     (''delegation'', dm_delegation m)]"

definition jsonNat :: "json option \<Rightarrow> nat option" where
  "jsonNat v = (case v of Some (JNum l) \<Rightarrow> if l = ''0'' \<or> positiveDecimal l then Some (decToNat l) else None | _ \<Rightarrow> None)"

definition jsonText :: "json option \<Rightarrow> string option" where
  "jsonText v = (case v of Some (JStr s) \<Rightarrow> Some s | _ \<Rightarrow> None)"

definition materialOf :: "json \<Rightarrow> KinicDelegationMaterialV1 option" where
  "materialOf v =
     (case asObject v of None \<Rightarrow> None
      | Some ps \<Rightarrow>
          (case (jsonNat (jget ps ''version''), jsonText (jget ps ''targetOrigin''),
                 jsonNat (jget ps ''expiresAt''), jget ps ''appKey'', jget ps ''delegation'') of
             (Some version, Some origin, Some expiresAt, Some appKey, Some delegation) \<Rightarrow>
               Some \<lparr>dm_version = version, dm_targetOrigin = origin, dm_expiresAt = expiresAt,
                     dm_appKey = appKey, dm_delegation = delegation\<rparr>
           | _ \<Rightarrow> None))"

subsection \<open>Registration\<close>

definition nanosecondsToMilliseconds :: "nat \<Rightarrow> ii_error + nat" where
  "nanosecondsToMilliseconds v =
     (let milliseconds = v div 1000000 in
      if milliseconds > MAX_SAFE_INTEGER then Inl (IiError ''Internet Identity expiration is out of range'')
      else Inr milliseconds)"

definition restoreIiKey :: "('key, 'chain, 'ident) IiSdk \<Rightarrow> json \<Rightarrow> ii_error + 'key" where
  "restoreIiKey sdk v = sdk_keyOf sdk v"

definition restoreRegistrationIdentity ::
    "('key, 'chain, 'ident) IiSdk \<Rightarrow> 'key \<Rightarrow> string \<Rightarrow> ii_error + 'ident" where
  "restoreRegistrationIdentity sdk registrationKey delegationJson =
     tryR (bindR (sdk_chainOfText sdk delegationJson) (\<lambda>chain. sdk_identity sdk registrationKey chain))
       (\<lambda>_. Inl (IiRegistrationError invalid_delegation delegation_restore))"

definition redeemRegistration ::
    "('key, 'chain, 'ident) IiSdk \<Rightarrow> 'key \<Rightarrow> 'key \<Rightarrow> string \<Rightarrow> InternetIdentityActor option
     \<Rightarrow> ii_error + (nat \<times> IiPermission)" where
  "redeemRegistration sdk registrationKey sessionKey delegationJson actorOverride =
     bindR (case actorOverride of
              Some actor \<Rightarrow> Inr actor
            | None \<Rightarrow>
                bindR (restoreRegistrationIdentity sdk registrationKey delegationJson) (\<lambda>identity.
                  tryR (sdk_identityActor sdk identity)
                    (\<lambda>_. Inl (IiRegistrationError temporarily_unavailable actor_create)))) (\<lambda>actor.
       case mcp_register_v2 actor (sdk_publicDer sdk sessionKey) of
         None \<Rightarrow> Inl (IiRegistrationError temporarily_unavailable registration_call)
       | Some (Inl err) \<Rightarrow> Inl (IiRegistrationError registration_rejected registration_result)
       | Some (Inr ok) \<Rightarrow>
           bindR (nanosecondsToMilliseconds (reg_expiration ok)) (\<lambda>grantExpiresAt.
             Inr (grantExpiresAt, reg_permissions ok)))"

subsection \<open>Minting\<close>

definition unwrapIiResult :: "AccountDelegationError + 'a \<Rightarrow> IiDelegationStage \<Rightarrow> ii_error + 'a" where
  "unwrapIiResult result stage =
     (case result of
        Inr ok \<Rightarrow> Inr ok
      | Inl (Unauthorized p) \<Rightarrow> Inl IiSessionEndedError
      | Inl _ \<Rightarrow> Inl (IiDelegationError stage))"

text \<open>\<open>left\<close> counts the attempts that remain of the loop's five.\<close>

fun preparedLoop :: "(nat \<Rightarrow> (AccountDelegationError + 'd) option) \<Rightarrow> nat \<Rightarrow> nat \<Rightarrow> ii_error + 'd" where
  "preparedLoop call attempt 0 = Inl (IiDelegationError delegation_not_ready)"
| "preparedLoop call attempt (Suc left) =
     (case call attempt of
        None \<Rightarrow> Inl (IiDelegationError delegation_call)
      | Some (Inr ok) \<Rightarrow> Inr ok
      | Some (Inl (Unauthorized p)) \<Rightarrow> Inl IiSessionEndedError
      | Some (Inl NoSuchDelegation) \<Rightarrow> preparedLoop call (Suc attempt) left
      | Some (Inl (InternalCanisterError m)) \<Rightarrow> Inl (IiDelegationError delegation_result))"

definition getPreparedDelegation ::
    "InternetIdentityActor \<Rightarrow> string \<Rightarrow> PreparedDelegation \<Rightarrow> byte list \<Rightarrow> ii_error + RawSignedDelegation" where
  "getPreparedDelegation actor targetOrigin prepared appPublicKey =
     preparedLoop (\<lambda>attempt. mcp_get_delegation actor attempt targetOrigin (pd_account_number prepared)
       appPublicKey (pd_expiration prepared)) 0 5"

definition assembleDelegation ::
    "('key, 'chain, 'ident) IiSdk \<Rightarrow> 'key \<Rightarrow> string \<Rightarrow> PreparedDelegation \<Rightarrow> RawSignedDelegation
     \<Rightarrow> ii_error + ('ident \<times> KinicDelegationMaterialV1)" where
  "assembleDelegation sdk appKey targetOrigin prepared signedDelegation =
     bindR (sdk_chain sdk signedDelegation (pd_user_key prepared)) (\<lambda>chain.
     bindR (sdk_identity sdk appKey chain) (\<lambda>identity.
     bindR (nanosecondsToMilliseconds (sd_expiration signedDelegation)) (\<lambda>expiresAt.
       Inr (identity, \<lparr>dm_version = 1, dm_targetOrigin = targetOrigin, dm_expiresAt = expiresAt,
         dm_appKey = sdk_keyJson sdk appKey, dm_delegation = sdk_chainJson sdk chain\<rparr>))))"

definition mintKinicDelegation ::
    "('key, 'chain, 'ident) IiSdk \<Rightarrow> nat \<Rightarrow> 'key \<Rightarrow> string \<Rightarrow> InternetIdentityActor option
     \<Rightarrow> ii_error + ('ident \<times> KinicDelegationMaterialV1)" where
  "mintKinicDelegation sdk k sessionKey targetOrigin actorOverride =
     bindR (case actorOverride of Some actor \<Rightarrow> Inr actor | None \<Rightarrow> sdk_keyActor sdk sessionKey) (\<lambda>actor.
       case mcp_get_accounts actor targetOrigin of
         None \<Rightarrow> Inl (IiDelegationError accounts_call)
       | Some accounts \<Rightarrow>
           bindR (unwrapIiResult accounts accounts_result) (\<lambda>_.
             let appKey = sdk_generate sdk k; appPublicKey = sdk_publicDer sdk appKey in
             case mcp_prepare_delegation actor targetOrigin appPublicKey PER_APP_DELEGATION_TTL_NS of
               None \<Rightarrow> Inl (IiDelegationError prepare_call)
             | Some prepareResult \<Rightarrow>
                 bindR (unwrapIiResult prepareResult prepare_result) (\<lambda>prepared.
                 bindR (getPreparedDelegation actor targetOrigin prepared appPublicKey) (\<lambda>signedDelegation.
                   if sd_permissions signedDelegation \<noteq> None \<and> sd_permissions signedDelegation \<noteq> Some ''queries''
                   then Inl (IiDelegationError identity_assembly)
                   else tryR (assembleDelegation sdk appKey targetOrigin prepared signedDelegation)
                          (\<lambda>_. Inl (IiDelegationError identity_assembly))))))"

definition mintKinicIdentity ::
    "('key, 'chain, 'ident) IiSdk \<Rightarrow> nat \<Rightarrow> 'key \<Rightarrow> string \<Rightarrow> InternetIdentityActor option \<Rightarrow> ii_error + 'ident" where
  "mintKinicIdentity sdk k sessionKey targetOrigin actorOverride =
     bindR (mintKinicDelegation sdk k sessionKey targetOrigin actorOverride) (\<lambda>minted. Inr (fst minted))"

subsection \<open>Restoring\<close>

text \<open>\<open>Math.min\<close> over no delegations is \<open>Infinity\<close>, here \<open>None\<close>.\<close>

definition delegationExpiresAt :: "nat list \<Rightarrow> ii_error + nat option" where
  "delegationExpiresAt expirations =
     bindR (mapR nanosecondsToMilliseconds expirations) (\<lambda>ms.
       Inr (if ms = [] then None else Some (foldr min (tl ms) (hd ms))))"

definition restoreChecked ::
    "('key, 'chain, 'ident) IiSdk \<Rightarrow> int \<Rightarrow> KinicDelegationMaterialV1 \<Rightarrow> string \<Rightarrow> int \<Rightarrow> ii_error + 'ident" where
  "restoreChecked sdk clock material targetOrigin now =
     (if dm_version material \<noteq> 1 \<or> dm_targetOrigin material \<noteq> targetOrigin \<or>
         \<not> dm_expiresAt material \<le> MAX_SAFE_INTEGER \<or> int (dm_expiresAt material) \<le> now
      then Inl (IiError ''cached delegation metadata is invalid'')
      else
        bindR (sdk_chainOf sdk (dm_delegation material)) (\<lambda>chain.
          if \<not> sdk_chainValid sdk clock chain then Inl (IiError ''cached delegation is invalid'')
          else
            bindR (delegationExpiresAt (sdk_expirations sdk chain)) (\<lambda>expiry.
              if expiry \<noteq> Some (dm_expiresAt material) then Inl (IiError ''cached delegation is invalid'')
              else bindR (restoreIiKey sdk (dm_appKey material)) (\<lambda>key. sdk_identity sdk key chain))))"

definition restoreKinicIdentity ::
    "('key, 'chain, 'ident) IiSdk \<Rightarrow> int \<Rightarrow> KinicDelegationMaterialV1 \<Rightarrow> string \<Rightarrow> int \<Rightarrow> ii_error + 'ident" where
  "restoreKinicIdentity sdk clock material targetOrigin now =
     tryR (restoreChecked sdk clock material targetOrigin now)
       (\<lambda>_. Inl (IiDelegationError identity_assembly))"

subsection \<open>The configured origin\<close>

text \<open>
  The WHATWG URL parser and the textual form of principals are parameters: \<open>parseUrl\<close> is
  \<open>new URL\<close> (\<open>None\<close> when it throws), \<open>principalText\<close> is \<open>Principal.fromText(x).toText()\<close>.
\<close>

record ParsedUrl =
  pu_origin :: string
  pu_protocol :: string
  pu_username :: string
  pu_password :: string
  pu_port :: string
  pu_pathname :: string
  pu_search :: string
  pu_hash :: string

definition trimmedOption :: "string option \<Rightarrow> string" where
  "trimmedOption v = (case v of None \<Rightarrow> [] | Some s \<Rightarrow> trim s)"

definition resolveKinicMcpTargetOrigin ::
    "(string \<Rightarrow> ParsedUrl option) \<Rightarrow> (string \<Rightarrow> string option) \<Rightarrow> string option \<Rightarrow> string option \<Rightarrow> ii_error + string" where
  "resolveKinicMcpTargetOrigin parseUrl principalText v canisterId =
     (let configuredOrigin = trimmedOption v; configuredCanisterId = trimmedOption canisterId in
      if configuredOrigin = [] \<or> configuredCanisterId = [] then Inl (IiDelegationError origin_configuration)
      else if principalText configuredCanisterId \<noteq> Some configuredCanisterId
      then Inl (IiDelegationError origin_configuration)
      else
        case parseUrl configuredOrigin of
          None \<Rightarrow> Inl (IiDelegationError origin_configuration)
        | Some parsed \<Rightarrow>
            let expectedOrigin = ''https://'' @ configuredCanisterId @ ''.ic0.app'' in
            if configuredOrigin \<noteq> expectedOrigin \<or> pu_origin parsed \<noteq> configuredOrigin \<or>
               pu_protocol parsed \<noteq> ''https:'' \<or> pu_username parsed \<noteq> [] \<or> pu_password parsed \<noteq> [] \<or>
               pu_port parsed \<noteq> [] \<or> pu_pathname parsed \<noteq> ''/'' \<or> pu_search parsed \<noteq> [] \<or> pu_hash parsed \<noteq> []
            then Inl (IiDelegationError origin_configuration)
            else Inr configuredOrigin)"

subsection \<open>Correctness\<close>

lemma preparedLoop_Inr_iff:
  "preparedLoop call n left = Inr d \<longleftrightarrow>
     (\<exists>i<left. call (n + i) = Some (Inr d) \<and> (\<forall>j<i. call (n + j) = Some (Inl NoSuchDelegation)))"
proof (induction left arbitrary: n)
  case 0
  then show ?case by simp
next
  case (Suc left)
  have shift: "(\<exists>i<Suc left. call (n + i) = Some (Inr d) \<and> (\<forall>j<i. call (n + j) = Some (Inl NoSuchDelegation))) \<longleftrightarrow>
    call n = Some (Inr d) \<or> call n = Some (Inl NoSuchDelegation) \<and>
      (\<exists>i<left. call (Suc n + i) = Some (Inr d) \<and> (\<forall>j<i. call (Suc n + j) = Some (Inl NoSuchDelegation)))"
    unfolding Ex_less_Suc2 All_less_Suc2 by auto
  show ?case
    unfolding shift using Suc.IH [of "Suc n"]
    by (auto split: option.split sum.split AccountDelegationError.split)
qed

lemma jsonNat_natToDec [simp]: "jsonNat (Some (JNum (natToDec n))) = Some n"
proof (cases "n = 0")
  case True
  then show ?thesis by (simp add: jsonNat_def natToDec.simps decToNat_def digitChar_eval digitValue_def)
next
  case False
  then show ?thesis by (simp add: jsonNat_def positiveDecimal_natToDec)
qed

lemma materialOf_materialJson [simp]: "materialOf (materialJson m) = Some m"
  by (cases m) (simp add: materialOf_def materialJson_def jget_def jsonText_def)

lemma resolve_origin:
  assumes "resolveKinicMcpTargetOrigin parseUrl principalText v canisterId = Inr origin"
  shows "origin = ''https://'' @ trimmedOption canisterId @ ''.ic0.app''" and "origin = trimmedOption v"
    and "principalText (trimmedOption canisterId) = Some (trimmedOption canisterId)"
  using assms
  unfolding resolveKinicMcpTargetOrigin_def Let_def
  by (simp_all split: if_splits option.splits)

lemma mint_material:
  assumes "mintKinicDelegation sdk k sessionKey targetOrigin actorOverride = Inr (identity, m)"
  shows "dm_version m = 1" and "dm_targetOrigin m = targetOrigin" and "dm_expiresAt m \<le> MAX_SAFE_INTEGER"
    and "\<exists>prepared signedDelegation. assembleDelegation sdk (sdk_generate sdk k) targetOrigin prepared signedDelegation
           = Inr (identity, m) \<and> sd_permissions signedDelegation \<in> {None, Some ''queries''}"
proof -
  from assms obtain prepared sg where
    a: "assembleDelegation sdk (sdk_generate sdk k) targetOrigin prepared sg = Inr (identity, m)"
    and p: "sd_permissions sg \<in> {None, Some ''queries''}"
    unfolding mintKinicDelegation_def Let_def
    by (auto simp: guard_simps)
  then show "\<exists>prepared sg. assembleDelegation sdk (sdk_generate sdk k) targetOrigin prepared sg
           = Inr (identity, m) \<and> sd_permissions sg \<in> {None, Some ''queries''}" by blast
  from a show "dm_version m = 1" "dm_targetOrigin m = targetOrigin" "dm_expiresAt m \<le> MAX_SAFE_INTEGER"
    by (auto simp: assembleDelegation_def result_simps nanosecondsToMilliseconds_def Let_def split: if_splits)
qed

text \<open>What the code relies on of the SDK: keys and chains survive their JSON form, and a chain assembled
  from one signed delegation expires when that delegation does.\<close>

definition sdkOk :: "('key, 'chain, 'ident) IiSdk \<Rightarrow> bool" where
  "sdkOk sdk \<longleftrightarrow>
     (\<forall>key. sdk_keyOf sdk (sdk_keyJson sdk key) = Inr key) \<and>
     (\<forall>chain. sdk_chainOf sdk (sdk_chainJson sdk chain) = Inr chain) \<and>
     (\<forall>d user chain. sdk_chain sdk d user = Inr chain \<longrightarrow> sdk_expirations sdk chain = [sd_expiration d])"

lemma restore_minted:
  assumes mint: "mintKinicDelegation sdk k sessionKey targetOrigin actorOverride = Inr (identity, m)"
    and sdk: "sdkOk sdk" and now: "now < int (dm_expiresAt m)"
    and valid: "\<And>chain. dm_delegation m = sdk_chainJson sdk chain \<Longrightarrow> sdk_chainValid sdk clock chain"
  shows "restoreKinicIdentity sdk clock m targetOrigin now = Inr identity"
proof -
  note m = mint_material [OF mint]
  from m(4) obtain prepared sg where
    a: "assembleDelegation sdk (sdk_generate sdk k) targetOrigin prepared sg = Inr (identity, m)" by blast
  then obtain chain expiresAt where c: "sdk_chain sdk sg (pd_user_key prepared) = Inr chain"
    "sdk_identity sdk (sdk_generate sdk k) chain = Inr identity"
    "nanosecondsToMilliseconds (sd_expiration sg) = Inr expiresAt" "dm_expiresAt m = expiresAt"
    "dm_appKey m = sdk_keyJson sdk (sdk_generate sdk k)" "dm_delegation m = sdk_chainJson sdk chain"
    by (auto simp: assembleDelegation_def result_simps)
  have e: "delegationExpiresAt (sdk_expirations sdk chain) = Inr (Some expiresAt)"
    using sdk c(1,3) by (simp add: sdkOk_def delegationExpiresAt_def)
  have "sdk_chainValid sdk clock chain" using valid c(6) by simp
  then show ?thesis
    using m(1-3) c e sdk now
    by (simp add: restoreKinicIdentity_def restoreChecked_def restoreIiKey_def sdkOk_def)
qed

lemma restore_fresh:
  "restoreKinicIdentity sdk clock m targetOrigin now = Inr identity \<Longrightarrow>
     dm_targetOrigin m = targetOrigin \<and> now < int (dm_expiresAt m) \<and> dm_expiresAt m \<le> MAX_SAFE_INTEGER"
  by (auto simp: restoreKinicIdentity_def restoreChecked_def tryR_def split: sum.splits if_splits)

end
