(* ===== verification/Mcp_Auth_State.thy ===== *)
theory Mcp_Auth_State
  imports Ii_Identity
begin

section \<open>MCP worker: the authorization state object\<close>

text \<open>
  \<^verbatim>\<open>workers/wiki-mcp/src/auth/state.ts\<close>, \<^verbatim>\<open>session-policy.ts\<close> and \<^verbatim>\<open>routing.ts\<close>. A durable object holds
  one record, an OAuth client or an authorization session, and one alarm. A method of the class is an
  action on its world: the storage and the number of host calls made so far. What a method does with
  storage between two awaits of other work is one \<open>section\<close>; the input gate of the object admits no
  other event inside it, and a transaction whose callback throws is rolled back. Between two sections
  other events may run: \<open>mh_others\<close> is what they have done to the storage when the \<open>k\<close>-th call of
  this one runs. Times are milliseconds; \<open>null\<close> is \<open>None\<close>, and the guards spell out which values the
  source's truthiness tests reject.
\<close>

subsection \<open>Policy and records\<close>

definition II_SESSION_TTL_MS :: int where
  "II_SESSION_TTL_MS = 30 * 24 * 60 * 60 * 1000"

definition REVIEW_SESSION_TTL_MS :: int where
  "REVIEW_SESSION_TTL_MS = 8 * 60 * 60 * 1000"

definition MAX_REFRESH_ROTATIONS :: nat where
  "MAX_REFRESH_ROTATIONS = 4096"

definition ACCESS_TOKEN_TTL_MS :: int where
  "ACCESS_TOKEN_TTL_MS = 60 * 60 * 1000"

definition AUTHORIZATION_CODE_TTL_MS :: int where
  "AUTHORIZATION_CODE_TTL_MS = 10 * 60 * 1000"

definition OAUTH_CLIENT_IDLE_TTL_MS :: int where
  "OAUTH_CLIENT_IDLE_TTL_MS = 180 * 24 * 60 * 60 * 1000"

definition DELEGATION_REFRESH_MARGIN_MS :: int where
  "DELEGATION_REFRESH_MARGIN_MS = 30000"

datatype ClientAuthMethod = AuthNone | client_secret_basic | client_secret_post

datatype GrantType = authorization_code | refresh_token

record OAuthClientRecordV2 =
  oc_clientId :: string
  oc_redirectUris :: "string list"
  oc_grantTypes :: "GrantType list"
  oc_tokenEndpointAuthMethod :: ClientAuthMethod
  oc_clientSecretHash :: "string option"
  oc_createdAt :: int
  oc_lastUsedAt :: int
  oc_clientExpiresAt :: int

datatype IdentitySource = internet_identity | review_service

datatype SessionPhase = pending | redeeming | authorized | active | invalid

record AuthorizationSessionRecordV5 =
  s_phase :: SessionPhase
  s_sessionId :: string
  s_clientId :: string
  s_redirectUri :: string
  s_oauthState :: string
  s_scope :: string
  s_resource :: string
  s_codeChallenge :: string
  s_connectStateHash :: string
  s_cookieHash :: string
  s_registrationPublicKey :: string
  s_registrationKey :: "EncryptedValueV1 option"
  s_sessionKey :: "EncryptedValueV1 option"
  s_pendingCodeHash :: "string option"
  s_consumedCodeHash :: "string option"
  s_accessTokenHash :: "string option"
  s_accessTokenExpiresAt :: "int option"
  s_currentRefreshTokenHash :: "string option"
  s_spentRefreshTokenHashes :: "string list"
  s_createdAt :: int
  s_sessionCapAt :: int
  s_connectExpiresAt :: int
  s_authorizationCodeExpiresAt :: "int option"
  s_sessionExpiresAt :: "int option"
  s_identitySource :: "IdentitySource option"
  s_actionPermission :: "IiPermission option"
  s_reviewAccessVersion :: "string option"
  s_cachedDelegation :: "EncryptedValueV1 option"
  s_cachedDelegationTargetOrigin :: "string option"
  s_cachedDelegationExpiresAt :: "int option"

record AuthorizationSessionInput =
  in_sessionId :: string
  in_clientId :: string
  in_redirectUri :: string
  in_oauthState :: string
  in_scope :: string
  in_resource :: string
  in_codeChallenge :: string
  in_connectStateHash :: string
  in_cookieHash :: string
  in_registrationPublicKey :: string
  in_registrationKey :: "EncryptedValueV1 option"
  in_sessionKey :: "EncryptedValueV1 option"
  in_createdAt :: int
  in_sessionCapAt :: int
  in_connectExpiresAt :: int

datatype AuthStateRecordV5 =
    OAuthClient OAuthClientRecordV2
  | AuthorizationSession AuthorizationSessionRecordV5

record TokenIssueResult =
  ti_accessToken :: string
  ti_refreshToken :: "string option"
  ti_accessExpiresAt :: "int option"
  ti_sessionExpiresAt :: int
  ti_scope :: string
  ti_resource :: string

datatype TokenOperationResult = Issued TokenIssueResult | InvalidRequest | Replay

datatype mint_stage = DelegationStage IiDelegationStage | delegation_cache

datatype AccessTokenAuthentication =
    InvalidToken
  | ValidToken string IiPermission IdentitySource "KinicDelegationMaterialV1 option"
  | TemporarilyUnavailable mint_stage

record TokenMaterial =
  tm_accessToken :: string
  tm_accessTokenHash :: string
  tm_refreshToken :: string
  tm_refreshTokenHash :: string
  tm_now :: int

record McpEnv =
  mcp_MCP_ACCESS_POLICY :: string
  mcp_MCP_REVIEW_ACCESS_VERSION :: "string option"
  mcp_MCP_KEY_ENCRYPTION_KEY :: "string option"
  mcp_KINIC_WIKI_MCP_TARGET_ORIGIN :: "string option"
  mcp_KINIC_WIKI_CANISTER_ID :: "string option"

subsection \<open>Routing\<close>

definition sessionName :: "string \<Rightarrow> string" where
  "sessionName sessionId = ''session:'' @ sessionId"

definition parseRoutedToken :: "string \<Rightarrow> string \<Rightarrow> string option" where
  "parseRoutedToken token prefix =
     (let parts = splitOn (CHR ''.'') token in
      if length parts = 3 \<and> parts ! 0 = prefix \<and> isUrlSafeText (parts ! 1) then Some (parts ! 1) else None)"

definition routeId :: "string \<Rightarrow> string option" where
  "routeId token =
     (let parts = splitOn (CHR ''.'') token in
      if length parts = 3 \<and> isUrlSafeText (parts ! 1) then Some (parts ! 1) else None)"

subsection \<open>Helpers\<close>

definition hashEquals :: "string \<Rightarrow> string \<Rightarrow> bool" where
  "hashEquals left right =
     (if length left \<noteq> length right then False
      else differenceLoop (map charCode left) (map charCode right) 0 = 0)"

definition sessionAccessVersionIsCurrent :: "AuthorizationSessionRecordV5 \<Rightarrow> string option \<Rightarrow> bool" where
  "sessionAccessVersionIsCurrent record configuredReviewAccessVersion =
     (if s_identitySource record = Some internet_identity then True
      else s_identitySource record = Some review_service \<and>
        (case (s_reviewAccessVersion record, configuredReviewAccessVersion) of
           (Some v, Some c) \<Rightarrow> v = trim c | _ \<Rightarrow> False))"

text \<open>The guards \<open>x && hashEquals(x, h)\<close> and \<open>!(!t || t <= now)\<close> on nullable columns.\<close>

definition hashMatches :: "string option \<Rightarrow> string \<Rightarrow> bool" where
  "hashMatches stored hash = (case stored of None \<Rightarrow> False | Some x \<Rightarrow> x \<noteq> [] \<and> hashEquals x hash)"

definition liveUntil :: "int option \<Rightarrow> int \<Rightarrow> bool" where
  "liveUntil deadline now = (case deadline of None \<Rightarrow> False | Some t \<Rightarrow> t \<noteq> 0 \<and> \<not> t \<le> now)"

definition sameEncryptedValue :: "EncryptedValueV1 option \<Rightarrow> EncryptedValueV1 option \<Rightarrow> bool" where
  "sameEncryptedValue left right =
     (left = right \<or>
      (case (left, right) of
         (Some a, Some b) \<Rightarrow> ev_version a = ev_version b \<and> ev_algorithm a = ev_algorithm b \<and>
           ev_iv a = ev_iv b \<and> ev_ciphertext a = ev_ciphertext b
       | _ \<Rightarrow> False))"

definition delegationNeedsRefresh :: "AuthorizationSessionRecordV5 \<Rightarrow> string \<Rightarrow> int \<Rightarrow> bool" where
  "delegationNeedsRefresh record targetOrigin now \<longleftrightarrow>
     s_cachedDelegationTargetOrigin record \<noteq> Some targetOrigin \<or>
     \<not> liveUntil (s_cachedDelegationExpiresAt record) (now + DELEGATION_REFRESH_MARGIN_MS)"

definition sessionKeyContext :: "string \<Rightarrow> string" where
  "sessionKeyContext sessionId = ''session:'' @ sessionId @ '':session-key:v1''"

definition delegationContext :: "string \<Rightarrow> string \<Rightarrow> string" where
  "delegationContext sessionId targetOrigin = ''session:'' @ sessionId @ '':delegation:'' @ targetOrigin @ '':v1''"

definition requiredEncryptionKey :: "McpEnv \<Rightarrow> ii_error + string" where
  "requiredEncryptionKey env =
     (let key = trimmedOption (mcp_MCP_KEY_ENCRYPTION_KEY env) in
      if key = [] then Inl (IiError ''MCP_KEY_ENCRYPTION_KEY is required'') else Inr key)"

definition recordDeadline :: "AuthStateRecordV5 \<Rightarrow> int option" where
  "recordDeadline r =
     (case r of
        OAuthClient c \<Rightarrow> Some (oc_clientExpiresAt c)
      | AuthorizationSession record \<Rightarrow>
          if s_phase record = pending \<or> s_phase record = redeeming then Some (s_connectExpiresAt record)
          else if s_phase record = authorized then s_authorizationCodeExpiresAt record
          else if s_phase record = active then s_sessionExpiresAt record
          else None)"

definition requiredSessionExpiry :: "AuthorizationSessionRecordV5 \<Rightarrow> ii_error + int" where
  "requiredSessionExpiry record =
     (case s_sessionExpiresAt record of
        None \<Rightarrow> Inl (IiError ''session expiration is unavailable'') | Some t \<Rightarrow> Inr t)"

definition requiredCurrentRefreshTokenHash :: "AuthorizationSessionRecordV5 \<Rightarrow> ii_error + string" where
  "requiredCurrentRefreshTokenHash record =
     (case s_currentRefreshTokenHash record of
        None \<Rightarrow> Inl (IiError ''refresh token hash is unavailable'')
      | Some h \<Rightarrow> if h = [] then Inl (IiError ''refresh token hash is unavailable'') else Inr h)"

subsection \<open>Issuing tokens\<close>

definition tokenIssueResult ::
    "AuthorizationSessionRecordV5 \<Rightarrow> TokenMaterial \<Rightarrow> bool \<Rightarrow> ii_error + TokenIssueResult" where
  "tokenIssueResult record material includeRefreshToken =
     bindR (requiredSessionExpiry record) (\<lambda>expiry.
       Inr \<lparr>ti_accessToken = tm_accessToken material,
            ti_refreshToken = (if includeRefreshToken then Some (tm_refreshToken material) else None),
            ti_accessExpiresAt = s_accessTokenExpiresAt record,
            ti_sessionExpiresAt = expiry,
            ti_scope = s_scope record,
            ti_resource = s_resource record\<rparr>)"

text \<open>Both return the record the transaction puts, and the answer.\<close>

definition storeInitialTokens ::
    "AuthorizationSessionRecordV5 \<Rightarrow> TokenMaterial \<Rightarrow> bool
     \<Rightarrow> ii_error + (AuthorizationSessionRecordV5 \<times> TokenIssueResult)" where
  "storeInitialTokens record material issueRefreshToken =
     bindR (requiredSessionExpiry record) (\<lambda>expiry.
       let record1 = record \<lparr>
             s_consumedCodeHash := s_pendingCodeHash record,
             s_pendingCodeHash := None,
             s_authorizationCodeExpiresAt := None,
             s_accessTokenHash := Some (tm_accessTokenHash material),
             s_accessTokenExpiresAt := Some (min (tm_now material + ACCESS_TOKEN_TTL_MS) expiry),
             s_currentRefreshTokenHash := (if issueRefreshToken then Some (tm_refreshTokenHash material) else None),
             s_phase := active\<rparr>
       in bindR (tokenIssueResult record1 material issueRefreshToken) (\<lambda>result. Inr (record1, result)))"

definition storeRotatedTokens ::
    "AuthorizationSessionRecordV5 \<Rightarrow> TokenMaterial
     \<Rightarrow> ii_error + (AuthorizationSessionRecordV5 \<times> TokenIssueResult)" where
  "storeRotatedTokens record material =
     bindR (requiredCurrentRefreshTokenHash record) (\<lambda>current.
     bindR (requiredSessionExpiry record) (\<lambda>expiry.
       let record1 = record \<lparr>
             s_spentRefreshTokenHashes := s_spentRefreshTokenHashes record @ [current],
             s_currentRefreshTokenHash := Some (tm_refreshTokenHash material),
             s_accessTokenHash := Some (tm_accessTokenHash material),
             s_accessTokenExpiresAt := Some (min (tm_now material + ACCESS_TOKEN_TTL_MS) expiry)\<rparr>
       in bindR (tokenIssueResult record1 material True) (\<lambda>result. Inr (record1, result))))"

subsection \<open>Storage, host and world\<close>

record AuthStore =
  st_record :: "AuthStateRecordV5 option"
  st_alarm :: "int option"

record ('key, 'chain, 'ident) McpHost =
  mh_crypto :: WebCrypto
  mh_sdk :: "('key, 'chain, 'ident) IiSdk"
  mh_now :: "nat \<Rightarrow> int"
  mh_others :: "nat \<Rightarrow> AuthStore \<Rightarrow> AuthStore"
  mh_running :: "nat \<Rightarrow> AccessTokenAuthentication option"
  mh_parseUrl :: "string \<Rightarrow> ParsedUrl option"
  mh_principalText :: "string \<Rightarrow> string option"

record AuthWorld =
  w_store :: AuthStore
  w_calls :: nat

type_synonym 'a auth = "(AuthWorld, ii_error, 'a) act"
type_synonym 'a tx = "AuthStore \<Rightarrow> (ii_error + 'a) \<times> AuthStore"

definition storageSection :: "('key, 'chain, 'ident) McpHost \<Rightarrow> (int \<Rightarrow> 'a tx) \<Rightarrow> 'a auth" where
  "storageSection h f = (\<lambda>w.
     let k = w_calls w; (r, t) = f (mh_now h k) (mh_others h k (w_store w))
     in (r, w \<lparr>w_calls := Suc k, w_store := t\<rparr>))"

definition transaction :: "'a tx \<Rightarrow> 'a tx" where
  "transaction f = (\<lambda>s. case f s of (Inl e, t) \<Rightarrow> (Inl e, s) | (Inr x, t) \<Rightarrow> (Inr x, t))"

definition callIndex :: "nat auth" where
  "callIndex = (\<lambda>w. (Inr (w_calls w), w \<lparr>w_calls := Suc (w_calls w)\<rparr>))"

definition putRecord :: "AuthStateRecordV5 \<Rightarrow> AuthStore \<Rightarrow> AuthStore" where
  "putRecord r s = s \<lparr>st_record := Some r\<rparr>"

definition putSession :: "AuthorizationSessionRecordV5 \<Rightarrow> AuthStore \<Rightarrow> AuthStore" where
  "putSession r s = putRecord (AuthorizationSession r) s"

definition storedSession :: "AuthStore \<Rightarrow> AuthorizationSessionRecordV5 option" where
  "storedSession s = (case st_record s of Some (AuthorizationSession r) \<Rightarrow> Some r | _ \<Rightarrow> None)"

definition setAlarmTx :: "int \<Rightarrow> unit tx" where
  "setAlarmTx t = (\<lambda>s. (Inr (), s \<lparr>st_alarm := Some t\<rparr>))"

definition setAlarm :: "('key, 'chain, 'ident) McpHost \<Rightarrow> int \<Rightarrow> unit auth" where
  "setAlarm h t = storageSection h (\<lambda>_. setAlarmTx t)"

definition invalidateTx :: "unit tx" where
  "invalidateTx = (\<lambda>s. (Inr (), s \<lparr>st_record := None, st_alarm := None\<rparr>))"

definition invalidate :: "('key, 'chain, 'ident) McpHost \<Rightarrow> unit auth" where
  "invalidate h = storageSection h (\<lambda>_. invalidateTx)"

definition getSession :: "('key, 'chain, 'ident) McpHost \<Rightarrow> AuthorizationSessionRecordV5 option auth" where
  "getSession h = storageSection h (\<lambda>_ s. (Inr (storedSession s), s))"

subsection \<open>OAuth clients\<close>

definition createRecordTx :: "AuthStateRecordV5 \<Rightarrow> bool tx" where
  "createRecordTx r = (\<lambda>s. case st_record s of Some existing \<Rightarrow> (Inr False, s) | None \<Rightarrow> (Inr True, putRecord r s))"

definition createClient :: "('key, 'chain, 'ident) McpHost \<Rightarrow> OAuthClientRecordV2 \<Rightarrow> bool auth" where
  "createClient h client =
     bindA (storageSection h (\<lambda>_. createRecordTx (OAuthClient client))) (\<lambda>created.
       if \<not> created then retA False
       else bindA (setAlarm h (oc_clientExpiresAt client)) (\<lambda>_. retA True))"

definition getClientTx :: "int \<Rightarrow> (OAuthClientRecordV2 option \<times> bool) tx" where
  "getClientTx now = (\<lambda>s.
     case st_record s of
       Some (OAuthClient c) \<Rightarrow>
         if oc_clientExpiresAt c \<le> now
         then (Inr (None, True), putRecord (OAuthClient (c \<lparr>oc_clientExpiresAt := now\<rparr>)) s)
         else
           let c1 = c \<lparr>oc_lastUsedAt := now, oc_clientExpiresAt := now + OAUTH_CLIENT_IDLE_TTL_MS\<rparr>
           in (Inr (Some c1, False), putRecord (OAuthClient c1) s)
     | _ \<Rightarrow> (Inr (None, False), s))"

definition getClient :: "('key, 'chain, 'ident) McpHost \<Rightarrow> int \<Rightarrow> OAuthClientRecordV2 option auth" where
  "getClient h now =
     bindA (storageSection h (\<lambda>_. transaction (getClientTx now))) (\<lambda>(client, expired).
       if expired then bindA (invalidate h) (\<lambda>_. retA None)
       else
         case client of
           None \<Rightarrow> retA None
         | Some c \<Rightarrow> bindA (setAlarm h (oc_clientExpiresAt c)) (\<lambda>_. retA (Some c)))"

subsection \<open>Connecting\<close>

definition newSession :: "AuthorizationSessionInput \<Rightarrow> AuthorizationSessionRecordV5" where
  "newSession input = \<lparr>
     s_phase = pending,
     s_sessionId = in_sessionId input,
     s_clientId = in_clientId input,
     s_redirectUri = in_redirectUri input,
     s_oauthState = in_oauthState input,
     s_scope = in_scope input,
     s_resource = in_resource input,
     s_codeChallenge = in_codeChallenge input,
     s_connectStateHash = in_connectStateHash input,
     s_cookieHash = in_cookieHash input,
     s_registrationPublicKey = in_registrationPublicKey input,
     s_registrationKey = in_registrationKey input,
     s_sessionKey = in_sessionKey input,
     s_pendingCodeHash = None,
     s_consumedCodeHash = None,
     s_accessTokenHash = None,
     s_accessTokenExpiresAt = None,
     s_currentRefreshTokenHash = None,
     s_spentRefreshTokenHashes = [],
     s_createdAt = in_createdAt input,
     s_sessionCapAt = in_sessionCapAt input,
     s_connectExpiresAt = in_connectExpiresAt input,
     s_authorizationCodeExpiresAt = None,
     s_sessionExpiresAt = None,
     s_identitySource = None,
     s_actionPermission = None,
     s_reviewAccessVersion = None,
     s_cachedDelegation = None,
     s_cachedDelegationTargetOrigin = None,
     s_cachedDelegationExpiresAt = None\<rparr>"

definition createSession :: "('key, 'chain, 'ident) McpHost \<Rightarrow> AuthorizationSessionInput \<Rightarrow> bool auth" where
  "createSession h input =
     bindA (storageSection h (\<lambda>_. createRecordTx (AuthorizationSession (newSession input)))) (\<lambda>created.
       if \<not> created then retA False
       else bindA (setAlarm h (s_connectExpiresAt (newSession input))) (\<lambda>_. retA True))"

definition connectMatches :: "AuthorizationSessionRecordV5 \<Rightarrow> string \<Rightarrow> string \<Rightarrow> int \<Rightarrow> bool" where
  "connectMatches record connectStateHash cookieHash now \<longleftrightarrow>
     s_phase record = pending \<and> \<not> s_connectExpiresAt record \<le> now \<and>
     hashEquals (s_connectStateHash record) connectStateHash \<and> hashEquals (s_cookieHash record) cookieHash"

definition claimConnectTx :: "string \<Rightarrow> string \<Rightarrow> string \<Rightarrow> int \<Rightarrow> AuthorizationSessionRecordV5 option tx" where
  "claimConnectTx connectStateHash cookieHash consumedHash now = (\<lambda>s.
     case storedSession s of
       None \<Rightarrow> (Inr None, s)
     | Some record \<Rightarrow>
         if \<not> connectMatches record connectStateHash cookieHash now then (Inr None, s)
         else
           let record1 = record \<lparr>s_phase := redeeming, s_connectStateHash := consumedHash, s_cookieHash := consumedHash\<rparr>
           in (Inr (Some record1), putSession record1 s))"

definition claimConnect ::
    "('key, 'chain, 'ident) McpHost \<Rightarrow> string \<Rightarrow> string \<Rightarrow> int \<Rightarrow> AuthorizationSessionRecordV5 option auth" where
  "claimConnect h connectState cookie now =
     bindA callIndex (\<lambda>k.
       storageSection h (\<lambda>_. transaction (claimConnectTx (sha256 (mh_crypto h) connectState) (sha256 (mh_crypto h) cookie)
         (sha256 (mh_crypto h) (randomOpaque (mh_crypto h) k 32)) now)))"

record PendingConnect =
  pc_sessionId :: string
  pc_registrationPublicKey :: string
  pc_redirectUri :: string
  pc_scope :: string

definition inspectPendingConnect ::
    "('key, 'chain, 'ident) McpHost \<Rightarrow> string \<Rightarrow> string \<Rightarrow> int \<Rightarrow> PendingConnect option auth" where
  "inspectPendingConnect h connectState cookie now =
     bindA (getSession h) (\<lambda>stored.
       case stored of
         None \<Rightarrow> retA None
       | Some record \<Rightarrow>
           if \<not> connectMatches record (sha256 (mh_crypto h) connectState) (sha256 (mh_crypto h) cookie) now
           then retA None
           else retA (Some \<lparr>pc_sessionId = s_sessionId record, pc_registrationPublicKey = s_registrationPublicKey record,
                  pc_redirectUri = s_redirectUri record, pc_scope = s_scope record\<rparr>))"

record AuthorizationInput =
  ai_grantExpiresAt :: int
  ai_actionPermission :: IiPermission
  ai_identitySource :: IdentitySource
  ai_reviewAccessVersion :: "string option"
  ai_now :: int
  ai_expectedSessionId :: string

record AuthorizationResult =
  ar_code :: string
  ar_redirectUri :: string
  ar_oauthState :: string
  ar_authorizationCodeExpiresAt :: int

definition sessionTtl :: "IdentitySource \<Rightarrow> int" where
  "sessionTtl source = (if source = review_service then REVIEW_SESSION_TTL_MS else II_SESSION_TTL_MS)"

definition readOnlyScope :: "string \<Rightarrow> string" where
  "readOnlyScope scope = joinWith '' '' (filter (\<lambda>x. x \<noteq> [] \<and> x \<noteq> ''mcp:write'') (splitSpaces scope))"

definition authorizedSession ::
    "AuthorizationSessionRecordV5 \<Rightarrow> AuthorizationInput \<Rightarrow> string \<Rightarrow> int \<Rightarrow> AuthorizationSessionRecordV5" where
  "authorizedSession record input pendingCodeHash sessionExpiresAt = record \<lparr>
     s_pendingCodeHash := Some pendingCodeHash,
     s_registrationKey := None,
     s_sessionKey := (if ai_identitySource input = review_service then None else s_sessionKey record),
     s_authorizationCodeExpiresAt := Some (min (ai_now input + AUTHORIZATION_CODE_TTL_MS) sessionExpiresAt),
     s_sessionExpiresAt := Some sessionExpiresAt,
     s_identitySource := Some (ai_identitySource input),
     s_actionPermission := Some (ai_actionPermission input),
     s_reviewAccessVersion := ai_reviewAccessVersion input,
     s_scope := (if ai_actionPermission input = queries then readOnlyScope (s_scope record) else s_scope record),
     s_phase := authorized\<rparr>"

definition completeTx :: "AuthorizationInput \<Rightarrow> string \<Rightarrow> string \<Rightarrow> AuthorizationResult option tx" where
  "completeTx input code pendingCodeHash = (\<lambda>s.
     case storedSession s of
       None \<Rightarrow> (Inr None, s)
     | Some record \<Rightarrow>
         if s_phase record \<noteq> redeeming \<or> s_connectExpiresAt record \<le> ai_now input \<or>
            s_sessionId record \<noteq> ai_expectedSessionId input
         then (Inr None, s)
         else
           let sessionExpiresAt = min (s_sessionCapAt record)
                 (min (ai_grantExpiresAt input) (s_createdAt record + sessionTtl (ai_identitySource input)))
           in if sessionExpiresAt \<le> ai_now input
              then (Inr None, putSession (record \<lparr>s_phase := invalid\<rparr>) s)
              else
                (Inr (Some \<lparr>ar_code = code, ar_redirectUri = s_redirectUri record,
                    ar_oauthState = s_oauthState record,
                    ar_authorizationCodeExpiresAt = min (ai_now input + AUTHORIZATION_CODE_TTL_MS) sessionExpiresAt\<rparr>),
                 putSession (authorizedSession record input pendingCodeHash sessionExpiresAt) s))"

definition completeAuthorization ::
    "('key, 'chain, 'ident) McpHost \<Rightarrow> AuthorizationInput \<Rightarrow> AuthorizationResult option auth" where
  "completeAuthorization h input =
     bindA callIndex (\<lambda>k.
       let code = ''mkc1.'' @ ai_expectedSessionId input @ ''.'' @ randomOpaque (mh_crypto h) k 32 in
       bindA (storageSection h (\<lambda>_. transaction (completeTx input code (sha256 (mh_crypto h) code)))) (\<lambda>result.
         case result of
           None \<Rightarrow> retA None
         | Some r \<Rightarrow> bindA (setAlarm h (ar_authorizationCodeExpiresAt r)) (\<lambda>_. retA (Some r))))"

definition completeConnect ::
    "('key, 'chain, 'ident) McpHost \<Rightarrow> int \<Rightarrow> IiPermission \<Rightarrow> int \<Rightarrow> string \<Rightarrow> AuthorizationResult option auth" where
  "completeConnect h grantExpiresAt actionPermission now expectedSessionId =
     completeAuthorization h \<lparr>ai_grantExpiresAt = grantExpiresAt, ai_actionPermission = actionPermission,
       ai_identitySource = internet_identity, ai_reviewAccessVersion = None, ai_now = now,
       ai_expectedSessionId = expectedSessionId\<rparr>"

definition completeReviewConnect ::
    "('key, 'chain, 'ident) McpHost \<Rightarrow> string \<Rightarrow> int \<Rightarrow> string \<Rightarrow> AuthorizationResult option auth" where
  "completeReviewConnect h reviewAccessVersion now expectedSessionId =
     completeAuthorization h \<lparr>ai_grantExpiresAt = int MAX_SAFE_INTEGER, ai_actionPermission = all_actions,
       ai_identitySource = review_service, ai_reviewAccessVersion = Some reviewAccessVersion, ai_now = now,
       ai_expectedSessionId = expectedSessionId\<rparr>"

subsection \<open>Exchanging and rotating tokens\<close>

definition createTokenMaterial ::
    "('key, 'chain, 'ident) McpHost \<Rightarrow> string option \<Rightarrow> bool \<Rightarrow> int \<Rightarrow> TokenMaterial auth" where
  "createTokenMaterial h sessionId issueRefreshToken now =
     bindA callIndex (\<lambda>k1. bindA callIndex (\<lambda>k2. bindA callIndex (\<lambda>k3.
       let routedSessionId = (case sessionId of Some x \<Rightarrow> x | None \<Rightarrow> randomOpaque (mh_crypto h) k1 18);
           accessToken = ''mka1.'' @ routedSessionId @ ''.'' @ randomOpaque (mh_crypto h) k2 32;
           refreshToken = (if issueRefreshToken
             then ''mkr1.'' @ routedSessionId @ ''.'' @ randomOpaque (mh_crypto h) k3 32 else [])
       in retA \<lparr>tm_accessToken = accessToken, tm_accessTokenHash = sha256 (mh_crypto h) accessToken,
            tm_refreshToken = refreshToken,
            tm_refreshTokenHash = (if refreshToken \<noteq> [] then sha256 (mh_crypto h) refreshToken else []),
            tm_now = now\<rparr>)))"

record ExchangeInput =
  x_code :: string
  x_clientId :: string
  x_redirectUri :: string
  x_codeVerifier :: string
  x_issueRefreshToken :: bool
  x_exchangeScope :: "string option"
  x_now :: int

text \<open>The pattern \<^verbatim>\<open>/^[A-Za-z0-9._~-]{43,128}$/u\<close>.\<close>

definition isCodeVerifier :: "string \<Rightarrow> bool" where
  "isCodeVerifier s \<longleftrightarrow> 43 \<le> length s \<and> length s \<le> 128 \<and>
     list_all (\<lambda>c. 97 \<le> charCode c \<and> charCode c \<le> 122 \<or> 65 \<le> charCode c \<and> charCode c \<le> 90 \<or>
       isDigit c \<or> c \<in> set ''._~-'') s"

definition requestMatchesSession :: "AuthorizationSessionRecordV5 \<Rightarrow> ExchangeInput \<Rightarrow> string \<Rightarrow> bool" where
  "requestMatchesSession record input verifierChallenge \<longleftrightarrow>
     s_clientId record = x_clientId input \<and> s_redirectUri record = x_redirectUri input \<and>
     hashEquals (s_codeChallenge record) verifierChallenge"

definition grantsRefresh :: "AuthorizationSessionRecordV5 \<Rightarrow> ExchangeInput \<Rightarrow> bool" where
  "grantsRefresh record input \<longleftrightarrow>
     x_issueRefreshToken input \<and>
     (s_identitySource record = Some internet_identity \<or>
      ''offline_access'' \<in> set (splitSpaces (s_scope record)) \<and>
      (case x_exchangeScope input of None \<Rightarrow> True | Some scope \<Rightarrow> ''offline_access'' \<in> set (splitSpaces scope)))"

definition exchangeTx ::
    "McpEnv \<Rightarrow> ExchangeInput \<Rightarrow> string \<Rightarrow> string \<Rightarrow> TokenMaterial \<Rightarrow> TokenOperationResult tx" where
  "exchangeTx env input codeHash verifierChallenge material = (\<lambda>s.
     case storedSession s of
       None \<Rightarrow> (Inr InvalidRequest, s)
     | Some record \<Rightarrow>
         if s_phase record = active \<and>
            (case s_sessionExpiresAt record of None \<Rightarrow> False | Some t \<Rightarrow> t > x_now input) \<and>
            hashMatches (s_consumedCodeHash record) codeHash \<and> requestMatchesSession record input verifierChallenge
         then (Inr Replay, putSession (record \<lparr>s_phase := invalid\<rparr>) s)
         else if s_phase record \<noteq> authorized \<or>
            \<not> liveUntil (s_authorizationCodeExpiresAt record) (x_now input) \<or>
            \<not> liveUntil (s_sessionExpiresAt record) (x_now input) \<or>
            \<not> sessionAccessVersionIsCurrent record (mcp_MCP_REVIEW_ACCESS_VERSION env) \<or>
            \<not> requestMatchesSession record input verifierChallenge \<or>
            \<not> hashMatches (s_pendingCodeHash record) codeHash
         then (Inr InvalidRequest, s)
         else
           case storeInitialTokens record material (grantsRefresh record input) of
             Inl e \<Rightarrow> (Inl e, s)
           | Inr (record1, result) \<Rightarrow> (Inr (Issued result), putSession record1 s))"

definition finishTokens ::
    "('key, 'chain, 'ident) McpHost \<Rightarrow> TokenOperationResult \<Rightarrow> TokenIssueResult option auth" where
  "finishTokens h result =
     (case result of
        Replay \<Rightarrow> bindA (invalidate h) (\<lambda>_. retA None)
      | Issued v \<Rightarrow> bindA (setAlarm h (ti_sessionExpiresAt v)) (\<lambda>_. retA (Some v))
      | InvalidRequest \<Rightarrow> retA None)"

definition exchangeCode ::
    "('key, 'chain, 'ident) McpHost \<Rightarrow> McpEnv \<Rightarrow> ExchangeInput \<Rightarrow> TokenIssueResult option auth" where
  "exchangeCode h env input =
     (if \<not> isCodeVerifier (x_codeVerifier input) then retA None
      else
        bindA (createTokenMaterial h (routeId (x_code input)) (x_issueRefreshToken input) (x_now input)) (\<lambda>material.
        bindA (storageSection h (\<lambda>_. transaction (exchangeTx env input (sha256 (mh_crypto h) (x_code input))
                 (sha256 (mh_crypto h) (x_codeVerifier input)) material))) (\<lambda>result.
          finishTokens h result)))"

record RotateInput =
  y_refreshToken :: string
  y_clientId :: string
  y_resource :: string
  y_now :: int

definition rotateTx :: "McpEnv \<Rightarrow> RotateInput \<Rightarrow> string \<Rightarrow> TokenMaterial \<Rightarrow> TokenOperationResult tx" where
  "rotateTx env input refreshTokenHash material = (\<lambda>s.
     case storedSession s of
       None \<Rightarrow> (Inr InvalidRequest, s)
     | Some record \<Rightarrow>
         if s_phase record \<noteq> active \<or> \<not> liveUntil (s_sessionExpiresAt record) (y_now input) \<or>
            \<not> sessionAccessVersionIsCurrent record (mcp_MCP_REVIEW_ACCESS_VERSION env) \<or>
            s_clientId record \<noteq> y_clientId input \<or> s_resource record \<noteq> y_resource input
         then (Inr InvalidRequest, s)
         else if list_ex (\<lambda>hash. hashEquals hash refreshTokenHash) (s_spentRefreshTokenHashes record)
         then (Inr Replay, putSession (record \<lparr>s_phase := invalid\<rparr>) s)
         else if \<not> hashMatches (s_currentRefreshTokenHash record) refreshTokenHash
         then (Inr InvalidRequest, s)
         else if length (s_spentRefreshTokenHashes record) \<ge> MAX_REFRESH_ROTATIONS
         then (Inr Replay, putSession (record \<lparr>s_phase := invalid\<rparr>) s)
         else
           case storeRotatedTokens record material of
             Inl e \<Rightarrow> (Inl e, s)
           | Inr (record1, result) \<Rightarrow> (Inr (Issued result), putSession record1 s))"

definition rotateRefreshToken ::
    "('key, 'chain, 'ident) McpHost \<Rightarrow> McpEnv \<Rightarrow> RotateInput \<Rightarrow> TokenIssueResult option auth" where
  "rotateRefreshToken h env input =
     bindA (createTokenMaterial h (routeId (y_refreshToken input)) True (y_now input)) (\<lambda>material.
     bindA (storageSection h (\<lambda>_. transaction (rotateTx env input (sha256 (mh_crypto h) (y_refreshToken input)) material)))
       (\<lambda>result. finishTokens h result))"

subsection \<open>Validating access tokens\<close>

record ValidatedToken =
  vt_sessionExpiresAt :: int
  vt_scope :: string
  vt_actionPermission :: IiPermission
  vt_identitySource :: IdentitySource

definition validateRecord ::
    "McpEnv \<Rightarrow> AuthorizationSessionRecordV5 \<Rightarrow> string \<Rightarrow> string \<Rightarrow> int \<Rightarrow> ValidatedToken option" where
  "validateRecord env record tokenHash resource now =
     (case (s_sessionExpiresAt record, s_actionPermission record, s_identitySource record) of
        (Some expiry, Some permission, Some source) \<Rightarrow>
          if s_phase record \<noteq> active \<or>
             \<not> liveUntil (s_accessTokenExpiresAt record) now \<or>
             \<not> liveUntil (Some expiry) now \<or>
             s_resource record \<noteq> resource \<or>
             \<not> sessionAccessVersionIsCurrent record (mcp_MCP_REVIEW_ACCESS_VERSION env) \<or>
             \<not> hashMatches (s_accessTokenHash record) tokenHash
          then None
          else Some \<lparr>vt_sessionExpiresAt = expiry, vt_scope = s_scope record,
                     vt_actionPermission = permission, vt_identitySource = source\<rparr>
      | _ \<Rightarrow> None)"

definition validateAccessToken ::
    "('key, 'chain, 'ident) McpHost \<Rightarrow> McpEnv \<Rightarrow> string \<Rightarrow> string \<Rightarrow> int \<Rightarrow> ValidatedToken option auth" where
  "validateAccessToken h env token resource now =
     bindA (getSession h) (\<lambda>stored.
       retA (case stored of None \<Rightarrow> None
             | Some record \<Rightarrow> validateRecord env record (sha256 (mh_crypto h) token) resource now))"

subsection \<open>The cached delegation\<close>

definition clearCacheTx :: "AuthorizationSessionRecordV5 \<Rightarrow> unit tx" where
  "clearCacheTx record = (\<lambda>s.
     case storedSession s of
       None \<Rightarrow> (Inr (), s)
     | Some current \<Rightarrow>
         if s_sessionId current \<noteq> s_sessionId record \<or>
            \<not> sameEncryptedValue (s_cachedDelegation current) (s_cachedDelegation record) \<or>
            s_cachedDelegationTargetOrigin current \<noteq> s_cachedDelegationTargetOrigin record \<or>
            s_cachedDelegationExpiresAt current \<noteq> s_cachedDelegationExpiresAt record
         then (Inr (), s)
         else (Inr (), putSession (current \<lparr>s_cachedDelegation := None,
                 s_cachedDelegationTargetOrigin := None, s_cachedDelegationExpiresAt := None\<rparr>) s))"

definition clearCachedDelegation ::
    "('key, 'chain, 'ident) McpHost \<Rightarrow> AuthorizationSessionRecordV5 \<Rightarrow> unit auth" where
  "clearCachedDelegation h record = storageSection h (\<lambda>_. clearCacheTx record)"

definition openCached ::
    "('key, 'chain, 'ident) McpHost \<Rightarrow> McpEnv \<Rightarrow> AuthorizationSessionRecordV5 \<Rightarrow> EncryptedValueV1 \<Rightarrow> string \<Rightarrow> int \<Rightarrow> int
     \<Rightarrow> ii_error + KinicDelegationMaterialV1" where
  "openCached h env record cached targetOrigin clock now =
     bindR (requiredEncryptionKey env) (\<lambda>key.
     bindR (decryptJson (mh_crypto h) cached key (delegationContext (s_sessionId record) targetOrigin)) (\<lambda>v.
       case materialOf v of
         None \<Rightarrow> Inl (IiDelegationError identity_assembly)
       | Some material \<Rightarrow>
           bindR (restoreKinicIdentity (mh_sdk h) clock material targetOrigin (now + DELEGATION_REFRESH_MARGIN_MS))
             (\<lambda>_. Inr material)))"

definition readCachedDelegation ::
    "('key, 'chain, 'ident) McpHost \<Rightarrow> McpEnv \<Rightarrow> string \<Rightarrow> int \<Rightarrow> KinicDelegationMaterialV1 option auth" where
  "readCachedDelegation h env targetOrigin now =
     bindA (getSession h) (\<lambda>stored.
       case stored of
         None \<Rightarrow> retA None
       | Some record \<Rightarrow>
           (case s_cachedDelegation record of
              None \<Rightarrow> retA None
            | Some cached \<Rightarrow>
                if delegationNeedsRefresh record targetOrigin now
                then bindA (clearCachedDelegation h record) (\<lambda>_. retA None)
                else
                  bindA callIndex (\<lambda>k.
                  case openCached h env record cached targetOrigin (mh_now h k) now of
                    Inr material \<Rightarrow> retA (Some material)
                  | Inl e \<Rightarrow> bindA (clearCachedDelegation h record) (\<lambda>_. retA None))))"

definition storeCacheTx :: "string \<Rightarrow> EncryptedValueV1 \<Rightarrow> string \<Rightarrow> nat \<Rightarrow> int \<Rightarrow> bool tx" where
  "storeCacheTx sessionId encrypted targetOrigin expiresAt clock = (\<lambda>s.
     case storedSession s of
       None \<Rightarrow> (Inr False, s)
     | Some current \<Rightarrow>
         if s_phase current \<noteq> active \<or> s_sessionId current \<noteq> sessionId \<or>
            \<not> liveUntil (s_sessionExpiresAt current) clock
         then (Inr False, s)
         else (Inr True, putSession (current \<lparr>s_cachedDelegation := Some encrypted,
                 s_cachedDelegationTargetOrigin := Some targetOrigin,
                 s_cachedDelegationExpiresAt := Some (int expiresAt)\<rparr>) s))"

definition openSessionKey ::
    "('key, 'chain, 'ident) McpHost \<Rightarrow> McpEnv \<Rightarrow> AuthorizationSessionRecordV5 \<Rightarrow> ii_error + json" where
  "openSessionKey h env record =
     (case s_sessionKey record of
        None \<Rightarrow> Inl (IiError ''Internet Identity session key is unavailable'')
      | Some sealed \<Rightarrow>
          if s_identitySource record \<noteq> Some internet_identity
          then Inl (IiError ''Internet Identity session key is unavailable'')
          else bindR (requiredEncryptionKey env) (\<lambda>key.
                 decryptJson (mh_crypto h) sealed key (sessionKeyContext (s_sessionId record))))"

definition mintEncrypted ::
    "('key, 'chain, 'ident) McpHost \<Rightarrow> McpEnv \<Rightarrow> nat \<Rightarrow> AuthorizationSessionRecordV5 \<Rightarrow> json \<Rightarrow> string
     \<Rightarrow> ii_error + (KinicDelegationMaterialV1 \<times> EncryptedValueV1)" where
  "mintEncrypted h env k record sessionKey targetOrigin =
     bindR (restoreIiKey (mh_sdk h) sessionKey) (\<lambda>key.
     bindR (mintKinicDelegation (mh_sdk h) k key targetOrigin None) (\<lambda>(identity, material).
     bindR (requiredEncryptionKey env) (\<lambda>encryptionKey.
     bindR (encryptJson (mh_crypto h) k (materialJson material) encryptionKey
              (delegationContext (s_sessionId record) targetOrigin)) (\<lambda>encrypted.
       Inr (material, encrypted)))))"

definition mintFailure :: "('key, 'chain, 'ident) McpHost \<Rightarrow> ii_error \<Rightarrow> AccessTokenAuthentication auth" where
  "mintFailure h e =
     (case e of
        IiSessionEndedError \<Rightarrow> bindA (invalidate h) (\<lambda>_. retA InvalidToken)
      | IiDelegationError stage \<Rightarrow> retA (TemporarilyUnavailable (DelegationStage stage))
      | _ \<Rightarrow> retA (TemporarilyUnavailable delegation_cache))"

definition mintAndCacheDelegation ::
    "('key, 'chain, 'ident) McpHost \<Rightarrow> McpEnv \<Rightarrow> string \<Rightarrow> string \<Rightarrow> IiPermission \<Rightarrow> int
     \<Rightarrow> AccessTokenAuthentication auth" where
  "mintAndCacheDelegation h env targetOrigin scope actionPermission now =
     bindA (getSession h) (\<lambda>stored.
       case stored of
         None \<Rightarrow> retA InvalidToken
       | Some record \<Rightarrow>
           if s_phase record \<noteq> active \<or> \<not> liveUntil (s_sessionExpiresAt record) now then retA InvalidToken
           else
             case openSessionKey h env record of
               Inl e \<Rightarrow> bindA (invalidate h) (\<lambda>_. retA InvalidToken)
             | Inr sessionKey \<Rightarrow>
                 bindA callIndex (\<lambda>k.
                 catchA
                   (bindA (liftR (mintEncrypted h env k record sessionKey targetOrigin)) (\<lambda>(material, encrypted).
                    bindA (storageSection h (storeCacheTx (s_sessionId record) encrypted targetOrigin (dm_expiresAt material)))
                      (\<lambda>stored. retA (if stored
                         then ValidToken scope actionPermission internet_identity (Some material)
                         else InvalidToken))))
                   (mintFailure h)))"

text \<open>
  \<open>SingleFlight.run\<close>: a call that finds a mint in flight returns that one's promise, which
  \<open>mh_running\<close> gives; otherwise the factory runs.
\<close>

definition singleFlightRun ::
    "('key, 'chain, 'ident) McpHost \<Rightarrow> AccessTokenAuthentication auth \<Rightarrow> AccessTokenAuthentication auth" where
  "singleFlightRun h factory =
     bindA callIndex (\<lambda>k. case mh_running h k of Some running \<Rightarrow> retA running | None \<Rightarrow> factory)"

definition authenticateAccessToken ::
    "('key, 'chain, 'ident) McpHost \<Rightarrow> McpEnv \<Rightarrow> string \<Rightarrow> string \<Rightarrow> int \<Rightarrow> bool \<Rightarrow> AccessTokenAuthentication auth" where
  "authenticateAccessToken h env token resource now requireDelegation =
     bindA (validateAccessToken h env token resource now) (\<lambda>validated.
       case validated of
         None \<Rightarrow> retA InvalidToken
       | Some v \<Rightarrow>
           if \<not> requireDelegation \<or> vt_identitySource v = review_service
           then retA (ValidToken (vt_scope v) (vt_actionPermission v) (vt_identitySource v) None)
           else
             bindA (liftR (resolveKinicMcpTargetOrigin (mh_parseUrl h) (mh_principalText h)
                      (mcp_KINIC_WIKI_MCP_TARGET_ORIGIN env) (mcp_KINIC_WIKI_CANISTER_ID env))) (\<lambda>targetOrigin.
             bindA (readCachedDelegation h env targetOrigin now) (\<lambda>cached.
               case cached of
                 Some material \<Rightarrow>
                   retA (ValidToken (vt_scope v) (vt_actionPermission v) internet_identity (Some material))
               | None \<Rightarrow>
                   singleFlightRun h
                     (mintAndCacheDelegation h env targetOrigin (vt_scope v) (vt_actionPermission v) now))))"

subsection \<open>The alarm\<close>

definition alarmTx :: "int \<Rightarrow> unit tx" where
  "alarmTx clock = (\<lambda>s.
     case st_record s of
       None \<Rightarrow> (Inr (), s \<lparr>st_alarm := None\<rparr>)
     | Some r \<Rightarrow>
         (case recordDeadline r of
            None \<Rightarrow> invalidateTx s
          | Some deadline \<Rightarrow> if deadline \<le> clock then invalidateTx s else setAlarmTx deadline s))"

definition alarm :: "('key, 'chain, 'ident) McpHost \<Rightarrow> unit auth" where
  "alarm h = storageSection h alarmTx"

end
