(* ===== verification/Mcp_Auth_System.thy ===== *)
theory Mcp_Auth_System
  imports Mcp_Auth_State State_System
begin

section \<open>MCP worker: what the authorization state guarantees\<close>

text \<open>
  The storage sections of the class as steps of a transition system, the invariant of a stored
  session, what later sections may rely on, and the properties of the methods that follow for every
  interleaving of them.
\<close>

subsection \<open>Comparisons\<close>

lemma hashEquals_iff: "hashEquals a b \<longleftrightarrow> a = b"
proof -
  have small: "list_all (\<lambda>n. n < 4294967296) (map charCode s)" for s
    unfolding list_all_iff set_map
  proof clarify
    fix c :: char
    show "charCode c < 4294967296" by (rule less_trans [OF nat_of_char_less_256]) simp
  qed
  have "map charCode xs = map charCode ys \<longleftrightarrow> xs = ys" for xs ys
    by (rule inj_map_eq_map) (simp add: inj_def)
  then show ?thesis
    by (auto simp: hashEquals_def differenceLoop_eq_0 small)
qed

lemma hashMatches_iff [simp]: "hashMatches x h \<longleftrightarrow> x = Some h \<and> h \<noteq> []"
  by (auto simp: hashMatches_def hashEquals_iff split: option.splits)

lemma liveUntil_iff: "liveUntil x now \<longleftrightarrow> (\<exists>t. x = Some t \<and> t \<noteq> 0 \<and> now < t)"
  by (auto simp: liveUntil_def split: option.splits)

lemma sameEncryptedValue_iff: "sameEncryptedValue a b \<longleftrightarrow> a = b"
  by (auto simp: sameEncryptedValue_def split: option.splits)

subsection \<open>Sections as steps\<close>

lemma storedSession_Some: "storedSession s = Some r \<longleftrightarrow> st_record s = Some (AuthorizationSession r)"
  by (auto simp: storedSession_def split: option.splits AuthStateRecordV5.splits)

lemma storedSession_put [simp]: "storedSession (putSession r s) = Some r"
  by (simp add: putSession_def putRecord_def storedSession_Some)

lemma st_record_put [simp]: "st_record (putSession r s) = Some (AuthorizationSession r)"
  "st_record (putRecord q s) = Some q"
  by (simp_all add: putSession_def putRecord_def)

lemma transaction_state: "snd (transaction f s) = snd (f s) \<or> snd (transaction f s) = s"
  by (auto simp: transaction_def split: prod.splits sum.splits)

inductive sessionStep :: "McpEnv \<Rightarrow> AuthStore \<Rightarrow> AuthStore \<Rightarrow> bool" for env where
  idle: "sessionStep env s s"
| client_used: "sessionStep env s (snd (getClientTx now s))"
| claimed: "sessionStep env s (snd (claimConnectTx a b c now s))"
| completed: "sessionStep env s (snd (completeTx input code codeHash s))"
| exchanged: "sessionStep env s (snd (exchangeTx env x codeHash challenge material s))"
| rotated: "sessionStep env s (snd (rotateTx env y tokenHash material s))"
| cached: "sessionStep env s (snd (storeCacheTx sid e origin expiry clock s))"
| cleared: "sessionStep env s (snd (clearCacheTx r s))"
| alarm_set: "sessionStep env s (snd (setAlarmTx t s))"
| invalidated: "sessionStep env s (snd (invalidateTx s))"
| alarm_fired: "sessionStep env s (snd (alarmTx clock s))"

inductive authStep :: "McpEnv \<Rightarrow> AuthStore \<Rightarrow> AuthStore \<Rightarrow> bool" for env where
  session: "sessionStep env s t \<Longrightarrow> authStep env s t"
| created_client: "authStep env s (snd (createRecordTx (OAuthClient c) s))"
| created_session: "authStep env s (snd (createRecordTx (AuthorizationSession (newSession input)) s))"

subsection \<open>The invariant of a session\<close>

text \<open>
  \<open>granted r\<close>: what holds from the moment the connection is completed. The session ends by its cap and
  by the lifetime of its identity source, a read-only grant carries no write scope, the registration
  key is gone and a review session holds no Internet Identity key.
\<close>

definition granted :: "AuthorizationSessionRecordV5 \<Rightarrow> bool" where
  "granted r \<longleftrightarrow>
     (\<exists>expiry source permission.
        s_sessionExpiresAt r = Some expiry \<and> s_identitySource r = Some source \<and>
        s_actionPermission r = Some permission \<and>
        expiry \<le> s_sessionCapAt r \<and> expiry \<le> s_createdAt r + sessionTtl source \<and>
        (permission = queries \<longrightarrow> ''mcp:write'' \<notin> set (splitSpaces (s_scope r))) \<and>
        s_registrationKey r = None \<and> (source = review_service \<longrightarrow> s_sessionKey r = None))"

definition sessionOk :: "AuthorizationSessionRecordV5 \<Rightarrow> bool" where
  "sessionOk r \<longleftrightarrow>
     length (s_spentRefreshTokenHashes r) \<le> MAX_REFRESH_ROTATIONS \<and>
     (case s_phase r of
        authorized \<Rightarrow> granted r \<and> s_pendingCodeHash r \<noteq> None \<and> s_spentRefreshTokenHashes r = [] \<and>
          (\<exists>t e. s_authorizationCodeExpiresAt r = Some t \<and> s_sessionExpiresAt r = Some e \<and> t \<le> e)
      | active \<Rightarrow> granted r \<and> s_pendingCodeHash r = None \<and> s_consumedCodeHash r \<noteq> None \<and>
          s_accessTokenHash r \<noteq> None \<and>
          (\<exists>t e. s_accessTokenExpiresAt r = Some t \<and> s_sessionExpiresAt r = Some e \<and> t \<le> e)
      | invalid \<Rightarrow> True
      | _ \<Rightarrow> s_spentRefreshTokenHashes r = [] \<and> s_accessTokenHash r = None \<and> s_pendingCodeHash r = None \<and>
          s_sessionExpiresAt r = None)"

definition storeOk :: "AuthStore \<Rightarrow> bool" where
  "storeOk s \<longleftrightarrow> (\<forall>r. st_record s = Some (AuthorizationSession r) \<longrightarrow> sessionOk r)"

lemma storeOk_put [simp]: "storeOk (putSession r s) \<longleftrightarrow> sessionOk r"
  "storeOk (putRecord (OAuthClient c) s)"
  "storeOk (putRecord (AuthorizationSession r) s) \<longleftrightarrow> sessionOk r"
  by (simp_all add: storeOk_def)

lemma storeOk_alarm [simp]: "storeOk (s \<lparr>st_alarm := a\<rparr>) \<longleftrightarrow> storeOk s"
  "storeOk (s \<lparr>st_record := None\<rparr>)"
  by (simp_all add: storeOk_def)

lemma readOnlyScope_no_write: "''mcp:write'' \<notin> set (splitSpaces (readOnlyScope scope))"
proof (cases "filter (\<lambda>x. x \<noteq> [] \<and> x \<noteq> ''mcp:write'') (splitSpaces scope) = []")
  case True
  then show ?thesis
    unfolding readOnlyScope_def by (simp add: splitSpaces_word)
next
  case False
  moreover have "list_all (\<lambda>w. w \<noteq> [] \<and> list_all (\<lambda>c. \<not> isJsSpace c) w)
      (filter (\<lambda>x. x \<noteq> [] \<and> x \<noteq> ''mcp:write'') (splitSpaces scope))"
    using splitSpaces_no_space by (auto simp: list_all_iff)
  ultimately show ?thesis
    unfolding readOnlyScope_def by (simp add: splitSpaces_joinWith)
qed

lemma granted_authorized:
  assumes "expiry \<le> s_sessionCapAt r" and "expiry \<le> s_createdAt r + sessionTtl (ai_identitySource input)"
  shows "granted (authorizedSession r input h expiry)"
  using assms by (simp add: granted_def authorizedSession_def readOnlyScope_no_write)

lemma sessionOk_authorized:
  assumes "sessionOk r" and "s_phase r = redeeming"
    and "expiry \<le> s_sessionCapAt r" and "expiry \<le> s_createdAt r + sessionTtl (ai_identitySource input)"
  shows "sessionOk (authorizedSession r input h expiry)"
  using granted_authorized [OF assms(3,4)] assms(1,2)
  by (simp add: sessionOk_def) (simp add: authorizedSession_def)

lemma storeInitialTokens_Inr:
  "storeInitialTokens r m issue = Inr (r1, result) \<longleftrightarrow>
     (\<exists>expiry. s_sessionExpiresAt r = Some expiry \<and>
        r1 = r \<lparr>s_consumedCodeHash := s_pendingCodeHash r, s_pendingCodeHash := None,
             s_authorizationCodeExpiresAt := None, s_accessTokenHash := Some (tm_accessTokenHash m),
             s_accessTokenExpiresAt := Some (min (tm_now m + ACCESS_TOKEN_TTL_MS) expiry),
             s_currentRefreshTokenHash := (if issue then Some (tm_refreshTokenHash m) else None),
             s_phase := active\<rparr> \<and>
        result = \<lparr>ti_accessToken = tm_accessToken m,
            ti_refreshToken = (if issue then Some (tm_refreshToken m) else None),
            ti_accessExpiresAt = Some (min (tm_now m + ACCESS_TOKEN_TTL_MS) expiry),
            ti_sessionExpiresAt = expiry, ti_scope = s_scope r, ti_resource = s_resource r\<rparr>)"
  by (auto simp: storeInitialTokens_def tokenIssueResult_def requiredSessionExpiry_def Let_def split: option.splits)

lemma storeRotatedTokens_Inr:
  "storeRotatedTokens r m = Inr (r1, result) \<longleftrightarrow>
     (\<exists>expiry current. s_sessionExpiresAt r = Some expiry \<and> s_currentRefreshTokenHash r = Some current \<and> current \<noteq> [] \<and>
        r1 = r \<lparr>s_spentRefreshTokenHashes := s_spentRefreshTokenHashes r @ [current],
             s_currentRefreshTokenHash := Some (tm_refreshTokenHash m),
             s_accessTokenHash := Some (tm_accessTokenHash m),
             s_accessTokenExpiresAt := Some (min (tm_now m + ACCESS_TOKEN_TTL_MS) expiry)\<rparr> \<and>
        result = \<lparr>ti_accessToken = tm_accessToken m, ti_refreshToken = Some (tm_refreshToken m),
            ti_accessExpiresAt = Some (min (tm_now m + ACCESS_TOKEN_TTL_MS) expiry),
            ti_sessionExpiresAt = expiry, ti_scope = s_scope r, ti_resource = s_resource r\<rparr>)"
  by (auto simp: storeRotatedTokens_def tokenIssueResult_def requiredSessionExpiry_def
      requiredCurrentRefreshTokenHash_def Let_def split: option.splits if_splits)

lemma granted_cong:
  "granted r \<Longrightarrow> s_sessionExpiresAt r' = s_sessionExpiresAt r \<Longrightarrow> s_identitySource r' = s_identitySource r \<Longrightarrow>
   s_actionPermission r' = s_actionPermission r \<Longrightarrow> s_sessionCapAt r' = s_sessionCapAt r \<Longrightarrow>
   s_createdAt r' = s_createdAt r \<Longrightarrow> s_scope r' = s_scope r \<Longrightarrow> s_registrationKey r' = s_registrationKey r \<Longrightarrow>
   s_sessionKey r' = s_sessionKey r \<Longrightarrow> granted r'"
  by (simp add: granted_def)

subsection \<open>What each section may do\<close>

text \<open>A section leaves the storage alone, ends the session, or makes one of these changes.\<close>

lemma claimConnectTx_cases:
  obtains (same) "snd (claimConnectTx a b c now s) = s"
  | (claim) r where "storedSession s = Some r" and "connectMatches r a b now"
      and "snd (claimConnectTx a b c now s) =
        putSession (r \<lparr>s_phase := redeeming, s_connectStateHash := c, s_cookieHash := c\<rparr>) s"
  by (fastforce simp: claimConnectTx_def Let_def split: option.splits)

lemma completeTx_cases:
  obtains (same) "snd (completeTx i code h s) = s"
  | (ended) r where "storedSession s = Some r" and "snd (completeTx i code h s) = putSession (r \<lparr>s_phase := invalid\<rparr>) s"
  | (grant) r expiry where "storedSession s = Some r" and "s_phase r = redeeming"
      and "expiry \<le> s_sessionCapAt r" and "expiry \<le> s_createdAt r + sessionTtl (ai_identitySource i)"
      and "snd (completeTx i code h s) = putSession (authorizedSession r i h expiry) s"
proof (cases "storedSession s")
  case None
  with same show ?thesis by (simp add: completeTx_def)
next
  case (Some r)
  let ?e = "min (s_sessionCapAt r) (min (ai_grantExpiresAt i) (s_createdAt r + sessionTtl (ai_identitySource i)))"
  show ?thesis
    using same ended [OF Some] grant [OF Some, of ?e]
    by (cases "s_phase r \<noteq> redeeming \<or> s_connectExpiresAt r \<le> ai_now i \<or> s_sessionId r \<noteq> ai_expectedSessionId i";
        cases "?e \<le> ai_now i") (simp_all add: completeTx_def Some Let_def)
qed

lemma exchangeTx_cases:
  obtains (same) "snd (exchangeTx env x h c m s) = s" and "\<nexists>v. fst (exchangeTx env x h c m s) = Inr (Issued v)"
      and "fst (exchangeTx env x h c m s) \<noteq> Inr Replay"
  | (replay) r where "storedSession s = Some r" and "s_phase r = active" and "fst (exchangeTx env x h c m s) = Inr Replay"
      and "snd (exchangeTx env x h c m s) = putSession (r \<lparr>s_phase := invalid\<rparr>) s"
  | (issue) r r1 v where "storedSession s = Some r" and "s_phase r = authorized"
      and "liveUntil (s_authorizationCodeExpiresAt r) (x_now x)" and "liveUntil (s_sessionExpiresAt r) (x_now x)"
      and "sessionAccessVersionIsCurrent r (mcp_MCP_REVIEW_ACCESS_VERSION env)"
      and "requestMatchesSession r x c" and "hashMatches (s_pendingCodeHash r) h"
      and "storeInitialTokens r m (grantsRefresh r x) = Inr (r1, v)"
      and "exchangeTx env x h c m s = (Inr (Issued v), putSession r1 s)"
proof (cases "storedSession s")
  case None
  with same show ?thesis by (simp add: exchangeTx_def)
next
  case (Some r)
  show ?thesis
  proof (cases "s_phase r = active \<and>
      (case s_sessionExpiresAt r of None \<Rightarrow> False | Some t \<Rightarrow> t > x_now x) \<and>
      hashMatches (s_consumedCodeHash r) h \<and> requestMatchesSession r x c")
    case True
    with Some replay show ?thesis by (simp add: exchangeTx_def)
  next
    case first: False
    show ?thesis
    proof (cases "s_phase r \<noteq> authorized \<or> \<not> liveUntil (s_authorizationCodeExpiresAt r) (x_now x) \<or>
        \<not> liveUntil (s_sessionExpiresAt r) (x_now x) \<or>
        \<not> sessionAccessVersionIsCurrent r (mcp_MCP_REVIEW_ACCESS_VERSION env) \<or>
        \<not> requestMatchesSession r x c \<or> \<not> hashMatches (s_pendingCodeHash r) h")
      case True
      then have "exchangeTx env x h c m s = (Inr InvalidRequest, s)"
        using Some first unfolding exchangeTx_def by (simp only: option.case if_False if_True)
      with same show ?thesis by simp
    next
      case False
      then have e: "exchangeTx env x h c m s =
          (case storeInitialTokens r m (grantsRefresh r x) of Inl e \<Rightarrow> (Inl e, s)
           | Inr (r1, v) \<Rightarrow> (Inr (Issued v), putSession r1 s))"
        using Some first unfolding exchangeTx_def by (simp only: option.case if_False)
      show ?thesis
      proof (cases "storeInitialTokens r m (grantsRefresh r x)")
        case (Inl err)
        with e same show ?thesis by simp
      next
        case (Inr p)
        with e False Some issue [of r "fst p" "snd p"] show ?thesis by (cases p) simp
      qed
    qed
  qed
qed

lemma rotateTx_cases:
  obtains (same) "snd (rotateTx env y h m s) = s" and "\<nexists>v. fst (rotateTx env y h m s) = Inr (Issued v)"
      and "fst (rotateTx env y h m s) \<noteq> Inr Replay"
  | (replay) r where "storedSession s = Some r" and "fst (rotateTx env y h m s) = Inr Replay"
      and "snd (rotateTx env y h m s) = putSession (r \<lparr>s_phase := invalid\<rparr>) s"
  | (issue) r r1 v where "storedSession s = Some r" and "s_phase r = active"
      and "liveUntil (s_sessionExpiresAt r) (y_now y)"
      and "h \<notin> set (s_spentRefreshTokenHashes r)" and "hashMatches (s_currentRefreshTokenHash r) h"
      and "length (s_spentRefreshTokenHashes r) < MAX_REFRESH_ROTATIONS"
      and "storeRotatedTokens r m = Inr (r1, v)"
      and "rotateTx env y h m s = (Inr (Issued v), putSession r1 s)"
proof (cases "storedSession s")
  case None
  with same show ?thesis by (simp add: rotateTx_def)
next
  case (Some r)
  show ?thesis
  proof (cases "storeRotatedTokens r m")
    case (Inl err)
    note e = rotateTx_def [of env y h m, unfolded fun_eq_iff, rule_format, of s, unfolded Some Inl option.case sum.case]
    show ?thesis using same replay [OF Some] e by (auto split: if_splits)
  next
    case (Inr p)
    then have p: "storeRotatedTokens r m = Inr (fst p, snd p)" by simp
    have "list_ex (\<lambda>hash. hashEquals hash h) (s_spentRefreshTokenHashes r) \<longleftrightarrow> h \<in> set (s_spentRefreshTokenHashes r)"
      by (auto simp: list_ex_iff hashEquals_iff)
    note e = rotateTx_def [of env y h m, unfolded fun_eq_iff, rule_format, of s, unfolded Some p this option.case
        sum.case prod.case]
    show ?thesis
      using same replay [OF Some] issue [OF Some _ _ _ _ _ p] e by (auto simp: not_le split: if_splits)
  qed
qed

lemma storeCacheTx_cases:
  obtains (same) "snd (storeCacheTx sid e origin expiry clock s) = s"
  | (stored) r where "storedSession s = Some r" and "s_phase r = active"
      and "snd (storeCacheTx sid e origin expiry clock s) = putSession (r \<lparr>s_cachedDelegation := Some e,
        s_cachedDelegationTargetOrigin := Some origin, s_cachedDelegationExpiresAt := Some (int expiry)\<rparr>) s"
  by (fastforce simp: storeCacheTx_def split: option.splits if_splits)

lemma clearCacheTx_cases:
  obtains (same) "snd (clearCacheTx q s) = s"
  | (cleared) r where "storedSession s = Some r"
      and "snd (clearCacheTx q s) = putSession (r \<lparr>s_cachedDelegation := None,
        s_cachedDelegationTargetOrigin := None, s_cachedDelegationExpiresAt := None\<rparr>) s"
  by (fastforce simp: clearCacheTx_def split: option.splits if_splits)

subsection \<open>Every section keeps the invariant\<close>

lemma storeOk_session: "storeOk s \<Longrightarrow> storedSession s = Some r \<Longrightarrow> sessionOk r"
  by (simp add: storeOk_def storedSession_Some)

lemma sessionOk_invalid: "sessionOk r \<Longrightarrow> sessionOk (r \<lparr>s_phase := invalid\<rparr>)"
  by (simp add: sessionOk_def)

lemma sessionOk_issued:
  assumes "sessionOk r" and "s_phase r = authorized" and "storeInitialTokens r m issue = Inr (r1, v)"
  shows "sessionOk r1"
proof -
  from assms(3) obtain expiry where "s_sessionExpiresAt r = Some expiry" and r1:
    "r1 = r \<lparr>s_consumedCodeHash := s_pendingCodeHash r, s_pendingCodeHash := None,
       s_authorizationCodeExpiresAt := None, s_accessTokenHash := Some (tm_accessTokenHash m),
       s_accessTokenExpiresAt := Some (min (tm_now m + ACCESS_TOKEN_TTL_MS) expiry),
       s_currentRefreshTokenHash := (if issue then Some (tm_refreshTokenHash m) else None),
       s_phase := active\<rparr>"
    by (auto simp: storeInitialTokens_Inr)
  moreover have "granted r1"
    by (rule granted_cong [of r]) (use assms(1,2) r1 in \<open>simp_all add: sessionOk_def\<close>)
  ultimately show ?thesis using assms(1,2) by (simp add: sessionOk_def)
qed

lemma sessionOk_rotated:
  assumes "sessionOk r" and "s_phase r = active" and "length (s_spentRefreshTokenHashes r) < MAX_REFRESH_ROTATIONS"
    and "storeRotatedTokens r m = Inr (r1, v)"
  shows "sessionOk r1"
proof -
  from assms(4) obtain expiry current where "s_sessionExpiresAt r = Some expiry" and r1:
    "r1 = r \<lparr>s_spentRefreshTokenHashes := s_spentRefreshTokenHashes r @ [current],
       s_currentRefreshTokenHash := Some (tm_refreshTokenHash m),
       s_accessTokenHash := Some (tm_accessTokenHash m),
       s_accessTokenExpiresAt := Some (min (tm_now m + ACCESS_TOKEN_TTL_MS) expiry)\<rparr>"
    by (auto simp: storeRotatedTokens_Inr)
  moreover have "granted r1"
    by (rule granted_cong [of r]) (use assms(1,2) r1 in \<open>simp_all add: sessionOk_def\<close>)
  ultimately show ?thesis using assms(1-3) by (simp add: sessionOk_def)
qed

lemma sessionOk_cache: "sessionOk (r \<lparr>s_cachedDelegation := a, s_cachedDelegationTargetOrigin := b,
    s_cachedDelegationExpiresAt := c\<rparr>) \<longleftrightarrow> sessionOk r"
  by (simp add: sessionOk_def granted_def split: SessionPhase.split)

lemma getClientTx_record:
  "st_record (snd (getClientTx now s)) = st_record s \<or>
     (\<exists>c d. st_record s = Some (OAuthClient c) \<and> st_record (snd (getClientTx now s)) = Some (OAuthClient d))"
  by (simp add: getClientTx_def Let_def split: option.split AuthStateRecordV5.split)

lemma alarmTx_record: "st_record (snd (alarmTx clock s)) = st_record s \<or> st_record (snd (alarmTx clock s)) = None"
  by (simp add: alarmTx_def invalidateTx_def setAlarmTx_def split: option.split)

lemma storeOk_step:
  assumes "storeOk s" and "sessionStep env s t"
  shows "storeOk t"
  using assms(2)
proof cases
  case (client_used now)
  with assms(1) getClientTx_record [of now s] show ?thesis by (auto simp: storeOk_def)
next
  case (claimed a b c now)
  then show ?thesis
    using assms(1)
  proof (cases rule: claimConnectTx_cases [of a b c now s])
    case (claim r)
    with claimed storeOk_session [OF assms(1)] show ?thesis
      by (simp add: sessionOk_def connectMatches_def)
  qed simp
next
  case (completed i code h)
  show ?thesis
  proof (cases rule: completeTx_cases [of i code h s])
    case (grant r expiry)
    with completed storeOk_session [OF assms(1)] show ?thesis by (simp add: sessionOk_authorized)
  qed (use completed assms(1) storeOk_session sessionOk_invalid in auto)
next
  case (exchanged x h c m)
  show ?thesis
  proof (cases rule: exchangeTx_cases [of env x h c m s])
    case (issue r r1 v)
    with exchanged storeOk_session [OF assms(1)] show ?thesis by (simp add: sessionOk_issued)
  qed (use exchanged assms(1) storeOk_session sessionOk_invalid in auto)
next
  case (rotated y h m)
  show ?thesis
  proof (cases rule: rotateTx_cases [of env y h m s])
    case (issue r r1 v)
    with rotated storeOk_session [OF assms(1)] show ?thesis by (simp add: sessionOk_rotated)
  qed (use rotated assms(1) storeOk_session sessionOk_invalid in auto)
next
  case (cached sid e origin expiry clock)
  show ?thesis
    by (cases rule: storeCacheTx_cases [of sid e origin expiry clock s])
      (use cached assms(1) storeOk_session sessionOk_cache in auto)
next
  case (cleared r)
  show ?thesis
    by (cases rule: clearCacheTx_cases [of r s]) (use cleared assms(1) storeOk_session sessionOk_cache in auto)
next
  case (alarm_fired clock)
  with assms(1) alarmTx_record [of clock s] show ?thesis by (auto simp: storeOk_def)
qed (use assms(1) in \<open>simp_all add: setAlarmTx_def invalidateTx_def\<close>)

subsection \<open>What later sections may rely on\<close>

fun phaseRank :: "SessionPhase \<Rightarrow> nat" where
  "phaseRank pending = 0"
| "phaseRank redeeming = 1"
| "phaseRank authorized = 2"
| "phaseRank active = 3"
| "phaseRank invalid = 4"

text \<open>
  A session only moves forward. Its identity, its client, redirect address, resource, challenge and cap
  never change; once tokens have been issued the grant itself is fixed too, and a spent refresh token
  stays spent.
\<close>

definition sessionAdvances :: "AuthorizationSessionRecordV5 \<Rightarrow> AuthorizationSessionRecordV5 \<Rightarrow> bool" where
  "sessionAdvances r r' \<longleftrightarrow>
     phaseRank (s_phase r) \<le> phaseRank (s_phase r') \<and>
     set (s_spentRefreshTokenHashes r) \<subseteq> set (s_spentRefreshTokenHashes r') \<and>
     s_sessionId r' = s_sessionId r \<and> s_clientId r' = s_clientId r \<and> s_redirectUri r' = s_redirectUri r \<and>
     s_resource r' = s_resource r \<and> s_codeChallenge r' = s_codeChallenge r \<and>
     s_createdAt r' = s_createdAt r \<and> s_sessionCapAt r' = s_sessionCapAt r \<and>
     (3 \<le> phaseRank (s_phase r) \<longrightarrow>
        s_consumedCodeHash r' = s_consumedCodeHash r \<and> s_sessionExpiresAt r' = s_sessionExpiresAt r \<and>
        s_scope r' = s_scope r \<and> s_actionPermission r' = s_actionPermission r \<and>
        s_identitySource r' = s_identitySource r \<and> s_reviewAccessVersion r' = s_reviewAccessVersion r)"

definition storeAdvances :: "AuthStore \<Rightarrow> AuthStore \<Rightarrow> bool" where
  "storeAdvances s t \<longleftrightarrow>
     (storedSession s = None \<longrightarrow> storedSession t = None) \<and>
     (\<forall>r r'. storedSession s = Some r \<longrightarrow> storedSession t = Some r' \<longrightarrow> sessionAdvances r r')"

lemma sessionAdvances_refl: "sessionAdvances r r"
  by (simp add: sessionAdvances_def)

lemma sessionAdvances_trans: "sessionAdvances a b \<Longrightarrow> sessionAdvances b c \<Longrightarrow> sessionAdvances a c"
  unfolding sessionAdvances_def by auto

lemma storeAdvances_refl: "storeAdvances s s"
  by (simp add: storeAdvances_def sessionAdvances_refl)

lemma storeAdvances_trans: "storeAdvances s t \<Longrightarrow> storeAdvances t u \<Longrightarrow> storeAdvances s u"
proof -
  assume st: "storeAdvances s t" and tu: "storeAdvances t u"
  have "sessionAdvances a c" if "storedSession s = Some a" "storedSession u = Some c" for a c
  proof (cases "storedSession t")
    case None
    with tu that show ?thesis by (simp add: storeAdvances_def)
  next
    case (Some b)
    with st tu that show ?thesis by (auto simp: storeAdvances_def intro: sessionAdvances_trans)
  qed
  with st tu show ?thesis by (simp add: storeAdvances_def)
qed

lemma storeAdvances_put:
  "storedSession s = Some r \<Longrightarrow> sessionAdvances r r' \<Longrightarrow> storeAdvances s (putSession r' s)"
  by (simp add: storeAdvances_def)

lemma storeAdvances_same:
  "storedSession t = storedSession s \<or> storedSession t = None \<Longrightarrow> storeAdvances s t"
  by (auto simp: storeAdvances_def sessionAdvances_refl)

lemma sessionAdvances_invalid: "sessionAdvances r (r \<lparr>s_phase := invalid\<rparr>)"
  by (cases "s_phase r") (simp_all add: sessionAdvances_def)

lemma storeAdvances_step:
  assumes "sessionStep env s t"
  shows "storeAdvances s t"
  using assms
proof cases
  case (client_used now)
  with getClientTx_record [of now s] show ?thesis
    by (intro storeAdvances_same) (auto simp: storedSession_def)
next
  case (claimed a b c now)
  show ?thesis
  proof (cases rule: claimConnectTx_cases [of a b c now s])
    case (claim r)
    with claimed show ?thesis
      by (auto intro!: storeAdvances_put simp: sessionAdvances_def connectMatches_def)
  qed (use claimed in \<open>simp add: storeAdvances_refl\<close>)
next
  case (completed i code h)
  show ?thesis
  proof (cases rule: completeTx_cases [of i code h s])
    case (grant r expiry)
    with completed show ?thesis
      by (auto intro!: storeAdvances_put simp: sessionAdvances_def authorizedSession_def)
  qed (use completed in \<open>auto intro: storeAdvances_put sessionAdvances_invalid simp: storeAdvances_refl\<close>)
next
  case (exchanged x h c m)
  show ?thesis
  proof (cases rule: exchangeTx_cases [of env x h c m s])
    case (issue r r1 v)
    with exchanged show ?thesis
      by (auto intro!: storeAdvances_put simp: sessionAdvances_def storeInitialTokens_Inr)
  qed (use exchanged in \<open>auto intro: storeAdvances_put sessionAdvances_invalid simp: storeAdvances_refl\<close>)
next
  case (rotated y h m)
  show ?thesis
  proof (cases rule: rotateTx_cases [of env y h m s])
    case (issue r r1 v)
    with rotated show ?thesis
      by (auto intro!: storeAdvances_put simp: sessionAdvances_def storeRotatedTokens_Inr)
  qed (use rotated in \<open>auto intro: storeAdvances_put sessionAdvances_invalid simp: storeAdvances_refl\<close>)
next
  case (cached sid e origin expiry clock)
  show ?thesis
    by (cases rule: storeCacheTx_cases [of sid e origin expiry clock s])
      (use cached in \<open>auto intro!: storeAdvances_put simp: sessionAdvances_def storeAdvances_refl\<close>)
next
  case (cleared r)
  show ?thesis
    by (cases rule: clearCacheTx_cases [of r s])
      (use cleared in \<open>auto intro!: storeAdvances_put simp: sessionAdvances_def storeAdvances_refl\<close>)
next
  case (alarm_fired clock)
  with alarmTx_record [of clock s] show ?thesis
    by (intro storeAdvances_same) (auto simp: storedSession_def)
qed (auto intro!: storeAdvances_same simp: setAlarmTx_def invalidateTx_def storedSession_def storeAdvances_refl)

interpretation mcp_session: guarded_system "sessionStep env" storeOk storeAdvances for env
proof
  show "storeOk s \<Longrightarrow> sessionStep env s t \<Longrightarrow> storeOk t" for s t by (rule storeOk_step)
  show "storeOk s \<Longrightarrow> sessionStep env s t \<Longrightarrow> storeAdvances s t" for s t by (rule storeAdvances_step)
qed (auto intro: storeAdvances_refl storeAdvances_trans)

lemma storeOk_created:
  assumes "authStep env s t" and "storeOk s"
  shows "storeOk t"
  using assms(1)
proof cases
  case session
  with assms(2) show ?thesis by (blast intro: storeOk_step)
qed (use assms(2) in \<open>auto simp: createRecordTx_def sessionOk_def newSession_def split: option.splits\<close>)

interpretation mcp_store: guarded_system "authStep env" storeOk "\<lambda>_ _. True" for env
  by unfold_locales (auto intro: storeOk_created)

subsection \<open>Methods\<close>

text \<open>What the other events of the object do is made of sections too.\<close>

definition mcpHostOk :: "('key, 'chain, 'ident) McpHost \<Rightarrow> McpEnv \<Rightarrow> bool" where
  "mcpHostOk h env \<longleftrightarrow> (\<forall>k s. (authStep env)\<^sup>*\<^sup>* s (mh_others h k s))"

text \<open>The same when no new client or session is created meanwhile.\<close>

definition mcpHostKeepsSession :: "('key, 'chain, 'ident) McpHost \<Rightarrow> McpEnv \<Rightarrow> bool" where
  "mcpHostKeepsSession h env \<longleftrightarrow> (\<forall>k s. (sessionStep env)\<^sup>*\<^sup>* s (mh_others h k s))"

definition authRuns :: "McpEnv \<Rightarrow> AuthWorld \<Rightarrow> AuthWorld \<Rightarrow> bool" where
  "authRuns env w w' \<longleftrightarrow> (authStep env)\<^sup>*\<^sup>* (w_store w) (w_store w')"

interpretation mcp_moves: preorder_moves "authRuns env" for env
  by unfold_locales (auto simp: authRuns_def intro: rtranclp_trans)

lemma section_state:
  "storageSection h f w = (fst (f (mh_now h (w_calls w)) (mh_others h (w_calls w) (w_store w))),
     w \<lparr>w_calls := Suc (w_calls w), w_store := snd (f (mh_now h (w_calls w)) (mh_others h (w_calls w) (w_store w)))\<rparr>)"
  by (simp add: storageSection_def Let_def split: prod.split)

lemma section_moves:
  assumes "mcpHostOk h env" and "\<And>c s. authStep env s (snd (f c s))"
  shows "movesA (authRuns env) (storageSection h f)"
proof (rule movesA_I)
  fix w :: AuthWorld
  have "(authStep env)\<^sup>*\<^sup>* (w_store w) (mh_others h (w_calls w) (w_store w))"
    using assms(1) by (simp add: mcpHostOk_def)
  then show "authRuns env w (snd (storageSection h f w))"
    using assms(2) by (auto simp: authRuns_def section_state intro: rtranclp.rtrancl_into_rtrancl)
qed

lemma transaction_step: "sessionStep env s (snd (f s)) \<Longrightarrow> authStep env s (snd (transaction f s))"
  using transaction_state [of f s] by (metis authStep.session sessionStep.idle)

lemma callIndex_moves: "movesA (authRuns env) callIndex"
  by (rule movesA_I) (simp add: callIndex_def authRuns_def)

lemma section_steps:
  "authStep env s (snd (transaction (getClientTx now) s))"
  "authStep env s (snd (transaction (claimConnectTx a b c now) s))"
  "authStep env s (snd (transaction (completeTx i code codeHash) s))"
  "authStep env s (snd (transaction (exchangeTx env x codeHash challenge m) s))"
  "authStep env s (snd (transaction (rotateTx env y tokenHash m) s))"
  "authStep env s (snd (storeCacheTx sid e origin expiry clock s))"
  "authStep env s (snd (clearCacheTx r s))"
  "authStep env s (snd (setAlarmTx t s))"
  "authStep env s (snd (invalidateTx s))"
  "authStep env s (snd (alarmTx clock s))"
  "authStep env s s"
  "authStep env s (snd (createRecordTx (OAuthClient cl) s))"
  "authStep env s (snd (createRecordTx (AuthorizationSession (newSession input)) s))"
  by (rule transaction_step, rule sessionStep.intros)+
    (rule authStep.session sessionStep.intros authStep.intros(2,3))+

lemma primitive_moves:
  assumes "mcpHostOk h env"
  shows "movesA (authRuns env) (setAlarm h t)" and "movesA (authRuns env) (invalidate h)"
    and "movesA (authRuns env) (getSession h)" and "movesA (authRuns env) (clearCachedDelegation h r)"
    and "movesA (authRuns env) (alarm h)"
  unfolding setAlarm_def invalidate_def getSession_def clearCachedDelegation_def alarm_def
  by (rule section_moves [OF assms], simp add: section_steps)+

lemma finishTokens_moves: "mcpHostOk h env \<Longrightarrow> movesA (authRuns env) (finishTokens h r)"
  unfolding finishTokens_def by (cases r) (auto intro!: mcp_moves.moves primitive_moves)

lemma createTokenMaterial_moves: "movesA (authRuns env) (createTokenMaterial h sid issue now)"
  unfolding createTokenMaterial_def Let_def by (intro mcp_moves.moves callIndex_moves)

lemma mintFailure_moves: "mcpHostOk h env \<Longrightarrow> movesA (authRuns env) (mintFailure h e)"
  unfolding mintFailure_def by (cases e) (auto intro!: mcp_moves.moves primitive_moves)

lemma mint_moves: "mcpHostOk h env \<Longrightarrow> movesA (authRuns env) (mintAndCacheDelegation h env origin scope permission now)"
  unfolding mintAndCacheDelegation_def split_def
  by (intro mcp_moves.moves primitive_moves callIndex_moves mintFailure_moves section_moves section_steps)

lemma readCached_moves: "mcpHostOk h env \<Longrightarrow> movesA (authRuns env) (readCachedDelegation h env origin now)"
  unfolding readCachedDelegation_def
  by (intro mcp_moves.moves primitive_moves callIndex_moves)

lemma singleFlight_moves: "movesA (authRuns env) f \<Longrightarrow> movesA (authRuns env) (singleFlightRun h f)"
  unfolding singleFlightRun_def by (intro mcp_moves.moves callIndex_moves)

lemmas method_moves = mcp_moves.moves primitive_moves callIndex_moves section_moves section_steps
  finishTokens_moves createTokenMaterial_moves mint_moves readCached_moves singleFlight_moves

text \<open>The calls the object receives: the methods of the class, its alarm included.\<close>

inductive mcpCall :: "('key, 'chain, 'ident) McpHost \<Rightarrow> McpEnv \<Rightarrow> AuthWorld \<Rightarrow> AuthWorld \<Rightarrow> bool" for h env where
  "mcpCall h env w (snd (createClient h client w))"
| "mcpCall h env w (snd (getClient h now w))"
| "mcpCall h env w (snd (createSession h session w))"
| "mcpCall h env w (snd (claimConnect h connectState cookie now w))"
| "mcpCall h env w (snd (inspectPendingConnect h connectState cookie now w))"
| "mcpCall h env w (snd (completeConnect h grantExpiresAt permission now sessionId w))"
| "mcpCall h env w (snd (completeReviewConnect h version now sessionId w))"
| "mcpCall h env w (snd (exchangeCode h env x w))"
| "mcpCall h env w (snd (rotateRefreshToken h env y w))"
| "mcpCall h env w (snd (validateAccessToken h env token res now w))"
| "mcpCall h env w (snd (authenticateAccessToken h env token res now require w))"
| "mcpCall h env w (snd (invalidate h w))"
| "mcpCall h env w (snd (alarm h w))"

lemma completeAuthorization_moves: "mcpHostOk h env \<Longrightarrow> movesA (authRuns env) (completeAuthorization h i)"
  unfolding completeAuthorization_def Let_def by (intro method_moves)

lemma connect_moves:
  assumes "mcpHostOk h env"
  shows "movesA (authRuns env) (createClient h client)" and "movesA (authRuns env) (getClient h now)"
    and "movesA (authRuns env) (createSession h session)" and "movesA (authRuns env) (claimConnect h connectState cookie now)"
    and "movesA (authRuns env) (inspectPendingConnect h connectState cookie now)"
  unfolding createClient_def getClient_def createSession_def claimConnect_def inspectPendingConnect_def split_def
  by (intro method_moves assms)+

lemma token_moves:
  assumes "mcpHostOk h env"
  shows "movesA (authRuns env) (exchangeCode h env x)" and "movesA (authRuns env) (rotateRefreshToken h env y)"
    and "movesA (authRuns env) (validateAccessToken h env token res now)"
    and "movesA (authRuns env) (authenticateAccessToken h env token res now require)"
proof -
  show v: "movesA (authRuns env) (validateAccessToken h env token res now)"
    unfolding validateAccessToken_def by (intro method_moves assms)
  show "movesA (authRuns env) (authenticateAccessToken h env token res now require)"
    unfolding authenticateAccessToken_def by (intro v method_moves assms)
qed (unfold exchangeCode_def rotateRefreshToken_def, (intro method_moves assms)+)

lemma moves_call: "movesA R m \<Longrightarrow> R w (snd (m w))"
  by (simp add: movesA_def)

lemma mcpCall_runs:
  assumes "mcpCall h env w w'" and "mcpHostOk h env"
  shows "authRuns env w w'"
  using assms(1)
  by cases (simp_all only: completeConnect_def completeReviewConnect_def,
      (rule moves_call, rule connect_moves token_moves completeAuthorization_moves primitive_moves, rule assms(2))+)

subsection \<open>Runs of the token methods\<close>

definition tokenMaterialAt ::
    "('key, 'chain, 'ident) McpHost \<Rightarrow> string option \<Rightarrow> bool \<Rightarrow> int \<Rightarrow> nat \<Rightarrow> TokenMaterial" where
  "tokenMaterialAt h sid issue now k =
     (let routed = (case sid of Some x \<Rightarrow> x | None \<Rightarrow> randomOpaque (mh_crypto h) k 18);
          access = ''mka1.'' @ routed @ ''.'' @ randomOpaque (mh_crypto h) (Suc k) 32;
          refresh = (if issue then ''mkr1.'' @ routed @ ''.'' @ randomOpaque (mh_crypto h) (Suc (Suc k)) 32 else [])
      in \<lparr>tm_accessToken = access, tm_accessTokenHash = sha256 (mh_crypto h) access, tm_refreshToken = refresh,
          tm_refreshTokenHash = (if refresh \<noteq> [] then sha256 (mh_crypto h) refresh else []), tm_now = now\<rparr>)"

lemma createTokenMaterial_run:
  "createTokenMaterial h sid issue now w =
     (Inr (tokenMaterialAt h sid issue now (w_calls w)), w \<lparr>w_calls := w_calls w + 3\<rparr>)"
  by (simp add: createTokenMaterial_def tokenMaterialAt_def callIndex_def bindA_def Let_def)

lemma exchangeTx_returns:
  shows "\<exists>result t. exchangeTx env x h c m s = (Inr result, t)"
    and "transaction (exchangeTx env x h c m) s = exchangeTx env x h c m s"
proof -
  have "storeInitialTokens r m i \<noteq> Inl e" if "liveUntil (s_sessionExpiresAt r) (x_now x)" for r i e
    using that by (auto simp: liveUntil_iff storeInitialTokens_def tokenIssueResult_def requiredSessionExpiry_def Let_def)
  then have *: "\<forall>e. fst (exchangeTx env x h c m s) \<noteq> Inl e"
    unfolding exchangeTx_def by (auto split: option.split sum.splits)
  then show "transaction (exchangeTx env x h c m) s = exchangeTx env x h c m s"
    by (auto simp: transaction_def split: prod.splits sum.splits)
  from * show "\<exists>result t. exchangeTx env x h c m s = (Inr result, t)" by (cases "exchangeTx env x h c m s"; cases "fst (exchangeTx env x h c m s)") auto
qed

lemma rotateTx_returns:
  shows "\<exists>result t. rotateTx env y h m s = (Inr result, t)"
    and "transaction (rotateTx env y h m) s = rotateTx env y h m s"
proof -
  have "storeRotatedTokens r m \<noteq> Inl e"
    if "liveUntil (s_sessionExpiresAt r) (y_now y)" "hashMatches (s_currentRefreshTokenHash r) h" for r e
    using that by (auto simp: liveUntil_iff storeRotatedTokens_def tokenIssueResult_def requiredSessionExpiry_def
        requiredCurrentRefreshTokenHash_def Let_def)
  then have *: "\<forall>e. fst (rotateTx env y h m s) \<noteq> Inl e"
    unfolding rotateTx_def by (auto split: option.split sum.splits simp del: hashMatches_iff)
  then show "transaction (rotateTx env y h m) s = rotateTx env y h m s"
    by (auto simp: transaction_def split: prod.splits sum.splits)
  from * show "\<exists>result t. rotateTx env y h m s = (Inr result, t)" by (cases "rotateTx env y h m s"; cases "fst (rotateTx env y h m s)") auto
qed

lemma alarm_set_runs: "(sessionStep env)\<^sup>*\<^sup>* s t \<Longrightarrow> (sessionStep env)\<^sup>*\<^sup>* s (t \<lparr>st_alarm := Some e\<rparr>)"
  using sessionStep.alarm_set [of env t e] by (simp add: setAlarmTx_def rtranclp.rtrancl_into_rtrancl)

lemma keepsSession_runs: "mcpHostKeepsSession h env \<Longrightarrow> (sessionStep env)\<^sup>*\<^sup>* s (mh_others h k s)"
  by (simp add: mcpHostKeepsSession_def)

text \<open>
  The section of a token method and what follows it: it issues, and its alarm is set; it detects a
  replay, and the object is emptied; or it leaves the storage as it found it.
\<close>

lemma finish_cases [consumes 1, case_names issued replay none]:
  assumes "mcpHostKeepsSession h env"
  obtains (issued) v where "result = Issued v" and "fst (finishTokens h result w) = Inr (Some v)"
      and "(sessionStep env)\<^sup>*\<^sup>* (w_store w) (w_store (snd (finishTokens h result w)))"
  | (replay) "result = Replay" and "fst (finishTokens h result w) = Inr None"
      and "st_record (w_store (snd (finishTokens h result w))) = None"
  | (none) "result = InvalidRequest" and "finishTokens h result w = (Inr None, w)"
  using assms
  by (cases result)
    (auto simp: finishTokens_def setAlarm_def invalidate_def setAlarmTx_def invalidateTx_def bindA_def section_state
      intro: alarm_set_runs keepsSession_runs)

text \<open>The storage the section of a token method finds.\<close>

definition seenStore :: "('key, 'chain, 'ident) McpHost \<Rightarrow> AuthWorld \<Rightarrow> AuthStore" where
  "seenStore h w = mh_others h (w_calls w + 3) (w_store w)"

lemma exchangeCode_run:
  assumes "isCodeVerifier (x_codeVerifier x)"
    and "exchangeTx env x (sha256 (mh_crypto h) (x_code x)) (sha256 (mh_crypto h) (x_codeVerifier x))
      (tokenMaterialAt h (routeId (x_code x)) (x_issueRefreshToken x) (x_now x) (w_calls w)) (seenStore h w) = (Inr result, t)"
  shows "exchangeCode h env x w = finishTokens h result (w \<lparr>w_calls := 4 + w_calls w, w_store := t\<rparr>)"
  using assms
  by (simp add: exchangeCode_def bindA_def createTokenMaterial_run section_state exchangeTx_returns(2) seenStore_def)

lemma rotateRefreshToken_run:
  assumes "rotateTx env y (sha256 (mh_crypto h) (y_refreshToken y))
      (tokenMaterialAt h (routeId (y_refreshToken y)) True (y_now y) (w_calls w)) (seenStore h w) = (Inr result, t)"
  shows "rotateRefreshToken h env y w = finishTokens h result (w \<lparr>w_calls := 4 + w_calls w, w_store := t\<rparr>)"
  using assms
  by (simp add: rotateRefreshToken_def bindA_def createTokenMaterial_run section_state rotateTx_returns(2) seenStore_def)

lemma session_later:
  assumes "storeOk s" and "(sessionStep env)\<^sup>*\<^sup>* s t" and "storedSession s = Some r" and "storedSession t = Some r'"
  shows "sessionAdvances r r'"
  using mcp_session.adv_run [OF assms(2,1)] assms(3,4) by (simp add: storeAdvances_def)

lemma finish_issued:
  assumes "mcpHostKeepsSession h env" and "finishTokens h res w = (Inr (Some v), w1)"
  shows "res = Issued v" and "(sessionStep env)\<^sup>*\<^sup>* (w_store w) (w_store w1)"
  using assms by (cases rule: finish_cases [where result = res and w = w]; simp)+

end
