(* ===== verification/Mcp_Auth_Properties.thy ===== *)
theory Mcp_Auth_Properties
  imports Mcp_Auth_System
begin

section \<open>MCP worker: properties of the authorization state\<close>

text \<open>
  The properties of the methods of the authorization state object, each for every interleaving of the
  object's other events, with a run of a sample host as witness.
\<close>

subsection \<open>A sample host\<close>

definition sampleCrypto :: WebCrypto where
  "sampleCrypto = \<lparr>wc_digest = (\<lambda>bytes. bytes), wc_random = (\<lambda>k n. [word_of_nat k]),
     wc_encrypt = (\<lambda>key iv aad p. key @ aad @ p),
     wc_decrypt = (\<lambda>key iv aad c.
        if take (length (key @ aad)) c = key @ aad then Some (drop (length (key @ aad)) c) else None)\<rparr>"

definition sampleActor :: InternetIdentityActor where
  "sampleActor = \<lparr>mcp_register_v2 = (\<lambda>_. None), mcp_get_accounts = (\<lambda>_. Some (Inr [])),
     mcp_prepare_delegation = (\<lambda>_ _ _. Some (Inr \<lparr>pd_user_key = [1], pd_expiration = 2000000000, pd_account_number = None\<rparr>)),
     mcp_get_delegation = (\<lambda>_ _ _ _ _. Some (Inr \<lparr>sd_pubkey = [2], sd_expiration = 2000000000000,
        sd_targets = None, sd_permissions = None, sd_signature = [3]\<rparr>))\<rparr>"

definition sampleSdk :: "(string, nat, string) IiSdk" where
  "sampleSdk = \<lparr>sdk_generate = (\<lambda>k. ''key''), sdk_keyJson = JStr,
     sdk_keyOf = (\<lambda>v. case v of JStr s \<Rightarrow> Inr s | _ \<Rightarrow> Inl (IiHostError ''key'')),
     sdk_publicDer = utf8Encode, sdk_chain = (\<lambda>d user. Inr (sd_expiration d)),
     sdk_chainJson = (\<lambda>n. JNum (natToDec n)),
     sdk_chainOf = (\<lambda>v. case jsonNat (Some v) of Some n \<Rightarrow> Inr n | None \<Rightarrow> Inl (IiHostError ''chain'')),
     sdk_chainOfText = (\<lambda>s. Inr (decToNat s)), sdk_chainValid = (\<lambda>clock c. True), sdk_expirations = (\<lambda>n. [n]),
     sdk_identity = (\<lambda>key c. Inr key), sdk_keyActor = (\<lambda>key. Inr sampleActor), sdk_identityActor = (\<lambda>i. Inr sampleActor)\<rparr>"

definition sampleMcpHost :: "(string, nat, string) McpHost" where
  "sampleMcpHost = \<lparr>mh_crypto = sampleCrypto, mh_sdk = sampleSdk, mh_now = (\<lambda>k. 1000), mh_others = (\<lambda>k s. s),
     mh_running = (\<lambda>k. None),
     mh_parseUrl = (\<lambda>u. Some \<lparr>pu_origin = u, pu_protocol = ''https:'', pu_username = [], pu_password = [],
        pu_port = [], pu_pathname = ''/'', pu_search = [], pu_hash = []\<rparr>),
     mh_principalText = Some\<rparr>"

definition sampleMcpEnv :: McpEnv where
  "sampleMcpEnv = \<lparr>mcp_MCP_ACCESS_POLICY = ''private_required'', mcp_MCP_REVIEW_ACCESS_VERSION = None,
     mcp_MCP_KEY_ENCRYPTION_KEY = None,
     mcp_KINIC_WIKI_MCP_TARGET_ORIGIN = Some ''https://aaaaa.ic0.app'', mcp_KINIC_WIKI_CANISTER_ID = Some ''aaaaa''\<rparr>"

definition sampleVerifier :: string where
  "sampleVerifier = replicate 43 (CHR ''v'')"

definition sampleInput :: AuthorizationSessionInput where
  "sampleInput = \<lparr>in_sessionId = ''s1'', in_clientId = ''c1'', in_redirectUri = ''https://app/cb'', in_oauthState = ''o'',
     in_scope = ''mcp:read mcp:write'', in_resource = ''https://mcp'', in_codeChallenge = sha256 sampleCrypto sampleVerifier,
     in_connectStateHash = ''h1'', in_cookieHash = ''h2'', in_registrationPublicKey = ''pk'', in_registrationKey = None,
     in_sessionKey = None, in_createdAt = 0, in_sessionCapAt = 9000000, in_connectExpiresAt = 600000\<rparr>"

definition sampleGrant :: AuthorizationInput where
  "sampleGrant = \<lparr>ai_grantExpiresAt = 8000000, ai_actionPermission = queries, ai_identitySource = internet_identity,
     ai_reviewAccessVersion = None, ai_now = 1000, ai_expectedSessionId = ''s1''\<rparr>"

definition sampleAuthorized :: AuthorizationSessionRecordV5 where
  "sampleAuthorized = authorizedSession (newSession sampleInput \<lparr>s_phase := redeeming\<rparr>) sampleGrant
     (sha256 sampleCrypto ''mkc1.s1.code'') 8000000"

definition sampleExchange :: ExchangeInput where
  "sampleExchange = \<lparr>x_code = ''mkc1.s1.code'', x_clientId = ''c1'', x_redirectUri = ''https://app/cb'',
     x_codeVerifier = sampleVerifier, x_issueRefreshToken = True, x_exchangeScope = None, x_now = 2000\<rparr>"

definition sampleWorld :: "AuthorizationSessionRecordV5 \<Rightarrow> AuthWorld" where
  "sampleWorld r = \<lparr>w_store = \<lparr>st_record = Some (AuthorizationSession r), st_alarm = None\<rparr>, w_calls = 0\<rparr>"

lemma sampleMcpHost_simps [simp]:
  "mh_crypto sampleMcpHost = sampleCrypto" "mh_sdk sampleMcpHost = sampleSdk" "mh_others sampleMcpHost k s = s"
  "mh_now sampleMcpHost k = 1000" "mh_running sampleMcpHost k = None"
  by (simp_all add: sampleMcpHost_def)

lemma sampleMcpHost_ok: "mcpHostOk sampleMcpHost env" "mcpHostKeepsSession sampleMcpHost env"
  by (simp_all add: mcpHostOk_def mcpHostKeepsSession_def)

lemma sampleVerifier_ok: "isCodeVerifier sampleVerifier"
  by (simp add: sampleVerifier_def isCodeVerifier_def list_all_iff)

lemma sample_sha256_not_Nil: "s \<noteq> [] \<Longrightarrow> sha256 sampleCrypto s \<noteq> []"
  by (simp add: sha256_def sampleCrypto_def base64UrlEncode_url64)
    (cases s, simp_all add: utf8Encode_def utf8Char_def Let_def)

lemma sampleAuthorized_ok: "sessionOk sampleAuthorized"
proof -
  let ?r = "newSession sampleInput \<lparr>s_phase := redeeming\<rparr>"
  have "sessionOk ?r" by (simp add: sessionOk_def newSession_def)
  then show ?thesis
    unfolding sampleAuthorized_def
    by (rule sessionOk_authorized)
      (simp_all add: newSession_def sampleInput_def sampleGrant_def sessionTtl_def II_SESSION_TTL_MS_def)
qed

lemma sampleWorld_ok: "sessionOk r \<Longrightarrow> storeOk (w_store (sampleWorld r))"
  by (simp add: storeOk_def sampleWorld_def)

subsection \<open>The invariant\<close>

text \<open>
  C10. Every run of the object's methods, in any order and with any other events between their storage
  sections, keeps the session well formed: an authorized or active session ends by its cap and by the
  lifetime of its identity source, a read-only grant has no write scope, no access token outlives its
  session, and no more than the allowed number of refresh tokens has been spent.
\<close>

theorem auth_methods_keep_invariant:
  assumes "mcpHostOk h env" and "(mcpCall h env)\<^sup>*\<^sup>* w w'" and "storeOk (w_store w)"
  shows "storeOk (w_store w')"
  using assms(2,3)
proof (induction rule: rtranclp_induct)
  case (step u v)
  then have "(authStep env)\<^sup>*\<^sup>* (w_store u) (w_store v)"
    using mcpCall_runs [OF _ assms(1)] by (simp add: authRuns_def)
  with step show ?case by (blast intro: mcp_store.inv_run)
qed

lemma auth_methods_keep_invariant_witness:
  "storeOk (w_store (snd (exchangeCode sampleMcpHost sampleMcpEnv sampleExchange (sampleWorld sampleAuthorized))))"
proof (rule auth_methods_keep_invariant [OF sampleMcpHost_ok(1) _ sampleWorld_ok [OF sampleAuthorized_ok]])
  show "(mcpCall sampleMcpHost sampleMcpEnv)\<^sup>*\<^sup>* (sampleWorld sampleAuthorized)
      (snd (exchangeCode sampleMcpHost sampleMcpEnv sampleExchange (sampleWorld sampleAuthorized)))"
    by (rule r_into_rtranclp, rule mcpCall.intros)
qed

subsection \<open>Codes and refresh tokens are used once\<close>

lemma exchangeCode_issued:
  assumes "mcpHostKeepsSession h env" and "exchangeCode h env x w = (Inr (Some v), w1)"
  obtains r r1 t where "storedSession (seenStore h w) = Some r" and "s_phase r = authorized"
    and "liveUntil (s_sessionExpiresAt r) (x_now x)" and "requestMatchesSession r x (sha256 (mh_crypto h) (x_codeVerifier x))"
    and "hashMatches (s_pendingCodeHash r) (sha256 (mh_crypto h) (x_code x))"
    and "storeInitialTokens r (tokenMaterialAt h (routeId (x_code x)) (x_issueRefreshToken x) (x_now x) (w_calls w))
      (grantsRefresh r x) = Inr (r1, v)"
    and "sessionStep env (seenStore h w) (putSession r1 (seenStore h w))"
    and "(sessionStep env)\<^sup>*\<^sup>* (putSession r1 (seenStore h w)) (w_store w1)"
    and "isCodeVerifier (x_codeVerifier x)"
proof -
  let ?m = "tokenMaterialAt h (routeId (x_code x)) (x_issueRefreshToken x) (x_now x) (w_calls w)"
  let ?tx = "exchangeTx env x (sha256 (mh_crypto h) (x_code x)) (sha256 (mh_crypto h) (x_codeVerifier x)) ?m (seenStore h w)"
  have ver: "isCodeVerifier (x_codeVerifier x)"
    using assms(2) by (auto simp: exchangeCode_def split: if_splits)
  obtain res t where tx: "?tx = (Inr res, t)"
    using exchangeTx_returns(1) by blast
  note run = exchangeCode_run [OF ver tx, unfolded assms(2), symmetric]
  note fin = finish_issued [OF assms(1) run]
  show ?thesis
  proof (cases rule: exchangeTx_cases [of env x "sha256 (mh_crypto h) (x_code x)"
        "sha256 (mh_crypto h) (x_codeVerifier x)" ?m "seenStore h w"])
    case (issue r r1 v'')
    with tx fin(1) have t: "t = putSession r1 (seenStore h w)" and v: "v'' = v" by simp_all
    have "sessionStep env (seenStore h w) (putSession r1 (seenStore h w))"
      using sessionStep.exchanged [of env "seenStore h w"] issue(9) by (metis snd_conv)
    with that [OF issue(1,2,4,6,7)] issue(8) fin(2) ver t v show ?thesis by simp
  qed (use tx fin(1) in auto)
qed

lemma rotateRefreshToken_issued:
  assumes "mcpHostKeepsSession h env" and "rotateRefreshToken h env y w = (Inr (Some v), w1)"
  obtains r r1 where "storedSession (seenStore h w) = Some r" and "s_phase r = active"
    and "liveUntil (s_sessionExpiresAt r) (y_now y)"
    and "hashMatches (s_currentRefreshTokenHash r) (sha256 (mh_crypto h) (y_refreshToken y))"
    and "storeRotatedTokens r (tokenMaterialAt h (routeId (y_refreshToken y)) True (y_now y) (w_calls w)) = Inr (r1, v)"
    and "sessionStep env (seenStore h w) (putSession r1 (seenStore h w))"
    and "(sessionStep env)\<^sup>*\<^sup>* (putSession r1 (seenStore h w)) (w_store w1)"
proof -
  let ?m = "tokenMaterialAt h (routeId (y_refreshToken y)) True (y_now y) (w_calls w)"
  let ?tx = "rotateTx env y (sha256 (mh_crypto h) (y_refreshToken y)) ?m (seenStore h w)"
  obtain res t where tx: "?tx = (Inr res, t)" using rotateTx_returns(1) by blast
  note run = rotateRefreshToken_run [OF tx, unfolded assms(2), symmetric]
  note fin = finish_issued [OF assms(1) run]
  show ?thesis
  proof (cases rule: rotateTx_cases [of env y "sha256 (mh_crypto h) (y_refreshToken y)" ?m "seenStore h w"])
    case (issue r r1 v'')
    with tx fin(1) have t: "t = putSession r1 (seenStore h w)" and v: "v'' = v" by simp_all
    have "sessionStep env (seenStore h w) (putSession r1 (seenStore h w))"
      using sessionStep.rotated [of env "seenStore h w"] issue(8) by (metis snd_conv)
    with that [OF issue(1,2,3,5)] issue(7) fin(2) t v show ?thesis by simp
  qed (use tx fin(1) in auto)
qed

lemma exchange_refused:
  assumes "mcpHostKeepsSession h env" and "\<And>r. storedSession (seenStore h w) = Some r \<Longrightarrow> s_phase r \<noteq> authorized"
  shows "fst (exchangeCode h env x w) = Inr None"
proof (cases "isCodeVerifier (x_codeVerifier x)")
  case True
  let ?m = "tokenMaterialAt h (routeId (x_code x)) (x_issueRefreshToken x) (x_now x) (w_calls w)"
  let ?tx = "exchangeTx env x (sha256 (mh_crypto h) (x_code x)) (sha256 (mh_crypto h) (x_codeVerifier x)) ?m (seenStore h w)"
  obtain res t where tx: "?tx = (Inr res, t)" using exchangeTx_returns(1) by blast
  have "\<nexists>v. res = Issued v"
    using tx assms(2)
    by (cases rule: exchangeTx_cases [of env x "sha256 (mh_crypto h) (x_code x)"
          "sha256 (mh_crypto h) (x_codeVerifier x)" ?m "seenStore h w"]) auto
  with assms(1) exchangeCode_run [OF True tx] show ?thesis
    by (cases rule: finish_cases [where result = res and w = "w \<lparr>w_calls := 4 + w_calls w, w_store := t\<rparr>"]) simp_all
qed (simp add: exchangeCode_def)

lemma exchange_replayed:
  assumes "mcpHostKeepsSession h env" and ver: "isCodeVerifier (x_codeVerifier x)"
    and r: "storedSession (seenStore h w) = Some r" "s_phase r = active" "liveUntil (s_sessionExpiresAt r) (x_now x)"
      "hashMatches (s_consumedCodeHash r) (sha256 (mh_crypto h) (x_code x))"
      "requestMatchesSession r x (sha256 (mh_crypto h) (x_codeVerifier x))"
  shows "st_record (w_store (snd (exchangeCode h env x w))) = None"
proof -
  have "exchangeTx env x (sha256 (mh_crypto h) (x_code x)) (sha256 (mh_crypto h) (x_codeVerifier x))
      (tokenMaterialAt h (routeId (x_code x)) (x_issueRefreshToken x) (x_now x) (w_calls w)) (seenStore h w) =
      (Inr Replay, putSession (r \<lparr>s_phase := invalid\<rparr>) (seenStore h w))"
    using r by (auto simp: exchangeTx_def liveUntil_iff)
  note run = exchangeCode_run [OF ver this]
  show ?thesis
    using assms(1)
    by (cases rule: finish_cases [where result = Replay and
          w = "w \<lparr>w_calls := 4 + w_calls w, w_store := putSession (r \<lparr>s_phase := invalid\<rparr>) (seenStore h w)\<rparr>"])
      (simp_all add: run)
qed

lemma seenStore_runs:
  "mcpHostKeepsSession h env \<Longrightarrow> (sessionStep env)\<^sup>*\<^sup>* s (w_store w) \<Longrightarrow> (sessionStep env)\<^sup>*\<^sup>* s (seenStore h w)"
  unfolding seenStore_def by (blast intro: rtranclp_trans keepsSession_runs)

lemma seenStore_ok: "mcpHostKeepsSession h env \<Longrightarrow> storeOk (w_store w) \<Longrightarrow> storeOk (seenStore h w)"
  by (rule mcp_session.inv_run [OF seenStore_runs [OF _ rtranclp.rtrancl_refl]])

text \<open>
  C11. An authorization code is exchanged once. After an exchange has issued tokens, no later exchange
  in that session issues any, whatever other events of the session come between; and the same request
  presented again while the session is live ends the session.
\<close>

theorem code_single_use:
  assumes keeps: "mcpHostKeepsSession h env" and ok: "storeOk (w_store w)"
    and issued: "exchangeCode h env x w = (Inr (Some v), w1)"
    and later: "(sessionStep env)\<^sup>*\<^sup>* (w_store w1) (w_store w2)"
  shows "fst (exchangeCode h env x' w2) = Inr None \<and>
    (storedSession (seenStore h w2) = Some r \<and> s_phase r = active \<and> liveUntil (s_sessionExpiresAt r) n \<longrightarrow>
       st_record (w_store (snd (exchangeCode h env (x \<lparr>x_now := n\<rparr>) w2))) = None)"
proof -
  from exchangeCode_issued [OF keeps issued] obtain q r1 where
    q: "storedSession (seenStore h w) = Some q" "hashMatches (s_pendingCodeHash q) (sha256 (mh_crypto h) (x_code x))"
       "requestMatchesSession q x (sha256 (mh_crypto h) (x_codeVerifier x))" "isCodeVerifier (x_codeVerifier x)"
    and r1: "storeInitialTokens q (tokenMaterialAt h (routeId (x_code x)) (x_issueRefreshToken x) (x_now x) (w_calls w))
      (grantsRefresh q x) = Inr (r1, v)"
    and step: "sessionStep env (seenStore h w) (putSession r1 (seenStore h w))"
    and run: "(sessionStep env)\<^sup>*\<^sup>* (putSession r1 (seenStore h w)) (w_store w1)" by metis
  have ok1: "storeOk (putSession r1 (seenStore h w))"
    by (rule storeOk_step [OF seenStore_ok [OF keeps ok] step])
  have "(sessionStep env)\<^sup>*\<^sup>* (putSession r1 (seenStore h w)) (seenStore h w2)"
    using run later by (intro seenStore_runs [OF keeps]) simp
  then have adv: "sessionAdvances r1 r'" if "storedSession (seenStore h w2) = Some r'" for r'
    using session_later [OF ok1] that by simp
  have act: "s_phase r1 = active" "s_consumedCodeHash r1 = s_pendingCodeHash q"
    "s_clientId r1 = s_clientId q" "s_redirectUri r1 = s_redirectUri q" "s_codeChallenge r1 = s_codeChallenge q"
    using r1 by (auto simp: storeInitialTokens_Inr)
  have "fst (exchangeCode h env x' w2) = Inr None"
    by (rule exchange_refused [OF keeps]) (use adv act(1) in \<open>force simp: sessionAdvances_def\<close>)
  moreover have "st_record (w_store (snd (exchangeCode h env (x \<lparr>x_now := n\<rparr>) w2))) = None"
    if "storedSession (seenStore h w2) = Some r" "s_phase r = active" "liveUntil (s_sessionExpiresAt r) n"
    by (rule exchange_replayed [OF keeps _ that(1,2)])
      (use that(3) q adv [OF that(1)] act in \<open>auto simp: sessionAdvances_def requestMatchesSession_def\<close>)
  ultimately show ?thesis by blast
qed

lemma sample_exchange:
  obtains v w1 where "exchangeCode sampleMcpHost sampleMcpEnv sampleExchange (sampleWorld sampleAuthorized) = (Inr (Some v), w1)"
    and "\<exists>r. st_record (w_store w1) = Some (AuthorizationSession r) \<and> s_phase r = active \<and> s_sessionExpiresAt r = Some 8000000"
proof -
  let ?w = "sampleWorld sampleAuthorized"
  have ver: "isCodeVerifier (x_codeVerifier sampleExchange)" by (simp add: sampleExchange_def sampleVerifier_ok)
  have seen: "storedSession (seenStore sampleMcpHost ?w) = Some sampleAuthorized"
    by (simp add: seenStore_def sampleWorld_def storedSession_def)
  have h: "sha256 sampleCrypto ''mkc1.s1.code'' \<noteq> []" by (rule sample_sha256_not_Nil) simp
  obtain v r1 where "exchangeTx sampleMcpEnv sampleExchange (sha256 (mh_crypto sampleMcpHost) (x_code sampleExchange))
      (sha256 (mh_crypto sampleMcpHost) (x_codeVerifier sampleExchange))
      (tokenMaterialAt sampleMcpHost (routeId (x_code sampleExchange)) (x_issueRefreshToken sampleExchange)
        (x_now sampleExchange) (w_calls ?w)) (seenStore sampleMcpHost ?w)
      = (Inr (Issued v), putSession r1 (seenStore sampleMcpHost ?w))"
    and r1: "s_phase r1 = active" "s_sessionExpiresAt r1 = Some 8000000"
    unfolding exchangeTx_def seen option.case storeInitialTokens_def tokenIssueResult_def requiredSessionExpiry_def
    using h by (simp add: sampleAuthorized_def authorizedSession_def sampleGrant_def newSession_def sampleInput_def
        sampleExchange_def requestMatchesSession_def hashEquals_iff liveUntil_def AUTHORIZATION_CODE_TTL_MS_def
        sessionAccessVersionIsCurrent_def Let_def)
  note run = exchangeCode_run [OF ver this(1)]
  show ?thesis
    by (rule that, simp add: run finishTokens_def bindA_def setAlarm_def section_state setAlarmTx_def) (simp add: r1)
qed

lemma code_single_use_witness:
  "\<exists>v w1. exchangeCode sampleMcpHost sampleMcpEnv sampleExchange (sampleWorld sampleAuthorized) = (Inr (Some v), w1) \<and>
     fst (exchangeCode sampleMcpHost sampleMcpEnv sampleExchange w1) = Inr None \<and>
     st_record (w_store (snd (exchangeCode sampleMcpHost sampleMcpEnv (sampleExchange \<lparr>x_now := 3000\<rparr>) w1))) = None"
proof -
  obtain v w1 r where ex: "exchangeCode sampleMcpHost sampleMcpEnv sampleExchange (sampleWorld sampleAuthorized) = (Inr (Some v), w1)"
    and r: "st_record (w_store w1) = Some (AuthorizationSession r)" "s_phase r = active" "s_sessionExpiresAt r = Some 8000000"
    using sample_exchange by metis
  have "storedSession (seenStore sampleMcpHost w1) = Some r" by (simp add: seenStore_def storedSession_Some r)
  moreover have "liveUntil (s_sessionExpiresAt r) 3000" by (simp add: r liveUntil_def)
  ultimately show ?thesis
    using ex r code_single_use [OF sampleMcpHost_ok(2) sampleWorld_ok [OF sampleAuthorized_ok] ex rtranclp.rtrancl_refl,
        of sampleExchange r 3000] by blast
qed

lemma rotation_refused:
  assumes "mcpHostKeepsSession h env"
    and "\<And>r. storedSession (seenStore h w) = Some r \<Longrightarrow>
      sha256 (mh_crypto h) (y_refreshToken y) \<in> set (s_spentRefreshTokenHashes r)"
  shows "fst (rotateRefreshToken h env y w) = Inr None"
    and "storedSession (seenStore h w) = Some r \<Longrightarrow> s_phase r = active \<Longrightarrow> liveUntil (s_sessionExpiresAt r) (y_now y) \<Longrightarrow>
      sessionAccessVersionIsCurrent r (mcp_MCP_REVIEW_ACCESS_VERSION env) \<Longrightarrow> s_clientId r = y_clientId y \<Longrightarrow>
      s_resource r = y_resource y \<Longrightarrow> st_record (w_store (snd (rotateRefreshToken h env y w))) = None"
proof -
  let ?m = "tokenMaterialAt h (routeId (y_refreshToken y)) True (y_now y) (w_calls w)"
  let ?hash = "sha256 (mh_crypto h) (y_refreshToken y)"
  obtain res t where tx: "rotateTx env y ?hash ?m (seenStore h w) = (Inr res, t)" using rotateTx_returns(1) by blast
  note run = rotateRefreshToken_run [OF tx]
  have "\<nexists>v. res = Issued v"
    using tx assms(2) by (cases rule: rotateTx_cases [of env y ?hash ?m "seenStore h w"]) auto
  with assms(1) show "fst (rotateRefreshToken h env y w) = Inr None"
    by (cases rule: finish_cases [where result = res and w = "w \<lparr>w_calls := 4 + w_calls w, w_store := t\<rparr>"])
      (simp_all add: run)
  assume r: "storedSession (seenStore h w) = Some r" "s_phase r = active" "liveUntil (s_sessionExpiresAt r) (y_now y)"
    "sessionAccessVersionIsCurrent r (mcp_MCP_REVIEW_ACCESS_VERSION env)" "s_clientId r = y_clientId y"
    "s_resource r = y_resource y"
  have "res = Replay"
    using tx r assms(2) [OF r(1)] by (auto simp: rotateTx_def list_ex_iff hashEquals_iff)
  with assms(1) show "st_record (w_store (snd (rotateRefreshToken h env y w))) = None"
    by (cases rule: finish_cases [where result = res and w = "w \<lparr>w_calls := 4 + w_calls w, w_store := t\<rparr>"])
      (simp_all add: run)
qed

text \<open>
  C12. A refresh token is used once. After a rotation has consumed it, presenting it again in that
  session gives no tokens, whatever other events of the session come between; and while the session is
  live, for its client and resource, the reuse ends the session.
\<close>

theorem refresh_reuse_revokes:
  assumes keeps: "mcpHostKeepsSession h env" and ok: "storeOk (w_store w)"
    and issued: "rotateRefreshToken h env y w = (Inr (Some v), w1)"
    and later: "(sessionStep env)\<^sup>*\<^sup>* (w_store w1) (w_store w2)"
    and same: "y_refreshToken y' = y_refreshToken y"
  shows "fst (rotateRefreshToken h env y' w2) = Inr None \<and>
    (storedSession (seenStore h w2) = Some r \<and> s_phase r = active \<and> liveUntil (s_sessionExpiresAt r) (y_now y') \<and>
       sessionAccessVersionIsCurrent r (mcp_MCP_REVIEW_ACCESS_VERSION env) \<and> s_clientId r = y_clientId y' \<and>
       s_resource r = y_resource y' \<longrightarrow>
       st_record (w_store (snd (rotateRefreshToken h env y' w2))) = None)"
proof -
  from rotateRefreshToken_issued [OF keeps issued] obtain q r1 where
    q: "hashMatches (s_currentRefreshTokenHash q) (sha256 (mh_crypto h) (y_refreshToken y))"
    and r1: "storeRotatedTokens q (tokenMaterialAt h (routeId (y_refreshToken y)) True (y_now y) (w_calls w)) = Inr (r1, v)"
    and step: "sessionStep env (seenStore h w) (putSession r1 (seenStore h w))"
    and run: "(sessionStep env)\<^sup>*\<^sup>* (putSession r1 (seenStore h w)) (w_store w1)" by metis
  have ok1: "storeOk (putSession r1 (seenStore h w))"
    by (rule storeOk_step [OF seenStore_ok [OF keeps ok] step])
  have "sha256 (mh_crypto h) (y_refreshToken y) \<in> set (s_spentRefreshTokenHashes r1)"
    using q r1 by (auto simp: storeRotatedTokens_Inr)
  moreover have "(sessionStep env)\<^sup>*\<^sup>* (putSession r1 (seenStore h w)) (seenStore h w2)"
    using run later by (intro seenStore_runs [OF keeps]) simp
  ultimately have "sha256 (mh_crypto h) (y_refreshToken y') \<in> set (s_spentRefreshTokenHashes r')"
    if "storedSession (seenStore h w2) = Some r'" for r'
    using session_later [OF ok1 _ _ that] same by (auto simp: sessionAdvances_def)
  note refused = rotation_refused [OF keeps, of w2 y', OF this]
  from refused(1) refused(2) [of r] show ?thesis by blast
qed

definition sampleActive :: AuthorizationSessionRecordV5 where
  "sampleActive = sampleAuthorized \<lparr>s_phase := active, s_pendingCodeHash := None,
     s_consumedCodeHash := Some (sha256 sampleCrypto ''mkc1.s1.code''), s_authorizationCodeExpiresAt := None,
     s_accessTokenHash := Some (sha256 sampleCrypto ''mka1.s1.a''), s_accessTokenExpiresAt := Some 3602000,
     s_currentRefreshTokenHash := Some (sha256 sampleCrypto ''mkr1.s1.r'')\<rparr>"

definition sampleRotate :: RotateInput where
  "sampleRotate = \<lparr>y_refreshToken = ''mkr1.s1.r'', y_clientId = ''c1'', y_resource = ''https://mcp'', y_now = 3000\<rparr>"

lemma sampleActive_simps [simp]:
  "s_phase sampleActive = active" "s_sessionExpiresAt sampleActive = Some 8000000"
  "s_spentRefreshTokenHashes sampleActive = []" "s_clientId sampleActive = ''c1''"
  "s_resource sampleActive = ''https://mcp''" "s_identitySource sampleActive = Some internet_identity"
  "s_actionPermission sampleActive = Some queries"
  "s_currentRefreshTokenHash sampleActive = Some (sha256 sampleCrypto ''mkr1.s1.r'')"
  "s_accessTokenHash sampleActive = Some (sha256 sampleCrypto ''mka1.s1.a'')"
  "s_accessTokenExpiresAt sampleActive = Some 3602000" "s_cachedDelegation sampleActive = None"
  by (simp_all add: sampleActive_def sampleAuthorized_def authorizedSession_def newSession_def sampleInput_def sampleGrant_def)

lemma sampleActive_ok: "sessionOk sampleActive"
proof -
  have "granted sampleAuthorized" using sampleAuthorized_ok
    by (simp add: sessionOk_def) (simp add: sampleAuthorized_def authorizedSession_def)
  then have "granted sampleActive" by (rule granted_cong) (simp_all add: sampleActive_def)
  then show ?thesis by (simp add: sessionOk_def) (simp add: sampleActive_def)
qed

lemma sample_rotate:
  obtains v w1 r where "rotateRefreshToken sampleMcpHost sampleMcpEnv sampleRotate (sampleWorld sampleActive) = (Inr (Some v), w1)"
    and "st_record (w_store w1) = Some (AuthorizationSession r)" and "s_phase r = active"
    and "s_sessionExpiresAt r = Some 8000000" and "s_clientId r = ''c1''" and "s_resource r = ''https://mcp''"
    and "s_identitySource r = Some internet_identity"
proof -
  let ?w = "sampleWorld sampleActive"
  have seen: "storedSession (seenStore sampleMcpHost ?w) = Some sampleActive"
    by (simp add: seenStore_def sampleWorld_def storedSession_def)
  have h: "sha256 sampleCrypto ''mkr1.s1.r'' \<noteq> []" by (rule sample_sha256_not_Nil) simp
  obtain v r1 where "rotateTx sampleMcpEnv sampleRotate (sha256 (mh_crypto sampleMcpHost) (y_refreshToken sampleRotate))
      (tokenMaterialAt sampleMcpHost (routeId (y_refreshToken sampleRotate)) True (y_now sampleRotate) (w_calls ?w))
      (seenStore sampleMcpHost ?w) = (Inr (Issued v), putSession r1 (seenStore sampleMcpHost ?w))"
    and r1: "s_phase r1 = active" "s_sessionExpiresAt r1 = Some 8000000" "s_clientId r1 = ''c1''"
      "s_resource r1 = ''https://mcp''" "s_identitySource r1 = Some internet_identity"
    unfolding rotateTx_def seen option.case storeRotatedTokens_def tokenIssueResult_def requiredSessionExpiry_def
      requiredCurrentRefreshTokenHash_def
    using h by (simp add: sampleRotate_def liveUntil_def sessionAccessVersionIsCurrent_def MAX_REFRESH_ROTATIONS_def Let_def)
  note run = rotateRefreshToken_run [OF this(1)]
  show ?thesis
    by (rule that [of v _ r1], simp add: run finishTokens_def bindA_def setAlarm_def section_state setAlarmTx_def)
      (simp_all add: r1)
qed

lemma refresh_reuse_revokes_witness:
  "\<exists>v w1. rotateRefreshToken sampleMcpHost sampleMcpEnv sampleRotate (sampleWorld sampleActive) = (Inr (Some v), w1) \<and>
     fst (rotateRefreshToken sampleMcpHost sampleMcpEnv sampleRotate w1) = Inr None \<and>
     st_record (w_store (snd (rotateRefreshToken sampleMcpHost sampleMcpEnv sampleRotate w1))) = None"
proof -
  obtain v w1 r where ex: "rotateRefreshToken sampleMcpHost sampleMcpEnv sampleRotate (sampleWorld sampleActive) = (Inr (Some v), w1)"
    and r: "st_record (w_store w1) = Some (AuthorizationSession r)" "s_phase r = active"
      "s_sessionExpiresAt r = Some 8000000" "s_clientId r = ''c1''" "s_resource r = ''https://mcp''"
      "s_identitySource r = Some internet_identity"
    by (rule sample_rotate)
  have "storedSession (seenStore sampleMcpHost w1) = Some r" by (simp add: seenStore_def storedSession_Some r)
  moreover have "liveUntil (s_sessionExpiresAt r) (y_now sampleRotate)" "y_clientId sampleRotate = ''c1''"
    "y_resource sampleRotate = ''https://mcp''" by (simp_all add: r liveUntil_def sampleRotate_def)
  moreover have "sessionAccessVersionIsCurrent r (mcp_MCP_REVIEW_ACCESS_VERSION sampleMcpEnv)"
    by (simp add: sessionAccessVersionIsCurrent_def r)
  ultimately show ?thesis
    using ex r refresh_reuse_revokes [OF sampleMcpHost_ok(2) sampleWorld_ok [OF sampleActive_ok] ex rtranclp.rtrancl_refl refl, of r]
    by metis
qed

subsection \<open>Lifetimes and scopes\<close>

text \<open>
  What a code exchange or a rotation issues is bounded: the access token expires within an hour of
  the request and not after its session, the session has not ended, and it ends by its cap and by the
  lifetime of its identity source (30 days, or 8 hours for the review service).
\<close>

theorem issued_token_bounds:
  assumes keeps: "mcpHostKeepsSession h env" and ok: "storeOk (w_store w)"
    and issued: "(now = x_now x \<and> exchangeCode h env x w = (Inr (Some v), w1)) \<or>
      (now = y_now y \<and> rotateRefreshToken h env y w = (Inr (Some v), w1))"
  shows "\<exists>r access source. storedSession (seenStore h w) = Some r \<and> ti_accessExpiresAt v = Some access \<and>
    s_identitySource r = Some source \<and>
    access \<le> now + ACCESS_TOKEN_TTL_MS \<and> access \<le> ti_sessionExpiresAt v \<and> now < ti_sessionExpiresAt v \<and>
    ti_sessionExpiresAt v \<le> s_sessionCapAt r \<and> ti_sessionExpiresAt v \<le> s_createdAt r + sessionTtl source"
proof -
  have grants: "granted r" if "storedSession (seenStore h w) = Some r" "s_phase r \<in> {authorized, active}" for r
    using storeOk_session [OF seenStore_ok [OF keeps ok] that(1)] that(2) by (auto simp: sessionOk_def)
  have now: "tm_now (tokenMaterialAt h sid i now k) = now" for sid i now k
    by (simp add: tokenMaterialAt_def Let_def)
  from issued show ?thesis
  proof
    assume a: "now = x_now x \<and> exchangeCode h env x w = (Inr (Some v), w1)"
    from exchangeCode_issued [OF keeps conjunct2 [OF a]] obtain r r1 where
      r: "storedSession (seenStore h w) = Some r" "s_phase r = authorized" "liveUntil (s_sessionExpiresAt r) (x_now x)"
      "storeInitialTokens r (tokenMaterialAt h (routeId (x_code x)) (x_issueRefreshToken x) (x_now x) (w_calls w))
        (grantsRefresh r x) = Inr (r1, v)" by metis
    then show ?thesis
      using grants [OF r(1)] a by (auto simp: storeInitialTokens_Inr granted_def liveUntil_iff now)
  next
    assume a: "now = y_now y \<and> rotateRefreshToken h env y w = (Inr (Some v), w1)"
    from rotateRefreshToken_issued [OF keeps conjunct2 [OF a]] obtain r r1 where
      r: "storedSession (seenStore h w) = Some r" "s_phase r = active" "liveUntil (s_sessionExpiresAt r) (y_now y)"
      "storeRotatedTokens r (tokenMaterialAt h (routeId (y_refreshToken y)) True (y_now y) (w_calls w)) = Inr (r1, v)" by metis
    then show ?thesis
      using grants [OF r(1)] a by (auto simp: storeRotatedTokens_Inr granted_def liveUntil_iff now)
  qed
qed

lemma issued_token_bounds_witness:
  "\<exists>v access. ti_accessExpiresAt v = Some access \<and> access \<le> 3000 + ACCESS_TOKEN_TTL_MS \<and> access \<le> ti_sessionExpiresAt v \<and>
     rotateRefreshToken sampleMcpHost sampleMcpEnv sampleRotate (sampleWorld sampleActive) =
       (Inr (Some v), snd (rotateRefreshToken sampleMcpHost sampleMcpEnv sampleRotate (sampleWorld sampleActive)))"
proof -
  obtain v w1 r where ex: "rotateRefreshToken sampleMcpHost sampleMcpEnv sampleRotate (sampleWorld sampleActive) = (Inr (Some v), w1)"
    by (rule sample_rotate)
  moreover have "y_now sampleRotate = 3000" by (simp add: sampleRotate_def)
  ultimately show ?thesis
    using issued_token_bounds [OF sampleMcpHost_ok(2) sampleWorld_ok [OF sampleActive_ok],
        of 3000 sampleExchange sampleMcpEnv v w1 sampleRotate] by auto
qed

text \<open>
  C13. An access token is accepted only in an active session that holds its hash, for the session's
  resource and before both the token and the session expire; what the caller is told is the stored
  grant, and a read-only grant is never reported with the write scope.
\<close>

theorem validated_token_sound:
  assumes "mcpHostOk h env" and "storeOk (w_store w)"
    and "validateAccessToken h env token res now w = (Inr (Some v), w1)"
  shows "\<exists>r expiry. st_record (w_store w1) = Some (AuthorizationSession r) \<and> s_phase r = active \<and>
    s_accessTokenHash r = Some (sha256 (mh_crypto h) token) \<and> s_resource r = res \<and>
    s_accessTokenExpiresAt r = Some expiry \<and> now < expiry \<and> expiry \<le> vt_sessionExpiresAt v \<and>
    vt_sessionExpiresAt v \<le> s_sessionCapAt r \<and> vt_scope v = s_scope r \<and>
    s_actionPermission r = Some (vt_actionPermission v) \<and>
    (vt_actionPermission v = queries \<longrightarrow> ''mcp:write'' \<notin> set (splitSpaces (vt_scope v)))"
proof -
  let ?s = "mh_others h (w_calls w) (w_store w)"
  have "(authStep env)\<^sup>*\<^sup>* (w_store w) ?s" using assms(1) by (simp add: mcpHostOk_def)
  then have ok: "storeOk ?s" using assms(2) by (rule mcp_store.inv_run)
  from assms(3) obtain r where r: "storedSession ?s = Some r" "w_store w1 = ?s"
    "validateRecord env r (sha256 (mh_crypto h) token) res now = Some v"
    by (auto simp: validateAccessToken_def getSession_def bindA_def section_state split: option.splits)
  have "sessionOk r" by (rule storeOk_session [OF ok r(1)])
  with r show ?thesis
    by (auto simp: storedSession_Some validateRecord_def liveUntil_iff sessionOk_def granted_def
        split: option.splits if_splits)
qed

lemma validated_token_sound_witness:
  "\<exists>v w1. validateAccessToken sampleMcpHost sampleMcpEnv ''mka1.s1.a'' ''https://mcp'' 4000 (sampleWorld sampleActive)
      = (Inr (Some v), w1) \<and> vt_actionPermission v = queries \<and> ''mcp:write'' \<notin> set (splitSpaces (vt_scope v))"
proof -
  have h: "sha256 sampleCrypto ''mka1.s1.a'' \<noteq> []" by (rule sample_sha256_not_Nil) simp
  obtain v w1 where e: "validateAccessToken sampleMcpHost sampleMcpEnv ''mka1.s1.a'' ''https://mcp'' 4000 (sampleWorld sampleActive)
      = (Inr (Some v), w1)" and q: "vt_actionPermission v = queries"
    using h by (simp add: validateAccessToken_def getSession_def bindA_def section_state sampleWorld_def storedSession_def
        validateRecord_def liveUntil_def sessionAccessVersionIsCurrent_def)
  with validated_token_sound [OF sampleMcpHost_ok(1) sampleWorld_ok [OF sampleActive_ok] e] show ?thesis by blast
qed

subsection \<open>Delegations\<close>

lemma mintFailure_not_valid: "fst (mintFailure h e w) \<noteq> Inr (ValidToken s p i d)"
  by (cases e) (simp_all add: mintFailure_def invalidate_def bindA_def section_state invalidateTx_def)

lemma mint_origin:
  assumes "mintAndCacheDelegation h env origin scope permission now w = (Inr (ValidToken s p i (Some m)), w1)"
  shows "dm_targetOrigin m = origin" and "i = internet_identity"
proof -
  obtain q k u u1 sessionKey where
    c: "catchA (bindA (liftR (mintEncrypted h env k q sessionKey origin)) (\<lambda>(material, encrypted).
          bindA (storageSection h (storeCacheTx (s_sessionId q) encrypted origin (dm_expiresAt material)))
            (\<lambda>stored. retA (if stored then ValidToken scope permission internet_identity (Some material) else InvalidToken))))
        (mintFailure h) u = (Inr (ValidToken s p i (Some m)), u1)"
    using assms
    unfolding mintAndCacheDelegation_def callIndex_def
    by (auto elim!: bindA_Inr_E split: option.splits if_splits sum.splits)
  then obtain material encrypted where "mintEncrypted h env k q sessionKey origin = Inr (material, encrypted)"
    and "m = material" and "i = internet_identity"
    using mintFailure_not_valid [of h]
    by (auto elim!: catchA_Inr_E bindA_Inr_E split: if_splits) (metis fst_conv)
  then show "dm_targetOrigin m = origin" and "i = internet_identity"
    by (auto simp: mintEncrypted_def guard_simps dest: mint_material(2))
qed

lemma openCached_fresh:
  assumes "openCached h env q cached origin clock now = Inr m"
  shows "dm_targetOrigin m = origin" and "now + DELEGATION_REFRESH_MARGIN_MS < int (dm_expiresAt m)"
  using assms restore_fresh unfolding openCached_def by (auto simp: guard_simps) fastforce+

lemma readCached_fresh:
  assumes "readCachedDelegation h env origin now w = (Inr (Some m), w1)"
  shows "dm_targetOrigin m = origin" and "now + DELEGATION_REFRESH_MARGIN_MS < int (dm_expiresAt m)"
proof -
  obtain q cached clock where "openCached h env q cached origin clock now = Inr m"
    using assms unfolding readCachedDelegation_def callIndex_def
    by (auto elim!: bindA_Inr_E split: option.splits if_splits sum.splits)
  then show "dm_targetOrigin m = origin" and "now + DELEGATION_REFRESH_MARGIN_MS < int (dm_expiresAt m)"
    by (rule openCached_fresh)+
qed

text \<open>The promise a call joins is that of a mint for the configured origin.\<close>

definition flightsAreMints :: "('key, 'chain, 'ident) McpHost \<Rightarrow> McpEnv \<Rightarrow> bool" where
  "flightsAreMints h env \<longleftrightarrow>
     (\<forall>k result. mh_running h k = Some result \<longrightarrow>
        (\<exists>origin scope permission now w.
           resolveKinicMcpTargetOrigin (mh_parseUrl h) (mh_principalText h) (mcp_KINIC_WIKI_MCP_TARGET_ORIGIN env)
             (mcp_KINIC_WIKI_CANISTER_ID env) = Inr origin \<and>
           fst (mintAndCacheDelegation h env origin scope permission now w) = Inr result))"

text \<open>
  A delegation is handed out only after the access token was accepted for an Internet Identity
  session, and it is always for the origin of the configured canister, whether it was read from the
  cache, freshly minted or obtained from a mint already in flight.
\<close>

theorem delegation_for_configured_origin:
  assumes "flightsAreMints h env"
    and "authenticateAccessToken h env token res now requireD w = (Inr (ValidToken scope permission source (Some m)), w1)"
  shows "dm_targetOrigin m = ''https://'' @ trimmedOption (mcp_KINIC_WIKI_CANISTER_ID env) @ ''.ic0.app'' \<and>
    source = internet_identity \<and> requireD \<and>
    (\<exists>v u. validateAccessToken h env token res now w = (Inr (Some v), u) \<and> vt_identitySource v = internet_identity)"
proof -
  let ?resolve = "resolveKinicMcpTargetOrigin (mh_parseUrl h) (mh_principalText h) (mcp_KINIC_WIKI_MCP_TARGET_ORIGIN env)
      (mcp_KINIC_WIKI_CANISTER_ID env)"
  from assms(2) obtain v u where v: "validateAccessToken h env token res now w = (Inr (Some v), u)"
    and req: "requireD" and src: "vt_identitySource v \<noteq> review_service"
    and rest: "bindA (liftR ?resolve) (\<lambda>origin. bindA (readCachedDelegation h env origin now) (\<lambda>cached.
        case cached of Some material \<Rightarrow> retA (ValidToken (vt_scope v) (vt_actionPermission v) internet_identity (Some material))
        | None \<Rightarrow> singleFlightRun h (mintAndCacheDelegation h env origin (vt_scope v) (vt_actionPermission v) now))) u
      = (Inr (ValidToken scope permission source (Some m)), w1)"
    unfolding authenticateAccessToken_def by (auto elim!: bindA_Inr_E split: option.splits if_splits)
  from rest obtain origin u1 cached where o: "?resolve = Inr origin"
    and cached: "readCachedDelegation h env origin now u = (Inr cached, u1)"
    and body: "(case cached of Some material \<Rightarrow> retA (ValidToken (vt_scope v) (vt_actionPermission v) internet_identity (Some material))
        | None \<Rightarrow> singleFlightRun h (mintAndCacheDelegation h env origin (vt_scope v) (vt_actionPermission v) now)) u1
      = (Inr (ValidToken scope permission source (Some m)), w1)"
    by (auto elim!: bindA_Inr_E)
  have "dm_targetOrigin m = origin \<and> source = internet_identity"
  proof (cases cached)
    case (Some material)
    with cached body readCached_fresh(1) show ?thesis by auto
  next
    case None
    let ?mint = "mintAndCacheDelegation h env origin (vt_scope v) (vt_actionPermission v) now"
    from None body have "singleFlightRun h ?mint u1 = (Inr (ValidToken scope permission source (Some m)), w1)" by simp
    then have "mh_running h (w_calls u1) = Some (ValidToken scope permission source (Some m)) \<or>
        ?mint (u1 \<lparr>w_calls := Suc (w_calls u1)\<rparr>) = (Inr (ValidToken scope permission source (Some m)), w1)"
      by (auto simp: singleFlightRun_def callIndex_def bindA_def split: option.splits)
    then obtain sc pe nw wo wx where "mintAndCacheDelegation h env origin sc pe nw wo = (Inr (ValidToken scope permission source (Some m)), wx)"
      using assms(1) o unfolding flightsAreMints_def by (metis Inr_inject prod.collapse)
    from mint_origin [OF this] show ?thesis by simp
  qed
  with resolve_origin(1) [OF o] v req src show ?thesis by (cases "vt_identitySource v") auto
qed

definition sampleKeyText :: string where
  "sampleKeyText = base64UrlEncode (replicate 32 1)"

definition sampleMintEnv :: McpEnv where
  "sampleMintEnv = sampleMcpEnv \<lparr>mcp_MCP_KEY_ENCRYPTION_KEY := Some sampleKeyText\<rparr>"

lemma sampleKeyText_decoded: "importEncryptionKey sampleKeyText = Inr (replicate 32 1)"
  by (simp add: importEncryptionKey_def sampleKeyText_def decodeEncryptionKey_encode)

lemma sampleKeyText_required: "requiredEncryptionKey sampleMintEnv = Inr (trim sampleKeyText)"
proof -
  have "trim sampleKeyText \<noteq> []"
    using sampleKeyText_decoded by (auto simp: importEncryptionKey_def decodeEncryptionKey_def)
  then show ?thesis by (simp add: requiredEncryptionKey_def sampleMintEnv_def trimmedOption_def Let_def)
qed

lemma sampleKeyText_trimmed: "importEncryptionKey (trim sampleKeyText) = Inr (replicate 32 1)"
  using sampleKeyText_decoded by (simp add: importEncryptionKey_def decodeEncryptionKey_def)

lemma sampleCrypto_aead: "aeadOk sampleCrypto"
  by (simp add: aeadOk_def sampleCrypto_def)

lemma sample_sealed:
  obtains e where "encryptJson sampleCrypto 0 (JStr ''key'') (trim sampleKeyText) (sessionKeyContext ''s1'') = Inr e"
    and "decryptJson sampleCrypto e (trim sampleKeyText) (sessionKeyContext ''s1'') = Inr (JStr ''key'')"
proof -
  obtain e where e: "encryptJson sampleCrypto 0 (JStr ''key'') (trim sampleKeyText) (sessionKeyContext ''s1'') = Inr e"
    by (simp add: encryptJson_def sampleKeyText_trimmed Let_def)
  then have "decryptJson sampleCrypto e (trim sampleKeyText) (sessionKeyContext ''s1'') = Inr (JStr ''key'')"
    by (rule decrypt_encrypt) (simp_all add: sampleCrypto_aead)
  with e that show ?thesis by blast
qed

lemma sample_origin:
  "resolveKinicMcpTargetOrigin (mh_parseUrl sampleMcpHost) (mh_principalText sampleMcpHost)
     (mcp_KINIC_WIKI_MCP_TARGET_ORIGIN sampleMintEnv) (mcp_KINIC_WIKI_CANISTER_ID sampleMintEnv) = Inr ''https://aaaaa.ic0.app''"
proof -
  have "trim ''https://aaaaa.ic0.app'' = ''https://aaaaa.ic0.app''" "trim ''aaaaa'' = ''aaaaa''"
    by (rule trim_no_space, simp add: isJsSpace_def)+
  then show ?thesis
    by (simp add: resolveKinicMcpTargetOrigin_def sampleMintEnv_def sampleMcpEnv_def sampleMcpHost_def trimmedOption_def)
qed

lemma sample_minted:
  "mintKinicDelegation sampleSdk k ''key'' origin None = Inr (''key'', \<lparr>dm_version = 1, dm_targetOrigin = origin,
     dm_expiresAt = 2000000, dm_appKey = JStr ''key'', dm_delegation = JNum (natToDec 2000000000000)\<rparr>)"
proof -
  have "getPreparedDelegation sampleActor origin p key = Inr \<lparr>sd_pubkey = [2], sd_expiration = 2000000000000,
      sd_targets = None, sd_permissions = None, sd_signature = [3]\<rparr>" for p key
    using preparedLoop.simps(2) [of "\<lambda>attempt. mcp_get_delegation sampleActor attempt origin (pd_account_number p)
      key (pd_expiration p)" 0 4]
    by (simp add: getPreparedDelegation_def sampleActor_def del: preparedLoop.simps)
  then show ?thesis
    by (simp add: mintKinicDelegation_def unwrapIiResult_def assembleDelegation_def sampleSdk_def sampleActor_def
        nanosecondsToMilliseconds_def MAX_SAFE_INTEGER_def Let_def)
qed

lemma delegation_for_configured_origin_witness:
  "\<exists>e m w1. authenticateAccessToken sampleMcpHost sampleMintEnv ''mka1.s1.a'' ''https://mcp'' 4000 True
       (sampleWorld (sampleActive \<lparr>s_sessionKey := Some e\<rparr>)) = (Inr (ValidToken (s_scope sampleActive) queries internet_identity (Some m)), w1) \<and>
     dm_targetOrigin m = ''https://aaaaa.ic0.app''"
proof -
  obtain e where d: "decryptJson sampleCrypto e (trim sampleKeyText) (sessionKeyContext ''s1'') = Inr (JStr ''key'')"
    by (rule sample_sealed)
  have h: "sha256 sampleCrypto ''mka1.s1.a'' \<noteq> []" by (rule sample_sha256_not_Nil) simp
  have sid: "s_sessionId sampleActive = ''s1''"
    by (simp add: sampleActive_def sampleAuthorized_def authorizedSession_def newSession_def sampleInput_def)
  let ?w = "sampleWorld (sampleActive \<lparr>s_sessionKey := Some e\<rparr>)"
  obtain m w1 where run: "authenticateAccessToken sampleMcpHost sampleMintEnv ''mka1.s1.a'' ''https://mcp'' 4000 True ?w
      = (Inr (ValidToken (s_scope sampleActive) queries internet_identity (Some m)), w1)"
    using h d
    by (simp add: authenticateAccessToken_def validateAccessToken_def getSession_def bindA_def catchA_def section_state
        sampleWorld_def storedSession_def validateRecord_def liveUntil_def sessionAccessVersionIsCurrent_def
        readCachedDelegation_def singleFlightRun_def callIndex_def mintAndCacheDelegation_def openSessionKey_def
        sampleKeyText_required sid mintEncrypted_def restoreIiKey_def sampleSdk_def [THEN arg_cong [where f = sdk_keyOf]]
        sample_minted encryptJson_def sampleKeyText_trimmed storeCacheTx_def sample_origin Let_def)
  have "flightsAreMints sampleMcpHost sampleMintEnv" by (simp add: flightsAreMints_def)
  from delegation_for_configured_origin [OF this run] have "dm_targetOrigin m = ''https://aaaaa.ic0.app''"
    by (simp add: sampleMintEnv_def sampleMcpEnv_def trimmedOption_def trim_no_space isJsSpace_def)
  with run show ?thesis by blast
qed

subsection \<open>Expiry\<close>

text \<open>
  The alarm collects what has expired: after it has run, a record is stored only if its deadline is
  still ahead, and then the next alarm is set for that deadline; an invalidated session is always
  removed. The storage is otherwise as the alarm found it.
\<close>

theorem alarm_collects:
  assumes "s = mh_others h (w_calls w) (w_store w)" and "clock = mh_now h (w_calls w)"
  shows "fst (alarm h w) = Inr () \<and>
    (case st_record (w_store (snd (alarm h w))) of
       None \<Rightarrow> st_alarm (w_store (snd (alarm h w))) = None \<and>
         (\<forall>r deadline. st_record s = Some r \<and> recordDeadline r = Some deadline \<longrightarrow> deadline \<le> clock)
     | Some r \<Rightarrow> st_record s = Some r \<and>
         (\<exists>deadline. recordDeadline r = Some deadline \<and> clock < deadline \<and>
            st_alarm (w_store (snd (alarm h w))) = Some deadline))"
  using assms
  by (auto simp: alarm_def section_state alarmTx_def invalidateTx_def setAlarmTx_def split: option.splits)

lemma alarm_collects_witness:
  "st_record (w_store (snd (alarm sampleMcpHost (sampleWorld sampleActive)))) = Some (AuthorizationSession sampleActive) \<and>
   st_alarm (w_store (snd (alarm sampleMcpHost (sampleWorld sampleActive)))) = Some 8000000"
proof -
  let ?w = "sampleWorld sampleActive"
  have d: "recordDeadline (AuthorizationSession sampleActive) = Some 8000000" by (simp add: recordDeadline_def)
  have s: "st_record (mh_others sampleMcpHost (w_calls ?w) (w_store ?w)) = Some (AuthorizationSession sampleActive)"
    by (simp add: sampleWorld_def)
  from alarm_collects [OF refl refl, of sampleMcpHost ?w] d s show ?thesis
    by (cases "st_record (w_store (snd (alarm sampleMcpHost ?w)))") auto
qed

subsection \<open>Secrets\<close>

text \<open>
  The comparisons that look at every code unit and collect the differences with bitwise operations
  on 32-bit integers decide equality: two hashes are equal, and a candidate secret is accepted exactly
  when its hash is the expected one.
\<close>

theorem comparisons_decide_equality:
  "hashEquals a b = (a = b) \<and> secretEquals wc expected candidate = (expected = sha256 wc candidate)"
  by (simp add: hashEquals_iff secretEquals_iff)

text \<open>
  A JSON value encrypted under a key and a context is decrypted to the same value under them, for
  every key text that decodes to 32 bytes, given that the cipher decrypts what it encrypted.
\<close>

theorem encrypted_value_roundtrip:
  assumes "aeadOk wc" and "wfJson v" and "decodeEncryptionKey keyText = Inr key"
  shows "\<exists>e. encryptJson wc k v keyText context = Inr e \<and> decryptJson wc e keyText context = Inr v"
proof -
  obtain e where "encryptJson wc k v keyText context = Inr e"
    using assms(3) by (simp add: encryptJson_def importEncryptionKey_def Let_def)
  with decrypt_encrypt [OF this assms(2,1)] show ?thesis by blast
qed

lemma encrypted_value_roundtrip_witness:
  "\<exists>e. encryptJson sampleCrypto 0 (JArr [JStr ''a'', JNull]) sampleKeyText ''ctx'' = Inr e \<and>
     decryptJson sampleCrypto e sampleKeyText ''ctx'' = Inr (JArr [JStr ''a'', JNull])"
  by (rule encrypted_value_roundtrip [OF sampleCrypto_aead])
    (simp_all add: sampleKeyText_def decodeEncryptionKey_encode [of "replicate 32 1"])

end
