(* ===== verification/Generator_Base.thy ===== *)
theory Generator_Base
  imports Js_Json "HOL-Library.Word"
begin

section \<open>Generator worker: types, configuration and source paths\<close>

text \<open>
  \<^verbatim>\<open>workers/wiki-generator/src/types.ts\<close>, \<^verbatim>\<open>config.ts\<close>, \<^verbatim>\<open>source-path.ts\<close>, \<^verbatim>\<open>output-language.ts\<close> and the parts
  of \<^verbatim>\<open>packages/source-contracts/index.js\<close> they use. The errors are the classes the worker throws and
  tests with \<open>instanceof\<close>; \<open>GenError\<close> is a plain \<open>Error\<close>, \<open>GenHostError\<close> an exception of the
  engine or of D1.
\<close>

subsection \<open>Errors\<close>

datatype NodeMutationErrorCode = etag_conflict | not_found | forbidden | write_unavailable | invalid_operation

datatype gen_error =
    GenError string
  | SourceTargetConflictError
  | SourceValidationError string
  | GeneratedArtifactError string
  | GeneratedCheckpointConflictError string
  | DraftValidationError string
  | DeepSeekRequestError string string bool "nat option"
  | DeepSeekResponseError string
  | ExternalCostGateError string
  | JevError string string bool
  | NodeMutationError NodeMutationErrorCode string
  | SourceCaptureTriggerError string nat
  | GenHostError string

fun genErrorMessage :: "gen_error \<Rightarrow> string" where
  "genErrorMessage (GenError m) = m"
| "genErrorMessage SourceTargetConflictError = ''source_target_conflict''"
| "genErrorMessage (SourceValidationError m) = m"
| "genErrorMessage (GeneratedArtifactError m) = m"
| "genErrorMessage (GeneratedCheckpointConflictError m) = m"
| "genErrorMessage (DraftValidationError m) = m"
| "genErrorMessage (DeepSeekRequestError c m r a) = m"
| "genErrorMessage (DeepSeekResponseError m) = m"
| "genErrorMessage (ExternalCostGateError m) = m"
| "genErrorMessage (JevError c m r) = m"
| "genErrorMessage (NodeMutationError c m) = m"
| "genErrorMessage (SourceCaptureTriggerError m s) = m"
| "genErrorMessage (GenHostError m) = m"

subsection \<open>Nodes and messages\<close>

datatype NodeKind = File | Source | Folder

record WikiNode =
  nd_path :: string
  nd_kind :: NodeKind
  nd_content :: string
  nd_etag :: string
  nd_metadataJson :: string

record SearchNodeHit =
  sh_path :: string
  sh_kind :: NodeKind
  sh_snippet :: "string option"
  sh_previewExcerpt :: "string option"

record WriteNodeRequest =
  wr_databaseId :: string
  wr_path :: string
  wr_kind :: NodeKind
  wr_content :: string
  wr_metadataJson :: string
  wr_expectedEtag :: "string option"

record WriteNodeAck =
  wa_path :: string
  wa_kind :: NodeKind
  wa_etag :: string

datatype OutputLanguage = En | Ja | ZhHans | Ko | Es | Fr | De | Pt

fun outputLanguageCode :: "OutputLanguage \<Rightarrow> string" where
  "outputLanguageCode En = ''en''"
| "outputLanguageCode Ja = ''ja''"
| "outputLanguageCode ZhHans = ''zh-Hans''"
| "outputLanguageCode Ko = ''ko''"
| "outputLanguageCode Es = ''es''"
| "outputLanguageCode Fr = ''fr''"
| "outputLanguageCode De = ''de''"
| "outputLanguageCode Pt = ''pt''"

definition parseOutputLanguage :: "json option \<Rightarrow> OutputLanguage option" where
  "parseOutputLanguage v =
     (case v of
        Some (JStr s) \<Rightarrow>
          if s = ''en'' then Some En else if s = ''ja'' then Some Ja else if s = ''zh-Hans'' then Some ZhHans
          else if s = ''ko'' then Some Ko else if s = ''es'' then Some Es else if s = ''fr'' then Some Fr
          else if s = ''de'' then Some De else if s = ''pt'' then Some Pt else None
      | _ \<Rightarrow> None)"

fun outputLanguageName :: "OutputLanguage \<Rightarrow> string" where
  "outputLanguageName En = ''English''"
| "outputLanguageName Ja = ''Japanese''"
| "outputLanguageName ZhHans = ''Simplified Chinese''"
| "outputLanguageName Ko = ''Korean''"
| "outputLanguageName Es = ''Spanish''"
| "outputLanguageName Fr = ''French''"
| "outputLanguageName De = ''German''"
| "outputLanguageName Pt = ''Portuguese''"

record SourceQueueMessage =
  sm_targetRoot :: "string option"
  sm_databaseId :: string
  sm_sourcePath :: string
  sm_sourceEtag :: string
  sm_requestPath :: "string option"
  sm_sessionNonce :: "string option"
  sm_outputLanguage :: "OutputLanguage option"

record SourceCaptureQueueMessage =
  cm_canisterId :: string
  cm_databaseId :: string
  cm_requestPath :: string
  cm_sessionNonce :: string

record LinkPreviewQueueMessage =
  lm_canisterId :: string
  lm_databaseId :: string
  lm_requestedAt :: string

datatype QueueMessage =
    SourceMessage SourceQueueMessage
  | SourceCaptureMessage SourceCaptureQueueMessage
  | LinkPreviewMessage LinkPreviewQueueMessage

datatype DatabaseStatus = DbActive | DbPending | DbDeleted

record PublicDatabaseSummary =
  pd_databaseId :: string
  pd_title :: string
  pd_description :: string
  pd_status :: DatabaseStatus

subsection \<open>Configuration\<close>

record GenEnv =
  ge_KINIC_WIKI_CANISTER_ID :: "string option"
  ge_KINIC_WIKI_ALLOWED_DATABASE_ID :: "string option"
  ge_KINIC_WIKI_IC_HOST :: "string option"
  ge_KINIC_WIKI_WORKER_MODEL :: "string option"
  ge_KINIC_WIKI_WORKER_TARGET_ROOT :: "string option"
  ge_KINIC_WIKI_WORKER_SOURCE_PREFIX :: "string option"
  ge_KINIC_WIKI_WORKER_CONTEXT_PREFIX :: "string option"
  ge_KINIC_WIKI_WORKER_MAX_RAW_CHARS :: "string option"
  ge_KINIC_WIKI_WORKER_MAX_FETCHED_BYTES :: "string option"
  ge_KINIC_WIKI_WORKER_MAX_SOURCE_CHARS :: "string option"
  ge_KINIC_WIKI_WORKER_CONTEXT_CANDIDATES :: "string option"
  ge_KINIC_WIKI_WORKER_CONTEXT_SELECTIONS :: "string option"
  ge_KINIC_WIKI_WORKER_MAX_OUTPUT_TOKENS :: "string option"
  ge_KINIC_WIKI_WORKER_TOKEN :: "string option"
  ge_TYPESAFE_API_KEY :: string

record WorkerConfig =
  wc_canisterId :: string
  wc_allowedDatabaseId :: "string option"
  wc_icHost :: string
  wc_model :: string
  wc_targetRoot :: string
  wc_sourcePrefix :: string
  wc_contextPrefix :: string
  wc_maxRawChars :: nat
  wc_maxFetchedBytes :: nat
  wc_maxSourceChars :: nat
  wc_maxContextCandidates :: nat
  wc_maxContextSelections :: nat
  wc_maxOutputTokens :: nat

definition MAX_SAFE :: nat where
  "MAX_SAFE = 9007199254740991"

text \<open>\<open>value || fallback\<close> on an optional string.\<close>

definition textOr :: "string option \<Rightarrow> string \<Rightarrow> string" where
  "textOr v fallback = (case v of None \<Rightarrow> fallback | Some s \<Rightarrow> if s = [] then fallback else s)"

definition requiredVar :: "string option \<Rightarrow> string \<Rightarrow> gen_error + string" where
  "requiredVar v name = (if textOr v [] = [] then Inl (GenError (name @ '' is required'')) else Inr (textOr v []))"

definition parsePositiveInt :: "string option \<Rightarrow> nat \<Rightarrow> nat" where
  "parsePositiveInt v fallback =
     (if textOr v [] = [] then fallback
      else
        let trimmed = trim (textOr v []) in
        if \<not> positiveDecimal trimmed then fallback
        else if decToNat trimmed \<le> MAX_SAFE then decToNat trimmed else fallback)"

definition optionalIdentifier :: "string option \<Rightarrow> string \<Rightarrow> gen_error + string option" where
  "optionalIdentifier v name =
     (case v of
        None \<Rightarrow> Inr None
      | Some s \<Rightarrow>
          let trimmed = trim s in
          if trimmed = [] then Inr None
          else if length trimmed > 128 \<or> \<not> isUrlSafeText trimmed
          then Inl (GenError (name @ '' must match [a-zA-Z0-9_-]+ and be at most 128 characters''))
          else Inr (Some trimmed))"

definition normalizeRootPrefix :: "string \<Rightarrow> string \<Rightarrow> gen_error + string" where
  "normalizeRootPrefix v name =
     (let trimmed = trim v in
      if \<not> startsWith trimmed ''/'' then Inl (GenError (name @ '' must be an absolute path''))
      else
        let normalized = stripTrailing (CHR ''/'') trimmed in
        Inr (if normalized = [] then ''/'' else normalized))"

definition normalizeNonRootPrefix :: "string \<Rightarrow> string \<Rightarrow> gen_error + string" where
  "normalizeNonRootPrefix v name =
     bindR (normalizeRootPrefix v name) (\<lambda>normalized.
       if normalized = ''/'' then Inl (GenError (name @ '' must not be database root'')) else Inr normalized)"

text \<open>\<open>defaultModel\<close> is the constant of the DeepSeek client package.\<close>

definition loadConfig :: "string \<Rightarrow> GenEnv \<Rightarrow> gen_error + WorkerConfig" where
  "loadConfig defaultModel env =
     bindR (requiredVar (ge_KINIC_WIKI_CANISTER_ID env) ''KINIC_WIKI_CANISTER_ID'') (\<lambda>canisterId.
     let maxContextCandidates = min 20 (parsePositiveInt (ge_KINIC_WIKI_WORKER_CONTEXT_CANDIDATES env) 20) in
     bindR (optionalIdentifier (ge_KINIC_WIKI_ALLOWED_DATABASE_ID env) ''KINIC_WIKI_ALLOWED_DATABASE_ID'') (\<lambda>allowed.
     bindR (normalizeNonRootPrefix (textOr (ge_KINIC_WIKI_WORKER_TARGET_ROOT env) ''/Knowledge/conversations'')
              ''KINIC_WIKI_WORKER_TARGET_ROOT'') (\<lambda>targetRoot.
     bindR (normalizeNonRootPrefix (textOr (ge_KINIC_WIKI_WORKER_SOURCE_PREFIX env) ''/Sources'')
              ''KINIC_WIKI_WORKER_SOURCE_PREFIX'') (\<lambda>sourcePrefix.
     bindR (normalizeRootPrefix (textOr (ge_KINIC_WIKI_WORKER_CONTEXT_PREFIX env) ''/'')
              ''KINIC_WIKI_WORKER_CONTEXT_PREFIX'') (\<lambda>contextPrefix.
       Inr \<lparr>wc_canisterId = canisterId,
            wc_allowedDatabaseId = allowed,
            wc_icHost = textOr (ge_KINIC_WIKI_IC_HOST env) ''https://icp0.io'',
            wc_model = textOr (ge_KINIC_WIKI_WORKER_MODEL env) defaultModel,
            wc_targetRoot = targetRoot,
            wc_sourcePrefix = sourcePrefix,
            wc_contextPrefix = contextPrefix,
            wc_maxRawChars = parsePositiveInt (ge_KINIC_WIKI_WORKER_MAX_RAW_CHARS env) 120000,
            wc_maxFetchedBytes = parsePositiveInt (ge_KINIC_WIKI_WORKER_MAX_FETCHED_BYTES env) 5000000,
            wc_maxSourceChars = parsePositiveInt (ge_KINIC_WIKI_WORKER_MAX_SOURCE_CHARS env) 300000,
            wc_maxContextCandidates = maxContextCandidates,
            wc_maxContextSelections = min maxContextCandidates
              (min 5 (parsePositiveInt (ge_KINIC_WIKI_WORKER_CONTEXT_SELECTIONS env) 5)),
            wc_maxOutputTokens = parsePositiveInt (ge_KINIC_WIKI_WORKER_MAX_OUTPUT_TOKENS env) 6000\<rparr>)))))"

definition isDatabaseAllowed :: "WorkerConfig \<Rightarrow> string \<Rightarrow> bool" where
  "isDatabaseAllowed config databaseId \<longleftrightarrow>
     wc_allowedDatabaseId config = None \<or> wc_allowedDatabaseId config = Some databaseId"

subsection \<open>Source contracts\<close>

definition fnv1aStep :: "32 word \<Rightarrow> char \<Rightarrow> 32 word" where
  "fnv1aStep hash c = xor hash (word_of_nat (charCode c)) * 0x01000193"

definition fnv1a32 :: "string \<Rightarrow> nat" where
  "fnv1a32 s = unat (foldl fnv1aStep 0x811c9dc5 s)"

definition base36Digit :: "nat \<Rightarrow> char" where
  "base36Digit n = (if n < 10 then char_of (48 + n) else char_of (87 + n))"

fun natToBase36 :: "nat \<Rightarrow> string" where
  "natToBase36 n = (if n < 36 then [base36Digit n] else natToBase36 (n div 36) @ [base36Digit (n mod 36)])"

declare natToBase36.simps [simp del]

definition fnv1aBase36 :: "string \<Rightarrow> string" where
  "fnv1aBase36 s = padStart 7 (CHR ''0'') (natToBase36 (fnv1a32 s))"

text \<open>The pattern \<^verbatim>\<open>/^[A-Za-z0-9][A-Za-z0-9._-]*$/\<close>, at most 128 characters, and no \<^verbatim>\<open>..\<close>.\<close>

definition isAsciiAlnum :: "char \<Rightarrow> bool" where
  "isAsciiAlnum c \<longleftrightarrow> 97 \<le> charCode c \<and> charCode c \<le> 122 \<or> 65 \<le> charCode c \<and> charCode c \<le> 90 \<or> isDigit c"

definition isSafeSourceCaptureRequestId :: "string \<Rightarrow> bool" where
  "isSafeSourceCaptureRequestId v \<longleftrightarrow>
     1 \<le> length v \<and> length v \<le> 128 \<and> isAsciiAlnum (hd v) \<and>
     list_all (\<lambda>c. isAsciiAlnum c \<or> c \<in> set ''._-'') v \<and>
     \<not> includesText v ''..'' \<and> \<not> includesText v ''/'' \<and> CHR 0x5C \<notin> set v"

definition SOURCE_CAPTURE_REQUEST_PREFIX :: string where
  "SOURCE_CAPTURE_REQUEST_PREFIX = ''/Sources/source-capture-requests/''"

definition isSourceCaptureRequestPath :: "string \<Rightarrow> bool" where
  "isSourceCaptureRequestPath path =
     (if \<not> startsWith path SOURCE_CAPTURE_REQUEST_PREFIX then False
      else
        let filename = drop (length SOURCE_CAPTURE_REQUEST_PREFIX) path in
        if \<not> endsWith filename ''.md'' then False
        else isSafeSourceCaptureRequestId (take (length filename - 3) filename))"

definition sourceCaptureRequestPath :: "string \<Rightarrow> gen_error + string" where
  "sourceCaptureRequestPath requestId =
     (if \<not> isSafeSourceCaptureRequestId requestId then Inl (GenError ''source capture request id is invalid.'')
      else Inr (SOURCE_CAPTURE_REQUEST_PREFIX @ requestId @ ''.md''))"

definition normalizeKnowledgeTargetRoot :: "string \<Rightarrow> gen_error + string" where
  "normalizeKnowledgeTargetRoot v =
     (if list_ex (\<lambda>c. charCode c < 32 \<or> charCode c = 127 \<or> charCode c = 92 \<or> c \<in> set ''?#'') v
      then Inl (GenError ''Generation folder must be an absolute folder below /Knowledge/'')
      else
        let root = stripTrailing (CHR ''/'') (trim v); segments = splitOn (CHR ''/'') root in
        if \<not> startsWith root ''/Knowledge/'' \<or>
           list_ex (\<lambda>part. trim part = [] \<or> part = ''.'' \<or> part = ''..'') (drop 2 segments) \<or> length root > 1024
        then Inl (GenError ''Generation folder must be an absolute folder below /Knowledge/ without empty, . or .. segments'')
        else Inr root)"

subsection \<open>Source paths\<close>

definition validateSourceRootPath :: "string \<Rightarrow> string \<Rightarrow> gen_error + unit" where
  "validateSourceRootPath path prefix =
     (let boundary = prefix @ ''/'' in
      if \<not> startsWith path boundary then Inl (GenError (''sourcePath must be under '' @ prefix))
      else
        let relative = drop (length boundary) path in
        if trim relative = [] then Inl (GenError (''sourcePath must be a child of '' @ prefix))
        else if list_ex (\<lambda>part. part = [] \<or> part = ''.'' \<or> part = ''..'') (splitOn (CHR ''/'') relative)
        then Inl (GenError ''sourcePath contains an unsafe path segment'')
        else Inr ())"

text \<open>\<open>replace(/\.md$/i, "")\<close>.\<close>

definition stripMd :: "string \<Rightarrow> string" where
  "stripMd s = (if 3 \<le> length s \<and> toLowerCase (drop (length s - 3) s) = ''.md'' then take (length s - 3) s else s)"

definition sourceIdFromPath :: "string \<Rightarrow> string \<Rightarrow> gen_error + string" where
  "sourceIdFromPath path prefix =
     bindR (validateSourceRootPath path prefix) (\<lambda>_.
       let relative = drop (length (prefix @ ''/'')) path;
           fileName = last (splitOn (CHR ''/'') relative);
           fileStem = (if stripMd fileName = [] then ''source'' else stripMd fileName)
       in Inr (fileStem @ ''-'' @ fnv1aBase36 relative))"

end
