(* ===== verification/Jev_Reranker.thy ===== *)
theory Jev_Reranker
  imports Js_Json Js_Bytes Complex_Main "HOL-Library.Product_Lexorder"
begin

section \<open>The reranking client\<close>

text \<open>
  \<^verbatim>\<open>packages/jev-reranker/index.ts\<close>: a request that asks a model how relevant each candidate is, the bounded
  read and the validation of its answer, and the selection of the best candidates. The number a JSON lexeme
  denotes is a parameter (\<open>None\<close> when it is not finite), as is the text decoder; a failed request or a failed
  read of the body is \<open>Inl\<close>, with the time-out as \<open>True\<close>. Metrics and durations are not modelled.
\<close>

subsection \<open>Constants and data\<close>

definition JEV_MODEL :: string where
  "JEV_MODEL = ''jev-latest''"

definition JEV_MAX_CANDIDATES :: nat where
  "JEV_MAX_CANDIDATES = 20"

definition JEV_DEFAULT_SELECTIONS :: nat where
  "JEV_DEFAULT_SELECTIONS = 5"

record JevCandidate =
  jc_path :: string
  jc_preview :: string

datatype jev_error = Jev (jev_code: string) (jev_retryable: bool) (jev_status: "nat option")

record JevResponse =
  jr_status :: nat
  jr_contentLength :: "nat option"
  jr_body :: "(bool + byte list) list option"

type_synonym jev_answer = "bool + JevResponse"

record JevPlatform =
  jp_number :: "string \<Rightarrow> rat option"
  jp_decode :: "byte list \<Rightarrow> string"

subsection \<open>Reading the answer\<close>

definition failedRequest :: "bool \<Rightarrow> nat option \<Rightarrow> jev_error" where
  "failedRequest aborted st = Jev (if aborted then ''jev_timeout'' else ''jev_unavailable'') True st"

fun jevChunks :: "nat \<Rightarrow> nat \<Rightarrow> (bool + byte list) list \<Rightarrow> byte list \<Rightarrow> jev_error + byte list" where
  "jevChunks st maximumBytes [] got = Inr got"
| "jevChunks st maximumBytes (Inl aborted # chunks) got = Inl (failedRequest aborted (Some st))"
| "jevChunks st maximumBytes (Inr v # chunks) got =
     (if length got + length v > maximumBytes then Inl (Jev ''jev_incomplete_response'' True (Some st))
      else jevChunks st maximumBytes chunks (got @ v))"

definition readBoundedJson :: "JevPlatform \<Rightarrow> nat \<Rightarrow> JevResponse \<Rightarrow> jev_error + json" where
  "readBoundedJson P maximumBytes response =
     (let incomplete = Jev ''jev_incomplete_response'' True (Some (jr_status response)) in
      if (case jr_contentLength response of None \<Rightarrow> False | Some n \<Rightarrow> n > maximumBytes) then Inl incomplete
      else
        case jr_body response of
          None \<Rightarrow> Inl incomplete
        | Some chunks \<Rightarrow>
            bindR (jevChunks (jr_status response) maximumBytes chunks []) (\<lambda>bytes.
              case JSON_parse (jp_decode P bytes) of None \<Rightarrow> Inl incomplete | Some v \<Rightarrow> Inr v))"

text \<open>\<open>isRecord\<close> lets objects and arrays pass; a named property of an array is \<open>undefined\<close>.\<close>

definition isRecord :: "json option \<Rightarrow> bool" where
  "isRecord v = (case v of Some (JObj ps) \<Rightarrow> True | Some (JArr vs) \<Rightarrow> True | _ \<Rightarrow> False)"

definition recordField :: "json option \<Rightarrow> string \<Rightarrow> json option" where
  "recordField v k = (case v of Some (JObj ps) \<Rightarrow> jget ps k | _ \<Rightarrow> None)"

definition noulProbability :: "JevPlatform \<Rightarrow> json option \<Rightarrow> rat option" where
  "noulProbability P answer =
     (if \<not> isRecord answer \<or> recordField answer ''type'' \<noteq> Some (JStr ''noul'') then None
      else
        case recordField answer ''noul'' of
          Some (JNum n) \<Rightarrow>
            (case jp_number P n of None \<Rightarrow> None | Some p \<Rightarrow> if p < 0 \<or> p > 1 then None else Some p)
        | _ \<Rightarrow> None)"

fun answerProbabilities :: "JevPlatform \<Rightarrow> json option \<Rightarrow> string list \<Rightarrow> rat list option" where
  "answerProbabilities P answers [] = Some []"
| "answerProbabilities P answers (key # ks) =
     (case noulProbability P (recordField answers key) of
        None \<Rightarrow> None
      | Some p \<Rightarrow> map_option (\<lambda>ps. p # ps) (answerProbabilities P answers ks))"

definition candidateKey :: "nat \<Rightarrow> string" where
  "candidateKey index = ''candidate_'' @ natToDec index"

definition parseProbabilities :: "JevPlatform \<Rightarrow> json \<Rightarrow> nat \<Rightarrow> jev_error + rat list" where
  "parseProbabilities P v count =
     (let incomplete = Inl (Jev ''jev_incomplete_response'' True (Some 200)) in
      if \<not> isRecord (Some v) \<or> \<not> isRecord (recordField (Some v) ''answers'') then incomplete
      else
        case answerProbabilities P (recordField (Some v) ''answers'') (map candidateKey [0..<count]) of
          None \<Rightarrow> incomplete
        | Some ps \<Rightarrow> Inr ps)"

subsection \<open>The request\<close>

definition rerankQuestion :: "nat \<times> JevCandidate \<Rightarrow> string \<times> json" where
  "rerankQuestion = (\<lambda>(index, candidate). (candidateKey index, JObj [
     (''type'', JStr ''noul''),
     (''instructions'', JObj [
        (''question'', JStr ''Is this candidate semantically relevant to the search intent?''),
        (''candidate_id'', JStr (candidateKey index)),
        (''candidate_path'', JStr (jc_path candidate))]),
     (''criteria'', JObj [
        (''true'', JStr ''The candidate would help answer or substantiate the search intent.''),
        (''false'', JStr ''The candidate is unrelated or would not help answer the search intent.'')])]))"

definition rerankRequest :: "string \<Rightarrow> JevCandidate list \<Rightarrow> string" where
  "rerankRequest intent candidates =
     (let indexed = zip [0..<length candidates] candidates in
      stringify (JObj [
        (''model'', JStr JEV_MODEL),
        (''state'', JObj [
           (''search_intent'', JStr intent),
           (''candidates'', JArr (map (\<lambda>(index, c). JObj [(''id'', JStr (candidateKey index)), (''path'', JStr (jc_path c)),
              (''preview'', JStr (jc_preview c))]) indexed))]),
        (''questions'', JObj (map rerankQuestion indexed))]))"

definition retryableJevStatus :: "nat \<Rightarrow> bool" where
  "retryableJevStatus st \<longleftrightarrow> st = 429 \<or> st = 529 \<or> st \<ge> 500"

text \<open>The body of the answer, or the error it is classified as.\<close>

definition jevBody :: "JevPlatform \<Rightarrow> nat \<Rightarrow> jev_answer \<Rightarrow> jev_error + json" where
  "jevBody P maximumBytes answer =
     (case answer of
        Inl aborted \<Rightarrow> Inl (failedRequest aborted None)
      | Inr response \<Rightarrow>
          if \<not> (200 \<le> jr_status response \<and> jr_status response \<le> 299)
          then Inl (Jev (''jev_http_'' @ natToDec (jr_status response)) (retryableJevStatus (jr_status response)) (Some (jr_status response)))
          else readBoundedJson P maximumBytes response)"

subsection \<open>Reranking\<close>

record JevOptions =
  jo_apiKey :: string
  jo_selectionCount :: "nat option"
  jo_rerankEvenIfWithinLimit :: bool
  jo_maxRequestBytes :: "nat option"
  jo_maxResponseBytes :: "nat option"

definition selectionCount :: "JevOptions \<Rightarrow> nat" where
  "selectionCount options =
     min JEV_MAX_CANDIDATES (max 1 (case jo_selectionCount options of None \<Rightarrow> JEV_DEFAULT_SELECTIONS | Some n \<Rightarrow> n))"

definition bypasses :: "JevOptions \<Rightarrow> 'c list \<Rightarrow> bool" where
  "bypasses options candidates \<longleftrightarrow>
     candidates = [] \<or> \<not> jo_rerankEvenIfWithinLimit options \<and> length candidates \<le> selectionCount options"

definition maximumResponseBytes :: "JevOptions \<Rightarrow> nat" where
  "maximumResponseBytes options = (case jo_maxResponseBytes options of None \<Rightarrow> 256 * 1024 | Some n \<Rightarrow> n)"

definition selectBest :: "nat \<Rightarrow> 'c list \<Rightarrow> rat list \<Rightarrow> 'c list" where
  "selectBest n candidates probabilities =
     map (\<lambda>(candidate, index, probability). candidate)
       (take n (sort_key (\<lambda>(candidate, index, probability). (- probability, index))
          (zip candidates (zip [0..<length candidates] probabilities))))"

text \<open>
  \<open>view\<close> is the path and preview of a candidate; the outcome is \<open>Inl\<close> the candidates or the error when no
  request is sent, otherwise the text of the request and what the answer makes of it.
\<close>

definition rerankWithJev ::
    "JevPlatform \<Rightarrow> JevOptions \<Rightarrow> ('c \<Rightarrow> JevCandidate) \<Rightarrow> string \<Rightarrow> 'c list \<Rightarrow>
     (jev_error + 'c list) + string \<times> (jev_answer \<Rightarrow> jev_error + 'c list)" where
  "rerankWithJev P options view intent allCandidates =
     (let candidates = take JEV_MAX_CANDIDATES allCandidates;
          body = rerankRequest intent (map view candidates)
      in
      if bypasses options candidates then Inl (Inr candidates)
      else if trim (jo_apiKey options) = [] then Inl (Inl (Jev ''jev_configuration'' False None))
      else if (case jo_maxRequestBytes options of None \<Rightarrow> False | Some n \<Rightarrow> length (utf8Encode body) > n)
      then Inl (Inl (Jev ''jev_request_size'' False None))
      else Inr (body, \<lambda>answer.
        bindR (jevBody P (maximumResponseBytes options) answer) (\<lambda>v.
        bindR (parseProbabilities P v (length candidates)) (\<lambda>probabilities.
          Inr (selectBest (selectionCount options) candidates probabilities)))))"

subsection \<open>Classification\<close>

record JevNoulQuestion =
  jq_question :: string
  jq_trueCriteria :: string
  jq_falseCriteria :: string

definition classifyQuestion :: "string \<times> JevNoulQuestion \<Rightarrow> string \<times> json" where
  "classifyQuestion = (\<lambda>(key, q). (key, JObj [
     (''type'', JStr ''noul''), (''instructions'', JObj [(''question'', JStr (jq_question q))]),
     (''criteria'', JObj [(''true'', JStr (jq_trueCriteria q)), (''false'', JStr (jq_falseCriteria q))])]))"

definition classifyWithJev ::
    "JevPlatform \<Rightarrow> string \<Rightarrow> (string \<times> json) list \<Rightarrow> (string \<times> JevNoulQuestion) list \<Rightarrow>
     jev_error + string \<times> (jev_answer \<Rightarrow> jev_error + (string \<times> rat) list)" where
  "classifyWithJev P apiKey state questions =
     (let ks = map fst questions in
      if ks = [] \<or> length ks > JEV_MAX_CANDIDATES then Inl (Jev ''jev_configuration'' False None)
      else if trim apiKey = [] then Inl (Jev ''jev_configuration'' False None)
      else Inr (stringify (JObj [(''model'', JStr JEV_MODEL), (''state'', JObj state),
                  (''questions'', JObj (map classifyQuestion questions))]), \<lambda>answer.
        bindR (jevBody P (256 * 1024) answer) (\<lambda>v.
            let st = (case answer of Inl _ \<Rightarrow> None | Inr r \<Rightarrow> Some (jr_status r));
                incomplete = Inl (Jev ''jev_incomplete_response'' True st) in
            if \<not> isRecord (Some v) \<or> \<not> isRecord (recordField (Some v) ''answers'') then incomplete
            else (case answerProbabilities P (recordField (Some v) ''answers'') ks of
                    None \<Rightarrow> incomplete
                  | Some ps \<Rightarrow> Inr (zip ks ps)))))"

subsection \<open>The selection\<close>

lemma answerProbabilities_length: "answerProbabilities P a ks = Some ps \<Longrightarrow> length ps = length ks"
  by (induction ks arbitrary: ps) (auto split: option.splits)

lemma answerProbabilities_unit: "answerProbabilities P a ks = Some ps \<Longrightarrow> p \<in> set ps \<Longrightarrow> 0 \<le> p \<and> p \<le> 1"
  by (induction ks arbitrary: ps) (auto simp: noulProbability_def split: option.splits if_splits json.splits)

text \<open>The order of the selection: the higher probability first, then the earlier candidate.\<close>

definition betterThan :: "rat list \<Rightarrow> nat \<Rightarrow> nat \<Rightarrow> bool" where
  "betterThan ps i j \<longleftrightarrow> ps ! i > ps ! j \<or> ps ! i = ps ! j \<and> i < j"

lemma insort_key_map: "insort_key f (g x) (map g xs) = map g (insort_key (\<lambda>y. f (g y)) x xs)"
  by (induction xs) simp_all

lemma sort_key_map: "sort_key f (map g xs) = map g (sort_key (\<lambda>y. f (g y)) xs)"
  by (induction xs) (simp_all add: insort_key_map)

definition bestOrder :: "rat list \<Rightarrow> nat list" where
  "bestOrder ps = sort_key (\<lambda>i. (- (ps ! i), i)) [0..<length ps]"

lemma selectBest_order:
  assumes "length ps = length cs"
  shows "selectBest k cs ps = map ((!) cs) (take k (bestOrder ps))"
proof -
  have "zip cs (zip [0..<length cs] ps) = map (\<lambda>i. (cs ! i, i, ps ! i)) [0..<length ps]"
    using assms by (intro nth_equalityI) simp_all
  then show ?thesis
    by (simp add: selectBest_def bestOrder_def sort_key_map take_map comp_def)
qed

lemma bestOrder_set: "set (bestOrder ps) = {..<length ps}" "distinct (bestOrder ps)" "length (bestOrder ps) = length ps"
  by (auto simp: bestOrder_def)

lemma bestOrder_sorted: "sorted_wrt (betterThan ps) (bestOrder ps)"
proof -
  let ?key = "\<lambda>i. (- (ps ! i), i)"
  have "sorted_wrt (\<lambda>i j. ?key i \<le> ?key j) (bestOrder ps)"
    using sorted_sort_key [of ?key "[0..<length ps]"] unfolding bestOrder_def sorted_map .
  moreover have "sorted_wrt (\<noteq>) (bestOrder ps)" using bestOrder_set(2) by (simp add: distinct_conv_nth sorted_wrt_iff_nth_less)
  moreover have "betterThan ps i j" if "?key i \<le> ?key j" "i \<noteq> j" for i j
    using that by (auto simp: betterThan_def less_eq_prod_def)
  ultimately show ?thesis unfolding sorted_wrt_iff_nth_less by blast
qed

text \<open>
  C19. Reranking selects the best candidates: when the service's answer gives the probabilities of the
  candidates that were sent (the first twenty), the result holds as many of them as the limit allows, each
  once, in decreasing order of probability with ties in the order of the search, and none that was left out
  comes before one that was selected in that order.
\<close>

theorem rerank_selects_best:
  assumes "rerankWithJev P options view intent cs = Inr (body, finish)"
    and "jevBody P (maximumResponseBytes options) answer = Inr v"
    and "parseProbabilities P v (length (take JEV_MAX_CANDIDATES cs)) = Inr ps"
  shows "\<exists>picked. finish answer = Inr (map ((!) cs) picked) \<and>
    length picked = min (selectionCount options) (length (take JEV_MAX_CANDIDATES cs)) \<and>
    set picked \<subseteq> {..<length (take JEV_MAX_CANDIDATES cs)} \<and> sorted_wrt (betterThan ps) picked \<and>
    (\<forall>i < length ps. i \<notin> set picked \<longrightarrow> list_all (\<lambda>j. betterThan ps j i) picked)"
proof -
  let ?cs = "take JEV_MAX_CANDIDATES cs"
  let ?k = "selectionCount options"
  let ?picked = "take ?k (bestOrder ps)"
  have len: "length ps = length ?cs"
    using assms(3) by (auto simp: parseProbabilities_def Let_def dest!: answerProbabilities_length split: option.splits if_splits)
  have "finish answer = Inr (selectBest ?k ?cs ps)"
    using assms(1) [unfolded rerankWithJev_def Let_def] assms(2,3) by (auto split: if_split_asm)
  also have "selectBest ?k ?cs ps = map ((!) cs) ?picked"
    unfolding selectBest_order [OF len]
  proof (rule map_cong [OF refl])
    fix i assume "i \<in> set ?picked"
    then have "i < length ps" using bestOrder_set(1) [of ps] by (auto dest!: in_set_takeD)
    then show "?cs ! i = cs ! i" unfolding len by simp
  qed
  finally have "finish answer = Inr (map ((!) cs) ?picked)" .
  moreover have "set ?picked \<subseteq> {..<length ?cs}" using set_take_subset [of ?k "bestOrder ps"] bestOrder_set(1) [of ps] len by auto
  moreover have "sorted_wrt (betterThan ps) ?picked" using bestOrder_sorted by (rule sorted_wrt_take)
  moreover have "betterThan ps j i" if "i < length ps" "i \<notin> set ?picked" "j \<in> set ?picked" for i j
  proof -
    have "i \<in> set (drop ?k (bestOrder ps))"
      using that bestOrder_set(1) [of ps] by (metis Un_iff append_take_drop_id lessThan_iff set_append)
    moreover have "sorted_wrt (betterThan ps) (?picked @ drop ?k (bestOrder ps))" using bestOrder_sorted by simp
    ultimately show ?thesis using that(3) unfolding sorted_wrt_append by blast
  qed
  ultimately show ?thesis
    using len by (intro exI [of _ ?picked]) (auto simp: list_all_iff bestOrder_set(3) min.commute)
qed

definition sampleProbabilities :: json where
  "sampleProbabilities = JObj [(''answers'', JObj [
     (''candidate_0'', JObj [(''type'', JStr ''noul''), (''noul'', JNum ''0'')]),
     (''candidate_1'', JObj [(''type'', JStr ''noul''), (''noul'', JNum ''1'')])])]"

definition samplePlatform :: JevPlatform where
  "samplePlatform = \<lparr>jp_number = (\<lambda>n. if n = ''0'' then Some 0 else if n = ''1'' then Some 1 else None),
     jp_decode = (\<lambda>_. stringify sampleProbabilities)\<rparr>"

definition sampleOptions :: JevOptions where
  "sampleOptions = \<lparr>jo_apiKey = ''key'', jo_selectionCount = Some 1, jo_rerankEvenIfWithinLimit = False,
     jo_maxRequestBytes = None, jo_maxResponseBytes = None\<rparr>"

definition sampleAnswer :: jev_answer where
  "sampleAnswer = Inr \<lparr>jr_status = 200, jr_contentLength = None, jr_body = Some []\<rparr>"

lemma sampleProbabilities_parsed: "JSON_parse (stringify sampleProbabilities) = Some sampleProbabilities"
  by (rule JSON_parse_stringify) code_simp

lemma sample_body: "jevBody samplePlatform (maximumResponseBytes sampleOptions) sampleAnswer = Inr sampleProbabilities"
  by (simp add: jevBody_def sampleAnswer_def readBoundedJson_def samplePlatform_def sampleProbabilities_parsed)

lemma sample_parsed: "parseProbabilities samplePlatform sampleProbabilities 2 = Inr [0, 1]"
  by code_simp

theorem rerank_selects_best_witness:
  "\<exists>body finish picked.
     rerankWithJev samplePlatform sampleOptions (\<lambda>p. \<lparr>jc_path = p, jc_preview = []\<rparr>) ''wiki'' [''/a'', ''/b''] = Inr (body, finish) \<and>
     finish sampleAnswer = Inr (map ((!) [''/a'', ''/b'']) picked) \<and> length picked = 1 \<and> betterThan [0, 1] (hd picked) (1 - hd picked)"
proof -
  let ?run = "rerankWithJev samplePlatform sampleOptions (\<lambda>p. \<lparr>jc_path = p, jc_preview = []\<rparr>) ''wiki'' [''/a'', ''/b'']"
  have "\<not> bypasses sampleOptions (take JEV_MAX_CANDIDATES [''/a'', ''/b''])" "trim (jo_apiKey sampleOptions) \<noteq> []"
    by code_simp+
  then obtain body finish where run: "?run = Inr (body, finish)"
    by (simp add: rerankWithJev_def Let_def) (simp add: sampleOptions_def)
  have two: "length (take JEV_MAX_CANDIDATES [''/a'', ''/b'']) = 2" by code_simp
  from rerank_selects_best [OF run sample_body, unfolded two, OF sample_parsed] obtain picked where
    "finish sampleAnswer = Inr (map ((!) [''/a'', ''/b'']) picked)" "length picked = min (selectionCount sampleOptions) 2"
    "set picked \<subseteq> {..<2}" "\<forall>i < length [0 :: rat, 1]. i \<notin> set picked \<longrightarrow> list_all (\<lambda>j. betterThan [0, 1] j i) picked"
    by blast
  moreover have "selectionCount sampleOptions = 1" by code_simp
  ultimately obtain i where "finish sampleAnswer = Inr (map ((!) [''/a'', ''/b'']) [i])" "picked = [i]" "i < 2"
    "\<forall>j < 2. j \<noteq> i \<longrightarrow> betterThan [0, 1] i j"
    by (auto simp: length_Suc_conv)
  moreover from this have "betterThan [0, 1] i (1 - i)" by (cases i) auto
  ultimately show ?thesis using run by (intro exI [of _ body] exI [of _ finish] exI [of _ "[i]"]) simp
qed

end
