(* ===== verification/Generator_Jobs.thy ===== *)
theory Generator_Jobs
  imports Generator_Base Jev_Reranker Js_Bytes Sql_Table State_System
begin

section \<open>Generator worker: the job table\<close>

text \<open>
  \<^verbatim>\<open>workers/wiki-generator/src/jobs.ts\<close>: the D1 rows of the generation jobs, each statement the worker
  sends as a function on the table, and the functions around them as actions on the worker's world.
  A job is leased by the message that works on it, checkpoints the generated page, and is completed,
  released or failed by the lease holder only. The time columns hold ISO 8601 texts of fixed width, whose
  order is that of the instants: here they are the instants in milliseconds.
\<close>

subsection \<open>Rows and results\<close>

datatype JobStatus = Queued | Processing | Generated | Completed | Failed

record SourceJob =
  j_database_id :: string
  j_source_path :: string
  j_source_etag :: string
  j_status :: JobStatus
  j_target_path :: "string option"
  j_attempts :: nat
  j_last_error :: "string option"
  j_lease_owner :: "string option"
  j_lease_expires_at :: "nat option"
  j_generated_target_path :: "string option"
  j_generated_target_etag :: "string option"
  j_generated_target_observed :: nat
  j_generated_content :: "string option"
  j_generated_context_paths :: "string option"
  j_llm_duration_ms :: "nat option"
  j_updated_at :: nat
  j_requested_target_root :: "string option"

text \<open>\<open>expectedTargetEtag\<close> is \<open>None\<close> for \<open>undefined\<close> and \<open>Some None\<close> for \<open>null\<close>.\<close>

record GeneratedArtifact =
  ga_targetPath :: string
  ga_expectedTargetEtag :: "string option option"
  ga_content :: string
  ga_contextPaths :: "string list"
  ga_llmDurationMs :: nat

datatype SourceJobClaim =
    ClaimDestinationConflict
  | ClaimGenerate
  | ClaimResume GeneratedArtifact
  | ClaimCompleted string
  | ClaimFailed string
  | ClaimBusy nat
  | ClaimSuperseded "SourceJob option"

definition LEASE_MS :: nat where
  "LEASE_MS = 5 * 60 * 1000"

definition jobKey :: "SourceJob \<Rightarrow> string \<times> string" where
  "jobKey j = (j_database_id j, j_source_path j)"

definition messageKey :: "SourceQueueMessage \<Rightarrow> string \<times> string" where
  "messageKey m = (sm_databaseId m, sm_sourcePath m)"

definition sanitizeError :: "string \<Rightarrow> string" where
  "sanitizeError e = take 4000 e"

definition stringArray :: "json \<Rightarrow> string list option" where
  "stringArray v =
     (case v of
        JArr vs \<Rightarrow> those (map (\<lambda>x. case x of JStr s \<Rightarrow> Some s | _ \<Rightarrow> None) vs)
      | _ \<Rightarrow> None)"

definition artifactFromJob :: "SourceJob \<Rightarrow> gen_error + GeneratedArtifact" where
  "artifactFromJob job =
     (case (j_generated_target_path job, j_generated_content job, j_llm_duration_ms job) of
        (Some targetPath, Some content, Some duration) \<Rightarrow>
          if targetPath = [] then Inl (GenError ''generated source job is missing its checkpoint artifact'')
          else
            (case JSON_parse (case j_generated_context_paths job of None \<Rightarrow> ''[]'' | Some t \<Rightarrow> t) of
               None \<Rightarrow> Inl (GenError ''generated source job context paths are invalid'')
             | Some v \<Rightarrow>
                 (case stringArray v of
                    None \<Rightarrow> Inl (GenError ''generated source job context paths are invalid'')
                  | Some paths \<Rightarrow>
                      Inr \<lparr>ga_targetPath = targetPath,
                           ga_expectedTargetEtag =
                             (if j_generated_target_observed job = 1 then Some (j_generated_target_etag job) else None),
                           ga_content = content, ga_contextPaths = paths, ga_llmDurationMs = duration\<rparr>))
      | _ \<Rightarrow> Inl (GenError ''generated source job is missing its checkpoint artifact''))"

text \<open>\<open>Math.min(300, Math.max(1, Math.ceil(ms / 1000) + 1))\<close>; no or no finite expiry gives 15.\<close>

definition leaseRetryDelay :: "nat option \<Rightarrow> nat \<Rightarrow> nat" where
  "leaseRetryDelay leaseExpiresAt now =
     (case leaseExpiresAt of
        None \<Rightarrow> 15
      | Some t \<Rightarrow> nat (min 300 (max 1 (- ((int now - int t) div 1000) + 1))))"

definition shouldSkipJob :: "SourceJob option \<Rightarrow> string \<Rightarrow> bool" where
  "shouldSkipJob job sourceEtag = (case job of None \<Rightarrow> False | Some j \<Rightarrow> j_source_etag j = sourceEtag \<and> j_status j = Completed)"

subsection \<open>Statements\<close>

type_synonym jobs = "SourceJob list"

definition selectJob :: "string \<Rightarrow> string \<Rightarrow> jobs \<Rightarrow> SourceJob option" where
  "selectJob databaseId sourcePath t = selectFirst (\<lambda>j. j_database_id j = databaseId \<and> j_source_path j = sourcePath) t"

text \<open>An \<open>UPDATE \<dots> RETURNING\<close>: the first updated row, and the table.\<close>

definition updateReturning :: "('r \<Rightarrow> bool) \<Rightarrow> ('r \<Rightarrow> 'r) \<Rightarrow> 'r list \<Rightarrow> 'r option \<times> 'r list" where
  "updateReturning P f t = (map_option f (find P t), updateWhere P f t)"

definition sameVersion :: "SourceQueueMessage \<Rightarrow> SourceJob \<Rightarrow> bool" where
  "sameVersion m j \<longleftrightarrow> j_database_id j = sm_databaseId m \<and> j_source_path j = sm_sourcePath m \<and> j_source_etag j = sm_sourceEtag m"

definition claimWhere :: "SourceQueueMessage \<Rightarrow> nat \<Rightarrow> SourceJob \<Rightarrow> bool" where
  "claimWhere m now j \<longleftrightarrow>
     sameVersion m j \<and> j_requested_target_root j = sm_targetRoot m \<and>
     j_status j \<in> {Queued, Processing, Generated} \<and>
     (j_lease_owner j = None \<or> (case j_lease_expires_at j of None \<Rightarrow> True | Some t \<Rightarrow> t \<le> now))"

definition claimSet :: "string \<Rightarrow> nat \<Rightarrow> SourceJob \<Rightarrow> SourceJob" where
  "claimSet owner now j = j \<lparr>
     j_status := (if j_status j = Generated then Generated else Processing),
     j_lease_owner := Some owner, j_lease_expires_at := Some (now + LEASE_MS),
     j_attempts := j_attempts j + 1, j_last_error := None, j_updated_at := now\<rparr>"

definition heldWhere :: "SourceQueueMessage \<Rightarrow> string \<Rightarrow> JobStatus set \<Rightarrow> SourceJob \<Rightarrow> bool" where
  "heldWhere m owner statuses j \<longleftrightarrow> sameVersion m j \<and> j_status j \<in> statuses \<and> j_lease_owner j = Some owner"

definition checkpointSet :: "GeneratedArtifact \<Rightarrow> nat \<Rightarrow> SourceJob \<Rightarrow> SourceJob" where
  "checkpointSet artifact now j = j \<lparr>
     j_status := Generated, j_generated_target_path := Some (ga_targetPath artifact),
     j_generated_target_etag := None, j_generated_target_observed := 0,
     j_generated_content := Some (ga_content artifact),
     j_generated_context_paths := Some (stringify (JArr (map JStr (ga_contextPaths artifact)))),
     j_llm_duration_ms := Some (ga_llmDurationMs artifact), j_updated_at := now\<rparr>"

definition targetSet :: "string option \<Rightarrow> nat \<Rightarrow> SourceJob \<Rightarrow> SourceJob" where
  "targetSet etag now j = j \<lparr>j_generated_target_etag := etag, j_generated_target_observed := 1, j_updated_at := now\<rparr>"

definition clearArtifact :: "SourceJob \<Rightarrow> SourceJob" where
  "clearArtifact j = j \<lparr>j_lease_owner := None, j_lease_expires_at := None, j_generated_target_path := None,
     j_generated_target_etag := None, j_generated_target_observed := 0, j_generated_content := None,
     j_generated_context_paths := None\<rparr>"

definition completeSet :: "string \<Rightarrow> nat \<Rightarrow> SourceJob \<Rightarrow> SourceJob" where
  "completeSet targetPath now j = clearArtifact j \<lparr>
     j_status := Completed, j_target_path := Some targetPath, j_last_error := None, j_updated_at := now\<rparr>"

definition releaseSet :: "string \<Rightarrow> nat \<Rightarrow> SourceJob \<Rightarrow> SourceJob" where
  "releaseSet err now j = j \<lparr>
     j_status := (if j_status j = Generated then Generated else Queued),
     j_lease_owner := None, j_lease_expires_at := None, j_last_error := Some (sanitizeError err), j_updated_at := now\<rparr>"

definition failSet :: "string \<Rightarrow> nat \<Rightarrow> SourceJob \<Rightarrow> SourceJob" where
  "failSet err now j = clearArtifact j \<lparr>
     j_status := Failed, j_target_path := None, j_last_error := Some (sanitizeError err),
     j_llm_duration_ms := None, j_updated_at := now\<rparr>"

definition queuedJob :: "SourceQueueMessage \<Rightarrow> nat \<Rightarrow> SourceJob" where
  "queuedJob m now = \<lparr>
     j_database_id = sm_databaseId m, j_source_path = sm_sourcePath m, j_source_etag = sm_sourceEtag m,
     j_status = Queued, j_target_path = None, j_attempts = 0, j_last_error = None,
     j_lease_owner = None, j_lease_expires_at = None, j_generated_target_path = None,
     j_generated_target_etag = None, j_generated_target_observed = 0, j_generated_content = None,
     j_generated_context_paths = None, j_llm_duration_ms = None, j_updated_at = now,
     j_requested_target_root = sm_targetRoot m\<rparr>"

text \<open>
  The upsert: a new row, or the columns of an existing row set to those of the new one when the source
  version differs or the job of this version and destination failed.
\<close>

definition requeueWhere :: "SourceQueueMessage \<Rightarrow> SourceJob \<Rightarrow> bool" where
  "requeueWhere m j \<longleftrightarrow>
     jobKey j = messageKey m \<and>
     (j_source_etag j \<noteq> sm_sourceEtag m \<or> j_status j = Failed \<and> j_requested_target_root j = sm_targetRoot m)"

definition requeueSet :: "SourceQueueMessage \<Rightarrow> nat \<Rightarrow> SourceJob \<Rightarrow> SourceJob" where
  "requeueSet m now j = j \<lparr>
     j_source_etag := sm_sourceEtag m, j_requested_target_root := sm_targetRoot m, j_status := Queued,
     j_target_path := None, j_attempts := 0, j_last_error := None, j_lease_owner := None,
     j_lease_expires_at := None, j_generated_target_path := None, j_generated_target_etag := None,
     j_generated_target_observed := 0, j_generated_content := None, j_generated_context_paths := None,
     j_llm_duration_ms := None, j_updated_at := now\<rparr>"

definition upsertQueuedStmt :: "SourceQueueMessage \<Rightarrow> nat \<Rightarrow> jobs \<Rightarrow> SourceJob option \<times> jobs" where
  "upsertQueuedStmt m now t =
     (if hasKey jobKey (messageKey m) t then updateReturning (requeueWhere m) (requeueSet m now) t
      else (Some (queuedJob m now), t @ [queuedJob m now]))"

text \<open>The cursors of the sync, which the handlers of the worker do not use.\<close>

record WorkerCursor =
  wk_database_id :: string
  wk_prefix :: string
  wk_snapshot_revision :: string
  wk_updated_at :: nat

definition cursorKey :: "WorkerCursor \<Rightarrow> string \<times> string" where
  "cursorKey c = (wk_database_id c, wk_prefix c)"

definition loadCursor :: "WorkerCursor list \<Rightarrow> string \<Rightarrow> string \<Rightarrow> string option" where
  "loadCursor t databaseId prefix = map_option wk_snapshot_revision (byKey cursorKey (databaseId, prefix) t)"

definition saveCursor :: "string \<Rightarrow> string \<Rightarrow> string \<Rightarrow> nat \<Rightarrow> WorkerCursor list \<Rightarrow> WorkerCursor list" where
  "saveCursor databaseId prefix revision now t =
     (if hasKey cursorKey (databaseId, prefix) t
      then updateWhere (\<lambda>c. cursorKey c = (databaseId, prefix))
             (\<lambda>c. c \<lparr>wk_snapshot_revision := revision, wk_updated_at := now\<rparr>) t
      else t @ [\<lparr>wk_database_id = databaseId, wk_prefix = prefix, wk_snapshot_revision = revision, wk_updated_at = now\<rparr>])"

subsection \<open>World and host\<close>

text \<open>
  The world of the worker: the job table, the number of host calls so far and the effects it has had
  outside, in order. The host is a record of parameters indexed by the number of the call: the clock,
  D1 faults (before or after the statement applied), what other executions have done to the table, the
  VFS canister behind \<^verbatim>\<open>vfs.ts\<close>, the rerank and completion services, the queues and the random numbers
  (\<open>gh_random h k n\<close> is \<open>Math.floor(secureRandomUnit() * n)\<close>).
\<close>

datatype GenEffect =
    EffMkdir string string
  | EffWrite WriteNodeRequest
  | EffRerank string
  | EffCompletion string
  | EffSend QueueMessage "nat option"
  | EffFetch string
  | EffPutImage string string
  | EffResend json nat
  | EffDeadLetter json
  | EffAck string
  | EffRetry string nat

record GenWorld =
  g_jobs :: jobs
  g_calls :: nat
  g_effects :: "GenEffect list"

record CompletionResponse =
  cr_status :: nat
  cr_statusText :: string
  cr_retryAfter :: "string option"
  cr_text :: "string option"

record FetchResponse =
  fr_status :: nat
  fr_contentType :: "string option"
  fr_location :: "string option"
  fr_body :: "(string + byte list) list option"

record GenHost =
  gh_now :: "nat \<Rightarrow> nat"
  gh_isoNow :: "nat \<Rightarrow> string"
  gh_dbFault :: "nat \<Rightarrow> (bool \<times> string) option"
  gh_others :: "nat \<Rightarrow> jobs \<Rightarrow> jobs"
  gh_readNode :: "nat \<Rightarrow> string \<Rightarrow> string \<Rightarrow> gen_error + WikiNode option"
  gh_mkdirNode :: "nat \<Rightarrow> string \<Rightarrow> string \<Rightarrow> gen_error + unit"
  gh_writeNode :: "nat \<Rightarrow> WriteNodeRequest \<Rightarrow> gen_error + WriteNodeAck"
  gh_searchNodes :: "nat \<Rightarrow> string \<Rightarrow> string \<Rightarrow> nat \<Rightarrow> string \<Rightarrow> gen_error + SearchNodeHit list"
  gh_checkDatabaseWriteCycles :: "nat \<Rightarrow> string \<Rightarrow> gen_error + unit"
  gh_checkSourceRunSession :: "nat \<Rightarrow> string \<Rightarrow> string \<Rightarrow> string \<Rightarrow> string \<Rightarrow> gen_error + unit"
  gh_checkSourceCaptureTriggerSession :: "nat \<Rightarrow> string \<Rightarrow> string \<Rightarrow> string \<Rightarrow> gen_error + unit"
  gh_rerank :: "nat \<Rightarrow> string \<Rightarrow> jev_answer"
  gh_complete :: "nat \<Rightarrow> string \<Rightarrow> string option + CompletionResponse"
  gh_send :: "nat \<Rightarrow> QueueMessage \<Rightarrow> gen_error + unit"
  gh_resend :: "nat \<Rightarrow> json \<Rightarrow> nat \<Rightarrow> gen_error + unit"
  gh_deadLetter :: "nat \<Rightarrow> json \<Rightarrow> gen_error + unit"
  gh_createVfsClient :: "nat \<Rightarrow> gen_error + unit"
  gh_fetch :: "nat \<Rightarrow> string \<Rightarrow> gen_error + FetchResponse"
  gh_listPublicDatabases :: "nat \<Rightarrow> gen_error + PublicDatabaseSummary list"
  gh_renderImage :: "nat \<Rightarrow> PublicDatabaseSummary \<Rightarrow> gen_error + byte list"
  gh_putImage :: "nat \<Rightarrow> string \<Rightarrow> byte list \<Rightarrow> gen_error + unit"
  gh_random :: "nat \<Rightarrow> nat \<Rightarrow> nat"

type_synonym 'a gen = "(GenWorld, gen_error, 'a) act"

definition genCall :: "(nat \<Rightarrow> gen_error + 'a) \<Rightarrow> 'a gen" where
  "genCall f = (\<lambda>w. (f (g_calls w), w \<lparr>g_calls := Suc (g_calls w)\<rparr>))"

definition genEffect :: "GenEffect \<Rightarrow> (nat \<Rightarrow> gen_error + 'a) \<Rightarrow> 'a gen" where
  "genEffect e f = (\<lambda>w. (f (g_calls w), w \<lparr>g_calls := Suc (g_calls w), g_effects := g_effects w @ [e]\<rparr>))"

definition jobsDb :: "GenHost \<Rightarrow> (nat \<Rightarrow> jobs \<Rightarrow> 'a \<times> jobs) \<Rightarrow> 'a gen" where
  "jobsDb h stmt = (\<lambda>w.
     let k = g_calls w; t = gh_others h k (g_jobs w); r = stmt (gh_now h k) t in
     case gh_dbFault h k of
       None \<Rightarrow> (Inr (fst r), w \<lparr>g_calls := Suc k, g_jobs := snd r\<rparr>)
     | Some (applied, message) \<Rightarrow>
         (Inl (GenHostError message), w \<lparr>g_calls := Suc k, g_jobs := if applied then snd r else t\<rparr>))"

definition requireRow :: "string \<Rightarrow> 'a option gen \<Rightarrow> unit gen" where
  "requireRow message m = bindA m (\<lambda>row. case row of None \<Rightarrow> throwA (GenError message) | Some r \<Rightarrow> retA ())"

subsection \<open>Operations\<close>

definition loadJob :: "GenHost \<Rightarrow> string \<Rightarrow> string \<Rightarrow> SourceJob option gen" where
  "loadJob h databaseId sourcePath = jobsDb h (\<lambda>_ t. (selectJob databaseId sourcePath t, t))"

definition upsertQueuedJob :: "GenHost \<Rightarrow> SourceQueueMessage \<Rightarrow> SourceJob option gen" where
  "upsertQueuedJob h m = jobsDb h (upsertQueuedStmt m)"

definition enqueueSourceJob :: "GenHost \<Rightarrow> SourceQueueMessage \<Rightarrow> bool gen" where
  "enqueueSourceJob h m =
     bindA (upsertQueuedJob h m) (\<lambda>reserved.
     bindA (case reserved of Some j \<Rightarrow> retA (Some j) | None \<Rightarrow> loadJob h (sm_databaseId m) (sm_sourcePath m)) (\<lambda>job.
       case job of
         None \<Rightarrow> retA False
       | Some j \<Rightarrow>
           if j_source_etag j \<noteq> sm_sourceEtag m then retA False
           else if j_requested_target_root j \<noteq> sm_targetRoot m then throwA SourceTargetConflictError
           else if shouldSkipJob (Some j) (sm_sourceEtag m) then retA False
           else bindA (genEffect (EffSend (SourceMessage m) None) (\<lambda>k. gh_send h k (SourceMessage m))) (\<lambda>_. retA True)))"

definition claimStmt :: "SourceQueueMessage \<Rightarrow> string \<Rightarrow> nat \<Rightarrow> jobs \<Rightarrow> SourceJob option \<times> jobs" where
  "claimStmt m owner now t = updateReturning (claimWhere m now) (claimSet owner now) t"

definition failStmt :: "SourceQueueMessage \<Rightarrow> string \<Rightarrow> string \<Rightarrow> nat \<Rightarrow> jobs \<Rightarrow> SourceJob option \<times> jobs" where
  "failStmt m owner err now t = updateReturning (heldWhere m owner {Processing, Generated}) (failSet err now) t"

definition releaseStmt :: "SourceQueueMessage \<Rightarrow> string \<Rightarrow> string \<Rightarrow> nat \<Rightarrow> jobs \<Rightarrow> SourceJob option \<times> jobs" where
  "releaseStmt m owner err now t = updateReturning (heldWhere m owner {Processing, Generated}) (releaseSet err now) t"

definition completeStmt :: "SourceQueueMessage \<Rightarrow> string \<Rightarrow> string \<Rightarrow> nat \<Rightarrow> jobs \<Rightarrow> SourceJob option \<times> jobs" where
  "completeStmt m owner targetPath now t = updateReturning (heldWhere m owner {Generated}) (completeSet targetPath now) t"

definition targetStmt :: "SourceQueueMessage \<Rightarrow> string \<Rightarrow> string option \<Rightarrow> nat \<Rightarrow> jobs \<Rightarrow> SourceJob option \<times> jobs" where
  "targetStmt m owner etag now t = updateReturning (heldWhere m owner {Generated}) (targetSet etag now) t"

definition checkpointStmt :: "SourceQueueMessage \<Rightarrow> string \<Rightarrow> GeneratedArtifact \<Rightarrow> nat \<Rightarrow> jobs \<Rightarrow> SourceJob option \<times> jobs" where
  "checkpointStmt m owner artifact now t =
     updateReturning (heldWhere m owner {Processing}) (checkpointSet artifact now) t"

definition markFailed :: "GenHost \<Rightarrow> SourceQueueMessage \<Rightarrow> string \<Rightarrow> string \<Rightarrow> unit gen" where
  "markFailed h m owner err =
     requireRow ''source generation failure lease was lost'' (jobsDb h (failStmt m owner err))"

definition releaseForRetry :: "GenHost \<Rightarrow> SourceQueueMessage \<Rightarrow> string \<Rightarrow> string \<Rightarrow> unit gen" where
  "releaseForRetry h m owner err =
     requireRow ''source generation retry lease was lost'' (jobsDb h (releaseStmt m owner err))"

definition markCompleted :: "GenHost \<Rightarrow> SourceQueueMessage \<Rightarrow> string \<Rightarrow> string \<Rightarrow> unit gen" where
  "markCompleted h m owner targetPath =
     requireRow ''source generation completion lease was lost'' (jobsDb h (completeStmt m owner targetPath))"

definition checkpointGeneratedTarget :: "GenHost \<Rightarrow> SourceQueueMessage \<Rightarrow> string \<Rightarrow> string option \<Rightarrow> unit gen" where
  "checkpointGeneratedTarget h m owner etag =
     requireRow ''source generation target checkpoint lease was lost'' (jobsDb h (targetStmt m owner etag))"

definition checkpointGenerated :: "GenHost \<Rightarrow> SourceQueueMessage \<Rightarrow> string \<Rightarrow> GeneratedArtifact \<Rightarrow> unit gen" where
  "checkpointGenerated h m owner artifact =
     requireRow ''source generation checkpoint lease was lost'' (jobsDb h (checkpointStmt m owner artifact))"

definition currentClaim :: "SourceQueueMessage \<Rightarrow> nat \<Rightarrow> SourceJob option \<Rightarrow> SourceJobClaim" where
  "currentClaim m now current =
     (case current of
        None \<Rightarrow> ClaimSuperseded None
      | Some j \<Rightarrow>
          if j_source_etag j \<noteq> sm_sourceEtag m then ClaimSuperseded (Some j)
          else if j_requested_target_root j \<noteq> sm_targetRoot m then ClaimDestinationConflict
          else if j_status j = Completed \<and> j_target_path j \<noteq> None \<and> j_target_path j \<noteq> Some []
          then ClaimCompleted (the (j_target_path j))
          else if j_status j = Failed
          then ClaimFailed (case j_last_error j of None \<Rightarrow> ''source generation failed'' | Some e \<Rightarrow> e)
          else ClaimBusy (leaseRetryDelay (j_lease_expires_at j) now))"

text \<open>\<open>now\<close> is fixed when the call starts; a claimed row of another status than \<open>generated\<close> is to be generated.\<close>

definition claimSourceJob :: "GenHost \<Rightarrow> SourceQueueMessage \<Rightarrow> string \<Rightarrow> SourceJobClaim gen" where
  "claimSourceJob h m owner =
     bindA (genCall (\<lambda>k. Inr (gh_now h k))) (\<lambda>now.
     bindA (jobsDb h (\<lambda>_. claimStmt m owner now)) (\<lambda>claimed.
       case claimed of
         Some job \<Rightarrow>
           if j_status job \<noteq> Generated then retA ClaimGenerate
           else
             (case artifactFromJob job of
                Inr artifact \<Rightarrow> retA (ClaimResume artifact)
              | Inl e \<Rightarrow>
                  let messageText = ''generated source job checkpoint is invalid'' in
                  bindA (requireRow ''source generation failure lease was lost''
                          (jobsDb h (\<lambda>_. failStmt m owner messageText now)))
                    (\<lambda>_. retA (ClaimFailed messageText)))
       | None \<Rightarrow>
           bindA (loadJob h (sm_databaseId m) (sm_sourcePath m)) (\<lambda>current. retA (currentClaim m now current))))"

subsection \<open>The updates keep the key\<close>

lemma clearArtifact_simps [simp]:
  "jobKey (clearArtifact j) = jobKey j" "j_source_etag (clearArtifact j) = j_source_etag j"
  "j_requested_target_root (clearArtifact j) = j_requested_target_root j"
  by (simp_all add: clearArtifact_def jobKey_def)

interpretation claim_row: row_update jobKey "claimSet owner now" for owner now
  by unfold_locales (simp add: claimSet_def jobKey_def)

interpretation checkpoint_row: row_update jobKey "checkpointSet a now" for a now
  by unfold_locales (simp add: checkpointSet_def jobKey_def)

interpretation target_row: row_update jobKey "targetSet e now" for e now
  by unfold_locales (simp add: targetSet_def jobKey_def)

interpretation complete_row: row_update jobKey "completeSet p now" for p now
  by unfold_locales (simp add: completeSet_def clearArtifact_def jobKey_def)

interpretation release_row: row_update jobKey "releaseSet e now" for e now
  by unfold_locales (simp add: releaseSet_def jobKey_def)

interpretation fail_row: row_update jobKey "failSet e now" for e now
  by unfold_locales (simp add: failSet_def clearArtifact_def jobKey_def)

interpretation requeue_row: row_update jobKey "requeueSet m now" for m now
  by unfold_locales (simp add: requeueSet_def jobKey_def)

lemmas job_rows = claim_row.row_update_axioms checkpoint_row.row_update_axioms target_row.row_update_axioms
  complete_row.row_update_axioms release_row.row_update_axioms fail_row.row_update_axioms requeue_row.row_update_axioms

lemma byKey_updateReturning:
  "row_update jobKey f \<Longrightarrow>
     byKey jobKey k (snd (updateReturning P f t)) = map_option (\<lambda>j. if P j then f j else j) (byKey jobKey k t)"
  by (simp add: updateReturning_def row_update.byKey_update)

lemma updateReturning_keyed:
  assumes "keyed jobKey t" and "\<And>j. P j \<Longrightarrow> jobKey j = k"
  shows "fst (updateReturning P f t) = (case byKey jobKey k t of None \<Rightarrow> None | Some j \<Rightarrow> if P j then Some (f j) else None)"
proof (cases "find P t")
  case None
  then have "\<not> P j" if "byKey jobKey k t = Some j" for j
    using byKey_Some_D [OF that] by (auto simp: find_None_iff)
  with None show ?thesis by (auto simp: updateReturning_def split: option.split)
next
  case (Some j)
  then have "j \<in> set t" and "P j" using find_Some_D by fastforce+
  then have "byKey jobKey k t = Some j" using byKey_keyed [OF assms(1)] assms(2) by force
  with Some \<open>P j\<close> show ?thesis by (simp add: updateReturning_def)
qed

lemma selectJob_byKey: "selectJob d p t = byKey jobKey (d, p) t"
  by (simp add: selectJob_def byKey_def jobKey_def)

interpretation cursor_row: row_update cursorKey "\<lambda>c. c \<lparr>wk_snapshot_revision := revision, wk_updated_at := now\<rparr>" for revision now
  by unfold_locales (simp add: cursorKey_def)

lemma load_saved_cursor:
  "loadCursor (saveCursor db prefix revision now t) db' prefix' =
     (if (db', prefix') = (db, prefix) then Some revision else loadCursor t db' prefix')"
proof -
  define row where "row = \<lparr>wk_database_id = db, wk_prefix = prefix, wk_snapshot_revision = revision, wk_updated_at = now\<rparr>"
  have row: "cursorKey row = (db, prefix)" "wk_snapshot_revision row = revision" by (simp_all add: row_def cursorKey_def)
  have saved: "saveCursor db prefix revision now t =
      (if hasKey cursorKey (db, prefix) t
       then updateWhere (\<lambda>c. cursorKey c = (db, prefix)) (\<lambda>c. c \<lparr>wk_snapshot_revision := revision, wk_updated_at := now\<rparr>) t
       else t @ [row])"
    by (simp add: saveCursor_def row_def)
  have key: "cursorKey c = k" if "byKey cursorKey k t = Some c" for c k using byKey_Some_D [OF that] by simp
  show ?thesis
  proof (cases "hasKey cursorKey (db, prefix) t")
    case True
    then obtain c where "byKey cursorKey (db, prefix) t = Some c"
      by (cases "byKey cursorKey (db, prefix) t") (auto simp: hasKey_iff byKey_None_iff)
    with True key show ?thesis
      by (cases "byKey cursorKey (db', prefix') t") (auto simp: saved loadCursor_def cursor_row.byKey_update)
  next
    case False
    then have "byKey cursorKey (db, prefix) t = None" by (simp add: hasKey_iff byKey_None_iff)
    with False row show ?thesis
      by (cases "byKey cursorKey (db', prefix') t") (auto simp: saved loadCursor_def byKey_append_one)
  qed
qed

subsection \<open>The invariant of a job\<close>

definition noArtifact :: "SourceJob \<Rightarrow> bool" where
  "noArtifact j \<longleftrightarrow> j_generated_target_path j = None \<and> j_generated_content j = None \<and> j_generated_context_paths j = None \<and>
     j_generated_target_observed j = 0 \<and> j_generated_target_etag j = None"

definition noLease :: "SourceJob \<Rightarrow> bool" where
  "noLease j \<longleftrightarrow> j_lease_owner j = None \<and> j_lease_expires_at j = None"

definition jobOk :: "SourceJob \<Rightarrow> bool" where
  "jobOk j \<longleftrightarrow>
     (case j_status j of
        Queued \<Rightarrow> noArtifact j \<and> noLease j \<and> j_target_path j = None
      | Processing \<Rightarrow> noArtifact j \<and> j_lease_owner j \<noteq> None \<and> j_lease_expires_at j \<noteq> None \<and> j_target_path j = None
      | Generated \<Rightarrow> (\<exists>a. artifactFromJob j = Inr a) \<and> (j_lease_owner j = None \<longleftrightarrow> j_lease_expires_at j = None) \<and>
          j_target_path j = None
      | Completed \<Rightarrow> noArtifact j \<and> noLease j \<and> (\<exists>p. j_target_path j = Some p \<and> p \<noteq> [])
      | Failed \<Rightarrow> noArtifact j \<and> noLease j \<and> j_target_path j = None \<and> j_last_error j \<noteq> None)"

definition jobsOk :: "jobs \<Rightarrow> bool" where
  "jobsOk t \<longleftrightarrow> keyed jobKey t \<and> (\<forall>j \<in> set t. jobOk j)"

lemma stringArray_strings [simp]: "stringArray (JArr (map JStr ps)) = Some ps"
  by (induction ps) (auto simp: stringArray_def)

lemma artifact_checkpointed:
  assumes "ga_targetPath a \<noteq> []"
  shows "artifactFromJob (checkpointSet a now j) = Inr (a \<lparr>ga_expectedTargetEtag := None\<rparr>)"
proof -
  have "JSON_parse (stringify (JArr (map JStr (ga_contextPaths a)))) = Some (JArr (map JStr (ga_contextPaths a)))"
    by (rule JSON_parse_stringify) (simp add: list_all_iff)
  with assms show ?thesis
    by (cases a) (simp add: artifactFromJob_def checkpointSet_def del: stringify.simps)
qed

lemma artifactFromJob_cong:
  "j_generated_target_path j' = j_generated_target_path j \<Longrightarrow> j_generated_content j' = j_generated_content j \<Longrightarrow>
   j_generated_context_paths j' = j_generated_context_paths j \<Longrightarrow> j_llm_duration_ms j' = j_llm_duration_ms j \<Longrightarrow>
   j_generated_target_observed j' = j_generated_target_observed j \<Longrightarrow> j_generated_target_etag j' = j_generated_target_etag j \<Longrightarrow>
   artifactFromJob j' = artifactFromJob j"
  unfolding artifactFromJob_def by (simp only:)

lemma artifact_claimed [simp]: "artifactFromJob (claimSet owner now j) = artifactFromJob j"
  and artifact_released [simp]: "artifactFromJob (releaseSet e now j) = artifactFromJob j"
  by (rule artifactFromJob_cong; simp add: claimSet_def releaseSet_def)+

lemma artifact_observed:
  "artifactFromJob (j \<lparr>j_generated_target_etag := etag, j_generated_target_observed := n\<rparr>) =
     map_sum id (\<lambda>a. a \<lparr>ga_expectedTargetEtag := (if n = 1 then Some etag else None)\<rparr>) (artifactFromJob j)"
  by (simp add: artifactFromJob_def split: option.split)

lemma artifact_targeted:
  "artifactFromJob (targetSet etag now j) = map_sum id (\<lambda>a. a \<lparr>ga_expectedTargetEtag := Some etag\<rparr>) (artifactFromJob j)"
proof -
  have "artifactFromJob (targetSet etag now j) =
      artifactFromJob (j \<lparr>j_generated_target_etag := etag, j_generated_target_observed := 1\<rparr>)"
    by (rule artifactFromJob_cong) (simp_all add: targetSet_def)
  then show ?thesis by (simp add: artifact_observed)
qed

lemma jobOk_updates:
  "jobOk j \<Longrightarrow> claimWhere m now j \<Longrightarrow> jobOk (claimSet owner now j)"
  "jobOk j \<Longrightarrow> heldWhere m owner {Processing} j \<Longrightarrow> ga_targetPath a \<noteq> [] \<Longrightarrow> jobOk (checkpointSet a now j)"
  "jobOk j \<Longrightarrow> heldWhere m owner {Generated} j \<Longrightarrow> jobOk (targetSet etag now j)"
  "jobOk j \<Longrightarrow> p \<noteq> [] \<Longrightarrow> jobOk (completeSet p now j)"
  "jobOk j \<Longrightarrow> heldWhere m owner {Processing, Generated} j \<Longrightarrow> jobOk (releaseSet e now j)"
  "jobOk (failSet e now j)" "jobOk (requeueSet m now j)" "jobOk (queuedJob m now)"
proof -
  show "jobOk (claimSet owner now j)" if "jobOk j" "claimWhere m now j"
    using that artifact_claimed [of owner now j]
    by (cases "j_status j") (auto simp: jobOk_def claimWhere_def noArtifact_def claimSet_def)
  show "jobOk (checkpointSet a now j)" if "jobOk j" "heldWhere m owner {Processing} j" "ga_targetPath a \<noteq> []"
    using that artifact_checkpointed [OF that(3), of now j]
    by (auto simp: jobOk_def heldWhere_def checkpointSet_def)
  show "jobOk (targetSet etag now j)" if "jobOk j" "heldWhere m owner {Generated} j"
    using that artifact_targeted [of etag now j]
    by (auto simp: jobOk_def heldWhere_def targetSet_def)
  show "jobOk (releaseSet e now j)" if "jobOk j" "heldWhere m owner {Processing, Generated} j"
    using that artifact_released [of e now j]
    by (auto simp: jobOk_def heldWhere_def releaseSet_def noArtifact_def noLease_def)
qed (simp_all add: jobOk_def completeSet_def failSet_def requeueSet_def queuedJob_def clearArtifact_def noArtifact_def noLease_def)

lemma jobsOk_update:
  assumes "jobsOk t" and "row_update jobKey f" and "\<And>j. jobOk j \<Longrightarrow> P j \<Longrightarrow> jobOk (f j)"
  shows "jobsOk (snd (updateReturning P f t))"
proof -
  have "keyed jobKey (snd (updateReturning P f t))"
    using assms(1,2) by (simp add: jobsOk_def updateReturning_def row_update.keyed_update)
  with assms(1,3) show ?thesis by (auto simp: jobsOk_def updateReturning_def updateWhere_def)
qed

lemma jobKey_queued [simp]: "jobKey (queuedJob m now) = messageKey m"
  by (simp add: jobKey_def messageKey_def queuedJob_def)

lemma jobsOk_upsert: "jobsOk t \<Longrightarrow> jobsOk (snd (upsertQueuedStmt m now t))"
  by (auto simp: upsertQueuedStmt_def jobOk_updates intro!: jobsOk_update job_rows)
    (auto simp: jobsOk_def jobOk_updates hasKey_iff intro!: keyed_append_one)

end
