(* ===== verification/Generator_Leases.thy ===== *)
theory Generator_Leases
  imports Generator_Jobs
begin

section \<open>Generator worker: leases and checkpoints under concurrency\<close>

text \<open>
  The statements of \<^verbatim>\<open>jobs.ts\<close> as steps of a transition system over the job table, with three contracts:
  every step keeps the invariant, a lease keeps the row from everyone else until it expires, and a
  checkpoint is kept until its version of the source fails or is superseded.
\<close>

inductive jobStep :: "jobs \<Rightarrow> jobs \<Rightarrow> bool" where
  idle: "jobStep t t"
| enqueued: "jobStep t (snd (upsertQueuedStmt m now t))"
| claimed: "jobStep t (snd (claimStmt m owner now t))"
| checkpointed: "ga_targetPath a \<noteq> [] \<Longrightarrow> jobStep t (snd (checkpointStmt m owner a now t))"
| targeted: "jobStep t (snd (targetStmt m owner etag now t))"
| completed: "p \<noteq> [] \<Longrightarrow> jobStep t (snd (completeStmt m owner p now t))"
| released: "jobStep t (snd (releaseStmt m owner e now t))"
| failed: "jobStep t (snd (failStmt m owner e now t))"

lemma jobsOk_step: "jobStep t u \<Longrightarrow> jobsOk t \<Longrightarrow> jobsOk u"
  by (induction rule: jobStep.induct)
    (auto simp: claimStmt_def checkpointStmt_def targetStmt_def completeStmt_def releaseStmt_def failStmt_def
      jobsOk_upsert jobOk_updates intro!: jobsOk_update job_rows)

interpretation job_table: guarded_system jobStep jobsOk "\<lambda>_ _. True"
  by unfold_locales (auto intro: jobsOk_step)

subsection \<open>A lease\<close>

text \<open>What others do while \<open>owner\<close> holds the job of a message until \<open>until\<close>, as long as the source keeps its version.\<close>

inductive otherStep :: "SourceQueueMessage \<Rightarrow> string \<Rightarrow> nat \<Rightarrow> jobs \<Rightarrow> jobs \<Rightarrow> bool" for m owner until where
  idle: "otherStep m owner until t t"
| enqueued: "(messageKey m' = messageKey m \<Longrightarrow> sm_sourceEtag m' = sm_sourceEtag m) \<Longrightarrow>
    otherStep m owner until t (snd (upsertQueuedStmt m' now t))"
| claimed: "now < until \<Longrightarrow> otherStep m owner until t (snd (claimStmt m' other now t))"
| checkpointed: "other \<noteq> owner \<Longrightarrow> ga_targetPath a \<noteq> [] \<Longrightarrow> otherStep m owner until t (snd (checkpointStmt m' other a now t))"
| targeted: "other \<noteq> owner \<Longrightarrow> otherStep m owner until t (snd (targetStmt m' other etag now t))"
| completed: "other \<noteq> owner \<Longrightarrow> p \<noteq> [] \<Longrightarrow> otherStep m owner until t (snd (completeStmt m' other p now t))"
| released: "other \<noteq> owner \<Longrightarrow> otherStep m owner until t (snd (releaseStmt m' other e now t))"
| failed: "other \<noteq> owner \<Longrightarrow> otherStep m owner until t (snd (failStmt m' other e now t))"

definition holds :: "SourceQueueMessage \<Rightarrow> string \<Rightarrow> nat \<Rightarrow> SourceJob \<Rightarrow> bool" where
  "holds m owner until j \<longleftrightarrow> sameVersion m j \<and> j_status j \<in> {Processing, Generated} \<and>
     j_lease_owner j = Some owner \<and> j_lease_expires_at j = Some until"

definition leaseKept :: "SourceQueueMessage \<Rightarrow> string \<Rightarrow> nat \<Rightarrow> jobs \<Rightarrow> jobs \<Rightarrow> bool" where
  "leaseKept m owner until t u \<longleftrightarrow>
     (\<forall>j. byKey jobKey (messageKey m) t = Some j \<and> holds m owner until j \<longrightarrow> byKey jobKey (messageKey m) u = Some j)"

lemma leaseKept_update:
  assumes "row_update jobKey f" and "\<And>j. P j \<Longrightarrow> \<not> holds m owner until j"
  shows "leaseKept m owner until t (snd (updateReturning P f t))"
  using assms by (auto simp: leaseKept_def byKey_updateReturning)

lemma leaseKept_upsert:
  assumes "messageKey m' = messageKey m \<Longrightarrow> sm_sourceEtag m' = sm_sourceEtag m"
  shows "leaseKept m owner until t (snd (upsertQueuedStmt m' now t))"
proof (cases "hasKey jobKey (messageKey m') t")
  case True
  have "\<not> (jobKey j = messageKey m \<and> holds m owner until j)" if "requeueWhere m' j" for j
    using that assms by (auto simp: requeueWhere_def holds_def sameVersion_def)
  then have "\<not> holds m owner until j" if "requeueWhere m' j" for j
    using that by (auto simp: holds_def sameVersion_def jobKey_def messageKey_def)
  with True show ?thesis by (simp add: upsertQueuedStmt_def leaseKept_update job_rows)
next
  case False
  then show ?thesis by (auto simp: upsertQueuedStmt_def leaseKept_def byKey_append_one)
qed

lemma leaseKept_step: "otherStep m owner until t u \<Longrightarrow> leaseKept m owner until t u"
proof (induction rule: otherStep.induct)
  case (claimed now t m' other)
  then show ?case unfolding claimStmt_def
    by (intro leaseKept_update job_rows) (auto simp: claimWhere_def holds_def)
qed (auto simp: leaseKept_upsert checkpointStmt_def targetStmt_def completeStmt_def releaseStmt_def failStmt_def
    intro!: leaseKept_update job_rows, auto simp: leaseKept_def heldWhere_def holds_def)

lemma otherStep_jobStep: "otherStep m owner until t u \<Longrightarrow> jobStep t u"
  by (induction rule: otherStep.induct) (auto intro: jobStep.intros)

interpretation job_lease: guarded_system "otherStep m owner until" jobsOk "leaseKept m owner until" for m owner until
proof
  show "jobsOk s \<Longrightarrow> otherStep m owner until s t \<Longrightarrow> jobsOk t" for s t by (rule jobsOk_step [OF otherStep_jobStep])
  show "otherStep m owner until s t \<Longrightarrow> leaseKept m owner until s t" for s t by (rule leaseKept_step)
qed (simp_all add: leaseKept_def)

subsection \<open>A checkpoint\<close>

text \<open>Steps during which the source keeps its version and its job is not marked as failed.\<close>

inductive calmStep :: "SourceQueueMessage \<Rightarrow> jobs \<Rightarrow> jobs \<Rightarrow> bool" for m where
  idle: "calmStep m t t"
| enqueued: "(messageKey m' = messageKey m \<Longrightarrow> sm_sourceEtag m' = sm_sourceEtag m) \<Longrightarrow>
    calmStep m t (snd (upsertQueuedStmt m' now t))"
| claimed: "calmStep m t (snd (claimStmt m' owner now t))"
| checkpointed: "ga_targetPath a \<noteq> [] \<Longrightarrow> calmStep m t (snd (checkpointStmt m' owner a now t))"
| targeted: "calmStep m t (snd (targetStmt m' owner etag now t))"
| completed: "p \<noteq> [] \<Longrightarrow> calmStep m t (snd (completeStmt m' owner p now t))"
| released: "calmStep m t (snd (releaseStmt m' owner e now t))"
| failed: "messageKey m' \<noteq> messageKey m \<or> sm_sourceEtag m' \<noteq> sm_sourceEtag m \<Longrightarrow>
    calmStep m t (snd (failStmt m' owner e now t))"

text \<open>\<open>paid j\<close>: the page of this version has been generated.\<close>

definition paid :: "SourceJob \<Rightarrow> bool" where
  "paid j \<longleftrightarrow> j_status j \<in> {Generated, Completed}"

definition keepsPaid :: "SourceJob \<Rightarrow> SourceJob \<Rightarrow> bool" where
  "keepsPaid j j' \<longleftrightarrow>
     jobKey j' = jobKey j \<and> j_source_etag j' = j_source_etag j \<and> paid j' \<and>
     (j_status j' = Generated \<longrightarrow> j_status j = Generated \<and>
        j_generated_target_path j' = j_generated_target_path j \<and> j_generated_content j' = j_generated_content j \<and>
        j_generated_context_paths j' = j_generated_context_paths j \<and> j_llm_duration_ms j' = j_llm_duration_ms j) \<and>
     (j_status j = Completed \<longrightarrow> j_target_path j' = j_target_path j)"

definition paidKept :: "SourceQueueMessage \<Rightarrow> jobs \<Rightarrow> jobs \<Rightarrow> bool" where
  "paidKept m t u \<longleftrightarrow>
     (\<forall>j. byKey jobKey (messageKey m) t = Some j \<and> j_source_etag j = sm_sourceEtag m \<and> paid j \<longrightarrow>
        (\<exists>j'. byKey jobKey (messageKey m) u = Some j' \<and> keepsPaid j j'))"

lemma keepsPaid_refl: "paid j \<Longrightarrow> keepsPaid j j"
  by (simp add: keepsPaid_def)

lemma keepsPaid_trans: "keepsPaid a b \<Longrightarrow> keepsPaid b c \<Longrightarrow> keepsPaid a c"
  by (auto simp: keepsPaid_def paid_def)

lemma paidKept_update:
  assumes "row_update jobKey f"
    and "\<And>j. jobKey j = messageKey m \<Longrightarrow> j_source_etag j = sm_sourceEtag m \<Longrightarrow> paid j \<Longrightarrow> P j \<Longrightarrow> keepsPaid j (f j)"
  shows "paidKept m t (snd (updateReturning P f t))"
  unfolding paidKept_def
proof (intro allI impI)
  fix j assume j: "byKey jobKey (messageKey m) t = Some j \<and> j_source_etag j = sm_sourceEtag m \<and> paid j"
  then have "jobKey j = messageKey m" using byKey_Some_D by metis
  with j assms show "\<exists>j'. byKey jobKey (messageKey m) (snd (updateReturning P f t)) = Some j' \<and> keepsPaid j j'"
    by (auto simp: byKey_updateReturning keepsPaid_refl)
qed

lemma paidKept_upsert:
  assumes "messageKey m' = messageKey m \<Longrightarrow> sm_sourceEtag m' = sm_sourceEtag m"
  shows "paidKept m t (snd (upsertQueuedStmt m' now t))"
proof (cases "hasKey jobKey (messageKey m') t")
  case True
  have "paidKept m t (snd (updateReturning (requeueWhere m') (requeueSet m' now) t))"
    by (rule paidKept_update [OF requeue_row.row_update_axioms]) (use assms in \<open>auto simp: requeueWhere_def paid_def\<close>)
  with True show ?thesis by (simp add: upsertQueuedStmt_def)
next
  case False
  then show ?thesis by (auto simp: upsertQueuedStmt_def paidKept_def byKey_append_one keepsPaid_refl)
qed

lemma paidKept_step: "calmStep m t u \<Longrightarrow> paidKept m t u"
proof (induction rule: calmStep.induct)
  case (idle t)
  then show ?case by (auto simp: paidKept_def keepsPaid_refl)
next
  case (enqueued m' t now)
  then show ?case by (rule paidKept_upsert)
next
  case (claimed t m' owner now)
  show ?case unfolding claimStmt_def
    by (rule paidKept_update [OF claim_row.row_update_axioms])
      (auto simp: claimWhere_def keepsPaid_def paid_def claimSet_def jobKey_def)
next
  case (checkpointed a t m' owner now)
  show ?case unfolding checkpointStmt_def
    by (rule paidKept_update [OF checkpoint_row.row_update_axioms]) (auto simp: heldWhere_def paid_def)
next
  case (targeted t m' owner etag now)
  show ?case unfolding targetStmt_def
    by (rule paidKept_update [OF target_row.row_update_axioms])
      (auto simp: heldWhere_def keepsPaid_def paid_def targetSet_def jobKey_def)
next
  case (completed p t m' owner now)
  show ?case unfolding completeStmt_def
    by (rule paidKept_update [OF complete_row.row_update_axioms])
      (auto simp: heldWhere_def keepsPaid_def paid_def completeSet_def clearArtifact_def jobKey_def)
next
  case (released t m' owner e now)
  show ?case unfolding releaseStmt_def
    by (rule paidKept_update [OF release_row.row_update_axioms])
      (auto simp: heldWhere_def keepsPaid_def paid_def releaseSet_def jobKey_def)
next
  case (failed m' t owner e now)
  then show ?case unfolding failStmt_def
    by (intro paidKept_update [OF fail_row.row_update_axioms])
      (auto simp: heldWhere_def sameVersion_def jobKey_def messageKey_def)
qed

lemma calmStep_jobStep: "calmStep m t u \<Longrightarrow> jobStep t u"
  by (induction rule: calmStep.induct) (auto intro: jobStep.intros)

lemma paidKept_refl: "paidKept m t t"
  by (auto simp: paidKept_def keepsPaid_refl)

lemma paidKept_trans: "paidKept m t u \<Longrightarrow> paidKept m u v \<Longrightarrow> paidKept m t v"
  unfolding paidKept_def
proof (intro allI impI)
  fix j
  assume tu: "\<forall>j. byKey jobKey (messageKey m) t = Some j \<and> j_source_etag j = sm_sourceEtag m \<and> paid j \<longrightarrow>
      (\<exists>j'. byKey jobKey (messageKey m) u = Some j' \<and> keepsPaid j j')"
    and uv: "\<forall>j. byKey jobKey (messageKey m) u = Some j \<and> j_source_etag j = sm_sourceEtag m \<and> paid j \<longrightarrow>
      (\<exists>j'. byKey jobKey (messageKey m) v = Some j' \<and> keepsPaid j j')"
    and j: "byKey jobKey (messageKey m) t = Some j \<and> j_source_etag j = sm_sourceEtag m \<and> paid j"
  from tu j obtain j1 where j1: "byKey jobKey (messageKey m) u = Some j1" "keepsPaid j j1" by blast
  with j have "j_source_etag j1 = sm_sourceEtag m" "paid j1" by (simp_all add: keepsPaid_def)
  with uv j1 obtain j2 where "byKey jobKey (messageKey m) v = Some j2" "keepsPaid j1 j2" by blast
  with j1(2) show "\<exists>j'. byKey jobKey (messageKey m) v = Some j' \<and> keepsPaid j j'" by (blast intro: keepsPaid_trans)
qed

interpretation job_checkpoint: guarded_system "calmStep m" jobsOk "paidKept m" for m
proof
  show "jobsOk s \<Longrightarrow> calmStep m s t \<Longrightarrow> jobsOk t" for s t by (rule jobsOk_step [OF calmStep_jobStep])
  show "calmStep m s t \<Longrightarrow> paidKept m s t" for s t by (rule paidKept_step)
qed (auto intro: paidKept_refl paidKept_trans)

subsection \<open>Claims\<close>

lemma claimWhere_key: "claimWhere m now j \<Longrightarrow> jobKey j = messageKey m"
  by (simp add: claimWhere_def sameVersion_def jobKey_def messageKey_def)

lemma heldWhere_key: "heldWhere m owner S j \<Longrightarrow> jobKey j = messageKey m"
  by (simp add: heldWhere_def sameVersion_def jobKey_def messageKey_def)

lemma claimStmt_result:
  assumes "jobsOk t"
  shows "fst (claimStmt m owner now t) =
    (case byKey jobKey (messageKey m) t of None \<Rightarrow> None | Some j \<Rightarrow> if claimWhere m now j then Some (claimSet owner now j) else None)"
  unfolding claimStmt_def
  by (rule updateReturning_keyed) (use assms in \<open>auto simp: jobsOk_def claimWhere_key\<close>)

lemma claimStmt_row:
  "byKey jobKey k (snd (claimStmt m owner now t)) =
     map_option (\<lambda>j. if claimWhere m now j then claimSet owner now j else j) (byKey jobKey k t)"
  unfolding claimStmt_def by (rule byKey_updateReturning [OF claim_row.row_update_axioms])

text \<open>An update that matches no row changes nothing.\<close>

lemma updateReturning_none:
  assumes "keyed jobKey t" and "\<And>j. P j \<Longrightarrow> jobKey j = k"
    and "\<And>j. byKey jobKey k t = Some j \<Longrightarrow> \<not> P j"
  shows "updateReturning P f t = (None, t)"
proof -
  have "\<not> P j" if "j \<in> set t" for j
  proof
    assume "P j"
    with assms(1,2) that have "byKey jobKey k t = Some j" using byKey_keyed by metis
    with assms(3) \<open>P j\<close> show False by blast
  qed
  then show ?thesis
    by (simp add: updateReturning_def updateWhere_id find_None_iff)
qed

definition sampleSource :: SourceQueueMessage where
  "sampleSource = \<lparr>sm_targetRoot = None, sm_databaseId = ''db'', sm_sourcePath = ''/Sources/a.md'', sm_sourceEtag = ''e1'',
     sm_requestPath = None, sm_sessionNonce = None, sm_outputLanguage = None\<rparr>"

definition samplePage :: GeneratedArtifact where
  "samplePage = \<lparr>ga_targetPath = ''/Knowledge/a.md'', ga_expectedTargetEtag = None, ga_content = ''page'',
     ga_contextPaths = [''/Knowledge/b.md''], ga_llmDurationMs = 7\<rparr>"

definition sampleJobs :: jobs where
  "sampleJobs = [queuedJob sampleSource 0]"

lemma sampleJobs_ok: "jobsOk sampleJobs"
  by (simp add: sampleJobs_def jobsOk_def jobOk_updates keyed_def)

lemma sampleJobs_claim:
  "claimStmt sampleSource ''A'' 0 sampleJobs =
     (Some (claimSet ''A'' 0 (queuedJob sampleSource 0)), [claimSet ''A'' 0 (queuedJob sampleSource 0)])"
  by (simp add: claimStmt_def updateReturning_def updateWhere_def sampleJobs_def claimWhere_def sameVersion_def queuedJob_def)

text \<open>
  A claimed job is exclusive. While the lease of a claim runs, and the source keeps its version, no
  step of another execution changes the job, a further claim (also of a redelivery of the same message)
  changes nothing and returns no job, and the statements of the holder still find it.
\<close>

theorem job_lease_excludes:
  assumes ok: "jobsOk t" and claim: "claimStmt m owner now t = (Some j, t1)"
    and others: "(otherStep m owner (now + LEASE_MS))\<^sup>*\<^sup>* t1 t2"
    and later: "now' < now + LEASE_MS"
  shows "byKey jobKey (messageKey m) t2 = Some j \<and> holds m owner (now + LEASE_MS) j \<and>
    claimStmt m other now' t2 = (None, t2) \<and>
    (j_status j = Processing \<longrightarrow> fst (checkpointStmt m owner a now' t2) = Some (checkpointSet a now' j))"
proof -
  let ?until = "now + LEASE_MS"
  from claim claimStmt_result [OF ok, of m owner now] obtain j0 where
    j0: "byKey jobKey (messageKey m) t = Some j0" "claimWhere m now j0" "j = claimSet owner now j0"
    by (auto split: option.splits if_splits)
  have t1: "t1 = snd (claimStmt m owner now t)" using claim by simp
  have row: "byKey jobKey (messageKey m) t1 = Some j" by (simp add: t1 claimStmt_row j0)
  have held: "holds m owner ?until j"
    using j0(2) by (auto simp: j0(3) holds_def claimWhere_def sameVersion_def claimSet_def)
  have "jobsOk t1" using ok t1 by (auto intro: jobsOk_step jobStep.claimed)
  with others have ok2: "jobsOk t2" and kept: "leaseKept m owner ?until t1 t2"
    by (auto intro: job_lease.inv_run job_lease.adv_run)
  have row2: "byKey jobKey (messageKey m) t2 = Some j" using kept row held by (simp add: leaseKept_def)
  have "claimStmt m other now' t2 = (None, t2)"
    unfolding claimStmt_def
    by (rule updateReturning_none) (use ok2 row2 held later in \<open>auto simp: jobsOk_def claimWhere_key, auto simp: claimWhere_def holds_def\<close>)
  moreover have "fst (checkpointStmt m owner a now' t2) = Some (checkpointSet a now' j)" if "j_status j = Processing"
  proof -
    have "heldWhere m owner {Processing} j" using held that by (simp add: heldWhere_def holds_def)
    then show ?thesis
      unfolding checkpointStmt_def
      using updateReturning_keyed [of t2 "heldWhere m owner {Processing}" "messageKey m"] ok2 row2
      by (simp add: jobsOk_def heldWhere_key)
  qed
  ultimately show ?thesis using row2 held by blast
qed

lemma job_lease_excludes_witness:
  "\<exists>j t1. claimStmt sampleSource ''A'' 0 sampleJobs = (Some j, t1) \<and> claimStmt sampleSource ''B'' 1000 t1 = (None, t1) \<and>
     byKey jobKey (messageKey sampleSource) t1 = Some j"
  using job_lease_excludes [OF sampleJobs_ok sampleJobs_claim rtranclp.rtrancl_refl, of 1000 "''B''" samplePage] sampleJobs_claim
  by (simp add: LEASE_MS_def)

lemma claimed_row_cases:
  assumes "jobsOk t" and "fst (claimStmt m owner now t) = Some j"
  obtains j0 where "byKey jobKey (messageKey m) t = Some j0" and "claimWhere m now j0" and "j = claimSet owner now j0"
  using assms(2) claimStmt_result [OF assms(1), of m owner now] by (auto split: option.splits if_splits)

text \<open>
  A generation is bought once. After a page has been checkpointed, and until its version of the
  source fails or is superseded, no claim of that version asks for another generation: a claim that gets
  the job resumes it with exactly the checkpointed page, its context paths and its duration.
\<close>

theorem checkpoint_resumed:
  assumes ok: "jobsOk t" and path: "ga_targetPath a \<noteq> []"
    and checkpoint: "checkpointStmt m owner a now t = (Some j, t1)"
    and calm: "(calmStep m)\<^sup>*\<^sup>* t1 t2"
    and claim: "claimStmt m other now' t2 = (Some j', t3)"
  shows "j_status j' = Generated \<and>
    (\<exists>etag. artifactFromJob j' = Inr (a \<lparr>ga_expectedTargetEtag := etag\<rparr>))"
proof -
  have t1: "t1 = snd (checkpointStmt m owner a now t)" using checkpoint by simp
  from checkpoint obtain j0 where "byKey jobKey (messageKey m) t = Some j0" "heldWhere m owner {Processing} j0"
    and j: "j = checkpointSet a now j0"
    using updateReturning_keyed [of t "heldWhere m owner {Processing}" "messageKey m" "checkpointSet a now"] ok
    unfolding checkpointStmt_def by (auto simp: jobsOk_def heldWhere_key split: option.splits if_splits)
  then have row: "byKey jobKey (messageKey m) t1 = Some j" and etag: "j_source_etag j = sm_sourceEtag m"
    by (simp_all add: t1 checkpointStmt_def byKey_updateReturning checkpoint_row.row_update_axioms)
      (simp add: heldWhere_def sameVersion_def checkpointSet_def)
  have paid: "paid j" by (simp add: j paid_def checkpointSet_def)
  have ok1: "jobsOk t1" using ok path t1 by (auto intro: jobsOk_step jobStep.checkpointed)
  then have "paidKept m t1 t2" and ok2: "jobsOk t2" using calm by (auto intro: job_checkpoint.inv_run job_checkpoint.adv_run)
  then obtain j2 where j2: "byKey jobKey (messageKey m) t2 = Some j2" "keepsPaid j j2"
    using row etag paid by (auto simp: paidKept_def)
  from claim obtain "claimWhere m now' j2" and j': "j' = claimSet other now' j2"
    using claimed_row_cases [OF ok2, of m other now' j'] j2(1) by auto
  then have gen: "j_status j2 = Generated" using j2(2) by (auto simp: claimWhere_def keepsPaid_def paid_def)
  have "artifactFromJob j2 = artifactFromJob (j \<lparr>j_generated_target_etag := j_generated_target_etag j2,
      j_generated_target_observed := j_generated_target_observed j2\<rparr>)"
    by (rule artifactFromJob_cong) (use j2(2) gen in \<open>simp_all add: keepsPaid_def\<close>)
  then have "\<exists>etag. artifactFromJob j2 = Inr (a \<lparr>ga_expectedTargetEtag := etag\<rparr>)"
    using artifact_checkpointed [OF path, of now j0] by (auto simp: artifact_observed j)
  then show ?thesis using gen j' artifact_claimed [of other now' j2] by (simp add: claimSet_def)
qed

lemma sampleJobs_checkpoint:
  "checkpointStmt sampleSource ''A'' samplePage 1 [claimSet ''A'' 0 (queuedJob sampleSource 0)] =
     (Some (checkpointSet samplePage 1 (claimSet ''A'' 0 (queuedJob sampleSource 0))),
      [checkpointSet samplePage 1 (claimSet ''A'' 0 (queuedJob sampleSource 0))])"
  by (simp add: checkpointStmt_def updateReturning_def updateWhere_def heldWhere_def sameVersion_def claimSet_def queuedJob_def)

lemma checkpoint_resumed_witness:
  "\<exists>j t1 j2 t2. checkpointStmt sampleSource ''A'' samplePage 1 (snd (claimStmt sampleSource ''A'' 0 sampleJobs)) = (Some j, t1) \<and>
     claimStmt sampleSource ''B'' (2 * LEASE_MS) t1 = (Some j2, t2) \<and> j_status j2 = Generated"
proof -
  let ?j = "checkpointSet samplePage 1 (claimSet ''A'' 0 (queuedJob sampleSource 0))"
  have ok: "jobsOk [claimSet ''A'' 0 (queuedJob sampleSource 0)]"
    using jobsOk_step [OF jobStep.claimed sampleJobs_ok, of sampleSource "''A''" 0] sampleJobs_claim by simp
  have path: "ga_targetPath samplePage \<noteq> []" by (simp add: samplePage_def)
  have claim: "claimStmt sampleSource ''B'' (2 * LEASE_MS) [?j] =
      (Some (claimSet ''B'' (2 * LEASE_MS) ?j), [claimSet ''B'' (2 * LEASE_MS) ?j])"
    by (simp add: claimStmt_def updateReturning_def updateWhere_def claimWhere_def sameVersion_def checkpointSet_def)
      (simp add: claimSet_def queuedJob_def)
  from checkpoint_resumed [OF ok path sampleJobs_checkpoint rtranclp.rtrancl_refl claim] sampleJobs_claim sampleJobs_checkpoint claim
  show ?thesis by auto
qed

end
