(* ===== verification/Generator_Draft.thy ===== *)
theory Generator_Draft
  imports Generator_Jobs Js_Bytes
begin

section \<open>Generator worker: drafts and rendered pages\<close>

text \<open>
  \<^verbatim>\<open>workers/wiki-generator/src/openai.ts\<close>, \<^verbatim>\<open>wiki-skill.ts\<close> and \<^verbatim>\<open>render.ts\<close>: the completion request, the
  validation of the model's JSON, the page rendered from it and the file name derived from the slug the
  model chose. On the strings of the model (code units below 256) Unicode normalization is the identity
  and no directional mark occurs.
\<close>

subsection \<open>Drafts\<close>

record WikiDraftItem =
  di_text :: string
  di_source_path :: string

record WikiDraftLabels =
  dl_summary :: string
  dl_key_facts :: string
  dl_decisions :: string
  dl_open_questions :: string
  dl_follow_ups :: string
  dl_related_context :: string
  dl_provenance :: string
  dl_none :: string

record WikiDraft =
  wd_title :: string
  wd_slug :: string
  wd_labels :: WikiDraftLabels
  wd_summary :: string
  wd_key_facts :: "WikiDraftItem list"
  wd_decisions :: "WikiDraftItem list"
  wd_open_questions :: "WikiDraftItem list"
  wd_follow_ups :: "WikiDraftItem list"

definition draftError :: "string \<Rightarrow> string \<Rightarrow> gen_error" where
  "draftError sourcePath reason =
     DraftValidationError (''generated knowledge page does not match schema: '' @ sourcePath @ '' '' @ reason)"

text \<open>\<open>isObject\<close> lets objects and arrays pass; a named property of an array is \<open>undefined\<close>.\<close>

definition isObjectValue :: "json \<Rightarrow> bool" where
  "isObjectValue v = (case v of JObj ps \<Rightarrow> True | JArr vs \<Rightarrow> True | _ \<Rightarrow> False)"

definition isNullish :: "json option \<Rightarrow> bool" where
  "isNullish v \<longleftrightarrow> v = None \<or> v = Some JNull"

definition requiredString :: "json \<Rightarrow> string \<Rightarrow> string \<Rightarrow> string \<Rightarrow> gen_error + string" where
  "requiredString v key label sourcePath =
     (case jfield v key of Some (JStr s) \<Rightarrow> Inr s | _ \<Rightarrow> Inl (draftError sourcePath (label @ '' must be a string'')))"

definition requiredLabel :: "json \<Rightarrow> string \<Rightarrow> string \<Rightarrow> gen_error + string" where
  "requiredLabel v key sourcePath =
     bindR (requiredString v key (''labels.'' @ key) sourcePath) (\<lambda>label.
       if length (trim label) = 0 then Inl (draftError sourcePath (''labels.'' @ key @ '' must be non-empty''))
       else if list_ex (\<lambda>c. charCode c = 13 \<or> charCode c = 10) label
       then Inl (draftError sourcePath (''labels.'' @ key @ '' must be a single line''))
       else Inr label)"

definition normalizeDraftItem :: "json \<Rightarrow> string \<Rightarrow> string \<Rightarrow> gen_error + WikiDraftItem" where
  "normalizeDraftItem v path sourcePath =
     (if \<not> isObjectValue v then Inl (draftError sourcePath (path @ '' must be an object''))
      else
        bindR (requiredString v ''text'' (path @ ''.text'') sourcePath) (\<lambda>text.
        bindR (requiredString v ''source_path'' (path @ ''.source_path'') sourcePath) (\<lambda>itemPath.
          Inr \<lparr>di_text = text, di_source_path = itemPath\<rparr>)))"

definition normalizeDraftSection :: "json option \<Rightarrow> string \<Rightarrow> string \<Rightarrow> gen_error + WikiDraftItem list" where
  "normalizeDraftSection v key sourcePath =
     (if isNullish v then Inr []
      else
        case v of
          Some (JArr vs) \<Rightarrow>
            mapR (\<lambda>(index, item). normalizeDraftItem item (key @ ''['' @ natToDec index @ '']'') sourcePath)
              (zip [0..<length vs] vs)
        | _ \<Rightarrow> Inl (draftError sourcePath (key @ '' must be an array'')))"

definition normalizeDraftLabels :: "json option \<Rightarrow> string \<Rightarrow> gen_error + WikiDraftLabels" where
  "normalizeDraftLabels v sourcePath =
     (case v of
        None \<Rightarrow> Inl (draftError sourcePath ''labels must be an object'')
      | Some l \<Rightarrow>
          if \<not> isObjectValue l then Inl (draftError sourcePath ''labels must be an object'')
          else
            bindR (requiredLabel l ''summary'' sourcePath) (\<lambda>summary.
            bindR (requiredLabel l ''key_facts'' sourcePath) (\<lambda>key_facts.
            bindR (requiredLabel l ''decisions'' sourcePath) (\<lambda>decisions.
            bindR (requiredLabel l ''open_questions'' sourcePath) (\<lambda>open_questions.
            bindR (requiredLabel l ''follow_ups'' sourcePath) (\<lambda>follow_ups.
            bindR (requiredLabel l ''related_context'' sourcePath) (\<lambda>related_context.
            bindR (requiredLabel l ''provenance'' sourcePath) (\<lambda>provenance.
            bindR (requiredLabel l ''none'' sourcePath) (\<lambda>none.
              Inr \<lparr>dl_summary = summary, dl_key_facts = key_facts, dl_decisions = decisions,
                   dl_open_questions = open_questions, dl_follow_ups = follow_ups,
                   dl_related_context = related_context, dl_provenance = provenance, dl_none = none\<rparr>)))))))))"

definition normalizeDraftCandidate :: "json \<Rightarrow> string \<Rightarrow> gen_error + WikiDraft" where
  "normalizeDraftCandidate v sourcePath =
     (if \<not> isObjectValue v then Inl (draftError sourcePath ''top-level value must be an object'')
      else
        bindR (requiredString v ''title'' ''title'' sourcePath) (\<lambda>title.
        bindR (requiredString v ''slug'' ''slug'' sourcePath) (\<lambda>slug.
        bindR (requiredString v ''summary'' ''summary'' sourcePath) (\<lambda>summary.
        bindR (normalizeDraftLabels (jfield v ''labels'') sourcePath) (\<lambda>labels.
        bindR (normalizeDraftSection (jfield v ''key_facts'') ''key_facts'' sourcePath) (\<lambda>key_facts.
        bindR (normalizeDraftSection (jfield v ''decisions'') ''decisions'' sourcePath) (\<lambda>decisions.
        bindR (normalizeDraftSection (jfield v ''open_questions'') ''open_questions'' sourcePath) (\<lambda>open_questions.
        bindR (normalizeDraftSection (jfield v ''follow_ups'') ''follow_ups'' sourcePath) (\<lambda>follow_ups.
          Inr \<lparr>wd_title = title, wd_slug = slug, wd_labels = labels, wd_summary = summary, wd_key_facts = key_facts,
               wd_decisions = decisions, wd_open_questions = open_questions, wd_follow_ups = follow_ups\<rparr>)))))))))"

definition parseDraftText :: "string \<Rightarrow> string \<Rightarrow> gen_error + WikiDraft" where
  "parseDraftText text sourcePath =
     (case JSON_parse text of
        None \<Rightarrow> Inl (draftError sourcePath ''response is not valid JSON'')
      | Some v \<Rightarrow> normalizeDraftCandidate v sourcePath)"

fun validateSection :: "string \<Rightarrow> nat \<Rightarrow> WikiDraftItem list \<Rightarrow> gen_error + unit" where
  "validateSection sourcePath index [] = Inr ()"
| "validateSection sourcePath index (item # items) =
     (if di_source_path item \<noteq> sourcePath
      then Inl (draftError sourcePath (''item source_path mismatch at index '' @ natToDec index @ '': '' @ di_source_path item))
      else validateSection sourcePath (Suc index) items)"

definition validateDraftSources :: "WikiDraft \<Rightarrow> string \<Rightarrow> gen_error + unit" where
  "validateDraftSources draft sourcePath =
     bindR (mapR (validateSection sourcePath 0)
       [wd_key_facts draft, wd_decisions draft, wd_open_questions draft, wd_follow_ups draft]) (\<lambda>_. Inr ())"

subsection \<open>The completion service\<close>

definition isDeepSeekChoice :: "json \<Rightarrow> bool" where
  "isDeepSeekChoice v =
     (if \<not> isObjectValue v then False
      else
        case jfield v ''message'' of
          None \<Rightarrow> True
        | Some message \<Rightarrow>
            if \<not> isObjectValue message then False
            else (case jfield message ''content'' of None \<Rightarrow> True | Some JNull \<Rightarrow> True | Some (JStr s) \<Rightarrow> True | _ \<Rightarrow> False))"

definition isDeepSeekChatCompletion :: "json \<Rightarrow> bool" where
  "isDeepSeekChatCompletion v =
     (if \<not> isObjectValue v then False
      else (case jfield v ''choices'' of None \<Rightarrow> True | Some (JArr vs) \<Rightarrow> list_all isDeepSeekChoice vs | _ \<Rightarrow> False))"

definition choiceContent :: "json \<Rightarrow> string option" where
  "choiceContent choice =
     (case jfield choice ''message'' of
        None \<Rightarrow> None
      | Some message \<Rightarrow> (case jfield message ''content'' of Some (JStr s) \<Rightarrow> if s = [] then None else Some s | _ \<Rightarrow> None))"

definition extractDeepSeekResponseText :: "json \<Rightarrow> gen_error + string" where
  "extractDeepSeekResponseText body =
     (if \<not> isDeepSeekChatCompletion body then Inl (DeepSeekResponseError ''DeepSeek response shape is invalid'')
      else
        let choices = (case jfield body ''choices'' of Some (JArr vs) \<Rightarrow> vs | _ \<Rightarrow> []) in
        case List.map_filter choiceContent choices of
          [] \<Rightarrow> Inl (DeepSeekResponseError ''DeepSeek response did not include text'')
        | content # rest \<Rightarrow> Inr content)"

definition parseAndValidateDraftResponse :: "json \<Rightarrow> string \<Rightarrow> gen_error + WikiDraft" where
  "parseAndValidateDraftResponse body sourcePath =
     bindR (extractDeepSeekResponseText body) (\<lambda>text.
     bindR (parseDraftText text sourcePath) (\<lambda>draft.
     bindR (validateDraftSources draft sourcePath) (\<lambda>_. Inr draft)))"

text \<open>\<open>Date.parse\<close> is the argument \<open>dateParse\<close>; \<open>now\<close> is \<open>Date.now()\<close>.\<close>

definition retryAfterSeconds :: "(string \<Rightarrow> int option) \<Rightarrow> nat \<Rightarrow> string option \<Rightarrow> nat option" where
  "retryAfterSeconds dateParse now v =
     (case v of
        None \<Rightarrow> None
      | Some s \<Rightarrow>
          if s = [] then None
          else if list_all isDigit s then
            let seconds = decToNat s in
            if \<not> seconds \<le> MAX_SAFE \<or> seconds < 1 then None else Some (min seconds 300)
          else
            (case dateParse s of
               None \<Rightarrow> None
             | Some retryAtMs \<Rightarrow>
                 let seconds = - ((int now - retryAtMs) div 1000) in
                 if seconds < 1 then None else Some (nat (min seconds 300))))"

definition retryableStatus :: "nat \<Rightarrow> bool" where
  "retryableStatus st \<longleftrightarrow> st = 408 \<or> st = 409 \<or> st = 425 \<or> st = 429 \<or> st \<ge> 500"

definition deepSeekRequestFailureMessage :: "string \<Rightarrow> CompletionResponse \<Rightarrow> string" where
  "deepSeekRequestFailureMessage text response =
     (if text \<noteq> [] \<and> JSON_parse text = None
      then trim (''DeepSeek request failed: '' @ natToDec (cr_status response) @ '' '' @
             (if cr_statusText response = [] then ''non-JSON response'' else cr_statusText response))
      else trim (''DeepSeek request failed: '' @ natToDec (cr_status response) @ '' '' @ cr_statusText response))"

text \<open>
  The answer of one submission: \<open>Inl\<close> a failed request (\<open>Some\<close> the timeout), otherwise the response,
  whose body is \<open>None\<close> when it exceeds the reader's limit.
\<close>

definition readCompletion :: "(string \<Rightarrow> int option) \<Rightarrow> nat \<Rightarrow> string option + CompletionResponse \<Rightarrow> gen_error + json" where
  "readCompletion dateParse now answer =
     (case answer of
        Inl (Some _) \<Rightarrow> Inl (DeepSeekRequestError ''deepseek_timeout'' ''DeepSeek request timed out'' True None)
      | Inl None \<Rightarrow> Inl (DeepSeekRequestError ''deepseek_network'' ''DeepSeek request failed'' True None)
      | Inr response \<Rightarrow>
          (case cr_text response of
             None \<Rightarrow> Inl (DeepSeekRequestError ''deepseek_response_too_large'' ''DeepSeek response exceeded 256 KiB'' True None)
           | Some text \<Rightarrow>
               if \<not> (200 \<le> cr_status response \<and> cr_status response \<le> 299) then
                 let retryable = retryableStatus (cr_status response) in
                 Inl (DeepSeekRequestError (''deepseek_http_'' @ natToDec (cr_status response))
                   (deepSeekRequestFailureMessage text response) retryable
                   (if retryable then retryAfterSeconds dateParse now (cr_retryAfter response) else None))
               else
                 (case JSON_parse text of
                    None \<Rightarrow> Inl (DeepSeekResponseError ''DeepSeek response is not valid JSON'')
                  | Some v \<Rightarrow> Inr v)))"

definition previewText :: "SearchNodeHit \<Rightarrow> string" where
  "previewText hit =
     (case sh_previewExcerpt hit of Some p \<Rightarrow> p | None \<Rightarrow> (case sh_snippet hit of Some s \<Rightarrow> s | None \<Rightarrow> []))"

definition sourcePromptObject :: "WikiNode \<Rightarrow> SearchNodeHit list \<Rightarrow> WorkerConfig \<Rightarrow> json" where
  "sourcePromptObject source contextHits config = JObj [
     (''source_path'', JStr (nd_path source)),
     (''raw_content'', JStr (take (wc_maxRawChars config) (nd_content source))),
     (''context'', JArr (map (\<lambda>hit. JObj [(''path'', JStr (sh_path hit)), (''preview'', JStr (previewText hit))]) contextHits))]"

text \<open>The prompts of \<^verbatim>\<open>wiki-skill.ts\<close> and the schema the model is given.\<close>

abbreviation newline :: string where
  "newline \<equiv> [CHR 0x0A]"

definition WIKI_RULES :: "string list" where
  "WIKI_RULES = [
     ''Treat /Sources as evidence storage and /Knowledge as the review surface.'',
     ''Create one review-ready wiki page unless the source clearly requires a split.'',
     ''Do not paste raw page text or transcript dumps into wiki pages.'',
     ''Keep only claims directly supported by the source.'',
     ''Prefer omission over low-confidence pseudo-facts.'',
     ''Section labels must be non-empty single-line strings.'',
     ''Preserve exact values, names, dates, money, and spelling from the source when they matter.'',
     ''Use the schema sections only when supported.'',
     ''Every generated item must cite the provided source_path.'',
     ''Do not invent follow-ups or decisions.'',
     ''Keep the generated page concise enough for human review.'']"

definition buildWikiDraftSystemPrompt :: "OutputLanguage option \<Rightarrow> string" where
  "buildWikiDraftSystemPrompt outputLanguage =
     (let languageRule = (case outputLanguage of
            Some language \<Rightarrow> ''Write the title, slug, section labels, summary, and all generated prose in '' @
              outputLanguageName language @ ''.''
          | None \<Rightarrow> ''Write the title, slug, section labels, summary, and all generated prose in the source material'' @
              [CHR 0x27] @ ''s primary language.'')
      in joinWith newline ([
           ''You are using Kinic Wiki Core Skill v2.'',
           ''Generate one review-ready wiki page from evidence source material.'',
           languageRule] @ map (\<lambda>rule. ''- '' @ rule) WIKI_RULES))"

definition typedSchema :: "string \<Rightarrow> json" where
  "typedSchema t = JObj [(''type'', JStr t)]"

definition wikiDraftSchema :: json where
  "wikiDraftSchema =
     (let item = JObj [(''type'', JStr ''object''), (''additionalProperties'', JBool False),
            (''required'', JArr [JStr ''text'', JStr ''source_path'']),
            (''properties'', JObj [(''text'', typedSchema ''string''), (''source_path'', typedSchema ''string'')])];
          label = JObj [(''type'', JStr ''string''), (''minLength'', JNum ''1''),
            (''pattern'', JStr (''^(?!'' @ [CHR 0x5C] @ ''s*$)[^'' @ [CHR 0x5C] @ ''r'' @ [CHR 0x5C] @ ''n]+$''))];
          labelKeys = [''summary'', ''key_facts'', ''decisions'', ''open_questions'', ''follow_ups'', ''related_context'',
            ''provenance'', ''none''];
          labels = JObj [(''type'', JStr ''object''), (''additionalProperties'', JBool False),
            (''required'', JArr (map JStr labelKeys)),
            (''properties'', JObj (map (\<lambda>k. (k, label)) labelKeys))];
          section = JObj [(''type'', JStr ''array''), (''items'', item)]
      in JObj [(''type'', JStr ''object''), (''additionalProperties'', JBool False),
           (''required'', JArr (map JStr [''title'', ''slug'', ''labels'', ''summary'', ''key_facts'', ''decisions'',
              ''open_questions'', ''follow_ups''])),
           (''properties'', JObj [(''title'', typedSchema ''string''), (''slug'', typedSchema ''string''), (''labels'', labels),
              (''summary'', typedSchema ''string''), (''key_facts'', section), (''decisions'', section),
              (''open_questions'', section), (''follow_ups'', section)])])"

definition draftMessages :: "WikiNode \<Rightarrow> SearchNodeHit list \<Rightarrow> WorkerConfig \<Rightarrow> OutputLanguage option \<Rightarrow> json" where
  "draftMessages source contextHits config outputLanguage = JArr [
     JObj [(''role'', JStr ''system''),
           (''content'', JStr (buildWikiDraftSystemPrompt outputLanguage @ newline @
              ''Return only a JSON object that matches this schema: '' @ stringify wikiDraftSchema))],
     JObj [(''role'', JStr ''user''),
           (''content'', JStr (stringify (sourcePromptObject source contextHits config)))]]"

definition requestPayload :: "json \<Rightarrow> WorkerConfig \<Rightarrow> json" where
  "requestPayload messages config = JObj [
     (''model'', JStr (wc_model config)),
     (''max_tokens'', JNum (natToDec (wc_maxOutputTokens config))),
     (''thinking'', JObj [(''type'', JStr ''disabled'')]),
     (''response_format'', JObj [(''type'', JStr ''json_object'')]),
     (''messages'', messages)]"

definition requestDeepSeekDraft :: "GenHost \<Rightarrow> (string \<Rightarrow> int option) \<Rightarrow> json \<Rightarrow> WorkerConfig \<Rightarrow> json gen" where
  "requestDeepSeekDraft h dateParse messages config =
     (let payload = stringify (requestPayload messages config) in
      genEffect (EffCompletion payload) (\<lambda>k. readCompletion dateParse (gh_now h k) (gh_complete h k payload)))"

definition generateDraft ::
    "GenHost \<Rightarrow> (string \<Rightarrow> int option) \<Rightarrow> WikiNode \<Rightarrow> SearchNodeHit list \<Rightarrow> WorkerConfig \<Rightarrow> OutputLanguage option \<Rightarrow> WikiDraft gen" where
  "generateDraft h dateParse source contextHits config outputLanguage =
     bindA (requestDeepSeekDraft h dateParse (draftMessages source contextHits config outputLanguage) config) (\<lambda>body.
       liftR (parseAndValidateDraftResponse body (nd_path source)))"

subsection \<open>File names\<close>

function replaceRuns :: "(char \<Rightarrow> bool) \<Rightarrow> string \<Rightarrow> string" where
  "replaceRuns P [] = []"
| "replaceRuns P (c # s) = (if P c then CHR ''-'' # replaceRuns P (dropWhile P s) else c # replaceRuns P s)"
  by pat_completeness auto
termination by (relation "measure (\<lambda>(P, s). length s)") (auto simp: le_imp_less_Suc length_dropWhile_le)

definition stripDashes :: "string \<Rightarrow> string" where
  "stripDashes s = stripTrailing (CHR ''-'') (dropWhile (\<lambda>c. c = CHR ''-'') s)"

definition isSlugPunctuation :: "char \<Rightarrow> bool" where
  "isSlugPunctuation c \<longleftrightarrow>
     charCode c = 34 \<or> charCode c = 39 \<or> charCode c = 96 \<or> c \<in> set ''!#$%&()*+,/:;<=>?@[]^{|}~''"

definition filenameSegment :: "string \<Rightarrow> string" where
  "filenameSegment v =
     (let base = toLowerCase (trim (stripMd (trim v)));
          s1 = replaceRuns (\<lambda>c. charCode c = 92 \<or> c = CHR ''/'' \<or> charCode c < 32 \<or> charCode c = 127) base;
          s2 = replaceRuns isJsSpace s1;
          s3 = replaceRuns isSlugPunctuation s2;
          candidate = stripDashes (replaceRuns (\<lambda>c. c = CHR ''-'') s3);
          truncated = stripDashes (take 80 candidate)
      in if truncated = ''.'' \<or> truncated = ''..'' then [] else truncated)"

definition slugForGeneratedPage :: "WikiDraft \<Rightarrow> string \<Rightarrow> gen_error + string" where
  "slugForGeneratedPage generated fallbackBase =
     (let slug = (if filenameSegment (wd_slug generated) \<noteq> [] then filenameSegment (wd_slug generated)
                  else if filenameSegment (wd_title generated) \<noteq> [] then filenameSegment (wd_title generated)
                  else filenameSegment fallbackBase)
      in if slug = [] then Inl (GenError ''generated page needs a usable title or slug'') else Inr slug)"

subsection \<open>Pages\<close>

definition markdownLinkText :: "string \<Rightarrow> string" where
  "markdownLinkText v = replaceAllChar (CHR '']'') [CHR 0x5C, CHR '']''] (replaceAllChar (CHR 0x5C) [CHR 0x5C, CHR 0x5C] v)"

definition markdownLinkDestination :: "string \<Rightarrow> string" where
  "markdownLinkDestination path =
     ''<'' @ replaceAllChar (CHR ''?'') ''%3F'' (replaceAllChar (CHR ''#'') ''%23'' (replaceAllChar (CHR ''>'') ''%3E''
       (replaceAllChar (CHR ''<'') ''%3C'' (replaceAllChar (CHR ''%'') ''%25'' path)))) @ ''>''"

definition markdownPathLink :: "string \<Rightarrow> string \<Rightarrow> string" where
  "markdownPathLink path label = ''['' @ markdownLinkText label @ '']('' @ markdownLinkDestination path @ '')''"

definition renderItems :: "string \<Rightarrow> WikiDraftItem list \<Rightarrow> string \<Rightarrow> string" where
  "renderItems title items noneLabel =
     (if items = [] then ''## '' @ title @ newline @ newline @ ''- '' @ noneLabel @ newline
      else ''## '' @ title @ newline @ newline @
        joinWith newline (map (\<lambda>item. ''- '' @ di_text item @ '' ('' @ markdownPathLink (di_source_path item) ''source'' @ '')'') items) @
        newline)"

definition renderContext :: "SearchNodeHit list \<Rightarrow> string \<Rightarrow> string" where
  "renderContext contextHits title =
     (if contextHits = [] then []
      else ''## '' @ title @ newline @ newline @
        joinWith newline (map (\<lambda>hit. ''- '' @ markdownPathLink (sh_path hit) (sh_path hit)) contextHits) @ newline)"

definition renderGeneratedMarkdown :: "WikiDraft \<Rightarrow> WikiNode \<Rightarrow> SearchNodeHit list \<Rightarrow> string" where
  "renderGeneratedMarkdown draft source contextHits =
     (let labels = wd_labels draft in
      joinWith newline (filter (\<lambda>part. part \<noteq> []) [
        ''# '' @ wd_title draft,
        [],
        ''- Source: '' @ markdownPathLink (nd_path source) (nd_path source),
        ''- Generated by: wiki-generator v1'',
        [],
        ''## '' @ dl_summary labels,
        [],
        wd_summary draft,
        [],
        renderItems (dl_key_facts labels) (wd_key_facts draft) (dl_none labels),
        renderItems (dl_decisions labels) (wd_decisions draft) (dl_none labels),
        renderItems (dl_open_questions labels) (wd_open_questions draft) (dl_none labels),
        renderItems (dl_follow_ups labels) (wd_follow_ups draft) (dl_none labels),
        renderContext contextHits (dl_related_context labels),
        ''## '' @ dl_provenance labels,
        [],
        ''- source_path: '' @ nd_path source,
        ''- source_etag: '' @ nd_etag source]))"

text \<open>\<open>split(/\r?\n/)\<close>: a carriage return before the line feed belongs to the separator.\<close>

definition splitLinesCrLf :: "string \<Rightarrow> string list" where
  "splitLinesCrLf s =
     (let parts = splitOn (CHR 0x0A) s;
          dropCr = (\<lambda>p. if p \<noteq> [] \<and> charCode (last p) = 13 then butlast p else p)
      in map dropCr (butlast parts) @ [last parts])"

definition hasMatchingSourceProvenance :: "string \<Rightarrow> string \<Rightarrow> bool" where
  "hasMatchingSourceProvenance content sourcePath =
     list_ex (\<lambda>line. trim line = ''- source_path: '' @ sourcePath) (splitLinesCrLf content)"

definition ensureTargetCanBeWritten :: "string option \<Rightarrow> string \<Rightarrow> string \<Rightarrow> gen_error + unit" where
  "ensureTargetCanBeWritten existingContent targetPath sourcePath =
     (case existingContent of
        None \<Rightarrow> Inr ()
      | Some content \<Rightarrow>
          if \<not> hasMatchingSourceProvenance content sourcePath
          then Inl (GenError (''target exists without matching provenance: '' @ targetPath)) else Inr ())"

subsection \<open>What the model's answer can choose\<close>

lemma set_replaceRuns: "set (replaceRuns P s) \<subseteq> {c \<in> set s. \<not> P c} \<union> {CHR ''-''}"
  by (induction P s rule: replaceRuns.induct) (auto dest: set_dropWhileD)

lemma set_stripDashes: "set (stripDashes s) \<subseteq> set s"
proof
  fix c assume "c \<in> set (stripDashes s)"
  then have "c \<in> set (rev (dropWhile (\<lambda>c. c = CHR ''-'') s))"
    unfolding stripDashes_def stripTrailing_def by (metis set_dropWhileD set_rev)
  then show "c \<in> set s" by (simp add: set_dropWhileD)
qed

lemma length_stripDashes: "length (stripDashes s) \<le> length s"
proof -
  have "length (stripDashes s) \<le> length (dropWhile (\<lambda>c. c = CHR ''-'') s)"
    unfolding stripDashes_def stripTrailing_def by (simp only: length_rev) (rule order_trans [OF length_dropWhile_le], simp)
  also have "\<dots> \<le> length s" by (rule length_dropWhile_le)
  finally show ?thesis .
qed

text \<open>A character that may stand in a file name: no path separator, control character, white space or punctuation of URLs and Markdown.\<close>

definition fileNameChar :: "char \<Rightarrow> bool" where
  "fileNameChar c \<longleftrightarrow> \<not> isJsSpace c \<and> \<not> isSlugPunctuation c \<and> c \<noteq> CHR ''/'' \<and> charCode c \<noteq> 92 \<and> 32 \<le> charCode c \<and> charCode c \<noteq> 127"

lemma filenameSegment_safe:
  "list_all fileNameChar (filenameSegment v) \<and> length (filenameSegment v) \<le> 80 \<and>
   filenameSegment v \<noteq> ''.'' \<and> filenameSegment v \<noteq> ''..''"
proof -
  define base where "base = toLowerCase (trim (stripMd (trim v)))"
  define s1 where "s1 = replaceRuns (\<lambda>c. charCode c = 92 \<or> c = CHR ''/'' \<or> charCode c < 32 \<or> charCode c = 127) base"
  define s2 where "s2 = replaceRuns isJsSpace s1"
  define s3 where "s3 = replaceRuns isSlugPunctuation s2"
  define candidate where "candidate = stripDashes (replaceRuns (\<lambda>c. c = CHR ''-'') s3)"
  define truncated where "truncated = stripDashes (take 80 candidate)"
  have eq: "filenameSegment v = (if truncated = ''.'' \<or> truncated = ''..'' then [] else truncated)"
    by (simp add: filenameSegment_def truncated_def candidate_def s3_def s2_def s1_def base_def Let_def)
  have dash: "fileNameChar (CHR ''-'')" by (simp add: fileNameChar_def isJsSpace_def isSlugPunctuation_def)
  let ?sep = "\<lambda>c. charCode c = 92 \<or> c = CHR ''/'' \<or> charCode c < 32 \<or> charCode c = 127"
  have "fileNameChar c" if "c \<in> set s3" for c
  proof (cases "c = CHR ''-''")
    case False
    then have "c \<in> set s2" "\<not> isSlugPunctuation c"
      using that set_replaceRuns [of isSlugPunctuation s2] unfolding s3_def by blast+
    moreover from this(1) False have "c \<in> set s1" "\<not> isJsSpace c"
      using set_replaceRuns [of isJsSpace s1] unfolding s2_def by blast+
    moreover from this(1) False have "\<not> ?sep c"
      using set_replaceRuns [of ?sep base] unfolding s1_def by blast
    ultimately show ?thesis by (simp add: fileNameChar_def)
  qed (simp add: dash)
  then have "set s3 \<subseteq> {c. fileNameChar c}" by blast
  then have "set candidate \<subseteq> {c. fileNameChar c}"
    using set_stripDashes [of "replaceRuns (\<lambda>c. c = CHR ''-'') s3"] set_replaceRuns [of "\<lambda>c. c = CHR ''-''" s3] dash
    unfolding candidate_def by fastforce
  then have "set truncated \<subseteq> {c. fileNameChar c}"
    using set_stripDashes [of "take 80 candidate"] set_take_subset [of 80 candidate] unfolding truncated_def by blast
  moreover have "length truncated \<le> 80"
    using length_stripDashes [of "take 80 candidate"] unfolding truncated_def by simp
  ultimately show ?thesis by (auto simp: eq list_all_iff)
qed

lemma slug_safe:
  assumes "slugForGeneratedPage draft base = Inr slug"
  shows "slug \<noteq> []" and "list_all fileNameChar slug" and "length slug \<le> 80" and "slug \<noteq> ''.''" and "slug \<noteq> ''..''"
proof -
  from assms obtain v where "slug = filenameSegment v" and ne: "slug \<noteq> []"
    by (auto simp: slugForGeneratedPage_def Let_def split: if_splits)
  with filenameSegment_safe [of v] show "slug \<noteq> []" and "list_all fileNameChar slug" and "length slug \<le> 80" and "slug \<noteq> ''.''" and "slug \<noteq> ''..''"
    by simp_all
qed

lemma validateSection_Inr: "validateSection p i items = Inr () \<longleftrightarrow> (\<forall>item \<in> set items. di_source_path item = p)"
  by (induction items arbitrary: i) auto

lemma validated_sources:
  "validateDraftSources d p = Inr () \<Longrightarrow>
     \<forall>item \<in> set (wd_key_facts d @ wd_decisions d @ wd_open_questions d @ wd_follow_ups d). di_source_path item = p"
  by (auto simp: validateDraftSources_def guard_simps validateSection_Inr)

subsection \<open>A rendered page may be rendered again\<close>

lemma joinWith_append_last:
  "ps \<noteq> [] \<Longrightarrow> joinWith sep (ps @ [q]) = joinWith sep ps @ sep @ q"
  by (induction sep ps rule: joinWith.induct) auto

lemma splitOn_append_sep: "splitOn c (s @ c # t) = splitOn c s @ splitOn c t"
  by (induction s) (auto split: list.splits)

lemma provenance_line:
  assumes "CHR 0x0A \<notin> set line" and "trim line = line" and "line = ''- source_path: '' @ p"
  shows "hasMatchingSourceProvenance (pre @ newline @ line @ newline @ post) p"
proof -
  have split: "splitOn (CHR 0x0A) (pre @ newline @ line @ newline @ post) =
      splitOn (CHR 0x0A) pre @ line # splitOn (CHR 0x0A) post"
    using assms(1) by (simp add: splitOn_append_sep splitOn_append splitOn_no_sep)
  have "charCode (last line) \<noteq> 13"
    using trim_last [OF assms(2)] assms(3) by (auto simp: isJsSpace_def)
  then have "line \<in> set (splitLinesCrLf (pre @ newline @ line @ newline @ post))"
    unfolding splitLinesCrLf_def Let_def split by (auto simp: butlast_append)
  then show ?thesis using assms(2,3) by (auto simp: hasMatchingSourceProvenance_def list_ex_iff)
qed

end
