(* ===== verification/Generator_Fetch.thy ===== *)
theory Generator_Fetch
  imports Generator_Draft
begin

section \<open>Generator worker: fetching a URL\<close>

text \<open>
  \<^verbatim>\<open>workers/wiki-generator/src/url-fetch.ts\<close>: which URLs the worker fetches, the redirects it follows, the
  bounded read of the body and the text it extracts. Each regular expression of the source is a matcher,
  which says for a text how many characters match at its start; \<open>replaceFold\<close> is \<open>String.replace\<close>
  with the \<open>g\<close> flag. The URL parser, the text decoder and the digest of the runtime are the record
  \<open>GenPlatform\<close> of parameters.
\<close>

subsection \<open>The platform\<close>

record UrlParts =
  up_protocol :: string
  up_hostname :: string
  up_href :: string

record GenPlatform =
  gp_parseUrl :: "string \<Rightarrow> UrlParts option"
  gp_resolveUrl :: "string \<Rightarrow> string \<Rightarrow> string option"
  gp_decodeText :: "byte list \<Rightarrow> string"
  gp_sha256 :: "byte list \<Rightarrow> byte list"
  gp_dateParse :: "string \<Rightarrow> int option"
  gp_nfkc :: "string \<Rightarrow> string"
  gp_numberText :: "string \<Rightarrow> string"
  gp_defaultModel :: string
  gp_jev :: JevPlatform

record FetchedUrlSource =
  fu_url :: string
  fu_finalUrl :: string
  fu_title :: "string option"
  fu_contentType :: string
  fu_text :: string
  fu_fetchedTruncated :: bool
  fu_fetchedBytes :: nat
  fu_maxFetchedBytes :: nat

subsection \<open>Allowed hosts\<close>

definition isBlockedIpv4 :: "nat \<times> nat \<times> nat \<times> nat \<Rightarrow> bool" where
  "isBlockedIpv4 address =
     (case address of (first, second, third, fourth) \<Rightarrow>
        if first = 0 \<or> first = 10 \<or> first = 127 then True
        else if first = 100 \<and> second \<ge> 64 \<and> second \<le> 127 then True
        else if first = 169 \<and> second = 254 then True
        else if first = 172 \<and> second \<ge> 16 \<and> second \<le> 31 then True
        else if first = 192 \<and> second = 0 then True
        else if first = 192 \<and> second = 168 then True
        else if first = 192 \<and> second = 0 \<and> third = 2 then True
        else if first = 198 \<and> (second = 18 \<or> second = 19) then True
        else if first = 198 \<and> second = 51 \<and> third = 100 then True
        else if first = 203 \<and> second = 0 \<and> third = 113 then True
        else if first \<ge> 224 then True
        else False)"

definition parseIpv4 :: "string \<Rightarrow> (nat \<times> nat \<times> nat \<times> nat) option" where
  "parseIpv4 hostname =
     (case splitOn (CHR ''.'') hostname of
        [a, b, c, d] \<Rightarrow>
          if list_ex (\<lambda>part. part = [] \<or> \<not> list_all isDigit part) [a, b, c, d] then None
          else if list_ex (\<lambda>part. decToNat part > 255) [a, b, c, d] then None
          else Some (decToNat a, decToNat b, decToNat c, decToNat d)
      | _ \<Rightarrow> None)"

definition isBlockedHostname :: "string \<Rightarrow> bool" where
  "isBlockedHostname hostname =
     (let normalized = toLowerCase hostname in
      if startsWith normalized ''['' \<or> includesText normalized '':'' then True
      else if normalized = ''localhost'' \<or> endsWith normalized ''.localhost'' \<or> endsWith normalized ''.local'' then True
      else (case parseIpv4 normalized of Some ipv4 \<Rightarrow> isBlockedIpv4 ipv4 | None \<Rightarrow> False))"

definition parseAllowedUrl :: "GenPlatform \<Rightarrow> string \<Rightarrow> gen_error + UrlParts" where
  "parseAllowedUrl P v =
     (case gp_parseUrl P v of
        None \<Rightarrow> Inl (GenError ''url is invalid'')
      | Some url \<Rightarrow>
          if up_protocol url \<noteq> ''http:'' \<and> up_protocol url \<noteq> ''https:'' then Inl (GenError ''url must use http or https'')
          else if isBlockedHostname (up_hostname url) then Inl (GenError ''url hostname is not allowed'')
          else Inr url)"

subsection \<open>Redirects and the body\<close>

definition MAX_REDIRECTS :: nat where
  "MAX_REDIRECTS = 5"

definition isRedirectStatus :: "nat \<Rightarrow> bool" where
  "isRedirectStatus st \<longleftrightarrow> st = 301 \<or> st = 302 \<or> st = 303 \<or> st = 307 \<or> st = 308"

definition fetchCall :: "GenHost \<Rightarrow> string \<Rightarrow> FetchResponse gen" where
  "fetchCall h url = genEffect (EffFetch url) (\<lambda>k. gh_fetch h k url)"

text \<open>The loop of \<open>fetchAllowedUrl\<close>; the number counts the redirects it may still follow.\<close>

fun fetchFollowing :: "GenHost \<Rightarrow> GenPlatform \<Rightarrow> nat \<Rightarrow> UrlParts \<Rightarrow> (FetchResponse \<times> UrlParts) gen" where
  "fetchFollowing h P remaining currentUrl =
     bindA (fetchCall h (up_href currentUrl)) (\<lambda>response.
       if \<not> isRedirectStatus (fr_status response) then retA (response, currentUrl)
       else
         case remaining of
           0 \<Rightarrow> throwA (GenError ''too many redirects'')
         | Suc left \<Rightarrow>
             if fr_location response = None \<or> fr_location response = Some [] then throwA (GenError ''redirect missing location'')
             else
               (case gp_resolveUrl P (the (fr_location response)) (up_href currentUrl) of
                  None \<Rightarrow> throwA (GenHostError ''Invalid URL'')
                | Some href \<Rightarrow> bindA (liftR (parseAllowedUrl P href)) (fetchFollowing h P left)))"

declare fetchFollowing.simps [simp del]

definition fetchAllowedUrl :: "GenHost \<Rightarrow> GenPlatform \<Rightarrow> UrlParts \<Rightarrow> (FetchResponse \<times> UrlParts) gen" where
  "fetchAllowedUrl h P firstUrl = fetchFollowing h P MAX_REDIRECTS firstUrl"

text \<open>The read loop on the chunks the body delivers, \<open>Inl\<close> a failed read; cancelling the reader succeeds.\<close>

fun readChunks :: "nat \<Rightarrow> (string + byte list) list \<Rightarrow> byte list \<Rightarrow> gen_error + byte list \<times> bool" where
  "readChunks maxBytes [] got = Inr (got, False)"
| "readChunks maxBytes (Inl e # chunks) got = Inl (GenHostError e)"
| "readChunks maxBytes (Inr v # chunks) got =
     (let remaining = maxBytes - length got in
      if remaining = 0 then Inr (got, True)
      else if length v > remaining then Inr (got @ take remaining v, True)
      else readChunks maxBytes chunks (got @ v))"

definition readTextLimited :: "GenPlatform \<Rightarrow> FetchResponse \<Rightarrow> nat \<Rightarrow> gen_error + string \<times> bool \<times> nat" where
  "readTextLimited P response maxBytes =
     (case fr_body response of
        None \<Rightarrow> Inr ([], False, 0)
      | Some chunks \<Rightarrow>
          bindR (readChunks maxBytes chunks []) (\<lambda>(bytes, truncated). Inr (gp_decodeText P bytes, truncated, length bytes)))"

subsection \<open>Replacing matches\<close>

function replaceFold :: "(string \<Rightarrow> (nat \<times> 'm) option) \<Rightarrow> ('s \<Rightarrow> 'm \<Rightarrow> string \<times> 's) \<Rightarrow> 's \<Rightarrow> string \<Rightarrow> string \<times> 's" where
  "replaceFold m f st [] = ([], st)"
| "replaceFold m f st (c # s) =
     (case m (c # s) of
        None \<Rightarrow> (let r = replaceFold m f st s in (c # fst r, snd r))
      | Some (n, x) \<Rightarrow>
          (let y = f st x; r = replaceFold m f (snd y) (drop (n - 1) s) in (fst y @ fst r, snd r)))"
  by pat_completeness auto
termination by (relation "measure (\<lambda>(m, f, st, s). length s)") auto

definition replaceMatches :: "(string \<Rightarrow> (nat \<times> unit) option) \<Rightarrow> string \<Rightarrow> string \<Rightarrow> string" where
  "replaceMatches m r s = fst (replaceFold m (\<lambda>st _. (r, st)) () s)"

fun firstMatch :: "(string \<Rightarrow> (nat \<times> 'm) option) \<Rightarrow> string \<Rightarrow> 'm option" where
  "firstMatch m [] = None"
| "firstMatch m (c # s) = (case m (c # s) of Some (n, x) \<Rightarrow> Some x | None \<Rightarrow> firstMatch m s)"

fun indexOf :: "(string \<Rightarrow> bool) \<Rightarrow> string \<Rightarrow> nat option" where
  "indexOf p [] = None"
| "indexOf p (c # s) = (if p (c # s) then Some 0 else map_option Suc (indexOf p s))"

definition startsWithCi :: "string \<Rightarrow> string \<Rightarrow> bool" where
  "startsWithCi s p \<longleftrightarrow> toLowerCase (take (length p) s) = p"

definition isWordChar :: "char \<Rightarrow> bool" where
  "isWordChar c \<longleftrightarrow> isAsciiAlnum c \<or> c = CHR ''_''"

text \<open>\<^verbatim>\<open><(a|b|...)\b\<close>, case insensitive: the name that matches.\<close>

definition tagName :: "string list \<Rightarrow> string \<Rightarrow> string option" where
  "tagName names s =
     (if \<not> startsWith s ''<'' then None
      else find (\<lambda>name. startsWithCi (tl s) name \<and> (let after = drop (length name) (tl s) in after = [] \<or> \<not> isWordChar (hd after))) names)"

definition literalMatch :: "string \<Rightarrow> string \<Rightarrow> (nat \<times> unit) option" where
  "literalMatch p s = (if startsWith s p then Some (length p, ()) else None)"

text \<open>\<^verbatim>\<open><(a|b)\b[\s\S]*?<\/\1>\<close>, and the same up to the end of the text.\<close>

definition elementMatch :: "string list \<Rightarrow> string \<Rightarrow> (nat \<times> unit) option" where
  "elementMatch names s =
     (case tagName names s of
        None \<Rightarrow> None
      | Some name \<Rightarrow>
          (case indexOf (\<lambda>t. startsWithCi t (''</'' @ name @ ''>'')) (drop (1 + length name) s) of
             None \<Rightarrow> None
           | Some i \<Rightarrow> Some (1 + length name + i + length name + 3, ())))"

definition openElementMatch :: "string list \<Rightarrow> string \<Rightarrow> (nat \<times> unit) option" where
  "openElementMatch names s = (case tagName names s of None \<Rightarrow> None | Some name \<Rightarrow> Some (length s, ()))"

text \<open>\<^verbatim>\<open><(a|b)\b[^>]*>\<close>, with the length of the tag.\<close>

definition openTagMatch :: "string list \<Rightarrow> string \<Rightarrow> (nat \<times> unit) option" where
  "openTagMatch names s =
     (case tagName names s of
        None \<Rightarrow> None
      | Some name \<Rightarrow>
          map_option (\<lambda>i. (1 + length name + i + 1, ())) (indexOf (\<lambda>t. startsWith t ''>'') (drop (1 + length name) s)))"

definition anyTagMatch :: "string \<Rightarrow> (nat \<times> unit) option" where
  "anyTagMatch s =
     (if \<not> startsWith s ''<'' then None
      else (case indexOf (\<lambda>t. startsWith t ''>'') (tl s) of None \<Rightarrow> None | Some 0 \<Rightarrow> None | Some i \<Rightarrow> Some (i + 2, ())))"

definition commentMatch :: "string \<Rightarrow> (nat \<times> unit) option" where
  "commentMatch s =
     (if \<not> startsWith s ''<!--'' then None
      else map_option (\<lambda>i. (4 + i + 3, ())) (indexOf (\<lambda>t. startsWith t ''-->'') (drop 4 s)))"

text \<open>\<^verbatim>\<open>NAME[^>]*>([\s\S]*?)CLOSE\<close> after a start of \<open>n\<close> characters: the length and the group.\<close>

definition groupMatch :: "nat \<Rightarrow> string \<Rightarrow> string \<Rightarrow> (nat \<times> string) option" where
  "groupMatch n close s =
     (case indexOf (\<lambda>t. startsWith t ''>'') (drop n s) of
        None \<Rightarrow> None
      | Some i \<Rightarrow>
          let content = drop (n + i + 1) s in
          map_option (\<lambda>j. (n + i + 1 + j + length close, take j content)) (indexOf (\<lambda>t. startsWithCi t close) content))"

definition preMatch :: "string \<Rightarrow> (nat \<times> string) option" where
  "preMatch s = (case tagName [''pre''] s of None \<Rightarrow> None | Some _ \<Rightarrow> groupMatch 4 ''</pre>'' s)"

definition titleMatch :: "string \<Rightarrow> (nat \<times> string) option" where
  "titleMatch s = (if startsWithCi s ''<title'' then groupMatch 6 ''</title>'' s else None)"

text \<open>\<^verbatim>\<open>/\r\n?/\<close> and \<^verbatim>\<open>/[ \t]+/\<close>.\<close>

definition crMatch :: "string \<Rightarrow> (nat \<times> unit) option" where
  "crMatch s =
     (case s of
        c # t \<Rightarrow> if c = CHR 0x0D then Some (if startsWith t newline then 2 else 1, ()) else None
      | [] \<Rightarrow> None)"

definition blankRunMatch :: "string \<Rightarrow> (nat \<times> unit) option" where
  "blankRunMatch s =
     (let run = takeWhile (\<lambda>c. c = CHR '' '' \<or> c = CHR 0x09) s in if run = [] then None else Some (length run, ()))"

subsection \<open>Markdown and HTML text\<close>

definition decodeEntities :: "string \<Rightarrow> string" where
  "decodeEntities v =
     replaceMatches (literalMatch ''&#39;'') [CHR 0x27]
       (replaceMatches (literalMatch ''&quot;'') [CHR 0x22]
         (replaceMatches (literalMatch ''&gt;'') ''>''
           (replaceMatches (literalMatch ''&lt;'') ''<''
             (replaceMatches (literalMatch ''&amp;'') ''&''
               (replaceMatches (literalMatch ''&nbsp;'') '' '' v)))))"

definition htmlTextContent :: "string \<Rightarrow> string" where
  "htmlTextContent v = decodeEntities (replaceMatches anyTagMatch [] (replaceMatches (openTagMatch [''br'']) newline v))"

text \<open>The lengths of the runs of back quotes.\<close>

fun backtickRuns :: "nat \<Rightarrow> string \<Rightarrow> nat list" where
  "backtickRuns n [] = (if n = 0 then [] else [n])"
| "backtickRuns n (c # s) =
     (if c = CHR 0x60 then backtickRuns (Suc n) s else (if n = 0 then [] else [n]) @ backtickRuns 0 s)"

definition markdownCodeBlock :: "string \<Rightarrow> string" where
  "markdownCodeBlock v =
     (let code = stripTrailing (CHR 0x0A) (dropWhile (\<lambda>c. c = CHR 0x0A) (replaceMatches crMatch newline v)) in
      if code = [] then []
      else
        let longestBacktickRun = foldr max (backtickRuns 0 code) 0;
            fence = replicate (max 3 (longestBacktickRun + 1)) (CHR 0x60)
        in fence @ newline @ code @ newline @ fence)"

text \<open>
  \<open>replaceAll\<close> with a string as replacement, in which \<^verbatim>\<open>$$\<close>, \<^verbatim>\<open>$&\<close>, \<^verbatim>\<open>$`\<close> and \<^verbatim>\<open>$'\<close> stand for a dollar sign, the
  match, the text before it and the text after it.
\<close>

fun expandReplacement :: "string \<Rightarrow> string \<Rightarrow> string \<Rightarrow> string \<Rightarrow> string" where
  "expandReplacement matched before after [] = []"
| "expandReplacement matched before after [c] = [c]"
| "expandReplacement matched before after (c # d # t) =
     (if c = CHR ''$'' \<and> d = CHR ''$'' then CHR ''$'' # expandReplacement matched before after t
      else if c = CHR ''$'' \<and> d = CHR ''&'' then matched @ expandReplacement matched before after t
      else if c = CHR ''$'' \<and> d = CHR 0x60 then before @ expandReplacement matched before after t
      else if c = CHR ''$'' \<and> d = CHR 0x27 then after @ expandReplacement matched before after t
      else c # expandReplacement matched before after (d # t))"

function replaceAllText :: "string \<Rightarrow> string \<Rightarrow> string \<Rightarrow> string \<Rightarrow> string" where
  "replaceAllText search template before [] = []"
| "replaceAllText search template before (c # s) =
     (if startsWith (c # s) search then
        expandReplacement search before (drop (length search) (c # s)) template @
        replaceAllText search template (before @ search) (drop (max 1 (length search)) (c # s))
      else c # replaceAllText search template (before @ [c]) s)"
  by pat_completeness auto
termination by (relation "measure (\<lambda>(search, template, before, s). length s)") auto

definition preBlockPlaceholder :: "nat \<Rightarrow> string" where
  "preBlockPlaceholder index = ''KINIC_PRE_BLOCK_'' @ natToDec index @ ''_''"

definition restorePreBlocks :: "string \<Rightarrow> string list \<Rightarrow> string" where
  "restorePreBlocks v preBlocks =
     foldl (\<lambda>text (index, block). replaceAllText (preBlockPlaceholder index) block [] text) v
       (zip [0..<length preBlocks] preBlocks)"

record MarkdownFence =
  mf_marker :: char
  mf_length :: nat

text \<open>The fence of a trimmed line: its run of at least three markers, and the rest of the line.\<close>

definition fenceRun :: "string \<Rightarrow> (MarkdownFence \<times> string) option" where
  "fenceRun line =
     (case line of
        [] \<Rightarrow> None
      | c # _ \<Rightarrow>
          let run = takeWhile (\<lambda>d. d = c) line in
          if (c = CHR 0x60 \<or> c = CHR ''~'') \<and> 3 \<le> length run
          then Some (\<lparr>mf_marker = c, mf_length = length run\<rparr>, drop (length run) line) else None)"

definition openingFenceForLine :: "string \<Rightarrow> MarkdownFence option" where
  "openingFenceForLine line =
     (case fenceRun (trim line) of
        None \<Rightarrow> None
      | Some (fence, rest) \<Rightarrow> if mf_marker fence = CHR 0x60 \<and> CHR 0x60 \<in> set rest then None else Some fence)"

definition closingFenceForLine :: "string \<Rightarrow> MarkdownFence option" where
  "closingFenceForLine line =
     (case fenceRun (trim line) of
        None \<Rightarrow> None
      | Some (fence, rest) \<Rightarrow> if list_all (\<lambda>c. c = CHR '' '' \<or> c = CHR 0x09) rest then Some fence else None)"

fun normalizeLines :: "MarkdownFence option \<Rightarrow> string list \<Rightarrow> string list" where
  "normalizeLines fence [] = []"
| "normalizeLines fence (line # lines) =
     (let openingFence = (if fence \<noteq> None then None else openingFenceForLine line);
          normalized = (if fence \<noteq> None \<or> openingFence \<noteq> None then trimEnd line
                        else replaceMatches blankRunMatch '' '' (trim line));
          closingFence = (if fence \<noteq> None then closingFenceForLine normalized else None);
          closes = (case (fence, closingFence) of
              (Some f, Some g) \<Rightarrow> mf_marker g = mf_marker f \<and> mf_length g \<ge> mf_length f
            | _ \<Rightarrow> False);
          fence' = (if closes then None else if fence = None \<and> openingFence \<noteq> None then openingFence else fence)
      in normalized # normalizeLines fence' lines)"

fun collapseFrom :: "bool \<Rightarrow> string list \<Rightarrow> string list" where
  "collapseFrom previousBlank [] = []"
| "collapseFrom previousBlank (line # lines) =
     (if line = [] \<and> previousBlank then collapseFrom previousBlank lines
      else line # collapseFrom (line = []) lines)"

definition collapseBlankLines :: "string list \<Rightarrow> string list" where
  "collapseBlankLines lines = rev (dropWhile (\<lambda>line. line = []) (rev (collapseFrom True lines)))"

definition normalizeWhitespace :: "string \<Rightarrow> string" where
  "normalizeWhitespace v =
     trim (joinWith newline (collapseBlankLines (normalizeLines None (splitOn (CHR 0x0A) (replaceMatches crMatch newline v)))))"

definition firstMarkdownTitle :: "string \<Rightarrow> string option" where
  "firstMarkdownTitle s = map_option (\<lambda>line. trim (drop 2 line)) (find (\<lambda>item. startsWith item ''# '') (splitOn (CHR 0x0A) s))"

definition stripRawTextElements :: "string \<Rightarrow> string" where
  "stripRawTextElements html =
     (let names = [''script'', ''style'', ''noscript''] in
      replaceMatches (openElementMatch names) '' '' (replaceMatches (elementMatch names) '' '' html))"

definition blockTags :: "string list" where
  "blockTags = [''br'', ''p'', ''div'', ''section'', ''article'', ''h1'', ''h2'', ''h3'', ''h4'', ''h5'', ''h6'', ''li'']"

definition extractHtmlText :: "string \<Rightarrow> string option \<times> string" where
  "extractHtmlText html =
     (let title = firstMatch titleMatch html;
          noHead = replaceMatches (elementMatch [''head'']) '' '' (stripRawTextElements html);
          noFrame = replaceMatches (elementMatch [''nav'', ''footer'', ''header'', ''aside'']) '' '' noHead;
          pre = replaceFold preMatch
            (\<lambda>blocks code. (newline @ newline @ preBlockPlaceholder (length blocks) @ newline @ newline,
                            blocks @ [markdownCodeBlock (htmlTextContent code)])) [] noFrame;
          body = replaceMatches anyTagMatch '' ''
            (replaceMatches (openTagMatch blockTags) newline (replaceMatches commentMatch '' '' (fst pre)));
          text = restorePreBlocks (decodeEntities body) (snd pre)
      in (case title of
            None \<Rightarrow> None
          | Some t \<Rightarrow> if t = [] then None else Some (decodeEntities (normalizeWhitespace t)), text))"

subsection \<open>The whole fetch\<close>

definition ACCEPTED_CONTENT_TYPES :: "string list" where
  "ACCEPTED_CONTENT_TYPES = [''text/html'', ''text/plain'', ''text/markdown'', ''text/x-markdown'']"

definition contentTypeOf :: "FetchResponse \<Rightarrow> string" where
  "contentTypeOf response =
     (case fr_contentType response of None \<Rightarrow> [] | Some v \<Rightarrow> toLowerCase (trim (hd (splitOn (CHR '';'') v))))"

definition extractFetched :: "GenPlatform \<Rightarrow> UrlParts \<Rightarrow> nat \<Rightarrow> FetchResponse \<times> UrlParts \<Rightarrow> gen_error + FetchedUrlSource" where
  "extractFetched P firstUrl maxBytes = (\<lambda>(response, finalUrl).
     if \<not> (200 \<le> fr_status response \<and> fr_status response \<le> 299)
     then Inl (GenError (''URL fetch failed with '' @ natToDec (fr_status response)))
     else
       let contentType = contentTypeOf response in
       if contentType \<notin> set ACCEPTED_CONTENT_TYPES
       then Inl (GenError (''unsupported content-type: '' @ (if contentType = [] then ''unknown'' else contentType)))
       else
         bindR (readTextLimited P response maxBytes) (\<lambda>(body, truncated, bytes).
           let extracted = (if contentType = ''text/html'' then extractHtmlText body else (firstMarkdownTitle body, body)) in
           Inr \<lparr>fu_url = up_href firstUrl, fu_finalUrl = up_href finalUrl, fu_title = fst extracted,
                fu_contentType = contentType, fu_text = normalizeWhitespace (snd extracted),
                fu_fetchedTruncated = truncated, fu_fetchedBytes = bytes, fu_maxFetchedBytes = maxBytes\<rparr>))"

definition fetchUrlSource :: "GenHost \<Rightarrow> GenPlatform \<Rightarrow> string \<Rightarrow> nat \<Rightarrow> FetchedUrlSource gen" where
  "fetchUrlSource h P urlText maxBytes =
     bindA (liftR (parseAllowedUrl P urlText)) (\<lambda>firstUrl.
     bindA (fetchAllowedUrl h P firstUrl) (\<lambda>fetched. liftR (extractFetched P firstUrl maxBytes fetched)))"

subsection \<open>What is fetched\<close>

definition allowedUrl :: "GenPlatform \<Rightarrow> UrlParts \<Rightarrow> bool" where
  "allowedUrl P url \<longleftrightarrow>
     (\<exists>v. gp_parseUrl P v = Some url) \<and> (up_protocol url = ''http:'' \<or> up_protocol url = ''https:'') \<and>
     \<not> isBlockedHostname (up_hostname url)"

lemma parseAllowedUrl_allowed: "parseAllowedUrl P v = Inr url \<Longrightarrow> allowedUrl P url"
  by (auto simp: parseAllowedUrl_def allowedUrl_def split: option.splits if_splits)

text \<open>The worlds an action can reach by fetching at most \<open>n\<close> of the given URLs.\<close>

definition fetchesOnly :: "GenPlatform \<Rightarrow> nat \<Rightarrow> GenWorld \<Rightarrow> GenWorld \<Rightarrow> bool" where
  "fetchesOnly P n w w' \<longleftrightarrow>
     g_jobs w' = g_jobs w \<and>
     (\<exists>urls. g_effects w' = g_effects w @ map (\<lambda>u. EffFetch (up_href u)) urls \<and> length urls \<le> n \<and>
        (\<forall>u \<in> set urls. allowedUrl P u))"

lemma fetchesOnly_refl: "fetchesOnly P n w w"
  by (simp add: fetchesOnly_def)

lemma fetchesOnly_call:
  "allowedUrl P url \<Longrightarrow> fetchesOnly P 1 w (snd (fetchCall h (up_href url) w))"
  by (auto simp: fetchesOnly_def fetchCall_def genEffect_def intro!: exI [of _ "[url]"])

lemma fetchesOnly_trans: "fetchesOnly P m w w' \<Longrightarrow> fetchesOnly P n w' w'' \<Longrightarrow> fetchesOnly P (m + n) w w''"
proof -
  assume "fetchesOnly P m w w'" and "fetchesOnly P n w' w''"
  then obtain us vs where "g_effects w' = g_effects w @ map (\<lambda>u. EffFetch (up_href u)) us" "length us \<le> m"
      "\<forall>u \<in> set us. allowedUrl P u"
    and "g_effects w'' = g_effects w' @ map (\<lambda>u. EffFetch (up_href u)) vs" "length vs \<le> n"
      "\<forall>u \<in> set vs. allowedUrl P u" and "g_jobs w'' = g_jobs w"
    unfolding fetchesOnly_def by metis
  then show ?thesis unfolding fetchesOnly_def by (intro conjI exI [of _ "us @ vs"]) auto
qed

lemma fetchFollowing_fetches:
  "allowedUrl P url \<Longrightarrow> fetchesOnly P (Suc n) w (snd (fetchFollowing h P n url w))"
proof (induction n arbitrary: url w)
  case 0
  from fetchesOnly_call [OF 0] show ?case
    by (subst fetchFollowing.simps) (auto simp: act_simps split: sum.split)
next
  case (Suc n)
  let ?w = "snd (fetchCall h (up_href url) w)"
  have first: "fetchesOnly P 1 w ?w" by (rule fetchesOnly_call [OF Suc.prems])
  have stop: "fetchesOnly P (Suc (Suc n)) w ?w" using fetchesOnly_trans [OF first fetchesOnly_refl, of "Suc n"] by simp
  have more: "fetchesOnly P (Suc (Suc n)) w (snd (fetchFollowing h P n next' ?w))" if "allowedUrl P next'" for next'
    using fetchesOnly_trans [OF first Suc.IH [OF that]] by simp
  show ?case
    using stop more parseAllowedUrl_allowed
    by (subst fetchFollowing.simps) (auto simp: act_simps split: sum.split option.split)
qed

lemma fetchUrlSource_fetches: "fetchesOnly P (Suc MAX_REDIRECTS) w (snd (fetchUrlSource h P u n w))"
proof (cases "parseAllowedUrl P u")
  case (Inl e)
  then show ?thesis by (simp add: fetchUrlSource_def fetchesOnly_refl)
next
  case (Inr url)
  from fetchFollowing_fetches [OF parseAllowedUrl_allowed [OF Inr]] show ?thesis
    by (auto simp: fetchUrlSource_def fetchAllowedUrl_def Inr act_simps split: sum.split)
qed

text \<open>What the read returns: the bytes of the first chunks, cut at the limit.\<close>

definition readResult :: "nat \<Rightarrow> (string + byte list) list \<Rightarrow> byte list \<Rightarrow> byte list \<Rightarrow> bool \<Rightarrow> bool" where
  "readResult n chunks got bytes truncated \<longleftrightarrow>
     length bytes \<le> n \<and> (truncated \<longrightarrow> length bytes = n) \<and>
     (\<exists>vs. list_all2 (\<lambda>c v. c = Inr v) (take (length vs) chunks) vs \<and> bytes = take n (got @ concat vs) \<and>
       (\<not> truncated \<longrightarrow> length vs = length chunks \<and> length (got @ concat vs) \<le> n))"

lemma readResult_now:
  "length got \<le> n \<Longrightarrow> (truncated \<Longrightarrow> length got = n) \<Longrightarrow> (\<not> truncated \<Longrightarrow> chunks = []) \<Longrightarrow> readResult n chunks got got truncated"
  by (auto simp: readResult_def intro!: exI [of _ "[]"])

lemma readResult_cut:
  "n - length got < length v \<Longrightarrow> length got \<le> n \<Longrightarrow> readResult n (Inr v # chunks) got (got @ take (n - length got) v) True"
  by (auto simp: readResult_def intro!: exI [of _ "[v]"])

lemma readResult_more:
  assumes "readResult n chunks (got @ v) bytes truncated"
  shows "readResult n (Inr v # chunks) got bytes truncated"
proof -
  from assms obtain vs where "list_all2 (\<lambda>c v. c = Inr v) (take (length vs) chunks) vs"
    and "bytes = take n ((got @ v) @ concat vs)" and "\<not> truncated \<longrightarrow> length vs = length chunks \<and> length ((got @ v) @ concat vs) \<le> n"
    by (auto simp: readResult_def)
  with assms show ?thesis unfolding readResult_def by (intro conjI exI [of _ "v # vs"]) simp_all
qed

lemma readChunks_result:
  "readChunks n chunks got = Inr (bytes, truncated) \<Longrightarrow> length got \<le> n \<Longrightarrow> readResult n chunks got bytes truncated"
proof (induction n chunks got rule: readChunks.induct)
  case (1 n got)
  then show ?case by (auto intro: readResult_now)
next
  case (3 n v chunks got)
  show ?case
  proof (cases "n - length got = 0")
    case True
    with "3.prems" show ?thesis by (auto intro: readResult_now)
  next
    case False
    then show ?thesis
      using 3 readResult_cut [of n got v chunks] by (auto simp: Let_def intro: readResult_more split: if_splits)
  qed
qed simp

subsection \<open>Blocked addresses\<close>

text \<open>The blocks the filter means, as networks and prefix lengths.\<close>

definition blockedNetworks :: "((nat \<times> nat \<times> nat \<times> nat) \<times> nat) list" where
  "blockedNetworks = [
     ((0, 0, 0, 0), 8), ((10, 0, 0, 0), 8), ((127, 0, 0, 0), 8), ((100, 64, 0, 0), 10), ((169, 254, 0, 0), 16),
     ((172, 16, 0, 0), 12), ((192, 0, 0, 0), 16), ((192, 168, 0, 0), 16), ((198, 18, 0, 0), 15),
     ((198, 51, 100, 0), 24), ((203, 0, 113, 0), 24), ((224, 0, 0, 0), 3)]"

definition ipv4Number :: "nat \<times> nat \<times> nat \<times> nat \<Rightarrow> nat" where
  "ipv4Number = (\<lambda>(a, b, c, d). ((a * 256 + b) * 256 + c) * 256 + d)"

definition inNetwork :: "nat \<times> nat \<times> nat \<times> nat \<Rightarrow> (nat \<times> nat \<times> nat \<times> nat) \<times> nat \<Rightarrow> bool" where
  "inNetwork address = (\<lambda>(network, bits). ipv4Number address div 2 ^ (32 - bits) = ipv4Number network div 2 ^ (32 - bits))"

lemma ipv4Number_div:
  assumes "b < 256" and "c < 256" and "d < 256"
  shows "ipv4Number (a, b, c, d) div 2 ^ 8 = (a * 256 + b) * 256 + c"
    and "ipv4Number (a, b, c, d) div 2 ^ 16 = a * 256 + b"
    and "ipv4Number (a, b, c, d) div 2 ^ 24 = a"
proof -
  have 1: "((a * 256 + b) * 256 + c) * 256 + d = d + 256 * (c + 256 * (b + 256 * a))" by simp
  show "ipv4Number (a, b, c, d) div 2 ^ 8 = (a * 256 + b) * 256 + c"
    using assms by (simp add: ipv4Number_def)
  have "ipv4Number (a, b, c, d) div 2 ^ 16 = ipv4Number (a, b, c, d) div 2 ^ 8 div 2 ^ 8"
    by (simp add: div_mult2_eq [symmetric])
  then show 2: "ipv4Number (a, b, c, d) div 2 ^ 16 = a * 256 + b" using assms by (simp add: ipv4Number_def)
  have "ipv4Number (a, b, c, d) div 2 ^ 24 = ipv4Number (a, b, c, d) div 2 ^ 16 div 2 ^ 8"
    by (simp add: div_mult2_eq [symmetric])
  then show "ipv4Number (a, b, c, d) div 2 ^ 24 = a" using assms by (simp only: 2) simp
qed

lemma ipv4Number_prefix:
  assumes "b < 256" and "c < 256" and "d < 256"
  shows "ipv4Number (a, b, c, d) div 2 ^ 22 = (a * 256 + b) div 64"
    and "ipv4Number (a, b, c, d) div 2 ^ 20 = (a * 256 + b) div 16"
    and "ipv4Number (a, b, c, d) div 2 ^ 17 = (a * 256 + b) div 2"
    and "ipv4Number (a, b, c, d) div 2 ^ 29 = a div 32"
proof -
  have "x div 2 ^ 22 = x div 2 ^ 16 div 64" "x div 2 ^ 20 = x div 2 ^ 16 div 16" "x div 2 ^ 17 = x div 2 ^ 16 div 2"
    "x div 2 ^ 29 = x div 2 ^ 24 div 32" for x :: nat
    by (simp_all add: div_mult2_eq [symmetric])
  then show "ipv4Number (a, b, c, d) div 2 ^ 22 = (a * 256 + b) div 64"
    and "ipv4Number (a, b, c, d) div 2 ^ 20 = (a * 256 + b) div 16"
    and "ipv4Number (a, b, c, d) div 2 ^ 17 = (a * 256 + b) div 2"
    and "ipv4Number (a, b, c, d) div 2 ^ 29 = a div 32"
    by (simp_all only: ipv4Number_div [OF assms])
qed

lemma base_digits:
  fixes k :: nat
  assumes "b < k" and "m < k"
  shows "a * k + b = n * k + m \<longleftrightarrow> a = n \<and> b = m"
proof
  assume eq: "a * k + b = n * k + m"
  have "(a * k + b) div k = a" and "(n * k + m) div k = n" using assms by simp_all
  with eq have "a = n" by simp
  with eq show "a = n \<and> b = m" by simp
qed simp

lemma inNetwork_octets:
  assumes "b < 256" and "c < 256" and "d < 256"
  shows "inNetwork (a, b, c, d) ((n, 0, 0, 0), 8) \<longleftrightarrow> a = n"
    and "m < 256 \<Longrightarrow> inNetwork (a, b, c, d) ((n, m, 0, 0), 16) \<longleftrightarrow> a = n \<and> b = m"
    and "m < 256 \<Longrightarrow> k < 256 \<Longrightarrow> inNetwork (a, b, c, d) ((n, m, k, 0), 24) \<longleftrightarrow> a = n \<and> b = m \<and> c = k"
proof -
  note whole = ipv4Number_div [OF assms]
  have zero: "(0::nat) < 256" by simp
  show "inNetwork (a, b, c, d) ((n, 0, 0, 0), 8) \<longleftrightarrow> a = n"
    using whole ipv4Number_div [OF zero zero zero, of n] by (simp add: inNetwork_def)
  show "inNetwork (a, b, c, d) ((n, m, 0, 0), 16) \<longleftrightarrow> a = n \<and> b = m" if "m < 256"
  proof -
    have "inNetwork (a, b, c, d) ((n, m, 0, 0), 16) \<longleftrightarrow> a * 256 + b = n * 256 + m"
      using whole ipv4Number_div [OF that zero zero, of n] by (simp add: inNetwork_def)
    also have "\<dots> \<longleftrightarrow> a = n \<and> b = m" using assms(1) that by (rule base_digits)
    finally show ?thesis .
  qed
  show "inNetwork (a, b, c, d) ((n, m, k, 0), 24) \<longleftrightarrow> a = n \<and> b = m \<and> c = k" if "m < 256" "k < 256"
  proof -
    have "inNetwork (a, b, c, d) ((n, m, k, 0), 24) \<longleftrightarrow> (a * 256 + b) * 256 + c = (n * 256 + m) * 256 + k"
      using whole ipv4Number_div [OF that zero, of n] by (simp add: inNetwork_def)
    also have "\<dots> \<longleftrightarrow> a = n \<and> b = m \<and> c = k"
      unfolding base_digits [OF assms(2) that(2)] base_digits [OF assms(1) that(1)] by blast
    finally show ?thesis .
  qed
qed

lemma inNetwork_prefixes:
  assumes "b < 256" and "c < 256" and "d < 256" and "a < 256"
  shows "inNetwork (a, b, c, d) ((100, 64, 0, 0), 10) \<longleftrightarrow> a = 100 \<and> 64 \<le> b \<and> b \<le> 127"
    and "inNetwork (a, b, c, d) ((172, 16, 0, 0), 12) \<longleftrightarrow> a = 172 \<and> 16 \<le> b \<and> b \<le> 31"
    and "inNetwork (a, b, c, d) ((198, 18, 0, 0), 15) \<longleftrightarrow> a = 198 \<and> (b = 18 \<or> b = 19)"
    and "inNetwork (a, b, c, d) ((224, 0, 0, 0), 3) \<longleftrightarrow> 224 \<le> a"
proof -
  note whole = ipv4Number_prefix [OF assms(1-3)]
  have n: "ipv4Number (100, 64, 0, 0) div 2 ^ 22 = 401" "ipv4Number (172, 16, 0, 0) div 2 ^ 20 = 2753"
    "ipv4Number (198, 18, 0, 0) div 2 ^ 17 = 25353" "ipv4Number (224, 0, 0, 0) div 2 ^ 29 = 7"
    by (simp_all add: ipv4Number_def)
  have split: "(a * 256 + b) div 64 = a * 4 + b div 64" "(a * 256 + b) div 16 = a * 16 + b div 16"
    "(a * 256 + b) div 2 = a * 128 + b div 2" by simp_all
  have low: "b div 64 < 4" "b div 16 < 16" "b div 2 < 128" using assms(1) by simp_all
  have "inNetwork (a, b, c, d) ((100, 64, 0, 0), 10) \<longleftrightarrow> a * 4 + b div 64 = 401"
    using whole(1) [of a] n(1) split(1) by (simp add: inNetwork_def)
  also have "\<dots> \<longleftrightarrow> a = 100 \<and> b div 64 = 1" using base_digits [OF low(1), of 1 a 100] by simp
  also have "\<dots> \<longleftrightarrow> a = 100 \<and> 64 \<le> b \<and> b \<le> 127" by auto
  finally show "inNetwork (a, b, c, d) ((100, 64, 0, 0), 10) \<longleftrightarrow> a = 100 \<and> 64 \<le> b \<and> b \<le> 127" .
  have "inNetwork (a, b, c, d) ((172, 16, 0, 0), 12) \<longleftrightarrow> a * 16 + b div 16 = 2753"
    using whole(2) [of a] n(2) split(2) by (simp add: inNetwork_def)
  also have "\<dots> \<longleftrightarrow> a = 172 \<and> b div 16 = 1" using base_digits [OF low(2), of 1 a 172] by simp
  also have "\<dots> \<longleftrightarrow> a = 172 \<and> 16 \<le> b \<and> b \<le> 31" by auto
  finally show "inNetwork (a, b, c, d) ((172, 16, 0, 0), 12) \<longleftrightarrow> a = 172 \<and> 16 \<le> b \<and> b \<le> 31" .
  have "inNetwork (a, b, c, d) ((198, 18, 0, 0), 15) \<longleftrightarrow> a * 128 + b div 2 = 25353"
    using whole(3) [of a] n(3) split(3) by (simp add: inNetwork_def)
  also have "\<dots> \<longleftrightarrow> a = 198 \<and> b div 2 = 9" using base_digits [OF low(3), of 9 a 198] by simp
  also have "\<dots> \<longleftrightarrow> a = 198 \<and> (b = 18 \<or> b = 19)" by auto
  finally show "inNetwork (a, b, c, d) ((198, 18, 0, 0), 15) \<longleftrightarrow> a = 198 \<and> (b = 18 \<or> b = 19)" .
  have "inNetwork (a, b, c, d) ((224, 0, 0, 0), 3) \<longleftrightarrow> a div 32 = 7"
    using whole(4) [of a] n(4) by (simp add: inNetwork_def)
  with assms show "inNetwork (a, b, c, d) ((224, 0, 0, 0), 3) \<longleftrightarrow> 224 \<le> a" by auto
qed

subsection \<open>Properties\<close>

text \<open>
  The address filter is the list of networks: an address is blocked exactly when it lies in one of the
  loopback, private, shared, link-local, documentation, benchmarking, multicast and reserved blocks.
\<close>

theorem blocked_ipv4_networks:
  assumes "a < 256" and "b < 256" and "c < 256" and "d < 256"
  shows "isBlockedIpv4 (a, b, c, d) \<longleftrightarrow> list_ex (inNetwork (a, b, c, d)) blockedNetworks"
proof -
  note octets = inNetwork_octets [OF assms(2-4)] and prefixes = inNetwork_prefixes [OF assms(2-4) assms(1)]
  have "list_ex (inNetwork (a, b, c, d)) blockedNetworks \<longleftrightarrow>
      a = 0 \<or> a = 10 \<or> a = 127 \<or> a = 100 \<and> 64 \<le> b \<and> b \<le> 127 \<or> a = 169 \<and> b = 254 \<or> a = 172 \<and> 16 \<le> b \<and> b \<le> 31 \<or>
      a = 192 \<and> b = 0 \<or> a = 192 \<and> b = 168 \<or> a = 198 \<and> (b = 18 \<or> b = 19) \<or> a = 198 \<and> b = 51 \<and> c = 100 \<or>
      a = 203 \<and> b = 0 \<and> c = 113 \<or> 224 \<le> a"
    by (simp add: blockedNetworks_def octets prefixes)
  then show ?thesis unfolding isBlockedIpv4_def prod.case by argo
qed

theorem blocked_ipv4_networks_witness:
  "isBlockedIpv4 (172, 20, 3, 4) \<longleftrightarrow> list_ex (inNetwork (172, 20, 3, 4)) blockedNetworks"
  by (rule blocked_ipv4_networks) simp_all


text \<open>
  The body of a fetched page is bounded: at most \<open>maxBytes\<close> bytes are kept, the first ones the server
  sent; the page is marked truncated only when the limit is reached, and otherwise every byte is kept.
\<close>

theorem fetched_body_bounded:
  assumes "readTextLimited P response n = Inr (body, truncated, bytes)" and "fr_body response = Some chunks"
  shows "\<exists>vs. list_all2 (\<lambda>c v. c = Inr v) (take (length vs) chunks) vs \<and>
    body = gp_decodeText P (take n (concat vs)) \<and> bytes = min n (length (concat vs)) \<and>
    (truncated \<longrightarrow> bytes = n) \<and> (\<not> truncated \<longrightarrow> length vs = length chunks \<and> bytes = length (concat vs))"
proof -
  from assms obtain got where "readChunks n chunks [] = Inr (got, truncated)" and got: "body = gp_decodeText P got" "bytes = length got"
    by (auto simp: readTextLimited_def guard_simps)
  have "readResult n chunks [] got truncated" by (rule readChunks_result [OF \<open>readChunks n chunks [] = Inr (got, truncated)\<close>]) simp
  then obtain vs where "list_all2 (\<lambda>c v. c = Inr v) (take (length vs) chunks) vs"
    and "got = take n (concat vs)" and "truncated \<longrightarrow> length got = n"
    and "\<not> truncated \<longrightarrow> length vs = length chunks \<and> length (concat vs) \<le> n"
    unfolding readResult_def append_Nil by blast
  then show ?thesis using got by (intro exI [of _ vs]) (auto simp: min_def)
qed

subsection \<open>A quiet host\<close>

text \<open>Concrete parameters for the examples: nothing is stored, every call succeeds.\<close>

definition quietHost :: GenHost where
  "quietHost = \<lparr>
     gh_now = (\<lambda>_. 1000), gh_isoNow = (\<lambda>_. ''2026-01-01T00:00:00.000Z''), gh_dbFault = (\<lambda>_. None), gh_others = (\<lambda>_ t. t),
     gh_readNode = (\<lambda>_ _ _. Inr None), gh_mkdirNode = (\<lambda>_ _ _. Inr ()),
     gh_writeNode = (\<lambda>k r. Inr \<lparr>wa_path = wr_path r, wa_kind = wr_kind r, wa_etag = natToDec k\<rparr>),
     gh_searchNodes = (\<lambda>_ _ _ _ _. Inr []), gh_checkDatabaseWriteCycles = (\<lambda>_ _. Inr ()),
     gh_checkSourceRunSession = (\<lambda>_ _ _ _ _. Inr ()), gh_checkSourceCaptureTriggerSession = (\<lambda>_ _ _ _. Inr ()),
     gh_rerank = (\<lambda>_ _. Inl True), gh_complete = (\<lambda>_ _. Inl None), gh_send = (\<lambda>_ _. Inr ()),
     gh_resend = (\<lambda>_ _ _. Inr ()), gh_deadLetter = (\<lambda>_ _. Inr ()), gh_createVfsClient = (\<lambda>_. Inr ()),
     gh_fetch = (\<lambda>_ _. Inr \<lparr>fr_status = 200, fr_contentType = Some ''text/plain'', fr_location = None, fr_body = Some [Inr [104, 105]]\<rparr>),
     gh_listPublicDatabases = (\<lambda>_. Inr []), gh_renderImage = (\<lambda>_ _. Inr []), gh_putImage = (\<lambda>_ _ _. Inr ()),
     gh_random = (\<lambda>_ _. 0)\<rparr>"

definition plainPlatform :: GenPlatform where
  "plainPlatform = \<lparr>
     gp_parseUrl = (\<lambda>v. Some \<lparr>up_protocol = ''https:'', up_hostname = ''example.org'', up_href = v\<rparr>),
     gp_resolveUrl = (\<lambda>location base. Some location), gp_decodeText = map (\<lambda>b. char_of (unat b)),
     gp_sha256 = (\<lambda>_. replicate 32 0), gp_dateParse = (\<lambda>_. None),
     gp_nfkc = (\<lambda>s. s), gp_numberText = (\<lambda>s. s),
     gp_defaultModel = ''model'',
     gp_jev = \<lparr>jp_number = (\<lambda>_. Some 0), jp_decode = map (\<lambda>b. char_of (unat b))\<rparr>\<rparr>"

definition sampleChunks :: "(string + byte list) list" where
  "sampleChunks = [Inr [104, 105], Inr [33]]"

theorem fetched_body_bounded_witness:
  "\<exists>vs. list_all2 (\<lambda>c v. c = Inr v) (take (length vs) sampleChunks) vs \<and>
    gp_decodeText plainPlatform [104] = gp_decodeText plainPlatform (take 1 (concat vs)) \<and> 1 = min 1 (length (concat vs)) \<and>
    (True \<longrightarrow> (1::nat) = 1) \<and> (\<not> True \<longrightarrow> length vs = length sampleChunks \<and> 1 = length (concat vs))"
  by (rule fetched_body_bounded [where response =
        "\<lparr>fr_status = 200, fr_contentType = None, fr_location = None, fr_body = Some sampleChunks\<rparr>"])
    (simp_all add: readTextLimited_def sampleChunks_def)

subsection \<open>Where the code falls short\<close>

text \<open>
  The host filter compares the name as written: the fully qualified spelling of a local name passes.
  Entities are decoded one after the other, \<^verbatim>\<open>&amp;\<close> first, so an escaped entity is decoded twice. The
  code blocks are put back with \<open>replaceAll\<close>, which reads \<^verbatim>\<open>$\<close> in them as a replacement pattern.
\<close>

lemma trailing_dot_host_allowed: "isBlockedHostname ''localhost'' \<and> \<not> isBlockedHostname ''localhost.''"
  by code_simp

lemma entity_decoded_twice: "decodeEntities ''&amp;lt;b&amp;gt;'' = ''<b>''"
  by code_simp

lemma dollar_in_code_block: "restorePreBlocks (preBlockPlaceholder 0) [''echo $$''] = ''echo $''"
  by code_simp

end
