(* ===== verification/Generator_Stem.thy ===== *)
theory Generator_Stem
  imports Generator_Fetch
begin

section \<open>Source file names\<close>

text \<open>
  The naming rules of \<^verbatim>\<open>packages/source-contracts/index.js\<close>: the stem of a captured source is a slug of its
  title and eight hexadecimal digits, at most 128 bytes of UTF-8. Compatibility normalization (NFKC) is a
  parameter; it leaves ASCII text unchanged, so the last fallback \<open>slugTitle("source")\<close> is \<open>"source"\<close>.
\<close>

definition MAX_SOURCE_STEM_BYTES :: nat where
  "MAX_SOURCE_STEM_BYTES = 128"

text \<open>The letters and numbers of Unicode among the code units below 256.\<close>

definition isUnicodeAlphanumeric :: "char \<Rightarrow> bool" where
  "isUnicodeAlphanumeric c \<longleftrightarrow>
     isAsciiAlnum c \<or> charCode c \<in> {170, 178, 179, 181, 185, 186, 188, 189, 190} \<or>
     192 \<le> charCode c \<and> charCode c \<noteq> 215 \<and> charCode c \<noteq> 247"

definition isSourceStemChar :: "char \<Rightarrow> bool" where
  "isSourceStemChar c \<longleftrightarrow> isUnicodeAlphanumeric c \<or> c = CHR ''.'' \<or> c = CHR ''_'' \<or> c = CHR ''-''"

fun stemChars :: "bool \<Rightarrow> string \<Rightarrow> string" where
  "stemChars lastWasDash [] = []"
| "stemChars lastWasDash (c # s) =
     (if isSourceStemChar c then c # stemChars False s
      else if \<not> lastWasDash then CHR ''-'' # stemChars True s
      else stemChars True s)"

text \<open>\<^verbatim>\<open>/\.{2,}/g\<close>, \<^verbatim>\<open>/-+/g\<close> and \<^verbatim>\<open>/^[._-]+|[._-]+$/g\<close>.\<close>

definition dotsMatch :: "string \<Rightarrow> (nat \<times> unit) option" where
  "dotsMatch s = (let run = takeWhile (\<lambda>c. c = CHR ''.'') s in if 2 \<le> length run then Some (length run, ()) else None)"

definition dashesMatch :: "string \<Rightarrow> (nat \<times> unit) option" where
  "dashesMatch s = (let run = takeWhile (\<lambda>c. c = CHR ''-'') s in if run = [] then None else Some (length run, ()))"

definition isStemEdge :: "char \<Rightarrow> bool" where
  "isStemEdge c \<longleftrightarrow> c \<in> set ''._-''"

definition trimStemEnd :: "string \<Rightarrow> string" where
  "trimStemEnd s = rev (dropWhile isStemEdge (rev s))"

text \<open>One pass of \<open>slugTitle\<close>: \<open>None\<close> when it falls back.\<close>

definition slugOnce :: "GenPlatform \<Rightarrow> string \<Rightarrow> string option" where
  "slugOnce P v =
     (let source = trim (toLowerCase (gp_nfkc P v));
          output = stemChars False source;
          normalized = trimStemEnd (dropWhile isStemEdge
            (replaceMatches dashesMatch ''-'' (replaceMatches dotsMatch ''-'' output)))
      in if normalized \<noteq> [] \<and> isUnicodeAlphanumeric (hd normalized) then Some normalized else None)"

definition slugTitle :: "GenPlatform \<Rightarrow> string \<Rightarrow> string \<Rightarrow> string" where
  "slugTitle P v fallback =
     (case slugOnce P v of
        Some s \<Rightarrow> s
      | None \<Rightarrow>
          (case slugOnce P (if fallback \<noteq> [] \<and> fallback \<noteq> v then fallback else ''source'') of
             Some s \<Rightarrow> s
           | None \<Rightarrow> ''source''))"

fun natToHex :: "nat \<Rightarrow> string" where
  "natToHex n = (if n < 16 then [hexDigit n] else natToHex (n div 16) @ [hexDigit (n mod 16)])"

declare natToHex.simps [simp del]

definition fnv1aHex :: "string \<Rightarrow> string" where
  "fnv1aHex v = padStart 8 (CHR ''0'') (natToHex (fnv1a32 v))"

definition safeHash8 :: "string \<Rightarrow> string" where
  "safeHash8 v =
     (let hash = toLowerCase v in
      if length hash = 8 \<and> list_all isLowerHex hash then hash else take 8 (fnv1aHex hash))"

definition sha256Hex :: "GenPlatform \<Rightarrow> string \<Rightarrow> string" where
  "sha256Hex P v = concat (map (\<lambda>b. padStart 2 (CHR ''0'') (natToHex (unat b))) (gp_sha256 P (utf8Encode v)))"

definition utf8ByteLength :: "string \<Rightarrow> nat" where
  "utf8ByteLength v = length (utf8Encode v)"

fun takeBytes :: "nat \<Rightarrow> string \<Rightarrow> string \<Rightarrow> string" where
  "takeBytes maxBytes prefix [] = prefix"
| "takeBytes maxBytes prefix (c # s) =
     (if utf8ByteLength (prefix @ [c]) > maxBytes then prefix else takeBytes maxBytes (prefix @ [c]) s)"

definition truncateStem :: "string \<Rightarrow> string \<Rightarrow> string" where
  "truncateStem stem hash =
     (if utf8ByteLength stem \<le> MAX_SOURCE_STEM_BYTES then stem
      else
        let suffix = ''-'' @ hash;
            maxPrefixBytes = MAX_SOURCE_STEM_BYTES - utf8ByteLength suffix;
            prefix = takeBytes maxPrefixBytes [] (take (length stem - length suffix) stem);
            trimmed = (if trimStemEnd prefix = [] then ''source'' else trimStemEnd prefix)
        in trimmed @ suffix)"

definition sourceStemFromTitleHash :: "GenPlatform \<Rightarrow> string \<Rightarrow> string \<Rightarrow> string \<Rightarrow> string" where
  "sourceStemFromTitleHash P title hash8 fallback =
     (let hash = safeHash8 hash8; slug = slugTitle P title fallback in truncateStem (slug @ ''-'' @ hash) hash)"

definition hostnameForUrl :: "GenPlatform \<Rightarrow> string \<Rightarrow> string" where
  "hostnameForUrl P v =
     (case gp_parseUrl P v of
        None \<Rightarrow> ''web-source''
      | Some url \<Rightarrow> if up_hostname url = [] then ''web-source'' else up_hostname url)"

definition sourcePathForUrl :: "GenPlatform \<Rightarrow> string \<Rightarrow> string \<Rightarrow> string \<Rightarrow> string" where
  "sourcePathForUrl P sourcePrefix finalUrl title =
     (let hash = take 8 (sha256Hex P finalUrl) in
      sourcePrefix @ ''/web/'' @ sourceStemFromTitleHash P title hash (hostnameForUrl P finalUrl) @ ''.md'')"

definition sourcePathVariant :: "string \<Rightarrow> nat \<Rightarrow> string" where
  "sourcePathVariant basePath attempt =
     (if attempt = 1 then basePath
      else if endsWith basePath ''.md'' then take (length basePath - 3) basePath @ ''-'' @ natToDec attempt @ ''.md''
      else basePath @ ''-'' @ natToDec attempt)"

subsection \<open>Stems are bounded and safe\<close>

lemma set_replaceFold: "set (fst (replaceFold m (\<lambda>st _. (r, st)) st s)) \<subseteq> set s \<union> set r"
proof (induction s arbitrary: st rule: length_induct)
    case (1 s)
    show ?case
    proof (cases s)
      case (Cons c t)
      have "set (fst (replaceFold m (\<lambda>st _. (r, st)) st (drop n t))) \<subseteq> set t \<union> set r" for n
      proof -
        have "length (drop n t) < length s" using Cons by simp
        with 1 have "set (fst (replaceFold m (\<lambda>st _. (r, st)) st (drop n t))) \<subseteq> set (drop n t) \<union> set r" by blast
        with set_drop_subset [of n t] show ?thesis by blast
      qed
      note rest = this
      show ?thesis
      proof (cases "m s")
        case None
        with rest [of 0] show ?thesis by (auto simp: Cons Let_def)
      next
        case (Some p)
        obtain n x where "p = (n, x)" by (cases p)
        with Some rest [of "n - 1"] show ?thesis by (auto simp: Cons Let_def)
      qed
    qed simp
qed

lemma set_replaceMatches: "set (replaceMatches m r s) \<subseteq> set s \<union> set r"
  unfolding replaceMatches_def by (rule set_replaceFold)

lemma set_stemChars: "set (stemChars b s) \<subseteq> {c. isSourceStemChar c}"
  by (induction s arbitrary: b) (auto simp: isSourceStemChar_def)

lemma set_trimStemEnd: "set (trimStemEnd s) \<subseteq> set s"
  unfolding trimStemEnd_def by (metis set_dropWhileD set_rev subsetI)

lemma slugOnce_chars:
  assumes "slugOnce P v = Some slug"
  shows "slug \<noteq> [] \<and> set slug \<subseteq> {c. isSourceStemChar c}"
proof -
  define out where "out = stemChars False (trim (toLowerCase (gp_nfkc P v)))"
  define dots where "dots = replaceMatches dotsMatch ''-'' out"
  define dashes where "dashes = replaceMatches dashesMatch ''-'' dots"
  have slug: "slug = trimStemEnd (dropWhile isStemEdge dashes)" and ne: "slug \<noteq> []"
    using assms by (auto simp: slugOnce_def Let_def out_def dots_def dashes_def split: if_splits)
  have dash: "isSourceStemChar (CHR ''-'')" by (simp add: isSourceStemChar_def)
  have "set out \<subseteq> {c. isSourceStemChar c}" unfolding out_def by (rule set_stemChars)
  then have "set dots \<subseteq> {c. isSourceStemChar c}"
    using set_replaceMatches [of dotsMatch "''-''" out] dash unfolding dots_def by auto
  then have "set dashes \<subseteq> {c. isSourceStemChar c}"
    using set_replaceMatches [of dashesMatch "''-''" dots] dash unfolding dashes_def by auto
  then have "set (dropWhile isStemEdge dashes) \<subseteq> {c. isSourceStemChar c}" by (meson set_dropWhileD subset_iff)
  then show ?thesis using ne set_trimStemEnd [of "dropWhile isStemEdge dashes"] unfolding slug by blast
qed

lemma slugTitle_chars: "slugTitle P v fallback \<noteq> [] \<and> set (slugTitle P v fallback) \<subseteq> {c. isSourceStemChar c}"
proof -
  have "''source'' \<noteq> [] \<and> set ''source'' \<subseteq> {c. isSourceStemChar c}"
    by (simp add: isSourceStemChar_def isUnicodeAlphanumeric_def isAsciiAlnum_def)
  then show ?thesis using slugOnce_chars by (auto simp: slugTitle_def split: option.split)
qed

lemma hexDigit_lower: "n < 16 \<Longrightarrow> isLowerHex (hexDigit n)"
  by (auto simp: hexDigit_def isLowerHex_def isDigit_def)

lemma natToHex_lower: "list_all isLowerHex (natToHex n)"
  by (induction n rule: natToHex.induct) (subst natToHex.simps, auto simp: hexDigit_lower)

lemma safeHash8_hex: "length (safeHash8 v) = 8 \<and> list_all isLowerHex (safeHash8 v)"
proof -
  have "list_all isLowerHex (fnv1aHex v)" for v
  proof -
    have zero: "isLowerHex (CHR ''0'')" by (simp add: isLowerHex_def isDigit_def)
    show ?thesis using natToHex_lower [of "fnv1a32 v"] zero by (auto simp: fnv1aHex_def padStart_def list_all_iff)
  qed
  moreover have "8 \<le> length (fnv1aHex v)" for v by (simp add: fnv1aHex_def padStart_def)
  ultimately show ?thesis
    by (auto simp: safeHash8_def Let_def list_all_iff dest: in_set_takeD)
qed

lemma isLowerHex_stem: "isLowerHex c \<Longrightarrow> isSourceStemChar c \<and> charCode c < 128"
  by (auto simp: isLowerHex_def isSourceStemChar_def isUnicodeAlphanumeric_def isAsciiAlnum_def isDigit_def)

lemma utf8ByteLength_simps [simp]:
  "utf8ByteLength [] = 0" "utf8ByteLength (s @ t) = utf8ByteLength s + utf8ByteLength t"
  "utf8ByteLength (c # s) = length (utf8Char c) + utf8ByteLength s"
  by (simp_all add: utf8ByteLength_def utf8Encode_def)

lemma utf8ByteLength_ascii: "(\<And>c. c \<in> set s \<Longrightarrow> charCode c < 128) \<Longrightarrow> utf8ByteLength s = length s"
  by (induction s) (simp_all add: utf8Char_def)

lemma takeBytes_bounds:
  "utf8ByteLength p \<le> n \<Longrightarrow> utf8ByteLength (takeBytes n p s) \<le> n \<and> set (takeBytes n p s) \<subseteq> set p \<union> set s"
  by (induction s arbitrary: p) (auto simp del: utf8ByteLength_simps(3), force+)

lemma utf8ByteLength_trimStemEnd: "utf8ByteLength (trimStemEnd s) \<le> utf8ByteLength s"
proof -
  have "s = trimStemEnd s @ rev (takeWhile isStemEdge (rev s))"
    unfolding trimStemEnd_def by (metis rev_append rev_rev_ident takeWhile_dropWhile_id)
  then show ?thesis by (metis le_add1 utf8ByteLength_simps(2))
qed

lemma stem_bounds:
  fixes P title hash fallback
  defines "stem \<equiv> sourceStemFromTitleHash P title hash fallback"
  shows "utf8ByteLength stem \<le> 128" and "set stem \<subseteq> {c. isSourceStemChar c}"
proof -
  define h where "h = safeHash8 hash"
  define slug where "slug = slugTitle P title fallback"
  have h: "length h = 8" "list_all isLowerHex h" using safeHash8_hex by (simp_all add: h_def)
  have "list_all isLowerHex h \<Longrightarrow> utf8ByteLength h = length h"
    by (rule utf8ByteLength_ascii) (auto simp: list_all_iff isLowerHex_stem)
  with h have suffix: "utf8ByteLength (''-'' @ h) = 9" by (simp add: utf8Char_def)
  have stemh: "set (''-'' @ h) \<subseteq> {c. isSourceStemChar c}"
    using h(2) isLowerHex_stem by (auto simp: list_all_iff isSourceStemChar_def)
  have slugc: "set slug \<subseteq> {c. isSourceStemChar c}" using slugTitle_chars by (simp add: slug_def)
  define prefix where "prefix = takeBytes 119 [] (take (length (slug @ ''-'' @ h) - length (''-'' @ h)) (slug @ ''-'' @ h))"
  have pre: "prefix = takeBytes 119 [] slug" by (simp add: prefix_def)
  have p: "utf8ByteLength prefix \<le> 119" "set prefix \<subseteq> set slug"
    using takeBytes_bounds [of "[]" 119 slug] by (simp_all add: pre)
  define trimmed where "trimmed = (if trimStemEnd prefix = [] then ''source'' else trimStemEnd prefix)"
  have "utf8ByteLength ''source'' = 6" by (simp add: utf8Char_def)
  then have t: "utf8ByteLength trimmed \<le> 119"
    using p(1) utf8ByteLength_trimStemEnd [of prefix] by (simp add: trimmed_def)
  have "set ''source'' \<subseteq> {c. isSourceStemChar c}"
    by (simp add: isSourceStemChar_def isUnicodeAlphanumeric_def isAsciiAlnum_def)
  then have tc: "set trimmed \<subseteq> {c. isSourceStemChar c}"
    using p(2) slugc set_trimStemEnd [of prefix] unfolding trimmed_def by auto
  have stem: "stem = (if utf8ByteLength (slug @ ''-'' @ h) \<le> 128 then slug @ ''-'' @ h else trimmed @ ''-'' @ h)"
    unfolding stem_def sourceStemFromTitleHash_def truncateStem_def MAX_SOURCE_STEM_BYTES_def trimmed_def prefix_def
    using suffix by (simp add: Let_def h_def slug_def)
  show "utf8ByteLength stem \<le> 128" using t suffix by (simp add: stem)
  show "set stem \<subseteq> {c. isSourceStemChar c}" using stemh slugc tc by (auto simp: stem)
qed

lemma source_path_segments:
  assumes "CHR ''/'' \<notin> set name" and "name \<noteq> []"
  shows "validateSourceRootPath (prefix @ ''/web/'' @ name @ ''.md'') prefix = Inr ()"
proof -
  have "splitOn (CHR ''/'') (''web/'' @ name @ ''.md'') = [''web'', name @ ''.md'']"
    using splitOn_append [of "CHR ''/''" "''web''" "name @ ''.md''"] splitOn_no_sep [of "CHR ''/''" "name @ ''.md''"] assms(1)
    by simp
  moreover have "name @ ''.md'' \<notin> {[], ''.'', ''..''}" by (cases name) auto
  moreover have "trim (''web/'' @ name @ ''.md'') \<noteq> []"
    by (simp add: trim_def trimStart_def trimEnd_Cons_nonspace isJsSpace_def)
  moreover have "startsWith (prefix @ ''/web/'' @ name @ ''.md'') (prefix @ ''/'')" by (simp add: startsWith_def)
  moreover have "drop (length (prefix @ ''/'')) (prefix @ ''/web/'' @ name @ ''.md'') = ''web/'' @ name @ ''.md''" by simp
  ultimately show ?thesis by (simp only: validateSourceRootPath_def Let_def) simp
qed

lemma variant_name:
  "sourcePathVariant (prefix @ ''/web/'' @ stem @ ''.md'') n =
     prefix @ ''/web/'' @ (if n = 1 then stem else stem @ ''-'' @ natToDec n) @ ''.md''"
proof -
  have "take (length (prefix @ ''/web/'' @ stem @ ''.md'') - 3) ((prefix @ ''/web/'' @ stem) @ ''.md'') = prefix @ ''/web/'' @ stem"
    by (subst take_append) simp
  then show ?thesis by (simp add: sourcePathVariant_def endsWith_def startsWith_def)
qed

text \<open>
  The path of a captured source is well formed for every page: its name is at most 128 bytes long
  and made of letters, numbers, dots, dashes and underscores, and the path and all its numbered variants pass
  the check the worker makes before it generates from a source.
\<close>

theorem captured_source_path_valid:
  "\<exists>stem. sourcePathForUrl P prefix url title = prefix @ ''/web/'' @ stem @ ''.md'' \<and>
     utf8ByteLength stem \<le> 128 \<and> list_all isSourceStemChar stem \<and>
     validateSourceRootPath (sourcePathVariant (sourcePathForUrl P prefix url title) n) prefix = Inr ()"
proof -
  define stem where "stem = sourceStemFromTitleHash P title (take 8 (sha256Hex P url)) (hostnameForUrl P url)"
  have path: "sourcePathForUrl P prefix url title = prefix @ ''/web/'' @ stem @ ''.md''"
    by (simp add: sourcePathForUrl_def stem_def)
  have chars: "set stem \<subseteq> {c. isSourceStemChar c}" and len: "utf8ByteLength stem \<le> 128"
    unfolding stem_def by (rule stem_bounds)+
  have "\<not> isSourceStemChar (CHR ''/'')"
    by (simp add: isSourceStemChar_def isUnicodeAlphanumeric_def isAsciiAlnum_def isDigit_def)
  with chars have "CHR ''/'' \<notin> set stem" by blast
  moreover have "CHR ''/'' \<notin> set (natToDec n)" using natToDec_digits [of n] by (auto simp: list_all_iff isDigit_def)
  moreover have "stem \<noteq> []"
    using safeHash8_hex by (simp add: stem_def sourceStemFromTitleHash_def truncateStem_def Let_def)
  ultimately have "validateSourceRootPath (sourcePathVariant (sourcePathForUrl P prefix url title) n) prefix = Inr ()"
    unfolding path variant_name by (intro source_path_segments) auto
  with path len chars show ?thesis by (intro exI [of _ stem]) (auto simp: list_all_iff)
qed

end
