(* ===== verification/Generator_Frontmatter.thy ===== *)
theory Generator_Frontmatter
  imports Generator_Draft
begin

section \<open>Generator worker: front matter\<close>

text \<open>
  \<^verbatim>\<open>workers/wiki-generator/src/frontmatter.ts\<close>: the header of the nodes the worker owns, one \<open>key: value\<close>
  line per field between two \<^verbatim>\<open>---\<close> lines, strings as JSON literals. A parsed field is \<open>None\<close> for
  \<open>null\<close>; a field that is absent where it is copied is written as \<open>String(undefined)\<close>; the
  numbers the worker writes are natural. A quoted value that is not a JSON literal makes \<open>JSON.parse\<close> throw.
\<close>

datatype FrontmatterValue = FmUndefined | FmNull | FmBool bool | FmNum nat | FmText string

record FrontmatterDocument =
  fd_fields :: "string \<rightharpoonup> string option"
  fd_body :: string

subsection \<open>Reading\<close>

text \<open>The first match of \<^verbatim>\<open>/\n---(?:\n|$)/\<close>: its index and its length.\<close>

fun frontmatterTerminator :: "string \<Rightarrow> (nat \<times> nat) option" where
  "frontmatterTerminator [] = None"
| "frontmatterTerminator (c # s) =
     (if c = CHR 0x0A \<and> startsWith s ''---'' \<and> (length s = 3 \<or> s ! 3 = CHR 0x0A)
      then Some (0, if length s = 3 then 4 else 5)
      else map_option (\<lambda>(i, n). (Suc i, n)) (frontmatterTerminator s))"

text \<open>The match of \<^verbatim>\<open>/^([^:\s][^:]*):(.*)$/\<close>: the key and the value.\<close>

definition fieldLine :: "string \<Rightarrow> (string \<times> string) option" where
  "fieldLine line =
     (let key = takeWhile (\<lambda>c. c \<noteq> CHR '':'') line; rest = dropWhile (\<lambda>c. c \<noteq> CHR '':'') line in
      if key = [] \<or> isJsSpace (hd key) \<or> rest = [] \<or> list_ex (\<lambda>c. charCode c = 10 \<or> charCode c = 13) (tl rest)
      then None else Some (key, tl rest))"

definition parseScalar :: "string \<Rightarrow> gen_error + string option" where
  "parseScalar v =
     (if v = ''null'' then Inr None
      else if startsWith v [CHR 0x22] \<and> endsWith v [CHR 0x22] then
        (case JSON_parse v of Some (JStr s) \<Rightarrow> Inr (Some s) | _ \<Rightarrow> Inl (GenHostError ''JSON.parse''))
      else Inr (Some v))"

fun readFields :: "string list \<Rightarrow> (string \<rightharpoonup> string option) \<Rightarrow> gen_error + (string \<rightharpoonup> string option)" where
  "readFields [] acc = Inr acc"
| "readFields (line # lines) acc =
     (case fieldLine line of
        None \<Rightarrow> readFields lines acc
      | Some (key, v) \<Rightarrow>
          bindR (parseScalar (trim v)) (\<lambda>x.
            readFields lines (if trim key = ''__proto__'' then acc else acc(trim key \<mapsto> x))))"

definition parseFrontmatter :: "string \<Rightarrow> gen_error + FrontmatterDocument option" where
  "parseFrontmatter content =
     (if \<not> startsWith content (''---'' @ newline) then Inr None
      else
        let rest = drop 4 content in
        case frontmatterTerminator rest of
          None \<Rightarrow> Inr None
        | Some (index, len) \<Rightarrow>
            bindR (readFields (splitOn (CHR 0x0A) (take index rest)) Map.empty) (\<lambda>fs.
              Inr (Some \<lparr>fd_fields = fs, fd_body = drop (index + len) rest\<rparr>)))"

subsection \<open>Writing\<close>

definition formatScalar :: "FrontmatterValue \<Rightarrow> string" where
  "formatScalar v =
     (case v of
        FmUndefined \<Rightarrow> quoteJson ''undefined''
      | FmNull \<Rightarrow> ''null''
      | FmBool b \<Rightarrow> if b then ''true'' else ''false''
      | FmNum n \<Rightarrow> natToDec n
      | FmText s \<Rightarrow> quoteJson s)"

definition renderFrontmatter :: "(string \<times> FrontmatterValue) list \<Rightarrow> string \<Rightarrow> string" where
  "renderFrontmatter fs body =
     ''---'' @ newline @ joinWith newline (map (\<lambda>(key, v). key @ '': '' @ formatScalar v) fs) @
     newline @ ''---'' @ newline @ newline @ trimStart body"

text \<open>What a written value is read as.\<close>

definition readBack :: "FrontmatterValue \<Rightarrow> string option" where
  "readBack v =
     (case v of
        FmUndefined \<Rightarrow> Some ''undefined''
      | FmNull \<Rightarrow> None
      | FmBool b \<Rightarrow> Some (if b then ''true'' else ''false'')
      | FmNum n \<Rightarrow> Some (natToDec n)
      | FmText s \<Rightarrow> Some s)"

subsection \<open>Reading what was written\<close>

text \<open>Keys the worker writes: no colon, no white space.\<close>

definition plainKey :: "string \<Rightarrow> bool" where
  "plainKey key \<longleftrightarrow> key \<noteq> [] \<and> key \<noteq> ''__proto__'' \<and> CHR '':'' \<notin> set key \<and> list_all (\<lambda>c. \<not> isJsSpace c) key"

lemma quoteJson_chars:
  assumes "c \<in> set (quoteJson s)"
  shows "32 \<le> charCode c"
proof -
  have "32 \<le> charCode d" if "d \<in> set (escapeJsonChar x)" for d x
    using that by (auto simp: escapeJsonChar_def Let_def hexDigit_def of_char_of split: if_splits)
  with assms show ?thesis by (auto simp: quoteJson_def)
qed

lemma digit_not_space: "isDigit c \<Longrightarrow> \<not> isJsSpace c"
  by (auto simp: isDigit_def isJsSpace_def)

lemma formatScalar_undefined: "formatScalar FmUndefined = formatScalar (FmText ''undefined'')"
  by (simp add: formatScalar_def)

lemma formatScalar_line:
  "c \<in> set (formatScalar v) \<Longrightarrow> charCode c \<noteq> 10 \<and> charCode c \<noteq> 13"
proof (cases v)
  case (FmText s)
  assume "c \<in> set (formatScalar v)"
  with FmText quoteJson_chars [of c s] show ?thesis by (auto simp: formatScalar_def)
next
  case (FmNum n)
  assume "c \<in> set (formatScalar v)"
  with FmNum natToDec_digits [of n] show ?thesis by (auto simp: formatScalar_def list_all_iff isDigit_def)
next
  case FmUndefined
  assume "c \<in> set (formatScalar v)"
  with FmUndefined quoteJson_chars [of c "''undefined''"] show ?thesis by (auto simp: formatScalar_def)
qed (auto simp: formatScalar_def split: if_splits)

lemma trim_format: "trim ('' '' @ formatScalar v) = formatScalar v"
proof -
  have sp: "isJsSpace (CHR '' '')" by (simp add: isJsSpace_def)
  have ends: "\<not> isJsSpace (hd (formatScalar v)) \<and> \<not> isJsSpace (last (formatScalar v)) \<and> formatScalar v \<noteq> []"
  proof (cases v)
    case (FmText s)
    then show ?thesis by (simp add: formatScalar_def quoteJson_def isJsSpace_def)
  next
    case (FmNum n)
    have "natToDec n \<noteq> []" by (simp add: natToDec.simps)
    with natToDec_digits [of n] FmNum show ?thesis
      by (auto simp: formatScalar_def list_all_iff digit_not_space)
  qed (simp_all add: formatScalar_def quoteJson_def isJsSpace_def)
  then have "trimStart ('' '' @ formatScalar v) = formatScalar v"
    by (cases "formatScalar v") (simp_all add: trimStart_def sp)
  moreover have "trimEnd (formatScalar v) = formatScalar v"
    using ends by (cases "formatScalar v" rule: rev_cases) (simp_all add: trimEnd_def)
  ultimately show ?thesis by (simp add: trim_def)
qed

lemma parseScalar_format: "parseScalar (formatScalar v) = Inr (readBack v)"
proof -
  have quoted: "parseScalar (quoteJson s) = Inr (Some s)" for s
    using JSON_parse_stringify [of "JStr s"]
    by (simp add: parseScalar_def startsWith_def endsWith_def quoteJson_def)
  show ?thesis
  proof (cases v)
    case (FmNum n)
    have "hd (natToDec n) \<in> set (natToDec n)" by (simp add: natToDec.simps)
    with natToDec_digits [of n] have d: "isDigit (hd (natToDec n))" by (auto simp: list_all_iff)
    have "natToDec n \<noteq> ''null''" using d by (auto simp: isDigit_def)
    moreover have "\<not> startsWith (natToDec n) [CHR 0x22]" using d by (auto simp: startsWith_iff isDigit_def)
    ultimately show ?thesis using FmNum by (simp add: parseScalar_def formatScalar_def readBack_def)
  next
    case (FmBool b)
    then show ?thesis by (simp add: parseScalar_def formatScalar_def readBack_def startsWith_def)
  next
    case FmNull
    then show ?thesis by (simp add: parseScalar_def formatScalar_def readBack_def)
  qed (simp_all add: formatScalar_def readBack_def quoted)
qed

definition frontmatterLine :: "string \<times> FrontmatterValue \<Rightarrow> string" where
  "frontmatterLine = (\<lambda>(key, v). key @ '': '' @ formatScalar v)"

lemma fieldLine_written:
  assumes "plainKey key"
  shows "fieldLine (frontmatterLine (key, v)) = Some (key, '' '' @ formatScalar v)"
proof -
  have "takeWhile (\<lambda>c. c \<noteq> CHR '':'') (key @ '': '' @ formatScalar v) = key"
    and "dropWhile (\<lambda>c. c \<noteq> CHR '':'') (key @ '': '' @ formatScalar v) = '': '' @ formatScalar v"
    using assms by (auto simp: plainKey_def takeWhile_append dropWhile_append)
  then show ?thesis
    using assms formatScalar_line
    by (auto simp: fieldLine_def frontmatterLine_def Let_def plainKey_def list_ex_iff list_all_iff)
qed

lemma readFields_written:
  assumes "\<forall>p \<in> set fs. plainKey (fst p)" and "distinct (map fst fs)"
  shows "readFields (map frontmatterLine fs) acc = Inr (acc ++ map_of (map (\<lambda>(k, v). (k, readBack v)) fs))"
  using assms
proof (induction fs arbitrary: acc)
  case (Cons p fs)
  obtain k v where p: "p = (k, v)" by fastforce
  with Cons.prems have k: "plainKey k" and "k \<notin> fst ` set fs" by simp_all
  then have fresh: "k \<notin> dom (map_of (map (\<lambda>(k, v). (k, readBack v)) fs))"
    by (auto simp: dom_map_of_conv_image_fst image_image split_def)
  from k have "trim k = k" and "k \<noteq> ''__proto__''" by (auto simp: plainKey_def trim_no_space)
  with Cons have "readFields (map frontmatterLine (p # fs)) acc =
      Inr (acc(k \<mapsto> readBack v) ++ map_of (map (\<lambda>(k, v). (k, readBack v)) fs))"
    by (simp add: p fieldLine_written [OF k] trim_format [simplified] parseScalar_format)
  moreover have "acc(k \<mapsto> readBack v) ++ map_of (map (\<lambda>(k, v). (k, readBack v)) fs) =
      acc ++ map_of (map (\<lambda>(k, v). (k, readBack v)) (p # fs))"
    unfolding map_add_upd_left [OF fresh] by (rule ext) (simp add: p map_add_def)
  ultimately show ?case by (simp only:)
qed simp

lemma terminator_skip:
  "CHR 0x0A \<notin> set p \<Longrightarrow> frontmatterTerminator (p @ s) = map_option (\<lambda>(i, n). (length p + i, n)) (frontmatterTerminator s)"
  by (induction p) (auto simp: option.map_comp comp_def split_def option.map_ident)

lemma terminator_line:
  assumes "CHR 0x0A \<notin> set line" and "line \<noteq> ''---''"
  shows "frontmatterTerminator (CHR 0x0A # line @ CHR 0x0A # t) =
    map_option (\<lambda>(i, n). (Suc (length line) + i, n)) (frontmatterTerminator (CHR 0x0A # t))"
proof -
  have "\<not> (startsWith (line @ CHR 0x0A # t) ''---'' \<and> (length (line @ CHR 0x0A # t) = 3 \<or> (line @ CHR 0x0A # t) ! 3 = CHR 0x0A))"
  proof
    assume h: "startsWith (line @ CHR 0x0A # t) ''---'' \<and> (length (line @ CHR 0x0A # t) = 3 \<or> (line @ CHR 0x0A # t) ! 3 = CHR 0x0A)"
    then obtain u where u: "line @ CHR 0x0A # t = ''---'' @ u" by (auto simp: startsWith_iff)
    then obtain r where r: "line = ''---'' @ r" and "r @ CHR 0x0A # t = u"
      by (auto simp: append_eq_Cons_conv Cons_eq_append_conv)
    with h have "r = [] \<or> hd r = CHR 0x0A" by (cases r) auto
    with r assms show False by (cases r) auto
  qed
  then have "frontmatterTerminator (CHR 0x0A # line @ CHR 0x0A # t) =
      map_option (\<lambda>(i, n). (Suc i, n)) (frontmatterTerminator (line @ CHR 0x0A # t))"
    by (auto simp del: append_Cons)
  then show ?thesis
    by (simp add: terminator_skip [OF assms(1)] option.map_comp comp_def split_def del: frontmatterTerminator.simps)
qed

lemma terminator_lines:
  assumes "\<forall>line \<in> set lines. CHR 0x0A \<notin> set line \<and> line \<noteq> ''---''"
  shows "frontmatterTerminator (concat (map ((#) (CHR 0x0A)) lines) @ CHR 0x0A # ''---'' @ CHR 0x0A # b) =
    Some (length (concat (map ((#) (CHR 0x0A)) lines)), 5)"
  using assms
proof (induction lines)
  case Nil
  then show ?case by (simp add: startsWith_def)
next
  case (Cons line lines)
  obtain t where t: "concat (map ((#) (CHR 0x0A)) lines) @ CHR 0x0A # ''---'' @ CHR 0x0A # b = CHR 0x0A # t"
    by (cases lines) auto
  have "frontmatterTerminator (concat (map ((#) (CHR 0x0A)) (line # lines)) @ CHR 0x0A # ''---'' @ CHR 0x0A # b) =
      frontmatterTerminator (CHR 0x0A # line @ CHR 0x0A # t)"
    unfolding t [symmetric] by simp
  also have "\<dots> = map_option (\<lambda>(i, n). (Suc (length line) + i, n)) (frontmatterTerminator (CHR 0x0A # t))"
    using Cons.prems by (intro terminator_line) simp_all
  finally show ?case
    using Cons by (simp add: t [symmetric] del: frontmatterTerminator.simps)
qed

lemma joinWith_newlines: "joinWith newline (line # lines) = line @ concat (map ((#) (CHR 0x0A)) lines)"
  by (induction lines arbitrary: line) simp_all

lemma terminator_joined:
  assumes "\<forall>line \<in> set lines. CHR 0x0A \<notin> set line \<and> line \<noteq> ''---''"
  shows "frontmatterTerminator (joinWith newline lines @ newline @ ''---'' @ newline @ b) = Some (length (joinWith newline lines), 5)"
proof (cases lines)
  case Nil
  then show ?thesis by (simp add: startsWith_def)
next
  case (Cons line rest)
  with assms terminator_lines [of rest b] terminator_skip [of line] show ?thesis
    by (simp add: joinWith_newlines del: frontmatterTerminator.simps)
qed

lemma frontmatterLine_ok:
  assumes "plainKey (fst p)"
  shows "CHR 0x0A \<notin> set (frontmatterLine p) \<and> frontmatterLine p \<noteq> ''---''"
proof -
  obtain k v where p: "p = (k, v)" by fastforce
  have "CHR 0x0A \<notin> set k" using assms by (auto simp: p plainKey_def list_all_iff isJsSpace_def)
  moreover have "CHR 0x0A \<notin> set (formatScalar v)" using formatScalar_line [of "CHR 0x0A" v] by auto
  moreover have "CHR '':'' \<in> set (frontmatterLine p)" by (simp add: p frontmatterLine_def)
  moreover have "CHR '':'' \<notin> set ''---''" by simp
  ultimately have "frontmatterLine p \<noteq> ''---''" by metis
  with \<open>CHR 0x0A \<notin> set k\<close> \<open>CHR 0x0A \<notin> set (formatScalar v)\<close> show ?thesis by (simp add: p frontmatterLine_def)
qed

lemma read_written:
  assumes "\<forall>p \<in> set fs. plainKey (fst p)" and "distinct (map fst fs)"
  shows "parseFrontmatter (renderFrontmatter fs body) =
    Inr (Some \<lparr>fd_fields = map_of (map (\<lambda>(k, v). (k, readBack v)) fs), fd_body = newline @ trimStart body\<rparr>)"
proof -
  let ?lines = "map frontmatterLine fs"
  have lines: "\<forall>line \<in> set ?lines. CHR 0x0A \<notin> set line \<and> line \<noteq> ''---''"
    using assms(1) frontmatterLine_ok by auto
  have rendered: "renderFrontmatter fs body =
      ''---'' @ newline @ joinWith newline ?lines @ newline @ ''---'' @ newline @ newline @ trimStart body"
    by (simp add: renderFrontmatter_def frontmatterLine_def)
  have read: "readFields (splitOn (CHR 0x0A) (joinWith newline ?lines)) Map.empty =
      Inr (map_of (map (\<lambda>(k, v). (k, readBack v)) fs))"
  proof (cases fs)
    case Nil
    then show ?thesis by (simp add: fieldLine_def)
  next
    case Cons
    with lines have "splitOn (CHR 0x0A) (joinWith newline ?lines) = ?lines" by (intro splitOn_joinWith) (auto simp: list_all_iff)
    then show ?thesis using readFields_written [OF assms, of Map.empty] by simp
  qed
  show ?thesis
    using terminator_joined [OF lines, of "newline @ trimStart body"] read
    by (simp add: rendered parseFrontmatter_def startsWith_def Let_def)
qed

end
