(* ===== verification/Generator_Capture.thy ===== *)
theory Generator_Capture
  imports Generator_Stem Generator_Frontmatter
begin

section \<open>Generator worker: source capture requests\<close>

text \<open>
  \<^verbatim>\<open>workers/wiki-generator/src/source-capture.ts\<close> and \<open>ensureParentFolders\<close> of \<^verbatim>\<open>vfs.ts\<close>. A capture request is a
  node of the wiki whose front matter holds the state of the capture; every write of it is conditional on
  the etag that was read. A field of the front matter is \<open>None\<close> when absent and \<open>Some None\<close> for
  \<open>null\<close>. The retry after a lost race (\<open>reprocessLatestIfRecoverable\<close>) calls the handler
  again: it has fuel, and answers \<open>False\<close> when the fuel is used up.
\<close>

subsection \<open>Calls of the VFS\<close>

definition readNodeA :: "GenHost \<Rightarrow> string \<Rightarrow> string \<Rightarrow> WikiNode option gen" where
  "readNodeA h databaseId path = genCall (\<lambda>k. gh_readNode h k databaseId path)"

definition mkdirNodeA :: "GenHost \<Rightarrow> string \<Rightarrow> string \<Rightarrow> unit gen" where
  "mkdirNodeA h databaseId path = genEffect (EffMkdir databaseId path) (\<lambda>k. gh_mkdirNode h k databaseId path)"

definition writeNodeA :: "GenHost \<Rightarrow> WriteNodeRequest \<Rightarrow> WriteNodeAck gen" where
  "writeNodeA h request = genEffect (EffWrite request) (\<lambda>k. gh_writeNode h k request)"

definition isoNowA :: "GenHost \<Rightarrow> string gen" where
  "isoNowA h = genCall (\<lambda>k. Inr (gh_isoNow h k))"

definition nowA :: "GenHost \<Rightarrow> nat gen" where
  "nowA h = genCall (\<lambda>k. Inr (gh_now h k))"

fun mkdirChain :: "GenHost \<Rightarrow> string \<Rightarrow> string \<Rightarrow> string list \<Rightarrow> unit gen" where
  "mkdirChain h databaseId current [] = retA ()"
| "mkdirChain h databaseId current (segment # segments) =
     (let next = current @ ''/'' @ segment in
      bindA (mkdirNodeA h databaseId next) (\<lambda>_. mkdirChain h databaseId next segments))"

definition ensureParentFolders :: "GenHost \<Rightarrow> string \<Rightarrow> string \<Rightarrow> unit gen" where
  "ensureParentFolders h databaseId path =
     (let segments = filter (\<lambda>s. s \<noteq> []) (splitOn (CHR ''/'') path) in
      mkdirChain h databaseId [] (butlast segments))"

subsection \<open>Requests\<close>

datatype CaptureStatus = CsQueued | CsFetching | CsSourceWritten | CsGenerating | CsCompleted | CsFailed

fun captureStatusText :: "CaptureStatus \<Rightarrow> string" where
  "captureStatusText CsQueued = ''queued''"
| "captureStatusText CsFetching = ''fetching''"
| "captureStatusText CsSourceWritten = ''source_written''"
| "captureStatusText CsGenerating = ''generating''"
| "captureStatusText CsCompleted = ''completed''"
| "captureStatusText CsFailed = ''failed''"

definition sourceCaptureStatus :: "string option option \<Rightarrow> CaptureStatus option" where
  "sourceCaptureStatus v =
     (case v of
        Some (Some s) \<Rightarrow> find (\<lambda>st. captureStatusText st = s) [CsQueued, CsFetching, CsSourceWritten, CsGenerating, CsCompleted, CsFailed]
      | _ \<Rightarrow> None)"

record SourceCaptureRequest =
  cq_path :: string
  cq_etag :: string
  cq_status :: CaptureStatus
  cq_url :: string
  cq_requestedBy :: string
  cq_requestedAt :: string
  cq_outputLanguage :: "OutputLanguage option"
  cq_claimedAt :: "string option"
  cq_sourcePath :: "string option option"
  cq_targetPath :: "string option option"
  cq_finishedAt :: "string option"
  cq_error :: "string option option"
  cq_metadataJson :: string

record RequestUpdates =
  ru_status :: CaptureStatus
  ru_claimedAt :: "string option option"
  ru_sourcePath :: "string option option"
  ru_targetPath :: "string option option"
  ru_finishedAt :: "string option option"
  ru_error :: "string option option"

definition statusOnly :: "CaptureStatus \<Rightarrow> RequestUpdates" where
  "statusOnly st = \<lparr>ru_status = st, ru_claimedAt = None, ru_sourcePath = None, ru_targetPath = None, ru_finishedAt = None, ru_error = None\<rparr>"

definition failedUpdate :: "string \<Rightarrow> RequestUpdates" where
  "failedUpdate e = (statusOnly CsFailed) \<lparr>ru_targetPath := Some None, ru_error := Some (Some e)\<rparr>"

definition isTerminalStatus :: "CaptureStatus \<Rightarrow> bool" where
  "isTerminalStatus st \<longleftrightarrow> st = CsCompleted \<or> st = CsFailed"

definition FETCHING_STALE_MS :: nat where
  "FETCHING_STALE_MS = 15 * 60 * 1000"

definition isStaleFetching :: "GenPlatform \<Rightarrow> SourceCaptureRequest \<Rightarrow> nat \<Rightarrow> bool" where
  "isStaleFetching P request now =
     (case cq_claimedAt request of
        None \<Rightarrow> False
      | Some claimedAt \<Rightarrow>
          if cq_status request \<noteq> CsFetching \<or> claimedAt = [] then False
          else (case gp_dateParse P claimedAt of None \<Rightarrow> False | Some ms \<Rightarrow> int now - ms > int FETCHING_STALE_MS))"

definition shouldProcessSourceCaptureRequest :: "GenPlatform \<Rightarrow> nat \<Rightarrow> SourceCaptureRequest \<Rightarrow> bool" where
  "shouldProcessSourceCaptureRequest P now request \<longleftrightarrow>
     cq_status request = CsQueued \<or> cq_status request = CsSourceWritten \<or>
     cq_status request = CsFetching \<and> isStaleFetching P request now"

text \<open>\<open>fields.k ?? fallback\<close>.\<close>

definition fieldOr :: "(string \<rightharpoonup> string option) \<Rightarrow> string \<Rightarrow> string \<Rightarrow> string" where
  "fieldOr fs k fallback = (case fs k of Some (Some s) \<Rightarrow> s | _ \<Rightarrow> fallback)"

definition requestOfFields :: "WikiNode \<Rightarrow> (string \<rightharpoonup> string option) \<Rightarrow> SourceCaptureRequest option" where
  "requestOfFields node fs =
     (if fs ''kind'' \<noteq> Some (Some ''kinic.source_capture_request'') then None
      else if fs ''schema_version'' \<noteq> Some (Some ''1'') then None
      else
        let status = sourceCaptureStatus (fs ''status'');
            url = fieldOr fs ''url'' [];
            language = (case fs ''output_language'' of
                Some (Some s) \<Rightarrow> Some (parseOutputLanguage (Some (JStr s)))
              | _ \<Rightarrow> None)
        in
        if language = Some None then None
        else
          case status of
            None \<Rightarrow> None
          | Some st \<Rightarrow>
              if url = [] then None
              else Some \<lparr>cq_path = nd_path node, cq_etag = nd_etag node, cq_status = st, cq_url = url,
                cq_requestedBy = fieldOr fs ''requested_by'' [], cq_requestedAt = fieldOr fs ''requested_at'' [],
                cq_outputLanguage = (case language of None \<Rightarrow> None | Some l \<Rightarrow> l),
                cq_claimedAt = (case fs ''claimed_at'' of None \<Rightarrow> None | Some v \<Rightarrow> v),
                cq_sourcePath = fs ''source_path'', cq_targetPath = fs ''target_path'',
                cq_finishedAt = (case fs ''finished_at'' of None \<Rightarrow> None | Some v \<Rightarrow> v),
                cq_error = fs ''error'', cq_metadataJson = nd_metadataJson node\<rparr>)"

definition parseSourceCaptureRequest :: "WikiNode \<Rightarrow> gen_error + SourceCaptureRequest option" where
  "parseSourceCaptureRequest node =
     (if nd_kind node \<noteq> File then Inr None
      else
        bindR (parseFrontmatter (nd_content node)) (\<lambda>doc.
          case doc of None \<Rightarrow> Inr None | Some d \<Rightarrow> Inr (requestOfFields node (fd_fields d))))"

subsection \<open>Writing the state of a request\<close>

fun canonicalNumbers :: "(string \<Rightarrow> string) \<Rightarrow> json \<Rightarrow> json" where
  "canonicalNumbers f (JNum n) = JNum (numberText f n)"
| "canonicalNumbers f (JArr vs) = JArr (map (canonicalNumbers f) vs)"
| "canonicalNumbers f (JObj ps) = JObj (map (\<lambda>p. (fst p, canonicalNumbers f (snd p))) ps)"
| "canonicalNumbers f v = v"

definition parseJsonRecord :: "GenPlatform \<Rightarrow> string \<Rightarrow> (string \<times> json) list" where
  "parseJsonRecord P v =
     (case JSON_parse v of
        Some (JObj ps) \<Rightarrow> map (\<lambda>p. (fst p, canonicalNumbers (gp_numberText P) (snd p))) ps
      | _ \<Rightarrow> [])"

text \<open>An assignment of \<open>undefined\<close> leaves the property out of the text.\<close>

definition assignProp :: "string \<Rightarrow> json option \<Rightarrow> (string \<times> json) list \<Rightarrow> (string \<times> json) list" where
  "assignProp k v ps = (case v of None \<Rightarrow> filter (\<lambda>p. fst p \<noteq> k) ps | Some x \<Rightarrow> putProp k x ps)"

definition jsonOfField :: "string option option \<Rightarrow> json option" where
  "jsonOfField v = map_option (\<lambda>x. case x of None \<Rightarrow> JNull | Some s \<Rightarrow> JStr s) v"

definition fmOfField :: "string option option \<Rightarrow> FrontmatterValue" where
  "fmOfField v = (case v of None \<Rightarrow> FmUndefined | Some None \<Rightarrow> FmNull | Some (Some s) \<Rightarrow> FmText s)"

definition languageField :: "SourceCaptureRequest \<Rightarrow> string option" where
  "languageField request = map_option outputLanguageCode (cq_outputLanguage request)"

definition requestMetadataJson ::
    "GenPlatform \<Rightarrow> SourceCaptureRequest \<Rightarrow> CaptureStatus \<Rightarrow> string option option \<Rightarrow> string option option \<Rightarrow> string" where
  "requestMetadataJson P request st sourcePath targetPath =
     stringify (JObj
       (assignProp ''target_path'' (jsonOfField targetPath)
        (assignProp ''source_path'' (jsonOfField sourcePath)
         (assignProp ''output_language'' (map_option JStr (languageField request))
          (assignProp ''status'' (Some (JStr (captureStatusText st)))
           (assignProp ''url'' (Some (JStr (cq_url request)))
            (assignProp ''request_type'' (Some (JStr ''source_capture''))
              (parseJsonRecord P (cq_metadataJson request)))))))))"

text \<open>The request after the write, but for its etag.\<close>

definition updatedRequest :: "GenPlatform \<Rightarrow> string \<Rightarrow> SourceCaptureRequest \<Rightarrow> RequestUpdates \<Rightarrow> SourceCaptureRequest" where
  "updatedRequest P isoNow request updates =
     (let finishedAt = (case ru_finishedAt updates of
            Some v \<Rightarrow> v
          | None \<Rightarrow> if isTerminalStatus (ru_status updates)
                    then Some (case cq_finishedAt request of Some t \<Rightarrow> t | None \<Rightarrow> isoNow)
                    else cq_finishedAt request);
          claimedAt = (case ru_claimedAt updates of
            Some v \<Rightarrow> v
          | None \<Rightarrow> if ru_status updates = CsFetching then Some isoNow else cq_claimedAt request);
          sourcePath = (case ru_sourcePath updates of None \<Rightarrow> cq_sourcePath request | v \<Rightarrow> v);
          targetPath = (case ru_targetPath updates of None \<Rightarrow> cq_targetPath request | v \<Rightarrow> v);
          err = (case ru_error updates of None \<Rightarrow> cq_error request | v \<Rightarrow> v)
      in request \<lparr>cq_status := ru_status updates, cq_claimedAt := claimedAt, cq_sourcePath := sourcePath,
           cq_targetPath := targetPath, cq_finishedAt := finishedAt, cq_error := err,
           cq_metadataJson := requestMetadataJson P request (ru_status updates) sourcePath targetPath\<rparr>)"

definition requestFields :: "SourceCaptureRequest \<Rightarrow> (string \<times> FrontmatterValue) list" where
  "requestFields r = [
     (''kind'', FmText ''kinic.source_capture_request''),
     (''schema_version'', FmText ''1''),
     (''status'', FmText (captureStatusText (cq_status r))),
     (''url'', FmText (cq_url r)),
     (''requested_by'', FmText (cq_requestedBy r)),
     (''requested_at'', FmText (cq_requestedAt r)),
     (''output_language'', fmOfField (Some (languageField r))),
     (''claimed_at'', fmOfField (Some (cq_claimedAt r))),
     (''source_path'', fmOfField (cq_sourcePath r)),
     (''target_path'', fmOfField (cq_targetPath r)),
     (''finished_at'', fmOfField (Some (cq_finishedAt r))),
     (''error'', fmOfField (cq_error r))]"

definition requestWrite :: "string \<Rightarrow> string \<Rightarrow> SourceCaptureRequest \<Rightarrow> WriteNodeRequest" where
  "requestWrite databaseId expectedEtag r = \<lparr>
     wr_databaseId = databaseId, wr_path = cq_path r, wr_kind = File,
     wr_content = renderFrontmatter (requestFields r) (''# Source Capture Request'' @ newline),
     wr_metadataJson = cq_metadataJson r, wr_expectedEtag = Some expectedEtag\<rparr>"

definition writeRequestState ::
    "GenHost \<Rightarrow> GenPlatform \<Rightarrow> string \<Rightarrow> SourceCaptureRequest \<Rightarrow> RequestUpdates \<Rightarrow> SourceCaptureRequest gen" where
  "writeRequestState h P databaseId request updates =
     bindA (isoNowA h) (\<lambda>isoNow.
     let updated = updatedRequest P isoNow request updates in
     bindA (ensureParentFolders h databaseId (cq_path request)) (\<lambda>_.
     bindA (writeNodeA h (requestWrite databaseId (cq_etag request) updated)) (\<lambda>ack.
       if wa_kind ack \<noteq> File then throwA (GenError (''write_node returned non-file kind: '' @ wa_path ack))
       else retA (updated \<lparr>cq_etag := wa_etag ack\<rparr>))))"

subsection \<open>The captured page\<close>

definition errorText :: "gen_error \<Rightarrow> string" where
  "errorText e = take 4000 (genErrorMessage e)"

definition isEtagMismatch :: "gen_error \<Rightarrow> bool" where
  "isEtagMismatch e = (case e of NodeMutationError code message \<Rightarrow> code = etag_conflict | _ \<Rightarrow> False)"

definition limitSourceText :: "string \<Rightarrow> nat \<Rightarrow> string \<times> bool \<times> nat \<times> nat" where
  "limitSourceText text maxChars =
     (if length text \<le> maxChars then (text, False, length text, length text)
      else let limited = trimEnd (take maxChars text) in (limited, True, length text, length limited))"

definition fetchedFields :: "FetchedUrlSource \<Rightarrow> string \<Rightarrow> string \<Rightarrow> bool \<Rightarrow> nat \<Rightarrow> nat \<Rightarrow> (string \<times> FrontmatterValue) list" where
  "fetchedFields fetched title capturedAt truncated originalChars savedChars = [
     (''kind'', FmText ''kinic.evidence_web_source''),
     (''schema_version'', FmText ''1''),
     (''url'', FmText (fu_url fetched)),
     (''final_url'', FmText (fu_finalUrl fetched)),
     (''title'', FmText title),
     (''content_type'', FmText (fu_contentType fetched)),
     (''captured_at'', FmText capturedAt),
     (''truncated'', FmBool truncated),
     (''original_chars'', FmNum originalChars),
     (''saved_chars'', FmNum savedChars),
     (''fetched_truncated'', FmBool (fu_fetchedTruncated fetched)),
     (''fetched_bytes'', FmNum (fu_fetchedBytes fetched)),
     (''max_fetched_bytes'', FmNum (fu_maxFetchedBytes fetched))]"

definition fetchedMetadata :: "FetchedUrlSource \<Rightarrow> bool \<Rightarrow> nat \<Rightarrow> nat \<Rightarrow> string" where
  "fetchedMetadata fetched truncated originalChars savedChars = stringify (JObj [
     (''source_type'', JStr ''url''), (''url'', JStr (fu_url fetched)), (''final_url'', JStr (fu_finalUrl fetched)),
     (''truncated'', JBool truncated), (''original_chars'', JNum (natToDec originalChars)),
     (''saved_chars'', JNum (natToDec savedChars)), (''fetched_truncated'', JBool (fu_fetchedTruncated fetched)),
     (''fetched_bytes'', JNum (natToDec (fu_fetchedBytes fetched))),
     (''max_fetched_bytes'', JNum (natToDec (fu_maxFetchedBytes fetched)))])"

text \<open>The loop over the path variants.\<close>

fun writeSourceFrom ::
    "GenHost \<Rightarrow> string \<Rightarrow> string \<Rightarrow> string \<Rightarrow> string \<Rightarrow> nat list \<Rightarrow> WriteNodeAck gen" where
  "writeSourceFrom h databaseId basePath content metadataJson [] =
     throwA (GenError (''source path collision limit exceeded: '' @ basePath))"
| "writeSourceFrom h databaseId basePath content metadataJson (attempt # attempts) =
     (let path = sourcePathVariant basePath attempt in
      bindA (readNodeA h databaseId path) (\<lambda>existing.
        if existing \<noteq> None then writeSourceFrom h databaseId basePath content metadataJson attempts
        else
          bindA (ensureParentFolders h databaseId path) (\<lambda>_.
          bindA (attemptA (bindA (writeNodeA h \<lparr>wr_databaseId = databaseId, wr_path = path, wr_kind = Source,
                    wr_content = content, wr_metadataJson = metadataJson, wr_expectedEtag = None\<rparr>) (\<lambda>ack.
                    if wa_kind ack \<noteq> Source then throwA (GenError (''write_node returned non-source kind: '' @ wa_path ack))
                    else retA ack))) (\<lambda>r.
            case r of
              Inr ack \<Rightarrow> retA ack
            | Inl e \<Rightarrow>
                if isEtagMismatch e then writeSourceFrom h databaseId basePath content metadataJson attempts
                else throwA e))))"

definition writeFetchedSource :: "GenHost \<Rightarrow> string \<Rightarrow> string \<Rightarrow> FetchedUrlSource \<Rightarrow> nat \<Rightarrow> WriteNodeAck gen" where
  "writeFetchedSource h databaseId basePath fetched maxSourceChars =
     bindA (isoNowA h) (\<lambda>capturedAt.
     let title = (case fu_title fetched of Some t \<Rightarrow> t | None \<Rightarrow> fu_finalUrl fetched) in
     case limitSourceText (fu_text fetched) maxSourceChars of (text, truncated, originalChars, savedChars) \<Rightarrow>
     let content = renderFrontmatter (fetchedFields fetched title capturedAt truncated originalChars savedChars)
           (joinWith newline [''# '' @ title, [], ''Source URL: '' @ fu_finalUrl fetched, [], text])
     in writeSourceFrom h databaseId basePath content (fetchedMetadata fetched truncated originalChars savedChars) [1..<101])"

subsection \<open>Operations on requests\<close>

definition readSourceCaptureRequest :: "GenHost \<Rightarrow> string \<Rightarrow> string \<Rightarrow> SourceCaptureRequest option gen" where
  "readSourceCaptureRequest h databaseId requestPath =
     bindA (readNodeA h databaseId requestPath) (\<lambda>node.
       case node of None \<Rightarrow> retA None | Some n \<Rightarrow> liftR (parseSourceCaptureRequest n))"

definition markSourceCaptureRequestCompleted ::
    "GenHost \<Rightarrow> GenPlatform \<Rightarrow> string \<Rightarrow> string \<Rightarrow> string \<Rightarrow> string \<Rightarrow> unit gen" where
  "markSourceCaptureRequestCompleted h P databaseId requestPath sourcePath targetPath =
     bindA (readSourceCaptureRequest h databaseId requestPath) (\<lambda>request.
       case request of
         None \<Rightarrow> retA ()
       | Some r \<Rightarrow>
           bindA (writeRequestState h P databaseId r ((statusOnly CsCompleted)
                    \<lparr>ru_sourcePath := Some (Some sourcePath), ru_targetPath := Some (Some targetPath), ru_error := Some None\<rparr>))
             (\<lambda>_. retA ()))"

definition markSourceCaptureRequestFailed :: "GenHost \<Rightarrow> GenPlatform \<Rightarrow> string \<Rightarrow> string \<Rightarrow> string \<Rightarrow> unit gen" where
  "markSourceCaptureRequestFailed h P databaseId requestPath err =
     bindA (readSourceCaptureRequest h databaseId requestPath) (\<lambda>request.
       case request of
         None \<Rightarrow> retA ()
       | Some r \<Rightarrow>
           if cq_status r = CsCompleted then retA ()
           else bindA (writeRequestState h P databaseId r (failedUpdate err)) (\<lambda>_. retA ()))"

definition writeLatestRequestState :: "GenHost \<Rightarrow> GenPlatform \<Rightarrow> string \<Rightarrow> string \<Rightarrow> RequestUpdates \<Rightarrow> unit gen" where
  "writeLatestRequestState h P databaseId requestPath updates =
     bindA (readSourceCaptureRequest h databaseId requestPath) (\<lambda>latest.
       case latest of
         None \<Rightarrow> retA ()
       | Some r \<Rightarrow>
           if cq_status r = CsGenerating \<or> isTerminalStatus (cq_status r) then retA ()
           else
             bindA (attemptA (writeRequestState h P databaseId r updates)) (\<lambda>written.
               case written of
                 Inr _ \<Rightarrow> retA ()
               | Inl e \<Rightarrow> if isEtagMismatch e then retA () else throwA e))"

definition bestEffortWriteLatestRequestState :: "GenHost \<Rightarrow> GenPlatform \<Rightarrow> string \<Rightarrow> string \<Rightarrow> RequestUpdates \<Rightarrow> unit gen" where
  "bestEffortWriteLatestRequestState h P databaseId requestPath updates =
     catchA (writeLatestRequestState h P databaseId requestPath updates) (\<lambda>_. retA ())"

definition bestEffortWriteRequestState ::
    "GenHost \<Rightarrow> GenPlatform \<Rightarrow> string \<Rightarrow> SourceCaptureRequest \<Rightarrow> RequestUpdates \<Rightarrow> unit gen" where
  "bestEffortWriteRequestState h P databaseId request updates =
     bindA (attemptA (writeRequestState h P databaseId request updates)) (\<lambda>written.
       case written of
         Inr _ \<Rightarrow> retA ()
       | Inl e \<Rightarrow>
           if isEtagMismatch e then bestEffortWriteLatestRequestState h P databaseId (cq_path request) updates
           else retA ())"

definition claimWrite :: "GenHost \<Rightarrow> GenPlatform \<Rightarrow> string \<Rightarrow> SourceCaptureRequest \<Rightarrow> SourceCaptureRequest option gen" where
  "claimWrite h P databaseId request =
     bindA (isoNowA h) (\<lambda>isoNow.
     bindA (writeRequestState h P databaseId request
              ((statusOnly CsFetching) \<lparr>ru_error := Some None, ru_claimedAt := Some (Some isoNow)\<rparr>)) (\<lambda>r. retA (Some r)))"

definition claimSourceCaptureRequest ::
    "GenHost \<Rightarrow> GenPlatform \<Rightarrow> string \<Rightarrow> SourceCaptureRequest \<Rightarrow> SourceCaptureRequest option gen" where
  "claimSourceCaptureRequest h P databaseId request =
     (if cq_status request = CsSourceWritten then retA (Some request)
      else
        bindA (nowA h) (\<lambda>now.
          if cq_status request = CsFetching \<and> isStaleFetching P request now then claimWrite h P databaseId request
          else if cq_status request \<noteq> CsQueued then retA None
          else
            bindA (attemptA (claimWrite h P databaseId request)) (\<lambda>claimed.
              case claimed of
                Inr r \<Rightarrow> retA r
              | Inl e \<Rightarrow>
                  if \<not> isEtagMismatch e then throwA e
                  else
                    bindA (readSourceCaptureRequest h databaseId (cq_path request)) (\<lambda>latest.
                    bindA (nowA h) (\<lambda>now'.
                      case latest of
                        None \<Rightarrow> retA None
                      | Some l \<Rightarrow>
                          if \<not> shouldProcessSourceCaptureRequest P now' l then retA None
                          else if cq_status l = CsQueued then claimWrite h P databaseId l
                          else
                            bindA (nowA h) (\<lambda>now''.
                              if cq_status l = CsFetching \<and> isStaleFetching P l now'' then claimWrite h P databaseId l
                              else retA (Some l)))))))"

definition requireSourceAck :: "GenHost \<Rightarrow> string \<Rightarrow> string \<Rightarrow> WriteNodeAck gen" where
  "requireSourceAck h databaseId path =
     bindA (readNodeA h databaseId path) (\<lambda>source.
       case source of
         None \<Rightarrow> throwA (GenError (''source node not found: '' @ path))
       | Some n \<Rightarrow>
           if nd_kind n \<noteq> Source then throwA (GenError (''node is not a source: '' @ path))
           else retA \<lparr>wa_path = nd_path n, wa_kind = nd_kind n, wa_etag = nd_etag n\<rparr>)"

subsection \<open>The capture\<close>

text \<open>
  Fetching and storing the page of a claimed request: the acknowledged source and the request after it, or
  \<open>None\<close> when the session check refused.
\<close>

definition captureSource ::
    "GenHost \<Rightarrow> GenPlatform \<Rightarrow> WorkerConfig \<Rightarrow> string \<Rightarrow> SourceCaptureRequest \<Rightarrow> string \<Rightarrow>
     (WriteNodeAck \<times> SourceCaptureRequest) option gen" where
  "captureSource h P config databaseId current nonce =
     bindA (attemptA (genCall (\<lambda>k. gh_checkSourceCaptureTriggerSession h k databaseId (cq_path current) nonce))) (\<lambda>checked.
       case checked of
         Inl e \<Rightarrow>
           bindA (bestEffortWriteLatestRequestState h P databaseId (cq_path current) (failedUpdate (errorText e))) (\<lambda>_. retA None)
       | Inr _ \<Rightarrow>
           bindA (fetchUrlSource h P (cq_url current) (wc_maxFetchedBytes config)) (\<lambda>fetched.
           let sourcePath = sourcePathForUrl P (wc_sourcePrefix config) (fu_finalUrl fetched)
                 (case fu_title fetched of Some t \<Rightarrow> t | None \<Rightarrow> fu_finalUrl fetched) in
           bindA (writeFetchedSource h databaseId sourcePath fetched (wc_maxSourceChars config)) (\<lambda>ack.
           bindA (writeRequestState h P databaseId current
                    ((statusOnly CsSourceWritten) \<lparr>ru_sourcePath := Some (Some (wa_path ack)), ru_error := Some None\<rparr>)) (\<lambda>stored.
             retA (Some (ack, stored))))))"

definition enqueueCaptured ::
    "GenHost \<Rightarrow> GenPlatform \<Rightarrow> string \<Rightarrow> SourceCaptureRequest \<Rightarrow> string \<Rightarrow> WriteNodeAck \<Rightarrow> unit gen" where
  "enqueueCaptured h P databaseId current nonce ack =
     bindA (attemptA (enqueueSourceJob h
              \<lparr>sm_targetRoot = None, sm_databaseId = databaseId, sm_sourcePath = wa_path ack, sm_sourceEtag = wa_etag ack,
               sm_requestPath = Some (cq_path current), sm_sessionNonce = Some nonce,
               sm_outputLanguage = cq_outputLanguage current\<rparr>)) (\<lambda>queued.
       let generating = bindA (writeRequestState h P databaseId current ((statusOnly CsGenerating) \<lparr>ru_error := Some None\<rparr>)) (\<lambda>_. retA ())
       in
       case queued of
         Inl e \<Rightarrow>
           bindA (writeRequestState h P databaseId current (failedUpdate (''source job enqueue failed: '' @ errorText e))) (\<lambda>_. retA ())
       | Inr True \<Rightarrow> generating
       | Inr False \<Rightarrow>
           bindA (loadJob h databaseId (wa_path ack)) (\<lambda>job.
             case job of
               None \<Rightarrow> generating
             | Some j \<Rightarrow>
                 if j_status j \<noteq> Completed then generating
                 else if j_target_path j = None \<or> j_target_path j = Some [] then
                   bindA (writeRequestState h P databaseId current
                            (failedUpdate ''completed source generation job is missing target_path'')) (\<lambda>_. retA ())
                 else
                   bindA (writeRequestState h P databaseId current
                            ((statusOnly CsCompleted) \<lparr>ru_targetPath := Some (j_target_path j), ru_error := Some None\<rparr>)) (\<lambda>_. retA ())))"

definition captureBody ::
    "GenHost \<Rightarrow> GenPlatform \<Rightarrow> WorkerConfig \<Rightarrow> string \<Rightarrow> SourceCaptureRequest \<Rightarrow> string \<Rightarrow> unit gen" where
  "captureBody h P config databaseId current nonce =
     (if nonce = [] then bestEffortWriteRequestState h P databaseId current (failedUpdate ''sessionNonce is required'')
      else
        bindA (if cq_status current = CsFetching
               then bindA (captureSource h P config databaseId current nonce) (\<lambda>r. retA (map_option (\<lambda>(ack, c). (Some ack, c)) r))
               else retA (Some (None, current))) (\<lambda>captured.
          case captured of
            None \<Rightarrow> retA ()
          | Some (sourceAck, c) \<Rightarrow>
              (case cq_sourcePath c of
                 Some (Some sourcePath) \<Rightarrow>
                   if sourcePath = [] then throwA (GenError ''source_path is missing after source write'')
                   else
                     bindA (liftR (validateSourceRootPath sourcePath (wc_sourcePrefix config))) (\<lambda>_.
                     bindA (case sourceAck of Some a \<Rightarrow> retA a | None \<Rightarrow> requireSourceAck h databaseId sourcePath)
                       (enqueueCaptured h P databaseId c nonce))
               | _ \<Rightarrow> throwA (GenError ''source_path is missing after source write''))))"

fun processAuthorizedSourceCaptureRequest ::
    "nat \<Rightarrow> GenHost \<Rightarrow> GenPlatform \<Rightarrow> WorkerConfig \<Rightarrow> string \<Rightarrow> SourceCaptureRequest \<Rightarrow> string \<Rightarrow> bool gen" where
  "processAuthorizedSourceCaptureRequest 0 h P config databaseId request nonce = retA False"
| "processAuthorizedSourceCaptureRequest (Suc fuel) h P config databaseId request nonce =
     (let handle = (\<lambda>path e.
        if isEtagMismatch e then
          bindA (readSourceCaptureRequest h databaseId (cq_path request)) (\<lambda>latest.
            case latest of
              None \<Rightarrow> retA True
            | Some l \<Rightarrow>
                if cq_status l \<noteq> CsSourceWritten then retA True
                else processAuthorizedSourceCaptureRequest fuel h P config databaseId l nonce)
        else bindA (writeLatestRequestState h P databaseId path (failedUpdate (errorText e))) (\<lambda>_. retA True))
      in
      bindA (attemptA (claimSourceCaptureRequest h P databaseId request)) (\<lambda>claimed.
        case claimed of
          Inl e \<Rightarrow> handle (cq_path request) e
        | Inr None \<Rightarrow> retA True
        | Inr (Some current) \<Rightarrow>
            bindA (attemptA (captureBody h P config databaseId current nonce)) (\<lambda>outcome.
              case outcome of Inr _ \<Rightarrow> retA True | Inl e \<Rightarrow> handle (cq_path current) e)))"

definition validateSourceCaptureTriggerInput :: "WorkerConfig \<Rightarrow> SourceCaptureQueueMessage \<Rightarrow> gen_error + unit" where
  "validateSourceCaptureTriggerInput config input =
     (if cm_canisterId input \<noteq> wc_canisterId config
      then Inl (SourceCaptureTriggerError ''canisterId does not match worker canister config'' 400)
      else if \<not> isDatabaseAllowed config (cm_databaseId input) then Inl (SourceCaptureTriggerError ''database_not_allowed'' 403)
      else if \<not> isSourceCaptureRequestPath (cm_requestPath input)
      then Inl (SourceCaptureTriggerError (''invalid source capture request path: '' @ cm_requestPath input) 400)
      else Inr ())"

definition triggerSourceCaptureRequest ::
    "nat \<Rightarrow> GenHost \<Rightarrow> GenPlatform \<Rightarrow> GenEnv \<Rightarrow> SourceCaptureQueueMessage \<Rightarrow> bool gen" where
  "triggerSourceCaptureRequest fuel h P env input =
     bindA (liftR (loadConfig (gp_defaultModel P) env)) (\<lambda>config.
     bindA (liftR (validateSourceCaptureTriggerInput config input)) (\<lambda>_.
     bindA (genCall (gh_createVfsClient h)) (\<lambda>_.
     bindA (readNodeA h (cm_databaseId input) (cm_requestPath input)) (\<lambda>node.
       case node of
         None \<Rightarrow> throwA (GenError (''source capture request not found: '' @ cm_requestPath input))
       | Some n \<Rightarrow>
           bindA (liftR (parseSourceCaptureRequest n)) (\<lambda>request.
             case request of
               None \<Rightarrow> throwA (GenError (''invalid source capture request: '' @ cm_requestPath input))
             | Some r \<Rightarrow>
                 bindA (nowA h) (\<lambda>now.
                   if \<not> shouldProcessSourceCaptureRequest P now r then retA True
                   else processAuthorizedSourceCaptureRequest fuel h P config (cm_databaseId input) r (cm_sessionNonce input)))))))"

definition parseSourceCaptureTriggerInput :: "json \<Rightarrow> string + SourceCaptureQueueMessage" where
  "parseSourceCaptureTriggerInput v =
     (if \<not> isObjectValue v then Inl ''body must include canisterId, databaseId, requestPath, and sessionNonce''
      else
        let text = (\<lambda>k. case jfield v k of Some (JStr s) \<Rightarrow> s | _ \<Rightarrow> []) in
        if text ''canisterId'' = [] then Inl ''canisterId is required''
        else if text ''databaseId'' = [] then Inl ''databaseId is required''
        else if text ''requestPath'' = [] then Inl ''requestPath is required''
        else if text ''sessionNonce'' = [] then Inl ''sessionNonce is required''
        else if length (text ''sessionNonce'') > 128 then Inl ''sessionNonce is too long''
        else if \<not> isSourceCaptureRequestPath (text ''requestPath'')
        then Inl (''invalid source capture request path: '' @ text ''requestPath'')
        else Inr \<lparr>cm_canisterId = text ''canisterId'', cm_databaseId = text ''databaseId'',
                  cm_requestPath = text ''requestPath'', cm_sessionNonce = text ''sessionNonce''\<rparr>)"

end
