(* ===== verification/Generator_Capture_Facts.thy ===== *)
theory Generator_Capture_Facts
  imports Generator_Capture
begin

section \<open>Generator worker: what a capture does\<close>

text \<open>
  The properties of the capture of a source: the request that is written is the request that is read back,
  every write is conditional, nothing is fetched without a session, and the handler returns as soon as the
  races on the request stop.
\<close>

subsection \<open>The request read back\<close>

text \<open>\<open>fieldsKnown r\<close>: no field that is copied into the node is absent.\<close>

definition fieldsKnown :: "SourceCaptureRequest \<Rightarrow> bool" where
  "fieldsKnown r \<longleftrightarrow> cq_sourcePath r \<noteq> None \<and> cq_targetPath r \<noteq> None \<and> cq_error r \<noteq> None"

lemma readBack_fmOfField: "readBack (fmOfField v) = (case v of None \<Rightarrow> Some ''undefined'' | Some x \<Rightarrow> x)"
  by (auto simp: readBack_def fmOfField_def split: option.split)

lemma readBack_FmText: "readBack (FmText s) = Some s"
  by (simp add: readBack_def)

lemma status_read: "sourceCaptureStatus (Some (Some (captureStatusText st))) = Some st"
  by (cases st) (simp_all add: sourceCaptureStatus_def)

lemma language_read: "parseOutputLanguage (Some (JStr (outputLanguageCode l))) = Some l"
  by (cases l) (simp_all add: parseOutputLanguage_def)

lemma requestFields_plain: "\<forall>p \<in> set (requestFields r). plainKey (fst p)"
  by (simp add: requestFields_def plainKey_def isJsSpace_def)

lemma requestFields_distinct: "distinct (map fst (requestFields r))"
  by (simp add: requestFields_def)

lemma requestFields_values:
  defines "fs r \<equiv> map_of (map (\<lambda>(k, v). (k, readBack v)) (requestFields r))"
  shows "fs r ''kind'' = Some (Some ''kinic.source_capture_request'')" "fs r ''schema_version'' = Some (Some ''1'')"
    "fs r ''status'' = Some (Some (captureStatusText (cq_status r)))" "fs r ''url'' = Some (Some (cq_url r))"
    "fs r ''requested_by'' = Some (Some (cq_requestedBy r))" "fs r ''requested_at'' = Some (Some (cq_requestedAt r))"
    "fs r ''output_language'' = Some (languageField r)" "fs r ''claimed_at'' = Some (cq_claimedAt r)"
    "fs r ''source_path'' = Some (readBack (fmOfField (cq_sourcePath r)))"
    "fs r ''target_path'' = Some (readBack (fmOfField (cq_targetPath r)))"
    "fs r ''finished_at'' = Some (cq_finishedAt r)" "fs r ''error'' = Some (readBack (fmOfField (cq_error r)))"
  unfolding fs_def by (simp_all add: requestFields_def) (simp_all add: readBack_fmOfField readBack_FmText)

lemma request_read_back:
  assumes "cq_url r \<noteq> []" and "fieldsKnown r"
  shows "requestOfFields \<lparr>nd_path = cq_path r, nd_kind = File, nd_content = content, nd_etag = etag, nd_metadataJson = cq_metadataJson r\<rparr>
    (map_of (map (\<lambda>(k, v). (k, readBack v)) (requestFields r))) = Some (r \<lparr>cq_etag := etag\<rparr>)"
proof -
  have "(case cq_sourcePath r of None \<Rightarrow> Some ''undefined'' | Some x \<Rightarrow> x) = the (cq_sourcePath r)"
    "(case cq_targetPath r of None \<Rightarrow> Some ''undefined'' | Some x \<Rightarrow> x) = the (cq_targetPath r)"
    "(case cq_error r of None \<Rightarrow> Some ''undefined'' | Some x \<Rightarrow> x) = the (cq_error r)"
    using assms(2) by (auto simp: fieldsKnown_def)
  moreover have "(case (case languageField r of None \<Rightarrow> None | Some s \<Rightarrow> Some (parseOutputLanguage (Some (JStr s)))) of
      None \<Rightarrow> None | Some l \<Rightarrow> l) = cq_outputLanguage r"
    by (cases "cq_outputLanguage r") (simp_all add: languageField_def language_read)
  moreover have "(case languageField r of None \<Rightarrow> None | Some s \<Rightarrow> Some (parseOutputLanguage (Some (JStr s)))) \<noteq> Some None"
    by (cases "cq_outputLanguage r") (simp_all add: languageField_def language_read)
  ultimately show ?thesis
    using assms
    by (simp add: requestOfFields_def requestFields_values Let_def fieldOr_def status_read readBack_fmOfField fieldsKnown_def)
qed

text \<open>
  The state of a capture request survives the wiki: the node the worker writes for a request parses
  back to exactly that request, with the etag the node then has.
\<close>

theorem request_state_roundtrip:
  assumes "cq_url r \<noteq> []" and "fieldsKnown r"
  shows "parseSourceCaptureRequest
      \<lparr>nd_path = cq_path r, nd_kind = wr_kind (requestWrite db old r), nd_content = wr_content (requestWrite db old r),
       nd_etag = etag, nd_metadataJson = wr_metadataJson (requestWrite db old r)\<rparr> = Inr (Some (r \<lparr>cq_etag := etag\<rparr>))"
  using read_written [OF requestFields_plain requestFields_distinct, of r] request_read_back [OF assms]
  by (simp add: parseSourceCaptureRequest_def requestWrite_def)

definition sampleRequest :: SourceCaptureRequest where
  "sampleRequest = \<lparr>cq_path = ''/Sources/source-capture-requests/1-a.md'', cq_etag = ''e1'', cq_status = CsQueued,
     cq_url = ''https://example.org/'', cq_requestedBy = ''aaaaa-aa'', cq_requestedAt = ''2026-01-01'', cq_outputLanguage = Some Ja,
     cq_claimedAt = None, cq_sourcePath = Some None, cq_targetPath = Some None, cq_finishedAt = None, cq_error = Some None,
     cq_metadataJson = ''{}''\<rparr>"

theorem request_state_roundtrip_witness:
  "parseSourceCaptureRequest
      \<lparr>nd_path = cq_path sampleRequest, nd_kind = wr_kind (requestWrite ''db'' ''e1'' sampleRequest),
       nd_content = wr_content (requestWrite ''db'' ''e1'' sampleRequest), nd_etag = ''e2'',
       nd_metadataJson = wr_metadataJson (requestWrite ''db'' ''e1'' sampleRequest)\<rparr> =
     Inr (Some (sampleRequest \<lparr>cq_etag := ''e2''\<rparr>))"
  by (rule request_state_roundtrip) (simp_all add: sampleRequest_def fieldsKnown_def)

subsection \<open>The effects of an action\<close>

definition onlyEffects :: "(GenEffect \<Rightarrow> bool) \<Rightarrow> GenWorld \<Rightarrow> GenWorld \<Rightarrow> bool" where
  "onlyEffects Q w w' \<longleftrightarrow> (\<exists>es. g_effects w' = g_effects w @ es \<and> list_all Q es)"

interpretation effects: preorder_moves "onlyEffects Q" for Q
proof
  show "onlyEffects Q w w" for w by (simp add: onlyEffects_def)
  show "onlyEffects Q w v" if "onlyEffects Q w u" "onlyEffects Q u v" for w u v
    using that unfolding onlyEffects_def by (metis append.assoc list_all_append)
qed

lemma onlyEffects_primitive:
  "movesA (onlyEffects Q) (genCall f)"
  "Q e \<Longrightarrow> movesA (onlyEffects Q) (genEffect e g)"
  "movesA (onlyEffects Q) (jobsDb h stmt)"
  by (auto simp: movesA_def onlyEffects_def genCall_def genEffect_def jobsDb_def Let_def split: option.split)

lemma moves_prod: "(\<And>x y. movesA R (f x y)) \<Longrightarrow> movesA R (case p of (x, y) \<Rightarrow> f x y)"
  by (cases p) simp

lemma moves_bool: "movesA R m \<Longrightarrow> movesA R n \<Longrightarrow> movesA R (case b of True \<Rightarrow> m | False \<Rightarrow> n)"
  by (cases b) simp_all

text \<open>A predicate on effects that allows the worker's bookkeeping: folders, conditional writes of files, queue messages.\<close>

locale capture_effects =
  fixes Q :: "GenEffect \<Rightarrow> bool"
  assumes Q_mkdir: "Q (EffMkdir db path)"
    and Q_write: "wr_kind r = File \<Longrightarrow> wr_expectedEtag r \<noteq> None \<Longrightarrow> Q (EffWrite r)"
    and Q_send: "Q (EffSend m d)"
begin

lemma calls_move: "movesA (onlyEffects Q) (readNodeA h db path)" "movesA (onlyEffects Q) (isoNowA h)" "movesA (onlyEffects Q) (nowA h)"
  "movesA (onlyEffects Q) (loadJob h db path)" "movesA (onlyEffects Q) (upsertQueuedJob h m)"
  by (simp_all add: readNodeA_def isoNowA_def nowA_def loadJob_def upsertQueuedJob_def onlyEffects_primitive)

lemma mkdirChain_moves: "movesA (onlyEffects Q) (mkdirChain h db current segments)"
  by (induction segments arbitrary: current)
    (simp_all add: Let_def mkdirNodeA_def effects.moves onlyEffects_primitive Q_mkdir)

lemma ensureParentFolders_moves: "movesA (onlyEffects Q) (ensureParentFolders h db path)"
  by (simp add: ensureParentFolders_def Let_def mkdirChain_moves)

lemmas basic_moves = effects.moves calls_move ensureParentFolders_moves moves_attemptA onlyEffects_primitive(1,3)

lemma writeRequestState_moves: "movesA (onlyEffects Q) (writeRequestState h P db r u)"
  unfolding writeRequestState_def Let_def writeNodeA_def
  by (intro basic_moves onlyEffects_primitive(2) Q_write) (simp_all add: requestWrite_def)

lemma readRequest_moves: "movesA (onlyEffects Q) (readSourceCaptureRequest h db path)"
  unfolding readSourceCaptureRequest_def by (intro basic_moves)

lemmas request_moves = basic_moves writeRequestState_moves readRequest_moves

lemma writeLatest_moves: "movesA (onlyEffects Q) (writeLatestRequestState h P db path u)"
  unfolding writeLatestRequestState_def by (intro request_moves)

lemma mark_moves:
  "movesA (onlyEffects Q) (markSourceCaptureRequestCompleted h P db path s t)"
  "movesA (onlyEffects Q) (markSourceCaptureRequestFailed h P db path e)"
  unfolding markSourceCaptureRequestCompleted_def markSourceCaptureRequestFailed_def by (intro request_moves)+

lemma bestEffort_moves:
  "movesA (onlyEffects Q) (bestEffortWriteLatestRequestState h P db path u)"
  "movesA (onlyEffects Q) (bestEffortWriteRequestState h P db r u)"
  unfolding bestEffortWriteLatestRequestState_def bestEffortWriteRequestState_def
  by (intro request_moves writeLatest_moves)+

lemma claim_moves: "movesA (onlyEffects Q) (claimSourceCaptureRequest h P db r)"
  unfolding claimSourceCaptureRequest_def claimWrite_def by (intro request_moves)

lemma enqueue_moves: "movesA (onlyEffects Q) (enqueueSourceJob h m)"
  unfolding enqueueSourceJob_def by (intro basic_moves onlyEffects_primitive(2) Q_send)

lemma enqueueCaptured_moves: "movesA (onlyEffects Q) (enqueueCaptured h P db r nonce ack)"
  unfolding enqueueCaptured_def Let_def by (intro request_moves enqueue_moves moves_bool)

lemma captureBody_moves:
  assumes "\<And>c. movesA (onlyEffects Q) (captureSource h P config db c nonce)"
  shows "movesA (onlyEffects Q) (captureBody h P config db c nonce)"
  unfolding captureBody_def requireSourceAck_def
  by (intro request_moves bestEffort_moves enqueueCaptured_moves assms moves_prod)

lemma process_moves:
  assumes "\<And>c. movesA (onlyEffects Q) (captureSource h P config db c nonce)"
  shows "movesA (onlyEffects Q) (processAuthorizedSourceCaptureRequest fuel h P config db r nonce)"
proof (induction fuel arbitrary: r)
  case (Suc fuel)
  then show ?case
    unfolding processAuthorizedSourceCaptureRequest.simps Let_def
    by (intro request_moves claim_moves captureBody_moves assms writeLatest_moves)
qed (simp add: effects.moves)

end

subsection \<open>Conditional writes\<close>

text \<open>A write creates a new source or replaces the version of a file that was read.\<close>

definition conditionalWrite :: "GenEffect \<Rightarrow> bool" where
  "conditionalWrite e =
     (case e of
        EffWrite r \<Rightarrow> wr_kind r = Source \<and> wr_expectedEtag r = None \<or> wr_kind r = File \<and> wr_expectedEtag r \<noteq> None
      | _ \<Rightarrow> True)"

interpretation conditional: capture_effects conditionalWrite
  by unfold_locales (simp_all add: conditionalWrite_def)

lemma fetch_moves:
  assumes "\<And>url. Q (EffFetch url)"
  shows "movesA (onlyEffects Q) (fetchUrlSource h P u n)"
proof (rule movesA_I)
  fix w
  from fetchUrlSource_fetches [of P w h u n] obtain urls :: "UrlParts list" where
    "g_effects (snd (fetchUrlSource h P u n w)) = g_effects w @ map (\<lambda>u. EffFetch (up_href u)) urls"
    by (auto simp: fetchesOnly_def)
  then show "onlyEffects Q w (snd (fetchUrlSource h P u n w))"
    unfolding onlyEffects_def by (intro exI [of _ "map (\<lambda>u. EffFetch (up_href u)) urls"]) (simp add: list_all_iff assms)
qed

lemma writeSource_conditional: "movesA (onlyEffects conditionalWrite) (writeSourceFrom h db base content meta attempts)"
proof (induction attempts)
  case (Cons n attempts)
  then show ?case
    unfolding writeSourceFrom.simps Let_def writeNodeA_def
    by (intro conditional.basic_moves onlyEffects_primitive(2)) (simp_all add: conditionalWrite_def)
qed (simp only: writeSourceFrom.simps effects.moves)

lemma captureSource_conditional: "movesA (onlyEffects conditionalWrite) (captureSource h P config db c nonce)"
  unfolding captureSource_def Let_def writeFetchedSource_def
  by (intro conditional.request_moves conditional.bestEffort_moves fetch_moves writeSource_conditional moves_prod)
    (simp_all add: conditionalWrite_def)


subsection \<open>No fetch without a session\<close>

definition noCapture :: "GenEffect \<Rightarrow> bool" where
  "noCapture e = (case e of EffFetch url \<Rightarrow> False | EffWrite r \<Rightarrow> wr_kind r = File | _ \<Rightarrow> True)"

interpretation uncaptured: capture_effects noCapture
  by unfold_locales (simp_all add: noCapture_def)

text \<open>
  The session pays for the fetch: when the canister refuses every session check, a run of the capture
  handler requests no URL and stores no source.
\<close>

theorem capture_needs_session:
  assumes "\<And>k db path nonce. \<exists>e. gh_checkSourceCaptureTriggerSession h k db path nonce = Inl e"
  shows "\<exists>es. g_effects (snd (triggerSourceCaptureRequest fuel h P env input w)) = g_effects w @ es \<and> list_all noCapture es"
proof -
  have refused: "movesA (onlyEffects noCapture) (captureSource h P config db c nonce)" for config db c nonce
    unfolding captureSource_def
  proof (rule effects.moves_bindA_dep)
    fix s t and x :: "gen_error + unit"
    let ?check = "genCall (\<lambda>k. gh_checkSourceCaptureTriggerSession h k db (cq_path c) nonce)"
    assume "attemptA ?check s = (Inr x, t)"
    then obtain e where "x = Inl e" using assms [of "g_calls s" db "cq_path c" nonce] by (auto simp: attemptA_def genCall_def)
    then show "movesA (onlyEffects noCapture) (case x of
        Inl e \<Rightarrow> bindA (bestEffortWriteLatestRequestState h P db (cq_path c) (failedUpdate (errorText e))) (\<lambda>_. retA None)
      | Inr u \<Rightarrow> bindA (fetchUrlSource h P (cq_url c) (wc_maxFetchedBytes config)) (\<lambda>fetched.
          let sourcePath = sourcePathForUrl P (wc_sourcePrefix config) (fu_finalUrl fetched)
                (case fu_title fetched of Some t \<Rightarrow> t | None \<Rightarrow> fu_finalUrl fetched) in
          bindA (writeFetchedSource h db sourcePath fetched (wc_maxSourceChars config)) (\<lambda>ack.
          bindA (writeRequestState h P db c
                   ((statusOnly CsSourceWritten) \<lparr>ru_sourcePath := Some (Some (wa_path ack)), ru_error := Some None\<rparr>)) (\<lambda>stored.
            retA (Some (ack, stored))))))"
      by (simp add: effects.moves uncaptured.bestEffort_moves)
  qed (intro uncaptured.basic_moves)
  have "movesA (onlyEffects noCapture) (triggerSourceCaptureRequest fuel h P env input)"
    unfolding triggerSourceCaptureRequest_def
    by (intro uncaptured.request_moves uncaptured.process_moves refused)
  then show ?thesis by (simp add: movesA_def onlyEffects_def)
qed

definition closedHost :: GenHost where
  "closedHost = quietHost \<lparr>gh_checkSourceCaptureTriggerSession := (\<lambda>_ _ _ _. Inl (GenError ''expired''))\<rparr>"

definition sampleEnv :: GenEnv where
  "sampleEnv = \<lparr>ge_KINIC_WIKI_CANISTER_ID = Some ''c'', ge_KINIC_WIKI_ALLOWED_DATABASE_ID = None, ge_KINIC_WIKI_IC_HOST = None,
     ge_KINIC_WIKI_WORKER_MODEL = None, ge_KINIC_WIKI_WORKER_TARGET_ROOT = None, ge_KINIC_WIKI_WORKER_SOURCE_PREFIX = None,
     ge_KINIC_WIKI_WORKER_CONTEXT_PREFIX = None, ge_KINIC_WIKI_WORKER_MAX_RAW_CHARS = None,
     ge_KINIC_WIKI_WORKER_MAX_FETCHED_BYTES = None, ge_KINIC_WIKI_WORKER_MAX_SOURCE_CHARS = None,
     ge_KINIC_WIKI_WORKER_CONTEXT_CANDIDATES = None, ge_KINIC_WIKI_WORKER_CONTEXT_SELECTIONS = None,
     ge_KINIC_WIKI_WORKER_MAX_OUTPUT_TOKENS = None, ge_KINIC_WIKI_WORKER_TOKEN = None, ge_TYPESAFE_API_KEY = ''key''\<rparr>"

definition sampleTrigger :: SourceCaptureQueueMessage where
  "sampleTrigger = \<lparr>cm_canisterId = ''c'', cm_databaseId = ''db'', cm_requestPath = cq_path sampleRequest, cm_sessionNonce = ''n''\<rparr>"

definition emptyWorld :: GenWorld where
  "emptyWorld = \<lparr>g_jobs = [], g_calls = 0, g_effects = []\<rparr>"

theorem capture_needs_session_witness:
  "\<exists>es. g_effects (snd (triggerSourceCaptureRequest 1 closedHost plainPlatform sampleEnv sampleTrigger emptyWorld)) =
     g_effects emptyWorld @ es \<and> list_all noCapture es"
  by (rule capture_needs_session) (simp add: closedHost_def)

subsection \<open>The handler returns\<close>

text \<open>
  \<open>calmA N m\<close>: the action makes calls only forwards, and if it starts after call \<open>N\<close> it does not end in
  a lost race.
\<close>

definition calmA :: "nat \<Rightarrow> 'a gen \<Rightarrow> bool" where
  "calmA N m \<longleftrightarrow>
     (\<forall>w. g_calls w \<le> g_calls (snd (m w)) \<and> (N \<le> g_calls w \<longrightarrow> (\<forall>e. fst (m w) = Inl e \<longrightarrow> \<not> isEtagMismatch e)))"

lemma calmA_I:
  "(\<And>w. g_calls w \<le> g_calls (snd (m w))) \<Longrightarrow> (\<And>w e. N \<le> g_calls w \<Longrightarrow> fst (m w) = Inl e \<Longrightarrow> \<not> isEtagMismatch e) \<Longrightarrow> calmA N m"
  by (simp add: calmA_def)

lemma calmA_basic: "calmA N (retA x)" "\<not> isEtagMismatch e \<Longrightarrow> calmA N (throwA e)"
  "(\<And>e. r = Inl e \<Longrightarrow> \<not> isEtagMismatch e) \<Longrightarrow> calmA N (liftR r)"
  by (simp_all add: calmA_def)

lemma calmA_bindA:
  assumes "calmA N m" and "\<And>x. calmA N (f x)"
  shows "calmA N (bindA m f)"
proof (rule calmA_I)
  fix w
  show "g_calls w \<le> g_calls (snd (bindA m f w))"
    using assms unfolding calmA_def
    by (auto simp: act_simps split: sum.split) (meson order.trans)
next
  fix w e
  assume "N \<le> g_calls w" and "fst (bindA m f w) = Inl e"
  with assms show "\<not> isEtagMismatch e"
    unfolding calmA_def
    by (auto simp: act_simps split: sum.splits) (meson order.trans)
qed

lemma calmA_catchA: "calmA N m \<Longrightarrow> (\<And>e. calmA N (k e)) \<Longrightarrow> calmA N (catchA m k)"
proof (rule calmA_I)
  fix w
  assume m: "calmA N m" and k: "\<And>e. calmA N (k e)"
  show "g_calls w \<le> g_calls (snd (catchA m k w))"
    using m k unfolding calmA_def by (auto simp: act_simps split: sum.split) (meson order.trans)
  fix e
  assume "N \<le> g_calls w" and "fst (catchA m k w) = Inl e"
  with m k show "\<not> isEtagMismatch e"
    unfolding calmA_def by (auto simp: act_simps split: sum.splits) (meson order.trans)
qed

lemma calmA_attemptA: "calmA N m \<Longrightarrow> calmA N (attemptA m)"
  by (simp add: calmA_def attemptA_def split_def)

lemma calmA_cases:
  "(c \<Longrightarrow> calmA N m) \<Longrightarrow> (\<not> c \<Longrightarrow> calmA N n) \<Longrightarrow> calmA N (if c then m else n)"
  "calmA N m \<Longrightarrow> (\<And>x. calmA N (f x)) \<Longrightarrow> calmA N (case opt of None \<Rightarrow> m | Some x \<Rightarrow> f x)"
  "(\<And>x. calmA N (g x)) \<Longrightarrow> (\<And>y. calmA N (k y)) \<Longrightarrow> calmA N (case s of Inl x \<Rightarrow> g x | Inr y \<Rightarrow> k y)"
  "calmA N m \<Longrightarrow> calmA N n \<Longrightarrow> calmA N (case b of True \<Rightarrow> m | False \<Rightarrow> n)"
  "(\<And>x y. calmA N (u x y)) \<Longrightarrow> calmA N (case p of (x, y) \<Rightarrow> u x y)"
  by (simp_all split: option.split sum.split bool.split prod.split)

lemmas calm = calmA_basic calmA_bindA calmA_catchA calmA_attemptA calmA_cases

lemma calmA_genCall: "(\<And>k e. N \<le> k \<Longrightarrow> f k = Inl e \<Longrightarrow> \<not> isEtagMismatch e) \<Longrightarrow> calmA N (genCall f)"
  by (auto simp: calmA_def genCall_def)

lemma calmA_genEffect: "(\<And>k e. N \<le> k \<Longrightarrow> f k = Inl e \<Longrightarrow> \<not> isEtagMismatch e) \<Longrightarrow> calmA N (genEffect eff f)"
  by (auto simp: calmA_def genEffect_def)

lemma calmA_jobsDb: "calmA N (jobsDb h stmt)"
  by (auto simp: calmA_def jobsDb_def Let_def isEtagMismatch_def split: option.split)

text \<open>
  The races on the wiki end with call \<open>N\<close>: later writes meet no conflict, and only writes report one.
\<close>

definition conflictsEndAt :: "nat \<Rightarrow> GenHost \<Rightarrow> bool" where
  "conflictsEndAt N h \<longleftrightarrow>
     (\<forall>k r e. N \<le> k \<longrightarrow> gh_writeNode h k r = Inl e \<longrightarrow> \<not> isEtagMismatch e) \<and>
     (\<forall>k db p e. N \<le> k \<longrightarrow> gh_mkdirNode h k db p = Inl e \<longrightarrow> \<not> isEtagMismatch e) \<and>
     (\<forall>k db p e. gh_readNode h k db p = Inl e \<longrightarrow> \<not> isEtagMismatch e) \<and>
     (\<forall>k url e. gh_fetch h k url = Inl e \<longrightarrow> \<not> isEtagMismatch e) \<and>
     (\<forall>k m e. gh_send h k m = Inl e \<longrightarrow> \<not> isEtagMismatch e) \<and>
     (\<forall>k db p n e. gh_checkSourceCaptureTriggerSession h k db p n = Inl e \<longrightarrow> \<not> isEtagMismatch e)"

lemma calm_errors:
  "\<not> isEtagMismatch (GenError t)" "\<not> isEtagMismatch (GenHostError t)" "\<not> isEtagMismatch SourceTargetConflictError"
  by (simp_all add: isEtagMismatch_def)

lemma parse_errors:
  "parseAllowedUrl P v = Inl e \<Longrightarrow> \<not> isEtagMismatch e"
  "validateSourceRootPath path prefix = Inl e \<Longrightarrow> \<not> isEtagMismatch e"
  by (auto simp: parseAllowedUrl_def validateSourceRootPath_def Let_def calm_errors split: option.splits if_splits)

lemma extractFetched_errors: "extractFetched P u n x = Inl e \<Longrightarrow> \<not> isEtagMismatch e"
proof -
  have "readChunks n chunks got = Inl e \<Longrightarrow> \<not> isEtagMismatch e" for chunks got
    by (induction n chunks got rule: readChunks.induct) (auto simp: Let_def calm_errors split: if_splits)
  then show "extractFetched P u n x = Inl e \<Longrightarrow> \<not> isEtagMismatch e"
    by (auto simp: extractFetched_def Let_def readTextLimited_def bindR_Inl_iff calm_errors split: prod.splits if_splits option.splits)
qed

lemma parseScalar_errors: "parseScalar v = Inl e \<Longrightarrow> \<not> isEtagMismatch e"
  by (auto simp: parseScalar_def calm_errors split: if_splits option.splits json.splits)

lemma readFields_errors: "readFields lines acc = Inl e \<Longrightarrow> \<not> isEtagMismatch e"
proof (induction lines arbitrary: acc)
  case (Cons line lines)
  show ?case
  proof (cases "fieldLine line")
    case None
    with Cons show ?thesis by simp
  next
    case (Some p)
    obtain k v where "p = (k, v)" by (cases p)
    with Cons Some parseScalar_errors show ?thesis by (auto simp: bindR_Inl_iff)
  qed
qed simp

lemma parseFrontmatter_errors: "parseFrontmatter s = Inl e \<Longrightarrow> \<not> isEtagMismatch e"
  using readFields_errors by (auto simp: parseFrontmatter_def Let_def bindR_Inl_iff split: if_splits option.splits)

lemma parseRequest_errors: "parseSourceCaptureRequest n = Inl e \<Longrightarrow> \<not> isEtagMismatch e"
  by (auto simp: parseSourceCaptureRequest_def bindR_Inl_iff dest: parseFrontmatter_errors split: if_splits option.splits)

lemma calls_calm:
  assumes "conflictsEndAt N h"
  shows "calmA N (readNodeA h db path)" and "calmA N (mkdirNodeA h db path)" and "calmA N (writeNodeA h r)"
    and "calmA N (isoNowA h)" and "calmA N (nowA h)" and "calmA N (fetchCall h url)"
    and "calmA N (genCall (\<lambda>k. gh_checkSourceCaptureTriggerSession h k db path nonce))"
  using assms
  by (auto simp: conflictsEndAt_def readNodeA_def mkdirNodeA_def writeNodeA_def isoNowA_def nowA_def fetchCall_def
      intro!: calmA_genCall calmA_genEffect)

lemma folders_calm: "conflictsEndAt N h \<Longrightarrow> calmA N (ensureParentFolders h db path)"
proof -
  assume "conflictsEndAt N h"
  then have "calmA N (mkdirChain h db current segments)" for current segments
    by (induction segments arbitrary: current) (simp_all add: Let_def calm calls_calm)
  then show ?thesis by (simp add: ensureParentFolders_def Let_def)
qed

lemma writeRequest_calm: "conflictsEndAt N h \<Longrightarrow> calmA N (writeRequestState h P db r u)"
  unfolding writeRequestState_def Let_def by (intro calm calls_calm folders_calm calm_errors)

lemma readRequest_calm: "conflictsEndAt N h \<Longrightarrow> calmA N (readSourceCaptureRequest h db path)"
  unfolding readSourceCaptureRequest_def by (intro calm calls_calm parseRequest_errors)

lemmas request_calm = calm calls_calm folders_calm writeRequest_calm readRequest_calm calm_errors

lemma writeLatest_calm: "conflictsEndAt N h \<Longrightarrow> calmA N (writeLatestRequestState h P db path u)"
  unfolding writeLatestRequestState_def by (intro request_calm; assumption?)

lemma bestEffortLatest_calm: "conflictsEndAt N h \<Longrightarrow> calmA N (bestEffortWriteLatestRequestState h P db path u)"
  unfolding bestEffortWriteLatestRequestState_def by (intro calmA_catchA calmA_basic writeLatest_calm)

lemma bestEffort_calm: "conflictsEndAt N h \<Longrightarrow> calmA N (bestEffortWriteRequestState h P db r u)"
  unfolding bestEffortWriteRequestState_def by (intro request_calm bestEffortLatest_calm; assumption?)

lemma claim_calm: "conflictsEndAt N h \<Longrightarrow> calmA N (claimSourceCaptureRequest h P db r)"
  unfolding claimSourceCaptureRequest_def claimWrite_def by (intro request_calm; assumption?)

lemma fetch_calm: "conflictsEndAt N h \<Longrightarrow> calmA N (fetchUrlSource h P u n)"
proof -
  assume h: "conflictsEndAt N h"
  have "calmA N (fetchFollowing h P m url)" for m url
  proof (induction m arbitrary: url)
    case 0
    show ?case by (subst fetchFollowing.simps, unfold nat.case) (intro calm calls_calm [OF h] calm_errors)
  next
    case (Suc m)
    then show ?case
      by (subst fetchFollowing.simps, unfold nat.case) (intro calm calls_calm [OF h] calm_errors parse_errors(1); assumption?)
  qed
  then show ?thesis
    unfolding fetchUrlSource_def fetchAllowedUrl_def
    by (intro calm parse_errors(1) extractFetched_errors; assumption?)
qed

lemma writeSource_calm: "conflictsEndAt N h \<Longrightarrow> calmA N (writeSourceFrom h db base content meta attempts)"
proof (induction attempts)
  case (Cons n attempts)
  then show ?case
    unfolding writeSourceFrom.simps Let_def by (intro request_calm; assumption?)
qed (simp only: writeSourceFrom.simps, intro calm calm_errors)

lemma captureSource_calm: "conflictsEndAt N h \<Longrightarrow> calmA N (captureSource h P config db c nonce)"
  unfolding captureSource_def writeFetchedSource_def Let_def
  by (intro request_calm bestEffortLatest_calm fetch_calm writeSource_calm; assumption?)

lemma enqueue_calm: "conflictsEndAt N h \<Longrightarrow> calmA N (enqueueSourceJob h m)"
  unfolding enqueueSourceJob_def upsertQueuedJob_def loadJob_def
  by (intro calm calmA_jobsDb calmA_genEffect calm_errors) (auto simp: conflictsEndAt_def)

lemma enqueueCaptured_calm: "conflictsEndAt N h \<Longrightarrow> calmA N (enqueueCaptured h P db c nonce ack)"
  unfolding enqueueCaptured_def loadJob_def Let_def
  by (intro request_calm enqueue_calm calmA_jobsDb; assumption?)

lemma captureBody_calm: "conflictsEndAt N h \<Longrightarrow> calmA N (captureBody h P config db c nonce)"
  unfolding captureBody_def requireSourceAck_def
  by (intro request_calm bestEffort_calm captureSource_calm enqueueCaptured_calm parse_errors(2); assumption?)

lemma calmA_mono: "calmA N m \<Longrightarrow> g_calls w \<le> g_calls (snd (m w))"
  by (simp add: calmA_def)

lemma attempt_race:
  assumes "calmA N m" and "attemptA m w = (Inr (Inl e), w')" and "isEtagMismatch e"
  shows "g_calls w < N"
  using assms by (auto simp: calmA_def attemptA_def split: prod.splits) (metis fst_conv not_le)

lemma process_returns:
  assumes h: "conflictsEndAt N h" and "N - g_calls w < fuel"
  shows "fst (processAuthorizedSourceCaptureRequest fuel h P config db r nonce w) \<noteq> Inr False"
  using assms(2)
proof (induction fuel arbitrary: r w)
  case (Suc fuel)
  define handle where "handle = (\<lambda>path e.
        if isEtagMismatch e then
          bindA (readSourceCaptureRequest h db (cq_path r)) (\<lambda>latest.
            case latest of
              None \<Rightarrow> retA True
            | Some l \<Rightarrow>
                if cq_status l \<noteq> CsSourceWritten then retA True
                else processAuthorizedSourceCaptureRequest fuel h P config db l nonce)
        else bindA (writeLatestRequestState h P db path (failedUpdate (errorText e))) (\<lambda>_. retA True))"
  have handled: "fst (handle path e w') \<noteq> Inr False" if "g_calls w \<le> g_calls w'" and "isEtagMismatch e \<Longrightarrow> g_calls w < N" for path e w'
  proof (cases "isEtagMismatch e")
    case True
    have "g_calls w' < g_calls (snd (readSourceCaptureRequest h db (cq_path r) w'))"
      by (auto simp: readSourceCaptureRequest_def readNodeA_def genCall_def act_simps split: sum.split option.split)
    with that True Suc.prems have "N - g_calls (snd (readSourceCaptureRequest h db (cq_path r) w')) < fuel" by simp
    from Suc.IH [OF this] show ?thesis
      using True by (auto simp: handle_def act_simps split: sum.split option.split)
  qed (auto simp: handle_def act_simps split: sum.split)
  let ?claim = "claimSourceCaptureRequest h P db r"
  obtain claimed w1 where claim: "attemptA ?claim w = (Inr claimed, w1)" by (simp add: attemptA_eq)
  then have claim': "fst (?claim w) = claimed" "snd (?claim w) = w1" by (simp_all add: attemptA_eq)
  then have w1: "g_calls w \<le> g_calls w1"
    using calmA_mono [OF claim_calm [OF h], of w P db r] by simp
  show ?case
  proof (cases claimed)
    case (Inl e)
    have "fst (handle (cq_path r) e w1) \<noteq> Inr False"
      by (rule handled [OF w1]) (rule attempt_race [OF claim_calm [OF h] claim [unfolded Inl]])
    then show ?thesis by (simp add: Let_def handle_def [symmetric] bindA_attemptA claim' Inl)
  next
    case (Inr opt)
    show ?thesis
    proof (cases opt)
      case None
      then show ?thesis by (simp add: Let_def bindA_attemptA claim' Inr)
    next
      case (Some c)
      let ?body = "captureBody h P config db c nonce"
      obtain outcome w2 where body: "attemptA ?body w1 = (Inr outcome, w2)" by (simp add: attemptA_eq)
      then have body': "fst (?body w1) = outcome" "snd (?body w1) = w2" by (simp_all add: attemptA_eq)
      then have w2: "g_calls w \<le> g_calls w2"
        using w1 calmA_mono [OF captureBody_calm [OF h], of w1 P config db c nonce] by simp
      have "fst (handle (cq_path c) e w2) \<noteq> Inr False" if "outcome = Inl e" for e
        by (rule handled [OF w2]) (use attempt_race [OF captureBody_calm [OF h] body [unfolded that]] w1 in simp)
      then show ?thesis
        by (auto simp: Let_def handle_def [symmetric] bindA_attemptA claim' body' Inr Some split: sum.split)
    qed
  qed
qed simp

lemma trigger_returns:
  assumes "conflictsEndAt N h" and "N < fuel"
  shows "fst (triggerSourceCaptureRequest fuel h P env input w) \<noteq> Inr False"
proof -
  have "fst (processAuthorizedSourceCaptureRequest fuel h P config db r nonce w') \<noteq> Inr False" for config db r nonce w'
    by (rule process_returns [OF assms(1)]) (use assms(2) in simp)
  then show ?thesis
    by (auto simp: triggerSourceCaptureRequest_def act_simps
        simp del: processAuthorizedSourceCaptureRequest.simps split: sum.split option.split)
qed

text \<open>
  The capture handler returns. If the conflicts on the wiki end with some call \<open>N\<close>, then any
  fuel above \<open>N\<close> is enough: no run stops because its fuel is used up.
\<close>

theorem capture_returns:
  assumes "conflictsEndAt N h" and "N < fuel"
  shows "fst (triggerSourceCaptureRequest fuel h P env input w) \<noteq> Inr False"
  using assms by (rule trigger_returns)

theorem capture_returns_witness:
  "fst (triggerSourceCaptureRequest 1 quietHost plainPlatform sampleEnv sampleTrigger emptyWorld) \<noteq> Inr False"
  by (rule capture_returns [of 0]) (simp_all add: conflictsEndAt_def quietHost_def)

end
