(* ===== verification/Generator_Processing.thy ===== *)
theory Generator_Processing
  imports Generator_Capture_Facts
begin

section \<open>Generator worker: the generation workflow\<close>

text \<open>
  \<^verbatim>\<open>workers/wiki-generator/src/processing.ts\<close>: the generation of a page from a source, its commit to the wiki,
  and the disposition of the queue message that asked for it. An optional string is given when it is neither
  absent nor empty (the truth value of the source). The handler of a capture may not return: the dispositions
  of the queue are \<open>None\<close> when its fuel is used up.
\<close>

subsection \<open>Dispositions and errors\<close>

datatype QueueDisposition =
    Ack
  | Retry nat string string
  | Reschedule nat string string
  | DeadLetter string string

record QueueExecution =
  qe_leaseOwner :: string
  qe_attempts :: nat

definition given :: "string option \<Rightarrow> bool" where
  "given v \<longleftrightarrow> v \<noteq> None \<and> v \<noteq> Some []"

definition jevFailure :: "jev_error \<Rightarrow> gen_error" where
  "jevFailure e = JevError (jev_code e) (jev_code e) (jev_retryable e)"

definition isPermanentGenerationError :: "gen_error \<Rightarrow> bool" where
  "isPermanentGenerationError e =
     (case e of
        ExternalCostGateError m \<Rightarrow> True
      | SourceValidationError m \<Rightarrow> True
      | GeneratedArtifactError m \<Rightarrow> True
      | DraftValidationError m \<Rightarrow> True
      | DeepSeekResponseError m \<Rightarrow> True
      | DeepSeekRequestError c m retryable a \<Rightarrow> \<not> retryable
      | JevError c m retryable \<Rightarrow> \<not> retryable
      | _ \<Rightarrow> False)"

definition errorCode :: "gen_error \<Rightarrow> string" where
  "errorCode e =
     (case e of
        DeepSeekRequestError c m r a \<Rightarrow> c
      | JevError c m r \<Rightarrow> c
      | _ \<Rightarrow> ''source_generation_transient'')"

definition backoffCeiling :: "nat \<Rightarrow> nat \<Rightarrow> nat" where
  "backoffCeiling base attempts = min 300 (base * 2 ^ (attempts - 1))"

definition exponentialBackoff :: "GenHost \<Rightarrow> nat \<Rightarrow> nat gen" where
  "exponentialBackoff h attempts =
     genCall (\<lambda>k. Inr (max 1 (gh_random h k (backoffCeiling 15 attempts))))"

definition retryDisposition :: "GenHost \<Rightarrow> string \<Rightarrow> string \<Rightarrow> nat \<Rightarrow> nat option \<Rightarrow> QueueDisposition gen" where
  "retryDisposition h code message attempts retryAfter =
     bindA (case retryAfter of Some n \<Rightarrow> retA n | None \<Rightarrow> exponentialBackoff h attempts) (\<lambda>delaySeconds.
       retA (Retry delaySeconds code message))"

text \<open>The random unit is drawn before the error is looked at; \<open>floor = Math.ceil(ceiling / 2)\<close>.\<close>

definition deepSeekRetryDelaySeconds :: "GenHost \<Rightarrow> gen_error \<Rightarrow> nat \<Rightarrow> nat option gen" where
  "deepSeekRetryDelaySeconds h e attempts =
     (let ceiling = backoffCeiling 60 attempts; floor = (ceiling + 1) div 2 in
      bindA (genCall (\<lambda>k. Inr (gh_random h k (ceiling - floor + 1)))) (\<lambda>scaled.
        retA (case e of
            DeepSeekRequestError code m r (Some retryAfter) \<Rightarrow> Some retryAfter
          | DeepSeekRequestError code m r None \<Rightarrow>
              if code \<noteq> ''deepseek_http_503'' then None else Some (min ceiling (floor + scaled))
          | _ \<Rightarrow> None)))"

subsection \<open>The context of a page\<close>

fun unquoteSingle :: "string \<Rightarrow> string" where
  "unquoteSingle (a # b # s) =
     (if charCode a = 39 \<and> charCode b = 39 then a # unquoteSingle s else a # unquoteSingle (b # s))"
| "unquoteSingle s = s"

definition cleanYamlScalar :: "string \<Rightarrow> gen_error + string" where
  "cleanYamlScalar v =
     (if startsWith v [CHR 0x22] \<and> endsWith v [CHR 0x22] then
        (case JSON_parse v of
           Some (JStr s) \<Rightarrow> Inr s
         | _ \<Rightarrow> Inl (GenError ''Invalid quoted YAML scalar.''))
      else if startsWith v [CHR 0x27] \<and> endsWith v [CHR 0x27] then Inr (unquoteSingle (butlast (tl v)))
      else Inr v)"

fun metadataLine :: "string \<Rightarrow> string list \<Rightarrow> gen_error + string option" where
  "metadataLine prefix [] = Inr None"
| "metadataLine prefix (line # rest) =
     (let trimmed = trim line in
      if startsWith trimmed prefix
      then bindR (cleanYamlScalar (trim (drop (length prefix) trimmed))) (\<lambda>v. Inr (if v = [] then None else Some v))
      else metadataLine prefix rest)"

definition metadataValue :: "string \<Rightarrow> string \<Rightarrow> gen_error + string option" where
  "metadataValue content key = metadataLine (''- '' @ key @ '':'') (splitOn (CHR 0x0A) content)"

definition headingTitle :: "string \<Rightarrow> string option" where
  "headingTitle content =
     map_option (\<lambda>line. trim (drop 2 line)) (find (\<lambda>item. startsWith item ''# '') (splitOn (CHR 0x0A) content))"

definition contextQuery :: "string \<Rightarrow> string \<Rightarrow> gen_error + string" where
  "contextQuery content sourcePath =
     bindR (metadataValue content ''conversation_title'') (\<lambda>named.
       let title = (case named of Some t \<Rightarrow> Some t | None \<Rightarrow> headingTitle content);
           parts = splitOn (CHR ''/'') sourcePath
       in Inr (case title of
           Some t \<Rightarrow> if t \<noteq> [] then t else if 2 \<le> length parts then parts ! (length parts - 2) else []
         | None \<Rightarrow> if 2 \<le> length parts then parts ! (length parts - 2) else []))"

definition hitCandidate :: "SearchNodeHit \<Rightarrow> JevCandidate" where
  "hitCandidate hit = \<lparr>jc_path = sh_path hit, jc_preview = previewText hit\<rparr>"

definition contextOptions :: "GenEnv \<Rightarrow> WorkerConfig \<Rightarrow> JevOptions" where
  "contextOptions env config = \<lparr>jo_apiKey = ge_TYPESAFE_API_KEY env, jo_selectionCount = Some (wc_maxContextSelections config),
     jo_rerankEvenIfWithinLimit = False, jo_maxRequestBytes = None, jo_maxResponseBytes = None\<rparr>"

text \<open>\<open>rerankWithJev\<close> as a call of the worker: the request, if there is one, is an effect.\<close>

definition rerankA :: "GenHost \<Rightarrow> GenPlatform \<Rightarrow> JevOptions \<Rightarrow> string \<Rightarrow> SearchNodeHit list \<Rightarrow> SearchNodeHit list gen" where
  "rerankA h P options intent hits =
     (let failed = (\<lambda>r. case r of Inl e \<Rightarrow> Inl (jevFailure e) | Inr selected \<Rightarrow> Inr selected) in
      case rerankWithJev (gp_jev P) options hitCandidate intent hits of
        Inl r \<Rightarrow> liftR (failed r)
      | Inr (body, finish) \<Rightarrow> genEffect (EffRerank body) (\<lambda>k. failed (finish (gh_rerank h k body))))"

definition loadContext ::
    "GenHost \<Rightarrow> GenPlatform \<Rightarrow> GenEnv \<Rightarrow> WorkerConfig \<Rightarrow> string \<Rightarrow> WikiNode \<Rightarrow> unit gen \<Rightarrow> SearchNodeHit list gen" where
  "loadContext h P env config databaseId source authorizeExternalCost =
     bindA (liftR (contextQuery (nd_content source) (nd_path source))) (\<lambda>query.
       if query = [] then retA []
       else
         bindA (genCall (\<lambda>k. gh_searchNodes h k databaseId query (wc_maxContextCandidates config) (wc_contextPrefix config))) (\<lambda>hits.
         bindA (if length hits > wc_maxContextSelections config then authorizeExternalCost else retA ()) (\<lambda>_.
           rerankA h P (contextOptions env config) (query @ newline @ newline @ take 4000 (nd_content source)) hits)))"

definition rankContextHits :: "string \<Rightarrow> SearchNodeHit list \<Rightarrow> SearchNodeHit list" where
  "rankContextHits sourcePrefix hits =
     (let isSource = (\<lambda>hit. sh_path hit = sourcePrefix \<or> startsWith (sh_path hit) (sourcePrefix @ ''/'')) in
      filter (\<lambda>hit. \<not> isSource hit) hits @ filter isSource hits)"

subsection \<open>Generating a page\<close>

record GeneratedPage =
  pg_targetPath :: string
  pg_content :: string
  pg_contextHits :: "SearchNodeHit list"
  pg_llmDurationMs :: nat

definition generateFromSource ::
    "GenHost \<Rightarrow> GenPlatform \<Rightarrow> GenEnv \<Rightarrow> WorkerConfig \<Rightarrow> string \<Rightarrow> WikiNode \<Rightarrow> unit gen \<Rightarrow> OutputLanguage option \<Rightarrow> GeneratedPage gen" where
  "generateFromSource h P env config databaseId source authorizeExternalCost outputLanguage =
     bindA (loadContext h P env config databaseId source authorizeExternalCost) (\<lambda>contextHits.
     bindA authorizeExternalCost (\<lambda>_.
     bindA (nowA h) (\<lambda>llmStartedAt.
     bindA (generateDraft h (gp_dateParse P) source contextHits config outputLanguage) (\<lambda>draft.
     bindA (nowA h) (\<lambda>llmFinishedAt.
     bindA (liftR (validateDraftSources draft (nd_path source))) (\<lambda>_.
     bindA (liftR (sourceIdFromPath (nd_path source) (wc_sourcePrefix config))) (\<lambda>sourceId.
     bindA (liftR (slugForGeneratedPage draft sourceId)) (\<lambda>slug.
       retA \<lparr>pg_targetPath = wc_targetRoot config @ ''/'' @ slug @ ''.md'',
             pg_content = renderGeneratedMarkdown draft source contextHits,
             pg_contextHits = contextHits, pg_llmDurationMs = llmFinishedAt - llmStartedAt\<rparr>))))))))"

record ExternalCostGateInput =
  eg_databaseId :: string
  eg_sourcePath :: "string option"
  eg_sourceEtag :: "string option"
  eg_requestPath :: "string option"
  eg_sessionNonce :: "string option"

definition ensureExternalCostAllowed :: "GenHost \<Rightarrow> ExternalCostGateInput \<Rightarrow> unit gen" where
  "ensureExternalCostAllowed h input =
     catchA
       (if given (eg_requestPath input) \<and> \<not> given (eg_sessionNonce input)
        then throwA (GenError ''sessionNonce is required for request-bound source generation'')
        else if given (eg_requestPath input) \<and> given (eg_sessionNonce input)
        then genCall (\<lambda>k. gh_checkSourceCaptureTriggerSession h k (eg_databaseId input)
               (the (eg_requestPath input)) (the (eg_sessionNonce input)))
        else if given (eg_sessionNonce input) \<and> given (eg_sourcePath input) \<and> given (eg_sourceEtag input)
        then genCall (\<lambda>k. gh_checkSourceRunSession h k (eg_databaseId input) (the (eg_sourcePath input))
               (the (eg_sourceEtag input)) (the (eg_sessionNonce input)))
        else genCall (\<lambda>k. gh_checkDatabaseWriteCycles h k (eg_databaseId input)))
       (\<lambda>e. throwA (ExternalCostGateError (genErrorMessage e)))"

definition readRequiredSource :: "GenHost \<Rightarrow> string \<Rightarrow> string \<Rightarrow> WikiNode gen" where
  "readRequiredSource h databaseId sourcePath =
     bindA (readNodeA h databaseId sourcePath) (\<lambda>source.
       case source of
         None \<Rightarrow> throwA (SourceValidationError (''source node not found: '' @ sourcePath))
       | Some node \<Rightarrow>
           if nd_kind node \<noteq> Source then throwA (SourceValidationError (''node is not a source: '' @ sourcePath))
           else retA node)"

subsection \<open>Committing a page\<close>

definition pageWrite :: "string \<Rightarrow> GeneratedArtifact \<Rightarrow> string option \<Rightarrow> string \<Rightarrow> WriteNodeRequest" where
  "pageWrite databaseId artifact expectedEtag sourcePath = \<lparr>
     wr_databaseId = databaseId, wr_path = ga_targetPath artifact, wr_kind = File, wr_content = ga_content artifact,
     wr_metadataJson = stringify (JObj [(''generated_by'', JStr ''wiki-generator''), (''source_path'', JStr sourcePath)]),
     wr_expectedEtag = expectedEtag\<rparr>"

definition isCommitted :: "GeneratedArtifact \<Rightarrow> WikiNode option \<Rightarrow> bool" where
  "isCommitted artifact existing =
     (case existing of None \<Rightarrow> False | Some node \<Rightarrow> nd_kind node = File \<and> nd_content node = ga_content artifact)"

definition writeGeneratedPage :: "GenHost \<Rightarrow> string \<Rightarrow> GeneratedArtifact \<Rightarrow> string \<Rightarrow> unit gen" where
  "writeGeneratedPage h databaseId artifact sourcePath =
     bindA (readNodeA h databaseId (ga_targetPath artifact)) (\<lambda>existing.
       if isCommitted artifact existing then retA ()
       else
         case ga_expectedTargetEtag artifact of
           None \<Rightarrow> throwA (GeneratedCheckpointConflictError
             (''checkpoint target changed before snapshot: '' @ ga_targetPath artifact))
         | Some expected \<Rightarrow>
             if map_option nd_etag existing \<noteq> expected
             then throwA (GeneratedCheckpointConflictError
               (''checkpoint target changed before commit: '' @ ga_targetPath artifact))
             else
               bindA (liftR (ensureTargetCanBeWritten (map_option nd_content existing) (ga_targetPath artifact) sourcePath)) (\<lambda>_.
               bindA (ensureParentFolders h databaseId (ga_targetPath artifact)) (\<lambda>_.
               bindA (writeNodeA h (pageWrite databaseId artifact expected sourcePath)) (\<lambda>_. retA ()))))"

definition captureGeneratedTargetSnapshot ::
    "GenHost \<Rightarrow> SourceQueueMessage \<Rightarrow> string \<Rightarrow> GeneratedArtifact \<Rightarrow> GeneratedArtifact gen" where
  "captureGeneratedTargetSnapshot h m owner artifact =
     bindA (readNodeA h (sm_databaseId m) (ga_targetPath artifact)) (\<lambda>existing.
       case ensureTargetCanBeWritten (map_option nd_content existing) (ga_targetPath artifact) (sm_sourcePath m) of
         Inl e \<Rightarrow> throwA (GeneratedCheckpointConflictError (genErrorMessage e))
       | Inr _ \<Rightarrow>
           let expectedTargetEtag = map_option nd_etag existing in
           bindA (checkpointGeneratedTarget h m owner expectedTargetEtag) (\<lambda>_.
             retA (artifact \<lparr>ga_expectedTargetEtag := Some expectedTargetEtag\<rparr>)))"

definition recoverGeneratedTargetSnapshot ::
    "GenHost \<Rightarrow> SourceQueueMessage \<Rightarrow> string \<Rightarrow> GeneratedArtifact \<Rightarrow> GeneratedArtifact gen" where
  "recoverGeneratedTargetSnapshot h m owner artifact =
     bindA (readNodeA h (sm_databaseId m) (ga_targetPath artifact)) (\<lambda>existing.
       if isCommitted artifact existing then retA artifact
       else if existing \<noteq> None
       then throwA (GeneratedCheckpointConflictError (''checkpoint target changed before snapshot: '' @ ga_targetPath artifact))
       else
         bindA (checkpointGeneratedTarget h m owner None) (\<lambda>_.
           retA (artifact \<lparr>ga_expectedTargetEtag := Some None\<rparr>)))"

definition markRequestFailed :: "GenHost \<Rightarrow> GenPlatform \<Rightarrow> SourceQueueMessage \<Rightarrow> string \<Rightarrow> unit gen" where
  "markRequestFailed h P m err =
     (if given (sm_requestPath m) then markSourceCaptureRequestFailed h P (sm_databaseId m) (the (sm_requestPath m)) err else retA ())"

definition markRequestCompleted :: "GenHost \<Rightarrow> GenPlatform \<Rightarrow> SourceQueueMessage \<Rightarrow> string \<Rightarrow> unit gen" where
  "markRequestCompleted h P m targetPath =
     (if given (sm_requestPath m)
      then markSourceCaptureRequestCompleted h P (sm_databaseId m) (the (sm_requestPath m)) (sm_sourcePath m) targetPath
      else retA ())"

definition handleSourceCommitError ::
    "GenHost \<Rightarrow> GenPlatform \<Rightarrow> SourceQueueMessage \<Rightarrow> QueueExecution \<Rightarrow> gen_error \<Rightarrow> QueueDisposition gen" where
  "handleSourceCommitError h P m execution e =
     (let conflict = (case e of GeneratedCheckpointConflictError t \<Rightarrow> True | _ \<Rightarrow> False) in
      bindA (releaseForRetry h m (qe_leaseOwner execution) (genErrorMessage e)) (\<lambda>_.
        if conflict \<or> qe_attempts execution \<ge> 5 then
          bindA (markRequestFailed h P m (genErrorMessage e)) (\<lambda>_.
            retA (DeadLetter (if conflict then ''source_checkpoint_conflict'' else ''source_commit_transient'') (genErrorMessage e)))
        else retryDisposition h ''source_commit_transient'' (genErrorMessage e) (qe_attempts execution) None))"

definition markQueueFailed :: "GenHost \<Rightarrow> GenPlatform \<Rightarrow> SourceQueueMessage \<Rightarrow> string \<Rightarrow> string \<Rightarrow> unit gen" where
  "markQueueFailed h P m owner messageText =
     bindA (markFailed h m owner messageText) (\<lambda>_. markRequestFailed h P m messageText)"

definition logWrite :: "string \<Rightarrow> string \<Rightarrow> WikiNode option \<Rightarrow> string \<Rightarrow> WriteNodeRequest" where
  "logWrite databaseId logPath current entry = \<lparr>
     wr_databaseId = databaseId, wr_path = logPath, wr_kind = File,
     wr_content = (case current of Some node \<Rightarrow> trimEnd (nd_content node) | None \<Rightarrow> ''# Conversation Worker Log'') @
       newline @ entry @ newline,
     wr_metadataJson = ''{}'', wr_expectedEtag = map_option nd_etag current\<rparr>"

definition appendWorkerLog :: "GenHost \<Rightarrow> string \<Rightarrow> string \<Rightarrow> string \<Rightarrow> string \<Rightarrow> unit gen" where
  "appendWorkerLog h databaseId targetRoot targetPath sourcePath =
     (let logPath = targetRoot @ ''/log.md'' in
      bindA (readNodeA h databaseId logPath) (\<lambda>current.
      bindA (isoNowA h) (\<lambda>isoNow.
      bindA (ensureParentFolders h databaseId logPath) (\<lambda>_.
      bindA (writeNodeA h (logWrite databaseId logPath current
               (''- '' @ isoNow @ '' generated '' @ targetPath @ '' from '' @ sourcePath))) (\<lambda>_. retA ())))))"

definition bestEffortAppendWorkerLog :: "GenHost \<Rightarrow> string \<Rightarrow> string \<Rightarrow> string \<Rightarrow> string \<Rightarrow> bool gen" where
  "bestEffortAppendWorkerLog h databaseId targetRoot targetPath sourcePath =
     catchA (bindA (appendWorkerLog h databaseId targetRoot targetPath sourcePath) (\<lambda>_. retA True)) (\<lambda>_. retA False)"

definition handleSupersededSourceMessage ::
    "GenHost \<Rightarrow> GenPlatform \<Rightarrow> SourceQueueMessage \<Rightarrow> SourceJob option \<Rightarrow> bool gen" where
  "handleSupersededSourceMessage h P m job =
     (case job of
        None \<Rightarrow> retA False
      | Some j \<Rightarrow>
          if j_source_etag j = sm_sourceEtag m then retA False
          else if j_status j \<in> {Queued, Processing, Generated} then retA True
          else if j_status j \<noteq> Completed then retA False
          else
            bindA (if given (j_target_path j) then markRequestCompleted h P m (the (j_target_path j)) else retA ()) (\<lambda>_.
              retA True))"

subsection \<open>A source message\<close>

definition costGate :: "SourceQueueMessage \<Rightarrow> ExternalCostGateInput" where
  "costGate m = \<lparr>eg_databaseId = sm_databaseId m, eg_sourcePath = Some (sm_sourcePath m), eg_sourceEtag = Some (sm_sourceEtag m),
     eg_requestPath = sm_requestPath m, eg_sessionNonce = sm_sessionNonce m\<rparr>"

definition pageArtifact :: "GeneratedPage \<Rightarrow> GeneratedArtifact" where
  "pageArtifact generated = \<lparr>ga_targetPath = pg_targetPath generated, ga_expectedTargetEtag = None,
     ga_content = pg_content generated, ga_contextPaths = map sh_path (pg_contextHits generated),
     ga_llmDurationMs = pg_llmDurationMs generated\<rparr>"

text \<open>The \<open>try\<close> block of the generation: \<open>None\<close> when the message was superseded.\<close>

definition generateArtifact ::
    "GenHost \<Rightarrow> GenPlatform \<Rightarrow> GenEnv \<Rightarrow> WorkerConfig \<Rightarrow> SourceQueueMessage \<Rightarrow> QueueExecution \<Rightarrow> GeneratedArtifact option gen" where
  "generateArtifact h P env config m execution =
     bindA (readRequiredSource h (sm_databaseId m) (sm_sourcePath m)) (\<lambda>source.
       if nd_etag source \<noteq> sm_sourceEtag m then
         bindA (loadJob h (sm_databaseId m) (sm_sourcePath m)) (\<lambda>latestJob.
         bindA (handleSupersededSourceMessage h P m latestJob) (\<lambda>superseded.
           if superseded then retA None
           else throwA (SourceValidationError (''source etag mismatch: '' @ sm_sourcePath m))))
       else
         bindA (generateFromSource h P env config (sm_databaseId m) source (ensureExternalCostAllowed h (costGate m))
                  (sm_outputLanguage m)) (\<lambda>generated.
           if length (utf8Encode (pg_content generated)) > 256 * 1024
           then throwA (GeneratedArtifactError ''generated Markdown exceeded 256 KiB'')
           else
             let artifact = pageArtifact generated in
             bindA (checkpointGenerated h m (qe_leaseOwner execution) artifact) (\<lambda>_. retA (Some artifact))))"

definition handleGenerationError ::
    "GenHost \<Rightarrow> GenPlatform \<Rightarrow> SourceQueueMessage \<Rightarrow> QueueExecution \<Rightarrow> gen_error \<Rightarrow> QueueDisposition gen" where
  "handleGenerationError h P m execution e =
     (let owner = qe_leaseOwner execution; attempts = qe_attempts execution; message = genErrorMessage e in
      if isPermanentGenerationError e then bindA (markQueueFailed h P m owner message) (\<lambda>_. retA Ack)
      else if attempts \<ge> 5 then
        bindA (markQueueFailed h P m owner message) (\<lambda>_. retA (DeadLetter (errorCode e) message))
      else
        bindA (releaseForRetry h m owner message) (\<lambda>_.
        bindA (deepSeekRetryDelaySeconds h e attempts) (\<lambda>retryAfter.
          retryDisposition h (errorCode e) message attempts retryAfter)))"

text \<open>From the generated page to the end of the handler; \<open>resumed\<close> when the page was checkpointed by an earlier run.\<close>

definition snapshotTarget ::
    "GenHost \<Rightarrow> SourceQueueMessage \<Rightarrow> string \<Rightarrow> bool \<Rightarrow> GeneratedArtifact \<Rightarrow> GeneratedArtifact gen" where
  "snapshotTarget h m owner resumed artifact =
     (if ga_expectedTargetEtag artifact \<noteq> None then retA artifact
      else if resumed then recoverGeneratedTargetSnapshot h m owner artifact
      else captureGeneratedTargetSnapshot h m owner artifact)"

definition finishSource ::
    "GenHost \<Rightarrow> GenPlatform \<Rightarrow> WorkerConfig \<Rightarrow> SourceQueueMessage \<Rightarrow> QueueExecution \<Rightarrow> GeneratedArtifact \<Rightarrow> QueueDisposition gen" where
  "finishSource h P config m execution artifact =
     bindA (attemptA (markRequestCompleted h P m (ga_targetPath artifact))) (\<lambda>marked.
       case marked of
         Inl e \<Rightarrow>
           if qe_attempts execution \<ge> 5
           then retA (Reschedule 30 ''source_request_completion_transient'' (genErrorMessage e))
           else retryDisposition h ''source_request_completion_transient'' (genErrorMessage e) (qe_attempts execution) None
       | Inr _ \<Rightarrow>
           bindA (bestEffortAppendWorkerLog h (sm_databaseId m) (wc_targetRoot config) (ga_targetPath artifact) (sm_sourcePath m))
             (\<lambda>_. retA Ack))"

definition completedJob :: "SourceQueueMessage \<Rightarrow> string \<Rightarrow> SourceJob option \<Rightarrow> bool" where
  "completedJob m targetPath job =
     (case job of
        None \<Rightarrow> False
      | Some j \<Rightarrow> j_source_etag j = sm_sourceEtag m \<and> j_status j = Completed \<and> j_target_path j = Some targetPath)"

definition commitSource ::
    "GenHost \<Rightarrow> GenPlatform \<Rightarrow> WorkerConfig \<Rightarrow> SourceQueueMessage \<Rightarrow> QueueExecution \<Rightarrow> bool \<Rightarrow> GeneratedArtifact \<Rightarrow> QueueDisposition gen" where
  "commitSource h P config m execution resumed checkpointed =
     (let owner = qe_leaseOwner execution in
      bindA (attemptA (snapshotTarget h m owner resumed checkpointed)) (\<lambda>snapshot.
        case snapshot of
          Inl e \<Rightarrow> handleSourceCommitError h P m execution e
        | Inr artifact \<Rightarrow>
            bindA (attemptA (writeGeneratedPage h (sm_databaseId m) artifact (sm_sourcePath m))) (\<lambda>written.
              case written of
                Inl e \<Rightarrow> handleSourceCommitError h P m execution e
              | Inr _ \<Rightarrow>
                  bindA (attemptA (markCompleted h m owner (ga_targetPath artifact))) (\<lambda>completed.
                    case completed of
                      Inr _ \<Rightarrow> finishSource h P config m execution artifact
                    | Inl e \<Rightarrow>
                        bindA (attemptA (loadJob h (sm_databaseId m) (sm_sourcePath m))) (\<lambda>loaded.
                          case loaded of
                            Inl _ \<Rightarrow> retA (Reschedule 30 ''source_completion_unknown'' (genErrorMessage e))
                          | Inr job \<Rightarrow>
                              if completedJob m (ga_targetPath artifact) job then finishSource h P config m execution artifact
                              else handleSourceCommitError h P m execution e)))))"

definition processClaim ::
    "GenHost \<Rightarrow> GenPlatform \<Rightarrow> GenEnv \<Rightarrow> WorkerConfig \<Rightarrow> SourceQueueMessage \<Rightarrow> QueueExecution \<Rightarrow> SourceJobClaim \<Rightarrow> QueueDisposition gen" where
  "processClaim h P env config m execution claim =
     (case claim of
        ClaimDestinationConflict \<Rightarrow>
          retA (DeadLetter ''source_target_conflict'' ''source version has a different generation destination'')
      | ClaimSuperseded None \<Rightarrow>
          retryDisposition h ''source_job_missing'' ''source generation job is missing'' (qe_attempts execution) None
      | ClaimSuperseded (Some job) \<Rightarrow> bindA (handleSupersededSourceMessage h P m (Some job)) (\<lambda>_. retA Ack)
      | ClaimBusy retryAfter \<Rightarrow> retA (Reschedule retryAfter ''source_job_busy'' ''source generation is already leased'')
      | ClaimFailed err \<Rightarrow>
          bindA (markRequestFailed h P m err) (\<lambda>_.
            retA (if qe_attempts execution \<ge> 5 then DeadLetter ''source_job_failed'' err else Ack))
      | ClaimCompleted targetPath \<Rightarrow> bindA (markRequestCompleted h P m targetPath) (\<lambda>_. retA Ack)
      | ClaimResume artifact \<Rightarrow> commitSource h P config m execution True artifact
      | ClaimGenerate \<Rightarrow>
          bindA (attemptA (generateArtifact h P env config m execution)) (\<lambda>outcome.
            case outcome of
              Inl e \<Rightarrow> handleGenerationError h P m execution e
            | Inr None \<Rightarrow> retA Ack
            | Inr (Some artifact) \<Rightarrow> commitSource h P config m execution False artifact))"

definition targetedConfig :: "WorkerConfig \<Rightarrow> string option \<Rightarrow> gen_error + WorkerConfig" where
  "targetedConfig config targetRoot =
     (case targetRoot of
        None \<Rightarrow> Inr config
      | Some folder \<Rightarrow> bindR (normalizeKnowledgeTargetRoot folder) (\<lambda>normalized. Inr (config \<lparr>wc_targetRoot := normalized\<rparr>)))"

definition processSourceQueueMessage ::
    "GenHost \<Rightarrow> GenPlatform \<Rightarrow> GenEnv \<Rightarrow> SourceQueueMessage \<Rightarrow> QueueExecution \<Rightarrow> QueueDisposition gen" where
  "processSourceQueueMessage h P env m execution =
     bindA (liftR (loadConfig (gp_defaultModel P) env)) (\<lambda>baseConfig.
     bindA (liftR (targetedConfig baseConfig (sm_targetRoot m))) (\<lambda>config.
     bindA (liftR (validateSourceRootPath (sm_sourcePath m) (wc_sourcePrefix config))) (\<lambda>_.
     bindA (genCall (gh_createVfsClient h)) (\<lambda>_.
     bindA (claimSourceJob h m (qe_leaseOwner execution)) (processClaim h P env config m execution)))))"

subsection \<open>The other messages\<close>

definition databaseLinkPreviewImageKey :: "string \<Rightarrow> string" where
  "databaseLinkPreviewImageKey databaseId = ''db-link-preview/v1/'' @ encodeURIComponent (trim databaseId) @ ''.png''"

text \<open>\<open>gh_listPublicDatabases\<close> is the anonymous client and its call; the custom metadata of the image is left out.\<close>

definition processLinkPreviewQueueMessage :: "GenHost \<Rightarrow> GenPlatform \<Rightarrow> GenEnv \<Rightarrow> LinkPreviewQueueMessage \<Rightarrow> unit gen" where
  "processLinkPreviewQueueMessage h P env m =
     bindA (liftR (loadConfig (gp_defaultModel P) env)) (\<lambda>config.
       if lm_canisterId m \<noteq> wc_canisterId config then retA ()
       else
         bindA (genCall (gh_listPublicDatabases h)) (\<lambda>databases.
           case find (\<lambda>candidate. pd_databaseId candidate = lm_databaseId m) databases of
             None \<Rightarrow> retA ()
           | Some database \<Rightarrow>
               if pd_status database \<noteq> DbActive then retA ()
               else
                 bindA (genCall (\<lambda>k. gh_renderImage h k database)) (\<lambda>image.
                 let key = databaseLinkPreviewImageKey (pd_databaseId database) in
                 genEffect (EffPutImage key (lm_databaseId m)) (\<lambda>k. gh_putImage h k key image))))"

definition messageDatabase :: "QueueMessage \<Rightarrow> string" where
  "messageDatabase message =
     (case message of
        SourceMessage m \<Rightarrow> sm_databaseId m
      | SourceCaptureMessage m \<Rightarrow> cm_databaseId m
      | LinkPreviewMessage m \<Rightarrow> lm_databaseId m)"

definition processQueueMessage ::
    "nat \<Rightarrow> GenHost \<Rightarrow> GenPlatform \<Rightarrow> GenEnv \<Rightarrow> QueueMessage \<Rightarrow> QueueExecution \<Rightarrow> QueueDisposition option gen" where
  "processQueueMessage fuel h P env message execution =
     bindA (liftR (loadConfig (gp_defaultModel P) env)) (\<lambda>config.
       if \<not> isDatabaseAllowed config (messageDatabase message)
       then retA (Some (DeadLetter ''database_not_allowed'' ''database_not_allowed''))
       else
         case message of
           LinkPreviewMessage m \<Rightarrow> bindA (processLinkPreviewQueueMessage h P env m) (\<lambda>_. retA (Some Ack))
         | SourceCaptureMessage m \<Rightarrow>
             bindA (triggerSourceCaptureRequest fuel h P env m) (\<lambda>returned. retA (if returned then Some Ack else None))
         | SourceMessage m \<Rightarrow> bindA (processSourceQueueMessage h P env m execution) (\<lambda>d. retA (Some d)))"

datatype QueueMessageEnvelope = ValidMessage QueueMessage | InvalidMessage string

definition processQueueMessageEnvelope ::
    "nat \<Rightarrow> GenHost \<Rightarrow> GenPlatform \<Rightarrow> GenEnv \<Rightarrow> QueueMessageEnvelope \<Rightarrow> QueueExecution \<Rightarrow> QueueDisposition option gen" where
  "processQueueMessageEnvelope fuel h P env envelope execution =
     (case envelope of
        ValidMessage message \<Rightarrow> processQueueMessage fuel h P env message execution
      | InvalidMessage reason \<Rightarrow> retA (Some Ack))"

subsection \<open>Parsing\<close>

text \<open>The string of a field, empty when it is not a non-empty string.\<close>

definition nonEmptyField :: "json \<Rightarrow> string \<Rightarrow> string" where
  "nonEmptyField v k = (case jfield v k of Some (JStr s) \<Rightarrow> s | _ \<Rightarrow> [])"

text \<open>An optional field: \<open>None\<close> when it is present and not a non-empty string.\<close>

definition optionalField :: "json \<Rightarrow> string \<Rightarrow> string option option" where
  "optionalField v k =
     (case jfield v k of None \<Rightarrow> Some None | Some (JStr s) \<Rightarrow> if s = [] then None else Some (Some s) | _ \<Rightarrow> None)"

definition targetRootField :: "json \<Rightarrow> string option option" where
  "targetRootField v =
     (case jfield v ''targetRoot'' of
        None \<Rightarrow> Some None
      | Some (JStr s) \<Rightarrow> (case normalizeKnowledgeTargetRoot s of Inl e \<Rightarrow> None | Inr folder \<Rightarrow> Some (Some folder))
      | _ \<Rightarrow> None)"

definition languageOption :: "json \<Rightarrow> OutputLanguage option option" where
  "languageOption v =
     (case jfield v ''outputLanguage'' of
        None \<Rightarrow> Some None
      | Some JNull \<Rightarrow> Some None
      | Some l \<Rightarrow> map_option Some (parseOutputLanguage (Some l)))"

definition parseSourceMessage :: "json \<Rightarrow> QueueMessage option" where
  "parseSourceMessage v =
     (if nonEmptyField v ''databaseId'' = [] \<or> nonEmptyField v ''sourcePath'' = [] \<or> nonEmptyField v ''sourceEtag'' = [] then None
      else
        case (optionalField v ''requestPath'', optionalField v ''sessionNonce'', languageOption v, targetRootField v) of
          (Some requestPath, Some sessionNonce, Some outputLanguage, Some targetRoot) \<Rightarrow>
            if (case requestPath of None \<Rightarrow> False | Some p \<Rightarrow> \<not> isSourceCaptureRequestPath p) then None
            else Some (SourceMessage \<lparr>sm_targetRoot = targetRoot, sm_databaseId = nonEmptyField v ''databaseId'',
              sm_sourcePath = nonEmptyField v ''sourcePath'', sm_sourceEtag = nonEmptyField v ''sourceEtag'',
              sm_requestPath = requestPath, sm_sessionNonce = sessionNonce, sm_outputLanguage = outputLanguage\<rparr>)
        | _ \<Rightarrow> None)"

definition parseCaptureMessage :: "json \<Rightarrow> QueueMessage option" where
  "parseCaptureMessage v =
     (if nonEmptyField v ''canisterId'' = [] \<or> nonEmptyField v ''databaseId'' = [] \<or> nonEmptyField v ''requestPath'' = [] then None
      else if \<not> isSourceCaptureRequestPath (nonEmptyField v ''requestPath'') then None
      else if nonEmptyField v ''sessionNonce'' = [] then None
      else Some (SourceCaptureMessage \<lparr>cm_canisterId = nonEmptyField v ''canisterId'', cm_databaseId = nonEmptyField v ''databaseId'',
        cm_requestPath = nonEmptyField v ''requestPath'', cm_sessionNonce = nonEmptyField v ''sessionNonce''\<rparr>))"

definition parseLinkPreviewMessage :: "GenPlatform \<Rightarrow> json \<Rightarrow> QueueMessage option" where
  "parseLinkPreviewMessage P v =
     (if nonEmptyField v ''canisterId'' = [] then None
      else if nonEmptyField v ''databaseId'' = [] \<or> length (nonEmptyField v ''databaseId'') > 128 then None
      else if nonEmptyField v ''requestedAt'' = [] \<or> gp_dateParse P (nonEmptyField v ''requestedAt'') = None then None
      else Some (LinkPreviewMessage \<lparr>lm_canisterId = nonEmptyField v ''canisterId'', lm_databaseId = nonEmptyField v ''databaseId'',
        lm_requestedAt = nonEmptyField v ''requestedAt''\<rparr>))"

definition parseQueueMessage :: "GenPlatform \<Rightarrow> json \<Rightarrow> QueueMessage option" where
  "parseQueueMessage P v =
     (if \<not> isObjectValue v then None
      else if jfield v ''kind'' = Some (JStr ''source'') then parseSourceMessage v
      else if jfield v ''kind'' = Some (JStr ''source_capture'') then parseCaptureMessage v
      else if jfield v ''kind'' = Some (JStr ''link_preview'') then parseLinkPreviewMessage P v
      else None)"

definition captureReason :: "json \<Rightarrow> string option" where
  "captureReason v =
     (if nonEmptyField v ''canisterId'' = [] then Some ''source_capture canisterId is missing''
      else if nonEmptyField v ''databaseId'' = [] then Some ''source_capture databaseId is missing''
      else if nonEmptyField v ''requestPath'' = [] then Some ''source_capture requestPath is missing''
      else if \<not> isSourceCaptureRequestPath (nonEmptyField v ''requestPath'') then Some ''source_capture requestPath is invalid''
      else if nonEmptyField v ''sessionNonce'' = [] then Some ''source_capture sessionNonce is missing''
      else None)"

definition linkPreviewReason :: "GenPlatform \<Rightarrow> json \<Rightarrow> string option" where
  "linkPreviewReason P v =
     (if nonEmptyField v ''canisterId'' = [] then Some ''link_preview canisterId is missing''
      else if nonEmptyField v ''databaseId'' = [] then Some ''link_preview databaseId is missing''
      else if length (nonEmptyField v ''databaseId'') > 128 then Some ''link_preview databaseId is too long''
      else if nonEmptyField v ''requestedAt'' = [] then Some ''link_preview requestedAt is missing''
      else if gp_dateParse P (nonEmptyField v ''requestedAt'') = None then Some ''link_preview requestedAt is invalid''
      else None)"

definition parseQueueMessageEnvelope :: "GenPlatform \<Rightarrow> json \<Rightarrow> QueueMessageEnvelope" where
  "parseQueueMessageEnvelope P v =
     (case parseQueueMessage P v of
        Some message \<Rightarrow> ValidMessage message
      | None \<Rightarrow>
          let kind = (if isObjectValue v then jfield v ''kind'' else None);
              reason = (if kind = Some (JStr ''source_capture'') then captureReason v
                else if kind = Some (JStr ''link_preview'') then linkPreviewReason P v
                else if kind = Some (JStr ''url_ingest'') then Some ''legacy url_ingest queue message is unsupported''
                else None)
          in InvalidMessage (case reason of Some r \<Rightarrow> r | None \<Rightarrow> ''queue message shape is invalid''))"

record ManualRunInput =
  mi_targetRoot :: "string option"
  mi_databaseId :: string
  mi_sourcePath :: string
  mi_sourceEtag :: string
  mi_sessionNonce :: "string option"
  mi_dryRun :: bool

definition parseManualRunInput :: "json \<Rightarrow> string + ManualRunInput" where
  "parseManualRunInput v =
     (if \<not> isObjectValue v then Inl ''body must include databaseId, sourcePath, and sourceEtag''
      else if nonEmptyField v ''databaseId'' = [] then Inl ''databaseId is required''
      else if nonEmptyField v ''sourcePath'' = [] then Inl ''sourcePath is required''
      else if nonEmptyField v ''sourceEtag'' = [] then Inl ''sourceEtag is required''
      else
        case optionalField v ''sessionNonce'' of
          None \<Rightarrow> Inl ''sessionNonce must be a non-empty string''
        | Some sessionNonce \<Rightarrow>
            if (case sessionNonce of None \<Rightarrow> False | Some n \<Rightarrow> length n > 128) then Inl ''sessionNonce is too long''
            else if (case jfield v ''dryRun'' of None \<Rightarrow> False | Some (JBool b) \<Rightarrow> False | _ \<Rightarrow> True)
            then Inl ''dryRun must be a boolean''
            else
              (case targetRootField v of
                 None \<Rightarrow> Inl ''targetRoot must be a folder below /Knowledge/''
               | Some targetRoot \<Rightarrow>
                   Inr \<lparr>mi_targetRoot = targetRoot, mi_databaseId = nonEmptyField v ''databaseId'',
                        mi_sourcePath = nonEmptyField v ''sourcePath'', mi_sourceEtag = nonEmptyField v ''sourceEtag'',
                        mi_sessionNonce = sessionNonce,
                        mi_dryRun = (case jfield v ''dryRun'' of Some (JBool b) \<Rightarrow> b | _ \<Rightarrow> False)\<rparr>))"

subsection \<open>A manual run\<close>

text \<open>A response: the status and the JSON body.\<close>

type_synonym gen_response = "nat \<times> json"

definition errorBody :: "string \<Rightarrow> json" where
  "errorBody message = JObj [(''error'', JStr message)]"

definition manualMessage :: "WorkerConfig \<Rightarrow> ManualRunInput \<Rightarrow> SourceQueueMessage" where
  "manualMessage config input = \<lparr>sm_targetRoot = (if mi_targetRoot input = None then None else Some (wc_targetRoot config)),
     sm_databaseId = mi_databaseId input, sm_sourcePath = mi_sourcePath input, sm_sourceEtag = mi_sourceEtag input,
     sm_requestPath = None, sm_sessionNonce = mi_sessionNonce input, sm_outputLanguage = None\<rparr>"

definition dryRunBody :: "ManualRunInput \<Rightarrow> GeneratedPage \<Rightarrow> json" where
  "dryRunBody input generated = JObj [
     (''dryRun'', JBool True), (''wrote'', JBool False), (''sourcePath'', JStr (mi_sourcePath input)),
     (''targetPath'', JStr (pg_targetPath generated)),
     (''contextPaths'', JArr (map (\<lambda>hit. JStr (sh_path hit)) (pg_contextHits generated))),
     (''content'', JStr (pg_content generated))]"

definition runManual :: "GenHost \<Rightarrow> GenPlatform \<Rightarrow> GenEnv \<Rightarrow> ManualRunInput \<Rightarrow> gen_response gen" where
  "runManual h P env input =
     bindA (liftR (loadConfig (gp_defaultModel P) env)) (\<lambda>baseConfig.
     bindA (liftR (targetedConfig baseConfig (mi_targetRoot input))) (\<lambda>config.
       if \<not> isDatabaseAllowed config (mi_databaseId input) then retA (403, errorBody ''database_not_allowed'')
       else
         bindA (liftR (validateSourceRootPath (mi_sourcePath input) (wc_sourcePrefix config))) (\<lambda>_.
         bindA (genCall (gh_createVfsClient h)) (\<lambda>_.
         bindA (readRequiredSource h (mi_databaseId input) (mi_sourcePath input)) (\<lambda>source.
           if nd_etag source \<noteq> mi_sourceEtag input
           then retA (409, JObj [(''error'', JStr ''source etag mismatch''), (''sourcePath'', JStr (mi_sourcePath input))])
           else if \<not> mi_dryRun input then
             bindA (attemptA (enqueueSourceJob h (manualMessage config input))) (\<lambda>enqueued.
               case enqueued of
                 Inl SourceTargetConflictError \<Rightarrow> retA (409, errorBody ''source_target_conflict'')
               | Inl e \<Rightarrow> throwA e
               | Inr queued \<Rightarrow> retA (202, JObj [(''queued'', JBool queued), (''sourcePath'', JStr (mi_sourcePath input)),
                   (''sourceEtag'', JStr (mi_sourceEtag input))]))
           else
             bindA (generateFromSource h P env config (mi_databaseId input) source
                      (ensureExternalCostAllowed h (costGate (manualMessage config input))) None) (\<lambda>generated.
               retA (200, dryRunBody input generated)))))))"

end
