(* ===== verification/Generator_Worker.thy ===== *)
theory Generator_Worker
  imports Generator_Processing
begin

section \<open>Generator worker: HTTP routes and the queue consumer\<close>

text \<open>
  \<^verbatim>\<open>workers/wiki-generator/src/index.ts\<close> and \<^verbatim>\<open>auth.ts\<close>. A request is its method, path, authorization header and body
  (\<open>None\<close> when it is not JSON). The dispositions of a batch are kept by the position of the message. The
  messages of a batch that generate pages run concurrently in the source: here they run one after the other
  under a host whose job table other executions change before every statement.
\<close>

subsection \<open>Authorization\<close>

record GenRequest =
  gr_method :: string
  gr_pathname :: string
  gr_authorization :: "string option"
  gr_body :: "json option"

definition timingSafeEqual :: "string \<Rightarrow> string \<Rightarrow> bool" where
  "timingSafeEqual left right =
     (let leftBytes = utf8Encode left; rightBytes = utf8Encode right in
      if length leftBytes \<noteq> length rightBytes then False else leftBytes = rightBytes)"

definition isAuthorized :: "GenRequest \<Rightarrow> string option \<Rightarrow> bool" where
  "isAuthorized request token =
     (if \<not> given token then False
      else timingSafeEqual (case gr_authorization request of None \<Rightarrow> [] | Some header \<Rightarrow> header) (''Bearer '' @ the token))"

definition workerAuthError :: "GenRequest \<Rightarrow> GenEnv \<Rightarrow> gen_response option" where
  "workerAuthError request env =
     (if \<not> given (ge_KINIC_WIKI_WORKER_TOKEN env) then Some (503, errorBody ''KINIC_WIKI_WORKER_TOKEN is required'')
      else if \<not> isAuthorized request (ge_KINIC_WIKI_WORKER_TOKEN env) then Some (401, errorBody ''unauthorized'')
      else None)"

subsection \<open>Routes\<close>

definition sourceCaptureRoute :: "GenHost \<Rightarrow> GenPlatform \<Rightarrow> GenEnv \<Rightarrow> GenRequest \<Rightarrow> gen_response gen" where
  "sourceCaptureRoute h P env request =
     (case gr_body request of
        None \<Rightarrow> retA (400, errorBody ''invalid JSON body'')
      | Some body \<Rightarrow>
          (case parseSourceCaptureTriggerInput body of
             Inl message \<Rightarrow> retA (400, errorBody message)
           | Inr input \<Rightarrow>
               (case bindR (loadConfig (gp_defaultModel P) env) (\<lambda>config. validateSourceCaptureTriggerInput config input) of
                  Inl e \<Rightarrow> retA ((case e of SourceCaptureTriggerError m st \<Rightarrow> st | _ \<Rightarrow> 500), errorBody (genErrorMessage e))
                | Inr _ \<Rightarrow>
                    bindA (genEffect (EffSend (SourceCaptureMessage input) None)
                             (\<lambda>k. gh_send h k (SourceCaptureMessage input))) (\<lambda>_.
                      retA (202, JObj [(''accepted'', JBool True), (''databaseId'', JStr (cm_databaseId input)),
                        (''requestPath'', JStr (cm_requestPath input))])))))"

definition runRoute :: "GenHost \<Rightarrow> GenPlatform \<Rightarrow> GenEnv \<Rightarrow> GenRequest \<Rightarrow> gen_response gen" where
  "runRoute h P env request =
     (case gr_body request of
        None \<Rightarrow> retA (400, errorBody ''invalid JSON body'')
      | Some body \<Rightarrow>
          (case parseManualRunInput body of
             Inl message \<Rightarrow> retA (400, errorBody message)
           | Inr input \<Rightarrow>
               catchA (runManual h P env input) (\<lambda>e. retA (500, errorBody (genErrorMessage e)))))"

definition generatorFetch :: "GenHost \<Rightarrow> GenPlatform \<Rightarrow> GenEnv \<Rightarrow> GenRequest \<Rightarrow> gen_response gen" where
  "generatorFetch h P env request =
     (let post = (gr_method request = ''POST'') in
      if gr_method request = ''GET'' \<and> gr_pathname request = ''/healthz'' then retA (200, JObj [(''ok'', JBool True)])
      else if post \<and> gr_pathname request = ''/source-capture'' then
        (case workerAuthError request env of Some response \<Rightarrow> retA response | None \<Rightarrow> sourceCaptureRoute h P env request)
      else if \<not> post \<or> gr_pathname request \<noteq> ''/run'' then retA (404, errorBody ''not found'')
      else (case workerAuthError request env of Some response \<Rightarrow> retA response | None \<Rightarrow> runRoute h P env request))"

subsection \<open>The queue\<close>

record GenMessage =
  gm_id :: string
  gm_body :: json
  gm_attempts :: nat

definition FINAL_APPLICATION_ATTEMPT :: nat where
  "FINAL_APPLICATION_ATTEMPT = 5"

definition retryForUnhandled :: "string \<Rightarrow> nat \<Rightarrow> QueueDisposition" where
  "retryForUnhandled message attempts = Retry (backoffCeiling 15 attempts) ''queue_handler_unhandled'' message"

definition processQueueEntry ::
    "nat \<Rightarrow> GenHost \<Rightarrow> GenPlatform \<Rightarrow> GenEnv \<Rightarrow> GenMessage \<Rightarrow> QueueMessageEnvelope \<Rightarrow> QueueDisposition option gen" where
  "processQueueEntry fuel h P env message envelope =
     catchA (processQueueMessageEnvelope fuel h P env envelope
               \<lparr>qe_leaseOwner = gm_id message, qe_attempts = gm_attempts message\<rparr>)
       (\<lambda>e. retA (Some (retryForUnhandled (genErrorMessage e) (gm_attempts message))))"

definition isSourceEnvelope :: "QueueMessageEnvelope \<Rightarrow> bool" where
  "isSourceEnvelope envelope = (case envelope of ValidMessage (SourceMessage m) \<Rightarrow> True | _ \<Rightarrow> False)"

definition messageKindText :: "QueueMessage \<Rightarrow> string" where
  "messageKindText message =
     (case message of
        SourceMessage m \<Rightarrow> ''source''
      | SourceCaptureMessage m \<Rightarrow> ''source_capture''
      | LinkPreviewMessage m \<Rightarrow> ''link_preview'')"

definition failureMessage :: "GenMessage \<Rightarrow> QueueMessageEnvelope \<Rightarrow> string \<Rightarrow> string \<Rightarrow> json" where
  "failureMessage message envelope code failedAt = JObj (
     [(''messageId'', JStr (gm_id message)),
      (''messageKind'', JStr (case envelope of ValidMessage m \<Rightarrow> messageKindText m | InvalidMessage r \<Rightarrow> ''invalid''))] @
     (case envelope of
        ValidMessage (SourceMessage m) \<Rightarrow> [(''databaseId'', JStr (sm_databaseId m)), (''sourcePath'', JStr (sm_sourcePath m)),
          (''sourceEtag'', JStr (sm_sourceEtag m))]
      | ValidMessage m \<Rightarrow> [(''databaseId'', JStr (messageDatabase m))]
      | InvalidMessage r \<Rightarrow> []) @
     [(''attempt'', JNum (natToDec (gm_attempts message))), (''errorCode'', JStr code), (''failedAt'', JStr failedAt)])"

definition ackA :: "GenMessage \<Rightarrow> unit gen" where
  "ackA message = genEffect (EffAck (gm_id message)) (\<lambda>_. Inr ())"

definition retryMessageA :: "GenMessage \<Rightarrow> nat \<Rightarrow> unit gen" where
  "retryMessageA message delaySeconds = genEffect (EffRetry (gm_id message) delaySeconds) (\<lambda>_. Inr ())"

definition deadLetterA :: "GenHost \<Rightarrow> GenMessage \<Rightarrow> QueueMessageEnvelope \<Rightarrow> string \<Rightarrow> unit gen" where
  "deadLetterA h message envelope code =
     bindA (attemptA (bindA (isoNowA h) (\<lambda>failedAt.
              let failure = failureMessage message envelope code failedAt in
              genEffect (EffDeadLetter failure) (\<lambda>k. gh_deadLetter h k failure)))) (\<lambda>sent.
       case sent of Inr _ \<Rightarrow> ackA message | Inl _ \<Rightarrow> retryMessageA message 300)"

definition applyDisposition :: "GenHost \<Rightarrow> GenMessage \<Rightarrow> QueueMessageEnvelope \<Rightarrow> QueueDisposition \<Rightarrow> unit gen" where
  "applyDisposition h message envelope disposition =
     (case disposition of
        Ack \<Rightarrow> ackA message
      | Reschedule delaySeconds code text \<Rightarrow>
          if \<not> isSourceEnvelope envelope then retryMessageA message delaySeconds
          else
            bindA (attemptA (genEffect (EffResend (gm_body message) delaySeconds)
                     (\<lambda>k. gh_resend h k (gm_body message) delaySeconds))) (\<lambda>sent.
              case sent of Inr _ \<Rightarrow> ackA message | Inl _ \<Rightarrow> retryMessageA message delaySeconds)
      | Retry delaySeconds code text \<Rightarrow>
          if gm_attempts message < FINAL_APPLICATION_ATTEMPT then retryMessageA message delaySeconds
          else deadLetterA h message envelope code
      | DeadLetter code text \<Rightarrow> deadLetterA h message envelope code)"

text \<open>The dispositions of the given entries, with their positions; \<open>None\<close> when a handler does not return.\<close>

fun processEntries ::
    "nat \<Rightarrow> GenHost \<Rightarrow> GenPlatform \<Rightarrow> GenEnv \<Rightarrow> (nat \<times> GenMessage \<times> QueueMessageEnvelope) list \<Rightarrow>
     (nat \<times> QueueDisposition) list option gen" where
  "processEntries fuel h P env [] = retA (Some [])"
| "processEntries fuel h P env ((i, message, envelope) # entries) =
     bindA (processQueueEntry fuel h P env message envelope) (\<lambda>disposition.
       case disposition of
         None \<Rightarrow> retA None
       | Some d \<Rightarrow> bindA (processEntries fuel h P env entries) (\<lambda>rest. retA (map_option (\<lambda>ds. (i, d) # ds) rest)))"

fun applyEntries ::
    "GenHost \<Rightarrow> (nat \<times> QueueDisposition) list \<Rightarrow> (nat \<times> GenMessage \<times> QueueMessageEnvelope) list \<Rightarrow> unit gen" where
  "applyEntries h dispositions [] = retA ()"
| "applyEntries h dispositions ((i, message, envelope) # entries) =
     bindA (applyDisposition h message envelope
              (case map_of dispositions i of
                 Some d \<Rightarrow> d
               | None \<Rightarrow> retryForUnhandled ''missing disposition'' (gm_attempts message))) (\<lambda>_.
       applyEntries h dispositions entries)"

definition batchEntries :: "GenPlatform \<Rightarrow> GenMessage list \<Rightarrow> (nat \<times> GenMessage \<times> QueueMessageEnvelope) list" where
  "batchEntries P messages =
     zip [0..<length messages] (map (\<lambda>message. (message, parseQueueMessageEnvelope P (gm_body message))) messages)"

definition processQueueBatch ::
    "nat \<Rightarrow> GenHost \<Rightarrow> GenPlatform \<Rightarrow> GenEnv \<Rightarrow> GenMessage list \<Rightarrow> bool gen" where
  "processQueueBatch fuel h P env messages =
     (let entries = batchEntries P messages;
          isSource = (\<lambda>(i, message, envelope). isSourceEnvelope envelope)
      in
      bindA (processEntries fuel h P env (filter (\<lambda>e. \<not> isSource e) entries)) (\<lambda>others.
        case others of
          None \<Rightarrow> retA False
        | Some otherDispositions \<Rightarrow>
            bindA (processEntries fuel h P env (filter isSource entries)) (\<lambda>sources.
              case sources of
                None \<Rightarrow> retA False
              | Some sourceDispositions \<Rightarrow>
                  bindA (applyEntries h (otherDispositions @ sourceDispositions) entries) (\<lambda>_. retA True))))"

end
