(* ===== verification/Generator_Effects.thy ===== *)
theory Generator_Effects
  imports Generator_Worker
begin

section \<open>Generator worker: the effects of a delivery\<close>

text \<open>
  What the delivery of a source message may do outside the worker, proved once for every predicate on
  effects: from the effects of the page, log and request writes and of the generation to those of the whole
  handler. The instances of the contract are at the end: paid calls, settled messages and the writes of a
  delivery.
\<close>

subsection \<open>From the writes to the handler\<close>

locale source_effects =
  fixes Q :: "GenEffect \<Rightarrow> bool" and h :: GenHost and P :: GenPlatform and config :: WorkerConfig and m :: SourceQueueMessage
  assumes page_moves: "movesA (onlyEffects Q) (writeGeneratedPage h (sm_databaseId m) artifact (sm_sourcePath m))"
    and log_moves: "movesA (onlyEffects Q) (appendWorkerLog h (sm_databaseId m) (wc_targetRoot config) target (sm_sourcePath m))"
    and completed_moves: "movesA (onlyEffects Q) (markRequestCompleted h P m target)"
    and failed_moves: "movesA (onlyEffects Q) (markRequestFailed h P m err)"
begin

lemma call_moves: "movesA (onlyEffects Q) (readNodeA h db path)" "movesA (onlyEffects Q) (nowA h)" "movesA (onlyEffects Q) (isoNowA h)"
  "movesA (onlyEffects Q) (loadJob h db path)" "movesA (onlyEffects Q) (exponentialBackoff h n)"
  by (simp_all add: readNodeA_def nowA_def isoNowA_def loadJob_def exponentialBackoff_def onlyEffects_primitive)

lemma row_moves: "movesA (onlyEffects Q) (requireRow t (jobsDb h stmt))"
  unfolding requireRow_def by (intro effects.moves onlyEffects_primitive)

lemma job_moves:
  "movesA (onlyEffects Q) (markFailed h m owner e)" "movesA (onlyEffects Q) (releaseForRetry h m owner e)"
  "movesA (onlyEffects Q) (markCompleted h m owner t)" "movesA (onlyEffects Q) (checkpointGeneratedTarget h m owner etag)"
  "movesA (onlyEffects Q) (checkpointGenerated h m owner a)"
  by (simp_all add: markFailed_def releaseForRetry_def markCompleted_def checkpointGeneratedTarget_def checkpointGenerated_def row_moves)

lemma claim_moves: "movesA (onlyEffects Q) (claimSourceJob h m owner)"
  unfolding claimSourceJob_def Let_def by (intro effects.moves onlyEffects_primitive row_moves call_moves)

lemmas step_moves = effects.moves call_moves job_moves moves_attemptA onlyEffects_primitive(1,3) completed_moves failed_moves

lemma retry_moves: "movesA (onlyEffects Q) (retryDisposition h c t n r)"
  unfolding retryDisposition_def by (intro step_moves)

lemma deepSeek_moves: "movesA (onlyEffects Q) (deepSeekRetryDelaySeconds h e n)"
  unfolding deepSeekRetryDelaySeconds_def Let_def by (intro step_moves)

lemma commitError_moves: "movesA (onlyEffects Q) (handleSourceCommitError h P m x e)"
  unfolding handleSourceCommitError_def Let_def by (intro step_moves retry_moves)

lemma generationError_moves: "movesA (onlyEffects Q) (handleGenerationError h P m x e)"
  unfolding handleGenerationError_def markQueueFailed_def Let_def by (intro step_moves retry_moves deepSeek_moves)

lemma snapshot_moves: "movesA (onlyEffects Q) (snapshotTarget h m owner resumed a)"
  unfolding snapshotTarget_def recoverGeneratedTargetSnapshot_def captureGeneratedTargetSnapshot_def Let_def
  by (intro step_moves)

lemma finish_moves: "movesA (onlyEffects Q) (finishSource h P config m x a)"
  unfolding finishSource_def bestEffortAppendWorkerLog_def by (intro step_moves retry_moves log_moves)

lemma commit_moves: "movesA (onlyEffects Q) (commitSource h P config m x resumed a)"
  unfolding commitSource_def Let_def
  by (intro step_moves snapshot_moves page_moves finish_moves commitError_moves)

lemma superseded_moves: "movesA (onlyEffects Q) (handleSupersededSourceMessage h P m job)"
  unfolding handleSupersededSourceMessage_def by (intro step_moves)

lemma resumed_moves: "claim \<noteq> ClaimGenerate \<Longrightarrow> movesA (onlyEffects Q) (processClaim h P env config m x claim)"
  by (cases claim)
    (simp_all add: processClaim_def step_moves retry_moves superseded_moves commit_moves split: option.split)

lemma artifact_moves:
  assumes "\<And>db source. movesA (onlyEffects Q)
    (generateFromSource h P env config db source (ensureExternalCostAllowed h (costGate m)) (sm_outputLanguage m))"
  shows "movesA (onlyEffects Q) (generateArtifact h P env config m x)"
  unfolding generateArtifact_def readRequiredSource_def Let_def by (intro step_moves superseded_moves assms)

lemma process_moves:
  assumes "\<And>db source. movesA (onlyEffects Q)
    (generateFromSource h P env config db source (ensureExternalCostAllowed h (costGate m)) (sm_outputLanguage m))"
  shows "movesA (onlyEffects Q) (processClaim h P env config m x claim)"
proof (cases "claim = ClaimGenerate")
  case True
  then show ?thesis
    by (simp add: processClaim_def step_moves artifact_moves [OF assms] generationError_moves commit_moves split: option.split)
next
  case False
  then show ?thesis by (rule resumed_moves)
qed

end

text \<open>A predicate that allows every write of a file gives the contract for every message.\<close>

locale worker_effects = capture_effects +
  assumes Q_file: "wr_kind r = File \<Longrightarrow> Q (EffWrite r)"
begin

lemma file_moves: "wr_kind r = File \<Longrightarrow> movesA (onlyEffects Q) (writeNodeA h r)"
  by (simp add: writeNodeA_def onlyEffects_primitive Q_file)

lemma page_moves: "movesA (onlyEffects Q) (writeGeneratedPage h db a path)"
  unfolding writeGeneratedPage_def by (intro basic_moves file_moves) (simp add: pageWrite_def)

lemma log_moves: "movesA (onlyEffects Q) (appendWorkerLog h db folder target path)"
  unfolding appendWorkerLog_def Let_def by (intro basic_moves file_moves) (simp add: logWrite_def)

lemma request_marks:
  "movesA (onlyEffects Q) (markRequestCompleted h P m t)" "movesA (onlyEffects Q) (markRequestFailed h P m e)"
  by (simp_all add: markRequestCompleted_def markRequestFailed_def mark_moves effects.moves)

end

sublocale worker_effects \<subseteq> source: source_effects Q h P config m for h P config m
  by unfold_locales (rule page_moves log_moves request_marks)+

end
