(* ===== verification/Generator_Facts.thy ===== *)
theory Generator_Facts
  imports Generator_Effects
begin

section \<open>Generator worker: what the queue consumer does\<close>

text \<open>
  The properties of the generation workflow: the configuration is well formed, the paid services are called
  only by the execution that holds the claim and after the canister accepted the cost, a page overwrites
  only what was generated from the same source, every delay is bounded, and every message of a batch is
  settled exactly once.
\<close>

subsection \<open>The configuration\<close>

text \<open>An absolute path below the root, without a slash at its end.\<close>

definition folderPath :: "string \<Rightarrow> bool" where
  "folderPath p \<longleftrightarrow> p \<noteq> [] \<and> hd p = CHR ''/'' \<and> 2 \<le> length p \<and> last p \<noteq> CHR ''/''"

definition wellFormedConfig :: "WorkerConfig \<Rightarrow> bool" where
  "wellFormedConfig c \<longleftrightarrow>
     wc_canisterId c \<noteq> [] \<and> wc_icHost c \<noteq> [] \<and>
     folderPath (wc_targetRoot c) \<and> folderPath (wc_sourcePrefix c) \<and>
     (wc_contextPrefix c = ''/'' \<or> folderPath (wc_contextPrefix c)) \<and>
     list_all (\<lambda>n. 1 \<le> n \<and> n \<le> MAX_SAFE) [wc_maxRawChars c, wc_maxFetchedBytes c, wc_maxSourceChars c, wc_maxOutputTokens c] \<and>
     1 \<le> wc_maxContextSelections c \<and> wc_maxContextSelections c \<le> 5 \<and>
     wc_maxContextSelections c \<le> wc_maxContextCandidates c \<and> wc_maxContextCandidates c \<le> JEV_MAX_CANDIDATES \<and>
     (case wc_allowedDatabaseId c of None \<Rightarrow> True | Some d \<Rightarrow> d \<noteq> [] \<and> length d \<le> 128 \<and> isUrlSafeText d)"

lemma stripTrailing_last: "stripTrailing c s \<noteq> [] \<Longrightarrow> last (stripTrailing c s) \<noteq> c"
  by (metis (mono_tags, lifting) hd_dropWhile last_rev rev_is_Nil_conv stripTrailing_def)

lemma stripTrailing_hd: "stripTrailing c s \<noteq> [] \<Longrightarrow> hd (stripTrailing c s) = hd s"
  by (metis hd_append2 stripTrailing_prefix)

lemma folderPath_strip:
  assumes "startsWith s ''/''" and "stripTrailing (CHR ''/'') s \<noteq> []"
  shows "folderPath (stripTrailing (CHR ''/'') s)"
proof -
  let ?p = "stripTrailing (CHR ''/'') s"
  have "hd ?p = CHR ''/''" "last ?p \<noteq> CHR ''/''"
    using assms stripTrailing_hd [OF assms(2)] stripTrailing_last [OF assms(2)] by (cases s; auto simp: startsWith_def)+
  moreover from this have "2 \<le> length ?p" using assms(2) by (cases ?p rule: remdups_adj.cases) auto
  ultimately show ?thesis using assms(2) by (simp add: folderPath_def)
qed

lemma normalizeRootPrefix_folder: "normalizeRootPrefix v name = Inr p \<Longrightarrow> p = ''/'' \<or> folderPath p"
  using folderPath_strip [of "trim v"] by (auto simp: normalizeRootPrefix_def Let_def split: if_splits)

lemma normalizeNonRootPrefix_folder: "normalizeNonRootPrefix v name = Inr p \<Longrightarrow> folderPath p"
  using normalizeRootPrefix_folder by (auto simp: normalizeNonRootPrefix_def result_simps split: if_splits)

lemma parsePositiveInt_bounds:
  assumes "1 \<le> d" and "d \<le> MAX_SAFE"
  shows "1 \<le> parsePositiveInt v d \<and> parsePositiveInt v d \<le> MAX_SAFE"
  using assms decToNat_positive [of "trim (textOr v [])"] by (auto simp: parsePositiveInt_def Let_def Suc_le_eq)

lemma requiredVar_given: "requiredVar v name = Inr s \<Longrightarrow> s \<noteq> []"
  by (auto simp: requiredVar_def split: if_splits)

lemma optionalIdentifier_safe:
  "optionalIdentifier v name = Inr (Some d) \<Longrightarrow> d \<noteq> [] \<and> length d \<le> 128 \<and> isUrlSafeText d"
  by (auto simp: optionalIdentifier_def Let_def split: option.splits if_splits)

lemma textOr_given: "fallback \<noteq> [] \<Longrightarrow> textOr v fallback \<noteq> []"
  by (simp add: textOr_def split: option.split)

lemma loadConfig_texts:
  assumes "loadConfig defaultModel env = Inr c"
  shows "wc_canisterId c \<noteq> []" "wc_icHost c \<noteq> []" "folderPath (wc_targetRoot c)" "folderPath (wc_sourcePrefix c)"
    "wc_contextPrefix c = ''/'' \<or> folderPath (wc_contextPrefix c)"
    "wc_allowedDatabaseId c = Some d \<Longrightarrow> d \<noteq> [] \<and> length d \<le> 128 \<and> isUrlSafeText d"
  using assms unfolding loadConfig_def Let_def
  by (auto simp: bindR_Inr_iff textOr_given dest: requiredVar_given normalizeNonRootPrefix_folder normalizeRootPrefix_folder
      optionalIdentifier_safe)

lemma loadConfig_limits:
  assumes "loadConfig defaultModel env = Inr c"
  shows "list_all (\<lambda>n. 1 \<le> n \<and> n \<le> MAX_SAFE) [wc_maxRawChars c, wc_maxFetchedBytes c, wc_maxSourceChars c, wc_maxOutputTokens c]"
    "1 \<le> wc_maxContextSelections c" "wc_maxContextSelections c \<le> 5" "wc_maxContextSelections c \<le> wc_maxContextCandidates c"
    "wc_maxContextCandidates c \<le> 20"
proof -
  have bounds: "1 \<le> parsePositiveInt v d \<and> parsePositiveInt v d \<le> MAX_SAFE"
    if "d \<in> {120000, 5000000, 300000, 6000, 20, 5}" for v d
    by (rule parsePositiveInt_bounds) (use that in \<open>auto simp: MAX_SAFE_def\<close>)
  from assms bounds show "list_all (\<lambda>n. 1 \<le> n \<and> n \<le> MAX_SAFE) [wc_maxRawChars c, wc_maxFetchedBytes c, wc_maxSourceChars c, wc_maxOutputTokens c]"
    "1 \<le> wc_maxContextSelections c" "wc_maxContextSelections c \<le> 5" "wc_maxContextSelections c \<le> wc_maxContextCandidates c"
    "wc_maxContextCandidates c \<le> 20"
    unfolding loadConfig_def Let_def bindR_Inr_iff by auto
qed

lemma loadConfig_wellFormed: "loadConfig defaultModel env = Inr c \<Longrightarrow> wellFormedConfig c"
  using loadConfig_texts loadConfig_limits
  by (simp add: wellFormedConfig_def JEV_MAX_CANDIDATES_def split: option.split)

lemma knowledgeTargetRoot_folder: "normalizeKnowledgeTargetRoot v = Inr p \<Longrightarrow> folderPath p"
proof -
  assume norm: "normalizeKnowledgeTargetRoot v = Inr p"
  then have p: "p = stripTrailing (CHR ''/'') (trim v)" and start: "startsWith p ''/Knowledge/''"
    by (auto simp: normalizeKnowledgeTargetRoot_def Let_def split: if_splits)
  from start have "p \<noteq> []" "hd p = CHR ''/''" by (cases p; auto simp: startsWith_def)+
  with p have "startsWith (trim v) ''/''" using stripTrailing_hd [of "CHR ''/''" "trim v"]
    by (cases "trim v") (auto simp: startsWith_def stripTrailing_def)
  with p \<open>p \<noteq> []\<close> show ?thesis using folderPath_strip by simp
qed

lemma targeted_wellFormed:
  assumes "loadConfig defaultModel env = Inr base" and "targetedConfig base targetRoot = Inr config"
  shows "wellFormedConfig config"
proof (cases targetRoot)
  case None
  with assms loadConfig_wellFormed show ?thesis by (auto simp: targetedConfig_def)
next
  case (Some folder)
  with assms(2) obtain p where "normalizeKnowledgeTargetRoot folder = Inr p" and "config = base \<lparr>wc_targetRoot := p\<rparr>"
    by (auto simp: targetedConfig_def result_simps)
  with knowledgeTargetRoot_folder loadConfig_wellFormed [OF assms(1)] show ?thesis
    by (auto simp: wellFormedConfig_def)
qed

text \<open>
  C20. Every configuration the worker runs with is well formed, whatever the environment and the destination
  of the message: the folders are absolute, below the root and have no slash at the end, the limits are
  positive and exact numbers of the language, between one and five contexts are selected, and never more
  are searched than one rerank request takes.
\<close>

theorem configuration_wellformed:
  assumes "loadConfig defaultModel env = Inr base" and "targetedConfig base targetRoot = Inr config"
  shows "wellFormedConfig config"
  using assms by (rule targeted_wellFormed)

lemma sampleConfig_loaded: "\<exists>base. loadConfig defaultModel sampleEnv = Inr base"
  by (cases "loadConfig defaultModel sampleEnv") (simp_all add: loadConfig_def sampleEnv_def requiredVar_def textOr_def
      optionalIdentifier_def normalizeNonRootPrefix_def normalizeRootPrefix_def startsWith_def trim_def trimStart_def trimEnd_def
      isJsSpace_def stripTrailing_def Let_def)

theorem configuration_wellformed_witness:
  "\<exists>base config. loadConfig ''model'' sampleEnv = Inr base \<and> targetedConfig base (Some ''/Knowledge/notes/'') = Inr config \<and>
     wellFormedConfig config"
proof -
  from sampleConfig_loaded obtain base where base: "loadConfig ''model'' sampleEnv = Inr base" ..
  have "normalizeKnowledgeTargetRoot ''/Knowledge/notes/'' = Inr ''/Knowledge/notes''" by code_simp
  then obtain config where config: "targetedConfig base (Some ''/Knowledge/notes/'') = Inr config"
    by (simp add: targetedConfig_def)
  from configuration_wellformed [OF base config] base config show ?thesis by blast
qed

subsection \<open>Paid services\<close>

definition isRerank :: "GenEffect \<Rightarrow> bool" where
  "isRerank e = (case e of EffRerank b \<Rightarrow> True | _ \<Rightarrow> False)"

definition isCompletion :: "GenEffect \<Rightarrow> bool" where
  "isCompletion e = (case e of EffCompletion b \<Rightarrow> True | _ \<Rightarrow> False)"

definition unpaid :: "GenEffect \<Rightarrow> bool" where
  "unpaid e \<longleftrightarrow> \<not> isRerank e \<and> \<not> isCompletion e"

interpretation unpaid: worker_effects unpaid
  by unfold_locales (simp_all add: unpaid_def isRerank_def isCompletion_def)

interpretation norerank: worker_effects "\<lambda>e. \<not> isRerank e"
  by unfold_locales (simp_all add: isRerank_def)

interpretation nocompletion: worker_effects "\<lambda>e. \<not> isCompletion e"
  by unfold_locales (simp_all add: isCompletion_def)

lemma gate_moves: "movesA (onlyEffects Q) (ensureExternalCostAllowed h input)"
  unfolding ensureExternalCostAllowed_def by (intro effects.moves onlyEffects_primitive)

lemma draft_moves: "(\<And>b. Q (EffCompletion b)) \<Longrightarrow> movesA (onlyEffects Q) (generateDraft h d source hits config l)"
  unfolding generateDraft_def requestDeepSeekDraft_def Let_def by (intro effects.moves onlyEffects_primitive)

lemma rerank_moves: "(\<And>b. Q (EffRerank b)) \<Longrightarrow> movesA (onlyEffects Q) (rerankA h P options intent hits)"
  by (auto simp: rerankA_def Let_def effects.moves onlyEffects_primitive split: sum.split prod.split)

lemma context_moves:
  "(\<And>b. Q (EffRerank b)) \<Longrightarrow> movesA (onlyEffects Q) (loadContext h P env config db source (ensureExternalCostAllowed h input))"
  unfolding loadContext_def by (intro effects.moves onlyEffects_primitive rerank_moves gate_moves)

lemma generation_moves:
  assumes "\<And>b. Q (EffRerank b)" and "\<And>b. Q (EffCompletion b)"
  shows "movesA (onlyEffects Q) (generateFromSource h P env config db source (ensureExternalCostAllowed h input) l)"
  unfolding generateFromSource_def nowA_def
  by (intro effects.moves onlyEffects_primitive context_moves gate_moves draft_moves assms)

text \<open>No rerank request is sent while the hits fit the selection.\<close>

lemma rerank_bypassed:
  assumes "wellFormedConfig config" and "length hits \<le> wc_maxContextSelections config"
  shows "rerankA h P (contextOptions env config) intent hits = retA hits"
proof -
  have "selectionCount (contextOptions env config) = wc_maxContextSelections config"
    using assms(1) by (auto simp: selectionCount_def contextOptions_def wellFormedConfig_def JEV_MAX_CANDIDATES_def)
  moreover have "take JEV_MAX_CANDIDATES hits = hits"
    using assms by (auto simp: wellFormedConfig_def JEV_MAX_CANDIDATES_def)
  moreover have "\<not> jo_rerankEvenIfWithinLimit (contextOptions env config)" by (simp add: contextOptions_def)
  ultimately have "rerankWithJev (gp_jev P) (contextOptions env config) hitCandidate intent hits = Inl (Inr hits)"
    using assms(2) by (simp add: rerankWithJev_def bypasses_def)
  then show ?thesis by (simp add: rerankA_def retA_def liftR_def fun_eq_iff)
qed

definition refuses :: "GenHost \<Rightarrow> SourceQueueMessage \<Rightarrow> bool" where
  "refuses h m \<longleftrightarrow> (\<forall>w. \<exists>e. fst (ensureExternalCostAllowed h (costGate m) w) = Inl e)"

lemma refused_moves:
  assumes "refuses h m"
  shows "movesA (onlyEffects Q) (bindA (ensureExternalCostAllowed h (costGate m)) f)"
  using gate_moves
proof (rule effects.moves_bindA_dep)
  fix s x t assume "ensureExternalCostAllowed h (costGate m) s = (Inr x, t)"
  with assms show "movesA (onlyEffects Q) (f x)" unfolding refuses_def by (metis fst_conv sum.distinct(1))
qed

lemma refused_generation:
  assumes "refuses h m" and "wellFormedConfig config"
  shows "movesA (onlyEffects Q) (generateFromSource h P env config db source (ensureExternalCostAllowed h (costGate m)) l)"
proof -
  have searched: "movesA (onlyEffects Q) (bindA (if length hits > wc_maxContextSelections config
      then ensureExternalCostAllowed h (costGate m) else retA ()) (\<lambda>_. rerankA h P (contextOptions env config) intent hits))"
    for hits intent
  proof (cases "length hits > wc_maxContextSelections config")
    case True
    then show ?thesis by (simp add: refused_moves [OF assms(1)])
  next
    case False
    then have "rerankA h P (contextOptions env config) intent hits = retA hits" by (intro rerank_bypassed [OF assms(2)]) simp
    then show ?thesis using False by (simp only: if_False) (intro effects.moves)
  qed
  have "movesA (onlyEffects Q) (loadContext h P env config db source (ensureExternalCostAllowed h (costGate m)))"
    unfolding loadContext_def by (intro searched effects.moves onlyEffects_primitive)
  then show ?thesis unfolding generateFromSource_def by (intro effects.moves_bindA refused_moves [OF assms(1)])
qed

text \<open>At most \<open>n\<close> effects of a kind.\<close>

definition emits :: "(GenEffect \<Rightarrow> bool) \<Rightarrow> nat \<Rightarrow> 'a gen \<Rightarrow> bool" where
  "emits p n act \<longleftrightarrow> (\<forall>w. \<exists>es. g_effects (snd (act w)) = g_effects w @ es \<and> length (filter p es) \<le> n)"

lemma emits_none: "movesA (onlyEffects (\<lambda>e. \<not> p e)) act \<Longrightarrow> emits p n act"
  unfolding emits_def movesA_def onlyEffects_def list_all_iff by (metis filter_False le0 list.size(3))

lemma emits_bindA:
  assumes "emits p k act" and "\<And>x. emits p n (f x)" and "k + n \<le> l"
  shows "emits p l (bindA act f)"
  unfolding emits_def
proof
  fix w
  from assms(1) obtain es where es: "g_effects (snd (act w)) = g_effects w @ es" "length (filter p es) \<le> k"
    unfolding emits_def by blast
  show "\<exists>es. g_effects (snd (bindA act f w)) = g_effects w @ es \<and> length (filter p es) \<le> l"
  proof (cases "fst (act w)")
    case (Inl e)
    with es assms(3) show ?thesis by (intro exI [of _ es]) (simp add: bindA_eq)
  next
    case (Inr x)
    from assms(2) [of x] obtain fs where "g_effects (snd (f x (snd (act w)))) = g_effects (snd (act w)) @ fs" "length (filter p fs) \<le> n"
      unfolding emits_def by blast
    with es Inr assms(3) show ?thesis by (intro exI [of _ "es @ fs"]) (simp add: bindA_eq)
  qed
qed

lemma emits_primitive: "emits p 1 (genEffect e g)"
  by (auto simp: emits_def genEffect_def)

lemma emits_attemptA: "emits p n act \<Longrightarrow> emits p n (attemptA act)"
  by (simp add: emits_def attemptA_eq)

lemma emits_if: "emits p n a \<Longrightarrow> emits p n b \<Longrightarrow> emits p n (if c then a else b)"
  by simp

lemma emits_generation:
  "emits isCompletion 1 (generateFromSource h P env config db source (ensureExternalCostAllowed h input) l)"
  "emits isRerank 1 (generateFromSource h P env config db source (ensureExternalCostAllowed h input) l)"
proof -
  have found: "movesA (onlyEffects (\<lambda>e. \<not> isCompletion e)) (loadContext h P env config db source (ensureExternalCostAllowed h input))"
    by (rule context_moves) (simp add: isCompletion_def)
  have draft: "emits isCompletion 1 (generateDraft h d source hits config l)" for d hits
    unfolding generateDraft_def requestDeepSeekDraft_def Let_def
    by (rule emits_bindA [OF emits_primitive, where n = 0]) (intro emits_none effects.moves, simp)
  have tail: "movesA (onlyEffects Q) (bindA (nowA h) (\<lambda>finished. bindA (liftR (validateDraftSources draft (nd_path source))) (\<lambda>_.
      bindA (liftR (sourceIdFromPath (nd_path source) (wc_sourcePrefix config))) (\<lambda>i.
      bindA (liftR (slugForGeneratedPage draft i)) (\<lambda>slug. retA (page finished slug))))))" for Q draft and page :: "nat \<Rightarrow> string \<Rightarrow> GeneratedPage"
    unfolding nowA_def by (intro effects.moves onlyEffects_primitive)
  show "emits isCompletion 1 (generateFromSource h P env config db source (ensureExternalCostAllowed h input) l)"
    unfolding generateFromSource_def
    by (rule emits_bindA [OF emits_none [OF found] _ add_0 [THEN eq_imp_le]],
        rule emits_bindA [OF emits_none [OF gate_moves] _ add_0 [THEN eq_imp_le]],
        rule emits_bindA [OF emits_none [OF nocompletion.calls_move(3)] _ add_0 [THEN eq_imp_le]],
        rule emits_bindA [OF draft emits_none [OF tail] add_0_right [THEN eq_imp_le]])
  have rerank: "emits isRerank 1 (rerankA h P options intent hits)" for options intent hits
    by (cases "rerankWithJev (gp_jev P) options hitCandidate intent hits")
      (simp_all add: rerankA_def split_def emits_none [OF effects.moves_basic(3)] emits_primitive [simplified])
  have "emits isRerank 1 (loadContext h P env config db source (ensureExternalCostAllowed h input))"
    unfolding loadContext_def
    by (rule emits_bindA [OF emits_none [OF effects.moves_basic(3)] _ add_0 [THEN eq_imp_le]], rule emits_if,
        rule emits_none [OF effects.moves_basic(1)],
        rule emits_bindA [OF emits_none [OF onlyEffects_primitive(1)] _ add_0 [THEN eq_imp_le]],
        rule emits_bindA [OF emits_none _ add_0 [THEN eq_imp_le]], intro effects.moves gate_moves, rule rerank)
  moreover have "movesA (onlyEffects (\<lambda>e. \<not> isRerank e)) (generateDraft h d source hits config l)" for d hits
    by (rule draft_moves) (simp add: isRerank_def)
  ultimately show "emits isRerank 1 (generateFromSource h P env config db source (ensureExternalCostAllowed h input) l)"
    unfolding generateFromSource_def
    by (elim emits_bindA [OF _ emits_none add_0_right [THEN eq_imp_le]])
      (intro effects.moves_bindA gate_moves norerank.calls_move(3) tail)
qed

lemma emits_zero: "emits p 0 act \<Longrightarrow> emits p n act"
  unfolding emits_def by (metis le0 order_trans)

lemma emits_processClaim:
  assumes source: "source_effects (\<lambda>e. \<not> p e) h P config m"
    and "\<And>db node. emits p 1 (generateFromSource h P env config db node (ensureExternalCostAllowed h (costGate m)) (sm_outputLanguage m))"
  shows "emits p 1 (processClaim h P env config m x claim)"
proof (cases "claim = ClaimGenerate")
  case True
  note free = source_effects.step_moves [OF source] source_effects.superseded_moves [OF source]
  have "emits p 1 (generateArtifact h P env config m x)"
    unfolding generateArtifact_def readRequiredSource_def Let_def
    by (rule emits_bindA [where k = 0 and n = 1], rule emits_none, intro free, rule emits_if, rule emits_none, intro free,
        rule emits_bindA [where k = 1 and n = 0], rule assms(2), rule emits_none, intro free) simp_all
  then have "emits p 1 (bindA (attemptA (generateArtifact h P env config m x)) (\<lambda>outcome. case outcome of
      Inl e \<Rightarrow> handleGenerationError h P m x e | Inr None \<Rightarrow> retA Ack | Inr (Some a) \<Rightarrow> commitSource h P config m x False a))"
    by (rule emits_bindA [OF emits_attemptA emits_none [where n = 0]])
      (intro free source_effects.generationError_moves [OF source] source_effects.commit_moves [OF source], simp)
  then show ?thesis by (simp only: True processClaim_def SourceJobClaim.case)
next
  case False
  then show ?thesis by (intro emits_none source_effects.resumed_moves [OF source])
qed

lemma emits_processSource:
  assumes "\<And>config. source_effects (\<lambda>e. \<not> p e) h P config m"
    and "\<And>config db node. emits p 1 (generateFromSource h P env config db node (ensureExternalCostAllowed h (costGate m)) (sm_outputLanguage m))"
  shows "emits p 1 (processSourceQueueMessage h P env m x)"
  unfolding processSourceQueueMessage_def
  by (rule emits_bindA [where k = 0 and n = 1], rule emits_none [OF effects.moves_basic(3)],
      rule emits_bindA [where k = 0 and n = 1], rule emits_none [OF effects.moves_basic(3)],
      rule emits_bindA [where k = 0 and n = 1], rule emits_none [OF effects.moves_basic(3)],
      rule emits_bindA [where k = 0 and n = 1], rule emits_none [OF onlyEffects_primitive(1)],
      rule emits_bindA [where k = 0 and n = 1], rule emits_none [OF source_effects.claim_moves [OF assms(1)]],
      rule emits_processClaim [OF assms]) simp_all

lemma unpaid_processSource:
  assumes "refuses h m \<or> (\<forall>w. fst (claimSourceJob h m (qe_leaseOwner x) w) \<noteq> Inr ClaimGenerate)"
  shows "movesA (onlyEffects unpaid) (processSourceQueueMessage h P env m x)"
proof -
  have claimed: "movesA (onlyEffects unpaid) (bindA (claimSourceJob h m (qe_leaseOwner x)) (processClaim h P env config m x))"
    if "wellFormedConfig config" for config
  proof (rule effects.moves_bindA_dep [OF unpaid.source.claim_moves])
    fix s t claim assume "claimSourceJob h m (qe_leaseOwner x) s = (Inr claim, t)"
    with assms consider "refuses h m" | "claim \<noteq> ClaimGenerate" by (metis fst_conv)
    then show "movesA (onlyEffects unpaid) (processClaim h P env config m x claim)"
      by cases (rule unpaid.source.process_moves, rule refused_generation, assumption, rule that, rule unpaid.source.resumed_moves)
  qed
  show ?thesis
    unfolding processSourceQueueMessage_def
  proof (rule effects.moves_bindA_dep [OF effects.moves_basic(3)], rule effects.moves_bindA_dep [OF effects.moves_basic(3)])
    fix s t base s' t' config
    assume "liftR (loadConfig (gp_defaultModel P) env) s = (Inr base, t)" "liftR (targetedConfig base (sm_targetRoot m)) s' = (Inr config, t')"
    then have "wellFormedConfig config" by (auto intro: targeted_wellFormed)
    then show "movesA (onlyEffects unpaid) (bindA (liftR (validateSourceRootPath (sm_sourcePath m) (wc_sourcePrefix config))) (\<lambda>_.
        bindA (genCall (gh_createVfsClient h)) (\<lambda>_. bindA (claimSourceJob h m (qe_leaseOwner x)) (processClaim h P env config m x))))"
      by (intro effects.moves_bindA [OF effects.moves_basic(3)] effects.moves_bindA [OF onlyEffects_primitive(1)] claimed)
  qed
qed


definition sampleMessage :: SourceQueueMessage where
  "sampleMessage = \<lparr>sm_targetRoot = None, sm_databaseId = ''db'', sm_sourcePath = ''/Sources/a.md'', sm_sourceEtag = ''e1'',
     sm_requestPath = None, sm_sessionNonce = None, sm_outputLanguage = None\<rparr>"

definition refusingHost :: GenHost where
  "refusingHost = quietHost \<lparr>gh_checkDatabaseWriteCycles := (\<lambda>_ _. Inl (GenError ''no cycles'')),
     gh_readNode := (\<lambda>_ _ path. Inr (Some \<lparr>nd_path = path, nd_kind = Source, nd_content = ''text'', nd_etag = ''e1'', nd_metadataJson = ''{}''\<rparr>))\<rparr>"

definition queuedWorld :: GenWorld where
  "queuedWorld = \<lparr>g_jobs = [queuedJob sampleMessage 0], g_calls = 0, g_effects = []\<rparr>"


subsection \<open>The writes of a delivery\<close>

text \<open>
  What a write may be: a page that is new or replaces the version that was read, which names the same source;
  the capture request of the message, in the version that was read; the log of the target folder, extended.
\<close>

definition pageVersion :: "GenHost \<Rightarrow> SourceQueueMessage \<Rightarrow> WriteNodeRequest \<Rightarrow> bool" where
  "pageVersion h m r \<longleftrightarrow> (\<exists>k existing. gh_readNode h k (sm_databaseId m) (wr_path r) = Inr existing \<and>
     wr_expectedEtag r = map_option nd_etag existing \<and>
     (\<forall>n. existing = Some n \<longrightarrow> hasMatchingSourceProvenance (nd_content n) (sm_sourcePath m)))"

definition requestVersion :: "GenHost \<Rightarrow> SourceQueueMessage \<Rightarrow> WriteNodeRequest \<Rightarrow> bool" where
  "requestVersion h m r \<longleftrightarrow> given (sm_requestPath m) \<and>
     (\<exists>k n. gh_readNode h k (sm_databaseId m) (the (sm_requestPath m)) = Inr (Some n) \<and>
        wr_path r = nd_path n \<and> wr_expectedEtag r = Some (nd_etag n))"

definition logVersion :: "GenHost \<Rightarrow> WorkerConfig \<Rightarrow> SourceQueueMessage \<Rightarrow> WriteNodeRequest \<Rightarrow> bool" where
  "logVersion h config m r \<longleftrightarrow> wr_path r = wc_targetRoot config @ ''/log.md'' \<and>
     (\<exists>k existing. gh_readNode h k (sm_databaseId m) (wr_path r) = Inr existing \<and>
        wr_expectedEtag r = map_option nd_etag existing \<and>
        (\<forall>n. existing = Some n \<longrightarrow> startsWith (wr_content r) (trimEnd (nd_content n))))"

definition deliveryWrite :: "GenHost \<Rightarrow> WorkerConfig \<Rightarrow> SourceQueueMessage \<Rightarrow> GenEffect \<Rightarrow> bool" where
  "deliveryWrite h config m e =
     (case e of
        EffWrite r \<Rightarrow> wr_databaseId r = sm_databaseId m \<and> wr_kind r = File \<and>
          (pageVersion h m r \<or> requestVersion h m r \<or> logVersion h config m r)
      | _ \<Rightarrow> True)"

lemma readNodeA_result: "readNodeA h db path s = (Inr x, t) \<Longrightarrow> gh_readNode h (g_calls s) db path = Inr x"
  by (simp add: readNodeA_def genCall_def)

lemma folder_effects: "movesA (onlyEffects (deliveryWrite h config m)) (ensureParentFolders h' db path)"
proof -
  have "movesA (onlyEffects (deliveryWrite h config m)) (mkdirChain h' db current segments)" for current segments
    by (induction segments arbitrary: current)
      (simp_all add: Let_def mkdirNodeA_def effects.moves onlyEffects_primitive deliveryWrite_def)
  then show ?thesis by (simp add: ensureParentFolders_def Let_def)
qed

lemma write_effects: "deliveryWrite h config m (EffWrite r) \<Longrightarrow> movesA (onlyEffects (deliveryWrite h config m)) (writeNodeA h r)"
  by (simp add: writeNodeA_def onlyEffects_primitive)

lemma read_moves: "movesA (onlyEffects Q) (readNodeA h db path)"
  by (simp add: readNodeA_def onlyEffects_primitive)

lemma page_effects:
  "movesA (onlyEffects (deliveryWrite h config m)) (writeGeneratedPage h (sm_databaseId m) a (sm_sourcePath m))"
  unfolding writeGeneratedPage_def
proof (rule effects.moves_bindA_dep [OF read_moves])
  fix s t existing assume "readNodeA h (sm_databaseId m) (ga_targetPath a) s = (Inr existing, t)"
  then have found: "gh_readNode h (g_calls s) (sm_databaseId m) (ga_targetPath a) = Inr existing" by (rule readNodeA_result)
  have allowed: "deliveryWrite h config m (EffWrite (pageWrite (sm_databaseId m) a (map_option nd_etag existing) (sm_sourcePath m)))"
    if "ensureTargetCanBeWritten (map_option nd_content existing) (ga_targetPath a) (sm_sourcePath m) = Inr ()"
    using that found
    by (auto simp: deliveryWrite_def pageVersion_def pageWrite_def ensureTargetCanBeWritten_def split: if_splits option.splits
        intro!: exI [of _ "g_calls s"])
  have "movesA (onlyEffects (deliveryWrite h config m))
      (bindA (liftR (ensureTargetCanBeWritten (map_option nd_content existing) (ga_targetPath a) (sm_sourcePath m))) (\<lambda>_.
       bindA (ensureParentFolders h (sm_databaseId m) (ga_targetPath a)) (\<lambda>_.
       bindA (writeNodeA h (pageWrite (sm_databaseId m) a (map_option nd_etag existing) (sm_sourcePath m))) (\<lambda>_. retA ()))))"
    by (rule effects.moves_bindA_dep [OF effects.moves_basic(3)])
      (intro effects.moves folder_effects write_effects allowed, simp)
  then show "movesA (onlyEffects (deliveryWrite h config m)) (if isCommitted a existing then retA ()
      else case ga_expectedTargetEtag a of
        None \<Rightarrow> throwA (GeneratedCheckpointConflictError (''checkpoint target changed before snapshot: '' @ ga_targetPath a))
      | Some expected \<Rightarrow>
          if map_option nd_etag existing \<noteq> expected
          then throwA (GeneratedCheckpointConflictError (''checkpoint target changed before commit: '' @ ga_targetPath a))
          else bindA (liftR (ensureTargetCanBeWritten (map_option nd_content existing) (ga_targetPath a) (sm_sourcePath m))) (\<lambda>_.
            bindA (ensureParentFolders h (sm_databaseId m) (ga_targetPath a)) (\<lambda>_.
            bindA (writeNodeA h (pageWrite (sm_databaseId m) a expected (sm_sourcePath m))) (\<lambda>_. retA ()))))"
    by (auto simp: effects.moves_basic split: option.split)
qed

lemma log_effects:
  "movesA (onlyEffects (deliveryWrite h config m)) (appendWorkerLog h (sm_databaseId m) (wc_targetRoot config) target (sm_sourcePath m))"
  unfolding appendWorkerLog_def Let_def
proof (rule effects.moves_bindA_dep [OF read_moves])
  fix s t current assume "readNodeA h (sm_databaseId m) (wc_targetRoot config @ ''/log.md'') s = (Inr current, t)"
  then have "gh_readNode h (g_calls s) (sm_databaseId m) (wc_targetRoot config @ ''/log.md'') = Inr current" by (rule readNodeA_result)
  then have "deliveryWrite h config m (EffWrite (logWrite (sm_databaseId m) (wc_targetRoot config @ ''/log.md'') current entry))" for entry
    by (auto simp: deliveryWrite_def logVersion_def logWrite_def startsWith_def intro!: exI [of _ "g_calls s"])
  then show "movesA (onlyEffects (deliveryWrite h config m)) (bindA (isoNowA h) (\<lambda>isoNow.
      bindA (ensureParentFolders h (sm_databaseId m) (wc_targetRoot config @ ''/log.md'')) (\<lambda>_.
      bindA (writeNodeA h (logWrite (sm_databaseId m) (wc_targetRoot config @ ''/log.md'') current
               (''- '' @ isoNow @ '' generated '' @ target @ '' from '' @ sm_sourcePath m))) (\<lambda>_. retA ()))))"
    unfolding isoNowA_def by (intro effects.moves onlyEffects_primitive folder_effects write_effects)
qed

lemma requestOfFields_node:
  assumes "requestOfFields n fs = Some r"
  shows "cq_path r = nd_path n" "cq_etag r = nd_etag n"
  using assms unfolding requestOfFields_def Let_def
  by (cases "sourceCaptureStatus (fs ''status'')", auto split: if_split_asm)+

lemma readRequest_result:
  assumes "readSourceCaptureRequest h db path s = (Inr (Some r), t)"
  shows "\<exists>k n. gh_readNode h k db path = Inr (Some n) \<and> cq_path r = nd_path n \<and> cq_etag r = nd_etag n"
proof -
  from assms obtain n where "gh_readNode h (g_calls s) db path = Inr (Some n)" "parseSourceCaptureRequest n = Inr (Some r)"
    by (auto simp: readSourceCaptureRequest_def readNodeA_def genCall_def bindA_eq split: sum.splits option.splits)
  moreover from this(2) have "cq_path r = nd_path n \<and> cq_etag r = nd_etag n"
    by (auto simp: parseSourceCaptureRequest_def result_simps requestOfFields_node split: if_split_asm option.split_asm)
  ultimately show ?thesis by blast
qed

lemma requestWrite_effects:
  assumes "readSourceCaptureRequest h (sm_databaseId m) (the (sm_requestPath m)) s = (Inr (Some r), t)" and "given (sm_requestPath m)"
  shows "movesA (onlyEffects (deliveryWrite h config m)) (writeRequestState h P (sm_databaseId m) r u)"
proof -
  have "cq_path (updatedRequest P isoNow r u) = cq_path r" for isoNow by (simp add: updatedRequest_def Let_def)
  then have "deliveryWrite h config m (EffWrite (requestWrite (sm_databaseId m) (cq_etag r) (updatedRequest P isoNow r u)))" for isoNow
    using readRequest_result [OF assms(1)] assms(2) by (auto simp: deliveryWrite_def requestVersion_def requestWrite_def)
  then show ?thesis
    unfolding writeRequestState_def Let_def isoNowA_def by (intro effects.moves onlyEffects_primitive folder_effects write_effects)
qed

lemma captureRequest_moves: "movesA (onlyEffects Q) (readSourceCaptureRequest h db path)"
  unfolding readSourceCaptureRequest_def by (intro effects.moves read_moves)

lemma mark_effects:
  "movesA (onlyEffects (deliveryWrite h config m)) (markRequestCompleted h P m target)"
  "movesA (onlyEffects (deliveryWrite h config m)) (markRequestFailed h P m err)"
proof -
  have "movesA (onlyEffects (deliveryWrite h config m)) (bindA (readSourceCaptureRequest h (sm_databaseId m) (the (sm_requestPath m)))
      (\<lambda>request. case request of None \<Rightarrow> retA () | Some r \<Rightarrow>
         if skip r then retA () else bindA (writeRequestState h P (sm_databaseId m) r u) (\<lambda>_. retA ())))"
    if "given (sm_requestPath m)" for skip u
  proof (rule effects.moves_bindA_dep [OF captureRequest_moves])
    fix s t request
    assume found: "readSourceCaptureRequest h (sm_databaseId m) (the (sm_requestPath m)) s = (Inr request, t)"
    show "movesA (onlyEffects (deliveryWrite h config m)) (case request of None \<Rightarrow> retA () | Some r \<Rightarrow>
         if skip r then retA () else bindA (writeRequestState h P (sm_databaseId m) r u) (\<lambda>_. retA ()))"
    proof (cases request)
      case None
      then show ?thesis by (simp only: option.case effects.moves_basic)
    next
      case (Some r)
      from requestWrite_effects [OF found [unfolded Some] that] show ?thesis
        unfolding Some option.case by (intro effects.moves)
    qed
  qed
  from this [of "\<lambda>_. False"] this [of "\<lambda>r. cq_status r = CsCompleted"]
  show "movesA (onlyEffects (deliveryWrite h config m)) (markRequestCompleted h P m target)"
    "movesA (onlyEffects (deliveryWrite h config m)) (markRequestFailed h P m err)"
    by (auto simp: markRequestCompleted_def markSourceCaptureRequestCompleted_def markRequestFailed_def
        markSourceCaptureRequestFailed_def effects.moves_basic)
qed

interpretation delivery: source_effects "deliveryWrite h config m" h P config m for h P config m
  by unfold_locales (rule page_effects log_effects mark_effects)+

text \<open>
  C17. A delivery overwrites nothing that is not its own: whatever the wiki answers and the other executions
  do, each node it writes is a file of the message's database, under the etag of a version that was read, and
  is either the page, which is new or whose replaced version names the same source in its provenance, or the
  capture request of the message, or the log of the target folder, whose text is kept.
\<close>

theorem delivery_writes_own:
  assumes "loadConfig (gp_defaultModel P) env = Inr base" and "targetedConfig base (sm_targetRoot m) = Inr config"
  shows "\<exists>es. g_effects (snd (processSourceQueueMessage h P env m x w)) = g_effects w @ es \<and> list_all (deliveryWrite h config m) es"
proof -
  have "movesA (onlyEffects (deliveryWrite h config m)) (processSourceQueueMessage h P env m x)"
    unfolding processSourceQueueMessage_def assms bindA_basic
    by (intro effects.moves_bindA effects.moves_basic onlyEffects_primitive delivery.claim_moves delivery.process_moves generation_moves)
      (simp_all add: deliveryWrite_def)
  then show ?thesis by (simp add: movesA_def onlyEffects_def)
qed

theorem delivery_writes_own_witness:
  "\<exists>base es. loadConfig (gp_defaultModel plainPlatform) sampleEnv = Inr base \<and>
     g_effects (snd (processSourceQueueMessage quietHost plainPlatform sampleEnv sampleMessage \<lparr>qe_leaseOwner = ''m1'', qe_attempts = 1\<rparr>
       queuedWorld)) = es \<and> list_all (deliveryWrite quietHost base sampleMessage) es"
proof -
  from sampleConfig_loaded [of "gp_defaultModel plainPlatform"] obtain base where base: "loadConfig (gp_defaultModel plainPlatform) sampleEnv = Inr base" ..
  have "targetedConfig base (sm_targetRoot sampleMessage) = Inr base" by (simp add: sampleMessage_def targetedConfig_def)
  from delivery_writes_own [OF base this, of quietHost "\<lparr>qe_leaseOwner = ''m1'', qe_attempts = 1\<rparr>" queuedWorld] base
  show ?thesis by (auto simp: queuedWorld_def)
qed

subsection \<open>Settling the messages of a batch\<close>

definition isSettle :: "GenEffect \<Rightarrow> bool" where
  "isSettle e = (case e of EffAck i \<Rightarrow> True | EffRetry i d \<Rightarrow> True | _ \<Rightarrow> False)"

definition settledId :: "GenEffect \<Rightarrow> string" where
  "settledId e = (case e of EffAck i \<Rightarrow> i | EffRetry i d \<Rightarrow> i | _ \<Rightarrow> [])"

definition unsettled :: "GenEffect \<Rightarrow> bool" where
  "unsettled e \<longleftrightarrow> \<not> isSettle e"

text \<open>The effects on the queue itself; the handlers have none of them.\<close>

definition isQueueEffect :: "GenEffect \<Rightarrow> bool" where
  "isQueueEffect e = (case e of EffAck i \<Rightarrow> True | EffRetry i d \<Rightarrow> True | EffResend b d \<Rightarrow> True | EffDeadLetter b \<Rightarrow> True | _ \<Rightarrow> False)"

locale queue_effects = worker_effects +
  assumes Q_other: "\<not> isQueueEffect e \<Longrightarrow> Q e"
begin

lemma source_moves: "movesA (onlyEffects Q) (processSourceQueueMessage h P env m x)"
  unfolding processSourceQueueMessage_def
  by (intro effects.moves onlyEffects_primitive source.claim_moves source.process_moves generation_moves)
    (simp_all add: Q_other isQueueEffect_def)

lemma preview_moves: "movesA (onlyEffects Q) (processLinkPreviewQueueMessage h P env m)"
  unfolding processLinkPreviewQueueMessage_def Let_def
  by (intro effects.moves onlyEffects_primitive) (simp add: Q_other isQueueEffect_def)

lemma storeSource_moves: "movesA (onlyEffects Q) (writeSourceFrom h db base content meta attempts)"
proof (induction attempts)
  case (Cons n attempts)
  then show ?case
    unfolding writeSourceFrom.simps Let_def writeNodeA_def
    by (intro basic_moves onlyEffects_primitive(2)) (simp_all add: Q_other isQueueEffect_def)
qed (simp only: writeSourceFrom.simps effects.moves)

lemma trigger_moves: "movesA (onlyEffects Q) (triggerSourceCaptureRequest fuel h P env m)"
proof -
  have "movesA (onlyEffects Q) (captureSource h P config db c nonce)" for config db c nonce
    unfolding captureSource_def Let_def writeFetchedSource_def
    by (intro request_moves bestEffort_moves fetch_moves storeSource_moves moves_prod) (simp_all add: Q_other isQueueEffect_def)
  then show ?thesis unfolding triggerSourceCaptureRequest_def by (intro request_moves process_moves)
qed

lemma entry_moves: "movesA (onlyEffects Q) (processQueueEntry fuel h P env message envelope)"
proof -
  have "movesA (onlyEffects Q) (processQueueMessage fuel h P env mess x)" for mess x
    by (cases mess) (simp_all add: processQueueMessage_def effects.moves preview_moves trigger_moves source_moves)
  then have "movesA (onlyEffects Q) (processQueueMessageEnvelope fuel h P env envelope x)" for x
    by (cases envelope) (simp_all only: processQueueMessageEnvelope_def QueueMessageEnvelope.case effects.moves_basic)
  then show ?thesis unfolding processQueueEntry_def by (intro effects.moves_catchA effects.moves_basic)
qed

lemma entries_moves: "movesA (onlyEffects Q) (processEntries fuel h P env entries)"
proof (induction entries)
  case (Cons entry entries)
  then show ?case by (cases entry) (simp only: processEntries.simps, intro effects.moves entry_moves)
qed (simp only: processEntries.simps effects.moves_basic)

end

interpretation unsettled: queue_effects unsettled
  by unfold_locales (simp_all add: unsettled_def isSettle_def isQueueEffect_def split: GenEffect.splits)

text \<open>Applying a disposition settles the message, with one effect, and throws nothing.\<close>

definition settles :: "string list \<Rightarrow> unit gen \<Rightarrow> bool" where
  "settles ids act \<longleftrightarrow> (\<forall>w. fst (act w) = Inr () \<and>
     (\<exists>es. g_effects (snd (act w)) = g_effects w @ es \<and> map settledId (filter isSettle es) = ids))"

lemma settles_one: "settles [gm_id message] (ackA message)" "settles [gm_id message] (retryMessageA message d)"
  by (simp_all add: settles_def ackA_def retryMessageA_def genEffect_def isSettle_def settledId_def)

lemma settles_after:
  assumes "movesA (onlyEffects unsettled) act" and "\<And>x. settles ids (f x)"
  shows "settles ids (bindA (attemptA act) f)"
  unfolding settles_def bindA_attemptA
proof
  fix w
  from assms(1) obtain es where "g_effects (snd (act w)) = g_effects w @ es" "list_all unsettled es"
    unfolding movesA_def onlyEffects_def by blast
  moreover from this(2) have "filter isSettle es = []" by (simp add: list_all_iff unsettled_def filter_empty_conv)
  moreover from assms(2) [of "fst (act w)"] obtain fs where "fst (f (fst (act w)) (snd (act w))) = Inr ()"
    "g_effects (snd (f (fst (act w)) (snd (act w)))) = g_effects (snd (act w)) @ fs" "map settledId (filter isSettle fs) = ids"
    unfolding settles_def by blast
  ultimately show "fst (f (fst (act w)) (snd (act w))) = Inr () \<and> (\<exists>es. g_effects (snd (f (fst (act w)) (snd (act w)))) = g_effects w @ es \<and>
      map settledId (filter isSettle es) = ids)"
    by (intro conjI exI [of _ "es @ fs"]) simp_all
qed

lemma settles_then:
  assumes "settles ids act" and "settles ids' (f ())"
  shows "settles (ids @ ids') (bindA act f)"
  unfolding settles_def
proof
  fix w
  from assms(1) obtain es where es: "fst (act w) = Inr ()" "g_effects (snd (act w)) = g_effects w @ es" "map settledId (filter isSettle es) = ids"
    unfolding settles_def by blast
  from assms(2) obtain fs where "fst (f () (snd (act w))) = Inr ()"
    "g_effects (snd (f () (snd (act w)))) = g_effects (snd (act w)) @ fs" "map settledId (filter isSettle fs) = ids'"
    unfolding settles_def by blast
  with es show "fst (bindA act f w) = Inr () \<and> (\<exists>es. g_effects (snd (bindA act f w)) = g_effects w @ es \<and>
      map settledId (filter isSettle es) = ids @ ids')"
    by (intro conjI exI [of _ "es @ fs"]) (simp_all add: bindA_eq)
qed

lemma settles_sum: "(\<And>x. settles ids (f x)) \<Longrightarrow> (\<And>y. settles ids (g y)) \<Longrightarrow> settles ids (case c of Inl x \<Rightarrow> f x | Inr y \<Rightarrow> g y)"
  by (cases c) simp_all

lemma settles_deadLetter: "settles [gm_id message] (deadLetterA h message envelope code)"
  unfolding deadLetterA_def Let_def isoNowA_def
  by (intro settles_after settles_sum settles_one effects.moves onlyEffects_primitive) (simp add: unsettled_def isSettle_def)

lemma settles_apply: "settles [gm_id message] (applyDisposition h message envelope d)"
proof (cases d)
  case (Reschedule delay code t)
  have "settles [gm_id message] (bindA (attemptA (genEffect (EffResend (gm_body message) delay)
      (\<lambda>k. gh_resend h k (gm_body message) delay))) (\<lambda>sent. case sent of Inl _ \<Rightarrow> retryMessageA message delay | Inr _ \<Rightarrow> ackA message))"
    by (intro settles_after settles_sum settles_one onlyEffects_primitive) (simp add: unsettled_def isSettle_def)
  then show ?thesis by (simp add: Reschedule applyDisposition_def settles_one)
qed (simp_all add: applyDisposition_def settles_one settles_deadLetter)

lemma settles_entries: "settles (map (\<lambda>(i, message, envelope). gm_id message) entries) (applyEntries h ds entries)"
proof (induction entries)
  case Nil
  show ?case by (simp add: settles_def)
next
  case (Cons entry entries)
  obtain i message envelope where entry: "entry = (i, message, envelope)" by (cases entry)
  show ?case
    using settles_then [OF settles_apply [of message h envelope] Cons.IH, of "case map_of ds i of Some d \<Rightarrow> d
        | None \<Rightarrow> retryForUnhandled ''missing disposition'' (gm_attempts message)"]
    by (simp add: entry)
qed

lemma entry_returns:
  assumes "conflictsEndAt N h" and "N < fuel"
  shows "\<exists>d. fst (processQueueEntry fuel h P env message envelope w) = Inr (Some d)"
proof -
  have "fst (processQueueMessage fuel h P env mess x w) \<noteq> Inr None" for mess x
    using trigger_returns [OF assms]
    by (cases mess) (auto simp: processQueueMessage_def bindA_eq split: sum.split)
  then have "fst (processQueueMessageEnvelope fuel h P env envelope x w) \<noteq> Inr None" for x
    by (cases envelope) (simp_all add: processQueueMessageEnvelope_def)
  from this [of "\<lparr>qe_leaseOwner = gm_id message, qe_attempts = gm_attempts message\<rparr>"] show ?thesis
    by (auto simp: processQueueEntry_def catchA_eq split: sum.split)
qed

lemma entries_return:
  assumes "conflictsEndAt N h" and "N < fuel"
  shows "\<exists>ds. fst (processEntries fuel h P env entries w) = Inr (Some ds)"
proof (induction entries arbitrary: w)
  case (Cons entry entries)
  obtain i message envelope where entry: "entry = (i, message, envelope)" by (cases entry)
  from entry_returns [OF assms] obtain d where "fst (processQueueEntry fuel h P env message envelope w) = Inr (Some d)" by blast
  with Cons.IH [of "snd (processQueueEntry fuel h P env message envelope w)"] show ?case by (auto simp: entry bindA_eq)
qed simp

text \<open>
  C18. Every message of a batch is settled exactly once, in the order of the batch: once the conflicts on the
  wiki end, the consumer returns, whatever its services throw, and the acknowledgements and retries it has
  issued are one for each message. Nothing else in the worker settles a message.
\<close>

theorem batch_settles_each_message:
  assumes "conflictsEndAt N h" and "N < fuel"
  shows "fst (processQueueBatch fuel h P env messages w) = Inr True \<and>
    (\<exists>es. g_effects (snd (processQueueBatch fuel h P env messages w)) = g_effects w @ es \<and>
      map settledId (filter isSettle es) = map gm_id messages)"
proof -
  define entries where "entries = batchEntries P messages"
  define isSource where "isSource = (\<lambda>(i :: nat, message :: GenMessage, envelope). isSourceEnvelope envelope)"
  have ids: "map (\<lambda>(i, message, envelope). gm_id message) entries = map gm_id messages"
    by (rule nth_equalityI) (simp_all add: entries_def batchEntries_def)
  let ?others = "processEntries fuel h P env (filter (\<lambda>e. \<not> isSource e) entries)"
  let ?sources = "processEntries fuel h P env (filter isSource entries)"
  let ?w1 = "snd (?others w)"
  let ?w2 = "snd (?sources ?w1)"
  from entries_return [OF assms] obtain ds ds' where ds: "fst (?others w) = Inr (Some ds)" "fst (?sources ?w1) = Inr (Some ds')" by blast
  from settles_entries [of entries h "ds @ ds'"] obtain es where es: "fst (applyEntries h (ds @ ds') entries ?w2) = Inr ()"
    "g_effects (snd (applyEntries h (ds @ ds') entries ?w2)) = g_effects ?w2 @ es" "map settledId (filter isSettle es) = map gm_id messages"
    unfolding settles_def ids by blast
  have "movesA (onlyEffects unsettled) ?others" "movesA (onlyEffects unsettled) ?sources" by (rule unsettled.entries_moves)+
  then have "onlyEffects unsettled w ?w1" "onlyEffects unsettled ?w1 ?w2" unfolding movesA_def by blast+
  then have "onlyEffects unsettled w ?w2" by (rule effects.R_trans)
  then obtain fs where fs: "g_effects ?w2 = g_effects w @ fs" "list_all unsettled fs" unfolding onlyEffects_def by blast
  then have "filter isSettle fs = []" by (simp add: list_all_iff unsettled_def filter_empty_conv)
  moreover have "processQueueBatch fuel h P env messages w = (Inr True, snd (applyEntries h (ds @ ds') entries ?w2))"
    using ds es(1) by (simp add: processQueueBatch_def Let_def bindA_eq flip: entries_def isSource_def)
  ultimately show ?thesis using es fs by (intro conjI exI [of _ "fs @ es"]) simp_all
qed

theorem batch_settles_each_message_witness:
  "\<exists>es. g_effects (snd (processQueueBatch 1 quietHost plainPlatform sampleEnv
      [\<lparr>gm_id = ''m1'', gm_body = JNull, gm_attempts = 1\<rparr>, \<lparr>gm_id = ''m2'', gm_body = JObj [(''kind'', JStr ''source'')], gm_attempts = 5\<rparr>]
      emptyWorld)) = es \<and> map settledId (filter isSettle es) = [''m1'', ''m2'']"
  using batch_settles_each_message [of 0 quietHost 1 plainPlatform sampleEnv
      "[\<lparr>gm_id = ''m1'', gm_body = JNull, gm_attempts = 1\<rparr>, \<lparr>gm_id = ''m2'', gm_body = JObj [(''kind'', JStr ''source'')], gm_attempts = 5\<rparr>]"
      emptyWorld]
  by (simp add: emptyWorld_def conflictsEndAt_def quietHost_def)

end
