(* ===== verification/Generator_Delays.thy ===== *)
theory Generator_Delays
  imports Generator_Facts
begin

section \<open>Generator worker: delays\<close>

text \<open>
  Every delay the queue consumer asks for lies between one second and five minutes. The delay a provider asks
  for travels in its error: the lemmas follow the errors of the generation and the results of the handlers.
\<close>

subsection \<open>Errors and results of actions\<close>

definition throwsA :: "(gen_error \<Rightarrow> bool) \<Rightarrow> 'a gen \<Rightarrow> bool" where
  "throwsA E act \<longleftrightarrow> (\<forall>w e. fst (act w) = Inl e \<longrightarrow> E e)"

definition returnsA :: "('a \<Rightarrow> bool) \<Rightarrow> 'a gen \<Rightarrow> bool" where
  "returnsA D act \<longleftrightarrow> (\<forall>w x. fst (act w) = Inr x \<longrightarrow> D x)"

lemma throwsA_basic: "throwsA E (retA x)" "E e \<Longrightarrow> throwsA E (throwA e)" "(\<And>e. r = Inl e \<Longrightarrow> E e) \<Longrightarrow> throwsA E (liftR r)"
  by (simp_all add: throwsA_def)

lemma throwsA_bindA: "throwsA E act \<Longrightarrow> (\<And>x. throwsA E (f x)) \<Longrightarrow> throwsA E (bindA act f)"
  by (auto simp: throwsA_def bindA_eq split: sum.splits)

lemma throwsA_catchA: "(\<And>e. throwsA E (k e)) \<Longrightarrow> throwsA E (catchA act k)"
  by (auto simp: throwsA_def catchA_eq split: sum.splits)

lemma throwsA_cases:
  "(c \<Longrightarrow> throwsA E a) \<Longrightarrow> (\<not> c \<Longrightarrow> throwsA E b) \<Longrightarrow> throwsA E (if c then a else b)"
  "throwsA E a \<Longrightarrow> (\<And>x. throwsA E (f x)) \<Longrightarrow> throwsA E (case opt of None \<Rightarrow> a | Some x \<Rightarrow> f x)"
  by (simp_all split: option.split)

lemmas throws = throwsA_basic throwsA_bindA throwsA_cases

lemma throwsA_call: "(\<And>k e. f k = Inl e \<Longrightarrow> E e) \<Longrightarrow> throwsA E (genCall f)"
  "(\<And>k e. f k = Inl e \<Longrightarrow> E e) \<Longrightarrow> throwsA E (genEffect eff f)"
  by (auto simp: throwsA_def genCall_def genEffect_def)

lemma returnsA_basic: "D x \<Longrightarrow> returnsA D (retA x)" "returnsA D (throwA e)"
  by (simp_all add: returnsA_def)

lemma returnsA_bindA: "returnsA T act \<Longrightarrow> (\<And>x. T x \<Longrightarrow> returnsA D (f x)) \<Longrightarrow> returnsA D (bindA act f)"
  unfolding returnsA_def by (simp add: bindA_eq split: sum.splits) blast

lemma returnsA_after: "(\<And>x. returnsA D (f x)) \<Longrightarrow> returnsA D (bindA act f)"
  by (auto simp: returnsA_def bindA_eq split: sum.splits)

lemma returnsA_cases:
  "returnsA D a \<Longrightarrow> returnsA D b \<Longrightarrow> returnsA D (if c then a else b)"
  "returnsA D a \<Longrightarrow> (\<And>x. returnsA D (f x)) \<Longrightarrow> returnsA D (case opt of None \<Rightarrow> a | Some x \<Rightarrow> f x)"
  "(\<And>x. returnsA D (g x)) \<Longrightarrow> (\<And>y. returnsA D (k y)) \<Longrightarrow> returnsA D (case s of Inl x \<Rightarrow> g x | Inr y \<Rightarrow> k y)"
  by (simp_all split: option.split sum.split)

lemmas returns = returnsA_basic returnsA_after returnsA_cases

subsection \<open>Errors of the generation\<close>

definition boundedError :: "gen_error \<Rightarrow> bool" where
  "boundedError e = (case e of DeepSeekRequestError c t r (Some n) \<Rightarrow> 1 \<le> n \<and> n \<le> 300 | _ \<Rightarrow> True)"

text \<open>
  The wiki client throws its own errors, never those of the completion service, and a scaled random unit is at
  most the scale.
\<close>

definition plainError :: "gen_error \<Rightarrow> bool" where
  "plainError e = (case e of DeepSeekRequestError c t r a \<Rightarrow> False | _ \<Rightarrow> True)"

definition plainHost :: "GenHost \<Rightarrow> bool" where
  "plainHost h \<longleftrightarrow>
     (\<forall>k db p e. gh_readNode h k db p = Inl e \<longrightarrow> plainError e) \<and>
     (\<forall>k db p e. gh_mkdirNode h k db p = Inl e \<longrightarrow> plainError e) \<and>
     (\<forall>k r e. gh_writeNode h k r = Inl e \<longrightarrow> plainError e) \<and>
     (\<forall>k db q n p e. gh_searchNodes h k db q n p = Inl e \<longrightarrow> plainError e) \<and>
     (\<forall>k n. gh_random h k n \<le> n)"

lemma plain_bounded: "plainError e \<Longrightarrow> boundedError e"
  by (cases e) (simp_all add: plainError_def boundedError_def)

lemma bounded_errors: "boundedError (GenError t)" "boundedError (GenHostError t)" "boundedError (SourceValidationError t)"
  "boundedError (GeneratedArtifactError t)" "boundedError (ExternalCostGateError t)" "boundedError (DraftValidationError t)"
  "boundedError (DeepSeekResponseError t)" "boundedError (JevError c t b)"
  by (simp_all add: boundedError_def)

lemma retryAfter_bounded: "retryAfterSeconds d now v = Some n \<Longrightarrow> 1 \<le> n \<and> n \<le> 300"
  by (auto simp: retryAfterSeconds_def Let_def split: option.splits if_splits)

lemma completion_bounded: "readCompletion d now answer = Inl e \<Longrightarrow> boundedError e"
  by (auto simp: readCompletion_def boundedError_def Let_def dest!: retryAfter_bounded
      split: sum.splits option.splits if_splits)

lemma draftError_bounded: "boundedError (draftError path t)"
  by (simp add: draftError_def bounded_errors)

lemma mapR_throws: "mapR f xs = Inl e \<Longrightarrow> (\<And>x e. f x = Inl e \<Longrightarrow> E e) \<Longrightarrow> E e"
  by (induction xs) (auto simp: result_simps)

lemma validateSection_bounded: "validateSection path n items = Inl e \<Longrightarrow> boundedError e"
  by (induction path n items rule: validateSection.induct) (auto simp: draftError_bounded split: if_splits)

lemma validateDraft_bounded: "validateDraftSources draft path = Inl e \<Longrightarrow> boundedError e"
  by (auto simp: validateDraftSources_def result_simps intro: mapR_throws validateSection_bounded)

lemma requiredString_bounded: "requiredString v k l path = Inl e \<Longrightarrow> boundedError e"
  by (auto simp: requiredString_def draftError_bounded split: option.splits json.splits)

lemma requiredLabel_bounded: "requiredLabel v k path = Inl e \<Longrightarrow> boundedError e"
  by (auto simp: requiredLabel_def draftError_bounded result_simps dest: requiredString_bounded split: if_splits)

lemma labels_bounded: "normalizeDraftLabels v path = Inl e \<Longrightarrow> boundedError e"
  by (auto simp: normalizeDraftLabels_def draftError_bounded result_simps dest: requiredLabel_bounded split: option.splits if_splits)

lemma section_bounded: "normalizeDraftSection v k path = Inl e \<Longrightarrow> boundedError e"
proof -
  have "normalizeDraftItem item t path = Inl e \<Longrightarrow> boundedError e" for item t e
    by (auto simp: normalizeDraftItem_def draftError_bounded result_simps dest: requiredString_bounded split: if_splits)
  then show "normalizeDraftSection v k path = Inl e \<Longrightarrow> boundedError e"
    by (auto simp: normalizeDraftSection_def draftError_bounded elim!: mapR_throws split: if_splits option.splits json.splits)
qed

lemma candidate_bounded: "normalizeDraftCandidate v path = Inl e \<Longrightarrow> boundedError e"
  by (auto simp: normalizeDraftCandidate_def draftError_bounded result_simps
      dest: requiredString_bounded labels_bounded section_bounded split: if_splits)

lemma parseDraft_bounded: "parseAndValidateDraftResponse body path = Inl e \<Longrightarrow> boundedError e"
  by (auto simp: parseAndValidateDraftResponse_def extractDeepSeekResponseText_def parseDraftText_def result_simps bounded_errors
      draftError_bounded Let_def dest: candidate_bounded validateDraft_bounded split: if_splits option.splits list.splits)

lemma draft_throws: "throwsA boundedError (generateDraft h d source hits config l)"
  unfolding generateDraft_def requestDeepSeekDraft_def Let_def
  by (intro throws throwsA_call) (auto dest: completion_bounded parseDraft_bounded)

lemma metadata_bounded: "metadataLine prefix lines = Inl e \<Longrightarrow> boundedError e"
proof (induction prefix lines rule: metadataLine.induct)
  case (2 prefix line rest)
  have "cleanYamlScalar v = Inl e \<Longrightarrow> boundedError e" for v
    by (auto simp: cleanYamlScalar_def bounded_errors split: if_splits option.splits json.splits)
  with 2 show ?case by (auto simp: Let_def result_simps split: if_splits)
qed simp

lemma query_bounded: "contextQuery content path = Inl e \<Longrightarrow> boundedError e"
  by (auto simp: contextQuery_def metadataValue_def result_simps Let_def dest: metadata_bounded)

lemma rerank_throws: "throwsA boundedError (rerankA h P options intent hits)"
  by (auto simp: rerankA_def Let_def throwsA_def genEffect_def jevFailure_def bounded_errors split: sum.splits prod.splits)

lemma gate_throws: "throwsA boundedError (ensureExternalCostAllowed h input)"
  unfolding ensureExternalCostAllowed_def by (intro throwsA_catchA throws bounded_errors)

lemma path_bounded: "validateSourceRootPath p q = Inl e \<Longrightarrow> boundedError e" "sourceIdFromPath p q = Inl e \<Longrightarrow> boundedError e"
  "slugForGeneratedPage draft base = Inl e \<Longrightarrow> boundedError e"
  by (auto simp: sourceIdFromPath_def validateSourceRootPath_def slugForGeneratedPage_def result_simps bounded_errors Let_def split: if_splits)

lemma call_throws:
  assumes "plainHost h"
  shows "throwsA boundedError (readNodeA h db p)" "throwsA boundedError (mkdirNodeA h db p)" "throwsA boundedError (writeNodeA h r)"
    "throwsA boundedError (genCall (\<lambda>k. gh_searchNodes h k db q n p))" "throwsA boundedError (nowA h)" "throwsA boundedError (isoNowA h)"
    "throwsA boundedError (jobsDb h stmt)"
  using assms
  by (auto simp: readNodeA_def mkdirNodeA_def writeNodeA_def nowA_def isoNowA_def plainHost_def jobsDb_def throwsA_def genCall_def
      genEffect_def Let_def bounded_errors split: option.splits intro: plain_bounded)

lemma generation_throws:
  assumes "plainHost h"
  shows "throwsA boundedError (generateFromSource h P env config db source (ensureExternalCostAllowed h input) l)"
  unfolding generateFromSource_def loadContext_def
  by (intro throws call_throws [OF assms] draft_throws rerank_throws gate_throws path_bounded validateDraft_bounded query_bounded;
      assumption?)

lemma readFields_bounded: "readFields ls fs = Inl e \<Longrightarrow> boundedError e"
  by (induction ls arbitrary: fs) (auto simp: result_simps parseScalar_def bounded_errors Let_def split: if_splits option.splits json.splits)

lemma parseRequest_bounded: "parseSourceCaptureRequest n = Inl e \<Longrightarrow> boundedError e"
  by (auto simp: parseSourceCaptureRequest_def parseFrontmatter_def result_simps Let_def dest: readFields_bounded
      split: if_splits option.splits)

lemma request_throws:
  assumes "plainHost h"
  shows "throwsA boundedError (writeRequestState h P db r u)" "throwsA boundedError (readSourceCaptureRequest h db path)"
proof -
  have "throwsA boundedError (mkdirChain h db current segments)" for current segments
    by (induction segments arbitrary: current) (simp_all only: mkdirChain.simps Let_def throws call_throws [OF assms])
  then have "throwsA boundedError (ensureParentFolders h db path)" for path by (simp add: ensureParentFolders_def Let_def)
  then show "throwsA boundedError (writeRequestState h P db r u)"
    unfolding writeRequestState_def Let_def by (intro throws call_throws [OF assms] bounded_errors)
  show "throwsA boundedError (readSourceCaptureRequest h db path)"
    unfolding readSourceCaptureRequest_def by (intro throws call_throws [OF assms] parseRequest_bounded)
qed

lemma artifact_throws:
  assumes "plainHost h"
  shows "throwsA boundedError (generateArtifact h P env config m x)"
  unfolding generateArtifact_def readRequiredSource_def handleSupersededSourceMessage_def markRequestCompleted_def
    markSourceCaptureRequestCompleted_def checkpointGenerated_def requireRow_def loadJob_def Let_def
  by (intro throws call_throws [OF assms] generation_throws [OF assms] request_throws [OF assms] bounded_errors)

subsection \<open>Delays of the dispositions\<close>

definition boundedDisposition :: "QueueDisposition \<Rightarrow> bool" where
  "boundedDisposition d =
     (case d of Retry n c t \<Rightarrow> 1 \<le> n \<and> n \<le> 300 | Reschedule n c t \<Rightarrow> 1 \<le> n \<and> n \<le> 300 | _ \<Rightarrow> True)"

lemma backoff_bounds: "1 \<le> base \<Longrightarrow> 1 \<le> backoffCeiling base n \<and> backoffCeiling base n \<le> 300"
  by (simp add: backoffCeiling_def Suc_le_eq)

lemma leaseRetryDelay_bounds: "1 \<le> leaseRetryDelay t now \<and> leaseRetryDelay t now \<le> 300"
  by (auto simp: leaseRetryDelay_def split: option.split)

lemma retry_bounded:
  assumes "plainHost h" and "case retryAfter of None \<Rightarrow> True | Some n \<Rightarrow> 1 \<le> n \<and> n \<le> 300"
  shows "returnsA boundedDisposition (retryDisposition h code t attempts retryAfter)"
proof (cases retryAfter)
  case None
  have "gh_random h k (backoffCeiling 15 attempts) \<le> 300" for k
    using assms(1) backoff_bounds [of 15 attempts] unfolding plainHost_def by (meson order_trans one_le_numeral)
  then show ?thesis
    by (auto simp: None retryDisposition_def exponentialBackoff_def returnsA_def genCall_def bindA_eq boundedDisposition_def)
next
  case (Some n)
  with assms(2) show ?thesis by (simp add: retryDisposition_def returnsA_def boundedDisposition_def)
qed

lemma deepSeek_bounded:
  assumes "boundedError e"
  shows "returnsA (\<lambda>r. case r of None \<Rightarrow> True | Some n \<Rightarrow> 1 \<le> n \<and> n \<le> 300) (deepSeekRetryDelaySeconds h e attempts)"
proof -
  let ?c = "backoffCeiling 60 attempts"
  have "1 \<le> min ?c ((?c + 1) div 2 + k) \<and> min ?c ((?c + 1) div 2 + k) \<le> 300" for k
    using backoff_bounds [of 60 attempts] by auto
  then show ?thesis
    using assms
    by (auto simp: deepSeekRetryDelaySeconds_def Let_def returnsA_def genCall_def bindA_eq boundedError_def
        split: gen_error.split option.split)
qed

lemma commitError_bounded:
  assumes "plainHost h"
  shows "returnsA boundedDisposition (handleSourceCommitError h P m x e)"
  unfolding handleSourceCommitError_def Let_def
  by (intro returns retry_bounded [OF assms]) (simp_all add: boundedDisposition_def)

lemma generationError_bounded:
  assumes "plainHost h" and "boundedError e"
  shows "returnsA boundedDisposition (handleGenerationError h P m x e)"
  unfolding handleGenerationError_def Let_def
  by (intro returnsA_cases returnsA_after returnsA_basic returnsA_bindA [OF deepSeek_bounded [OF assms(2)]] retry_bounded [OF assms(1)])
    (simp_all add: boundedDisposition_def)

lemma finish_bounded: "plainHost h \<Longrightarrow> returnsA boundedDisposition (finishSource h P config m x a)"
  unfolding finishSource_def by (intro returns retry_bounded) (simp_all add: boundedDisposition_def)

lemma commit_bounded: "plainHost h \<Longrightarrow> returnsA boundedDisposition (commitSource h P config m x resumed a)"
  unfolding commitSource_def Let_def
  by (intro returns commitError_bounded finish_bounded) (simp_all add: boundedDisposition_def)

lemma claim_bounded:
  "returnsA (\<lambda>c. case c of ClaimBusy n \<Rightarrow> 1 \<le> n \<and> n \<le> 300 | _ \<Rightarrow> True) (claimSourceJob h m owner)"
proof -
  have "case currentClaim m now job of ClaimBusy n \<Rightarrow> 1 \<le> n \<and> n \<le> 300 | _ \<Rightarrow> True" for now job
    using leaseRetryDelay_bounds by (simp add: currentClaim_def split: option.split)
  then show ?thesis
    unfolding claimSourceJob_def Let_def by (intro returns) simp_all
qed

lemma processClaim_bounded:
  assumes "plainHost h" and "case claim of ClaimBusy n \<Rightarrow> 1 \<le> n \<and> n \<le> 300 | _ \<Rightarrow> True"
  shows "returnsA boundedDisposition (processClaim h P env config m x claim)"
proof (cases claim)
  case ClaimGenerate
  have "returnsA (\<lambda>r. case r of Inl e \<Rightarrow> boundedError e | Inr _ \<Rightarrow> True) (attemptA (generateArtifact h P env config m x))"
    using artifact_throws [OF assms(1)] by (auto simp: returnsA_def throwsA_def attemptA_eq split: sum.split)
  then have "returnsA boundedDisposition (bindA (attemptA (generateArtifact h P env config m x)) (\<lambda>outcome. case outcome of
      Inl e \<Rightarrow> handleGenerationError h P m x e | Inr None \<Rightarrow> retA Ack | Inr (Some a) \<Rightarrow> commitSource h P config m x False a))"
    by (rule returnsA_bindA)
      (auto simp: boundedDisposition_def split: sum.split option.split
        intro!: generationError_bounded [OF assms(1)] commit_bounded [OF assms(1)] returnsA_basic)
  then show ?thesis by (simp only: ClaimGenerate processClaim_def SourceJobClaim.case)
next
  case (ClaimSuperseded job)
  show ?thesis
    unfolding ClaimSuperseded processClaim_def SourceJobClaim.case
    by (intro returns retry_bounded [OF assms(1)]) (simp_all add: boundedDisposition_def)
qed (use assms in \<open>auto simp: processClaim_def boundedDisposition_def intro!: returns commit_bounded\<close>)

lemma entry_bounded:
  assumes "plainHost h"
  shows "returnsA (\<lambda>d. case d of None \<Rightarrow> True | Some x \<Rightarrow> boundedDisposition x) (processQueueEntry fuel h P env message envelope)"
proof -
  let ?D = "\<lambda>d. case d of None \<Rightarrow> True | Some x \<Rightarrow> boundedDisposition x"
  have "returnsA boundedDisposition (processSourceQueueMessage h P env m x)" for m x
    unfolding processSourceQueueMessage_def
    by (intro returnsA_after returnsA_bindA [OF claim_bounded] processClaim_bounded [OF assms])
  then have source: "returnsA ?D (bindA (processSourceQueueMessage h P env m x) (\<lambda>d. retA (Some d)))" for m x
    by (rule returnsA_bindA) (simp add: returnsA_def)
  have "returnsA ?D (processQueueMessage fuel h P env mess x)" for mess x
    by (cases mess) (auto simp: processQueueMessage_def boundedDisposition_def intro!: returns source)
  then have "returnsA ?D (processQueueMessageEnvelope fuel h P env envelope x)" for x
    by (cases envelope) (auto simp: processQueueMessageEnvelope_def boundedDisposition_def intro!: returns)
  then show ?thesis
    using backoff_bounds [of 15]
    by (auto simp: processQueueEntry_def returnsA_def catchA_eq retryForUnhandled_def boundedDisposition_def split: sum.splits)
qed

subsection \<open>Delays of a batch\<close>

definition boundedDelay :: "GenEffect \<Rightarrow> bool" where
  "boundedDelay e =
     (case e of EffRetry i n \<Rightarrow> 1 \<le> n \<and> n \<le> 300 | EffResend b n \<Rightarrow> 1 \<le> n \<and> n \<le> 300 | _ \<Rightarrow> True)"

interpretation delays: queue_effects boundedDelay
  by unfold_locales (simp_all add: boundedDelay_def isQueueEffect_def split: GenEffect.splits)

lemma settle_moves:
  "movesA (onlyEffects boundedDelay) (ackA message)"
  "1 \<le> n \<Longrightarrow> n \<le> 300 \<Longrightarrow> movesA (onlyEffects boundedDelay) (retryMessageA message n)"
  by (simp_all add: ackA_def retryMessageA_def onlyEffects_primitive boundedDelay_def)

lemma deadLetter_moves: "movesA (onlyEffects boundedDelay) (deadLetterA h message envelope code)"
  unfolding deadLetterA_def Let_def isoNowA_def
  by (intro effects.moves moves_attemptA onlyEffects_primitive settle_moves) (simp_all add: boundedDelay_def)

lemma apply_moves: "boundedDisposition d \<Longrightarrow> movesA (onlyEffects boundedDelay) (applyDisposition h message envelope d)"
proof (cases d)
  case (Reschedule n c t)
  assume "boundedDisposition d"
  with Reschedule have n: "1 \<le> n" "n \<le> 300" by (simp_all add: boundedDisposition_def)
  have "movesA (onlyEffects boundedDelay) (if \<not> isSourceEnvelope envelope then retryMessageA message n
      else bindA (attemptA (genEffect (EffResend (gm_body message) n) (\<lambda>k. gh_resend h k (gm_body message) n)))
        (\<lambda>sent. case sent of Inr _ \<Rightarrow> ackA message | Inl _ \<Rightarrow> retryMessageA message n))"
    by (intro effects.moves moves_attemptA onlyEffects_primitive settle_moves n) (use n in \<open>simp add: boundedDelay_def\<close>)
  then show ?thesis by (simp only: Reschedule applyDisposition_def QueueDisposition.case)
qed (simp_all add: applyDisposition_def boundedDisposition_def settle_moves deadLetter_moves)

lemma applyEntries_moves:
  assumes "\<forall>p \<in> set ds. boundedDisposition (snd p)"
  shows "movesA (onlyEffects boundedDelay) (applyEntries h ds entries)"
proof (induction entries)
  case (Cons entry entries)
  obtain i message envelope where entry: "entry = (i, message, envelope)" by (cases entry)
  have "boundedDisposition (case map_of ds i of Some d \<Rightarrow> d
      | None \<Rightarrow> retryForUnhandled ''missing disposition'' (gm_attempts message))"
  proof (cases "map_of ds i")
    case (Some d)
    with assms map_of_SomeD [OF Some] show ?thesis by fastforce
  qed (use backoff_bounds [of 15] in \<open>simp add: retryForUnhandled_def boundedDisposition_def\<close>)
  then show ?case unfolding entry applyEntries.simps by (intro effects.moves_bindA apply_moves Cons.IH)
qed (simp only: applyEntries.simps effects.moves_basic)

lemma entries_bounded:
  assumes "plainHost h"
  shows "returnsA (\<lambda>ds. case ds of None \<Rightarrow> True | Some l \<Rightarrow> \<forall>p \<in> set l. boundedDisposition (snd p)) (processEntries fuel h P env entries)"
proof (induction entries)
  case (Cons entry entries)
  obtain i message envelope where entry: "entry = (i, message, envelope)" by (cases entry)
  show ?case
    unfolding entry processEntries.simps
  proof (rule returnsA_bindA [OF entry_bounded [OF assms]])
    fix d :: "QueueDisposition option"
    assume d: "case d of None \<Rightarrow> True | Some x \<Rightarrow> boundedDisposition x"
    show "returnsA (\<lambda>ds. case ds of None \<Rightarrow> True | Some l \<Rightarrow> \<forall>p \<in> set l. boundedDisposition (snd p)) (case d of None \<Rightarrow> retA None
      | Some d \<Rightarrow> bindA (processEntries fuel h P env entries) (\<lambda>rest. retA (map_option (\<lambda>ds. (i, d) # ds) rest)))"
    proof (cases d)
      case (Some x)
      show ?thesis
        unfolding Some option.case
        by (rule returnsA_bindA [OF Cons.IH]) (use d Some in \<open>auto simp: returnsA_def split: option.splits\<close>)
    qed (simp add: returnsA_def)
  qed
qed (simp add: returnsA_def)

text \<open>
  Every delay is between one second and five minutes: in any run of the queue consumer, whatever its
  services answer, each retry and each rescheduled message asks for a delay in these bounds, be it the
  jittered backoff, the end of another execution's lease, or the delay the completion service asked for.
\<close>

theorem batch_delays_bounded:
  assumes "plainHost h"
  shows "\<exists>es. g_effects (snd (processQueueBatch fuel h P env messages w)) = g_effects w @ es \<and> list_all boundedDelay es"
proof -
  have "movesA (onlyEffects boundedDelay) (processQueueBatch fuel h P env messages)"
    unfolding processQueueBatch_def Let_def
  proof (rule effects.moves_bindA_dep [OF delays.entries_moves])
    let ?source = "\<lambda>(i :: nat, message :: GenMessage, envelope). isSourceEnvelope envelope"
    fix s t others
    assume "processEntries fuel h P env (filter (\<lambda>e. \<not> ?source e) (batchEntries P messages)) s = (Inr others, t)"
    then have others: "case others of None \<Rightarrow> True | Some l \<Rightarrow> \<forall>p \<in> set l. boundedDisposition (snd p)"
      using entries_bounded [OF assms] unfolding returnsA_def by (metis (no_types, lifting) fst_conv)
    have "movesA (onlyEffects boundedDelay) (bindA (processEntries fuel h P env (filter ?source (batchEntries P messages)))
        (\<lambda>sources. case sources of None \<Rightarrow> retA False
          | Some sourceDispositions \<Rightarrow> bindA (applyEntries h (ds @ sourceDispositions) (batchEntries P messages)) (\<lambda>_. retA True)))"
      if "others = Some ds" for ds
    proof (rule effects.moves_bindA_dep [OF delays.entries_moves])
      fix s' t' sources
      assume "processEntries fuel h P env (filter ?source (batchEntries P messages)) s' = (Inr sources, t')"
      then have "case sources of None \<Rightarrow> True | Some l \<Rightarrow> \<forall>p \<in> set l. boundedDisposition (snd p)"
        using entries_bounded [OF assms] unfolding returnsA_def by (metis (no_types, lifting) fst_conv)
      with others that have bounded: "\<forall>p \<in> set (ds @ l). boundedDisposition (snd p)" if "sources = Some l" for l
        using that by (simp add: ball_Un)
      show "movesA (onlyEffects boundedDelay) (case sources of None \<Rightarrow> retA False
          | Some sourceDispositions \<Rightarrow> bindA (applyEntries h (ds @ sourceDispositions) (batchEntries P messages)) (\<lambda>_. retA True))"
      proof (cases sources)
        case (Some l)
        show ?thesis unfolding Some option.case by (intro effects.moves_bindA applyEntries_moves bounded Some effects.moves_basic)
      qed (simp only: option.case effects.moves_basic)
    qed
    then show "movesA (onlyEffects boundedDelay) (case others of None \<Rightarrow> retA False
        | Some otherDispositions \<Rightarrow> bindA (processEntries fuel h P env (filter ?source (batchEntries P messages)))
            (\<lambda>sources. case sources of None \<Rightarrow> retA False
              | Some sourceDispositions \<Rightarrow>
                  bindA (applyEntries h (otherDispositions @ sourceDispositions) (batchEntries P messages)) (\<lambda>_. retA True)))"
      by (cases others) (simp_all only: option.case effects.moves_basic)
  qed
  then show ?thesis by (simp add: movesA_def onlyEffects_def)
qed

theorem batch_delays_bounded_witness:
  "list_all boundedDelay (g_effects (snd (processQueueBatch 1 quietHost plainPlatform sampleEnv
     [\<lparr>gm_id = ''m1'', gm_body = JObj [(''kind'', JStr ''source''), (''databaseId'', JStr ''db''), (''sourcePath'', JStr ''/Sources/a.md''),
        (''sourceEtag'', JStr ''e1'')], gm_attempts = 1\<rparr>] emptyWorld)))"
  using batch_delays_bounded [of quietHost 1 plainPlatform sampleEnv "[\<lparr>gm_id = ''m1'', gm_body = JObj [(''kind'', JStr ''source''),
      (''databaseId'', JStr ''db''), (''sourcePath'', JStr ''/Sources/a.md''), (''sourceEtag'', JStr ''e1'')], gm_attempts = 1\<rparr>]" emptyWorld]
  by (simp add: emptyWorld_def plainHost_def quietHost_def)

end
