(* ===== verification/Assistant_Leases.thy ===== *)
theory Assistant_Leases
  imports Sql_Table State_System
begin

section \<open>Assistant worker: leases\<close>

text \<open>
  \<^verbatim>\<open>workers/wiki-assistant/src/leases.ts\<close>: the rows that say which execution may work on a conversation, and the
  statements that claim, renew, check and release them. Each statement carries its own clock: the theorems
  assume nothing about the clocks of the executions. The identifier of the owner is \<open>crypto.randomUUID()\<close>.
\<close>

record Lease =
  le_scope :: string
  le_id :: string
  le_owner :: string
  le_generation :: nat
  le_expires_at :: nat

type_synonym leases = "Lease list"

definition LEASE_MS :: nat where
  "LEASE_MS = 45000"

definition RENEW_MS :: nat where
  "RENEW_MS = 10000"

definition leaseKey :: "Lease \<Rightarrow> string \<times> string" where
  "leaseKey l = (le_scope l, le_id l)"

subsection \<open>Statements\<close>

text \<open>The upsert of \<open>claim\<close>: a new row, or the row of an expired lease under a new owner and generation.\<close>

definition claimedLease :: "string \<Rightarrow> nat \<Rightarrow> Lease \<Rightarrow> Lease" where
  "claimedLease owner now l = l \<lparr>le_owner := owner, le_generation := le_generation l + 1, le_expires_at := now + LEASE_MS\<rparr>"

definition claim :: "string \<Rightarrow> string \<Rightarrow> string \<Rightarrow> nat \<Rightarrow> leases \<Rightarrow> Lease option \<times> leases" where
  "claim scope ident owner now t =
     (case byKey leaseKey (scope, ident) t of
        None \<Rightarrow>
          let l = \<lparr>le_scope = scope, le_id = ident, le_owner = owner, le_generation = 1, le_expires_at = now + LEASE_MS\<rparr>
          in (Some l, t @ [l])
      | Some l \<Rightarrow>
          if le_expires_at l \<le> now
          then (Some (claimedLease owner now l), updateWhere (\<lambda>r. leaseKey r = (scope, ident)) (claimedLease owner now) t)
          else (None, t))"

definition active :: "string \<Rightarrow> string \<Rightarrow> nat \<Rightarrow> leases \<Rightarrow> bool" where
  "active scope ident now t = list_ex (\<lambda>r. leaseKey r = (scope, ident) \<and> le_expires_at r > now) t"

text \<open>The row of the holder of \<open>lease\<close>.\<close>

definition heldRow :: "Lease \<Rightarrow> Lease \<Rightarrow> bool" where
  "heldRow lease r \<longleftrightarrow> leaseKey r = leaseKey lease \<and> le_owner r = le_owner lease \<and> le_generation r = le_generation lease"

definition valid :: "Lease \<Rightarrow> nat \<Rightarrow> leases \<Rightarrow> bool" where
  "valid lease now t = list_ex (\<lambda>r. heldRow lease r \<and> le_expires_at r > now) t"

definition renew :: "Lease \<Rightarrow> nat \<Rightarrow> leases \<Rightarrow> (bool \<times> Lease) \<times> leases" where
  "renew lease now t =
     (let P = (\<lambda>r. heldRow lease r \<and> le_expires_at r > now);
          ok = (changesWhere P t = 1)
      in ((ok, if ok then lease \<lparr>le_expires_at := now + LEASE_MS\<rparr> else lease),
          updateWhere P (\<lambda>r. r \<lparr>le_expires_at := now + LEASE_MS\<rparr>) t))"

definition release :: "Lease \<Rightarrow> leases \<Rightarrow> leases" where
  "release lease t = updateWhere (heldRow lease) (\<lambda>r. r \<lparr>le_expires_at := 0\<rparr>) t"

interpretation claim_lease: row_update leaseKey "claimedLease owner now" for owner now
  by unfold_locales (simp add: claimedLease_def leaseKey_def)

interpretation lease_expiry: row_update leaseKey "\<lambda>r. r \<lparr>le_expires_at := n\<rparr>" for n
  by unfold_locales (simp add: leaseKey_def)

subsection \<open>Runs\<close>

inductive leaseStep :: "leases \<Rightarrow> leases \<Rightarrow> bool" where
  step_claim: "leaseStep t (snd (claim scope ident owner now t))"
| step_renew: "leaseStep t (snd (renew lease now t))"
| step_release: "leaseStep t (release lease t)"

text \<open>What a run keeps: the rows, with a generation that only grows and determines the owner.\<close>

definition leaseGrows :: "leases \<Rightarrow> leases \<Rightarrow> bool" where
  "leaseGrows s t \<longleftrightarrow> (\<forall>k l. byKey leaseKey k s = Some l \<longrightarrow>
     (\<exists>l'. byKey leaseKey k t = Some l' \<and> le_generation l \<le> le_generation l' \<and>
        (le_generation l' = le_generation l \<longrightarrow> le_owner l' = le_owner l)))"

lemma leaseGrows_update:
  assumes "row_update leaseKey f" and "\<And>l. P l \<Longrightarrow> le_generation l \<le> le_generation (f l) \<and>
      (le_generation (f l) = le_generation l \<longrightarrow> le_owner (f l) = le_owner l)"
  shows "leaseGrows s (updateWhere P f s)"
  using assms(2) by (auto simp: leaseGrows_def row_update.byKey_update [OF assms(1)])

lemma leaseGrows_refl: "leaseGrows s s"
  by (simp add: leaseGrows_def)

lemma leaseGrows_trans: "leaseGrows s t \<Longrightarrow> leaseGrows t u \<Longrightarrow> leaseGrows s u"
proof (unfold leaseGrows_def, intro allI impI)
  fix k l
  assume grows: "\<forall>k l. byKey leaseKey k s = Some l \<longrightarrow> (\<exists>l'. byKey leaseKey k t = Some l' \<and> le_generation l \<le> le_generation l' \<and>
        (le_generation l' = le_generation l \<longrightarrow> le_owner l' = le_owner l))"
    "\<forall>k l. byKey leaseKey k t = Some l \<longrightarrow> (\<exists>l'. byKey leaseKey k u = Some l' \<and> le_generation l \<le> le_generation l' \<and>
        (le_generation l' = le_generation l \<longrightarrow> le_owner l' = le_owner l))"
    and l: "byKey leaseKey k s = Some l"
  from grows(1) l obtain m where m: "byKey leaseKey k t = Some m" "le_generation l \<le> le_generation m"
    "le_generation m = le_generation l \<longrightarrow> le_owner m = le_owner l" by blast
  from grows(2) m(1) obtain n where "byKey leaseKey k u = Some n" "le_generation m \<le> le_generation n"
    "le_generation n = le_generation m \<longrightarrow> le_owner n = le_owner m" by blast
  with m(2,3) show "\<exists>l'. byKey leaseKey k u = Some l' \<and> le_generation l \<le> le_generation l' \<and>
        (le_generation l' = le_generation l \<longrightarrow> le_owner l' = le_owner l)" by auto
qed

lemma leaseStep_grows: "leaseStep s t \<Longrightarrow> leaseGrows s t"
proof (induction rule: leaseStep.induct)
  case (step_claim t scope ident owner now)
  have "leaseGrows t (updateWhere P (claimedLease owner now) t)" for P
    by (rule leaseGrows_update [OF claim_lease.row_update_axioms]) (simp add: claimedLease_def)
  moreover have "leaseGrows t (t @ [l])" for l by (simp add: leaseGrows_def byKey_append_one)
  ultimately show ?case by (simp add: claim_def Let_def leaseGrows_refl split: option.split)
next
  case (step_renew t lease now)
  show ?case unfolding renew_def Let_def by (simp add: leaseGrows_update [OF lease_expiry.row_update_axioms])
next
  case (step_release t lease)
  show ?case unfolding release_def by (simp add: leaseGrows_update [OF lease_expiry.row_update_axioms])
qed

lemma leaseStep_keyed: "leaseStep s t \<Longrightarrow> keyed leaseKey s \<Longrightarrow> keyed leaseKey t"
proof (induction rule: leaseStep.induct)
  case (step_claim t scope ident owner now)
  have "keyed leaseKey (t @ [l])" if "byKey leaseKey (scope, ident) t = None" "leaseKey l = (scope, ident)" for l
    using that step_claim by (intro keyed_append_one) (simp_all add: byKey_None_iff)
  moreover have "leaseKey \<lparr>le_scope = scope, le_id = ident, le_owner = owner, le_generation = g, le_expires_at = e\<rparr> = (scope, ident)" for g e
    by (simp add: leaseKey_def)
  ultimately show ?case using step_claim by (simp add: claim_def Let_def claim_lease.keyed_update split: option.split)
qed (simp_all add: renew_def release_def Let_def lease_expiry.keyed_update)

interpretation leasing: guarded_system leaseStep "keyed leaseKey" leaseGrows
  by unfold_locales (auto intro: leaseStep_keyed leaseGrows_refl leaseGrows_trans leaseStep_grows)

lemma claim_row_stored:
  assumes "claim scope ident owner now t = (Some l, t')"
  shows "byKey leaseKey (scope, ident) t' = Some l" "leaseKey l = (scope, ident)" "le_owner l = owner" "le_expires_at l = now + LEASE_MS"
    "byKey leaseKey (scope, ident) t = Some r \<Longrightarrow> le_generation l = le_generation r + 1 \<and> le_expires_at r \<le> now"
proof -
  show "leaseKey l = (scope, ident)" "le_owner l = owner" "le_expires_at l = now + LEASE_MS"
    "byKey leaseKey (scope, ident) t = Some r \<Longrightarrow> le_generation l = le_generation r + 1 \<and> le_expires_at r \<le> now"
    using assms byKey_Some_D [of leaseKey "(scope, ident)" t]
    by (auto simp: claim_def Let_def claimedLease_def leaseKey_def split: option.splits if_splits)
  then show "byKey leaseKey (scope, ident) t' = Some l"
    using assms byKey_Some_D [of leaseKey "(scope, ident)" t]
    by (auto simp: claim_def Let_def byKey_append_one claim_lease.byKey_update split: option.splits if_splits)
qed

lemma held_unique:
  assumes "keyed leaseKey t" and "byKey leaseKey (leaseKey lease) t = Some r" and "x \<in> set t" and "heldRow lease x"
  shows "x = r"
  using assms byKey_keyed [OF assms(1,3)] by (simp add: heldRow_def)

lemma fenced_out:
  assumes "keyed leaseKey t" and "byKey leaseKey (leaseKey lease) t = Some r" and "le_generation lease < le_generation r"
  shows "\<not> valid lease now t" "renew lease now t = ((False, lease), t)" "release lease t = t"
proof -
  have none: "\<not> heldRow lease x" if "x \<in> set t" for x
    using held_unique [OF assms(1,2) that] assms(3) by (auto simp: heldRow_def)
  then show "\<not> valid lease now t" by (auto simp: valid_def list_ex_iff)
  have same: "updateWhere P f t = t" if "\<And>x. x \<in> set t \<Longrightarrow> \<not> P x" for P f
    using that by (auto simp: updateWhere_def intro: map_idI)
  have "changesWhere (\<lambda>r. heldRow lease r \<and> now < le_expires_at r) t = 0"
    using none by (auto simp: changesWhere_def filter_empty_conv)
  moreover have "updateWhere (\<lambda>r. heldRow lease r \<and> now < le_expires_at r) f t = t" for f by (rule same) (simp add: none)
  ultimately show "renew lease now t = ((False, lease), t)" by (simp add: renew_def Let_def)
  show "release lease t = t" unfolding release_def by (rule same) (rule none)
qed

text \<open>
  C25. Leases are fenced. Whatever the clocks and the order of the statements of all executions: a lease that
  has not expired by the clock of a claim is not given to another; once it was, the new lease has a higher
  generation, and the former holder can never again pass the check, extend the lease or release the lease of
  its successor.
\<close>

theorem leases_fenced:
  assumes "keyed leaseKey t0" and "claim scope ident owner now t0 = (Some lease, t1)"
    and "leaseStep\<^sup>*\<^sup>* t1 t2" and "claim scope ident owner' now' t2 = (Some lease', t3)" and "leaseStep\<^sup>*\<^sup>* t3 t4"
  shows "\<not> (\<exists>r. byKey leaseKey (scope, ident) t2 = Some r \<and> le_expires_at r > now') \<and> le_generation lease < le_generation lease' \<and>
    \<not> valid lease n t4 \<and> renew lease n t4 = ((False, lease), t4) \<and> release lease t4 = t4"
proof -
  have k1: "keyed leaseKey t1" using leaseStep_keyed [OF step_claim assms(1)] assms(2) by (metis snd_conv)
  have k2: "keyed leaseKey t2" using leasing.inv_run [OF assms(3) k1] .
  have k3: "keyed leaseKey t3" using leaseStep_keyed [OF step_claim k2] assms(4) by (metis snd_conv)
  have k4: "keyed leaseKey t4" using leasing.inv_run [OF assms(5) k3] .
  from leasing.adv_run [OF assms(3) k1] claim_row_stored(1) [OF assms(2)] obtain r where
    r: "byKey leaseKey (scope, ident) t2 = Some r" "le_generation lease \<le> le_generation r"
    unfolding leaseGrows_def by blast
  from claim_row_stored(5) [OF assms(4) r(1)] have taken: "le_generation lease' = le_generation r + 1" "le_expires_at r \<le> now'" by auto
  from leasing.adv_run [OF assms(5) k3] claim_row_stored(1) [OF assms(4)] obtain r' where
    r': "byKey leaseKey (scope, ident) t4 = Some r'" "le_generation lease' \<le> le_generation r'"
    unfolding leaseGrows_def by blast
  have "byKey leaseKey (leaseKey lease) t4 = Some r'" using r'(1) claim_row_stored(2) [OF assms(2)] by simp
  with fenced_out [OF k4 this] r r' taken show ?thesis by auto
qed

definition sampleLease :: "string \<Rightarrow> nat \<Rightarrow> nat \<Rightarrow> Lease" where
  "sampleLease owner g e = \<lparr>le_scope = ''question'', le_id = ''c1'', le_owner = owner, le_generation = g, le_expires_at = e\<rparr>"

theorem leases_fenced_witness:
  "\<not> valid (sampleLease ''a'' 1 45000) 0 [sampleLease ''b'' 2 95000] \<and>
   release (sampleLease ''a'' 1 45000) [sampleLease ''b'' 2 95000] = [sampleLease ''b'' 2 95000]"
proof -
  have "claim ''question'' ''c1'' ''a'' 0 [] = (Some (sampleLease ''a'' 1 45000), [sampleLease ''a'' 1 45000])"
    by (simp add: claim_def sampleLease_def LEASE_MS_def Let_def)
  moreover have "claim ''question'' ''c1'' ''b'' 50000 [sampleLease ''a'' 1 45000] =
      (Some (sampleLease ''b'' 2 95000), [sampleLease ''b'' 2 95000])"
    by (simp add: claim_def sampleLease_def LEASE_MS_def leaseKey_def claimedLease_def updateWhere_def)
  ultimately show ?thesis
    using leases_fenced [of "[]" "''question''" "''c1''" "''a''" 0 "sampleLease ''a'' 1 45000" "[sampleLease ''a'' 1 45000]"
        "[sampleLease ''a'' 1 45000]" "''b''" 50000 "sampleLease ''b'' 2 95000" "[sampleLease ''b'' 2 95000]" "[sampleLease ''b'' 2 95000]" 0]
    by simp
qed

end
