(* ===== verification/Deepseek_Client.thy ===== *)
theory Deepseek_Client
  imports Js_Bytes
begin

section \<open>The completion client\<close>

text \<open>
  \<^verbatim>\<open>packages/deepseek-client/index.js\<close>: one submission and the bounded read of its answer. The outcome of \<open>fetch\<close>
  is a parameter: \<open>Inl\<close> a rejected request or read (\<open>True\<close> when the signal was aborted), otherwise the response
  with the chunks of its body. The text decoder is a parameter; decoding chunk by chunk with
  \<open>{ stream: true }\<close> is decoding the concatenation.
\<close>

definition DEEPSEEK_MODEL :: string where
  "DEEPSEEK_MODEL = ''deepseek-flash''"

record DeepSeekResponse =
  dr_status :: nat
  dr_contentLength :: "nat option"
  dr_body :: "(bool + byte list) list option"

datatype deepseek_failure = DeepSeekResponseTooLargeError | RequestFailure (wasAborted: bool)

fun completionChunks :: "nat \<Rightarrow> (bool + byte list) list \<Rightarrow> byte list \<Rightarrow> deepseek_failure + byte list" where
  "completionChunks maxBytes [] got = Inr got"
| "completionChunks maxBytes (Inl aborted # chunks) got = Inl (RequestFailure aborted)"
| "completionChunks maxBytes (Inr v # chunks) got =
     (if length got + length v > maxBytes then Inl DeepSeekResponseTooLargeError
      else completionChunks maxBytes chunks (got @ v))"

definition readDeepSeekResponseText :: "(byte list \<Rightarrow> string) \<Rightarrow> nat \<Rightarrow> DeepSeekResponse \<Rightarrow> deepseek_failure + string" where
  "readDeepSeekResponseText decode maxBytes response =
     (if (case dr_contentLength response of None \<Rightarrow> False | Some n \<Rightarrow> n > maxBytes) then Inl DeepSeekResponseTooLargeError
      else
        case dr_body response of
          None \<Rightarrow> Inr ''''
        | Some chunks \<Rightarrow> bindR (completionChunks maxBytes chunks []) (\<lambda>bytes. Inr (decode bytes)))"

lemma completionChunks_bounded:
  "completionChunks maxBytes chunks got = Inr bytes \<Longrightarrow> length got \<le> maxBytes \<Longrightarrow> length bytes \<le> maxBytes"
  by (induction maxBytes chunks got rule: completionChunks.induct) (auto split: if_splits)

end
