(* ===== verification/Assistant_State.thy ===== *)
theory Assistant_State
  imports Assistant_Contracts Deepseek_Client Jev_Reranker
begin

section \<open>Assistant worker: the state of a turn\<close>

text \<open>
  \<^verbatim>\<open>workers/wiki-assistant/src/state.ts\<close> and the state types of \<^verbatim>\<open>kinic.ts\<close> and \<^verbatim>\<open>deepseek.ts\<close>: the budgets and the
  evidence of a turn, the messages exchanged with the model, and the services the turn calls. A service is
  a function of the number of the call, so that every answer, failure and clock reading is possible at every
  call; a rejected canister call is \<open>Inl\<close>, its \<open>Err\<close> variant \<open>Inr (Inl _)\<close>. Every call of the canister, every
  submission to the model and every checkpoint is an event of the log. Durations, and fields of the canister's
  records that this code does not read, are not modelled.
\<close>

subsection \<open>Data\<close>

datatype AskAiRoute = DatabaseOverview | FocusedSearch | SelectedNodeSummary | ConversationRoute

fun routeName :: "AskAiRoute \<Rightarrow> string" where
  "routeName DatabaseOverview = ''database_overview''"
| "routeName FocusedSearch = ''focused_search''"
| "routeName SelectedNodeSummary = ''selected_node_summary''"
| "routeName ConversationRoute = ''conversation''"

record ToolState =
  ts_calls :: nat
  ts_characters :: nat
  ts_evidence :: "Citation list"
  ts_sources :: "string list"
  ts_readPaths :: "string list"
  ts_discoveredPaths :: "string list"
  ts_inventoryObserved :: nat
  ts_inventoryTruncated :: bool

definition emptyToolState :: ToolState where
  "emptyToolState = \<lparr>ts_calls = 0, ts_characters = 0, ts_evidence = [], ts_sources = [], ts_readPaths = [],
     ts_discoveredPaths = [], ts_inventoryObserved = 0, ts_inventoryTruncated = False\<rparr>"

record ToolCall =
  tc_id :: string
  tc_name :: string
  tc_arguments :: string

text \<open>\<open>content\<close> of an assistant message may be absent (\<open>None\<close>) or null (\<open>Some None\<close>).\<close>

datatype ChatMessage =
    SystemMessage string
  | UserMessage string
  | AssistantMessage (am_content: "string option option") (am_calls: "ToolCall list option")
  | ToolMessage (tm_id: string) (tm_content: string)

record DeepSeekTurn =
  dt_messages :: "ChatMessage list"
  dt_requesting :: bool
  dt_rounds :: nat
  dt_inputTokens :: nat
  dt_outputTokens :: nat
  dt_whitespaceRecoveries :: nat
  dt_finalRepairs :: nat

subsection \<open>The canister\<close>

record ReadNode =
  rn_path :: string
  rn_content :: string
  rn_etag :: string
  rn_metadata_json :: string

record SearchHit =
  sh_path :: string
  sh_snippet :: "string option"
  sh_preview :: "string option option"

datatype EntryKind = FileEntry | SourceEntry | FolderEntry | DirectoryEntry

record NodeEntry =
  ne_path :: string
  ne_kind :: EntryKind
  ne_updated_at :: int

record SourceRef =
  sr_source_path :: string
  sr_source_etag :: "string option"
  sr_source_updated_at :: "int option"

record Manifest =
  mf_api_version :: string
  mf_recommended_entrypoint :: string
  mf_roots :: "(string \<times> string) list"

record SearchRequest =
  sq_database_id :: string
  sq_query_text :: string
  sq_prefix :: "string option"
  sq_top_k :: nat

type_synonym 'a answered = "string + (string + 'a)"

subsection \<open>Services\<close>

record AsHost =
  ah_platform :: JevPlatform
  ah_localeCompare :: "string \<Rightarrow> string \<Rightarrow> int"
  ah_read_node :: "nat \<Rightarrow> string \<Rightarrow> string \<Rightarrow> ReadNode option answered"
  ah_memory_manifest :: "nat \<Rightarrow> string \<Rightarrow> Manifest answered"
  ah_search_nodes :: "nat \<Rightarrow> SearchRequest \<Rightarrow> SearchHit list answered"
  ah_list_nodes :: "nat \<Rightarrow> string \<Rightarrow> string \<Rightarrow> bool \<Rightarrow> nat \<Rightarrow> NodeEntry list answered"
  ah_source_evidence :: "nat \<Rightarrow> string \<Rightarrow> string \<Rightarrow> SourceRef list answered"
  ah_jev :: "nat \<Rightarrow> string \<Rightarrow> jev_answer"
  ah_complete :: "nat \<Rightarrow> string \<Rightarrow> bool + DeepSeekResponse"
  ah_randomUUID :: "nat \<Rightarrow> string"
  ah_isoNow :: "nat \<Rightarrow> string"
  ah_now :: "nat \<Rightarrow> nat"
  ah_aborted :: "nat \<Rightarrow> bool"
  ah_valid :: "nat \<Rightarrow> as_error + bool"
  ah_identity :: "nat \<Rightarrow> as_error + unit"
  ah_checkpoint :: "nat \<Rightarrow> as_error + unit"

datatype as_event =
    EvReadNode nat string string
  | EvManifest nat string
  | EvSearch nat SearchRequest
  | EvList nat string string
  | EvEvidence nat string string
  | EvJev nat string
  | EvSubmit nat string
  | EvCheckpoint nat DeepSeekTurn

record AsState =
  as_k :: nat
  as_tools :: ToolState
  as_turn :: DeepSeekTurn
  as_log :: "as_event list"

type_synonym 'a asAct = "(AsState, as_error, 'a) act"

text \<open>A reading of the platform (clock, random identifier, abort signal): no event.\<close>

definition platformA :: "(nat \<Rightarrow> 'a) \<Rightarrow> 'a asAct" where
  "platformA f = (\<lambda>s. (Inr (f (as_k s)), s \<lparr>as_k := as_k s + 1\<rparr>))"

text \<open>A call that may fail, with its event.\<close>

definition callA :: "(nat \<Rightarrow> AsState \<Rightarrow> as_event) \<Rightarrow> (nat \<Rightarrow> as_error + 'a) \<Rightarrow> 'a asAct" where
  "callA ev f = (\<lambda>s. (f (as_k s), s \<lparr>as_k := as_k s + 1, as_log := as_log s @ [ev (as_k s) s]\<rparr>))"

definition getToolsA :: "ToolState asAct" where
  "getToolsA = (\<lambda>s. (Inr (as_tools s), s))"

definition modToolsA :: "(ToolState \<Rightarrow> ToolState) \<Rightarrow> unit asAct" where
  "modToolsA f = (\<lambda>s. (Inr (), s \<lparr>as_tools := f (as_tools s)\<rparr>))"

definition getTurnA :: "DeepSeekTurn asAct" where
  "getTurnA = (\<lambda>s. (Inr (as_turn s), s))"

definition modTurnA :: "(DeepSeekTurn \<Rightarrow> DeepSeekTurn) \<Rightarrow> unit asAct" where
  "modTurnA f = (\<lambda>s. (Inr (), s \<lparr>as_turn := f (as_turn s)\<rparr>))"

definition assistantError :: "string \<Rightarrow> nat \<Rightarrow> ('s, as_error, 'a) act" where
  "assistantError code status = throwA (AssistantError code status)"

text \<open>A rejected call rejects; the \<open>Err\<close> variant is a value until \<open>unwrap\<close>.\<close>

definition settled :: "'a answered \<Rightarrow> as_error + (string + 'a)" where
  "settled r = (case r of Inl e \<Rightarrow> Inl (Thrown e) | Inr v \<Rightarrow> Inr v)"

definition unwrap :: "string + 'a \<Rightarrow> as_error + 'a" where
  "unwrap r = (case r of Inl _ \<Rightarrow> Inl (AssistantError ''wiki_read_denied'' 403) | Inr v \<Rightarrow> Inr v)"

definition readNodeA :: "AsHost \<Rightarrow> string \<Rightarrow> string \<Rightarrow> (string + ReadNode option) asAct" where
  "readNodeA h databaseId path = callA (\<lambda>k _. EvReadNode k databaseId path) (\<lambda>k. settled (ah_read_node h k databaseId path))"

definition manifestA :: "AsHost \<Rightarrow> string \<Rightarrow> (string + Manifest) asAct" where
  "manifestA h databaseId = callA (\<lambda>k _. EvManifest k databaseId) (\<lambda>k. settled (ah_memory_manifest h k databaseId))"

definition searchNodesA :: "AsHost \<Rightarrow> SearchRequest \<Rightarrow> (string + SearchHit list) asAct" where
  "searchNodesA h request = callA (\<lambda>k _. EvSearch k request) (\<lambda>k. settled (ah_search_nodes h k request))"

definition listNodesA :: "AsHost \<Rightarrow> string \<Rightarrow> nat \<Rightarrow> string \<Rightarrow> (string + NodeEntry list) asAct" where
  "listNodesA h databaseId limit prefix =
     callA (\<lambda>k _. EvList k databaseId prefix) (\<lambda>k. settled (ah_list_nodes h k databaseId prefix False limit))"

definition sourceEvidenceA :: "AsHost \<Rightarrow> string \<Rightarrow> string \<Rightarrow> (string + SourceRef list) asAct" where
  "sourceEvidenceA h databaseId path =
     callA (\<lambda>k _. EvEvidence k databaseId path) (\<lambda>k. settled (ah_source_evidence h k databaseId path))"

definition jevA :: "AsHost \<Rightarrow> string \<Rightarrow> jev_answer asAct" where
  "jevA h body = callA (\<lambda>k _. EvJev k body) (\<lambda>k. Inr (ah_jev h k body))"

definition submitA :: "AsHost \<Rightarrow> string \<Rightarrow> (bool + DeepSeekResponse) asAct" where
  "submitA h body = callA (\<lambda>k _. EvSubmit k body) (\<lambda>k. Inr (ah_complete h k body))"

definition checkpointA :: "AsHost \<Rightarrow> unit asAct" where
  "checkpointA h = callA (\<lambda>k s. EvCheckpoint k (as_turn s)) (\<lambda>k. ah_checkpoint h k)"

lemmas call_defs = readNodeA_def manifestA_def searchNodesA_def listNodesA_def sourceEvidenceA_def jevA_def submitA_def

lemma primitive_steps [simp]:
  "platformA f s = (Inr (f (as_k s)), s \<lparr>as_k := as_k s + 1\<rparr>)"
  "getToolsA s = (Inr (as_tools s), s)"
  "modToolsA g s = (Inr (), s \<lparr>as_tools := g (as_tools s)\<rparr>)"
  "getTurnA s = (Inr (as_turn s), s)"
  "modTurnA t s = (Inr (), s \<lparr>as_turn := t (as_turn s)\<rparr>)"
  by (simp_all add: platformA_def getToolsA_def modToolsA_def getTurnA_def modTurnA_def)

end
