(* ===== verification/Assistant_Reader.thy ===== *)
theory Assistant_Reader
  imports Assistant_State
begin

section \<open>Assistant worker: the reader of the wiki\<close>

text \<open>
  \<^verbatim>\<open>workers/wiki-assistant/src/kinic.ts\<close>: the tools the model may call. Each has a budget of calls and of characters,
  reads only paths of the scope of the conversation, and turns what it read into the evidence citations are
  checked against. The calls of one \<open>Promise.all\<close> are made in order, and when several reject the first in order
  is the one that is thrown.
\<close>

record KinicReader =
  kr_databaseId :: string
  kr_scope :: Scope
  kr_maxCharacters :: nat
  kr_maxCalls :: nat
  kr_typesafeApiKey :: string
  kr_route :: "AskAiRoute option"
  kr_authorizeBeforeTools :: bool

subsection \<open>Representative entries\<close>

definition isDocumentEntry :: "EntryKind \<Rightarrow> bool" where
  "isDocumentEntry kind \<longleftrightarrow> kind = FileEntry \<or> kind = SourceEntry"

definition representativeGroup :: "string \<Rightarrow> string" where
  "representativeGroup path =
     (let parts = filter (\<lambda>p. p \<noteq> []) (splitOn (CHR ''/'') path) in
      case parts of
        [] \<Rightarrow> ''/undefined/undefined''
      | [a] \<Rightarrow> ''/''
      | [a, b] \<Rightarrow> ''/'' @ a
      | a # b # _ \<Rightarrow> ''/'' @ a @ ''/'' @ b)"

text \<open>
  The pattern \<^verbatim>\<open>/^(?:readme|index|overview|...)(?:\.|$)/iu\<close>; its last alternative is written in characters outside the
  range of the model's strings.
\<close>

definition representativePriority :: "string \<Rightarrow> nat" where
  "representativePriority path =
     (let name = toLowerCase (last (splitOn (CHR ''/'') path)) in
      if list_ex (\<lambda>w. name = w \<or> startsWith name (w @ ''.'')) [''readme'', ''index'', ''overview''] then 0 else 1)"

text \<open>\<open>Array.prototype.sort\<close> is stable: the comparator says when the left element may stay before the right one.\<close>

fun insertBy :: "('a \<Rightarrow> 'a \<Rightarrow> int) \<Rightarrow> 'a \<Rightarrow> 'a list \<Rightarrow> 'a list" where
  "insertBy cmp x [] = [x]"
| "insertBy cmp x (y # ys) = (if cmp x y \<le> 0 then x # y # ys else y # insertBy cmp x ys)"

definition sortBy :: "('a \<Rightarrow> 'a \<Rightarrow> int) \<Rightarrow> 'a list \<Rightarrow> 'a list" where
  "sortBy cmp xs = foldr (insertBy cmp) xs []"

definition compareEntries :: "AsHost \<Rightarrow> NodeEntry \<Rightarrow> NodeEntry \<Rightarrow> int" where
  "compareEntries h left right =
     (let byPriority = int (representativePriority (ne_path left)) - int (representativePriority (ne_path right));
          byUpdate = ne_updated_at right - ne_updated_at left
      in if byPriority \<noteq> 0 then byPriority
         else if byUpdate \<noteq> 0 then byUpdate
         else ah_localeCompare h (ne_path left) (ne_path right))"

fun addToGroup :: "string \<Rightarrow> NodeEntry \<Rightarrow> (string \<times> NodeEntry list) list \<Rightarrow> (string \<times> NodeEntry list) list" where
  "addToGroup g entry [] = [(g, [entry])]"
| "addToGroup g entry ((g', es) # gs) = (if g' = g then (g', es @ [entry]) # gs else (g', es) # addToGroup g entry gs)"

definition groupEntries :: "NodeEntry list \<Rightarrow> (string \<times> NodeEntry list) list" where
  "groupEntries entries = foldl (\<lambda>gs entry. addToGroup (representativeGroup (ne_path entry)) entry gs) [] entries"

definition entryQueues :: "AsHost \<Rightarrow> NodeEntry list \<Rightarrow> NodeEntry list list" where
  "entryQueues h entries =
     map (\<lambda>(g, es). sortBy (compareEntries h) es)
       (sortBy (\<lambda>(left, _) (right, _). ah_localeCompare h left right) (groupEntries entries))"

text \<open>One pass over the queues takes the head of each, until the limit is reached.\<close>

fun dealRound :: "nat \<Rightarrow> 'a list list \<Rightarrow> 'a list \<Rightarrow> 'a list list \<times> 'a list" where
  "dealRound limit [] selected = ([], selected)"
| "dealRound limit (queue # queues) selected =
     (let selected' = (case queue of [] \<Rightarrow> selected | entry # _ \<Rightarrow> selected @ [entry]) in
      if length selected' = limit then (tl queue # queues, selected')
      else (let (queues', result) = dealRound limit queues selected' in (tl queue # queues', result)))"

lemma dealRound_amount:
  "length (snd (dealRound limit queues selected)) + sum_list (map length (fst (dealRound limit queues selected))) =
   length selected + sum_list (map length queues)"
proof (induction limit queues selected rule: dealRound.induct)
  case (2 limit queue queues selected)
  then show ?case by (cases queue) (auto simp: Let_def split: prod.splits)
qed simp

lemma dealRound_grows:
  "length selected \<le> length (snd (dealRound limit queues selected))"
  "list_ex (\<lambda>queue. queue \<noteq> []) queues \<Longrightarrow> length selected < limit \<Longrightarrow> length selected < length (snd (dealRound limit queues selected))"
proof (induction limit queues selected rule: dealRound.induct)
  case (2 limit queue queues selected)
  {
    case 1
    show ?case using 2(1) by (cases queue) (fastforce simp: Let_def split: prod.splits)+
  next
    case 2
    then show ?case using "2.IH" by (cases queue) (fastforce simp: Let_def split: prod.splits)+
  }
qed simp_all

lemma dealRound_less:
  assumes "length selected < limit" and "list_ex (\<lambda>queue. queue \<noteq> []) queues" and "(queues', selected') = dealRound limit queues selected"
  shows "sum_list (map length queues') < sum_list (map length queues)"
  using dealRound_amount [of limit queues selected] dealRound_grows(2) [OF assms(2,1)] by (simp add: assms(3) [symmetric])

function dealAll :: "nat \<Rightarrow> 'a list list \<Rightarrow> 'a list \<Rightarrow> 'a list" where
  "dealAll limit queues selected =
     (if length selected < limit \<and> list_ex (\<lambda>queue. queue \<noteq> []) queues
      then (let (queues', selected') = dealRound limit queues selected in dealAll limit queues' selected')
      else selected)"
  by pat_completeness auto
termination
  by (relation "measure (\<lambda>(limit, queues, selected). sum_list (map length queues))") (auto split: prod.split intro!: dealRound_less [OF _ _ sym])

declare dealAll.simps [simp del]

definition selectRepresentativeEntries :: "AsHost \<Rightarrow> NodeEntry list \<Rightarrow> nat \<Rightarrow> NodeEntry list" where
  "selectRepresentativeEntries h entries limit = dealAll limit (entryQueues h entries) []"

subsection \<open>Access, paths and budgets\<close>

definition authorize :: "AsHost \<Rightarrow> KinicReader \<Rightarrow> unit asAct" where
  "authorize h r =
     bindA (readNodeA h (kr_databaseId r) (if kr_scope r = ScopeDatabase then ''/Knowledge'' else scopeText (kr_scope r))) (\<lambda>result.
     bindA (liftR (unwrap result)) (\<lambda>_. retA ()))"

definition manifest :: "AsHost \<Rightarrow> KinicReader \<Rightarrow> Manifest asAct" where
  "manifest h r =
     bindA (authorize h r) (\<lambda>_.
     bindA (manifestA h (kr_databaseId r)) (\<lambda>result.
     bindA (liftR (unwrap result)) (\<lambda>m.
       if mf_recommended_entrypoint m \<noteq> ''query_context'' then assistantError ''unsupported_wiki_api'' 503
       else retA m)))"

definition pathAllowed :: "KinicReader \<Rightarrow> ToolState \<Rightarrow> string \<Rightarrow> bool" where
  "pathAllowed r tools path \<longleftrightarrow>
     isReadablePath path \<and>
     (kr_scope r = ScopeDatabase \<and>
        (startsWith path ''/Knowledge/'' \<or> startsWith path ''/Memory/'' \<or> path \<in> set (ts_discoveredPaths tools)) \<or>
      path = scopeText (kr_scope r) \<or> startsWith path (scopeText (kr_scope r) @ ''/'') \<or> path \<in> set (ts_sources tools))"

definition checkPath :: "KinicReader \<Rightarrow> string \<Rightarrow> unit asAct" where
  "checkPath r path =
     bindA getToolsA (\<lambda>tools. if pathAllowed r tools path then retA () else assistantError ''path_not_allowed'' 403)"

definition bounded :: "KinicReader \<Rightarrow> json \<Rightarrow> string asAct" where
  "bounded r v =
     bindA getToolsA (\<lambda>tools.
       let t = stringify v in
       if ts_characters tools + length t > kr_maxCharacters r then assistantError ''context_limit'' 400
       else bindA (modToolsA (\<lambda>ts. ts \<lparr>ts_characters := ts_characters ts + length t\<rparr>)) (\<lambda>_. retA t))"

record SourceLink =
  sl_path :: string
  sl_etag :: "string option"
  sl_updatedAt :: "string option"

definition intToDec :: "int \<Rightarrow> string" where
  "intToDec n = (if n < 0 then ''-'' @ natToDec (nat (- n)) else natToDec (nat n))"

definition sourceRefs :: "AsHost \<Rightarrow> KinicReader \<Rightarrow> string \<Rightarrow> SourceLink list asAct" where
  "sourceRefs h r path =
     bindA (sourceEvidenceA h (kr_databaseId r) path) (\<lambda>result.
     bindA (liftR (unwrap result)) (\<lambda>refs.
       retA (map (\<lambda>ref. \<lparr>sl_path = sr_source_path ref, sl_etag = sr_source_etag ref,
                         sl_updatedAt = map_option intToDec (sr_source_updated_at ref)\<rparr>)
         (take 10 (filter (\<lambda>ref. startsWith (sr_source_path ref) ''/Sources/'' \<and> isReadablePath (sr_source_path ref)) refs)))))"

definition textOrNull :: "string option \<Rightarrow> json" where
  "textOrNull v = (case v of None \<Rightarrow> JNull | Some s \<Rightarrow> JStr s)"

definition sourceLinkJson :: "SourceLink \<Rightarrow> json" where
  "sourceLinkJson l = JObj [(''path'', JStr (sl_path l)), (''etag'', textOrNull (sl_etag l)), (''updatedAt'', textOrNull (sl_updatedAt l))]"

text \<open>The guards every tool call starts with.\<close>

definition beginTool :: "AsHost \<Rightarrow> KinicReader \<Rightarrow> unit asAct" where
  "beginTool h r =
     bindA (modToolsA (\<lambda>ts. ts \<lparr>ts_calls := ts_calls ts + 1\<rparr>)) (\<lambda>_.
     bindA getToolsA (\<lambda>tools.
       if ts_calls tools > kr_maxCalls r then assistantError ''tool_limit'' 400
       else
         bindA (if kr_authorizeBeforeTools r then authorize h r else retA ()) (\<lambda>_.
           if kr_route r = Some ConversationRoute then assistantError ''tool_not_allowed'' 400 else retA ())))"

definition routeForbids :: "KinicReader \<Rightarrow> AskAiRoute \<Rightarrow> bool" where
  "routeForbids r only \<longleftrightarrow> kr_route r \<noteq> None \<and> kr_route r \<noteq> Some only"

definition discover :: "string list \<Rightarrow> unit asAct" where
  "discover paths =
     modToolsA (\<lambda>ts. ts \<lparr>ts_discoveredPaths := ts_discoveredPaths ts @ filter (\<lambda>p. p \<notin> set (ts_discoveredPaths ts)) paths\<rparr>)"

subsection \<open>Search\<close>

definition queryInput :: "json \<Rightarrow> (string \<times> Scope) option" where
  "queryInput args =
     (case args of
        JObj ps \<Rightarrow>
          (case (boundedText 1 4000 (jget ps ''question''), scopeSchema (jget ps ''scope'')) of
             (Some q, Some s) \<Rightarrow> if strictKeys [''question'', ''scope''] ps then Some (q, s) else None
           | _ \<Rightarrow> None)
      | _ \<Rightarrow> None)"

definition searchTree :: "AsHost \<Rightarrow> KinicReader \<Rightarrow> string \<Rightarrow> string option \<times> nat \<Rightarrow> SearchHit list asAct" where
  "searchTree h r question = (\<lambda>(prefix, top_k).
     bindA (searchNodesA h \<lparr>sq_database_id = kr_databaseId r, sq_query_text = question, sq_prefix = prefix, sq_top_k = top_k\<rparr>)
       (\<lambda>result. liftR (unwrap result)))"

text \<open>\<open>Promise.all\<close>: every call is made, then the first failure in order is thrown.\<close>

definition allA :: "('a \<Rightarrow> ('s, 'e, 'b) act) \<Rightarrow> 'a list \<Rightarrow> ('s, 'e, 'b list) act" where
  "allA f xs = bindA (mapA (\<lambda>x. attemptA (f x)) xs) (\<lambda>rs. liftR (mapR (\<lambda>r. r) rs))"

definition allowedHit :: "Scope \<Rightarrow> nat \<Rightarrow> string \<Rightarrow> bool" where
  "allowedHit scope index path \<longleftrightarrow>
     (if scope = ScopeDatabase
      then (if index = 0 then startsWith path ''/Knowledge/''
            else if index = 1 then startsWith path ''/Memory/''
            else isRootEntry path)
      else startsWith path (scopeText scope @ ''/'') \<or> path = scopeText scope)"

fun rankPass :: "SearchHit list list \<Rightarrow> nat \<Rightarrow> SearchHit list \<Rightarrow> SearchHit list" where
  "rankPass [] rank candidates = candidates"
| "rankPass (hits # groups) rank candidates =
     (let candidates' = (if rank < length hits \<and> sh_path (hits ! rank) \<notin> sh_path ` set candidates
                         then candidates @ [hits ! rank] else candidates)
      in if length candidates' = 20 then candidates' else rankPass groups rank candidates')"

function mergeRanks :: "SearchHit list list \<Rightarrow> nat \<Rightarrow> SearchHit list \<Rightarrow> SearchHit list" where
  "mergeRanks groups rank candidates =
     (if length candidates < 20 \<and> list_ex (\<lambda>hits. rank < length hits) groups
      then mergeRanks groups (rank + 1) (rankPass groups rank candidates)
      else candidates)"
  by pat_completeness auto
termination
proof (relation "measure (\<lambda>(groups, rank, candidates). Max (set (0 # map length groups)) - rank)")
  fix groups :: "SearchHit list list" and rank :: nat and candidates :: "SearchHit list"
  assume "length candidates < 20 \<and> list_ex (\<lambda>hits. rank < length hits) groups"
  then obtain hits where "hits \<in> set groups" "rank < length hits" by (auto simp: list_ex_iff)
  then have "rank < Max (set (0 # map length groups))" by (subst Max_gr_iff) auto
  then show "((groups, rank + 1, rankPass groups rank candidates), groups, rank, candidates)
      \<in> measure (\<lambda>(groups, rank, candidates). Max (set (0 # map length groups)) - rank)"
    by (simp only: in_measure split_conv)
qed simp

declare mergeRanks.simps [simp del]

definition hitPreview :: "SearchHit \<Rightarrow> JevCandidate" where
  "hitPreview hit = \<lparr>jc_path = sh_path hit,
     jc_preview = (case sh_preview hit of
        Some (Some excerpt) \<Rightarrow> excerpt
      | _ \<Rightarrow> (case sh_snippet hit of Some snippet \<Rightarrow> snippet | None \<Rightarrow> ''''))\<rparr>"

definition rerankOptions :: "string \<Rightarrow> JevOptions" where
  "rerankOptions apiKey = \<lparr>jo_apiKey = apiKey, jo_selectionCount = None, jo_rerankEvenIfWithinLimit = False,
     jo_maxRequestBytes = None, jo_maxResponseBytes = None\<rparr>"

definition jevUnavailable :: "jev_error + 'a \<Rightarrow> as_error + 'a" where
  "jevUnavailable r = (case r of Inl _ \<Rightarrow> Inl (AssistantError ''jev_unavailable'' 503) | Inr v \<Rightarrow> Inr v)"

definition rerankA :: "AsHost \<Rightarrow> KinicReader \<Rightarrow> string \<Rightarrow> JevCandidate list \<Rightarrow> JevCandidate list asAct" where
  "rerankA h r question previews =
     (case rerankWithJev (ah_platform h) (rerankOptions (kr_typesafeApiKey r)) (\<lambda>c. c) question previews of
        Inl outcome \<Rightarrow> liftR (jevUnavailable outcome)
      | Inr (body, read) \<Rightarrow> bindA (jevA h body) (\<lambda>answer. liftR (jevUnavailable (read answer))))"

definition wikiQuery :: "AsHost \<Rightarrow> KinicReader \<Rightarrow> json \<Rightarrow> string asAct" where
  "wikiQuery h r args =
     (if routeForbids r FocusedSearch then assistantError ''tool_not_allowed'' 400
      else
        case queryInput args of
          None \<Rightarrow> throwA ZodError
        | Some (question, scope) \<Rightarrow>
            if scope \<noteq> kr_scope r then assistantError ''scope_not_allowed'' 400
            else
              bindA (allA (searchTree h r question)
                       (if kr_scope r = ScopeDatabase then [(Some ''/Knowledge'', 20), (Some ''/Memory'', 20), (None, 100)]
                        else [(Some (scopeText (kr_scope r)), 20)])) (\<lambda>groups.
              let allowed = map (\<lambda>(index, hits). filter (\<lambda>hit. allowedHit (kr_scope r) index (sh_path hit)) hits)
                              (zip [0..<length groups] groups);
                  previews = map hitPreview (mergeRanks allowed 0 [])
              in
              bindA (rerankA h r question previews) (\<lambda>selected.
              bindA (discover (map jc_path selected)) (\<lambda>_.
                bounded r (JObj [(''nodes'', JArr (map (\<lambda>c. JObj [(''path'', JStr (jc_path c)), (''preview'', JStr (jc_preview c))]) selected))])))))"

subsection \<open>Inventory\<close>

definition putEntry :: "NodeEntry \<Rightarrow> NodeEntry list \<Rightarrow> NodeEntry list" where
  "putEntry entry docs =
     (if ne_path entry \<in> ne_path ` set docs then map (\<lambda>d. if ne_path d = ne_path entry then entry else d) docs else docs @ [entry])"

definition addVisited :: "string \<Rightarrow> string list \<Rightarrow> string list" where
  "addVisited prefix visited = (if prefix \<in> set visited then visited else visited @ [prefix])"

record InventoryWalk =
  iw_pending :: "string list"
  iw_visited :: "string list"
  iw_documents :: "NodeEntry list"
  iw_truncated :: bool

definition absorbEntry :: "string \<Rightarrow> InventoryWalk \<Rightarrow> NodeEntry \<Rightarrow> InventoryWalk" where
  "absorbEntry prefix w entry =
     (if ne_path entry = prefix \<or> \<not> startsWith (ne_path entry) (prefix @ ''/'') then w
      else if isDocumentEntry (ne_kind entry) then w \<lparr>iw_documents := putEntry entry (iw_documents w)\<rparr>
      else if ne_path entry \<notin> set (iw_visited w) \<and> ne_path entry \<notin> set (iw_pending w)
      then w \<lparr>iw_pending := iw_pending w @ [ne_path entry]\<rparr>
      else w)"

fun absorbBatch :: "nat \<Rightarrow> (string \<times> (string + NodeEntry list)) list \<Rightarrow> InventoryWalk \<Rightarrow> as_error + InventoryWalk" where
  "absorbBatch limit [] w = Inr w"
| "absorbBatch limit ((prefix, result) # rest) w =
     bindR (unwrap result) (\<lambda>entries.
       let w' = w \<lparr>iw_visited := addVisited prefix (iw_visited w), iw_truncated := iw_truncated w \<or> length entries = limit\<rparr>
       in absorbBatch limit rest (foldl (absorbEntry prefix) w' entries))"

definition batchSize :: "InventoryWalk \<Rightarrow> nat" where
  "batchSize w = min 4 (16 - length (iw_visited w))"

text \<open>
  The walk may list a folder again when an answer names a folder of the same batch; every round visits a new
  folder or removes a visited one from the pending list, so it ends for all answers.
\<close>

lemma addVisited_simps [simp]: "set (addVisited prefix visited) = insert prefix (set visited)"
  "length visited \<le> length (addVisited prefix visited)"
  by (auto simp: addVisited_def)

definition walkCost :: "InventoryWalk \<Rightarrow> nat" where
  "walkCost w = length (filter (\<lambda>p. p \<in> set (iw_visited w)) (iw_pending w))"

lemma absorbEntry_walk:
  "iw_visited (absorbEntry prefix w entry) = iw_visited w" "walkCost (absorbEntry prefix w entry) = walkCost w"
  by (auto simp: absorbEntry_def walkCost_def)

lemma absorbEntries_walk:
  "iw_visited (foldl (absorbEntry prefix) w entries) = iw_visited w \<and> walkCost (foldl (absorbEntry prefix) w entries) = walkCost w"
  by (induction entries arbitrary: w) (simp_all add: absorbEntry_walk)

lemma absorbBatch_walk:
  "absorbBatch limit rs w = Inr w' \<Longrightarrow> length (iw_visited w) \<le> length (iw_visited w') \<and>
    (length (iw_visited w') = length (iw_visited w) \<longrightarrow> walkCost w' = walkCost w \<and> fst ` set rs \<subseteq> set (iw_visited w))"
proof (induction limit rs w rule: absorbBatch.induct)
  case (2 limit prefix result rest w)
  from "2.prems" obtain entries where entries: "unwrap result = Inr entries"
    by (cases "unwrap result") (auto simp: bindR_def)
  define u where "u = w \<lparr>iw_visited := addVisited prefix (iw_visited w), iw_truncated := iw_truncated w \<or> length entries = limit\<rparr>"
  define v where "v = foldl (absorbEntry prefix) u entries"
  have v: "iw_visited v = addVisited prefix (iw_visited w)" "walkCost v = walkCost u"
    by (simp_all add: v_def absorbEntries_walk u_def)
  have "absorbBatch limit rest v = Inr w'"
    using "2.prems" entries by (simp add: bindR_def Let_def u_def v_def)
  then have IH: "length (iw_visited v) \<le> length (iw_visited w')"
    "length (iw_visited w') = length (iw_visited v) \<longrightarrow> walkCost w' = walkCost v \<and> fst ` set rest \<subseteq> set (iw_visited v)"
    using "2.IH" [OF entries u_def] by (simp_all add: v_def)
  have same: "walkCost w' = walkCost w \<and> fst ` set ((prefix, result) # rest) \<subseteq> set (iw_visited w)"
    if "length (iw_visited w') = length (iw_visited w)"
  proof -
    from that IH(1) v(1) addVisited_simps(2) [of "iw_visited w" prefix]
    have len: "length (iw_visited w') = length (iw_visited v)" "length (addVisited prefix (iw_visited w)) = length (iw_visited w)" by simp_all
    then have old: "prefix \<in> set (iw_visited w)" by (auto simp: addVisited_def split: if_splits)
    then have "walkCost u = walkCost w" by (simp add: walkCost_def u_def addVisited_def)
    with IH(2) len(1) v old show ?thesis by (auto simp: addVisited_def)
  qed
  moreover have "length (iw_visited w) \<le> length (iw_visited w')"
    by (rule order_trans [OF addVisited_simps(2) [of "iw_visited w" prefix]]) (use IH(1) v(1) in simp)
  ultimately show ?case by blast
qed simp

lemma mapR_length: "mapR f xs = Inr ys \<Longrightarrow> length ys = length xs"
  using mapR_Inr_all list_all2_lengthD by fastforce

lemma allA_length: "allA f xs s = (Inr ys, t) \<Longrightarrow> length ys = length xs"
  by (auto simp: allA_def elim!: bindA_Inr_E dest!: mapA_length mapR_length)

lemma walk_decreases:
  assumes "iw_pending w \<noteq> []" and "length (iw_visited w) < 16" and "length results = length batch"
    and "batch = take (batchSize w) (iw_pending w)"
    and "absorbBatch limit (zip batch results) (w \<lparr>iw_pending := drop (batchSize w) (iw_pending w)\<rparr>) = Inr w'"
  shows "(w', w) \<in> (\<lambda>w. 16 - length (iw_visited w)) <*mlex*> measure walkCost"
proof -
  let ?u = "w \<lparr>iw_pending := drop (batchSize w) (iw_pending w)\<rparr>"
  have "batch \<noteq> []" using assms(1,2,4) by (auto simp: batchSize_def)
  moreover have "fst ` set (zip batch results) = set batch" using assms(3) by (simp flip: set_map)
  moreover have cost: "walkCost w = length (filter (\<lambda>p. p \<in> set (iw_visited w)) batch) + walkCost ?u"
    by (simp add: walkCost_def assms(4) flip: length_append filter_append)
  ultimately have "length (iw_visited w) < length (iw_visited w') \<or>
      length (iw_visited w') = length (iw_visited w) \<and> walkCost w' < walkCost w"
    using absorbBatch_walk [OF assms(5)] by (auto simp: filter_id_conv subset_iff)
  with assms(2) show ?thesis by (auto simp: mlex_prod_def)
qed

function inventoryLoop :: "AsHost \<Rightarrow> KinicReader \<Rightarrow> InventoryWalk \<Rightarrow> InventoryWalk asAct" where
  "inventoryLoop h r w s =
     (if iw_pending w \<noteq> [] \<and> length (iw_visited w) < 16
      then
        let batch = take (batchSize w) (iw_pending w) in
        case allA (listNodesA h (kr_databaseId r) 100) batch s of
          (Inl e, s') \<Rightarrow> (Inl e, s')
        | (Inr results, s') \<Rightarrow>
            (case absorbBatch 100 (zip batch results) (w \<lparr>iw_pending := drop (batchSize w) (iw_pending w)\<rparr>) of
               Inl e \<Rightarrow> (Inl e, s')
             | Inr w' \<Rightarrow> inventoryLoop h r w' s')
      else (Inr w, s))"
  by pat_completeness auto
termination
proof (relation "inv_image ((\<lambda>w. 16 - length (iw_visited w)) <*mlex*> measure walkCost) (\<lambda>(h, r, w, s). w)")
  show "wf (inv_image ((\<lambda>w. 16 - length (iw_visited w)) <*mlex*> measure walkCost) (\<lambda>(h, r, w, s). w))"
    by (intro wf_inv_image wf_mlex wf_measure)
next
  fix h :: AsHost and r :: KinicReader and w w' :: InventoryWalk and s s' :: AsState and batch x results
  assume loop: "iw_pending w \<noteq> [] \<and> length (iw_visited w) < 16" and batch: "batch = take (batchSize w) (iw_pending w)"
    and calls: "(x, s') = allA (listNodesA h (kr_databaseId r) 100) batch s" "x = Inr results"
    and walk: "absorbBatch 100 (zip batch results) (w \<lparr>iw_pending := drop (batchSize w) (iw_pending w)\<rparr>) = Inr w'"
  from calls have "length results = length batch" by (intro allA_length [of "listNodesA h (kr_databaseId r) 100" batch s results s']) simp
  from walk_decreases [OF _ _ this batch walk] loop
  show "((h, r, w', s'), h, r, w, s) \<in> inv_image ((\<lambda>w. 16 - length (iw_visited w)) <*mlex*> measure walkCost) (\<lambda>(h, r, w, s). w)"
    by simp
qed

declare inventoryLoop.simps [simp del]

definition decNumber :: "nat \<Rightarrow> json" where
  "decNumber n = JNum (natToDec n)"

definition wikiInventory :: "AsHost \<Rightarrow> KinicReader \<Rightarrow> string asAct" where
  "wikiInventory h r =
     (if routeForbids r DatabaseOverview then assistantError ''tool_not_allowed'' 400
      else if kr_scope r \<noteq> ScopeDatabase then assistantError ''scope_not_allowed'' 400
      else
        bindA (listNodesA h (kr_databaseId r) 100 ''/'') (\<lambda>result.
        bindA (liftR (unwrap result)) (\<lambda>rootEntries.
        bindA (inventoryLoop h r \<lparr>iw_pending = [''/Knowledge'', ''/Memory''], iw_visited = [], iw_documents = [],
                                  iw_truncated = (length rootEntries = 100)\<rparr>) (\<lambda>w.
        let treeTruncated = iw_truncated w \<or> iw_pending w \<noteq> [];
            rootDocuments = filter (\<lambda>entry. isDocumentEntry (ne_kind entry) \<and> isRootEntry (ne_path entry) \<and>
              ne_path entry \<notin> set [''/Knowledge'', ''/Memory'', ''/Sources'', ''/Skills'', ''/Sessions'']) rootEntries;
            knowledgeDocuments = filter (\<lambda>entry. isDocumentEntry (ne_kind entry) \<and> startsWith (ne_path entry) ''/Knowledge/'') (iw_documents w);
            memoryDocuments = filter (\<lambda>entry. isDocumentEntry (ne_kind entry) \<and> startsWith (ne_path entry) ''/Memory/'') (iw_documents w);
            documents = rootDocuments @ knowledgeDocuments @ memoryDocuments;
            representative = selectRepresentativeEntries h documents 20
        in
        bindA (discover (map ne_path representative)) (\<lambda>_.
        bindA (modToolsA (\<lambda>ts. ts \<lparr>ts_inventoryObserved := length documents, ts_inventoryTruncated := treeTruncated\<rparr>)) (\<lambda>_.
          bounded r (JObj [
            (''observed'', JObj [(''root'', decNumber (length rootDocuments)), (''knowledge'', decNumber (length knowledgeDocuments)),
               (''memory'', decNumber (length memoryDocuments))]),
            (''truncated'', JBool treeTruncated),
            (''nodes'', JArr (map (\<lambda>entry. JObj [(''path'', JStr (ne_path entry)), (''updatedAt'', JStr (intToDec (ne_updated_at entry)))])
               representative))])))))))"

subsection \<open>Reads and sources\<close>

definition sourcesInput :: "json \<Rightarrow> string option" where
  "sourcesInput args =
     (case args of
        JObj ps \<Rightarrow> (case jget ps ''path'' of Some (JStr p) \<Rightarrow> if strictKeys [''path''] ps then Some p else None | _ \<Rightarrow> None)
      | _ \<Rightarrow> None)"

definition wikiSources :: "AsHost \<Rightarrow> KinicReader \<Rightarrow> json \<Rightarrow> string asAct" where
  "wikiSources h r args =
     (case sourcesInput args of
        None \<Rightarrow> throwA ZodError
      | Some path \<Rightarrow>
          bindA (checkPath r path) (\<lambda>_.
          bindA getToolsA (\<lambda>tools.
            if path \<notin> set (ts_readPaths tools) then assistantError ''read_node_first'' 400
            else
              bindA (sourceRefs h r path) (\<lambda>refs.
              bindA (bounded r (JObj [(''refs'', JArr (map sourceLinkJson refs))])) (\<lambda>out.
              bindA (modToolsA (\<lambda>ts. ts \<lparr>ts_sources := ts_sources ts @ map sl_path refs\<rparr>)) (\<lambda>_. retA out))))))"

text \<open>\<open>z.number().int().nonnegative().max(10000000)\<close>.\<close>

definition readStart :: "AsHost \<Rightarrow> json option \<Rightarrow> nat option" where
  "readStart h v =
     (case v of
        Some (JNum n) \<Rightarrow>
          (case jp_number (ah_platform h) n of
             None \<Rightarrow> None
           | Some x \<Rightarrow> if 0 \<le> x \<and> x \<le> 10000000 \<and> of_int \<lfloor>x\<rfloor> = x then Some (nat \<lfloor>x\<rfloor>) else None)
      | _ \<Rightarrow> None)"

definition readInput :: "AsHost \<Rightarrow> json \<Rightarrow> (string \<times> nat) option" where
  "readInput h args =
     (case args of
        JObj ps \<Rightarrow>
          (case (jget ps ''path'', readStart h (jget ps ''start'')) of
             (Some (JStr p), Some n) \<Rightarrow> if strictKeys [''path'', ''start''] ps then Some (p, n) else None
           | _ \<Rightarrow> None)
      | _ \<Rightarrow> None)"

definition overviewReadLimit :: string where
  "overviewReadLimit = stringify (JObj [(''error'', JStr ''overview_read_limit''),
     (''instruction'', JStr ''Summarize the four nodes already read; do not request more reads.'')])"

text \<open>The first loop of \<open>executeReadBatch\<close>: \<open>None\<close> is a read beyond the four of an overview.\<close>

fun admitReads :: "AsHost \<Rightarrow> KinicReader \<Rightarrow> nat \<Rightarrow> json list \<Rightarrow> (string \<times> nat) option list asAct" where
  "admitReads h r reserved [] = retA []"
| "admitReads h r reserved (v # vs) =
     bindA (beginTool h r) (\<lambda>_.
     bindA getToolsA (\<lambda>tools.
       if kr_route r = Some DatabaseOverview \<and> length (ts_readPaths tools) + reserved \<ge> 4
       then bindA (admitReads h r reserved vs) (\<lambda>rest. retA (None # rest))
       else
         case readInput h v of
           None \<Rightarrow> throwA ZodError
         | Some (path, start) \<Rightarrow>
             if kr_route r \<noteq> None \<and> path \<notin> set (ts_discoveredPaths tools) \<and> path \<notin> set (ts_sources tools)
             then assistantError ''path_not_discovered'' 403
             else
               bindA (checkPath r path) (\<lambda>_.
               bindA (admitReads h r (reserved + 1) vs) (\<lambda>rest. retA (Some (path, start) # rest)))))"

type_synonym fetched_read = "(string \<times> nat) \<times> ReadNode \<times> SourceLink list"

definition fetchRead :: "AsHost \<Rightarrow> KinicReader \<Rightarrow> (string \<times> nat) option \<Rightarrow> fetched_read option asAct" where
  "fetchRead h r input =
     (case input of
        None \<Rightarrow> retA None
      | Some (path, start) \<Rightarrow>
          bindA (readNodeA h (kr_databaseId r) path) (\<lambda>result.
          bindA (liftR (unwrap result)) (\<lambda>found.
            case found of
              None \<Rightarrow> assistantError ''node_not_found'' 404
            | Some node \<Rightarrow>
                if rn_path node \<noteq> path then assistantError ''node_not_found'' 404
                else
                  bindA (if kr_route r = Some FocusedSearch \<and> \<not> startsWith (rn_path node) ''/Sources/''
                         then sourceRefs h r (rn_path node) else retA []) (\<lambda>refs.
                    retA (Some ((path, start), node, refs))))))"

definition citationJson :: "Citation \<Rightarrow> (string \<times> json) list" where
  "citationJson c = [(''id'', JStr (ci_id c)), (''databaseId'', JStr (ci_databaseId c)), (''path'', JStr (ci_path c)),
     (''excerpt'', JStr (ci_excerpt c)), (''start'', decNumber (ci_start c)), (''end'', decNumber (ci_end c)),
     (''etag'', JStr (ci_etag c)), (''retrievedAt'', JStr (ci_retrievedAt c))]"

definition commitRead :: "AsHost \<Rightarrow> KinicReader \<Rightarrow> fetched_read \<Rightarrow> string asAct" where
  "commitRead h r = (\<lambda>((path, start), node, refs).
     bindA getToolsA (\<lambda>tools.
     let remaining = kr_maxCharacters r - ts_characters tools - 1500;
         excerpt = sliceL start (start + min 4000 remaining) (rn_content node)
     in
     if excerpt = [] then assistantError ''empty_excerpt_or_budget'' 400
     else
       bindA (platformA (ah_randomUUID h)) (\<lambda>uuid.
       bindA (platformA (ah_isoNow h)) (\<lambda>retrievedAt.
       let citation = \<lparr>ci_id = uuid, ci_databaseId = kr_databaseId r, ci_path = rn_path node, ci_excerpt = excerpt,
             ci_start = start, ci_end = start + length excerpt, ci_etag = rn_etag node, ci_retrievedAt = retrievedAt\<rparr>
       in
       bindA (bounded r (JObj (citationJson citation @ [(''totalCharacters'', decNumber (length (rn_content node))),
                (''metadata'', JStr (take 400 (rn_metadata_json node))), (''sourceRefs'', JArr (map sourceLinkJson refs))]))) (\<lambda>out.
       bindA (modToolsA (\<lambda>ts. ts \<lparr>ts_evidence := ts_evidence ts @ [citation], ts_readPaths := ts_readPaths ts @ [path],
                ts_sources := ts_sources ts @ filter (\<lambda>p. p \<notin> set (ts_sources ts)) (map sl_path refs)\<rparr>)) (\<lambda>_.
         retA out))))))"

definition settleRead :: "AsHost \<Rightarrow> KinicReader \<Rightarrow> bool \<Rightarrow> fetched_read option \<Rightarrow> string asAct" where
  "settleRead h r skipEmpty fetched =
     (case fetched of
        None \<Rightarrow> retA overviewReadLimit
      | Some (input, node, refs) \<Rightarrow>
          if (skipEmpty \<or> kr_route r = Some FocusedSearch) \<and> length (rn_content node) = 0
          then retA (stringify (JObj [(''path'', JStr (rn_path node)), (''error'', JStr ''empty_document'')]))
          else commitRead h r (input, node, refs))"

definition executeReadBatch :: "AsHost \<Rightarrow> KinicReader \<Rightarrow> bool \<Rightarrow> json list \<Rightarrow> string list asAct" where
  "executeReadBatch h r skipEmpty args =
     (if args = [] \<or> length args > 2 then assistantError ''invalid_read_batch'' 400
      else
        bindA (admitReads h r 0 args) (\<lambda>inputs.
        bindA (allA (fetchRead h r) inputs) (\<lambda>fetched.
          mapA (settleRead h r skipEmpty) fetched)))"

definition execute :: "AsHost \<Rightarrow> KinicReader \<Rightarrow> string \<Rightarrow> json \<Rightarrow> string asAct" where
  "execute h r name args =
     (if name = ''wiki_read'' then bindA (executeReadBatch h r False [args]) (\<lambda>outs. retA (hd outs))
      else
        bindA (beginTool h r) (\<lambda>_.
          if name = ''wiki_query'' then wikiQuery h r args
          else if name = ''wiki_inventory'' then wikiInventory h r
          else if name = ''wiki_sources'' then wikiSources h r args
          else assistantError ''unknown_tool'' 403))"

end
