(* ===== verification/Assistant_Turn.thy ===== *)
theory Assistant_Turn
  imports Assistant_Reader
begin

section \<open>Assistant worker: a turn with the model\<close>

text \<open>
  \<^verbatim>\<open>workers/wiki-assistant/src/deepseek.ts\<close>: the loop that submits the messages to the model, runs the tools it
  asks for and returns its answer. The loop is a step repeated under fuel: \<open>None\<close> is \<open>continue\<close>. The options the
  only caller always supplies are not optional. The outcome of cancelling the body of a failed response is
  ignored.
\<close>

subsection \<open>Messages\<close>

definition whitespaceRecoveryPrompt :: string where
  "whitespaceRecoveryPrompt = ''Your previous response contained only whitespace. Return a nonempty JSON object answering the original question using the Wiki evidence already provided. Required keys: answer, citations [{id,quote}], insufficient, contradictions, unverified. If evidence is insufficient, say so and set insufficient to true. Do not invent citation IDs or quotes.''"

definition finalRepairPrompt :: string where
  "finalRepairPrompt = ''Your fully received answer did not satisfy the required JSON structure. Return a corrected JSON object with ALL required keys: answer (string), citations (array of {id,quote}), insufficient (boolean), contradictions (array of strings), unverified (array of strings). Use only the evidence already provided and quote its excerpts exactly. Do not invent facts, IDs or quotes. Do not omit insufficient; set it to true when the evidence cannot answer the question.''"

definition newDeepSeekTurn :: "string \<Rightarrow> DeepSeekTurn" where
  "newDeepSeekTurn input = \<lparr>dt_messages = [SystemMessage instructions, UserMessage input], dt_requesting = False, dt_rounds = 0,
     dt_inputTokens = 0, dt_outputTokens = 0, dt_whitespaceRecoveries = 0, dt_finalRepairs = 0\<rparr>"

definition callSchema :: "json \<Rightarrow> ToolCall option" where
  "callSchema v =
     (case (boundedText 1 128 (jfield v ''id''), jfield v ''type'', jfield v ''function'') of
        (Some i, Some (JStr t), Some f) \<Rightarrow>
          (case (boundedText 0 128 (jfield f ''name''), boundedText 0 16000 (jfield f ''arguments'')) of
             (Some name, Some args) \<Rightarrow> if t = ''function'' then Some \<lparr>tc_id = i, tc_name = name, tc_arguments = args\<rparr> else None
           | _ \<Rightarrow> None)
      | _ \<Rightarrow> None)"

definition contentSchema :: "json option \<Rightarrow> string option option option" where
  "contentSchema v =
     (case v of
        None \<Rightarrow> Some None
      | Some w \<Rightarrow> if w = JNull then Some (Some None) else map_option (\<lambda>s. Some (Some s)) (boundedText 0 32000 (Some w)))"

definition callsSchema :: "json option \<Rightarrow> ToolCall list option option" where
  "callsSchema v = (case v of None \<Rightarrow> Some None | Some w \<Rightarrow> map_option Some (boundedArray callSchema 12 (Some w)))"

definition messageSchema :: "json \<Rightarrow> ChatMessage option" where
  "messageSchema v =
     (case (contentSchema (jfield v ''content''), callsSchema (jfield v ''tool_calls'')) of
        (Some content, Some calls) \<Rightarrow>
          if jfield v ''role'' = Some (JStr ''assistant'') then Some (AssistantMessage content calls) else None
      | _ \<Rightarrow> None)"

definition callJson :: "ToolCall \<Rightarrow> json" where
  "callJson c = JObj [(''id'', JStr (tc_id c)), (''type'', JStr ''function''),
     (''function'', JObj [(''name'', JStr (tc_name c)), (''arguments'', JStr (tc_arguments c))])]"

fun messageJson :: "ChatMessage \<Rightarrow> json" where
  "messageJson (SystemMessage s) = JObj [(''role'', JStr ''system''), (''content'', JStr s)]"
| "messageJson (UserMessage s) = JObj [(''role'', JStr ''user''), (''content'', JStr s)]"
| "messageJson (AssistantMessage content calls) = JObj ((''role'', JStr ''assistant'') #
     (case content of None \<Rightarrow> [] | Some c \<Rightarrow> [(''content'', textOrNull c)]) @
     (case calls of None \<Rightarrow> [] | Some cs \<Rightarrow> [(''tool_calls'', JArr (map callJson cs))]))"
| "messageJson (ToolMessage i s) = JObj [(''role'', JStr ''tool''), (''tool_call_id'', JStr i), (''content'', JStr s)]"

fun messageContent :: "ChatMessage \<Rightarrow> string option" where
  "messageContent (SystemMessage s) = Some s"
| "messageContent (UserMessage s) = Some s"
| "messageContent (AssistantMessage content calls) = (case content of Some c \<Rightarrow> c | None \<Rightarrow> None)"
| "messageContent (ToolMessage i s) = Some s"

fun callsOf :: "ChatMessage \<Rightarrow> ToolCall list" where
  "callsOf (AssistantMessage content (Some cs)) = cs"
| "callsOf _ = []"

fun isAssistant :: "ChatMessage \<Rightarrow> bool" where
  "isAssistant (AssistantMessage content calls) = True"
| "isAssistant _ = False"

definition lastIs :: "string \<Rightarrow> ChatMessage list \<Rightarrow> bool" where
  "lastIs prompt messages \<longleftrightarrow> messages \<noteq> [] \<and> last messages = UserMessage prompt"

definition pushMessages :: "ChatMessage list \<Rightarrow> unit asAct" where
  "pushMessages ms = modTurnA (\<lambda>t. t \<lparr>dt_messages := dt_messages t @ ms\<rparr>)"

subsection \<open>Options\<close>

record TurnOptions =
  to_apiKey :: "string option"
  to_scope :: Scope
  to_route :: "AskAiRoute option"
  to_deadline :: nat
  to_authorize :: "unit asAct"
  to_checkActive :: "unit asAct"
  to_checkpoint :: "unit asAct"
  to_execute :: "string \<Rightarrow> json \<Rightarrow> string asAct"
  to_executeReadBatch :: "json list \<Rightarrow> string list asAct"
  to_prefetchReads :: "(ChatMessage list \<Rightarrow> ToolState \<Rightarrow> as_error + (string \<times> nat) list) option"
  to_executePrefetchBatch :: "json list \<Rightarrow> string list asAct"
  to_canUseTools :: "ToolState \<Rightarrow> bool"
  to_validateFinal :: "json \<Rightarrow> as_error + unit"

subsection \<open>One submission\<close>

definition toolJson :: "ToolDefinition \<Rightarrow> json" where
  "toolJson t = JObj [(''type'', JStr ''function''), (''function'', JObj [(''name'', JStr (td_name t)),
     (''description'', JStr (td_description t)), (''parameters'', JObj (td_parameters t))])]"

definition offeredTools :: "Scope \<Rightarrow> AskAiRoute option \<Rightarrow> ToolDefinition list" where
  "offeredTools scope route = filter (\<lambda>t.
     if td_name t = ''wiki_query'' then route = None \<or> route = Some FocusedSearch
     else if td_name t = ''wiki_inventory'' then route = None \<or> route = Some DatabaseOverview
     else True) (toolsForScope scope)"

definition completionBody :: "Scope \<Rightarrow> AskAiRoute option \<Rightarrow> bool \<Rightarrow> ChatMessage list \<Rightarrow> string" where
  "completionBody scope route canUseTools messages = stringify (JObj ([
     (''model'', JStr DEEPSEEK_MODEL), (''thinking'', JObj [(''type'', JStr ''disabled'')]),
     (''max_tokens'', JNum ''4096''), (''stream'', JBool False), (''messages'', JArr (map messageJson messages)),
     (''response_format'', JObj [(''type'', JStr ''json_object'')])] @
     (if route = Some ConversationRoute \<or> \<not> canUseTools then []
      else [(''tools'', JArr (map toolJson (offeredTools scope route)))])))"

definition tokenCount :: "AsHost \<Rightarrow> json option \<Rightarrow> nat option" where
  "tokenCount h v =
     (case v of
        Some (JNum n) \<Rightarrow>
          (case jp_number (ah_platform h) n of
             None \<Rightarrow> None
           | Some x \<Rightarrow> if 0 \<le> x \<and> of_int \<lfloor>x\<rfloor> = x then Some (nat \<lfloor>x\<rfloor>) else None)
      | _ \<Rightarrow> None)"

definition usageSchema :: "AsHost \<Rightarrow> json option \<Rightarrow> (nat \<times> nat) option" where
  "usageSchema h v =
     (case v of
        None \<Rightarrow> Some (0, 0)
      | Some u \<Rightarrow>
          (case (tokenCount h (jfield u ''prompt_tokens''), tokenCount h (jfield u ''completion_tokens'')) of
             (Some a, Some b) \<Rightarrow> Some (a, b)
           | _ \<Rightarrow> None))"

definition choiceSchema :: "json \<Rightarrow> (string \<times> ChatMessage) option" where
  "choiceSchema v =
     (case (jfield v ''finish_reason'', jfield v ''message'') of
        (Some (JStr reason), Some m) \<Rightarrow>
          if reason = ''stop'' \<or> reason = ''tool_calls'' then map_option (\<lambda>msg. (reason, msg)) (messageSchema m) else None
      | _ \<Rightarrow> None)"

definition invalidResponse :: as_error where
  "invalidResponse = AssistantError ''deepseek_invalid_response'' 502"

definition readReply :: "AsHost \<Rightarrow> string \<Rightarrow> as_error + ChatMessage \<times> nat \<times> nat" where
  "readReply h body =
     (case JSON_parse body of
        None \<Rightarrow> Inl invalidResponse
      | Some v \<Rightarrow>
          (case (jfield v ''choices'', usageSchema h (jfield v ''usage'')) of
             (Some (JArr [choice]), Some (inputTokens, outputTokens)) \<Rightarrow>
               (case choiceSchema choice of
                  Some (reason, m) \<Rightarrow>
                    if (reason = ''tool_calls'') \<noteq> (callsOf m \<noteq> []) then Inl invalidResponse
                    else Inr (m, inputTokens, outputTokens)
                | None \<Rightarrow> Inl invalidResponse)
           | _ \<Rightarrow> Inl invalidResponse))"

definition requestFailed :: "deepseek_failure \<Rightarrow> as_error" where
  "requestFailed f =
     (case f of
        DeepSeekResponseTooLargeError \<Rightarrow> AssistantError ''deepseek_response_too_large'' 502
      | RequestFailure aborted \<Rightarrow> AssistantError (if aborted then ''deepseek_timeout'' else ''deepseek_request_failed'') 502)"

definition completionOutcome :: "AsHost \<Rightarrow> bool + DeepSeekResponse \<Rightarrow> as_error + ChatMessage \<times> nat \<times> nat" where
  "completionOutcome h reply =
     (case reply of
        Inl aborted \<Rightarrow> Inl (requestFailed (RequestFailure aborted))
      | Inr response \<Rightarrow>
          if \<not> (200 \<le> dr_status response \<and> dr_status response \<le> 299) then Inl (AssistantError ''deepseek_unavailable'' 502)
          else if dr_body response = None then Inl invalidResponse
          else
            case readDeepSeekResponseText (jp_decode (ah_platform h)) (256 * 1024) response of
              Inl f \<Rightarrow> Inl (requestFailed f)
            | Inr body \<Rightarrow> readReply h body)"

definition requestCompletion :: "AsHost \<Rightarrow> TurnOptions \<Rightarrow> bool \<Rightarrow> ChatMessage list \<Rightarrow> (ChatMessage \<times> nat \<times> nat) asAct" where
  "requestCompletion h opts canUseTools messages =
     bindA (platformA (ah_now h)) (\<lambda>now.
       if to_deadline opts \<le> now then assistantError ''turn_timeout'' 502
       else
         bindA (submitA h (completionBody (to_scope opts) (to_route opts) canUseTools messages)) (\<lambda>reply.
           liftR (completionOutcome h reply)))"

subsection \<open>Final messages\<close>

text \<open>
  A message without tool calls: \<open>Some\<close> the value to return, \<open>None\<close> when the loop goes on to submit a request for
  a repair. A message of white space and a message of the wrong shape are each repaired once.
\<close>

definition finalValue :: "TurnOptions \<Rightarrow> DeepSeekTurn \<Rightarrow> string \<Rightarrow> json option asAct" where
  "finalValue opts turn content =
     (if lastIs finalRepairPrompt (dt_messages turn) then retA None
      else
        case (case JSON_parse content of
                None \<Rightarrow> Inl JsonSyntaxError
              | Some v \<Rightarrow> bindR (to_validateFinal opts v) (\<lambda>_. Inr v)) of
          Inr v \<Rightarrow> retA (Some v)
        | Inl e \<Rightarrow>
            if \<not> (e = JsonSyntaxError \<or> e = ZodError) \<or> dt_finalRepairs turn \<ge> 1 then throwA invalidResponse
            else
              bindA (modTurnA (\<lambda>t. t \<lparr>dt_finalRepairs := 1\<rparr>)) (\<lambda>_.
              bindA (pushMessages [UserMessage finalRepairPrompt]) (\<lambda>_.
              bindA (to_checkpoint opts) (\<lambda>_. retA None))))"

definition finalMessage :: "TurnOptions \<Rightarrow> string option \<Rightarrow> json option asAct" where
  "finalMessage opts content =
     bindA getTurnA (\<lambda>turn.
       case content of
         None \<Rightarrow> finalValue opts turn ''''
       | Some s \<Rightarrow>
           if trim s \<noteq> [] then finalValue opts turn s
           else if lastIs whitespaceRecoveryPrompt (dt_messages turn) then retA None
           else if dt_whitespaceRecoveries turn \<ge> 1 then throwA invalidResponse
           else
             bindA (modTurnA (\<lambda>t. t \<lparr>dt_whitespaceRecoveries := 1\<rparr>)) (\<lambda>_.
             bindA (pushMessages [UserMessage whitespaceRecoveryPrompt]) (\<lambda>_.
             bindA (to_checkpoint opts) (\<lambda>_. retA None))))"

subsection \<open>Tool calls\<close>

definition callArguments :: "ToolCall \<Rightarrow> as_error + json" where
  "callArguments c = (case JSON_parse (tc_arguments c) of None \<Rightarrow> Inl invalidResponse | Some v \<Rightarrow> Inr v)"

definition runGroup :: "TurnOptions \<Rightarrow> ToolCall list \<Rightarrow> unit asAct" where
  "runGroup opts calls =
     bindA (to_checkActive opts) (\<lambda>_.
     bindA (liftR (mapR callArguments calls)) (\<lambda>args.
     bindA (if list_all (\<lambda>c. startsWith (tc_id c) ''prefetch-read-'') calls then to_executePrefetchBatch opts args
            else if length calls > 1 then to_executeReadBatch opts args
            else bindA (to_execute opts (tc_name (hd calls)) (hd args)) (\<lambda>out. retA [out])) (\<lambda>outs.
       if length outs \<noteq> length calls then throwA invalidResponse
       else
         bindA (to_checkActive opts) (\<lambda>_.
         bindA (pushMessages (map (\<lambda>(c, out). ToolMessage (tc_id c) out) (zip calls outs))) (\<lambda>_.
           to_checkpoint opts)))))"

text \<open>Two adjacent reads of the pending calls are one batch.\<close>

fun runPending :: "TurnOptions \<Rightarrow> ToolCall list \<Rightarrow> unit asAct" where
  "runPending opts [] = retA ()"
| "runPending opts [c] = runGroup opts [c]"
| "runPending opts (c # d # rest) =
     (if tc_name c = ''wiki_read'' \<and> tc_name d = ''wiki_read''
      then bindA (runGroup opts [c, d]) (\<lambda>_. runPending opts rest)
      else bindA (runGroup opts [c]) (\<lambda>_. runPending opts (d # rest)))"

definition pendingCalls :: "ChatMessage list \<Rightarrow> ToolCall list \<Rightarrow> ToolCall list" where
  "pendingCalls messages calls =
     filter (\<lambda>c. \<not> list_ex (\<lambda>m. case m of ToolMessage i _ \<Rightarrow> i = tc_id c | _ \<Rightarrow> False) messages) calls"

definition readArgs :: "string \<times> nat \<Rightarrow> json" where
  "readArgs = (\<lambda>(path, start). JObj [(''path'', JStr path), (''start'', decNumber start)])"

definition prefetchCall :: "AsHost \<Rightarrow> string \<times> nat \<Rightarrow> ToolCall asAct" where
  "prefetchCall h args =
     bindA (platformA (ah_randomUUID h)) (\<lambda>uuid.
       retA \<lparr>tc_id = ''prefetch-read-'' @ uuid, tc_name = ''wiki_read'', tc_arguments = stringify (readArgs args)\<rparr>)"

text \<open>\<open>True\<close> when reads were planned: the loop continues with them as calls of an assistant message.\<close>

definition planPrefetch :: "AsHost \<Rightarrow> TurnOptions \<Rightarrow> bool asAct" where
  "planPrefetch h opts =
     bindA getTurnA (\<lambda>turn.
     bindA getToolsA (\<lambda>tools.
     bindA (liftR (case to_prefetchReads opts of None \<Rightarrow> Inr [] | Some plan \<Rightarrow> plan (dt_messages turn) tools)) (\<lambda>reads.
       if reads = [] then retA False
       else
         bindA (mapA (prefetchCall h) reads) (\<lambda>calls.
         bindA (pushMessages [AssistantMessage (Some None) (Some calls)]) (\<lambda>_.
         bindA (to_checkpoint opts) (\<lambda>_. retA True))))))"

subsection \<open>The loop\<close>

fun freshIds :: "string set \<Rightarrow> ToolCall list \<Rightarrow> bool" where
  "freshIds prior [] = True"
| "freshIds prior (c # cs) \<longleftrightarrow> tc_id c \<notin> prior \<and> freshIds (insert (tc_id c) prior) cs"

text \<open>The reply: its calls are new, and it is stored with the mark removed.\<close>

definition recordReply :: "TurnOptions \<Rightarrow> ChatMessage list \<Rightarrow> ChatMessage \<times> nat \<times> nat \<Rightarrow> unit asAct" where
  "recordReply opts messages = (\<lambda>(m, inputTokens, outputTokens).
     bindA (to_checkActive opts) (\<lambda>_.
       if \<not> freshIds (\<Union>m' \<in> set messages. tc_id ` set (callsOf m')) (callsOf m) then throwA invalidResponse
       else
         bindA (pushMessages [m]) (\<lambda>_.
         bindA (modTurnA (\<lambda>t. t \<lparr>dt_inputTokens := dt_inputTokens t + inputTokens,
                  dt_outputTokens := dt_outputTokens t + outputTokens, dt_requesting := False\<rparr>)) (\<lambda>_.
           to_checkpoint opts))))"

text \<open>The submission: marked and checkpointed before it is sent.\<close>

definition submitMarked :: "AsHost \<Rightarrow> TurnOptions \<Rightarrow> unit asAct" where
  "submitMarked h opts =
     bindA (modTurnA (\<lambda>t. t \<lparr>dt_requesting := True, dt_rounds := dt_rounds t + 1\<rparr>)) (\<lambda>_.
     bindA (to_checkpoint opts) (\<lambda>_.
     bindA (to_checkActive opts) (\<lambda>_.
     bindA getTurnA (\<lambda>turn.
     bindA getToolsA (\<lambda>tools.
     bindA (requestCompletion h opts
              (\<not> (dt_messages turn \<noteq> [] \<and> messageContent (last (dt_messages turn)) = Some finalRepairPrompt) \<and> to_canUseTools opts tools)
              (dt_messages turn)) (\<lambda>reply.
       recordReply opts (dt_messages turn) reply))))))"

definition submitRound :: "AsHost \<Rightarrow> TurnOptions \<Rightarrow> unit asAct" where
  "submitRound h opts =
     bindA getTurnA (\<lambda>turn.
       if dt_rounds turn \<ge> 13 then assistantError ''tool_limit'' 502
       else bindA (to_authorize opts) (\<lambda>_. submitMarked h opts))"

text \<open>
  One iteration: \<open>Some\<close> the value to return, \<open>None\<close> for the next iteration. The calls of the last message of the
  model that have no result yet are run, then reads are planned, then the next round is submitted.
\<close>

definition runCalls :: "AsHost \<Rightarrow> TurnOptions \<Rightarrow> ChatMessage list \<Rightarrow> ChatMessage \<Rightarrow> json option asAct" where
  "runCalls h opts messages m =
     bindA (runPending opts (pendingCalls messages (callsOf m))) (\<lambda>_.
     bindA (planPrefetch h opts) (\<lambda>planned.
       if planned then retA None else bindA (submitRound h opts) (\<lambda>_. retA None)))"

definition handleMessage :: "AsHost \<Rightarrow> TurnOptions \<Rightarrow> ChatMessage list \<Rightarrow> ChatMessage \<Rightarrow> json option asAct" where
  "handleMessage h opts messages m =
     bindA (if callsOf m = [] then finalMessage opts (messageContent m) else retA None) (\<lambda>result.
       case result of Some v \<Rightarrow> retA (Some v) | None \<Rightarrow> runCalls h opts messages m)"

definition turnStep :: "AsHost \<Rightarrow> TurnOptions \<Rightarrow> json option asAct" where
  "turnStep h opts =
     bindA (to_checkActive opts) (\<lambda>_.
     bindA (platformA (ah_now h)) (\<lambda>now.
       if to_deadline opts \<le> now then assistantError ''turn_timeout'' 502
       else
         bindA getTurnA (\<lambda>turn.
           case find isAssistant (rev (dt_messages turn)) of
             None \<Rightarrow> bindA (submitRound h opts) (\<lambda>_. retA None)
           | Some m \<Rightarrow> handleMessage h opts (dt_messages turn) m)))"

text \<open>\<open>Inr None\<close> is a loop that ran out of fuel.\<close>

fun turnLoop :: "AsHost \<Rightarrow> TurnOptions \<Rightarrow> nat \<Rightarrow> json option asAct" where
  "turnLoop h opts 0 = retA None"
| "turnLoop h opts (Suc fuel) =
     bindA (turnStep h opts) (\<lambda>result. case result of Some v \<Rightarrow> retA (Some v) | None \<Rightarrow> turnLoop h opts fuel)"

definition runDeepSeekTurn :: "AsHost \<Rightarrow> TurnOptions \<Rightarrow> nat \<Rightarrow> json option asAct" where
  "runDeepSeekTurn h opts fuel =
     (if (case to_apiKey opts of None \<Rightarrow> True | Some k \<Rightarrow> k = []) then assistantError ''assistant_not_configured'' 503
      else
        bindA getTurnA (\<lambda>turn.
          if dt_requesting turn then assistantError ''deepseek_request_interrupted'' 502 else turnLoop h opts fuel))"

end
