(* ===== verification/Assistant_Text.thy ===== *)
theory Assistant_Text
  imports Assistant_Turn
begin

section \<open>Assistant worker: routing, planned reads and the text turn\<close>

text \<open>
  \<^verbatim>\<open>routing.ts\<close>, \<^verbatim>\<open>conversation-history.ts\<close>, \<^verbatim>\<open>turn-input.ts\<close>, \<^verbatim>\<open>prefetch-search.ts\<close>, \<^verbatim>\<open>seed-text-context.ts\<close> and \<^verbatim>\<open>text-turn.ts\<close> of
  \<^verbatim>\<open>workers/wiki-assistant/src\<close>: which kind of turn a question gets, the reads that need no decision of the model,
  and the turn that connects the reader with the loop of the model. \<open>context.reader\<close> restores the identity of
  the user (\<open>ah_identity\<close>); the deadline and the abort signal are those of the caller. The stage of the pending
  question and the durations are not modelled.
\<close>

subsection \<open>Routing\<close>

datatype Role = UserRole | AssistantRole

fun roleName :: "Role \<Rightarrow> string" where
  "roleName UserRole = ''user''"
| "roleName AssistantRole = ''assistant''"

type_synonym history_item = "Role \<times> string"

definition ASK_AI_ROUTING_HISTORY_MESSAGES :: nat where
  "ASK_AI_ROUTING_HISTORY_MESSAGES = 6"

definition ASK_AI_ROUTING_HISTORY_CHARACTERS :: nat where
  "ASK_AI_ROUTING_HISTORY_CHARACTERS = 4000"

text \<open>The loop from the last item backwards; \<open>Array.from\<close> splits a string of the model into its characters.\<close>

fun recentHistory :: "nat \<Rightarrow> history_item list \<Rightarrow> history_item list \<Rightarrow> history_item list" where
  "recentHistory remaining selected [] = selected"
| "recentHistory remaining selected ((role, t) # older) =
     (if \<not> (length selected < ASK_AI_ROUTING_HISTORY_MESSAGES \<and> remaining > 0) then selected
      else
        let bounded = take remaining (trim t) in
        if trim t = [] \<or> bounded = [] then recentHistory remaining selected older
        else recentHistory (remaining - length bounded) (selected @ [(role, bounded)]) older)"

definition boundedRoutingHistory :: "history_item list \<Rightarrow> history_item list" where
  "boundedRoutingHistory items = rev (recentHistory ASK_AI_ROUTING_HISTORY_CHARACTERS [] (rev items))"

definition historyJson :: "history_item list \<Rightarrow> json" where
  "historyJson items = JArr (map (\<lambda>(role, t). JObj [(''role'', JStr (roleName role)), (''text'', JStr t)]) items)"

fun subjectJson :: "QuestionSubject \<Rightarrow> json" where
  "subjectJson SubjectDatabase = JObj [(''kind'', JStr ''database'')]"
| "subjectJson (SubjectNode path) = JObj [(''kind'', JStr ''node''), (''path'', JStr path)]"
| "subjectJson (SubjectFolder path) = JObj [(''kind'', JStr ''folder''), (''path'', JStr path)]"

definition askAiRouteNames :: "AskAiRoute list" where
  "askAiRouteNames = [DatabaseOverview, FocusedSearch, SelectedNodeSummary, ConversationRoute]"

fun routeQuestion :: "AskAiRoute \<Rightarrow> JevNoulQuestion" where
  "routeQuestion DatabaseOverview = \<lparr>
     jq_question = ''Does the user want a broad inventory, tour, or summary of what the selected database contains?'',
     jq_trueCriteria = ''The request asks what is in the database overall, its main themes, sections, notes, or contents.'',
     jq_falseCriteria = ''The request asks for one fact, one selected item, or a task that does not require the Wiki.''\<rparr>"
| "routeQuestion FocusedSearch = \<lparr>
     jq_question = ''Does the user want a particular fact, topic, claim, or answer found and verified in the selected database?'',
     jq_trueCriteria = ''The request has a focused information need that should retrieve relevant notes, including a follow-up whose referent is established by the recent conversation.'',
     jq_falseCriteria = ''The request asks for a database-wide overview, a selected-item summary, or ordinary conversation.''\<rparr>"
| "routeQuestion SelectedNodeSummary = \<lparr>
     jq_question = ''Does the user want the currently selected node or folder itself summarized or explained?'',
     jq_trueCriteria = ''The request refers to the selected node or folder as the object to summarize or explain.'',
     jq_falseCriteria = ''There is no selected node or folder, or the request concerns the database broadly or a separate topic.''\<rparr>"
| "routeQuestion ConversationRoute = \<lparr>
     jq_question = ''Can the request be completed as ordinary conversation or a transformation of user-provided text without reading the Wiki?'',
     jq_trueCriteria = ''It is a greeting, brainstorming, drafting, rewriting, translation, or transformation whose needed text is supplied in the current request or recent conversation.'',
     jq_falseCriteria = ''It asks about stored Wiki content or needs factual retrieval or verification.''\<rparr>"

definition eligibleRoutes :: "QuestionSubject \<Rightarrow> AskAiRoute list" where
  "eligibleRoutes subject =
     filter (\<lambda>route. route \<noteq> SelectedNodeSummary \<or> (case subject of SubjectNode _ \<Rightarrow> True | _ \<Rightarrow> False)) askAiRouteNames"

text \<open>Probabilities are looked up by name; every eligible route has one (\<open>classifyWithJev\<close> returned).\<close>

definition chooseRoute :: "QuestionSubject \<Rightarrow> (string \<times> rat) list \<Rightarrow> AskAiRoute option" where
  "chooseRoute subject probabilities =
     (let routes = eligibleRoutes subject;
          ranked = sort_key (\<lambda>(route, index, probability). (- probability, index))
            (map (\<lambda>(index, route). (route, index, the (map_of probabilities (routeName route)))) (zip [0..<length routes] routes))
      in case ranked of
           (route, _, p1) # (_, _, p2) # _ \<Rightarrow> if p1 \<ge> 7 / 10 \<and> p1 - p2 \<ge> 15 / 100 then Some route else None
         | _ \<Rightarrow> None)"

definition routeAskAiIntent :: "AsHost \<Rightarrow> string \<Rightarrow> QuestionSubject \<Rightarrow> history_item list \<Rightarrow> string \<Rightarrow> AskAiRoute option asAct" where
  "routeAskAiIntent h question subject history apiKey =
     (case classifyWithJev (ah_platform h) apiKey
             [(''user_question'', JStr question), (''selected_target'', subjectJson subject),
              (''recent_conversation'', historyJson (boundedRoutingHistory history))]
             (map (\<lambda>route. (routeName route, routeQuestion route)) askAiRouteNames) of
        Inl e \<Rightarrow> assistantError ''jev_unavailable'' 503
      | Inr (body, read) \<Rightarrow>
          bindA (jevA h body) (\<lambda>answer.
          bindA (liftR (jevUnavailable (read answer))) (\<lambda>probabilities.
            retA (chooseRoute subject probabilities))))"

subsection \<open>The input of the model\<close>

record TurnMessage =
  tg_requestId :: string
  tg_question :: string
  tg_answer :: "string option"
  tg_error :: "string option"

definition conversationHistory :: "history_item list \<Rightarrow> TurnMessage list \<Rightarrow> string \<Rightarrow> history_item list" where
  "conversationHistory history messages currentRequestId =
     boundedRoutingHistory (history @ concat (map (\<lambda>m. case tg_answer m of
        None \<Rightarrow> []
      | Some answer \<Rightarrow>
          if tg_requestId m \<noteq> currentRequestId \<and> tg_error m = None
          then [(UserRole, tg_question m), (AssistantRole, answer)] else []) messages))"

definition inputText :: "string \<Rightarrow> string \<Rightarrow> Scope \<Rightarrow> string option \<Rightarrow> history_item list \<Rightarrow> AskAiRoute \<Rightarrow> QuestionSubject \<Rightarrow> string" where
  "inputText requestId question scope selectedPath history route subject = stringify (JObj ([
     (''requestId'', JStr requestId), (''question'', JStr question), (''scope'', JStr (scopeText scope)),
     (''selectedPath'', textOrNull selectedPath), (''semanticRoute'', JStr (routeName route)),
     (''selectedSubject'', subjectJson subject)] @
     (if history = [] then []
      else [(''priorConversation'', historyJson history),
            (''historyNote'', JStr ''Untrusted context, not Wiki evidence. Retrieve current sources.'')])))"

subsection \<open>Planned reads\<close>

definition nodePaths :: "json \<Rightarrow> string list" where
  "nodePaths v =
     (case jfield v ''nodes'' of
        Some (JArr nodes) \<Rightarrow> concat (map (\<lambda>node. case jfield node ''path'' of Some (JStr p) \<Rightarrow> [p] | _ \<Rightarrow> []) nodes)
      | _ \<Rightarrow> [])"

definition searchPaths :: "ChatMessage list \<Rightarrow> ToolCall \<Rightarrow> as_error + string list" where
  "searchPaths messages search =
     (case find (\<lambda>m. case m of ToolMessage i _ \<Rightarrow> i = tc_id search | _ \<Rightarrow> False) messages of
        Some (ToolMessage _ content) \<Rightarrow>
          (case JSON_parse content of None \<Rightarrow> Inl JsonSyntaxError | Some v \<Rightarrow> Inr (nodePaths v))
      | _ \<Rightarrow> Inr [])"

text \<open>One path of each query per rank; an empty path is skipped.\<close>

definition interleavePaths :: "string list list \<Rightarrow> string list" where
  "interleavePaths ranked =
     concat (map (\<lambda>index. concat (map (\<lambda>paths. if index < length paths \<and> paths ! index \<noteq> [] then [paths ! index] else []) ranked))
       [0..<Max (set (0 # map length ranked))])"

text \<open>\<open>[...new Set(xs)]\<close>: the first occurrence of each element.\<close>

definition uniqueL :: "'a list \<Rightarrow> 'a list" where
  "uniqueL xs = rev (remdups (rev xs))"

definition prefetchCount :: "KinicReader \<Rightarrow> ToolState \<Rightarrow> nat" where
  "prefetchCount r tools =
     nat (min 2 (min (int (kr_maxCalls r) - int (ts_calls tools))
       ((int (kr_maxCharacters r) - int (ts_characters tools) - 6000) div 5500)))"

definition prefetchSearchReads :: "KinicReader \<Rightarrow> ChatMessage list \<Rightarrow> ToolState \<Rightarrow> as_error + (string \<times> nat) list" where
  "prefetchSearchReads r messages tools =
     (let searches = filter (\<lambda>c. tc_name c = ''wiki_query'') (concat (map callsOf messages)) in
      if list_ex (\<lambda>m. list_ex (\<lambda>c. startsWith (tc_id c) ''prefetch-read-'') (callsOf m)) messages then Inr []
      else if searches = [] then Inr []
      else
        case find isAssistant (rev messages) of
          None \<Rightarrow> Inr []
        | Some final \<Rightarrow>
            if \<not> list_all (\<lambda>search. list_ex (\<lambda>c. tc_id c = tc_id search) (callsOf final)) searches then Inr []
            else
              bindR (mapR (searchPaths messages) searches) (\<lambda>ranked.
                Inr (map (\<lambda>path. (path, 0)) (take (prefetchCount r tools)
                  (filter (\<lambda>path. path \<in> set (ts_discoveredPaths tools) \<and> path \<notin> set (ts_readPaths tools))
                     (uniqueL (interleavePaths ranked)))))))"

subsection \<open>Seeding\<close>

definition seedCalls :: "string \<Rightarrow> nat \<Rightarrow> json list \<Rightarrow> ToolCall list" where
  "seedCalls requestId offset args =
     map (\<lambda>(index, v). \<lparr>tc_id = ''seed-read-'' @ requestId @ ''-'' @ natToDec (offset + index), tc_name = ''wiki_read'',
                        tc_arguments = stringify v\<rparr>) (zip [0..<length args] args)"

definition seedBatch :: "AsHost \<Rightarrow> KinicReader \<Rightarrow> unit asAct \<Rightarrow> string \<Rightarrow> nat \<Rightarrow> string list \<Rightarrow> unit asAct" where
  "seedBatch h r checkActive requestId offset paths =
     (let args = map (\<lambda>path. readArgs (path, 0)) paths; calls = seedCalls requestId offset args in
      bindA checkActive (\<lambda>_.
      bindA (executeReadBatch h r True args) (\<lambda>outs.
      bindA checkActive (\<lambda>_.
        pushMessages (AssistantMessage (Some None) (Some calls) # map (\<lambda>(c, out). ToolMessage (tc_id c) out) (zip calls outs))))))"

text \<open>The paths two by two; an overview stops at four reads.\<close>

fun seedReads :: "AsHost \<Rightarrow> KinicReader \<Rightarrow> unit asAct \<Rightarrow> string \<Rightarrow> bool \<Rightarrow> nat \<Rightarrow> string list \<Rightarrow> unit asAct" where
  "seedReads h r checkActive requestId overview offset [] = retA ()"
| "seedReads h r checkActive requestId overview offset [path] =
     bindA getToolsA (\<lambda>tools.
       if overview \<and> length (ts_readPaths tools) \<ge> 4 then retA ()
       else seedBatch h r checkActive requestId offset [path])"
| "seedReads h r checkActive requestId overview offset (path # path' # rest) =
     bindA getToolsA (\<lambda>tools.
       if overview \<and> length (ts_readPaths tools) \<ge> 4 then retA ()
       else bindA (seedBatch h r checkActive requestId offset [path, path']) (\<lambda>_.
              seedReads h r checkActive requestId overview (offset + 2) rest))"

definition overviewSeedPrompt :: string where
  "overviewSeedPrompt = ''Wiki inventory and representative reads are complete. Now answer the original question using this evidence. Return ONLY a nonempty JSON object with answer, citations [{id,quote}], insufficient, contradictions and unverified. Describe the observed scope and any inventory truncation; do not claim complete coverage. If no usable evidence was found, set insufficient to true. Do not request more tools.''"

definition nodeSeedPrompt :: string where
  "nodeSeedPrompt = (''The selected document'' @ [CHR 0x27] @ ''s first excerpt is ready. Answer the original question using this evidence, or read further excerpts if needed. Your final answer must be a nonempty JSON object with answer, citations [{id,quote}], insufficient, contradictions and unverified.'')"

definition seedInventory :: "AsHost \<Rightarrow> KinicReader \<Rightarrow> unit asAct \<Rightarrow> string \<Rightarrow> string list asAct" where
  "seedInventory h r checkActive requestId =
     bindA checkActive (\<lambda>_.
     bindA (execute h r ''wiki_inventory'' (JObj [])) (\<lambda>out.
     bindA checkActive (\<lambda>_.
     bindA (let i = ''seed-inventory-'' @ requestId in
            pushMessages [AssistantMessage (Some None) (Some [\<lparr>tc_id = i, tc_name = ''wiki_inventory'', tc_arguments = ''{}''\<rparr>]),
              ToolMessage i out]) (\<lambda>_.
     bindA getToolsA (\<lambda>tools.
       case JSON_parse out of
         None \<Rightarrow> throwA JsonSyntaxError
       | Some v \<Rightarrow> retA (take (kr_maxCalls r - ts_calls tools) (nodePaths v)))))))"

definition seedTextContext :: "AsHost \<Rightarrow> KinicReader \<Rightarrow> unit asAct \<Rightarrow> string \<Rightarrow> AskAiRoute \<Rightarrow> QuestionSubject \<Rightarrow> unit asAct" where
  "seedTextContext h r checkActive requestId route subject =
     (case (route, subject) of
        (DatabaseOverview, _) \<Rightarrow>
          bindA (seedInventory h r checkActive requestId) (\<lambda>paths.
          bindA (seedReads h r checkActive requestId True 0 paths) (\<lambda>_. pushMessages [UserMessage overviewSeedPrompt]))
      | (SelectedNodeSummary, SubjectNode path) \<Rightarrow>
          bindA (seedReads h r checkActive requestId False 0 [path]) (\<lambda>_. pushMessages [UserMessage nodeSeedPrompt])
      | _ \<Rightarrow> retA ())"

subsection \<open>The text turn\<close>

record TextTurn =
  tt_requestId :: string
  tt_question :: string
  tt_selectedPath :: "string option"
  tt_history :: "history_item list"
  tt_messages :: "TurnMessage list"
  tt_databaseId :: string
  tt_scope :: Scope
  tt_route :: AskAiRoute
  tt_subject :: QuestionSubject
  tt_native :: bool
  tt_apiKey :: "string option"
  tt_typesafeApiKey :: string
  tt_deadline :: nat

definition turnReader :: "TextTurn \<Rightarrow> KinicReader" where
  "turnReader c = \<lparr>kr_databaseId = tt_databaseId c, kr_scope = tt_scope c, kr_maxCharacters = li_characters DEFAULT_LIMITS,
     kr_maxCalls = li_calls DEFAULT_LIMITS, kr_typesafeApiKey = tt_typesafeApiKey c, kr_route = Some (tt_route c),
     kr_authorizeBeforeTools = (\<not> tt_native c)\<rparr>"

definition openReader :: "AsHost \<Rightarrow> unit asAct" where
  "openReader h = (\<lambda>s. (ah_identity h (as_k s), s \<lparr>as_k := as_k s + 1\<rparr>))"

definition stillValid :: "AsHost \<Rightarrow> bool asAct" where
  "stillValid h = (\<lambda>s. (ah_valid h (as_k s), s \<lparr>as_k := as_k s + 1\<rparr>))"

definition checkActiveTurn :: "AsHost \<Rightarrow> nat \<Rightarrow> unit asAct" where
  "checkActiveTurn h deadline =
     bindA (platformA (ah_now h)) (\<lambda>now.
       if deadline \<le> now then assistantError ''turn_timeout'' 502
       else
         bindA (platformA (ah_aborted h)) (\<lambda>aborted.
           if aborted then assistantError ''cancel_requested'' 409
           else bindA (stillValid h) (\<lambda>ok. if ok then retA () else assistantError ''cancel_requested'' 409)))"

definition turnOptions :: "AsHost \<Rightarrow> TextTurn \<Rightarrow> bool \<Rightarrow> TurnOptions" where
  "turnOptions h c seededOverview =
     (let r = turnReader c; checkActive = checkActiveTurn h (tt_deadline c) in
      \<lparr>to_apiKey = tt_apiKey c, to_scope = tt_scope c, to_route = Some (tt_route c), to_deadline = tt_deadline c,
       to_authorize = bindA checkActive (\<lambda>_. bindA (openReader h) (\<lambda>_. bindA (authorize h r) (\<lambda>_. checkActive))),
       to_checkActive = checkActive,
       to_checkpoint = checkpointA h,
       to_execute = execute h r,
       to_executeReadBatch = executeReadBatch h r False,
       to_prefetchReads = (if tt_route c = FocusedSearch then Some (prefetchSearchReads r) else None),
       to_executePrefetchBatch = executeReadBatch h r True,
       to_canUseTools = (\<lambda>tools. tt_route c \<noteq> DatabaseOverview \<or> \<not> seededOverview \<and> length (ts_readPaths tools) < 4),
       to_validateFinal = (\<lambda>v. bindR (answerSchema False v) (\<lambda>_. Inr ()))\<rparr>)"

definition seededMessages :: "AskAiRoute \<Rightarrow> ChatMessage list \<Rightarrow> bool" where
  "seededMessages route messages \<longleftrightarrow>
     route = DatabaseOverview \<and> list_ex (\<lambda>m. case m of ToolMessage i _ \<Rightarrow> startsWith i ''seed-read-'' | _ \<Rightarrow> False) messages"

text \<open>\<open>fresh\<close>: the pending question has no turn yet. \<open>Inr None\<close> is a loop that ran out of fuel.\<close>

definition runTextTurn :: "AsHost \<Rightarrow> TextTurn \<Rightarrow> bool \<Rightarrow> nat \<Rightarrow> Answer option asAct" where
  "runTextTurn h c fresh fuel =
     bindA (openReader h) (\<lambda>_.
     bindA (if fresh
            then bindA (modTurnA (\<lambda>_. newDeepSeekTurn (inputText (tt_requestId c) (tt_question c) (tt_scope c) (tt_selectedPath c)
                          (conversationHistory (tt_history c) (tt_messages c) (tt_requestId c)) (tt_route c) (tt_subject c)))) (\<lambda>_.
                 seedTextContext h (turnReader c) (checkActiveTurn h (tt_deadline c)) (tt_requestId c) (tt_route c) (tt_subject c))
            else retA ()) (\<lambda>_.
     bindA getTurnA (\<lambda>turn.
     bindA (runDeepSeekTurn h (turnOptions h c (seededMessages (tt_route c) (dt_messages turn))) fuel) (\<lambda>result.
       case result of
         None \<Rightarrow> retA None
       | Some v \<Rightarrow>
           bindA getToolsA (\<lambda>tools.
           bindA (liftR (answerSchema False v)) (\<lambda>stripped.
           bindA (liftR (validateAnswer (answerJson stripped) (ts_evidence tools) (tt_route c \<noteq> ConversationRoute))) (\<lambda>answer.
             retA (Some answer))))))))"

datatype failure_action = CancelTurn | RetryTurn

definition textTurnFailure :: "as_error \<Rightarrow> failure_action \<times> string" where
  "textTurnFailure e =
     (if e = ZodError \<or> e = JsonSyntaxError then (CancelTurn, ''deepseek_invalid_response'')
      else (RetryTurn, ''checking_request_status''))"

subsection \<open>Sample services\<close>

definition sampleNode :: ReadNode where
  "sampleNode = \<lparr>rn_path = ''/Knowledge/a'', rn_content = ''alpha beta'', rn_etag = ''e1'', rn_metadata_json = ''{}''\<rparr>"

definition sampleServices :: AsHost where
  "sampleServices = \<lparr>ah_platform = \<lparr>jp_number = (\<lambda>_. None), jp_decode = (\<lambda>_. '''')\<rparr>, ah_localeCompare = (\<lambda>_ _. 0),
     ah_read_node = (\<lambda>_ _ _. Inr (Inr (Some sampleNode))), ah_memory_manifest = (\<lambda>_ _. Inl ''offline''),
     ah_search_nodes = (\<lambda>_ _. Inl ''offline''), ah_list_nodes = (\<lambda>_ _ _ _ _. Inl ''offline''),
     ah_source_evidence = (\<lambda>_ _ _. Inl ''offline''), ah_jev = (\<lambda>_ _. Inl False), ah_complete = (\<lambda>_ _. Inl False),
     ah_randomUUID = (\<lambda>_. ''u1''), ah_isoNow = (\<lambda>_. ''now''), ah_now = (\<lambda>_. 0), ah_aborted = (\<lambda>_. False),
     ah_valid = (\<lambda>_. Inr True), ah_identity = (\<lambda>_. Inr ()), ah_checkpoint = (\<lambda>_. Inr ())\<rparr>"

definition sampleConversation :: TextTurn where
  "sampleConversation = \<lparr>tt_requestId = ''r1'', tt_question = ''q'', tt_selectedPath = None, tt_history = [], tt_messages = [],
     tt_databaseId = ''db'', tt_scope = ScopeKnowledge, tt_route = FocusedSearch, tt_subject = SubjectDatabase, tt_native = True,
     tt_apiKey = Some ''key'', tt_typesafeApiKey = '''', tt_deadline = 9\<rparr>"

end
