(* ===== verification/Action_Logic.thy ===== *)
theory Action_Logic
  imports Js_Base
begin

section \<open>A logic of actions with an invariant\<close>

text \<open>
  \<open>ensuresA I le P m G\<close>: from a state with the invariant \<open>I\<close> and the assertion \<open>P\<close>, the action \<open>m\<close> ends in a state
  with the invariant, whatever it returns or throws, that is later in the order \<open>le\<close> (a log only grows), and
  \<open>G\<close> holds of a returned value. An assertion that later states keep frames over every action.
\<close>

definition ensuresA ::
    "('s \<Rightarrow> bool) \<Rightarrow> ('s \<Rightarrow> 's \<Rightarrow> bool) \<Rightarrow> ('s \<Rightarrow> bool) \<Rightarrow> ('s, 'e, 'a) act \<Rightarrow> ('a \<Rightarrow> 's \<Rightarrow> bool) \<Rightarrow> bool" where
  "ensuresA I le P m G \<longleftrightarrow>
     (\<forall>s. I s \<longrightarrow> P s \<longrightarrow> I (snd (m s)) \<and> le s (snd (m s)) \<and> (\<forall>x. fst (m s) = Inr x \<longrightarrow> G x (snd (m s))))"

definition stableA :: "('s \<Rightarrow> 's \<Rightarrow> bool) \<Rightarrow> ('s \<Rightarrow> bool) \<Rightarrow> bool" where
  "stableA le P \<longleftrightarrow> (\<forall>s t. le s t \<longrightarrow> P s \<longrightarrow> P t)"

lemma stableA_basic [intro]:
  "stableA le (\<lambda>_. c)" "stableA le P \<Longrightarrow> stableA le Q \<Longrightarrow> stableA le (\<lambda>s. P s \<and> Q s)"
  "(\<And>x. stableA le (F x)) \<Longrightarrow> stableA le (\<lambda>s. \<forall>x \<in> X. F x s)"
  unfolding stableA_def by blast+

lemma ensuresA_I:
  assumes "\<And>s r t. m s = (r, t) \<Longrightarrow> I s \<Longrightarrow> P s \<Longrightarrow> I t \<and> le s t \<and> (\<forall>x. r = Inr x \<longrightarrow> G x t)"
  shows "ensuresA I le P m G"
  using assms unfolding ensuresA_def by (metis prod.collapse)

lemma ensuresA_D:
  assumes "ensuresA I le P m G" and "m s = (r, t)" and "I s" and "P s"
  shows "I t" "le s t" "r = Inr x \<Longrightarrow> G x t"
  using assms unfolding ensuresA_def by (metis fst_conv snd_conv)+

lemma ensuresA_pre: "ensuresA I le P m G \<Longrightarrow> (\<And>s. P' s \<Longrightarrow> P s) \<Longrightarrow> ensuresA I le P' m G"
  by (simp add: ensuresA_def)

lemma ensuresA_post: "ensuresA I le P m G \<Longrightarrow> (\<And>x s. G x s \<Longrightarrow> G' x s) \<Longrightarrow> ensuresA I le P m G'"
  by (simp add: ensuresA_def)

lemma ensuresA_if:
  "ensuresA I le (\<lambda>s. P s \<and> c) m G \<Longrightarrow> ensuresA I le (\<lambda>s. P s \<and> \<not> c) n G \<Longrightarrow> ensuresA I le P (if c then m else n) G"
  by (auto simp: ensuresA_def)

lemma ensuresA_assume: "(c \<Longrightarrow> ensuresA I le P m G) \<Longrightarrow> ensuresA I le (\<lambda>s. P s \<and> c) m G"
  by (auto simp: ensuresA_def)

lemma ensuresA_option:
  "(opt = None \<Longrightarrow> ensuresA I le P m G) \<Longrightarrow> (\<And>x. opt = Some x \<Longrightarrow> ensuresA I le P (f x) G) \<Longrightarrow>
   ensuresA I le P (case opt of None \<Rightarrow> m | Some x \<Rightarrow> f x) G"
  by (cases opt) simp_all

locale action_logic =
  fixes I :: "'s \<Rightarrow> bool" and le :: "'s \<Rightarrow> 's \<Rightarrow> bool"
  assumes le_refl: "le s s"
    and le_trans: "le s t \<Longrightarrow> le t u \<Longrightarrow> le s u"
begin

lemma ret: "(\<And>s. P s \<Longrightarrow> G x s) \<Longrightarrow> ensuresA I le P (retA x) G"
  by (simp add: ensuresA_def le_refl)

lemma throw: "ensuresA I le P (throwA e) G"
  by (simp add: ensuresA_def le_refl)

lemma lift: "(\<And>s x. P s \<Longrightarrow> r = Inr x \<Longrightarrow> G x s) \<Longrightarrow> ensuresA I le P (liftR r) G"
  by (simp add: ensuresA_def le_refl)

lemma bind:
  assumes "ensuresA I le P m G" and "\<And>x. ensuresA I le (G x) (f x) H"
  shows "ensuresA I le P (bindA m f) H"
proof (rule ensuresA_I)
  fix s r t
  assume run: "bindA m f s = (r, t)" and s: "I s" "P s"
  show "I t \<and> le s t \<and> (\<forall>x. r = Inr x \<longrightarrow> H x t)"
  proof (cases rule: bindA_cases [of m s f])
    case (fail e u)
    with run ensuresA_D [OF assms(1) fail(1) s] show ?thesis by auto
  next
    case (ok x u)
    note first = ensuresA_D [OF assms(1) ok(1) s]
    have "f x u = (r, t)" using ok(2) run by simp
    from ensuresA_D [OF assms(2) this first(1) first(3) [OF refl]] first(2) show ?thesis by (auto intro: le_trans)
  qed
qed

lemma catch:
  assumes "ensuresA I le P m G" and "stableA le P" and "\<And>e. ensuresA I le P (k e) G"
  shows "ensuresA I le P (catchA m k) G"
proof (rule ensuresA_I)
  fix s r t
  assume run: "catchA m k s = (r, t)" and s: "I s" "P s"
  obtain q u where m: "m s = (q, u)" by (cases "m s")
  note first = ensuresA_D [OF assms(1) m s]
  show "I t \<and> le s t \<and> (\<forall>x. r = Inr x \<longrightarrow> G x t)"
  proof (cases q)
    case (Inr x)
    with m run first show ?thesis by (auto simp: catchA_step)
  next
    case (Inl e)
    with m run have "k e u = (r, t)" by (simp add: catchA_step)
    moreover have "P u" using assms(2) first(2) s(2) by (auto simp: stableA_def)
    ultimately show ?thesis using ensuresA_D [OF assms(3), of e u r t] first by (auto intro: le_trans)
  qed
qed

lemma frame:
  assumes "ensuresA I le P m G" and "stableA le F"
  shows "ensuresA I le (\<lambda>s. P s \<and> F s) m (\<lambda>x s. G x s \<and> F s)"
  using assms by (auto simp: ensuresA_def stableA_def)

lemma bind_frame:
  assumes "ensuresA I le P m G" and "stableA le P" and "\<And>x. ensuresA I le (\<lambda>s. G x s \<and> P s) (f x) H"
  shows "ensuresA I le P (bindA m f) H"
  by (rule bind [OF ensuresA_pre [OF frame [OF assms(1,2)]] assms(3)]) simp

lemma attempt:
  assumes "ensuresA I le P m G"
  shows "ensuresA I le P (attemptA m) (\<lambda>r s. \<forall>x. r = Inr x \<longrightarrow> G x s)"
  using assms by (auto simp: ensuresA_def attemptA_eq)

lemma mapping:
  assumes "\<And>x. x \<in> set xs \<Longrightarrow> ensuresA I le P (f x) G" and "stableA le P" and "\<And>y. stableA le (G y)"
  shows "ensuresA I le P (mapA f xs) (\<lambda>ys s. \<forall>y \<in> set ys. G y s)"
  using assms(1)
proof (induction xs)
  case Nil
  show ?case unfolding mapA.simps by (rule ret) simp
next
  case (Cons x xs)
  have rest: "ensuresA I le (\<lambda>s. P s \<and> G y s) (mapA f xs) (\<lambda>ys s. (\<forall>y \<in> set ys. G y s) \<and> G y s)" for y
    by (rule frame [OF Cons.IH assms(3)]) (rule Cons.prems, simp)
  have first: "ensuresA I le P (f x) (\<lambda>y s. G y s \<and> P s)"
    by (rule ensuresA_pre [OF frame [OF Cons.prems assms(2)]]) simp_all
  show ?case unfolding mapA.simps
    by (rule bind [OF first], rule bind [OF ensuresA_pre [OF rest]]) (auto intro!: ret)
qed

end

end
