(* ===== verification/Assistant_Evidence.thy ===== *)
theory Assistant_Evidence
  imports Assistant_Reader Action_Logic
begin

section \<open>Assistant worker: what becomes evidence\<close>

text \<open>
  The invariant of the reader: every document it asked the canister for lies in the scope of the conversation,
  every citation it holds is an exact excerpt of a node the canister returned for that path in a call of the
  log, and the budgets are kept. Every tool keeps it, on every path through it.
\<close>

definition inScope :: "Scope \<Rightarrow> string \<Rightarrow> bool" where
  "inScope scope path \<longleftrightarrow>
     isReadablePath path \<and>
     (scope = ScopeDatabase \<or> path = scopeText scope \<or> startsWith path (scopeText scope @ ''/'') \<or> startsWith path ''/Sources/'')"

definition wasRead :: "AsHost \<Rightarrow> as_event set \<Rightarrow> string \<Rightarrow> string \<Rightarrow> ReadNode \<Rightarrow> bool" where
  "wasRead h evs databaseId path node \<longleftrightarrow>
     (\<exists>k. EvReadNode k databaseId path \<in> evs \<and> ah_read_node h k databaseId path = Inr (Inr (Some node))) \<and> rn_path node = path"

definition grounded :: "AsHost \<Rightarrow> as_event set \<Rightarrow> string \<Rightarrow> Scope \<Rightarrow> Citation \<Rightarrow> bool" where
  "grounded h evs databaseId scope c \<longleftrightarrow>
     ci_databaseId c = databaseId \<and> inScope scope (ci_path c) \<and> ci_excerpt c \<noteq> [] \<and> length (ci_excerpt c) \<le> 4000 \<and>
     (\<exists>node. wasRead h evs databaseId (ci_path c) node \<and> ci_etag c = rn_etag node \<and>
        ci_excerpt c = sliceL (ci_start c) (ci_end c) (rn_content node) \<and> ci_end c = ci_start c + length (ci_excerpt c))"

definition sourcePath :: "string \<Rightarrow> bool" where
  "sourcePath path \<longleftrightarrow> startsWith path ''/Sources/'' \<and> isReadablePath path"

definition readsInScope :: "KinicReader \<Rightarrow> as_event set \<Rightarrow> bool" where
  "readsInScope r evs \<longleftrightarrow> (\<forall>k db path. EvReadNode k db path \<in> evs \<longrightarrow> db = kr_databaseId r \<and> inScope (kr_scope r) path)"

definition readerInv :: "AsHost \<Rightarrow> KinicReader \<Rightarrow> AsState \<Rightarrow> bool" where
  "readerInv h r s \<longleftrightarrow>
     readsInScope r (set (as_log s)) \<and> list_all sourcePath (ts_sources (as_tools s)) \<and>
     list_all (grounded h (set (as_log s)) (kr_databaseId r) (kr_scope r)) (ts_evidence (as_tools s)) \<and>
     ts_characters (as_tools s) \<le> kr_maxCharacters r \<and>
     sum_list (map (\<lambda>c. length (ci_excerpt c)) (ts_evidence (as_tools s))) \<le> ts_characters (as_tools s)"

definition logGrows :: "AsState \<Rightarrow> AsState \<Rightarrow> bool" where
  "logGrows s t \<longleftrightarrow> set (as_log s) \<subseteq> set (as_log t)"

interpretation reading: action_logic "readerInv h r" logGrows for h r
  by unfold_locales (auto simp: logGrows_def)

text \<open>The tools as the invariant sees them: no assertion before, none about the result.\<close>

abbreviation keepsReader :: "AsHost \<Rightarrow> KinicReader \<Rightarrow> 'a asAct \<Rightarrow> bool" where
  "keepsReader h r m \<equiv> ensuresA (readerInv h r) logGrows (\<lambda>_. True) m (\<lambda>_ _. True)"

lemma keeps_pre: "keepsReader h r m \<Longrightarrow> ensuresA (readerInv h r) logGrows P m (\<lambda>_ _. True)"
  by (rule ensuresA_pre) auto

lemma keeps_given: "(c \<Longrightarrow> keepsReader h r m) \<Longrightarrow> ensuresA (readerInv h r) logGrows (\<lambda>_. c) m (\<lambda>_ _. True)"
  by (simp add: ensuresA_def)

subsection \<open>Calls\<close>

lemma grounded_mono: "grounded h L db sc c \<Longrightarrow> L \<subseteq> L' \<Longrightarrow> grounded h L' db sc c"
  by (auto simp: grounded_def wasRead_def)

lemma callA_keeps:
  assumes "\<And>k s. case ev k s of EvReadNode k' db path \<Rightarrow> db = kr_databaseId r \<and> inScope (kr_scope r) path | _ \<Rightarrow> True"
  shows "keepsReader h r (callA ev f)"
proof (rule ensuresA_I)
  fix s x t
  assume run: "callA ev f s = (x, t)" and inv: "readerInv h r s"
  have t: "t = s \<lparr>as_k := as_k s + 1, as_log := as_log s @ [ev (as_k s) s]\<rparr>" using run by (simp add: callA_def)
  have "grounded h (set (as_log t)) db sc c" if "grounded h (set (as_log s)) db sc c" for db sc c
    by (rule grounded_mono [OF that]) (auto simp: t)
  moreover have "readsInScope r (set (as_log t))" using inv assms [of "as_k s" s]
    by (cases "ev (as_k s) s") (auto simp: readerInv_def readsInScope_def t)
  ultimately show "readerInv h r t \<and> logGrows s t \<and> (\<forall>y. x = Inr y \<longrightarrow> True)"
    using inv by (auto simp: readerInv_def logGrows_def list_all_iff t)
qed

lemma call_keeps:
  "keepsReader h r (manifestA h' db)" "keepsReader h r (searchNodesA h' q)" "keepsReader h r (listNodesA h' db n prefix)"
  "keepsReader h r (sourceEvidenceA h' db path)" "keepsReader h r (jevA h' body)" "keepsReader h r (submitA h' body)"
  "keepsReader h r (checkpointA h')"
  unfolding call_defs checkpointA_def by (rule callA_keeps; simp)+

lemma platform_keeps: "keepsReader h r (platformA f)" "keepsReader h r getToolsA" "keepsReader h r getTurnA" "keepsReader h r (modTurnA g)"
  by (auto simp: ensuresA_def readerInv_def logGrows_def)

lemma readNodeA_keeps:
  assumes "inScope (kr_scope r) path"
  shows "ensuresA (readerInv h r) logGrows (\<lambda>_. True) (readNodeA h (kr_databaseId r) path)
    (\<lambda>result s. \<forall>node. result = Inr (Some node) \<longrightarrow> rn_path node = path \<longrightarrow> wasRead h (set (as_log s)) (kr_databaseId r) path node)"
proof (rule ensuresA_I)
  fix s x t
  assume run: "readNodeA h (kr_databaseId r) path s = (x, t)" and inv: "readerInv h r s"
  have "keepsReader h r (readNodeA h (kr_databaseId r) path)" unfolding readNodeA_def by (rule callA_keeps) (simp add: assms)
  from ensuresA_D [OF this run inv] have "readerInv h r t" "logGrows s t" by simp_all
  moreover have "wasRead h (set (as_log t)) (kr_databaseId r) path node" if "x = Inr (Inr (Some node))" "rn_path node = path" for node
    using run that by (auto simp: readNodeA_def callA_def wasRead_def settled_def split: sum.splits)
  ultimately show "readerInv h r t \<and> logGrows s t \<and> (\<forall>y. x = Inr y \<longrightarrow>
      (\<forall>node. y = Inr (Some node) \<longrightarrow> rn_path node = path \<longrightarrow> wasRead h (set (as_log t)) (kr_databaseId r) path node))" by auto
qed

lemma modTools_keeps:
  assumes "\<And>ts. ts_evidence (f ts) = ts_evidence ts \<and> ts_characters (f ts) = ts_characters ts \<and> ts_sources (f ts) = ts_sources ts"
  shows "keepsReader h r (modToolsA f)"
  using assms by (auto simp: ensuresA_def readerInv_def logGrows_def)

text \<open>Sequencing without assertions.\<close>

lemma keeps_bindA: "keepsReader h r m \<Longrightarrow> (\<And>x. keepsReader h r (f x)) \<Longrightarrow> keepsReader h r (bindA m f)"
  by (rule reading.bind)

lemma keeps_basic: "keepsReader h r (retA x)" "keepsReader h r (throwA e)" "keepsReader h r (liftR q)" "keepsReader h r (assistantError c n)"
  unfolding assistantError_def by (rule reading.ret reading.throw reading.lift; simp)+

lemma keeps_if: "keepsReader h r m \<Longrightarrow> keepsReader h r n \<Longrightarrow> keepsReader h r (if c then m else n)"
  by simp

lemma keeps_cases:
  "keepsReader h r m \<Longrightarrow> (\<And>x. keepsReader h r (f x)) \<Longrightarrow> keepsReader h r (case opt of None \<Rightarrow> m | Some x \<Rightarrow> f x)"
  "(\<And>x y. keepsReader h r (g x y)) \<Longrightarrow> keepsReader h r (case p of (x, y) \<Rightarrow> g x y)"
  "(\<And>x. keepsReader h r (f' x)) \<Longrightarrow> (\<And>y. keepsReader h r (g' y)) \<Longrightarrow> keepsReader h r (case q of Inl x \<Rightarrow> f' x | Inr y \<Rightarrow> g' y)"
  by (simp_all split: option.split prod.split sum.split)

lemma keeps_catchA: "keepsReader h r m \<Longrightarrow> (\<And>e. keepsReader h r (k e)) \<Longrightarrow> keepsReader h r (catchA m k)"
  by (rule reading.catch) auto

lemma keeps_mapA: "(\<And>x. keepsReader h r (f x)) \<Longrightarrow> keepsReader h r (mapA f xs)"
  by (rule ensuresA_post [OF reading.mapping [where G = "\<lambda>_ _. True"]]) auto

lemma keeps_attemptA: "keepsReader h r m \<Longrightarrow> keepsReader h r (attemptA m)"
  by (rule ensuresA_post [OF reading.attempt]) auto

lemma keeps_allA: "(\<And>x. keepsReader h r (f x)) \<Longrightarrow> keepsReader h r (allA f xs)"
  unfolding allA_def by (intro keeps_bindA keeps_mapA keeps_attemptA keeps_basic)

lemmas keeps = keeps_basic keeps_bindA keeps_if keeps_cases keeps_catchA keeps_mapA keeps_attemptA keeps_allA call_keeps platform_keeps

subsection \<open>Tools\<close>

lemma scope_root_inScope: "inScope scope (if scope = ScopeDatabase then ''/Knowledge'' else scopeText scope)"
  by (cases scope) (simp_all add: inScope_def isReadablePath_def unsafePathChar_def)

lemma authorize_keeps: "keepsReader h r (authorize h r)"
  unfolding authorize_def
  by (intro keeps ensuresA_post [OF readNodeA_keeps]) (rule scope_root_inScope, simp)

lemma bounded_keeps: "keepsReader h r (bounded r v)"
  by (auto simp: ensuresA_def bounded_def bindA_def Let_def assistantError_def readerInv_def logGrows_def)

lemma discover_keeps: "keepsReader h r (discover paths)"
  unfolding discover_def by (rule modTools_keeps) simp

lemma beginTool_keeps: "keepsReader h r (beginTool h r)"
  unfolding beginTool_def by (intro keeps authorize_keeps modTools_keeps) simp

lemma sourceRefs_ensures:
  "ensuresA (readerInv h r) logGrows (\<lambda>_. True) (sourceRefs h r path) (\<lambda>refs _. list_all sourcePath (map sl_path refs))"
  unfolding sourceRefs_def
  by (intro reading.bind [OF call_keeps(4)] reading.bind [where G = "\<lambda>_ _. True"] reading.lift reading.ret TrueI)
    (auto simp: list_all_iff sourcePath_def dest: in_set_takeD)

lemma addSources_ensures:
  assumes "list_all sourcePath paths"
  shows "keepsReader h r (modToolsA (\<lambda>ts. ts \<lparr>ts_sources := ts_sources ts @ paths\<rparr>))"
  using assms by (auto simp: ensuresA_def readerInv_def logGrows_def)

lemma checkPath_keeps: "keepsReader h r (checkPath r path)"
  unfolding checkPath_def by (intro keeps)

lemma rerankA_keeps: "keepsReader h r (rerankA h r question previews)"
  unfolding rerankA_def by (intro keeps)

lemma searchTree_keeps: "keepsReader h r (searchTree h r question q)"
  unfolding searchTree_def by (intro keeps)

lemma wikiQuery_keeps: "keepsReader h r (wikiQuery h r args)"
  unfolding wikiQuery_def Let_def by (intro keeps searchTree_keeps rerankA_keeps discover_keeps bounded_keeps)

lemma inventoryLoop_keeps: "readerInv h r s \<Longrightarrow> readerInv h r (snd (inventoryLoop h r w s)) \<and> logGrows s (snd (inventoryLoop h r w s))"
proof (induction h r w s rule: inventoryLoop.induct)
  case (1 h r w s)
  let ?batch = "take (batchSize w) (iw_pending w)"
  show ?case
  proof (cases "iw_pending w \<noteq> [] \<and> length (iw_visited w) < 16")
    case loop: True
    obtain x t where call: "allA (listNodesA h (kr_databaseId r) 100) ?batch s = (x, t)" by (cases "allA (listNodesA h (kr_databaseId r) 100) ?batch s")
    have "keepsReader h r (allA (listNodesA h (kr_databaseId r) 100) ?batch)" by (intro keeps)
    from ensuresA_D(1,2) [OF this call "1.prems"] have t: "readerInv h r t" "logGrows s t" by simp_all
    show ?thesis
    proof (cases x)
      case (Inl e)
      then show ?thesis using t loop call by (simp add: inventoryLoop.simps [of h r w s] Let_def)
    next
      case (Inr results)
      show ?thesis
      proof (cases "absorbBatch 100 (zip ?batch results) (w \<lparr>iw_pending := drop (batchSize w) (iw_pending w)\<rparr>)")
        case (Inl e)
        then show ?thesis using t loop call Inr by (simp add: inventoryLoop.simps [of h r w s] Let_def)
      next
        case walk: (Inr w')
        from "1.IH" [OF loop refl _ _ walk, of x t] call Inr t(1)
        have "readerInv h r (snd (inventoryLoop h r w' t)) \<and> logGrows t (snd (inventoryLoop h r w' t))" by simp
        then show ?thesis using t(2) loop call Inr walk reading.le_trans by (simp add: inventoryLoop.simps [of h r w s] Let_def)
      qed
    qed
  next
    case False
    then show ?thesis using "1.prems" reading.le_refl by (auto simp: inventoryLoop.simps [of h r w s])
  qed
qed

lemma walk_keeps: "keepsReader h r (inventoryLoop h r w)"
  using inventoryLoop_keeps by (auto simp: ensuresA_def)

lemma wikiInventory_keeps: "keepsReader h r (wikiInventory h r)"
  unfolding wikiInventory_def Let_def by (intro keeps walk_keeps discover_keeps modTools_keeps bounded_keeps) simp

lemma wikiSources_keeps: "keepsReader h r (wikiSources h r args)"
proof -
  have "ensuresA (readerInv h r) logGrows (\<lambda>_. list_all sourcePath (map sl_path refs))
      (bindA (bounded r v) (\<lambda>out. bindA (modToolsA (\<lambda>ts. ts \<lparr>ts_sources := ts_sources ts @ map sl_path refs\<rparr>)) (\<lambda>_. retA out)))
      (\<lambda>_ _. True)" for refs v
    by (rule keeps_given) (intro keeps bounded_keeps addSources_ensures)
  then show ?thesis
    unfolding wikiSources_def by (intro keeps checkPath_keeps reading.bind [OF sourceRefs_ensures])
qed

subsection \<open>Reads\<close>

text \<open>The text of a property is part of the text of its object.\<close>

lemma joinWith_length: "p \<in> set ps \<Longrightarrow> length p \<le> length (joinWith sep ps)"
  by (induction sep ps rule: joinWith.induct) auto

lemma escapeJsonChar_nonempty: "1 \<le> length (escapeJsonChar c)"
  by (simp add: escapeJsonChar_def Let_def)

lemma quoteJson_length: "length s \<le> length (quoteJson s)"
proof -
  have "length s \<le> length (concat (map escapeJsonChar s))"
  proof (induction s)
    case (Cons c s)
    then show ?case using add_mono [OF escapeJsonChar_nonempty [of c] Cons.IH] by (simp del: One_nat_def length_greater_0_conv add: Suc_eq_plus1_left)
  qed simp
  then show ?thesis by (simp add: quoteJson_def)
qed

lemma stringify_property: "(k, JStr v) \<in> set ps \<Longrightarrow> length v \<le> length (stringify (JObj ps))"
  using joinWith_length [of "quoteJson k @ '':'' @ stringify (JStr v)" "map (\<lambda>p. quoteJson (fst p) @ '':'' @ stringify (snd p)) ps" "'',''"]
    quoteJson_length [of v]
  by (force simp: image_iff)

lemma allowed_inScope: "pathAllowed r tools path \<Longrightarrow> list_all sourcePath (ts_sources tools) \<Longrightarrow> inScope (kr_scope r) path"
  by (auto simp: pathAllowed_def inScope_def list_all_iff sourcePath_def)

lemma checkPath_ensures: "ensuresA (readerInv h r) logGrows (\<lambda>_. True) (checkPath r path) (\<lambda>_ _. inScope (kr_scope r) path)"
  by (auto simp: ensuresA_def checkPath_def bindA_def assistantError_def logGrows_def readerInv_def dest: allowed_inScope)

definition inputInScope :: "KinicReader \<Rightarrow> (string \<times> nat) option \<Rightarrow> bool" where
  "inputInScope r input \<longleftrightarrow> (\<forall>path start. input = Some (path, start) \<longrightarrow> inScope (kr_scope r) path)"

lemma admitReads_ensures:
  "ensuresA (readerInv h r) logGrows (\<lambda>_. True) (admitReads h r reserved args) (\<lambda>inputs _. list_all (inputInScope r) inputs)"
proof (induction args arbitrary: reserved)
  case Nil
  show ?case unfolding admitReads.simps by (rule reading.ret) simp
next
  case (Cons v vs)
  have skip: "ensuresA (readerInv h r) logGrows (\<lambda>_. True) (bindA (admitReads h r n vs) (\<lambda>rest. retA (None # rest)))
      (\<lambda>inputs _. list_all (inputInScope r) inputs)" for n
    by (rule reading.bind [OF Cons.IH]) (rule reading.ret, simp add: inputInScope_def [of r None])
  have admit: "ensuresA (readerInv h r) logGrows (\<lambda>_. True)
      (bindA (checkPath r path) (\<lambda>_. bindA (admitReads h r n vs) (\<lambda>rest. retA (Some (path, start) # rest))))
      (\<lambda>inputs _. list_all (inputInScope r) inputs)" for n path start
  proof (rule reading.bind [OF checkPath_ensures])
    show "ensuresA (readerInv h r) logGrows (\<lambda>_. inScope (kr_scope r) path)
        (bindA (admitReads h r n vs) (\<lambda>rest. retA (Some (path, start) # rest))) (\<lambda>inputs _. list_all (inputInScope r) inputs)"
      by (rule reading.bind_frame [OF ensuresA_pre [OF Cons.IH]]) (auto intro!: reading.ret simp: inputInScope_def [of r "Some (path, start)"])
  qed
  show ?case unfolding admitReads.simps
    by (intro reading.bind [OF beginTool_keeps] reading.bind [OF platform_keeps(2)])
      (use skip admit in \<open>simp add: assistantError_def reading.throw split: option.split prod.split\<close>)
qed

definition readyRead :: "AsHost \<Rightarrow> KinicReader \<Rightarrow> fetched_read option \<Rightarrow> AsState \<Rightarrow> bool" where
  "readyRead h r y s \<longleftrightarrow> (\<forall>path start node refs. y = Some ((path, start), node, refs) \<longrightarrow>
     inScope (kr_scope r) path \<and> wasRead h (set (as_log s)) (kr_databaseId r) path node \<and> list_all sourcePath (map sl_path refs))"

lemma wasRead_stable: "stableA logGrows (\<lambda>s. wasRead h (set (as_log s)) db path node)"
  by (auto simp: stableA_def logGrows_def wasRead_def)

lemma readyRead_stable: "stableA logGrows (readyRead h r y)"
  using wasRead_stable [of h "kr_databaseId r"] unfolding stableA_def readyRead_def by blast

lemma fetchRead_ensures:
  assumes "inputInScope r input"
  shows "ensuresA (readerInv h r) logGrows (\<lambda>_. True) (fetchRead h r input) (readyRead h r)"
proof (cases input)
  case None
  then show ?thesis unfolding fetchRead_def by (auto intro!: reading.ret simp: readyRead_def)
next
  case (Some a)
  obtain path start where a: "a = (path, start)" by (cases a)
  have scope: "inScope (kr_scope r) path" using assms Some a by (simp add: inputInScope_def)
  have refs: "ensuresA (readerInv h r) logGrows (\<lambda>s. wasRead h (set (as_log s)) (kr_databaseId r) path node)
      (bindA (if c then sourceRefs h r (rn_path node) else retA []) (\<lambda>refs. retA (Some ((path, start), node, refs)))) (readyRead h r)"
    for node c
  proof (rule reading.bind_frame [OF _ wasRead_stable])
    show "ensuresA (readerInv h r) logGrows (\<lambda>s. wasRead h (set (as_log s)) (kr_databaseId r) path node)
        (if c then sourceRefs h r (rn_path node) else retA []) (\<lambda>refs _. list_all sourcePath (map sl_path refs))"
      by (cases c) (auto intro: ensuresA_pre [OF sourceRefs_ensures] reading.ret)
  qed (auto intro!: reading.ret simp: readyRead_def scope)
  have node: "ensuresA (readerInv h r) logGrows (\<lambda>s. \<forall>node. found = Some node \<longrightarrow> rn_path node = path \<longrightarrow> wasRead h (set (as_log s)) (kr_databaseId r) path node)
      (case found of None \<Rightarrow> assistantError ''node_not_found'' 404 | Some node \<Rightarrow>
         if rn_path node \<noteq> path then assistantError ''node_not_found'' 404
         else bindA (if kr_route r = Some FocusedSearch \<and> \<not> startsWith (rn_path node) ''/Sources/'' then sourceRefs h r (rn_path node) else retA [])
            (\<lambda>refs. retA (Some ((path, start), node, refs)))) (readyRead h r)" for found
  proof (cases found)
    case (Some node)
    then show ?thesis using ensuresA_pre [OF refs] by (cases "rn_path node = path") (auto simp: assistantError_def reading.throw)
  qed (simp add: assistantError_def reading.throw)
  show ?thesis unfolding fetchRead_def Some a option.case prod.case
    by (intro reading.bind [OF readNodeA_keeps [OF scope]] reading.bind [OF _ node] reading.lift)
      (auto simp: unwrap_def split: sum.splits)
qed

lemma slice_end: "sliceL start (start + length (sliceL start (start + n) xs)) xs = sliceL start (start + n) xs"
  by (simp add: sliceL_def min_def)

text \<open>A committed read appends an exact excerpt of the node, paid for by the characters of its output.\<close>

lemma commitRead_ensures:
  "ensuresA (readerInv h r) logGrows (readyRead h r (Some ((path, start), node, refs))) (commitRead h r ((path, start), node, refs)) (\<lambda>_ _. True)"
proof (rule ensuresA_I)
  fix s x t
  assume run: "commitRead h r ((path, start), node, refs) s = (x, t)" and inv: "readerInv h r s"
    and ready: "readyRead h r (Some ((path, start), node, refs)) s"
  define n where "n = min 4000 (kr_maxCharacters r - ts_characters (as_tools s) - 1500)"
  define excerpt where "excerpt = sliceL start (start + n) (rn_content node)"
  define c where "c = \<lparr>ci_id = ah_randomUUID h (as_k s), ci_databaseId = kr_databaseId r, ci_path = rn_path node, ci_excerpt = excerpt,
      ci_start = start, ci_end = start + length excerpt, ci_etag = rn_etag node, ci_retrievedAt = ah_isoNow h (as_k s + 1)\<rparr>"
  define out where "out = stringify (JObj (citationJson c @ [(''totalCharacters'', decNumber (length (rn_content node))),
      (''metadata'', JStr (take 400 (rn_metadata_json node))), (''sourceRefs'', JArr (map sourceLinkJson refs))]))"
  have paid: "length excerpt \<le> length out"
    unfolding out_def by (rule stringify_property [of "''excerpt''"]) (simp add: citationJson_def c_def)
  let ?tools = "as_tools s"
  have "commitRead h r ((path, start), node, refs) s =
      (if excerpt = [] then (Inl (AssistantError ''empty_excerpt_or_budget'' 400), s)
       else if ts_characters ?tools + length out > kr_maxCharacters r
       then (Inl (AssistantError ''context_limit'' 400), s \<lparr>as_k := as_k s + 2\<rparr>)
       else (Inr out, s \<lparr>as_k := as_k s + 2, as_tools := ?tools \<lparr>ts_characters := ts_characters ?tools + length out,
         ts_evidence := ts_evidence ?tools @ [c], ts_readPaths := ts_readPaths ?tools @ [path],
         ts_sources := ts_sources ?tools @ filter (\<lambda>p. p \<notin> set (ts_sources ?tools)) (map sl_path refs)\<rparr>\<rparr>))"
    by (simp add: commitRead_def bindA_def bounded_def assistantError_def Let_def out_def c_def excerpt_def n_def del: stringify.simps)
  with run consider "t = s" | "t = s \<lparr>as_k := as_k s + 2\<rparr>"
    | (stored) "excerpt \<noteq> []" "ts_characters ?tools + length out \<le> kr_maxCharacters r"
      "t = s \<lparr>as_k := as_k s + 2, as_tools := ?tools \<lparr>ts_characters := ts_characters ?tools + length out, ts_evidence := ts_evidence ?tools @ [c],
         ts_readPaths := ts_readPaths ?tools @ [path],
         ts_sources := ts_sources ?tools @ filter (\<lambda>p. p \<notin> set (ts_sources ?tools)) (map sl_path refs)\<rparr>\<rparr>"
    by (fastforce split: if_splits)
  then show "readerInv h r t \<and> logGrows s t \<and> (\<forall>y. x = Inr y \<longrightarrow> True)"
  proof cases
    case stored
    have facts: "inScope (kr_scope r) path" "wasRead h (set (as_log s)) (kr_databaseId r) path node" "list_all sourcePath (map sl_path refs)"
      using ready by (auto simp: readyRead_def)
    then have "rn_path node = path" by (simp add: wasRead_def)
    have "length excerpt \<le> 4000" by (simp add: excerpt_def n_def)
    moreover have "excerpt = sliceL start (start + length excerpt) (rn_content node)" by (simp add: excerpt_def slice_end del: length_sliceL)
    ultimately have "grounded h (set (as_log s)) (kr_databaseId r) (kr_scope r) c"
      using facts stored(1) \<open>rn_path node = path\<close> by (auto simp: grounded_def c_def)
    then show ?thesis using inv stored(2) paid facts(3)
      by (auto simp: readerInv_def logGrows_def stored(3) c_def list_all_iff)
  qed (use inv in \<open>auto simp: readerInv_def logGrows_def\<close>)
qed

lemma settleRead_ensures: "ensuresA (readerInv h r) logGrows (readyRead h r y) (settleRead h r skipEmpty y) (\<lambda>_ _. True)"
proof (cases y)
  case (Some a)
  obtain path start node refs where a: "a = ((path, start), node, refs)" by (metis prod.collapse)
  show ?thesis using commitRead_ensures [of h r path start node refs] by (simp add: settleRead_def Some a reading.ret)
qed (simp add: settleRead_def reading.ret)

lemma mapR_id_members: "mapR (\<lambda>r. r) rs = Inr ys \<Longrightarrow> y \<in> set ys \<Longrightarrow> Inr y \<in> set rs"
  using mapR_Inr_all [of "\<lambda>r. r" rs ys] by (fastforce simp: list_all2_conv_all_nth in_set_conv_nth)

lemma allA_ensures:
  assumes "\<And>x. x \<in> set xs \<Longrightarrow> ensuresA (readerInv h r) logGrows (\<lambda>_. True) (f x) G" and "\<And>y. stableA logGrows (G y)"
  shows "ensuresA (readerInv h r) logGrows (\<lambda>_. True) (allA f xs) (\<lambda>ys s. \<forall>y \<in> set ys. G y s)"
  unfolding allA_def
proof (rule reading.bind)
  show "ensuresA (readerInv h r) logGrows (\<lambda>_. True) (mapA (\<lambda>x. attemptA (f x)) xs) (\<lambda>rs s. \<forall>q \<in> set rs. \<forall>y. q = Inr y \<longrightarrow> G y s)"
    using assms by (intro reading.mapping reading.attempt) (auto simp: stableA_def)
  show "ensuresA (readerInv h r) logGrows (\<lambda>s. \<forall>q \<in> set rs. \<forall>y. q = Inr y \<longrightarrow> G y s) (liftR (mapR (\<lambda>r. r) rs)) (\<lambda>ys s. \<forall>y \<in> set ys. G y s)" for rs
    by (rule reading.lift) (blast dest: mapR_id_members)
qed

lemma executeReadBatch_keeps: "keepsReader h r (executeReadBatch h r skipEmpty args)"
proof -
  have settle: "ensuresA (readerInv h r) logGrows (\<lambda>s. \<forall>y \<in> set fetched. readyRead h r y s) (mapA (settleRead h r skipEmpty) fetched) (\<lambda>_ _. True)" for fetched
  proof (rule ensuresA_post [OF reading.mapping [where G = "\<lambda>_ _. True"]])
    show "ensuresA (readerInv h r) logGrows (\<lambda>s. \<forall>y \<in> set fetched. readyRead h r y s) (settleRead h r skipEmpty x) (\<lambda>_ _. True)"
      if "x \<in> set fetched" for x by (rule ensuresA_pre [OF settleRead_ensures]) (use that in blast)
  qed (auto intro: readyRead_stable)
  have fetch: "ensuresA (readerInv h r) logGrows (\<lambda>_. list_all (inputInScope r) inputs)
      (bindA (allA (fetchRead h r) inputs) (\<lambda>fetched. mapA (settleRead h r skipEmpty) fetched)) (\<lambda>_ _. True)" for inputs
    by (rule keeps_given, rule reading.bind [OF allA_ensures settle])
      (auto intro: fetchRead_ensures readyRead_stable simp: list_all_iff)
  show ?thesis unfolding executeReadBatch_def by (intro keeps reading.bind [OF admitReads_ensures fetch])
qed

lemma execute_keeps: "keepsReader h r (execute h r name args)"
  unfolding execute_def
  by (intro keeps executeReadBatch_keeps beginTool_keeps wikiQuery_keeps wikiInventory_keeps wikiSources_keeps)

end
