(* ===== verification/Assistant_Grounding.thy ===== *)
theory Assistant_Grounding
  imports Assistant_Text Assistant_Evidence
begin

section \<open>Assistant worker: answers are grounded\<close>

text \<open>
  Every operation of a turn keeps the invariant of the reader, so the citations of a published answer are
  excerpts of documents that were read for it.
\<close>

text \<open>The operations of the loop keep the invariant when the options do.\<close>

locale reading_options =
  fixes h :: AsHost and r :: KinicReader and opts :: TurnOptions
  assumes authorize_option: "keepsReader h r (to_authorize opts)"
    and active_option: "keepsReader h r (to_checkActive opts)"
    and checkpoint_option: "keepsReader h r (to_checkpoint opts)"
    and execute_option: "keepsReader h r (to_execute opts name args)"
    and batch_option: "keepsReader h r (to_executeReadBatch opts vs)"
    and prefetch_option: "keepsReader h r (to_executePrefetchBatch opts vs)"
begin

lemma push_keeps: "keepsReader h r (pushMessages ms)"
  unfolding pushMessages_def by (rule platform_keeps)

lemma finalMessage_keeps: "keepsReader h r (finalMessage opts content)"
  unfolding finalMessage_def finalValue_def
  by (intro keeps push_keeps checkpoint_option)

lemma runGroup_keeps: "keepsReader h r (runGroup opts calls)"
  unfolding runGroup_def
  by (intro keeps push_keeps checkpoint_option active_option execute_option batch_option prefetch_option)

lemma runPending_keeps: "keepsReader h r (runPending opts calls)"
  by (induction calls rule: induct_list012)
    (simp_all only: runPending.simps keeps_basic runGroup_keeps keeps_bindA keeps_if)

lemma planPrefetch_keeps: "keepsReader h r (planPrefetch h opts)"
  unfolding planPrefetch_def prefetchCall_def
  by (intro keeps push_keeps checkpoint_option)

lemma submitRound_keeps: "keepsReader h r (submitRound h opts)"
  unfolding submitRound_def submitMarked_def recordReply_def requestCompletion_def
  by (intro keeps push_keeps checkpoint_option active_option authorize_option)

lemma turnStep_keeps: "keepsReader h r (turnStep h opts)"
  unfolding turnStep_def handleMessage_def runCalls_def
  by (intro keeps active_option finalMessage_keeps runPending_keeps planPrefetch_keeps submitRound_keeps)

lemma turnLoop_keeps: "keepsReader h r (turnLoop h opts fuel)"
proof (induction fuel)
  case (Suc fuel)
  then show ?case unfolding turnLoop.simps by (intro keeps turnStep_keeps)
qed (simp only: turnLoop.simps keeps_basic)

lemma runDeepSeekTurn_keeps: "keepsReader h r (runDeepSeekTurn h opts fuel)"
  unfolding runDeepSeekTurn_def by (intro keeps turnLoop_keeps)

end

lemma context_keeps: "keepsReader h r (openReader h')" "keepsReader h r (stillValid h')"
  by (auto simp: ensuresA_def openReader_def stillValid_def readerInv_def logGrows_def)

lemma checkActiveTurn_keeps: "keepsReader h r (checkActiveTurn h' deadline)"
  unfolding checkActiveTurn_def by (intro keeps context_keeps)

interpretation text_turn: reading_options h "turnReader c" "turnOptions h c seeded" for h c seeded
  by unfold_locales
    (simp_all add: turnOptions_def Let_def keeps_bindA context_keeps checkActiveTurn_keeps authorize_keeps
      call_keeps execute_keeps executeReadBatch_keeps)

lemma seedBatch_keeps: "keepsReader h r (seedBatch h r (checkActiveTurn h' deadline) requestId offset paths)"
  unfolding seedBatch_def Let_def pushMessages_def by (intro keeps checkActiveTurn_keeps executeReadBatch_keeps)

lemma seedReads_keeps: "keepsReader h r (seedReads h r (checkActiveTurn h' deadline) requestId overview offset paths)"
proof (induction paths arbitrary: offset rule: induct_list012)
  case (3 path path' rest)
  then show ?case unfolding seedReads.simps by (intro keeps seedBatch_keeps)
qed (simp_all only: seedReads.simps keeps seedBatch_keeps)

lemma seedTextContext_keeps: "keepsReader h r (seedTextContext h r (checkActiveTurn h' deadline) requestId route subject)"
proof -
  have "keepsReader h r (seedInventory h r (checkActiveTurn h' deadline) requestId)"
    unfolding seedInventory_def pushMessages_def Let_def by (intro keeps checkActiveTurn_keeps execute_keeps)
  moreover have "keepsReader h r (pushMessages ms)" for ms unfolding pushMessages_def by (rule platform_keeps)
  ultimately show ?thesis unfolding seedTextContext_def
    by (cases route; cases subject) (simp_all only: prod.case AskAiRoute.case QuestionSubject.case keeps seedReads_keeps)
qed

lemma runTextTurn_ensures:
  "ensuresA (readerInv h (turnReader c)) logGrows (\<lambda>_. True) (runTextTurn h c fresh fuel)
     (\<lambda>result s. \<forall>a. result = Some a \<longrightarrow> set (an_citations a) \<subseteq> set (ts_evidence (as_tools s)) \<and> distinct (map ci_id (an_citations a)) \<and>
        (tt_route c \<noteq> ConversationRoute \<longrightarrow> an_insufficient a \<or> an_citations a \<noteq> []))"
proof -
  let ?G = "\<lambda>result s. \<forall>a. result = Some a \<longrightarrow> set (an_citations a) \<subseteq> set (ts_evidence (as_tools s)) \<and>
      distinct (map ci_id (an_citations a)) \<and> (tt_route c \<noteq> ConversationRoute \<longrightarrow> an_insufficient a \<or> an_citations a \<noteq> [])"
  have answer: "ensuresA (readerInv h (turnReader c)) logGrows (\<lambda>_. True)
      (bindA getToolsA (\<lambda>tools. bindA (liftR (answerSchema False v)) (\<lambda>stripped.
        bindA (liftR (validateAnswer (answerJson stripped) (ts_evidence tools) (tt_route c \<noteq> ConversationRoute))) (\<lambda>answer. retA (Some answer)))))
      ?G" for v
    by (rule ensuresA_I) (auto simp: bindA_def logGrows_def split: sum.splits dest: validateAnswer_evidence)
  have result: "ensuresA (readerInv h (turnReader c)) logGrows (\<lambda>_. True)
      (case result of None \<Rightarrow> retA None
       | Some v \<Rightarrow> bindA getToolsA (\<lambda>tools. bindA (liftR (answerSchema False v)) (\<lambda>stripped.
           bindA (liftR (validateAnswer (answerJson stripped) (ts_evidence tools) (tt_route c \<noteq> ConversationRoute))) (\<lambda>answer. retA (Some answer)))))
      ?G" for result
    by (cases result) (auto intro: reading.ret answer)
  show ?thesis unfolding runTextTurn_def
    by (intro reading.bind [OF _ result] keeps context_keeps seedTextContext_keeps text_turn.runDeepSeekTurn_keeps
        reading.bind [where G = "\<lambda>_ _. True"])
qed

text \<open>
  C21. Answers are grounded. Whatever the model, the canister and the other services answer: when a turn
  returns an answer, each of its citations is a non-empty excerpt of at most 4000 characters of a document of
  the database and the scope of the conversation, equal character for character to that range of the node the
  canister returned for the path in a call of this turn, with the revision of that node; no citation occurs
  twice, and an answer that used the wiki has a citation or says that it is insufficient. The excerpts
  held as evidence never exceed the budget of 24000 characters.
\<close>

theorem answers_grounded:
  assumes "readerInv h (turnReader c) s" and "runTextTurn h c fresh fuel s = (Inr (Some a), t)"
  shows "list_all (grounded h (set (as_log t)) (tt_databaseId c) (tt_scope c)) (an_citations a) \<and> distinct (map ci_id (an_citations a)) \<and>
    (tt_route c \<noteq> ConversationRoute \<longrightarrow> an_insufficient a \<or> an_citations a \<noteq> []) \<and>
    sum_list (map (\<lambda>e. length (ci_excerpt e)) (ts_evidence (as_tools t))) \<le> 24000"
proof -
  note run = ensuresA_D [OF runTextTurn_ensures assms(2,1) TrueI]
  have inv: "readerInv h (turnReader c) t" by (rule run(1))
  have "set (an_citations a) \<subseteq> set (ts_evidence (as_tools t))" "distinct (map ci_id (an_citations a))"
    "tt_route c \<noteq> ConversationRoute \<longrightarrow> an_insufficient a \<or> an_citations a \<noteq> []"
    using run(3) [of "Some a"] by simp_all
  with inv show ?thesis by (auto simp: readerInv_def turnReader_def DEFAULT_LIMITS_def list_all_iff subset_iff)
qed

subsection \<open>A resumed turn\<close>

definition sampleCitation :: Citation where
  "sampleCitation = \<lparr>ci_id = ''u1'', ci_databaseId = ''db'', ci_path = ''/Knowledge/a'', ci_excerpt = ''beta'', ci_start = 6, ci_end = 10,
     ci_etag = ''e1'', ci_retrievedAt = ''now''\<rparr>"

definition sampleParsed :: ParsedAnswer where
  "sampleParsed = \<lparr>pa_answer = ''b'', pa_citations = [\<lparr>ar_id = ''u1'', ar_quote = ''eta''\<rparr>], pa_insufficient = False,
     pa_contradictions = [], pa_unverified = []\<rparr>"

definition sampleResumed :: AsState where
  "sampleResumed = \<lparr>as_k = 1, as_tools = emptyToolState \<lparr>ts_evidence := [sampleCitation], ts_characters := 300\<rparr>,
     as_turn = \<lparr>dt_messages = [AssistantMessage (Some (Some (stringify (answerJson sampleParsed)))) None], dt_requesting = False,
       dt_rounds = 2, dt_inputTokens = 0, dt_outputTokens = 0, dt_whitespaceRecoveries = 0, dt_finalRepairs = 0\<rparr>,
     as_log = [EvReadNode 0 ''db'' ''/Knowledge/a'']\<rparr>"

lemma sampleResumed_inv: "readerInv sampleServices (turnReader sampleConversation) sampleResumed"
  by (simp add: readerInv_def sampleResumed_def turnReader_def sampleConversation_def readsInScope_def inScope_def isReadablePath_def
      unsafePathChar_def emptyToolState_def grounded_def wasRead_def sampleCitation_def sampleServices_def sampleNode_def sliceL_def
      DEFAULT_LIMITS_def startsWith_def)

lemma sampleParsed_text:
  "JSON_parse (stringify (answerJson sampleParsed)) = Some (answerJson sampleParsed)"
  "trim (stringify (answerJson sampleParsed)) \<noteq> []"
proof -
  show "JSON_parse (stringify (answerJson sampleParsed)) = Some (answerJson sampleParsed)"
    by (rule JSON_parse_stringify) (simp add: answerJson_def sampleParsed_def)
  show "trim (stringify (answerJson sampleParsed)) \<noteq> []" by code_simp
qed

lemma sampleParsed_schema: "answerSchema strict (answerJson sampleParsed) = Inr sampleParsed"
  by (simp add: answerSchema_def answerJson_def sampleParsed_def jget_def boundedText_def boundedArray_def answerRef_def strictKeys_def answerKeys_def)

lemma sampleResumed_answer:
  "fst (runTextTurn sampleServices sampleConversation False (Suc 0) sampleResumed) =
     Inr (Some \<lparr>an_answer = ''b'', an_citations = [sampleCitation], an_insufficient = False, an_contradictions = [], an_unverified = []\<rparr>)"
proof -
  have cited: "validateAnswer (answerJson sampleParsed) [sampleCitation] True =
      Inr \<lparr>an_answer = ''b'', an_citations = [sampleCitation], an_insufficient = False, an_contradictions = [], an_unverified = []\<rparr>"
    unfolding validateAnswer_def sampleParsed_schema
    by (simp add: sampleParsed_def citedSource_def sampleCitation_def startsWith_def uniqueById_def bindR_def)
  show ?thesis
    by (simp add: runTextTurn_def runDeepSeekTurn_def turnOptions_def sampleConversation_def sampleResumed_def sampleServices_def openReader_def
        bindA_def checkActiveTurn_def stillValid_def turnStep_def handleMessage_def finalMessage_def finalValue_def lastIs_def sampleParsed_text sampleParsed_schema
        bindR_def emptyToolState_def cited Let_def del: stringify.simps)
qed

theorem answers_grounded_witness:
  "grounded sampleServices (set (as_log (snd (runTextTurn sampleServices sampleConversation False (Suc 0) sampleResumed)))) ''db'' ScopeKnowledge sampleCitation"
proof -
  have "runTextTurn sampleServices sampleConversation False (Suc 0) sampleResumed =
      (Inr (Some \<lparr>an_answer = ''b'', an_citations = [sampleCitation], an_insufficient = False, an_contradictions = [], an_unverified = []\<rparr>),
       snd (runTextTurn sampleServices sampleConversation False (Suc 0) sampleResumed))"
    by (simp add: prod_eq_iff sampleResumed_answer)
  from answers_grounded [OF sampleResumed_inv this] show ?thesis by (simp add: sampleConversation_def)
qed



end
