(* ===== verification/Assistant_Submissions.thy ===== *)
theory Assistant_Submissions
  imports Assistant_Text "HOL-Library.Sublist"
begin

section \<open>Assistant worker: submissions to the model\<close>

text \<open>
  Each submission is preceded by its own checkpoint with the \<open>requesting\<close> mark, a turn that carries the mark is
  never submitted again, and the loop ends: it submits at most thirteen times and plans reads at most once.
\<close>

subsection \<open>What an action does to the turn\<close>

text \<open>\<open>fencedLog armed evs\<close>: a submission comes after a marked checkpoint and before any other submission.\<close>

fun fencedLog :: "bool \<Rightarrow> as_event list \<Rightarrow> bool" where
  "fencedLog armed [] = True"
| "fencedLog armed (EvCheckpoint k turn # evs) = fencedLog (dt_requesting turn) evs"
| "fencedLog armed (EvSubmit k body # evs) \<longleftrightarrow> armed \<and> fencedLog False evs"
| "fencedLog armed (ev # evs) = fencedLog armed evs"

fun isSubmit :: "as_event \<Rightarrow> bool" where
  "isSubmit (EvSubmit k body) = True"
| "isSubmit _ = False"

fun isCheckpoint :: "as_event \<Rightarrow> bool" where
  "isCheckpoint (EvCheckpoint k turn) = True"
| "isCheckpoint _ = False"

definition submissions :: "as_event list \<Rightarrow> nat" where
  "submissions evs = length (filter isSubmit evs)"

lemma fencedLog_armed: "fencedLog False evs \<Longrightarrow> fencedLog armed evs"
  by (induction armed evs rule: fencedLog.induct) auto

lemma fencedLog_append: "fencedLog armed evs \<Longrightarrow> fencedLog False evs' \<Longrightarrow> fencedLog armed (evs @ evs')"
  by (induction armed evs rule: fencedLog.induct) (auto intro: fencedLog_armed)

lemma fencedLog_quiet: "\<not> list_ex isSubmit evs \<Longrightarrow> fencedLog armed evs"
  by (induction armed evs rule: fencedLog.induct) auto

text \<open>
  \<open>turnMoves\<close>: the log is extended by fenced events, the messages by further messages, and every submission
  is counted by a round.
\<close>

definition turnMoves :: "AsState \<Rightarrow> AsState \<Rightarrow> bool" where
  "turnMoves s t \<longleftrightarrow> (\<exists>evs. as_log t = as_log s @ evs \<and> fencedLog False evs \<and>
     dt_rounds (as_turn s) + submissions evs \<le> dt_rounds (as_turn t)) \<and>
     dt_rounds (as_turn t) \<le> max 13 (dt_rounds (as_turn s)) \<and>
     prefix (dt_messages (as_turn s)) (dt_messages (as_turn t))"

interpretation turning: preorder_moves turnMoves
proof unfold_locales
  fix s t u
  show "turnMoves s s" by (simp add: turnMoves_def submissions_def exI [of _ "[]"])
  assume "turnMoves s t" "turnMoves t u"
  then obtain evs evs' where
    "as_log t = as_log s @ evs" "fencedLog False evs" "dt_rounds (as_turn s) + submissions evs \<le> dt_rounds (as_turn t)"
    "as_log u = as_log t @ evs'" "fencedLog False evs'" "dt_rounds (as_turn t) + submissions evs' \<le> dt_rounds (as_turn u)"
    and rest: "dt_rounds (as_turn t) \<le> max 13 (dt_rounds (as_turn s))" "dt_rounds (as_turn u) \<le> max 13 (dt_rounds (as_turn t))"
    "prefix (dt_messages (as_turn s)) (dt_messages (as_turn t))" "prefix (dt_messages (as_turn t)) (dt_messages (as_turn u))"
    unfolding turnMoves_def by blast
  then have "as_log u = as_log s @ (evs @ evs') \<and> fencedLog False (evs @ evs') \<and> dt_rounds (as_turn s) + submissions (evs @ evs') \<le> dt_rounds (as_turn u)"
    by (simp add: fencedLog_append submissions_def)
  then show "turnMoves s u" unfolding turnMoves_def using rest prefix_order.order_trans by fastforce
qed

text \<open>Actions that leave the turn alone and submit nothing.\<close>

definition quietStep :: "AsState \<Rightarrow> AsState \<Rightarrow> bool" where
  "quietStep s t \<longleftrightarrow> as_turn t = as_turn s \<and> (\<exists>evs. as_log t = as_log s @ evs \<and> \<not> list_ex isSubmit evs \<and> \<not> list_ex isCheckpoint evs)"

interpretation quiet: preorder_moves quietStep
proof unfold_locales
  fix s t u
  show "quietStep s s" by (simp add: quietStep_def exI [of _ "[]"])
  show "quietStep s t \<Longrightarrow> quietStep t u \<Longrightarrow> quietStep s u" by (auto simp: quietStep_def)
qed

lemma quiet_turnMoves: "quietStep s t \<Longrightarrow> turnMoves s t"
proof -
  assume "quietStep s t"
  then obtain evs where evs: "as_turn t = as_turn s" "as_log t = as_log s @ evs" "\<not> list_ex isSubmit evs" by (auto simp: quietStep_def)
  then have "submissions evs = 0" by (simp add: submissions_def list_ex_iff filter_empty_conv)
  then show ?thesis unfolding turnMoves_def using evs fencedLog_quiet [OF evs(3)] by simp
qed

lemma quiet_moves: "movesA quietStep m \<Longrightarrow> movesA turnMoves m"
  by (simp add: movesA_def quiet_turnMoves)

lemma callA_quiet: "(\<And>k s. \<not> isSubmit (ev k s) \<and> \<not> isCheckpoint (ev k s)) \<Longrightarrow> movesA quietStep (callA ev f)"
  by (simp add: movesA_def callA_def quietStep_def)

lemma primitive_quiet:
  "movesA quietStep (platformA f)" "movesA quietStep getToolsA" "movesA quietStep (modToolsA g)" "movesA quietStep getTurnA"
  "movesA quietStep (openReader h)" "movesA quietStep (stillValid h)" "movesA quietStep (assistantError code n)"
  by (simp_all add: movesA_def quietStep_def openReader_def stillValid_def assistantError_def)

lemma calls_quiet:
  "movesA quietStep (readNodeA h db path)" "movesA quietStep (searchNodesA h q)" "movesA quietStep (listNodesA h db n dir)"
  "movesA quietStep (sourceEvidenceA h db path)" "movesA quietStep (jevA h body)"
  unfolding call_defs by (rule callA_quiet; simp)+

lemma allA_quiet: "(\<And>x. movesA quietStep (f x)) \<Longrightarrow> movesA quietStep (allA f xs)"
  unfolding allA_def by (intro quiet.moves quiet.moves_mapA moves_attemptA)

lemma prod_quiet: "(\<And>x y. movesA quietStep (f x y)) \<Longrightarrow> movesA quietStep (case p of (x, y) \<Rightarrow> f x y)"
  by (cases p) simp

lemmas quiets = quiet.moves quiet.moves_mapA prod_quiet allA_quiet primitive_quiet calls_quiet

subsection \<open>The reader\<close>

lemma authorize_quiet: "movesA quietStep (authorize h r)"
  unfolding authorize_def by (intro quiets)

lemma bounded_quiet: "movesA quietStep (bounded r v)"
  unfolding bounded_def Let_def by (intro quiets)

lemma beginTool_quiet: "movesA quietStep (beginTool h r)"
  unfolding beginTool_def by (intro quiets authorize_quiet)

lemma sourceRefs_quiet: "movesA quietStep (sourceRefs h r path)"
  unfolding sourceRefs_def by (intro quiets)

lemma checkPath_quiet: "movesA quietStep (checkPath r path)"
  unfolding checkPath_def by (intro quiets)

lemma wikiQuery_quiet: "movesA quietStep (wikiQuery h r args)"
  unfolding wikiQuery_def searchTree_def rerankA_def discover_def Let_def by (intro quiets bounded_quiet)

lemma inventoryLoop_quiet: "quietStep s (snd (inventoryLoop h r w s))"
proof (induction h r w s rule: inventoryLoop.induct)
  case (1 h r w s)
  let ?batch = "take (batchSize w) (iw_pending w)"
  obtain x t where call: "allA (listNodesA h (kr_databaseId r) 100) ?batch s = (x, t)" by (cases "allA (listNodesA h (kr_databaseId r) 100) ?batch s")
  have "movesA quietStep (allA (listNodesA h (kr_databaseId r) 100) ?batch)" by (intro quiets)
  then have t: "quietStep s t" using call by (rule movesA_D)
  have rest: "quietStep s (snd (inventoryLoop h r w' t))"
    if "iw_pending w \<noteq> [] \<and> length (iw_visited w) < 16" "x = Inr results"
      "absorbBatch 100 (zip ?batch results) (w \<lparr>iw_pending := drop (batchSize w) (iw_pending w)\<rparr>) = Inr w'" for results w'
    using quiet.R_trans [OF t "1.IH" [OF that(1) refl _ that(2,3)]] call by simp
  show ?case using t rest call quiet.R_refl
    by (auto simp: inventoryLoop.simps [of h r w s] Let_def split: sum.splits)
qed

lemma wikiInventory_quiet: "movesA quietStep (wikiInventory h r)"
proof -
  have "movesA quietStep (inventoryLoop h r w)" for w by (rule movesA_I) (rule inventoryLoop_quiet)
  then show ?thesis unfolding wikiInventory_def discover_def Let_def by (intro quiets bounded_quiet)
qed

lemma wikiSources_quiet: "movesA quietStep (wikiSources h r args)"
  unfolding wikiSources_def by (intro quiets checkPath_quiet sourceRefs_quiet bounded_quiet)

lemma admitReads_quiet: "movesA quietStep (admitReads h r n args)"
proof (induction args arbitrary: n)
  case (Cons v vs)
  then show ?case unfolding admitReads.simps by (intro quiets beginTool_quiet checkPath_quiet)
qed (simp only: admitReads.simps quiets)

lemma commitRead_quiet: "movesA quietStep (commitRead h r x)"
proof -
  obtain path start node refs where x: "x = ((path, start), node, refs)" by (metis prod.collapse)
  show ?thesis unfolding commitRead_def x prod.case Let_def by (intro quiets bounded_quiet)
qed

lemma executeReadBatch_quiet: "movesA quietStep (executeReadBatch h r skipEmpty args)"
  unfolding executeReadBatch_def fetchRead_def settleRead_def
  by (intro quiets admitReads_quiet sourceRefs_quiet commitRead_quiet)

lemma execute_quiet: "movesA quietStep (execute h r name args)"
  unfolding execute_def
  by (intro quiets executeReadBatch_quiet beginTool_quiet wikiQuery_quiet wikiInventory_quiet wikiSources_quiet)

lemma checkActiveTurn_quiet: "movesA quietStep (checkActiveTurn h deadline)"
  unfolding checkActiveTurn_def by (intro quiets)

subsection \<open>The loop\<close>

lemma pushMessages_moves: "movesA turnMoves (pushMessages ms)"
  by (simp add: movesA_def pushMessages_def turnMoves_def submissions_def exI [of _ "[]"])

lemma modTurn_moves:
  "(\<And>t. dt_rounds (f t) = dt_rounds t \<and> dt_messages (f t) = dt_messages t) \<Longrightarrow> movesA turnMoves (modTurnA f)"
  by (simp add: movesA_def turnMoves_def submissions_def exI [of _ "[]"])

lemma checkpoint_moves: "movesA turnMoves (checkpointA h)"
  by (simp add: movesA_def checkpointA_def callA_def turnMoves_def submissions_def exI [of _ "[_]"])

text \<open>
  \<open>armedMoves\<close>: as \<open>turnMoves\<close>, with one submission that an earlier round already counted; \<open>armed\<close> says whether it
  may come before the next checkpoint.
\<close>

definition armedMoves :: "bool \<Rightarrow> AsState \<Rightarrow> AsState \<Rightarrow> bool" where
  "armedMoves armed s t \<longleftrightarrow> (\<exists>evs. as_log t = as_log s @ evs \<and> fencedLog armed evs \<and>
     dt_rounds (as_turn s) + submissions evs \<le> dt_rounds (as_turn t) + 1) \<and>
     dt_rounds (as_turn s) \<le> dt_rounds (as_turn t) \<and> dt_rounds (as_turn t) \<le> max 13 (dt_rounds (as_turn s)) \<and>
     prefix (dt_messages (as_turn s)) (dt_messages (as_turn t))"

lemma armedMoves_refl: "armedMoves armed s s"
  by (simp add: armedMoves_def submissions_def exI [of _ "[]"])

lemma fencedLog_skip: "\<not> list_ex isSubmit evs \<Longrightarrow> \<not> list_ex isCheckpoint evs \<Longrightarrow> fencedLog armed (evs @ evs') = fencedLog armed evs'"
  by (induction armed evs rule: fencedLog.induct) auto

lemma turnMoves_armed: "turnMoves s t \<Longrightarrow> armedMoves True s t"
  unfolding turnMoves_def armedMoves_def by (fastforce intro: fencedLog_armed)

lemma quiet_before_armed:
  assumes "quietStep s u" and "armedMoves armed u t"
  shows "armedMoves armed s t"
proof -
  from assms(1) obtain q where q: "as_turn u = as_turn s" "as_log u = as_log s @ q" "\<not> list_ex isSubmit q" "\<not> list_ex isCheckpoint q"
    by (auto simp: quietStep_def)
  then have "submissions (q @ evs) = submissions evs" for evs by (simp add: submissions_def list_ex_iff filter_empty_conv)
  with assms(2) q fencedLog_skip [OF q(3,4)] show ?thesis unfolding armedMoves_def by fastforce
qed

lemma quiet_armed:
  assumes "movesA quietStep m" and "\<And>x. movesA (armedMoves armed) (f x)"
  shows "movesA (armedMoves armed) (bindA m f)"
proof (rule movesA_I)
  fix s
  obtain r u where m: "m s = (r, u)" by (cases "m s")
  then have "quietStep s u" using assms(1) by (rule movesA_D [rotated])
  moreover have "armedMoves armed u (snd (bindA m f s))"
    using assms(2) m armedMoves_refl by (cases r) (auto simp: bindA_step movesA_def)
  ultimately show "armedMoves armed s (snd (bindA m f s))" by (rule quiet_before_armed)
qed

lemma submitted:
  assumes "\<And>x. movesA turnMoves (f x)"
  shows "movesA (armedMoves True) (bindA (submitA h body) f)"
proof (rule movesA_I)
  fix s :: AsState
  define u where "u = s \<lparr>as_k := as_k s + 1, as_log := as_log s @ [EvSubmit (as_k s) body]\<rparr>"
  have run: "bindA (submitA h body) f s = f (ah_complete h (as_k s) body) u" by (simp add: bindA_def submitA_def callA_def u_def)
  have "turnMoves u (snd (f (ah_complete h (as_k s) body) u))" using assms by (simp add: movesA_def)
  then obtain evs where evs: "as_log (snd (f (ah_complete h (as_k s) body) u)) = as_log u @ evs" "fencedLog False evs"
    "dt_rounds (as_turn u) + submissions evs \<le> dt_rounds (as_turn (snd (f (ah_complete h (as_k s) body) u)))"
    and rest: "dt_rounds (as_turn (snd (f (ah_complete h (as_k s) body) u))) \<le> max 13 (dt_rounds (as_turn u))"
    "prefix (dt_messages (as_turn u)) (dt_messages (as_turn (snd (f (ah_complete h (as_k s) body) u))))"
    unfolding turnMoves_def by blast
  then show "armedMoves True s (snd (bindA (submitA h body) f s))"
    unfolding armedMoves_def run by (intro conjI exI [of _ "EvSubmit (as_k s) body # evs"]) (simp_all add: u_def submissions_def)
qed

lemma checkpoint_armed:
  assumes "\<And>x. movesA (armedMoves True) (f x)" and "dt_requesting (as_turn s)"
  shows "armedMoves False s (snd (bindA (checkpointA h) f s))"
proof -
  define u where "u = s \<lparr>as_k := as_k s + 1, as_log := as_log s @ [EvCheckpoint (as_k s) (as_turn s)]\<rparr>"
  obtain r where run: "checkpointA h s = (r, u)" by (simp add: checkpointA_def callA_def u_def)
  have "armedMoves True u (snd (bindA (checkpointA h) f s))"
    using assms(1) run armedMoves_refl by (cases r) (auto simp: bindA_step movesA_def)
  then obtain evs where "as_log (snd (bindA (checkpointA h) f s)) = as_log u @ evs" "fencedLog True evs"
    "dt_rounds (as_turn u) + submissions evs \<le> dt_rounds (as_turn (snd (bindA (checkpointA h) f s))) + 1"
    and "dt_rounds (as_turn u) \<le> dt_rounds (as_turn (snd (bindA (checkpointA h) f s)))"
    "dt_rounds (as_turn (snd (bindA (checkpointA h) f s))) \<le> max 13 (dt_rounds (as_turn u))"
    "prefix (dt_messages (as_turn u)) (dt_messages (as_turn (snd (bindA (checkpointA h) f s))))"
    unfolding armedMoves_def by blast
  then show ?thesis using assms(2)
    unfolding armedMoves_def by (intro conjI exI [of _ "EvCheckpoint (as_k s) (as_turn s) # evs"]) (simp_all add: u_def submissions_def)
qed

lemma bindA_assoc: "bindA (bindA m f) g = bindA m (\<lambda>x. bindA (f x) g)"
  by (rule ext) (simp add: bindA_def split: prod.split sum.split)

text \<open>The loop moves the turn when its options leave it alone.\<close>

locale quiet_options =
  fixes opts :: TurnOptions and h :: AsHost
  assumes authorize_option: "movesA quietStep (to_authorize opts)"
    and active_option: "movesA quietStep (to_checkActive opts)"
    and checkpoint_option: "to_checkpoint opts = checkpointA h"
    and execute_option: "movesA quietStep (to_execute opts name args)"
    and batch_option: "movesA quietStep (to_executeReadBatch opts vs)"
    and prefetch_option: "movesA quietStep (to_executePrefetchBatch opts vs)"
begin

lemmas option_moves = quiet_moves [OF authorize_option] quiet_moves [OF active_option] quiet_moves [OF execute_option]
  quiet_moves [OF batch_option] quiet_moves [OF prefetch_option] checkpoint_moves quiet_moves [OF primitive_quiet(1)]
  quiet_moves [OF primitive_quiet(2)] quiet_moves [OF primitive_quiet(4)] quiet_moves [OF primitive_quiet(7)]

lemma finalMessage_moves: "movesA turnMoves (finalMessage opts content)"
  unfolding finalMessage_def finalValue_def checkpoint_option
  by (intro turning.moves option_moves pushMessages_moves modTurn_moves) simp_all

lemma runGroup_moves: "movesA turnMoves (runGroup opts calls)"
  unfolding runGroup_def checkpoint_option by (intro turning.moves option_moves pushMessages_moves)

lemma runPending_moves: "movesA turnMoves (runPending opts calls)"
  by (induction calls rule: induct_list012)
    (simp_all only: runPending.simps turning.moves_basic runGroup_moves turning.moves_bindA turning.moves_if)

lemma planPrefetch_moves: "movesA turnMoves (planPrefetch h opts)"
  unfolding planPrefetch_def prefetchCall_def checkpoint_option
  by (intro turning.moves turning.moves_mapA option_moves pushMessages_moves)

text \<open>
  After the marked checkpoint one submission may follow before the next checkpoint; it is the one the round was
  counted for.
\<close>

lemma recordReply_moves: "movesA turnMoves (recordReply opts messages reply)"
proof -
  obtain m i n where reply: "reply = (m, i, n)" by (metis prod.collapse)
  show ?thesis unfolding recordReply_def reply prod.case checkpoint_option
    by (intro turning.moves option_moves pushMessages_moves modTurn_moves) simp
qed

lemma requestCompletion_armed:
  "movesA (armedMoves True) (bindA (requestCompletion h' opts can messages) (\<lambda>reply. recordReply opts messages' reply))"
proof -
  have sent: "movesA (armedMoves True) (bindA (submitA h' body) (\<lambda>reply. bindA (liftR (completionOutcome h' reply)) (\<lambda>x. recordReply opts messages' x)))" for body
  proof (rule submitted)
    show "movesA turnMoves (bindA (liftR (completionOutcome h' reply)) (\<lambda>x. recordReply opts messages' x))" for reply
      by (intro turning.moves recordReply_moves)
  qed
  have "movesA (armedMoves True) (bindA (platformA (ah_now h')) (\<lambda>now.
      bindA (if to_deadline opts \<le> now then assistantError ''turn_timeout'' 502
             else bindA (submitA h' (completionBody (to_scope opts) (to_route opts) can messages)) (\<lambda>reply. liftR (completionOutcome h' reply)))
        (\<lambda>reply. recordReply opts messages' reply)))"
    by (rule quiet_armed [OF primitive_quiet(1)])
      (use sent in \<open>simp add: assistantError_def bindA_assoc movesA_def armedMoves_refl\<close>)
  then show ?thesis unfolding requestCompletion_def by (simp only: bindA_assoc)
qed

lemma submitMarked_moves:
  "dt_rounds (as_turn s) < 13 \<Longrightarrow> turnMoves s (snd (submitMarked h opts s)) \<and> dt_rounds (as_turn s) < dt_rounds (as_turn (snd (submitMarked h opts s)))"
proof -
  assume few: "dt_rounds (as_turn s) < 13"
  define u where "u = s \<lparr>as_turn := as_turn s \<lparr>dt_requesting := True, dt_rounds := dt_rounds (as_turn s) + 1\<rparr>\<rparr>"
  let ?rest = "\<lambda>_ :: unit. bindA (to_checkActive opts) (\<lambda>_. bindA getTurnA (\<lambda>turn. bindA getToolsA (\<lambda>tools.
      bindA (requestCompletion h opts (\<not> (dt_messages turn \<noteq> [] \<and> messageContent (last (dt_messages turn)) = Some finalRepairPrompt) \<and>
          to_canUseTools opts tools) (dt_messages turn)) (\<lambda>reply. recordReply opts (dt_messages turn) reply))))"
  have "movesA (armedMoves True) (?rest x)" for x
    by (intro quiet_armed active_option primitive_quiet requestCompletion_armed)
  then have "armedMoves False u (snd (bindA (checkpointA h) ?rest u))"
    by (rule checkpoint_armed) (simp add: u_def)
  moreover have "submitMarked h opts s = bindA (checkpointA h) ?rest u"
    unfolding submitMarked_def checkpoint_option by (simp add: bindA_def [of "modTurnA _"] u_def)
  ultimately show ?thesis using few by (auto simp: armedMoves_def turnMoves_def u_def max_def split: if_splits)
qed

lemma submitRound_moves: "movesA turnMoves (submitRound h opts)"
  and submitRound_counts: "submitRound h opts s = (Inr x, t) \<Longrightarrow> dt_rounds (as_turn s) < 13 \<and> dt_rounds (as_turn s) < dt_rounds (as_turn t)"
proof -
  have run: "turnMoves s (snd (submitRound h opts s)) \<and>
      (\<forall>x. fst (submitRound h opts s) = Inr x \<longrightarrow>
         dt_rounds (as_turn s) < 13 \<and> dt_rounds (as_turn s) < dt_rounds (as_turn (snd (submitRound h opts s))))" for s
  proof (cases "dt_rounds (as_turn s) \<ge> 13")
    case True
    then show ?thesis using turning.R_refl by (simp add: submitRound_def bindA_def assistantError_def)
  next
    case False
    obtain r u where auth: "to_authorize opts s = (r, u)" by (cases "to_authorize opts s")
    have u: "quietStep s u" by (rule movesA_D [OF authorize_option auth])
    then have same: "as_turn u = as_turn s" by (simp add: quietStep_def)
    show ?thesis
    proof (cases r)
      case (Inl e)
      then show ?thesis using False auth quiet_turnMoves [OF u] by (simp add: submitRound_def bindA_def)
    next
      case (Inr y)
      then have "submitRound h opts s = submitMarked h opts u" using False auth by (simp add: submitRound_def bindA_def)
      moreover have "turnMoves u (snd (submitMarked h opts u)) \<and> dt_rounds (as_turn u) < dt_rounds (as_turn (snd (submitMarked h opts u)))"
        by (rule submitMarked_moves) (use False same in simp)
      ultimately show ?thesis using same False turning.R_trans [OF quiet_turnMoves [OF u]] by simp
    qed
  qed
  then show "movesA turnMoves (submitRound h opts)" by (auto intro: movesA_I)
  show "submitRound h opts s = (Inr x, t) \<Longrightarrow> dt_rounds (as_turn s) < 13 \<and> dt_rounds (as_turn s) < dt_rounds (as_turn t)"
    using run [of s] by simp
qed

end

subsection \<open>The loop ends\<close>

definition planned :: "ChatMessage list \<Rightarrow> bool" where
  "planned messages \<longleftrightarrow> list_ex (\<lambda>m. list_ex (\<lambda>c. startsWith (tc_id c) ''prefetch-read-'') (callsOf m)) messages"

definition loopCost :: "AsState \<Rightarrow> nat" where
  "loopCost s = 2 * (13 - dt_rounds (as_turn s)) + (if planned (dt_messages (as_turn s)) then 0 else 1)"

lemma turnMoves_cost: "turnMoves s t \<Longrightarrow> loopCost t \<le> loopCost s"
  by (auto simp: turnMoves_def loopCost_def planned_def prefix_def)

lemma prefetchCall_ids: "mapA (prefetchCall h) reads s = (Inr calls, t) \<Longrightarrow> length calls = length reads \<and> list_all (\<lambda>c. startsWith (tc_id c) ''prefetch-read-'') calls"
  by (induction reads arbitrary: s calls t) (auto simp: prefetchCall_def bindA_def startsWith_def split: prod.splits sum.splits)

lemma prefetchCalls_quiet: "movesA quietStep (mapA (prefetchCall h) reads)"
  unfolding prefetchCall_def by (intro quiets)

locale planning_options = quiet_options +
  assumes plans_once: "to_prefetchReads opts = Some plan \<Longrightarrow> planned messages \<Longrightarrow> plan messages tools = Inr reads \<Longrightarrow> reads = []"
begin

lemma planPrefetch_progress:
  assumes "planPrefetch h' opts s = (Inr True, t)"
  shows "loopCost t < loopCost s"
proof -
  let ?plan = "case to_prefetchReads opts of None \<Rightarrow> Inr [] | Some plan \<Rightarrow> plan (dt_messages (as_turn s)) (as_tools s)"
  from assms obtain reads where reads: "?plan = Inr reads" "reads \<noteq> []"
    by (cases ?plan) (auto simp: planPrefetch_def bindA_def split: if_splits)
  with assms obtain calls u where calls: "mapA (prefetchCall h') reads s = (Inr calls, u)"
    by (cases "mapA (prefetchCall h') reads s"; cases "fst (mapA (prefetchCall h') reads s)") (auto simp: planPrefetch_def bindA_def)
  have same: "as_turn u = as_turn s" using movesA_D [OF prefetchCalls_quiet calls] by (simp add: quietStep_def)
  have fresh: "\<not> planned (dt_messages (as_turn s))" using plans_once reads by (auto split: option.splits)
  have "as_turn t = as_turn s \<lparr>dt_messages := dt_messages (as_turn s) @ [AssistantMessage (Some None) (Some calls)]\<rparr>"
    using assms reads calls same by (auto simp: planPrefetch_def bindA_def pushMessages_def checkpoint_option checkpointA_def callA_def split: sum.splits)
  moreover have "calls \<noteq> []" "list_all (\<lambda>c. startsWith (tc_id c) ''prefetch-read-'') calls"
    using prefetchCall_ids [OF calls] reads(2) by auto
  then have "planned (dt_messages (as_turn s) @ [AssistantMessage (Some None) (Some calls)])" by (cases calls) (auto simp: planned_def)
  ultimately show ?thesis using fresh by (simp add: loopCost_def)
qed

lemma submitRound_progress: "submitRound h opts s = (Inr x, t) \<Longrightarrow> loopCost t < loopCost s"
  using submitRound_counts [of s x t] movesA_D [OF submitRound_moves, of s "Inr x" t]
  by (auto simp: loopCost_def turnMoves_def planned_def prefix_def)

lemma turnStep_moves: "movesA turnMoves (turnStep h opts)"
  unfolding turnStep_def handleMessage_def runCalls_def
  by (intro turning.moves option_moves finalMessage_moves runPending_moves planPrefetch_moves submitRound_moves)

text \<open>An action whose continuation returned leaves a state that costs no more.\<close>

lemma cost_bindA:
  assumes "bindA m f s = (Inr y, t)" and "movesA turnMoves m"
  obtains x u where "m s = (Inr x, u)" and "f x u = (Inr y, t)" and "loopCost u \<le> loopCost s"
  using assms by (elim bindA_Inr_E) (metis movesA_D turnMoves_cost)

lemma submitted_progress: "bindA (submitRound h opts) (\<lambda>_. retA z) s = (Inr y, t) \<Longrightarrow> loopCost t < loopCost s"
  by (elim bindA_Inr_E) (auto dest: submitRound_progress)

lemma runCalls_progress:
  assumes "runCalls h opts messages m s = (Inr (None :: json option), t)"
  shows "loopCost t < loopCost s"
proof -
  from assms obtain x u where u: "loopCost u \<le> loopCost s" and
    "bindA (planPrefetch h opts) (\<lambda>planned. if planned then retA None else bindA (submitRound h opts) (\<lambda>_. retA None)) u = (Inr (None :: json option), t)"
    unfolding runCalls_def by (rule cost_bindA [OF _ runPending_moves]) (rule that)
  from this(2) obtain p v where plan: "planPrefetch h opts u = (Inr p, v)" "loopCost v \<le> loopCost u" and
    rest: "(if p then retA None else bindA (submitRound h opts) (\<lambda>_. retA None)) v = (Inr (None :: json option), t)"
    by (rule cost_bindA [OF _ planPrefetch_moves]) (rule that)
  have "loopCost t < loopCost u"
  proof (cases p)
    case True
    with plan rest show ?thesis using planPrefetch_progress [of h u v] by simp
  next
    case False
    with plan rest submitted_progress [of "None :: json option" v None t] show ?thesis by simp
  qed
  with u show ?thesis by simp
qed

lemma handleMessage_progress:
  assumes "handleMessage h opts messages m s = (Inr (None :: json option), t)"
  shows "loopCost t < loopCost s"
proof -
  have moves: "movesA turnMoves (if callsOf m = [] then finalMessage opts (messageContent m) else retA None)"
    by (intro turning.moves finalMessage_moves)
  from assms obtain r u where u: "loopCost u \<le> loopCost s" and
    "(case r of Some v \<Rightarrow> retA (Some v) | None \<Rightarrow> runCalls h opts messages m) u = (Inr (None :: json option), t)"
    unfolding handleMessage_def by (rule cost_bindA [OF _ moves]) (rule that)
  then show ?thesis using runCalls_progress [of messages m u t] by (cases r) auto
qed

lemma turnStep_progress:
  assumes "turnStep h opts s = (Inr (None :: json option), t)"
  shows "loopCost t < loopCost s"
proof -
  let ?rest = "\<lambda>turn. case find isAssistant (rev (dt_messages turn)) of None \<Rightarrow> bindA (submitRound h opts) (\<lambda>_. retA None)
      | Some m \<Rightarrow> handleMessage h opts (dt_messages turn) m"
  from assms obtain x u where u: "loopCost u \<le> loopCost s" and
    timed: "bindA (platformA (ah_now h)) (\<lambda>now. if to_deadline opts \<le> now then assistantError ''turn_timeout'' 502 else
       bindA getTurnA ?rest) u = (Inr (None :: json option), t)"
    unfolding turnStep_def by (rule cost_bindA [OF _ option_moves(2)]) (rule that)
  from timed obtain now v where v: "loopCost v \<le> loopCost u" and
    "(if to_deadline opts \<le> now then assistantError ''turn_timeout'' 502 else bindA getTurnA ?rest) v = (Inr (None :: json option), t)"
    by (rule cost_bindA [OF _ option_moves(7)]) (rule that)
  then have "?rest (as_turn v) v = (Inr (None :: json option), t)" by (auto simp: assistantError_def bindA_def [of getTurnA] split: if_splits)
  then have "loopCost t < loopCost v"
    using submitted_progress [of "None :: json option" v None t] handleMessage_progress [of _ _ v t] by (auto split: option.splits)
  with u v show ?thesis by simp
qed

lemma turnLoop_returns: "loopCost s < fuel \<Longrightarrow> fst (turnLoop h opts fuel s) \<noteq> Inr None"
proof (induction fuel arbitrary: s)
  case (Suc fuel)
  obtain r t where step: "turnStep h opts s = (r, t)" by (cases "turnStep h opts s")
  show ?case
  proof (cases r)
    case (Inr v)
    with step Suc turnStep_progress [of s t] show ?thesis by (cases v) (simp_all add: bindA_step)
  qed (use step in \<open>simp add: bindA_step\<close>)
qed simp

lemma turnLoop_moves: "movesA turnMoves (turnLoop h opts fuel)"
proof (induction fuel)
  case (Suc fuel)
  then show ?case unfolding turnLoop.simps by (intro turning.moves turnStep_moves)
qed (simp only: turnLoop.simps turning.moves_basic)

lemma runDeepSeekTurn_moves: "movesA turnMoves (runDeepSeekTurn h opts fuel)"
  unfolding runDeepSeekTurn_def by (intro turning.moves turnLoop_moves option_moves)

lemma runDeepSeekTurn_returns: "28 \<le> fuel \<Longrightarrow> fst (runDeepSeekTurn h opts fuel s) \<noteq> Inr None"
proof -
  assume "28 \<le> fuel"
  moreover have "loopCost s \<le> 27" unfolding loopCost_def by (split if_split) arith
  ultimately have "loopCost s < fuel" by simp
  then show ?thesis using turnLoop_returns [of s fuel] by (simp add: runDeepSeekTurn_def bindA_def assistantError_def)
qed

end

interpretation text_options: planning_options "turnOptions h c seeded" h for h c seeded
proof unfold_locales
  fix plan messages tools reads
  assume "to_prefetchReads (turnOptions h c seeded) = Some plan" "planned messages" "plan messages tools = Inr reads"
  then show "reads = []" by (auto simp: turnOptions_def Let_def prefetchSearchReads_def planned_def split: if_splits)
qed (simp_all add: turnOptions_def Let_def quiet.moves_bindA primitive_quiet checkActiveTurn_quiet authorize_quiet
      execute_quiet executeReadBatch_quiet)

subsection \<open>The turn\<close>

text \<open>The checkpoint a turn is resumed from.\<close>

fun lastCheckpoint :: "DeepSeekTurn option \<Rightarrow> as_event list \<Rightarrow> DeepSeekTurn option" where
  "lastCheckpoint stored [] = stored"
| "lastCheckpoint stored (EvCheckpoint k turn # evs) = lastCheckpoint (Some turn) evs"
| "lastCheckpoint stored (ev # evs) = lastCheckpoint stored evs"

lemma fenced_checkpoint:
  "fencedLog armed (before @ EvSubmit k body # after) \<Longrightarrow> (armed \<Longrightarrow> \<exists>turn. stored = Some turn \<and> dt_requesting turn) \<Longrightarrow>
   \<exists>turn. lastCheckpoint stored before = Some turn \<and> dt_requesting turn"
  by (induction armed before arbitrary: stored rule: fencedLog.induct) auto

definition logMoves :: "AsState \<Rightarrow> AsState \<Rightarrow> bool" where
  "logMoves s t \<longleftrightarrow> (\<exists>evs. as_log t = as_log s @ evs \<and> \<not> list_ex isSubmit evs)"

interpretation logging: preorder_moves logMoves
  by unfold_locales (auto simp: logMoves_def)

lemma quiet_logMoves: "movesA quietStep m \<Longrightarrow> movesA logMoves m"
  by (auto simp: movesA_def quietStep_def logMoves_def)

lemma modTurn_logMoves: "movesA logMoves (modTurnA f)" "movesA logMoves (pushMessages ms)"
  by (simp_all add: movesA_def logMoves_def pushMessages_def)

lemma seedBatch_logMoves: "movesA logMoves (seedBatch h r (checkActiveTurn h deadline) requestId offset paths)"
  unfolding seedBatch_def Let_def
  by (intro logging.moves modTurn_logMoves quiet_logMoves [OF checkActiveTurn_quiet] quiet_logMoves [OF executeReadBatch_quiet])

lemma seedReads_logMoves: "movesA logMoves (seedReads h r (checkActiveTurn h deadline) requestId overview offset paths)"
proof (induction paths arbitrary: offset rule: induct_list012)
  case (3 path path' rest)
  then show ?case unfolding seedReads.simps by (intro logging.moves seedBatch_logMoves quiet_logMoves [OF primitive_quiet(2)])
qed (simp_all only: seedReads.simps logging.moves seedBatch_logMoves quiet_logMoves [OF primitive_quiet(2)])

lemma seedTextContext_logMoves: "movesA logMoves (seedTextContext h r (checkActiveTurn h deadline) requestId route subject)"
proof -
  have "movesA logMoves (seedInventory h r (checkActiveTurn h deadline) requestId)"
    unfolding seedInventory_def Let_def
    by (intro logging.moves modTurn_logMoves quiet_logMoves [OF checkActiveTurn_quiet] quiet_logMoves [OF execute_quiet]
        quiet_logMoves [OF primitive_quiet(2)])
  then show ?thesis unfolding seedTextContext_def
    by (cases route; cases subject)
      (simp_all only: prod.case AskAiRoute.case QuestionSubject.case logging.moves seedReads_logMoves modTurn_logMoves)
qed

text \<open>Everything after the loop reads the result only.\<close>

lemma runTextTurn_log:
  "\<exists>evs. as_log (snd (runTextTurn h c fresh fuel s)) = as_log s @ evs \<and> submissions evs \<le> 13 \<and> fencedLog False evs"
proof -
  let ?seed = "if fresh
      then bindA (modTurnA (\<lambda>_. newDeepSeekTurn (inputText (tt_requestId c) (tt_question c) (tt_scope c) (tt_selectedPath c)
             (conversationHistory (tt_history c) (tt_messages c) (tt_requestId c)) (tt_route c) (tt_subject c)))) (\<lambda>_.
           seedTextContext h (turnReader c) (checkActiveTurn h (tt_deadline c)) (tt_requestId c) (tt_route c) (tt_subject c))
      else retA ()"
  define start where "start = bindA (openReader h) (\<lambda>_. bindA ?seed (\<lambda>_. getTurnA))"
  define loop where "loop = (\<lambda>turn :: DeepSeekTurn. bindA (runDeepSeekTurn h (turnOptions h c (seededMessages (tt_route c) (dt_messages turn))) fuel) (\<lambda>result.
      case result of None \<Rightarrow> retA None
      | Some v \<Rightarrow> bindA getToolsA (\<lambda>tools. bindA (liftR (answerSchema False v)) (\<lambda>stripped.
          bindA (liftR (validateAnswer (answerJson stripped) (ts_evidence tools) (tt_route c \<noteq> ConversationRoute))) (\<lambda>answer. retA (Some answer))))))"
  have whole: "runTextTurn h c fresh fuel = bindA start loop" unfolding runTextTurn_def start_def loop_def by (simp only: bindA_assoc)
  have "movesA logMoves start" unfolding start_def
    by (intro logging.moves modTurn_logMoves seedTextContext_logMoves quiet_logMoves [OF primitive_quiet(4)] quiet_logMoves [OF primitive_quiet(5)])
  moreover have "movesA turnMoves (loop turn)" for turn unfolding loop_def
    by (intro turning.moves text_options.runDeepSeekTurn_moves quiet_moves [OF primitive_quiet(2)])
  moreover obtain r u where run: "start s = (r, u)" by (cases "start s")
  ultimately have "logMoves s u" "turnMoves u (snd (bindA start loop s))"
    by (auto intro: movesA_D) (cases r; simp add: bindA_step movesA_def turning.R_refl)
  note u = this
  from u(1) obtain evs where evs: "as_log u = as_log s @ evs" "\<not> list_ex isSubmit evs" by (auto simp: logMoves_def)
  from u(2) obtain evs' where evs': "as_log (snd (bindA start loop s)) = as_log u @ evs'" "fencedLog False evs'"
    "dt_rounds (as_turn u) + submissions evs' \<le> max 13 (dt_rounds (as_turn u))"
    unfolding turnMoves_def by (meson order_trans)
  have "submissions (evs @ evs') = submissions evs'" using evs(2) by (simp add: submissions_def list_ex_iff filter_empty_conv)
  moreover have "submissions evs' \<le> 13" using evs'(3) by (auto simp: max_def split: if_splits)
  ultimately show ?thesis
    using evs evs' fencedLog_append [OF fencedLog_quiet [OF evs(2)] evs'(2)] by (intro exI [of _ "evs @ evs'"]) (simp add: whole)
qed

lemma interrupted_stops:
  assumes "dt_requesting (as_turn s)"
  shows "\<exists>e. runTextTurn h c False fuel s = (Inl e, s \<lparr>as_k := as_k s + 1\<rparr>)"
  using assms
  by (cases "ah_identity h (as_k s)")
    (auto simp: runTextTurn_def bindA_def openReader_def runDeepSeekTurn_def assistantError_def split: option.splits if_splits)

text \<open>
  C22. A submission is never repeated. However a turn goes, also when it is resumed: it submits to the model at
  most thirteen times; before each submission the turn was stored with the mark that a request is under way, as
  the last thing stored; and a turn that is resumed from a stored state with that mark, which is what a
  submission interrupted before its reply was stored leaves behind, submits nothing and ends with an error.
\<close>

theorem submissions_fenced:
  "(\<exists>evs. as_log (snd (runTextTurn h c fresh fuel s)) = as_log s @ evs \<and> submissions evs \<le> 13 \<and>
      (\<forall>before k body after. evs = before @ EvSubmit k body # after \<longrightarrow>
         (\<exists>turn. lastCheckpoint None before = Some turn \<and> dt_requesting turn))) \<and>
   (dt_requesting (as_turn s') \<longrightarrow>
      (\<exists>e. fst (runTextTurn h c False fuel s') = Inl e) \<and> as_log (snd (runTextTurn h c False fuel s')) = as_log s')"
proof (intro conjI impI)
  obtain evs where evs: "as_log (snd (runTextTurn h c fresh fuel s)) = as_log s @ evs" "submissions evs \<le> 13" "fencedLog False evs"
    using runTextTurn_log by blast
  have "\<exists>turn. lastCheckpoint None before = Some turn \<and> dt_requesting turn" if "evs = before @ EvSubmit k body # after" for before k body after
    by (rule fenced_checkpoint [of False before k body after]) (use evs(3) that in simp_all)
  with evs show "\<exists>evs. as_log (snd (runTextTurn h c fresh fuel s)) = as_log s @ evs \<and> submissions evs \<le> 13 \<and>
      (\<forall>before k body after. evs = before @ EvSubmit k body # after \<longrightarrow>
         (\<exists>turn. lastCheckpoint None before = Some turn \<and> dt_requesting turn))" by blast
next
  assume "dt_requesting (as_turn s')"
  from interrupted_stops [OF this] obtain e where run: "runTextTurn h c False fuel s' = (Inl e, s' \<lparr>as_k := as_k s' + 1\<rparr>)" by blast
  then show "\<exists>e. fst (runTextTurn h c False fuel s') = Inl e" by simp
  show "as_log (snd (runTextTurn h c False fuel s')) = as_log s'" by (simp add: run)
qed

text \<open>
  C24. A turn ends. For all answers of the model, of the canister and of the other services, the loop of a turn
  returns an answer or an error within twenty-eight iterations: each one counts a round, of which there are
  thirteen, or plans reads, which happens once.
\<close>

theorem text_turn_returns: "fst (runTextTurn h c fresh (28 + extra) s) \<noteq> Inr None"
proof
  assume none: "fst (runTextTurn h c fresh (28 + extra) s) = Inr None"
  then obtain t where "runTextTurn h c fresh (28 + extra) s = (Inr None, t)" by (cases "runTextTurn h c fresh (28 + extra) s") simp
  moreover have "runDeepSeekTurn h (turnOptions h c seeded) (28 + extra) u \<noteq> (Inr None, v)" for seeded u v
    using text_options.runDeepSeekTurn_returns [of "28 + extra" h c seeded u] by auto
  ultimately show False unfolding runTextTurn_def by (elim bindA_Inr_E) (auto elim!: bindA_Inr_E split: option.splits)
qed

definition interruptedState :: AsState where
  "interruptedState = \<lparr>as_k = 0, as_tools = emptyToolState,
     as_turn = (newDeepSeekTurn ''q'') \<lparr>dt_requesting := True, dt_rounds := 1\<rparr>, as_log = []\<rparr>"

theorem submissions_fenced_witness: "as_log (snd (runTextTurn sampleServices sampleConversation False 28 interruptedState)) = []"
  using submissions_fenced [of sampleServices sampleConversation False 28 interruptedState interruptedState]
  by (simp add: interruptedState_def)

end
