(* ===== verification/Assistant_Selection.thy ===== *)
theory Assistant_Selection
  imports Assistant_Text "HOL-Library.Multiset" "HOL-Library.Sublist"
begin

section \<open>Assistant worker: what is selected\<close>

text \<open>
  The route of a question is chosen only with confidence and a margin; the history sent along is short; and the
  documents that represent a database in an overview are fair to its folders.
\<close>

subsection \<open>Routes\<close>

definition routeProbability :: "(string \<times> rat) list \<Rightarrow> AskAiRoute \<Rightarrow> rat" where
  "routeProbability probabilities route = the (map_of probabilities (routeName route))"

lemma route_confident:
  assumes "chooseRoute subject probabilities = Some route"
  shows "route \<in> set (eligibleRoutes subject)" "routeProbability probabilities route \<ge> 7 / 10"
    "other \<in> set (eligibleRoutes subject) \<Longrightarrow> other \<noteq> route \<Longrightarrow>
      routeProbability probabilities other + 15 / 100 \<le> routeProbability probabilities route"
proof -
  let ?routes = "eligibleRoutes subject"
  let ?entries = "map (\<lambda>(index, route). (route, index, routeProbability probabilities route)) (zip [0..<length ?routes] ?routes)"
  let ?key = "\<lambda>(route, index, probability). (- probability, index)"
  let ?ranked = "sort_key ?key ?entries"
  have entries: "set ?ranked = (\<lambda>i. (?routes ! i, i, routeProbability probabilities (?routes ! i))) ` {0..<length ?routes}"
    by (force simp: set_zip image_iff)
  from assms obtain i1 p1 r2 i2 p2 rest where ranked: "?ranked = (route, i1, p1) # (r2, i2, p2) # rest"
    and sure: "p1 \<ge> 7 / 10" "p1 - p2 \<ge> 15 / 100"
    unfolding chooseRoute_def routeProbability_def Let_def by (auto split: list.splits if_splits)
  have member: "r = ?routes ! i \<and> i < length ?routes \<and> p = routeProbability probabilities r" if "(r, i, p) \<in> set ?ranked" for r i p
    using that unfolding entries by auto
  have first: "(route, i1, p1) \<in> set ?ranked" by (simp only: ranked list.set) simp
  from member [OF first] show "route \<in> set ?routes" "routeProbability probabilities route \<ge> 7 / 10" using sure(1) by auto
  show "routeProbability probabilities other + 15 / 100 \<le> routeProbability probabilities route"
    if "other \<in> set ?routes" "other \<noteq> route"
  proof -
    from that(1) obtain i where i: "i < length ?routes" "other = ?routes ! i" by (auto simp: in_set_conv_nth)
    then have "(other, i, routeProbability probabilities other) \<in> set ?ranked" unfolding entries by auto
    then have later: "(other, i, routeProbability probabilities other) \<in> set ((r2, i2, p2) # rest)" using that(2) unfolding ranked by auto
    have "sorted (map ?key ?ranked)" by simp
    then have "?key (r2, i2, p2) \<le> ?key x" if "x \<in> set ((r2, i2, p2) # rest)" for x using that unfolding ranked by auto
    from this [OF later] have "routeProbability probabilities other \<le> p2" by (auto simp: less_eq_prod_def)
    with sure(2) member [OF first] show ?thesis by simp
  qed
qed

lemma summary_needs_node: "chooseRoute subject probabilities = Some SelectedNodeSummary \<Longrightarrow> \<exists>path. subject = SubjectNode path"
  using route_confident(1) [of subject probabilities SelectedNodeSummary] by (auto simp: eligibleRoutes_def split: QuestionSubject.splits)

subsection \<open>History\<close>

lemma recentHistory_bounds:
  "length selected \<le> 6 \<Longrightarrow> length (recentHistory remaining selected items) \<le> 6 \<and>
   sum_list (map (length \<circ> snd) (recentHistory remaining selected items)) \<le> sum_list (map (length \<circ> snd) selected) + remaining"
proof (induction remaining selected items rule: recentHistory.induct)
  case (2 remaining selected role t older)
  show ?case
  proof (cases "length selected < 6 \<and> remaining > 0 \<and> trim t \<noteq> []")
    case True
    then show ?thesis using "2.IH"(2) [OF _ refl] by (simp add: ASK_AI_ROUTING_HISTORY_MESSAGES_def Let_def)
  next
    case False
    then show ?thesis using "2.IH"(1) [OF _ refl] "2.prems" by (auto simp: ASK_AI_ROUTING_HISTORY_MESSAGES_def Let_def)
  qed
qed simp

lemma history_bounded:
  "length (boundedRoutingHistory items) \<le> 6" "sum_list (map (length \<circ> snd) (boundedRoutingHistory items)) \<le> 4000"
  using recentHistory_bounds [of "[]" 4000 "rev items"]
  by (simp_all add: boundedRoutingHistory_def ASK_AI_ROUTING_HISTORY_CHARACTERS_def rev_map [symmetric])

subsection \<open>Representatives\<close>

lemma insertBy_mset: "mset (insertBy cmp x ys) = add_mset x (mset ys)"
  by (induction ys) auto

lemma sortBy_mset: "mset (sortBy cmp xs) = mset xs"
  unfolding sortBy_def by (induction xs) (simp_all add: insertBy_mset)

lemma sortBy_set: "set (sortBy cmp xs) = set xs"
  using sortBy_mset by (metis set_mset_mset)

lemma sortBy_empty: "sortBy cmp xs = [] \<longleftrightarrow> xs = []"
  using sortBy_set by (metis set_empty)

definition groupsOk :: "NodeEntry list \<Rightarrow> (string \<times> NodeEntry list) list \<Rightarrow> bool" where
  "groupsOk entries gs \<longleftrightarrow>
     mset (concat (map snd gs)) = mset entries \<and> distinct (map fst gs) \<and>
     (\<forall>(g, es) \<in> set gs. es \<noteq> [] \<and> (\<forall>e \<in> set es. representativeGroup (ne_path e) = g))"

lemma addToGroup_fst: "set (map fst (addToGroup g e gs)) = insert g (set (map fst gs))"
  by (induction g e gs rule: addToGroup.induct) auto

lemma addToGroup_ok:
  "groupsOk entries gs \<Longrightarrow> groupsOk (entries @ [e]) (addToGroup (representativeGroup (ne_path e)) e gs)"
proof (induction "representativeGroup (ne_path e)" e gs arbitrary: entries rule: addToGroup.induct)
  case (1 e)
  then show ?case by (auto simp: groupsOk_def)
next
  case (2 e g' es gs)
  let ?g = "representativeGroup (ne_path e)"
  show ?case
  proof (cases "g' = ?g")
    case True
    then show ?thesis using "2.prems" by (auto simp: groupsOk_def)
  next
    case False
    have "groupsOk (concat (map snd gs)) gs" using "2.prems" by (auto simp: groupsOk_def)
    from "2.hyps" [OF False this] have rest: "groupsOk (concat (map snd gs) @ [e]) (addToGroup ?g e gs)" .
    have "g' \<notin> set (map fst (addToGroup ?g e gs))" unfolding addToGroup_fst using "2.prems" False by (auto simp: groupsOk_def)
    then show ?thesis using rest "2.prems" False by (auto simp: groupsOk_def)
  qed
qed

lemma groupEntries_ok: "groupsOk entries (groupEntries entries)"
proof (induction entries rule: rev_induct)
  case Nil
  show ?case by (simp add: groupsOk_def groupEntries_def)
next
  case (snoc e entries)
  then show ?case using addToGroup_ok by (simp add: groupEntries_def)
qed

lemma dealRound_mset:
  "mset (snd (dealRound limit queues selected)) + mset (concat (fst (dealRound limit queues selected))) = mset selected + mset (concat queues)"
proof (induction limit queues selected rule: dealRound.induct)
  case (2 limit queue queues selected)
  then show ?case by (cases queue) (auto simp: Let_def split: prod.splits)
qed simp

lemma dealRound_prefix: "prefix selected (snd (dealRound limit queues selected))"
proof (induction limit queues selected rule: dealRound.induct)
  case (2 limit queue queues selected)
  then show ?case by (cases queue) (auto simp: Let_def split: prod.splits intro: prefix_order.trans [rotated])
qed simp

lemma dealRound_limit: "length selected < limit \<Longrightarrow> length (snd (dealRound limit queues selected)) \<le> limit"
proof (induction limit queues selected rule: dealRound.induct)
  case (2 limit queue queues selected)
  then show ?case by (cases queue) (auto simp: Let_def split: prod.splits)
qed simp

lemma dealRound_heads:
  "list_all (\<lambda>queue. queue \<noteq> []) queues \<Longrightarrow> length selected + length queues \<le> limit \<Longrightarrow>
   snd (dealRound limit queues selected) = selected @ map hd queues"
proof (induction limit queues selected rule: dealRound.induct)
  case (2 limit queue queues selected)
  then show ?case by (cases queue; cases queues) (auto simp: Let_def split: prod.splits)
qed simp

lemma dealAll_selects:
  "length selected \<le> limit \<Longrightarrow> mset (dealAll limit queues selected) \<subseteq># mset selected + mset (concat queues) \<and>
   length (dealAll limit queues selected) = min limit (length selected + length (concat queues)) \<and> prefix selected (dealAll limit queues selected)"
proof (induction limit queues selected rule: dealAll.induct)
  case (1 limit queues selected)
  show ?case
  proof (cases "length selected < limit \<and> list_ex (\<lambda>queue. queue \<noteq> []) queues")
    case True
    obtain queues' selected' where deal: "dealRound limit queues selected = (queues', selected')" by (cases "dealRound limit queues selected")
    have round: "mset selected' + mset (concat queues') = mset selected + mset (concat queues)" "prefix selected selected'" "length selected' \<le> limit"
      using dealRound_mset [of limit queues selected] dealRound_prefix [of selected limit queues] dealRound_limit [of selected limit queues] True
      by (simp_all add: deal)
    then have "length selected' + length (concat queues') = length selected + length (concat queues)" by (metis size_mset size_union)
    with "1.IH" [OF True refl deal [symmetric] round(3)] round True show ?thesis
      by (subst (1 2 3) dealAll.simps) (auto simp: deal intro: prefix_order.trans)
  next
    case False
    have "min limit (length selected + length (concat queues)) = length selected"
    proof (cases "length selected = limit")
      case less: False
      with False "1.prems" have "concat queues = []" by (auto simp: list_ex_iff)
      then show ?thesis using "1.prems" by (simp only: list.size)
    qed simp
    moreover have "dealAll limit queues selected = selected" using False by (subst dealAll.simps) auto
    ultimately show ?thesis by simp
  qed
qed

text \<open>
  As many documents as the limit and the database allow, none twice, and when the folders are at most as many
  as the limit, each is represented.
\<close>

lemma representatives_fair:
  "mset (selectRepresentativeEntries h entries limit) \<subseteq># mset entries"
  "length (selectRepresentativeEntries h entries limit) = min limit (length entries)"
  "card (representativeGroup ` ne_path ` set entries) \<le> limit \<Longrightarrow> e \<in> set entries \<Longrightarrow>
    \<exists>e' \<in> set (selectRepresentativeEntries h entries limit). representativeGroup (ne_path e') = representativeGroup (ne_path e)"
proof -
  let ?sorted = "sortBy (\<lambda>(left, _) (right, _). ah_localeCompare h left right) (groupEntries entries)"
  let ?queues = "entryQueues h entries"
  have ok: "groupsOk entries (groupEntries entries)" by (rule groupEntries_ok)
  have sorted: "set ?sorted = set (groupEntries entries)" "mset ?sorted = mset (groupEntries entries)" by (simp_all add: sortBy_set sortBy_mset)
  have "mset (concat ?queues) = mset (concat (map snd ?sorted))"
    unfolding entryQueues_def by (induction ?sorted) (auto simp: sortBy_mset mset_concat comp_def split_def)
  also have "\<dots> = mset (concat (map snd (groupEntries entries)))"
    unfolding mset_concat sum_mset_sum_list [symmetric] by (simp add: sorted(2))
  also have "\<dots> = mset entries" using ok by (simp add: groupsOk_def)
  finally have all: "mset (concat ?queues) = mset entries" .
  then have "length (concat ?queues) = length entries" by (metis size_mset)
  with dealAll_selects [of "[]" limit ?queues] all
  show "mset (selectRepresentativeEntries h entries limit) \<subseteq># mset entries"
    "length (selectRepresentativeEntries h entries limit) = min limit (length entries)"
    by (simp_all add: selectRepresentativeEntries_def)
  assume few: "card (representativeGroup ` ne_path ` set entries) \<le> limit" and e: "e \<in> set entries"
  have members: "set (concat (map snd (groupEntries entries))) = set entries" using ok unfolding groupsOk_def by (metis set_mset_mset)
  have group: "es \<noteq> [] \<and> (\<forall>x \<in> set es. representativeGroup (ne_path x) = g)" if "(g, es) \<in> set (groupEntries entries)" for g es
    using ok that by (auto simp: groupsOk_def)
  have "fst ` set (groupEntries entries) \<subseteq> representativeGroup ` ne_path ` set entries"
  proof
    fix g assume "g \<in> fst ` set (groupEntries entries)"
    then obtain es where g: "(g, es) \<in> set (groupEntries entries)" by auto
    then obtain x where "x \<in> set es" "representativeGroup (ne_path x) = g" using group [OF g] by (cases es) auto
    moreover have "x \<in> set entries" using g \<open>x \<in> set es\<close> members by force
    ultimately show "g \<in> representativeGroup ` ne_path ` set entries" by auto
  qed
  moreover have "card (fst ` set (groupEntries entries)) = length (groupEntries entries)"
    using ok by (metis groupsOk_def distinct_card length_map set_map)
  ultimately have count: "length ?queues \<le> limit"
    using few card_mono [of "representativeGroup ` ne_path ` set entries" "fst ` set (groupEntries entries)"]
      mset_eq_length [OF sorted(2)]
    by (simp add: entryQueues_def)
  have nonempty: "list_all (\<lambda>queue. queue \<noteq> []) ?queues"
    unfolding list_all_iff
  proof
    fix queue assume "queue \<in> set ?queues"
    then obtain g es where "(g, es) \<in> set ?sorted" and q: "queue = sortBy (compareEntries h) es" unfolding entryQueues_def by auto
    then have "es \<noteq> []" using group sorted(1) by metis
    then show "queue \<noteq> []" by (simp add: q sortBy_empty)
  qed
  have heads: "snd (dealRound limit ?queues []) = map hd ?queues" using dealRound_heads [OF nonempty] count by simp
  have "\<exists>p \<in> set (groupEntries entries). e \<in> set (snd p)" using e unfolding members [symmetric] by auto
  then obtain g es where ges: "(g, es) \<in> set (groupEntries entries)" "e \<in> set es" by (metis prod.collapse)
  then have queue: "sortBy (compareEntries h) es \<in> set ?queues" using imageI [of "(g, es)" "set ?sorted" "\<lambda>(g, es). sortBy (compareEntries h) es"] sorted(1)
    unfolding entryQueues_def by simp
  with nonempty have "sortBy (compareEntries h) es \<noteq> []" by (auto simp: list_all_iff)
  then have "hd (sortBy (compareEntries h) es) \<in> set es" using hd_in_set sortBy_set [of "compareEntries h" es] by blast
  then have same: "representativeGroup (ne_path (hd (sortBy (compareEntries h) es))) = representativeGroup (ne_path e)" using group [OF ges(1)] ges(2) by auto
  have "limit > 0" by (rule less_le_trans [OF length_pos_if_in_set [OF queue] count])
  moreover have "list_ex (\<lambda>queue. queue \<noteq> []) ?queues" using queue nonempty by (auto simp: list_all_iff list_ex_iff)
  ultimately have "dealAll limit ?queues [] = dealAll limit (fst (dealRound limit ?queues [])) (snd (dealRound limit ?queues []))"
    by (subst dealAll.simps) (simp add: split_def Let_def)
  moreover have "prefix (map hd ?queues) (dealAll limit (fst (dealRound limit ?queues [])) (map hd ?queues))"
    using dealAll_selects [of "map hd ?queues" limit "fst (dealRound limit ?queues [])"] count by simp
  ultimately have "hd (sortBy (compareEntries h) es) \<in> set (dealAll limit ?queues [])"
    using queue heads set_mono_prefix by (metis image_eqI list.set_map subsetD)
  with same show "\<exists>e' \<in> set (selectRepresentativeEntries h entries limit). representativeGroup (ne_path e') = representativeGroup (ne_path e)"
    unfolding selectRepresentativeEntries_def by blast
qed

end
