(* ===== verification/Assistant_Persisted.thy ===== *)
theory Assistant_Persisted
  imports Assistant_Text Ii_Identity "HOL-Library.Monad_Syntax"
begin

section \<open>Assistant worker: the persisted conversation\<close>

text \<open>
  \<^verbatim>\<open>workers/wiki-assistant/src/state.ts\<close>: the conversation of a user with its messages and its pending question, and
  the JSON form in which the store keeps it. \<open>JSON.stringify\<close> drops the properties that are \<open>undefined\<close>; reading
  the parsed object back at its type is a function that is \<open>None\<close> on a value of another shape. Values that
  the worker keeps and never looks into (traces, the fields of former voice sessions) stay JSON. Measured
  durations are no part of the model, apart from the trace that shows them.
\<close>

subsection \<open>Objects\<close>

fun definedProps :: "(string \<times> json option) list \<Rightarrow> (string \<times> json) list" where
  "definedProps [] = []"
| "definedProps ((k, None) # ps) = definedProps ps"
| "definedProps ((k, Some v) # ps) = (k, v) # definedProps ps"

definition jsObject :: "(string \<times> json option) list \<Rightarrow> json" where
  "jsObject ps = JObj (definedProps ps)"

definition needProp :: "json \<Rightarrow> string \<Rightarrow> (json \<Rightarrow> 'a option) \<Rightarrow> 'a option" where
  "needProp v k dec = Option.bind (jfield v k) dec"

definition optProp :: "json \<Rightarrow> string \<Rightarrow> (json \<Rightarrow> 'a option) \<Rightarrow> 'a option option" where
  "optProp v k dec = (case jfield v k of None \<Rightarrow> Some None | Some w \<Rightarrow> map_option Some (dec w))"

definition nullJson :: "('a \<Rightarrow> json) \<Rightarrow> 'a option \<Rightarrow> json" where
  "nullJson enc x = (case x of None \<Rightarrow> JNull | Some y \<Rightarrow> enc y)"

definition nullOf :: "(json \<Rightarrow> 'a option) \<Rightarrow> json \<Rightarrow> 'a option option" where
  "nullOf dec v = (if v = JNull then Some None else map_option Some (dec v))"

definition arrayJson :: "('a \<Rightarrow> json) \<Rightarrow> 'a list \<Rightarrow> json" where
  "arrayJson enc xs = JArr (map enc xs)"

definition arrayOf :: "(json \<Rightarrow> 'a option) \<Rightarrow> json \<Rightarrow> 'a list option" where
  "arrayOf dec v = (case v of JArr vs \<Rightarrow> allSome dec vs | _ \<Rightarrow> None)"

definition textOf :: "json \<Rightarrow> string option" where
  "textOf v = jsonText (Some v)"

definition natOf :: "json \<Rightarrow> nat option" where
  "natOf v = jsonNat (Some v)"

definition boolOf :: "json \<Rightarrow> bool option" where
  "boolOf v = (case v of JBool b \<Rightarrow> Some b | _ \<Rightarrow> None)"

definition tagOf :: "('a \<Rightarrow> string) \<Rightarrow> 'a list \<Rightarrow> json \<Rightarrow> 'a option" where
  "tagOf name tags v = (case v of JStr s \<Rightarrow> find (\<lambda>x. name x = s) tags | _ \<Rightarrow> None)"

definition firstSome :: "'a option \<Rightarrow> 'a option \<Rightarrow> 'a option" where
  "firstSome x y = (case x of None \<Rightarrow> y | Some v \<Rightarrow> Some v)"

lemma firstSome_simps [simp]: "firstSome None y = y" "firstSome (Some v) y = Some v" "firstSome x None = x"
  by (simp_all add: firstSome_def split: option.split)

lemma jfield_jsObject [simp]:
  "jfield (jsObject []) k' = None"
  "jfield (jsObject ((k, x) # ps)) k' = (if k = k' then firstSome x (jfield (jsObject ps) k') else jfield (jsObject ps) k')"
  by (cases x; simp add: jfield_def jsObject_def jget_def)+

lemma definedProps_fst: "fst ` set (definedProps ps) \<subseteq> fst ` set ps"
  by (induction ps rule: definedProps.induct) auto

lemma definedProps_distinct: "distinct (map fst ps) \<Longrightarrow> distinct (map fst (definedProps ps))"
proof (induction ps rule: definedProps.induct)
  case (3 k v ps)
  then show ?case using definedProps_fst [of ps] by auto
qed simp_all

lemma wfJson_jsObject:
  assumes "distinct (map fst ps)" and "list_all (\<lambda>p. pred_option wfJson (snd p)) ps"
  shows "wfJson (jsObject ps)"
proof -
  have "list_all (\<lambda>p. wfJson (snd p)) (definedProps ps)"
    using assms(2) by (induction ps rule: definedProps.induct) auto
  then show ?thesis using definedProps_distinct [OF assms(1)] by (simp add: jsObject_def)
qed

subsection \<open>Reading back what was written\<close>

text \<open>
  The contract of a JSON form: it reads back as the value, it is well formed for the good values, and it is
  never \<open>null\<close>, so that a nullable property can use that value.
\<close>

locale json_form =
  fixes enc :: "'a \<Rightarrow> json" and dec :: "json \<Rightarrow> 'a option" and good :: "'a \<Rightarrow> bool"
  assumes reads: "dec (enc x) = Some x"
    and wf: "good x \<Longrightarrow> wfJson (enc x)"
    and not_null: "enc x \<noteq> JNull"
begin

lemma array_reads: "arrayOf dec (arrayJson enc xs) = Some xs"
  by (simp add: arrayOf_def arrayJson_def allSome_map reads)

lemma array_wf: "list_all good xs \<Longrightarrow> wfJson (arrayJson enc xs)"
  by (auto simp: arrayJson_def list_all_iff wf)

lemma null_reads: "nullOf dec (nullJson enc x) = Some x"
  by (cases x) (simp_all add: nullOf_def nullJson_def reads not_null)

lemma null_wf: "pred_option good x \<Longrightarrow> wfJson (nullJson enc x)"
  by (cases x) (simp_all add: nullJson_def wf)

lemma opt_reads: "jfield v k = map_option enc x \<Longrightarrow> optProp v k dec = Some x"
  by (cases x) (simp_all add: optProp_def reads)

lemmas form_reads = reads array_reads null_reads opt_reads
lemmas form_wf = wf array_wf null_wf

end

lemma natToDec_wf: "isJsonNumber (natToDec n)" "list_all isNumberChar (natToDec n)"
proof -
  have digits: "list_all isDigit (natToDec n)" by (rule natToDec_digits)
  then show "list_all isNumberChar (natToDec n)" by (simp add: list_all_iff isNumberChar_def)
  have "natToDec n = ''0'' \<or> positiveDecimal (natToDec n)"
    by (cases "n = 0") (simp_all add: natToDec.simps [of 0] digitChar_eval positiveDecimal_natToDec)
  moreover have tw: "takeWhile isDigit (natToDec n) = natToDec n" "dropWhile isDigit (natToDec n) = []"
    using digits by (simp_all add: takeWhile_eq_all_conv dropWhile_eq_Nil_conv list_all_iff)
  moreover have "natToDec n \<noteq> CHR ''-'' # t" for t using digits by (auto simp: isDigit_def)
  then have "(case natToDec n of [] \<Rightarrow> [] | c # t \<Rightarrow> if c = CHR ''-'' then t else natToDec n) = natToDec n"
    by (simp split: list.split)
  ultimately show "isJsonNumber (natToDec n)"
    unfolding isJsonNumber_def Let_def by (simp only: tw) (simp add: fracExpTail_def)
qed

interpretation text_form: json_form JStr textOf "\<lambda>_. True"
  by unfold_locales (simp_all add: textOf_def jsonText_def)

interpretation nat_form: json_form decNumber natOf "\<lambda>_. True"
  by unfold_locales (simp_all add: natOf_def decNumber_def natToDec_wf [unfolded list_all_iff] list_all_iff)

interpretation bool_form: json_form JBool boolOf "\<lambda>_. True"
  by unfold_locales (simp_all add: boolOf_def)

subsection \<open>Questions and answers\<close>

record Question =
  qu_requestId :: string
  qu_question :: string
  qu_scope :: Scope
  qu_selectedPath :: "string option"
  qu_subject :: "QuestionSubject option"

definition scopeJson :: "Scope \<Rightarrow> json" where
  "scopeJson s = JStr (scopeText s)"

definition scopeOf :: "json \<Rightarrow> Scope option" where
  "scopeOf = tagOf scopeText [ScopeKnowledge, ScopeMemory, ScopeDatabase]"

definition subjectOf :: "json \<Rightarrow> QuestionSubject option" where
  "subjectOf v = do {
     kind \<leftarrow> needProp v ''kind'' textOf;
     if kind = ''database'' then Some SubjectDatabase
     else do {
       path \<leftarrow> needProp v ''path'' textOf;
       if kind = ''node'' then Some (SubjectNode path) else if kind = ''folder'' then Some (SubjectFolder path) else None } }"

definition questionJson :: "Question \<Rightarrow> json" where
  "questionJson q = jsObject [(''requestId'', Some (JStr (qu_requestId q))), (''question'', Some (JStr (qu_question q))),
     (''scope'', Some (scopeJson (qu_scope q))), (''selectedPath'', map_option JStr (qu_selectedPath q)),
     (''subject'', map_option subjectJson (qu_subject q))]"

definition questionOf :: "json \<Rightarrow> Question option" where
  "questionOf v = do {
     requestId \<leftarrow> needProp v ''requestId'' textOf;
     question \<leftarrow> needProp v ''question'' textOf;
     scope \<leftarrow> needProp v ''scope'' scopeOf;
     selectedPath \<leftarrow> optProp v ''selectedPath'' textOf;
     subject \<leftarrow> optProp v ''subject'' subjectOf;
     Some \<lparr>qu_requestId = requestId, qu_question = question, qu_scope = scope, qu_selectedPath = selectedPath, qu_subject = subject\<rparr> }"

definition citationJson :: "Citation \<Rightarrow> json" where
  "citationJson c = jsObject [(''id'', Some (JStr (ci_id c))), (''databaseId'', Some (JStr (ci_databaseId c))),
     (''path'', Some (JStr (ci_path c))), (''excerpt'', Some (JStr (ci_excerpt c))), (''start'', Some (decNumber (ci_start c))),
     (''end'', Some (decNumber (ci_end c))), (''etag'', Some (JStr (ci_etag c))), (''retrievedAt'', Some (JStr (ci_retrievedAt c)))]"

definition citationOf :: "json \<Rightarrow> Citation option" where
  "citationOf v = do {
     i \<leftarrow> needProp v ''id'' textOf;
     databaseId \<leftarrow> needProp v ''databaseId'' textOf;
     path \<leftarrow> needProp v ''path'' textOf;
     excerpt \<leftarrow> needProp v ''excerpt'' textOf;
     start \<leftarrow> needProp v ''start'' natOf;
     stop \<leftarrow> needProp v ''end'' natOf;
     etag \<leftarrow> needProp v ''etag'' textOf;
     retrievedAt \<leftarrow> needProp v ''retrievedAt'' textOf;
     Some \<lparr>ci_id = i, ci_databaseId = databaseId, ci_path = path, ci_excerpt = excerpt, ci_start = start, ci_end = stop,
       ci_etag = etag, ci_retrievedAt = retrievedAt\<rparr> }"

definition savedAnswerJson :: "Answer \<Rightarrow> json" where
  "savedAnswerJson a = jsObject [(''answer'', Some (JStr (an_answer a))), (''citations'', Some (arrayJson citationJson (an_citations a))),
     (''insufficient'', Some (JBool (an_insufficient a))), (''contradictions'', Some (arrayJson JStr (an_contradictions a))),
     (''unverified'', Some (arrayJson JStr (an_unverified a)))]"

definition savedAnswerOf :: "json \<Rightarrow> Answer option" where
  "savedAnswerOf v = do {
     answer \<leftarrow> needProp v ''answer'' textOf;
     citations \<leftarrow> needProp v ''citations'' (arrayOf citationOf);
     insufficient \<leftarrow> needProp v ''insufficient'' boolOf;
     contradictions \<leftarrow> needProp v ''contradictions'' (arrayOf textOf);
     unverified \<leftarrow> needProp v ''unverified'' (arrayOf textOf);
     Some \<lparr>an_answer = answer, an_citations = citations, an_insufficient = insufficient, an_contradictions = contradictions,
       an_unverified = unverified\<rparr> }"

text \<open>A property that was written reads back.\<close>

lemma jsObject_not_null [simp]: "jsObject ps \<noteq> JNull"
  by (simp add: jsObject_def)

lemma pred_option_map [simp]: "pred_option P (map_option f x) \<longleftrightarrow> pred_option (\<lambda>y. P (f y)) x"
  by (cases x) simp_all

lemma pred_option_all [simp]: "(\<And>y. P y) \<Longrightarrow> pred_option P x"
  by (cases x) simp_all

interpretation scope_form: json_form scopeJson scopeOf "\<lambda>_. True"
proof
  fix x show "scopeOf (scopeJson x) = Some x" by (cases x) (simp_all add: scopeOf_def scopeJson_def tagOf_def)
qed (simp_all add: scopeJson_def)

interpretation subject_form: json_form subjectJson subjectOf "\<lambda>_. True"
proof
  fix x show "subjectOf (subjectJson x) = Some x" "wfJson (subjectJson x)" "subjectJson x \<noteq> JNull"
    by (cases x; simp add: subjectOf_def needProp_def jfield_def jget_def text_form.reads)+
qed

interpretation question_form: json_form questionJson questionOf "\<lambda>_. True"
proof
  fix x show "questionOf (questionJson x) = Some x"
    by (simp add: questionOf_def questionJson_def needProp_def text_form.form_reads scope_form.reads subject_form.form_reads)
  show "wfJson (questionJson x)"
    unfolding questionJson_def by (rule wfJson_jsObject) (simp_all add: scope_form.wf subject_form.wf)
qed (simp add: questionJson_def)

interpretation citation_form: json_form citationJson citationOf "\<lambda>_. True"
proof
  fix x show "citationOf (citationJson x) = Some x"
    by (simp add: citationOf_def citationJson_def needProp_def text_form.reads nat_form.reads)
  show "wfJson (citationJson x)"
    unfolding citationJson_def by (rule wfJson_jsObject) (simp_all add: nat_form.wf)
qed (simp add: citationJson_def)

interpretation answer_form: json_form savedAnswerJson savedAnswerOf "\<lambda>_. True"
proof
  fix x show "savedAnswerOf (savedAnswerJson x) = Some x"
    by (simp add: savedAnswerOf_def savedAnswerJson_def needProp_def text_form.form_reads citation_form.form_reads bool_form.reads)
  show "wfJson (savedAnswerJson x)"
    unfolding savedAnswerJson_def by (rule wfJson_jsObject) (simp_all add: citation_form.array_wf text_form.array_wf list_all_iff)
qed (simp add: savedAnswerJson_def)

subsection \<open>The turn\<close>

datatype Stage = StageNew | StageCreating | StageSending | StageRunning

fun stageName :: "Stage \<Rightarrow> string" where
  "stageName StageNew = ''new''"
| "stageName StageCreating = ''creating''"
| "stageName StageSending = ''sending''"
| "stageName StageRunning = ''running''"

definition stageOf :: "json \<Rightarrow> Stage option" where
  "stageOf = tagOf stageName [StageNew, StageCreating, StageSending, StageRunning]"

text \<open>The route of a pending question: \<open>None\<close> is \<open>"pending"\<close>.\<close>

fun pendingRouteName :: "AskAiRoute option \<Rightarrow> string" where
  "pendingRouteName None = ''pending''"
| "pendingRouteName (Some route) = routeName route"

definition pendingRouteOf :: "json \<Rightarrow> AskAiRoute option option" where
  "pendingRouteOf = tagOf pendingRouteName
     [None, Some DatabaseOverview, Some FocusedSearch, Some SelectedNodeSummary, Some ConversationRoute]"

definition toolStateJson :: "ToolState \<Rightarrow> json" where
  "toolStateJson t = jsObject [(''calls'', Some (decNumber (ts_calls t))), (''characters'', Some (decNumber (ts_characters t))),
     (''evidence'', Some (arrayJson citationJson (ts_evidence t))), (''sources'', Some (arrayJson JStr (ts_sources t))),
     (''readPaths'', Some (arrayJson JStr (ts_readPaths t))), (''discoveredPaths'', Some (arrayJson JStr (ts_discoveredPaths t))),
     (''inventoryObserved'', Some (decNumber (ts_inventoryObserved t))),
     (''inventoryTruncated'', Some (JBool (ts_inventoryTruncated t)))]"

definition toolStateOf :: "json \<Rightarrow> ToolState option" where
  "toolStateOf v = do {
     calls \<leftarrow> needProp v ''calls'' natOf;
     characters \<leftarrow> needProp v ''characters'' natOf;
     evidence \<leftarrow> needProp v ''evidence'' (arrayOf citationOf);
     sources \<leftarrow> needProp v ''sources'' (arrayOf textOf);
     readPaths \<leftarrow> needProp v ''readPaths'' (arrayOf textOf);
     discoveredPaths \<leftarrow> needProp v ''discoveredPaths'' (arrayOf textOf);
     observed \<leftarrow> needProp v ''inventoryObserved'' natOf;
     truncated \<leftarrow> needProp v ''inventoryTruncated'' boolOf;
     Some \<lparr>ts_calls = calls, ts_characters = characters, ts_evidence = evidence, ts_sources = sources, ts_readPaths = readPaths,
       ts_discoveredPaths = discoveredPaths, ts_inventoryObserved = observed, ts_inventoryTruncated = truncated\<rparr> }"

definition callOf :: "json \<Rightarrow> ToolCall option" where
  "callOf v = do {
     i \<leftarrow> needProp v ''id'' textOf;
     function \<leftarrow> jfield v ''function'';
     name \<leftarrow> needProp function ''name'' textOf;
     arguments \<leftarrow> needProp function ''arguments'' textOf;
     Some \<lparr>tc_id = i, tc_name = name, tc_arguments = arguments\<rparr> }"

definition chatMessageOf :: "json \<Rightarrow> ChatMessage option" where
  "chatMessageOf v = do {
     role \<leftarrow> needProp v ''role'' textOf;
     if role = ''assistant'' then do {
       content \<leftarrow> optProp v ''content'' (nullOf textOf);
       calls \<leftarrow> optProp v ''tool_calls'' (arrayOf callOf);
       Some (AssistantMessage content calls) }
     else do {
       content \<leftarrow> needProp v ''content'' textOf;
       if role = ''system'' then Some (SystemMessage content)
       else if role = ''user'' then Some (UserMessage content)
       else do {
         i \<leftarrow> needProp v ''tool_call_id'' textOf;
         Some (ToolMessage i content) } } }"

text \<open>The counters of repairs are absent until the first repair.\<close>

definition countProp :: "nat \<Rightarrow> json option" where
  "countProp n = (if n = 0 then None else Some (decNumber n))"

definition turnJson :: "DeepSeekTurn \<Rightarrow> json" where
  "turnJson t = jsObject [(''messages'', Some (arrayJson messageJson (dt_messages t))), (''requesting'', Some (JBool (dt_requesting t))),
     (''rounds'', Some (decNumber (dt_rounds t))), (''inputTokens'', Some (decNumber (dt_inputTokens t))),
     (''outputTokens'', Some (decNumber (dt_outputTokens t))), (''whitespaceRecoveries'', countProp (dt_whitespaceRecoveries t)),
     (''finalRepairs'', countProp (dt_finalRepairs t))]"

definition countOf :: "json \<Rightarrow> string \<Rightarrow> nat option" where
  "countOf v k = map_option (\<lambda>n. case n of None \<Rightarrow> 0 | Some m \<Rightarrow> m) (optProp v k natOf)"

definition turnOf :: "json \<Rightarrow> DeepSeekTurn option" where
  "turnOf v = do {
     messages \<leftarrow> needProp v ''messages'' (arrayOf chatMessageOf);
     requesting \<leftarrow> needProp v ''requesting'' boolOf;
     rounds \<leftarrow> needProp v ''rounds'' natOf;
     inputTokens \<leftarrow> needProp v ''inputTokens'' natOf;
     outputTokens \<leftarrow> needProp v ''outputTokens'' natOf;
     recoveries \<leftarrow> countOf v ''whitespaceRecoveries'';
     repairs \<leftarrow> countOf v ''finalRepairs'';
     Some \<lparr>dt_messages = messages, dt_requesting = requesting, dt_rounds = rounds, dt_inputTokens = inputTokens,
       dt_outputTokens = outputTokens, dt_whitespaceRecoveries = recoveries, dt_finalRepairs = repairs\<rparr> }"

interpretation stage_form: json_form "\<lambda>x. JStr (stageName x)" stageOf "\<lambda>_. True"
proof
  fix x show "stageOf (JStr (stageName x)) = Some x" by (cases x) (simp_all add: stageOf_def tagOf_def)
qed simp_all

interpretation route_form: json_form "\<lambda>x. JStr (pendingRouteName x)" pendingRouteOf "\<lambda>_. True"
proof
  fix x show "pendingRouteOf (JStr (pendingRouteName x)) = Some x"
  proof (cases x)
    case (Some r)
    then show ?thesis by (cases r) (simp_all add: pendingRouteOf_def tagOf_def)
  qed (simp add: pendingRouteOf_def tagOf_def)
qed simp_all

interpretation tools_form: json_form toolStateJson toolStateOf "\<lambda>_. True"
proof
  fix x show "toolStateOf (toolStateJson x) = Some x"
    by (simp add: toolStateOf_def toolStateJson_def needProp_def text_form.form_reads nat_form.reads citation_form.form_reads bool_form.reads)
  show "wfJson (toolStateJson x)"
    unfolding toolStateJson_def by (rule wfJson_jsObject) (simp_all add: nat_form.wf citation_form.array_wf text_form.array_wf list_all_iff)
qed (simp add: toolStateJson_def)

interpretation call_form: json_form callJson callOf "\<lambda>_. True"
proof
  fix x show "callOf (callJson x) = Some x"
    by (simp add: callOf_def callJson_def needProp_def jfield_def jget_def text_form.reads)
qed (simp_all add: callJson_def)

lemma textOrNull_eq: "textOrNull = nullJson JStr"
  by (rule ext) (simp add: textOrNull_def nullJson_def)

lemma messageJson_object:
  "messageJson (AssistantMessage content calls) =
     jsObject [(''role'', Some (JStr ''assistant'')), (''content'', map_option (nullJson JStr) content),
               (''tool_calls'', map_option (arrayJson callJson) calls)]"
  by (cases content; cases calls) (simp_all add: jsObject_def textOrNull_eq arrayJson_def)

interpretation message_form: json_form messageJson chatMessageOf "\<lambda>_. True"
proof
  fix x show "chatMessageOf (messageJson x) = Some x"
  proof (cases x)
    case (AssistantMessage content calls)
    have "optProp v k (nullOf textOf) = Some content" if "jfield v k = map_option (nullJson JStr) content" for v k
      using that by (cases content) (simp_all add: optProp_def text_form.null_reads)
    moreover have "optProp v k (arrayOf callOf) = Some calls" if "jfield v k = map_option (arrayJson callJson) calls" for v k
      using that by (cases calls) (simp_all add: optProp_def call_form.array_reads)
    ultimately show ?thesis
      unfolding AssistantMessage messageJson_object by (simp add: chatMessageOf_def needProp_def text_form.reads)
  qed (simp_all add: chatMessageOf_def needProp_def text_form.reads jfield_def jget_def)
  show "wfJson (messageJson x)"
  proof (cases x)
    case (AssistantMessage content calls)
    show ?thesis unfolding AssistantMessage messageJson_object
      by (rule wfJson_jsObject) (simp_all add: text_form.null_wf call_form.array_wf list_all_iff)
  qed simp_all
  show "messageJson x \<noteq> JNull" by (cases x) simp_all
qed

lemma countOf_reads: "jfield v k = countProp n \<Longrightarrow> countOf v k = Some n"
  by (cases "n = 0") (simp_all add: countOf_def countProp_def optProp_def nat_form.reads)

interpretation turn_form: json_form turnJson turnOf "\<lambda>_. True"
proof
  fix x show "turnOf (turnJson x) = Some x"
    by (simp add: turnOf_def turnJson_def needProp_def message_form.form_reads nat_form.reads bool_form.reads
        countOf_reads [of _ _ "dt_whitespaceRecoveries x"] countOf_reads [of _ _ "dt_finalRepairs x"])
  show "wfJson (turnJson x)"
    unfolding turnJson_def by (rule wfJson_jsObject) (simp_all add: nat_form.wf message_form.array_wf list_all_iff countProp_def)
qed (simp add: turnJson_def)

end
