(* ===== verification/Assistant_Conversation.thy ===== *)
theory Assistant_Conversation
  imports Assistant_Persisted
begin

section \<open>Assistant worker: conversations\<close>

text \<open>
  \<^verbatim>\<open>workers/wiki-assistant/src/state.ts\<close>: the pending question, the messages and the conversation, and their JSON
  forms.
\<close>

record Pending =
  pe_input :: Question
  pe_deepseek :: "DeepSeekTurn option"
  pe_agentInput :: "string option"
  pe_generation :: nat
  pe_started :: nat
  pe_stage :: Stage
  pe_turnId :: "string option"
  pe_tools :: ToolState
  pe_results :: json
  pe_delegationId :: "string option"
  pe_route :: "AskAiRoute option"

record Utterance =
  ut_id :: string
  ut_voiceId :: string
  ut_events :: "string list"
  ut_end :: nat
  ut_role :: Role
  ut_text :: string

datatype MessageKind = GroundedAnswer | ConversationAnswer | Clarification

fun kindName :: "MessageKind \<Rightarrow> string" where
  "kindName GroundedAnswer = ''grounded_answer''"
| "kindName ConversationAnswer = ''conversation''"
| "kindName Clarification = ''clarification''"

text \<open>The route of a trace: \<open>None\<close> is \<open>"clarification"\<close>.\<close>

fun traceRouteName :: "AskAiRoute option \<Rightarrow> string" where
  "traceRouteName None = ''clarification''"
| "traceRouteName (Some route) = routeName route"

record Trace =
  tr_route :: "AskAiRoute option"
  tr_calls :: nat
  tr_characters :: nat
  tr_inventoryObserved :: nat
  tr_inventoryTruncated :: bool
  tr_readCount :: nat
  tr_jevRouteDurationMs :: nat
  tr_jevRerankDurationMs :: nat

record Message =
  me_voice :: bool
  me_requestId :: string
  me_question :: string
  me_answer :: "Answer option"
  me_error :: "string option"
  me_kind :: "MessageKind option"
  me_trace :: "Trace option"

datatype Status = StatusReady | StatusWorking | StatusCancelling

fun statusName :: "Status \<Rightarrow> string" where
  "statusName StatusReady = ''ready''"
| "statusName StatusWorking = ''working''"
| "statusName StatusCancelling = ''cancelling''"

text \<open>\<open>format\<close> is 3 in what the worker writes; \<open>initialize\<close> retires a conversation of another format.\<close>

record Conversation =
  co_format :: nat
  co_native :: "bool option"
  co_nativeTextProvider :: "string option"
  co_viewRevision :: "nat option"
  co_viewFingerprint :: "string option"
  co_selectedPath :: "string option"
  co_history :: "history_item list"
  co_utterances :: "Utterance list"
  co_id :: string
  co_authId :: string
  co_principal :: string
  co_databaseId :: string
  co_scope :: Scope
  co_sessionId :: "string option"
  co_generation :: nat
  co_pending :: "Pending option"
  co_activity :: nat
  co_seen :: nat
  co_status :: Status
  co_error :: "string option"
  co_messages :: "Message list"
  co_live :: "json option"
  co_transcripts :: json
  co_delegations :: json
  co_deferred :: json

text \<open>A task of \<open>cleanup\<close>: only the markers of former voice sessions are looked at.\<close>

record Cleanup =
  cl_nextAttempt :: "nat option"
  cl_liveId :: "string option"
  cl_voiceUsage :: bool

record UserState =
  us_endRequested :: "nat option"
  us_principal :: "string option"
  us_day :: string
  us_questions :: nat
  us_conversation :: "Conversation option"
  us_cleanup :: "Cleanup list"

subsection \<open>JSON forms\<close>

definition historyItemJson :: "history_item \<Rightarrow> json" where
  "historyItemJson i = jsObject [(''role'', Some (JStr (roleName (fst i)))), (''text'', Some (JStr (snd i)))]"

definition roleOf :: "json \<Rightarrow> Role option" where
  "roleOf = tagOf roleName [UserRole, AssistantRole]"

definition historyItemOf :: "json \<Rightarrow> history_item option" where
  "historyItemOf v = do {
     role \<leftarrow> needProp v ''role'' roleOf;
     item \<leftarrow> needProp v ''text'' textOf;
     Some (role, item) }"

definition utteranceJson :: "Utterance \<Rightarrow> json" where
  "utteranceJson u = jsObject [(''id'', Some (JStr (ut_id u))), (''voiceId'', Some (JStr (ut_voiceId u))),
     (''events'', Some (arrayJson JStr (ut_events u))), (''end'', Some (decNumber (ut_end u))),
     (''role'', Some (JStr (roleName (ut_role u)))), (''text'', Some (JStr (ut_text u)))]"

definition utteranceOf :: "json \<Rightarrow> Utterance option" where
  "utteranceOf v = do {
     i \<leftarrow> needProp v ''id'' textOf;
     voiceId \<leftarrow> needProp v ''voiceId'' textOf;
     events \<leftarrow> needProp v ''events'' (arrayOf textOf);
     stop \<leftarrow> needProp v ''end'' natOf;
     role \<leftarrow> needProp v ''role'' roleOf;
     item \<leftarrow> needProp v ''text'' textOf;
     Some \<lparr>ut_id = i, ut_voiceId = voiceId, ut_events = events, ut_end = stop, ut_role = role, ut_text = item\<rparr> }"

definition kindOf :: "json \<Rightarrow> MessageKind option" where
  "kindOf = tagOf kindName [GroundedAnswer, ConversationAnswer, Clarification]"

definition traceRouteOf :: "json \<Rightarrow> AskAiRoute option option" where
  "traceRouteOf = tagOf traceRouteName
     [None, Some DatabaseOverview, Some FocusedSearch, Some SelectedNodeSummary, Some ConversationRoute]"

definition traceJson :: "Trace \<Rightarrow> json" where
  "traceJson t = jsObject [(''route'', Some (JStr (traceRouteName (tr_route t)))), (''calls'', Some (decNumber (tr_calls t))),
     (''characters'', Some (decNumber (tr_characters t))), (''inventoryObserved'', Some (decNumber (tr_inventoryObserved t))),
     (''inventoryTruncated'', Some (JBool (tr_inventoryTruncated t))), (''readCount'', Some (decNumber (tr_readCount t))),
     (''jevRouteDurationMs'', Some (decNumber (tr_jevRouteDurationMs t))),
     (''jevRerankDurationMs'', Some (decNumber (tr_jevRerankDurationMs t)))]"

definition traceOf :: "json \<Rightarrow> Trace option" where
  "traceOf v = do {
     route \<leftarrow> needProp v ''route'' traceRouteOf;
     calls \<leftarrow> needProp v ''calls'' natOf;
     characters \<leftarrow> needProp v ''characters'' natOf;
     observed \<leftarrow> needProp v ''inventoryObserved'' natOf;
     truncated \<leftarrow> needProp v ''inventoryTruncated'' boolOf;
     readCount \<leftarrow> needProp v ''readCount'' natOf;
     routeMs \<leftarrow> needProp v ''jevRouteDurationMs'' natOf;
     rerankMs \<leftarrow> needProp v ''jevRerankDurationMs'' natOf;
     Some \<lparr>tr_route = route, tr_calls = calls, tr_characters = characters, tr_inventoryObserved = observed,
       tr_inventoryTruncated = truncated, tr_readCount = readCount, tr_jevRouteDurationMs = routeMs,
       tr_jevRerankDurationMs = rerankMs\<rparr> }"

definition messageRowJson :: "Message \<Rightarrow> json" where
  "messageRowJson m = jsObject [(''voice'', Some (JBool (me_voice m))), (''requestId'', Some (JStr (me_requestId m))),
     (''question'', Some (JStr (me_question m))), (''answer'', Some (nullJson savedAnswerJson (me_answer m))),
     (''error'', Some (nullJson JStr (me_error m))), (''kind'', Some (nullJson (\<lambda>k. JStr (kindName k)) (me_kind m))),
     (''trace'', Some (nullJson traceJson (me_trace m)))]"

definition messageRowOf :: "json \<Rightarrow> Message option" where
  "messageRowOf v = do {
     voice \<leftarrow> needProp v ''voice'' boolOf;
     requestId \<leftarrow> needProp v ''requestId'' textOf;
     question \<leftarrow> needProp v ''question'' textOf;
     answer \<leftarrow> needProp v ''answer'' (nullOf savedAnswerOf);
     error \<leftarrow> needProp v ''error'' (nullOf textOf);
     kind \<leftarrow> needProp v ''kind'' (nullOf kindOf);
     trace \<leftarrow> needProp v ''trace'' (nullOf traceOf);
     Some \<lparr>me_voice = voice, me_requestId = requestId, me_question = question, me_answer = answer, me_error = error,
       me_kind = kind, me_trace = trace\<rparr> }"

definition pendingJson :: "Pending \<Rightarrow> json" where
  "pendingJson p = jsObject [(''input'', Some (questionJson (pe_input p))), (''generation'', Some (decNumber (pe_generation p))),
     (''started'', Some (decNumber (pe_started p))), (''stage'', Some (JStr (stageName (pe_stage p)))),
     (''turnId'', Some (nullJson JStr (pe_turnId p))), (''tools'', Some (toolStateJson (pe_tools p))),
     (''results'', Some (pe_results p)), (''delegationId'', Some (nullJson JStr (pe_delegationId p))),
     (''route'', Some (JStr (pendingRouteName (pe_route p)))), (''agentInput'', map_option JStr (pe_agentInput p)),
     (''deepseek'', map_option turnJson (pe_deepseek p))]"

definition pendingOf :: "json \<Rightarrow> Pending option" where
  "pendingOf v = do {
     input \<leftarrow> needProp v ''input'' questionOf;
     generation \<leftarrow> needProp v ''generation'' natOf;
     started \<leftarrow> needProp v ''started'' natOf;
     stage \<leftarrow> needProp v ''stage'' stageOf;
     turnId \<leftarrow> needProp v ''turnId'' (nullOf textOf);
     tools \<leftarrow> needProp v ''tools'' toolStateOf;
     results \<leftarrow> jfield v ''results'';
     delegationId \<leftarrow> needProp v ''delegationId'' (nullOf textOf);
     route \<leftarrow> needProp v ''route'' pendingRouteOf;
     agentInput \<leftarrow> optProp v ''agentInput'' textOf;
     deepseek \<leftarrow> optProp v ''deepseek'' turnOf;
     Some \<lparr>pe_input = input, pe_deepseek = deepseek, pe_agentInput = agentInput, pe_generation = generation, pe_started = started,
       pe_stage = stage, pe_turnId = turnId, pe_tools = tools, pe_results = results, pe_delegationId = delegationId,
       pe_route = route\<rparr> }"

definition statusOf :: "json \<Rightarrow> Status option" where
  "statusOf = tagOf statusName [StatusReady, StatusWorking, StatusCancelling]"

definition conversationJson :: "Conversation \<Rightarrow> json" where
  "conversationJson c = jsObject [(''format'', Some (decNumber (co_format c))), (''id'', Some (JStr (co_id c))),
     (''native'', map_option JBool (co_native c)), (''nativeTextProvider'', map_option JStr (co_nativeTextProvider c)),
     (''selectedPath'', map_option JStr (co_selectedPath c)), (''history'', Some (arrayJson historyItemJson (co_history c))),
     (''utterances'', Some (arrayJson utteranceJson (co_utterances c))), (''principal'', Some (JStr (co_principal c))),
     (''authId'', Some (JStr (co_authId c))), (''databaseId'', Some (JStr (co_databaseId c))), (''scope'', Some (scopeJson (co_scope c))),
     (''sessionId'', Some (nullJson JStr (co_sessionId c))), (''generation'', Some (decNumber (co_generation c))),
     (''pending'', Some (nullJson pendingJson (co_pending c))), (''activity'', Some (decNumber (co_activity c))),
     (''seen'', Some (decNumber (co_seen c))), (''status'', Some (JStr (statusName (co_status c)))),
     (''error'', Some (nullJson JStr (co_error c))), (''messages'', Some (arrayJson messageRowJson (co_messages c))),
     (''live'', co_live c), (''transcripts'', Some (co_transcripts c)), (''delegations'', Some (co_delegations c)),
     (''deferred'', Some (co_deferred c)), (''viewRevision'', map_option decNumber (co_viewRevision c)),
     (''viewFingerprint'', map_option JStr (co_viewFingerprint c))]"

definition conversationOf :: "json \<Rightarrow> Conversation option" where
  "conversationOf v = do {
     format \<leftarrow> needProp v ''format'' natOf;
     i \<leftarrow> needProp v ''id'' textOf;
     native \<leftarrow> optProp v ''native'' boolOf;
     provider \<leftarrow> optProp v ''nativeTextProvider'' textOf;
     selectedPath \<leftarrow> optProp v ''selectedPath'' textOf;
     history \<leftarrow> needProp v ''history'' (arrayOf historyItemOf);
     utterances \<leftarrow> needProp v ''utterances'' (arrayOf utteranceOf);
     principal \<leftarrow> needProp v ''principal'' textOf;
     authId \<leftarrow> needProp v ''authId'' textOf;
     databaseId \<leftarrow> needProp v ''databaseId'' textOf;
     scope \<leftarrow> needProp v ''scope'' scopeOf;
     sessionId \<leftarrow> needProp v ''sessionId'' (nullOf textOf);
     generation \<leftarrow> needProp v ''generation'' natOf;
     pending \<leftarrow> needProp v ''pending'' (nullOf pendingOf);
     activity \<leftarrow> needProp v ''activity'' natOf;
     seen \<leftarrow> needProp v ''seen'' natOf;
     status \<leftarrow> needProp v ''status'' statusOf;
     error \<leftarrow> needProp v ''error'' (nullOf textOf);
     messages \<leftarrow> needProp v ''messages'' (arrayOf messageRowOf);
     transcripts \<leftarrow> jfield v ''transcripts'';
     delegations \<leftarrow> jfield v ''delegations'';
     deferred \<leftarrow> jfield v ''deferred'';
     viewRevision \<leftarrow> optProp v ''viewRevision'' natOf;
     viewFingerprint \<leftarrow> optProp v ''viewFingerprint'' textOf;
     Some \<lparr>co_format = format, co_native = native, co_nativeTextProvider = provider, co_viewRevision = viewRevision,
       co_viewFingerprint = viewFingerprint, co_selectedPath = selectedPath, co_history = history, co_utterances = utterances,
       co_id = i, co_authId = authId, co_principal = principal, co_databaseId = databaseId, co_scope = scope,
       co_sessionId = sessionId, co_generation = generation, co_pending = pending, co_activity = activity, co_seen = seen,
       co_status = status, co_error = error, co_messages = messages, co_live = jfield v ''live'', co_transcripts = transcripts,
       co_delegations = delegations, co_deferred = deferred\<rparr> }"

subsection \<open>They read back\<close>

interpretation role_form: json_form "\<lambda>x. JStr (roleName x)" roleOf "\<lambda>_. True"
proof
  fix x show "roleOf (JStr (roleName x)) = Some x" by (cases x) (simp_all add: roleOf_def tagOf_def)
qed simp_all

interpretation kind_form: json_form "\<lambda>x. JStr (kindName x)" kindOf "\<lambda>_. True"
proof
  fix x show "kindOf (JStr (kindName x)) = Some x" by (cases x) (simp_all add: kindOf_def tagOf_def)
qed simp_all

interpretation status_form: json_form "\<lambda>x. JStr (statusName x)" statusOf "\<lambda>_. True"
proof
  fix x show "statusOf (JStr (statusName x)) = Some x" by (cases x) (simp_all add: statusOf_def tagOf_def)
qed simp_all

interpretation history_form: json_form historyItemJson historyItemOf "\<lambda>_. True"
proof
  fix x show "historyItemOf (historyItemJson x) = Some x"
    by (simp add: historyItemOf_def historyItemJson_def needProp_def text_form.reads role_form.reads)
  show "wfJson (historyItemJson x)" unfolding historyItemJson_def by (rule wfJson_jsObject) simp_all
qed (simp add: historyItemJson_def)

interpretation utterance_form: json_form utteranceJson utteranceOf "\<lambda>_. True"
proof
  fix x show "utteranceOf (utteranceJson x) = Some x"
    by (simp add: utteranceOf_def utteranceJson_def needProp_def text_form.form_reads nat_form.reads role_form.reads)
  show "wfJson (utteranceJson x)"
    unfolding utteranceJson_def by (rule wfJson_jsObject) (simp_all add: nat_form.wf text_form.array_wf list_all_iff)
qed (simp add: utteranceJson_def)

interpretation trace_route_form: json_form "\<lambda>x. JStr (traceRouteName x)" traceRouteOf "\<lambda>_. True"
proof
  fix x show "traceRouteOf (JStr (traceRouteName x)) = Some x"
  proof (cases x)
    case (Some r)
    then show ?thesis by (cases r) (simp_all add: traceRouteOf_def tagOf_def)
  qed (simp add: traceRouteOf_def tagOf_def)
qed simp_all

interpretation trace_form: json_form traceJson traceOf "\<lambda>_. True"
proof
  fix x show "traceOf (traceJson x) = Some x"
    by (simp add: traceOf_def traceJson_def needProp_def trace_route_form.reads nat_form.reads bool_form.reads)
  show "wfJson (traceJson x)" unfolding traceJson_def by (rule wfJson_jsObject) (simp_all add: nat_form.wf)
qed (simp add: traceJson_def)

interpretation message_row_form: json_form messageRowJson messageRowOf "\<lambda>_. True"
proof
  fix x show "messageRowOf (messageRowJson x) = Some x"
    by (simp add: messageRowOf_def messageRowJson_def needProp_def text_form.form_reads bool_form.reads answer_form.form_reads
        kind_form.form_reads trace_form.form_reads)
  show "wfJson (messageRowJson x)"
    unfolding messageRowJson_def
    by (rule wfJson_jsObject) (simp_all add: text_form.null_wf answer_form.null_wf kind_form.null_wf trace_form.null_wf)
qed (simp add: messageRowJson_def)

text \<open>What the worker never reads must be well formed itself.\<close>

definition conversationGood :: "Conversation \<Rightarrow> bool" where
  "conversationGood c \<longleftrightarrow> pred_option (\<lambda>p. wfJson (pe_results p)) (co_pending c) \<and> pred_option wfJson (co_live c) \<and>
     wfJson (co_transcripts c) \<and> wfJson (co_delegations c) \<and> wfJson (co_deferred c)"

interpretation pending_form: json_form pendingJson pendingOf "\<lambda>p. wfJson (pe_results p)"
proof
  fix x show "pendingOf (pendingJson x) = Some x"
    by (simp add: pendingOf_def pendingJson_def needProp_def question_form.reads nat_form.reads stage_form.reads text_form.form_reads
        tools_form.reads route_form.reads turn_form.form_reads)
  assume "wfJson (pe_results x)"
  then show "wfJson (pendingJson x)"
    unfolding pendingJson_def
    by (intro wfJson_jsObject) (simp_all add: question_form.wf nat_form.wf text_form.null_wf tools_form.wf turn_form.wf)
qed (simp add: pendingJson_def)

interpretation conversation_form: json_form conversationJson conversationOf conversationGood
proof
  fix x show "conversationOf (conversationJson x) = Some x"
    by (simp add: conversationOf_def conversationJson_def needProp_def nat_form.form_reads text_form.form_reads bool_form.form_reads
        history_form.form_reads utterance_form.form_reads scope_form.reads pending_form.form_reads status_form.reads
        message_row_form.form_reads)
  assume "conversationGood x"
  then show "wfJson (conversationJson x)"
    unfolding conversationJson_def conversationGood_def
    by (intro wfJson_jsObject) (simp_all add: nat_form.wf text_form.null_wf history_form.array_wf utterance_form.array_wf
        scope_form.wf pending_form.null_wf message_row_form.array_wf list_all_iff)
qed (simp add: conversationJson_def)

end
