(* ===== verification/Assistant_Database.thy ===== *)
theory Assistant_Database
  imports Assistant_Leases Js_Json
begin

section \<open>Assistant worker: tables and statements\<close>

text \<open>
  The tables of \<^verbatim>\<open>workers/wiki-assistant/migrations/0001_assistant.sql\<close> and the statements which \<^verbatim>\<open>store.ts\<close>,
  \<^verbatim>\<open>leases.ts\<close> and \<^verbatim>\<open>reaper.ts\<close> send to D1. One statement, and one batch, is atomic: it changes all it says or, when a
  constraint fails, nothing (\<open>Inl\<close>). The columns of the former voice sessions are constants in every statement
  and left out.
\<close>

record UserRow =
  ur_principal :: string
  ur_revision :: nat
  ur_commit_id :: string
  ur_conversation_id :: "string option"
  ur_auth_id :: "string option"
  ur_data :: "string option"
  ur_usage_day :: string
  ur_questions :: nat
  ur_seen :: nat
  ur_activity :: nat
  ur_next_attempt :: nat

record RequestRow =
  rr_principal :: string
  rr_conversation_id :: string
  rr_request_id :: string
  rr_data :: string

record JobRow =
  jb_id :: string
  jb_principal :: string
  jb_conversation_id :: string
  jb_kind :: string
  jb_data :: string
  jb_state :: string
  jb_created_at :: nat

record CommandRow =
  cd_conversation_id :: string
  cd_request_id :: string
  cd_input_hash :: string
  cd_response :: "string option"

record StopRow =
  sp_conversation_id :: string
  sp_voice_id :: string
  sp_stopped_at :: nat

record AuthRow =
  ax_id :: string
  ax_phase :: string
  ax_expires_at :: nat
  ax_data :: string

record CleanupRow =
  cr_principal :: string
  cr_data :: string

record AsDb =
  db_users :: "UserRow list"
  db_requests :: "RequestRow list"
  db_jobs :: "JobRow list"
  db_commands :: "CommandRow list"
  db_stops :: "StopRow list"
  db_auth :: "AuthRow list"
  db_cleanup :: "CleanupRow list"
  db_leases :: leases

definition requestKey :: "RequestRow \<Rightarrow> string \<times> string" where
  "requestKey r = (rr_conversation_id r, rr_request_id r)"

definition commandKey :: "CommandRow \<Rightarrow> string \<times> string" where
  "commandKey r = (cd_conversation_id r, cd_request_id r)"

definition stopKey :: "StopRow \<Rightarrow> string \<times> string" where
  "stopKey r = (sp_conversation_id r, sp_voice_id r)"

text \<open>The error of a violated constraint.\<close>

definition constraintFailed :: string where
  "constraintFailed = ''D1_ERROR: UNIQUE constraint failed''"

subsection \<open>Users\<close>

text \<open>\<open>conversation_id TEXT UNIQUE\<close>: no other user has it.\<close>

definition conversationTaken :: "UserRow \<Rightarrow> UserRow list \<Rightarrow> bool" where
  "conversationTaken new users \<longleftrightarrow>
     list_ex (\<lambda>r. ur_principal r \<noteq> ur_principal new \<and> ur_conversation_id new \<noteq> None \<and> ur_conversation_id r = ur_conversation_id new) users"

definition savedOver :: "UserRow \<Rightarrow> UserRow \<Rightarrow> UserRow" where
  "savedOver new r = new \<lparr>ur_principal := ur_principal r, ur_revision := ur_revision r + 1, ur_seen := max (ur_seen r) (ur_seen new)\<rparr>"

definition upsertUser :: "(UserRow \<Rightarrow> bool) \<Rightarrow> UserRow \<Rightarrow> UserRow list \<Rightarrow> string + (nat \<times> UserRow list)" where
  "upsertUser guard new users =
     (case byKey ur_principal (ur_principal new) users of
        None \<Rightarrow> if conversationTaken new users then Inl constraintFailed else Inr (1, users @ [new])
      | Some r \<Rightarrow>
          if \<not> guard r then Inr (0, users)
          else if conversationTaken new users then Inl constraintFailed
          else Inr (1, updateWhere (\<lambda>x. ur_principal x = ur_principal new) (savedOver new) users))"

definition fenceHolds :: "Lease option \<Rightarrow> nat \<Rightarrow> leases \<Rightarrow> bool" where
  "fenceHolds fence now t = (case fence of None \<Rightarrow> True | Some l \<Rightarrow> valid l now t)"

text \<open>The condition of the later statements of a batch: the row of the user carries the commit of this batch.\<close>

definition committed :: "string \<Rightarrow> string \<Rightarrow> UserRow list \<Rightarrow> bool" where
  "committed who commit users = list_ex (\<lambda>r. ur_principal r = who \<and> ur_commit_id r = commit) users"

fun insertRequests :: "RequestRow list \<Rightarrow> RequestRow list \<Rightarrow> string + RequestRow list" where
  "insertRequests [] t = Inr t"
| "insertRequests (r # rs) t = (if hasKey requestKey (requestKey r) t then Inl constraintFailed else insertRequests rs (t @ [r]))"

definition pendingJobs :: "(JobRow \<Rightarrow> bool) \<Rightarrow> JobRow list \<Rightarrow> JobRow list" where
  "pendingJobs P jobs = updateWhere (\<lambda>j. P j \<and> jb_kind j = ''agent'') (\<lambda>j. j \<lparr>jb_state := ''pending''\<rparr>) jobs"

record SaveInput =
  sv_principal :: string
  sv_revision :: nat
  sv_row :: UserRow
  sv_requests :: "RequestRow list"
  sv_fence :: "Lease option"
  sv_now :: nat
  sv_previousAuth :: "string option"

text \<open>
  The batch of \<open>save\<close>; \<open>sv_row\<close> has no conversation exactly when \<open>!c\<close>. The result is the number of changes of
  the first statement.
\<close>

definition saveBatch :: "SaveInput \<Rightarrow> AsDb \<Rightarrow> string + (nat \<times> AsDb)" where
  "saveBatch v db =
     (let p = sv_principal v; new = sv_row v; commit = ur_commit_id new in
      bindR (upsertUser (\<lambda>r. ur_revision r = sv_revision v \<and> fenceHolds (sv_fence v) (sv_now v) (db_leases db)) new (db_users db))
        (\<lambda>(changes, users).
          if \<not> committed p commit users then Inr (changes, db \<lparr>db_users := users\<rparr>)
          else
            bindR (insertRequests (sv_requests v) (deleteWhere (\<lambda>r. rr_principal r = p) (db_requests db))) (\<lambda>requests.
              let conversation = (case ur_conversation_id new of Some i \<Rightarrow> i | None \<Rightarrow> '''');
                  db' = db \<lparr>db_users := users, db_requests := requests,
                            db_jobs := pendingJobs (\<lambda>j. jb_principal j = p \<and> jb_conversation_id j \<noteq> conversation) (db_jobs db)\<rparr>
              in Inr (changes,
                   if ur_conversation_id new \<noteq> None then db'
                   else db' \<lparr>db_commands := deleteWhere (\<lambda>c. \<not> list_ex (\<lambda>r. ur_conversation_id r = Some (cd_conversation_id c)) users)
                                              (db_commands db'),
                             db_jobs := pendingJobs (\<lambda>j. jb_principal j = p) (db_jobs db'),
                             db_auth := deleteWhere (\<lambda>a. sv_previousAuth v = Some (ax_id a)) (db_auth db')\<rparr>))))"

definition recordStop :: "string \<Rightarrow> nat \<Rightarrow> StopRow list \<Rightarrow> StopRow list" where
  "recordStop ident stopped stops =
     (if hasKey stopKey (ident, ''*'') stops
      then updateWhere (\<lambda>s. stopKey s = (ident, ''*'')) (\<lambda>s. s \<lparr>sp_stopped_at := min (sp_stopped_at s) stopped\<rparr>) stops
      else stops @ [\<lparr>sp_conversation_id = ident, sp_voice_id = ''*'', sp_stopped_at = stopped\<rparr>])"

definition ownsConversation :: "string \<Rightarrow> string \<Rightarrow> string \<Rightarrow> UserRow \<Rightarrow> bool" where
  "ownsConversation who authId ident r \<longleftrightarrow>
     ur_principal r = who \<and> ur_auth_id r = Some authId \<and> ur_conversation_id r = Some ident"

definition requestEndBatch :: "string \<Rightarrow> string \<Rightarrow> string \<Rightarrow> nat \<Rightarrow> AsDb \<Rightarrow> nat \<times> AsDb" where
  "requestEndBatch who authId ident stopped db =
     (let owned = ownsConversation who authId ident; n = changesWhere owned (db_users db);
          stops = (if n = 0 then db_stops db else recordStop ident stopped (db_stops db))
      in (n, db \<lparr>db_stops := stops,
                 db_users := updateWhere (\<lambda>r. owned r \<and> hasKey stopKey (ident, ''*'') stops)
                   (\<lambda>r. r \<lparr>ur_revision := ur_revision r + 1, ur_next_attempt := 0\<rparr>) (db_users db)\<rparr>))"

definition touchStmt :: "string \<Rightarrow> string \<Rightarrow> nat \<Rightarrow> AsDb \<Rightarrow> AsDb" where
  "touchStmt who ident now db = db \<lparr>db_users :=
     updateWhere (\<lambda>r. ur_principal r = who \<and> ur_conversation_id r = Some ident) (\<lambda>r. r \<lparr>ur_seen := now\<rparr>) (db_users db)\<rparr>"

definition scheduleStmt :: "string \<Rightarrow> string \<Rightarrow> nat \<Rightarrow> nat \<Rightarrow> AsDb \<Rightarrow> AsDb" where
  "scheduleStmt who ident revision n db = db \<lparr>db_users :=
     updateWhere (\<lambda>r. ur_principal r = who \<and> ur_conversation_id r = Some ident \<and> ur_revision r = revision)
       (\<lambda>r. r \<lparr>ur_next_attempt := n\<rparr>) (db_users db)\<rparr>"

text \<open>\<^verbatim>\<open>reaper.ts\<close>: the retry of a user whose maintenance lease is still held.\<close>

definition retryStmt :: "Lease \<Rightarrow> nat \<Rightarrow> nat \<Rightarrow> nat \<Rightarrow> AsDb \<Rightarrow> AsDb" where
  "retryStmt lease n due now db = db \<lparr>db_users :=
     updateWhere (\<lambda>r. ur_principal r = le_id lease \<and> ur_next_attempt r \<le> due \<and> le_scope lease = ''maintenance'' \<and> valid lease now (db_leases db))
       (\<lambda>r. r \<lparr>ur_next_attempt := n\<rparr>) (db_users db)\<rparr>"

subsection \<open>Authentication\<close>

definition insertAuthStmt :: "AuthRow \<Rightarrow> AsDb \<Rightarrow> string + AsDb" where
  "insertAuthStmt new db =
     (if hasKey ax_id (ax_id new) (db_auth db) then Inl constraintFailed else Inr (db \<lparr>db_auth := db_auth db @ [new]\<rparr>))"

definition saveAuthWhere :: "AuthRow \<Rightarrow> nat \<Rightarrow> string option \<Rightarrow> AuthRow \<Rightarrow> bool" where
  "saveAuthWhere new now expected r \<longleftrightarrow>
     ax_id r = ax_id new \<and> ax_expires_at r > now \<and> (case expected of None \<Rightarrow> True | Some phase \<Rightarrow> ax_phase r = phase)"

definition saveAuthStmt :: "AuthRow \<Rightarrow> nat \<Rightarrow> string option \<Rightarrow> AsDb \<Rightarrow> nat \<times> AsDb" where
  "saveAuthStmt new now expected db =
     (changesWhere (saveAuthWhere new now expected) (db_auth db),
      db \<lparr>db_auth := updateWhere (saveAuthWhere new now expected)
            (\<lambda>r. r \<lparr>ax_phase := ax_phase new, ax_expires_at := ax_expires_at new, ax_data := ax_data new\<rparr>) (db_auth db)\<rparr>)"

definition claimAuthWhere :: "string \<Rightarrow> nat \<Rightarrow> AuthRow \<Rightarrow> bool" where
  "claimAuthWhere ident now r \<longleftrightarrow> ax_id r = ident \<and> ax_phase r = ''pending'' \<and> ax_expires_at r > now"

definition claimAuthStmt :: "string \<Rightarrow> nat \<Rightarrow> AsDb \<Rightarrow> nat \<times> AsDb" where
  "claimAuthStmt ident now db =
     (changesWhere (claimAuthWhere ident now) (db_auth db),
      db \<lparr>db_auth := updateWhere (claimAuthWhere ident now) (\<lambda>r. r \<lparr>ax_phase := ''claiming''\<rparr>) (db_auth db)\<rparr>)"

definition deleteAuthStmt :: "string \<Rightarrow> AsDb \<Rightarrow> AsDb" where
  "deleteAuthStmt ident db = db \<lparr>db_auth := deleteWhere (\<lambda>a. ax_id a = ident) (db_auth db)\<rparr>"

text \<open>\<^verbatim>\<open>reaper.ts\<close>: expired records that no conversation uses.\<close>

definition expireAuthStmt :: "nat \<Rightarrow> AsDb \<Rightarrow> AsDb" where
  "expireAuthStmt now db = db \<lparr>db_auth := deleteWhere (\<lambda>a. ax_expires_at a \<le> now \<and>
     \<not> list_ex (\<lambda>r. ur_conversation_id r \<noteq> None \<and> ur_auth_id r = Some (ax_id a)) (db_users db)) (db_auth db)\<rparr>"

subsection \<open>Jobs and commands\<close>

definition intentStmt :: "JobRow \<Rightarrow> AsDb \<Rightarrow> AsDb" where
  "intentStmt job db = db \<lparr>db_jobs := insertOrIgnore jb_id job (db_jobs db)\<rparr>"

text \<open>SQLite's \<open>json_set(data, '$.providerId', id)\<close> and \<open>json_extract(data, '$.providerId') IS NULL\<close> on an object.\<close>

definition withProvider :: "string \<Rightarrow> string \<Rightarrow> string" where
  "withProvider providerId v =
     (case JSON_parse v of Some (JObj ps) \<Rightarrow> stringify (JObj (putProp ''providerId'' (JStr providerId) ps)) | _ \<Rightarrow> v)"

definition noProvider :: "string \<Rightarrow> bool" where
  "noProvider v = (case JSON_parse v of None \<Rightarrow> False | Some w \<Rightarrow> jfield w ''providerId'' = None \<or> jfield w ''providerId'' = Some JNull)"

definition createdStmt :: "string \<Rightarrow> string \<Rightarrow> AsDb \<Rightarrow> AsDb" where
  "createdStmt ident providerId db = db \<lparr>db_jobs := updateWhere (\<lambda>j. jb_id j = ident)
     (\<lambda>j. j \<lparr>jb_data := withProvider providerId (jb_data j),
             jb_state := if list_ex (\<lambda>u. ur_conversation_id u = Some (jb_conversation_id j)) (db_users db) then jb_state j else ''pending''\<rparr>)
     (db_jobs db)\<rparr>"

definition discardWhere :: "string \<Rightarrow> Lease \<Rightarrow> nat \<Rightarrow> leases \<Rightarrow> JobRow \<Rightarrow> bool" where
  "discardWhere ident fence now t j \<longleftrightarrow>
     jb_id j = ident \<and> jb_conversation_id j = le_id fence \<and> jb_kind j = ''agent'' \<and> jb_state j = ''active'' \<and> noProvider (jb_data j) \<and>
     le_scope fence = ''question'' \<and> valid fence now t"

definition discardStmt :: "string \<Rightarrow> Lease \<Rightarrow> nat \<Rightarrow> AsDb \<Rightarrow> nat \<times> AsDb" where
  "discardStmt ident fence now db =
     (changesWhere (discardWhere ident fence now (db_leases db)) (db_jobs db),
      db \<lparr>db_jobs := deleteWhere (discardWhere ident fence now (db_leases db)) (db_jobs db)\<rparr>)"

definition commandStmt :: "CommandRow \<Rightarrow> AsDb \<Rightarrow> nat \<times> AsDb" where
  "commandStmt new db =
     (if hasKey commandKey (commandKey new) (db_commands db) then 0 else 1,
      db \<lparr>db_commands := insertOrIgnore commandKey new (db_commands db)\<rparr>)"

definition commandResultStmt :: "string \<Rightarrow> string \<Rightarrow> string \<Rightarrow> AsDb \<Rightarrow> AsDb" where
  "commandResultStmt ident requestId response db = db \<lparr>db_commands :=
     updateWhere (\<lambda>c. commandKey c = (ident, requestId)) (\<lambda>c. c \<lparr>cd_response := Some response\<rparr>) (db_commands db)\<rparr>"

end
