(* ===== verification/Assistant_Store.thy ===== *)
theory Assistant_Store
  imports Assistant_Conversation Assistant_Database
begin

section \<open>Assistant worker: the store\<close>

text \<open>
  \<^verbatim>\<open>workers/wiki-assistant/src/store.ts\<close> and \<^verbatim>\<open>history-page.ts\<close>: the operations over the tables. A host gives the key,
  the cipher, the clock and the random identifiers, says which statements of other executions D1 runs before
  each statement of this one (\<open>dh_others\<close>), and which statements fail: a lost statement throws, and D1 may have
  executed it or not. Decoding reads a JSON value at its type; a value of another shape is an error here, a
  later exception in the worker.
\<close>

datatype D1Fault = NoFault | LostBefore | LostAfter

record StHost =
  dh_key :: "string option"
  dh_crypto :: WebCrypto
  dh_now :: "nat \<Rightarrow> nat"
  dh_day :: "nat \<Rightarrow> string"
  dh_uuid :: "nat \<Rightarrow> string"
  dh_others :: "nat \<Rightarrow> AsDb \<Rightarrow> AsDb"
  dh_fault :: "nat \<Rightarrow> D1Fault"

record StState =
  sd_k :: nat
  sd_db :: AsDb

type_synonym 'a stAct = "(StState, as_error, 'a) act"

definition readHost :: "(nat \<Rightarrow> 'a) \<Rightarrow> 'a stAct" where
  "readHost f = (\<lambda>s. (Inr (f (sd_k s)), s \<lparr>sd_k := sd_k s + 1\<rparr>))"

definition storeError :: "string \<Rightarrow> nat \<Rightarrow> 'a stAct" where
  "storeError code status = throwA (AssistantError code status)"

text \<open>One statement or batch.\<close>

definition d1 :: "StHost \<Rightarrow> (AsDb \<Rightarrow> string + ('a \<times> AsDb)) \<Rightarrow> 'a stAct" where
  "d1 h f = (\<lambda>s.
     let db = dh_others h (sd_k s) (sd_db s); k' = sd_k s + 1 in
     case dh_fault h (sd_k s) of
       LostBefore \<Rightarrow> (Inl (Thrown ''D1_ERROR''), \<lparr>sd_k = k', sd_db = db\<rparr>)
     | fault \<Rightarrow>
         (case f db of
            Inl e \<Rightarrow> (Inl (Thrown e), \<lparr>sd_k = k', sd_db = db\<rparr>)
          | Inr (x, db') \<Rightarrow> (if fault = NoFault then Inr x else Inl (Thrown ''D1_ERROR''), \<lparr>sd_k = k', sd_db = db'\<rparr>)))"

definition selectD1 :: "StHost \<Rightarrow> (AsDb \<Rightarrow> 'a) \<Rightarrow> 'a stAct" where
  "selectD1 h q = d1 h (\<lambda>db. Inr (q db, db))"

definition runD1 :: "StHost \<Rightarrow> (AsDb \<Rightarrow> AsDb) \<Rightarrow> unit stAct" where
  "runD1 h f = d1 h (\<lambda>db. Inr ((), f db))"

subsection \<open>Encrypted values\<close>

definition encryptedJson :: "EncryptedValueV1 \<Rightarrow> json" where
  "encryptedJson e = jsObject [(''version'', Some (decNumber (ev_version e))), (''algorithm'', Some (JStr (ev_algorithm e))),
     (''iv'', Some (JStr (ev_iv e))), (''ciphertext'', Some (JStr (ev_ciphertext e)))]"

definition encryptedOf :: "json \<Rightarrow> EncryptedValueV1 option" where
  "encryptedOf v = do {
     version \<leftarrow> needProp v ''version'' natOf;
     algorithm \<leftarrow> needProp v ''algorithm'' textOf;
     iv \<leftarrow> needProp v ''iv'' textOf;
     ciphertext \<leftarrow> needProp v ''ciphertext'' textOf;
     Some \<lparr>ev_version = version, ev_algorithm = algorithm, ev_iv = iv, ev_ciphertext = ciphertext\<rparr> }"

definition liftIi :: "ii_error + 'a \<Rightarrow> as_error + 'a" where
  "liftIi r = tryR r (\<lambda>e. Inl (Thrown (case e of IiError m \<Rightarrow> m | IiHostError m \<Rightarrow> m | _ \<Rightarrow> '''')))"

definition storeKey :: "StHost \<Rightarrow> as_error + string" where
  "storeKey h = (case dh_key h of None \<Rightarrow> Inl (AssistantError ''assistant_not_configured'' 503)
     | Some key \<Rightarrow> if key = [] then Inl (AssistantError ''assistant_not_configured'' 503) else Inr key)"

definition encodeAt :: "StHost \<Rightarrow> nat \<Rightarrow> json \<Rightarrow> string \<Rightarrow> as_error + string" where
  "encodeAt h k v context =
     bindR (storeKey h) (\<lambda>key. bindR (liftIi (encryptJson (dh_crypto h) k v key context)) (\<lambda>e. Inr (stringify (encryptedJson e))))"

definition encode :: "StHost \<Rightarrow> json \<Rightarrow> string \<Rightarrow> string stAct" where
  "encode h v context = bindA (readHost (\<lambda>k. encodeAt h k v context)) liftR"

definition decode :: "StHost \<Rightarrow> (json \<Rightarrow> 'a option) \<Rightarrow> string \<Rightarrow> string \<Rightarrow> as_error + 'a" where
  "decode h read v context =
     (case JSON_parse v of
        None \<Rightarrow> Inl JsonSyntaxError
      | Some w \<Rightarrow>
          bindR (storeKey h) (\<lambda>key.
            case encryptedOf w of
              None \<Rightarrow> Inl (Thrown ''unsupported encrypted value'')
            | Some e \<Rightarrow>
                bindR (liftIi (decryptJson (dh_crypto h) e key context)) (\<lambda>x.
                  case read x of None \<Rightarrow> Inl (Thrown ''unexpected shape'') | Some y \<Rightarrow> Inr y)))"

subsection \<open>Loading a user\<close>

definition conversationContext :: "string \<Rightarrow> string" where
  "conversationContext who = who @ '':conversation''"

definition messageContext :: "string \<Rightarrow> string \<Rightarrow> string" where
  "messageContext ident requestId = ident @ '':'' @ requestId"

definition storedConversation :: "StHost \<Rightarrow> string \<Rightarrow> UserRow \<Rightarrow> as_error + Conversation option" where
  "storedConversation h who row =
     (case ur_data row of
        None \<Rightarrow> Inr None
      | Some text \<Rightarrow>
          if text = [] then Inr None
          else bindR (decode h (nullOf conversationOf) text (conversationContext who)) (\<lambda>c.
                 Inr (map_option (\<lambda>c. c \<lparr>co_seen := max (co_seen c) (ur_seen row)\<rparr>) c)))"

definition requestsOf :: "string \<Rightarrow> RequestRow list \<Rightarrow> RequestRow list" where
  "requestsOf ident t = filter (\<lambda>r. rr_conversation_id r = ident) t"

definition storedMessage :: "StHost \<Rightarrow> string \<Rightarrow> RequestRow \<Rightarrow> as_error + Message" where
  "storedMessage h ident r = decode h messageRowOf (rr_data r) (messageContext ident (rr_request_id r))"

definition cleanupOf :: "json \<Rightarrow> Cleanup option" where
  "cleanupOf v = do {
     nextAttempt \<leftarrow> optProp v ''nextAttempt'' natOf;
     liveId \<leftarrow> optProp v ''liveId'' (nullOf textOf);
     Some \<lparr>cl_nextAttempt = nextAttempt, cl_liveId = Option.bind liveId (\<lambda>x. x), cl_voiceUsage = (jfield v ''voiceUsage'' \<notin> {None, Some JNull})\<rparr> }"

definition storedCleanup :: "CleanupRow option \<Rightarrow> as_error + Cleanup list" where
  "storedCleanup row =
     (case row of
        None \<Rightarrow> Inr []
      | Some r \<Rightarrow>
          (case JSON_parse (cr_data r) of
             None \<Rightarrow> Inl JsonSyntaxError
           | Some v \<Rightarrow>
               (case optProp v ''cleanup'' (arrayOf cleanupOf) of
                  None \<Rightarrow> Inl (Thrown ''unexpected shape'')
                | Some tasks \<Rightarrow>
                    Inr (filter (\<lambda>t. cl_liveId t \<in> {None, Some []} \<and> \<not> cl_voiceUsage t) (case tasks of None \<Rightarrow> [] | Some ts \<Rightarrow> ts)))))"

definition stoppedAt :: "string \<Rightarrow> StopRow list \<Rightarrow> nat option" where
  "stoppedAt ident stops =
     foldr (\<lambda>s m. if stopKey s = (ident, ''*'') then Some (case m of None \<Rightarrow> sp_stopped_at s | Some n \<Rightarrow> min (sp_stopped_at s) n) else m) stops None"

record UserRecord =
  ux_revision :: nat
  ux_state :: UserState

definition load :: "StHost \<Rightarrow> string \<Rightarrow> bool \<Rightarrow> UserRecord stAct" where
  "load h who includeMessages =
     bindA (selectD1 h (\<lambda>db. byKey ur_principal who (db_users db))) (\<lambda>row.
     bindA (readHost (dh_day h)) (\<lambda>today.
     bindA (liftR (case row of None \<Rightarrow> Inr None | Some r \<Rightarrow> storedConversation h who r)) (\<lambda>stored.
     bindA (case stored of
              Some c \<Rightarrow>
                if includeMessages
                then bindA (selectD1 h (\<lambda>db. requestsOf (co_id c) (db_requests db))) (\<lambda>rows.
                     bindA (liftR (mapR (storedMessage h (co_id c)) rows)) (\<lambda>messages. retA (Some (c \<lparr>co_messages := messages\<rparr>))))
                else retA (Some c)
            | None \<Rightarrow> retA None) (\<lambda>conversation.
     bindA (selectD1 h (\<lambda>db. byKey cr_principal who (db_cleanup db))) (\<lambda>cleanup.
     bindA (liftR (storedCleanup cleanup)) (\<lambda>tasks.
     bindA (case conversation of
              Some c \<Rightarrow> selectD1 h (\<lambda>db. stoppedAt (co_id c) (db_stops db))
            | None \<Rightarrow> retA None) (\<lambda>stopped.
       retA \<lparr>ux_revision = (case row of None \<Rightarrow> 0 | Some r \<Rightarrow> ur_revision r),
             ux_state = \<lparr>us_endRequested = stopped, us_principal = Some who,
                         us_day = (case row of None \<Rightarrow> today | Some r \<Rightarrow> ur_usage_day r),
                         us_questions = (case row of None \<Rightarrow> 0 | Some r \<Rightarrow> ur_questions r),
                         us_conversation = conversation, us_cleanup = tasks\<rparr>\<rparr>)))))))"

subsection \<open>Saving a user\<close>

text \<open>What the client sees of a conversation; the save of a changed view gives it a new revision, in memory too.\<close>

definition viewJson :: "Conversation \<Rightarrow> json" where
  "viewJson c = JArr [JStr (co_id c), JStr (co_databaseId c), scopeJson (co_scope c), decNumber (co_generation c),
     JStr (statusName (co_status c)), nullJson JStr (co_error c), arrayJson messageRowJson (co_messages c),
     arrayJson utteranceJson (co_utterances c)]"

definition withView :: "StHost \<Rightarrow> nat \<Rightarrow> Conversation \<Rightarrow> Conversation" where
  "withView h revision c =
     (if co_native c = Some True then
        let fingerprint = sha256 (dh_crypto h) (stringify (viewJson c)) in
        if co_viewFingerprint c \<noteq> Some fingerprint
        then c \<lparr>co_viewRevision := Some (max (case co_viewRevision c of None \<Rightarrow> revision | Some n \<Rightarrow> n) revision + 1),
                co_viewFingerprint := Some fingerprint\<rparr>
        else c
      else c)"

definition userRow :: "string \<Rightarrow> UserState \<Rightarrow> string \<Rightarrow> Conversation option \<Rightarrow> string option \<Rightarrow> nat \<Rightarrow> UserRow" where
  "userRow who state commit c payload n =
     \<lparr>ur_principal = who, ur_revision = 1, ur_commit_id = commit, ur_conversation_id = map_option co_id c,
      ur_auth_id = map_option co_authId c, ur_data = payload, ur_usage_day = us_day state, ur_questions = us_questions state,
      ur_seen = (case c of None \<Rightarrow> 0 | Some c \<Rightarrow> co_seen c), ur_activity = (case c of None \<Rightarrow> 0 | Some c \<Rightarrow> co_activity c),
      ur_next_attempt = n\<rparr>"

definition encodeMessage :: "StHost \<Rightarrow> string \<Rightarrow> string \<Rightarrow> Message \<Rightarrow> RequestRow stAct" where
  "encodeMessage h who ident m =
     bindA (encode h (messageRowJson m) (messageContext ident (me_requestId m))) (\<lambda>text.
       retA \<lparr>rr_principal = who, rr_conversation_id = ident, rr_request_id = me_requestId m, rr_data = text\<rparr>)"

definition save :: "StHost \<Rightarrow> string \<Rightarrow> nat \<Rightarrow> UserState \<Rightarrow> nat \<Rightarrow> Lease option \<Rightarrow> nat stAct" where
  "save h who revision state n fence =
     (let c = map_option (withView h revision) (us_conversation state) in
      bindA (readHost (dh_uuid h)) (\<lambda>commit.
      bindA (case c of
               None \<Rightarrow> selectD1 h (\<lambda>db. Option.bind (byKey ur_principal who (db_users db)) ur_auth_id)
             | Some _ \<Rightarrow> retA None) (\<lambda>previous.
      bindA (case c of
               None \<Rightarrow> retA None
             | Some c \<Rightarrow> bindA (encode h (conversationJson (c \<lparr>co_messages := []\<rparr>)) (conversationContext who)) (\<lambda>text. retA (Some text)))
        (\<lambda>payload.
      bindA (readHost (dh_now h)) (\<lambda>now.
      bindA (case c of None \<Rightarrow> retA [] | Some c \<Rightarrow> mapA (encodeMessage h who (co_id c)) (co_messages c)) (\<lambda>requests.
      bindA (d1 h (saveBatch \<lparr>sv_principal = who, sv_revision = revision, sv_row = userRow who state commit c payload n,
                              sv_requests = requests, sv_fence = fence, sv_now = now, sv_previousAuth = previous\<rparr>)) (\<lambda>changes.
        if changes \<noteq> 1 then storeError ''stale_state'' 409 else retA (revision + 1))))))))"

subsection \<open>Stops, schedules and commands\<close>

definition requestEnd :: "StHost \<Rightarrow> string \<Rightarrow> string \<Rightarrow> string \<Rightarrow> nat \<Rightarrow> bool stAct" where
  "requestEnd h who authId ident stopped =
     bindA (d1 h (\<lambda>db. Inr (requestEndBatch who authId ident stopped db))) (\<lambda>changes. retA (changes = 1))"

definition touch :: "StHost \<Rightarrow> string \<Rightarrow> string \<Rightarrow> unit stAct" where
  "touch h who ident = bindA (readHost (dh_now h)) (\<lambda>now. runD1 h (touchStmt who ident now))"

definition schedule :: "StHost \<Rightarrow> string \<Rightarrow> string \<Rightarrow> nat \<Rightarrow> nat \<Rightarrow> unit stAct" where
  "schedule h who ident revision n = runD1 h (scheduleStmt who ident revision n)"

definition intent :: "StHost \<Rightarrow> string \<Rightarrow> string \<Rightarrow> string \<Rightarrow> json \<Rightarrow> unit stAct" where
  "intent h ident who conversationId v =
     bindA (readHost (dh_now h)) (\<lambda>now. runD1 h (intentStmt \<lparr>jb_id = ident, jb_principal = who, jb_conversation_id = conversationId,
       jb_kind = ''agent'', jb_data = stringify v, jb_state = ''active'', jb_created_at = now\<rparr>))"

definition created :: "StHost \<Rightarrow> string \<Rightarrow> string \<Rightarrow> unit stAct" where
  "created h ident providerId = runD1 h (createdStmt ident providerId)"

definition discardUncreatedAgentIntent :: "StHost \<Rightarrow> string \<Rightarrow> Lease \<Rightarrow> bool stAct" where
  "discardUncreatedAgentIntent h ident fence =
     (if le_scope fence \<noteq> ''question'' then retA False
      else bindA (readHost (dh_now h)) (\<lambda>now.
           bindA (d1 h (\<lambda>db. Inr (discardStmt ident fence now db))) (\<lambda>changes. retA (changes = 1))))"

record CommandResult =
  cm_status :: nat
  cm_body :: json

definition commandResultJson :: "CommandResult \<Rightarrow> json" where
  "commandResultJson r = jsObject [(''status'', Some (decNumber (cm_status r))), (''body'', Some (cm_body r))]"

definition commandResultOf :: "json \<Rightarrow> CommandResult option" where
  "commandResultOf v = do {
     status \<leftarrow> needProp v ''status'' natOf;
     body \<leftarrow> jfield v ''body'';
     Some \<lparr>cm_status = status, cm_body = body\<rparr> }"

definition command :: "StHost \<Rightarrow> string \<Rightarrow> string \<Rightarrow> string \<Rightarrow> (bool \<times> CommandResult option) stAct" where
  "command h ident requestId hash =
     bindA (d1 h (\<lambda>db. Inr (commandStmt \<lparr>cd_conversation_id = ident, cd_request_id = requestId, cd_input_hash = hash, cd_response = None\<rparr> db)))
       (\<lambda>changes.
     bindA (selectD1 h (\<lambda>db. byKey commandKey (ident, requestId) (db_commands db))) (\<lambda>row.
       case row of
         None \<Rightarrow> storeError ''request_id_conflict'' 409
       | Some r \<Rightarrow>
           if cd_input_hash r \<noteq> hash then storeError ''request_id_conflict'' 409
           else
             bindA (liftR (case cd_response r of
                             None \<Rightarrow> Inr None
                           | Some text \<Rightarrow>
                               if text = [] then Inr None
                               else bindR (decode h commandResultOf text (messageContext ident requestId)) (\<lambda>x. Inr (Some x)))) (\<lambda>response.
               retA (changes = 1, response))))"

definition commandResult :: "StHost \<Rightarrow> string \<Rightarrow> string \<Rightarrow> CommandResult \<Rightarrow> unit stAct" where
  "commandResult h ident requestId response =
     bindA (encode h (commandResultJson response) (messageContext ident requestId)) (\<lambda>text.
       runD1 h (commandResultStmt ident requestId text))"

text \<open>\<open>ORDER BY next_attempt LIMIT ?\<close>; SQLite leaves the order of equal keys open, here it is that of the rows.\<close>

definition due :: "StHost \<Rightarrow> nat \<Rightarrow> string list stAct" where
  "due h limit =
     bindA (readHost (dh_now h)) (\<lambda>now.
       selectD1 h (\<lambda>db. map ur_principal (take limit (sort_key ur_next_attempt (filter (\<lambda>r. ur_next_attempt r \<le> now) (db_users db))))))"

end
