(* ===== verification/Assistant_Commits.thy ===== *)
theory Assistant_Commits
  imports Assistant_Database
begin

section \<open>Assistant worker: what a revision pins\<close>

text \<open>
  Arbitrary interleavings of the statements on the tables. A run keeps the tables well formed (keys, one owner for
  each conversation, stored messages only for the conversation of their user); the revision of a user never
  decreases, and as long as it is the same so are the row, apart from the two columns that heartbeats and
  schedules set, and the stored messages. A save checks the revision it was computed from, hence it replaces
  exactly the state it was computed from.
\<close>

subsection \<open>Well-formed tables\<close>

definition messagesOf :: "string \<Rightarrow> AsDb \<Rightarrow> RequestRow list" where
  "messagesOf who db = filter (\<lambda>r. rr_principal r = who) (db_requests db)"

definition ownedRequests :: "AsDb \<Rightarrow> bool" where
  "ownedRequests db \<longleftrightarrow> (\<forall>q \<in> set (db_requests db). \<exists>r \<in> set (db_users db).
     ur_principal r = rr_principal q \<and> ur_conversation_id r = Some (rr_conversation_id q))"

definition oneOwner :: "UserRow list \<Rightarrow> bool" where
  "oneOwner users \<longleftrightarrow> (\<forall>r \<in> set users. \<forall>x \<in> set users.
     ur_conversation_id r \<noteq> None \<longrightarrow> ur_conversation_id x = ur_conversation_id r \<longrightarrow> ur_principal x = ur_principal r)"

definition dbInv :: "AsDb \<Rightarrow> bool" where
  "dbInv db \<longleftrightarrow> keyed ur_principal (db_users db) \<and> oneOwner (db_users db) \<and> ownedRequests db \<and>
     keyed requestKey (db_requests db) \<and> keyed leaseKey (db_leases db) \<and> keyed ax_id (db_auth db) \<and> keyed commandKey (db_commands db)"

subsection \<open>Statements of all executions\<close>

text \<open>What \<open>save\<close> binds: the messages belong to the saved conversation, and the commit identifier is fresh.\<close>

definition saveWf :: "SaveInput \<Rightarrow> bool" where
  "saveWf v \<longleftrightarrow> ur_principal (sv_row v) = sv_principal v \<and>
     list_all (\<lambda>q. rr_principal q = sv_principal v \<and> ur_conversation_id (sv_row v) = Some (rr_conversation_id q)) (sv_requests v)"

definition freshCommit :: "string \<Rightarrow> AsDb \<Rightarrow> bool" where
  "freshCommit commit db \<longleftrightarrow> \<not> list_ex (\<lambda>r. ur_commit_id r = commit) (db_users db)"

inductive dbStep :: "AsDb \<Rightarrow> AsDb \<Rightarrow> bool" where
  step_save: "saveWf v \<Longrightarrow> saveBatch v db = Inr (n, db') \<Longrightarrow> (n = 0 \<longrightarrow> freshCommit (ur_commit_id (sv_row v)) db) \<Longrightarrow> dbStep db db'"
| step_end: "dbStep db (snd (requestEndBatch who authId ident stopped db))"
| step_touch: "dbStep db (touchStmt who ident now db)"
| step_schedule: "dbStep db (scheduleStmt who ident revision n db)"
| step_retry: "dbStep db (retryStmt lease n since now db)"
| step_insertAuth: "insertAuthStmt new db = Inr db' \<Longrightarrow> dbStep db db'"
| step_saveAuth: "dbStep db (snd (saveAuthStmt new now expected db))"
| step_claimAuth: "dbStep db (snd (claimAuthStmt ident now db))"
| step_deleteAuth: "dbStep db (deleteAuthStmt ident db)"
| step_expireAuth: "dbStep db (expireAuthStmt now db)"
| step_intent: "dbStep db (intentStmt job db)"
| step_created: "dbStep db (createdStmt ident providerId db)"
| step_discard: "dbStep db (snd (discardStmt ident fence now db))"
| step_command: "dbStep db (snd (commandStmt new db))"
| step_commandResult: "dbStep db (commandResultStmt ident requestId response db)"
| step_lease: "leaseStep (db_leases db) t \<Longrightarrow> dbStep db (db \<lparr>db_leases := t\<rparr>)"

subsection \<open>Upserts\<close>

lemma upsert_refused: "byKey ur_principal (ur_principal new) users = Some r \<Longrightarrow> \<not> guard r \<Longrightarrow> upsertUser guard new users = Inr (0, users)"
  by (simp add: upsertUser_def)

interpretation saved_row: row_update ur_principal "savedOver new" for new
  by unfold_locales (simp add: savedOver_def)

lemma upsert_cases:
  assumes "upsertUser guard new users = Inr (n, users')"
  obtains (inserted) "byKey ur_principal (ur_principal new) users = None" "users' = users @ [new]" "n = 1" "\<not> conversationTaken new users"
  | (refused) r where "byKey ur_principal (ur_principal new) users = Some r" "\<not> guard r" "users' = users" "n = 0"
  | (updated) r where "byKey ur_principal (ur_principal new) users = Some r" "guard r" "n = 1" "\<not> conversationTaken new users"
      "users' = updateWhere (\<lambda>x. ur_principal x = ur_principal new) (savedOver new) users"
  using assms by (auto simp: upsertUser_def split: option.splits if_splits)

lemma upsert_byKey:
  assumes "upsertUser guard new users = Inr (n, users')" and "who \<noteq> ur_principal new"
  shows "byKey ur_principal who users' = byKey ur_principal who users"
  using assms(1)
proof (cases rule: upsert_cases)
  case inserted
  then show ?thesis using assms(2) by (simp add: byKey_append_one split: option.split)
next
  case (updated r)
  then show ?thesis using assms(2)
    by (auto simp: saved_row.byKey_update map_option_case dest: byKey_Some_D split: option.split)
qed simp

lemma upsert_keyed: "upsertUser guard new users = Inr (n, users') \<Longrightarrow> keyed ur_principal users \<Longrightarrow> keyed ur_principal users'"
proof (erule upsert_cases)
  assume "byKey ur_principal (ur_principal new) users = None" "users' = users @ [new]" "keyed ur_principal users"
  then show "keyed ur_principal users'" using keyed_append_one [of ur_principal users new] by (simp add: byKey_None_iff)
qed (simp_all add: saved_row.keyed_update)

text \<open>The rows after an upsert: those of the other users, and the saved row.\<close>

definition savedAs :: "UserRow \<Rightarrow> UserRow \<Rightarrow> bool" where
  "savedAs new x \<longleftrightarrow> ur_principal x = ur_principal new \<and> ur_commit_id x = ur_commit_id new \<and>
     ur_conversation_id x = ur_conversation_id new \<and> ur_auth_id x = ur_auth_id new \<and> ur_data x = ur_data new"

lemma upsert_rows:
  assumes "upsertUser guard new users = Inr (n, users')" and "x \<in> set users'"
  shows "x \<in> set users \<and> (n = 0 \<or> ur_principal x \<noteq> ur_principal new) \<or> n = 1 \<and> savedAs new x"
  using assms(1)
proof (cases rule: upsert_cases)
  case inserted
  then show ?thesis using assms(2) by (auto simp: savedAs_def byKey_None_iff image_iff)
next
  case (updated r)
  then obtain y where y: "y \<in> set users" "x = (if ur_principal y = ur_principal new then savedOver new y else y)"
    using assms(2) by (auto simp: updateWhere_def)
  then show ?thesis using updated(3) by (cases "ur_principal y = ur_principal new") (simp_all add: savedOver_def savedAs_def)
qed (use assms(2) in simp)

lemma upsert_count:
  assumes "upsertUser guard new users = Inr (n, users')"
  shows "n = 0 \<and> users' = users \<or> n = 1 \<and> \<not> conversationTaken new users \<and> (\<exists>x \<in> set users'. savedAs new x)"
  using assms
proof (cases rule: upsert_cases)
  case (updated r)
  from byKey_Some_D [OF updated(1)] have "savedOver new r \<in> set users'" by (auto simp: updated(5) updateWhere_def)
  moreover have "savedAs new (savedOver new r)" using byKey_Some_D [OF updated(1)] by (simp add: savedOver_def savedAs_def)
  ultimately show ?thesis using updated by blast
qed (auto simp: savedAs_def)

lemma oneOwner_D:
  assumes "oneOwner users" and "r \<in> set users" and "x \<in> set users" and "ur_conversation_id r \<noteq> None"
    and "ur_conversation_id x = ur_conversation_id r"
  shows "ur_principal x = ur_principal r"
  using assms(1) [unfolded oneOwner_def, rule_format, OF assms(2,3,4,5)] .

lemma upsert_oneOwner:
  assumes "upsertUser guard new users = Inr (n, users')" and "oneOwner users"
  shows "oneOwner users'"
proof (cases "n = 0")
  case True
  then show ?thesis using upsert_count [OF assms(1)] assms(2) by auto
next
  case False
  then have n: "n = 1" and free: "\<not> conversationTaken new users" using upsert_count [OF assms(1)] by auto
  have row: "x \<in> set users \<and> ur_principal x \<noteq> ur_principal new \<or> savedAs new x" if "x \<in> set users'" for x
    using upsert_rows [OF assms(1) that] n by auto
  have other: "ur_conversation_id x \<noteq> ur_conversation_id y" if "x \<in> set users" "ur_principal x \<noteq> ur_principal new" "savedAs new y"
      "ur_conversation_id y \<noteq> None" for x y
    using that free by (auto simp: conversationTaken_def list_ex_iff savedAs_def)
  show ?thesis
    unfolding oneOwner_def
  proof (intro ballI impI)
    fix r x
    assume rx: "r \<in> set users'" "x \<in> set users'" "ur_conversation_id r \<noteq> None" "ur_conversation_id x = ur_conversation_id r"
    from row [OF rx(1)] row [OF rx(2)] show "ur_principal x = ur_principal r"
    proof (elim disjE conjE)
      assume "x \<in> set users" "r \<in> set users"
      then show ?thesis using oneOwner_D [OF assms(2) _ _ rx(3,4)] by simp
    next
      assume "x \<in> set users" "ur_principal x \<noteq> ur_principal new" "savedAs new r"
      then show ?thesis using other rx(3,4) by blast
    next
      assume "savedAs new x" "r \<in> set users" "ur_principal r \<noteq> ur_principal new"
      then show ?thesis using other [of r x] rx(3,4) by simp
    qed (simp add: savedAs_def)
  qed
qed

subsection \<open>The batch of a save\<close>

lemma insertRequests_Inr: "insertRequests rs t = Inr t' \<Longrightarrow> t' = t @ rs \<and> (keyed requestKey t \<longrightarrow> keyed requestKey t')"
proof (induction rs arbitrary: t)
  case (Cons r rs)
  then have "insertRequests rs (t @ [r]) = Inr t'" "requestKey r \<notin> requestKey ` set t" by (auto simp: hasKey_iff split: if_splits)
  with Cons.IH [OF this(1)] keyed_append_one [of requestKey t r] show ?case by auto
qed simp

text \<open>A save is refused and changes nothing, or it replaces the row and the messages of its user.\<close>

lemma saveBatch_cases:
  assumes "saveBatch v db = Inr (n, db')" and "saveWf v" and "n = 0 \<longrightarrow> freshCommit (ur_commit_id (sv_row v)) db"
  obtains (refused) r where "n = 0" "db' = db" "byKey ur_principal (sv_principal v) (db_users db) = Some r"
      "\<not> (ur_revision r = sv_revision v \<and> fenceHolds (sv_fence v) (sv_now v) (db_leases db))"
  | (saved) guard where "n = 1" "upsertUser guard (sv_row v) (db_users db) = Inr (1, db_users db')"
      "guard = (\<lambda>r. ur_revision r = sv_revision v \<and> fenceHolds (sv_fence v) (sv_now v) (db_leases db))"
      "insertRequests (sv_requests v) (deleteWhere (\<lambda>r. rr_principal r = sv_principal v) (db_requests db)) = Inr (db_requests db')"
      "db_leases db' = db_leases db" "db_stops db' = db_stops db"
      "keyed commandKey (db_commands db) \<longrightarrow> keyed commandKey (db_commands db')" "keyed ax_id (db_auth db) \<longrightarrow> keyed ax_id (db_auth db')"
proof -
  let ?guard = "\<lambda>r. ur_revision r = sv_revision v \<and> fenceHolds (sv_fence v) (sv_now v) (db_leases db)"
  let ?commit = "ur_commit_id (sv_row v)"
  have who: "ur_principal (sv_row v) = sv_principal v" using assms(2) by (simp add: saveWf_def)
  from assms(1) obtain m users where up: "upsertUser ?guard (sv_row v) (db_users db) = Inr (m, users)"
    by (auto simp: saveBatch_def Let_def result_simps)
  with assms(1) have m: "m = n" by (auto simp: saveBatch_def Let_def result_simps split: if_splits)
  show ?thesis
  proof (cases "m = 0")
    case True
    with up obtain r where r: "byKey ur_principal (sv_principal v) (db_users db) = Some r" "\<not> ?guard r" "users = db_users db"
      by (cases rule: upsert_cases) (auto simp: who)
    have "\<not> committed (sv_principal v) ?commit users"
      using assms(3) True m by (auto simp: r(3) committed_def freshCommit_def list_ex_iff)
    with up True assms(1) have "n = 0" "db' = db" by (auto simp: saveBatch_def Let_def r(3))
    then show ?thesis using r by (intro refused)
  next
    case False
    with upsert_count [OF up] obtain x where x: "m = 1" "x \<in> set users" "savedAs (sv_row v) x" by auto
    then have com: "committed (sv_principal v) ?commit users" by (auto simp: committed_def list_ex_iff savedAs_def who)
    with up assms(1) obtain requests where
      ins: "insertRequests (sv_requests v) (deleteWhere (\<lambda>r. rr_principal r = sv_principal v) (db_requests db)) = Inr requests"
      by (auto simp: saveBatch_def Let_def result_simps)
    with up com assms(1) x(1) have "n = 1" "db_users db' = users" "db_requests db' = requests" "db_leases db' = db_leases db"
        "db_stops db' = db_stops db"
        "db_commands db' = (if ur_conversation_id (sv_row v) \<noteq> None then db_commands db
           else deleteWhere (\<lambda>c. \<not> list_ex (\<lambda>r. ur_conversation_id r = Some (cd_conversation_id c)) users) (db_commands db))"
        "db_auth db' = (if ur_conversation_id (sv_row v) \<noteq> None then db_auth db
           else deleteWhere (\<lambda>a. sv_previousAuth v = Some (ax_id a)) (db_auth db))"
      by (auto simp: saveBatch_def Let_def)
    then show ?thesis using up ins x(1) by (intro saved [of ?guard]) (simp_all add: keyed_deleteWhere)
  qed
qed

subsection \<open>Runs keep the tables well formed\<close>

lemma dbInv_D:
  assumes "dbInv db"
  shows "keyed ur_principal (db_users db)" "oneOwner (db_users db)" "ownedRequests db" "keyed requestKey (db_requests db)"
    "keyed leaseKey (db_leases db)" "keyed ax_id (db_auth db)" "keyed commandKey (db_commands db)"
  using assms by (simp_all add: dbInv_def)

text \<open>A statement on users that keeps the key and the conversation.\<close>

locale user_update = row_update ur_principal f for f :: "UserRow \<Rightarrow> UserRow" +
  assumes keeps_conversation: "ur_conversation_id (f r) = ur_conversation_id r"
begin

lemma update_row: "x \<in> set (updateWhere P f users) \<Longrightarrow>
  \<exists>r \<in> set users. ur_principal x = ur_principal r \<and> ur_conversation_id x = ur_conversation_id r"
  by (auto simp: updateWhere_def keeps_key keeps_conversation)

lemma updated_row: "r \<in> set users \<Longrightarrow>
  \<exists>x \<in> set (updateWhere P f users). ur_principal x = ur_principal r \<and> ur_conversation_id x = ur_conversation_id r"
  by (rule bexI [of _ "if P r then f r else r"]) (auto simp: updateWhere_def keeps_key keeps_conversation)

lemma oneOwner_update: "oneOwner users \<Longrightarrow> oneOwner (updateWhere P f users)"
proof (unfold oneOwner_def, intro ballI impI)
  fix r x
  assume one: "\<forall>r \<in> set users. \<forall>x \<in> set users.
      ur_conversation_id r \<noteq> None \<longrightarrow> ur_conversation_id x = ur_conversation_id r \<longrightarrow> ur_principal x = ur_principal r"
    and rx: "r \<in> set (updateWhere P f users)" "x \<in> set (updateWhere P f users)" "ur_conversation_id r \<noteq> None"
      "ur_conversation_id x = ur_conversation_id r"
  from update_row [OF rx(1)] obtain r' where r': "r' \<in> set users" "ur_principal r = ur_principal r'" "ur_conversation_id r = ur_conversation_id r'" by auto
  from update_row [OF rx(2)] obtain x' where x': "x' \<in> set users" "ur_principal x = ur_principal x'" "ur_conversation_id x = ur_conversation_id x'" by auto
  from one [rule_format, OF r'(1) x'(1)] rx r' x' show "ur_principal x = ur_principal r" by simp
qed

lemma inv_update:
  assumes "dbInv db" and "db_users db' = updateWhere P f (db_users db)" and "db_requests db' = db_requests db"
    and "db_leases db' = db_leases db" and "db_auth db' = db_auth db" and "db_commands db' = db_commands db"
  shows "dbInv db'"
proof -
  have "ownedRequests db'"
    unfolding ownedRequests_def assms(2,3)
  proof
    fix q assume "q \<in> set (db_requests db)"
    then obtain r where r: "r \<in> set (db_users db)" "ur_principal r = rr_principal q" "ur_conversation_id r = Some (rr_conversation_id q)"
      using dbInv_D(3) [OF assms(1)] by (auto simp: ownedRequests_def)
    from updated_row [OF r(1)] obtain x where "x \<in> set (updateWhere P f (db_users db))" "ur_principal x = ur_principal r"
      "ur_conversation_id x = ur_conversation_id r" by auto
    with r show "\<exists>r \<in> set (updateWhere P f (db_users db)). ur_principal r = rr_principal q \<and> ur_conversation_id r = Some (rr_conversation_id q)"
      by (intro bexI [of _ x]) simp_all
  qed
  with assms dbInv_D [OF assms(1)] show ?thesis by (simp add: dbInv_def keyed_update oneOwner_update)
qed

end

interpretation end_update: user_update "\<lambda>r. r \<lparr>ur_revision := ur_revision r + 1, ur_next_attempt := 0\<rparr>"
  by unfold_locales simp_all

interpretation seen_update: user_update "\<lambda>r. r \<lparr>ur_seen := n\<rparr>" for n
  by unfold_locales simp_all

interpretation attempt_update: user_update "\<lambda>r. r \<lparr>ur_next_attempt := n\<rparr>" for n
  by unfold_locales simp_all

lemma ownedRequests_saved:
  assumes "dbInv db" and "saveWf v" and "upsertUser guard (sv_row v) (db_users db) = Inr (1, db_users db')"
    and "db_requests db' = deleteWhere (\<lambda>r. rr_principal r = sv_principal v) (db_requests db) @ sv_requests v"
  shows "ownedRequests db'"
  unfolding ownedRequests_def
proof
  have who: "ur_principal (sv_row v) = sv_principal v" using assms(2) by (simp add: saveWf_def)
  fix q assume "q \<in> set (db_requests db')"
  with assms(4) consider (old) "q \<in> set (db_requests db)" "rr_principal q \<noteq> sv_principal v" | (new) "q \<in> set (sv_requests v)"
    by (auto simp: deleteWhere_def)
  then show "\<exists>r \<in> set (db_users db'). ur_principal r = rr_principal q \<and> ur_conversation_id r = Some (rr_conversation_id q)"
  proof cases
    case old
    then obtain r where r: "r \<in> set (db_users db)" "ur_principal r = rr_principal q" "ur_conversation_id r = Some (rr_conversation_id q)"
      using dbInv_D(3) [OF assms(1)] by (auto simp: ownedRequests_def)
    then have "byKey ur_principal (rr_principal q) (db_users db) = Some r"
      using byKey_keyed [OF dbInv_D(1) [OF assms(1)] r(1)] by simp
    then have "byKey ur_principal (rr_principal q) (db_users db') = Some r"
      using upsert_byKey [OF assms(3)] old who by simp
    then have "r \<in> set (db_users db')" using byKey_Some_D by fastforce
    with r show ?thesis by (intro bexI [of _ r]) simp_all
  next
    case new
    then have q: "rr_principal q = sv_principal v" "ur_conversation_id (sv_row v) = Some (rr_conversation_id q)"
      using assms(2) by (auto simp: saveWf_def list_all_iff)
    from upsert_count [OF assms(3)] obtain x where "x \<in> set (db_users db')" "savedAs (sv_row v) x" by auto
    with q who show ?thesis by (intro bexI [of _ x]) (simp_all add: savedAs_def)
  qed
qed

lemma dbStep_inv: "dbStep db db' \<Longrightarrow> dbInv db \<Longrightarrow> dbInv db'"
proof (induction rule: dbStep.induct)
  case (step_save v db n db')
  note inv = dbInv_D [OF step_save.prems]
  from step_save(2,1,3) show ?case
  proof (cases rule: saveBatch_cases)
    case (saved guard)
    note ins = insertRequests_Inr [OF saved(4)]
    have "ownedRequests db'" using ownedRequests_saved [OF step_save.prems step_save(1) saved(2)] ins by simp
    moreover have "keyed requestKey (db_requests db')" using ins inv(4) keyed_deleteWhere by blast
    ultimately show ?thesis
      using inv saved upsert_keyed [OF saved(2)] upsert_oneOwner [OF saved(2)] by (simp add: dbInv_def)
  qed (simp add: step_save.prems)
next
  case (step_end db who authId ident stopped)
  show ?case unfolding requestEndBatch_def Let_def by (rule end_update.inv_update [OF step_end.prems]) simp_all
next
  case (step_touch db who ident now)
  show ?case unfolding touchStmt_def by (rule seen_update.inv_update [OF step_touch.prems]) simp_all
next
  case (step_schedule db who ident revision n)
  show ?case unfolding scheduleStmt_def by (rule attempt_update.inv_update [OF step_schedule.prems]) simp_all
next
  case (step_retry db lease n since now)
  show ?case unfolding retryStmt_def by (rule attempt_update.inv_update [OF step_retry.prems]) simp_all
next
  case (step_insertAuth new db db')
  then show ?case
    using keyed_append_one [of ax_id "db_auth db" new]
    by (auto simp: insertAuthStmt_def dbInv_def ownedRequests_def hasKey_iff split: if_splits)
next
  case (step_saveAuth db new now expected)
  have "row_update ax_id (\<lambda>r :: AuthRow. r \<lparr>ax_phase := a, ax_expires_at := b, ax_data := c\<rparr>)" for a b c by unfold_locales simp
  from row_update.keyed_update [OF this] step_saveAuth show ?case
    by (simp add: saveAuthStmt_def dbInv_def ownedRequests_def)
next
  case (step_claimAuth db ident now)
  have "row_update ax_id (\<lambda>r :: AuthRow. r \<lparr>ax_phase := a\<rparr>)" for a by unfold_locales simp
  from row_update.keyed_update [OF this] step_claimAuth show ?case
    by (simp add: claimAuthStmt_def dbInv_def ownedRequests_def)
next
  case (step_command db new)
  then show ?case by (simp add: commandStmt_def dbInv_def ownedRequests_def keyed_insertOrIgnore)
next
  case (step_commandResult db ident requestId response)
  have "row_update commandKey (\<lambda>c :: CommandRow. c \<lparr>cd_response := a\<rparr>)" for a by unfold_locales (simp add: commandKey_def)
  from row_update.keyed_update [OF this] step_commandResult show ?case
    by (simp add: commandResultStmt_def dbInv_def ownedRequests_def)
next
  case (step_lease db t)
  then show ?case using leaseStep_keyed [OF step_lease(1)] by (simp add: dbInv_def ownedRequests_def)
qed (simp_all add: deleteAuthStmt_def expireAuthStmt_def intentStmt_def createdStmt_def discardStmt_def dbInv_def ownedRequests_def
    keyed_deleteWhere)

subsection \<open>What stays as long as the revision does\<close>

definition pinned :: "UserRow \<Rightarrow> UserRow \<Rightarrow> bool" where
  "pinned r r' \<longleftrightarrow> r' = r \<lparr>ur_seen := ur_seen r', ur_next_attempt := ur_next_attempt r'\<rparr>"

lemma pinned_refl: "pinned r r"
  by (simp add: pinned_def)

lemma pinned_revision: "pinned r r' \<Longrightarrow> ur_revision r' = ur_revision r"
  unfolding pinned_def by (drule arg_cong [of _ _ ur_revision]) simp

lemma pinned_trans: "pinned r s \<Longrightarrow> pinned s t \<Longrightarrow> pinned r t"
  unfolding pinned_def by (cases r; cases s; cases t) simp

definition rowAdv :: "string \<Rightarrow> AsDb \<Rightarrow> AsDb \<Rightarrow> UserRow \<Rightarrow> UserRow \<Rightarrow> bool" where
  "rowAdv who s t r r' \<longleftrightarrow> ur_revision r \<le> ur_revision r' \<and>
     (ur_revision r' = ur_revision r \<longrightarrow> pinned r r' \<and> messagesOf who t = messagesOf who s)"

definition dbAdv :: "AsDb \<Rightarrow> AsDb \<Rightarrow> bool" where
  "dbAdv s t \<longleftrightarrow> (\<forall>who r. byKey ur_principal who (db_users s) = Some r \<longrightarrow>
     (\<exists>r'. byKey ur_principal who (db_users t) = Some r' \<and> rowAdv who s t r r'))"

lemma dbAdv_same: "db_users t = db_users s \<Longrightarrow> db_requests t = db_requests s \<Longrightarrow> dbAdv s t"
  by (simp add: dbAdv_def rowAdv_def pinned_refl messagesOf_def)

lemma dbAdv_trans:
  assumes "dbAdv s t" and "dbAdv t u"
  shows "dbAdv s u"
  unfolding dbAdv_def
proof (intro allI impI)
  fix who r assume r: "byKey ur_principal who (db_users s) = Some r"
  from assms(1) [unfolded dbAdv_def, rule_format, OF this] obtain m where
    m: "byKey ur_principal who (db_users t) = Some m" "rowAdv who s t r m" by auto
  from assms(2) [unfolded dbAdv_def, rule_format, OF m(1)] obtain n where
    n: "byKey ur_principal who (db_users u) = Some n" "rowAdv who t u m n" by auto
  have "rowAdv who s u r n" using m(2) n(2) pinned_trans [of r m n] by (auto simp: rowAdv_def)
  with n(1) show "\<exists>r'. byKey ur_principal who (db_users u) = Some r' \<and> rowAdv who s u r r'" by blast
qed

lemma dbAdv_update:
  assumes "row_update ur_principal f" and "db_users t = updateWhere P f (db_users s)" and "db_requests t = db_requests s"
    and "\<And>r. ur_revision r < ur_revision (f r) \<or> pinned r (f r)"
  shows "dbAdv s t"
  unfolding dbAdv_def
proof (intro allI impI)
  fix who r assume r: "byKey ur_principal who (db_users s) = Some r"
  have "byKey ur_principal who (db_users t) = Some (if P r then f r else r)"
    using row_update.byKey_update [OF assms(1)] r by (simp add: assms(2))
  moreover have "ur_revision r \<le> ur_revision (f r)"
    using assms(4) [of r] pinned_revision [of r "f r"] by auto
  then have "rowAdv who s t r (if P r then f r else r)"
    using assms(4) [of r] by (auto simp: rowAdv_def messagesOf_def assms(3) pinned_refl)
  ultimately show "\<exists>r'. byKey ur_principal who (db_users t) = Some r' \<and> rowAdv who s t r r'" by blast
qed

lemma saved_messages:
  assumes "saveWf v" and "db_requests db' = deleteWhere (\<lambda>r. rr_principal r = sv_principal v) (db_requests db) @ sv_requests v"
  shows "messagesOf who db' = (if who = sv_principal v then sv_requests v else messagesOf who db)"
proof -
  have mine: "\<forall>q \<in> set (sv_requests v). rr_principal q = sv_principal v" using assms(1) by (auto simp: saveWf_def list_all_iff)
  then have "filter (\<lambda>r. rr_principal r = who) (sv_requests v) = (if who = sv_principal v then sv_requests v else [])"
    by (auto simp: filter_id_conv filter_empty_conv)
  moreover have "filter (\<lambda>r. rr_principal r = p) (deleteWhere (\<lambda>r. rr_principal r = p) t) = []" for p and t :: "RequestRow list"
    by (simp add: deleteWhere_def filter_empty_conv)
  moreover have "p \<noteq> who \<Longrightarrow> filter (\<lambda>r. rr_principal r = who) (deleteWhere (\<lambda>r. rr_principal r = p) t) =
      filter (\<lambda>r. rr_principal r = who) t" for p and t :: "RequestRow list"
    by (induction t) (auto simp: deleteWhere_def)
  ultimately show ?thesis by (simp add: messagesOf_def assms(2))
qed

lemma saved_user:
  assumes "upsertUser guard (sv_row v) users = Inr (1, users')" and "saveWf v"
  shows "byKey ur_principal (sv_principal v) users' =
     Some (case byKey ur_principal (sv_principal v) users of None \<Rightarrow> sv_row v | Some r \<Rightarrow> savedOver (sv_row v) r)"
proof -
  have who: "ur_principal (sv_row v) = sv_principal v" using assms(2) by (simp add: saveWf_def)
  from assms(1) show ?thesis
    by (cases rule: upsert_cases) (auto simp: who byKey_append_one saved_row.byKey_update dest: byKey_Some_D)
qed

lemma dbStep_adv: "dbStep db db' \<Longrightarrow> dbAdv db db'"
proof (induction rule: dbStep.induct)
  case (step_save v db n db')
  from step_save(2,1,3) show ?case
  proof (cases rule: saveBatch_cases)
    case (saved guard)
    have requests: "db_requests db' = deleteWhere (\<lambda>r. rr_principal r = sv_principal v) (db_requests db) @ sv_requests v"
      using insertRequests_Inr [OF saved(4)] by simp
    have who: "ur_principal (sv_row v) = sv_principal v" using step_save(1) by (simp add: saveWf_def)
    show ?thesis
      unfolding dbAdv_def
    proof (intro allI impI)
      fix p r assume r: "byKey ur_principal p (db_users db) = Some r"
      show "\<exists>r'. byKey ur_principal p (db_users db') = Some r' \<and> rowAdv p db db' r r'"
      proof (cases "p = sv_principal v")
        case True
        with saved_user [OF saved(2) step_save(1)] r show ?thesis by (simp add: rowAdv_def savedOver_def)
      next
        case False
        with upsert_byKey [OF saved(2)] who r saved_messages [OF step_save(1) requests]
        show ?thesis by (simp add: rowAdv_def pinned_refl)
      qed
    qed
  qed (simp add: dbAdv_same)
next
  case (step_end db who authId ident stopped)
  show ?case
    by (rule dbAdv_update [OF end_update.row_update_axioms]) (simp_all add: requestEndBatch_def Let_def)
next
  case (step_touch db who ident now)
  show ?case by (rule dbAdv_update [OF seen_update.row_update_axioms]) (simp_all add: touchStmt_def pinned_def)
next
  case (step_schedule db who ident revision n)
  show ?case by (rule dbAdv_update [OF attempt_update.row_update_axioms]) (simp_all add: scheduleStmt_def pinned_def)
next
  case (step_retry db lease n since now)
  show ?case by (rule dbAdv_update [OF attempt_update.row_update_axioms]) (simp_all add: retryStmt_def pinned_def)
next
  case (step_insertAuth new db db')
  then show ?case by (auto simp: insertAuthStmt_def split: if_splits intro: dbAdv_same)
qed (simp_all add: dbAdv_same saveAuthStmt_def claimAuthStmt_def deleteAuthStmt_def expireAuthStmt_def intentStmt_def createdStmt_def
    discardStmt_def commandStmt_def commandResultStmt_def)

interpretation storing: guarded_system dbStep dbInv dbAdv
  by unfold_locales (auto intro: dbStep_inv dbStep_adv dbAdv_same dbAdv_trans)

lemma save_refused:
  assumes "saveBatch v db = Inr (n, db')" and "saveWf v" and "n = 0 \<longrightarrow> freshCommit (ur_commit_id (sv_row v)) db"
    and "byKey ur_principal (sv_principal v) (db_users db) = Some r" and "ur_revision r \<noteq> sv_revision v"
  shows "n = 0 \<and> db' = db"
  using assms(1-3)
proof (cases rule: saveBatch_cases)
  case (saved guard)
  have "byKey ur_principal (ur_principal (sv_row v)) (db_users db) = Some r" using assms(2,4) by (simp add: saveWf_def)
  from upsert_refused [of "sv_row v" "db_users db" r guard, OF this] saved(2,3) assms(5) show ?thesis by simp
qed simp

text \<open>The columns of the user and its messages at the commit of a save are those of the revision it names.\<close>

lemma unchanged_since:
  assumes "dbStep\<^sup>*\<^sup>* s t" and "dbInv s" and "byKey ur_principal who (db_users s) = Some r"
    and "byKey ur_principal who (db_users t) = Some r'"
  shows "ur_revision r \<le> ur_revision r'" "ur_revision r' = ur_revision r \<Longrightarrow> pinned r r' \<and> messagesOf who t = messagesOf who s"
proof -
  have "rowAdv who s t r r'"
    using storing.adv_run [OF assms(1,2), unfolded dbAdv_def, rule_format, OF assms(3)] assms(4) by auto
  then show "ur_revision r \<le> ur_revision r'" "ur_revision r' = ur_revision r \<Longrightarrow> pinned r r' \<and> messagesOf who t = messagesOf who s"
    by (simp_all add: rowAdv_def)
qed

text \<open>
  C26. Saving is a compare-and-swap. Whatever the other executions do between: when a save that was computed from
  the row read in one state and the messages read in a later one succeeds, then until its commit nothing changed
  but heartbeat and schedule, so that both readings were of one revision and no change of another execution is
  lost; its fence held; the user has exactly the saved row and messages under the next revision; and no other
  save from the same revision succeeds later.
\<close>

theorem save_compare_and_swap:
  assumes "dbInv s0" and "byKey ur_principal (sv_principal v) (db_users s0) = Some r"
    and "dbStep\<^sup>*\<^sup>* s0 s1" and "dbStep\<^sup>*\<^sup>* s1 s2"
    and "saveWf v" and "sv_revision v = ur_revision r" and "saveBatch v s2 = Inr (1, s3)"
  shows "(\<exists>r2. byKey ur_principal (sv_principal v) (db_users s2) = Some r2 \<and> pinned r r2 \<and>
      messagesOf (sv_principal v) s1 = messagesOf (sv_principal v) s0 \<and> messagesOf (sv_principal v) s2 = messagesOf (sv_principal v) s1 \<and>
      fenceHolds (sv_fence v) (sv_now v) (db_leases s2) \<and>
      byKey ur_principal (sv_principal v) (db_users s3) = Some (savedOver (sv_row v) r2) \<and>
      ur_revision (savedOver (sv_row v) r2) = ur_revision r + 1 \<and> messagesOf (sv_principal v) s3 = sv_requests v) \<and>
    (\<forall>s4 w n s5. dbStep\<^sup>*\<^sup>* s3 s4 \<longrightarrow> sv_principal w = sv_principal v \<longrightarrow> saveWf w \<longrightarrow> sv_revision w = ur_revision r \<longrightarrow>
      saveBatch w s4 = Inr (n, s5) \<longrightarrow> (n = 0 \<longrightarrow> freshCommit (ur_commit_id (sv_row w)) s4) \<longrightarrow> n = 0 \<and> s5 = s4)"
proof -
  let ?p = "sv_principal v"
  have i1: "dbInv s1" using storing.inv_run [OF assms(3,1)] .
  have i2: "dbInv s2" using storing.inv_run [OF assms(4) i1] .
  have i3: "dbInv s3" using dbStep_inv [OF step_save [OF assms(5,7)] i2] by simp
  from storing.adv_run [OF assms(3,1), unfolded dbAdv_def, rule_format, OF assms(2)]
  obtain r1 where r1: "byKey ur_principal ?p (db_users s1) = Some r1" by auto
  from storing.adv_run [OF assms(4) i1, unfolded dbAdv_def, rule_format, OF r1]
  obtain r2 where r2: "byKey ur_principal ?p (db_users s2) = Some r2" by auto
  have who: "ur_principal (sv_row v) = ?p" using assms(5) by (simp add: saveWf_def)
  obtain guard where saved: "upsertUser guard (sv_row v) (db_users s2) = Inr (1, db_users s3)"
      "guard = (\<lambda>r. ur_revision r = sv_revision v \<and> fenceHolds (sv_fence v) (sv_now v) (db_leases s2))"
      "insertRequests (sv_requests v) (deleteWhere (\<lambda>r. rr_principal r = ?p) (db_requests s2)) = Inr (db_requests s3)"
    by (rule saveBatch_cases [OF assms(7,5)]) auto
  from saved(1) r2 who have "guard r2" by (auto elim: upsert_cases)
  with saved(2) assms(6) have g: "ur_revision r2 = ur_revision r" "fenceHolds (sv_fence v) (sv_now v) (db_leases s2)" by auto
  have le: "ur_revision r \<le> ur_revision r1" "ur_revision r1 \<le> ur_revision r2"
    using unchanged_since(1) [OF assms(3,1,2) r1] unchanged_since(1) [OF assms(4) i1 r1 r2] .
  then have eq: "ur_revision r1 = ur_revision r" "ur_revision r2 = ur_revision r1" using g(1) by auto
  note same = unchanged_since(2) [OF assms(3,1,2) r1 eq(1)] unchanged_since(2) [OF assms(4) i1 r1 r2 eq(2)]
  have pin: "pinned r r2" by (rule pinned_trans [OF conjunct1 [OF same(1)] conjunct1 [OF same(2)]])
  note m1 = conjunct2 [OF same(1)] and m2 = conjunct2 [OF same(2)]
  have row: "byKey ur_principal ?p (db_users s3) = Some (savedOver (sv_row v) r2)"
    using saved_user [OF saved(1) assms(5)] r2 by simp
  have msgs: "messagesOf ?p s3 = sv_requests v"
    using saved_messages [OF assms(5)] insertRequests_Inr [OF saved(3)] by simp
  have up: "ur_revision (savedOver (sv_row v) r2) = ur_revision r + 1" using g(1) by (simp add: savedOver_def)
  have refused: "n = 0 \<and> s5 = s4" if later: "dbStep\<^sup>*\<^sup>* s3 s4" "sv_principal w = ?p" "saveWf w" "sv_revision w = ur_revision r"
    "saveBatch w s4 = Inr (n, s5)" "n = 0 \<longrightarrow> freshCommit (ur_commit_id (sv_row w)) s4" for s4 w n s5
  proof -
    from storing.adv_run [OF later(1) i3, unfolded dbAdv_def, rule_format, OF row] obtain r4 where
      r4: "byKey ur_principal ?p (db_users s4) = Some r4" "ur_revision r + 1 \<le> ur_revision r4"
      by (auto simp: rowAdv_def up)
    show ?thesis by (rule save_refused [OF later(5,3), of r4]) (use r4 later(2,4,6) in simp_all)
  qed
  show ?thesis
    by (intro conjI exI [of _ r2] allI impI) ((rule r2 pin m1 m2 g(2) row up msgs)+, (rule refused [THEN conjunct1] refused [THEN conjunct2]; assumption)+)
qed

definition sampleRow :: "nat \<Rightarrow> string \<Rightarrow> UserRow" where
  "sampleRow revision commit = \<lparr>ur_principal = ''p1'', ur_revision = revision, ur_commit_id = commit, ur_conversation_id = Some ''c1'',
     ur_auth_id = Some ''a1'', ur_data = Some ''d'', ur_usage_day = ''2026-09-29'', ur_questions = 0, ur_seen = 5, ur_activity = 5,
     ur_next_attempt = 9\<rparr>"

definition sampleDb :: AsDb where
  "sampleDb = \<lparr>db_users = [sampleRow 4 ''u1''], db_requests = [], db_jobs = [], db_commands = [], db_stops = [], db_auth = [],
     db_cleanup = [], db_leases = []\<rparr>"

definition sampleSave :: SaveInput where
  "sampleSave = \<lparr>sv_principal = ''p1'', sv_revision = 4, sv_row = sampleRow 1 ''u2'',
     sv_requests = [\<lparr>rr_principal = ''p1'', rr_conversation_id = ''c1'', rr_request_id = ''r1'', rr_data = ''m''\<rparr>],
     sv_fence = None, sv_now = 7, sv_previousAuth = None\<rparr>"

theorem save_compare_and_swap_witness:
  "\<exists>s3. saveBatch sampleSave sampleDb = Inr (1, s3) \<and> messagesOf ''p1'' s3 = sv_requests sampleSave \<and>
     byKey ur_principal ''p1'' (db_users s3) = Some (sampleRow 5 ''u2'')"
proof -
  let ?s3 = "sampleDb \<lparr>db_users := [sampleRow 5 ''u2''], db_requests := sv_requests sampleSave\<rparr>"
  have run: "saveBatch sampleSave sampleDb = Inr (1, ?s3)"
    by (simp add: saveBatch_def Let_def sampleSave_def sampleDb_def sampleRow_def upsertUser_def conversationTaken_def fenceHolds_def
        savedOver_def updateWhere_def committed_def deleteWhere_def pendingJobs_def hasKey_def)
  have "dbInv sampleDb" by (simp add: dbInv_def sampleDb_def oneOwner_def ownedRequests_def keyed_def)
  moreover have "byKey ur_principal (sv_principal sampleSave) (db_users sampleDb) = Some (sampleRow 4 ''u1'')"
    by (simp add: sampleDb_def sampleSave_def sampleRow_def)
  moreover have "saveWf sampleSave" "sv_revision sampleSave = ur_revision (sampleRow 4 ''u1'')"
    by (simp_all add: saveWf_def sampleSave_def sampleRow_def)
  ultimately have "messagesOf (sv_principal sampleSave) ?s3 = sv_requests sampleSave"
    using save_compare_and_swap [of sampleDb sampleSave "sampleRow 4 ''u1''" sampleDb sampleDb ?s3] run by blast
  with run show ?thesis by (simp add: sampleSave_def sampleDb_def sampleRow_def)
qed

end
