(* ===== verification/Assistant_Saves.thy ===== *)
theory Assistant_Saves
  imports Assistant_Store Assistant_Commits
begin

section \<open>Assistant worker: what was saved is loaded\<close>

text \<open>
  The operations of the store over the interleavings of \<^verbatim>\<open>Assistant_Commits\<close>: a save that returns committed its batch,
  and a later load returns the saved state. Between the statements of an operation, and between the operations,
  the other executions run any statements.
\<close>

definition runs :: "StState \<Rightarrow> StState \<Rightarrow> bool" where
  "runs s t \<longleftrightarrow> dbStep\<^sup>*\<^sup>* (sd_db s) (sd_db t)"

definition hostRuns :: "StHost \<Rightarrow> bool" where
  "hostRuns h \<longleftrightarrow> (\<forall>k db. dbStep\<^sup>*\<^sup>* db (dh_others h k db))"

definition quiet :: "StHost \<Rightarrow> StHost" where
  "quiet h = h \<lparr>dh_others := \<lambda>_ db. db, dh_fault := \<lambda>_. NoFault\<rparr>"

interpretation run_moves: preorder_moves runs
  by unfold_locales (auto simp: runs_def)

definition sameDb :: "StState \<Rightarrow> StState \<Rightarrow> bool" where
  "sameDb s t \<longleftrightarrow> sd_db t = sd_db s"

interpretation same_moves: preorder_moves sameDb
  by unfold_locales (auto simp: sameDb_def)

lemma readHost_same: "movesA sameDb (readHost f)"
  by (simp add: movesA_def readHost_def sameDb_def)

lemma encode_same: "movesA sameDb (encode h v context)"
  unfolding encode_def by (intro same_moves.moves readHost_same)

lemma encodeMessage_same: "movesA sameDb (encodeMessage h who ident m)"
  unfolding encodeMessage_def by (intro same_moves.moves encode_same)

lemma selectD1_runs: "hostRuns h \<Longrightarrow> movesA runs (selectD1 h q)"
  by (auto simp: movesA_def selectD1_def d1_def hostRuns_def runs_def Let_def split: D1Fault.split)

subsection \<open>Encrypted values read back\<close>

interpretation encrypted_form: json_form encryptedJson encryptedOf "\<lambda>_. True"
proof
  fix x show "encryptedOf (encryptedJson x) = Some x"
    by (simp add: encryptedOf_def encryptedJson_def needProp_def text_form.reads nat_form.reads)
  show "wfJson (encryptedJson x)" unfolding encryptedJson_def by (rule wfJson_jsObject) (simp_all add: nat_form.wf)
qed (simp add: encryptedJson_def)

lemma liftIi_Inr [simp]: "liftIi r = Inr x \<longleftrightarrow> r = Inr x"
  by (cases r) (simp_all add: liftIi_def)

lemma decode_encode:
  assumes "encodeAt h k v context = Inr text" and "aeadOk (dh_crypto h)" and "wfJson v" and "read v = Some x"
  shows "decode h read text context = Inr x" "text \<noteq> []"
proof -
  from assms(1) obtain key e where key: "storeKey h = Inr key" and e: "encryptJson (dh_crypto h) k v key context = Inr e"
    and written: "text = stringify (encryptedJson e)"
    by (auto simp: encodeAt_def result_simps)
  have "JSON_parse text = Some (encryptedJson e)" unfolding written by (rule JSON_parse_stringify) (rule encrypted_form.wf, simp)
  with decrypt_encrypt [OF e assms(3,2)] key assms(4)
  show "decode h read text context = Inr x" by (simp add: decode_def encrypted_form.reads result_simps)
  show "text \<noteq> []" by (simp add: written encryptedJson_def jsObject_def)
qed

lemma encode_Inr: "encode h v context s = (Inr text, t) \<Longrightarrow> encodeAt h (sd_k s) v context = Inr text \<and> sd_db t = sd_db s"
  by (auto simp: encode_def readHost_def bindA_def)

definition encodes :: "StHost \<Rightarrow> string \<Rightarrow> string \<Rightarrow> Message \<Rightarrow> RequestRow \<Rightarrow> bool" where
  "encodes h who ident m r \<longleftrightarrow> rr_principal r = who \<and> rr_conversation_id r = ident \<and> rr_request_id r = me_requestId m \<and>
     (\<exists>k. encodeAt h k (messageRowJson m) (messageContext ident (me_requestId m)) = Inr (rr_data r))"

lemma encodeMessages_Inr:
  "mapA (encodeMessage h who ident) ms s = (Inr rs, t) \<Longrightarrow> list_all2 (encodes h who ident) ms rs \<and> sd_db t = sd_db s"
proof (induction ms arbitrary: s rs)
  case (Cons m ms)
  from Cons.prems obtain r u rs' where run: "encodeMessage h who ident m s = (Inr r, u)"
    "mapA (encodeMessage h who ident) ms u = (Inr rs', t)" "rs = r # rs'"
    by (auto elim!: bindA_Inr_E)
  from run(1) obtain x v where x: "encode h (messageRowJson m) (messageContext ident (me_requestId m)) s = (Inr x, v)"
    "u = v" "r = \<lparr>rr_principal = who, rr_conversation_id = ident, rr_request_id = me_requestId m, rr_data = x\<rparr>"
    by (auto simp: encodeMessage_def elim!: bindA_Inr_E)
  from encode_Inr [OF x(1)] x(2,3) have "encodes h who ident m r" "sd_db u = sd_db s"
    by (auto simp: encodes_def intro: exI [of _ "sd_k s"])
  with Cons.IH [OF run(2)] run(3) show ?case by simp
qed simp

text \<open>Stored messages are read back in order.\<close>

lemma storedMessages_read:
  assumes "list_all2 (encodes h who ident) ms rs" and "aeadOk (dh_crypto h)"
  shows "mapR (storedMessage h ident) rs = Inr ms"
  using assms(1)
proof (induction rule: list_all2_induct)
  case (Cons m ms r rs)
  then obtain k where "encodeAt h k (messageRowJson m) (messageContext ident (me_requestId m)) = Inr (rr_data r)" "rr_request_id r = me_requestId m"
    by (auto simp: encodes_def)
  from decode_encode(1) [where read = messageRowOf, OF this(1) assms(2) message_row_form.wf [OF TrueI, of m] message_row_form.reads [of m]] this(2)
  have "storedMessage h ident r = Inr m" by (simp add: storedMessage_def)
  with Cons.IH show ?case by simp
qed simp

subsection \<open>A save that returns\<close>

lemma d1_ran:
  assumes "d1 h f s = (Inr x, t)"
  shows "f (dh_others h (sd_k s) (sd_db s)) = Inr (x, sd_db t)"
  using assms by (auto simp: d1_def Let_def split: D1Fault.splits sum.splits if_splits prod.splits)

definition payloadOf :: "StHost \<Rightarrow> string \<Rightarrow> Conversation option \<Rightarrow> string option \<Rightarrow> bool" where
  "payloadOf h who c payload \<longleftrightarrow>
     (case c of None \<Rightarrow> payload = None
      | Some c \<Rightarrow> \<exists>k text. payload = Some text \<and> encodeAt h k (conversationJson (c \<lparr>co_messages := []\<rparr>)) (conversationContext who) = Inr text)"

definition rowsOf :: "StHost \<Rightarrow> string \<Rightarrow> Conversation option \<Rightarrow> RequestRow list \<Rightarrow> bool" where
  "rowsOf h who c rs \<longleftrightarrow> (case c of None \<Rightarrow> rs = [] | Some c \<Rightarrow> list_all2 (encodes h who (co_id c)) (co_messages c) rs)"

lemma save_commits:
  assumes "save h who revision state n fence s = (Inr rv, t)" and "hostRuns h"
  obtains v db payload where "runs s \<lparr>sd_k = 0, sd_db = db\<rparr>" "saveBatch v db = Inr (1, sd_db t)" "rv = revision + 1"
    "sv_principal v = who" "sv_revision v = revision" "sv_fence v = fence"
    "sv_row v = userRow who state (ur_commit_id (sv_row v)) (map_option (withView h revision) (us_conversation state)) payload n"
    "payloadOf h who (map_option (withView h revision) (us_conversation state)) payload"
    "rowsOf h who (map_option (withView h revision) (us_conversation state)) (sv_requests v)"
proof -
  let ?c = "map_option (withView h revision) (us_conversation state)"
  from assms(1) obtain commit s1 previous s2 payload s3 now s4 requests s5 changes s6 where
    s1: "readHost (dh_uuid h) s = (Inr commit, s1)"
    and s2: "(case ?c of None \<Rightarrow> selectD1 h (\<lambda>db. Option.bind (byKey ur_principal who (db_users db)) ur_auth_id) | Some _ \<Rightarrow> retA None) s1 = (Inr previous, s2)"
    and s3: "(case ?c of None \<Rightarrow> retA None
       | Some c \<Rightarrow> bindA (encode h (conversationJson (c \<lparr>co_messages := []\<rparr>)) (conversationContext who)) (\<lambda>text. retA (Some text))) s2 = (Inr payload, s3)"
    and s4: "readHost (dh_now h) s3 = (Inr now, s4)"
    and s5: "(case ?c of None \<Rightarrow> retA [] | Some c \<Rightarrow> mapA (encodeMessage h who (co_id c)) (co_messages c)) s4 = (Inr requests, s5)"
    and s6: "d1 h (saveBatch \<lparr>sv_principal = who, sv_revision = revision, sv_row = userRow who state commit ?c payload n,
                 sv_requests = requests, sv_fence = fence, sv_now = now, sv_previousAuth = previous\<rparr>) s5 = (Inr changes, s6)"
    and ret: "(if changes \<noteq> 1 then storeError ''stale_state'' 409 else retA (revision + 1)) s6 = (Inr rv, t)"
    unfolding save_def Let_def by (elim bindA_Inr_E) (rule that)
  let ?db = "dh_others h (sd_k s5) (sd_db s5)"
  have "changes = 1" "rv = revision + 1" "t = s6"
    using ret by (auto simp: storeError_def split: if_splits)
  have "sd_db s1 = sd_db s" using movesA_D [OF readHost_same s1] by (simp add: sameDb_def)
  moreover have "runs s1 s2" using s2 movesA_D [OF selectD1_runs [OF assms(2)]] by (auto simp: runs_def split: option.splits)
  moreover have "payloadOf h who ?c payload \<and> sd_db s3 = sd_db s2"
    using s3 by (auto simp: payloadOf_def split: option.splits elim!: bindA_Inr_E dest!: encode_Inr intro: exI [of _ "sd_k s2"])
  moreover have "sd_db s4 = sd_db s3" using movesA_D [OF readHost_same s4] by (simp add: sameDb_def)
  moreover have "rowsOf h who ?c requests \<and> sd_db s5 = sd_db s4"
    using s5 by (auto simp: rowsOf_def split: option.splits dest!: encodeMessages_Inr)
  moreover have "dbStep\<^sup>*\<^sup>* (sd_db s5) ?db" using assms(2) by (simp add: hostRuns_def)
  ultimately show ?thesis
    using d1_ran [OF s6] \<open>changes = 1\<close> \<open>rv = revision + 1\<close> \<open>t = s6\<close>
    by (intro that [where db = ?db and v = "\<lparr>sv_principal = who, sv_revision = revision, sv_row = userRow who state commit ?c payload n,
          sv_requests = requests, sv_fence = fence, sv_now = now, sv_previousAuth = previous\<rparr>" and payload = payload])
      (auto simp: runs_def userRow_def)
qed

subsection \<open>Loading it again\<close>

lemma requestsOf_messagesOf:
  assumes "dbInv db" and "byKey ur_principal who (db_users db) = Some r" and "ur_conversation_id r = Some ident"
  shows "requestsOf ident (db_requests db) = messagesOf who db"
  unfolding requestsOf_def messagesOf_def
proof (rule filter_cong [OF refl])
  fix q assume "q \<in> set (db_requests db)"
  then obtain x where x: "x \<in> set (db_users db)" "ur_principal x = rr_principal q" "ur_conversation_id x = Some (rr_conversation_id q)"
    using dbInv_D(3) [OF assms(1)] by (auto simp: ownedRequests_def)
  have r: "r \<in> set (db_users db)" "ur_principal r = who" using byKey_Some_D [OF assms(2)] by auto
  show "(rr_conversation_id q = ident) = (rr_principal q = who)"
  proof
    assume "rr_conversation_id q = ident"
    then show "rr_principal q = who" using oneOwner_D [OF dbInv_D(2) [OF assms(1)] r(1) x(1)] assms(3) x(2,3) r(2) by simp
  next
    assume "rr_principal q = who"
    then have "x = r" using byKey_keyed [OF dbInv_D(1) [OF assms(1)] x(1)] x(2) assms(2) by simp
    then show "rr_conversation_id q = ident" using x(3) assms(3) by simp
  qed
qed

lemma quiet_host [simp]:
  "dh_crypto (quiet h) = dh_crypto h" "dh_key (quiet h) = dh_key h" "dh_day (quiet h) = dh_day h" "storeKey (quiet h) = storeKey h"
  by (simp_all add: quiet_def storeKey_def)

lemma quiet_decode [simp]: "decode (quiet h) dec v context = decode h dec v context"
  by (simp only: decode_def quiet_host)

lemma quiet_stored [simp]:
  "storedConversation (quiet h) who r = storedConversation h who r" "storedMessage (quiet h) ident = storedMessage h ident"
  by (simp_all only: storedConversation_def storedMessage_def [abs_def] quiet_decode)

lemma quiet_select [simp]: "selectD1 (quiet h) q s = (Inr (q (sd_db s)), s \<lparr>sd_k := sd_k s + 1\<rparr>)"
  by (cases s) (simp add: quiet_def selectD1_def d1_def Let_def)

definition loaded :: "StHost \<Rightarrow> nat \<Rightarrow> UserState \<Rightarrow> nat option \<Rightarrow> nat \<Rightarrow> string \<Rightarrow> UserState" where
  "loaded h revision state stopped seen who =
     \<lparr>us_endRequested = stopped, us_principal = Some who, us_day = us_day state, us_questions = us_questions state,
      us_conversation = map_option (\<lambda>c. (withView h revision c) \<lparr>co_seen := max (co_seen c) seen\<rparr>) (us_conversation state),
      us_cleanup = []\<rparr>"

lemma withView_same [simp]:
  "co_id (withView h revision c) = co_id c" "co_seen (withView h revision c) = co_seen c"
  "co_messages (withView h revision c) = co_messages c" "conversationGood (withView h revision c) = conversationGood c"
  by (simp_all add: withView_def Let_def conversationGood_def)

lemma pinned_columns:
  assumes "pinned r r'"
  shows "ur_data r' = ur_data r" "ur_conversation_id r' = ur_conversation_id r" "ur_usage_day r' = ur_usage_day r"
    "ur_questions r' = ur_questions r"
  using assms [unfolded pinned_def, THEN arg_cong, of ur_data] assms [unfolded pinned_def, THEN arg_cong, of ur_conversation_id]
    assms [unfolded pinned_def, THEN arg_cong, of ur_usage_day] assms [unfolded pinned_def, THEN arg_cong, of ur_questions] by simp_all

text \<open>The data column of a saved conversation reads back, without its messages.\<close>

lemma storedConversation_read:
  assumes "payloadOf h who (Some c) (ur_data r)" and "aeadOk (dh_crypto h)" and "conversationGood c"
  shows "storedConversation h who r = Inr (Some (c \<lparr>co_messages := [], co_seen := max (co_seen c) (ur_seen r)\<rparr>))"
proof -
  from assms(1) obtain k data where data: "ur_data r = Some data"
    and enc: "encodeAt h k (conversationJson (c \<lparr>co_messages := []\<rparr>)) (conversationContext who) = Inr data"
    by (auto simp: payloadOf_def)
  have good: "conversationGood (c \<lparr>co_messages := []\<rparr>)" using assms(3) by (simp add: conversationGood_def)
  have dec: "nullOf conversationOf (conversationJson (c \<lparr>co_messages := []\<rparr>)) = Some (Some (c \<lparr>co_messages := []\<rparr>))"
    using conversation_form.null_reads [of "Some (c \<lparr>co_messages := []\<rparr>)"] by (simp add: nullJson_def)
  note decode_encode [where read = "nullOf conversationOf", OF enc assms(2) conversation_form.wf [OF good] dec]
  then show ?thesis by (simp add: storedConversation_def data)
qed

text \<open>The committed row of a save that returned.\<close>

lemma save_row:
  assumes "saveWf v" and "saveBatch v db = Inr (1, db')" and "dbInv db"
  obtains r where "byKey ur_principal (sv_principal v) (db_users db') = Some r" "dbInv db'" "messagesOf (sv_principal v) db' = sv_requests v"
    "savedAs (sv_row v) r" "ur_usage_day r = ur_usage_day (sv_row v)" "ur_questions r = ur_questions (sv_row v)"
    "ur_revision r = (case byKey ur_principal (sv_principal v) (db_users db) of None \<Rightarrow> ur_revision (sv_row v) | Some _ \<Rightarrow> sv_revision v + 1)"
proof -
  obtain guard where saved: "upsertUser guard (sv_row v) (db_users db) = Inr (1, db_users db')"
      "guard = (\<lambda>r. ur_revision r = sv_revision v \<and> fenceHolds (sv_fence v) (sv_now v) (db_leases db))"
      "insertRequests (sv_requests v) (deleteWhere (\<lambda>r. rr_principal r = sv_principal v) (db_requests db)) = Inr (db_requests db')"
    by (rule saveBatch_cases [OF assms(2,1)]) auto
  have who: "ur_principal (sv_row v) = sv_principal v" using assms(1) by (simp add: saveWf_def)
  have inv: "dbInv db'" using dbStep_inv [OF step_save [OF assms(1,2)] assms(3)] by simp
  have msgs: "messagesOf (sv_principal v) db' = sv_requests v"
    using saved_messages [OF assms(1)] insertRequests_Inr [OF saved(3)] by simp
  note row = saved_user [OF saved(1) assms(1)]
  show ?thesis
  proof (cases "byKey ur_principal (sv_principal v) (db_users db)")
    case None
    with row inv msgs show ?thesis by (intro that [of "sv_row v"]) (simp_all add: savedAs_def)
  next
    case (Some r)
    have "guard r" using saved(1) Some who by (auto elim: upsert_cases)
    with row inv msgs Some saved(2) byKey_Some_D [OF Some] who show ?thesis
      by (intro that [of "savedOver (sv_row v) r"]) (simp_all add: savedAs_def savedOver_def)
  qed
qed

text \<open>
  C27. What was saved is loaded. When a save returns, then after any statements of other executions and as long as
  the revision is the one it returned, an undisturbed load returns that revision and the saved state: its day and
  count of questions, and its conversation with the pending question, the evidence, the messages and their
  answers, decrypted from the tables, where only the time of the last heartbeat may be later.
\<close>

theorem saved_state_loads:
  assumes "hostRuns h" and "aeadOk (dh_crypto h)" and "dbInv (sd_db s)"
    and "case us_conversation state of None \<Rightarrow> True | Some c \<Rightarrow> conversationGood c"
    and "save h who revision state n fence s = (Inr rv, s1)" and "runs s1 s2"
    and "map_option ur_revision (byKey ur_principal who (db_users (sd_db s2))) = Some rv"
    and "byKey cr_principal who (db_cleanup (sd_db s2)) = None"
    and "byKey ur_principal who (db_users (sd_db s)) \<noteq> None \<or> revision = 0"
  shows "\<exists>stopped seen. fst (load (quiet h) who True s2) =
    Inr \<lparr>ux_revision = rv, ux_state = loaded h revision state stopped seen who\<rparr>"
proof -
  let ?c = "map_option (withView h revision) (us_conversation state)"
  from save_commits [OF assms(5,1)] obtain v db payload where
    db: "runs s \<lparr>sd_k = 0, sd_db = db\<rparr>" "saveBatch v db = Inr (1, sd_db s1)" "rv = revision + 1"
    and v: "sv_principal v = who" "sv_revision v = revision" "sv_row v = userRow who state (ur_commit_id (sv_row v)) ?c payload n"
      "payloadOf h who ?c payload" "rowsOf h who ?c (sv_requests v)"
    by (metis (no_types, lifting))
  have row: "ur_principal (sv_row v) = who" "ur_conversation_id (sv_row v) = map_option co_id ?c" "ur_data (sv_row v) = payload"
      "ur_usage_day (sv_row v) = us_day state" "ur_questions (sv_row v) = us_questions state" "ur_revision (sv_row v) = 1"
    by (subst v(3); simp add: userRow_def)+
  have wf: "saveWf v"
    using v(1,5) row(1,2)
    by (cases "us_conversation state") (auto simp: saveWf_def rowsOf_def encodes_def list_all2_conv_all_nth list_all_length)
  have inv: "dbInv db" using storing.inv_run [of "sd_db s" db] db(1) assms(3) by (simp add: runs_def)
  from save_row [OF wf db(2) inv, unfolded v(1)] obtain r where r: "byKey ur_principal who (db_users (sd_db s1)) = Some r" "dbInv (sd_db s1)"
      "messagesOf who (sd_db s1) = sv_requests v" "savedAs (sv_row v) r" "ur_usage_day r = ur_usage_day (sv_row v)"
      "ur_questions r = ur_questions (sv_row v)"
      "ur_revision r = (case byKey ur_principal who (db_users db) of None \<Rightarrow> ur_revision (sv_row v) | Some _ \<Rightarrow> sv_revision v + 1)"
    by blast
  have rv: "ur_revision r = rv"
  proof (cases "byKey ur_principal who (db_users db)")
    case None
    have "byKey ur_principal who (db_users (sd_db s)) = None"
    proof (rule ccontr)
      assume "byKey ur_principal who (db_users (sd_db s)) \<noteq> None"
      then obtain x where "byKey ur_principal who (db_users (sd_db s)) = Some x" by auto
      from storing.adv_run [of "sd_db s" db, OF _ assms(3), unfolded dbAdv_def, rule_format, OF _ this] db(1) None
      show False by (simp add: runs_def)
    qed
    with assms(9) r(7) row(6) db(3) None show ?thesis by simp
  qed (use r(7) v(2) db(3) in simp)
  from assms(7) obtain r2 where r2: "byKey ur_principal who (db_users (sd_db s2)) = Some r2" "ur_revision r2 = rv" by auto
  note later = unchanged_since [OF assms(6) [unfolded runs_def] r(2,1) r2(1)]
  have same: "pinned r r2" "messagesOf who (sd_db s2) = sv_requests v" using later(2) r2(2) rv r(3) by simp_all
  have inv2: "dbInv (sd_db s2)" using storing.inv_run [OF assms(6) [unfolded runs_def] r(2)] .
  have cols: "ur_data r2 = payload" "ur_conversation_id r2 = map_option co_id ?c" "ur_usage_day r2 = us_day state" "ur_questions r2 = us_questions state"
    using pinned_columns [OF same(1)] r(4-6) row by (simp_all add: savedAs_def)
  show ?thesis
  proof (cases "us_conversation state")
    case None
    then have "storedConversation h who r2 = Inr None" using cols(1) v(4) by (simp add: storedConversation_def payloadOf_def)
    then show ?thesis
      using r2 cols assms(8) None
      by (simp add: load_def act_simps readHost_def storedCleanup_def loaded_def)
  next
    case (Some c)
    let ?v = "withView h revision c"
    define w where "w = ?v \<lparr>co_seen := max (co_seen c) (ur_seen r2)\<rparr>"
    have w: "co_id w = co_id c" "w \<lparr>co_messages := co_messages c\<rparr> = w"
      using withView_same(3) [of h revision c] by (simp add: w_def, cases ?v) (simp add: w_def)
    have "storedConversation h who r2 = Inr (Some (?v \<lparr>co_messages := [], co_seen := max (co_seen c) (ur_seen r2)\<rparr>))"
      using storedConversation_read [of h who ?v r2] assms(2,4) v(4) cols(1) Some by simp
    then have data: "storedConversation h who r2 = Inr (Some (w \<lparr>co_messages := []\<rparr>))" by (simp add: w_def)
    have "requestsOf (co_id c) (db_requests (sd_db s2)) = sv_requests v"
      using requestsOf_messagesOf [OF inv2 r2(1)] cols(2) Some same(2) by simp
    moreover have "mapR (storedMessage h (co_id c)) (sv_requests v) = Inr (co_messages c)"
      using storedMessages_read [OF _ assms(2)] v(5) Some by (simp add: rowsOf_def)
    ultimately have "fst (load (quiet h) who True s2) = Inr \<lparr>ux_revision = rv, ux_state =
        \<lparr>us_endRequested = stoppedAt (co_id c) (db_stops (sd_db s2)), us_principal = Some who, us_day = us_day state,
         us_questions = us_questions state, us_conversation = Some w, us_cleanup = []\<rparr>\<rparr>"
      using r2 cols assms(8) data w by (simp add: load_def act_simps readHost_def storedCleanup_def)
    then show ?thesis by (intro exI [of _ "stoppedAt (co_id c) (db_stops (sd_db s2))"] exI [of _ "ur_seen r2"]) (simp add: loaded_def Some w_def)
  qed
qed

subsection \<open>A sample\<close>

definition sampleCrypto :: WebCrypto where
  "sampleCrypto = \<lparr>wc_digest = (\<lambda>bs. bs), wc_random = (\<lambda>_ n. replicate n 0), wc_encrypt = (\<lambda>_ _ _ p. p), wc_decrypt = (\<lambda>_ _ _ p. Some p)\<rparr>"

definition sampleStore :: StHost where
  "sampleStore = \<lparr>dh_key = Some (base64UrlEncode (replicate 32 0)), dh_crypto = sampleCrypto, dh_now = (\<lambda>_. 5),
     dh_day = (\<lambda>_. ''2026-09-29''), dh_uuid = (\<lambda>_. ''u1''), dh_others = (\<lambda>_ db. db), dh_fault = (\<lambda>_. NoFault)\<rparr>"

definition emptyDb :: AsDb where
  "emptyDb = \<lparr>db_users = [], db_requests = [], db_jobs = [], db_commands = [], db_stops = [], db_auth = [], db_cleanup = [], db_leases = []\<rparr>"

definition sampleChat :: Conversation where
  "sampleChat = \<lparr>co_format = 3, co_native = None, co_nativeTextProvider = None, co_viewRevision = None, co_viewFingerprint = None,
     co_selectedPath = None, co_history = [], co_utterances = [], co_id = ''c1'', co_authId = ''a1'', co_principal = ''p1'',
     co_databaseId = ''db'', co_scope = ScopeKnowledge, co_sessionId = None, co_generation = 0, co_pending = None, co_activity = 5,
     co_seen = 5, co_status = StatusReady, co_error = None, co_messages = [], co_live = Some JNull, co_transcripts = JArr [],
     co_delegations = JArr [], co_deferred = JNull\<rparr>"

definition sampleUser :: UserState where
  "sampleUser = \<lparr>us_endRequested = None, us_principal = Some ''p1'', us_day = ''2026-09-29'', us_questions = 0,
     us_conversation = Some sampleChat, us_cleanup = []\<rparr>"

lemma sampleStore_encodes: "\<exists>text. encodeAt sampleStore k v context = Inr text"
proof -
  have "base64UrlEncode (replicate 32 0) \<noteq> []" by (simp add: base64UrlEncode_url64)
  then have "storeKey sampleStore = Inr (base64UrlEncode (replicate 32 0))" by (simp add: storeKey_def sampleStore_def)
  then show ?thesis
    by (simp add: encodeAt_def encryptJson_def importEncryptionKey_def decodeEncryptionKey_encode Let_def liftIi_def)
qed

theorem saved_state_loads_witness:
  "\<exists>s1 stopped seen. save sampleStore ''p1'' 0 sampleUser 9 None \<lparr>sd_k = 0, sd_db = emptyDb\<rparr> = (Inr 1, s1) \<and>
     fst (load (quiet sampleStore) ''p1'' True s1) = Inr \<lparr>ux_revision = 1, ux_state = loaded sampleStore 0 sampleUser stopped seen ''p1''\<rparr>"
proof -
  let ?s = "\<lparr>sd_k = 0, sd_db = emptyDb\<rparr>"
  obtain data where data: "encodeAt sampleStore 1 (conversationJson sampleChat) (conversationContext ''p1'') = Inr data"
    using sampleStore_encodes by blast
  have chat: "sampleChat \<lparr>co_messages := []\<rparr> = sampleChat" "withView sampleStore 0 sampleChat = sampleChat"
    by (simp_all add: sampleChat_def withView_def)
  let ?row = "userRow ''p1'' sampleUser ''u1'' (Some sampleChat) (Some data) 9"
  let ?s1 = "\<lparr>sd_k = 4, sd_db = emptyDb \<lparr>db_users := [?row]\<rparr>\<rparr>"
  have run: "save sampleStore ''p1'' 0 sampleUser 9 None ?s = (Inr 1, ?s1)"
    using data chat
    by (simp add: save_def Let_def act_simps readHost_def encode_def d1_def saveBatch_def upsertUser_def sampleStore_def sampleUser_def
        emptyDb_def userRow_def conversationTaken_def committed_def sampleChat_def deleteWhere_def pendingJobs_def updateWhere_def)
  have "hostRuns sampleStore" "aeadOk (dh_crypto sampleStore)" "dbInv (sd_db ?s)" "conversationGood sampleChat" "runs ?s1 ?s1"
    by (simp_all add: hostRuns_def sampleStore_def aeadOk_def sampleCrypto_def dbInv_def emptyDb_def oneOwner_def ownedRequests_def
        keyed_def conversationGood_def sampleChat_def runs_def)
  then have "\<exists>stopped seen. fst (load (quiet sampleStore) ''p1'' True ?s1) =
      Inr \<lparr>ux_revision = 1, ux_state = loaded sampleStore 0 sampleUser stopped seen ''p1''\<rparr>"
    using run by (intro saved_state_loads [of sampleStore ?s sampleUser "''p1''" 0 9 None 1 ?s1 ?s1])
      (simp_all add: sampleUser_def userRow_def emptyDb_def)
  with run show ?thesis by blast
qed

end
