(* ===== verification/Assistant_History.thy ===== *)
theory Assistant_History
  imports Assistant_Saves
begin

section \<open>Assistant worker: history pages\<close>

text \<open>
  \<^verbatim>\<open>workers/wiki-assistant/src/history-page.ts\<close> and the \<open>historyPage\<close> of \<^verbatim>\<open>store.ts\<close> and \<^verbatim>\<open>user.ts\<close>: the messages and
  utterances of a conversation in pages of at most ten entries and 512,000 bytes. A cursor is the natural number
  the request spells; from \<open>Number.MAX_SAFE_INTEGER + 1\<close> on it is no safe integer.
\<close>

record VisibleUtterance =
  vu_id :: string
  vu_role :: Role
  vu_text :: string

datatype HistoryEntry = MessageEntry Message | UtteranceEntry VisibleUtterance

record HistoryPage =
  hp_revision :: nat
  hp_messages :: "Message list"
  hp_utterances :: "VisibleUtterance list"
  hp_nextCursor :: "nat option"

definition visibleUtteranceJson :: "VisibleUtterance \<Rightarrow> json" where
  "visibleUtteranceJson u = jsObject [(''id'', Some (JStr (vu_id u))), (''role'', Some (JStr (roleName (vu_role u)))),
     (''text'', Some (JStr (vu_text u)))]"

definition historyPageJson :: "HistoryPage \<Rightarrow> json" where
  "historyPageJson p = jsObject [(''revision'', Some (decNumber (hp_revision p))),
     (''messages'', Some (arrayJson messageRowJson (hp_messages p))),
     (''utterances'', Some (arrayJson visibleUtteranceJson (hp_utterances p))),
     (''nextCursor'', Some (nullJson (\<lambda>n. JStr (natToDec n)) (hp_nextCursor p)))]"

definition pageBytes :: "HistoryPage \<Rightarrow> nat" where
  "pageBytes p = length (utf8Encode (stringify (historyPageJson p)))"

definition cursorAfter :: "nat \<Rightarrow> nat \<Rightarrow> nat option" where
  "cursorAfter amount n = (if n < amount then Some n else None)"

definition addEntry :: "HistoryEntry \<Rightarrow> nat option \<Rightarrow> HistoryPage \<Rightarrow> HistoryPage" where
  "addEntry e after p =
     (case e of
        MessageEntry m \<Rightarrow> p \<lparr>hp_messages := hp_messages p @ [m], hp_nextCursor := after\<rparr>
      | UtteranceEntry u \<Rightarrow> p \<lparr>hp_utterances := hp_utterances p @ [u], hp_nextCursor := after\<rparr>)"

text \<open>\<open>consumed\<close> entries are on the page \<open>p\<close>, whose cursor is \<open>cursor + consumed\<close>.\<close>

fun pageLoop :: "nat \<Rightarrow> nat \<Rightarrow> HistoryEntry list \<Rightarrow> nat \<Rightarrow> HistoryPage \<Rightarrow> as_error + HistoryPage" where
  "pageLoop cursor amount [] consumed p = Inr p"
| "pageLoop cursor amount (e # es) consumed p =
     (let payload = addEntry e (cursorAfter amount (cursor + consumed + 1)) p in
      if pageBytes payload > 512000
      then (if consumed = 0 then Inl (AssistantError ''history_item_too_large'' 500) else Inr p)
      else pageLoop cursor amount es (consumed + 1) payload)"

definition boundedHistoryPage :: "nat \<Rightarrow> nat \<Rightarrow> nat \<Rightarrow> HistoryEntry list \<Rightarrow> as_error + HistoryPage" where
  "boundedHistoryPage revision cursor amount entries =
     (if cursor > MAX_SAFE_INTEGER \<or> cursor > amount then Inl (AssistantError ''invalid_cursor'' 400)
      else pageLoop cursor amount (take 10 entries) 0
             \<lparr>hp_revision = revision, hp_messages = [], hp_utterances = [], hp_nextCursor = cursorAfter amount cursor\<rparr>)"

definition visible :: "Utterance \<Rightarrow> VisibleUtterance" where
  "visible u = \<lparr>vu_id = ut_id u, vu_role = ut_role u, vu_text = ut_text u\<rparr>"

definition historyEntries :: "Message list \<Rightarrow> Utterance list \<Rightarrow> HistoryEntry list" where
  "historyEntries messages utterances = map MessageEntry messages @ map (\<lambda>u. UtteranceEntry (visible u)) utterances"

text \<open>The page of \<^verbatim>\<open>user.ts\<close>, from the conversation in memory; \<open>backing\<close> is the revision of the object.\<close>

definition viewOf :: "Conversation \<Rightarrow> nat \<Rightarrow> nat" where
  "viewOf c backing = (case co_viewRevision c of None \<Rightarrow> backing | Some n \<Rightarrow> n)"

definition memoryPage :: "Conversation \<Rightarrow> nat \<Rightarrow> nat \<Rightarrow> nat \<Rightarrow> as_error + HistoryPage" where
  "memoryPage c backing revision cursor =
     (if revision \<noteq> viewOf c backing then Inl (AssistantError ''stale_state'' 409)
      else let entries = historyEntries (co_messages c) (co_utterances c)
           in boundedHistoryPage revision cursor (length entries) (sliceL cursor (cursor + 10) entries))"

text \<open>The page of \<^verbatim>\<open>store.ts\<close>, from the tables.\<close>

record CurrentRow =
  cw_revision :: nat
  cw_conversation_id :: "string option"
  cw_data :: "string option"
  cw_stopped :: bool

definition currentRow :: "string \<Rightarrow> AsDb \<Rightarrow> CurrentRow option" where
  "currentRow who db = map_option (\<lambda>r. \<lparr>cw_revision = ur_revision r, cw_conversation_id = ur_conversation_id r, cw_data = ur_data r,
     cw_stopped = list_ex (\<lambda>s. ur_conversation_id r = Some (sp_conversation_id s) \<and> sp_voice_id s = ''*'') (db_stops db)\<rparr>)
     (byKey ur_principal who (db_users db))"

text \<open>Internal checkpoints keep the view: the conversation in the row is then the one to compare with.\<close>

definition viewUnchanged :: "StHost \<Rightarrow> string \<Rightarrow> nat \<Rightarrow> nat \<Rightarrow> CurrentRow \<Rightarrow> as_error + unit" where
  "viewUnchanged h who revision backing r =
     (if cw_revision r = backing then Inr ()
      else
        bindR (case cw_data r of
                 None \<Rightarrow> Inr None
               | Some data \<Rightarrow> if data = [] then Inr None else decode h (nullOf conversationOf) data (conversationContext who)) (\<lambda>latest.
          case latest of
            None \<Rightarrow> Inl (AssistantError ''stale_state'' 409)
          | Some l \<Rightarrow> if viewOf l (cw_revision r) \<noteq> revision then Inl (AssistantError ''stale_state'' 409) else Inr ()))"

definition pageEntries :: "Conversation \<Rightarrow> nat \<Rightarrow> nat \<Rightarrow> nat \<Rightarrow> Message list \<Rightarrow> HistoryEntry list" where
  "pageEntries c cursor messageCount rowCount messages =
     (let entries = map MessageEntry messages; offset = cursor - messageCount in
      if cursor + rowCount \<ge> messageCount
      then entries @ map (\<lambda>u. UtteranceEntry (visible u)) (sliceL offset (offset + 10 - length entries) (co_utterances c))
      else entries)"

definition historyFrom :: "StHost \<Rightarrow> string \<Rightarrow> Conversation \<Rightarrow> nat \<Rightarrow> nat \<Rightarrow> nat \<Rightarrow> nat \<Rightarrow> HistoryPage stAct" where
  "historyFrom h who c revision cursor backing messageCount =
     bindA (if cursor < messageCount
            then selectD1 h (\<lambda>db. take 10 (drop cursor (requestsOf (co_id c) (db_requests db)))) else retA []) (\<lambda>rows.
     bindA (liftR (mapR (storedMessage h (co_id c)) rows)) (\<lambda>messages.
     bindA (selectD1 h (currentRow who)) (\<lambda>current.
       case current of
         None \<Rightarrow> storeError ''stale_state'' 409
       | Some r \<Rightarrow>
           if cw_conversation_id r \<noteq> Some (co_id c) \<or> cw_stopped r then storeError ''stale_state'' 409
           else
             bindA (liftR (viewUnchanged h who revision backing r)) (\<lambda>_.
               liftR (boundedHistoryPage revision cursor (messageCount + length (co_utterances c))
                 (pageEntries c cursor messageCount (length rows) messages))))))"

definition historyPage :: "StHost \<Rightarrow> string \<Rightarrow> Conversation \<Rightarrow> nat \<Rightarrow> nat \<Rightarrow> nat \<Rightarrow> HistoryPage stAct" where
  "historyPage h who c revision cursor backing =
     (if viewOf c backing \<noteq> revision then storeError ''stale_state'' 409
      else
        bindA (selectD1 h (\<lambda>db. length (requestsOf (co_id c) (db_requests db)))) (\<lambda>messageCount.
          if cursor > MAX_SAFE_INTEGER \<or> cursor > messageCount + length (co_utterances c) then storeError ''invalid_cursor'' 400
          else historyFrom h who c revision cursor backing messageCount))"

subsection \<open>Pages\<close>

fun entryMessages :: "HistoryEntry list \<Rightarrow> Message list" where
  "entryMessages [] = []"
| "entryMessages (MessageEntry m # es) = m # entryMessages es"
| "entryMessages (UtteranceEntry u # es) = entryMessages es"

fun entryUtterances :: "HistoryEntry list \<Rightarrow> VisibleUtterance list" where
  "entryUtterances [] = []"
| "entryUtterances (MessageEntry m # es) = entryUtterances es"
| "entryUtterances (UtteranceEntry u # es) = u # entryUtterances es"

lemma entries_append [simp]:
  "entryMessages (xs @ ys) = entryMessages xs @ entryMessages ys"
  "entryUtterances (xs @ ys) = entryUtterances xs @ entryUtterances ys"
  by (induction xs rule: entryMessages.induct) simp_all

lemma entries_of_history [simp]:
  "entryMessages (historyEntries ms us) = ms" "entryUtterances (historyEntries ms us) = map visible us"
proof -
  have "entryMessages (map MessageEntry ms) = ms" "entryUtterances (map MessageEntry ms) = []" for ms by (induction ms) simp_all
  moreover have "entryMessages (map (\<lambda>u. UtteranceEntry (f u)) us) = []"
    "entryUtterances (map (\<lambda>u. UtteranceEntry (f u)) us) = map f us" for f :: "Utterance \<Rightarrow> VisibleUtterance" and us
    by (induction us) simp_all
  ultimately show "entryMessages (historyEntries ms us) = ms" "entryUtterances (historyEntries ms us) = map visible us"
    by (simp_all add: historyEntries_def)
qed

text \<open>A page holds the next entries, within ten and within the bytes; it is empty only at the end.\<close>

definition pageOf :: "nat \<Rightarrow> nat \<Rightarrow> HistoryEntry list \<Rightarrow> nat \<Rightarrow> HistoryPage \<Rightarrow> HistoryPage \<Rightarrow> bool" where
  "pageOf cursor amount es n p q \<longleftrightarrow>
     n \<le> length es \<and> hp_revision q = hp_revision p \<and> hp_messages q = hp_messages p @ entryMessages (take n es) \<and>
     hp_utterances q = hp_utterances p @ entryUtterances (take n es) \<and>
     (n = 0 \<longrightarrow> q = p) \<and> (n \<noteq> 0 \<longrightarrow> hp_nextCursor q = cursorAfter amount (cursor + n) \<and> pageBytes q \<le> 512000)"

lemma addEntry_contents:
  "hp_revision (addEntry e after p) = hp_revision p" "hp_messages (addEntry e after p) = hp_messages p @ entryMessages [e]"
  "hp_utterances (addEntry e after p) = hp_utterances p @ entryUtterances [e]" "hp_nextCursor (addEntry e after p) = after"
  by (cases e; simp add: addEntry_def)+

lemma pageLoop_page:
  "pageLoop cursor amount es consumed p = Inr q \<Longrightarrow>
   \<exists>n. pageOf (cursor + consumed) amount es n p q \<and> (n = 0 \<longrightarrow> es = [] \<or> consumed \<noteq> 0)"
proof (induction es arbitrary: consumed p)
  case Nil
  then show ?case by (intro exI [of _ 0]) (simp add: pageOf_def)
next
  case (Cons e es)
  let ?payload = "addEntry e (cursorAfter amount (cursor + consumed + 1)) p"
  show ?case
  proof (cases "pageBytes ?payload > 512000")
    case True
    with Cons.prems have "consumed \<noteq> 0 \<and> q = p" by (auto simp: Let_def split: if_splits)
    then show ?thesis by (intro exI [of _ 0]) (simp add: pageOf_def)
  next
    case False
    with Cons.prems have "pageLoop cursor amount es (consumed + 1) ?payload = Inr q" by (simp add: Let_def)
    from Cons.IH [OF this] obtain n where n: "pageOf (cursor + (consumed + 1)) amount es n ?payload q" by auto
    have "pageOf (cursor + consumed) amount (e # es) (Suc n) p q"
      using n False entries_append [of "[e]" "take n es"]
      by (cases "n = 0") (auto simp: pageOf_def addEntry_contents)
    then show ?thesis by (intro exI [of _ "Suc n"]) simp
  qed
qed

text \<open>The only error of a page is that its first entry does not fit alone.\<close>

lemma pageLoop_error:
  "pageLoop cursor amount es consumed p = Inl x \<Longrightarrow>
   x = AssistantError ''history_item_too_large'' 500 \<and> consumed = 0 \<and> (\<exists>e \<in> set es. pageBytes (addEntry e (cursorAfter amount (cursor + 1)) p) > 512000)"
proof (cases es)
  case (Cons e es')
  assume run: "pageLoop cursor amount es consumed p = Inl x"
  have later: "0 < consumed \<Longrightarrow> pageLoop cursor amount es consumed p \<noteq> Inl x" for es consumed p
    by (induction es arbitrary: consumed p) (simp_all add: Let_def)
  from run Cons later [of "consumed + 1" es'] show ?thesis by (auto simp: Let_def split: if_splits)
qed simp

subsection \<open>Following the cursors\<close>

text \<open>A client that asks for the page at 0 and then for every \<open>nextCursor\<close>; \<open>Inr None\<close> is a client that ran out of fuel.\<close>

fun followPages :: "nat \<Rightarrow> (nat \<Rightarrow> as_error + HistoryPage) \<Rightarrow> nat \<Rightarrow> as_error + HistoryPage list option" where
  "followPages 0 page cursor = Inr None"
| "followPages (Suc fuel) page cursor =
     bindR (page cursor) (\<lambda>p.
       case hp_nextCursor p of
         None \<Rightarrow> Inr (Some [p])
       | Some n \<Rightarrow> bindR (followPages fuel page n) (\<lambda>r. Inr (map_option (\<lambda>ps. p # ps) r)))"

definition emptyPage :: "nat \<Rightarrow> HistoryPage" where
  "emptyPage revision = \<lparr>hp_revision = revision, hp_messages = [], hp_utterances = [], hp_nextCursor = None\<rparr>"

definition pageWithin :: "nat \<Rightarrow> HistoryPage \<Rightarrow> bool" where
  "pageWithin revision p \<longleftrightarrow> hp_revision p = revision \<and> length (hp_messages p) + length (hp_utterances p) \<le> 10 \<and>
     (hp_messages p \<noteq> [] \<or> hp_utterances p \<noteq> [] \<longrightarrow> pageBytes p \<le> 512000)"

definition tooLarge :: "nat \<Rightarrow> HistoryEntry list \<Rightarrow> bool" where
  "tooLarge revision es \<longleftrightarrow> (\<exists>e \<in> set es. \<exists>after. pageBytes (addEntry e after (emptyPage revision)) > 512000)"

lemma addEntry_start: "addEntry e after (p \<lparr>hp_nextCursor := x\<rparr>) = addEntry e after p"
  by (cases e) (simp_all add: addEntry_def)

lemma entry_counts: "length (entryMessages es) + length (entryUtterances es) = length es"
  by (induction es rule: entryMessages.induct) simp_all

text \<open>One page of the entries from \<open>cursor\<close> on.\<close>

lemma page_at:
  assumes "cursor \<le> length es" and "length es \<le> MAX_SAFE_INTEGER"
  shows "boundedHistoryPage revision cursor (length es) (sliceL cursor (cursor + 10) es) = Inl (AssistantError ''history_item_too_large'' 500) \<and>
      tooLarge revision es \<or>
    (\<exists>n p. boundedHistoryPage revision cursor (length es) (sliceL cursor (cursor + 10) es) = Inr p \<and> n \<le> length es - cursor \<and>
       (n = 0 \<longrightarrow> cursor = length es) \<and> hp_nextCursor p = cursorAfter (length es) (cursor + n) \<and>
       hp_messages p = entryMessages (take n (drop cursor es)) \<and> hp_utterances p = entryUtterances (take n (drop cursor es)) \<and>
       pageWithin revision p)"
proof -
  let ?xs = "take 10 (drop cursor es)" and ?p = "\<lparr>hp_revision = revision, hp_messages = [], hp_utterances = [], hp_nextCursor = cursorAfter (length es) cursor\<rparr>"
  have page: "boundedHistoryPage revision cursor (length es) (sliceL cursor (cursor + 10) es) = pageLoop cursor (length es) ?xs 0 ?p"
    using assms by (simp add: boundedHistoryPage_def sliceL_def)
  show ?thesis
  proof (cases "pageLoop cursor (length es) ?xs 0 ?p")
    case (Inl x)
    from pageLoop_error [OF this] obtain e where e: "x = AssistantError ''history_item_too_large'' 500" "e \<in> set ?xs"
      "pageBytes (addEntry e (cursorAfter (length es) (cursor + 1)) ?p) > 512000" by auto
    have "?p = emptyPage revision \<lparr>hp_nextCursor := cursorAfter (length es) cursor\<rparr>" by (simp add: emptyPage_def)
    then have "pageBytes (addEntry e (cursorAfter (length es) (cursor + 1)) (emptyPage revision)) > 512000"
      using e(3) addEntry_start by metis
    moreover have "e \<in> set es" using e(2) by (auto dest: in_set_takeD in_set_dropD)
    ultimately have "tooLarge revision es" by (auto simp: tooLarge_def)
    with page Inl e(1) show ?thesis by simp
  next
    case (Inr q)
    from pageLoop_page [OF this] obtain n where n: "pageOf cursor (length es) ?xs n ?p q" "n = 0 \<longrightarrow> ?xs = []" by auto
    then have len: "n \<le> 10" "n \<le> length es - cursor" by (auto simp: pageOf_def)
    have take: "take n ?xs = take n (drop cursor es)" using len(1) by (simp add: min_def)
    have "length (entryMessages (take n (drop cursor es))) + length (entryUtterances (take n (drop cursor es))) \<le> 10"
      using entry_counts [of "take n (drop cursor es)"] len(1) by simp
    moreover have "hp_nextCursor q = cursorAfter (length es) (cursor + n)"
      using n(1) by (cases "n = 0") (auto simp: pageOf_def)
    ultimately have "pageWithin revision q"
      using n(1) take by (cases "n = 0") (auto simp: pageOf_def pageWithin_def)
    moreover have "n = 0 \<longrightarrow> cursor = length es" using n(2) assms(1) by auto
    ultimately show ?thesis
      using page Inr n(1) len(2) take \<open>hp_nextCursor q = cursorAfter (length es) (cursor + n)\<close>
      by (intro disjI2 exI [of _ n] exI [of _ q]) (auto simp: pageOf_def)
  qed
qed

lemma followPages_from:
  fixes revision :: nat
  assumes "length es \<le> MAX_SAFE_INTEGER" and "cursor \<le> length es" and "length es - cursor < fuel"
  defines "page \<equiv> \<lambda>cursor. boundedHistoryPage revision cursor (length es) (sliceL cursor (cursor + 10) es)"
  shows "followPages fuel page cursor = Inl (AssistantError ''history_item_too_large'' 500) \<and> tooLarge revision es \<or>
    (\<exists>ps. followPages fuel page cursor = Inr (Some ps) \<and> concat (map hp_messages ps) = entryMessages (drop cursor es) \<and>
       concat (map hp_utterances ps) = entryUtterances (drop cursor es) \<and> list_all (pageWithin revision) ps)"
  using assms(2,3)
proof (induction fuel arbitrary: cursor)
  case 0
  then show ?case by simp
next
  case (Suc fuel)
  from page_at [OF Suc.prems(1) assms(1), of revision] show ?case
  proof (elim disjE exE conjE)
    fix n p
    assume p: "boundedHistoryPage revision cursor (length es) (sliceL cursor (cursor + 10) es) = Inr p" "n \<le> length es - cursor"
      "n = 0 \<longrightarrow> cursor = length es" "hp_nextCursor p = cursorAfter (length es) (cursor + n)"
      "hp_messages p = entryMessages (take n (drop cursor es))" "hp_utterances p = entryUtterances (take n (drop cursor es))"
      "pageWithin revision p"
    have split: "drop cursor es = take n (drop cursor es) @ drop (cursor + n) es"
      using append_take_drop_id [of n "drop cursor es"] by (simp add: add.commute)
    show ?thesis
    proof (cases "cursor + n < length es")
      case True
      with p(3) have "length es - (cursor + n) < fuel" using Suc.prems(2) by auto
      from Suc.IH [OF less_imp_le [OF True] this] show ?thesis
      proof (elim disjE exE conjE)
        fix ps
        assume ps: "followPages fuel page (cursor + n) = Inr (Some ps)" "concat (map hp_messages ps) = entryMessages (drop (cursor + n) es)"
          "concat (map hp_utterances ps) = entryUtterances (drop (cursor + n) es)" "list_all (pageWithin revision) ps"
        have "followPages (Suc fuel) page cursor = Inr (Some (p # ps))"
          using p(1,4) True ps(1) by (simp add: page_def cursorAfter_def)
        moreover have "concat (map hp_messages (p # ps)) = entryMessages (drop cursor es)"
          "concat (map hp_utterances (p # ps)) = entryUtterances (drop cursor es)"
          using p(5,6) ps(2,3) by (subst split, simp)+
        ultimately show ?thesis using p(7) ps(4) by (intro disjI2 exI [of _ "p # ps"]) simp
      qed (use p(1,4) True in \<open>simp add: page_def cursorAfter_def\<close>)
    next
      case False
      then have "take n (drop cursor es) = drop cursor es" using p(2) by simp
      with False p show ?thesis by (intro disjI2 exI [of _ "[p]"]) (simp add: page_def cursorAfter_def)
    qed
  qed (simp add: page_def)
qed

text \<open>
  C30. History pages are complete and bounded. A client that follows the cursors from the start gets, after at most
  one request for each entry and one more, every message and every utterance of the conversation exactly once and
  in order, in pages of at most ten entries and 512,000 bytes; the only way to fail is an entry that does not fit a
  page alone.
\<close>

theorem history_pages_complete:
  assumes "length (co_messages c) + length (co_utterances c) \<le> MAX_SAFE_INTEGER"
  shows "let revision = viewOf c backing;
             r = followPages (length (co_messages c) + length (co_utterances c) + 1) (memoryPage c backing revision) 0
         in r = Inl (AssistantError ''history_item_too_large'' 500) \<and>
              tooLarge revision (historyEntries (co_messages c) (co_utterances c)) \<or>
            (\<exists>ps. r = Inr (Some ps) \<and> concat (map hp_messages ps) = co_messages c \<and>
               concat (map hp_utterances ps) = map visible (co_utterances c) \<and> list_all (pageWithin revision) ps)"
proof -
  let ?es = "historyEntries (co_messages c) (co_utterances c)"
  have len: "length ?es = length (co_messages c) + length (co_utterances c)" by (simp add: historyEntries_def)
  have "memoryPage c backing (viewOf c backing) = (\<lambda>cursor. boundedHistoryPage (viewOf c backing) cursor (length ?es) (sliceL cursor (cursor + 10) ?es))"
    by (simp add: memoryPage_def Let_def fun_eq_iff)
  with followPages_from [of ?es 0 "length ?es + 1" "viewOf c backing"] assms len show ?thesis
    by (simp add: Let_def del: followPages.simps)
qed

theorem history_pages_complete_witness:
  "\<exists>ps. followPages 1 (memoryPage sampleChat 4 4) 0 = Inr (Some ps) \<and> concat (map hp_messages ps) = []"
proof -
  have view: "viewOf sampleChat 4 = 4" "co_messages sampleChat = []" "co_utterances sampleChat = []"
    by (simp_all add: viewOf_def sampleChat_def)
  then have "\<not> tooLarge 4 (historyEntries (co_messages sampleChat) (co_utterances sampleChat))" by (simp add: tooLarge_def historyEntries_def)
  with history_pages_complete [of sampleChat 4] view show ?thesis by (auto simp: Let_def)
qed

subsection \<open>Pages of the tables\<close>

lemma mapR_take_drop: "mapR f xs = Inr ys \<Longrightarrow> mapR f (take m (drop n xs)) = Inr (take m (drop n ys))"
proof (induction xs arbitrary: ys n m)
  case (Cons x xs)
  from Cons.prems obtain y ys' where y: "f x = Inr y" "mapR f xs = Inr ys'" "ys = y # ys'" by (auto simp: result_simps)
  show ?case
  proof (cases n)
    case 0
    then show ?thesis using y Cons.IH [OF y(2), of "m - 1" 0] by (cases m) simp_all
  next
    case (Suc k)
    then show ?thesis using y Cons.IH [OF y(2), of m k] by simp
  qed
qed simp

lemma selectD1_Inr:
  assumes "selectD1 h q s = (Inr x, t)" and "hostRuns h"
  shows "runs s t" "x = q (sd_db t)"
proof -
  have "dh_others h (sd_k s) (sd_db s) = sd_db t" "x = q (sd_db t)" using d1_ran [OF assms(1) [unfolded selectD1_def]] by auto
  then show "runs s t" "x = q (sd_db t)" using assms(2) unfolding runs_def hostRuns_def by metis+
qed

lemma take_historyEntries:
  "take 10 (drop cursor (historyEntries ms us)) =
     map MessageEntry (take 10 (drop cursor ms)) @
     map (\<lambda>u. UtteranceEntry (visible u)) (take (10 - length (take 10 (drop cursor ms))) (drop (cursor - length ms) us))"
  by (auto simp: historyEntries_def take_map drop_map min_def)

text \<open>The rows and the conversation that one revision of a user has, read back.\<close>

definition storedAs :: "StHost \<Rightarrow> string \<Rightarrow> Conversation \<Rightarrow> Message list \<Rightarrow> nat \<Rightarrow> AsDb \<Rightarrow> bool" where
  "storedAs h who c ms revision db \<longleftrightarrow> (\<exists>r. byKey ur_principal who (db_users db) = Some r \<and> ur_revision r = revision \<and>
     ur_conversation_id r = Some (co_id c) \<and> mapR (storedMessage h (co_id c)) (requestsOf (co_id c) (db_requests db)) = Inr ms)"

lemma storedAs_later:
  assumes "storedAs h who c ms revision (sd_db s)" and "dbInv (sd_db s)" and "runs s t" and "runs t u"
    and "map_option ur_revision (byKey ur_principal who (db_users (sd_db u))) = Some revision"
  shows "requestsOf (co_id c) (db_requests (sd_db t)) = requestsOf (co_id c) (db_requests (sd_db s))"
proof -
  from assms(1) obtain r where r: "byKey ur_principal who (db_users (sd_db s)) = Some r" "ur_revision r = revision" "ur_conversation_id r = Some (co_id c)"
    by (auto simp: storedAs_def)
  from assms(5) obtain x where x: "byKey ur_principal who (db_users (sd_db u)) = Some x" "ur_revision x = revision" by auto
  have inv: "dbInv (sd_db t)" using storing.inv_run [OF assms(3) [unfolded runs_def] assms(2)] .
  from storing.adv_run [OF assms(3) [unfolded runs_def] assms(2), unfolded dbAdv_def, rule_format, OF r(1)]
  obtain y where y: "byKey ur_principal who (db_users (sd_db t)) = Some y" by auto
  note early = unchanged_since [OF assms(3) [unfolded runs_def] assms(2) r(1) y]
  note late = unchanged_since(1) [OF assms(4) [unfolded runs_def] inv y x(1)]
  have "ur_revision y = ur_revision r" using early(1) late r(2) x(2) by simp
  with early(2) have "pinned r y" "messagesOf who (sd_db t) = messagesOf who (sd_db s)" by simp_all
  then show ?thesis
    using requestsOf_messagesOf [OF assms(2) r(1,3)] requestsOf_messagesOf [OF inv y, of "co_id c"] pinned_columns(2) [of r y] r(3) by simp
qed

text \<open>
  C31. A page read from the tables is the page of one revision. Whatever other executions do while the count, the
  rows and the row of the user are read: when the page is returned and the revision is the one the conversation was
  loaded with, then it is exactly the page which the object with the whole conversation in memory gives.
\<close>

theorem stored_page_is_memory_page:
  assumes "hostRuns h" and "dbInv (sd_db s)" and "storedAs h who c ms backing (sd_db s)"
    and "historyPage h who c revision cursor backing s = (Inr p, t)"
    and "map_option ur_revision (byKey ur_principal who (db_users (sd_db t))) = Some backing"
  shows "memoryPage (c \<lparr>co_messages := ms\<rparr>) backing revision cursor = Inr p"
proof -
  let ?rows = "requestsOf (co_id c) (db_requests (sd_db s))" and ?query = "\<lambda>db. requestsOf (co_id c) (db_requests db)"
  have view: "viewOf c backing = revision" using assms(4) by (auto simp: historyPage_def storeError_def split: if_splits)
  with assms(4) obtain count s1 where s1: "selectD1 h (\<lambda>db. length (?query db)) s = (Inr count, s1)"
    and valid: "cursor \<le> MAX_SAFE_INTEGER" "cursor \<le> count + length (co_utterances c)"
    and "historyFrom h who c revision cursor backing count s1 = (Inr p, t)"
    by (auto simp: historyPage_def storeError_def elim!: bindA_Inr_E split: if_splits)
  then obtain rows s2 messages current where
    s2: "(if cursor < count then selectD1 h (\<lambda>db. take 10 (drop cursor (?query db))) else retA []) s1 = (Inr rows, s2)"
    and ms: "mapR (storedMessage h (co_id c)) rows = Inr messages"
    and s3: "selectD1 h (currentRow who) s2 = (Inr current, t)"
    and page: "boundedHistoryPage revision cursor (count + length (co_utterances c)) (pageEntries c cursor count (length rows) messages) = Inr p"
    by (auto simp: historyFrom_def storeError_def elim!: bindA_Inr_E split: option.splits if_splits)
  have order: "runs s s1" "runs s1 s2" "runs s2 t"
    using selectD1_Inr(1) [OF s1 assms(1)] selectD1_Inr(1) [OF s3 assms(1)] s2 selectD1_Inr(1) [OF _ assms(1)]
    by (auto simp: runs_def split: if_splits)
  have end1: "runs s1 t" and end2: "runs s s2" using order by (auto simp: runs_def)
  note same1 = storedAs_later [OF assms(3,2) order(1) end1 assms(5)] and same2 = storedAs_later [OF assms(3,2) end2 order(3) assms(5)]
  have all: "mapR (storedMessage h (co_id c)) ?rows = Inr ms" using assms(3) by (auto simp: storedAs_def)
  have count: "count = length ms" using selectD1_Inr(2) [OF s1 assms(1)] same1 mapR_Inr_length [OF all] by simp
  have "rows = take 10 (drop cursor ?rows)"
  proof (cases "cursor < count")
    case True
    then show ?thesis using s2 selectD1_Inr(2) [OF _ assms(1)] same2 by fastforce
  next
    case False
    then show ?thesis using s2 count mapR_Inr_length [OF all] by simp
  qed
  with mapR_take_drop [OF all, of 10 cursor] ms have messages: "messages = take 10 (drop cursor ms)" "length rows = length messages"
    using mapR_Inr_length [OF ms] by auto
  have "pageEntries c cursor count (length rows) messages = take 10 (drop cursor (historyEntries ms (co_utterances c)))"
    unfolding take_historyEntries pageEntries_def Let_def
    using messages count by (auto simp: sliceL_def)
  then have "boundedHistoryPage revision cursor (length ms + length (co_utterances c))
      (take 10 (drop cursor (historyEntries ms (co_utterances c)))) = Inr p" using page count by simp
  then show ?thesis using view by (simp add: memoryPage_def viewOf_def Let_def sliceL_def historyEntries_def)
qed

theorem stored_page_is_memory_page_witness:
  "memoryPage sampleChat 4 4 0 = Inr (emptyPage 4)"
proof -
  let ?s = "\<lparr>sd_k = 0, sd_db = sampleDb\<rparr>" and ?t = "\<lparr>sd_k = 2, sd_db = sampleDb\<rparr>"
  have "hostRuns sampleStore" "dbInv (sd_db ?s)" "storedAs sampleStore ''p1'' sampleChat [] 4 (sd_db ?s)"
    "map_option ur_revision (byKey ur_principal ''p1'' (db_users (sd_db ?t))) = Some 4"
    by (simp_all add: hostRuns_def sampleStore_def dbInv_def sampleDb_def sampleRow_def oneOwner_def ownedRequests_def keyed_def
        storedAs_def sampleChat_def requestsOf_def)
  moreover have "historyPage sampleStore ''p1'' sampleChat 4 0 4 ?s = (Inr (emptyPage 4), ?t)"
    by (simp add: historyPage_def historyFrom_def viewOf_def selectD1_def d1_def act_simps Let_def sampleStore_def sampleDb_def
        sampleRow_def sampleChat_def requestsOf_def currentRow_def viewUnchanged_def pageEntries_def sliceL_def
        boundedHistoryPage_def cursorAfter_def emptyPage_def MAX_SAFE_INTEGER_def)
  ultimately have "memoryPage (sampleChat \<lparr>co_messages := []\<rparr>) 4 4 0 = Inr (emptyPage 4)"
    by (intro stored_page_is_memory_page [of sampleStore ?s "''p1''" sampleChat "[]" 4 4 0 _ ?t])
  then show ?thesis by (simp add: sampleChat_def)
qed

end
