(* ===== verification/Assistant_User.thy ===== *)
theory Assistant_User
  imports Assistant_Conversation
begin

section \<open>Assistant worker: the user object\<close>

text \<open>
  \<^verbatim>\<open>workers/wiki-assistant/src/user.ts\<close>: what the handlers of a user do to its state in memory. JavaScript runs a
  handler from one \<open>await\<close> to the next without interruption; each such stretch that reads and changes the state is
  one function here: admission of a question, routing, the progress and the publication of a turn, cancelling,
  ending, the checks of the clock. The clock, the durations measured by the turn and the identifiers are
  arguments. A handler holds the conversation and the pending question as objects: it is still the current one
  when the conversation has not been replaced and the pending question has its generation (\<open>sameTurn\<close>).
\<close>

subsection \<open>Admission\<close>

definition resetDay :: "string \<Rightarrow> UserState \<Rightarrow> UserState" where
  "resetDay today s = (if us_day s \<noteq> today then s \<lparr>us_day := today, us_questions := 0\<rparr> else s)"

definition questionSubject :: "Question \<Rightarrow> string option \<Rightarrow> QuestionSubject" where
  "questionSubject input selectedPath =
     (case qu_subject input of
        Some subject \<Rightarrow> subject
      | None \<Rightarrow>
          (case (case qu_selectedPath input of Some path \<Rightarrow> Some path | None \<Rightarrow> selectedPath) of
             Some path \<Rightarrow> if path = [] then SubjectDatabase else SubjectNode path
           | None \<Rightarrow> SubjectDatabase))"

definition findMessage :: "string \<Rightarrow> Message list \<Rightarrow> Message option" where
  "findMessage requestId messages = find (\<lambda>m. me_requestId m = requestId) messages"

definition newPending :: "Question \<Rightarrow> nat \<Rightarrow> nat \<Rightarrow> string option \<Rightarrow> Pending" where
  "newPending input generation started delegationId =
     \<lparr>pe_input = input, pe_deepseek = None, pe_agentInput = None, pe_generation = generation, pe_started = started, pe_stage = StageNew,
      pe_turnId = None, pe_tools = emptyToolState, pe_results = JObj [], pe_delegationId = delegationId, pe_route = None\<rparr>"

definition newMessage :: "Question \<Rightarrow> string option \<Rightarrow> Message" where
  "newMessage input delegationId =
     \<lparr>me_voice = (delegationId \<noteq> None), me_requestId = qu_requestId input, me_question = qu_question input, me_answer = None,
      me_error = None, me_kind = None, me_trace = None\<rparr>"

definition admitted :: "nat \<Rightarrow> nat \<Rightarrow> Question \<Rightarrow> string option \<Rightarrow> Conversation \<Rightarrow> Conversation" where
  "admitted activity started input delegationId c =
     c \<lparr>co_generation := co_generation c + 1, co_activity := activity, co_error := None, co_status := StatusWorking,
        co_pending := Some (newPending input (co_generation c + 1) started delegationId),
        co_messages := co_messages c @ [newMessage input delegationId]\<rparr>"

text \<open>
  The checks of \<open>enqueue\<close> on the conversation \<open>c\<close>, up to its save: \<open>Inr True\<close> is a question taken, \<open>Inr False\<close> one that
  was taken before. The day is reset before the limits are checked. A handler whose conversation was ended while it
  waited still counts its question (\<open>attached\<close> is false).
\<close>

definition enqueue ::
    "bool \<Rightarrow> string \<Rightarrow> nat \<Rightarrow> nat \<Rightarrow> Question \<Rightarrow> string option \<Rightarrow> Conversation \<Rightarrow> (UserState, as_error, bool) act" where
  "enqueue attached today activity started input delegationId c = (\<lambda>s.
     case findMessage (qu_requestId input) (co_messages c) of
       Some previous \<Rightarrow>
         if me_question previous \<noteq> qu_question input then (Inl (AssistantError ''request_id_reused'' 409), s) else (Inr False, s)
     | None \<Rightarrow>
         if qu_scope input \<noteq> co_scope c then (Inl (AssistantError ''scope_not_allowed'' 403), s)
         else if co_pending c \<noteq> None \<or> co_status c = StatusCancelling then (Inl (AssistantError ''turn_in_progress'' 409), s)
         else
           let s = resetDay today s in
           if us_questions s \<ge> li_questions DEFAULT_LIMITS then (Inl (AssistantError ''question_limit'' 429), s)
           else if length (co_messages c) \<ge> 50 then (Inl (AssistantError ''conversation_limit'' 429), s)
           else
             let s = s \<lparr>us_questions := us_questions s + 1\<rparr> in
             (Inr True, if attached then s \<lparr>us_conversation := Some (admitted activity started input delegationId c)\<rparr> else s))"

subsection \<open>The current turn\<close>

definition sameTurn :: "string \<Rightarrow> nat \<Rightarrow> UserState \<Rightarrow> bool" where
  "sameTurn ident generation s \<longleftrightarrow>
     (case us_conversation s of
        None \<Rightarrow> False
      | Some c \<Rightarrow> co_id c = ident \<and> co_generation c = generation \<and>
          (case co_pending c of None \<Rightarrow> False | Some p \<Rightarrow> pe_generation p = generation))"

text \<open>\<open>valid\<close>: \<open>held\<close> is the answer of the lease check.\<close>

definition validTurn :: "bool \<Rightarrow> nat \<Rightarrow> string \<Rightarrow> nat \<Rightarrow> UserState \<Rightarrow> bool" where
  "validTurn held now ident generation s \<longleftrightarrow> held \<and> sameTurn ident generation s \<and>
     (case us_conversation s of
        None \<Rightarrow> False
      | Some c \<Rightarrow> (case co_pending c of None \<Rightarrow> False | Some p \<Rightarrow> now \<le> pe_started p + li_turnMs DEFAULT_LIMITS))"

text \<open>\<open>find\<close> and a write to the message found.\<close>

fun updateMessage :: "string \<Rightarrow> (Message \<Rightarrow> Message) \<Rightarrow> Message list \<Rightarrow> Message list" where
  "updateMessage requestId f [] = []"
| "updateMessage requestId f (m # ms) = (if me_requestId m = requestId then f m # ms else m # updateMessage requestId f ms)"

definition onConversation :: "(Conversation \<Rightarrow> Conversation) \<Rightarrow> UserState \<Rightarrow> UserState" where
  "onConversation f s = s \<lparr>us_conversation := map_option f (us_conversation s)\<rparr>"

definition traceFor :: "Pending \<Rightarrow> AskAiRoute option \<Rightarrow> nat \<Rightarrow> nat \<Rightarrow> Trace" where
  "traceFor p route routeMs rerankMs =
     \<lparr>tr_route = route, tr_calls = ts_calls (pe_tools p), tr_characters = ts_characters (pe_tools p),
      tr_inventoryObserved = ts_inventoryObserved (pe_tools p), tr_inventoryTruncated = ts_inventoryTruncated (pe_tools p),
      tr_readCount = length (ts_readPaths (pe_tools p)), tr_jevRouteDurationMs = routeMs, tr_jevRerankDurationMs = rerankMs\<rparr>"

subsection \<open>Routing\<close>

definition answeredHistory :: "string \<Rightarrow> Message list \<Rightarrow> history_item list" where
  "answeredHistory requestId messages =
     concat (map (\<lambda>m. case me_answer m of
        None \<Rightarrow> []
      | Some a \<Rightarrow> if me_requestId m \<noteq> requestId then [(UserRole, me_question m), (AssistantRole, an_answer a)] else []) messages)"

definition routingHistory :: "Conversation \<Rightarrow> Pending \<Rightarrow> history_item list" where
  "routingHistory c p = boundedRoutingHistory (co_history c @ answeredHistory (qu_requestId (pe_input p)) (co_messages c))"

definition settle :: "Message list \<Rightarrow> Conversation \<Rightarrow> Conversation" where
  "settle messages c = c \<lparr>co_messages := messages, co_pending := None, co_status := StatusReady, co_error := None\<rparr>"

definition clarificationAnswer :: "string \<Rightarrow> Answer" where
  "clarificationAnswer question = \<lparr>an_answer = question, an_citations = [], an_insufficient = False, an_contradictions = [], an_unverified = []\<rparr>"

text \<open>\<open>routed\<close> is the decision of \<open>routeAskAiIntent\<close>; without a route the question is answered by asking back (\<open>reply\<close>).\<close>

definition routeConversation :: "AskAiRoute option \<Rightarrow> QuestionSubject \<Rightarrow> string \<Rightarrow> nat \<Rightarrow> nat \<Rightarrow> Pending \<Rightarrow> Conversation \<Rightarrow> Conversation" where
  "routeConversation routed subject reply routeMs rerankMs p c =
     (case routed of
        None \<Rightarrow>
          settle (updateMessage (qu_requestId (pe_input p))
            (\<lambda>m. m \<lparr>me_kind := Some Clarification, me_answer := Some (clarificationAnswer reply),
                    me_trace := Some (traceFor p None routeMs rerankMs)\<rparr>) (co_messages c)) c
      | Some route \<Rightarrow>
          let discovered = ts_discoveredPaths (pe_tools p);
              tools = (case subject of
                         SubjectDatabase \<Rightarrow> pe_tools p
                       | SubjectNode path \<Rightarrow> if route = SelectedNodeSummary \<and> path \<notin> set discovered
                                             then (pe_tools p) \<lparr>ts_discoveredPaths := discovered @ [path]\<rparr> else pe_tools p
                       | SubjectFolder path \<Rightarrow> if route = SelectedNodeSummary \<and> path \<notin> set discovered
                                               then (pe_tools p) \<lparr>ts_discoveredPaths := discovered @ [path]\<rparr> else pe_tools p)
          in c \<lparr>co_pending := Some (p \<lparr>pe_route := Some route, pe_tools := tools\<rparr>)\<rparr>)"

subsection \<open>Progress, publication and failure\<close>

text \<open>The running turn writes its messages, its tools and its stage into the pending question.\<close>

definition progressed :: "DeepSeekTurn \<Rightarrow> ToolState \<Rightarrow> Conversation \<Rightarrow> Conversation" where
  "progressed turn tools c =
     c \<lparr>co_pending := map_option (\<lambda>p. p \<lparr>pe_deepseek := Some turn, pe_tools := tools, pe_stage := StageRunning\<rparr>) (co_pending c)\<rparr>"

definition published :: "Answer \<Rightarrow> AskAiRoute \<Rightarrow> nat \<Rightarrow> nat \<Rightarrow> Pending \<Rightarrow> Conversation \<Rightarrow> Conversation" where
  "published answer route routeMs rerankMs p c =
     settle (updateMessage (qu_requestId (pe_input p))
       (\<lambda>m. m \<lparr>me_answer := Some answer,
               me_kind := Some (if pe_route p = Some ConversationRoute then ConversationAnswer else GroundedAnswer),
               me_trace := Some (traceFor p (Some route) routeMs rerankMs)\<rparr>) (co_messages c)) c"

definition withError :: "string \<Rightarrow> Conversation \<Rightarrow> Conversation" where
  "withError code c = c \<lparr>co_error := Some code\<rparr>"

definition cancelled :: "Conversation \<Rightarrow> Conversation" where
  "cancelled c =
     (let code = (case co_error c of None \<Rightarrow> ''cancel_requested'' | Some e \<Rightarrow> e) in
      c \<lparr>co_generation := co_generation c + 1,
         co_messages := (case co_pending c of
            None \<Rightarrow> co_messages c
          | Some p \<Rightarrow> updateMessage (qu_requestId (pe_input p)) (\<lambda>m. m \<lparr>me_error := Some code\<rparr>) (co_messages c)),
         co_pending := None, co_status := StatusReady\<rparr>)"

definition ended :: "UserState \<Rightarrow> UserState" where
  "ended s = s \<lparr>us_conversation := None\<rparr>"

text \<open>\<open>endOwned\<close>: only the authentication that owns the conversation ends it.\<close>

definition endOwned :: "string \<Rightarrow> string option \<Rightarrow> UserState \<Rightarrow> UserState" where
  "endOwned authId conversationId s =
     (case us_conversation s of
        None \<Rightarrow> s
      | Some c \<Rightarrow>
          if co_authId c \<noteq> authId \<or> (case conversationId of None \<Rightarrow> False | Some i \<Rightarrow> i \<noteq> co_id c) then s else ended s)"

text \<open>The handler of an exception of the turn, once it has seen that the turn is still the current one.\<close>

definition turnFailed :: "as_error \<Rightarrow> UserState \<Rightarrow> UserState" where
  "turnFailed e s =
     (case us_conversation s of
        None \<Rightarrow> s
      | Some c \<Rightarrow>
          (case e of
             AssistantError code status \<Rightarrow>
               let s = onConversation (withError code) s in
               if status = 401 \<or> status = 403 then endOwned (co_authId c) None s else onConversation cancelled s
           | _ \<Rightarrow>
               let s = onConversation (withError (snd (textTurnFailure e))) s in
               if fst (textTurnFailure e) = CancelTurn then onConversation cancelled s else s))"

definition cleanupDone :: "UserState \<Rightarrow> UserState" where
  "cleanupDone s = onConversation (\<lambda>c.
     if co_status c = StatusCancelling
     then c \<lparr>co_status := StatusReady, co_error := (if co_error c = Some ''checking_request_status'' then None else co_error c)\<rparr> else c)
     (s \<lparr>us_cleanup := []\<rparr>)"

subsection \<open>The clock\<close>

definition wakeDeadline :: "nat \<Rightarrow> UserState \<Rightarrow> nat" where
  "wakeDeadline now s =
     (let L = DEFAULT_LIMITS;
          deadlines =
            (case us_conversation s of
               None \<Rightarrow> (now + 86400000) # map (\<lambda>t. case cl_nextAttempt t of None \<Rightarrow> now + 15000 | Some n \<Rightarrow> n) (us_cleanup s)
             | Some c \<Rightarrow> [now + 15000, co_activity c + li_idleMs L, co_seen c + li_reconnectMs L] @
                 (case co_pending c of None \<Rightarrow> [] | Some p \<Rightarrow> [now + 1000, pe_started p + li_turnMs L]))
      in max now (Min (set deadlines)))"

definition expired :: "nat \<Rightarrow> Conversation \<Rightarrow> bool" where
  "expired now c \<longleftrightarrow> now - co_activity c \<ge> li_idleMs DEFAULT_LIMITS \<or> now - co_seen c \<ge> li_reconnectMs DEFAULT_LIMITS"

definition timedOut :: "nat \<Rightarrow> Conversation \<Rightarrow> bool" where
  "timedOut now c \<longleftrightarrow> (case co_pending c of None \<Rightarrow> False | Some p \<Rightarrow> now - pe_started p \<ge> li_turnMs DEFAULT_LIMITS)"

text \<open>\<open>tick\<close> up to its authorization (\<open>enabled\<close> is the outcome of \<open>requireEnabled\<close>), and its answer to a failed one.\<close>

definition tickClock :: "bool \<Rightarrow> nat \<Rightarrow> UserState \<Rightarrow> UserState" where
  "tickClock enabled now s =
     (case us_conversation s of
        None \<Rightarrow> s
      | Some c \<Rightarrow>
          if expired now c then endOwned (co_authId c) (Some (co_id c)) s
          else if enabled \<and> timedOut now c then onConversation (\<lambda>c. cancelled (withError ''turn_timeout'' c)) s
          else s)"

definition authorizationFailed :: "as_error \<Rightarrow> UserState \<Rightarrow> UserState" where
  "authorizationFailed e s =
     (case us_conversation s of
        None \<Rightarrow> s
      | Some c \<Rightarrow>
          (case e of
             AssistantError code status \<Rightarrow>
               if status = 401 \<or> status = 403 \<or> code = ''assistant_disabled'' then endOwned (co_authId c) (Some (co_id c)) s else s
           | _ \<Rightarrow> s))"

definition tickDay :: "string \<Rightarrow> UserState \<Rightarrow> UserState" where
  "tickDay today s =
     (if us_conversation s = None \<and> us_cleanup s = [] \<and> us_day s \<noteq> today then s \<lparr>us_questions := 0, us_day := today\<rparr> else s)"

definition seenAt :: "nat \<Rightarrow> UserState \<Rightarrow> UserState" where
  "seenAt now s = onConversation (\<lambda>c. c \<lparr>co_seen := now\<rparr>) s"

text \<open>\<open>initialize\<close> retires a conversation that this version does not continue.\<close>

definition falsy :: "json option \<Rightarrow> bool" where
  "falsy v \<longleftrightarrow> v \<in> {None, Some JNull, Some (JBool False), Some (JStr []), Some (JNum ''0'')}"

definition retired :: "Conversation \<Rightarrow> bool" where
  "retired c \<longleftrightarrow> co_native c \<noteq> Some True \<or> \<not> falsy (co_live c) \<or>
     (case co_pending c of None \<Rightarrow> False | Some p \<Rightarrow> pe_delegationId p \<notin> {None, Some []}) \<or>
     co_nativeTextProvider c \<noteq> Some ''deepseek'' \<or> co_format c \<noteq> 3"

definition initialized :: "UserState \<Rightarrow> UserState" where
  "initialized s =
     (let s = s \<lparr>us_cleanup := []\<rparr>;
          s = (case us_conversation s of None \<Rightarrow> s | Some c \<Rightarrow> if retired c then endOwned (co_authId c) (Some (co_id c)) s else s)
      in case us_conversation s of
           None \<Rightarrow> s
         | Some c \<Rightarrow> if us_endRequested s \<noteq> None then endOwned (co_authId c) (Some (co_id c)) s else s)"

subsection \<open>New conversations\<close>

record ConversationInput =
  cv_databaseId :: string
  cv_scope :: Scope
  cv_selectedPath :: "string option"
  cv_history :: "history_item list"

definition consentVersion :: "bool \<Rightarrow> string" where
  "consentVersion native = (if native then ''2026-09-29'' else ''2026-09-22'')"

definition historyInput :: "json \<Rightarrow> history_item option" where
  "historyInput v =
     (case v of
        JObj ps \<Rightarrow>
          (case (Option.bind (jget ps ''role'') roleOf, boundedText 0 4000 (jget ps ''text'')) of
             (Some role, Some item) \<Rightarrow> if strictKeys [''role'', ''text''] ps then Some (role, item) else None
           | _ \<Rightarrow> None)
      | _ \<Rightarrow> None)"

definition optionalText :: "nat \<Rightarrow> json option \<Rightarrow> string option option" where
  "optionalText most v = (case v of None \<Rightarrow> Some None | Some w \<Rightarrow> map_option Some (boundedText 0 most (Some w)))"

definition historySchema :: "json option \<Rightarrow> history_item list option" where
  "historySchema v =
     (case v of
        None \<Rightarrow> Some []
      | Some w \<Rightarrow>
          (case boundedArray historyInput 20 (Some w) of
             None \<Rightarrow> None
           | Some items \<Rightarrow> if length (utf8Encode (stringify (arrayJson historyItemJson items))) \<le> 12000 then Some items else None))"

definition conversationInput :: "bool \<Rightarrow> json \<Rightarrow> as_error + ConversationInput" where
  "conversationInput native v =
     (case v of
        JObj ps \<Rightarrow>
          (case (boundedText 1 128 (jget ps ''databaseId''), scopeSchema (jget ps ''scope''), optionalText 512 (jget ps ''selectedPath''),
                 historySchema (jget ps ''history'')) of
             (Some databaseId, Some scope, Some selectedPath, Some history) \<Rightarrow>
               if jget ps ''consent'' = Some (JStr (consentVersion native)) \<and>
                  strictKeys [''databaseId'', ''scope'', ''consent'', ''selectedPath'', ''history''] ps
               then Inr \<lparr>cv_databaseId = databaseId, cv_scope = scope, cv_selectedPath = selectedPath, cv_history = history\<rparr>
               else Inl ZodError
           | _ \<Rightarrow> Inl ZodError)
      | _ \<Rightarrow> Inl ZodError)"

definition newConversation :: "bool \<Rightarrow> string \<Rightarrow> string \<Rightarrow> string \<Rightarrow> nat \<Rightarrow> nat \<Rightarrow> ConversationInput \<Rightarrow> Conversation" where
  "newConversation native ident who authId activity seen input =
     \<lparr>co_format = 3, co_native = Some native, co_nativeTextProvider = (if native then Some ''deepseek'' else None), co_viewRevision = None,
      co_viewFingerprint = None, co_selectedPath = cv_selectedPath input, co_history = cv_history input, co_utterances = [],
      co_id = ident, co_authId = authId, co_principal = who, co_databaseId = cv_databaseId input, co_scope = cv_scope input,
      co_sessionId = None, co_generation = 0, co_pending = None, co_activity = activity, co_seen = seen, co_status = StatusReady,
      co_error = None, co_messages = [], co_live = Some JNull, co_transcripts = JArr [], co_delegations = JArr [], co_deferred = JNull\<rparr>"

text \<open>The conversation is installed after the canister answered, unless another one was installed meanwhile.\<close>

definition installConversation :: "Conversation \<Rightarrow> (UserState, as_error, unit) act" where
  "installConversation c = (\<lambda>s.
     if us_conversation s \<noteq> None then (Inl (AssistantError ''conversation_already_active'' 409), s)
     else (Inr (), s \<lparr>us_conversation := Some c\<rparr>))"

text \<open>\<open>isUuid\<close> is the check of \<open>zod\<close>.\<close>

definition subjectSchema :: "json option \<Rightarrow> QuestionSubject option option" where
  "subjectSchema v =
     (case v of
        None \<Rightarrow> Some None
      | Some (JObj ps) \<Rightarrow>
          (if jget ps ''kind'' = Some (JStr ''database'') then (if strictKeys [''kind''] ps then Some (Some SubjectDatabase) else None)
           else
             (case boundedText 1 512 (jget ps ''path'') of
                None \<Rightarrow> None
              | Some path \<Rightarrow>
                  if \<not> strictKeys [''kind'', ''path''] ps then None
                  else if jget ps ''kind'' = Some (JStr ''node'') then Some (Some (SubjectNode path))
                  else if jget ps ''kind'' = Some (JStr ''folder'') then Some (Some (SubjectFolder path)) else None))
      | _ \<Rightarrow> None)"

definition questionSchema :: "(string \<Rightarrow> bool) \<Rightarrow> json \<Rightarrow> as_error + Question" where
  "questionSchema isUuid v =
     (case v of
        JObj ps \<Rightarrow>
          (case (jsonText (jget ps ''requestId''), jsonText (jget ps ''question''), scopeSchema (jget ps ''scope''),
                 optionalText 512 (jget ps ''selectedPath''), subjectSchema (jget ps ''subject'')) of
             (Some requestId, Some question, Some scope, Some selectedPath, Some subject) \<Rightarrow>
               if isUuid requestId \<and> trim question \<noteq> [] \<and> length (trim question) \<le> 4000 \<and>
                  strictKeys [''requestId'', ''question'', ''scope'', ''selectedPath'', ''subject''] ps
               then Inr \<lparr>qu_requestId = requestId, qu_question = trim question, qu_scope = scope, qu_selectedPath = selectedPath,
                         qu_subject = subject\<rparr>
               else Inl ZodError
           | _ \<Rightarrow> Inl ZodError)
      | _ \<Rightarrow> Inl ZodError)"

text \<open>What a client sees of a conversation.\<close>

definition snapshotJson :: "nat \<Rightarrow> Conversation \<Rightarrow> json" where
  "snapshotJson revision c = jsObject [
     (''revision'', Some (decNumber (case co_viewRevision c of None \<Rightarrow> revision | Some n \<Rightarrow> n))), (''id'', Some (JStr (co_id c))),
     (''databaseId'', Some (JStr (co_databaseId c))), (''scope'', Some (scopeJson (co_scope c))),
     (''status'', Some (JStr (statusName (co_status c)))), (''error'', Some (nullJson JStr (co_error c))),
     (''generation'', Some (decNumber (co_generation c))), (''reconnectGraceMs'', Some (decNumber (li_reconnectMs DEFAULT_LIMITS))),
     (''voice'', Some (JStr ''off'')), (''voiceDeadline'', Some JNull), (''voiceId'', Some JNull),
     (''progress'', Some (case co_pending c of
        None \<Rightarrow> JNull
      | Some p \<Rightarrow> jsObject [(''calls'', Some (decNumber (ts_calls (pe_tools p)))), (''stage'', Some (JStr (stageName (pe_stage p))))]))]"

text \<open>What \<open>broadcast\<close> sends to the open connections.\<close>

definition broadcastJson :: "nat \<Rightarrow> UserState \<Rightarrow> json" where
  "broadcastJson revision s =
     (case us_conversation s of
        None \<Rightarrow> JObj [(''type'', JStr ''ended'')]
      | Some c \<Rightarrow> (case snapshotJson revision c of JObj ps \<Rightarrow> JObj ((''type'', JStr ''snapshot'') # ps) | v \<Rightarrow> v))"

text \<open>\<open>POST /citation\<close>: the citation with an identifier, and what the current document says of it.\<close>

definition findCitation :: "string \<Rightarrow> Conversation \<Rightarrow> Citation option" where
  "findCitation ident c =
     find (\<lambda>x. ci_id x = ident) (concat (map (\<lambda>m. case me_answer m of None \<Rightarrow> [] | Some a \<Rightarrow> an_citations a) (co_messages c)))"

definition citationChange :: "Citation \<Rightarrow> ReadNode option \<Rightarrow> bool \<times> bool" where
  "citationChange citation node = ((case node of None \<Rightarrow> True | Some n \<Rightarrow> rn_etag n \<noteq> ci_etag citation), node = None)"

end
