(* ===== verification/Assistant_Sessions.thy ===== *)
theory Assistant_Sessions
  imports Assistant_User Assistant_Store State_System
begin

section \<open>Assistant worker: sessions under concurrent executions\<close>

text \<open>
  The handlers of \<^verbatim>\<open>user.ts\<close> in any order, and several objects for the same user: each loads the committed state,
  changes its own copy, and commits it if the revision is still the one it loaded. That a save is such a
  compare-and-swap on the tables, and that a load returns what was saved, are the theorems of \<^verbatim>\<open>Assistant_Commits\<close>
  and \<^verbatim>\<open>Assistant_Saves\<close>; here a commit is one step on the state.
\<close>

subsection \<open>Handlers of one object\<close>

inductive userStep :: "UserState \<Rightarrow> UserState \<Rightarrow> bool" where
  user_enqueue: "us_conversation s = Some c \<Longrightarrow> userStep s (snd (enqueue True today activity started input delegationId c s))"
| user_enqueue_detached: "userStep s (snd (enqueue False today activity started input delegationId c s))"
| user_route: "us_conversation s = Some c \<Longrightarrow> co_pending c = Some p \<Longrightarrow> sameTurn (co_id c) (pe_generation p) s \<Longrightarrow> pe_route p = None \<Longrightarrow>
    userStep s (onConversation (routeConversation routed subject reply routeMs rerankMs p) s)"
| user_progress: "userStep s (onConversation (progressed turn tools) s)"
| user_publish: "us_conversation s = Some c \<Longrightarrow> co_pending c = Some p \<Longrightarrow> sameTurn (co_id c) (pe_generation p) s \<Longrightarrow>
    userStep s (onConversation (published answer route routeMs rerankMs p) s)"
| user_fail: "sameTurn ident generation s \<Longrightarrow> userStep s (turnFailed e s)"
| user_cancel: "userStep s (onConversation cancelled s)"
| user_end: "userStep s (endOwned authId conversationId s)"
| user_clock: "userStep s (tickClock enabled now s)"
| user_denied: "userStep s (authorizationFailed e s)"
| user_day: "userStep s (tickDay today s)"
| user_cleanup: "userStep s (cleanupDone s)"
| user_seen: "userStep s (seenAt now s)"
| user_initialize: "userStep s (initialized s)"

subsection \<open>What every state satisfies\<close>

definition messageIds :: "Conversation \<Rightarrow> string list" where
  "messageIds c = map me_requestId (co_messages c)"

definition pendingOpen :: "Conversation \<Rightarrow> bool" where
  "pendingOpen c \<longleftrightarrow> (case co_pending c of
     None \<Rightarrow> True
   | Some p \<Rightarrow> pe_generation p = co_generation c \<and>
       (\<exists>m \<in> set (co_messages c). me_requestId m = qu_requestId (pe_input p) \<and> me_answer m = None))"

definition conversationInv :: "Conversation \<Rightarrow> bool" where
  "conversationInv c \<longleftrightarrow> distinct (messageIds c) \<and> length (co_messages c) \<le> 50 \<and> pendingOpen c"

definition userInv :: "UserState \<Rightarrow> bool" where
  "userInv s \<longleftrightarrow> us_questions s \<le> 50 \<and> pred_option conversationInv (us_conversation s)"

text \<open>A message keeps its question, and its answer once it has one.\<close>

definition keptMessage :: "Message \<Rightarrow> Message \<Rightarrow> bool" where
  "keptMessage m m' \<longleftrightarrow> me_requestId m' = me_requestId m \<and> me_question m' = me_question m \<and>
     (me_answer m \<noteq> None \<longrightarrow> me_answer m' = me_answer m \<and> me_kind m' = me_kind m \<and> me_trace m' = me_trace m)"

definition extends :: "Conversation \<Rightarrow> Conversation \<Rightarrow> bool" where
  "extends c d \<longleftrightarrow> co_id d = co_id c \<and> co_generation c \<le> co_generation d \<and>
     (\<exists>xs ys. co_messages d = xs @ ys \<and> list_all2 keptMessage (co_messages c) xs)"

definition evolves :: "UserState \<Rightarrow> UserState \<Rightarrow> bool" where
  "evolves s t \<longleftrightarrow> (\<forall>d. us_conversation t = Some d \<longrightarrow> (\<exists>c. us_conversation s = Some c \<and> extends c d))"

lemma keptMessage_refl: "keptMessage m m"
  by (simp add: keptMessage_def)

lemma keptMessage_trans: "keptMessage a b \<Longrightarrow> keptMessage b c \<Longrightarrow> keptMessage a c"
  by (auto simp: keptMessage_def)

lemma extends_same: "co_id d = co_id c \<Longrightarrow> co_generation c \<le> co_generation d \<Longrightarrow> list_all2 keptMessage (co_messages c) (co_messages d) \<Longrightarrow> extends c d"
  unfolding extends_def by (intro conjI exI [of _ "co_messages d"] exI [of _ "[]"]) simp_all

lemma extends_refl: "extends c c"
  by (rule extends_same) (simp_all add: list_all2_refl keptMessage_refl)

lemma extends_trans:
  assumes "extends a b" and "extends b c"
  shows "extends a c"
proof -
  from assms(1) obtain xs ys where b: "co_messages b = xs @ ys" "list_all2 keptMessage (co_messages a) xs" by (auto simp: extends_def)
  from assms(2) obtain us vs where c: "co_messages c = us @ vs" "list_all2 keptMessage (co_messages b) us" by (auto simp: extends_def)
  from c(2) b(1) obtain u1 u2 where u: "us = u1 @ u2" "list_all2 keptMessage xs u1" by (auto simp: list_all2_append1)
  have "list_all2 keptMessage (co_messages a) u1"
    using list_all2_trans [of keptMessage keptMessage keptMessage, OF _ b(2) u(2)] keptMessage_trans by blast
  then show ?thesis using assms c(1) u(1) unfolding extends_def by (auto intro: exI [of _ u1])
qed

lemma evolves_refl: "evolves s s"
  by (simp add: evolves_def extends_refl)

lemma evolves_trans: "evolves s t \<Longrightarrow> evolves t u \<Longrightarrow> evolves s u"
  unfolding evolves_def using extends_trans by blast

subsection \<open>Updates of one message\<close>

lemma updateMessage_ids: "(\<And>m. me_requestId (f m) = me_requestId m) \<Longrightarrow> map me_requestId (updateMessage r f ms) = map me_requestId ms"
  by (induction ms) simp_all

lemma updateMessage_kept: "(\<And>m. keptMessage m (f m)) \<Longrightarrow> list_all2 keptMessage ms (updateMessage r f ms)"
  by (induction ms) (simp_all add: keptMessage_refl list_all2_refl)

text \<open>An answer is written to a message that had none.\<close>

lemma updateMessage_answers:
  assumes "\<And>m. me_requestId (f m) = me_requestId m \<and> me_question (f m) = me_question m"
    and "distinct (map me_requestId ms)" and "\<exists>m \<in> set ms. me_requestId m = r \<and> me_answer m = None"
  shows "list_all2 keptMessage ms (updateMessage r f ms)"
  using assms(2,3)
proof (induction ms)
  case (Cons m ms)
  show ?case
  proof (cases "me_requestId m = r")
    case True
    then have "\<forall>x \<in> set ms. me_requestId x \<noteq> r" using Cons.prems(1) by (auto simp: image_iff)
    with Cons.prems(2) True have "me_answer m = None" by auto
    with True assms(1) [of m] show ?thesis by (simp add: keptMessage_def list_all2_refl keptMessage_refl)
  qed (use Cons in \<open>auto simp: keptMessage_refl\<close>)
qed simp

lemma conversationInv_D:
  assumes "userInv s" and "us_conversation s = Some c"
  shows "distinct (map me_requestId (co_messages c))" "length (co_messages c) \<le> 50" "pendingOpen c" "us_questions s \<le> 50"
  using assms by (simp_all add: userInv_def conversationInv_def messageIds_def)

lemma findMessage_None: "findMessage r ms = None \<longleftrightarrow> r \<notin> set (map me_requestId ms)"
  by (auto simp: findMessage_def find_None_iff)

subsection \<open>Handlers keep the invariant and the answers\<close>

text \<open>A change of the conversation in place.\<close>

definition goodChange :: "Conversation \<Rightarrow> Conversation \<Rightarrow> bool" where
  "goodChange c d \<longleftrightarrow> conversationInv d \<and> extends c d"

lemma onConversation_good:
  assumes "userInv s" and "\<And>c. us_conversation s = Some c \<Longrightarrow> conversationInv c \<Longrightarrow> goodChange c (f c)"
  shows "userInv (onConversation f s)" "evolves s (onConversation f s)"
  using assms by (cases "us_conversation s"; auto simp: onConversation_def userInv_def evolves_def goodChange_def)+

lemma settle_good:
  assumes "conversationInv c" and "map me_requestId ms = map me_requestId (co_messages c)" and "list_all2 keptMessage (co_messages c) ms"
  shows "goodChange c (settle ms c)"
proof -
  have "length ms = length (co_messages c)" using assms(2) by (metis length_map)
  with assms show ?thesis
    by (auto simp: goodChange_def conversationInv_def messageIds_def settle_def pendingOpen_def intro!: extends_same)
qed

lemma cancelled_good: "conversationInv c \<Longrightarrow> goodChange c (cancelled c)"
proof -
  assume inv: "conversationInv c"
  let ?f = "\<lambda>m :: Message. m \<lparr>me_error := Some (case co_error c of None \<Rightarrow> ''cancel_requested'' | Some e \<Rightarrow> e)\<rparr>"
  have kept: "list_all2 keptMessage ms (updateMessage r ?f ms)" for r ms by (rule updateMessage_kept) (simp add: keptMessage_def)
  have ids: "map me_requestId (updateMessage r ?f ms) = map me_requestId ms" for r ms by (rule updateMessage_ids) simp
  then have "length (updateMessage r ?f ms) = length ms" for r ms by (metis length_map)
  with inv kept ids show ?thesis
    by (auto simp: goodChange_def conversationInv_def messageIds_def cancelled_def Let_def pendingOpen_def list_all2_refl keptMessage_refl
        split: option.split intro!: extends_same)
qed

lemma withError_good: "conversationInv c \<Longrightarrow> goodChange c (withError code c)"
  by (auto simp: goodChange_def conversationInv_def messageIds_def withError_def pendingOpen_def list_all2_refl keptMessage_refl
      split: option.split intro!: extends_same)

lemma goodChange_trans: "goodChange c d \<Longrightarrow> goodChange d e \<Longrightarrow> goodChange c e"
  unfolding goodChange_def using extends_trans by blast

lemma pending_good:
  assumes "conversationInv c" and "\<And>p. co_pending c = Some p \<Longrightarrow> \<exists>q. pending' = Some q \<and> pe_generation q = pe_generation p \<and> pe_input q = pe_input p"
    and "co_pending c = None \<Longrightarrow> pending' = None"
  shows "goodChange c (c \<lparr>co_pending := pending'\<rparr>)"
  using assms
  by (cases "co_pending c") (fastforce simp: goodChange_def conversationInv_def messageIds_def pendingOpen_def list_all2_refl keptMessage_refl
      intro!: extends_same)+

lemma answered_good:
  assumes "conversationInv c" and "co_pending c = Some p"
    and "\<And>m. me_requestId (f m) = me_requestId m \<and> me_question (f m) = me_question m"
  shows "goodChange c (settle (updateMessage (qu_requestId (pe_input p)) f (co_messages c)) c)"
  using assms
  by (intro settle_good updateMessage_ids updateMessage_answers)
    (auto simp: conversationInv_def pendingOpen_def messageIds_def)

lemma routed_good: "conversationInv c \<Longrightarrow> co_pending c = Some p \<Longrightarrow> goodChange c (routeConversation routed subject reply routeMs rerankMs p c)"
  by (cases routed) (auto simp: routeConversation_def Let_def intro!: answered_good pending_good)

lemma published_good: "conversationInv c \<Longrightarrow> co_pending c = Some p \<Longrightarrow> goodChange c (published answer route routeMs rerankMs p c)"
  unfolding published_def by (rule answered_good) simp_all

lemma progressed_good: "conversationInv c \<Longrightarrow> goodChange c (progressed turn tools c)"
  unfolding progressed_def by (rule pending_good) auto

lemma seen_good: "conversationInv c \<Longrightarrow> goodChange c (c \<lparr>co_seen := n\<rparr>)"
  by (auto simp: goodChange_def conversationInv_def messageIds_def pendingOpen_def list_all2_refl keptMessage_refl
      split: option.split intro!: extends_same)

lemma cleanup_good: "conversationInv c \<Longrightarrow> goodChange c (if b then c \<lparr>co_status := x, co_error := y\<rparr> else c)"
  by (auto simp: goodChange_def conversationInv_def messageIds_def pendingOpen_def list_all2_refl keptMessage_refl
      split: option.split intro!: extends_same)

lemma admitted_good:
  assumes "conversationInv c" and "findMessage (qu_requestId input) (co_messages c) = None" and "length (co_messages c) < 50"
  shows "goodChange c (admitted activity started input delegationId c)"
proof -
  have "list_all2 keptMessage (co_messages c) (co_messages c)" by (simp add: list_all2_refl keptMessage_refl)
  then have "extends c (admitted activity started input delegationId c)"
    unfolding extends_def admitted_def by (auto intro: exI [of _ "co_messages c"])
  with assms show ?thesis
    by (auto simp: goodChange_def conversationInv_def messageIds_def admitted_def newMessage_def newPending_def pendingOpen_def findMessage_None)
qed

definition keeps :: "UserState \<Rightarrow> UserState \<Rightarrow> bool" where
  "keeps s t \<longleftrightarrow> (userInv s \<longrightarrow> userInv t) \<and> evolves s t"

lemma keeps_refl: "keeps s s"
  by (simp add: keeps_def evolves_refl)

lemma keeps_end: "keeps s (endOwned authId conversationId s)"
  by (auto simp: keeps_def endOwned_def ended_def evolves_def userInv_def extends_refl split: option.split)

lemma keeps_on: "userInv s \<Longrightarrow> (\<And>c. us_conversation s = Some c \<Longrightarrow> conversationInv c \<Longrightarrow> goodChange c (f c)) \<Longrightarrow> keeps s (onConversation f s)"
  using onConversation_good [of s f] by (simp add: keeps_def)

lemma keeps_trans: "userInv s \<Longrightarrow> keeps s t \<Longrightarrow> keeps t u \<Longrightarrow> keeps s u"
  unfolding keeps_def using evolves_trans by blast

lemma resetDay_keeps: "userInv s \<Longrightarrow> userInv (resetDay today s) \<and> us_conversation (resetDay today s) = us_conversation s"
  by (simp add: resetDay_def userInv_def)

lemma keeps_same: "userInv s \<Longrightarrow> userInv t \<Longrightarrow> us_conversation t = us_conversation s \<Longrightarrow> keeps s t"
  by (simp add: keeps_def evolves_def extends_refl)

lemma enqueue_keeps:
  assumes "userInv s" and "attached \<Longrightarrow> us_conversation s = Some c"
  shows "keeps s (snd (enqueue attached today activity started input delegationId c s))"
proof -
  let ?s = "resetDay today s"
  note day = resetDay_keeps [OF assms(1), of today]
  show ?thesis
  proof (cases "findMessage (qu_requestId input) (co_messages c) = None \<and> us_questions ?s < 50 \<and> length (co_messages c) < 50 \<and>
      qu_scope input = co_scope c \<and> co_pending c = None \<and> co_status c \<noteq> StatusCancelling")
    case True
    let ?q = "?s \<lparr>us_questions := us_questions ?s + 1\<rparr>"
    have q: "userInv ?q" "us_conversation ?q = us_conversation s" using day True by (auto simp: userInv_def)
    have t: "snd (enqueue attached today activity started input delegationId c s) =
        (if attached then ?q \<lparr>us_conversation := Some (admitted activity started input delegationId c)\<rparr> else ?q)"
      using True by (simp add: enqueue_def Let_def DEFAULT_LIMITS_def)
    show ?thesis
    proof (cases attached)
      case True
      with assms(2) q have "conversationInv c" by (simp add: userInv_def)
      then have good: "goodChange c (admitted activity started input delegationId c)"
        using \<open>_ \<and> us_questions ?s < 50 \<and> _\<close> by (intro admitted_good) auto
      with q assms(2) True show ?thesis
        unfolding t by (simp add: keeps_def userInv_def evolves_def goodChange_def)
    next
      case False
      with q assms(1) show ?thesis unfolding t by (simp add: keeps_same)
    qed
  next
    case False
    then have "snd (enqueue attached today activity started input delegationId c s) \<in> {s, ?s}"
      by (auto simp: enqueue_def Let_def DEFAULT_LIMITS_def split: option.split)
    then show ?thesis using day assms(1) keeps_refl keeps_same [of s ?s] by auto
  qed
qed

lemma turnFailed_keeps:
  assumes "userInv s"
  shows "keeps s (turnFailed e s)"
proof -
  have error: "keeps s (onConversation (withError code) s)" for code by (rule keeps_on [OF assms]) (rule withError_good)
  then have inv: "userInv (onConversation (withError code) s)" for code using assms by (simp add: keeps_def)
  have "keeps s (onConversation cancelled (onConversation (withError code) s))" for code
    by (rule keeps_trans [OF assms error]) (rule keeps_on [OF inv], rule cancelled_good)
  moreover have "keeps s (endOwned a i (onConversation (withError code) s))" for a i code
    by (rule keeps_trans [OF assms error keeps_end])
  ultimately show ?thesis
    using error keeps_refl by (auto simp: turnFailed_def Let_def split: option.split as_error.split)
qed

lemma userStep_keeps: "userStep s t \<Longrightarrow> userInv s \<Longrightarrow> keeps s t"
proof (induction rule: userStep.induct)
  case (user_enqueue s c today activity started input delegationId)
  then show ?case by (intro enqueue_keeps)
next
  case (user_enqueue_detached s today activity started input delegationId c)
  then show ?case by (intro enqueue_keeps) simp_all
next
  case (user_route s c p routed subject reply routeMs rerankMs)
  then show ?case by (intro keeps_on routed_good) auto
next
  case (user_progress s turn tools)
  then show ?case by (intro keeps_on progressed_good)
next
  case (user_publish s c p answer route routeMs rerankMs)
  then show ?case by (intro keeps_on published_good) auto
next
  case (user_fail ident generation s e)
  then show ?case by (intro turnFailed_keeps)
next
  case (user_cancel s)
  then show ?case by (intro keeps_on cancelled_good)
next
  case (user_end s authId conversationId)
  show ?case by (rule keeps_end)
next
  case (user_clock s enabled now)
  have "keeps s (onConversation (\<lambda>c. cancelled (withError ''turn_timeout'' c)) s)"
    by (rule keeps_on [OF user_clock]) (meson cancelled_good withError_good goodChange_trans goodChange_def)
  then show ?case using keeps_end keeps_refl by (auto simp: tickClock_def split: option.split)
next
  case (user_denied s e)
  show ?case using keeps_end keeps_refl by (auto simp: authorizationFailed_def split: option.split as_error.split)
next
  case (user_day s today)
  then show ?case by (intro keeps_same) (auto simp: tickDay_def userInv_def)
next
  case (user_cleanup s)
  have inv: "userInv (s \<lparr>us_cleanup := []\<rparr>)" using user_cleanup by (simp add: userInv_def)
  have "keeps s (s \<lparr>us_cleanup := []\<rparr>)" by (rule keeps_same [OF user_cleanup inv]) simp
  then show ?case unfolding cleanupDone_def by (rule keeps_trans [OF user_cleanup]) (rule keeps_on [OF inv], rule cleanup_good)
next
  case (user_seen s now)
  then show ?case unfolding seenAt_def by (intro keeps_on seen_good)
next
  case (user_initialize s)
  have inv: "userInv (s \<lparr>us_cleanup := []\<rparr>)" using user_initialize by (simp add: userInv_def)
  have first: "keeps s (s \<lparr>us_cleanup := []\<rparr>)" by (rule keeps_same [OF user_initialize inv]) simp
  then have "keeps s (endOwned a i (s \<lparr>us_cleanup := []\<rparr>))" for a i by (rule keeps_trans [OF user_initialize _ keeps_end])
  moreover from this have "keeps s (endOwned b j (endOwned a i (s \<lparr>us_cleanup := []\<rparr>)))" for a i b j
    by (rule keeps_trans [OF user_initialize _ keeps_end])
  ultimately show ?case using first by (auto simp: initialized_def Let_def split: option.split)
qed

subsection \<open>Several objects and the committed state\<close>

text \<open>
  \<open>sy_objects\<close> holds what each object has in memory with the revision it loaded or saved last; \<open>sy_used\<close> are the
  conversation identifiers drawn so far, \<open>sy_committed\<close> those that were ever committed.
\<close>

record Sys =
  sy_revision :: nat
  sy_state :: UserState
  sy_objects :: "nat \<Rightarrow> (nat \<times> UserState) option"
  sy_used :: "string set"
  sy_committed :: "string set"

definition conversationIds :: "UserState \<Rightarrow> string set" where
  "conversationIds s = (case us_conversation s of None \<Rightarrow> {} | Some c \<Rightarrow> {co_id c})"

definition reloaded :: "nat option \<Rightarrow> nat \<Rightarrow> Cleanup list \<Rightarrow> UserState \<Rightarrow> UserState" where
  "reloaded stopped seen tasks s =
     onConversation (\<lambda>c. c \<lparr>co_seen := max (co_seen c) seen\<rparr>) (s \<lparr>us_endRequested := stopped, us_cleanup := tasks\<rparr>)"

definition viewed :: "StHost \<Rightarrow> nat \<Rightarrow> UserState \<Rightarrow> UserState" where
  "viewed h revision s = onConversation (withView h revision) s"

inductive sysStep :: "StHost \<Rightarrow> Sys \<Rightarrow> Sys \<Rightarrow> bool" for h where
  sys_load: "sysStep h w (w \<lparr>sy_objects := (sy_objects w)(i \<mapsto> (sy_revision w, reloaded stopped seen tasks (sy_state w)))\<rparr>)"
| sys_handler: "sy_objects w i = Some (r, s) \<Longrightarrow> userStep s t \<Longrightarrow> sysStep h w (w \<lparr>sy_objects := (sy_objects w)(i \<mapsto> (r, t))\<rparr>)"
| sys_create: "sy_objects w i = Some (r, s) \<Longrightarrow> ident \<notin> sy_used w \<Longrightarrow>
    installConversation (newConversation native ident who authId activity seen input) s = (Inr (), t) \<Longrightarrow>
    sysStep h w (w \<lparr>sy_objects := (sy_objects w)(i \<mapsto> (r, t)), sy_used := insert ident (sy_used w)\<rparr>)"
| sys_commit: "sy_objects w i = Some (sy_revision w, s) \<Longrightarrow> t = viewed h (sy_revision w) s \<Longrightarrow>
    sysStep h w (w \<lparr>sy_revision := sy_revision w + 1, sy_state := t, sy_objects := (sy_objects w)(i \<mapsto> (sy_revision w + 1, t)),
                   sy_committed := sy_committed w \<union> conversationIds t\<rparr>)"
| sys_request_end: "sysStep h w (w \<lparr>sy_revision := sy_revision w + 1\<rparr>)"
| sys_touch: "sysStep h w (w \<lparr>sy_state := seenAt now (sy_state w)\<rparr>)"
| sys_drop: "sysStep h w (w \<lparr>sy_objects := (sy_objects w)(i := None)\<rparr>)"

definition sysStart :: "string \<Rightarrow> string \<Rightarrow> Sys" where
  "sysStart who today = \<lparr>sy_revision = 0,
     sy_state = \<lparr>us_endRequested = None, us_principal = Some who, us_day = today, us_questions = 0, us_conversation = None, us_cleanup = []\<rparr>,
     sy_objects = (\<lambda>_. None), sy_used = {}, sy_committed = {}\<rparr>"

text \<open>An object of the current revision continues the committed conversation, or a new one.\<close>

definition continues :: "Sys \<Rightarrow> UserState \<Rightarrow> bool" where
  "continues w s \<longleftrightarrow> (\<forall>d. us_conversation s = Some d \<longrightarrow> co_id d \<in> sy_committed w \<longrightarrow>
     (\<exists>c. us_conversation (sy_state w) = Some c \<and> extends c d))"

definition sysInv :: "Sys \<Rightarrow> bool" where
  "sysInv w \<longleftrightarrow> userInv (sy_state w) \<and> conversationIds (sy_state w) \<subseteq> sy_committed w \<and> sy_committed w \<subseteq> sy_used w \<and>
     (\<forall>i r s. sy_objects w i = Some (r, s) \<longrightarrow> r \<le> sy_revision w \<and> userInv s \<and> conversationIds s \<subseteq> sy_used w \<and>
        (r = sy_revision w \<longrightarrow> continues w s))"

definition sysAdv :: "Sys \<Rightarrow> Sys \<Rightarrow> bool" where
  "sysAdv v w \<longleftrightarrow> sy_committed v \<subseteq> sy_committed w \<and>
     (\<forall>d. us_conversation (sy_state w) = Some d \<longrightarrow> co_id d \<in> sy_committed v \<longrightarrow>
        (\<exists>c. us_conversation (sy_state v) = Some c \<and> extends c d))"

lemma withView_good: "conversationInv c \<Longrightarrow> goodChange c (withView h revision c)"
  by (auto simp: goodChange_def conversationInv_def messageIds_def pendingOpen_def withView_def Let_def list_all2_refl keptMessage_refl
      split: option.split intro!: extends_same)

lemma evolves_ids: "evolves s t \<Longrightarrow> conversationIds t \<subseteq> conversationIds s"
  by (auto simp: evolves_def conversationIds_def extends_def split: option.splits)

lemma keeps_viewed: "userInv s \<Longrightarrow> keeps s (viewed h revision s)"
  unfolding viewed_def by (rule keeps_on) (simp_all add: withView_good)

lemma keeps_seen: "userInv s \<Longrightarrow> keeps s (seenAt now s)"
  unfolding seenAt_def by (rule keeps_on) (simp_all add: seen_good)

lemma keeps_reloaded: "userInv s \<Longrightarrow> keeps s (reloaded stopped seen tasks s)"
proof -
  assume inv: "userInv s"
  then have inv': "userInv (s \<lparr>us_endRequested := stopped, us_cleanup := tasks\<rparr>)" by (simp add: userInv_def)
  have "keeps s (s \<lparr>us_endRequested := stopped, us_cleanup := tasks\<rparr>)" by (rule keeps_same [OF inv inv']) simp
  then show ?thesis unfolding reloaded_def by (rule keeps_trans [OF inv]) (rule keeps_on [OF inv'], rule seen_good)
qed

lemma continues_evolves: "continues w s \<Longrightarrow> evolves s t \<Longrightarrow> continues w t"
  unfolding continues_def evolves_def using extends_trans by (metis extends_def)

lemma continues_committed: "evolves (sy_state w) s \<Longrightarrow> continues w s"
  by (auto simp: continues_def evolves_def)

lemma sysInv_D:
  assumes "sysInv w"
  shows "userInv (sy_state w)" "conversationIds (sy_state w) \<subseteq> sy_committed w" "sy_committed w \<subseteq> sy_used w"
    "sy_objects w i = Some (r, s) \<Longrightarrow> r \<le> sy_revision w \<and> userInv s \<and> conversationIds s \<subseteq> sy_used w \<and> (r = sy_revision w \<longrightarrow> continues w s)"
  using assms unfolding sysInv_def by blast+

text \<open>A step that changes one object only.\<close>

lemma sysInv_object:
  assumes "sysInv w" and "r \<le> sy_revision w" and "userInv t" and "conversationIds t \<subseteq> U" and "r = sy_revision w \<Longrightarrow> continues w t"
    and "sy_used w \<subseteq> U"
  shows "sysInv (w \<lparr>sy_objects := (sy_objects w)(i \<mapsto> (r, t)), sy_used := U\<rparr>)"
proof -
  let ?w = "w \<lparr>sy_objects := (sy_objects w)(i \<mapsto> (r, t)), sy_used := U\<rparr>"
  have "q \<le> sy_revision w \<and> userInv x \<and> conversationIds x \<subseteq> U \<and> (q = sy_revision w \<longrightarrow> continues ?w x)"
    if "sy_objects ?w j = Some (q, x)" for j q x
  proof (cases "j = i")
    case True
    with that assms show ?thesis by (auto simp: continues_def)
  next
    case False
    with that have "sy_objects w j = Some (q, x)" by simp
    from sysInv_D(4) [OF assms(1) this] assms(6) show ?thesis by (auto simp: continues_def)
  qed
  then show ?thesis
    using sysInv_D(1-3) [OF assms(1)] assms(6) unfolding sysInv_def by auto
qed

lemma sysInv_same_used: "sysInv (w \<lparr>sy_objects := m, sy_used := sy_used w\<rparr>) = sysInv (w \<lparr>sy_objects := m\<rparr>)"
  by (simp add: sysInv_def continues_def)

lemma sysStep_inv: "sysStep h w v \<Longrightarrow> sysInv w \<Longrightarrow> sysInv v"
proof (induction rule: sysStep.induct)
  case (sys_load w i stopped seen tasks)
  note inv = sysInv_D [OF sys_load] and k = keeps_reloaded [OF sysInv_D(1) [OF sys_load], of stopped seen tasks]
  have "conversationIds (reloaded stopped seen tasks (sy_state w)) \<subseteq> sy_used w"
    using k evolves_ids inv(2,3) by (fastforce simp: keeps_def)
  with k inv(1) show ?case
    by (subst sysInv_same_used [symmetric]) (intro sysInv_object [OF sys_load], auto simp: keeps_def intro: continues_committed)
next
  case (sys_handler w i r s t)
  note old = sysInv_D(4) [OF sys_handler(3,1)]
  have k: "userInv t" "evolves s t" using userStep_keeps [OF sys_handler(2)] old by (auto simp: keeps_def)
  then have "conversationIds t \<subseteq> sy_used w" using evolves_ids old by blast
  with k old show ?case
    by (subst sysInv_same_used [symmetric]) (intro sysInv_object [OF sys_handler(3)], auto intro: continues_evolves)
next
  case (sys_create w i r s ident native who authId activity seen input t)
  note old = sysInv_D(4) [OF sys_create(4,1)]
  let ?c = "newConversation native ident who authId activity seen input"
  have t: "t = s \<lparr>us_conversation := Some ?c\<rparr>" using sys_create(3) by (auto simp: installConversation_def split: if_splits)
  have "conversationInv ?c" "co_id ?c = ident" by (simp_all add: newConversation_def conversationInv_def messageIds_def pendingOpen_def)
  then have "userInv t" "conversationIds t \<subseteq> insert ident (sy_used w)" "continues w t"
    using old sys_create(2) sysInv_D(3) [OF sys_create(4)] by (auto simp: t userInv_def conversationIds_def continues_def)
  with old show ?case by (intro sysInv_object [OF sys_create(4)]) auto
next
  case (sys_commit w i s t)
  note old = sysInv_D(4) [OF sys_commit(3,1)]
  have k: "userInv t" "evolves s t" using keeps_viewed [of s h "sy_revision w"] old sys_commit(2) by (auto simp: keeps_def)
  let ?v = "w \<lparr>sy_revision := sy_revision w + 1, sy_state := t, sy_objects := (sy_objects w)(i \<mapsto> (sy_revision w + 1, t)),
     sy_committed := sy_committed w \<union> conversationIds t\<rparr>"
  have ids: "conversationIds t \<subseteq> sy_used w" using evolves_ids [OF k(2)] old by blast
  have "q \<le> sy_revision ?v \<and> userInv x \<and> conversationIds x \<subseteq> sy_used w \<and> (q = sy_revision ?v \<longrightarrow> continues ?v x)"
    if "sy_objects ?v j = Some (q, x)" for j q x
  proof (cases "j = i")
    case True
    with that k ids show ?thesis by (auto simp: continues_def extends_refl)
  next
    case False
    with that have "sy_objects w j = Some (q, x)" by simp
    from sysInv_D(4) [OF sys_commit(3) this] show ?thesis by auto
  qed
  then show ?case using k(1) ids sysInv_D(3) [OF sys_commit(3)] unfolding sysInv_def by auto
next
  case (sys_request_end w)
  then show ?case unfolding sysInv_def by (fastforce simp: continues_def)
next
  case (sys_touch w now)
  note inv = sysInv_D [OF sys_touch] and k = keeps_seen [OF sysInv_D(1) [OF sys_touch], of now]
  have conv: "us_conversation (seenAt now (sy_state w)) = map_option (\<lambda>c. c \<lparr>co_seen := now\<rparr>) (us_conversation (sy_state w))"
    by (simp add: seenAt_def onConversation_def)
  have "extends c d = extends (c \<lparr>co_seen := now\<rparr>) d" for c d by (simp add: extends_def)
  then have "continues (w \<lparr>sy_state := seenAt now (sy_state w)\<rparr>) x = continues w x" for x by (simp add: continues_def conv) auto
  moreover have "conversationIds (seenAt now (sy_state w)) = conversationIds (sy_state w)"
    by (simp add: conversationIds_def conv split: option.split)
  ultimately show ?case using sys_touch k inv(1) unfolding sysInv_def by (simp add: keeps_def)
next
  case (sys_drop w i)
  then show ?case unfolding sysInv_def by (auto simp: continues_def split: if_splits)
qed

lemma sysStep_adv: "sysStep h w v \<Longrightarrow> sysInv w \<Longrightarrow> sysAdv w v"
proof (induction rule: sysStep.induct)
  case (sys_commit w i s t)
  note old = sysInv_D(4) [OF sys_commit(3,1)]
  have "keeps s t" using keeps_viewed [of s h "sy_revision w"] old sys_commit(2) by simp
  then have "continues w t" using old by (auto simp: keeps_def intro: continues_evolves)
  then show ?case by (auto simp: sysAdv_def continues_def)
next
  case (sys_touch w now)
  then show ?case using keeps_seen [of "sy_state w" now] sysInv_D(1) by (auto simp: sysAdv_def keeps_def evolves_def)
qed (auto simp: sysAdv_def extends_refl)

lemma sysAdv_trans:
  assumes "sysAdv u v" and "sysAdv v w"
  shows "sysAdv u w"
  unfolding sysAdv_def
proof (intro conjI allI impI)
  show "sy_committed u \<subseteq> sy_committed w" using assms by (auto simp: sysAdv_def)
  fix e assume e: "us_conversation (sy_state w) = Some e" "co_id e \<in> sy_committed u"
  with assms have "co_id e \<in> sy_committed v" by (auto simp: sysAdv_def)
  with assms(2) e(1) obtain d where d: "us_conversation (sy_state v) = Some d" "extends d e" unfolding sysAdv_def by blast
  then have "co_id d \<in> sy_committed u" using e(2) by (simp add: extends_def)
  with assms(1) d(1) obtain c where "us_conversation (sy_state u) = Some c" "extends c d" unfolding sysAdv_def by blast
  with d(2) show "\<exists>c. us_conversation (sy_state u) = Some c \<and> extends c e" using extends_trans by blast
qed

lemma sysAdv_refl: "sysAdv w w"
  by (simp add: sysAdv_def extends_refl)

interpretation sessions: guarded_system "sysStep h" sysInv sysAdv for h
  by unfold_locales (auto intro: sysStep_inv sysStep_adv sysAdv_trans sysAdv_refl)

lemma list_all2_member: "list_all2 P xs ys \<Longrightarrow> x \<in> set xs \<Longrightarrow> \<exists>y \<in> set ys. P x y"
  by (induction rule: list_all2_induct) auto

lemma sysStart_inv: "sysInv (sysStart who today)"
  by (simp add: sysInv_def sysStart_def userInv_def conversationIds_def)

text \<open>
  C28. Answers are final. However many objects of a user run at once, and in whatever order their handlers load, change
  and commit: once an answer to a request was committed, every later committed state of that conversation has the
  same answer for that request with the same question, and its generation is not smaller.
\<close>

theorem answers_are_final:
  assumes "(sysStep h)\<^sup>*\<^sup>* (sysStart who today) v" and "(sysStep h)\<^sup>*\<^sup>* v w"
    and "us_conversation (sy_state v) = Some c" and "us_conversation (sy_state w) = Some d" and "co_id d = co_id c"
    and "m \<in> set (co_messages c)" and "me_answer m = Some a"
  shows "\<exists>m'. findMessage (me_requestId m) (co_messages d) = Some m' \<and> me_question m' = me_question m \<and> me_answer m' = Some a \<and>
    me_kind m' = me_kind m \<and> co_generation c \<le> co_generation d"
proof -
  have inv: "sysInv v" using sessions.inv_run [OF assms(1) sysStart_inv] .
  have inv': "sysInv w" using sessions.inv_run [OF assms(2) inv] .
  have "co_id d \<in> sy_committed v" using sysInv_D(2) [OF inv] assms(3,5) by (simp add: conversationIds_def)
  with sessions.adv_run [OF assms(2) inv] assms(3,4) have ext: "extends c d" by (auto simp: sysAdv_def)
  then obtain xs ys where xs: "co_messages d = xs @ ys" "list_all2 keptMessage (co_messages c) xs" by (auto simp: extends_def)
  from list_all2_member [OF xs(2) assms(6)] obtain m' where m': "m' \<in> set xs" "keptMessage m m'" by auto
  have ids: "distinct (map me_requestId (co_messages d))" using conversationInv_D(1) [OF sysInv_D(1) [OF inv'] assms(4)] .
  have "find (\<lambda>x. me_requestId x = me_requestId m) ms = Some m'" if "m' \<in> set ms" "distinct (map me_requestId ms)" for ms
    using that m'(2) by (induction ms) (auto simp: keptMessage_def image_iff)
  with m' xs(1) ids have "findMessage (me_requestId m) (co_messages d) = Some m'" by (simp add: findMessage_def)
  with m'(2) assms(7) ext show ?thesis by (auto simp: keptMessage_def extends_def)
qed

text \<open>
  C29. Every committed state is well formed: at most fifty questions are counted for a day and at most fifty messages
  kept, request identifiers are distinct (so the rows of a save have distinct keys), and a pending question belongs
  to the current generation and to a message that has no answer.
\<close>

theorem committed_states_wellformed:
  assumes "(sysStep h)\<^sup>*\<^sup>* (sysStart who today) w"
  shows "us_questions (sy_state w) \<le> li_questions DEFAULT_LIMITS \<and>
    (case us_conversation (sy_state w) of
       None \<Rightarrow> True
     | Some c \<Rightarrow> distinct (map me_requestId (co_messages c)) \<and> length (co_messages c) \<le> 50 \<and>
         (case co_pending c of
            None \<Rightarrow> True
          | Some p \<Rightarrow> pe_generation p = co_generation c \<and>
              (\<exists>m \<in> set (co_messages c). me_requestId m = qu_requestId (pe_input p) \<and> me_answer m = None)))"
proof -
  have "userInv (sy_state w)" using sysInv_D(1) [OF sessions.inv_run [OF assms sysStart_inv]] .
  then show ?thesis
    by (cases "us_conversation (sy_state w)") (simp_all add: userInv_def conversationInv_def messageIds_def pendingOpen_def DEFAULT_LIMITS_def)
qed

definition sampleQuestion :: Question where
  "sampleQuestion = \<lparr>qu_requestId = ''r1'', qu_question = ''q'', qu_scope = ScopeKnowledge, qu_selectedPath = None, qu_subject = None\<rparr>"

definition sampleInput :: ConversationInput where
  "sampleInput = \<lparr>cv_databaseId = ''db'', cv_scope = ScopeKnowledge, cv_selectedPath = None, cv_history = []\<rparr>"

text \<open>One object creates a conversation, takes a question, publishes an answer and commits; then a heartbeat.\<close>

definition sampleStates :: "UserState list" where
  "sampleStates =
     (let s0 = reloaded None 0 [] (sy_state (sysStart ''p1'' ''day''));
          s1 = s0 \<lparr>us_conversation := Some (newConversation False ''c1'' ''p1'' ''a1'' 1 1 sampleInput)\<rparr>;
          s2 = snd (enqueue True ''day'' 2 2 sampleQuestion None (newConversation False ''c1'' ''p1'' ''a1'' 1 1 sampleInput) s1);
          s3 = onConversation (published (clarificationAnswer ''ok'') FocusedSearch 0 0 (newPending sampleQuestion 1 2 None)) s2
      in [s0, s1, s2, s3])"

definition sampleAnswered :: Message where
  "sampleAnswered = \<lparr>me_voice = False, me_requestId = ''r1'', me_question = ''q'', me_answer = Some (clarificationAnswer ''ok''),
     me_error = None, me_kind = Some GroundedAnswer, me_trace = Some (traceFor (newPending sampleQuestion 1 2 None) (Some FocusedSearch) 0 0)\<rparr>"

definition sampleCommitted :: Conversation where
  "sampleCommitted = (newConversation False ''c1'' ''p1'' ''a1'' 1 1 sampleInput)
     \<lparr>co_generation := 1, co_activity := 2, co_messages := [sampleAnswered]\<rparr>"

lemmas sample_defs = sampleStates_def Let_def reloaded_def onConversation_def sysStart_def newConversation_def sampleInput_def enqueue_def
  sampleQuestion_def findMessage_def resetDay_def DEFAULT_LIMITS_def admitted_def newPending_def newMessage_def published_def settle_def

lemma sampleStates_run:
  "us_conversation (sampleStates ! 3) = Some sampleCommitted"
  "userStep (sampleStates ! 1) (sampleStates ! 2)" "userStep (sampleStates ! 2) (sampleStates ! 3)"
  "installConversation (newConversation False ''c1'' ''p1'' ''a1'' 1 1 sampleInput) (sampleStates ! 0) = (Inr (), sampleStates ! 1)"
proof -
  show "us_conversation (sampleStates ! 3) = Some sampleCommitted"
    by (simp add: sample_defs sampleCommitted_def sampleAnswered_def)
  have "us_conversation (sampleStates ! 1) = Some (newConversation False ''c1'' ''p1'' ''a1'' 1 1 sampleInput)"
    by (simp add: sample_defs)
  from user_enqueue [OF this, of "''day''" 2 2 sampleQuestion None] show "userStep (sampleStates ! 1) (sampleStates ! 2)"
    by (simp add: sampleStates_def Let_def)
  have c: "us_conversation (sampleStates ! 2) =
      Some (admitted 2 2 sampleQuestion None (newConversation False ''c1'' ''p1'' ''a1'' 1 1 sampleInput))"
    by (simp add: sample_defs)
  have "userStep (sampleStates ! 2)
      (onConversation (published (clarificationAnswer ''ok'') FocusedSearch 0 0 (newPending sampleQuestion 1 2 None)) (sampleStates ! 2))"
    by (rule user_publish [OF c]) (simp_all add: sameTurn_def c admitted_def newConversation_def newPending_def)
  then show "userStep (sampleStates ! 2) (sampleStates ! 3)" by (simp add: sampleStates_def Let_def)
  show "installConversation (newConversation False ''c1'' ''p1'' ''a1'' 1 1 sampleInput) (sampleStates ! 0) = (Inr (), sampleStates ! 1)"
    by (simp add: installConversation_def sample_defs)
qed

definition sampleObjectHost :: StHost where
  "sampleObjectHost = \<lparr>dh_key = None, dh_crypto = \<lparr>wc_digest = (\<lambda>bs. bs), wc_random = (\<lambda>_ n. replicate n 0),
     wc_encrypt = (\<lambda>_ _ _ p. p), wc_decrypt = (\<lambda>_ _ _ p. Some p)\<rparr>, dh_now = (\<lambda>_. 5), dh_day = (\<lambda>_. ''day''), dh_uuid = (\<lambda>_. ''u1''),
     dh_others = (\<lambda>_ db. db), dh_fault = (\<lambda>_. NoFault)\<rparr>"

definition sampleSystem :: "nat \<Rightarrow> Sys" where
  "sampleSystem n = (sysStart ''p1'' ''day'') \<lparr>sy_objects := [0 \<mapsto> (0, sampleStates ! n)],
     sy_used := (if n = 0 then {} else {''c1''})\<rparr>"

definition sampleSaved :: Sys where
  "sampleSaved = \<lparr>sy_revision = 1, sy_state = viewed sampleObjectHost 0 (sampleStates ! 3),
     sy_objects = [0 \<mapsto> (1, viewed sampleObjectHost 0 (sampleStates ! 3))], sy_used = {''c1''}, sy_committed = {''c1''}\<rparr>"

lemma sampleSystem_run: "(sysStep sampleObjectHost)\<^sup>*\<^sup>* (sysStart ''p1'' ''day'') sampleSaved"
proof -
  have 0: "sysStep sampleObjectHost (sysStart ''p1'' ''day'') (sampleSystem 0)"
    using sys_load [of sampleObjectHost "sysStart ''p1'' ''day''" 0 None 0 "[]"] by (simp add: sampleSystem_def sampleStates_def Let_def sysStart_def)
  have 1: "sysStep sampleObjectHost (sampleSystem 0) (sampleSystem 1)"
    using sys_create [OF _ _ sampleStates_run(4), of "sampleSystem 0" 0 0 sampleObjectHost] by (simp add: sampleSystem_def sysStart_def)
  have 2: "sysStep sampleObjectHost (sampleSystem 1) (sampleSystem 2)"
    using sys_handler [OF _ sampleStates_run(2), of "sampleSystem 1" 0 0 sampleObjectHost] by (simp add: sampleSystem_def sysStart_def)
  have 3: "sysStep sampleObjectHost (sampleSystem 2) (sampleSystem 3)"
    using sys_handler [OF _ sampleStates_run(3), of "sampleSystem 2" 0 0 sampleObjectHost] by (simp add: sampleSystem_def sysStart_def)
  have ids: "conversationIds (viewed sampleObjectHost 0 (sampleStates ! 3)) = {''c1''}"
    using sampleStates_run(1) by (simp add: conversationIds_def viewed_def onConversation_def sampleCommitted_def newConversation_def withView_def)
  have 4: "sysStep sampleObjectHost (sampleSystem 3) sampleSaved"
    using sys_commit [of "sampleSystem 3" 0 "sampleStates ! 3" "viewed sampleObjectHost 0 (sampleStates ! 3)" sampleObjectHost] ids
    by (simp add: sampleSystem_def sysStart_def sampleSaved_def)
  show ?thesis using 0 1 2 3 4 by (meson converse_rtranclp_into_rtranclp rtranclp.rtrancl_refl)
qed

lemma sampleSaved_state: "us_conversation (sy_state sampleSaved) = Some sampleCommitted"
  using sampleStates_run(1)
  by (simp add: sampleSaved_def viewed_def onConversation_def withView_def sampleCommitted_def newConversation_def)

theorem answers_are_final_witness:
  "\<exists>w d m'. sysStep sampleObjectHost sampleSaved w \<and> us_conversation (sy_state w) = Some d \<and> findMessage ''r1'' (co_messages d) = Some m' \<and>
     me_answer m' = Some (clarificationAnswer ''ok'')"
proof -
  let ?w = "sampleSaved \<lparr>sy_state := seenAt 9 (sy_state sampleSaved)\<rparr>" and ?d = "sampleCommitted \<lparr>co_seen := 9\<rparr>"
  have step: "sysStep sampleObjectHost sampleSaved ?w" by (rule sys_touch)
  have d: "us_conversation (sy_state ?w) = Some ?d" using sampleSaved_state by (simp add: seenAt_def onConversation_def)
  have "\<exists>m'. findMessage ''r1'' (co_messages ?d) = Some m' \<and> me_answer m' = Some (clarificationAnswer ''ok'')"
    using answers_are_final [OF sampleSystem_run r_into_rtranclp [of "sysStep sampleObjectHost", OF step] sampleSaved_state d, of sampleAnswered]
    by (auto simp: sampleCommitted_def sampleAnswered_def)
  with step d show ?thesis by blast
qed

theorem committed_states_wellformed_witness:
  "distinct (map me_requestId (co_messages sampleCommitted)) \<and> length (co_messages sampleCommitted) \<le> 50"
  using committed_states_wellformed [OF sampleSystem_run] by (simp add: sampleSaved_state)

end
