(* ===== verification/Assistant_Delegation.thy ===== *)
theory Assistant_Delegation
  imports Assistant_Contracts Ii_Identity Js_Bytes
begin

section \<open>Assistant worker: delegations of the native client\<close>

text \<open>
  \<^verbatim>\<open>workers/wiki-assistant/src/native-delegation.ts\<close>: the answer of Internet Identity which the native client hands
  in, its schema and the structural checks on the chain of delegations. The parser of principals
  (\<open>Principal.fromText(t).toText()\<close>) and the classes of the SDK are parameters.
\<close>

record NativeHop =
  nh_pubkey :: string
  nh_expiration :: string
  nh_targets :: "string list option"
  nh_permissions :: "IiPermission option"
  nh_signature :: string

record NativeResponse =
  nr_id :: string
  nr_publicKey :: string
  nr_hops :: "NativeHop list"

text \<open>The message of an error of the package, as \<open>Error.message\<close>.\<close>

fun registrationCode :: "IiRegistrationErrorCode \<Rightarrow> string" where
  "registrationCode invalid_delegation = ''invalid_delegation''"
| "registrationCode registration_rejected = ''registration_rejected''"
| "registrationCode temporarily_unavailable = ''temporarily_unavailable''"

fun iiMessage :: "ii_error \<Rightarrow> string" where
  "iiMessage (IiError m) = m"
| "iiMessage IiSessionEndedError = ''Internet Identity session ended''"
| "iiMessage (IiDelegationError stage) = ''Internet Identity delegation unavailable''"
| "iiMessage (IiRegistrationError code stage) = registrationCode code"
| "iiMessage (IiHostError m) = m"

definition liftSdk :: "ii_error + 'a \<Rightarrow> as_error + 'a" where
  "liftSdk r = tryR r (\<lambda>e. Inl (Thrown (iiMessage e)))"

lemma liftSdk_Inr [simp]: "liftSdk r = Inr x \<longleftrightarrow> r = Inr x"
  by (cases r) (simp_all add: liftSdk_def)

subsection \<open>The schema\<close>

definition base64Schema :: "json option \<Rightarrow> string option" where
  "base64Schema v =
     (case boundedText 4 16000 v of
        None \<Rightarrow> None
      | Some s \<Rightarrow> (case atob s of None \<Rightarrow> None | Some bs \<Rightarrow> if btoa bs = s then Some s else None))"

definition expirationSchema :: "json option \<Rightarrow> string option" where
  "expirationSchema v =
     (case v of Some (JStr s) \<Rightarrow> if 1 \<le> length s \<and> length s \<le> 20 \<and> list_all isDigit s then Some s else None | _ \<Rightarrow> None)"

definition targetsSchema :: "json option \<Rightarrow> string list option option" where
  "targetsSchema v =
     (case v of
        None \<Rightarrow> Some None
      | Some w \<Rightarrow> map_option Some (boundedArray (\<lambda>x. jsonText (Some x)) 100 (Some w)))"

definition permissionsSchema :: "json option \<Rightarrow> IiPermission option option" where
  "permissionsSchema v =
     (case v of
        None \<Rightarrow> Some None
      | Some w \<Rightarrow> if w = JStr ''queries'' then Some (Some queries) else if w = JStr ''all'' then Some (Some all_actions) else None)"

definition hopSchema :: "json \<Rightarrow> NativeHop option" where
  "hopSchema v =
     (case v of
        JObj ps \<Rightarrow>
          (case (jget ps ''delegation'', base64Schema (jget ps ''signature'')) of
             (Some (JObj ds), Some signature) \<Rightarrow>
               (case (base64Schema (jget ds ''pubkey''), expirationSchema (jget ds ''expiration''), targetsSchema (jget ds ''targets''),
                      permissionsSchema (jget ds ''permissions'')) of
                  (Some pubkey, Some expiration, Some targets, Some permissions) \<Rightarrow>
                    if strictKeys [''pubkey'', ''expiration'', ''targets'', ''permissions''] ds \<and> strictKeys [''delegation'', ''signature''] ps
                    then Some \<lparr>nh_pubkey = pubkey, nh_expiration = expiration, nh_targets = targets, nh_permissions = permissions,
                               nh_signature = signature\<rparr>
                    else None
                | _ \<Rightarrow> None)
           | _ \<Rightarrow> None)
      | _ \<Rightarrow> None)"

definition responseSchema :: "json \<Rightarrow> as_error + NativeResponse" where
  "responseSchema v =
     (case v of
        JObj ps \<Rightarrow>
          (case (jsonText (jget ps ''id''), jget ps ''result'') of
             (Some i, Some (JObj rs)) \<Rightarrow>
               (case (base64Schema (jget rs ''publicKey''), boundedArray hopSchema 8 (jget rs ''signerDelegation'')) of
                  (Some publicKey, Some hops) \<Rightarrow>
                    if jget ps ''jsonrpc'' = Some (JStr ''2.0'') \<and> hops \<noteq> [] \<and> strictKeys [''publicKey'', ''signerDelegation''] rs \<and>
                       strictKeys [''jsonrpc'', ''id'', ''result''] ps
                    then Inr \<lparr>nr_id = i, nr_publicKey = publicKey, nr_hops = hops\<rparr>
                    else Inl ZodError
                | _ \<Rightarrow> Inl ZodError)
           | _ \<Rightarrow> Inl ZodError)
      | _ \<Rightarrow> Inl ZodError)"

subsection \<open>The checks\<close>

record ('key, 'chain, 'ident) DelegationSdk =
  ds_sdk :: "('key, 'chain, 'ident) IiSdk"
  ds_principalText :: "string \<Rightarrow> string option"
  ds_chain :: "RawSignedDelegation list \<Rightarrow> byte list \<Rightarrow> ii_error + 'chain"

text \<open>\<open>atob\<close> of a text that the schema has accepted.\<close>

definition bytesOf :: "string \<Rightarrow> byte list" where
  "bytesOf s = (case atob s of None \<Rightarrow> [] | Some bs \<Rightarrow> bs)"

definition publicKeyBase64 :: "('key, 'chain, 'ident) IiSdk \<Rightarrow> 'key \<Rightarrow> string" where
  "publicKeyBase64 sdk key = btoa (sdk_publicDer sdk key)"

definition U64_MAX :: nat where
  "U64_MAX = 18446744073709551615"

definition fromText :: "(string \<Rightarrow> string option) \<Rightarrow> string \<Rightarrow> as_error + string" where
  "fromText parse t = (case parse t of None \<Rightarrow> Inl (Thrown ''invalid principal'') | Some u \<Rightarrow> Inr u)"

text \<open>\<open>targets.some(\<dots>)\<close>: it stops at the first target that is the canister, and throws at one that is no principal.\<close>

fun someTarget :: "(string \<Rightarrow> string option) \<Rightarrow> string \<Rightarrow> string list \<Rightarrow> as_error + bool" where
  "someTarget parse canister [] = Inr False"
| "someTarget parse canister (t # ts) =
     bindR (fromText parse t) (\<lambda>u. if u = canister then Inr True else someTarget parse canister ts)"

definition hopAllowed :: "(string \<Rightarrow> string option) \<Rightarrow> string \<Rightarrow> nat \<Rightarrow> NativeHop \<Rightarrow> as_error + nat" where
  "hopAllowed parse canister now h =
     (let expires = decToNat (nh_expiration h) in
      if expires \<le> now * 1000000 \<or> expires > U64_MAX then Inl (AssistantError ''authentication_required'' 401)
      else
        case nh_targets h of
          None \<Rightarrow> Inr expires
        | Some targets \<Rightarrow>
            bindR (someTarget parse canister targets) (\<lambda>found.
              if found then Inr expires else Inl (AssistantError ''invalid_delegation_target'' 403)))"

fun earliestExpiry :: "(string \<Rightarrow> string option) \<Rightarrow> string \<Rightarrow> nat \<Rightarrow> NativeHop list \<Rightarrow> nat \<Rightarrow> as_error + nat" where
  "earliestExpiry parse canister now [] least = Inr least"
| "earliestExpiry parse canister now (h # hs) least =
     bindR (hopAllowed parse canister now h) (\<lambda>expires. earliestExpiry parse canister now hs (if expires < least then expires else least))"

fun permissionText :: "IiPermission \<Rightarrow> string" where
  "permissionText queries = ''queries''"
| "permissionText all_actions = ''all''"

definition signedHop :: "(string \<Rightarrow> string option) \<Rightarrow> NativeHop \<Rightarrow> as_error + RawSignedDelegation" where
  "signedHop parse h =
     bindR (case nh_targets h of None \<Rightarrow> Inr None | Some ts \<Rightarrow> bindR (mapR (fromText parse) ts) (\<lambda>ps. Inr (Some ps))) (\<lambda>targets.
       Inr \<lparr>sd_pubkey = bytesOf (nh_pubkey h), sd_expiration = decToNat (nh_expiration h), sd_targets = targets,
            sd_permissions = map_option permissionText (nh_permissions h), sd_signature = bytesOf (nh_signature h)\<rparr>)"

definition assembleNative ::
    "('key, 'chain, 'ident) DelegationSdk \<Rightarrow> NativeResponse \<Rightarrow> 'key \<Rightarrow> string \<Rightarrow> nat \<Rightarrow> as_error + ('ident \<times> KinicDelegationMaterialV1)" where
  "assembleNative d response key origin expiryNs =
     bindR (mapR (signedHop (ds_principalText d)) (nr_hops response)) (\<lambda>signed.
     bindR (liftSdk (ds_chain d signed (bytesOf (nr_publicKey response)))) (\<lambda>chain.
     bindR (liftSdk (sdk_identity (ds_sdk d) key chain)) (\<lambda>identity.
       Inr (identity, \<lparr>dm_version = 1, dm_targetOrigin = origin, dm_expiresAt = expiryNs div 1000000,
                       dm_appKey = sdk_keyJson (ds_sdk d) key, dm_delegation = sdk_chainJson (ds_sdk d) chain\<rparr>))))"

definition nativeDelegation ::
    "('key, 'chain, 'ident) DelegationSdk \<Rightarrow> json \<Rightarrow> string \<Rightarrow> 'key \<Rightarrow> string \<Rightarrow> string \<Rightarrow> nat \<Rightarrow> nat
     \<Rightarrow> as_error + ('ident \<times> KinicDelegationMaterialV1)" where
  "nativeDelegation d v requestId key origin canister maxExpiry now =
     bindR (responseSchema v) (\<lambda>response.
       if nr_id response \<noteq> requestId then Inl (AssistantError ''invalid_auth_state'' 403)
       else if nh_pubkey (last (nr_hops response)) \<noteq> publicKeyBase64 (ds_sdk d) key
       then Inl (AssistantError ''invalid_delegation_key'' 403)
       else if \<not> list_ex (\<lambda>h. nh_permissions h = Some queries) (nr_hops response)
       then Inl (AssistantError ''choose_questions_only'' 403)
       else
         bindR (earliestExpiry (ds_principalText d) canister now (nr_hops response) U64_MAX) (\<lambda>expiryNs.
           if expiryNs > maxExpiry * 1000000 then Inl (AssistantError ''invalid_delegation_expiry'' 403)
           else assembleNative d response key origin expiryNs))"

subsection \<open>What an accepted delegation is\<close>

lemma someTarget_found: "someTarget parse canister ts = Inr True \<Longrightarrow> \<exists>t \<in> set ts. parse t = Some canister"
proof (induction ts)
  case (Cons t ts)
  then show ?case by (cases "parse t") (auto simp: fromText_def split: if_splits)
qed simp

definition hopWithin :: "(string \<Rightarrow> string option) \<Rightarrow> string \<Rightarrow> nat \<Rightarrow> NativeHop \<Rightarrow> bool" where
  "hopWithin parse canister now h \<longleftrightarrow> now * 1000000 < decToNat (nh_expiration h) \<and> decToNat (nh_expiration h) \<le> U64_MAX \<and>
     (case nh_targets h of None \<Rightarrow> True | Some ts \<Rightarrow> \<exists>t \<in> set ts. parse t = Some canister)"

lemma hopAllowed_within: "hopAllowed parse canister now h = Inr n \<Longrightarrow> hopWithin parse canister now h \<and> n = decToNat (nh_expiration h)"
  by (auto simp: hopAllowed_def hopWithin_def Let_def result_simps split: if_splits option.splits dest: someTarget_found)

lemma earliestExpiry_least:
  "earliestExpiry parse canister now hs least = Inr n \<Longrightarrow> (\<forall>h \<in> set hs. hopWithin parse canister now h \<and> n \<le> decToNat (nh_expiration h)) \<and>
     n \<le> least \<and> (n = least \<or> (\<exists>h \<in> set hs. n = decToNat (nh_expiration h)))"
proof (induction hs arbitrary: least)
  case (Cons h hs)
  from Cons.prems obtain m where m: "hopAllowed parse canister now h = Inr m"
    and rest: "earliestExpiry parse canister now hs (if m < least then m else least) = Inr n"
    by (auto simp: result_simps)
  from Cons.IH [OF rest] hopAllowed_within [OF m] show ?case by (auto split: if_splits)
qed simp

text \<open>The contract of an accepted answer, in terms of its hops.\<close>

definition acceptable :: "('key, 'chain, 'ident) DelegationSdk \<Rightarrow> string \<Rightarrow> 'key \<Rightarrow> string \<Rightarrow> nat \<Rightarrow> nat \<Rightarrow> NativeResponse \<Rightarrow> bool" where
  "acceptable d requestId key canister maxExpiry now response \<longleftrightarrow> nr_id response = requestId \<and>
     nh_pubkey (last (nr_hops response)) = publicKeyBase64 (ds_sdk d) key \<and>
     list_ex (\<lambda>h. nh_permissions h = Some queries) (nr_hops response) \<and>
     list_all (hopWithin (ds_principalText d) canister now) (nr_hops response) \<and>
     list_ex (\<lambda>h. decToNat (nh_expiration h) \<le> maxExpiry * 1000000) (nr_hops response)"

lemma responseSchema_hops: "responseSchema v = Inr response \<Longrightarrow> nr_hops response \<noteq> []"
  by (auto simp: responseSchema_def split: json.splits option.splits if_splits)

lemma nativeDelegation_accepts:
  assumes "nativeDelegation d v requestId key origin canister maxExpiry now = Inr (identity, m)"
  obtains response where "responseSchema v = Inr response" and "acceptable d requestId key canister maxExpiry now response"
    and "dm_version m = 1" and "dm_targetOrigin m = origin" and "dm_appKey m = sdk_keyJson (ds_sdk d) key"
    and "dm_expiresAt m \<le> maxExpiry" and "now \<le> dm_expiresAt m"
    and "list_all (\<lambda>h. dm_expiresAt m \<le> decToNat (nh_expiration h) div 1000000) (nr_hops response)"
proof -
  from assms obtain response n where r: "responseSchema v = Inr response" "nr_id response = requestId"
      "nh_pubkey (last (nr_hops response)) = publicKeyBase64 (ds_sdk d) key"
      "list_ex (\<lambda>h. nh_permissions h = Some queries) (nr_hops response)"
    and n: "earliestExpiry (ds_principalText d) canister now (nr_hops response) U64_MAX = Inr n" "n \<le> maxExpiry * 1000000"
    and a: "assembleNative d response key origin n = Inr (identity, m)"
    by (auto simp: nativeDelegation_def result_simps split: if_splits)
  from a have m: "dm_version m = 1" "dm_targetOrigin m = origin" "dm_appKey m = sdk_keyJson (ds_sdk d) key" "dm_expiresAt m = n div 1000000"
    by (auto simp: assembleNative_def result_simps)
  note least = earliestExpiry_least [OF n(1)]
  have "nr_hops response \<noteq> []" using r(1) by (rule responseSchema_hops)
  then obtain h where h: "h \<in> set (nr_hops response)" "n = decToNat (nh_expiration h)"
    using least by (metis hopWithin_def last_in_set order_antisym)
  from h(1) least have w: "hopWithin (ds_principalText d) canister now h" by blast
  have "now \<le> n div 1000000" using w h(2) by (auto simp: hopWithin_def less_eq_div_iff_mult_less_eq)
  moreover have "n div 1000000 \<le> maxExpiry" using n(2) by (simp add: div_le_mono [of n "maxExpiry * 1000000" 1000000, simplified])
  moreover have "acceptable d requestId key canister maxExpiry now response"
    using r least h n(2) by (auto simp: acceptable_def list_all_iff list_ex_iff)
  moreover have "list_all (\<lambda>h. n div 1000000 \<le> decToNat (nh_expiration h) div 1000000) (nr_hops response)"
    using least by (simp add: list_all_iff div_le_mono)
  ultimately show thesis using that [of response] r(1) m by simp
qed

end
