(* ===== verification/Assistant_Auth.thy ===== *)
theory Assistant_Auth
  imports Assistant_Store Assistant_Delegation
begin

section \<open>Assistant worker: sign-in\<close>

text \<open>
  \<^verbatim>\<open>workers/wiki-assistant/src/auth.ts\<close> with the statements of \<^verbatim>\<open>store.ts\<close> it uses. A record is pending, claimed by
  the execution that completes it, then active; it is stored as JSON beside its phase. Internet Identity and the
  authenticated query of the canister are parameters by number of the call. The promise which an object shares
  between its concurrent calls of \<open>material\<close> is left out: an object serves one request.
\<close>

record NativeAuth =
  na_requestId :: string
  na_databaseId :: string
  na_expectedPrincipal :: string
  na_maxExpiry :: nat

record AuthRecord =
  ad_native :: "NativeAuth option"
  ad_id :: string
  ad_tokenHash :: string
  ad_stateHash :: string
  ad_expiresAt :: nat
  ad_phase :: string
  ad_registration :: "EncryptedValueV1 option"
  ad_key :: EncryptedValueV1
  ad_principal :: "string option"
  ad_cached :: "EncryptedValueV1 option"
  ad_cachedUntil :: nat

record Authorization =
  az_authId :: string
  az_principal :: string
  az_material :: KinicDelegationMaterialV1
  az_expiresAt :: nat

record ('key, 'chain, 'ident) AuthHost =
  ah_store :: StHost
  ah_enabled :: "string option"
  ah_typesafe :: "string option"
  ah_deepseek :: "string option"
  ah_origin :: string
  ah_canister :: string
  ah_sdk :: "('key, 'chain, 'ident) DelegationSdk"
  ah_keyActor :: "nat \<Rightarrow> 'key \<Rightarrow> ii_error + InternetIdentityActor"
  ah_identityActor :: "nat \<Rightarrow> 'ident \<Rightarrow> ii_error + InternetIdentityActor"
  ah_principal :: "'ident \<Rightarrow> string"
  ah_readNode :: "nat \<Rightarrow> 'ident \<Rightarrow> string \<Rightarrow> string \<Rightarrow> (string + ReadNode option) option"

subsection \<open>Records\<close>

definition nativeAuthJson :: "NativeAuth \<Rightarrow> json" where
  "nativeAuthJson n = jsObject [(''requestId'', Some (JStr (na_requestId n))), (''databaseId'', Some (JStr (na_databaseId n))),
     (''expectedPrincipal'', Some (JStr (na_expectedPrincipal n))), (''maxExpiry'', Some (decNumber (na_maxExpiry n)))]"

definition nativeAuthOf :: "json \<Rightarrow> NativeAuth option" where
  "nativeAuthOf v = do {
     requestId \<leftarrow> needProp v ''requestId'' textOf;
     databaseId \<leftarrow> needProp v ''databaseId'' textOf;
     expected \<leftarrow> needProp v ''expectedPrincipal'' textOf;
     maxExpiry \<leftarrow> needProp v ''maxExpiry'' natOf;
     Some \<lparr>na_requestId = requestId, na_databaseId = databaseId, na_expectedPrincipal = expected, na_maxExpiry = maxExpiry\<rparr> }"

definition authJson :: "AuthRecord \<Rightarrow> json" where
  "authJson r = jsObject [(''id'', Some (JStr (ad_id r))), (''tokenHash'', Some (JStr (ad_tokenHash r))),
     (''stateHash'', Some (JStr (ad_stateHash r))), (''expiresAt'', Some (decNumber (ad_expiresAt r))),
     (''phase'', Some (JStr (ad_phase r))), (''registration'', Some (nullJson encryptedJson (ad_registration r))),
     (''key'', Some (encryptedJson (ad_key r))), (''principal'', Some (nullJson JStr (ad_principal r))),
     (''cached'', Some (nullJson encryptedJson (ad_cached r))), (''cachedUntil'', Some (decNumber (ad_cachedUntil r))),
     (''native'', map_option nativeAuthJson (ad_native r))]"

definition authOf :: "json \<Rightarrow> AuthRecord option" where
  "authOf v = do {
     native \<leftarrow> optProp v ''native'' nativeAuthOf;
     i \<leftarrow> needProp v ''id'' textOf;
     tokenHash \<leftarrow> needProp v ''tokenHash'' textOf;
     stateHash \<leftarrow> needProp v ''stateHash'' textOf;
     expiresAt \<leftarrow> needProp v ''expiresAt'' natOf;
     phase \<leftarrow> needProp v ''phase'' textOf;
     registration \<leftarrow> needProp v ''registration'' (nullOf encryptedOf);
     key \<leftarrow> needProp v ''key'' encryptedOf;
     who \<leftarrow> needProp v ''principal'' (nullOf textOf);
     cached \<leftarrow> needProp v ''cached'' (nullOf encryptedOf);
     cachedUntil \<leftarrow> needProp v ''cachedUntil'' natOf;
     Some \<lparr>ad_native = native, ad_id = i, ad_tokenHash = tokenHash, ad_stateHash = stateHash, ad_expiresAt = expiresAt, ad_phase = phase,
       ad_registration = registration, ad_key = key, ad_principal = who, ad_cached = cached, ad_cachedUntil = cachedUntil\<rparr> }"

definition authRow :: "AuthRecord \<Rightarrow> AuthRow" where
  "authRow r = \<lparr>ax_id = ad_id r, ax_phase = ad_phase r, ax_expires_at = ad_expiresAt r, ax_data = stringify (authJson r)\<rparr>"

text \<open>\<open>{ ...JSON.parse(row.data), phase: row.phase }\<close>\<close>

definition rowAuth :: "AuthRow \<Rightarrow> as_error + AuthRecord" where
  "rowAuth row =
     (case JSON_parse (ax_data row) of
        None \<Rightarrow> Inl JsonSyntaxError
      | Some v \<Rightarrow>
          (case authOf v of None \<Rightarrow> Inl (Thrown ''unexpected shape'') | Some r \<Rightarrow> Inr (r \<lparr>ad_phase := ax_phase row\<rparr>)))"

definition storedAuth :: "StHost \<Rightarrow> string \<Rightarrow> AuthRecord option stAct" where
  "storedAuth h ident =
     bindA (selectD1 h (\<lambda>db. byKey ax_id ident (db_auth db))) (\<lambda>row.
       liftR (case row of None \<Rightarrow> Inr None | Some r \<Rightarrow> bindR (rowAuth r) (\<lambda>x. Inr (Some x))))"

definition insertAuth :: "StHost \<Rightarrow> AuthRecord \<Rightarrow> unit stAct" where
  "insertAuth h r =
     catchA (d1 h (\<lambda>db. bindR (insertAuthStmt (authRow r) db) (\<lambda>db'. Inr ((), db')))) (\<lambda>_. storeError ''auth_already_started'' 409)"

definition saveAuth :: "StHost \<Rightarrow> AuthRecord \<Rightarrow> string option \<Rightarrow> unit stAct" where
  "saveAuth h r expectedPhase =
     bindA (readHost (dh_now h)) (\<lambda>now.
     bindA (d1 h (\<lambda>db. Inr (saveAuthStmt (authRow r) now expectedPhase db))) (\<lambda>changes.
       if changes \<noteq> 1 then storeError ''authentication_required'' 401 else retA ()))"

definition claimAuth :: "StHost \<Rightarrow> string \<Rightarrow> bool stAct" where
  "claimAuth h ident =
     bindA (readHost (dh_now h)) (\<lambda>now.
     bindA (d1 h (\<lambda>db. Inr (claimAuthStmt ident now db))) (\<lambda>changes. retA (changes = 1)))"

definition deleteAuth :: "StHost \<Rightarrow> string \<Rightarrow> unit stAct" where
  "deleteAuth h ident = runD1 h (deleteAuthStmt ident)"

subsection \<open>Helpers of the class\<close>

definition present :: "string option \<Rightarrow> bool" where
  "present v \<longleftrightarrow> v \<noteq> None \<and> v \<noteq> Some []"

definition requireEnabled :: "('key, 'chain, 'ident) AuthHost \<Rightarrow> as_error + unit" where
  "requireEnabled h =
     (if ah_enabled h \<noteq> Some ''true'' then Inl (AssistantError ''assistant_disabled'' 503)
      else if \<not> present (ah_typesafe h) \<or> \<not> present (dh_key (ah_store h)) then Inl (AssistantError ''assistant_not_configured'' 503)
      else Inr ())"

definition sdkAt :: "('key, 'chain, 'ident) AuthHost \<Rightarrow> nat \<Rightarrow> ('key, 'chain, 'ident) IiSdk" where
  "sdkAt h k = (ds_sdk (ah_sdk h)) \<lparr>sdk_keyActor := ah_keyActor h k, sdk_identityActor := ah_identityActor h k\<rparr>"

definition encrypted :: "StHost \<Rightarrow> json \<Rightarrow> string \<Rightarrow> EncryptedValueV1 stAct" where
  "encrypted h v context =
     bindA (readHost (\<lambda>k. bindR (storeKey h) (\<lambda>key. liftSdk (encryptJson (dh_crypto h) k v key context)))) liftR"

definition decrypted :: "StHost \<Rightarrow> EncryptedValueV1 \<Rightarrow> string \<Rightarrow> as_error + json" where
  "decrypted h v context = bindR (storeKey h) (\<lambda>key. liftSdk (decryptJson (dh_crypto h) v key context))"

definition keyContext :: "string \<Rightarrow> string" where
  "keyContext ident = ident @ '':key''"

definition registrationContext :: "string \<Rightarrow> string" where
  "registrationContext ident = ident @ '':registration''"

definition delegationContext :: "string \<Rightarrow> string" where
  "delegationContext ident = ident @ '':delegation''"

definition restoredKey :: "('key, 'chain, 'ident) AuthHost \<Rightarrow> EncryptedValueV1 \<Rightarrow> string \<Rightarrow> as_error + 'key" where
  "restoredKey h v context =
     bindR (decrypted (ah_store h) v context) (\<lambda>x. liftSdk (restoreIiKey (ds_sdk (ah_sdk h)) x))"

definition authRecord :: "('key, 'chain, 'ident) AuthHost \<Rightarrow> string \<Rightarrow> string option \<Rightarrow> AuthRecord stAct" where
  "authRecord h self token =
     bindA (storedAuth (ah_store h) self) (\<lambda>found.
       case found of
         None \<Rightarrow> storeError ''authentication_required'' 401
       | Some r \<Rightarrow>
           bindA (readHost (dh_now (ah_store h))) (\<lambda>now.
             if ad_expiresAt r \<le> now \<or>
                (case token of None \<Rightarrow> False | Some t \<Rightarrow> \<not> secretEquals (dh_crypto (ah_store h)) (ad_tokenHash r) t)
             then storeError ''authentication_required'' 401 else retA r))"

subsection \<open>Starting\<close>

definition begin_auth :: "('key, 'chain, 'ident) AuthHost \<Rightarrow> string \<Rightarrow> string \<Rightarrow> (string \<times> string \<times> string) stAct" where
  "begin_auth h self ident =
     (let st = ah_store h; sdk = ds_sdk (ah_sdk h) in
      bindA (storedAuth st self) (\<lambda>found.
      if found \<noteq> None then storeError ''auth_already_started'' 400
      else
        bindA (readHost (\<lambda>k. randomOpaque (dh_crypto st) k 32)) (\<lambda>token.
        bindA (readHost (\<lambda>k. randomOpaque (dh_crypto st) k 32)) (\<lambda>state.
        bindA (readHost (sdk_generate sdk)) (\<lambda>registration.
        bindA (readHost (sdk_generate sdk)) (\<lambda>key.
        bindA (readHost (dh_now st)) (\<lambda>now.
        bindA (encrypted st (sdk_keyJson sdk registration) (registrationContext ident)) (\<lambda>storedRegistration.
        bindA (encrypted st (sdk_keyJson sdk key) (keyContext ident)) (\<lambda>storedKey.
        bindA (insertAuth st \<lparr>ad_native = None, ad_id = ident, ad_tokenHash = sha256 (dh_crypto st) token,
                 ad_stateHash = sha256 (dh_crypto st) state, ad_expiresAt = now + 600000, ad_phase = ''pending'',
                 ad_registration = Some storedRegistration, ad_key = storedKey, ad_principal = None, ad_cached = None,
                 ad_cachedUntil = 0\<rparr>) (\<lambda>_.
          retA (token, state, base64UrlEncode (sdk_publicDer sdk registration))))))))))))"

record NativeStart =
  ns_token :: string
  ns_state :: string
  ns_requestId :: string
  ns_publicKey :: string
  ns_derivationOrigin :: string

definition beginNative :: "('key, 'chain, 'ident) AuthHost \<Rightarrow> string \<Rightarrow> string \<Rightarrow> string \<Rightarrow> string \<Rightarrow> NativeStart stAct" where
  "beginNative h self ident databaseId expectedPrincipal =
     (let st = ah_store h in
      bindA (begin_auth h self ident) (\<lambda>(token, state, _).
      bindA (authRecord h self (Some token)) (\<lambda>r.
      bindA (liftR (restoredKey h (ad_key r) (keyContext ident))) (\<lambda>key.
      bindA (readHost (dh_uuid st)) (\<lambda>requestId.
      bindA (readHost (dh_now st)) (\<lambda>now.
      bindA (saveAuth st (r \<lparr>ad_registration := None,
               ad_native := Some \<lparr>na_requestId = requestId, na_databaseId = databaseId, na_expectedPrincipal = expectedPrincipal,
                                  na_maxExpiry = now + 3600000\<rparr>\<rparr>) None) (\<lambda>_.
        retA \<lparr>ns_token = token, ns_state = state, ns_requestId = requestId, ns_publicKey = publicKeyBase64 (ds_sdk (ah_sdk h)) key,
              ns_derivationOrigin = ah_origin h\<rparr>)))))))"

subsection \<open>Completing\<close>

definition authorizationOf :: "AuthRecord \<Rightarrow> string \<Rightarrow> KinicDelegationMaterialV1 \<Rightarrow> Authorization" where
  "authorizationOf r who material = \<lparr>az_authId = ad_id r, az_principal = who, az_material = material, az_expiresAt = ad_expiresAt r\<rparr>"

text \<open>The steps of \<open>completeNative\<close> after the claim.\<close>

definition claimedNative :: "('key, 'chain, 'ident) AuthHost \<Rightarrow> string \<Rightarrow> AuthRecord \<Rightarrow> NativeAuth \<Rightarrow> json \<Rightarrow> Authorization stAct" where
  "claimedNative h self r native response =
     (let st = ah_store h in
      bindA (liftR (restoredKey h (ad_key r) (keyContext (ad_id r)))) (\<lambda>key.
      bindA (readHost (dh_now st)) (\<lambda>now.
      bindA (liftR (nativeDelegation (ah_sdk h) response (na_requestId native) key (ah_origin h) (ah_canister h) (na_maxExpiry native) now))
        (\<lambda>(identity, material).
      if ah_principal h identity \<noteq> na_expectedPrincipal native then storeError ''identity_changed'' 403
      else
        bindA (readHost (\<lambda>k. ah_readNode h k identity (na_databaseId native) ''/Knowledge'')) (\<lambda>result.
        case result of
          None \<Rightarrow> throwA (Thrown ''request failed'')
        | Some (Inl e) \<Rightarrow> storeError ''database_access_denied'' 403
        | Some (Inr node) \<Rightarrow>
            bindA (storedAuth st self) (\<lambda>current.
            if map_option ad_phase current \<noteq> Some ''claiming'' then storeError ''authentication_required'' 401
            else
              bindA (encrypted st (materialJson material) (delegationContext (ad_id r))) (\<lambda>cached.
              let active = r \<lparr>ad_phase := ''active'', ad_stateHash := '''', ad_principal := Some (ah_principal h identity),
                             ad_expiresAt := dm_expiresAt material, ad_cachedUntil := dm_expiresAt material, ad_cached := Some cached\<rparr>
              in bindA (saveAuth st active None) (\<lambda>_. retA (authorizationOf active (ah_principal h identity) material)))))))))"

definition completeNative :: "('key, 'chain, 'ident) AuthHost \<Rightarrow> string \<Rightarrow> string \<Rightarrow> string \<Rightarrow> json \<Rightarrow> Authorization stAct" where
  "completeNative h self token state response =
     bindA (authRecord h self (Some token)) (\<lambda>r.
       case ad_native r of
         None \<Rightarrow> storeError ''invalid_auth_state'' 403
       | Some native \<Rightarrow>
           if ad_phase r \<noteq> ''pending'' \<or> \<not> secretEquals (dh_crypto (ah_store h)) (ad_stateHash r) state
           then storeError ''invalid_auth_state'' 403
           else
             bindA (claimAuth (ah_store h) self) (\<lambda>claimed.
               if \<not> claimed then storeError ''invalid_auth_state'' 403 else claimedNative h self r native response))"

text \<open>The steps of \<open>complete\<close>, the sign-in of the web client, after the claim.\<close>

definition claimedWeb :: "('key, 'chain, 'ident) AuthHost \<Rightarrow> string \<Rightarrow> AuthRecord \<Rightarrow> EncryptedValueV1 \<Rightarrow> string \<Rightarrow> Authorization stAct" where
  "claimedWeb h self r stored delegation =
     (let st = ah_store h in
      bindA (liftR (restoredKey h stored (registrationContext (ad_id r)))) (\<lambda>registration.
      bindA (liftR (restoredKey h (ad_key r) (keyContext (ad_id r)))) (\<lambda>key.
      bindA (readHost (\<lambda>k. redeemRegistration (sdkAt h k) registration key delegation None)) (\<lambda>redeemed.
      bindA (liftR (liftSdk redeemed)) (\<lambda>(grantExpiresAt, permissions).
      if permissions \<noteq> queries then storeError ''choose_questions_only'' 403
      else
        bindA (readHost (\<lambda>k. mintKinicDelegation (sdkAt h k) k key (ah_origin h) None)) (\<lambda>minted.
        bindA (liftR (liftSdk minted)) (\<lambda>(identity, material).
        bindA (readHost (dh_now st)) (\<lambda>now.
        bindA (encrypted st (materialJson material) (delegationContext (ad_id r))) (\<lambda>cached.
        bindA (storedAuth st self) (\<lambda>current.
        if map_option ad_phase current \<noteq> Some ''claiming'' then storeError ''authentication_required'' 401
        else
          let active = r \<lparr>ad_phase := ''active'', ad_registration := None, ad_stateHash := '''',
                         ad_principal := Some (ah_principal h identity), ad_expiresAt := min grantExpiresAt (now + 3600000),
                         ad_cached := Some cached, ad_cachedUntil := dm_expiresAt material\<rparr>
          in bindA (saveAuth st active None) (\<lambda>_. retA (authorizationOf active (ah_principal h identity) material))))))))))))"

definition complete :: "('key, 'chain, 'ident) AuthHost \<Rightarrow> string \<Rightarrow> string \<Rightarrow> string \<Rightarrow> string \<Rightarrow> Authorization stAct" where
  "complete h self token state delegation =
     bindA (authRecord h self (Some token)) (\<lambda>r.
       case ad_registration r of
         None \<Rightarrow> storeError ''invalid_auth_state'' 403
       | Some stored \<Rightarrow>
           if ad_phase r \<noteq> ''pending'' \<or> \<not> secretEquals (dh_crypto (ah_store h)) (ad_stateHash r) state
           then storeError ''invalid_auth_state'' 403
           else
             bindA (claimAuth (ah_store h) self) (\<lambda>claimed.
               if \<not> claimed then storeError ''invalid_auth_state'' 403 else claimedWeb h self r stored delegation))"

subsection \<open>Using and ending\<close>

text \<open>The cached material, or a new one for the web client.\<close>

definition cachedMaterial :: "('key, 'chain, 'ident) AuthHost \<Rightarrow> AuthRecord \<Rightarrow> EncryptedValueV1 \<Rightarrow> KinicDelegationMaterialV1 stAct" where
  "cachedMaterial h r v =
     bindA (liftR (decrypted (ah_store h) v (delegationContext (ad_id r)))) (\<lambda>x.
     case materialOf x of
       None \<Rightarrow> throwA (Thrown (iiMessage (IiDelegationError identity_assembly)))
     | Some material \<Rightarrow>
         bindA (readHost (dh_now (ah_store h))) (\<lambda>now.
         bindA (liftR (liftSdk (restoreKinicIdentity (ds_sdk (ah_sdk h)) (int now) material (ah_origin h) (int now)))) (\<lambda>_.
           retA material)))"

definition renewedMaterial :: "('key, 'chain, 'ident) AuthHost \<Rightarrow> string \<Rightarrow> AuthRecord \<Rightarrow> KinicDelegationMaterialV1 stAct" where
  "renewedMaterial h self r =
     (let st = ah_store h in
      if ad_native r \<noteq> None then storeError ''authentication_required'' 401
      else
        bindA (liftR (restoredKey h (ad_key r) (keyContext (ad_id r)))) (\<lambda>key.
        bindA (readHost (\<lambda>k. mintKinicDelegation (sdkAt h k) k key (ah_origin h) None)) (\<lambda>minted.
        bindA (liftR (liftSdk minted)) (\<lambda>(identity, material).
        if Some (ah_principal h identity) \<noteq> ad_principal r then storeError ''identity_changed'' 401
        else
          bindA (encrypted st (materialJson material) (delegationContext (ad_id r))) (\<lambda>cached.
          bindA (storedAuth st self) (\<lambda>current.
          if current = None then storeError ''authentication_required'' 401
          else bindA (saveAuth st (r \<lparr>ad_cached := Some cached, ad_cachedUntil := dm_expiresAt material\<rparr>) None) (\<lambda>_. retA material)))))))"

definition loadMaterial :: "('key, 'chain, 'ident) AuthHost \<Rightarrow> string \<Rightarrow> Authorization stAct" where
  "loadMaterial h self =
     bindA (authRecord h self None) (\<lambda>r.
       if ad_phase r \<noteq> ''active'' \<or> \<not> present (ad_principal r) then storeError ''authentication_required'' 401
       else
         bindA (readHost (dh_now (ah_store h))) (\<lambda>now.
         bindA (case ad_cached r of
                  None \<Rightarrow> renewedMaterial h self r
                | Some v \<Rightarrow>
                    if ad_cachedUntil r > now + (if ad_native r = None then 30000 else 0) then cachedMaterial h r v
                    else renewedMaterial h self r) (\<lambda>material.
           retA (authorizationOf r (the (ad_principal r)) material))))"

definition material :: "('key, 'chain, 'ident) AuthHost \<Rightarrow> string \<Rightarrow> Authorization stAct" where
  "material h self = bindA (liftR (requireEnabled h)) (\<lambda>_. loadMaterial h self)"

definition authorize_token :: "('key, 'chain, 'ident) AuthHost \<Rightarrow> string \<Rightarrow> string \<Rightarrow> Authorization stAct" where
  "authorize_token h self token = bindA (authRecord h self (Some token)) (\<lambda>_. material h self)"

definition ownerForCleanup :: "('key, 'chain, 'ident) AuthHost \<Rightarrow> string \<Rightarrow> string \<Rightarrow> (string \<times> string) option stAct" where
  "ownerForCleanup h self token =
     bindA (storedAuth (ah_store h) self) (\<lambda>found.
       retA (case found of
               None \<Rightarrow> None
             | Some r \<Rightarrow>
                 (case ad_principal r of
                    None \<Rightarrow> None
                  | Some who \<Rightarrow> if who = [] \<or> \<not> secretEquals (dh_crypto (ah_store h)) (ad_tokenHash r) token then None
                                else Some (ad_id r, who))))"

definition revoke :: "('key, 'chain, 'ident) AuthHost \<Rightarrow> string \<Rightarrow> string \<Rightarrow> unit stAct" where
  "revoke h self token = bindA (authRecord h self (Some token)) (\<lambda>_. deleteAuth (ah_store h) self)"

text \<open>\<^verbatim>\<open>user.ts\<close>: the identity with which a handler reads the wiki.\<close>

definition userIdentity :: "('key, 'chain, 'ident) AuthHost \<Rightarrow> Conversation \<Rightarrow> 'ident stAct" where
  "userIdentity h c =
     bindA (material h (co_authId c)) (\<lambda>auth.
       if az_principal auth \<noteq> co_principal c then storeError ''identity_changed'' 403
       else
         case dm_appKey (az_material auth) of
           JArr [a, b] \<Rightarrow>
             bindA (readHost (dh_now (ah_store h))) (\<lambda>now.
               liftR (liftSdk (restoreKinicIdentity (ds_sdk (ah_sdk h)) (int now) ((az_material auth) \<lparr>dm_appKey := JArr [a, b]\<rparr>)
                 (ah_origin h) (int now))))
         | _ \<Rightarrow> storeError ''invalid_delegation'' 401)"

end
