(* ===== verification/Assistant_Http.thy ===== *)
theory Assistant_Http
  imports Assistant_Leases Assistant_Delegation "HOL-Library.Monad_Syntax"
begin

section \<open>Assistant worker: requests, replies and failures\<close>

text \<open>
  \<^verbatim>\<open>workers/wiki-assistant/src/http.ts\<close> and \<^verbatim>\<open>failure.ts\<close>. A request has its headers under their lower-case names, its
  query parameters in order and the chunks of its body. A reply is a status with a JSON body, or an open
  connection. The decoder of UTF-8 is an argument: decoding chunk by chunk as a stream is decoding the whole.
\<close>

record HttpRequest =
  hr_method :: string
  hr_path :: string
  hr_query :: "(string \<times> string) list"
  hr_headers :: "(string \<times> string) list"
  hr_body :: "byte list list option"

datatype Reply = JsonReply (rp_status: nat) (rp_body: json) | SocketReply Lease

definition header :: "HttpRequest \<Rightarrow> string \<Rightarrow> string option" where
  "header request name = map_of (hr_headers request) name"

definition searchParam :: "HttpRequest \<Rightarrow> string \<Rightarrow> string option" where
  "searchParam request name = map_of (hr_query request) name"

text \<open>\<open>Headers.delete\<close> and \<open>Headers.set\<close>.\<close>

definition withoutHeader :: "string \<Rightarrow> (string \<times> string) list \<Rightarrow> (string \<times> string) list" where
  "withoutHeader name headers = filter (\<lambda>(n, v). n \<noteq> name) headers"

definition setHeader :: "string \<Rightarrow> string \<Rightarrow> (string \<times> string) list \<Rightarrow> (string \<times> string) list" where
  "setHeader name value headers = withoutHeader name headers @ [(name, value)]"

lemma map_of_without: "map_of (withoutHeader name headers) n = (if n = name then None else map_of headers n)"
  by (induction headers) (auto simp: withoutHeader_def)

lemma map_of_set: "map_of (setHeader name value headers) n = (if n = name then Some value else map_of headers n)"
proof (cases "map_of (withoutHeader name headers) n")
  case None
  then show ?thesis using map_of_without [of name headers n] by (auto simp: setHeader_def map_add_def)
next
  case (Some v)
  then show ?thesis using map_of_without [of name headers n] by (auto simp: setHeader_def map_add_def split: option.split)
qed

subsection \<open>Bodies\<close>

definition MAX_BODY :: nat where
  "MAX_BODY = 65536"

fun readBody :: "byte list list \<Rightarrow> nat \<Rightarrow> byte list \<Rightarrow> as_error + byte list" where
  "readBody [] taken got = Inr got"
| "readBody (chunk # chunks) taken got =
     (if taken + length chunk > MAX_BODY then Inl (AssistantError ''body_too_large'' 413)
      else readBody chunks (taken + length chunk) (got @ chunk))"

definition readJson :: "(byte list \<Rightarrow> string) \<Rightarrow> HttpRequest \<Rightarrow> as_error + json" where
  "readJson decodeText request =
     (if \<not> (case header request ''content-type'' of None \<Rightarrow> False | Some t \<Rightarrow> startsWith t ''application/json'')
      then Inl (AssistantError ''json_required'' 415)
      else
        case hr_body request of
          None \<Rightarrow> Inl (AssistantError ''body_required'' 400)
        | Some chunks \<Rightarrow>
            bindR (readBody chunks 0 []) (\<lambda>bytes.
              case JSON_parse (decodeText bytes) of None \<Rightarrow> Inl JsonSyntaxError | Some v \<Rightarrow> Inr v))"

lemma readBody_Inr: "readBody chunks n got = Inr bytes \<Longrightarrow> n \<le> MAX_BODY \<Longrightarrow> bytes = got @ concat chunks \<and> n + length (concat chunks) \<le> MAX_BODY"
  by (induction chunks n got rule: readBody.induct) (auto split: if_splits)

subsection \<open>Replies\<close>

definition json_reply :: "json \<Rightarrow> nat \<Rightarrow> Reply" where
  "json_reply v status = JsonReply status v"

definition knownCodes :: "string list" where
  "knownCodes = [''authentication_required'', ''identity_changed'', ''invalid_auth_state'', ''choose_questions_only'']"

definition failure :: "as_error \<Rightarrow> Reply" where
  "failure e =
     (case e of
        ZodError \<Rightarrow> json_reply (JObj [(''error'', JStr ''invalid_request'')]) 400
      | JsonSyntaxError \<Rightarrow> json_reply (JObj [(''error'', JStr ''invalid_request'')]) 400
      | AssistantError code status \<Rightarrow> json_reply (JObj [(''error'', JStr code)]) status
      | Thrown message \<Rightarrow>
          if message \<in> set knownCodes then json_reply (JObj [(''error'', JStr message)]) 403
          else json_reply (JObj [(''error'', JStr ''request_failed'')]) 502)"

definition isAsciiLetter :: "char \<Rightarrow> bool" where
  "isAsciiLetter c \<longleftrightarrow> (65 \<le> charCode c \<and> charCode c \<le> 90) \<or> (97 \<le> charCode c \<and> charCode c \<le> 122)"

text \<open>The cookie of the web client.\<close>

definition tokenChar :: "char \<Rightarrow> bool" where
  "tokenChar c \<longleftrightarrow> isAsciiLetter c \<or> isDigit c \<or> c = CHR ''_'' \<or> c = CHR ''-''"

definition idChar :: "char \<Rightarrow> bool" where
  "idChar c \<longleftrightarrow> isDigit c \<or> (97 \<le> charCode c \<and> charCode c \<le> 102) \<or> c = CHR ''-''"

text \<open>\<^verbatim>\<open>/^([a-f0-9-]{36})\.([A-Za-z0-9_-]{43})$/\<close>\<close>

definition sessionToken :: "string \<Rightarrow> (string \<times> string) option" where
  "sessionToken s =
     (let ident = take 36 s; token = drop 37 s in
      if length s = 80 \<and> list_all idChar ident \<and> s ! 36 = CHR ''.'' \<and> list_all tokenChar token then Some (ident, token) else None)"

definition cookieName :: string where
  "cookieName = ''__Host-kinic-assistant=''"

definition readCookie :: "HttpRequest \<Rightarrow> (string \<times> string) option" where
  "readCookie request = do {
     value \<leftarrow> header request ''cookie'';
     part \<leftarrow> find (\<lambda>p. startsWith p cookieName) (map trim (splitOn (CHR '';'') value));
     sessionToken (splitOn (CHR ''='') part ! 1) }"

definition cookie :: "string \<Rightarrow> nat \<Rightarrow> string" where
  "cookie value maxAge = cookieName @ value @ ''; Path=/; HttpOnly; Secure; SameSite=Lax; Max-Age='' @ natToDec maxAge"

text \<open>\<^verbatim>\<open>/^Bearer ([a-f0-9-]{36})\.([A-Za-z0-9_-]{43})$/\<close>\<close>

definition bearerToken :: "HttpRequest \<Rightarrow> (string \<times> string) option" where
  "bearerToken request = do {
     value \<leftarrow> header request ''authorization'';
     if startsWith value ''Bearer '' then sessionToken (drop 7 value) else None }"

subsection \<open>Categories of failures for the log\<close>

text \<open>What \<open>failureKind\<close> looks at in a thrown value; \<open>fv_error\<close> is false for a value that is no \<open>Error\<close>.\<close>

record FailureValue =
  fv_error :: bool
  fv_message :: string
  fv_name :: string
  fv_syntax :: bool
  fv_type :: bool
  fv_causeCode :: "string option"

definition failureTexts :: "(string \<times> string) list" where
  "failureTexts =
     [(''Cannot perform I/O on behalf of a different request'', ''cross_request_io''),
      (''Network connection lost'', ''network_connection_lost''),
      (''Too many subrequests'', ''subrequest_limit''),
      (''Too many API requests'', ''api_request_limit''),
      (''Too many concurrent'', ''connection_limit''),
      (''D1_ERROR'', ''d1_error''),
      (''waitUntil'', ''wait_until''),
      (''lease_lost'', ''lease_lost'')]"

text \<open>\<^verbatim>\<open>/^(?:[A-Za-z]+ErrorCode)$/\<close>\<close>

definition errorCodeName :: "string \<Rightarrow> bool" where
  "errorCodeName s \<longleftrightarrow> list_all isAsciiLetter s \<and> endsWith s ''ErrorCode'' \<and> length s > 9"

definition failureKind :: "FailureValue \<Rightarrow> string" where
  "failureKind v =
     (if \<not> fv_error v then ''unknown''
      else
        case find (\<lambda>(t, kind). includesText (fv_message v) t) failureTexts of
          Some (t, kind) \<Rightarrow> kind
        | None \<Rightarrow>
            if fv_name v = ''ZodError'' then ''response_schema''
            else if fv_syntax v then ''response_json''
            else if fv_name v = ''AbortError'' \<or> fv_name v = ''TimeoutError'' then ''aborted''
            else if fv_type v then ''type_error''
            else (case fv_causeCode v of Some code \<Rightarrow> if errorCodeName code then code else ''other'' | None \<Rightarrow> ''other''))"

text \<open>A log line has one of the fixed categories, or the name of a code: no text of the error.\<close>

definition fixedKinds :: "string list" where
  "fixedKinds = map snd failureTexts @ [''unknown'', ''response_schema'', ''response_json'', ''aborted'', ''type_error'', ''other'']"

lemma failureKind_fixed: "failureKind v \<in> set fixedKinds \<or> (errorCodeName (failureKind v) \<and> fv_causeCode v = Some (failureKind v))"
proof (cases "find (\<lambda>(t, kind). includesText (fv_message v) t) failureTexts")
  case None
  then show ?thesis by (auto simp: failureKind_def fixedKinds_def split: option.split)
next
  case (Some x)
  then have "x \<in> set failureTexts" by (auto simp: find_Some_iff in_set_conv_nth)
  then have fixed: "snd x \<in> set fixedKinds" by (auto simp: fixedKinds_def)
  have "failureKind v \<in> {''unknown'', snd x}" using Some by (simp add: failureKind_def split: prod.split)
  moreover have "''unknown'' \<in> set fixedKinds" by (simp add: fixedKinds_def)
  ultimately show ?thesis using fixed by (elim insertE emptyE) simp_all
qed

end
