(* ===== verification/Assistant_Object.thy ===== *)
theory Assistant_Object
  imports Assistant_Auth Assistant_History Assistant_Sessions Assistant_Http
begin

section \<open>Assistant worker: the handlers of a user object\<close>

text \<open>
  The methods of \<open>AssistantUser\<close> (\<^verbatim>\<open>workers/wiki-assistant/src/user.ts\<close>) as one action each, and the sweep of
  \<^verbatim>\<open>reaper.ts\<close>: an object is created for a request or for the recovery of a user, loads the state, works on it and is
  dropped. \<open>Assistant_Sessions\<close> has the interleavings of such objects. The object a method returns is the one it
  leaves; after an exception that leaves the method the object is dropped, so its changes are. The reader of the wiki
  is opened with the identity of the user, its calls are those of \<open>Assistant_Reader\<close>. The turn which \<open>pump\<close> runs is an
  argument of \<open>tick\<close>; an admitted question starts it in the background, as another execution. A new object has no
  socket, so the limit on sockets does not apply to it.
  The timers that renew a lease are statements of other executions.
\<close>

record ('key, 'chain, 'ident) UserHost =
  uh_auth :: "('key, 'chain, 'ident) AuthHost"
  uh_actor :: "nat \<Rightarrow> 'ident \<Rightarrow> AsHost"
  uh_decodeText :: "byte list \<Rightarrow> string"
  uh_isUuid :: "string \<Rightarrow> bool"
  uh_safeInteger :: "string \<Rightarrow> int option"

record UserObject =
  uo_principal :: string
  uo_state :: UserState
  uo_revision :: nat
  uo_loadedMessages :: bool
  uo_nextWake :: nat
  uo_fence :: "Lease option"

definition storeOf :: "('key, 'chain, 'ident) UserHost \<Rightarrow> StHost" where
  "storeOf h = ah_store (uh_auth h)"

definition withState :: "(UserState \<Rightarrow> UserState) \<Rightarrow> UserObject \<Rightarrow> UserObject" where
  "withState f u = u \<lparr>uo_state := f (uo_state u)\<rparr>"

subsection \<open>Loading, saving, ending\<close>

text \<open>\<open>nextWake || Infinity\<close>: zero stands for no time yet.\<close>

definition saveObject :: "StHost \<Rightarrow> UserObject \<Rightarrow> UserObject stAct" where
  "saveObject st u =
     (if \<not> uo_loadedMessages u \<and> us_conversation (uo_state u) \<noteq> None then storeError ''partial_state_write'' 500
      else
        bindA (readHost (dh_now st)) (\<lambda>now.
          let deadline = wakeDeadline now (uo_state u);
              wake = (if uo_nextWake u = 0 then deadline else min (uo_nextWake u) deadline)
          in bindA (save st (uo_principal u) (uo_revision u) (uo_state u) wake (uo_fence u)) (\<lambda>revision.
               retA (u \<lparr>uo_state := viewed st (uo_revision u) (uo_state u), uo_revision := revision, uo_nextWake := wake\<rparr>))))"

definition endOwnedObject :: "StHost \<Rightarrow> string \<Rightarrow> string option \<Rightarrow> UserObject \<Rightarrow> UserObject stAct" where
  "endOwnedObject st authId conversationId u =
     (let v = withState (endOwned authId conversationId) u in
      if us_conversation (uo_state v) = us_conversation (uo_state u) then retA u else saveObject st v)"

definition initialize :: "StHost \<Rightarrow> string \<Rightarrow> bool \<Rightarrow> Lease option \<Rightarrow> UserObject stAct" where
  "initialize st who includeMessages fence =
     bindA (load st who includeMessages) (\<lambda>record.
       let u = \<lparr>uo_principal = who, uo_state = (ux_state record) \<lparr>us_cleanup := []\<rparr>, uo_revision = ux_revision record,
                uo_loadedMessages = includeMessages, uo_nextWake = 0, uo_fence = fence\<rparr> in
       bindA (case us_conversation (uo_state u) of
                None \<Rightarrow> retA u
              | Some c \<Rightarrow> if retired c then endOwnedObject st (co_authId c) (Some (co_id c)) u else retA u) (\<lambda>u.
       bindA (readHost (dh_now st)) (\<lambda>now.
         let u = u \<lparr>uo_nextWake := wakeDeadline now (uo_state u)\<rparr> in
         case (us_endRequested (uo_state u), us_conversation (uo_state u)) of
           (Some n, Some c) \<Rightarrow> endOwnedObject st (co_authId c) (Some (co_id c)) u
         | _ \<Rightarrow> retA u)))"

subsection \<open>Leases and the reader\<close>

definition claimLease :: "StHost \<Rightarrow> string \<Rightarrow> string \<Rightarrow> Lease option stAct" where
  "claimLease st scope ident =
     bindA (readHost (dh_now st)) (\<lambda>now.
     bindA (readHost (dh_uuid st)) (\<lambda>owner.
       d1 st (\<lambda>db. case claim scope ident owner now (db_leases db) of (lease, leases) \<Rightarrow> Inr (lease, db \<lparr>db_leases := leases\<rparr>))))"

definition leaseActive :: "StHost \<Rightarrow> string \<Rightarrow> string \<Rightarrow> bool stAct" where
  "leaseActive st scope ident = bindA (readHost (dh_now st)) (\<lambda>now. selectD1 st (\<lambda>db. active scope ident now (db_leases db)))"

definition releaseLease :: "StHost \<Rightarrow> Lease \<Rightarrow> unit stAct" where
  "releaseLease st lease = runD1 st (\<lambda>db. db \<lparr>db_leases := release lease (db_leases db)\<rparr>)"

definition objectReader :: "('key, 'chain, 'ident) UserHost \<Rightarrow> Conversation \<Rightarrow> KinicReader" where
  "objectReader h c = \<lparr>kr_databaseId = co_databaseId c, kr_scope = co_scope c, kr_maxCharacters = li_characters DEFAULT_LIMITS,
     kr_maxCalls = li_calls DEFAULT_LIMITS, kr_typesafeApiKey = (case ah_typesafe (uh_auth h) of None \<Rightarrow> [] | Some key \<Rightarrow> key),
     kr_route = None, kr_authorizeBeforeTools = (co_native c \<noteq> Some True)\<rparr>"

text \<open>The reader outside a turn has empty tools.\<close>

definition freshReading :: AsState where
  "freshReading = \<lparr>as_k = 0, as_tools = emptyToolState,
     as_turn = \<lparr>dt_messages = [], dt_requesting = False, dt_rounds = 0, dt_inputTokens = 0, dt_outputTokens = 0,
                dt_whitespaceRecoveries = 0, dt_finalRepairs = 0\<rparr>, as_log = []\<rparr>"

definition reading :: "('key, 'chain, 'ident) UserHost \<Rightarrow> Conversation \<Rightarrow> (AsHost \<Rightarrow> KinicReader \<Rightarrow> 'a asAct) \<Rightarrow> 'a stAct" where
  "reading h c f =
     bindA (userIdentity (uh_auth h) c) (\<lambda>identity.
     bindA (readHost (\<lambda>k. fst (f (uh_actor h k identity) (objectReader h c) freshReading))) liftR)"

subsection \<open>Requests\<close>

definition requester :: "UserObject \<Rightarrow> HttpRequest \<Rightarrow> as_error + (string \<times> string)" where
  "requester u request =
     (case (header request ''x-assistant-principal'', header request ''x-assistant-auth-id'') of
        (Some who, Some authId) \<Rightarrow>
          if who = [] \<or> authId = [] then Inl (AssistantError ''authentication_required'' 401)
          else if us_principal (uo_state u) \<notin> {None, Some [], Some who} then Inl (AssistantError ''identity_changed'' 403)
          else Inr (who, authId)
      | _ \<Rightarrow> Inl (AssistantError ''authentication_required'' 401))"

definition fromNative :: "HttpRequest \<Rightarrow> bool" where
  "fromNative request \<longleftrightarrow> header request ''x-assistant-client'' = Some ''native''"

definition API_PREFIX :: string where
  "API_PREFIX = ''/api/assistant''"

definition objectPath :: "string \<Rightarrow> string" where
  "objectPath path = (if startsWith path API_PREFIX then drop (length API_PREFIX) path else path)"

definition isRoute :: "HttpRequest \<Rightarrow> string \<Rightarrow> string \<Rightarrow> bool" where
  "isRoute request method path \<longleftrightarrow> hr_method request = method \<and> objectPath (hr_path request) = path"

definition ended_reply :: Reply where
  "ended_reply = json_reply (JObj [(''ended'', JBool True)]) 200"

definition snapshotReply :: "UserObject \<Rightarrow> nat \<Rightarrow> Reply" where
  "snapshotReply u status =
     json_reply (case us_conversation (uo_state u) of None \<Rightarrow> JNull | Some c \<Rightarrow> snapshotJson (uo_revision u) c) status"

type_synonym handled = "Reply \<times> UserObject"

definition startConversation ::
    "('key, 'chain, 'ident) UserHost \<Rightarrow> UserObject \<Rightarrow> HttpRequest \<Rightarrow> string \<Rightarrow> string \<Rightarrow> handled stAct" where
  "startConversation h u request who authId =
     (let st = storeOf h in
      bindA (liftR (readJson (uh_decodeText h) request)) (\<lambda>v.
      bindA (liftR (conversationInput (fromNative request) v)) (\<lambda>input.
      if us_conversation (uo_state u) \<noteq> None then storeError ''conversation_already_active'' 409
      else if us_cleanup (uo_state u) \<noteq> [] then storeError ''cleanup_pending'' 409
      else if fromNative request \<and> \<not> present (ah_deepseek (uh_auth h)) then storeError ''assistant_not_configured'' 503
      else
        bindA (readHost (dh_uuid st)) (\<lambda>ident.
        bindA (readHost (dh_now st)) (\<lambda>activity.
        bindA (readHost (dh_now st)) (\<lambda>seen.
          let c = newConversation (fromNative request) ident who authId activity seen input in
          bindA (reading h c manifest) (\<lambda>_.
          bindA (liftR (fst (installConversation c (uo_state u)))) (\<lambda>_.
          bindA (saveObject st (withState (\<lambda>s. snd (installConversation c s)) u)) (\<lambda>u.
            retA (snapshotReply u 201, u)))))))))) "

definition conversationReply :: "('key, 'chain, 'ident) UserHost \<Rightarrow> UserObject \<Rightarrow> Conversation \<Rightarrow> HttpRequest \<Rightarrow> handled stAct" where
  "conversationReply h u c request =
     bindA (touch (storeOf h) (uo_principal u) (co_id c)) (\<lambda>_.
       let revision = viewOf c (uo_revision u) in
       if searchParam request ''includeHistory'' = Some ''1'' \<and> searchParam request ''knownRevision'' \<noteq> Some (natToDec revision)
       then
         bindA (if uo_loadedMessages u then liftR (memoryPage c (uo_revision u) revision 0)
                else historyPage (storeOf h) (uo_principal u) c revision 0 (uo_revision u)) (\<lambda>page.
           case snapshotJson (uo_revision u) c of
             JObj ps \<Rightarrow> retA (json_reply (JObj (ps @ [(''historyPage'', historyPageJson page)])) 200, u)
           | v \<Rightarrow> retA (json_reply v 200, u))
       else retA (snapshotReply u 200, u))"

definition historyReply :: "('key, 'chain, 'ident) UserHost \<Rightarrow> UserObject \<Rightarrow> Conversation \<Rightarrow> HttpRequest \<Rightarrow> handled stAct" where
  "historyReply h u c request =
     (let cursor = (case searchParam request ''cursor'' of None \<Rightarrow> ''0'' | Some t \<Rightarrow> t) in
      case (case searchParam request ''revision'' of None \<Rightarrow> Some 0 | Some t \<Rightarrow> uh_safeInteger h t) of
        None \<Rightarrow> storeError ''invalid_cursor'' 400
      | Some revision \<Rightarrow>
          if cursor = [] \<or> \<not> list_all isDigit cursor then storeError ''invalid_cursor'' 400
          else if revision \<noteq> int (viewOf c (uo_revision u)) then storeError ''stale_state'' 409
          else
            bindA (if uo_loadedMessages u then liftR (memoryPage c (uo_revision u) (nat revision) (decToNat cursor))
                   else historyPage (storeOf h) (uo_principal u) c (nat revision) (decToNat cursor) (uo_revision u)) (\<lambda>page.
              retA (json_reply (historyPageJson page) 200, u)))"

definition askQuestion :: "('key, 'chain, 'ident) UserHost \<Rightarrow> UserObject \<Rightarrow> Conversation \<Rightarrow> HttpRequest \<Rightarrow> handled stAct" where
  "askQuestion h u c request =
     (let st = storeOf h in
      bindA (liftR (bindR (readJson (uh_decodeText h) request) (questionSchema (uh_isUuid h)))) (\<lambda>input.
      bindA (readHost (dh_day st)) (\<lambda>today.
      bindA (readHost (dh_now st)) (\<lambda>activity.
      bindA (readHost (dh_now st)) (\<lambda>started.
        case enqueue True today activity started input None c (uo_state u) of
          (Inl e, _) \<Rightarrow> throwA e
        | (Inr False, _) \<Rightarrow> retA (snapshotReply u 202, u)
        | (Inr True, s) \<Rightarrow> bindA (saveObject st (u \<lparr>uo_state := s\<rparr>)) (\<lambda>u. retA (snapshotReply u 202, u)))))))"

definition citationInput :: "('key, 'chain, 'ident) UserHost \<Rightarrow> json \<Rightarrow> as_error + string" where
  "citationInput h v =
     (case v of
        JObj ps \<Rightarrow>
          (case jget ps ''citationId'' of
             Some (JStr ident) \<Rightarrow> if uh_isUuid h ident \<and> strictKeys [''citationId''] ps then Inr ident else Inl ZodError
           | _ \<Rightarrow> Inl ZodError)
      | _ \<Rightarrow> Inl ZodError)"

definition citationReply :: "('key, 'chain, 'ident) UserHost \<Rightarrow> UserObject \<Rightarrow> Conversation \<Rightarrow> HttpRequest \<Rightarrow> handled stAct" where
  "citationReply h u c request =
     bindA (liftR (bindR (readJson (uh_decodeText h) request) (citationInput h))) (\<lambda>ident.
       case findCitation ident c of
         None \<Rightarrow> storeError ''citation_not_found'' 404
       | Some citation \<Rightarrow>
           bindA (reading h c (\<lambda>actor r. readNodeA actor (co_databaseId c) (ci_path citation))) (\<lambda>result.
           bindA (liftR (unwrap result)) (\<lambda>node.
             case citationChange citation node of
               (changed, missing) \<Rightarrow> retA (json_reply (JObj [(''changed'', JBool changed), (''missing'', JBool missing)]) 200, u))))"

definition openControl :: "('key, 'chain, 'ident) UserHost \<Rightarrow> UserObject \<Rightarrow> Conversation \<Rightarrow> handled stAct" where
  "openControl h u c =
     bindA (claimLease (storeOf h) ''connection'' (co_id c)) (\<lambda>lease.
       case lease of
         None \<Rightarrow> storeError ''connection_already_active'' 409
       | Some l \<Rightarrow> retA (SocketReply l, u \<lparr>uo_fence := Some l\<rparr>))"

text \<open>The routes of an authorized conversation.\<close>

definition conversationRoute :: "('key, 'chain, 'ident) UserHost \<Rightarrow> UserObject \<Rightarrow> Conversation \<Rightarrow> HttpRequest \<Rightarrow> handled stAct" where
  "conversationRoute h u c request =
     (if objectPath (hr_path request) = ''/events'' \<and> header request ''upgrade'' = Some ''websocket'' then openControl h u c
      else if isRoute request ''GET'' ''/conversation'' then conversationReply h u c request
      else if isRoute request ''GET'' ''/history'' then historyReply h u c request
      else if isRoute request ''POST'' ''/questions'' then askQuestion h u c request
      else if isRoute request ''POST'' ''/cancel''
      then bindA (saveObject (storeOf h) (withState (onConversation cancelled) u)) (\<lambda>u. retA (snapshotReply u 200, u))
      else if isRoute request ''POST'' ''/citation'' then citationReply h u c request
      else storeError ''not_found'' 404)"

definition seenObject :: "nat \<Rightarrow> UserObject \<Rightarrow> Conversation \<Rightarrow> UserObject \<times> Conversation" where
  "seenObject now u c = (withState (seenAt now) u, c \<lparr>co_seen := now\<rparr>)"

definition ownedRoute :: "('key, 'chain, 'ident) UserHost \<Rightarrow> UserObject \<Rightarrow> Conversation \<Rightarrow> HttpRequest \<Rightarrow> string \<Rightarrow> handled stAct" where
  "ownedRoute h u c request authId =
     (let st = storeOf h in
      if isRoute request ''GET'' ''/active'' \<and> co_authId c = authId
      then
        bindA (reading h c authorize) (\<lambda>_.
        bindA (readHost (dh_now st)) (\<lambda>now.
        bindA (touch st (uo_principal u) (co_id c)) (\<lambda>_.
          let u = fst (seenObject now u c) in retA (snapshotReply u 200, u))))
      else if searchParam request ''conversationId'' \<noteq> Some (co_id c) \<or> co_authId c \<noteq> authId
      then storeError ''conversation_not_owned'' 403
      else if isRoute request ''POST'' ''/end''
      then bindA (endOwnedObject st authId None u) (\<lambda>u. retA (ended_reply, u))
      else
        bindA (reading h c authorize) (\<lambda>_.
        bindA (readHost (dh_now st)) (\<lambda>now. case seenObject now u c of (u, c) \<Rightarrow> conversationRoute h u c request)))"

definition objectHandle :: "('key, 'chain, 'ident) UserHost \<Rightarrow> UserObject \<Rightarrow> HttpRequest \<Rightarrow> handled stAct" where
  "objectHandle h u request =
     bindA (liftR (requireEnabled (uh_auth h))) (\<lambda>_.
     bindA (liftR (requester u request)) (\<lambda>(who, authId).
       let u = withState (\<lambda>s. s \<lparr>us_principal := Some who\<rparr>) u in
       if isRoute request ''POST'' ''/conversations'' then startConversation h u request who authId
       else
         case us_conversation (uo_state u) of
           None \<Rightarrow> storeError ''conversation_ended'' 410
         | Some c \<Rightarrow> ownedRoute h u c request authId))"

definition objectFetch :: "('key, 'chain, 'ident) UserHost \<Rightarrow> UserObject \<Rightarrow> HttpRequest \<Rightarrow> Reply stAct" where
  "objectFetch h u request = catchA (bindA (objectHandle h u request) (\<lambda>(reply, _). retA reply)) (\<lambda>e. retA (failure e))"

subsection \<open>The clock\<close>

text \<open>The answer of \<open>tick\<close> to an exception of its checks.\<close>

definition endsConversation :: "as_error \<Rightarrow> bool" where
  "endsConversation e =
     (case e of AssistantError code status \<Rightarrow> status = 401 \<or> status = 403 \<or> code = ''assistant_disabled'' | _ \<Rightarrow> False)"

definition tickDenied :: "StHost \<Rightarrow> Conversation \<Rightarrow> UserObject \<Rightarrow> as_error \<Rightarrow> UserObject stAct" where
  "tickDenied st c u e =
     (if endsConversation e then endOwnedObject st (co_authId c) (Some (co_id c)) u
      else
        bindA (readHost (dh_now st)) (\<lambda>now.
        bindA (schedule st (uo_principal u) (co_id c) (uo_revision u) (now + 5000)) (\<lambda>_. retA (u \<lparr>uo_nextWake := now + 5000\<rparr>))))"

text \<open>The checks of \<open>tick\<close>: the flag says whether it goes on.\<close>

definition tickChecks :: "('key, 'chain, 'ident) UserHost \<Rightarrow> Conversation \<Rightarrow> UserObject \<Rightarrow> (bool \<times> UserObject) stAct" where
  "tickChecks h c u =
     (let st = storeOf h; stop = (\<lambda>u e. bindA (tickDenied st c u e) (\<lambda>u. retA (False, u))) in
      bindA (readHost (dh_now st)) (\<lambda>now.
      if expired now c
      then
        bindA (attemptA (endOwnedObject st (co_authId c) (Some (co_id c)) u)) (\<lambda>r. case r of
          Inr u \<Rightarrow> retA (False, u)
        | Inl e \<Rightarrow> stop (withState (endOwned (co_authId c) (Some (co_id c))) u) e)
      else
        case requireEnabled (uh_auth h) of
          Inl e \<Rightarrow> stop u e
        | Inr _ \<Rightarrow>
            let v = (if timedOut now c then withState (onConversation (\<lambda>c. cancelled (withError ''turn_timeout'' c))) u else u) in
            bindA (attemptA (if timedOut now c then saveObject st v else retA v)) (\<lambda>r. case r of
              Inl e \<Rightarrow> stop v e
            | Inr u \<Rightarrow>
                bindA (attemptA (reading h c authorize)) (\<lambda>r. case r of
                  Inl e \<Rightarrow> stop u e
                | Inr _ \<Rightarrow> retA (True, u)))))"

definition tickRest :: "StHost \<Rightarrow> UserObject \<Rightarrow> UserObject stAct" where
  "tickRest st u =
     bindA (if us_cleanup (uo_state u) \<noteq> [] then saveObject st (withState cleanupDone u) else retA u) (\<lambda>u.
     bindA (readHost (dh_day st)) (\<lambda>today.
       if us_conversation (uo_state u) = None \<and> us_cleanup (uo_state u) = [] \<and> us_day (uo_state u) \<noteq> today
       then saveObject st (withState (tickDay today) u)
       else
         case us_conversation (uo_state u) of
           Some c \<Rightarrow>
             if co_pending c = None \<and> us_cleanup (uo_state u) = []
             then
               bindA (readHost (dh_now st)) (\<lambda>now.
                 let wake = wakeDeadline now (uo_state u) in
                 bindA (schedule st (uo_principal u) (co_id c) (uo_revision u) wake) (\<lambda>_. retA (u \<lparr>uo_nextWake := wake\<rparr>)))
             else saveObject st u
         | None \<Rightarrow> saveObject st u))"

definition hasPending :: "UserObject \<Rightarrow> bool" where
  "hasPending u \<longleftrightarrow> (case us_conversation (uo_state u) of None \<Rightarrow> False | Some c \<Rightarrow> co_pending c \<noteq> None)"

definition tick :: "('key, 'chain, 'ident) UserHost \<Rightarrow> (UserObject \<Rightarrow> UserObject stAct) \<Rightarrow> bool \<Rightarrow> UserObject \<Rightarrow> UserObject stAct" where
  "tick h pump recovery u =
     (let st = storeOf h; u = u \<lparr>uo_nextWake := 0\<rparr> in
      case us_conversation (uo_state u) of
        None \<Rightarrow> tickRest st u
      | Some c \<Rightarrow>
          bindA (if recovery then leaseActive st ''connection'' (co_id c) else retA False) (\<lambda>busy.
            if busy then retA u
            else
              bindA (tickChecks h c u) (\<lambda>(continue, u).
                if \<not> continue then retA u
                else bindA (if hasPending u then pump u else retA u) (tickRest st))))"

subsection \<open>The sweep\<close>

definition recoverUser :: "('key, 'chain, 'ident) UserHost \<Rightarrow> (UserObject \<Rightarrow> UserObject stAct) \<Rightarrow> string \<Rightarrow> unit stAct" where
  "recoverUser h pump who =
     (let st = storeOf h in
      bindA (claimLease st ''maintenance'' who) (\<lambda>lease.
        case lease of
          None \<Rightarrow> retA ()
        | Some l \<Rightarrow>
            bindA (attemptA (bindA (initialize st who True (Some l)) (tick h pump True))) (\<lambda>_.
            bindA (readHost (dh_now st)) (\<lambda>n.
            bindA (readHost (dh_now st)) (\<lambda>limit.
            bindA (readHost (dh_now st)) (\<lambda>now.
            bindA (runD1 st (retryStmt l (n + 60000) limit now)) (\<lambda>_.
              releaseLease st l)))))))"

text \<open>\<open>Promise.all\<close> over four users at a time: all of them run, then the first failure is thrown.\<close>

fun chunksOf :: "nat \<Rightarrow> 'a list \<Rightarrow> 'a list list" where
  "chunksOf n [] = []"
| "chunksOf n (x # xs) = (x # take (n - 1) xs) # chunksOf n (drop (n - 1) xs)"

definition allA :: "('a \<Rightarrow> 'b stAct) \<Rightarrow> 'a list \<Rightarrow> 'b list stAct" where
  "allA f xs = bindA (mapA (\<lambda>x. attemptA (f x)) xs) (\<lambda>rs. liftR (mapR (\<lambda>r. r) rs))"

definition sweep :: "('key, 'chain, 'ident) UserHost \<Rightarrow> (UserObject \<Rightarrow> UserObject stAct) \<Rightarrow> unit stAct" where
  "sweep h pump =
     (let st = storeOf h in
      bindA (due st 10) (\<lambda>users.
      bindA (mapA (allA (recoverUser h pump)) (chunksOf 4 users)) (\<lambda>_.
      bindA (readHost (dh_now st)) (\<lambda>now. runD1 st (expireAuthStmt now)))))"

end
