(* ===== verification/Assistant_Routes.thy ===== *)
theory Assistant_Routes
  imports Assistant_Object
begin

section \<open>Assistant worker: routes\<close>

text \<open>
  \<^verbatim>\<open>workers/wiki-assistant/src/index.ts\<close> and \<^verbatim>\<open>connection.ts\<close>: every request of the worker, from the path to the reply.
  The rate limiter and the binding to the durable object are parameters by number of the call; either may throw.
\<close>

record ('key, 'chain, 'ident) WorkerHost =
  wh_user :: "('key, 'chain, 'ident) UserHost"
  wh_limit :: "nat \<Rightarrow> string \<Rightarrow> string + bool"
  wh_connection :: "nat \<Rightarrow> string \<Rightarrow> string + unit"

definition authOf_host :: "('key, 'chain, 'ident) WorkerHost \<Rightarrow> ('key, 'chain, 'ident) AuthHost" where
  "authOf_host w = uh_auth (wh_user w)"

definition storeOf_host :: "('key, 'chain, 'ident) WorkerHost \<Rightarrow> StHost" where
  "storeOf_host w = ah_store (authOf_host w)"

definition thrownText :: "string + 'a \<Rightarrow> as_error + 'a" where
  "thrownText r = tryR r (\<lambda>m. Inl (Thrown m))"

subsection \<open>Paths\<close>

definition NATIVE_PREFIX :: string where
  "NATIVE_PREFIX = ''/api/assistant/native/''"

definition routePath :: "string \<Rightarrow> string" where
  "routePath path =
     (let short = objectPath path in
      if startsWith path API_PREFIX \<and> startsWith short ''/native'' then drop 7 short else short)"

definition retiredRoute :: "string \<Rightarrow> bool" where
  "retiredRoute path \<longleftrightarrow> path = ''/voice'' \<or> startsWith path ''/voice/''"

subsection \<open>Inputs\<close>

definition startInput :: "json \<Rightarrow> as_error + (string \<times> string)" where
  "startInput v =
     (case v of
        JObj ps \<Rightarrow>
          (case (boundedText 1 128 (jget ps ''databaseId''), boundedText 1 100 (jget ps ''expectedPrincipal'')) of
             (Some databaseId, Some expected) \<Rightarrow>
               if jget ps ''consent'' = Some (JStr ''2026-09-29'') \<and> strictKeys [''consent'', ''databaseId'', ''expectedPrincipal''] ps
               then Inr (databaseId, expected) else Inl ZodError
           | _ \<Rightarrow> Inl ZodError)
      | _ \<Rightarrow> Inl ZodError)"

text \<open>An absent \<open>response\<close> is \<open>undefined\<close>, which the schema of the answer rejects as it rejects \<open>null\<close>.\<close>

definition completeInput :: "json \<Rightarrow> as_error + (string \<times> json)" where
  "completeInput v =
     (case v of
        JObj ps \<Rightarrow>
          (case boundedText 0 100 (jget ps ''state'') of
             Some state \<Rightarrow>
               if strictKeys [''state'', ''response''] ps
               then Inr (state, case jget ps ''response'' of None \<Rightarrow> JNull | Some r \<Rightarrow> r) else Inl ZodError
           | None \<Rightarrow> Inl ZodError)
      | _ \<Rightarrow> Inl ZodError)"

subsection \<open>Signing in\<close>

definition startJson :: "string \<Rightarrow> NativeStart \<Rightarrow> json" where
  "startJson ident n = JObj [(''token'', JStr (ident @ ''.'' @ ns_token n)), (''state'', JStr (ns_state n)),
     (''requestId'', JStr (ns_requestId n)), (''publicKey'', JStr (ns_publicKey n)), (''maxTimeToLive'', JStr ''3000000000000''),
     (''derivationOrigin'', JStr (ns_derivationOrigin n))]"

definition startRoute :: "('key, 'chain, 'ident) WorkerHost \<Rightarrow> HttpRequest \<Rightarrow> Reply stAct" where
  "startRoute w request =
     (let address = (case header request ''cf-connecting-ip'' of None \<Rightarrow> ''unknown'' | Some ip \<Rightarrow> if ip = [] then ''unknown'' else ip) in
      bindA (readHost (\<lambda>k. wh_limit w k address)) (\<lambda>outcome.
      bindA (liftR (thrownText outcome)) (\<lambda>success.
      if \<not> success then storeError ''rate_limit'' 429
      else
        bindA (liftR (bindR (readJson (uh_decodeText (wh_user w)) request) startInput)) (\<lambda>(databaseId, expected).
        bindA (readHost (dh_uuid (storeOf_host w))) (\<lambda>ident.
        bindA (beginNative (authOf_host w) ident ident databaseId expected) (\<lambda>started.
          retA (json_reply (startJson ident started) 200)))))))"

definition sessionJson :: "Authorization \<Rightarrow> json" where
  "sessionJson a = JObj [(''principal'', JStr (az_principal a)), (''expiresAt'', decNumber (az_expiresAt a))]"

definition completeRoute :: "('key, 'chain, 'ident) WorkerHost \<Rightarrow> HttpRequest \<Rightarrow> string \<Rightarrow> string \<Rightarrow> Reply stAct" where
  "completeRoute w request ident token =
     bindA (liftR (bindR (readJson (uh_decodeText (wh_user w)) request) completeInput)) (\<lambda>(state, response).
     bindA (completeNative (authOf_host w) ident token state response) (\<lambda>a. retA (json_reply (sessionJson a) 200)))"

subsection \<open>Ending\<close>

definition endConversation :: "('key, 'chain, 'ident) WorkerHost \<Rightarrow> string \<Rightarrow> string \<Rightarrow> string option \<Rightarrow> unit stAct" where
  "endConversation w who authId conversationId =
     bindA (initialize (storeOf_host w) who True None) (\<lambda>u.
     bindA (endOwnedObject (storeOf_host w) authId conversationId u) (\<lambda>_. retA ()))"

text \<open>The conversation of a session ends before its authentication does.\<close>

definition logoutConversation :: "('key, 'chain, 'ident) WorkerHost \<Rightarrow> string \<Rightarrow> string \<Rightarrow> nat \<Rightarrow> unit stAct" where
  "logoutConversation w ident token receivedAt =
     (let st = storeOf_host w in
      bindA (ownerForCleanup (authOf_host w) ident token) (\<lambda>owner.
        case owner of
          None \<Rightarrow> retA ()
        | Some (authId, who) \<Rightarrow>
            bindA (load st who True) (\<lambda>record.
            bindA (case us_conversation (ux_state record) of
                     None \<Rightarrow> retA ()
                   | Some c \<Rightarrow> bindA (requestEnd st who ident (co_id c) receivedAt) (\<lambda>_. retA ())) (\<lambda>_.
              endConversation w who ident None))))"

definition logoutRoute :: "('key, 'chain, 'ident) WorkerHost \<Rightarrow> string \<Rightarrow> string \<Rightarrow> nat \<Rightarrow> Reply stAct" where
  "logoutRoute w ident token receivedAt =
     bindA (attemptA (logoutConversation w ident token receivedAt)) (\<lambda>_.
     bindA (attemptA (revoke (authOf_host w) ident token)) (\<lambda>_. retA ended_reply))"

definition endRoute :: "('key, 'chain, 'ident) WorkerHost \<Rightarrow> HttpRequest \<Rightarrow> string \<Rightarrow> string \<Rightarrow> nat \<Rightarrow> Reply stAct" where
  "endRoute w request ident token receivedAt =
     bindA (ownerForCleanup (authOf_host w) ident token) (\<lambda>owner.
       case owner of
         None \<Rightarrow> storeError ''authentication_required'' 401
       | Some (authId, who) \<Rightarrow>
           (case searchParam request ''conversationId'' of
              None \<Rightarrow> throwA ZodError
            | Some conversationId \<Rightarrow>
                if \<not> uh_isUuid (wh_user w) conversationId then throwA ZodError
                else
                  bindA (requestEnd (storeOf_host w) who authId conversationId receivedAt) (\<lambda>_.
                  bindA (endConversation w who authId (Some conversationId)) (\<lambda>_. retA ended_reply))))"

subsection \<open>Forwarding\<close>

definition forwardedHeaders :: "(string \<times> string) list \<Rightarrow> Authorization \<Rightarrow> nat \<Rightarrow> (string \<times> string) list" where
  "forwardedHeaders headers a receivedAt =
     setHeader ''x-assistant-principal'' (az_principal a)
       (setHeader ''x-assistant-auth-id'' (az_authId a)
         (setHeader ''x-assistant-client'' ''native''
           (setHeader ''x-assistant-received-at'' (natToDec receivedAt)
             (withoutHeader ''authorization'' (withoutHeader ''cookie'' headers)))))"

definition forwarded :: "HttpRequest \<Rightarrow> Authorization \<Rightarrow> nat \<Rightarrow> HttpRequest" where
  "forwarded request a receivedAt =
     request \<lparr>hr_path := API_PREFIX @ routePath (hr_path request), hr_headers := forwardedHeaders (hr_headers request) a receivedAt\<rparr>"

text \<open>An exception that crosses the binding keeps its message only.\<close>

fun errorText :: "as_error \<Rightarrow> string" where
  "errorText (AssistantError code status) = code"
| "errorText ZodError = ''invalid input''"
| "errorText JsonSyntaxError = ''invalid JSON''"
| "errorText (Thrown message) = message"

definition connectionFetch :: "('key, 'chain, 'ident) WorkerHost \<Rightarrow> HttpRequest \<Rightarrow> Reply stAct" where
  "connectionFetch w request =
     (case header request ''x-assistant-principal'' of
        None \<Rightarrow> retA (json_reply (JObj [(''error'', JStr ''authentication_required'')]) 401)
      | Some who \<Rightarrow>
          if who = [] \<or> header request ''x-assistant-auth-id'' \<in> {None, Some []}
          then retA (json_reply (JObj [(''error'', JStr ''authentication_required'')]) 401)
          else if hr_path request \<noteq> ''/api/assistant/events'' then retA (json_reply (JObj [(''error'', JStr ''not_found'')]) 404)
          else bindA (initialize (storeOf_host w) who True None) (\<lambda>u. objectFetch (wh_user w) u request))"

definition forwardRoute :: "('key, 'chain, 'ident) WorkerHost \<Rightarrow> HttpRequest \<Rightarrow> Authorization \<Rightarrow> nat \<Rightarrow> Reply stAct" where
  "forwardRoute w request a receivedAt =
     (let path = routePath (hr_path request); inner = forwarded request a receivedAt in
      if path = ''/events''
      then
        bindA (readHost (\<lambda>k. wh_connection w k (az_principal a))) (\<lambda>reached.
        bindA (liftR (thrownText reached)) (\<lambda>_. catchA (connectionFetch w inner) (\<lambda>e. throwA (Thrown (errorText e)))))
      else
        bindA (initialize (storeOf_host w) (az_principal a) (path \<notin> {''/conversation'', ''/history'', ''/active''}) None) (\<lambda>u.
          objectFetch (wh_user w) u inner))"

subsection \<open>The router\<close>

definition authorizedRoute :: "('key, 'chain, 'ident) WorkerHost \<Rightarrow> HttpRequest \<Rightarrow> string \<Rightarrow> string \<Rightarrow> nat \<Rightarrow> Reply stAct" where
  "authorizedRoute w request ident token receivedAt =
     (let path = routePath (hr_path request) in
      if hr_method request = ''POST'' \<and> path \<in> {''/questions'', ''/cancel''} then storeError ''control_connection_required'' 405
      else
        bindA (authorize_token (authOf_host w) ident token) (\<lambda>a.
          if path = ''/auth'' \<and> hr_method request = ''GET'' then retA (json_reply (sessionJson a) 200)
          else forwardRoute w request a receivedAt))"

definition sessionRoute :: "('key, 'chain, 'ident) WorkerHost \<Rightarrow> HttpRequest \<Rightarrow> string \<Rightarrow> string \<Rightarrow> nat \<Rightarrow> Reply stAct" where
  "sessionRoute w request ident token receivedAt =
     (let path = routePath (hr_path request); post = (hr_method request = ''POST'') in
      if path = ''/auth/complete'' \<and> post then completeRoute w request ident token
      else if path = ''/logout'' \<and> post then logoutRoute w ident token receivedAt
      else if path = ''/end'' \<and> post then endRoute w request ident token receivedAt
      else authorizedRoute w request ident token receivedAt)"

definition configured :: "('key, 'chain, 'ident) AuthHost \<Rightarrow> as_error + unit" where
  "configured h =
     bindR (requireEnabled h) (\<lambda>_.
       if \<not> present (ah_deepseek h) then Inl (AssistantError ''assistant_not_configured'' 503) else Inr ())"

definition route :: "('key, 'chain, 'ident) WorkerHost \<Rightarrow> HttpRequest \<Rightarrow> nat \<Rightarrow> Reply stAct" where
  "route w request receivedAt =
     (let path = routePath (hr_path request) in
      if \<not> startsWith (hr_path request) NATIVE_PREFIX \<or> retiredRoute path then storeError ''not_found'' 404
      else
        bindA (liftR (if path \<noteq> ''/logout'' \<and> path \<noteq> ''/end'' then configured (authOf_host w) else Inr ())) (\<lambda>_.
          if path = ''/status'' \<and> hr_method request = ''GET'' then retA (json_reply (JObj [(''available'', JBool True)]) 200)
          else if path = ''/auth/start'' \<and> hr_method request = ''POST'' then startRoute w request
          else
            case bearerToken request of
              None \<Rightarrow> storeError ''authentication_required'' 401
            | Some (ident, token) \<Rightarrow> sessionRoute w request ident token receivedAt))"

definition workerFetch :: "('key, 'chain, 'ident) WorkerHost \<Rightarrow> HttpRequest \<Rightarrow> Reply stAct" where
  "workerFetch w request =
     bindA (readHost (dh_now (storeOf_host w))) (\<lambda>receivedAt. catchA (route w request receivedAt) (\<lambda>e. retA (failure e)))"

end
