(* ===== verification/Assistant_Failures.thy ===== *)
theory Assistant_Failures
  imports Assistant_Routes
begin

section \<open>Assistant worker: the exceptions of the routes\<close>

text \<open>
  Which exceptions an action can throw, call by call, up to the router: an \<open>AssistantError\<close> is one of the codes of
  \<open>fixedCodes\<close>, any other exception is turned into one of five fixed replies.
\<close>

subsection \<open>Exceptions of results and actions\<close>

definition raisesR :: "('e \<Rightarrow> bool) \<Rightarrow> 'e + 'a \<Rightarrow> bool" where
  "raisesR E r \<longleftrightarrow> (\<forall>e. r = Inl e \<longrightarrow> E e)"

definition raisesA :: "('e \<Rightarrow> bool) \<Rightarrow> ('s, 'e, 'a) act \<Rightarrow> bool" where
  "raisesA E m \<longleftrightarrow> (\<forall>s. raisesR E (fst (m s)))"

named_theorems raises_intros \<open>exceptions of a composition\<close>

lemma raisesR_basic [raises_intros]: "raisesR E (Inr x)" "E e \<Longrightarrow> raisesR E (Inl e)"
  by (simp_all add: raisesR_def)

lemma raisesR_bindR [raises_intros]: "raisesR E m \<Longrightarrow> (\<And>x. raisesR E (f x)) \<Longrightarrow> raisesR E (bindR m f)"
  by (auto simp: raisesR_def result_simps)

lemma raisesR_if [raises_intros]: "raisesR E r \<Longrightarrow> raisesR E q \<Longrightarrow> raisesR E (if c then r else q)"
  by simp

lemma raisesR_option [raises_intros]: "raisesR E r \<Longrightarrow> (\<And>x. raisesR E (f x)) \<Longrightarrow> raisesR E (case v of None \<Rightarrow> r | Some x \<Rightarrow> f x)"
  by (cases v) simp_all

lemma raisesR_prod [raises_intros]: "(\<And>x y. raisesR E (f x y)) \<Longrightarrow> raisesR E (case p of (x, y) \<Rightarrow> f x y)"
  by (cases p) simp

lemma raisesR_json [raises_intros]:
  "raisesR E a \<Longrightarrow> (\<And>x. raisesR E (b x)) \<Longrightarrow> (\<And>x. raisesR E (c x)) \<Longrightarrow> (\<And>x. raisesR E (d x)) \<Longrightarrow> (\<And>x. raisesR E (f x)) \<Longrightarrow>
    (\<And>x. raisesR E (g x)) \<Longrightarrow> raisesR E (case v of JNull \<Rightarrow> a | JBool x \<Rightarrow> b x | JNum x \<Rightarrow> c x | JStr x \<Rightarrow> d x | JArr x \<Rightarrow> f x | JObj x \<Rightarrow> g x)"
  by (cases v) simp_all

lemma raisesR_sum [raises_intros]: "(\<And>x. raisesR E (f x)) \<Longrightarrow> (\<And>x. raisesR E (g x)) \<Longrightarrow> raisesR E (case v of Inl x \<Rightarrow> f x | Inr x \<Rightarrow> g x)"
  by (cases v) simp_all

lemma raisesR_mapR [raises_intros]: "(\<And>x. raisesR E (f x)) \<Longrightarrow> raisesR E (mapR f xs)"
  by (induction xs) (auto intro: raises_intros)

lemma raisesA_basic [raises_intros]: "raisesA E (retA x)" "E e \<Longrightarrow> raisesA E (throwA e)" "raisesR E r \<Longrightarrow> raisesA E (liftR r)"
  by (simp_all add: raisesA_def raisesR_def)

lemma raisesA_bindA [raises_intros]: "raisesA E m \<Longrightarrow> (\<And>x. raisesA E (f x)) \<Longrightarrow> raisesA E (bindA m f)"
  by (auto simp: raisesA_def raisesR_def act_simps split: sum.splits)

lemma raisesA_catchA [raises_intros]: "(\<And>e. raisesA E (k e)) \<Longrightarrow> raisesA E (catchA m k)"
  by (auto simp: raisesA_def raisesR_def act_simps split: sum.splits)

lemma raisesA_attemptA [raises_intros]: "raisesA E (attemptA m)"
  by (simp add: raisesA_def raisesR_def attemptA_eq)

lemma raisesA_if [raises_intros]: "raisesA E m \<Longrightarrow> raisesA E n \<Longrightarrow> raisesA E (if c then m else n)"
  by simp

lemma raisesA_option [raises_intros]: "raisesA E m \<Longrightarrow> (\<And>x. raisesA E (f x)) \<Longrightarrow> raisesA E (case v of None \<Rightarrow> m | Some x \<Rightarrow> f x)"
  by (cases v) simp_all

lemma raisesA_prod [raises_intros]: "(\<And>x y. raisesA E (f x y)) \<Longrightarrow> raisesA E (case p of (x, y) \<Rightarrow> f x y)"
  by (cases p) simp

lemma raisesA_sum [raises_intros]: "(\<And>x. raisesA E (f x)) \<Longrightarrow> (\<And>x. raisesA E (g x)) \<Longrightarrow> raisesA E (case v of Inl x \<Rightarrow> f x | Inr x \<Rightarrow> g x)"
  by (cases v) simp_all

lemma raisesA_mapA [raises_intros]: "(\<And>x. raisesA E (f x)) \<Longrightarrow> raisesA E (mapA f xs)"
  by (induction xs) (auto intro: raises_intros)

subsection \<open>The codes\<close>

definition fixedCodes :: "(string \<times> nat) list" where
  "fixedCodes =
     [(''assistant_disabled'', 503), (''assistant_not_configured'', 503), (''auth_already_started'', 400), (''auth_already_started'', 409),
      (''authentication_required'', 401), (''body_required'', 400), (''body_too_large'', 413), (''choose_questions_only'', 403),
      (''citation_not_found'', 404), (''cleanup_pending'', 409), (''connection_already_active'', 409),
      (''control_connection_required'', 405), (''conversation_already_active'', 409), (''conversation_ended'', 410),
      (''conversation_limit'', 429), (''conversation_not_owned'', 403), (''database_access_denied'', 403),
      (''history_item_too_large'', 500), (''identity_changed'', 401), (''identity_changed'', 403), (''invalid_auth_state'', 403),
      (''invalid_cursor'', 400), (''invalid_delegation'', 401), (''invalid_delegation_expiry'', 403), (''invalid_delegation_key'', 403),
      (''invalid_delegation_target'', 403), (''json_required'', 415), (''not_found'', 404), (''partial_state_write'', 500),
      (''question_limit'', 429), (''rate_limit'', 429), (''request_id_reused'', 409), (''scope_not_allowed'', 403), (''stale_state'', 409),
      (''turn_in_progress'', 409), (''unsupported_wiki_api'', 503), (''wiki_read_denied'', 403)]"

definition fixedError :: "as_error \<Rightarrow> bool" where
  "fixedError e \<longleftrightarrow> (\<forall>code status. e = AssistantError code status \<longrightarrow> (code, status) \<in> set fixedCodes)"

lemma fixedError_other [raises_intros]: "fixedError ZodError" "fixedError JsonSyntaxError" "fixedError (Thrown m)"
  by (simp_all add: fixedError_def)

lemma fixedError_code [raises_intros]: "(code, status) \<in> set fixedCodes \<Longrightarrow> fixedError (AssistantError code status)"
  by (simp add: fixedError_def)

lemma fixed_storeError [raises_intros]: "(code, status) \<in> set fixedCodes \<Longrightarrow> raisesA fixedError (storeError code status)"
  unfolding storeError_def by (intro raises_intros)

lemma fixed_lifted [raises_intros]:
  "raisesR fixedError (liftSdk r)" "raisesR fixedError (liftIi r)" "raisesR fixedError (thrownText q)" "raisesR fixedError (settled a)"
  by (cases r; cases q; cases a; simp add: raisesR_def liftSdk_def liftIi_def thrownText_def settled_def fixedError_def)+

lemma fixed_host [raises_intros]: "raisesA fixedError (readHost f)"
  by (simp add: raisesA_def raisesR_def readHost_def)

lemma fixed_read: "(\<And>k. raisesR E (f k)) \<Longrightarrow> raisesA E (bindA (readHost f) liftR)"
  by (simp add: raisesA_def raisesR_def bindA_def readHost_def)

lemma fixed_d1 [raises_intros]:
  "raisesA fixedError (d1 h f)" "raisesA fixedError (selectD1 h q)" "raisesA fixedError (runD1 h g)"
proof -
  show d1: "raisesA fixedError (d1 h f)" for f :: "AsDb \<Rightarrow> string + ('x \<times> AsDb)"
    by (auto simp: raisesA_def raisesR_def d1_def Let_def fixedError_def split: D1Fault.splits sum.splits)
  show "raisesA fixedError (selectD1 h q)" "raisesA fixedError (runD1 h g)"
    unfolding selectD1_def runD1_def by (rule d1)+
qed

lemma fixed_storeKey [raises_intros]: "raisesR fixedError (storeKey h)"
  unfolding storeKey_def by (intro raises_intros) (simp_all add: fixedCodes_def)

lemma fixed_code [raises_intros]: "raisesA fixedError (encode h v context)" "raisesR fixedError (decode h dec text context)"
proof -
  show "raisesA fixedError (encode h v context)" unfolding encode_def encodeAt_def by (intro fixed_read) (intro raises_intros)
  show "raisesR fixedError (decode h dec text context)" unfolding decode_def by (intro raises_intros)
qed

lemma fixed_load [raises_intros]: "raisesA fixedError (load h who includeMessages)"
  unfolding load_def storedConversation_def storedMessage_def storedCleanup_def by (intro raises_intros)

lemma fixed_save [raises_intros]: "raisesA fixedError (save h who revision state n fence)"
  unfolding save_def encodeMessage_def Let_def by (intro raises_intros) (simp_all add: fixedCodes_def)

lemma fixed_statements [raises_intros]:
  "raisesA fixedError (requestEnd h who authId ident stopped)" "raisesA fixedError (touch h who ident)"
  "raisesA fixedError (schedule h who ident revision n)"
  unfolding requestEnd_def touch_def schedule_def by (intro raises_intros)+

lemma fixed_pageLoop [raises_intros]: "raisesR fixedError (pageLoop cursor amount es consumed p)"
  by (induction cursor amount es consumed p rule: pageLoop.induct) (auto simp: Let_def fixedCodes_def intro!: raises_intros)

lemma fixed_pages [raises_intros]:
  "raisesR fixedError (memoryPage c backing revision cursor)" "raisesA fixedError (historyPage h who c revision cursor backing)"
proof -
  have bounded: "raisesR fixedError (boundedHistoryPage revision cursor amount entries)" for amount entries
    unfolding boundedHistoryPage_def by (intro raises_intros) (simp_all add: fixedCodes_def)
  then show "raisesR fixedError (memoryPage c backing revision cursor)"
    unfolding memoryPage_def Let_def by (intro raises_intros bounded) (simp_all add: fixedCodes_def)
  show "raisesA fixedError (historyPage h who c revision cursor backing)"
    unfolding historyPage_def historyFrom_def storedMessage_def viewUnchanged_def
    by (intro raises_intros bounded) (simp_all add: fixedCodes_def)
qed

subsection \<open>Sign-in\<close>

lemma fixed_records [raises_intros]:
  "raisesA fixedError (storedAuth st i)" "raisesA fixedError (insertAuth st r)" "raisesA fixedError (saveAuth st r expected)"
  "raisesA fixedError (claimAuth st i)" "raisesA fixedError (deleteAuth st i)"
  unfolding storedAuth_def insertAuth_def saveAuth_def claimAuth_def deleteAuth_def rowAuth_def
  by (intro raises_intros; simp add: fixedCodes_def)+

lemma fixed_enabled [raises_intros]: "raisesR fixedError (requireEnabled h)" "raisesR fixedError (configured h)"
proof -
  show enabled: "raisesR fixedError (requireEnabled h)"
    unfolding requireEnabled_def by (intro raises_intros) (simp_all add: fixedCodes_def)
  show "raisesR fixedError (configured h)"
    unfolding configured_def by (intro raises_intros enabled) (simp_all add: fixedCodes_def)
qed

lemma fixed_values [raises_intros]:
  "raisesA fixedError (encrypted st v context)" "raisesR fixedError (decrypted st e context)" "raisesR fixedError (restoredKey h x context)"
proof -
  show "raisesA fixedError (encrypted st v context)" unfolding encrypted_def by (intro fixed_read) (intro raises_intros)
  show "raisesR fixedError (decrypted st e context)" "raisesR fixedError (restoredKey h x context)"
    unfolding decrypted_def restoredKey_def by (intro raises_intros)+
qed

lemma fixed_authRecord [raises_intros]: "raisesA fixedError (authRecord h self token)"
  unfolding authRecord_def by (intro raises_intros) (simp_all add: fixedCodes_def)

lemma fixed_start [raises_intros]: "raisesA fixedError (beginNative h self ident databaseId expected)"
  unfolding beginNative_def begin_auth_def Let_def by (intro raises_intros) (simp_all add: fixedCodes_def)

lemma fixed_someTarget [raises_intros]: "raisesR fixedError (someTarget parse canister ts)"
  by (induction ts) (auto simp: fromText_def intro!: raises_intros)

lemma fixed_earliest [raises_intros]: "raisesR fixedError (earliestExpiry parse canister now hs least)"
proof (induction hs arbitrary: least)
  case (Cons h hs)
  have "raisesR fixedError (hopAllowed parse canister now h)"
    unfolding hopAllowed_def Let_def by (intro raises_intros) (simp_all add: fixedCodes_def)
  then show ?case unfolding earliestExpiry.simps by (intro raises_intros Cons.IH)
qed (simp add: raisesR_def)

lemma fixed_delegation [raises_intros]:
  "raisesR fixedError (nativeDelegation d v requestId key origin canister maxExpiry now)"
proof -
  have "raisesR fixedError (responseSchema v)" unfolding responseSchema_def by (intro raises_intros)
  then show ?thesis
    unfolding nativeDelegation_def assembleNative_def signedHop_def fromText_def
    by (intro raises_intros) (simp_all add: fixedCodes_def)
qed

lemma fixed_complete [raises_intros]: "raisesA fixedError (completeNative h self token state response)"
proof -
  have "raisesA fixedError (claimedNative h self r native response)" for r native
    unfolding claimedNative_def Let_def by (intro raises_intros) (simp_all add: fixedCodes_def)
  then show ?thesis
    unfolding completeNative_def by (intro raises_intros) (simp_all add: fixedCodes_def)
qed

lemma fixed_material [raises_intros]:
  "raisesA fixedError (material h self)" "raisesA fixedError (authorize_token h self token)" "raisesA fixedError (revoke h self token)"
  "raisesA fixedError (ownerForCleanup h self token)"
proof -
  show material: "raisesA fixedError (material h self)"
    unfolding material_def loadMaterial_def renewedMaterial_def cachedMaterial_def Let_def
    by (intro raises_intros) (simp_all add: fixedCodes_def)
  show "raisesA fixedError (authorize_token h self token)" "raisesA fixedError (revoke h self token)"
    "raisesA fixedError (ownerForCleanup h self token)"
    unfolding authorize_token_def revoke_def ownerForCleanup_def by (intro raises_intros material)+
qed

lemma fixed_identity [raises_intros]: "raisesA fixedError (userIdentity h c)"
  unfolding userIdentity_def
  by (intro raises_intros) (auto simp: fixedCodes_def intro!: raises_intros split: json.split list.split)

subsection \<open>The object\<close>

lemma fixed_object [raises_intros]:
  "raisesA fixedError (saveObject st u)" "raisesA fixedError (endOwnedObject st authId conversationId u)"
  "raisesA fixedError (initialize st who includeMessages fence)" "raisesA fixedError (claimLease st scope ident)"
proof -
  show saved: "raisesA fixedError (saveObject st u)" for u
    unfolding saveObject_def Let_def by (intro raises_intros) (simp_all add: fixedCodes_def)
  show ended: "raisesA fixedError (endOwnedObject st authId conversationId u)" for authId conversationId u
    unfolding endOwnedObject_def Let_def by (intro raises_intros saved)
  show "raisesA fixedError (initialize st who includeMessages fence)"
    unfolding initialize_def Let_def by (intro raises_intros ended)
  show "raisesA fixedError (claimLease st scope ident)"
    unfolding claimLease_def by (intro raises_intros)
qed

lemma fixed_reading:
  assumes "\<And>actor r. raisesA fixedError (f actor r)"
  shows "raisesA fixedError (reading h c f)"
proof -
  have "raisesR fixedError (fst (f actor r x))" for actor r x using assms by (simp add: raisesA_def)
  then show ?thesis unfolding reading_def by (intro raisesA_bindA fixed_identity fixed_read)
qed

lemma fixed_reader:
  "raisesA fixedError (readNodeA actor databaseId path)" "raisesA fixedError (authorize actor r)" "raisesA fixedError (manifest actor r)"
proof -
  have call: "raisesA fixedError (callA ev g)" if "\<And>k. raisesR fixedError (g k)" for ev and g :: "nat \<Rightarrow> as_error + 'x"
    using that by (simp add: raisesA_def callA_def)
  have unwrapped: "raisesR fixedError (unwrap x)" for x :: "string + 'x"
    unfolding unwrap_def by (intro raises_intros) (simp add: fixedCodes_def)
  show node: "raisesA fixedError (readNodeA actor databaseId path)" for databaseId path
    unfolding readNodeA_def by (intro call raises_intros)
  show auth: "raisesA fixedError (authorize actor r)"
    unfolding authorize_def unwrap_def by (intro raises_intros node) (simp add: fixedCodes_def)
  show "raisesA fixedError (manifest actor r)"
    unfolding manifest_def manifestA_def assistantError_def unwrap_def
    by (intro raises_intros auth call) (simp_all add: fixedCodes_def)
qed

lemma fixed_readJson [raises_intros]: "raisesR fixedError (readJson decodeText request)"
proof -
  have "raisesR fixedError (readBody chunks n got)" for chunks n got
    by (induction chunks n got rule: readBody.induct) (auto simp: fixedCodes_def intro!: raises_intros)
  then show ?thesis unfolding readJson_def by (intro raises_intros) (simp_all add: fixedCodes_def)
qed

lemma fixed_schemas [raises_intros]:
  "raisesR fixedError (conversationInput native v)" "raisesR fixedError (questionSchema isUuid v)" "raisesR fixedError (citationInput h v)"
  "raisesR fixedError (startInput v)" "raisesR fixedError (completeInput v)"
  unfolding conversationInput_def questionSchema_def citationInput_def startInput_def completeInput_def
  by (intro raises_intros)+

lemma fixed_requester [raises_intros]: "raisesR fixedError (requester u request)"
  unfolding requester_def by (intro raises_intros) (simp_all add: fixedCodes_def)

lemma fixed_enqueue: "raisesA fixedError (enqueue attached today activity started input delegationId c)"
  by (auto simp: raisesA_def raisesR_def enqueue_def Let_def fixedError_def fixedCodes_def split: option.split)

lemma fixed_question [raises_intros]: "raisesA fixedError (askQuestion h u c request)"
proof -
  have taken: "raisesA fixedError (case enqueue True today activity started input None c (uo_state u) of
          (Inl e, _) \<Rightarrow> throwA e
        | (Inr False, _) \<Rightarrow> retA (snapshotReply u 202, u)
        | (Inr True, s) \<Rightarrow> bindA (saveObject (storeOf h) (u \<lparr>uo_state := s\<rparr>)) (\<lambda>u. retA (snapshotReply u 202, u)))" for today activity started input
  proof (cases "enqueue True today activity started input None c (uo_state u)")
    case (Pair r s)
    then have "raisesR fixedError r" using fixed_enqueue by (metis fst_conv raisesA_def)
    then show ?thesis unfolding Pair by (cases r) (auto simp: raisesR_def intro!: raises_intros split: bool.split)
  qed
  show ?thesis unfolding askQuestion_def Let_def by (intro raisesA_bindA taken) (intro raises_intros)+
qed

lemma fixed_conversation [raises_intros]: "raisesA fixedError (conversationRoute h u c request)"
proof -
  have "raisesA fixedError (conversationReply h u c request)"
    unfolding conversationReply_def Let_def by (intro raises_intros) (auto intro!: raises_intros split: json.split)
  moreover have "raisesA fixedError (historyReply h u c request)"
    unfolding historyReply_def Let_def by (intro raises_intros) (simp_all add: fixedCodes_def)
  moreover have "raisesA fixedError (citationReply h u c request)"
    unfolding citationReply_def unwrap_def by (intro raises_intros fixed_reading fixed_reader) (simp_all add: fixedCodes_def)
  moreover have "raisesA fixedError (openControl h u c)"
    unfolding openControl_def by (intro raises_intros) (simp add: fixedCodes_def)
  ultimately show ?thesis
    unfolding conversationRoute_def by (intro raises_intros) (simp_all add: fixedCodes_def)
qed

lemma fixed_handle [raises_intros]: "raisesA fixedError (objectHandle h u request)"
proof -
  have "raisesA fixedError (startConversation h v request who authId)" for v who authId
    unfolding startConversation_def installConversation_def Let_def
    by (intro raises_intros fixed_reading fixed_reader) (auto simp: fixedCodes_def intro!: raises_intros)
  moreover have "raisesA fixedError (ownedRoute h v c request authId)" for v c authId
    unfolding ownedRoute_def Let_def seenObject_def
    by (intro raises_intros fixed_reading fixed_reader) (simp_all add: fixedCodes_def)
  ultimately show ?thesis
    unfolding objectHandle_def Let_def by (intro raises_intros) (simp_all add: fixedCodes_def)
qed

subsection \<open>The routes\<close>

lemma fixed_route: "raisesA fixedError (route w request receivedAt)"
proof -
  have ended: "raisesA fixedError (endConversation w who authId conversationId)" for who authId conversationId
    unfolding endConversation_def by (intro raises_intros)
  have start: "raisesA fixedError (startRoute w request)"
    unfolding startRoute_def Let_def by (intro raises_intros) (simp_all add: fixedCodes_def)
  have finish: "raisesA fixedError (completeRoute w request ident token)" for ident token
    unfolding completeRoute_def by (intro raises_intros)
  have logout: "raisesA fixedError (logoutRoute w ident token receivedAt)" for ident token
    unfolding logoutRoute_def by (intro raises_intros)
  have stop: "raisesA fixedError (endRoute w request ident token receivedAt)" for ident token
    unfolding endRoute_def by (intro raises_intros ended) (simp_all add: fixedCodes_def)
  have forward: "raisesA fixedError (forwardRoute w request a receivedAt)" for a
    unfolding forwardRoute_def objectFetch_def Let_def by (intro raises_intros)
  have "raisesA fixedError (sessionRoute w request ident token receivedAt)" for ident token
    unfolding sessionRoute_def authorizedRoute_def Let_def
    by (intro raises_intros finish logout stop forward) (simp_all add: fixedCodes_def)
  then show ?thesis
    unfolding route_def Let_def by (intro raises_intros start) (simp_all add: fixedCodes_def)
qed

end
