(* ===== verification/Assistant_SignIn.thy ===== *)
theory Assistant_SignIn
  imports Assistant_Auth Assistant_Saves
begin

section \<open>Assistant worker: the steps of a sign-in\<close>

text \<open>
  Records of sign-ins round trip through their rows. The statements of all executions are steps on the record of
  one sign-in; along them its phase only advances, from pending over claimed to active and then to deleted. An
  accepted delegation restores to its identity until it expires.
\<close>

subsection \<open>Records and rows\<close>

interpretation native_auth_form: json_form nativeAuthJson nativeAuthOf "\<lambda>_. True"
proof
  fix x show "nativeAuthOf (nativeAuthJson x) = Some x"
    by (simp add: nativeAuthOf_def nativeAuthJson_def needProp_def text_form.reads nat_form.reads)
  show "wfJson (nativeAuthJson x)" unfolding nativeAuthJson_def by (rule wfJson_jsObject) (simp_all add: nat_form.wf)
qed (simp add: nativeAuthJson_def)

interpretation auth_form: json_form authJson authOf "\<lambda>_. True"
proof
  fix x show "authOf (authJson x) = Some x"
    by (simp add: authOf_def authJson_def needProp_def text_form.form_reads nat_form.reads encrypted_form.form_reads native_auth_form.form_reads)
  show "wfJson (authJson x)" unfolding authJson_def
    by (rule wfJson_jsObject) (simp_all add: nat_form.wf encrypted_form.form_wf text_form.null_wf native_auth_form.wf)
qed (simp add: authJson_def)

lemma rowAuth_authRow [simp]: "rowAuth (authRow r) = Inr r"
  by (simp add: rowAuth_def authRow_def JSON_parse_stringify auth_form.wf auth_form.reads)

subsection \<open>Steps on a sign-in\<close>

text \<open>
  The statements of other executions as seen by the sign-in \<open>ident\<close>: \<open>crypto.randomUUID\<close> gives its identifier to no
  other one, and the save of \<open>beginNative\<close> comes before the token is handed out, while the record is pending.
\<close>

definition signIn :: "string \<Rightarrow> AsDb \<Rightarrow> AuthRow option" where
  "signIn ident db = byKey ax_id ident (db_auth db)"

inductive authStep :: "string \<Rightarrow> AsDb \<Rightarrow> AsDb \<Rightarrow> bool" for ident where
  untouched: "authStep ident db db'" if "signIn ident db' = signIn ident db" and "keyed ax_id (db_auth db) \<Longrightarrow> keyed ax_id (db_auth db')"
| prepare: "authStep ident db (snd (saveAuthStmt new now expected db))"
    if "ax_phase new = ''pending''" and "\<And>r. signIn ident db = Some r \<Longrightarrow> ax_id new = ident \<Longrightarrow> ax_phase r = ''pending''"
| claim: "authStep ident db (snd (claimAuthStmt i now db))"
| activate: "authStep ident db (snd (saveAuthStmt new now expected db))" if "ax_phase new = ''active''"
| delete: "authStep ident db (deleteAuthStmt i db)"
| expire: "authStep ident db (expireAuthStmt now db)"

definition authInv :: "AsDb \<Rightarrow> bool" where
  "authInv db \<longleftrightarrow> keyed ax_id (db_auth db)"

definition rank :: "AuthRow option \<Rightarrow> nat" where
  "rank r = (case r of None \<Rightarrow> 3 | Some r \<Rightarrow> if ax_phase r = ''pending'' then 0 else if ax_phase r = ''claiming'' then 1 else 2)"

definition authAdv :: "string \<Rightarrow> AsDb \<Rightarrow> AsDb \<Rightarrow> bool" where
  "authAdv ident db db' \<longleftrightarrow> rank (signIn ident db) \<le> rank (signIn ident db')"

interpretation saved_auth: row_update ax_id "\<lambda>r. r \<lparr>ax_phase := ax_phase new, ax_expires_at := ax_expires_at new, ax_data := ax_data new\<rparr>" for new
  by unfold_locales simp

interpretation claimed_auth: row_update ax_id "\<lambda>r. r \<lparr>ax_phase := ''claiming''\<rparr>"
  by unfold_locales simp

lemma rank_bounds: "rank (Some r) \<le> 2" "rank None = 3" "rank x \<le> 3"
  by (auto simp: rank_def split: option.split)

lemma signIn_saved:
  "signIn ident (snd (saveAuthStmt new now expected db)) = map_option (\<lambda>r. if saveAuthWhere new now expected r
     then r \<lparr>ax_phase := ax_phase new, ax_expires_at := ax_expires_at new, ax_data := ax_data new\<rparr> else r) (signIn ident db)"
  by (simp add: signIn_def saveAuthStmt_def saved_auth.byKey_update)

lemma signIn_claimed:
  "signIn ident (snd (claimAuthStmt i now db)) =
     map_option (\<lambda>r. if claimAuthWhere i now r then r \<lparr>ax_phase := ''claiming''\<rparr> else r) (signIn ident db)"
  by (simp add: signIn_def claimAuthStmt_def claimed_auth.byKey_update)

lemma signIn_deleted:
  assumes "authInv db"
  shows "signIn ident (deleteAuthStmt i db) = (if i = ident then None else signIn ident db)"
    and "signIn ident (expireAuthStmt now db) \<in> {None, signIn ident db}"
  using assms
  by (auto simp: signIn_def deleteAuthStmt_def expireAuthStmt_def byKey_deleteWhere authInv_def split: option.split dest: byKey_Some_D)

lemma keyed_auth:
  "authInv (snd (saveAuthStmt new now expected db)) = authInv db" "authInv (snd (claimAuthStmt i now db)) = authInv db"
  "authInv db \<Longrightarrow> authInv (deleteAuthStmt i db)" "authInv db \<Longrightarrow> authInv (expireAuthStmt now db)"
  by (simp_all add: authInv_def saveAuthStmt_def claimAuthStmt_def deleteAuthStmt_def expireAuthStmt_def saved_auth.keyed_update
      claimed_auth.keyed_update keyed_deleteWhere)

lemma authStep_inv: "authStep ident db db' \<Longrightarrow> authInv db \<Longrightarrow> authInv db'"
  by (induction rule: authStep.induct) (simp_all only: keyed_auth, simp add: authInv_def)

lemma authStep_adv: "authStep ident db db' \<Longrightarrow> authInv db \<Longrightarrow> authAdv ident db db'"
proof (induction rule: authStep.induct)
  case (prepare new db now expected)
  then show ?case unfolding authAdv_def signIn_saved
    by (cases "signIn ident db") (auto simp: rank_def saveAuthWhere_def signIn_def dest: byKey_Some_D)
next
  case (claim db i now)
  then show ?case unfolding authAdv_def signIn_claimed by (cases "signIn ident db") (auto simp: rank_def claimAuthWhere_def)
next
  case (activate new db now expected)
  then show ?case unfolding authAdv_def signIn_saved by (cases "signIn ident db") (auto simp: rank_def)
next
  case (delete db i)
  then show ?case using rank_bounds(3) [of "signIn ident db"] by (simp add: authAdv_def signIn_deleted rank_bounds(2))
next
  case (expire db now)
  then show ?case using rank_bounds(3) [of "signIn ident db"] signIn_deleted(2) [OF expire, of ident now]
    by (auto simp: authAdv_def rank_bounds(2))
qed (simp add: authAdv_def)

interpretation signing: guarded_system "authStep ident" authInv "authAdv ident" for ident
  proof
  show "authInv s \<Longrightarrow> authStep ident s t \<Longrightarrow> authInv t" for s t by (rule authStep_inv)
  show "authInv s \<Longrightarrow> authStep ident s t \<Longrightarrow> authAdv ident s t" for s t by (rule authStep_adv)
qed (simp_all add: authAdv_def)

subsection \<open>The handlers are such steps\<close>

definition authRuns :: "string \<Rightarrow> StState \<Rightarrow> StState \<Rightarrow> bool" where
  "authRuns ident s t \<longleftrightarrow> (authStep ident)\<^sup>*\<^sup>* (sd_db s) (sd_db t)"

definition authHost :: "string \<Rightarrow> StHost \<Rightarrow> bool" where
  "authHost ident h \<longleftrightarrow> (\<forall>k db. (authStep ident)\<^sup>*\<^sup>* db (dh_others h k db))"

interpretation auth_moves: preorder_moves "authRuns ident" for ident
  by unfold_locales (auto simp: authRuns_def)

lemma readHost_runs: "movesA (authRuns ident) (readHost f)"
  by (simp add: movesA_def readHost_def authRuns_def)

lemma encrypted_runs: "movesA (authRuns ident) (encrypted h v context)"
  unfolding encrypted_def by (intro auth_moves.moves readHost_runs)

lemma d1_authRuns:
  assumes "authHost ident h" and "\<And>db x db'. f db = Inr (x, db') \<Longrightarrow> (authStep ident)\<^sup>*\<^sup>* db db'"
  shows "movesA (authRuns ident) (d1 h f)"
proof (rule movesA_I)
  fix s :: StState
  have "(authStep ident)\<^sup>*\<^sup>* (sd_db s) (dh_others h (sd_k s) (sd_db s))" using assms(1) by (simp add: authHost_def)
  then show "authRuns ident s (snd (d1 h f s))"
    by (auto simp: authRuns_def d1_def Let_def split: D1Fault.split sum.split dest: assms(2))
qed

lemma store_runs:
  assumes "authHost ident h"
  shows "movesA (authRuns ident) (storedAuth h i)" and "movesA (authRuns ident) (claimAuth h i)" and "movesA (authRuns ident) (deleteAuth h i)"
    and "ad_phase r = ''active'' \<Longrightarrow> movesA (authRuns ident) (saveAuth h r expected)"
proof -
  show "movesA (authRuns ident) (storedAuth h i)"
    unfolding storedAuth_def selectD1_def by (intro auth_moves.moves d1_authRuns [OF assms]) auto
  show "movesA (authRuns ident) (claimAuth h i)"
    unfolding claimAuth_def
    by (intro auth_moves.moves readHost_runs d1_authRuns [OF assms]) (metis Inr_inject snd_conv authStep.claim r_into_rtranclp)
  show "movesA (authRuns ident) (deleteAuth h i)"
    unfolding deleteAuth_def runD1_def by (intro d1_authRuns [OF assms]) (auto intro: r_into_rtranclp authStep.delete)
  assume "ad_phase r = ''active''"
  then have "ax_phase (authRow r) = ''active''" by (simp add: authRow_def)
  then have "(authStep ident)\<^sup>*\<^sup>* db (snd (saveAuthStmt (authRow r) now expected db))" for db now
    by (intro r_into_rtranclp authStep.activate)
  then show "movesA (authRuns ident) (saveAuth h r expected)"
    unfolding saveAuth_def storeError_def by (intro auth_moves.moves readHost_runs d1_authRuns [OF assms]) (metis Inr_inject snd_conv)
qed

lemma authRecord_runs: "authHost ident (ah_store h) \<Longrightarrow> movesA (authRuns ident) (authRecord h self token)"
  unfolding authRecord_def storeError_def by (intro auth_moves.moves readHost_runs store_runs)

lemma completeNative_runs:
  assumes "authHost ident (ah_store h)"
  shows "movesA (authRuns ident) (claimedNative h self r native response)"
    and "movesA (authRuns ident) (completeNative h self token state response)"
proof -
  show claimed: "movesA (authRuns ident) (claimedNative h self r native response)" for r native
    unfolding claimedNative_def storeError_def Let_def split_def
    by (intro auth_moves.moves readHost_runs encrypted_runs store_runs [OF assms]) simp
  show "movesA (authRuns ident) (completeNative h self token state response)"
    unfolding completeNative_def storeError_def
    by (intro auth_moves.moves claimed authRecord_runs store_runs assms)
qed

lemma complete_runs:
  assumes "authHost ident (ah_store h)"
  shows "movesA (authRuns ident) (complete h self token state delegation)"
proof -
  have claimed: "movesA (authRuns ident) (claimedWeb h self r stored delegation)" for r stored
    unfolding claimedWeb_def storeError_def Let_def split_def
    by (intro auth_moves.moves readHost_runs encrypted_runs store_runs [OF assms]) simp
  show ?thesis
    unfolding complete_def storeError_def by (intro auth_moves.moves claimed authRecord_runs store_runs assms)
qed

lemma material_runs:
  assumes "authHost ident (ah_store h)"
  shows "movesA (authRuns ident) (material h self)" and "movesA (authRuns ident) (authorize_token h self token)"
    and "movesA (authRuns ident) (revoke h self token)"
proof -
  have renewed: "movesA (authRuns ident) (renewedMaterial h self r)" if "ad_phase r = ''active''" for r
    unfolding renewedMaterial_def storeError_def Let_def split_def
    using that by (intro auth_moves.moves readHost_runs encrypted_runs store_runs [OF assms]) simp_all
  have cached: "movesA (authRuns ident) (cachedMaterial h r v)" for r v
    unfolding cachedMaterial_def by (intro auth_moves.moves readHost_runs)
  have "movesA (authRuns ident) (if ad_phase r \<noteq> ''active'' \<or> \<not> present (ad_principal r) then storeError ''authentication_required'' 401
       else
         bindA (readHost (dh_now (ah_store h))) (\<lambda>now.
         bindA (case ad_cached r of
                  None \<Rightarrow> renewedMaterial h self r
                | Some v \<Rightarrow>
                    if ad_cachedUntil r > now + (if ad_native r = None then 30000 else 0) then cachedMaterial h r v
                    else renewedMaterial h self r) (\<lambda>material.
           retA (authorizationOf r (the (ad_principal r)) material))))" for r
  proof (cases "ad_phase r = ''active''")
    case True
    show ?thesis
      unfolding storeError_def by (intro auth_moves.moves readHost_runs renewed [OF True] cached)
  qed (simp add: storeError_def auth_moves.moves)
  then have load: "movesA (authRuns ident) (loadMaterial h self)"
    unfolding loadMaterial_def by (intro auth_moves.moves_bindA authRecord_runs assms)
  then show mat: "movesA (authRuns ident) (material h self)"
    unfolding material_def by (intro auth_moves.moves)
  then show "movesA (authRuns ident) (authorize_token h self token)"
    unfolding authorize_token_def by (intro auth_moves.moves authRecord_runs assms)
  show "movesA (authRuns ident) (revoke h self token)"
    unfolding revoke_def by (intro auth_moves.moves authRecord_runs store_runs assms)
qed

subsection \<open>A sign-in completes at most once\<close>

lemma claim_changes:
  assumes "authInv db"
  shows "fst (claimAuthStmt self now db) = (case signIn self db of None \<Rightarrow> 0 | Some r \<Rightarrow> if claimAuthWhere self now r then 1 else 0)"
  using changesWhere_keyed [OF assms [unfolded authInv_def], of "claimAuthWhere self now" self]
  by (simp add: claimAuthStmt_def signIn_def claimAuthWhere_def)

lemma claimed_rank:
  assumes "authInv db" and "fst (claimAuthStmt self now db) = 1"
  shows "1 \<le> rank (signIn self (snd (claimAuthStmt self now db)))"
  using assms(2) unfolding claim_changes [OF assms(1)] signIn_claimed
  by (cases "signIn self db") (simp_all add: rank_def split: if_splits)

lemma no_further_claim:
  assumes "authInv db" and "1 \<le> rank (signIn self db)"
  shows "fst (claimAuthStmt self now db) = 0"
  using assms(2) unfolding claim_changes [OF assms(1)]
  by (cases "signIn self db") (simp_all add: rank_def claimAuthWhere_def split: if_splits)

lemma storedAuth_phase:
  assumes "storedAuth h self s = (Inr found, t)" and "authHost ident h"
  shows "sd_db t = dh_others h (sd_k s) (sd_db s)"
    and "\<And>r. found = Some r \<Longrightarrow> \<exists>row. signIn self (sd_db t) = Some row \<and> rowAuth row = Inr r \<and> ad_phase r = ax_phase row"
    and "found = None \<Longrightarrow> signIn self (sd_db t) = None"
proof -
  from assms(1) obtain row where row: "selectD1 h (\<lambda>db. byKey ax_id self (db_auth db)) s = (Inr row, t)"
    and found: "(case row of None \<Rightarrow> Inr None | Some r \<Rightarrow> bindR (rowAuth r) (\<lambda>x. Inr (Some x))) = Inr found"
    by (auto simp: storedAuth_def elim!: bindA_Inr_E)
  from d1_ran [OF row [unfolded selectD1_def]] have t: "row = byKey ax_id self (db_auth (sd_db t))"
    "sd_db t = dh_others h (sd_k s) (sd_db s)" by auto
  show "sd_db t = dh_others h (sd_k s) (sd_db s)" by (fact t(2))
  have phase: "rowAuth row = Inr r \<Longrightarrow> ad_phase r = ax_phase row" for row r
    by (auto simp: rowAuth_def split: option.splits)
  show "\<And>r. found = Some r \<Longrightarrow> \<exists>row. signIn self (sd_db t) = Some row \<and> rowAuth row = Inr r \<and> ad_phase r = ax_phase row"
    using found t(1) phase by (auto simp: signIn_def result_simps split: option.splits)
  show "found = None \<Longrightarrow> signIn self (sd_db t) = None"
    using found t(1) by (auto simp: signIn_def result_simps split: option.splits)
qed

lemma authRecord_Inr:
  assumes "authRecord h self token s = (Inr r, t)" and "authHost ident (ah_store h)"
  obtains row now where "signIn self (sd_db t) = Some row" and "rowAuth row = Inr r" and "ad_phase r = ax_phase row"
    and "sd_db t = dh_others (ah_store h) (sd_k s) (sd_db s)" and "now < ad_expiresAt r"
    and "\<And>x. token = Some x \<Longrightarrow> ad_tokenHash r = sha256 (dh_crypto (ah_store h)) x"
proof -
  from assms(1) obtain found s1 where s1: "storedAuth (ah_store h) self s = (Inr found, s1)" and
    rest: "(case found of None \<Rightarrow> storeError ''authentication_required'' 401
       | Some r \<Rightarrow> bindA (readHost (dh_now (ah_store h))) (\<lambda>now.
             if ad_expiresAt r \<le> now \<or> (case token of None \<Rightarrow> False | Some t \<Rightarrow> \<not> secretEquals (dh_crypto (ah_store h)) (ad_tokenHash r) t)
             then storeError ''authentication_required'' 401 else retA r)) s1 = (Inr r, t)"
    unfolding authRecord_def by (elim bindA_Inr_E) blast
  from rest have found: "found = Some r" "sd_db t = sd_db s1" "\<exists>now. now < ad_expiresAt r"
    "\<And>x. token = Some x \<Longrightarrow> ad_tokenHash r = sha256 (dh_crypto (ah_store h)) x"
    by (auto simp: storeError_def readHost_def act_simps secretEquals_iff not_le split: option.splits if_splits
        intro!: exI [of _ "dh_now (ah_store h) (sd_k s1)"])
  from storedAuth_phase(1) [OF s1 assms(2)] storedAuth_phase(2) [OF s1 assms(2) found(1)] found that show thesis by auto
qed

lemma claimAuth_True:
  assumes "claimAuth h self s = (Inr True, t)" and "authHost self h"
  obtains now db where "(authStep self)\<^sup>*\<^sup>* (sd_db s) db" and "claimAuthStmt self now db = (1, sd_db t)"
proof -
  from assms(1) obtain now s1 changes where s1: "readHost (dh_now h) s = (Inr now, s1)"
    and d: "d1 h (\<lambda>db. Inr (claimAuthStmt self now db)) s1 = (Inr changes, t)" and "changes = 1"
    unfolding claimAuth_def by (auto elim!: bindA_Inr_E)
  moreover have "sd_db s1 = sd_db s" using s1 by (auto simp: readHost_def)
  ultimately show thesis
    using d1_ran [OF d] assms(2) by (intro that [of "dh_others h (sd_k s1) (sd_db s1)" now]) (simp_all add: authHost_def)
qed

lemma completeNative_Inr:
  assumes "completeNative h self token state response s = (Inr a, t)"
  obtains r native s1 s2 where "authRecord h self (Some token) s = (Inr r, s1)" and "ad_native r = Some native" and "ad_phase r = ''pending''"
    and "ad_stateHash r = sha256 (dh_crypto (ah_store h)) state" and "claimAuth (ah_store h) self s1 = (Inr True, s2)"
    and "claimedNative h self r native response s2 = (Inr a, t)"
proof -
  from assms obtain r s1 where r: "authRecord h self (Some token) s = (Inr r, s1)" and
    rest: "(case ad_native r of None \<Rightarrow> storeError ''invalid_auth_state'' 403
       | Some native \<Rightarrow>
           if ad_phase r \<noteq> ''pending'' \<or> \<not> secretEquals (dh_crypto (ah_store h)) (ad_stateHash r) state
           then storeError ''invalid_auth_state'' 403
           else bindA (claimAuth (ah_store h) self) (\<lambda>claimed.
               if \<not> claimed then storeError ''invalid_auth_state'' 403 else claimedNative h self r native response)) s1 = (Inr a, t)"
    unfolding completeNative_def by (elim bindA_Inr_E)
  from rest obtain native where native: "ad_native r = Some native" "ad_phase r = ''pending''"
      "ad_stateHash r = sha256 (dh_crypto (ah_store h)) state"
    and "bindA (claimAuth (ah_store h) self) (\<lambda>claimed.
      if \<not> claimed then storeError ''invalid_auth_state'' 403 else claimedNative h self r native response) s1 = (Inr a, t)"
    by (auto simp: storeError_def secretEquals_iff split: option.splits if_splits)
  from this(4) obtain claimed s2 where "claimAuth (ah_store h) self s1 = (Inr claimed, s2)"
    and "(if \<not> claimed then storeError ''invalid_auth_state'' 403 else claimedNative h self r native response) s2 = (Inr a, t)"
    by (elim bindA_Inr_E)
  with r native that show thesis by (cases claimed) (simp_all add: storeError_def)
qed

lemma used_fails:
  assumes "authHost self (ah_store h)" and "authInv (sd_db s)" and "1 \<le> rank (signIn self (sd_db s))"
  shows "isl (fst (completeNative h self token state response s))"
proof (cases "completeNative h self token state response s")
  case (Pair result t)
  show ?thesis
  proof (cases result)
    case (Inr a)
    then obtain r native s1 s2 where r: "authRecord h self (Some token) s = (Inr r, s1)" "ad_phase r = ''pending''"
      using Pair completeNative_Inr by metis
    from r(1) assms(1) obtain row where row: "signIn self (sd_db s1) = Some row" "ad_phase r = ax_phase row"
      by (rule authRecord_Inr)
    have "(authStep self)\<^sup>*\<^sup>* (sd_db s) (sd_db s1)"
      using movesA_D [OF authRecord_runs [OF assms(1)] r(1)] by (simp add: authRuns_def)
    from signing.adv_run [OF this assms(2)] assms(3) row r(2) show ?thesis by (simp add: authAdv_def rank_def)
  qed (simp add: Pair)
qed

subsection \<open>A sign-in that ended never comes back\<close>

lemma deleted_rank: "rank x = 3 \<longleftrightarrow> x = None"
  using rank_bounds(1) by (cases x) (auto simp: rank_bounds(2) rank_def)

lemma ended_record:
  assumes "authHost self (ah_store h)" and "authInv (sd_db s)" and "signIn self (sd_db s) = None"
  shows "isl (fst (authRecord h self token s))"
proof (cases "authRecord h self token s")
  case (Pair result t)
  show ?thesis
  proof (cases result)
    case (Inr r)
    from authRecord_Inr [OF _ assms(1), of self token s r t] Pair Inr obtain row where "signIn self (sd_db t) = Some row" by metis
    moreover have "(authStep self)\<^sup>*\<^sup>* (sd_db s) (sd_db t)"
      using movesA_D [OF authRecord_runs [OF assms(1)] Pair] by (simp add: authRuns_def)
    from signing.adv_run [OF this assms(2)] have "rank (signIn self (sd_db t)) = 3"
      using assms(3) rank_bounds(3) [of "signIn self (sd_db t)"] by (simp add: authAdv_def rank_bounds(2))
    ultimately show ?thesis by (simp add: deleted_rank)
  qed (simp add: Pair)
qed

lemma bindA_fails: "isl (fst (m s)) \<Longrightarrow> isl (fst (bindA m f s))"
  by (cases "m s"; cases "fst (m s)") (auto simp: bindA_def)

subsection \<open>Restoring a native delegation\<close>

text \<open>
  What the code relies on of the SDK: keys and chains survive their JSON form, a chain has the expirations of its
  delegations, and it is valid while none of them has passed.
\<close>

definition nativeSdkOk :: "('key, 'chain, 'ident) DelegationSdk \<Rightarrow> bool" where
  "nativeSdkOk d \<longleftrightarrow>
     (\<forall>key. sdk_keyOf (ds_sdk d) (sdk_keyJson (ds_sdk d) key) = Inr key \<and> wfJson (sdk_keyJson (ds_sdk d) key)) \<and>
     (\<forall>chain. sdk_chainOf (ds_sdk d) (sdk_chainJson (ds_sdk d) chain) = Inr chain \<and> wfJson (sdk_chainJson (ds_sdk d) chain)) \<and>
     (\<forall>hops publicKey chain. ds_chain d hops publicKey = Inr chain \<longrightarrow> sdk_expirations (ds_sdk d) chain = map sd_expiration hops) \<and>
     (\<forall>now chain. (\<forall>e \<in> set (sdk_expirations (ds_sdk d) chain). now * 1000000 < e) \<longrightarrow> sdk_chainValid (ds_sdk d) (int now) chain)"

lemma min_div: "foldr min (map (\<lambda>n. n div 1000000) ns) (n div 1000000) = foldr min ns n div (1000000 :: nat)"
proof (induction ns)
  case (Cons m ns)
  then show ?case by (auto simp: min_def div_le_mono)
qed simp

lemma foldr_min_least:
  assumes "k \<in> set (n # ns)" and "\<And>m. m \<in> set (n # ns) \<Longrightarrow> k \<le> m"
  shows "foldr min ns n = (k :: nat)"
  using assms
proof (induction ns arbitrary: k)
  case (Cons m ns)
  have "foldr min ns n = Min (set (n # ns))"
    by (induction ns) (auto simp: insert_commute)
  moreover have "k = Min (set (n # m # ns))"
    using Cons.prems by (intro Min_eqI [symmetric]) auto
  ultimately show ?case by (simp add: insert_commute)
qed simp

lemma signedHops_expirations: "mapR (signedHop parse) hs = Inr hops \<Longrightarrow> map sd_expiration hops = map (\<lambda>h. decToNat (nh_expiration h)) hs"
  by (induction hs arbitrary: hops) (auto simp: result_simps signedHop_def)

lemma U64_in_range: "n \<le> U64_MAX \<Longrightarrow> nanosecondsToMilliseconds n = Inr (n div 1000000)"
  using div_le_mono [of n U64_MAX 1000000] by (simp add: nanosecondsToMilliseconds_def Let_def U64_MAX_def MAX_SAFE_INTEGER_def)

lemma delegationExpiresAt_least:
  assumes "k \<in> set ns" and "\<And>m. m \<in> set ns \<Longrightarrow> k \<le> m \<and> m \<le> U64_MAX"
  shows "delegationExpiresAt ns = Inr (Some (k div 1000000))"
proof -
  obtain n ms where ns: "ns = n # ms" using assms(1) by (cases ns) auto
  have "mapR nanosecondsToMilliseconds xs = Inr (map (\<lambda>n. n div 1000000) xs)" if "\<And>m. m \<in> set xs \<Longrightarrow> m \<le> U64_MAX" for xs
    using that by (induction xs) (simp_all add: U64_in_range)
  from this [of ns] assms(2) have "delegationExpiresAt ns = Inr (Some (foldr min (map (\<lambda>n. n div 1000000) ms) (n div 1000000)))"
    by (simp add: delegationExpiresAt_def ns)
  moreover have "foldr min ms n = k" using assms ns by (intro foldr_min_least) auto
  ultimately show ?thesis by (simp add: min_div)
qed

lemma native_restores:
  assumes "nativeDelegation d v requestId key origin canister maxExpiry now = Inr (identity, m)" and "nativeSdkOk d"
    and "now' < dm_expiresAt m"
  shows "restoreKinicIdentity (ds_sdk d) (int now') m origin (int now') = Inr identity" and "wfJson (materialJson m)"
proof -
  from assms(1) obtain response n where r: "responseSchema v = Inr response"
    and n: "earliestExpiry (ds_principalText d) canister now (nr_hops response) U64_MAX = Inr n"
    and a: "assembleNative d response key origin n = Inr (identity, m)"
    by (auto simp: nativeDelegation_def result_simps split: if_splits)
  from a obtain hops chain where c: "mapR (signedHop (ds_principalText d)) (nr_hops response) = Inr hops"
    "ds_chain d hops (bytesOf (nr_publicKey response)) = Inr chain" "sdk_identity (ds_sdk d) key chain = Inr identity"
    and m: "m = \<lparr>dm_version = 1, dm_targetOrigin = origin, dm_expiresAt = n div 1000000, dm_appKey = sdk_keyJson (ds_sdk d) key,
                dm_delegation = sdk_chainJson (ds_sdk d) chain\<rparr>"
    by (auto simp: assembleNative_def result_simps)
  have ex: "sdk_expirations (ds_sdk d) chain = map (\<lambda>h. decToNat (nh_expiration h)) (nr_hops response)"
    using assms(2) c(2) signedHops_expirations [OF c(1)] by (simp add: nativeSdkOk_def)
  note least = earliestExpiry_least [OF n]
  obtain h where "h \<in> set (nr_hops response)" "n = decToNat (nh_expiration h)"
    using least responseSchema_hops [OF r] by (metis hopWithin_def last_in_set order_antisym)
  then have "delegationExpiresAt (sdk_expirations (ds_sdk d) chain) = Inr (Some (n div 1000000))"
    unfolding ex using least by (intro delegationExpiresAt_least) (auto simp: hopWithin_def)
  moreover have "now' * 1000000 < n"
  proof -
    have "Suc now' \<le> n div 1000000" using assms(3) m by simp
    then have "Suc now' * 1000000 \<le> n" by (simp add: less_eq_div_iff_mult_less_eq)
    then show ?thesis by simp
  qed
  then have "\<forall>e \<in> set (sdk_expirations (ds_sdk d) chain). now' * 1000000 < e"
    unfolding ex using least by (auto intro: less_le_trans)
  then have "sdk_chainValid (ds_sdk d) (int now') chain" using assms(2) unfolding nativeSdkOk_def by (elim conjE allE) (rule mp)
  moreover have "n div 1000000 \<le> MAX_SAFE_INTEGER"
    using least div_le_mono [of n U64_MAX 1000000] by (simp add: U64_MAX_def MAX_SAFE_INTEGER_def)
  ultimately show "restoreKinicIdentity (ds_sdk d) (int now') m origin (int now') = Inr identity"
    using assms(2,3) c(3) m by (simp add: restoreKinicIdentity_def restoreChecked_def restoreIiKey_def nativeSdkOk_def)
  show "wfJson (materialJson m)"
    using assms(2) by (simp add: materialJson_def m nativeSdkOk_def natToDec_wf)
qed

end
