(* ===== verification/Assistant_Routes_Facts.thy ===== *)
theory Assistant_Routes_Facts
  imports Assistant_Failures Assistant_SignIn_Facts
begin

section \<open>Assistant worker: what every request satisfies\<close>

text \<open>
  Every request is answered, an error by one of the fixed codes; the headers with which the worker tells a user object
  who asks cannot be set by a client; a conversation is only shown or changed for the session that owns it, after the
  canister confirmed the access; no request touches a sign-in other than by its own steps.
\<close>

subsection \<open>Replies\<close>

definition yieldsA :: "('a \<Rightarrow> bool) \<Rightarrow> ('s, 'e, 'a) act \<Rightarrow> bool" where
  "yieldsA P m \<longleftrightarrow> (\<forall>s x t. m s = (Inr x, t) \<longrightarrow> P x)"

named_theorems yields_intros \<open>values of a composition\<close>

lemma yieldsA_basic [yields_intros]: "P x \<Longrightarrow> yieldsA P (retA x)" "yieldsA P (throwA e)" "yieldsA P (storeError code status)"
  by (simp_all add: yieldsA_def storeError_def)

lemma yieldsA_bindA [yields_intros]: "(\<And>x. yieldsA P (f x)) \<Longrightarrow> yieldsA P (bindA m f)"
  unfolding yieldsA_def by (metis bindA_Inr_E)

lemma yieldsA_bindA_dep: "yieldsA Q m \<Longrightarrow> (\<And>x. Q x \<Longrightarrow> yieldsA P (f x)) \<Longrightarrow> yieldsA P (bindA m f)"
  unfolding yieldsA_def by (metis bindA_Inr_E)

lemma yieldsA_catchA: "yieldsA P m \<Longrightarrow> raisesA E m \<Longrightarrow> (\<And>e. E e \<Longrightarrow> yieldsA P (k e)) \<Longrightarrow> yieldsA P (catchA m k)"
  by (auto simp: yieldsA_def raisesA_def raisesR_def catchA_def split: prod.splits sum.splits) (metis fst_conv)

lemma yieldsA_if [yields_intros]: "yieldsA P m \<Longrightarrow> yieldsA P n \<Longrightarrow> yieldsA P (if c then m else n)"
  by simp

lemma yieldsA_option [yields_intros]: "yieldsA P m \<Longrightarrow> (\<And>x. yieldsA P (f x)) \<Longrightarrow> yieldsA P (case v of None \<Rightarrow> m | Some x \<Rightarrow> f x)"
  by (cases v) simp_all

lemma yieldsA_prod [yields_intros]: "(\<And>x y. yieldsA P (f x y)) \<Longrightarrow> yieldsA P (case p of (x, y) \<Rightarrow> f x y)"
  by (cases p) simp

lemma yieldsA_sum [yields_intros]: "(\<And>x. yieldsA P (f x)) \<Longrightarrow> (\<And>x. yieldsA P (g x)) \<Longrightarrow> yieldsA P (case v of Inl x \<Rightarrow> f x | Inr x \<Rightarrow> g x)"
  by (cases v) simp_all

lemma yieldsA_bool [yields_intros]: "yieldsA P m \<Longrightarrow> yieldsA P n \<Longrightarrow> yieldsA P (case b of True \<Rightarrow> m | False \<Rightarrow> n)"
  by (cases b) simp_all

lemma yieldsA_json [yields_intros]:
  "yieldsA P a \<Longrightarrow> (\<And>x. yieldsA P (b x)) \<Longrightarrow> (\<And>x. yieldsA P (c x)) \<Longrightarrow> (\<And>x. yieldsA P (d x)) \<Longrightarrow> (\<And>x. yieldsA P (f x)) \<Longrightarrow>
    (\<And>x. yieldsA P (g x)) \<Longrightarrow> yieldsA P (case v of JNull \<Rightarrow> a | JBool x \<Rightarrow> b x | JNum x \<Rightarrow> c x | JStr x \<Rightarrow> d x | JArr x \<Rightarrow> f x | JObj x \<Rightarrow> g x)"
  by (cases v) simp_all

text \<open>A reply of success, and one with a fixed error.\<close>

definition succeeds :: "Reply \<Rightarrow> bool" where
  "succeeds reply \<longleftrightarrow> (case reply of SocketReply l \<Rightarrow> True | JsonReply status body \<Rightarrow> status < 400)"

definition otherFailures :: "(string \<times> nat) list" where
  "otherFailures = (''invalid_request'', 400) # (''request_failed'', 502) # map (\<lambda>code. (code, 403)) knownCodes"

definition refuses :: "Reply \<Rightarrow> bool" where
  "refuses reply \<longleftrightarrow> (\<exists>code status. reply = JsonReply status (JObj [(''error'', JStr code)]) \<and> (code, status) \<in> set (fixedCodes @ otherFailures))"

lemma succeeds_reply [simp]: "succeeds (json_reply v status) \<longleftrightarrow> status < 400" "succeeds (SocketReply l)" "succeeds ended_reply"
  by (simp_all add: succeeds_def json_reply_def ended_reply_def)

lemma succeeds_snapshot [simp]: "succeeds (snapshotReply u status) \<longleftrightarrow> status < 400"
  by (simp add: snapshotReply_def)

lemma failure_refuses: "fixedError e \<Longrightarrow> refuses (failure e)"
  by (cases e) (auto simp: failure_def refuses_def json_reply_def fixedError_def otherFailures_def)

lemma failure_fails: "fixedError e \<Longrightarrow> \<not> succeeds (failure e)"
  by (cases e) (auto simp: failure_def json_reply_def succeeds_def fixedError_def fixedCodes_def)

lemma handle_succeeds: "yieldsA (\<lambda>x. succeeds (fst x)) (objectHandle h u request)"
proof -
  have "yieldsA (\<lambda>x. succeeds (fst x)) (startConversation h v request who authId)" for v who authId
    unfolding startConversation_def Let_def by (intro yields_intros) simp
  moreover have "yieldsA (\<lambda>x. succeeds (fst x)) (conversationRoute h v c request)" for v c
    unfolding conversationRoute_def openControl_def conversationReply_def historyReply_def askQuestion_def citationReply_def Let_def
    by (intro yields_intros) simp_all
  moreover have "yieldsA (\<lambda>x. succeeds (fst x)) (ownedRoute h v c request authId)" for v c authId
    unfolding ownedRoute_def Let_def by (intro yields_intros calculation) simp_all
  ultimately show ?thesis unfolding objectHandle_def Let_def by (intro yields_intros)
qed

lemma route_replies: "yieldsA (\<lambda>r. succeeds r \<or> refuses r) (route w request receivedAt)"
proof -
  have shown: "yieldsA (\<lambda>r. succeeds r \<or> refuses r) (case x of (reply, u :: UserObject) \<Rightarrow> (retA reply :: Reply stAct))" if "succeeds (fst x)" for x
    using that by (cases x) (simp add: yieldsA_basic)
  have fetch: "yieldsA (\<lambda>r. succeeds r \<or> refuses r) (objectFetch h u inner)" for h :: "('key, 'chain, 'ident) UserHost" and u inner
    unfolding objectFetch_def
    by (intro yieldsA_catchA [where E = fixedError] yieldsA_bindA_dep [OF handle_succeeds] shown yields_intros raises_intros)
      (simp_all add: failure_refuses)
  have connection: "yieldsA (\<lambda>r. succeeds r \<or> refuses r) (connectionFetch w inner)" for w :: "('key, 'chain, 'ident) WorkerHost" and inner
    unfolding connectionFetch_def
    by (intro yields_intros fetch) (auto simp: refuses_def json_reply_def fixedCodes_def)
  show ?thesis
    unfolding route_def sessionRoute_def authorizedRoute_def startRoute_def completeRoute_def logoutRoute_def endRoute_def forwardRoute_def Let_def
    by (intro yields_intros fetch yieldsA_catchA [where E = "\<lambda>_. True", OF connection])
      (auto simp: raisesA_def raisesR_def ended_reply_def intro: yields_intros)
qed

text \<open>
  C36. The worker answers every request, whatever D1, Internet Identity, the canister and the rate limiter do: with a
  reply of success, or with one of the fixed error codes at its status. The text of an exception never reaches a client.
\<close>

theorem replies_are_fixed:
  "\<exists>reply t. workerFetch w request s = (Inr reply, t) \<and> (succeeds reply \<or> refuses reply)"
proof -
  have "\<exists>reply t. catchA (route w request receivedAt) (\<lambda>e. retA (failure e)) s1 = (Inr reply, t) \<and> (succeeds reply \<or> refuses reply)"
    for receivedAt s1
  proof (cases "route w request receivedAt s1")
    case (Pair r t)
    show ?thesis
    proof (cases r)
      case (Inl e)
      then have "fixedError e" using fixed_route [of w request receivedAt] Pair by (metis fst_conv raisesA_def raisesR_def)
      then show ?thesis using Pair Inl by (simp add: catchA_def failure_refuses)
    next
      case (Inr reply)
      then have "succeeds reply \<or> refuses reply" using route_replies [of w request receivedAt] Pair unfolding yieldsA_def by blast
      then show ?thesis using Pair Inr by (simp add: catchA_def)
    qed
  qed
  then show ?thesis unfolding workerFetch_def by (simp add: bindA_def readHost_def)
qed

subsection \<open>Headers that a client sends\<close>

text \<open>The headers which the worker sets or drops.\<close>

definition workerHeaders :: "string set" where
  "workerHeaders = {''x-assistant-principal'', ''x-assistant-auth-id'', ''x-assistant-client'', ''x-assistant-received-at'', ''cookie''}"

definition sameRequest :: "HttpRequest \<Rightarrow> HttpRequest \<Rightarrow> bool" where
  "sameRequest r q \<longleftrightarrow> hr_method r = hr_method q \<and> hr_path r = hr_path q \<and> hr_query r = hr_query q \<and> hr_body r = hr_body q"

lemma same_readJson:
  "sameRequest r q \<Longrightarrow> header r ''content-type'' = header q ''content-type'' \<Longrightarrow> readJson decodeText r = readJson decodeText q"
  by (simp add: readJson_def sameRequest_def)

lemma same_search: "sameRequest r q \<Longrightarrow> searchParam r = searchParam q"
  by (rule ext) (simp add: searchParam_def sameRequest_def)

lemma same_handle:
  assumes same: "sameRequest r q" and headers: "header r = header q"
  shows "objectFetch h u r = objectFetch h u q"
proof -
  note simps = same_readJson [OF same fun_cong [OF headers]] same_search [OF same] headers
  have routes: "isRoute r = isRoute q" "objectPath (hr_path r) = objectPath (hr_path q)" "fromNative r = fromNative q" "requester v r = requester v q" for v
    using same headers by (simp_all add: isRoute_def fun_eq_iff sameRequest_def fromNative_def requester_def)
  have "conversationRoute h v c r = conversationRoute h v c q" for v c
    unfolding conversationRoute_def conversationReply_def historyReply_def askQuestion_def citationReply_def Let_def by (simp add: simps routes cong: if_cong option.case_cong)
  then have "ownedRoute h v c r authId = ownedRoute h v c q authId" for v c authId
    unfolding ownedRoute_def Let_def by (simp add: simps routes cong: if_cong option.case_cong)
  moreover have "startConversation h v r who authId = startConversation h v q who authId" for v who authId
    unfolding startConversation_def Let_def by (simp add: simps routes cong: if_cong)
  ultimately show ?thesis unfolding objectFetch_def objectHandle_def Let_def by (simp add: simps routes cong: if_cong option.case_cong)
qed

lemma forwarded_headers:
  "header (forwarded r a receivedAt) n =
     (if n = ''x-assistant-principal'' then Some (az_principal a)
      else if n = ''x-assistant-auth-id'' then Some (az_authId a)
      else if n = ''x-assistant-client'' then Some ''native''
      else if n = ''x-assistant-received-at'' then Some (natToDec receivedAt)
      else if n \<in> {''authorization'', ''cookie''} then None else header r n)"
  by (simp add: header_def forwarded_def forwardedHeaders_def map_of_set map_of_without)

text \<open>
  C38. Who asks a user object is what the worker found out itself: a request has the same effect and the same reply
  whatever the client sends as principal, authentication, client or time of receipt, and whatever its cookies are.
\<close>

theorem client_headers_ignored:
  assumes "sameRequest r q" and "\<And>n. n \<notin> workerHeaders \<Longrightarrow> header r n = header q n"
  shows "workerFetch w r = workerFetch w q"
proof -
  have bearer: "bearerToken r = bearerToken q" and type: "header r ''content-type'' = header q ''content-type''"
    and address: "header r ''cf-connecting-ip'' = header q ''cf-connecting-ip''"
    using assms(2) by (simp_all add: bearerToken_def workerHeaders_def)
  note simps = same_readJson [OF assms(1) type] same_search [OF assms(1)] bearer address
  have path: "hr_path r = hr_path q" "hr_method r = hr_method q" using assms(1) by (simp_all add: sameRequest_def)
  have headers: "header (forwarded r a n) = header (forwarded q a n)" for a n
    using assms(2) by (auto simp: fun_eq_iff forwarded_headers workerHeaders_def)
  have same: "sameRequest (forwarded r a n) (forwarded q a n)" for a n
    using assms(1) by (simp add: sameRequest_def forwarded_def)
  note fetch = same_handle [OF same headers]
  have "hr_path (forwarded r a n) = hr_path (forwarded q a n)" for a n using path by (simp add: forwarded_def)
  then have "connectionFetch w (forwarded r a n) = connectionFetch w (forwarded q a n)" for a n
    unfolding connectionFetch_def by (simp add: headers fetch cong: if_cong option.case_cong)
  then have "forwardRoute w r a n = forwardRoute w q a n" for a n
    unfolding forwardRoute_def Let_def by (simp add: path fetch cong: if_cong)
  then have "sessionRoute w r ident token n = sessionRoute w q ident token n" for ident token n
    unfolding sessionRoute_def authorizedRoute_def completeRoute_def endRoute_def Let_def by (simp add: path simps cong: if_cong option.case_cong)
  then have "route w r n = route w q n" for n
    unfolding route_def startRoute_def Let_def by (simp add: path simps cong: if_cong option.case_cong)
  then show ?thesis unfolding workerFetch_def by simp
qed

definition sampleRequest :: "string \<Rightarrow> (string \<times> string) list \<Rightarrow> HttpRequest" where
  "sampleRequest path headers = \<lparr>hr_method = ''GET'', hr_path = path, hr_query = [], hr_headers = headers, hr_body = None\<rparr>"

theorem client_headers_ignored_witness:
  "\<forall>w :: (nat, nat, nat) WorkerHost. workerFetch w (sampleRequest ''/api/assistant/native/auth'' [(''authorization'', ''Bearer x'')]) =
     workerFetch w (sampleRequest ''/api/assistant/native/auth'' [(''x-assistant-principal'', ''other''), (''authorization'', ''Bearer x'')])"
  by (intro allI client_headers_ignored) (auto simp: sameRequest_def sampleRequest_def header_def workerHeaders_def)

subsection \<open>Access to conversations\<close>

text \<open>The identity of the session was restored for the conversation, and the canister let it read the database in its scope.\<close>

definition confirmed :: "('key, 'chain, 'ident) UserHost \<Rightarrow> Conversation \<Rightarrow> bool" where
  "confirmed h c \<longleftrightarrow> (\<exists>s identity t k node. userIdentity (uh_auth h) c s = (Inr identity, t) \<and>
     ah_read_node (uh_actor h k identity) 0 (co_databaseId c) (if co_scope c = ScopeDatabase then ''/Knowledge'' else scopeText (co_scope c)) =
       Inr (Inr node))"

lemma reading_Inr:
  assumes "reading h c f s = (Inr x, t)"
  obtains identity s1 k where "userIdentity (uh_auth h) c s = (Inr identity, s1)"
    and "fst (f (uh_actor h k identity) (objectReader h c) freshReading) = Inr x"
proof -
  from assms obtain identity s1 where i: "userIdentity (uh_auth h) c s = (Inr identity, s1)"
    and rest: "bindA (readHost (\<lambda>k. fst (f (uh_actor h k identity) (objectReader h c) freshReading))) liftR s1 = (Inr x, t)"
    unfolding reading_def by (rule bindA_Inr_E)
  from rest have "fst (f (uh_actor h (sd_k s1) identity) (objectReader h c) freshReading) = Inr x"
    by (simp add: bindA_def readHost_def)
  with i that show ?thesis by blast
qed

lemma authorize_Inr:
  assumes "fst (authorize actor r freshReading) = Inr x"
  shows "\<exists>node. ah_read_node actor 0 (kr_databaseId r) (if kr_scope r = ScopeDatabase then ''/Knowledge'' else scopeText (kr_scope r)) = Inr (Inr node)"
  using assms
  by (auto simp: authorize_def readNodeA_def callA_def bindA_def freshReading_def settled_def unwrap_def split: sum.splits prod.splits)

lemma objectReader_database: "kr_databaseId (objectReader h c) = co_databaseId c" "kr_scope (objectReader h c) = co_scope c"
  by (simp_all add: objectReader_def)

lemma confirmed_I:
  assumes "userIdentity (uh_auth h) c s = (Inr identity, t)" and "fst (authorize (uh_actor h k identity) (objectReader h c) freshReading) = Inr x"
  shows "confirmed h c"
proof -
  from authorize_Inr [OF assms(2), unfolded objectReader_database] obtain node where "ah_read_node (uh_actor h k identity) 0 (co_databaseId c)
      (if co_scope c = ScopeDatabase then ''/Knowledge'' else scopeText (co_scope c)) = Inr (Inr node)" ..
  with assms(1) show ?thesis
    unfolding confirmed_def by (intro exI [of _ s] exI [of _ identity] exI [of _ t] exI [of _ k] exI [of _ node] conjI)
qed

lemma reading_confirmed:
  assumes "reading h c authorize s = (Inr x, t)"
  shows "confirmed h c"
  using reading_Inr [OF assms] confirmed_I by metis

lemma manifest_confirmed:
  assumes "reading h c manifest s = (Inr x, t)"
  shows "confirmed h c"
proof -
  from reading_Inr [OF assms] obtain identity s1 k where i: "userIdentity (uh_auth h) c s = (Inr identity, s1)"
    and m: "fst (manifest (uh_actor h k identity) (objectReader h c) freshReading) = Inr x" .
  from m obtain y where "fst (authorize (uh_actor h k identity) (objectReader h c) freshReading) = Inr y"
    unfolding manifest_def by (auto simp: bindA_eq split: sum.splits)
  with i show ?thesis by (rule confirmed_I)
qed

text \<open>What a handler that succeeds has found: a new conversation of the requester, or one that the requester owns.\<close>

definition admits :: "('key, 'chain, 'ident) UserHost \<Rightarrow> UserObject \<Rightarrow> HttpRequest \<Rightarrow> string \<Rightarrow> string \<Rightarrow> bool" where
  "admits h u request who authId \<longleftrightarrow>
     (isRoute request ''POST'' ''/conversations'' \<and> us_conversation (uo_state u) = None \<and>
        (\<exists>c. confirmed h c \<and> co_principal c = who \<and> co_authId c = authId)) \<or>
     (\<exists>c. us_conversation (uo_state u) = Some c \<and> co_authId c = authId \<and>
        (isRoute request ''GET'' ''/active'' \<or> searchParam request ''conversationId'' = Some (co_id c)) \<and>
        (isRoute request ''POST'' ''/end'' \<or> confirmed h c))"

lemma startConversation_admits:
  assumes "startConversation h u request who authId s = (Inr x, t)"
  shows "us_conversation (uo_state u) = None \<and> (\<exists>c. confirmed h c \<and> co_principal c = who \<and> co_authId c = authId)"
proof -
  have none: "us_conversation (uo_state u) = None"
  proof (rule ccontr)
    assume "us_conversation (uo_state u) \<noteq> None"
    then show False using assms unfolding startConversation_def Let_def by (auto simp: storeError_def elim!: bindA_Inr_E)
  qed
  from assms obtain ident activity seen input y s1 s2 where
    "reading h (newConversation (fromNative request) ident who authId activity seen input) manifest s1 = (Inr y, s2)"
    unfolding startConversation_def Let_def by (auto simp: storeError_def elim!: bindA_Inr_E split: if_splits)
  from manifest_confirmed [OF this] none show ?thesis by (auto simp: newConversation_def)
qed

lemma ownedRoute_admits:
  assumes "ownedRoute h u c request authId s = (Inr x, t)"
  shows "co_authId c = authId \<and> (isRoute request ''GET'' ''/active'' \<or> searchParam request ''conversationId'' = Some (co_id c)) \<and>
    (isRoute request ''POST'' ''/end'' \<or> confirmed h c)"
proof -
  have owner: "co_authId c = authId" and address: "isRoute request ''GET'' ''/active'' \<or> searchParam request ''conversationId'' = Some (co_id c)"
    using assms unfolding ownedRoute_def Let_def by (auto simp: storeError_def split: if_splits)
  have "confirmed h c" if "\<not> isRoute request ''POST'' ''/end''"
    using assms that unfolding ownedRoute_def Let_def
    by (auto simp: storeError_def elim!: bindA_Inr_E split: if_splits dest: reading_confirmed)
  with owner address show ?thesis by blast
qed

lemma objectFetch_succeeds:
  assumes "objectFetch h u request s = (Inr reply, t)" and "succeeds reply"
  obtains v where "objectHandle h u request s = (Inr (reply, v), t)"
proof -
  from assms(1) [unfolded objectFetch_def] show ?thesis
  proof (cases rule: catchA_Inr_E)
    case plain
    then obtain v where "objectHandle h u request s = (Inr (reply, v), t)" by (auto elim!: bindA_Inr_E)
    then show ?thesis by (rule that)
  next
    case (caught e s1)
    have "raisesA fixedError (bindA (objectHandle h u request) (\<lambda>(reply, _). retA reply) :: Reply stAct)" by (intro raises_intros)
    then have "fixedError e" using caught(1) by (metis fst_conv raisesA_def raisesR_def)
    then have "\<not> succeeds (failure e)" by (rule failure_fails)
    with caught(2) assms(2) show ?thesis by simp
  qed
qed

lemma objectFetch_admits:
  assumes "objectFetch h u request s = (Inr reply, t)" and "succeeds reply"
    and "header request ''x-assistant-principal'' = Some who" and "header request ''x-assistant-auth-id'' = Some authId"
  shows "admits h u request who authId"
proof -
  from objectFetch_succeeds [OF assms(1,2)] obtain v where run: "objectHandle h u request s = (Inr (reply, v), t)" .
  let ?u = "withState (\<lambda>s. s \<lparr>us_principal := Some who\<rparr>) u"
  from run obtain s1 where rest: "(if isRoute request ''POST'' ''/conversations'' then startConversation h ?u request who authId
       else case us_conversation (uo_state ?u) of None \<Rightarrow> storeError ''conversation_ended'' 410
         | Some c \<Rightarrow> ownedRoute h ?u c request authId) s1 = (Inr (reply, v), t)"
    unfolding objectHandle_def Let_def
    by (elim bindA_Inr_E) (auto simp: requester_def assms(3,4) split: if_splits)
  have conversation: "us_conversation (uo_state ?u) = us_conversation (uo_state u)" by (simp add: withState_def)
  show ?thesis
  proof (cases "isRoute request ''POST'' ''/conversations''")
    case True
    with rest startConversation_admits [of h ?u request who authId s1] conversation show ?thesis by (auto simp: admits_def)
  next
    case False
    with rest obtain c where "us_conversation (uo_state u) = Some c" "ownedRoute h ?u c request authId s1 = (Inr (reply, v), t)"
      by (auto simp: conversation storeError_def split: option.splits)
    with ownedRoute_admits show ?thesis unfolding admits_def by blast
  qed
qed

lemma forwarded_requester:
  "header (forwarded request a n) ''x-assistant-principal'' = Some (az_principal a)"
  "header (forwarded request a n) ''x-assistant-auth-id'' = Some (az_authId a)"
  by (simp_all add: forwarded_headers)

text \<open>The routes that need no conversation.\<close>

definition openPaths :: "string set" where
  "openPaths = {''/status'', ''/auth/start'', ''/auth/complete'', ''/auth'', ''/logout'', ''/end''}"

definition accessible :: "('key, 'chain, 'ident) WorkerHost \<Rightarrow> HttpRequest \<Rightarrow> bool" where
  "accessible w request \<longleftrightarrow> (\<exists>ident token a u n. bearerToken request = Some (ident, token) \<and>
     (\<exists>s t. authorize_token (authOf_host w) ident token s = (Inr a, t)) \<and>
     (\<exists>includeMessages s t. initialize (storeOf_host w) (az_principal a) includeMessages None s = (Inr u, t)) \<and>
     admits (wh_user w) u (forwarded request a n) (az_principal a) (az_authId a))"

lemma forwardRoute_admits:
  assumes "forwardRoute w request a n s = (Inr reply, t)" and "succeeds reply"
  obtains u m s1 s2 where "initialize (storeOf_host w) (az_principal a) m None s1 = (Inr u, s2)"
    and "admits (wh_user w) u (forwarded request a n) (az_principal a) (az_authId a)"
proof (cases "routePath (hr_path request) = ''/events''")
  case True
  with assms(1) obtain x s1 where "catchA (connectionFetch w (forwarded request a n)) (\<lambda>e. throwA (Thrown (errorText e))) s1 = (Inr reply, t)"
    unfolding forwardRoute_def Let_def by (auto elim!: bindA_Inr_E)
  then have "connectionFetch w (forwarded request a n) s1 = (Inr reply, t)" by (cases rule: catchA_Inr_E) simp_all
  with assms(2) obtain u s2 where "initialize (storeOf_host w) (az_principal a) True None s1 = (Inr u, s2)"
    "objectFetch (wh_user w) u (forwarded request a n) s2 = (Inr reply, t)"
    unfolding connectionFetch_def by (auto simp: forwarded_requester split: if_splits elim!: bindA_Inr_E)
  with objectFetch_admits [OF _ assms(2) forwarded_requester] that show ?thesis by blast
next
  case False
  with assms(1) obtain u s1 where "initialize (storeOf_host w) (az_principal a)
      (routePath (hr_path request) \<notin> {''/conversation'', ''/history'', ''/active''}) None s = (Inr u, s1)"
    "objectFetch (wh_user w) u (forwarded request a n) s1 = (Inr reply, t)"
    unfolding forwardRoute_def Let_def by (auto elim!: bindA_Inr_E)
  with objectFetch_admits [OF _ assms(2) forwarded_requester] that show ?thesis by blast
qed

lemma route_accessible:
  assumes "route w request n s = (Inr reply, t)" and "succeeds reply" and "routePath (hr_path request) \<notin> openPaths"
  shows "accessible w request"
proof -
  from assms(1,3) obtain ident token s1 where bearer: "bearerToken request = Some (ident, token)"
    and session: "sessionRoute w request ident token n s1 = (Inr reply, t)"
    unfolding route_def Let_def openPaths_def by (auto simp: storeError_def split: if_splits option.splits elim!: bindA_Inr_E)
  from session assms(3) obtain a s2 where a: "authorize_token (authOf_host w) ident token s1 = (Inr a, s2)"
    and f: "forwardRoute w request a n s2 = (Inr reply, t)"
    unfolding sessionRoute_def authorizedRoute_def Let_def openPaths_def
    by (auto simp: storeError_def split: if_splits elim!: bindA_Inr_E)
  from forwardRoute_admits [OF f assms(2)] obtain u m s3 s4 where "initialize (storeOf_host w) (az_principal a) m None s3 = (Inr u, s4)"
    "admits (wh_user w) u (forwarded request a n) (az_principal a) (az_authId a)" .
  with bearer a show ?thesis unfolding accessible_def by blast
qed


subsection \<open>Signing out\<close>

lemma lost_storedAuth:
  assumes "\<And>k. dh_fault st k = LostBefore" and "\<And>k db. dh_others st k db = db"
  shows "storedAuth st ident s = (Inl (Thrown ''D1_ERROR''), s \<lparr>sd_k := sd_k s + 1\<rparr>)"
  by (simp add: storedAuth_def selectD1_def d1_def assms Let_def bindA_def)

text \<open>
  C40. While D1 cannot be reached a request to sign out is answered \<open>{ ended: true }\<close> like a completed one, although the
  record of the session and the conversation are still there: the client cannot know that its token is still valid.
\<close>

theorem logout_hides_outage:
  assumes "startsWith (hr_path request) NATIVE_PREFIX" and "routePath (hr_path request) = ''/logout''" and "hr_method request = ''POST''"
    and "bearerToken request = Some (ident, token)"
    and "\<And>k. dh_fault (storeOf_host w) k = LostBefore" and "\<And>k db. dh_others (storeOf_host w) k db = db"
  shows "\<exists>t. workerFetch w request s = (Inr ended_reply, t) \<and> sd_db t = sd_db s"
proof -
  have store: "ah_store (authOf_host w) = storeOf_host w" by (simp add: storeOf_host_def)
  have lost: "storedAuth (storeOf_host w) i s = (Inl (Thrown ''D1_ERROR''), s \<lparr>sd_k := sd_k s + 1\<rparr>)" for i s
    using assms(5,6) by (rule lost_storedAuth)
  have "logoutRoute w ident token n s = (Inr ended_reply, s \<lparr>sd_k := sd_k s + 1 + 1\<rparr>)" for n s
    by (simp add: logoutRoute_def logoutConversation_def ownerForCleanup_def revoke_def authRecord_def store lost attemptA_def bindA_def Let_def)
  then have "route w request n s = (Inr ended_reply, s \<lparr>sd_k := sd_k s + 1 + 1\<rparr>)" for n s
    using assms(1-4) by (simp add: route_def sessionRoute_def retiredRoute_def startsWith_def Let_def)
  then show ?thesis by (simp add: workerFetch_def bindA_def catchA_def readHost_def)
qed

text \<open>A worker and a request to sign out.\<close>

definition sampleUserHost :: "StHost \<Rightarrow> (unit, nat, unit) UserHost" where
  "sampleUserHost st = \<lparr>uh_auth = sampleAuth \<lparr>ah_store := st\<rparr>, uh_actor = \<lambda>_ _. sampleServices, uh_decodeText = \<lambda>_. [],
     uh_isUuid = \<lambda>_. True, uh_safeInteger = \<lambda>_. None\<rparr>"

definition sampleWorker :: "StHost \<Rightarrow> (unit, nat, unit) WorkerHost" where
  "sampleWorker st = \<lparr>wh_user = sampleUserHost st, wh_limit = \<lambda>_ _. Inr True, wh_connection = \<lambda>_ _. Inr ()\<rparr>"

definition sampleLogout :: HttpRequest where
  "sampleLogout = \<lparr>hr_method = ''POST'', hr_path = ''/api/assistant/native/logout'', hr_query = [],
     hr_headers = [(''authorization'', ''Bearer '' @ replicate 36 (CHR ''a'') @ ''.'' @ replicate 43 (CHR ''b''))], hr_body = None\<rparr>"

lemma sampleWorker_store [simp]: "storeOf_host (sampleWorker st) = st"
  by (simp add: storeOf_host_def authOf_host_def sampleWorker_def sampleUserHost_def)

lemma sampleLogout_bearer: "bearerToken sampleLogout = Some (replicate 36 (CHR ''a''), replicate 43 (CHR ''b''))"
  by (simp add: bearerToken_def header_def sampleLogout_def startsWith_def sessionToken_def Let_def idChar_def tokenChar_def isAsciiLetter_def
      nth_append list_all_iff)

theorem logout_hides_outage_witness:
  "\<exists>t. workerFetch (sampleWorker (sampleStore \<lparr>dh_fault := \<lambda>_. LostBefore\<rparr>)) sampleLogout \<lparr>sd_k = 0, sd_db = emptyDb\<rparr> = (Inr ended_reply, t)"
proof -
  have path: "startsWith (hr_path sampleLogout) NATIVE_PREFIX" "routePath (hr_path sampleLogout) = ''/logout''" "hr_method sampleLogout = ''POST''"
    by (simp_all add: sampleLogout_def startsWith_def NATIVE_PREFIX_def routePath_def objectPath_def API_PREFIX_def Let_def)
  from logout_hides_outage [OF path sampleLogout_bearer, of "sampleWorker (sampleStore \<lparr>dh_fault := \<lambda>_. LostBefore\<rparr>)" "\<lparr>sd_k = 0, sd_db = emptyDb\<rparr>"]
  show ?thesis by (auto simp: sampleStore_def)
qed

end
