(* ===== verification/Assistant_Guarantee.thy ===== *)
theory Assistant_Guarantee
  imports Assistant_Routes_Facts
begin

section \<open>Assistant worker: what the worker does to sign-ins\<close>

text \<open>
  The theorems of a sign-in rely on other executions to change its record by the steps of \<open>authStep\<close> only. Here is the
  other half: every request of the worker and every sweep keeps to these steps, statement by statement. A request
  that starts a sign-in starts another one: \<open>crypto.randomUUID\<close> does not repeat.
\<close>

text \<open>A stored record carries the identifier of its row.\<close>

definition wellNamed :: "AsDb \<Rightarrow> bool" where
  "wellNamed db \<longleftrightarrow> (\<forall>row \<in> set (db_auth db). \<forall>r. rowAuth row = Inr r \<longrightarrow> ad_id r = ax_id row)"

definition follows :: "string \<Rightarrow> AsDb \<Rightarrow> AsDb \<Rightarrow> bool" where
  "follows self db db' \<longleftrightarrow> (wellNamed db \<longrightarrow> (authStep self)\<^sup>*\<^sup>* db db' \<and> wellNamed db')"

definition obeys :: "string \<Rightarrow> StState \<Rightarrow> StState \<Rightarrow> bool" where
  "obeys self s t \<longleftrightarrow> follows self (sd_db s) (sd_db t)"

definition relyHost :: "string \<Rightarrow> StHost \<Rightarrow> bool" where
  "relyHost self h \<longleftrightarrow> (\<forall>k db. follows self db (dh_others h k db)) \<and> (\<forall>k. dh_uuid h k \<noteq> self)"

lemma follows_trans: "follows self a b \<Longrightarrow> follows self b c \<Longrightarrow> follows self a c"
  unfolding follows_def using rtranclp_trans by fastforce

interpretation respecting: preorder_moves "obeys self" for self
proof
  show "obeys self s s" for s by (simp add: obeys_def follows_def)
  show "obeys self s t \<Longrightarrow> obeys self t u \<Longrightarrow> obeys self s u" for s t u
    unfolding obeys_def by (rule follows_trans)
qed

subsection \<open>Statements\<close>

lemma follows_step: "authStep self db db' \<Longrightarrow> (wellNamed db \<Longrightarrow> wellNamed db') \<Longrightarrow> follows self db db'"
  by (auto simp: follows_def)

lemma follows_quiet: "db_auth db' = db_auth db \<Longrightarrow> follows self db db'"
  by (rule follows_step) (auto simp: signIn_def wellNamed_def intro: authStep.untouched)

lemma follows_delete: "follows self db (deleteAuthStmt i db)"
  by (rule follows_step [OF authStep.delete]) (auto simp: wellNamed_def deleteAuthStmt_def deleteWhere_def)

lemma follows_expire: "follows self db (expireAuthStmt now db)"
  by (rule follows_step [OF authStep.expire]) (auto simp: wellNamed_def expireAuthStmt_def deleteWhere_def)

lemma rowAuth_phase: "rowAuth (row \<lparr>ax_phase := phase\<rparr>) = Inr r \<Longrightarrow> \<exists>q. rowAuth row = Inr q \<and> ad_id q = ad_id r"
  by (auto simp: rowAuth_def split: option.splits)

lemma follows_claim: "follows self db (snd (claimAuthStmt i now db))"
proof (rule follows_step [OF authStep.claim])
  assume named: "wellNamed db"
  show "wellNamed (snd (claimAuthStmt i now db))"
    unfolding wellNamed_def
  proof (intro ballI allI impI)
    fix row r
    assume "row \<in> set (db_auth (snd (claimAuthStmt i now db)))" and r: "rowAuth row = Inr r"
    then obtain old where old: "old \<in> set (db_auth db)" "row = old \<or> row = old \<lparr>ax_phase := ''claiming''\<rparr>"
      by (auto simp: claimAuthStmt_def updateWhere_def split: if_splits)
    then obtain q where "rowAuth old = Inr q" "ad_id q = ad_id r" using r rowAuth_phase by blast
    with named old show "ad_id r = ax_id row" by (auto simp: wellNamed_def)
  qed
qed

text \<open>A save writes the row that has the identifier of the record.\<close>

lemma named_save:
  assumes "wellNamed db"
  shows "wellNamed (snd (saveAuthStmt (authRow r) now expected db))"
  unfolding wellNamed_def
proof (intro ballI allI impI)
  fix row q
  assume "row \<in> set (db_auth (snd (saveAuthStmt (authRow r) now expected db)))" and q: "rowAuth row = Inr q"
  then obtain old where old: "old \<in> set (db_auth db)"
    "row = (if saveAuthWhere (authRow r) now expected old
       then old \<lparr>ax_phase := ax_phase (authRow r), ax_expires_at := ax_expires_at (authRow r), ax_data := ax_data (authRow r)\<rparr> else old)"
    by (auto simp: saveAuthStmt_def updateWhere_def)
  show "ad_id q = ax_id row"
  proof (cases "saveAuthWhere (authRow r) now expected old")
    case True
    with old(2) have "row = (authRow r) \<lparr>ax_id := ax_id row\<rparr>" and ident: "ax_id row = ad_id r"
      by (auto simp: saveAuthWhere_def authRow_def)
    then have "row = authRow r" by (simp add: authRow_def)
    with q ident show ?thesis by simp
  next
    case False
    with old q assms show ?thesis by (auto simp: wellNamed_def)
  qed
qed

lemma follows_save:
  assumes "ad_phase r = ''active'' \<or> ad_id r \<noteq> self"
  shows "follows self db (snd (saveAuthStmt (authRow r) now expected db))"
proof (rule follows_step)
  show "wellNamed db \<Longrightarrow> wellNamed (snd (saveAuthStmt (authRow r) now expected db))" by (rule named_save)
  show "authStep self db (snd (saveAuthStmt (authRow r) now expected db))"
  proof (cases "ad_phase r = ''active''")
    case True
    then show ?thesis by (intro authStep.activate) (simp add: authRow_def)
  next
    case False
    with assms have "ad_id r \<noteq> self" by simp
    then have "signIn self (snd (saveAuthStmt (authRow r) now expected db)) = signIn self db"
      unfolding signIn_saved
      by (cases "signIn self db") (auto simp: saveAuthWhere_def authRow_def signIn_def dest: byKey_Some_D)
    then show ?thesis by (rule authStep.untouched) (simp add: keyed_auth [unfolded authInv_def])
  qed
qed

lemma follows_insert:
  assumes "insertAuthStmt (authRow r) db = Inr db'" and "ad_id r \<noteq> self"
  shows "follows self db db'"
proof (rule follows_step)
  from assms(1) have fresh: "\<not> hasKey ax_id (ad_id r) (db_auth db)" and db': "db' = db \<lparr>db_auth := db_auth db @ [authRow r]\<rparr>"
    by (auto simp: insertAuthStmt_def authRow_def split: if_splits)
  have ident: "ax_id (authRow r) = ad_id r" by (simp add: authRow_def)
  show "authStep self db db'"
  proof (rule authStep.untouched)
    show "signIn self db' = signIn self db" using assms(2) by (simp add: db' signIn_def byKey_def selectFirst_def find_append ident split: option.split)
    show "keyed ax_id (db_auth db')" if "keyed ax_id (db_auth db)"
      using that fresh by (auto simp: db' keyed_def hasKey_def list_ex_iff ident)
  qed
  show "wellNamed db \<Longrightarrow> wellNamed db'" by (auto simp: wellNamed_def db' authRow_def [symmetric] ident)
qed

lemma saveBatch_auth:
  assumes "saveBatch v db = Inr (n, db')"
  shows "follows self db db'"
proof (cases "db_auth db' = db_auth db")
  case True
  then show ?thesis by (rule follows_quiet)
next
  case False
  with assms obtain i where i: "db_auth db' = deleteWhere (\<lambda>a. i = Some (ax_id a)) (db_auth db)"
    by (auto simp: saveBatch_def Let_def result_simps split: prod.splits if_splits)
  show ?thesis
  proof (cases i)
    case None
    with i False show ?thesis by (simp add: deleteWhere_def)
  next
    case (Some ident)
    have "follows self db (db' \<lparr>db_auth := db_auth db\<rparr>)" by (rule follows_quiet) simp
    moreover have "deleteAuthStmt ident (db' \<lparr>db_auth := db_auth db\<rparr>) = db'"
      using i Some by (simp add: deleteAuthStmt_def deleteWhere_def eq_commute [of ident])
    ultimately show ?thesis using follows_trans follows_delete by metis
  qed
qed

subsection \<open>Actions\<close>

lemma obeys_host: "movesA (obeys self) (readHost f)"
  by (simp add: movesA_def readHost_def obeys_def follows_def)

lemma obeys_d1:
  assumes "relyHost self h" and "\<And>db x db'. f db = Inr (x, db') \<Longrightarrow> follows self db db'"
  shows "movesA (obeys self) (d1 h f)"
proof (rule movesA_I)
  fix s :: StState
  have "follows self (sd_db s) (dh_others h (sd_k s) (sd_db s))" using assms(1) by (simp add: relyHost_def)
  then show "obeys self s (snd (d1 h f s))"
    by (auto simp: obeys_def d1_def Let_def split: D1Fault.split sum.split intro: follows_trans dest: assms(2))
qed

lemma obeys_select: "relyHost self h \<Longrightarrow> movesA (obeys self) (selectD1 h q)"
  unfolding selectD1_def by (rule obeys_d1) (auto intro: follows_quiet)

lemma obeys_run: "relyHost self h \<Longrightarrow> (\<And>db. follows self db (f db)) \<Longrightarrow> movesA (obeys self) (runD1 h f)"
  unfolding runD1_def by (rule obeys_d1) auto

lemma obeys_quiet: "relyHost self h \<Longrightarrow> (\<And>db. db_auth (f db) = db_auth db) \<Longrightarrow> movesA (obeys self) (runD1 h f)"
  by (rule obeys_run) (simp_all add: follows_quiet)

lemmas obeys_intros = respecting.moves moves_attemptA obeys_host

lemma obeys_prod: "(\<And>x y. movesA R (f x y)) \<Longrightarrow> movesA R (case p of (x, y) \<Rightarrow> f x y)"
  by (cases p) simp

subsection \<open>Sign-in\<close>

lemma obeys_encrypted: "movesA (obeys self) (encrypted h v context)" "movesA (obeys self) (encode h v context)"
  unfolding encrypted_def encode_def by (intro obeys_intros)+

lemma obeys_records:
  assumes "relyHost self h"
  shows "movesA (obeys self) (storedAuth h i)" "movesA (obeys self) (claimAuth h i)" "movesA (obeys self) (deleteAuth h i)"
    and "ad_phase r = ''active'' \<or> ad_id r \<noteq> self \<Longrightarrow> movesA (obeys self) (saveAuth h r expected)"
    and "ad_id r \<noteq> self \<Longrightarrow> movesA (obeys self) (insertAuth h r)"
proof -
  show "movesA (obeys self) (storedAuth h i)"
    unfolding storedAuth_def by (intro obeys_intros obeys_select [OF assms])
  show "movesA (obeys self) (claimAuth h i)"
    unfolding claimAuth_def by (intro obeys_intros obeys_d1 [OF assms]) (metis Inr_inject follows_claim snd_conv)
  show "movesA (obeys self) (deleteAuth h i)"
    unfolding deleteAuth_def by (intro obeys_run [OF assms] follows_delete)
  show "movesA (obeys self) (saveAuth h r expected)" if "ad_phase r = ''active'' \<or> ad_id r \<noteq> self"
    unfolding saveAuth_def storeError_def
    by (intro obeys_intros obeys_d1 [OF assms]) (metis Inr_inject follows_save [OF that] snd_conv)
  show "movesA (obeys self) (insertAuth h r)" if "ad_id r \<noteq> self"
    unfolding insertAuth_def storeError_def
    by (intro obeys_intros obeys_d1 [OF assms]) (auto simp: result_simps intro: follows_insert [OF _ that])
qed

lemma obeys_authRecord: "relyHost self (ah_store h) \<Longrightarrow> movesA (obeys self) (authRecord h i token)"
  unfolding authRecord_def storeError_def by (intro obeys_intros obeys_records)

text \<open>In a state with well-named records the rest of an action may use what its first part returned.\<close>

lemma obeys_bindA_named:
  assumes "movesA (obeys self) m" and "\<And>s x t. wellNamed (sd_db s) \<Longrightarrow> m s = (Inr x, t) \<Longrightarrow> movesA (obeys self) (f x)"
  shows "movesA (obeys self) (bindA m f)"
proof (rule movesA_I)
  fix s
  obtain r t where m: "m s = (r, t)" by (cases "m s")
  have run: "obeys self s t" using movesA_D [OF assms(1) m] .
  show "obeys self s (snd (bindA m f s))"
  proof (cases "wellNamed (sd_db s)")
    case True
    have "obeys self t (snd (f x t))" if "r = Inr x" for x
      using assms(2) [OF True, of x t] m that by (simp add: movesA_def)
    with m run show ?thesis by (cases r) (auto simp: bindA_def intro: respecting.R_trans)
  qed (simp add: obeys_def follows_def)
qed

lemma authRecord_named:
  assumes "relyHost self (ah_store h)" and "wellNamed (sd_db s)" and "authRecord h ident token s = (Inr r, t)"
  shows "ad_id r = ident"
proof -
  let ?db = "dh_others (ah_store h) (sd_k s) (sd_db s)"
  have named: "wellNamed ?db" using assms(1,2) by (simp add: relyHost_def follows_def)
  from assms(3) obtain s1 where "storedAuth (ah_store h) ident s = (Inr (Some r), s1)"
    unfolding authRecord_def by (auto simp: storeError_def elim!: bindA_Inr_E split: option.splits if_splits)
  then obtain row where "byKey ax_id ident (db_auth ?db) = Some row" "rowAuth row = Inr r"
    unfolding storedAuth_def selectD1_def d1_def
    by (auto simp: Let_def bindA_def result_simps split: D1Fault.splits option.splits prod.splits sum.splits)
  with named show ?thesis unfolding wellNamed_def using byKey_Some_D by metis
qed

lemma obeys_start:
  assumes "relyHost self (ah_store h)" and "ident \<noteq> self"
  shows "movesA (obeys self) (beginNative h ident ident databaseId expected)"
proof -
  have started: "movesA (obeys self) (begin_auth h ident ident)"
    unfolding begin_auth_def Let_def storeError_def
    by (intro obeys_intros obeys_encrypted obeys_records [OF assms(1)]) (simp add: assms(2))
  have saved: "movesA (obeys self) (saveAuth (ah_store h) (r \<lparr>ad_registration := x, ad_native := y\<rparr>) expected)" if "ad_id r = ident" for r x y expected
    using that assms by (intro obeys_records) simp_all
  show ?thesis
    unfolding beginNative_def Let_def
    apply (rule respecting.moves_bindA [OF started], rule obeys_prod, rule obeys_prod, rule obeys_bindA_named [OF obeys_authRecord [OF assms(1)]])
    subgoal premises prems using authRecord_named [OF assms(1) prems] by (intro obeys_intros saved)
    done
qed

lemma obeys_session:
  assumes "relyHost self (ah_store h)"
  shows "movesA (obeys self) (completeNative h ident token state response)" "movesA (obeys self) (material h ident)"
    and "movesA (obeys self) (authorize_token h ident token)" "movesA (obeys self) (revoke h ident token)"
    and "movesA (obeys self) (ownerForCleanup h ident token)" "movesA (obeys self) (userIdentity h c)"
proof -
  note intros = obeys_intros obeys_prod obeys_encrypted obeys_records [OF assms] obeys_authRecord [OF assms]
  have claimed: "movesA (obeys self) (claimedNative h ident r native response)" for r native
    unfolding claimedNative_def storeError_def Let_def by (intro intros) simp
  show "movesA (obeys self) (completeNative h ident token state response)"
    unfolding completeNative_def storeError_def by (intro intros claimed)
  have renewed: "movesA (obeys self) (renewedMaterial h i r)" if "ad_phase r = ''active''" for r i
    unfolding renewedMaterial_def storeError_def Let_def using that by (intro intros) simp_all
  have cached: "movesA (obeys self) (cachedMaterial h r v)" for r v
    unfolding cachedMaterial_def by (intro intros)
  have body: "movesA (obeys self) (if ad_phase r \<noteq> ''active'' \<or> \<not> present (ad_principal r) then storeError ''authentication_required'' 401
       else
         bindA (readHost (dh_now (ah_store h))) (\<lambda>now.
         bindA (case ad_cached r of
                  None \<Rightarrow> renewedMaterial h i r
                | Some v \<Rightarrow>
                    if ad_cachedUntil r > now + (if ad_native r = None then 30000 else 0) then cachedMaterial h r v
                    else renewedMaterial h i r) (\<lambda>material.
           retA (authorizationOf r (the (ad_principal r)) material))))" for r i
  proof (cases "ad_phase r = ''active''")
    case True
    show ?thesis unfolding storeError_def by (intro intros renewed [OF True] cached)
  qed (simp add: storeError_def respecting.moves_basic)
  show mat: "movesA (obeys self) (material h i)" for i
    unfolding material_def loadMaterial_def
    by (intro respecting.moves_bindA [OF respecting.moves_basic(3)] respecting.moves_bindA [OF obeys_authRecord [OF assms]] body)
  show "movesA (obeys self) (authorize_token h ident token)" "movesA (obeys self) (revoke h ident token)"
    "movesA (obeys self) (ownerForCleanup h ident token)"
    unfolding authorize_token_def revoke_def ownerForCleanup_def by (intro intros mat)+
  show "movesA (obeys self) (userIdentity h c)"
    unfolding userIdentity_def storeError_def by (intro intros mat) (auto intro!: intros split: json.split list.split)
qed

subsection \<open>Users\<close>

lemma obeys_user:
  assumes "relyHost self st"
  shows "movesA (obeys self) (load st who includeMessages)" "movesA (obeys self) (save st who revision state n fence)"
    and "movesA (obeys self) (requestEnd st who authId ident stopped)" "movesA (obeys self) (touch st who ident)"
    and "movesA (obeys self) (schedule st who ident revision n)" "movesA (obeys self) (historyPage st who c revision cursor backing)"
    and "movesA (obeys self) (claimLease st scope ident)" "movesA (obeys self) (leaseActive st scope ident)"
    and "movesA (obeys self) (releaseLease st lease)" "movesA (obeys self) (due st limit)"
proof -
  note intros = obeys_intros obeys_prod obeys_encrypted obeys_select [OF assms] obeys_quiet [OF assms] respecting.moves_mapA
  have quiet: "movesA (obeys self) (d1 st f)" if "\<And>db x db'. f db = Inr (x, db') \<Longrightarrow> db_auth db' = db_auth db" for f :: "AsDb \<Rightarrow> string + ('x \<times> AsDb)"
    using that by (intro obeys_d1 [OF assms] follows_quiet)
  show "movesA (obeys self) (load st who includeMessages)" unfolding load_def by (intro intros)
  show "movesA (obeys self) (save st who revision state n fence)"
    unfolding save_def encodeMessage_def storeError_def Let_def by (intro intros obeys_d1 [OF assms]) (rule saveBatch_auth)
  show "movesA (obeys self) (requestEnd st who authId ident stopped)"
    unfolding requestEnd_def by (intro intros quiet) (auto simp: requestEndBatch_def Let_def)
  show "movesA (obeys self) (touch st who ident)" "movesA (obeys self) (schedule st who ident revision n)"
    unfolding touch_def schedule_def by (intro intros; simp add: touchStmt_def scheduleStmt_def)+
  show "movesA (obeys self) (historyPage st who c revision cursor backing)"
    unfolding historyPage_def historyFrom_def storeError_def by (intro intros)
  show "movesA (obeys self) (claimLease st scope ident)"
    unfolding claimLease_def by (intro intros quiet) (auto split: prod.splits)
  show "movesA (obeys self) (leaseActive st scope ident)" "movesA (obeys self) (due st limit)"
    unfolding leaseActive_def due_def by (intro intros)+
  show "movesA (obeys self) (releaseLease st lease)" unfolding releaseLease_def by (intro intros) simp
qed

lemma obeys_object:
  assumes "relyHost self st"
  shows "movesA (obeys self) (saveObject st u)" "movesA (obeys self) (endOwnedObject st authId conversationId u)"
    and "movesA (obeys self) (initialize st who includeMessages fence)"
proof -
  note intros = obeys_intros obeys_prod obeys_user [OF assms]
  show saved: "movesA (obeys self) (saveObject st u)" for u
    unfolding saveObject_def storeError_def Let_def by (intro intros)
  show ended: "movesA (obeys self) (endOwnedObject st authId conversationId u)" for authId conversationId u
    unfolding endOwnedObject_def Let_def by (intro intros saved)
  show "movesA (obeys self) (initialize st who includeMessages fence)"
    unfolding initialize_def Let_def by (intro intros ended)
qed

lemma obeys_reading:
  assumes "relyHost self (storeOf h)"
  shows "movesA (obeys self) (reading h c f)"
  unfolding reading_def by (intro obeys_intros obeys_session assms [unfolded storeOf_def])

lemma obeys_handle:
  assumes "relyHost self (storeOf h)"
  shows "movesA (obeys self) (objectHandle h u request)"
proof -
  note intros = obeys_intros obeys_prod obeys_user [OF assms] obeys_object [OF assms] obeys_reading [OF assms]
  have start: "movesA (obeys self) (startConversation h v request who authId)" for v who authId
    unfolding startConversation_def storeError_def Let_def by (intro intros)
  have page: "movesA (obeys self) (conversationReply h v c request)" for v c
    unfolding conversationReply_def Let_def by (intro intros) (auto intro!: intros split: json.split)
  have history: "movesA (obeys self) (historyReply h v c request)" for v c
    unfolding historyReply_def storeError_def Let_def by (intro intros)
  have ask: "movesA (obeys self) (askQuestion h v c request)" for v c
    unfolding askQuestion_def Let_def
    by (intro respecting.moves_bindA) (auto intro!: intros split: prod.split sum.split bool.split)
  have citation: "movesA (obeys self) (citationReply h v c request)" for v c
    unfolding citationReply_def storeError_def by (intro intros)
  have conversation: "movesA (obeys self) (conversationRoute h v c request)" for v c
    unfolding conversationRoute_def openControl_def storeError_def by (intro intros page history ask citation)
  have owned: "movesA (obeys self) (ownedRoute h v c request authId)" for v c authId
    unfolding ownedRoute_def storeError_def Let_def by (intro intros conversation)
  show "movesA (obeys self) (objectHandle h u request)"
    unfolding objectHandle_def storeError_def Let_def by (intro intros start owned)
qed

subsection \<open>The worker\<close>

lemma obeys_route:
  assumes "relyHost self (storeOf_host w)"
  shows "movesA (obeys self) (route w request receivedAt)"
proof -
  have auth: "relyHost self (ah_store (authOf_host w))" using assms by (simp add: storeOf_host_def)
  have user: "relyHost self (storeOf (wh_user w))" using auth by (simp add: storeOf_def authOf_host_def)
  note intros = obeys_intros obeys_prod obeys_session [OF auth] obeys_user [OF assms] obeys_object [OF assms]
  have fresh: "\<And>s ident t. readHost (dh_uuid (storeOf_host w)) s = (Inr ident, t) \<Longrightarrow> ident \<noteq> self"
    using assms by (auto simp: readHost_def relyHost_def)
  have opened: "movesA (obeys self) (bindA (readHost (dh_uuid (storeOf_host w))) (\<lambda>ident.
        bindA (beginNative (authOf_host w) ident ident databaseId expected) (\<lambda>started. retA (json_reply (startJson ident started) 200))))"
    for databaseId expected
    by (rule respecting.moves_bindA_dep [OF obeys_host]) (intro respecting.moves_bindA obeys_start [OF auth] respecting.moves_basic fresh)
  have start: "movesA (obeys self) (startRoute w request)"
    unfolding startRoute_def Let_def storeError_def
    by (intro opened respecting.moves_basic respecting.moves_if obeys_prod respecting.moves_bindA [OF obeys_host]
        respecting.moves_bindA [OF respecting.moves_basic(3)])
  have ended: "movesA (obeys self) (endConversation w who authId conversationId)" for who authId conversationId
    unfolding endConversation_def by (intro intros)
  have finish: "movesA (obeys self) (completeRoute w request ident token)" for ident token
    unfolding completeRoute_def by (intro intros)
  have logout: "movesA (obeys self) (logoutRoute w ident token receivedAt)" for ident token
    unfolding logoutRoute_def logoutConversation_def Let_def by (intro intros ended)
  have stop: "movesA (obeys self) (endRoute w request ident token receivedAt)" for ident token
    unfolding endRoute_def storeError_def by (intro intros ended)
  have fetch: "movesA (obeys self) (objectFetch (wh_user w) u inner)" for u inner
    unfolding objectFetch_def by (intro obeys_intros obeys_prod obeys_handle [OF user])
  have forward: "movesA (obeys self) (forwardRoute w request a receivedAt)" for a
    unfolding forwardRoute_def connectionFetch_def Let_def by (intro intros fetch)
  have session: "movesA (obeys self) (sessionRoute w request ident token receivedAt)" for ident token
    unfolding sessionRoute_def authorizedRoute_def storeError_def Let_def
    by (intro obeys_intros obeys_session [OF auth] finish logout stop forward)
  show ?thesis
    unfolding route_def storeError_def Let_def by (intro obeys_intros obeys_prod start session)
qed

lemma obeys_sweep:
  assumes rely: "relyHost self (storeOf h)" and pump: "\<And>u. movesA (obeys self) (pump u)"
  shows "movesA (obeys self) (sweep h pump)"
proof -
  note intros = obeys_intros obeys_prod obeys_user [OF rely] obeys_object [OF rely] obeys_reading [OF rely] respecting.moves_mapA
  have denied: "movesA (obeys self) (tickDenied (storeOf h) c u e)" for c u e
    unfolding tickDenied_def by (intro intros)
  have checks: "movesA (obeys self) (tickChecks h c u)" for c u
    unfolding tickChecks_def Let_def by (intro intros denied)
  have rest: "movesA (obeys self) (tickRest (storeOf h) u)" for u
    unfolding tickRest_def Let_def by (intro intros)
  have ticked: "movesA (obeys self) (tick h pump recovery u)" for recovery u
    unfolding tick_def Let_def by (intro intros checks rest pump)
  have retried: "movesA (obeys self) (runD1 (storeOf h) (retryStmt lease n limit now))" for lease n limit now
    by (rule obeys_quiet [OF rely]) (simp add: retryStmt_def)
  have recovered: "movesA (obeys self) (recoverUser h pump who)" for who
    unfolding recoverUser_def Let_def by (intro intros ticked retried)
  show ?thesis
    unfolding sweep_def allA_def Let_def by (intro intros recovered obeys_run [OF rely] follows_expire)
qed



end
