(* ===== verification/Spec2Isabelle.thy ===== *)
theory Spec2Isabelle
  imports Payment_System Mcp_Auth_Properties Generator_Leases Generator_Delays
    Assistant_Leases Assistant_Grounding Assistant_Submissions Assistant_Selection
    Assistant_History Assistant_Sessions Assistant_Guarantee
begin

text \<open>
  \<^bold>\<open>Verification of the Kinic Wiki workers.\<close>

  Kinic Wiki is a wiki whose content lives in an Internet Computer canister (the VFS). Around it run
  Cloudflare Workers written in TypeScript: the payment worker (\<^verbatim>\<open>workers/payment\<close>) turns App Store purchases
  into database cycles, the MCP worker (\<^verbatim>\<open>workers/wiki-mcp\<close>) authorizes clients of the wiki with OAuth and
  Internet Identity delegations (\<^verbatim>\<open>packages/ii-server\<close>), the generator worker (\<^verbatim>\<open>workers/wiki-generator\<close>)
  captures web pages as sources and generates wiki pages from them, the assistant worker
  (\<^verbatim>\<open>workers/wiki-assistant\<close>) answers questions about a database with a language model. This library models those workers as
  HOL functions and proves what makes them correct. All source paths below are relative to \<^verbatim>\<open>src/\<close>.

  \<^bold>\<open>Conventions.\<close> A function that can throw is a function into \<open>'e + 'a\<close>; an \<open>async\<close> function with
  effects is an action \<open>'s \<Rightarrow> ('e + 'a) \<times> 's\<close> whose state survives the throw (\<open>Js_Base\<close>). Strings are
  lists of code units below 256 (\<open>Js_String\<close>), bytes are \<open>8 word\<close>, JSON texts are parsed and printed by
  the functions of \<open>Js_Json\<close>, SQL tables are lists of rows (\<open>Sql_Table\<close>). The platform (WebCrypto, the
  network, D1, the canister, clocks and random numbers) is a record of parameters indexed by the number of
  the call, so that every answer, failure and interleaving of other requests is a value of the
  parameter; theorems hold for all of them unless a hypothesis says otherwise. A loop that need not end has
  fuel, and a theorem says how much is enough.

  \<^bold>\<open>Base theories.\<close> \<open>Js_Base\<close> (results, actions and the locale \<open>preorder_moves\<close> for relations every
  action respects), \<open>Js_String\<close>, \<open>Js_Bytes\<close> (base64, UTF-8), \<open>Js_Base64Url\<close>, \<open>Js_Json\<close> (\<open>JSON.parse\<close> and
  \<open>JSON.stringify\<close>, with their round trip), \<open>Sql_Table\<close> (keyed tables, the locale \<open>row_update\<close>) and
  \<open>State_System\<close> (the locale \<open>guarded_system\<close>: an invariant and a guarantee along any interleaving) and
  \<open>Action_Logic\<close> (assertions on actions with an invariant and a frame rule, the locale \<open>action_logic\<close>).

  \<^bold>\<open>Payment worker.\<close> \<open>Payment_Env\<close> (\<^verbatim>\<open>env.ts\<close>, \<^verbatim>\<open>product-catalog.ts\<close>), \<open>Payment_Jws\<close> (\<^verbatim>\<open>jws.ts\<close>),
  \<open>Payment_Der\<close> and \<open>Payment_Identity\<close> (the DER readers of \<^verbatim>\<open>app-store-notification.ts\<close> and
  \<^verbatim>\<open>identity-pem.ts\<close>), \<open>Payment_AppStore\<close> (\<^verbatim>\<open>app-store.ts\<close>), \<open>Payment_Notification\<close>
  (\<^verbatim>\<open>app-store-notification.ts\<close>), \<open>Payment_Fulfillment\<close> (the D1 statements of \<^verbatim>\<open>index.ts\<close>),
  \<open>Payment_Worker\<close> (its handlers and \<^verbatim>\<open>vfs.ts\<close>) and \<open>Payment_System\<close>, where a step relation on the database
  gives the theorems: grants match their purchase intent, an activation is recorded and never granted
  twice, leases exclude, the invariant is kept, fulfilled rows are final, an undisturbed activation
  succeeds, and the router answers every request. The DER loop that need not end has fuel; the theorem
  \<open>identityFromPem_diverges\<close> shows an input on which no fuel is enough.

  \<^bold>\<open>Authorization for MCP.\<close> \<open>Ii_Crypto\<close> and \<open>Ii_Identity\<close> (\<^verbatim>\<open>packages/ii-server\<close>), \<open>Mcp_Auth_State\<close>
  (\<^verbatim>\<open>auth/state.ts\<close>, \<^verbatim>\<open>auth/session-policy.ts\<close>, \<^verbatim>\<open>auth/routing.ts\<close>: the durable object), \<open>Mcp_Auth_System\<close> (its
  methods as steps, with the invariant of the stored session) and \<open>Mcp_Auth_Properties\<close>: codes are used once,
  refresh reuse revokes, tokens and sessions are bounded in time, validation is sound, delegations are minted
  for the configured origin, the alarm collects, encrypted values round trip.

  \<^bold>\<open>Generator worker.\<close> \<open>Generator_Base\<close> (\<^verbatim>\<open>types.ts\<close>, \<^verbatim>\<open>config.ts\<close>, \<^verbatim>\<open>source-path.ts\<close>,
  \<^verbatim>\<open>output-language.ts\<close>), \<open>Generator_Jobs\<close> and \<open>Generator_Leases\<close> (\<^verbatim>\<open>jobs.ts\<close>: the job table, its leases and
  checkpoints), \<open>Generator_Draft\<close> (\<^verbatim>\<open>openai.ts\<close>, \<^verbatim>\<open>wiki-skill.ts\<close>, \<^verbatim>\<open>render.ts\<close>), \<open>Generator_Frontmatter\<close>
  (\<^verbatim>\<open>frontmatter.ts\<close>), \<open>Generator_Fetch\<close> (\<^verbatim>\<open>url-fetch.ts\<close>), \<open>Generator_Stem\<close>
  (\<^verbatim>\<open>packages/source-contracts/index.js\<close>), \<open>Generator_Capture\<close> (\<^verbatim>\<open>source-capture.ts\<close>),
  \<open>Generator_Capture_Facts\<close>, \<open>Jev_Reranker\<close> (\<^verbatim>\<open>packages/jev-reranker/index.ts\<close>), \<open>Generator_Processing\<close>
  (\<^verbatim>\<open>processing.ts\<close>), \<open>Generator_Worker\<close> (\<^verbatim>\<open>index.ts\<close>, \<^verbatim>\<open>auth.ts\<close>), \<open>Generator_Effects\<close> (the locales
  \<open>source_effects\<close> and \<open>worker_effects\<close>: from the writes of a delivery to the whole handler), \<open>Generator_Facts\<close>
  and \<open>Generator_Delays\<close>. A generation is paid for once per version of a source, a captured page is
  fetched only from allowed hosts, within bounds and with a session, every write is conditional on what was
  read, and the capture handler returns once the conflicts end: the fuel is the number of rounds. A delivery
  pays for at most one completion and one rerank, and only after its cost check; it overwrites only pages of
  its own source; the consumer settles every message of a batch exactly once, with delays between a second
  and five minutes; the reranker returns the most relevant candidates.

  \<^bold>\<open>Assistant worker.\<close> \<open>Assistant_Leases\<close> (\<^verbatim>\<open>leases.ts\<close>: claims, renewals and releases under any clocks),
  \<open>Assistant_Contracts\<close> (\<^verbatim>\<open>contracts.ts\<close>), \<open>Deepseek_Client\<close> (\<^verbatim>\<open>packages/deepseek-client/index.js\<close>),
  \<open>Assistant_State\<close> (the state of a turn, its services and its log), \<open>Assistant_Reader\<close> (\<^verbatim>\<open>kinic.ts\<close>: the tools),
  \<open>Assistant_Turn\<close> (\<^verbatim>\<open>deepseek.ts\<close>: the loop with the model) and \<open>Assistant_Text\<close> (\<^verbatim>\<open>routing.ts\<close>,
  \<^verbatim>\<open>conversation-history.ts\<close>, \<^verbatim>\<open>turn-input.ts\<close>, \<^verbatim>\<open>prefetch-search.ts\<close>, \<^verbatim>\<open>seed-text-context.ts\<close>, \<^verbatim>\<open>text-turn.ts\<close>). In
  \<open>Assistant_Evidence\<close> every tool keeps the invariant that evidence is an exact excerpt of a node read in scope
  and within the budgets; the locale \<open>reading_options\<close> of \<open>Assistant_Grounding\<close> carries it through the loop, so the
  citations of an answer are grounded and all reads stay in scope. In \<open>Assistant_Submissions\<close> the locales
  \<open>quiet_options\<close> and \<open>planning_options\<close> give that every submission is checkpointed before it is sent and never
  repeated, and that the loop ends: the fuel counts iterations, and 28 are enough for thirteen rounds and one
  planned read. \<open>Assistant_Selection\<close> shows that a route needs confidence and a margin, that the history is
  bounded, and that the representatives of an overview are fair to its folders. The walk of an inventory ends by
  a lexicographic measure, without fuel.

  The object of a user is modelled from its tables up. \<open>Assistant_Persisted\<close> and \<open>Assistant_Conversation\<close> (\<^verbatim>\<open>state.ts\<close>) hold
  the persisted types with their JSON forms, an interpretation of the locale \<open>json_form\<close> for each.
  \<open>Assistant_Database\<close> has one function per SQL statement on the tables of \<^verbatim>\<open>migrations/0001_assistant.sql\<close>,
  \<open>Assistant_Commits\<close> the compare and swap of a save along any interleaving, \<open>Assistant_Store\<close> (\<^verbatim>\<open>store.ts\<close>) the
  functions around the statements, with D1 failing before or after one, and \<open>Assistant_Saves\<close> that a saved user loads as
  the state that was saved. \<open>Assistant_History\<close> (\<^verbatim>\<open>history-page.ts\<close>) shows that the bounded pages, from memory or from the
  tables, are the same and lose nothing. \<open>Assistant_User\<close> (\<^verbatim>\<open>user.ts\<close>) has every stretch of the handlers that changes the
  state of a user, and \<open>Assistant_Sessions\<close>, by the locale \<open>user_update\<close>, that along any interleaving of them committed
  states are well formed and answers are final.

  The sign-in is \<open>Assistant_Delegation\<close> (\<^verbatim>\<open>native-delegation.ts\<close>: the schema and the checks on a chain of delegations),
  \<open>Assistant_Auth\<close> (\<^verbatim>\<open>auth.ts\<close> and the statements it uses), \<open>Assistant_SignIn\<close> (its executions as steps on the table, with
  the interpretation \<open>signing\<close> of \<open>guarded_system\<close>: records keep their key and only move forward) and
  \<open>Assistant_SignIn_Facts\<close>: a sign-in is claimed once, a deleted record stays deleted, a completed sign-in has an
  acceptable delegation of the expected identity to the key of its record, and an undisturbed one completes.

  \<open>Assistant_Http\<close> (\<^verbatim>\<open>http.ts\<close>, \<^verbatim>\<open>failure.ts\<close>) reads requests and turns exceptions into replies and log categories.
  \<open>Assistant_Object\<close> composes the methods of \<open>AssistantUser\<close> (\<^verbatim>\<open>user.ts\<close>: \<open>initialize\<close>, \<open>fetch\<close>, \<open>tick\<close>) from loads, stretches
  and saves, and the sweep of \<^verbatim>\<open>reaper.ts\<close> from them; the pump of a turn is its argument. \<open>Assistant_Routes\<close> is the router
  (\<^verbatim>\<open>index.ts\<close>, \<^verbatim>\<open>connection.ts\<close>). \<open>Assistant_Failures\<close> follows the exceptions of every call, for the theorems of
  \<open>Assistant_Routes_Facts\<close>: every request is answered, by fixed codes; headers of a client cannot name a user; a
  conversation is reached by its session only. \<open>Assistant_Guarantee\<close> discharges the assumption of the sign-in
  theorems on other executions: every request and every sweep of the worker is a sequence of their steps.

  \<^bold>\<open>Not modelled.\<close> Of the assistant worker: the messages and timers of an open connection in \<^verbatim>\<open>user.ts\<close>, which
  schedule the modelled stretches. Of the MCP worker: the OAuth routes and pages around the authorization object, the tools and their VFS client, which
  format records of the canister. The VFS canister and its command line are Rust, the mobile application is
  Swift, the plugins are Python; the browser application, the skill registry and the clipper extension are user
  interfaces over the canister and the workers. Generated routes, Candid declarations, configuration, scripts,
  test code and vendored code carry no logic of these workers. Durations, log lines and metrics are left out of
  the models.
\<close>

end
